(* ===== verification/GoBase.thy ===== *)
theory GoBase
  imports Complex_Main "HOL-Library.List_Lexorder" "HOL-Library.Char_ord" "HOL-Library.AList"
    "HOL-Library.Multiset" "HOL-Library.Sublist"
begin

text \<open>
  The prelude: what the gateway uses of the Go language and its standard library.
  A Go string is its byte sequence, so a \<open>string\<close> here is a list of 8-bit characters and
  \<open>length\<close> is Go's \<open>len\<close>. \<open>strings.TrimSpace\<close> and \<open>strings.Fields\<close> recognise the UTF-8
  encodings of all the runes for which \<open>unicode.IsSpace\<close> holds. \<open>strings.ToLower\<close> and
  \<open>strings.EqualFold\<close> fold the letters A to Z and leave every byte from 0x80 on alone, which is
  exact for ASCII text and for caseless scripts (the Chinese labels of the code base); case
  pairs outside ASCII are not modelled. A Go \<open>int\<close> is an \<open>int\<close>, with \<open>wrap64\<close> written where the
  code can overflow. A Go \<open>map\<close> is an association list with distinct keys: lookups are \<open>map_of\<close>,
  assignments \<open>AList.update\<close>, and the list order stands for one iteration order of the map.
\<close>

named_theorems gostr \<open>rewrite rules for Go strings\<close>

type_synonym gostring = string
type_synonym ('k, 'v) gomap = "('k \<times> 'v) list"

subsection \<open>Integers\<close>

definition wrap64 :: "int \<Rightarrow> int" where
  "wrap64 x = (x + 2 ^ 63) mod 2 ^ 64 - 2 ^ 63"

definition in_int64 :: "int \<Rightarrow> bool" where
  "in_int64 x \<longleftrightarrow> - (2 ^ 63) \<le> x \<and> x < 2 ^ 63"

lemma wrap64_id [simp]: "in_int64 x \<Longrightarrow> wrap64 x = x"
  by (simp add: wrap64_def in_int64_def)

lemma wrap64_range: "in_int64 (wrap64 x)"
proof -
  have "0 \<le> (x + 2 ^ 63) mod 2 ^ 64 \<and> (x + 2 ^ 63) mod 2 ^ 64 < (2::int) ^ 64"
    by simp
  then show ?thesis
    by (simp add: wrap64_def in_int64_def)
qed

definition go_div :: "int \<Rightarrow> int \<Rightarrow> int" where
  \<comment> \<open>Go's integer division truncates toward zero\<close>
  "go_div a b = sgn a * sgn b * (\<bar>a\<bar> div \<bar>b\<bar>)"

definition go_mod :: "int \<Rightarrow> int \<Rightarrow> int" where
  "go_mod a b = a - b * go_div a b"

lemma go_div_nonneg [simp]: "0 \<le> a \<Longrightarrow> 0 < b \<Longrightarrow> go_div a b = a div b"
  by (cases "a = 0") (auto simp: go_div_def sgn_if)

lemma go_mod_nonneg [simp]: "0 \<le> a \<Longrightarrow> 0 < b \<Longrightarrow> go_mod a b = a mod b"
  by (simp add: go_mod_def minus_mult_div_eq_mod)

lemma int_le_div_iff:
  assumes "0 < (k :: int)" shows "m \<le> n div k \<longleftrightarrow> m * k \<le> n"
proof
  assume "m \<le> n div k"
  then have "m * k \<le> (n div k) * k" by (rule mult_right_mono) (use assms in simp)
  also have "\<dots> = n - n mod k" by (simp add: minus_mod_eq_div_mult)
  also have "\<dots> \<le> n" using assms by simp
  finally show "m * k \<le> n" .
next
  assume "m * k \<le> n"
  then have "(m * k) div k \<le> n div k" by (rule zdiv_mono1) (rule assms)
  then show "m \<le> n div k" using assms by simp
qed

subsection \<open>Trimming white space\<close>

definition go_spaces :: "string list" where
  "go_spaces =
    [[CHR 0x20], [CHR 0x09], [CHR 0x0A], [CHR 0x0B], [CHR 0x0C], [CHR 0x0D],
     [CHR 0xC2, CHR 0x85], [CHR 0xC2, CHR 0xA0], [CHR 0xE1, CHR 0x9A, CHR 0x80],
     [CHR 0xE2, CHR 0x80, CHR 0x80], [CHR 0xE2, CHR 0x80, CHR 0x81],
     [CHR 0xE2, CHR 0x80, CHR 0x82], [CHR 0xE2, CHR 0x80, CHR 0x83],
     [CHR 0xE2, CHR 0x80, CHR 0x84], [CHR 0xE2, CHR 0x80, CHR 0x85],
     [CHR 0xE2, CHR 0x80, CHR 0x86], [CHR 0xE2, CHR 0x80, CHR 0x87],
     [CHR 0xE2, CHR 0x80, CHR 0x88], [CHR 0xE2, CHR 0x80, CHR 0x89],
     [CHR 0xE2, CHR 0x80, CHR 0x8A], [CHR 0xE2, CHR 0x80, CHR 0xA8],
     [CHR 0xE2, CHR 0x80, CHR 0xA9], [CHR 0xE2, CHR 0x80, CHR 0xAF],
     [CHR 0xE2, CHR 0x81, CHR 0x9F], [CHR 0xE3, CHR 0x80, CHR 0x80]]"

text \<open>The length of the first of the words \<open>ps\<close> that \<open>s\<close> starts with, 0 when there is none.\<close>

definition lead_len :: "string list \<Rightarrow> string \<Rightarrow> nat" where
  "lead_len ps s = (case find (\<lambda>p. prefix p s) ps of None \<Rightarrow> 0 | Some p \<Rightarrow> length p)"

lemma lead_len_le: "lead_len ps s \<le> length s"
  by (auto simp: lead_len_def find_Some_iff dest!: prefix_length_le split: option.splits)

lemma lead_len_0: "[] \<notin> set ps \<Longrightarrow> lead_len ps s = 0 \<longleftrightarrow> (\<forall>p \<in> set ps. \<not> prefix p s)"
  by (auto simp: lead_len_def find_None_iff find_Some_iff split: option.splits)
     (metis length_0_conv nth_mem)

function strip_lead :: "string list \<Rightarrow> string \<Rightarrow> string" where
  "strip_lead ps s =
    (let n = lead_len ps s in if n = 0 then s else strip_lead ps (drop n s))"
  by pat_completeness auto
termination
proof (relation "measure (\<lambda>(ps, s). length s)", goal_cases)
  case (2 ps s n)
  then show ?case using lead_len_le [of ps s] by simp
qed simp

declare strip_lead.simps [simp del]

definition TrimLeftSpace :: "string \<Rightarrow> string" where
  "TrimLeftSpace s = strip_lead go_spaces s"

definition TrimRightSpace :: "string \<Rightarrow> string" where
  "TrimRightSpace s = rev (strip_lead (map rev go_spaces) (rev s))"

definition TrimSpace :: "string \<Rightarrow> string" where
  "TrimSpace s = TrimRightSpace (TrimLeftSpace s)"

lemma strip_lead_suffix: "suffix (strip_lead ps s) s"
proof (induction ps s rule: strip_lead.induct)
  case (1 ps s)
  show ?case
  proof (cases "lead_len ps s = 0")
    case True
    then show ?thesis by (subst strip_lead.simps) simp
  next
    case False
    then have "suffix (strip_lead ps (drop (lead_len ps s) s)) (drop (lead_len ps s) s)"
      using 1 by simp
    then have "suffix (strip_lead ps (drop (lead_len ps s) s)) s"
      using suffix_drop suffix_order.trans by blast
    with False show ?thesis by (subst strip_lead.simps) (simp add: Let_def)
  qed
qed

lemma strip_lead_done: "lead_len ps (strip_lead ps s) = 0"
proof (induction ps s rule: strip_lead.induct)
  case (1 ps s)
  then show ?case by (subst strip_lead.simps) (simp add: Let_def)
qed

lemma strip_lead_id: "lead_len ps s = 0 \<Longrightarrow> strip_lead ps s = s"
  by (subst strip_lead.simps) simp

lemma strip_lead_idem [simp]: "strip_lead ps (strip_lead ps s) = strip_lead ps s"
  by (rule strip_lead_id) (rule strip_lead_done)

lemma TrimRightSpace_prefix: "prefix (TrimRightSpace s) s"
  unfolding TrimRightSpace_def suffix_to_prefix [symmetric]
  by (metis rev_rev_ident strip_lead_suffix suffix_to_prefix)

lemma go_spaces_nonempty: "[] \<notin> set go_spaces"
  by (simp add: go_spaces_def)

lemma lead_len_prefix:
  assumes "prefix t s" and "lead_len go_spaces s = 0"
  shows "lead_len go_spaces t = 0"
  using assms prefix_order.trans unfolding lead_len_0 [OF go_spaces_nonempty] by blast

lemma TrimSpace_no_lead: "lead_len go_spaces (TrimSpace s) = 0"
  unfolding TrimSpace_def TrimLeftSpace_def
  by (rule lead_len_prefix [OF TrimRightSpace_prefix strip_lead_done])

lemma TrimSpace_idem [simp, gostr]: "TrimSpace (TrimSpace s) = TrimSpace s"
proof -
  have "TrimLeftSpace (TrimSpace s) = TrimSpace s"
    unfolding TrimLeftSpace_def by (rule strip_lead_id) (rule TrimSpace_no_lead)
  then show ?thesis
    by (simp add: TrimSpace_def TrimRightSpace_def)
qed

lemma TrimSpace_sublist: "sublist (TrimSpace s) s"
proof -
  have "suffix (TrimLeftSpace s) s"
    unfolding TrimLeftSpace_def by (rule strip_lead_suffix)
  moreover have "prefix (TrimSpace s) (TrimLeftSpace s)"
    unfolding TrimSpace_def by (rule TrimRightSpace_prefix)
  ultimately show ?thesis
    using prefix_imp_sublist suffix_imp_sublist sublist_order.order.trans by blast
qed

lemma set_TrimSpace: "set (TrimSpace s) \<subseteq> set s"
  by (rule set_mono_sublist) (rule TrimSpace_sublist)

lemma length_TrimSpace: "length (TrimSpace s) \<le> length s"
  by (rule sublist_length_le) (rule TrimSpace_sublist)

lemma TrimSpace_Nil [simp, gostr]: "TrimSpace [] = []"
  using length_TrimSpace [of "[]"] by simp

text \<open>A character that occurs in no white space survives trimming.\<close>

lemma lead_len_take: "lead_len ps s \<noteq> 0 \<Longrightarrow> \<exists>p \<in> set ps. take (lead_len ps s) s = p"
proof -
  assume "lead_len ps s \<noteq> 0"
  then obtain p where p: "find (\<lambda>p. prefix p s) ps = Some p" "lead_len ps s = length p"
    by (auto simp: lead_len_def split: option.splits)
  then have "p \<in> set ps" "prefix p s" by (auto simp: find_Some_iff)
  then show ?thesis using p(2) by (auto simp: prefix_def)
qed

lemma strip_lead_keeps:
  "c \<in> set s \<Longrightarrow> \<forall>p \<in> set ps. c \<notin> set p \<Longrightarrow> c \<in> set (strip_lead ps s)"
proof (induction ps s rule: strip_lead.induct)
  case (1 ps s)
  show ?case
  proof (cases "lead_len ps s = 0")
    case True
    with 1 show ?thesis by (simp add: strip_lead_id)
  next
    case False
    have "c \<notin> set (take (lead_len ps s) s)" using lead_len_take [OF False] "1.prems"(2) by auto
    then have "c \<in> set (drop (lead_len ps s) s)"
      using "1.prems"(1) by (metis Un_iff append_take_drop_id set_append)
    then show ?thesis using "1.IH" False "1.prems"(2) by (subst strip_lead.simps) (simp add: Let_def)
  qed
qed

lemma TrimSpace_keeps: "c \<in> set s \<Longrightarrow> \<forall>p \<in> set go_spaces. c \<notin> set p \<Longrightarrow> c \<in> set (TrimSpace s)"
  unfolding TrimSpace_def TrimRightSpace_def TrimLeftSpace_def
  by (simp add: strip_lead_keeps)

subsection \<open>Case folding and searching\<close>

definition lower_char :: "char \<Rightarrow> char" where
  "lower_char c = (if CHR ''A'' \<le> c \<and> c \<le> CHR ''Z'' then char_of (of_char c + (32::nat)) else c)"

definition ToLower :: "string \<Rightarrow> string" where
  "ToLower s = map lower_char s"

definition EqualFold :: "string \<Rightarrow> string \<Rightarrow> bool" where
  "EqualFold s t \<longleftrightarrow> ToLower s = ToLower t"

lemma lower_char_idem [simp]: "lower_char (lower_char c) = lower_char c"
proof (cases "CHR ''A'' \<le> c \<and> c \<le> CHR ''Z''")
  case True
  define n where "n = (of_char c :: nat)"
  have n: "65 \<le> n" "n \<le> 90"
    using True by (auto simp: n_def less_eq_char_def)
  then have "of_char (char_of (n + 32) :: char) = n + 32"
    by simp
  with n have "\<not> (char_of (n + 32) :: char) \<le> CHR ''Z''"
    by (simp add: less_eq_char_def)
  with True show ?thesis by (simp add: lower_char_def n_def)
next
  case False
  then show ?thesis by (auto simp: lower_char_def)
qed

lemma ToLower_simps [simp, gostr]:
  "ToLower [] = []" "ToLower (ToLower s) = ToLower s" "length (ToLower s) = length s"
  "ToLower (s @ t) = ToLower s @ ToLower t" "ToLower s = [] \<longleftrightarrow> s = []"
  by (simp_all add: ToLower_def)

lemma EqualFold_refl [simp]: "EqualFold s s"
  by (simp add: EqualFold_def)

lemma EqualFold_lower [simp]: "EqualFold (ToLower s) t = EqualFold s t"
  by (simp add: EqualFold_def)

definition HasPrefix :: "string \<Rightarrow> string \<Rightarrow> bool" where
  "HasPrefix s p \<longleftrightarrow> prefix p s"

definition HasSuffix :: "string \<Rightarrow> string \<Rightarrow> bool" where
  "HasSuffix s p \<longleftrightarrow> prefix (rev p) (rev s)"

definition TrimPrefix :: "string \<Rightarrow> string \<Rightarrow> string" where
  "TrimPrefix s p = (if HasPrefix s p then drop (length p) s else s)"

definition TrimSuffix :: "string \<Rightarrow> string \<Rightarrow> string" where
  "TrimSuffix s p = (if HasSuffix s p then take (length s - length p) s else s)"

fun StrIndex :: "string \<Rightarrow> string \<Rightarrow> nat option" where
  \<comment> \<open>\<open>strings.Index\<close>; \<open>None\<close> is Go's -1\<close>
  "StrIndex [] p = (if p = [] then Some 0 else None)"
| "StrIndex (c # s) p = (if prefix p (c # s) then Some 0 else map_option Suc (StrIndex s p))"

definition StrContains :: "string \<Rightarrow> string \<Rightarrow> bool" where
  "StrContains s p \<longleftrightarrow> StrIndex s p \<noteq> None"

fun last_index_char :: "string \<Rightarrow> char \<Rightarrow> nat option" where
  \<comment> \<open>\<open>strings.LastIndex\<close> of a one-byte needle\<close>
  "last_index_char [] c = None"
| "last_index_char (d # s) c =
    (case last_index_char s c of Some i \<Rightarrow> Some (Suc i) | None \<Rightarrow> if d = c then Some 0 else None)"

lemma StrIndex_less: "StrIndex s p = Some i \<Longrightarrow> i + length p \<le> length s"
  by (induction s p arbitrary: i rule: StrIndex.induct)
     (auto split: if_splits dest: prefix_length_le)

lemma StrContains_sublist: "StrContains s p \<longleftrightarrow> sublist p s"
  unfolding StrContains_def
  by (induction s p rule: StrIndex.induct) (auto simp: sublist_Cons_right)

lemma StrIndex_char: "StrIndex s [c] = None \<longleftrightarrow> c \<notin> set s"
  by (induction s) auto

lemma StrIndex_char_take: "StrIndex s [c] = Some i \<Longrightarrow> c \<notin> set (take i s)"
proof (induction s arbitrary: i)
  case (Cons d s)
  then show ?case by (cases "d = c") auto
qed simp

lemma TrimPrefix_suffix: "suffix (TrimPrefix s p) s"
  by (simp add: TrimPrefix_def suffix_drop)

lemma TrimSuffix_prefix: "prefix (TrimSuffix s p) s"
  by (simp add: TrimSuffix_def take_is_prefix)

lemma set_TrimSuffix: "set (TrimSuffix s p) \<subseteq> set s"
  by (simp add: TrimSuffix_def set_take_subset)

subsection \<open>Splitting, joining and replacing\<close>

fun Split1 :: "char \<Rightarrow> string \<Rightarrow> string list" where
  \<comment> \<open>\<open>strings.Split\<close> with a one-byte separator\<close>
  "Split1 c [] = [[]]"
| "Split1 c (d # s) =
    (if d = c then [] # Split1 c s
     else case Split1 c s of [] \<Rightarrow> [[d]] | w # ws \<Rightarrow> (d # w) # ws)"

fun Join :: "string list \<Rightarrow> string \<Rightarrow> string" where
  "Join [] sep = []"
| "Join [w] sep = w"
| "Join (w # v # ws) sep = w @ sep @ Join (v # ws) sep"

definition ReplaceChar :: "char \<Rightarrow> string \<Rightarrow> string \<Rightarrow> string" where
  \<comment> \<open>\<open>strings.ReplaceAll\<close> of a one-byte needle\<close>
  "ReplaceChar c t s = concat (map (\<lambda>d. if d = c then t else [d]) s)"

function ReplaceAll :: "string \<Rightarrow> string \<Rightarrow> string \<Rightarrow> string" where
  \<comment> \<open>\<open>strings.ReplaceAll s old new\<close>, for a non-empty \<open>old\<close>\<close>
  "ReplaceAll s old new =
    (if s = [] \<or> old = [] then s
     else if prefix old s then new @ ReplaceAll (drop (length old) s) old new
     else hd s # ReplaceAll (tl s) old new)"
  by pat_completeness auto
termination
  by (relation "measure (\<lambda>(s, old, new). length s)") auto

declare ReplaceAll.simps [simp del]

fun word_len :: "string \<Rightarrow> nat" where
  "word_len [] = 0"
| "word_len (c # s) = (if lead_len go_spaces (c # s) = 0 then Suc (word_len s) else 0)"

function Fields :: "string \<Rightarrow> string list" where
  \<comment> \<open>\<open>strings.Fields\<close>: the maximal runs without white space\<close>
  "Fields s =
    (let t = TrimLeftSpace s
     in if t = [] then [] else take (word_len t) t # Fields (drop (word_len t) t))"
  by pat_completeness auto
termination
proof (relation "measure length", goal_cases)
  case (2 s t)
  have l: "length t \<le> length s" "lead_len go_spaces t = 0"
    unfolding 2(1) TrimLeftSpace_def
    by (rule suffix_length_le, rule strip_lead_suffix) (rule strip_lead_done)
  obtain c r where "t = c # r" using 2(2) by (cases t) auto
  with l show ?case by simp
qed simp

declare Fields.simps [simp del]

lemma Split1_nonempty [simp]: "Split1 c s \<noteq> []"
  by (induction s) (auto split: list.splits)

lemma Split1_no_sep: "w \<in> set (Split1 c s) \<Longrightarrow> c \<notin> set w"
  by (induction s arbitrary: w) (auto split: list.splits if_splits)

lemma Split1_set: "w \<in> set (Split1 c s) \<Longrightarrow> set w \<subseteq> set s"
proof (induction s arbitrary: w)
  case (Cons d s)
  obtain v vs where v: "Split1 c s = v # vs" by (cases "Split1 c s") auto
  then have "set v \<subseteq> set s" and "u \<in> set vs \<Longrightarrow> set u \<subseteq> set s" for u
    using Cons.IH by auto
  with Cons.prems v show ?case by (auto split: if_splits)
qed simp

lemma Split1_single: "c \<notin> set w \<Longrightarrow> Split1 c w = [w]"
  by (induction w) auto

lemma Split1_append: "c \<notin> set w \<Longrightarrow> Split1 c (w @ c # s) = w # Split1 c s"
  by (induction w) auto

lemma Split1_Join:
  "ws \<noteq> [] \<Longrightarrow> \<forall>w \<in> set ws. c \<notin> set w \<Longrightarrow> Split1 c (Join ws [c]) = ws"
  by (induction ws "[c]" rule: Join.induct) (auto simp: Split1_single Split1_append)

lemma Join_Split1: "Join (Split1 c s) [c] = s"
proof (induction s)
  case (Cons d s)
  obtain w ws where "Split1 c s = w # ws" by (cases "Split1 c s") auto
  with Cons show ?case by (cases ws) auto
qed simp

lemma Join_inj:
  assumes "\<forall>w \<in> set ws. c \<notin> set w" and "\<forall>v \<in> set vs. c \<notin> set v"
    and "ws \<noteq> []" and "vs \<noteq> []" and "Join ws [c] = Join vs [c]"
  shows "ws = vs"
  using assms Split1_Join by metis

lemma set_Join: "set (Join ws sep) \<subseteq> (\<Union>w \<in> set ws. set w) \<union> set sep"
  by (induction ws sep rule: Join.induct) auto

lemma ReplaceChar_absent: "c \<notin> set s \<Longrightarrow> ReplaceChar c t s = s"
  by (induction s) (auto simp: ReplaceChar_def)

lemma ReplaceChar_removes: "c \<notin> set t \<Longrightarrow> c \<notin> set (ReplaceChar c t s)"
  by (auto simp: ReplaceChar_def split: if_splits)

end
