(* ===== verification/GoNum.thy ===== *)
theory GoNum
  imports GoBase
begin

text \<open>
  Numbers as text: \<open>strconv.Itoa\<close>, \<open>strconv.Atoi\<close> (decimal, 64-bit range checked) and
  \<open>strconv.ParseFloat\<close> (decimal and hexadecimal literals, underscores, infinities, NaN and the
  range error). A \<open>float64\<close> is a \<open>real\<close> in this development: the rounding of float64 arithmetic is
  not modelled, and NaN and the infinities only occur as results of \<open>ParseFloat\<close>, which is where
  the code tests for them.
\<close>

subsection \<open>Decimal digits\<close>

definition digit_char :: "nat \<Rightarrow> char" where
  "digit_char n = char_of (48 + n)"

definition is_digit :: "char \<Rightarrow> bool" where
  "is_digit c \<longleftrightarrow> CHR ''0'' \<le> c \<and> c \<le> CHR ''9''"

definition digit_val :: "char \<Rightarrow> nat" where
  "digit_val c = of_char c - 48"

lemma digit_char_simps [simp]:
  assumes "n < 10"
  shows "is_digit (digit_char n)" "digit_val (digit_char n) = n"
  using assms by (simp_all add: is_digit_def digit_char_def digit_val_def less_eq_char_def)

fun nat_str :: "nat \<Rightarrow> string" where
  "nat_str n = (if n < 10 then [digit_char n] else nat_str (n div 10) @ [digit_char (n mod 10)])"

declare nat_str.simps [simp del]

definition Itoa :: "int \<Rightarrow> string" where
  "Itoa i = (if i < 0 then CHR ''-'' # nat_str (nat (- i)) else nat_str (nat i))"

definition read_digits :: "nat \<Rightarrow> string \<Rightarrow> nat" where
  "read_digits m s = foldl (\<lambda>a c. a * 10 + digit_val c) m s"

definition parse_uint :: "string \<Rightarrow> nat option" where
  "parse_uint s = (if s \<noteq> [] \<and> (\<forall>c \<in> set s. is_digit c) then Some (read_digits 0 s) else None)"

definition Atoi :: "string \<Rightarrow> int option" where
  \<comment> \<open>\<open>strconv.Atoi\<close>; \<open>None\<close> is a syntax or range error\<close>
  "Atoi s =
    (case s of
       [] \<Rightarrow> None
     | c # r \<Rightarrow>
         let v = (if c = CHR ''-'' then map_option (\<lambda>n. - int n) (parse_uint r)
                  else if c = CHR ''+'' then map_option int (parse_uint r)
                  else map_option int (parse_uint s))
         in case v of None \<Rightarrow> None | Some i \<Rightarrow> if in_int64 i then Some i else None)"

lemma nat_str_nonempty [simp]: "nat_str n \<noteq> []"
  by (subst nat_str.simps) simp

lemma nat_str_digits: "c \<in> set (nat_str n) \<Longrightarrow> is_digit c"
proof (induction n rule: nat_str.induct)
  case (1 n)
  from "1.prems" show ?case
    by (subst (asm) nat_str.simps) (auto split: if_splits intro: "1.IH")
qed

lemma read_digits_snoc: "read_digits m (s @ [c]) = read_digits m s * 10 + digit_val c"
  by (simp add: read_digits_def)

lemma read_nat_str [simp]: "read_digits 0 (nat_str n) = n"
proof (induction n rule: nat_str.induct)
  case (1 n)
  show ?case
  proof (cases "n < 10")
    case True
    then show ?thesis by (subst nat_str.simps) (simp add: read_digits_def)
  next
    case False
    with "1.IH" show ?thesis
      by (subst nat_str.simps) (simp add: read_digits_snoc)
  qed
qed

lemma parse_nat_str [simp]: "parse_uint (nat_str n) = Some n"
  by (auto simp: parse_uint_def dest: nat_str_digits)

lemma is_digit_sign: "is_digit c \<Longrightarrow> c \<noteq> CHR ''-'' \<and> c \<noteq> CHR ''+''"
  by (auto simp: is_digit_def less_eq_char_def)

lemma Atoi_Itoa: "in_int64 i \<Longrightarrow> Atoi (Itoa i) = Some i"
proof (cases "i < 0")
  case False
  obtain c r where "nat_str (nat i) = c # r" by (cases "nat_str (nat i)") auto
  moreover from this have "is_digit c" by (intro nat_str_digits [of c "nat i"]) simp
  moreover have "parse_uint (nat_str (nat i)) = Some (nat i)" by simp
  moreover assume "in_int64 i"
  ultimately show ?thesis using False by (simp add: Itoa_def Atoi_def is_digit_sign)
next
  case True
  assume "in_int64 i"
  with True show ?thesis by (simp add: Itoa_def Atoi_def)
qed

lemma nat_str_inj: "nat_str a = nat_str b \<Longrightarrow> a = b"
  using read_nat_str by metis

lemma set_Itoa: "c \<in> set (Itoa i) \<Longrightarrow> is_digit c \<or> c = CHR ''-''"
  by (auto simp: Itoa_def dest: nat_str_digits split: if_splits)

lemma Itoa_inj: "Itoa a = Itoa b \<longleftrightarrow> a = b"
proof
  assume eq: "Itoa a = Itoa b"
  have sign: "hd (nat_str n) \<noteq> CHR ''-''" for n
    using nat_str_digits [of "hd (nat_str n)" n] by (auto dest: is_digit_sign)
  have "a < 0 \<longleftrightarrow> b < 0"
    using eq sign by (auto simp: Itoa_def split: if_splits) (metis list.sel(1))+
  with eq show "a = b" by (auto simp: Itoa_def dest!: nat_str_inj split: if_splits)
qed simp

lemma Itoa_nonempty [simp]: "Itoa i \<noteq> []"
  by (simp add: Itoa_def)

lemma Itoa_no_char: "\<not> is_digit c \<Longrightarrow> c \<noteq> CHR ''-'' \<Longrightarrow> c \<notin> set (Itoa i)"
  using set_Itoa by blast

subsection \<open>Floating-point literals\<close>

datatype float_parse = FP_Err | FP_NaN | FP_Inf bool | FP_Num real

definition hex_digit_val :: "char \<Rightarrow> nat option" where
  "hex_digit_val c =
    (let l = lower_char c in
     if is_digit c then Some (digit_val c)
     else if CHR ''a'' \<le> l \<and> l \<le> CHR ''f'' then Some (of_char l - 87) else None)"

definition base_digit :: "nat \<Rightarrow> char \<Rightarrow> nat option" where
  "base_digit b c = (if b = 16 then hex_digit_val c else if is_digit c then Some (digit_val c) else None)"

fun read_mantissa :: "nat \<Rightarrow> bool \<Rightarrow> nat \<Rightarrow> nat \<Rightarrow> bool \<Rightarrow> string \<Rightarrow> nat \<times> nat \<times> bool \<times> string" where
  \<comment> \<open>value of the digits, number of fraction digits, whether a digit was seen, the rest\<close>
  "read_mantissa b dot m f seen [] = (m, f, seen, [])"
| "read_mantissa b dot m f seen (c # s) =
    (if c = CHR ''_'' then read_mantissa b dot m f seen s
     else if c = CHR ''.'' then (if dot then (m, f, seen, c # s) else read_mantissa b True m f seen s)
     else case base_digit b c of
            Some d \<Rightarrow> read_mantissa b dot (m * b + d) (if dot then Suc f else f) True s
          | None \<Rightarrow> (m, f, seen, c # s))"

definition read_exponent :: "string \<Rightarrow> int option" where
  "read_exponent s =
    (let (neg, t) = (case s of [] \<Rightarrow> (False, []) | c # r \<Rightarrow>
          if c = CHR ''-'' then (True, r) else if c = CHR ''+'' then (False, r) else (False, s));
         ds = filter (\<lambda>c. c \<noteq> CHR ''_'') t
     in if t = [] \<or> \<not> is_digit (hd t) then None
        else map_option (\<lambda>n. if neg then - int n else int n) (parse_uint ds))"

fun underscore_scan :: "bool \<Rightarrow> char \<Rightarrow> string \<Rightarrow> bool" where
  "underscore_scan hex i [] = (i \<noteq> CHR ''_'')"
| "underscore_scan hex i (c # s) =
    (if is_digit c \<or> (hex \<and> hex_digit_val c \<noteq> None) then underscore_scan hex (CHR ''0'') s
     else if c = CHR ''_'' then (i = CHR ''0'' \<and> underscore_scan hex (CHR ''_'') s)
     else i \<noteq> CHR ''_'' \<and> underscore_scan hex (CHR ''!'') s)"

definition real_exp :: "nat \<Rightarrow> int \<Rightarrow> real" where
  "real_exp b e = (if 0 \<le> e then real (b ^ nat e) else 1 / real (b ^ nat (- e)))"

definition max_float :: real where
  \<comment> \<open>values from here on round to an infinity: the range error\<close>
  "max_float = real_of_int (2 ^ 1024 - 2 ^ 970)"

definition parse_number :: "string \<Rightarrow> float_parse" where
  "parse_number s0 =
    (let (neg, s) = (case s0 of [] \<Rightarrow> (False, []) | c # r \<Rightarrow>
          if c = CHR ''-'' then (True, r) else if c = CHR ''+'' then (False, r) else (False, s0));
         hex = (length s > 2 \<and> HasPrefix (ToLower s) ''0x'');
         b = (if hex then 16 else 10);
         (m, f, seen, rest) = read_mantissa b False 0 0 False (if hex then drop 2 s else s);
         ex = (case rest of
                 [] \<Rightarrow> if hex then None else Some 0
               | c # r \<Rightarrow> if lower_char c = (if hex then CHR ''p'' else CHR ''e'')
                          then read_exponent r else None);
         under = (if CHR ''_'' \<in> set s
                  then underscore_scan hex (if hex then CHR ''0'' else CHR ''^'') (if hex then drop 2 s else s)
                  else True)
     in if \<not> seen \<or> \<not> under then FP_Err
        else case ex of None \<Rightarrow> FP_Err
           | Some e \<Rightarrow>
               let v = (if hex then real m * real_exp 2 (e - 4 * int f) else real m * real_exp 10 (e - int f))
               in if v \<ge> max_float then FP_Err else FP_Num (if neg then - v else v))"

definition ParseFloat :: "string \<Rightarrow> float_parse" where
  "ParseFloat s =
    (let l = ToLower s in
     if l = ''nan'' then FP_NaN
     else if l \<in> {''inf'', ''infinity'', ''+inf'', ''+infinity''} then FP_Inf True
     else if l \<in> {''-inf'', ''-infinity''} then FP_Inf False
     else parse_number s)"

text \<open>Go's conversion of a \<open>float64\<close> to an \<open>int\<close> drops the fraction.\<close>

definition trunc_real :: "real \<Rightarrow> int" where
  "trunc_real x = (if 0 \<le> x then \<lfloor>x\<rfloor> else \<lceil>x\<rceil>)"

text \<open>\<open>math.Round\<close>: half away from zero.\<close>

definition round_away :: "real \<Rightarrow> int" where
  "round_away x = (if 0 \<le> x then \<lfloor>x + 1 / 2\<rfloor> else \<lceil>x - 1 / 2\<rceil>)"

text \<open>The leftmost match of the pattern \<open>[-+]?\d*\.?\d+\<close>, the empty string when there is none.\<close>

definition number_at :: "string \<Rightarrow> string option" where
  "number_at s =
    (let (sg, t) = (case s of c # r \<Rightarrow> if c = CHR ''-'' \<or> c = CHR ''+'' then ([c], r) else ([], s)
                    | [] \<Rightarrow> ([], []));
         ip = takeWhile is_digit t;
         r = dropWhile is_digit t;
         fp = (case r of c # q \<Rightarrow> if c = CHR ''.'' then takeWhile is_digit q else [] | [] \<Rightarrow> [])
     in if fp \<noteq> [] then Some (sg @ ip @ CHR ''.'' # fp)
        else if ip \<noteq> [] then Some (sg @ ip) else None)"

fun find_number :: "string \<Rightarrow> string" where
  "find_number [] = []"
| "find_number (c # s) = (case number_at (c # s) of Some w \<Rightarrow> w | None \<Rightarrow> find_number s)"

end
