(* ===== verification/GoColl.thy ===== *)
theory GoColl
  imports GoNum
begin

text \<open>
  Collections: the map operations the code uses, the "append unless already seen" loop that
  appears all over the model package, and \<open>sort.Slice\<close> with a comparison function, specified by
  the locale \<open>strict_weak\<close>, which every comparison function of the code is an instance of.
\<close>

subsection \<open>Maps\<close>

definition mget :: "('k, 'v) gomap \<Rightarrow> 'k \<Rightarrow> 'v option" where
  "mget m k = map_of m k"

definition mput :: "'k \<Rightarrow> 'v \<Rightarrow> ('k, 'v) gomap \<Rightarrow> ('k, 'v) gomap" where
  "mput k v m = AList.update k v m"

definition mdel :: "'k \<Rightarrow> ('k, 'v) gomap \<Rightarrow> ('k, 'v) gomap" where
  "mdel k m = AList.delete k m"

definition mget_default :: "'v \<Rightarrow> ('k, 'v) gomap \<Rightarrow> 'k \<Rightarrow> 'v" where
  \<comment> \<open>reading an absent key gives the zero value\<close>
  "mget_default z m k = (case mget m k of None \<Rightarrow> z | Some v \<Rightarrow> v)"

definition mappend :: "'k \<Rightarrow> 'v \<Rightarrow> ('k, 'v list) gomap \<Rightarrow> ('k, 'v list) gomap" where
  \<comment> \<open>\<open>m[k] = append(m[k], v)\<close>\<close>
  "mappend k v m = mput k (mget_default [] m k @ [v]) m"

definition keys :: "('k, 'v) gomap \<Rightarrow> 'k set" where
  "keys m = fst ` set m"

lemma mget_simps [simp]:
  "mget [] k = None"
  "mget (mput a v m) k = (if k = a then Some v else mget m k)"
  "mget (mdel a m) k = (if k = a then None else mget m k)"
  by (simp_all add: mget_def mput_def mdel_def update_conv' delete_conv')

lemma mget_default_simps [simp]:
  "mget_default z [] k = z"
  "mget_default z (mput a v m) k = (if k = a then v else mget_default z m k)"
  by (simp_all add: mget_default_def)

lemma mget_mappend [simp]:
  "mget_default [] (mappend a v m) k =
    (if k = a then mget_default [] m k @ [v] else mget_default [] m k)"
  by (simp add: mappend_def)

lemma keys_iff: "k \<in> keys m \<longleftrightarrow> mget m k \<noteq> None"
  by (simp add: mget_def keys_def map_of_eq_None_iff)

lemma keys_simps [simp]:
  "keys [] = {}" "keys (mput a v m) = insert a (keys m)" "keys (mdel a m) = keys m - {a}"
  by (auto simp: keys_iff simp del: not_None_eq split: if_splits)

lemma distinct_mput [simp]: "distinct (map fst m) \<Longrightarrow> distinct (map fst (mput a v m))"
  by (simp add: mput_def distinct_update)

lemma distinct_mdel [simp]: "distinct (map fst m) \<Longrightarrow> distinct (map fst (mdel a m))"
  by (simp add: mdel_def distinct_delete)

lemma mget_Some_in: "mget m k = Some v \<Longrightarrow> (k, v) \<in> set m"
  by (simp add: mget_def map_of_SomeD)

lemma mget_in: "distinct (map fst m) \<Longrightarrow> (k, v) \<in> set m \<Longrightarrow> mget m k = Some v"
  by (simp add: mget_def)

subsection \<open>Append unless already seen\<close>

fun first_seen_from :: "'a list \<Rightarrow> 'a list \<Rightarrow> 'a list" where
  "first_seen_from seen [] = []"
| "first_seen_from seen (x # xs) =
    (if x \<in> set seen then first_seen_from seen xs else x # first_seen_from (x # seen) xs)"

definition first_seen :: "'a list \<Rightarrow> 'a list" where
  "first_seen xs = first_seen_from [] xs"

lemma set_first_seen_from: "set (first_seen_from seen xs) = set xs - set seen"
  by (induction seen xs rule: first_seen_from.induct) auto

lemma distinct_first_seen_from: "distinct (first_seen_from seen xs)"
  by (induction seen xs rule: first_seen_from.induct) (auto simp: set_first_seen_from)

lemma set_first_seen [simp]: "set (first_seen xs) = set xs"
  by (simp add: first_seen_def set_first_seen_from)

lemma distinct_first_seen [simp]: "distinct (first_seen xs)"
  by (simp add: first_seen_def distinct_first_seen_from)

subsection \<open>Sorting by a comparison function\<close>

fun insert_by :: "('a \<Rightarrow> 'a \<Rightarrow> bool) \<Rightarrow> 'a \<Rightarrow> 'a list \<Rightarrow> 'a list" where
  "insert_by lt x [] = [x]"
| "insert_by lt x (y # ys) = (if lt y x then y # insert_by lt x ys else x # y # ys)"

fun sort_by :: "('a \<Rightarrow> 'a \<Rightarrow> bool) \<Rightarrow> 'a list \<Rightarrow> 'a list" where
  "sort_by lt [] = []"
| "sort_by lt (x # xs) = insert_by lt x (sort_by lt xs)"

lemma mset_insert_by: "mset (insert_by lt x ys) = add_mset x (mset ys)"
  by (induction ys) auto

lemma mset_sort_by [simp]: "mset (sort_by lt xs) = mset xs"
  by (induction xs) (auto simp: mset_insert_by)

lemma set_sort_by [simp]: "set (sort_by lt xs) = set xs"
  by (metis mset_sort_by set_mset_mset)

lemma length_sort_by [simp]: "length (sort_by lt xs) = length xs"
  by (metis mset_sort_by size_mset)

lemma distinct_sort_by [simp]: "distinct (sort_by lt xs) = distinct xs"
  by (metis mset_sort_by mset_eq_imp_distinct_iff)

lemma sort_by_Nil_iff [simp]: "sort_by lt xs = [] \<longleftrightarrow> xs = []"
  by (metis length_0_conv length_sort_by)

locale strict_weak =
  fixes lt :: "'a \<Rightarrow> 'a \<Rightarrow> bool"
  assumes lt_asym: "lt a b \<Longrightarrow> \<not> lt b a"
    and lt_negtrans: "\<not> lt a b \<Longrightarrow> \<not> lt b c \<Longrightarrow> \<not> lt a c"
begin

lemma insert_by_sorted:
  "sorted_wrt (\<lambda>a b. \<not> lt b a) ys \<Longrightarrow> sorted_wrt (\<lambda>a b. \<not> lt b a) (insert_by lt x ys)"
proof (induction ys)
  case (Cons y ys)
  have s: "set (insert_by lt x ys) = insert x (set ys)"
    by (metis mset_insert_by set_mset_add_mset_insert set_mset_mset)
  show ?case
  proof (cases "lt y x")
    case True
    with Cons s show ?thesis using lt_asym by auto
  next
    case False
    have "\<not> lt z x" if "z \<in> set ys" for z
      using Cons.prems that False lt_negtrans [of z y x] by auto
    with Cons False show ?thesis by auto
  qed
qed simp

lemma sort_by_sorted: "sorted_wrt (\<lambda>a b. \<not> lt b a) (sort_by lt xs)"
  by (induction xs) (auto intro: insert_by_sorted)

lemma sorted_unique_on:
  assumes "sorted_wrt (\<lambda>a b. \<not> lt b a) xs" and "sorted_wrt (\<lambda>a b. \<not> lt b a) ys"
    and "mset xs = mset ys"
    and "\<forall>a \<in> set xs. \<forall>b \<in> set xs. a \<noteq> b \<longrightarrow> lt a b \<or> lt b a"
  shows "xs = ys"
  using assms
proof (induction xs arbitrary: ys)
  case (Cons x xs)
  obtain y zs where ys: "ys = y # zs" using Cons.prems(3) by (cases ys) auto
  have xy: "x \<in> set ys" "y \<in> set (x # xs)"
    using Cons.prems(3) ys by (metis list.set_intros(1) set_mset_mset)+
  then have "x = y"
    using Cons.prems(1,2,4) ys by auto
  moreover from this have "xs = zs"
    using Cons.prems ys by (intro Cons.IH) auto
  ultimately show ?case by (simp add: ys)
qed simp

lemma sort_by_cong_on:
  "mset xs = mset ys \<Longrightarrow> \<forall>a \<in> set xs. \<forall>b \<in> set xs. a \<noteq> b \<longrightarrow> lt a b \<or> lt b a
   \<Longrightarrow> sort_by lt xs = sort_by lt ys"
  by (rule sorted_unique_on) (simp_all add: sort_by_sorted)

lemma lt_trans: "lt a b \<Longrightarrow> lt b c \<Longrightarrow> lt a c"
  using lt_asym lt_negtrans by metis

end

text \<open>A comparison by a key into a linear order is a \<open>strict_weak\<close> order.\<close>

lemma strict_weak_key: "strict_weak (\<lambda>a b. (f a :: 'b::linorder) < f b)"
  by unfold_locales auto

lemma sort_set_eq: "distinct xs \<Longrightarrow> distinct ys \<Longrightarrow> set xs = set ys \<Longrightarrow> sort xs = sort (ys :: 'a::linorder list)"
  by (metis sorted_distinct_set_unique sorted_sort distinct_sort set_sort)

end
