(* ===== verification/ModelName.thy ===== *)
theory ModelName
  imports GoColl
begin

text \<open>
  Canonical model names, \<open>src/common/model_alias.go\<close>: \<open>NormalizeModelName\<close> strips vendor prefixes,
  leading labels, tags, trailing dates and \<open>-latest\<close>; \<open>ToVersionAgnosticKey\<close> sorts the version
  tokens of a name. The five regular expressions of the file are written out as functions on
  the bytes of the name (Go's \<open>\d\<close> and \<open>\s\<close> are ASCII classes).
\<close>

subsection \<open>The patterns\<close>

definition strip_compact_date :: "string \<Rightarrow> string" where
  \<comment> \<open>\<open>trailingCompactDatePattern.ReplaceAllString(s, "")\<close>: \<open>[-_](20\d{6}|\d{8})$\<close>\<close>
  "strip_compact_date s =
    (let w = drop (length s - 9) s in
     if length s \<ge> 9 \<and> hd w \<in> {CHR ''-'', CHR ''_''} \<and> list_all is_digit (tl w)
     then take (length s - 9) s else s)"

definition iso_date :: "string \<Rightarrow> bool" where
  "iso_date w \<longleftrightarrow> length w = 11 \<and> w ! 0 = CHR ''-'' \<and> w ! 1 = CHR ''2'' \<and> w ! 2 = CHR ''0''
     \<and> is_digit (w ! 3) \<and> is_digit (w ! 4) \<and> w ! 5 = CHR ''-'' \<and> is_digit (w ! 6) \<and> is_digit (w ! 7)
     \<and> w ! 8 = CHR ''-'' \<and> is_digit (w ! 9) \<and> is_digit (w ! 10)"

definition strip_iso_date :: "string \<Rightarrow> string" where
  \<comment> \<open>\<open>trailingISODatePattern\<close>: \<open>-20\d{2}-\d{2}-\d{2}$\<close>\<close>
  "strip_iso_date s =
    (if length s \<ge> 11 \<and> iso_date (drop (length s - 11) s) then take (length s - 11) s else s)"

definition label_brackets :: "(string \<times> string) list" where
  \<comment> \<open>the bracket pairs of \<open>leadingLabelPattern\<close>, the full-width ones in UTF-8\<close>
  "label_brackets =
    [(''['', '']''), ([CHR 0xE3, CHR 0x80, CHR 0x90], [CHR 0xE3, CHR 0x80, CHR 0x91]),
     (''('', '')''), ([CHR 0xEF, CHR 0xBC, CHR 0x88], [CHR 0xEF, CHR 0xBC, CHR 0x89]),
     (''{'', ''}''), (''<'', ''>'')]"

definition re_space :: "char \<Rightarrow> bool" where
  "re_space c \<longleftrightarrow> c \<in> {CHR '' '', CHR 0x09, CHR 0x0A, CHR 0x0C, CHR 0x0D}"

definition strip_label :: "string \<Rightarrow> string" where
  \<comment> \<open>\<open>leadingLabelPattern.ReplaceAllString(s, "")\<close>: one bracketed, non-empty label and the white space after it\<close>
  "strip_label s =
    (case find (\<lambda>(p, q). prefix p s) label_brackets of
       None \<Rightarrow> s
     | Some (p, q) \<Rightarrow>
         (let r = drop (length p) s in
          case StrIndex r q of
            None \<Rightarrow> s
          | Some i \<Rightarrow> if i = 0 then s else dropWhile re_space (drop (i + length q) r)))"

subsection \<open>\<open>NormalizeModelName\<close>\<close>

fun strip_labels :: "nat \<Rightarrow> string \<Rightarrow> string" where
  \<comment> \<open>the loop \<open>for i := 0; i < 6; i++\<close>\<close>
  "strip_labels 0 name = name"
| "strip_labels (Suc n) name =
    (let next = strip_label name in
     if next = name then name
     else let t = TrimSpace next in if t = [] then t else strip_labels n t)"

definition cut_path :: "string \<Rightarrow> string" where
  "cut_path name =
    (case last_index_char name (CHR ''/'') of
       Some idx \<Rightarrow> if idx < length name - 1 then drop (idx + 1) name else name
     | None \<Rightarrow> name)"

definition cut_tag :: "string \<Rightarrow> string" where
  "cut_tag name = (case StrIndex name '':'' of Some idx \<Rightarrow> take idx name | None \<Rightarrow> name)"

definition NormalizeModelName :: "string \<Rightarrow> string" where
  "NormalizeModelName modelName =
    (let name = TrimSpace (ToLower modelName) in
     if name = [] then []
     else
       let name = TrimPrefix name ''bigmodel/'';
           name = cut_path name;
           name = strip_labels 6 name;
           name = cut_tag name;
           name = strip_compact_date name;
           name = strip_iso_date name;
           name = TrimSuffix name ''-latest''
       in TrimSpace name)"

subsection \<open>\<open>ToVersionAgnosticKey\<close>\<close>

definition version_sep :: "char \<Rightarrow> bool" where
  "version_sep c \<longleftrightarrow> c \<in> {CHR ''-'', CHR ''_'', CHR ''.''}"

function version_split :: "string \<Rightarrow> string list" where
  \<comment> \<open>\<open>versionSplitPattern.Split(s, -1)\<close>: split at the maximal runs of separators\<close>
  "version_split s =
    (let r = dropWhile (\<lambda>c. \<not> version_sep c) s in
     if r = [] then [s]
     else takeWhile (\<lambda>c. \<not> version_sep c) s # version_split (dropWhile version_sep r))"
  by pat_completeness auto
termination
proof (relation "measure length", goal_cases)
  case (2 s r)
  obtain c q where r: "r = c # q" using 2(2) by (cases r) auto
  have "length (dropWhile version_sep q) \<le> length q" by (rule length_dropWhile_le)
  moreover have "version_sep c"
    using r 2(1) hd_dropWhile [of "\<lambda>c. \<not> version_sep c" s] by auto
  moreover have "length r \<le> length s" unfolding 2(1) by (rule length_dropWhile_le)
  ultimately show ?case using r by simp
qed simp

declare version_split.simps [simp del]

definition version_tokens :: "string \<Rightarrow> string list" where
  "version_tokens modelName =
    (let normalized = ReplaceChar (CHR ''.'') ''-'' (TrimSpace (ToLower modelName)) in
     if normalized = [] then []
     else filter (\<lambda>t. t \<noteq> []) (map TrimSpace (version_split normalized)))"

definition ToVersionAgnosticKey :: "string \<Rightarrow> string" where
  "ToVersionAgnosticKey modelName =
    (let filtered = version_tokens modelName in
     if filtered = [] then [] else Join (sort filtered) ''-'')"

subsection \<open>Facts about the tokens\<close>

lemma version_split_no_sep: "w \<in> set (version_split s) \<Longrightarrow> c \<in> set w \<Longrightarrow> \<not> version_sep c"
proof (induction s arbitrary: w rule: version_split.induct)
  case (1 s)
  show ?case
  proof (cases "dropWhile (\<lambda>c. \<not> version_sep c) s = []")
    case True
    with "1.prems" show ?thesis
      by (subst (asm) version_split.simps) (auto simp: dropWhile_eq_Nil_conv)
  next
    case False
    with "1.prems" have "w = takeWhile (\<lambda>c. \<not> version_sep c) s
      \<or> w \<in> set (version_split (dropWhile version_sep (dropWhile (\<lambda>c. \<not> version_sep c) s)))"
      by (subst (asm) version_split.simps) (simp add: Let_def del: dropWhile_eq_Nil_conv)
    then show ?thesis using False "1.IH" "1.prems"(2) by (blast dest: set_takeWhileD)
  qed
qed

lemma version_tokens_props:
  assumes "t \<in> set (version_tokens s)"
  shows "t \<noteq> []" and "CHR ''-'' \<notin> set t" and "TrimSpace t = t"
  using assms version_split_no_sep set_TrimSpace
  by (fastforce simp: version_tokens_def Let_def version_sep_def split: if_splits)+

lemma Join_eq_Nil: "\<forall>w \<in> set ws. w \<noteq> [] \<Longrightarrow> Join ws sep = [] \<longleftrightarrow> ws = []"
  by (cases "(ws, sep)" rule: Join.cases) auto

lemma ToVersionAgnosticKey_Join: "ToVersionAgnosticKey s = Join (sort (version_tokens s)) ''-''"
  by (simp add: ToVersionAgnosticKey_def Let_def)

lemma sort_eq_mset: "sort xs = sort ys \<longleftrightarrow> mset xs = mset ys"
  by (metis mset_sort properties_for_sort sorted_sort)

text \<open>
  Two model names get the same version-agnostic key exactly when they have the same version
  tokens, counted with multiplicity: the key forgets the order of the tokens, the separators and
  the case, and nothing else.
\<close>

theorem ToVersionAgnosticKey_eq_iff:
  "ToVersionAgnosticKey a = ToVersionAgnosticKey b \<longleftrightarrow>
   mset (version_tokens a) = mset (version_tokens b)"
proof -
  let ?A = "sort (version_tokens a)" and ?B = "sort (version_tokens b)"
  have A: "\<forall>w \<in> set ?A. w \<noteq> [] \<and> CHR ''-'' \<notin> set w"
    and B: "\<forall>w \<in> set ?B. w \<noteq> [] \<and> CHR ''-'' \<notin> set w"
    using version_tokens_props by auto
  have "Join ?A ''-'' = Join ?B ''-'' \<longleftrightarrow> ?A = ?B"
  proof
    assume eq: "Join ?A ''-'' = Join ?B ''-''"
    show "?A = ?B"
    proof (cases "?A = [] \<or> ?B = []")
      case True
      then show ?thesis
        using eq Join_eq_Nil [of ?A "''-''"] Join_eq_Nil [of ?B "''-''"] A B
        by (auto simp del: set_sort)
    next
      case False
      then show ?thesis using Join_inj [of ?A "CHR ''-''" ?B] A B eq by blast
    qed
  qed simp
  then show ?thesis by (simp add: ToVersionAgnosticKey_Join sort_eq_mset)
qed

subsection \<open>What normalisation removes\<close>

text \<open>A name in normal form: nothing for \<open>NormalizeModelName\<close> to strip.\<close>

definition plain_name :: "string \<Rightarrow> bool" where
  "plain_name n \<longleftrightarrow> n \<noteq> [] \<and> ToLower n = n \<and> TrimSpace n = n \<and> CHR ''/'' \<notin> set n \<and> CHR '':'' \<notin> set n
     \<and> list_all (\<lambda>(p, q). \<not> prefix p n) label_brackets
     \<and> strip_iso_date n = n \<and> \<not> HasSuffix n ''-latest''"

lemma last_index_char_absent: "c \<notin> set s \<Longrightarrow> last_index_char s c = None"
  by (induction s) auto

lemma last_index_char_last: "c \<notin> set m \<Longrightarrow> last_index_char (v @ c # m) c = Some (length v)"
  by (induction v) (auto simp: last_index_char_absent)

lemma cut_path_plain: "CHR ''/'' \<notin> set m \<Longrightarrow> cut_path m = m"
  by (simp add: cut_path_def last_index_char_absent)

lemma cut_path_vendor: "CHR ''/'' \<notin> set m \<Longrightarrow> m \<noteq> [] \<Longrightarrow> cut_path (v @ CHR ''/'' # m) = m"
  by (simp add: cut_path_def last_index_char_last)

lemma append_sep_split:
  assumes "v @ c # m = b @ c # r" and "c \<notin> set m"
  shows "r = m \<or> (\<exists>u. r = u @ c # m)"
  using assms(1)
proof (induction v arbitrary: b)
  case Nil
  then show ?case using assms(2) by (cases b) auto
next
  case (Cons x v)
  then show ?case by (cases b) auto
qed

lemma cut_path_trim_prefix:
  assumes "c = CHR ''/''" and "c \<notin> set m" and "m \<noteq> []"
  shows "cut_path (TrimPrefix (v @ c # m) (b @ [c])) = m"
proof (cases "HasPrefix (v @ c # m) (b @ [c])")
  case True
  then obtain r where r: "v @ c # m = b @ c # r"
    by (auto simp: HasPrefix_def prefix_def)
  from append_sep_split [OF r assms(2)] have "cut_path r = m"
    using assms by (auto simp: cut_path_plain cut_path_vendor)
  then show ?thesis using True by (simp add: TrimPrefix_def r)
next
  case False
  then show ?thesis using assms by (simp add: TrimPrefix_def cut_path_vendor)
qed

lemma cut_path_bigmodel:
  "CHR ''/'' \<notin> set m \<Longrightarrow> m \<noteq> [] \<Longrightarrow> cut_path (TrimPrefix (v @ CHR ''/'' # m) ''bigmodel/'') = m"
  using cut_path_trim_prefix [of "CHR ''/''" m v "''bigmodel''"] by simp

lemma strip_label_none:
  assumes "list_all (\<lambda>(p, q). \<not> prefix p s) label_brackets" shows "strip_label s = s"
proof -
  have "find (\<lambda>(p, q). prefix p s) label_brackets = None"
    using assms by (auto simp: find_None_iff list_all_iff)
  then show ?thesis by (simp add: strip_label_def)
qed

lemma prefix_before_sep:
  assumes "c \<notin> set p" and "prefix p (n @ c # t)" shows "prefix p n"
  using assms by (auto simp: prefix_append prefix_Cons)

lemma label_brackets_before:
  assumes "list_all (\<lambda>(p, q). \<not> prefix p n) label_brackets" and "c = CHR ''-'' \<or> c = CHR '':''"
  shows "list_all (\<lambda>(p, q). \<not> prefix p (n @ c # t)) label_brackets"
proof -
  have c: "c \<notin> set p" if "(p, q) \<in> set label_brackets" for p q
    using that assms(2) by (auto simp: label_brackets_def)
  show ?thesis
    using assms(1) prefix_before_sep [OF c] unfolding list_all_iff by blast
qed

lemma strip_labels_tag:
  assumes "list_all (\<lambda>(p, q). \<not> prefix p n) label_brackets"
  shows "strip_labels 6 (n @ CHR '':'' # t) = n @ CHR '':'' # t"
  using strip_label_none [OF label_brackets_before [OF assms, of "CHR '':''"]]
  by (simp add: numeral_eq_Suc)

lemma cut_tag_first: "CHR '':'' \<notin> set n \<Longrightarrow> cut_tag (n @ CHR '':'' # t) = n"
proof -
  assume "CHR '':'' \<notin> set n"
  then have "StrIndex (n @ CHR '':'' # t) '':'' = Some (length n)"
    by (induction n) auto
  then show ?thesis by (simp add: cut_tag_def)
qed

lemma strip_compact_date_suffix:
  assumes "length d = 8" and "list_all is_digit d"
  shows "strip_compact_date (n @ CHR ''-'' # d) = n"
  using assms by (simp add: strip_compact_date_def)

text \<open>
  Every way of decorating a plain model name (a vendor path in front, \<open>bigmodel/\<close> included, a
  date stamp of eight digits and a tag after a colon behind) normalises to the plain name itself,
  so all decorated variants of a model are routed alike.
\<close>

theorem NormalizeModelName_decorated:
  assumes n: "plain_name n" and d: "length d = 8" "list_all is_digit d" and t: "CHR ''/'' \<notin> set t"
    and low: "TrimSpace (ToLower (v @ ''/'' @ n @ ''-'' @ d @ '':'' @ t)) = v @ ''/'' @ n @ ''-'' @ d @ '':'' @ t"
  shows "NormalizeModelName (v @ ''/'' @ n @ ''-'' @ d @ '':'' @ t) = n"
proof -
  let ?m = "(n @ CHR ''-'' # d) @ CHR '':'' # t"
  have dd: "c \<in> set d \<Longrightarrow> is_digit c" for c using d(2) by (simp add: list_all_iff)
  have "CHR ''/'' \<notin> set d" "CHR '':'' \<notin> set d" by (auto dest: dd simp: is_digit_def less_eq_char_def)
  then have m: "CHR ''/'' \<notin> set ?m" and c: "CHR '':'' \<notin> set (n @ CHR ''-'' # d)"
    using n t by (auto simp: plain_name_def)
  have "list_all (\<lambda>(p, q). \<not> prefix p (n @ CHR ''-'' # d)) label_brackets"
    using n by (intro label_brackets_before) (simp_all add: plain_name_def)
  then have l: "strip_labels 6 ?m = ?m" by (rule strip_labels_tag)
  have p: "cut_path (TrimPrefix (v @ CHR ''/'' # ?m) ''bigmodel/'') = ?m"
    by (rule cut_path_bigmodel [OF m]) simp
  have "strip_compact_date (cut_tag ?m) = n"
    unfolding cut_tag_first [OF c] by (rule strip_compact_date_suffix [OF d])
  with n show ?thesis
    using low p l by (simp add: NormalizeModelName_def Let_def plain_name_def TrimSuffix_def)
qed

theorem NormalizeModelName_decorated_witness:
  "NormalizeModelName ''bigmodel/z/glm-4-20240115:free'' = ''glm-4''"
  using NormalizeModelName_decorated [of "''glm-4''" "''20240115''" "''free''" "''bigmodel/z''"]
  by (simp add: plain_name_def) code_simp

end
