(* ===== verification/GoJson.thy ===== *)
theory GoJson
  imports GoColl
begin

text \<open>
  \<open>encoding/json\<close> as far as the gateway uses it: the parser of \<open>json.Unmarshal\<close> into an untyped
  value or a map, and the printing of strings and string maps by \<open>json.Marshal\<close>. A number keeps
  its literal text, which \<open>ParseFloat\<close> reads; an object is an association list in which a repeated
  key keeps its last value. Strings are taken as valid UTF-8 (Go replaces invalid bytes), and the
  depth limit of 10000 nested values is not modelled.
\<close>

datatype json = JNull | JBool bool | JNum gostring | JStr gostring | JArr "json list"
  | JObj "(gostring \<times> json) list"

subsection \<open>Tokens\<close>

definition json_ws :: "char \<Rightarrow> bool" where
  "json_ws c \<longleftrightarrow> c = CHR '' '' \<or> c = CHR 0x09 \<or> c = CHR 0x0A \<or> c = CHR 0x0D"

definition skip_ws :: "string \<Rightarrow> string" where
  "skip_ws s = dropWhile json_ws s"

definition utf8_encode :: "nat \<Rightarrow> string" where
  "utf8_encode n =
    (if n < 128 then [char_of n]
     else if n < 2048 then [char_of (192 + n div 64), char_of (128 + n mod 64)]
     else if n < 65536 then
       [char_of (224 + n div 4096), char_of (128 + n div 64 mod 64), char_of (128 + n mod 64)]
     else [char_of (240 + n div 262144), char_of (128 + n div 4096 mod 64),
           char_of (128 + n div 64 mod 64), char_of (128 + n mod 64)])"

fun hex4 :: "string \<Rightarrow> (nat \<times> string) option" where
  "hex4 (a # b # c # d # s) =
    (case (hex_digit_val a, hex_digit_val b, hex_digit_val c, hex_digit_val d) of
       (Some w, Some x, Some y, Some z) \<Rightarrow> Some (w * 4096 + x * 256 + y * 16 + z, s)
     | _ \<Rightarrow> None)"
| "hex4 _ = None"

definition escape_u :: "string \<Rightarrow> (string \<times> string) option" where
  \<comment> \<open>what follows a backslash and a \<open>u\<close>: one code unit, or a surrogate pair; a lone surrogate is U+FFFD\<close>
  "escape_u s =
    (case hex4 s of
       None \<Rightarrow> None
     | Some (n, r) \<Rightarrow>
         if 0xD800 \<le> n \<and> n < 0xE000 then
           (case r of
              c # d # q \<Rightarrow>
                (case (if c = CHR 0x5C \<and> d = CHR ''u'' \<and> n < 0xDC00 then hex4 q else None) of
                   Some (m, p) \<Rightarrow>
                     if 0xDC00 \<le> m \<and> m < 0xE000
                     then Some (utf8_encode (0x10000 + (n - 0xD800) * 1024 + (m - 0xDC00)), p)
                     else Some (utf8_encode 0xFFFD, r)
                 | None \<Rightarrow> Some (utf8_encode 0xFFFD, r))
            | _ \<Rightarrow> Some (utf8_encode 0xFFFD, r))
         else Some (utf8_encode n, r))"

definition simple_escape :: "char \<Rightarrow> char option" where
  "simple_escape c =
    (if c = CHR 0x22 \<or> c = CHR 0x5C \<or> c = CHR ''/'' then Some c
     else if c = CHR ''b'' then Some (CHR 0x08) else if c = CHR ''f'' then Some (CHR 0x0C)
     else if c = CHR ''n'' then Some (CHR 0x0A) else if c = CHR ''r'' then Some (CHR 0x0D)
     else if c = CHR ''t'' then Some (CHR 0x09) else None)"

fun read_string :: "nat \<Rightarrow> string \<Rightarrow> (string \<times> string) option" where
  \<comment> \<open>the rest of a string literal after its opening quote; the first argument bounds the length\<close>
  "read_string 0 s = None"
| "read_string (Suc n) s =
    (case s of
       [] \<Rightarrow> None
     | c # r \<Rightarrow>
         if c = CHR 0x22 then Some ([], r)
         else if c < CHR '' '' then None
         else if c = CHR 0x5C then
           (case r of
              [] \<Rightarrow> None
            | d # q \<Rightarrow>
                (case (if d = CHR ''u'' then escape_u q
                       else map_option (\<lambda>x. ([x], q)) (simple_escape d)) of
                   None \<Rightarrow> None
                 | Some (w, p) \<Rightarrow> map_option (\<lambda>(t, u). (w @ t, u)) (read_string n p)))
         else map_option (\<lambda>(t, u). (c # t, u)) (read_string n r))"

definition number_end :: "string \<Rightarrow> (string \<times> string) option" where
  \<comment> \<open>the JSON number at the start, and the rest\<close>
  "number_end s =
    (let (sg, t) = (case s of c # r \<Rightarrow> if c = CHR ''-'' then ([c], r) else ([], s) | [] \<Rightarrow> ([], []));
         ip = (case t of c # r \<Rightarrow> if c = CHR ''0'' then [c] else takeWhile is_digit t | [] \<Rightarrow> []);
         r = drop (length ip) t;
         (fp, r, okf) = (case r of
             c # q \<Rightarrow> if c = CHR ''.''
                     then (c # takeWhile is_digit q, dropWhile is_digit q, takeWhile is_digit q \<noteq> [])
                     else ([], r, True)
           | [] \<Rightarrow> ([], r, True));
         (ep, r, oke) = (case r of
             c # q \<Rightarrow> if lower_char c = CHR ''e''
                     then (let (es, q) = (case q of d # p \<Rightarrow> if d = CHR ''-'' \<or> d = CHR ''+'' then ([d], p) else ([], q)
                                          | [] \<Rightarrow> ([], q))
                           in (c # es @ takeWhile is_digit q, dropWhile is_digit q, takeWhile is_digit q \<noteq> []))
                     else ([], r, True)
           | [] \<Rightarrow> ([], r, True))
     in if ip \<noteq> [] \<and> okf \<and> oke then Some (sg @ ip @ fp @ ep, r) else None)"

subsection \<open>Values\<close>

fun read_value :: "nat \<Rightarrow> string \<Rightarrow> (json \<times> string) option"
  and read_elems :: "nat \<Rightarrow> string \<Rightarrow> (json list \<times> string) option"
  and read_members :: "nat \<Rightarrow> (gostring, json) gomap \<Rightarrow> string \<Rightarrow> ((gostring, json) gomap \<times> string) option"
where
  "read_value 0 s = None"
| "read_value (Suc n) s =
    (case skip_ws s of
       [] \<Rightarrow> None
     | c # r \<Rightarrow>
         if c = CHR ''{'' then
           (case skip_ws r of
              [] \<Rightarrow> None
            | d # q \<Rightarrow> if d = CHR ''}'' then Some (JObj [], q)
                      else map_option (\<lambda>(m, u). (JObj m, u)) (read_members n [] r))
         else if c = CHR ''['' then
           (case skip_ws r of
              [] \<Rightarrow> None
            | d # q \<Rightarrow> if d = CHR '']'' then Some (JArr [], q)
                      else map_option (\<lambda>(m, u). (JArr m, u)) (read_elems n r))
         else if c = CHR 0x22 then map_option (\<lambda>(t, u). (JStr t, u)) (read_string (length s) r)
         else if HasPrefix (c # r) ''null'' then Some (JNull, drop 3 r)
         else if HasPrefix (c # r) ''true'' then Some (JBool True, drop 3 r)
         else if HasPrefix (c # r) ''false'' then Some (JBool False, drop 4 r)
         else map_option (\<lambda>(t, u). (JNum t, u)) (number_end (c # r)))"
| "read_elems 0 s = None"
| "read_elems (Suc n) s =
    (case read_value n s of
       None \<Rightarrow> None
     | Some (v, r) \<Rightarrow>
         (case skip_ws r of
            [] \<Rightarrow> None
          | c # q \<Rightarrow> if c = CHR '','' then map_option (\<lambda>(vs, u). (v # vs, u)) (read_elems n q)
                    else if c = CHR '']'' then Some ([v], q) else None))"
| "read_members 0 m s = None"
| "read_members (Suc n) m s =
    (case skip_ws s of
       [] \<Rightarrow> None
     | c # r \<Rightarrow>
         if c \<noteq> CHR 0x22 then None
         else
           (case read_string (length s) r of
              None \<Rightarrow> None
            | Some (k, r) \<Rightarrow>
                (case skip_ws r of
                   [] \<Rightarrow> None
                 | c # r \<Rightarrow>
                     if c \<noteq> CHR '':'' then None
                     else
                       (case read_value n r of
                          None \<Rightarrow> None
                        | Some (v, r) \<Rightarrow>
                            (case skip_ws r of
                               [] \<Rightarrow> None
                             | c # q \<Rightarrow>
                                 if c = CHR '','' then read_members n (mput k v m) q
                                 else if c = CHR ''}'' then Some (mput k v m, q) else None)))))"

definition json_parse :: "string \<Rightarrow> json option" where
  \<comment> \<open>the whole input is one value; \<open>None\<close> is a syntax error\<close>
  "json_parse s =
    (case read_value (2 * length s + 2) s of
       Some (v, r) \<Rightarrow> if skip_ws r = [] then Some v else None
     | None \<Rightarrow> None)"

subsection \<open>Decoding into Go types\<close>

definition json_field :: "json \<Rightarrow> gostring \<Rightarrow> json option" where
  \<comment> \<open>a key of an untyped object\<close>
  "json_field v k = (case v of JObj m \<Rightarrow> mget m k | _ \<Rightarrow> None)"

fun number_of_json :: "json \<Rightarrow> real option" where
  "number_of_json (JNum t) = (case ParseFloat t of FP_Num x \<Rightarrow> Some x | _ \<Rightarrow> None)"
| "number_of_json _ = None"

fun float_map_entries :: "(gostring \<times> json) list \<Rightarrow> (gostring, real) gomap" where
  \<comment> \<open>values of another type are skipped; \<open>null\<close> leaves the zero value of the element\<close>
  "float_map_entries [] = []"
| "float_map_entries ((k, v) # m) =
    (case v of
       JNull \<Rightarrow> mput k 0 (float_map_entries m)
     | _ \<Rightarrow> (case number_of_json v of Some x \<Rightarrow> mput k x (float_map_entries m)
             | None \<Rightarrow> float_map_entries m))"

definition unmarshal_float_map :: "string \<Rightarrow> (gostring, real) gomap" where
  \<comment> \<open>the map after \<open>json.Unmarshal\<close> into a \<open>map[string]float64\<close>, whose error the code drops\<close>
  "unmarshal_float_map raw =
    (case json_parse raw of Some (JObj m) \<Rightarrow> float_map_entries m | _ \<Rightarrow> [])"

fun string_map_entries :: "(gostring \<times> json) list \<Rightarrow> (gostring, gostring) gomap option" where
  \<comment> \<open>\<open>None\<close>: some value is not a string, an error\<close>
  "string_map_entries [] = Some []"
| "string_map_entries ((k, v) # m) =
    (case (v, string_map_entries m) of
       (JStr t, Some r) \<Rightarrow> Some ((k, t) # r)
     | (JNull, Some r) \<Rightarrow> Some ((k, []) # r)
     | _ \<Rightarrow> None)"

definition unmarshal_string_map :: "string \<Rightarrow> (gostring, gostring) gomap option" where
  "unmarshal_string_map raw =
    (case json_parse raw of
       Some (JObj m) \<Rightarrow> string_map_entries m
     | Some JNull \<Rightarrow> Some []
     | _ \<Rightarrow> None)"

subsection \<open>Printing\<close>

definition hex_char :: "nat \<Rightarrow> char" where
  "hex_char n = (if n < 10 then char_of (48 + n) else char_of (87 + n))"

definition escape_char :: "char \<Rightarrow> string" where
  "escape_char c =
    (if c = CHR 0x22 \<or> c = CHR 0x5C then [CHR 0x5C, c]
     else if c = CHR 0x08 then [CHR 0x5C, CHR ''b''] else if c = CHR 0x0C then [CHR 0x5C, CHR ''f'']
     else if c = CHR 0x0A then [CHR 0x5C, CHR ''n''] else if c = CHR 0x0D then [CHR 0x5C, CHR ''r'']
     else if c = CHR 0x09 then [CHR 0x5C, CHR ''t'']
     else if c < CHR '' '' \<or> c = CHR ''<'' \<or> c = CHR ''>'' \<or> c = CHR ''&''
       then [CHR 0x5C, CHR ''u'', CHR ''0'', CHR ''0'', hex_char (of_char c div 16), hex_char (of_char c mod 16)]
     else [c])"

definition print_string :: "string \<Rightarrow> string" where
  "print_string s = CHR 0x22 # concat (map escape_char s) @ [CHR 0x22]"

definition print_string_map :: "(gostring, gostring) gomap \<Rightarrow> string" where
  \<comment> \<open>\<open>json.Marshal\<close> of a \<open>map[string]string\<close>: the keys in ascending order\<close>
  "print_string_map m =
    ''{'' @ Join (map (\<lambda>k. print_string k @ '':'' @ print_string (mget_default [] m k)) (sort (map fst m))) '','' @ ''}''"

subsection \<open>Printing and reading back\<close>

lemma hex_digit_val_hex_char: "n < 16 \<Longrightarrow> hex_digit_val (hex_char n) = Some n"
proof -
  assume "n < 16"
  then have "n \<in> {0, 1, 2, 3, 4, 5, 6, 7, 8, 9, 10, 11, 12, 13, 14, 15}"
    unfolding insert_iff empty_iff by presburger
  then show ?thesis by (elim insertE emptyE) (simp_all, code_simp+)
qed

lemma char_div_16: "(of_char (c :: char) :: nat) div 16 < 16"
  by (rule less_mult_imp_div_less) (use nat_of_char_less_256 [of c] in simp)

lemma escape_u_byte:
  assumes "(of_char c :: nat) < 128"
  shows "escape_u (CHR ''0'' # CHR ''0'' # hex_char (of_char c div 16) # hex_char (of_char c mod 16) # p) = Some ([c], p)"
proof -
  have "hex_digit_val (CHR ''0'') = Some 0" by code_simp
  then show ?thesis
    using assms char_div_16 [of c]
    by (simp add: escape_u_def hex_digit_val_hex_char utf8_encode_def)
qed

lemma escape_char_cases:
  obtains (plain) "escape_char c = [c]" "c \<noteq> CHR 0x22" "c \<noteq> CHR 0x5C" "\<not> c < CHR '' ''"
  | (simple) d where "escape_char c = [CHR 0x5C, d]" "d \<noteq> CHR ''u''" "simple_escape d = Some c"
  | (hex) "escape_char c = [CHR 0x5C, CHR ''u'', CHR ''0'', CHR ''0'', hex_char (of_char c div 16), hex_char (of_char c mod 16)]"
      "(of_char c :: nat) < 128"
proof -
  consider "c = CHR 0x22" | "c = CHR 0x5C" | "c = CHR 0x08" | "c = CHR 0x0C" | "c = CHR 0x0A" | "c = CHR 0x0D"
    | "c = CHR 0x09" | "c \<notin> {CHR 0x22, CHR 0x5C, CHR 0x08, CHR 0x0C, CHR 0x0A, CHR 0x0D, CHR 0x09}" by blast
  then show thesis
  proof cases
    case 8
    show thesis
    proof (cases "c < CHR '' '' \<or> c = CHR ''<'' \<or> c = CHR ''>'' \<or> c = CHR ''&''")
      case True
      have "(of_char c :: nat) < 128" using True by (auto simp: less_char_def)
      with True 8 show thesis by (intro hex) (simp_all add: escape_char_def)
    next
      case False
      with 8 show thesis by (intro plain) (auto simp: escape_char_def)
    qed
  qed (rule simple, simp add: escape_char_def, simp, simp add: simple_escape_def)+
qed

lemma read_string_escape:
  "length s < n \<Longrightarrow> read_string n (concat (map escape_char s) @ CHR 0x22 # r) = Some (s, r)"
proof (induction s arbitrary: n)
  case Nil
  then show ?case by (cases n) auto
next
  case (Cons c s)
  then obtain m where n: "n = Suc m" "length s < m" by (cases n) auto
  have IH: "read_string m (concat (map escape_char s) @ CHR 0x22 # r) = Some (s, r)"
    using Cons.IH n(2) by blast
  show ?case
    by (cases c rule: escape_char_cases) (simp_all add: n IH escape_u_byte)
qed

lemma length_escape: "length s \<le> length (concat (map escape_char s))"
proof (induction s)
  case (Cons c s)
  have "1 \<le> length (escape_char c)" by (simp add: escape_char_def)
  with Cons show ?case by simp
qed simp

lemma skip_ws_plain: "\<not> json_ws c \<Longrightarrow> skip_ws (c # s) = c # s"
  by (simp add: skip_ws_def)

lemma json_ws_simps [simp]:
  "\<not> json_ws (CHR 0x22)" "\<not> json_ws (CHR '','')" "\<not> json_ws (CHR '':'')" "\<not> json_ws (CHR ''{'')" "\<not> json_ws (CHR ''}'')"
  by (simp_all add: json_ws_def)

lemma read_value_string:
  "read_value (Suc n) (print_string v @ r) = Some (JStr v, r)"
proof -
  have "read_string (length (print_string v @ r)) (concat (map escape_char v) @ CHR 0x22 # r) = Some (v, r)"
    using length_escape [of v] by (intro read_string_escape) (simp add: print_string_def del: length_concat)
  then show ?thesis by (simp add: print_string_def skip_ws_plain)
qed

definition print_member :: "gostring \<times> gostring \<Rightarrow> string" where
  "print_member kv = print_string (fst kv) @ '':'' @ print_string (snd kv)"

lemma read_member:
  assumes "c = CHR '','' \<or> c = CHR ''}''"
  shows "read_members (Suc (Suc n)) m (print_member (k, v) @ c # q) =
    (if c = CHR '','' then read_members (Suc n) (mput k (JStr v) m) q else Some (mput k (JStr v) m, q))"
proof -
  let ?s = "print_member (k, v) @ c # q"
  have s: "?s = CHR 0x22 # concat (map escape_char k) @ CHR 0x22 # CHR '':'' # print_string v @ c # q"
    by (simp add: print_member_def print_string_def)
  have "read_string (length ?s) (concat (map escape_char k) @ CHR 0x22 # CHR '':'' # print_string v @ c # q)
      = Some (k, CHR '':'' # print_string v @ c # q)"
    using length_escape [of k] by (intro read_string_escape) (simp add: s del: length_concat)
  then show ?thesis
    using assms by (auto simp: s skip_ws_plain read_value_string simp del: read_value.simps)
qed

lemma read_members_print:
  "length kvs < n \<Longrightarrow> read_members (Suc n) m (Join (map print_member (kv # kvs)) '','' @ CHR ''}'' # q) =
    Some (foldl (\<lambda>m kv. mput (fst kv) (JStr (snd kv)) m) m (kv # kvs), q)"
proof (induction kvs arbitrary: n m kv)
  case Nil
  then obtain l where "n = Suc l" by (cases n) auto
  then show ?case using read_member [of "CHR ''}''" l m "fst kv" "snd kv" q] by simp
next
  case (Cons kv' kvs)
  then obtain l where n: "n = Suc l" "length kvs < l" by (cases n) auto
  have "read_members (Suc (Suc l)) m (print_member (fst kv, snd kv) @ CHR '','' # Join (map print_member (kv' # kvs)) '','' @ CHR ''}'' # q)
    = read_members (Suc l) (mput (fst kv) (JStr (snd kv)) m) (Join (map print_member (kv' # kvs)) '','' @ CHR ''}'' # q)"
    by (subst read_member) simp_all
  then show ?case using Cons.IH [OF n(2)] by (simp add: n(1) del: read_members.simps)
qed

lemma AList_update_append: "k \<notin> fst ` set xs \<Longrightarrow> AList.update k v xs = xs @ [(k, v)]"
  by (induction xs) auto

lemma foldl_mput_distinct:
  "distinct (map fst (xs @ kvs)) \<Longrightarrow>
   foldl (\<lambda>m kv. mput (fst kv) (f (snd kv)) m) (map (\<lambda>(k, v). (k, f v)) xs) kvs = map (\<lambda>(k, v). (k, f v)) (xs @ kvs)"
proof (induction kvs arbitrary: xs)
  case (Cons kv kvs)
  have "fst kv \<notin> fst ` set (map (\<lambda>(k, v). (k, f v)) xs)"
    using Cons.prems by (auto simp: image_iff)
  then have "mput (fst kv) (f (snd kv)) (map (\<lambda>(k, v). (k, f v)) xs) = map (\<lambda>(k, v). (k, f v)) (xs @ [kv])"
    by (simp add: mput_def AList_update_append split: prod.splits)
  then show ?case using Cons.IH [of "xs @ [kv]"] Cons.prems by simp
qed simp

lemma string_map_entries_JStr: "string_map_entries (map (\<lambda>(k, v). (k, JStr v)) kvs) = Some kvs"
  by (induction kvs) auto

lemma print_member_head: "\<exists>t. Join (map print_member (kv # kvs)) '','' = CHR 0x22 # t"
  by (cases kvs) (simp_all add: print_member_def print_string_def)

lemma length_Join: "length ws \<le> Suc (length (Join ws [c]))"
  by (induction ws "[c]" rule: Join.induct) auto

lemma json_parse_members:
  assumes "distinct (map fst kvs)"
  shows "json_parse (''{'' @ Join (map print_member kvs) '','' @ ''}'') = Some (JObj (map (\<lambda>(k, v). (k, JStr v)) kvs))"
proof (cases kvs)
  case Nil
  then show ?thesis by (simp add: json_parse_def skip_ws_def json_ws_def numeral_eq_Suc)
next
  case (Cons kv rest)
  let ?b = "Join (map print_member kvs) '','' @ ''}''"
  obtain t where t: "Join (map print_member kvs) '','' = CHR 0x22 # t"
    using print_member_head [of kv rest] Cons by auto
  have "length kvs \<le> Suc (length (Join (map print_member kvs) '',''))"
    using length_Join [of "map print_member kvs" "CHR '',''"] by simp
  then have "length rest < 2 * length ?b + 2" using Cons by simp
  then have "read_members (Suc (2 * length ?b + 2)) [] ?b = Some (foldl (\<lambda>m kv. mput (fst kv) (JStr (snd kv)) m) [] kvs, [])"
    using read_members_print [of rest _ "[]" kv "[]"] by (simp only: Cons append.simps)
  then have m: "read_members (Suc (2 * length ?b + 2)) [] ?b = Some (map (\<lambda>(k, v). (k, JStr v)) kvs, [])"
    using foldl_mput_distinct [of "[]" kvs JStr] assms by simp
  have f: "2 * length (''{'' @ ?b) + 2 = Suc (Suc (2 * length ?b + 2))" by simp
  have "read_value (Suc (Suc (2 * length ?b + 2))) (CHR ''{'' # ?b) = Some (JObj (map (\<lambda>(k, v). (k, JStr v)) kvs), [])"
    using m by (subst read_value.simps) (simp add: skip_ws_plain t del: read_members.simps)
  then show ?thesis
    unfolding json_parse_def f by (simp add: skip_ws_def del: read_value.simps)
qed

text \<open>Reading back a printed map gives the map, in the order of its keys.\<close>

lemma unmarshal_print_string_map:
  assumes "distinct (map fst m)"
  shows "unmarshal_string_map (print_string_map m) = Some (map (\<lambda>k. (k, mget_default [] m k)) (sort (map fst m)))"
proof -
  let ?kvs = "map (\<lambda>k. (k, mget_default [] m k)) (sort (map fst m))"
  have "distinct (map fst ?kvs)" using assms by (simp add: comp_def)
  moreover have "print_string_map m = ''{'' @ Join (map print_member ?kvs) '','' @ ''}''"
    by (simp add: print_string_map_def print_member_def comp_def)
  ultimately show ?thesis
    by (simp only: unmarshal_string_map_def json_parse_members option.case json.case string_map_entries_JStr)
qed

end
