(* ===== verification/Schema.thy ===== *)
theory Schema
  imports GoJson
begin

text \<open>
  The data of the gateway, the structs under \<open>src/model\<close>, one record per struct with the field names
  of the code behind a short prefix, and the database as a record of tables. A table is the list of
  its rows in the order of their identifiers. GORM and the database are not part of the
  repository: the queries of the code are written as filters, updates and deletions of the tables
  (their SQL text is in the code), and what GORM does with a struct on \<open>Create\<close> or \<open>Updates\<close>
  (skipping zero fields, filling in column defaults) is an argument of the operations that rely on it.
\<close>

subsection \<open>Structs\<close>

record ModelRoute =
  mr_Id :: int
  mr_ModelName :: gostring
  mr_ProviderTokenId :: int
  mr_ProviderId :: int
  mr_Enabled :: bool
  mr_Priority :: int
  mr_Weight :: int

record Provider =
  p_Id :: int
  p_Name :: gostring
  p_BaseURL :: gostring
  p_AccessToken :: gostring
  p_UserID :: int
  p_Status :: int
  p_Priority :: int
  p_Weight :: int
  p_CheckinEnabled :: bool
  p_LastCheckinAt :: int
  p_Balance :: gostring
  p_BalanceUpdated :: int
  p_HealthStatus :: gostring
  p_HealthCheckAt :: int
  p_HealthSuccessAt :: int
  p_HealthFailureAt :: int
  p_HealthFailureReason :: gostring
  p_HealthCooldownUntil :: int
  p_ProxyEnabled :: bool
  p_ProxyURL :: gostring
  p_PricingGroupRatio :: gostring
  p_PricingUsableGroup :: gostring
  p_PricingSupportedEndpoint :: gostring
  p_ModelAliasMapping :: gostring
  p_Remark :: gostring
  p_CreatedAt :: int
  p_HealthBlocked :: bool
  p_BalanceFreshness :: gostring
  p_RouteEligible :: bool
  p_RouteBlockReasons :: "gostring list"
  p_ProxyURLRedacted :: gostring
  p_LastCheckinStatus :: gostring
  p_LastCheckinMessage :: gostring
  p_LastCheckinQuotaAwarded :: int
  p_LastCheckinResultAt :: int

record ProviderToken =
  pt_Id :: int
  pt_ProviderId :: int
  pt_UpstreamTokenId :: int
  pt_SkKey :: gostring
  pt_KeyStatus :: gostring
  pt_KeyUnresolvedReason :: gostring
  pt_Name :: gostring
  pt_GroupName :: gostring
  pt_Status :: int
  pt_Priority :: int
  pt_Weight :: int
  pt_RemainQuota :: int
  pt_UnlimitedQuota :: bool
  pt_UsedQuota :: int
  pt_ModelLimits :: gostring
  pt_LastSynced :: int
  pt_CreatedAt :: int

record ModelPricing =
  mp_Id :: int
  mp_ModelName :: gostring
  mp_ProviderId :: int
  mp_QuotaType :: int
  mp_ModelRatio :: real
  mp_CompletionRatio :: real
  mp_ModelPrice :: real
  mp_EnableGroups :: gostring
  mp_SupportedEndpointTypes :: gostring
  mp_LastSynced :: int

record AggregatedToken =
  at_Id :: int
  at_UserId :: int
  at_Key :: gostring
  at_Name :: gostring
  at_Status :: int
  at_ExpiredTime :: int
  at_ModelLimitsEnabled :: bool
  at_ModelLimits :: gostring
  at_AllowIps :: gostring
  at_CreatedAt :: int
  at_AccessedAt :: int

record User =
  u_Id :: int
  u_Username :: gostring
  u_Password :: gostring
  u_DisplayName :: gostring
  u_Role :: int
  u_Status :: int
  u_Token :: gostring
  u_Email :: gostring
  u_GitHubId :: gostring
  u_WeChatId :: gostring
  u_VerificationCode :: gostring

record UsageLog =
  ul_Id :: int
  ul_UserId :: int
  ul_AggregatedTokenId :: int
  ul_ProviderId :: int
  ul_ProviderName :: gostring
  ul_ProviderTokenId :: int
  ul_ModelName :: gostring
  ul_PromptTokens :: int
  ul_CompletionTokens :: int
  ul_CacheTokens :: int
  ul_CacheCreationTokens :: int
  ul_CacheCreation5mTokens :: int
  ul_CacheCreation1hTokens :: int
  ul_ResponseTimeMs :: int
  ul_FirstTokenMs :: int
  ul_IsStream :: bool
  ul_CostUSD :: real
  ul_Status :: int
  ul_ErrorMessage :: gostring
  ul_FailureCategory :: gostring
  ul_InvalidReason :: gostring
  ul_TransportStatusCode :: int
  ul_ClientIp :: gostring
  ul_RequestId :: gostring
  ul_RelayRequestId :: gostring
  ul_AttemptIndex :: int
  ul_RequestModelOriginal :: gostring
  ul_RequestModelCanonical :: gostring
  ul_RequestModelResolved :: gostring
  ul_UsageSource :: gostring
  ul_UsageParser :: gostring
  ul_CreatedAt :: int

subsection \<open>Errors\<close>

text \<open>The error values of the code; the Chinese message texts are constructor names here.\<close>

datatype gw_error =
    ErrEmptyId | ErrInvalidProvider | ErrNotFound | ErrDb | ErrInvalidModelName | ErrNoRoute gostring
  | ErrRouteSelection | ErrInvalidRouteId | ErrNoFields | ErrNoPatches | ErrProxyURLMissing | ErrProxyURLInvalid
  | ErrProxyScheme | ErrEmptyKey | ErrInvalidAggToken | ErrAggTokenDisabled | ErrAggTokenExpired
  | ErrUserMissing | ErrUserBanned | ErrKeyAttempts | ErrKeyGeneration | ErrEmptyCredentials | ErrBadCredentials | ErrOther gostring

subsection \<open>The database\<close>

record db =
  db_providers :: "Provider list"
  db_tokens :: "ProviderToken list"
  db_routes :: "ModelRoute list"
  db_pricings :: "ModelPricing list"
  db_aggtokens :: "AggregatedToken list"
  db_users :: "User list"
  db_logs :: "UsageLog list"

definition UserStatusEnabled :: int where
  "UserStatusEnabled = 1"

definition UserStatusDisabled :: int where
  "UserStatusDisabled = 2"

definition row_update :: "('a \<Rightarrow> bool) \<Rightarrow> ('a \<Rightarrow> 'a) \<Rightarrow> 'a list \<Rightarrow> 'a list" where
  \<comment> \<open>\<open>Where(P).Updates(f)\<close>\<close>
  "row_update P f t = map (\<lambda>r. if P r then f r else r) t"

definition row_delete :: "('a \<Rightarrow> bool) \<Rightarrow> 'a list \<Rightarrow> 'a list" where
  \<comment> \<open>\<open>Where(P).Delete\<close>\<close>
  "row_delete P t = filter (\<lambda>r. \<not> P r) t"

definition next_row_id :: "('a \<Rightarrow> int) \<Rightarrow> 'a list \<Rightarrow> int" where
  "next_row_id f t = fold (\<lambda>r m. max m (f r)) t 0 + 1"

text \<open>\<open>LIKE\<close> of SQLite, the default database: \<open>%\<close> and \<open>_\<close> are wild cards and letters match in either case.\<close>

fun sql_like :: "string \<Rightarrow> string \<Rightarrow> bool" where
  "sql_like [] s = (s = [])"
| "sql_like (c # p) [] = (c = CHR ''%'' \<and> sql_like p [])"
| "sql_like (c # p) (d # s) =
    (if c = CHR ''%'' then sql_like p (d # s) \<or> sql_like (c # p) s
     else (c = CHR ''_'' \<or> lower_char c = lower_char d) \<and> sql_like p s)"

definition like_any :: "gostring \<Rightarrow> gostring \<Rightarrow> bool" where
  \<comment> \<open>\<open>col LIKE "%" + keyword + "%"\<close>\<close>
  "like_any keyword col = sql_like (''%'' @ keyword @ ''%'') col"

text \<open>\<open>ORDER BY id DESC LIMIT num OFFSET start\<close>.\<close>

definition page_desc :: "('a \<Rightarrow> int) \<Rightarrow> int \<Rightarrow> int \<Rightarrow> 'a list \<Rightarrow> 'a list" where
  "page_desc f start num t = take (nat num) (drop (nat start) (sort_key (\<lambda>r. - f r) t))"

lemma set_row_delete [simp]: "set (row_delete P t) = {r \<in> set t. \<not> P r}"
  by (simp add: row_delete_def)

lemma row_update_other: "(\<And>r. r \<in> set t \<Longrightarrow> \<not> P r) \<Longrightarrow> row_update P f t = t"
  by (simp add: row_update_def map_idI)

lemma map_row_update:
  "(\<And>r. g (f r) = g r) \<Longrightarrow> map g (row_update P f t) = map g t"
  by (simp add: row_update_def)

lemma fold_max_ge: "m \<le> fold (\<lambda>r m. max m (f r)) t (m :: int)"
  by (induction t arbitrary: m) (auto intro: max.coboundedI1 order_trans [OF max.cobounded1])

lemma fold_max_in: "r \<in> set t \<Longrightarrow> f r \<le> fold (\<lambda>r m. max m (f r)) t (m :: int)"
proof (induction t arbitrary: m)
  case (Cons a t)
  then show ?case using fold_max_ge [where f = f and t = t and m = "max m (f a)"] by auto
qed simp

lemma next_row_id_fresh: "r \<in> set t \<Longrightarrow> f r < next_row_id f t"
  using fold_max_in [of r t f 0] by (simp add: next_row_id_def)

end
