(* ===== verification/AliasMapping.thy ===== *)
theory AliasMapping
  imports ModelName Schema
begin

text \<open>
  \<open>src/model/provider_alias_mapping.go\<close>: the alias mapping of a provider (names the clients ask for
  to names the provider serves), stored as a JSON object, and the two lookups built from it. A
  Go map is an association list with distinct keys; the loops that sort the keys first make the
  result independent of the order of that list.
\<close>

record providerModelAliasLookup =
  al_direct :: "(gostring, gostring) gomap"
  al_normalized :: "(gostring, gostring) gomap"

record providerModelAliasReverseLookup =
  rl_directByTarget :: "(gostring, gostring) gomap"
  rl_normalizedByTarget :: "(gostring, gostring) gomap"

subsection \<open>Cleaning, parsing and printing\<close>

fun NormalizeProviderAliasMapping :: "(gostring, gostring) gomap \<Rightarrow> (gostring, gostring) gomap" where
  "NormalizeProviderAliasMapping [] = []"
| "NormalizeProviderAliasMapping ((source, target) # mapping) =
    (let key = TrimSpace source; val = TrimSpace target;
         rest = NormalizeProviderAliasMapping mapping
     in if key = [] \<or> val = [] then rest else if mget rest key = None then (key, val) # rest else rest)"

definition ParseProviderAliasMapping :: "gostring \<Rightarrow> (gostring, gostring) gomap" where
  "ParseProviderAliasMapping raw =
    (if TrimSpace raw = [] then []
     else case unmarshal_string_map raw of
            None \<Rightarrow> []
          | Some parsed \<Rightarrow> NormalizeProviderAliasMapping parsed)"

definition MarshalProviderAliasMapping :: "(gostring, gostring) gomap \<Rightarrow> gostring" where
  "MarshalProviderAliasMapping mapping =
    (let clean = NormalizeProviderAliasMapping mapping in
     if clean = [] then ''{}'' else print_string_map clean)"

subsection \<open>Lookups\<close>

definition sorted_sources :: "(gostring, gostring) gomap \<Rightarrow> gostring list" where
  "sorted_sources mapping = sort (map fst mapping)"

definition add_alias_lookup ::
  "(gostring, gostring) gomap \<Rightarrow> gostring \<Rightarrow> providerModelAliasLookup \<Rightarrow> providerModelAliasLookup" where
  \<comment> \<open>one round of the loop of \<open>buildProviderModelAliasLookup\<close>\<close>
  "add_alias_lookup mapping source lookup =
    (let target = mget_default [] mapping source;
         key = TrimSpace source; val = TrimSpace target
     in if key = [] \<or> val = [] then lookup
        else
          let lookup = lookup\<lparr>al_direct := mput (ToLower key) val (al_direct lookup)\<rparr>;
              normalizedKey = NormalizeModelName key
          in if normalizedKey = [] then lookup
             else lookup\<lparr>al_normalized := mput normalizedKey val (al_normalized lookup)\<rparr>)"

definition buildProviderModelAliasLookup :: "(gostring, gostring) gomap \<Rightarrow> providerModelAliasLookup" where
  "buildProviderModelAliasLookup mapping =
    fold (add_alias_lookup mapping) (sorted_sources mapping) \<lparr>al_direct = [], al_normalized = []\<rparr>"

definition put_if_absent :: "'k \<Rightarrow> 'v \<Rightarrow> ('k, 'v) gomap \<Rightarrow> ('k, 'v) gomap" where
  \<comment> \<open>\<open>if _, exists := m[k]; !exists { m[k] = v }\<close>\<close>
  "put_if_absent k v m = (if mget m k = None then mput k v m else m)"

definition add_alias_reverse ::
  "(gostring, gostring) gomap \<Rightarrow> gostring \<Rightarrow> providerModelAliasReverseLookup \<Rightarrow> providerModelAliasReverseLookup" where
  "add_alias_reverse mapping source reverse =
    (let normalizedSource = TrimSpace source;
         normalizedTarget = TrimSpace (mget_default [] mapping source)
     in if normalizedSource = [] \<or> normalizedTarget = [] then reverse
        else
          let reverse = reverse\<lparr>rl_directByTarget :=
                put_if_absent (ToLower normalizedTarget) normalizedSource (rl_directByTarget reverse)\<rparr>;
              normTarget = NormalizeModelName normalizedTarget
          in if normTarget = [] then reverse
             else reverse\<lparr>rl_normalizedByTarget :=
                put_if_absent normTarget normalizedSource (rl_normalizedByTarget reverse)\<rparr>)"

definition buildProviderModelAliasReverseLookup ::
  "(gostring, gostring) gomap \<Rightarrow> providerModelAliasReverseLookup" where
  "buildProviderModelAliasReverseLookup mapping =
    fold (add_alias_reverse mapping) (sorted_sources mapping) \<lparr>rl_directByTarget = [], rl_normalizedByTarget = []\<rparr>"

definition AliasLookup_Resolve :: "providerModelAliasLookup \<Rightarrow> gostring \<Rightarrow> gostring option" where
  "AliasLookup_Resolve l source =
    (let key = TrimSpace source;
         by_norm = (let normalizedKey = NormalizeModelName key in
                    if normalizedKey = [] then None
                    else case mget (al_normalized l) normalizedKey of
                      None \<Rightarrow> None
                    | Some target \<Rightarrow> if TrimSpace target = [] then None else Some (TrimSpace target))
     in if key = [] then None
        else case mget (al_direct l) (ToLower key) of
          Some target \<Rightarrow> if TrimSpace target \<noteq> [] then Some (TrimSpace target) else by_norm
        | None \<Rightarrow> by_norm)"

definition ResolveByTarget :: "providerModelAliasReverseLookup \<Rightarrow> gostring \<Rightarrow> gostring option" where
  "ResolveByTarget l target =
    (let raw = TrimSpace target;
         by_norm = (let normTarget = NormalizeModelName raw in
                    if normTarget = [] then None
                    else case mget (rl_normalizedByTarget l) normTarget of
                      None \<Rightarrow> None
                    | Some source \<Rightarrow> if TrimSpace source = [] then None else Some (TrimSpace source))
     in if raw = [] then None
        else case mget (rl_directByTarget l) (ToLower raw) of
          Some source \<Rightarrow> if TrimSpace source \<noteq> [] then Some (TrimSpace source) else by_norm
        | None \<Rightarrow> by_norm)"

subsection \<open>A clean mapping\<close>

definition clean_mapping :: "(gostring, gostring) gomap \<Rightarrow> bool" where
  "clean_mapping m \<longleftrightarrow> distinct (map fst m)
     \<and> list_all (\<lambda>(k, v). k \<noteq> [] \<and> v \<noteq> [] \<and> TrimSpace k = k \<and> TrimSpace v = v) m"

lemma clean_Normalize: "clean_mapping (NormalizeProviderAliasMapping m)"
proof (induction m rule: NormalizeProviderAliasMapping.induct)
  case (2 source target m)
  let ?r = "NormalizeProviderAliasMapping m"
  have "mget ?r k = None \<Longrightarrow> k \<notin> fst ` set ?r" for k
    by (simp add: mget_def map_of_eq_None_iff)
  with 2 show ?case
    by (auto simp: clean_mapping_def Let_def)
qed (simp add: clean_mapping_def)

lemma Normalize_clean: "clean_mapping m \<Longrightarrow> NormalizeProviderAliasMapping m = m"
proof (induction m)
  case (Cons kv m)
  obtain k v where kv: "kv = (k, v)" by (cases kv)
  have "clean_mapping m" using Cons.prems by (simp add: clean_mapping_def)
  moreover have "mget m k = None"
    using Cons.prems by (simp add: kv clean_mapping_def mget_def map_of_eq_None_iff)
  ultimately show ?case using Cons by (simp add: kv clean_mapping_def Let_def)
qed simp

lemma clean_permute: "clean_mapping m \<Longrightarrow> mset m' = mset m \<Longrightarrow> clean_mapping m'"
proof -
  assume m: "clean_mapping m" "mset m' = mset m"
  have "mset (map fst m') = mset (map fst m)" by (simp add: m(2))
  then have "distinct (map fst m') = distinct (map fst m)" by (rule mset_eq_imp_distinct_iff)
  moreover have "set m' = set m" using m(2) by (rule mset_eq_setD)
  ultimately show ?thesis using m(1) by (simp add: clean_mapping_def list_all_iff)
qed

lemma clean_by_keys:
  assumes "clean_mapping m"
  shows "mset (map (\<lambda>k. (k, mget_default [] m k)) (sort (map fst m))) = mset m"
proof -
  have "map ((\<lambda>k. (k, mget_default [] m k)) \<circ> fst) m = m"
    using assms mget_in by (intro map_idI) (fastforce simp: clean_mapping_def mget_default_def)
  then show ?thesis by (metis map_map mset_map mset_sort)
qed

lemma TrimSpace_brace: "CHR ''{'' \<in> set s \<Longrightarrow> TrimSpace s \<noteq> []"
  using TrimSpace_keeps [of "CHR ''{''" s] by (auto simp: go_spaces_def)

lemma Parse_print:
  assumes "clean_mapping m"
  shows "ParseProviderAliasMapping (print_string_map m) = map (\<lambda>k. (k, mget_default [] m k)) (sort (map fst m))"
proof -
  have "TrimSpace (print_string_map m) \<noteq> []"
    by (rule TrimSpace_brace) (simp add: print_string_map_def)
  moreover have "distinct (map fst m)" using assms by (simp add: clean_mapping_def)
  moreover note Normalize_clean [OF clean_permute [OF assms clean_by_keys [OF assms]]]
  ultimately show ?thesis by (simp add: ParseProviderAliasMapping_def unmarshal_print_string_map)
qed

text \<open>
  C23: an alias mapping survives being stored: parsing what \<open>MarshalProviderAliasMapping\<close> prints gives
  the cleaned mapping back, with its keys in ascending order (quotes, backslashes, control
  characters and HTML characters in names included).
\<close>

theorem Parse_Marshal_alias_mapping:
  "ParseProviderAliasMapping (MarshalProviderAliasMapping m) =
    map (\<lambda>k. (k, mget_default [] (NormalizeProviderAliasMapping m) k))
      (sort (map fst (NormalizeProviderAliasMapping m)))"
proof (cases "NormalizeProviderAliasMapping m = []")
  case True
  have "json_parse ''{}'' = Some (JObj [])" using json_parse_members [of "[]"] by simp
  moreover have "TrimSpace ''{}'' \<noteq> []" by (rule TrimSpace_brace) simp
  ultimately show ?thesis
    using True by (simp add: MarshalProviderAliasMapping_def ParseProviderAliasMapping_def unmarshal_string_map_def)
next
  case False
  then show ?thesis
    using Parse_print [OF clean_Normalize [of m]] by (simp add: MarshalProviderAliasMapping_def Let_def)
qed

subsection \<open>What a lookup returns\<close>

lemma fold_add_alias:
  assumes "list_all (\<lambda>s. TrimSpace s \<noteq> [] \<and> TrimSpace (mget_default [] m s) \<noteq> []) ss"
  shows "mget (al_direct (fold (add_alias_lookup m) ss l)) k =
      (case find (\<lambda>s. ToLower (TrimSpace s) = k) (rev ss) of
         Some s \<Rightarrow> Some (TrimSpace (mget_default [] m s)) | None \<Rightarrow> mget (al_direct l) k)"
    and "k \<noteq> [] \<Longrightarrow> mget (al_normalized (fold (add_alias_lookup m) ss l)) k =
      (case find (\<lambda>s. NormalizeModelName (TrimSpace s) = k) (rev ss) of
         Some s \<Rightarrow> Some (TrimSpace (mget_default [] m s)) | None \<Rightarrow> mget (al_normalized l) k)"
  using assms
  by (induction ss rule: rev_induct) (auto simp: add_alias_lookup_def Let_def)

lemma mget_put_if_absent [simp]:
  "mget (put_if_absent a v m) k = (if k = a \<and> mget m k = None then Some v else mget m k)"
  by (auto simp: put_if_absent_def)

lemma fold_add_reverse:
  assumes "list_all (\<lambda>s. TrimSpace s \<noteq> [] \<and> TrimSpace (mget_default [] m s) \<noteq> []) ss"
  shows "mget (rl_directByTarget (fold (add_alias_reverse m) ss l)) k =
      (case mget (rl_directByTarget l) k of Some v \<Rightarrow> Some v
       | None \<Rightarrow> map_option TrimSpace (find (\<lambda>s. ToLower (TrimSpace (mget_default [] m s)) = k) ss))"
    and "k \<noteq> [] \<Longrightarrow> mget (rl_normalizedByTarget (fold (add_alias_reverse m) ss l)) k =
      (case mget (rl_normalizedByTarget l) k of Some v \<Rightarrow> Some v
       | None \<Rightarrow> map_option TrimSpace (find (\<lambda>s. NormalizeModelName (TrimSpace (mget_default [] m s)) = k) ss))"
  using assms
  by (induction ss arbitrary: l) (auto simp: add_alias_reverse_def Let_def split: option.splits)

lemma clean_lookup:
  assumes "clean_mapping m" and "s \<in> set (sorted_sources m)"
  shows "s \<noteq> []" "TrimSpace s = s" "mget_default [] m s \<noteq> []"
    "TrimSpace (mget_default [] m s) = mget_default [] m s"
proof -
  obtain v where v: "(s, v) \<in> set m" using assms(2) by (auto simp: sorted_sources_def)
  then have "mget m s = Some v" using assms(1) by (simp add: mget_in clean_mapping_def)
  then show "s \<noteq> []" "TrimSpace s = s" "mget_default [] m s \<noteq> []"
    "TrimSpace (mget_default [] m s) = mget_default [] m s"
    using v assms(1) by (auto simp: clean_mapping_def list_all_iff mget_default_def)
qed

lemma find_cong': "(\<And>x. x \<in> set xs \<Longrightarrow> P x = Q x) \<Longrightarrow> find P xs = find Q xs"
  by (induction xs) auto

lemma find_in: "find P xs = Some x \<Longrightarrow> x \<in> set xs \<and> P x"
  by (auto simp: find_Some_iff)

text \<open>The reference reading of an alias lookup: among the sources in ascending order, the last one
  that equals the name up to case, or else the last one with the same normal form.\<close>

definition alias_target_of :: "(gostring, gostring) gomap \<Rightarrow> gostring \<Rightarrow> gostring option" where
  "alias_target_of m name =
    (case find (\<lambda>s. EqualFold s name) (rev (sorted_sources m)) of
       Some s \<Rightarrow> Some (mget_default [] m s)
     | None \<Rightarrow>
         if NormalizeModelName name = [] then None
         else map_option (mget_default [] m)
                (find (\<lambda>s. NormalizeModelName s = NormalizeModelName name) (rev (sorted_sources m))))"

definition alias_source_of :: "(gostring, gostring) gomap \<Rightarrow> gostring \<Rightarrow> gostring option" where
  "alias_source_of m name =
    (case find (\<lambda>s. EqualFold (mget_default [] m s) name) (sorted_sources m) of
       Some s \<Rightarrow> Some s
     | None \<Rightarrow>
         if NormalizeModelName name = [] then None
         else find (\<lambda>s. NormalizeModelName (mget_default [] m s) = NormalizeModelName name) (sorted_sources m))"

text \<open>
  On a cleaned mapping, the alias lookup and the reverse lookup of the code compute the
  reference reading: an exact match up to case wins over a match of normal forms; among several
  sources the forward lookup takes the greatest and the reverse lookup the least.
\<close>

theorem alias_lookups_refine:
  assumes "clean_mapping m" and "TrimSpace name \<noteq> []"
  shows "AliasLookup_Resolve (buildProviderModelAliasLookup m) name = alias_target_of m (TrimSpace name)
    \<and> ResolveByTarget (buildProviderModelAliasReverseLookup m) name = alias_source_of m (TrimSpace name)"
proof -
  let ?n = "TrimSpace name" and ?ss = "sorted_sources m"
  have ok: "list_all (\<lambda>s. TrimSpace s \<noteq> [] \<and> TrimSpace (mget_default [] m s) \<noteq> []) ?ss"
    using clean_lookup [OF assms(1)] by (auto simp: list_all_iff)
  note c = clean_lookup [OF assms(1)]
  have f: "find (\<lambda>s. ToLower (TrimSpace s) = ToLower ?n) (rev ?ss) = find (\<lambda>s. EqualFold s ?n) (rev ?ss)"
    "find (\<lambda>s. NormalizeModelName (TrimSpace s) = k) (rev ?ss) = find (\<lambda>s. NormalizeModelName s = k) (rev ?ss)"
    "find (\<lambda>s. ToLower (TrimSpace (mget_default [] m s)) = ToLower ?n) ?ss = find (\<lambda>s. EqualFold (mget_default [] m s) ?n) ?ss"
    "find (\<lambda>s. NormalizeModelName (TrimSpace (mget_default [] m s)) = k) ?ss = find (\<lambda>s. NormalizeModelName (mget_default [] m s) = k) ?ss"
    for k using c by (auto intro!: find_cong' simp: EqualFold_def)
  have "AliasLookup_Resolve (buildProviderModelAliasLookup m) name = alias_target_of m ?n"
    unfolding AliasLookup_Resolve_def buildProviderModelAliasLookup_def alias_target_of_def Let_def
      fold_add_alias(1) [OF ok] f(1)
    using assms(2) fold_add_alias(2) [OF ok, of "NormalizeModelName ?n"] c
    by (auto simp: f(2) split: option.splits dest!: find_in)
  moreover have "ResolveByTarget (buildProviderModelAliasReverseLookup m) name = alias_source_of m ?n"
    unfolding ResolveByTarget_def buildProviderModelAliasReverseLookup_def alias_source_of_def Let_def
      fold_add_reverse(1) [OF ok] f(3)
    using assms(2) fold_add_reverse(2) [OF ok, of "NormalizeModelName ?n"] c
    by (auto simp: f(4) split: option.splits dest!: find_in)
  ultimately show ?thesis by blast
qed

theorem alias_lookups_refine_witness:
  "AliasLookup_Resolve (buildProviderModelAliasLookup [(''GPT-4o'', ''openai/gpt-4o'')]) '' gpt-4O '' = Some ''openai/gpt-4o''"
  using alias_lookups_refine [of "[(''GPT-4o'', ''openai/gpt-4o'')]" "'' gpt-4O ''"]
  by (simp add: clean_mapping_def) code_simp

end
