(* ===== verification/ModelCatalog.thy ===== *)
theory ModelCatalog
  imports AliasMapping
begin

text \<open>
  \<open>src/model/model_catalog.go\<close>: the catalog of canonical model names derived from the enabled routes
  and the reverse alias lookups of their providers, and the resolution of a requested name to a
  catalog entry.
\<close>

record UnifiedModelCatalogItem =
  ci_CanonicalModel :: gostring
  ci_Aliases :: "gostring list"
  ci_RouteTargets :: "gostring list"

record modelCatalogSnapshot =
  cs_entries :: "UnifiedModelCatalogItem list"
  cs_byCanonical :: "(gostring, nat) gomap"
  cs_byExact :: "(gostring, nat) gomap"
  cs_byNormalized :: "(gostring, nat) gomap"
  cs_byVersionKey :: "(gostring, nat) gomap"

record catalogNameCandidate =
  nc_name :: gostring
  nc_rank :: int

record modelCatalogBuildBucket =
  cb_canonicalName :: gostring
  cb_routeTargets :: "(gostring, gostring) gomap"
  cb_aliases :: "(gostring, gostring) gomap"
  cb_candidates :: "(gostring, catalogNameCandidate) gomap"

definition newModelCatalogBuildBucket :: modelCatalogBuildBucket where
  "newModelCatalogBuildBucket = \<lparr>cb_canonicalName = [], cb_routeTargets = [], cb_aliases = [], cb_candidates = []\<rparr>"

subsection \<open>The stable text order\<close>

definition compareTextStable :: "gostring \<Rightarrow> gostring \<Rightarrow> int" where
  "compareTextStable a b =
    (let al = ToLower (TrimSpace a); bl = ToLower (TrimSpace b) in
     if al < bl then -1 else if al > bl then 1
     else if TrimSpace a < TrimSpace b then -1
     else if TrimSpace a > TrimSpace b then 1 else 0)"

definition text_before :: "gostring \<Rightarrow> gostring \<Rightarrow> bool" where
  "text_before a b \<longleftrightarrow> compareTextStable a b < 0"

interpretation text_order: strict_weak text_before
  by unfold_locales
     (auto simp: text_before_def compareTextStable_def Let_def not_less split: if_splits)

lemma text_before_total: "TrimSpace a = a \<Longrightarrow> TrimSpace b = b \<Longrightarrow> a \<noteq> b \<Longrightarrow> text_before a b \<or> text_before b a"
  by (auto simp: text_before_def compareTextStable_def Let_def not_less)

definition sortedMapValues :: "(gostring, gostring) gomap \<Rightarrow> gostring list" where
  "sortedMapValues values = sort_by text_before (filter (\<lambda>v. v \<noteq> []) (map (TrimSpace \<circ> snd) values))"

subsection \<open>Buckets\<close>

definition put_stable :: "gostring \<Rightarrow> (gostring, gostring) gomap \<Rightarrow> (gostring, gostring) gomap" where
  \<comment> \<open>the common body of \<open>addRouteTarget\<close> and \<open>addAlias\<close>\<close>
  "put_stable value_text m =
    (let trimmed = TrimSpace value_text; lower = ToLower trimmed in
     if trimmed = [] then m
     else case mget m lower of
            Some existing \<Rightarrow> if compareTextStable trimmed existing < 0 then mput lower trimmed m else m
          | None \<Rightarrow> mput lower trimmed m)"

definition addRouteTarget :: "gostring \<Rightarrow> modelCatalogBuildBucket \<Rightarrow> modelCatalogBuildBucket" where
  "addRouteTarget v b = b\<lparr>cb_routeTargets := put_stable v (cb_routeTargets b)\<rparr>"

definition addAlias :: "gostring \<Rightarrow> modelCatalogBuildBucket \<Rightarrow> modelCatalogBuildBucket" where
  "addAlias v b = b\<lparr>cb_aliases := put_stable v (cb_aliases b)\<rparr>"

definition addCandidate :: "gostring \<Rightarrow> int \<Rightarrow> modelCatalogBuildBucket \<Rightarrow> modelCatalogBuildBucket" where
  "addCandidate v rank b =
    (let trimmed = TrimSpace v; lower = ToLower trimmed; new = \<lparr>nc_name = trimmed, nc_rank = rank\<rparr> in
     if trimmed = [] then b
     else case mget (cb_candidates b) lower of
            None \<Rightarrow> b\<lparr>cb_candidates := mput lower new (cb_candidates b)\<rparr>
          | Some current \<Rightarrow>
              if rank < nc_rank current
                \<or> (rank = nc_rank current \<and> compareTextStable trimmed (nc_name current) < 0)
              then b\<lparr>cb_candidates := mput lower new (cb_candidates b)\<rparr> else b)"

definition candidate_before :: "catalogNameCandidate \<Rightarrow> catalogNameCandidate \<Rightarrow> bool" where
  "candidate_before a b =
    (if nc_rank a \<noteq> nc_rank b then nc_rank a < nc_rank b
     else compareTextStable (nc_name a) (nc_name b) < 0)"

interpretation candidate_order: strict_weak candidate_before
proof unfold_locales
  fix a b c
  show "candidate_before a b \<Longrightarrow> \<not> candidate_before b a"
    using text_order.lt_asym by (auto simp: candidate_before_def text_before_def split: if_splits)
  show "\<not> candidate_before a b \<Longrightarrow> \<not> candidate_before b c \<Longrightarrow> \<not> candidate_before a c"
    using text_order.lt_negtrans [of "nc_name a" "nc_name b" "nc_name c"]
    by (auto simp: candidate_before_def text_before_def split: if_splits)
qed

definition chooseCanonicalName :: "modelCatalogBuildBucket \<Rightarrow> gostring" where
  "chooseCanonicalName bucket =
    (if cb_candidates bucket = [] then
       (case sortedMapValues (cb_aliases bucket) of
          a # _ \<Rightarrow> a
        | [] \<Rightarrow> (case sortedMapValues (cb_routeTargets bucket) of t # _ \<Rightarrow> t | [] \<Rightarrow> []))
     else TrimSpace (nc_name (hd (sort_by candidate_before (map snd (cb_candidates bucket))))))"

subsection \<open>Building the snapshot\<close>

definition newModelCatalogSnapshot :: modelCatalogSnapshot where
  "newModelCatalogSnapshot =
    \<lparr>cs_entries = [], cs_byCanonical = [], cs_byExact = [], cs_byNormalized = [], cs_byVersionKey = []\<rparr>"

definition registerLookup :: "nat \<Rightarrow> gostring \<Rightarrow> modelCatalogSnapshot \<Rightarrow> modelCatalogSnapshot" where
  "registerLookup entryIdx candidate s =
    (let trimmed = TrimSpace candidate in
     if trimmed = [] then s
     else
       let s = s\<lparr>cs_byExact := put_if_absent (ToLower trimmed) entryIdx (cs_byExact s)\<rparr>;
           normalized = NormalizeModelName trimmed
       in if normalized = [] then s
          else
            let s = s\<lparr>cs_byNormalized := put_if_absent normalized entryIdx (cs_byNormalized s)\<rparr>;
                versionKey = ToVersionAgnosticKey normalized
            in if versionKey = [] then s
               else s\<lparr>cs_byVersionKey := put_if_absent versionKey entryIdx (cs_byVersionKey s)\<rparr>)"

definition listEntries :: "modelCatalogSnapshot \<Rightarrow> UnifiedModelCatalogItem list" where
  "listEntries s = map (\<lambda>entry. \<lparr>ci_CanonicalModel = ci_CanonicalModel entry,
     ci_Aliases = ci_Aliases entry, ci_RouteTargets = ci_RouteTargets entry\<rparr>) (cs_entries s)"

definition canonicalModels :: "modelCatalogSnapshot \<Rightarrow> gostring list" where
  "canonicalModels s = filter (\<lambda>c. c \<noteq> []) (map (TrimSpace \<circ> ci_CanonicalModel) (cs_entries s))"

definition entry_at :: "modelCatalogSnapshot \<Rightarrow> (gostring, nat) gomap \<Rightarrow> gostring \<Rightarrow> UnifiedModelCatalogItem option" where
  \<comment> \<open>\<open>if idx, ok := m[k]; ok && idx < len(s.entries)\<close>\<close>
  "entry_at s m k =
    (case mget m k of
       Some idx \<Rightarrow> if idx < length (cs_entries s) then Some (cs_entries s ! idx) else None
     | None \<Rightarrow> None)"

definition catalog_resolve :: "modelCatalogSnapshot \<Rightarrow> gostring \<Rightarrow> UnifiedModelCatalogItem option" where
  "catalog_resolve s modelName =
    (let trimmed = TrimSpace modelName; lower = ToLower trimmed in
     if trimmed = [] \<or> cs_entries s = [] then None
     else case entry_at s (cs_byCanonical s) lower of
       Some e \<Rightarrow> Some e
     | None \<Rightarrow> (case entry_at s (cs_byExact s) lower of
         Some e \<Rightarrow> Some e
       | None \<Rightarrow>
           (let normalized = NormalizeModelName trimmed in
            if normalized = [] then None
            else case entry_at s (cs_byNormalized s) normalized of
              Some e \<Rightarrow> Some e
            | None \<Rightarrow>
                (let versionKey = ToVersionAgnosticKey normalized in
                 if versionKey = [] then None else entry_at s (cs_byVersionKey s) versionKey))))"

definition bucket_add_route ::
  "(int, providerModelAliasReverseLookup) gomap \<Rightarrow> ModelRoute \<Rightarrow> modelCatalogBuildBucket \<Rightarrow> modelCatalogBuildBucket" where
  \<comment> \<open>what the first loop of \<open>buildModelCatalogSnapshot\<close> does to the bucket of a route\<close>
  "bucket_add_route reverseLookups route bucket =
    (let routeName = TrimSpace (mr_ModelName route);
         routeNormalized = NormalizeModelName routeName;
         bucket = addCandidate routeName 3 (addAlias routeName (addRouteTarget routeName bucket));
         bucket = (if routeNormalized \<noteq> []
                   then addCandidate routeNormalized 2 (addAlias routeNormalized bucket) else bucket)
     in case mget reverseLookups (mr_ProviderId route) of
          None \<Rightarrow> bucket
        | Some reverseLookup \<Rightarrow>
            (case ResolveByTarget reverseLookup routeName of
               None \<Rightarrow> bucket
             | Some source \<Rightarrow>
                 (let bucket = addCandidate source 1 (addAlias source bucket);
                      sourceNormalized = NormalizeModelName source
                  in if sourceNormalized \<noteq> [] then addAlias sourceNormalized bucket else bucket)))"

definition semantic_step ::
  "(int, providerModelAliasReverseLookup) gomap \<Rightarrow> ModelRoute
   \<Rightarrow> (gostring, modelCatalogBuildBucket) gomap \<Rightarrow> (gostring, modelCatalogBuildBucket) gomap" where
  "semantic_step reverseLookups route semanticBuckets =
    (let routeName = TrimSpace (mr_ModelName route) in
     if routeName = [] then semanticBuckets
     else
       let routeNormalized = NormalizeModelName routeName;
           semanticKey = (if routeNormalized \<noteq> [] then routeNormalized else ToLower routeName)
       in mput semanticKey
            (bucket_add_route reverseLookups route
               (mget_default newModelCatalogBuildBucket semanticBuckets semanticKey)) semanticBuckets)"

definition canonical_step ::
  "(gostring, modelCatalogBuildBucket) gomap \<Rightarrow> gostring
   \<Rightarrow> (gostring, modelCatalogBuildBucket) gomap \<Rightarrow> (gostring, modelCatalogBuildBucket) gomap" where
  "canonical_step semanticBuckets key canonicalBuckets =
    (let bucket = mget_default newModelCatalogBuildBucket semanticBuckets key;
         canonical = chooseCanonicalName bucket
     in if canonical = [] then canonicalBuckets
        else
          let canonicalKey = ToLower (TrimSpace canonical);
              merged = (case mget canonicalBuckets canonicalKey of
                          Some merged \<Rightarrow> merged
                        | None \<Rightarrow> newModelCatalogBuildBucket\<lparr>cb_canonicalName := canonical\<rparr>);
              merged = (if cb_canonicalName merged = [] \<or> compareTextStable canonical (cb_canonicalName merged) < 0
                        then merged\<lparr>cb_canonicalName := canonical\<rparr> else merged);
              merged = addAlias canonical merged;
              merged = fold addAlias (sortedMapValues (cb_aliases bucket)) merged;
              merged = fold addRouteTarget (sortedMapValues (cb_routeTargets bucket)) merged
          in mput canonicalKey merged canonicalBuckets)"

definition entry_step ::
  "(gostring, modelCatalogBuildBucket) gomap \<Rightarrow> gostring \<Rightarrow> modelCatalogSnapshot \<Rightarrow> modelCatalogSnapshot" where
  "entry_step canonicalBuckets canonicalKey snapshot =
    (let bucket = mget_default newModelCatalogBuildBucket canonicalBuckets canonicalKey;
         canonical0 = TrimSpace (cb_canonicalName bucket);
         canonical = (if canonical0 = [] then canonicalKey else canonical0);
         bucket = addAlias canonical bucket;
         entry = \<lparr>ci_CanonicalModel = canonical, ci_Aliases = sortedMapValues (cb_aliases bucket),
                  ci_RouteTargets = sortedMapValues (cb_routeTargets bucket)\<rparr>;
         entryIdx = length (cs_entries snapshot);
         snapshot = snapshot\<lparr>cs_entries := cs_entries snapshot @ [entry],
                             cs_byCanonical := mput (ToLower canonical) entryIdx (cs_byCanonical snapshot)\<rparr>;
         snapshot = registerLookup entryIdx canonical snapshot;
         snapshot = fold (registerLookup entryIdx) (ci_Aliases entry) snapshot
     in fold (registerLookup entryIdx) (ci_RouteTargets entry) snapshot)"

definition semantic_buckets ::
  "(int, providerModelAliasReverseLookup) gomap \<Rightarrow> ModelRoute list \<Rightarrow> (gostring, modelCatalogBuildBucket) gomap" where
  "semantic_buckets reverseLookups routes = fold (semantic_step reverseLookups) routes []"

definition canonical_buckets ::
  "(gostring, modelCatalogBuildBucket) gomap \<Rightarrow> (gostring, modelCatalogBuildBucket) gomap" where
  "canonical_buckets sem = fold (canonical_step sem) (sort (map fst sem)) []"

definition buildModelCatalogSnapshot ::
  "ModelRoute list \<Rightarrow> (int, providerModelAliasReverseLookup) gomap \<Rightarrow> modelCatalogSnapshot" where
  "buildModelCatalogSnapshot routes reverseLookups =
    (let sem = semantic_buckets reverseLookups routes;
         can = canonical_buckets sem
     in fold (entry_step can) (sort (map fst can)) newModelCatalogSnapshot)"

subsection \<open>Invariants of the buckets\<close>

definition stable_map :: "(gostring, gostring) gomap \<Rightarrow> bool" where
  "stable_map m \<longleftrightarrow> distinct (map fst m) \<and> (\<forall>(k, v) \<in> set m. v \<noteq> [] \<and> TrimSpace v = v \<and> ToLower v = k)"

lemma set_mput: "distinct (map fst m) \<Longrightarrow> set (mput k v m) = insert (k, v) {(a, b) \<in> set m. a \<noteq> k}"
  unfolding mput_def by (induction m) (auto simp: image_iff)

lemma stable_put_stable: "stable_map m \<Longrightarrow> stable_map (put_stable v m)"
  by (auto simp: stable_map_def put_stable_def Let_def set_mput split: option.splits)

lemma keys_put_stable:
  "keys (put_stable v m) = (if TrimSpace v = [] then keys m else insert (ToLower (TrimSpace v)) (keys m))"
  by (auto simp: put_stable_def Let_def keys_iff split: option.splits)

lemma set_sortedMapValues: "stable_map m \<Longrightarrow> set (sortedMapValues m) = snd ` set m"
proof -
  assume m: "stable_map m"
  have "map (TrimSpace \<circ> snd) m = map snd m" and "filter (\<lambda>v. v \<noteq> []) (map snd m) = map snd m"
    using m by (auto simp: stable_map_def filter_id_conv)
  then have "sortedMapValues m = sort_by text_before (map snd m)" by (simp only: sortedMapValues_def)
  then show ?thesis by simp
qed

lemma stable_mapD: "stable_map m \<Longrightarrow> (k, v) \<in> set m \<Longrightarrow> v \<noteq> [] \<and> TrimSpace v = v \<and> ToLower v = k"
  unfolding stable_map_def by blast

lemma keys_sortedMapValues:
  assumes "stable_map m" and "k \<in> keys m"
  shows "\<exists>v \<in> set (sortedMapValues m). ToLower v = k \<and> TrimSpace v = v \<and> v \<noteq> []"
proof -
  obtain v where v: "(k, v) \<in> set m" using assms(2) by (auto simp: keys_def)
  then have "v \<in> set (sortedMapValues m)"
    unfolding set_sortedMapValues [OF assms(1)] by (metis image_eqI snd_conv)
  then show ?thesis using stable_mapD [OF assms(1) v] by blast
qed

definition bucket_ok :: "modelCatalogBuildBucket \<Rightarrow> bool" where
  "bucket_ok b \<longleftrightarrow> stable_map (cb_routeTargets b) \<and> stable_map (cb_aliases b)
     \<and> (\<forall>(k, c) \<in> set (cb_candidates b). nc_name c \<noteq> [] \<and> TrimSpace (nc_name c) = nc_name c)"

lemma bucket_ok_new [simp]: "bucket_ok newModelCatalogBuildBucket"
  by (simp add: bucket_ok_def newModelCatalogBuildBucket_def stable_map_def)

lemma set_mput_subset: "set (mput k v m) \<subseteq> insert (k, v) (set m)"
  unfolding mput_def by (induction m) auto

lemma bucket_ok_add [simp]:
  assumes "bucket_ok b"
  shows "bucket_ok (addRouteTarget v b)" "bucket_ok (addAlias v b)" "bucket_ok (addCandidate v r b)"
    "bucket_ok (b\<lparr>cb_canonicalName := n\<rparr>)"
proof -
  show "bucket_ok (addRouteTarget v b)" "bucket_ok (addAlias v b)" "bucket_ok (b\<lparr>cb_canonicalName := n\<rparr>)"
    using assms by (simp_all add: bucket_ok_def addRouteTarget_def addAlias_def stable_put_stable)
  have "bucket_ok (b\<lparr>cb_candidates := mput k \<lparr>nc_name = TrimSpace v, nc_rank = r\<rparr> (cb_candidates b)\<rparr>)"
    if "TrimSpace v \<noteq> []" for k
    using assms that set_mput_subset [of k "\<lparr>nc_name = TrimSpace v, nc_rank = r\<rparr>" "cb_candidates b"]
    by (auto simp: bucket_ok_def)
  then show "bucket_ok (addCandidate v r b)"
    using assms by (simp add: addCandidate_def Let_def split: option.splits)
qed

lemma bucket_targets_add [simp]:
  "cb_routeTargets (addAlias v b) = cb_routeTargets b"
  "cb_routeTargets (addCandidate v r b) = cb_routeTargets b"
  "keys (cb_routeTargets (addRouteTarget v b)) =
    (if TrimSpace v = [] then keys (cb_routeTargets b) else insert (ToLower (TrimSpace v)) (keys (cb_routeTargets b)))"
  by (simp_all add: addAlias_def addCandidate_def addRouteTarget_def keys_put_stable Let_def split: option.splits)

lemma mput_nonempty [simp]: "mput k v m \<noteq> []"
  unfolding mput_def by (cases m) auto

lemma bucket_candidates_add [simp]:
  "cb_candidates (addAlias v b) = cb_candidates b" "cb_candidates (addRouteTarget v b) = cb_candidates b"
  "cb_candidates b \<noteq> [] \<Longrightarrow> cb_candidates (addCandidate v r b) \<noteq> []"
  "TrimSpace v \<noteq> [] \<Longrightarrow> cb_candidates (addCandidate v r b) \<noteq> []"
  by (auto simp: addAlias_def addCandidate_def addRouteTarget_def Let_def mget_def split: option.splits)

lemma cb_canonicalName_add [simp]:
  "cb_canonicalName (addAlias v b) = cb_canonicalName b" "cb_canonicalName (addRouteTarget v b) = cb_canonicalName b"
  by (simp_all add: addAlias_def addRouteTarget_def)

lemma bucket_add_route_props:
  assumes "TrimSpace (mr_ModelName route) \<noteq> []"
  shows "bucket_ok b \<Longrightarrow> bucket_ok (bucket_add_route rl route b)"
    and "cb_candidates (bucket_add_route rl route b) \<noteq> []"
    and "keys (cb_routeTargets (bucket_add_route rl route b))
      = insert (ToLower (TrimSpace (mr_ModelName route))) (keys (cb_routeTargets b))"
  using assms by (simp_all add: bucket_add_route_def Let_def split: option.splits)

lemma chooseCanonicalName_ok:
  assumes "bucket_ok b" and "cb_candidates b \<noteq> []"
  shows "chooseCanonicalName b \<noteq> []"
proof -
  let ?c = "hd (sort_by candidate_before (map snd (cb_candidates b)))"
  have "?c \<in> snd ` set (cb_candidates b)"
    using assms(2) hd_in_set [of "sort_by candidate_before (map snd (cb_candidates b))"] by simp
  with assms show ?thesis by (auto simp: chooseCanonicalName_def bucket_ok_def)
qed

lemma sortedMapValues_trimmed: "v \<in> set (sortedMapValues m) \<Longrightarrow> TrimSpace v = v"
  by (auto simp: sortedMapValues_def)

lemma chooseCanonicalName_trimmed: "TrimSpace (chooseCanonicalName b) = chooseCanonicalName b"
proof -
  have "sortedMapValues m = a # as \<Longrightarrow> TrimSpace a = a" for m a as
    by (rule sortedMapValues_trimmed [of a m]) simp
  then show ?thesis by (auto simp: chooseCanonicalName_def split: list.splits)
qed

subsection \<open>The semantic buckets hold every route\<close>

definition semantic_ok :: "(gostring, modelCatalogBuildBucket) gomap \<Rightarrow> bool" where
  "semantic_ok sem \<longleftrightarrow> distinct (map fst sem) \<and>
    (\<forall>k b. mget sem k = Some b \<longrightarrow> bucket_ok b \<and> cb_candidates b \<noteq> [])"

definition holds_target :: "(gostring, modelCatalogBuildBucket) gomap \<Rightarrow> gostring \<Rightarrow> bool" where
  "holds_target m t \<longleftrightarrow> (\<exists>k b. mget m k = Some b \<and> t \<in> keys (cb_routeTargets b))"

lemma semantic_step_eq:
  obtains "TrimSpace (mr_ModelName route) = []" "semantic_step rl route sem = sem"
  | k where "TrimSpace (mr_ModelName route) \<noteq> []" "semantic_step rl route sem =
      mput k (bucket_add_route rl route (mget_default newModelCatalogBuildBucket sem k)) sem"
  by (cases "TrimSpace (mr_ModelName route) = []") (auto simp: semantic_step_def Let_def)

lemma semantic_step_ok:
  assumes "semantic_ok sem" shows "semantic_ok (semantic_step rl route sem)"
proof (rule semantic_step_eq [of route rl sem])
  fix k assume r: "TrimSpace (mr_ModelName route) \<noteq> []"
    and e: "semantic_step rl route sem = mput k (bucket_add_route rl route (mget_default newModelCatalogBuildBucket sem k)) sem"
  have "bucket_ok (mget_default newModelCatalogBuildBucket sem k)"
    using assms by (auto simp: semantic_ok_def mget_default_def split: option.splits)
  with assms r show ?thesis by (simp add: e semantic_ok_def bucket_add_route_props)
qed (use assms in simp)

lemma semantic_step_mono:
  assumes "holds_target sem t" shows "holds_target (semantic_step rl route sem) t"
proof (rule semantic_step_eq [of route rl sem])
  fix k assume r: "TrimSpace (mr_ModelName route) \<noteq> []"
    and e: "semantic_step rl route sem = mput k (bucket_add_route rl route (mget_default newModelCatalogBuildBucket sem k)) sem"
  obtain l b where l: "mget sem l = Some b" "t \<in> keys (cb_routeTargets b)"
    using assms by (auto simp: holds_target_def)
  show ?thesis
  proof (cases "l = k")
    case True
    with l have "mget (semantic_step rl route sem) k = Some (bucket_add_route rl route b)"
      by (simp add: e mget_default_def)
    with l r show ?thesis unfolding holds_target_def by (metis bucket_add_route_props(3) insertI2)
  next
    case False
    with l show ?thesis by (auto simp: holds_target_def e)
  qed
qed (use assms in simp)

lemma semantic_step_holds:
  assumes "TrimSpace (mr_ModelName route) \<noteq> []"
  shows "holds_target (semantic_step rl route sem) (ToLower (TrimSpace (mr_ModelName route)))"
proof (rule semantic_step_eq [of route rl sem])
  fix k assume "semantic_step rl route sem = mput k (bucket_add_route rl route (mget_default newModelCatalogBuildBucket sem k)) sem"
  then show ?thesis
    using assms bucket_add_route_props(3) [OF assms] unfolding holds_target_def
    by (metis insertI1 mget_simps(2))
qed (use assms in simp)

lemma fold_semantic_mono: "holds_target sem t \<Longrightarrow> holds_target (fold (semantic_step rl) routes sem) t"
  by (induction routes arbitrary: sem) (simp_all add: semantic_step_mono)

lemma semantic_buckets_ok: "semantic_ok (semantic_buckets rl routes)"
proof -
  have "semantic_ok sem \<Longrightarrow> semantic_ok (fold (semantic_step rl) routes sem)" for sem
    by (induction routes arbitrary: sem) (simp_all add: semantic_step_ok)
  moreover have "semantic_ok []" by (simp add: semantic_ok_def)
  ultimately show ?thesis unfolding semantic_buckets_def by blast
qed

lemma semantic_buckets_holds:
  assumes "route \<in> set routes" and "TrimSpace (mr_ModelName route) \<noteq> []"
  shows "holds_target (semantic_buckets rl routes) (ToLower (TrimSpace (mr_ModelName route)))"
proof -
  obtain xs ys where "routes = xs @ route # ys" using assms(1) by (meson split_list)
  then show ?thesis
    by (simp add: semantic_buckets_def fold_semantic_mono semantic_step_holds assms(2))
qed

subsection \<open>The canonical buckets\<close>

definition canonical_ok :: "(gostring, modelCatalogBuildBucket) gomap \<Rightarrow> bool" where
  "canonical_ok can \<longleftrightarrow> distinct (map fst can) \<and>
    (\<forall>k b. mget can k = Some b \<longrightarrow> bucket_ok b \<and> TrimSpace (cb_canonicalName b) \<noteq> []
       \<and> ToLower (TrimSpace (cb_canonicalName b)) = k)"

lemma fold_addAlias [simp]:
  "bucket_ok b \<Longrightarrow> bucket_ok (fold addAlias vs b)" "cb_routeTargets (fold addAlias vs b) = cb_routeTargets b"
  "cb_canonicalName (fold addAlias vs b) = cb_canonicalName b"
  by (induction vs arbitrary: b) simp_all

lemma fold_addRouteTarget [simp]:
  "bucket_ok b \<Longrightarrow> bucket_ok (fold addRouteTarget vs b)"
  "cb_canonicalName (fold addRouteTarget vs b) = cb_canonicalName b"
  by (induction vs arbitrary: b) simp_all

lemma fold_addRouteTarget_old:
  "k \<in> keys (cb_routeTargets b) \<Longrightarrow> k \<in> keys (cb_routeTargets (fold addRouteTarget vs b))"
  by (induction vs arbitrary: b) auto

lemma fold_addRouteTarget_new:
  "v \<in> set vs \<Longrightarrow> TrimSpace v \<noteq> [] \<Longrightarrow>
   ToLower (TrimSpace v) \<in> keys (cb_routeTargets (fold addRouteTarget vs b))"
  by (induction vs arbitrary: b) (auto simp: fold_addRouteTarget_old)

text \<open>One round: an existing bucket keeps its targets, and the new bucket holds all targets of the semantic one.\<close>

lemma canonical_step_ok:
  assumes "canonical_ok can" and "\<And>b. mget sem key = Some b \<Longrightarrow> bucket_ok b" and "mget sem key \<noteq> None"
  shows "canonical_ok (canonical_step sem key can)"
proof -
  define b where "b = mget_default newModelCatalogBuildBucket sem key"
  define c where "c = chooseCanonicalName b"
  define m0 where "m0 = (case mget can (ToLower (TrimSpace c)) of Some m \<Rightarrow> m
      | None \<Rightarrow> newModelCatalogBuildBucket\<lparr>cb_canonicalName := c\<rparr>)"
  define m1 where "m1 = (if cb_canonicalName m0 = [] \<or> compareTextStable c (cb_canonicalName m0) < 0
      then m0\<lparr>cb_canonicalName := c\<rparr> else m0)"
  define m2 where "m2 = fold addRouteTarget (sortedMapValues (cb_routeTargets b))
      (fold addAlias (sortedMapValues (cb_aliases b)) (addAlias c m1))"
  have step: "canonical_step sem key can = (if c = [] then can else mput (ToLower (TrimSpace c)) m2 can)"
    unfolding canonical_step_def Let_def b_def c_def m0_def m1_def m2_def by (rule refl)
  show ?thesis
  proof (cases "c = []")
    case False
    have t: "TrimSpace c = c" by (simp add: c_def chooseCanonicalName_trimmed)
    have "bucket_ok m0 \<and> TrimSpace (cb_canonicalName m0) \<noteq> [] \<and> ToLower (TrimSpace (cb_canonicalName m0)) = ToLower c"
      using assms(1) False t by (auto simp: m0_def canonical_ok_def split: option.splits)
    then have "bucket_ok m2 \<and> TrimSpace (cb_canonicalName m2) \<noteq> [] \<and> ToLower (TrimSpace (cb_canonicalName m2)) = ToLower c"
      using False t by (simp add: m2_def m1_def)
    then show ?thesis using assms(1) False t by (simp add: step canonical_ok_def)
  qed (use assms step in simp)
qed

lemma canonical_step_mono:
  assumes "holds_target can t" shows "holds_target (canonical_step sem key can) t"
proof -
  define b where "b = mget_default newModelCatalogBuildBucket sem key"
  define k where "k = ToLower (TrimSpace (chooseCanonicalName b))"
  obtain l d where l: "mget can l = Some d" "t \<in> keys (cb_routeTargets d)"
    using assms by (auto simp: holds_target_def)
  show ?thesis
  proof (cases "chooseCanonicalName b = [] \<or> l \<noteq> k")
    case True
    then show ?thesis
      using l assms by (auto simp: canonical_step_def Let_def b_def [symmetric] k_def [symmetric] holds_target_def)
  next
    case False
    then show ?thesis
      using l by (auto simp: canonical_step_def Let_def b_def [symmetric] k_def [symmetric] holds_target_def fold_addRouteTarget_old)
  qed
qed

lemma canonical_step_holds:
  assumes "mget sem key = Some b" "bucket_ok b" "cb_candidates b \<noteq> []" "t \<in> keys (cb_routeTargets b)"
  shows "holds_target (canonical_step sem key can) t"
proof -
  have s: "stable_map (cb_routeTargets b)" using assms(2) by (simp add: bucket_ok_def)
  obtain v where v: "v \<in> set (sortedMapValues (cb_routeTargets b))" "ToLower v = t" "TrimSpace v = v" "v \<noteq> []"
    using keys_sortedMapValues [OF s assms(4)] by blast
  then have "t \<in> keys (cb_routeTargets (fold addRouteTarget (sortedMapValues (cb_routeTargets b)) m))" for m
    using fold_addRouteTarget_new [of v "sortedMapValues (cb_routeTargets b)" m] by simp
  then show ?thesis
    using assms chooseCanonicalName_ok
    by (auto simp: canonical_step_def Let_def mget_default_def holds_target_def)
qed

lemma fold_canonical_mono: "holds_target can t \<Longrightarrow> holds_target (fold (canonical_step sem) ks can) t"
  by (induction ks arbitrary: can) (simp_all add: canonical_step_mono)

lemma canonical_buckets_ok: "semantic_ok sem \<Longrightarrow> canonical_ok (canonical_buckets sem)"
proof -
  assume sem: "semantic_ok sem"
  have "canonical_ok can \<Longrightarrow> set ks \<subseteq> keys sem \<Longrightarrow> canonical_ok (fold (canonical_step sem) ks can)" for ks can
    using sem by (induction ks arbitrary: can) (simp_all add: canonical_step_ok semantic_ok_def keys_iff)
  moreover have "canonical_ok []" by (simp add: canonical_ok_def)
  ultimately show ?thesis by (simp add: canonical_buckets_def keys_def)
qed

lemma canonical_buckets_holds:
  assumes "semantic_ok sem" and "holds_target sem t"
  shows "holds_target (canonical_buckets sem) t"
proof -
  obtain k b where k: "mget sem k = Some b" "t \<in> keys (cb_routeTargets b)" "bucket_ok b" "cb_candidates b \<noteq> []"
    using assms by (auto simp: holds_target_def semantic_ok_def)
  then have "k \<in> set (sort (map fst sem))" using mget_Some_in [OF k(1)] by force
  then obtain xs ys where "sort (map fst sem) = xs @ k # ys" by (meson split_list)
  then show ?thesis using k by (simp add: canonical_buckets_def fold_canonical_mono canonical_step_holds)
qed

subsection \<open>The entries\<close>

lemma registerLookup_simps [simp]:
  "cs_entries (registerLookup i c s) = cs_entries s" "cs_byCanonical (registerLookup i c s) = cs_byCanonical s"
  by (simp_all add: registerLookup_def Let_def)

lemma registerLookup_exact:
  "mget (cs_byExact (registerLookup i c s)) k =
    (if TrimSpace c \<noteq> [] \<and> k = ToLower (TrimSpace c) \<and> mget (cs_byExact s) k = None then Some i else mget (cs_byExact s) k)"
  by (cases "TrimSpace c = []"; cases "NormalizeModelName (TrimSpace c) = []") (auto simp: registerLookup_def Let_def)

lemma fold_registerLookup_simps [simp]:
  "cs_entries (fold (registerLookup i) cs s) = cs_entries s"
  "cs_byCanonical (fold (registerLookup i) cs s) = cs_byCanonical s"
  by (induction cs arbitrary: s) simp_all

lemma fold_registerLookup_exact:
  "mget (cs_byExact (fold (registerLookup i) cs s)) k =
    (if mget (cs_byExact s) k = None \<and> (\<exists>c \<in> set cs. TrimSpace c \<noteq> [] \<and> k = ToLower (TrimSpace c)) then Some i
     else mget (cs_byExact s) k)"
  by (induction cs arbitrary: s) (auto simp: registerLookup_exact)

definition entry_inv ::
  "(gostring, modelCatalogBuildBucket) gomap \<Rightarrow> modelCatalogSnapshot \<Rightarrow> gostring \<Rightarrow> nat \<Rightarrow> UnifiedModelCatalogItem \<Rightarrow> bool" where
  "entry_inv can s k i e \<longleftrightarrow>
     ci_CanonicalModel e \<noteq> [] \<and> ToLower (TrimSpace (ci_CanonicalModel e)) = k
     \<and> TrimSpace (ci_CanonicalModel e) = ci_CanonicalModel e \<and> mget (cs_byCanonical s) k = Some i
     \<and> ci_RouteTargets e = sortedMapValues (cb_routeTargets (mget_default newModelCatalogBuildBucket can k))
     \<and> (\<forall>t \<in> set (ci_RouteTargets e). TrimSpace t \<noteq> [] \<longrightarrow> mget (cs_byExact s) (ToLower (TrimSpace t)) \<noteq> None)"

definition catalog_inv ::
  "(gostring, modelCatalogBuildBucket) gomap \<Rightarrow> gostring list \<Rightarrow> modelCatalogSnapshot \<Rightarrow> bool" where
  "catalog_inv can ks s \<longleftrightarrow> length (cs_entries s) = length ks
     \<and> (\<forall>i < length ks. entry_inv can s (ks ! i) i (cs_entries s ! i))
     \<and> (\<forall>k i. mget (cs_byExact s) k = Some i \<longrightarrow> i < length ks)
     \<and> (\<forall>k i. mget (cs_byCanonical s) k = Some i \<longrightarrow> i < length ks)"

lemma entry_inv_mono:
  assumes "entry_inv can s k i e" and "mget (cs_byCanonical s') k = mget (cs_byCanonical s) k"
    and "\<And>x. mget (cs_byExact s) x \<noteq> None \<Longrightarrow> mget (cs_byExact s') x \<noteq> None"
  shows "entry_inv can s' k i e"
  using assms unfolding entry_inv_def by metis

lemma entry_step_inv:
  assumes can: "canonical_ok can" and inv: "catalog_inv can ks s" and k: "k \<in> keys can" "k \<notin> set ks"
  shows "catalog_inv can (ks @ [k]) (entry_step can k s)"
proof -
  obtain b where b: "mget can k = Some b" using k(1) by (auto simp: keys_iff)
  define n where "n = TrimSpace (cb_canonicalName b)"
  define e where "e = \<lparr>ci_CanonicalModel = n, ci_Aliases = sortedMapValues (cb_aliases (addAlias n b)),
     ci_RouteTargets = sortedMapValues (cb_routeTargets b)\<rparr>"
  have c: "n \<noteq> []" "ToLower n = k" "TrimSpace n = n"
    using can b by (simp_all add: canonical_ok_def n_def)
  have len: "length (cs_entries s) = length ks" using inv by (simp add: catalog_inv_def)
  define s0 where "s0 = s\<lparr>cs_entries := cs_entries s @ [e], cs_byCanonical := mput k (length ks) (cs_byCanonical s)\<rparr>"
  define s1 where "s1 = entry_step can k s"
  have step: "s1 = fold (registerLookup (length ks)) (n # ci_Aliases e @ ci_RouteTargets e) s0"
    using c b len by (simp add: s1_def entry_step_def Let_def mget_default_def e_def s0_def n_def [symmetric])
  have exact: "mget (cs_byExact s1) x = (if mget (cs_byExact s) x = None
      \<and> (\<exists>c \<in> set (n # ci_Aliases e @ ci_RouteTargets e). TrimSpace c \<noteq> [] \<and> x = ToLower (TrimSpace c))
      then Some (length ks) else mget (cs_byExact s) x)" for x
    unfolding step fold_registerLookup_exact by (simp add: s0_def)
  have ent: "cs_entries s1 = cs_entries s @ [e]" "cs_byCanonical s1 = mput k (length ks) (cs_byCanonical s)"
    by (simp_all add: step s0_def)
  have old: "entry_inv can s1 (ks ! i) i (cs_entries s1 ! i)" if i: "i < length ks" for i
  proof -
    have "ks ! i \<noteq> k" using k(2) i nth_mem by metis
    then have can': "mget (cs_byCanonical s1) (ks ! i) = mget (cs_byCanonical s) (ks ! i)" by (simp add: ent)
    have ex: "mget (cs_byExact s) x \<noteq> None \<Longrightarrow> mget (cs_byExact s1) x \<noteq> None" for x
      unfolding exact by presburger
    have "entry_inv can s (ks ! i) i (cs_entries s ! i)" using inv i unfolding catalog_inv_def by blast
    then have "entry_inv can s1 (ks ! i) i (cs_entries s ! i)" using can' ex by (rule entry_inv_mono)
    then show ?thesis using i len by (simp add: ent nth_append)
  qed
  have tgt: "\<forall>t \<in> set (ci_RouteTargets e). TrimSpace t \<noteq> [] \<longrightarrow> mget (cs_byExact s1) (ToLower (TrimSpace t)) \<noteq> None"
    unfolding exact by auto
  have new: "entry_inv can s1 k (length ks) e"
    unfolding entry_inv_def using tgt c b by (simp add: ent e_def mget_default_def)
  show ?thesis
    unfolding catalog_inv_def s1_def [symmetric]
  proof (intro conjI allI impI)
    fix i assume "i < length (ks @ [k])"
    then consider "i < length ks" | "i = length ks" by fastforce
    then show "entry_inv can s1 ((ks @ [k]) ! i) i (cs_entries s1 ! i)"
    proof cases
      case 1
      with old [OF 1] show ?thesis by (simp add: nth_append)
    next
      case 2
      have "(cs_entries s @ [e]) ! length ks = e"
        using nth_append_length [of "cs_entries s" e] by (simp only: len)
      with 2 new show ?thesis by (simp add: ent)
    qed
  next
    show "length (cs_entries s1) = length (ks @ [k])" using len by (simp add: ent)
  next
    fix x i assume "mget (cs_byExact s1) x = Some i"
    then show "i < length (ks @ [k])" using inv unfolding exact
      by (auto simp: catalog_inv_def less_Suc_eq split: if_splits)
  next
    fix x i assume "mget (cs_byCanonical s1) x = Some i"
    then show "i < length (ks @ [k])" using inv unfolding ent
      by (auto simp: catalog_inv_def less_Suc_eq split: if_splits)
  qed
qed

lemma fold_entry_inv:
  assumes "canonical_ok can"
  shows "distinct (ks0 @ ks) \<Longrightarrow> set ks \<subseteq> keys can \<Longrightarrow> catalog_inv can ks0 s
     \<Longrightarrow> catalog_inv can (ks0 @ ks) (fold (entry_step can) ks s)"
proof (induction ks arbitrary: ks0 s)
  case (Cons k ks)
  have "catalog_inv can (ks0 @ [k]) (entry_step can k s)"
    using Cons.prems by (intro entry_step_inv assms) auto
  then show ?case using Cons.IH [of "ks0 @ [k]" "entry_step can k s"] Cons.prems by simp
qed simp

lemma catalog_inv_build:
  "catalog_inv (canonical_buckets (semantic_buckets rl routes))
     (sort (map fst (canonical_buckets (semantic_buckets rl routes)))) (buildModelCatalogSnapshot routes rl)"
proof -
  let ?can = "canonical_buckets (semantic_buckets rl routes)"
  have can: "canonical_ok ?can" by (intro canonical_buckets_ok semantic_buckets_ok)
  have "distinct ([] @ sort (map fst ?can))" using can by (simp add: canonical_ok_def)
  moreover have "set (sort (map fst ?can)) \<subseteq> keys ?can" by (simp add: keys_def)
  moreover have "catalog_inv ?can [] newModelCatalogSnapshot"
    by (simp add: catalog_inv_def newModelCatalogSnapshot_def)
  ultimately have "catalog_inv ?can ([] @ sort (map fst ?can)) (fold (entry_step ?can) (sort (map fst ?can)) newModelCatalogSnapshot)"
    by (rule fold_entry_inv [OF can])
  then show ?thesis by (simp add: buildModelCatalogSnapshot_def Let_def)
qed

text \<open>
  C22: the canonical models of the catalog are pairwise different up to case, and every one of them
  resolves to its own entry, however it is spelled.
\<close>

theorem catalog_canonical_unique:
  "distinct (map (ToLower \<circ> ci_CanonicalModel) (cs_entries (buildModelCatalogSnapshot routes rl)))
   \<and> (\<forall>e \<in> set (cs_entries (buildModelCatalogSnapshot routes rl)). \<forall>name. EqualFold (TrimSpace name) (ci_CanonicalModel e) \<longrightarrow>
        catalog_resolve (buildModelCatalogSnapshot routes rl) name = Some e)"
proof -
  let ?s = "buildModelCatalogSnapshot routes rl"
  let ?can = "canonical_buckets (semantic_buckets rl routes)"
  let ?ks = "sort (map fst ?can)"
  have inv: "catalog_inv ?can ?ks ?s" by (rule catalog_inv_build)
  then have e: "length (cs_entries ?s) = length ?ks" "\<And>i. i < length ?ks \<Longrightarrow> entry_inv ?can ?s (?ks ! i) i (cs_entries ?s ! i)"
    by (simp_all add: catalog_inv_def)
  have low: "ToLower (ci_CanonicalModel (cs_entries ?s ! i)) = ?ks ! i" if "i < length ?ks" for i
    using e(2) [OF that] by (metis entry_inv_def)
  have "map (ToLower \<circ> ci_CanonicalModel) (cs_entries ?s) = ?ks"
    by (rule nth_equalityI) (use e(1) low in simp_all)
  moreover have "distinct ?ks"
    using canonical_buckets_ok [OF semantic_buckets_ok [of rl routes]] by (simp add: canonical_ok_def)
  moreover have "catalog_resolve ?s name = Some d"
    if d: "d \<in> set (cs_entries ?s)" and n: "EqualFold (TrimSpace name) (ci_CanonicalModel d)" for d name
  proof -
    obtain i where i: "i < length ?ks" "d = cs_entries ?s ! i" using d e(1) by (metis in_set_conv_nth)
    have "mget (cs_byCanonical ?s) (?ks ! i) = Some i" "ci_CanonicalModel d \<noteq> []"
      using e(2) [OF i(1)] i(2) by (simp_all add: entry_inv_def)
    moreover have "ToLower (TrimSpace name) = ?ks ! i" using n low [OF i(1)] i(2) by (simp add: EqualFold_def)
    moreover from this have "TrimSpace name \<noteq> []"
      using \<open>ci_CanonicalModel d \<noteq> []\<close> low [OF i(1)] i(2) by (metis ToLower_simps(5))
    moreover have "cs_entries ?s \<noteq> []" using d by auto
    ultimately show ?thesis
      using i e(1) by (simp add: catalog_resolve_def Let_def entry_at_def)
  qed
  ultimately show ?thesis by simp
qed

theorem catalog_canonical_unique_witness:
  "catalog_resolve (buildModelCatalogSnapshot
     [\<lparr>mr_Id = 1, mr_ModelName = ''openai/GPT-4o'', mr_ProviderTokenId = 1, mr_ProviderId = 1, mr_Enabled = True,
       mr_Priority = 0, mr_Weight = 10\<rparr>] []) '' GPT-4O '' =
   Some \<lparr>ci_CanonicalModel = ''gpt-4o'', ci_Aliases = [''gpt-4o'', ''openai/GPT-4o''], ci_RouteTargets = [''openai/GPT-4o'']\<rparr>"
proof -
  let ?r = "\<lparr>mr_Id = 1, mr_ModelName = ''openai/GPT-4o'', mr_ProviderTokenId = 1, mr_ProviderId = 1, mr_Enabled = True,
       mr_Priority = 0, mr_Weight = 10\<rparr>"
  let ?e = "\<lparr>ci_CanonicalModel = ''gpt-4o'', ci_Aliases = [''gpt-4o'', ''openai/GPT-4o''], ci_RouteTargets = [''openai/GPT-4o'']\<rparr>"
  have "?e \<in> set (cs_entries (buildModelCatalogSnapshot [?r] []))" by code_simp
  moreover have "EqualFold (TrimSpace '' GPT-4O '') (ci_CanonicalModel ?e)" by code_simp
  ultimately show ?thesis
    using catalog_canonical_unique [of "[?r]" "[]"] by blast
qed

text \<open>
  Every model name that some enabled route serves resolves to a catalog entry (and listing the
  models of the catalog loses none of them).
\<close>

theorem catalog_resolves_every_route:
  assumes "route \<in> set routes" and "TrimSpace (mr_ModelName route) \<noteq> []"
  shows "\<exists>e \<in> set (cs_entries (buildModelCatalogSnapshot routes rl)).
    catalog_resolve (buildModelCatalogSnapshot routes rl) (mr_ModelName route) = Some e"
proof -
  let ?s = "buildModelCatalogSnapshot routes rl" and ?n = "ToLower (TrimSpace (mr_ModelName route))"
  let ?can = "canonical_buckets (semantic_buckets rl routes)"
  let ?ks = "sort (map fst ?can)"
  have inv: "catalog_inv ?can ?ks ?s" by (rule catalog_inv_build)
  have "holds_target ?can ?n"
    by (intro canonical_buckets_holds semantic_buckets_ok semantic_buckets_holds assms)
  then obtain k b where k: "mget ?can k = Some b" "?n \<in> keys (cb_routeTargets b)"
    by (auto simp: holds_target_def)
  have "k \<in> set ?ks" using mget_Some_in [OF k(1)] by force
  then obtain i where i: "i < length ?ks" "?ks ! i = k" by (metis in_set_conv_nth)
  have "bucket_ok b" using canonical_buckets_ok [OF semantic_buckets_ok [of rl routes]] k(1) by (simp add: canonical_ok_def)
  then have "stable_map (cb_routeTargets b)" by (simp add: bucket_ok_def)
  then obtain v where v: "v \<in> set (sortedMapValues (cb_routeTargets b))" "ToLower v = ?n" "TrimSpace v = v" "v \<noteq> []"
    using keys_sortedMapValues k(2) by blast
  have "entry_inv ?can ?s k i (cs_entries ?s ! i)" using inv i by (auto simp: catalog_inv_def)
  then have "mget (cs_byExact ?s) ?n \<noteq> None"
    using v k(1) unfolding entry_inv_def by (metis mget_default_def option.case(2))
  then obtain j where j: "mget (cs_byExact ?s) ?n = Some j" "j < length ?ks"
    using inv by (auto simp: catalog_inv_def)
  have e: "length (cs_entries ?s) = length ?ks" using inv by (simp add: catalog_inv_def)
  with i have "cs_entries ?s \<noteq> []" by auto
  moreover have "entry_at ?s (cs_byExact ?s) ?n = Some (cs_entries ?s ! j)"
    using j e by (simp add: entry_at_def)
  ultimately have "catalog_resolve ?s (mr_ModelName route) =
      (case entry_at ?s (cs_byCanonical ?s) ?n of Some e \<Rightarrow> Some e | None \<Rightarrow> Some (cs_entries ?s ! j))"
    using assms(2)
    by (cases "entry_at ?s (cs_byCanonical ?s) ?n") (simp_all add: catalog_resolve_def Let_def)
  then show ?thesis
    using j e by (auto simp: entry_at_def split: option.splits if_splits)
qed

theorem catalog_resolves_every_route_witness:
  "\<exists>e \<in> set (cs_entries (buildModelCatalogSnapshot
     [\<lparr>mr_Id = 1, mr_ModelName = ''deepseek-v3'', mr_ProviderTokenId = 1, mr_ProviderId = 2, mr_Enabled = True,
       mr_Priority = 0, mr_Weight = 10\<rparr>] [])).
    catalog_resolve (buildModelCatalogSnapshot
     [\<lparr>mr_Id = 1, mr_ModelName = ''deepseek-v3'', mr_ProviderTokenId = 1, mr_ProviderId = 2, mr_Enabled = True,
       mr_Priority = 0, mr_Weight = 10\<rparr>] []) ''deepseek-v3'' = Some e"
proof -
  let ?r = "\<lparr>mr_Id = 1, mr_ModelName = ''deepseek-v3'', mr_ProviderTokenId = 1, mr_ProviderId = 2, mr_Enabled = True,
       mr_Priority = 0, mr_Weight = 10\<rparr>"
  have "TrimSpace (mr_ModelName ?r) \<noteq> []" by code_simp
  then show ?thesis using catalog_resolves_every_route [of ?r "[?r]" "[]"] by simp
qed

end
