(* ===== verification/GoTime.thy ===== *)
theory GoTime
  imports GoColl
begin

text \<open>
  \<open>time\<close> as the gateway uses it. An instant is its number of nanoseconds since the Unix epoch. A
  \<open>*time.Location\<close> is the function that gives the UTC offset in force at a Unix second, so a zone with
  daylight saving is covered; the zone database itself (\<open>time.LoadLocation\<close>) is an argument of the
  code that loads a zone by name. Calendar dates follow the proleptic Gregorian calendar.
\<close>

type_synonym gotime = int
type_synonym location = "int \<Rightarrow> int"

definition Second :: int where
  "Second = 1000000000"

definition Unix :: "gotime \<Rightarrow> int" where
  "Unix t = t div Second"

definition UnixTime :: "int \<Rightarrow> gotime" where
  \<comment> \<open>\<open>time.Unix(s, 0)\<close>\<close>
  "UnixTime s = s * Second"

definition UTC :: location where
  "UTC u = 0"

definition FixedZone :: "int \<Rightarrow> location" where
  "FixedZone o_secs = (\<lambda>_. o_secs)"

definition local_secs :: "location \<Rightarrow> gotime \<Rightarrow> int" where
  "local_secs loc t = Unix t + loc (Unix t)"

definition local_day :: "location \<Rightarrow> gotime \<Rightarrow> int" where
  \<comment> \<open>the number of the calendar day, counted from 1970-01-01\<close>
  "local_day loc t = local_secs loc t div 86400"

definition local_clock :: "location \<Rightarrow> gotime \<Rightarrow> int \<times> int" where
  \<comment> \<open>hour and minute\<close>
  "local_clock loc t = (let s = local_secs loc t mod 86400 in (s div 3600, s mod 3600 div 60))"

definition go_date :: "location \<Rightarrow> int \<Rightarrow> gotime" where
  \<comment> \<open>\<open>time.Date\<close> for the local second \<open>c\<close>: one correction of the offset, as the library does\<close>
  "go_date loc c = UnixTime (if loc c = 0 then c else c - loc (c - loc c))"

definition AddDays :: "location \<Rightarrow> gotime \<Rightarrow> int \<Rightarrow> gotime" where
  \<comment> \<open>\<open>t.AddDate(0, 0, d)\<close> for an instant of whole seconds\<close>
  "AddDays loc t d = go_date loc (local_secs loc t + d * 86400)"

definition day_start :: "location \<Rightarrow> gotime \<Rightarrow> gotime" where
  \<comment> \<open>\<open>time.Date(y, m, d, 0, 0, 0, 0, loc)\<close> for the local date of \<open>t\<close>\<close>
  "day_start loc t = go_date loc (local_day loc t * 86400)"

definition weekday :: "int \<Rightarrow> int" where
  \<comment> \<open>of a day number, 0 is Sunday\<close>
  "weekday day = (day + 4) mod 7"

definition civil_date :: "int \<Rightarrow> int \<times> int \<times> int" where
  \<comment> \<open>year, month and day of a day number\<close>
  "civil_date day =
    (let z = day + 719468; era = z div 146097; doe = z mod 146097;
         yoe = (doe - doe div 1460 + doe div 36524 - doe div 146096) div 365;
         doy = doe - (365 * yoe + yoe div 4 - yoe div 100);
         mp = (5 * doy + 2) div 153;
         d = doy - (153 * mp + 2) div 5 + 1;
         m = (if mp < 10 then mp + 3 else mp - 9)
     in (yoe + era * 400 + (if m \<le> 2 then 1 else 0), m, d))"

definition pad_zero :: "nat \<Rightarrow> int \<Rightarrow> string" where
  "pad_zero w n = (let s = Itoa n in replicate (w - length s) (CHR ''0'') @ s)"

definition format_date :: "int \<Rightarrow> string" where
  \<comment> \<open>\<open>Format("2006-01-02")\<close> of a day number\<close>
  "format_date day = (case civil_date day of (y, m, d) \<Rightarrow>
     pad_zero 4 y @ ''-'' @ pad_zero 2 m @ ''-'' @ pad_zero 2 d)"

lemma Second_pos [simp]: "0 < Second" "Second \<noteq> 0"
  by (simp_all add: Second_def)

lemma Unix_UnixTime [simp]: "Unix (UnixTime s) = s"
  by (simp add: Unix_def UnixTime_def)

lemma UnixTime_le_iff: "UnixTime s \<le> t \<longleftrightarrow> s \<le> Unix t"
  by (simp add: UnixTime_def Unix_def int_le_div_iff)

lemma Unix_mono: "s \<le> t \<Longrightarrow> Unix s \<le> Unix t"
  by (simp add: Unix_def zdiv_mono1)

lemma go_date_fixed: "go_date (FixedZone z) c = UnixTime (c - z)"
  by (simp add: go_date_def FixedZone_def)

lemma day_start_fixed: "day_start (FixedZone z) t = UnixTime ((Unix t + z) div 86400 * 86400 - z)"
  by (simp add: day_start_def go_date_fixed local_day_def local_secs_def) (simp add: FixedZone_def)

lemma AddDays_fixed: "AddDays (FixedZone z) (UnixTime s) d = UnixTime (s + d * 86400)"
  by (simp add: AddDays_def go_date_fixed local_secs_def) (simp add: FixedZone_def)

end
