(* ===== verification/ProviderRuntime.thy ===== *)
theory ProviderRuntime
  imports AliasMapping GoTime
begin

text \<open>
  \<open>src/model/provider_runtime.go\<close> and \<open>src/model/provider.go\<close>: the health and balance state of a
  provider, whether it may serve routes, the SQL and the in-memory form of the route filter, the
  operations on the provider table and the summary. The time zone is the location that
  \<open>providerRouteLocation\<close> loads from the option map; the zone database is an argument.
\<close>

definition ProviderHealthStatusUnknown :: gostring where "ProviderHealthStatusUnknown = ''unknown''"
definition ProviderHealthStatusHealthy :: gostring where "ProviderHealthStatusHealthy = ''healthy''"
definition ProviderHealthStatusUnreachable :: gostring where "ProviderHealthStatusUnreachable = ''unreachable''"
definition providerHealthCooldownSeconds :: int where "providerHealthCooldownSeconds = 5 * 60"
definition providerBalanceFreshHours :: int where "providerBalanceFreshHours = 24"
definition providerRouteBalanceFreshDays :: int where "providerRouteBalanceFreshDays = 2"

lemmas provider_consts = ProviderHealthStatusUnknown_def ProviderHealthStatusHealthy_def
  ProviderHealthStatusUnreachable_def providerHealthCooldownSeconds_def providerBalanceFreshHours_def
  providerRouteBalanceFreshDays_def

subsection \<open>Health\<close>

definition normalizeProviderHealthStatus :: "gostring \<Rightarrow> gostring" where
  "normalizeProviderHealthStatus status =
    (let s = ToLower (TrimSpace status) in
     if s = ProviderHealthStatusHealthy then ProviderHealthStatusHealthy
     else if s = ProviderHealthStatusUnreachable then ProviderHealthStatusUnreachable
     else ProviderHealthStatusUnknown)"

definition IsHealthBlockedAt :: "gotime \<Rightarrow> Provider \<Rightarrow> bool" where
  "IsHealthBlockedAt now p =
    (if normalizeProviderHealthStatus (p_HealthStatus p) \<noteq> ProviderHealthStatusUnreachable then False
     else if p_HealthCooldownUntil p \<le> 0 then True
     else Unix now < p_HealthCooldownUntil p)"

definition CanParticipateInAutomatedUseAt :: "gotime \<Rightarrow> Provider \<Rightarrow> bool" where
  "CanParticipateInAutomatedUseAt now p =
    (if p_Status p \<noteq> UserStatusEnabled then False else \<not> IsHealthBlockedAt now p)"

definition filterAutomatedUsableProviders :: "gotime \<Rightarrow> Provider option list \<Rightarrow> Provider list" where
  \<comment> \<open>\<open>None\<close> is a nil pointer\<close>
  "filterAutomatedUsableProviders now providers =
    filter (CanParticipateInAutomatedUseAt now) (List.map_filter id providers)"

definition health_failure_update :: "int \<Rightarrow> gostring \<Rightarrow> Provider \<Rightarrow> Provider" where
  \<comment> \<open>the columns that \<open>MarkHealthFailure\<close> sets at the Unix second \<open>now\<close>\<close>
  "health_failure_update now reason p =
    p\<lparr>p_HealthStatus := ProviderHealthStatusUnreachable, p_HealthCheckAt := now, p_HealthFailureAt := now,
      p_HealthFailureReason := reason, p_HealthCooldownUntil := now + providerHealthCooldownSeconds\<rparr>"

definition MarkHealthFailure :: "gotime \<Rightarrow> gostring \<Rightarrow> Provider \<Rightarrow> db \<Rightarrow> gw_error + Provider \<times> db" where
  "MarkHealthFailure now reason p d =
    (if p_Id p = 0 then Inl ErrInvalidProvider
     else
       let trimmed = TrimSpace reason;
           normalizedReason = (if trimmed = [] then ''upstream unavailable'' else trimmed);
           upd = health_failure_update (Unix now) normalizedReason
       in Inr (upd p, d\<lparr>db_providers := row_update (\<lambda>r. p_Id r = p_Id p) upd (db_providers d)\<rparr>))"

definition health_success_update :: "int \<Rightarrow> Provider \<Rightarrow> Provider" where
  "health_success_update now p =
    p\<lparr>p_HealthStatus := ProviderHealthStatusHealthy, p_HealthCheckAt := now, p_HealthSuccessAt := now,
      p_HealthFailureAt := 0, p_HealthFailureReason := [], p_HealthCooldownUntil := 0\<rparr>"

definition MarkHealthSuccess :: "gotime \<Rightarrow> Provider \<Rightarrow> db \<Rightarrow> gw_error + Provider \<times> db" where
  "MarkHealthSuccess now p d =
    (if p_Id p = 0 then Inl ErrInvalidProvider
     else
       let upd = health_success_update (Unix now)
       in Inr (upd p, d\<lparr>db_providers := row_update (\<lambda>r. p_Id r = p_Id p) upd (db_providers d)\<rparr>))"

subsection \<open>Balance freshness\<close>

definition BalanceFreshnessAt :: "gotime \<Rightarrow> Provider \<Rightarrow> gostring" where
  "BalanceFreshnessAt now p =
    (if p_BalanceUpdated p \<le> 0 then ''unknown''
     else if now - UnixTime (p_BalanceUpdated p) \<le> providerBalanceFreshHours * 3600 * Second then ''fresh''
     else ''stale'')"

definition providerRouteLocation ::
  "(gostring \<Rightarrow> location option) \<Rightarrow> gostring \<Rightarrow> (gostring, gostring) gomap \<Rightarrow> location" where
  \<comment> \<open>\<open>load\<close> is \<open>time.LoadLocation\<close>, \<open>defaultTimezone\<close> is \<open>common.CheckinScheduleTimezone\<close>\<close>
  "providerRouteLocation load defaultTimezone options =
    (let timezone = TrimSpace (mget_default [] options ''CheckinScheduleTimezone'');
         timezone = (if timezone = [] then defaultTimezone else timezone)
     in case load timezone of Some loc \<Rightarrow> loc | None \<Rightarrow> UTC)"

definition providerRouteBalanceFreshThresholdAt :: "location \<Rightarrow> gotime \<Rightarrow> gotime" where
  "providerRouteBalanceFreshThresholdAt loc now =
    AddDays loc (day_start loc now) (- (providerRouteBalanceFreshDays - 1))"

definition IsRouteBalanceFreshAt :: "location \<Rightarrow> gotime \<Rightarrow> Provider \<Rightarrow> bool" where
  "IsRouteBalanceFreshAt loc now p =
    (if p_BalanceUpdated p \<le> 0 then False
     else \<not> UnixTime (p_BalanceUpdated p) < providerRouteBalanceFreshThresholdAt loc now)"

subsection \<open>Route eligibility\<close>

definition RouteBlockReasonsAt :: "location \<Rightarrow> gotime \<Rightarrow> Provider \<Rightarrow> gostring list" where
  "RouteBlockReasonsAt loc now p =
    sort ((if IsHealthBlockedAt now p then [''site_unavailable''] else [])
        @ (if \<not> IsRouteBalanceFreshAt loc now p then [''balance_stale''] else []))"

definition IsRouteEligibleAt :: "location \<Rightarrow> gotime \<Rightarrow> Provider \<Rightarrow> bool" where
  "IsRouteEligibleAt loc now p \<longleftrightarrow> p_Status p = UserStatusEnabled \<and> RouteBlockReasonsAt loc now p = []"

definition applyRuntimeStateAt :: "location \<Rightarrow> gotime \<Rightarrow> Provider \<Rightarrow> Provider" where
  "applyRuntimeStateAt loc now p =
    p\<lparr>p_HealthBlocked := IsHealthBlockedAt now p, p_BalanceFreshness := BalanceFreshnessAt now p,
      p_RouteBlockReasons := RouteBlockReasonsAt loc now p,
      p_RouteEligible := (RouteBlockReasonsAt loc now p = [])\<rparr>"

datatype route_filter = RF_All | RF_Eligible | RF_Abnormal | RF_SiteUnavailable | RF_BalanceStale

definition normalizeProviderRouteFilter :: "gostring \<Rightarrow> route_filter" where
  "normalizeProviderRouteFilter f =
    (let s = ToLower (TrimSpace f) in
     if s = [] \<or> s = ''all'' then RF_All
     else if s = ''eligible'' then RF_Eligible
     else if s = ''abnormal'' then RF_Abnormal
     else if s = ''site_unavailable'' then RF_SiteUnavailable
     else if s = ''balance_stale'' then RF_BalanceStale
     else RF_All)"

definition filterProvidersByRouteState :: "location \<Rightarrow> Provider option list \<Rightarrow> gostring \<Rightarrow> gotime \<Rightarrow> Provider list" where
  "filterProvidersByRouteState loc providers routeFilter now =
    filter (\<lambda>p. case normalizeProviderRouteFilter routeFilter of
        RF_Eligible \<Rightarrow> p_RouteEligible p
      | RF_Abnormal \<Rightarrow> \<not> p_RouteEligible p
      | RF_SiteUnavailable \<Rightarrow> ''site_unavailable'' \<in> set (p_RouteBlockReasons p)
      | RF_BalanceStale \<Rightarrow> ''balance_stale'' \<in> set (p_RouteBlockReasons p)
      | RF_All \<Rightarrow> True)
      (map (applyRuntimeStateAt loc now) (List.map_filter id providers))"

definition route_filter_where :: "location \<Rightarrow> gostring \<Rightarrow> gotime \<Rightarrow> Provider \<Rightarrow> bool" where
  \<comment> \<open>the WHERE clauses of \<open>applyProviderRouteFilterQuery\<close> on one row\<close>
  "route_filter_where loc routeFilter now p =
    (let unavailable = (p_HealthStatus p = ProviderHealthStatusUnreachable
           \<and> (p_HealthCooldownUntil p \<le> 0 \<or> p_HealthCooldownUntil p > Unix now));
         threshold = Unix (providerRouteBalanceFreshThresholdAt loc now)
     in case normalizeProviderRouteFilter routeFilter of
          RF_Eligible \<Rightarrow> p_Status p = UserStatusEnabled \<and> \<not> unavailable \<and> p_BalanceUpdated p \<ge> threshold
        | RF_Abnormal \<Rightarrow> p_Status p \<noteq> UserStatusEnabled \<or> unavailable \<or> p_BalanceUpdated p < threshold
        | RF_SiteUnavailable \<Rightarrow> unavailable
        | RF_BalanceStale \<Rightarrow> p_BalanceUpdated p < threshold
        | RF_All \<Rightarrow> True)"

subsection \<open>The provider table\<close>

definition provider_keyword_where :: "gostring \<Rightarrow> Provider \<Rightarrow> bool" where
  "provider_keyword_where keyword p =
    (if keyword = [] then True
     else like_any keyword (p_Name p) \<or> like_any keyword (p_BaseURL p) \<or> like_any keyword (p_Remark p)
       \<or> (case Atoi keyword of Some userID \<Rightarrow> p_UserID p = userID | None \<Rightarrow> False))"

definition QueryProviders ::
  "int \<Rightarrow> location \<Rightarrow> gotime \<Rightarrow> gostring \<Rightarrow> gostring \<Rightarrow> int \<Rightarrow> int \<Rightarrow> db \<Rightarrow> Provider list \<times> int" where
  \<comment> \<open>the first argument is \<open>common.ItemsPerPage\<close>; one reading of the clock\<close>
  "QueryProviders itemsPerPage loc now keyword routeFilter startIdx num d =
    (let startIdx = (if startIdx < 0 then 0 else startIdx);
         num = (if num \<le> 0 then itemsPerPage else num);
         rows = filter (\<lambda>p. provider_keyword_where (TrimSpace keyword) p \<and> route_filter_where loc routeFilter now p)
                  (db_providers d);
         total = int (length rows);
         providers = map (applyRuntimeStateAt loc now) (page_desc p_Id startIdx num rows)
     in if startIdx \<ge> total then ([], total) else (providers, total))"

definition GetProviderById :: "int \<Rightarrow> db \<Rightarrow> gw_error + Provider" where
  "GetProviderById pid d =
    (if pid = 0 then Inl ErrEmptyId
     else case find (\<lambda>p. p_Id p = pid) (db_providers d) of Some p \<Rightarrow> Inr p | None \<Rightarrow> Inl ErrNotFound)"

definition GetEnabledProviders :: "db \<Rightarrow> Provider list" where
  "GetEnabledProviders d = filter (\<lambda>p. p_Status p = UserStatusEnabled) (db_providers d)"

definition GetAutomatedSyncProviders :: "gotime \<Rightarrow> db \<Rightarrow> Provider list" where
  "GetAutomatedSyncProviders now d = filterAutomatedUsableProviders now (map Some (GetEnabledProviders d))"

definition GetCheckinEnabledProviders :: "gotime \<Rightarrow> db \<Rightarrow> Provider list" where
  "GetCheckinEnabledProviders now d =
    filterAutomatedUsableProviders now
      (map Some (filter (\<lambda>p. p_Status p = UserStatusEnabled \<and> p_CheckinEnabled p) (db_providers d)))"

definition GetUncheckinProvidersRows :: "gotime \<Rightarrow> int \<Rightarrow> db \<Rightarrow> Provider list" where
  "GetUncheckinProvidersRows now dayStart d =
    filterAutomatedUsableProviders now
      (map Some (sort_key (\<lambda>p. - p_Id p)
        (filter (\<lambda>p. p_Status p = UserStatusEnabled \<and> p_CheckinEnabled p \<and> p_LastCheckinAt p < dayStart) (db_providers d))))"

definition Provider_Insert :: "(Provider \<Rightarrow> Provider) \<Rightarrow> gotime \<Rightarrow> Provider \<Rightarrow> db \<Rightarrow> Provider \<times> db" where
  \<comment> \<open>\<open>defaults\<close> is what GORM stores for the struct on \<open>Create\<close>\<close>
  "Provider_Insert defaults now p d =
    (let p = p\<lparr>p_CreatedAt := Unix now,
               p_HealthStatus := (if TrimSpace (p_HealthStatus p) = [] then ProviderHealthStatusUnknown else p_HealthStatus p)\<rparr>;
         p = (defaults p)\<lparr>p_Id := (if p_Id p = 0 then next_row_id p_Id (db_providers d) else p_Id p)\<rparr>
     in (p, d\<lparr>db_providers := db_providers d @ [p]\<rparr>))"

definition Provider_Update :: "(Provider \<Rightarrow> Provider \<Rightarrow> Provider) \<Rightarrow> Provider \<Rightarrow> db \<Rightarrow> db" where
  \<comment> \<open>\<open>merge p row\<close> is the row after GORM's \<open>Updates\<close> with the struct \<open>p\<close>\<close>
  "Provider_Update merge p d =
    d\<lparr>db_providers := row_update (\<lambda>r. p_Id r = p_Id p) (merge p) (db_providers d)\<rparr>"

definition Provider_Delete :: "Provider \<Rightarrow> db \<Rightarrow> gw_error + db" where
  "Provider_Delete p d =
    (if p_Id p = 0 then Inl ErrEmptyId
     else Inr (d\<lparr>db_tokens := row_delete (\<lambda>t. pt_ProviderId t = p_Id p) (db_tokens d),
                 db_routes := row_delete (\<lambda>r. mr_ProviderId r = p_Id p) (db_routes d),
                 db_pricings := row_delete (\<lambda>r. mp_ProviderId r = p_Id p) (db_pricings d),
                 db_providers := row_delete (\<lambda>r. p_Id r = p_Id p) (db_providers d)\<rparr>))"

definition UpdateBalance :: "gotime \<Rightarrow> gostring \<Rightarrow> Provider \<Rightarrow> db \<Rightarrow> db" where
  "UpdateBalance now balance p d =
    d\<lparr>db_providers := row_update (\<lambda>r. p_Id r = p_Id p)
        (\<lambda>r. r\<lparr>p_Balance := balance, p_BalanceUpdated := Unix now\<rparr>) (db_providers d)\<rparr>"

definition UpdatePricingGroupRatio :: "gostring \<Rightarrow> Provider \<Rightarrow> db \<Rightarrow> db" where
  "UpdatePricingGroupRatio groupRatio p d =
    d\<lparr>db_providers := row_update (\<lambda>r. p_Id r = p_Id p) (p_PricingGroupRatio_update (\<lambda>_. groupRatio)) (db_providers d)\<rparr>"

definition UpdatePricingUsableGroup :: "gostring \<Rightarrow> Provider \<Rightarrow> db \<Rightarrow> db" where
  "UpdatePricingUsableGroup usableGroup p d =
    d\<lparr>db_providers := row_update (\<lambda>r. p_Id r = p_Id p) (p_PricingUsableGroup_update (\<lambda>_. usableGroup)) (db_providers d)\<rparr>"

definition UpdatePricingSupportedEndpoint :: "gostring \<Rightarrow> Provider \<Rightarrow> db \<Rightarrow> db" where
  "UpdatePricingSupportedEndpoint e p d =
    d\<lparr>db_providers := row_update (\<lambda>r. p_Id r = p_Id p) (p_PricingSupportedEndpoint_update (\<lambda>_. e)) (db_providers d)\<rparr>"

definition UpdateModelAliasMapping :: "gostring \<Rightarrow> Provider \<Rightarrow> db \<Rightarrow> db" where
  "UpdateModelAliasMapping m p d =
    d\<lparr>db_providers := row_update (\<lambda>r. p_Id r = p_Id p) (p_ModelAliasMapping_update (\<lambda>_. m)) (db_providers d)\<rparr>"

definition UpdateCheckinTime :: "gotime \<Rightarrow> Provider \<Rightarrow> db \<Rightarrow> db" where
  "UpdateCheckinTime now p d =
    d\<lparr>db_providers := row_update (\<lambda>r. p_Id r = p_Id p) (p_LastCheckinAt_update (\<lambda>_. Unix now)) (db_providers d)\<rparr>"

definition UpdateCheckinEnabled :: "bool \<Rightarrow> Provider \<Rightarrow> db \<Rightarrow> gw_error + db" where
  "UpdateCheckinEnabled enabled p d =
    (if p_Id p = 0 then Inl ErrEmptyId
     else Inr (d\<lparr>db_providers := row_update (\<lambda>r. p_Id r = p_Id p) (p_CheckinEnabled_update (\<lambda>_. enabled)) (db_providers d)\<rparr>))"

definition FindProviderByBaseURLAndUserID :: "gostring \<Rightarrow> int \<Rightarrow> db \<Rightarrow> Provider option" where
  "FindProviderByBaseURLAndUserID baseURL userID d =
    find (\<lambda>p. p_BaseURL p = baseURL \<and> p_UserID p = userID) (db_providers d)"

definition CountProviders :: "db \<Rightarrow> int" where
  "CountProviders d = int (length (db_providers d))"

subsection \<open>Proxy addresses and responses\<close>

record url_parts =
  url_Scheme :: gostring
  url_Host :: gostring
  url_Opaque :: gostring
  url_Path :: gostring

definition RedactProxyURL :: "(gostring \<Rightarrow> url_parts option) \<Rightarrow> gostring \<Rightarrow> gostring" where
  \<comment> \<open>the argument is \<open>url.Parse\<close>\<close>
  "RedactProxyURL parse raw =
    (let trimmed = TrimSpace raw in
     if trimmed = [] then []
     else case parse trimmed of
       None \<Rightarrow> ''(configured)''
     | Some u \<Rightarrow>
         if url_Scheme u \<noteq> [] \<and> url_Host u \<noteq> [] then url_Scheme u @ ''://'' @ url_Host u
         else if url_Host u \<noteq> [] then url_Host u
         else if url_Scheme u \<noteq> [] \<and> url_Opaque u \<noteq> [] then url_Scheme u @ ''://'' @ url_Opaque u
         else if url_Path u \<noteq> [] then url_Path u
         else ''(configured)'')"

definition SanitizeProviderSensitiveText ::
  "(gostring \<Rightarrow> url_parts option) \<Rightarrow> Provider option \<Rightarrow> gostring \<Rightarrow> gostring" where
  "SanitizeProviderSensitiveText parse provider value_text =
    (let txt = TrimSpace value_text in
     case provider of
       None \<Rightarrow> txt
     | Some p \<Rightarrow>
         if txt = [] then txt
         else
           let rawProxyURL = TrimSpace (p_ProxyURL p) in
           if rawProxyURL = [] then txt
           else
             let redacted = RedactProxyURL parse rawProxyURL;
                 redacted = (if redacted = [] then ''(configured)'' else redacted)
             in ReplaceAll txt rawProxyURL redacted)"

definition ValidateProviderProxyConfig :: "(gostring \<Rightarrow> url_parts option) \<Rightarrow> bool \<Rightarrow> gostring \<Rightarrow> gw_error option" where
  "ValidateProviderProxyConfig parse enabled proxyURL =
    (if \<not> enabled then None
     else
       let trimmed = TrimSpace proxyURL in
       if trimmed = [] then Some ErrProxyURLMissing
       else case parse trimmed of
         None \<Rightarrow> Some ErrProxyURLInvalid
       | Some u \<Rightarrow> if url_Host u = [] then Some ErrProxyURLInvalid
                   else if url_Scheme u = [] then Some ErrProxyScheme else None)"

definition Provider_CleanForResponse ::
  "(gostring \<Rightarrow> url_parts option) \<Rightarrow> location \<Rightarrow> gotime \<Rightarrow> Provider \<Rightarrow> Provider" where
  "Provider_CleanForResponse parse loc now p =
    (let p = p\<lparr>p_AccessToken := [], p_ProxyURLRedacted := RedactProxyURL parse (p_ProxyURL p)\<rparr>;
         p = p\<lparr>p_ProxyURL := [], p_HealthStatus := normalizeProviderHealthStatus (p_HealthStatus p)\<rparr>
     in applyRuntimeStateAt loc now p)"

subsection \<open>The summary\<close>

record ProviderSummary =
  ps_TotalProviders :: int
  ps_BalanceTotalUSD :: real
  ps_BalanceAccountCount :: int
  ps_BalanceMissingCount :: int
  ps_BalanceFreshCount :: int
  ps_BalanceStaleCount :: int
  ps_BalanceNeverUpdatedCount :: int
  ps_UnreachableProviders :: int
  ps_ProxyEnabledProviders :: int
  ps_FreshnessWindowHours :: int

definition parseBalanceSummaryValue :: "gostring \<Rightarrow> real option" where
  "parseBalanceSummaryValue balance =
    (let trimmed = TrimSpace balance in
     if trimmed = [] then None
     else
       let matched = find_number trimmed in
       if matched = [] then None
       else case ParseFloat matched of
         FP_Num v \<Rightarrow> Some (if v < 0 then 0 else v)
       | _ \<Rightarrow> None)"

definition summary_step :: "gotime \<Rightarrow> Provider \<Rightarrow> ProviderSummary \<Rightarrow> ProviderSummary" where
  "summary_step now p s =
    (let s = s\<lparr>ps_TotalProviders := ps_TotalProviders s + 1\<rparr>;
         s = (if p_ProxyEnabled p then s\<lparr>ps_ProxyEnabledProviders := ps_ProxyEnabledProviders s + 1\<rparr> else s);
         s = (if IsHealthBlockedAt now p then s\<lparr>ps_UnreachableProviders := ps_UnreachableProviders s + 1\<rparr> else s);
         s = (case parseBalanceSummaryValue (p_Balance p) of
                Some v \<Rightarrow> s\<lparr>ps_BalanceTotalUSD := ps_BalanceTotalUSD s + v,
                            ps_BalanceAccountCount := ps_BalanceAccountCount s + 1\<rparr>
              | None \<Rightarrow> s\<lparr>ps_BalanceMissingCount := ps_BalanceMissingCount s + 1\<rparr>);
         f = BalanceFreshnessAt now p
     in if f = ''fresh'' then s\<lparr>ps_BalanceFreshCount := ps_BalanceFreshCount s + 1\<rparr>
        else if f = ''stale'' then s\<lparr>ps_BalanceStaleCount := ps_BalanceStaleCount s + 1\<rparr>
        else s\<lparr>ps_BalanceNeverUpdatedCount := ps_BalanceNeverUpdatedCount s + 1\<rparr>)"

definition GetProviderSummary :: "gotime \<Rightarrow> db \<Rightarrow> ProviderSummary" where
  "GetProviderSummary now d =
    fold (summary_step now) (db_providers d)
      \<lparr>ps_TotalProviders = 0, ps_BalanceTotalUSD = 0, ps_BalanceAccountCount = 0, ps_BalanceMissingCount = 0,
       ps_BalanceFreshCount = 0, ps_BalanceStaleCount = 0, ps_BalanceNeverUpdatedCount = 0,
       ps_UnreachableProviders = 0, ps_ProxyEnabledProviders = 0, ps_FreshnessWindowHours = providerBalanceFreshHours\<rparr>"

subsection \<open>Facts\<close>

lemma RouteBlockReasonsAt_Nil [simp]:
  "RouteBlockReasonsAt loc now p = [] \<longleftrightarrow> \<not> IsHealthBlockedAt now p \<and> IsRouteBalanceFreshAt loc now p"
  by (simp add: RouteBlockReasonsAt_def)

lemma set_RouteBlockReasonsAt:
  "set (RouteBlockReasonsAt loc now p) = {r. (r = ''site_unavailable'' \<and> IsHealthBlockedAt now p)
     \<or> (r = ''balance_stale'' \<and> \<not> IsRouteBalanceFreshAt loc now p)}"
  by (auto simp: RouteBlockReasonsAt_def)

definition stored_health :: "Provider \<Rightarrow> bool" where
  \<comment> \<open>the health status is one of the values the code writes\<close>
  "stored_health p \<longleftrightarrow> p_HealthStatus p \<in>
     {ProviderHealthStatusUnknown, ProviderHealthStatusHealthy, ProviderHealthStatusUnreachable}"

lemma health_status_fix:
  "normalizeProviderHealthStatus ''unknown'' = ''unknown''"
  "normalizeProviderHealthStatus ''healthy'' = ''healthy''"
  "normalizeProviderHealthStatus ''unreachable'' = ''unreachable''"
  by code_simp+

lemma stored_health_normal: "stored_health p \<Longrightarrow> normalizeProviderHealthStatus (p_HealthStatus p) = p_HealthStatus p"
  by (auto simp: stored_health_def provider_consts health_status_fix)

lemma IsRouteBalanceFreshAt_iff:
  assumes "0 < Unix (providerRouteBalanceFreshThresholdAt loc now)"
    and "\<exists>s. providerRouteBalanceFreshThresholdAt loc now = UnixTime s"
  shows "IsRouteBalanceFreshAt loc now p \<longleftrightarrow> Unix (providerRouteBalanceFreshThresholdAt loc now) \<le> p_BalanceUpdated p"
proof -
  obtain s where s: "providerRouteBalanceFreshThresholdAt loc now = UnixTime s" using assms(2) by blast
  have "\<not> UnixTime (p_BalanceUpdated p) < UnixTime s \<longleftrightarrow> s \<le> p_BalanceUpdated p"
    using UnixTime_le_iff [of s "UnixTime (p_BalanceUpdated p)"] by (simp add: not_less)
  then show ?thesis using assms(1) by (auto simp: IsRouteBalanceFreshAt_def s)
qed

lemma threshold_seconds: "\<exists>s. providerRouteBalanceFreshThresholdAt loc now = UnixTime s"
  by (auto simp: providerRouteBalanceFreshThresholdAt_def AddDays_def go_date_def)

text \<open>
  The SQL condition of the provider list's \<open>eligible\<close> filter selects exactly the providers that the
  router accepts (\<open>IsRouteEligibleAt\<close>), and the \<open>abnormal\<close> filter exactly the others, for rows
  whose health status the code wrote.
\<close>

theorem route_filter_where_eligible:
  assumes "stored_health p" and "0 < Unix (providerRouteBalanceFreshThresholdAt loc now)"
  shows "(route_filter_where loc ''eligible'' now p \<longleftrightarrow> IsRouteEligibleAt loc now p)
    \<and> (route_filter_where loc ''abnormal'' now p \<longleftrightarrow> \<not> IsRouteEligibleAt loc now p)"
proof -
  have f: "normalizeProviderRouteFilter ''eligible'' = RF_Eligible" "normalizeProviderRouteFilter ''abnormal'' = RF_Abnormal"
    by code_simp+
  have b: "IsHealthBlockedAt now p \<longleftrightarrow> p_HealthStatus p = ProviderHealthStatusUnreachable
      \<and> (p_HealthCooldownUntil p \<le> 0 \<or> p_HealthCooldownUntil p > Unix now)"
    by (auto simp: IsHealthBlockedAt_def stored_health_normal [OF assms(1)])
  show ?thesis
    unfolding route_filter_where_def f IsRouteEligibleAt_def RouteBlockReasonsAt_Nil b
      IsRouteBalanceFreshAt_iff [OF assms(2) threshold_seconds]
    by (auto simp: Let_def)
qed

definition sample_provider :: Provider where
  "sample_provider =
    \<lparr>p_Id = 7, p_Name = ''alpha'', p_BaseURL = ''https://a.example'', p_AccessToken = ''t'', p_UserID = 1, p_Status = 1,
     p_Priority = 0, p_Weight = 10, p_CheckinEnabled = True, p_LastCheckinAt = 0, p_Balance = ''$3.50'',
     p_BalanceUpdated = 1719990000, p_HealthStatus = ''healthy'', p_HealthCheckAt = 0, p_HealthSuccessAt = 0,
     p_HealthFailureAt = 0, p_HealthFailureReason = [], p_HealthCooldownUntil = 0, p_ProxyEnabled = False,
     p_ProxyURL = [], p_PricingGroupRatio = [], p_PricingUsableGroup = [], p_PricingSupportedEndpoint = [],
     p_ModelAliasMapping = [], p_Remark = [], p_CreatedAt = 0, p_HealthBlocked = False, p_BalanceFreshness = [],
     p_RouteEligible = False, p_RouteBlockReasons = [], p_ProxyURLRedacted = [], p_LastCheckinStatus = [],
     p_LastCheckinMessage = [], p_LastCheckinQuotaAwarded = 0, p_LastCheckinResultAt = 0\<rparr>"

lemma sample_provider_Id: "p_Id sample_provider = 7"
  by (simp add: sample_provider_def)

theorem route_filter_where_eligible_witness:
  "route_filter_where (FixedZone 28800) ''eligible'' (UnixTime 1720000000) sample_provider"
proof -
  have "0 < Unix (providerRouteBalanceFreshThresholdAt (FixedZone 28800) (UnixTime 1720000000))" by code_simp
  moreover have "stored_health sample_provider" by code_simp
  moreover have "IsRouteEligibleAt (FixedZone 28800) (UnixTime 1720000000) sample_provider" by code_simp
  ultimately show ?thesis using route_filter_where_eligible by blast
qed

text \<open>
  A balance counts as fresh for routing exactly when it was updated on the current or the
  previous calendar day of the configured zone.
\<close>

theorem route_balance_fresh_two_days:
  assumes "0 < p_BalanceUpdated p"
  shows "IsRouteBalanceFreshAt (FixedZone z) now p \<longleftrightarrow>
    local_day (FixedZone z) now - 1 \<le> local_day (FixedZone z) (UnixTime (p_BalanceUpdated p))"
proof -
  let ?d = "(Unix now + z) div 86400"
  have "providerRouteBalanceFreshThresholdAt (FixedZone z) now = UnixTime (?d * 86400 - z - 86400)"
    by (simp add: providerRouteBalanceFreshThresholdAt_def day_start_fixed AddDays_fixed provider_consts)
  moreover have "UnixTime (?d * 86400 - z - 86400) \<le> UnixTime (p_BalanceUpdated p) \<longleftrightarrow> ?d * 86400 - z - 86400 \<le> p_BalanceUpdated p"
    by (simp add: UnixTime_le_iff)
  moreover have "?d * 86400 - z - 86400 \<le> p_BalanceUpdated p \<longleftrightarrow> ?d - 1 \<le> (p_BalanceUpdated p + z) div 86400"
    using int_le_div_iff [of 86400 "?d - 1" "p_BalanceUpdated p + z"] by (simp add: left_diff_distrib) linarith
  ultimately show ?thesis
    using assms by (simp add: IsRouteBalanceFreshAt_def local_day_def local_secs_def not_less) (simp add: FixedZone_def)
qed

theorem route_balance_fresh_two_days_witness:
  "\<not> IsRouteBalanceFreshAt (FixedZone 28800) (UnixTime 1720200000) sample_provider"
proof -
  have "0 < p_BalanceUpdated sample_provider" by code_simp
  moreover have "\<not> local_day (FixedZone 28800) (UnixTime 1720200000) - 1
      \<le> local_day (FixedZone 28800) (UnixTime (p_BalanceUpdated sample_provider))" by code_simp
  ultimately show ?thesis using route_balance_fresh_two_days by blast
qed

text \<open>
  After a recorded failure a provider is blocked for exactly the cool-down of 300 seconds, the
  database row says the same, and a recorded success unblocks it at once.
\<close>

theorem health_failure_blocks_cooldown:
  assumes "MarkHealthFailure now reason p d = Inr (p', d')" and "0 \<le> now"
  shows "(\<forall>t. IsHealthBlockedAt t p' \<longleftrightarrow> Unix t < Unix now + 300)
    \<and> (\<forall>r \<in> set (db_providers d'). p_Id r = p_Id p \<longrightarrow> (\<forall>t. IsHealthBlockedAt t r \<longleftrightarrow> Unix t < Unix now + 300))
    \<and> (\<exists>p'' d''. MarkHealthSuccess now' p' d' = Inr (p'', d'') \<and> (\<forall>t. \<not> IsHealthBlockedAt t p''))"
proof -
  have i: "p_Id p \<noteq> 0" using assms(1) by (auto simp: MarkHealthFailure_def)
  define upd where "upd = health_failure_update (Unix now)
     (if TrimSpace reason = [] then ''upstream unavailable'' else TrimSpace reason)"
  have p': "p' = upd p" and d': "db_providers d' = row_update (\<lambda>r. p_Id r = p_Id p) upd (db_providers d)"
    using assms(1) i by (auto simp: MarkHealthFailure_def upd_def Let_def)
  have "0 \<le> Unix now" using assms(2) Unix_mono [of 0 now] by (simp add: Unix_def)
  then have blk: "IsHealthBlockedAt t (upd r) \<longleftrightarrow> Unix t < Unix now + 300" for t r
    by (simp add: IsHealthBlockedAt_def upd_def health_failure_update_def provider_consts health_status_fix)
  have "p_Id (upd r) = p_Id r" for r by (simp add: upd_def health_failure_update_def)
  then have "\<exists>q. r = upd q" if "r \<in> set (db_providers d')" "p_Id r = p_Id p" for r
    using that by (auto simp: d' row_update_def split: if_splits)
  then have "IsHealthBlockedAt t r \<longleftrightarrow> Unix t < Unix now + 300" if "r \<in> set (db_providers d')" "p_Id r = p_Id p" for r t
    using that blk by metis
  moreover have "p_Id (upd p) = p_Id p" by (simp add: upd_def health_failure_update_def)
  moreover have "\<not> IsHealthBlockedAt t (health_success_update u r)" for t u r
    by (simp add: IsHealthBlockedAt_def health_success_update_def provider_consts health_status_fix)
  ultimately show ?thesis
    using i blk by (auto simp: p' MarkHealthSuccess_def Let_def)
qed

theorem health_failure_blocks_cooldown_witness:
  "IsHealthBlockedAt (UnixTime 1000299) (fst (projr (MarkHealthFailure (UnixTime 1000000) [] sample_provider
     \<lparr>db_providers = [sample_provider], db_tokens = [], db_routes = [], db_pricings = [], db_aggtokens = [], db_users = [], db_logs = []\<rparr>)))"
proof -
  let ?d = "\<lparr>db_providers = [sample_provider], db_tokens = [], db_routes = [], db_pricings = [], db_aggtokens = [], db_users = [], db_logs = []\<rparr>"
  obtain p' d' where e: "MarkHealthFailure (UnixTime 1000000) [] sample_provider ?d = Inr (p', d')"
    by (simp add: MarkHealthFailure_def sample_provider_Id Let_def)
  have "IsHealthBlockedAt (UnixTime 1000299) p'"
    using health_failure_blocks_cooldown [OF e] by (simp add: UnixTime_def Unix_def Second_def)
  then show ?thesis by (simp add: e)
qed

text \<open>
  Deleting a provider leaves no token, route, price or provider row of it behind and touches
  no row of another provider.
\<close>

theorem Provider_Delete_cascade:
  assumes "Provider_Delete p d = Inr d'"
  shows "set (db_tokens d') = {t \<in> set (db_tokens d). pt_ProviderId t \<noteq> p_Id p}
    \<and> set (db_routes d') = {r \<in> set (db_routes d). mr_ProviderId r \<noteq> p_Id p}
    \<and> set (db_pricings d') = {r \<in> set (db_pricings d). mp_ProviderId r \<noteq> p_Id p}
    \<and> set (db_providers d') = {r \<in> set (db_providers d). p_Id r \<noteq> p_Id p}
    \<and> db_aggtokens d' = db_aggtokens d \<and> db_users d' = db_users d \<and> db_logs d' = db_logs d"
  using assms by (auto simp: Provider_Delete_def split: if_splits)

theorem Provider_Delete_cascade_witness:
  "db_providers (projr (Provider_Delete sample_provider
     \<lparr>db_providers = [sample_provider], db_tokens = [], db_routes = [], db_pricings = [], db_aggtokens = [], db_users = [], db_logs = []\<rparr>)) = []"
proof -
  let ?d = "\<lparr>db_providers = [sample_provider], db_tokens = [], db_routes = [], db_pricings = [], db_aggtokens = [], db_users = [], db_logs = []\<rparr>"
  obtain d' where e: "Provider_Delete sample_provider ?d = Inr d'"
    by (simp add: Provider_Delete_def sample_provider_Id)
  have "r \<notin> set (db_providers d')" for r
    using Provider_Delete_cascade [OF e] by (cases "r = sample_provider") simp_all
  then have "db_providers d' = []" by (metis list.set_intros(1) neq_Nil_conv)
  then show ?thesis by (simp add: e)
qed

text \<open>
  In the provider summary, the freshness classes partition the providers, so do the accounts
  with and without a balance, and the total is the number of rows.
\<close>

theorem provider_summary_partition:
  "ps_BalanceFreshCount (GetProviderSummary now d) + ps_BalanceStaleCount (GetProviderSummary now d)
     + ps_BalanceNeverUpdatedCount (GetProviderSummary now d) = CountProviders d
   \<and> ps_BalanceAccountCount (GetProviderSummary now d) + ps_BalanceMissingCount (GetProviderSummary now d) = CountProviders d
   \<and> ps_TotalProviders (GetProviderSummary now d) = CountProviders d"
proof -
  define g where "g s = ps_BalanceFreshCount s + ps_BalanceStaleCount s + ps_BalanceNeverUpdatedCount s" for s :: ProviderSummary
  define a where "a s = ps_BalanceAccountCount s + ps_BalanceMissingCount s" for s :: ProviderSummary
  have "g (summary_step now p s) = g s + 1 \<and> a (summary_step now p s) = a s + 1
      \<and> ps_TotalProviders (summary_step now p s) = ps_TotalProviders s + 1" for p s
    by (cases "parseBalanceSummaryValue (p_Balance p)") (simp_all add: summary_step_def Let_def g_def a_def)
  then have "g (fold (summary_step now) ps s) = g s + int (length ps)
      \<and> a (fold (summary_step now) ps s) = a s + int (length ps)
      \<and> ps_TotalProviders (fold (summary_step now) ps s) = ps_TotalProviders s + int (length ps)" for ps s
    by (induction ps arbitrary: s) simp_all
  from this [of "db_providers d"] show ?thesis
    by (simp add: GetProviderSummary_def CountProviders_def g_def a_def)
qed

text \<open>The in-memory state disagrees with the router on a disabled provider: \<open>RouteEligible\<close> leaves the status out.\<close>

lemma RouteEligible_ignores_status:
  "p_RouteEligible (applyRuntimeStateAt loc now p) = p_RouteEligible (applyRuntimeStateAt loc now (p\<lparr>p_Status := s\<rparr>))"
  by (simp add: applyRuntimeStateAt_def IsHealthBlockedAt_def IsRouteBalanceFreshAt_def)

end
