(* ===== verification/ProviderTokens.thy ===== *)
theory ProviderTokens
  imports ProviderRuntime
begin

text \<open>
  \<open>src/model/provider_token.go\<close>: the upstream keys of a provider and their key material. A key is
  usable, masked by the upstream, or empty; only a usable key is stored, and the stored status and
  reason follow from the key. The table operations keep one row per upstream token.
\<close>

datatype key_material = KeyEmpty | KeyMasked | KeyUsable

definition IsMaskedKey :: "gostring \<Rightarrow> bool" where
  "IsMaskedKey key \<longleftrightarrow> StrContains (TrimSpace key) ''**''"

definition ClassifyProviderTokenKeyMaterial :: "gostring \<Rightarrow> key_material" where
  "ClassifyProviderTokenKeyMaterial key =
    (let trimmed = TrimSpace key in
     if trimmed = [] then KeyEmpty
     else if IsMaskedKey trimmed then KeyMasked
     else
       let raw = TrimPrefix trimmed ''sk-'' in
       if raw = [] then KeyEmpty else if IsMaskedKey raw then KeyMasked else KeyUsable)"

definition IsUsableProviderTokenKey :: "gostring \<Rightarrow> bool" where
  "IsUsableProviderTokenKey key \<longleftrightarrow> ClassifyProviderTokenKeyMaterial key = KeyUsable"

definition NormalizeProviderTokenKeyForStorage :: "gostring \<Rightarrow> gostring" where
  "NormalizeProviderTokenKeyForStorage key =
    (let trimmed = TrimSpace key in
     if \<not> IsUsableProviderTokenKey trimmed then [] else ''sk-'' @ TrimPrefix trimmed ''sk-'')"

definition NormalizeProviderTokenKeyStatus :: "gostring \<Rightarrow> gostring" where
  "NormalizeProviderTokenKeyStatus status =
    (let s = ToLower (TrimSpace status) in
     if s = ''ready'' then ''ready'' else if s = ''unresolved'' then ''unresolved'' else [])"

definition NormalizeProviderTokenKeyUnresolvedReason :: "gostring \<Rightarrow> gostring" where
  "NormalizeProviderTokenKeyUnresolvedReason reason = TrimSpace reason"

definition defaultProviderTokenUnresolvedReason :: "gostring \<Rightarrow> gostring \<Rightarrow> gostring" where
  "defaultProviderTokenUnresolvedReason reason key =
    (let normalized = NormalizeProviderTokenKeyUnresolvedReason reason in
     if normalized \<noteq> [] then normalized
     else if ClassifyProviderTokenKeyMaterial key = KeyMasked then ''legacy_contaminated''
     else ''plaintext_not_recovered'')"

definition ResolveProviderTokenPersistenceState ::
  "gostring \<Rightarrow> gostring \<Rightarrow> gostring \<Rightarrow> gostring \<times> gostring \<times> gostring" where
  \<comment> \<open>the stored status is computed from the key; the passed status is ignored, as in the code\<close>
  "ResolveProviderTokenPersistenceState skKey keyStatus unresolvedReason =
    (let normalizedKey = NormalizeProviderTokenKeyForStorage skKey in
     if normalizedKey \<noteq> [] then (normalizedKey, ''ready'', [])
     else ([], ''unresolved'', defaultProviderTokenUnresolvedReason unresolvedReason skKey))"

definition resolvedPersistenceState :: "ProviderToken \<Rightarrow> gostring \<times> gostring \<times> gostring" where
  "resolvedPersistenceState pt =
    ResolveProviderTokenPersistenceState (pt_SkKey pt) (pt_KeyStatus pt) (pt_KeyUnresolvedReason pt)"

definition IsKeyReady :: "ProviderToken \<Rightarrow> bool" where
  "IsKeyReady pt = (case resolvedPersistenceState pt of (_, status, _) \<Rightarrow> status = ''ready'')"

definition CanParticipateInRouting :: "ProviderToken \<Rightarrow> bool" where
  "CanParticipateInRouting pt \<longleftrightarrow> pt_Status pt = 1 \<and> IsKeyReady pt"

definition MarkKeyReady :: "gostring \<Rightarrow> ProviderToken \<Rightarrow> ProviderToken" where
  "MarkKeyReady skKey pt =
    pt\<lparr>pt_SkKey := NormalizeProviderTokenKeyForStorage skKey, pt_KeyStatus := ''ready'', pt_KeyUnresolvedReason := []\<rparr>"

definition MarkKeyUnresolved :: "gostring \<Rightarrow> ProviderToken \<Rightarrow> ProviderToken" where
  "MarkKeyUnresolved reason pt =
    pt\<lparr>pt_SkKey := [], pt_KeyStatus := ''unresolved'',
       pt_KeyUnresolvedReason := defaultProviderTokenUnresolvedReason reason []\<rparr>"

definition PreserveReadyKeyFrom :: "ProviderToken option \<Rightarrow> ProviderToken \<Rightarrow> bool \<times> ProviderToken" where
  "PreserveReadyKeyFrom existing pt =
    (case existing of
       None \<Rightarrow> (False, pt)
     | Some e \<Rightarrow> if \<not> IsKeyReady e then (False, pt) else (True, MarkKeyReady (pt_SkKey e) pt))"

subsection \<open>The token table\<close>

definition with_key_state :: "ProviderToken \<Rightarrow> ProviderToken" where
  \<comment> \<open>the three key columns set from \<open>resolvedPersistenceState\<close>\<close>
  "with_key_state pt =
    (case resolvedPersistenceState pt of (k, s, r) \<Rightarrow>
       pt\<lparr>pt_SkKey := k, pt_KeyStatus := s, pt_KeyUnresolvedReason := r\<rparr>)"

definition metadataUpdates :: "ProviderToken \<Rightarrow> ProviderToken \<Rightarrow> ProviderToken" where
  \<comment> \<open>\<open>metadataUpdates pt row\<close> is the row after updating these columns from \<open>pt\<close>\<close>
  "metadataUpdates pt row =
    row\<lparr>pt_ProviderId := pt_ProviderId pt, pt_UpstreamTokenId := pt_UpstreamTokenId pt, pt_Name := pt_Name pt,
        pt_GroupName := pt_GroupName pt, pt_Status := pt_Status pt, pt_Priority := pt_Priority pt,
        pt_Weight := pt_Weight pt, pt_RemainQuota := pt_RemainQuota pt, pt_UnlimitedQuota := pt_UnlimitedQuota pt,
        pt_UsedQuota := pt_UsedQuota pt, pt_ModelLimits := pt_ModelLimits pt, pt_LastSynced := pt_LastSynced pt\<rparr>"

definition fullPersistenceUpdates :: "ProviderToken \<Rightarrow> ProviderToken \<Rightarrow> ProviderToken" where
  "fullPersistenceUpdates pt row =
    (case resolvedPersistenceState pt of (k, s, r) \<Rightarrow>
       (metadataUpdates pt row)\<lparr>pt_SkKey := k, pt_KeyStatus := s, pt_KeyUnresolvedReason := r\<rparr>)"

definition GetProviderTokensByProviderId :: "int \<Rightarrow> db \<Rightarrow> ProviderToken list" where
  "GetProviderTokensByProviderId providerId d =
    sort_key (\<lambda>t. - pt_Id t) (filter (\<lambda>t. pt_ProviderId t = providerId) (db_tokens d))"

definition GetEnabledProviderTokensByProviderId :: "int \<Rightarrow> db \<Rightarrow> ProviderToken list" where
  "GetEnabledProviderTokensByProviderId providerId d =
    filter CanParticipateInRouting (filter (\<lambda>t. pt_ProviderId t = providerId \<and> pt_Status t = 1) (db_tokens d))"

definition GetProviderTokenById :: "int \<Rightarrow> db \<Rightarrow> gw_error + ProviderToken" where
  "GetProviderTokenById tid d =
    (if tid = 0 then Inl ErrEmptyId
     else case find (\<lambda>t. pt_Id t = tid) (db_tokens d) of Some t \<Rightarrow> Inr t | None \<Rightarrow> Inl ErrNotFound)"

definition GetProviderTokenByUpstream :: "int \<Rightarrow> int \<Rightarrow> db \<Rightarrow> ProviderToken option" where
  "GetProviderTokenByUpstream providerId upstreamTokenId d =
    find (\<lambda>t. pt_ProviderId t = providerId \<and> pt_UpstreamTokenId t = upstreamTokenId) (db_tokens d)"

definition create_token :: "(ProviderToken \<Rightarrow> ProviderToken) \<Rightarrow> ProviderToken \<Rightarrow> db \<Rightarrow> db" where
  \<comment> \<open>\<open>DB.Create\<close>: \<open>defaults\<close> is what GORM stores for the struct\<close>
  "create_token defaults pt d =
    d\<lparr>db_tokens := db_tokens d @
      [(defaults pt)\<lparr>pt_Id := (if pt_Id pt = 0 then next_row_id pt_Id (db_tokens d) else pt_Id pt)\<rparr>]\<rparr>"

definition Token_Insert :: "(ProviderToken \<Rightarrow> ProviderToken) \<Rightarrow> gotime \<Rightarrow> ProviderToken \<Rightarrow> db \<Rightarrow> db" where
  "Token_Insert defaults now pt d = create_token defaults (with_key_state (pt\<lparr>pt_CreatedAt := Unix now\<rparr>)) d"

definition Token_Update :: "ProviderToken \<Rightarrow> db \<Rightarrow> db" where
  "Token_Update pt d =
    d\<lparr>db_tokens := row_update (\<lambda>r. pt_Id r = pt_Id pt) (fullPersistenceUpdates pt) (db_tokens d)\<rparr>"

definition UpdateMetadataOnly :: "ProviderToken \<Rightarrow> db \<Rightarrow> db" where
  "UpdateMetadataOnly pt d =
    d\<lparr>db_tokens := row_update (\<lambda>r. pt_Id r = pt_Id pt)
      (\<lambda>r. r\<lparr>pt_Name := pt_Name pt, pt_GroupName := pt_GroupName pt, pt_Status := pt_Status pt,
             pt_Priority := pt_Priority pt, pt_Weight := pt_Weight pt\<rparr>) (db_tokens d)\<rparr>"

definition Token_Delete :: "ProviderToken \<Rightarrow> db \<Rightarrow> db" where
  "Token_Delete pt d =
    d\<lparr>db_routes := row_delete (\<lambda>r. mr_ProviderTokenId r = pt_Id pt) (db_routes d),
      db_tokens := row_delete (\<lambda>r. pt_Id r = pt_Id pt) (db_tokens d)\<rparr>"

definition UpsertProviderToken :: "(ProviderToken \<Rightarrow> ProviderToken) \<Rightarrow> gotime \<Rightarrow> ProviderToken \<Rightarrow> db \<Rightarrow> db" where
  "UpsertProviderToken defaults now pt d =
    (case GetProviderTokenByUpstream (pt_ProviderId pt) (pt_UpstreamTokenId pt) d of
       Some existing \<Rightarrow>
         (let pt = pt\<lparr>pt_Id := pt_Id existing, pt_CreatedAt := pt_CreatedAt existing\<rparr>
          in d\<lparr>db_tokens := row_update (\<lambda>r. pt_Id r = pt_Id existing) (fullPersistenceUpdates pt) (db_tokens d)\<rparr>)
     | None \<Rightarrow> create_token defaults ((with_key_state pt)\<lparr>pt_CreatedAt := Unix now\<rparr>) d)"

definition DeleteProviderTokensNotInIds :: "int \<Rightarrow> int list \<Rightarrow> db \<Rightarrow> db" where
  "DeleteProviderTokensNotInIds providerId upstreamIds d =
    (if upstreamIds = [] then d\<lparr>db_tokens := row_delete (\<lambda>t. pt_ProviderId t = providerId) (db_tokens d)\<rparr>
     else d\<lparr>db_tokens := row_delete (\<lambda>t. pt_ProviderId t = providerId \<and> pt_UpstreamTokenId t \<notin> set upstreamIds) (db_tokens d)\<rparr>)"

definition Token_CleanForResponse :: "ProviderToken \<Rightarrow> ProviderToken" where
  "Token_CleanForResponse pt =
    (case resolvedPersistenceState pt of (k, s, r) \<Rightarrow>
       (let pt = pt\<lparr>pt_KeyStatus := s, pt_KeyUnresolvedReason := r\<rparr> in
        if s = ''ready'' then pt\<lparr>pt_SkKey := k, pt_KeyUnresolvedReason := []\<rparr> else pt\<lparr>pt_SkKey := []\<rparr>))"

definition GetProvidersWithUnresolvedProviderTokens :: "db \<Rightarrow> Provider list" where
  "GetProvidersWithUnresolvedProviderTokens d =
    (let providerIds = map pt_ProviderId (filter (\<lambda>t. pt_KeyStatus t = ''unresolved'') (db_tokens d))
     in sort_key p_Id (filter (\<lambda>p. p_Id p \<in> set providerIds) (db_providers d)))"

fun backfill_loop :: "ProviderToken list \<Rightarrow> db \<Rightarrow> db" where
  "backfill_loop [] d = d"
| "backfill_loop (token # tokens) d =
    (case resolvedPersistenceState token of (k, s, r) \<Rightarrow>
       if pt_SkKey token = k \<and> pt_KeyStatus token = s \<and> pt_KeyUnresolvedReason token = r
       then backfill_loop tokens d
       else backfill_loop tokens
         (d\<lparr>db_tokens := row_update (\<lambda>t. pt_Id t = pt_Id token)
             (\<lambda>t. t\<lparr>pt_SkKey := k, pt_KeyStatus := s, pt_KeyUnresolvedReason := r\<rparr>) (db_tokens d)\<rparr>))"

definition BackfillProviderTokenKeyState :: "db \<Rightarrow> db" where
  "BackfillProviderTokenKeyState d = backfill_loop (sort_key pt_Id (db_tokens d)) d"

subsection \<open>Key material\<close>

lemma TrimSpace_plain:
  assumes "lead_len go_spaces s = 0" and "lead_len (map rev go_spaces) (rev s) = 0"
  shows "TrimSpace s = s"
  using assms by (simp add: TrimSpace_def TrimLeftSpace_def TrimRightSpace_def strip_lead_id)

lemma TrimSpace_trimmed_ends:
  assumes "TrimSpace s = s"
  shows "lead_len go_spaces s = 0" "lead_len (map rev go_spaces) (rev s) = 0"
proof -
  show "lead_len go_spaces s = 0" using TrimSpace_no_lead [of s] assms by simp
  have "rev s = strip_lead (map rev go_spaces) (rev (TrimLeftSpace s))"
    using assms by (metis TrimRightSpace_def TrimSpace_def rev_rev_ident)
  then show "lead_len (map rev go_spaces) (rev s) = 0" by (metis strip_lead_done)
qed

lemma rev_spaces_nonempty: "[] \<notin> set (map rev go_spaces)"
  using go_spaces_nonempty by auto

text \<open>A trimmed text with \<open>sk-\<close> put in front of its remainder is trimmed.\<close>

lemma TrimSpace_sk:
  assumes "TrimSpace t = t" and "t = u @ r" and "r \<noteq> []"
  shows "TrimSpace (''sk-'' @ r) = ''sk-'' @ r"
proof (rule TrimSpace_plain)
  show "lead_len go_spaces (''sk-'' @ r) = 0"
    unfolding lead_len_0 [OF go_spaces_nonempty] by (auto simp: go_spaces_def)
  have e: "\<not> prefix p (rev r @ rev u)" if "p \<in> set (map rev go_spaces)" for p
    using TrimSpace_trimmed_ends(2) [OF assms(1)] that
    unfolding lead_len_0 [OF rev_spaces_nonempty] by (auto simp: assms(2))
  have "\<not> prefix p (rev (''sk-'' @ r))" if p: "p \<in> set (map rev go_spaces)" for p
  proof
    assume pre: "prefix p (rev (''sk-'' @ r))"
    have "set p \<inter> {CHR ''s'', CHR ''k'', CHR ''-''} = {}" using p by (auto simp: go_spaces_def)
    then have "prefix p (rev r)" using pre by (auto simp: prefix_append prefix_Cons)
    then have "prefix p (rev r @ rev u)" by simp
    with e p show False by blast
  qed
  then show "lead_len (map rev go_spaces) (rev (''sk-'' @ r)) = 0"
    unfolding lead_len_0 [OF rev_spaces_nonempty] by blast
qed

lemma IsUsable_trim [simp]: "IsUsableProviderTokenKey (TrimSpace k) = IsUsableProviderTokenKey k"
  by (simp add: IsUsableProviderTokenKey_def ClassifyProviderTokenKeyMaterial_def)

lemma StrContains_stars_append:
  assumes "CHR ''*'' \<notin> set u" and "StrContains (u @ r) ''**''" shows "StrContains r ''**''"
  using assms
proof (induction u)
  case (Cons c u)
  then show ?case by (auto simp: StrContains_def)
qed simp

lemma HasPrefix_drop: "HasPrefix s p \<Longrightarrow> s = p @ drop (length p) s"
  by (auto simp: HasPrefix_def prefix_def)

lemma stored_key_usable:
  assumes "IsUsableProviderTokenKey k"
  defines "r \<equiv> TrimPrefix (TrimSpace k) ''sk-''"
  shows "TrimSpace (''sk-'' @ r) = ''sk-'' @ r" and "IsUsableProviderTokenKey (''sk-'' @ r)"
proof -
  let ?t = "TrimSpace k"
  have c: "?t \<noteq> []" "\<not> IsMaskedKey ?t" "r \<noteq> []" "\<not> IsMaskedKey r"
    using assms by (auto simp: IsUsableProviderTokenKey_def ClassifyProviderTokenKeyMaterial_def Let_def split: if_splits)
  obtain u where u: "?t = u @ r"
    using TrimPrefix_suffix [of ?t "''sk-''"] by (auto simp: r_def suffix_def)
  show trim: "TrimSpace (''sk-'' @ r) = ''sk-'' @ r"
    by (rule TrimSpace_sk [OF _ u c(3)]) simp
  have "\<not> StrContains ?t ''**''" using c(2) by (simp add: IsMaskedKey_def)
  then have "\<not> StrContains (u @ r) ''**''" unfolding u .
  then have "\<not> StrContains r ''**''"
    using StrContains_sublist sublist_order.order.trans sublist_append_leftI [of r u] by (metis sublist_append_leftI)
  then have "\<not> StrContains (''sk-'' @ r) ''**''" using StrContains_stars_append [of "''sk-''" r] by auto
  then have "\<not> IsMaskedKey (''sk-'' @ r)" unfolding IsMaskedKey_def trim .
  moreover have "TrimPrefix (''sk-'' @ r) ''sk-'' = r" by (simp add: TrimPrefix_def HasPrefix_def)
  ultimately show "IsUsableProviderTokenKey (''sk-'' @ r)"
    unfolding IsUsableProviderTokenKey_def ClassifyProviderTokenKeyMaterial_def Let_def trim
    using c by simp
qed

lemma NormalizeKey_Nil: "NormalizeProviderTokenKeyForStorage k = [] \<longleftrightarrow> \<not> IsUsableProviderTokenKey k"
  by (simp add: NormalizeProviderTokenKeyForStorage_def Let_def)

lemma NormalizeKey_idem:
  "NormalizeProviderTokenKeyForStorage (NormalizeProviderTokenKeyForStorage k) = NormalizeProviderTokenKeyForStorage k"
proof (cases "IsUsableProviderTokenKey k")
  case True
  define r where "r = TrimPrefix (TrimSpace k) ''sk-''"
  have n: "NormalizeProviderTokenKeyForStorage k = ''sk-'' @ r"
    using True by (simp add: NormalizeProviderTokenKeyForStorage_def Let_def r_def)
  have "TrimPrefix (''sk-'' @ r) ''sk-'' = r" by (simp add: TrimPrefix_def HasPrefix_def)
  moreover note stored_key_usable [OF True, folded r_def]
  ultimately show ?thesis
    unfolding n unfolding NormalizeProviderTokenKeyForStorage_def Let_def by simp
next
  case False
  then have "NormalizeProviderTokenKeyForStorage k = []" by (simp add: NormalizeKey_Nil)
  moreover have "NormalizeProviderTokenKeyForStorage [] = []" by code_simp
  ultimately show ?thesis by simp
qed

lemma IsUsable_Normalize [simp]:
  "IsUsableProviderTokenKey (NormalizeProviderTokenKeyForStorage k) = IsUsableProviderTokenKey k"
  by (metis NormalizeKey_Nil NormalizeKey_idem)

text \<open>
  The stored key state follows from the key alone: it is \<open>ready\<close> exactly when the key is usable,
  \<open>ready\<close> rows are the ones with a non-empty stored key, and resolving a stored state again
  changes nothing.
\<close>

lemma key_state_normal_form:
  assumes "ResolveProviderTokenPersistenceState k st reason = (k', st', reason')"
  shows "(st' = ''ready'' \<longleftrightarrow> IsUsableProviderTokenKey k) \<and> (st' = ''ready'' \<longleftrightarrow> k' \<noteq> [])
    \<and> (st' = ''ready'' \<or> st' = ''unresolved'' \<and> reason' \<noteq> [])
    \<and> ResolveProviderTokenPersistenceState k' st' reason' = (k', st', reason')"
proof (cases "IsUsableProviderTokenKey k")
  case True
  with assms show ?thesis
    by (auto simp: ResolveProviderTokenPersistenceState_def NormalizeKey_Nil NormalizeKey_idem Let_def)
next
  case False
  then have e: "k' = []" "st' = ''unresolved''" "reason' = defaultProviderTokenUnresolvedReason reason k"
    using assms by (auto simp: ResolveProviderTokenPersistenceState_def NormalizeKey_Nil Let_def)
  have r: "TrimSpace reason' = reason'" "reason' \<noteq> []"
  proof -
    have "TrimSpace ''legacy_contaminated'' = ''legacy_contaminated''"
      "TrimSpace ''plaintext_not_recovered'' = ''plaintext_not_recovered''" by code_simp+
    then show "TrimSpace reason' = reason'" "reason' \<noteq> []"
      unfolding e(3) defaultProviderTokenUnresolvedReason_def NormalizeProviderTokenKeyUnresolvedReason_def Let_def
      by (auto split: if_splits)
  qed
  have "NormalizeProviderTokenKeyForStorage [] = []" by code_simp
  then have "ResolveProviderTokenPersistenceState [] ''unresolved'' reason' = ([], ''unresolved'', reason')"
    using r by (simp add: ResolveProviderTokenPersistenceState_def defaultProviderTokenUnresolvedReason_def
        NormalizeProviderTokenKeyUnresolvedReason_def)
  with False r show ?thesis by (simp add: e(1,2))
qed

lemma IsKeyReady_usable: "IsKeyReady pt \<longleftrightarrow> IsUsableProviderTokenKey (pt_SkKey pt)"
  by (auto simp: IsKeyReady_def resolvedPersistenceState_def ResolveProviderTokenPersistenceState_def NormalizeKey_Nil Let_def)

lemma PreserveReadyKeyFrom_ready:
  "PreserveReadyKeyFrom existing pt = (True, pt') \<Longrightarrow> IsKeyReady pt' \<and> pt_KeyStatus pt' = ''ready''"
  unfolding PreserveReadyKeyFrom_def MarkKeyReady_def IsKeyReady_usable
  by (auto split: option.splits if_splits)

subsection \<open>The invariant of the token table\<close>

definition token_key :: "ProviderToken \<Rightarrow> int \<times> int" where
  "token_key t = (pt_ProviderId t, pt_UpstreamTokenId t)"

definition key_state_ok :: "ProviderToken \<Rightarrow> bool" where
  "key_state_ok t \<longleftrightarrow> resolvedPersistenceState t = (pt_SkKey t, pt_KeyStatus t, pt_KeyUnresolvedReason t)"

definition token_table_ok :: "ProviderToken list \<Rightarrow> bool" where
  "token_table_ok ts \<longleftrightarrow> distinct (map pt_Id ts) \<and> distinct (map token_key ts) \<and> list_all key_state_ok ts"

text \<open>What the code relies on GORM for when it creates a token row: the columns it sets are stored.\<close>

definition token_defaults_keep :: "(ProviderToken \<Rightarrow> ProviderToken) \<Rightarrow> bool" where
  "token_defaults_keep defaults \<longleftrightarrow> (\<forall>t. token_key (defaults t) = token_key t \<and> pt_SkKey (defaults t) = pt_SkKey t
     \<and> (pt_KeyStatus t \<noteq> [] \<longrightarrow> pt_KeyStatus (defaults t) = pt_KeyStatus t)
     \<and> pt_KeyUnresolvedReason (defaults t) = pt_KeyUnresolvedReason t)"

lemma key_state_ok_set:
  "resolvedPersistenceState pt = (k, s, r) \<Longrightarrow> key_state_ok (t\<lparr>pt_SkKey := k, pt_KeyStatus := s, pt_KeyUnresolvedReason := r\<rparr>)
   \<and> s \<noteq> []"
  using key_state_normal_form [of "pt_SkKey pt" "pt_KeyStatus pt" "pt_KeyUnresolvedReason pt" k s r]
  by (auto simp: key_state_ok_def resolvedPersistenceState_def)

lemma fullPersistenceUpdates_ok:
  "key_state_ok (fullPersistenceUpdates pt row)" "token_key (fullPersistenceUpdates pt row) = token_key pt"
  "pt_Id (fullPersistenceUpdates pt row) = pt_Id row"
  using key_state_ok_set [of pt]
  by (auto simp: fullPersistenceUpdates_def metadataUpdates_def token_key_def split: prod.splits)

lemma find_token_key:
  "GetProviderTokenByUpstream (pt_ProviderId pt) (pt_UpstreamTokenId pt) d = find (\<lambda>t. token_key t = token_key pt) (db_tokens d)"
  by (simp add: GetProviderTokenByUpstream_def token_key_def)

lemma row_update_by_id:
  assumes "distinct (map f ts)" and "e \<in> set ts"
  shows "row_update (\<lambda>r. f r = f e) g ts = map (\<lambda>r. if r = e then g r else r) ts"
  unfolding row_update_def using assms
  by (intro map_cong refl) (auto simp: distinct_map inj_on_def)

lemma distinct_map_update:
  "distinct (map h ts) \<Longrightarrow> h (g e) = h e \<Longrightarrow> distinct (map h (map (\<lambda>r. if r = e then g r else r) ts))"
proof -
  assume "distinct (map h ts)" "h (g e) = h e"
  moreover from this(2) have "map h (map (\<lambda>r. if r = e then g r else r) ts) = map h ts" by auto
  ultimately show ?thesis by (simp only:)
qed

text \<open>
  \<open>UpsertProviderToken\<close> keeps the token table well formed (one row per identifier and per upstream
  token, every stored key state in normal form), leaves exactly one row for the upserted token,
  carrying its name and status and its normalised key, and keeps all other rows.
\<close>

lemma UpsertProviderToken_ok:
  assumes ok: "token_table_ok (db_tokens d)" and g: "token_defaults_keep defaults" and new: "pt_Id pt = 0"
  shows "token_table_ok (db_tokens (UpsertProviderToken defaults now pt d))
    \<and> (\<exists>r \<in> set (db_tokens (UpsertProviderToken defaults now pt d)). token_key r = token_key pt
          \<and> (pt_SkKey r, pt_KeyStatus r, pt_KeyUnresolvedReason r) = resolvedPersistenceState pt)
    \<and> {t \<in> set (db_tokens (UpsertProviderToken defaults now pt d)). token_key t \<noteq> token_key pt}
       = {t \<in> set (db_tokens d). token_key t \<noteq> token_key pt}"
proof (cases "find (\<lambda>t. token_key t = token_key pt) (db_tokens d)")
  case None
  let ?ts = "db_tokens d"
  obtain k s r where st: "resolvedPersistenceState pt = (k, s, r)" by (metis prod_cases3)
  define row where "row = (defaults ((with_key_state pt)\<lparr>pt_CreatedAt := Unix now\<rparr>))\<lparr>pt_Id := next_row_id pt_Id ?ts\<rparr>"
  note ks = key_state_ok_set [OF st]
  have id0: "pt_Id ((with_key_state pt)\<lparr>pt_CreatedAt := Unix now\<rparr>) = 0"
    by (simp add: with_key_state_def st new)
  have row: "token_key row = token_key pt" "pt_SkKey row = k" "pt_KeyStatus row = s" "pt_KeyUnresolvedReason row = r"
    using g ks by (simp_all add: row_def token_defaults_keep_def token_key_def with_key_state_def st)
  have t: "db_tokens (UpsertProviderToken defaults now pt d) = ?ts @ [row]"
    by (simp add: UpsertProviderToken_def find_token_key None create_token_def row_def id0)
  have "key_state_ok row"
    using ks row unfolding key_state_ok_def resolvedPersistenceState_def by simp
  moreover have "pt_Id row \<notin> pt_Id ` set ?ts"
    using next_row_id_fresh [of _ ?ts pt_Id] by (force simp: row_def)
  moreover have no: "\<forall>t \<in> set ?ts. token_key t \<noteq> token_key pt" using None by (auto simp: find_None_iff)
  ultimately have "token_table_ok (?ts @ [row])"
    using ok row by (auto simp: token_table_ok_def)
  then show ?thesis using row by (auto simp: t st)
next
  case (Some e)
  let ?ts = "db_tokens d"
  have e: "e \<in> set ?ts" "token_key e = token_key pt" using find_in [OF Some] by simp_all
  define pt' where "pt' = pt\<lparr>pt_Id := pt_Id e, pt_CreatedAt := pt_CreatedAt e\<rparr>"
  define upd where "upd = fullPersistenceUpdates pt'"
  have k': "token_key pt' = token_key pt" "resolvedPersistenceState pt' = resolvedPersistenceState pt"
    by (simp_all add: pt'_def token_key_def resolvedPersistenceState_def)
  have d: "distinct (map pt_Id ?ts)" "distinct (map token_key ?ts)" "list_all key_state_ok ?ts"
    using ok by (simp_all add: token_table_ok_def)
  have t: "db_tokens (UpsertProviderToken defaults now pt d) = map (\<lambda>r. if r = e then upd r else r) ?ts"
    by (simp add: UpsertProviderToken_def find_token_key Some Let_def row_update_by_id [OF d(1) e(1)] pt'_def upd_def)
  have u: "token_key (upd r) = token_key pt" "pt_Id (upd r) = pt_Id r" "key_state_ok (upd r)" for r
    by (simp_all add: upd_def fullPersistenceUpdates_ok k')
  have "token_table_ok (map (\<lambda>r. if r = e then upd r else r) ?ts)"
    unfolding token_table_ok_def
    using distinct_map_update [OF d(1), of upd e] distinct_map_update [OF d(2), of upd e] d(3) u e
    by (auto simp: list_all_iff)
  moreover have one: "token_key r = token_key pt \<longleftrightarrow> r = e" if "r \<in> set ?ts" for r
    using that e d(2) by (auto simp: distinct_map inj_on_def)
  have "(pt_SkKey (upd e), pt_KeyStatus (upd e), pt_KeyUnresolvedReason (upd e)) = resolvedPersistenceState pt"
    by (simp add: upd_def fullPersistenceUpdates_def k' split: prod.split)
  moreover have "{t \<in> set (map (\<lambda>r. if r = e then upd r else r) ?ts). token_key t \<noteq> token_key pt} = {t \<in> set ?ts. token_key t \<noteq> token_key pt}"
    using one u(1) by auto
  ultimately show ?thesis using e(1) u(1) unfolding t by force
qed

definition sample_token :: ProviderToken where
  "sample_token =
    \<lparr>pt_Id = 0, pt_ProviderId = 7, pt_UpstreamTokenId = 11, pt_SkKey = ''abc'', pt_KeyStatus = [], pt_KeyUnresolvedReason = [],
     pt_Name = ''main'', pt_GroupName = ''default'', pt_Status = 1, pt_Priority = 0, pt_Weight = 10, pt_RemainQuota = 0,
     pt_UnlimitedQuota = True, pt_UsedQuota = 0, pt_ModelLimits = [], pt_LastSynced = 0, pt_CreatedAt = 0\<rparr>"

lemma GetEnabledProviderTokens_ready:
  "t \<in> set (GetEnabledProviderTokensByProviderId p d) \<longleftrightarrow>
    t \<in> set (db_tokens d) \<and> pt_ProviderId t = p \<and> pt_Status t = 1 \<and> IsUsableProviderTokenKey (pt_SkKey t)"
  by (auto simp: GetEnabledProviderTokensByProviderId_def CanParticipateInRouting_def IsKeyReady_usable)

subsection \<open>Backfilling the key state\<close>

definition key_columns :: "ProviderToken \<Rightarrow> gostring \<times> gostring \<times> gostring" where
  "key_columns t = (pt_SkKey t, pt_KeyStatus t, pt_KeyUnresolvedReason t)"

lemma key_columns_same:
  assumes "key_columns r = key_columns t" and "resolvedPersistenceState t = (k, s, q)"
  shows "with_key_state r = r\<lparr>pt_SkKey := k, pt_KeyStatus := s, pt_KeyUnresolvedReason := q\<rparr>"
    and "key_columns t = (k, s, q) \<Longrightarrow> with_key_state r = r"
proof -
  have r: "resolvedPersistenceState r = (k, s, q)" using assms by (simp add: key_columns_def resolvedPersistenceState_def)
  then show "with_key_state r = r\<lparr>pt_SkKey := k, pt_KeyStatus := s, pt_KeyUnresolvedReason := q\<rparr>"
    by (simp add: with_key_state_def)
  assume "key_columns t = (k, s, q)"
  then show "with_key_state r = r" using r assms(1) by (simp add: with_key_state_def key_columns_def)
qed

lemma backfill_loop_rows:
  assumes "distinct (map pt_Id xs)"
    and "\<forall>t \<in> set xs. \<forall>r \<in> set (db_tokens d). pt_Id r = pt_Id t \<longrightarrow> key_columns r = key_columns t"
  shows "db_tokens (backfill_loop xs d) =
    map (\<lambda>r. if pt_Id r \<in> pt_Id ` set xs then with_key_state r else r) (db_tokens d)"
  using assms
proof (induction xs arbitrary: d)
  case (Cons t xs)
  obtain k s q where st: "resolvedPersistenceState t = (k, s, q)" by (metis prod_cases3)
  define upd where "upd = (\<lambda>t :: ProviderToken. t\<lparr>pt_SkKey := k, pt_KeyStatus := s, pt_KeyUnresolvedReason := q\<rparr>)"
  define d1 where "d1 = (if key_columns t = (k, s, q) then d
     else d\<lparr>db_tokens := row_update (\<lambda>r. pt_Id r = pt_Id t) upd (db_tokens d)\<rparr>)"
  have step: "backfill_loop (t # xs) d = backfill_loop xs d1"
    by (simp add: st d1_def key_columns_def upd_def)
  have d1: "db_tokens d1 = map (\<lambda>r. if pt_Id r = pt_Id t then with_key_state r else r) (db_tokens d)"
    using Cons.prems(2) key_columns_same [OF _ st]
    by (auto simp: d1_def row_update_def upd_def intro!: map_idI [symmetric] map_cong)
  have id: "pt_Id (with_key_state r) = pt_Id r" for r by (simp add: with_key_state_def split: prod.split)
  have "\<forall>u \<in> set xs. \<forall>r \<in> set (db_tokens d1). pt_Id r = pt_Id u \<longrightarrow> key_columns r = key_columns u"
    using Cons.prems by (force simp: d1 id image_iff)
  then show ?case using Cons.IH [of d1] Cons.prems(1) unfolding step by (auto simp: d1 id)
qed simp

lemma backfill_all_ok:
  assumes "distinct (map pt_Id (db_tokens d))"
  shows "db_tokens (BackfillProviderTokenKeyState d) = map with_key_state (db_tokens d)"
proof -
  have "\<forall>t \<in> set (db_tokens d). \<forall>r \<in> set (db_tokens d). pt_Id r = pt_Id t \<longrightarrow> key_columns r = key_columns t"
    using assms by (auto simp: distinct_map inj_on_def)
  moreover have "distinct (map pt_Id (sort_key pt_Id (db_tokens d)))"
    using assms mset_eq_imp_distinct_iff [of "map pt_Id (sort_key pt_Id (db_tokens d))" "map pt_Id (db_tokens d)"]
    by (simp only: mset_map mset_sort)
  ultimately have "db_tokens (BackfillProviderTokenKeyState d) =
      map (\<lambda>r. if pt_Id r \<in> pt_Id ` set (db_tokens d) then with_key_state r else r) (db_tokens d)"
    using backfill_loop_rows [of "sort_key pt_Id (db_tokens d)" d]
    unfolding BackfillProviderTokenKeyState_def set_sort by blast
  then show ?thesis by simp
qed

end
