(* ===== verification/RouteScore.thy ===== *)
theory RouteScore
  imports ProviderTokens
begin

text \<open>
  The numbers behind the routing decisions of \<open>src/model/model_route.go\<close>: the tuning configuration read
  from the option map, the unit cost of a route, its value score, its health multiplier and its
  contribution to the weighted choice, the keys of the lookup tables, and the statistics that the
  SQL queries over the usage log compute. A \<open>float64\<close> is a real number.
\<close>

record routingTuningConfig =
  rc_UsageWindowHours :: int
  rc_BaseWeightFactor :: real
  rc_ValueScoreFactor :: real
  rc_HealthEnabled :: bool
  rc_HealthWindowHours :: int
  rc_FailurePenaltyAlpha :: real
  rc_HealthRewardBeta :: real
  rc_HealthMinMultiplier :: real
  rc_HealthMaxMultiplier :: real
  rc_HealthMinSamples :: int
  rc_InvalidResponseSuppressionEnabled :: bool
  rc_InvalidResponseThreshold :: int
  rc_InvalidResponseWindowMinutes :: int
  rc_InvalidResponseCooldownMinutes :: int

record routeHealthStats =
  hs_SuccessCount :: int
  hs_ErrorCount :: int
  hs_SampleCount :: int
  hs_AvgLatencyMs :: real
  hs_SuccessRate :: real
  hs_FailRate :: real
  hs_InvalidResponseCount :: int
  hs_InvalidResponseRate :: real
  hs_HealthScore :: real
  hs_Multiplier :: real

definition zeroHealthStats :: routeHealthStats where
  "zeroHealthStats =
    \<lparr>hs_SuccessCount = 0, hs_ErrorCount = 0, hs_SampleCount = 0, hs_AvgLatencyMs = 0, hs_SuccessRate = 0,
     hs_FailRate = 0, hs_InvalidResponseCount = 0, hs_InvalidResponseRate = 0, hs_HealthScore = 0, hs_Multiplier = 0\<rparr>"

subsection \<open>Reading options\<close>

definition parseOptionBool :: "gostring \<Rightarrow> bool \<Rightarrow> bool" where
  "parseOptionBool raw fallback =
    (let txt = TrimSpace (ToLower raw) in
     if txt = [] then fallback
     else if txt \<in> {''true'', ''1'', ''yes'', ''on''} then True
     else if txt \<in> {''false'', ''0'', ''no'', ''off''} then False
     else fallback)"

definition parseOptionIntInRange :: "gostring \<Rightarrow> int \<Rightarrow> int \<Rightarrow> int \<Rightarrow> int" where
  "parseOptionIntInRange raw fallback lo hi =
    (case Atoi (TrimSpace raw) of
       None \<Rightarrow> fallback
     | Some v \<Rightarrow> if v < lo \<or> v > hi then fallback else v)"

definition parseOptionFloatInRange :: "gostring \<Rightarrow> real \<Rightarrow> real \<Rightarrow> real \<Rightarrow> real" where
  "parseOptionFloatInRange raw fallback lo hi =
    (case ParseFloat (TrimSpace raw) of
       FP_Num v \<Rightarrow> if v < lo \<or> v > hi then fallback else v
     | _ \<Rightarrow> fallback)"

definition defaultRoutingTuningConfig :: routingTuningConfig where
  "defaultRoutingTuningConfig =
    \<lparr>rc_UsageWindowHours = 24, rc_BaseWeightFactor = 2 / 10, rc_ValueScoreFactor = 8 / 10,
     rc_HealthEnabled = False, rc_HealthWindowHours = 6, rc_FailurePenaltyAlpha = 4,
     rc_HealthRewardBeta = 8 / 100, rc_HealthMinMultiplier = 5 / 100, rc_HealthMaxMultiplier = 112 / 100,
     rc_HealthMinSamples = 5, rc_InvalidResponseSuppressionEnabled = False, rc_InvalidResponseThreshold = 3,
     rc_InvalidResponseWindowMinutes = 10, rc_InvalidResponseCooldownMinutes = 15\<rparr>"

definition loadRoutingTuningConfig :: "(gostring, gostring) gomap \<Rightarrow> routingTuningConfig" where
  "loadRoutingTuningConfig options =
    (let opt = mget_default [] options; c = defaultRoutingTuningConfig;
         c = c\<lparr>rc_UsageWindowHours := parseOptionIntInRange (opt ''RoutingUsageWindowHours'') 24 1 (24 * 30)\<rparr>;
         c = c\<lparr>rc_BaseWeightFactor := parseOptionFloatInRange (opt ''RoutingBaseWeightFactor'') (2 / 10) 0 10\<rparr>;
         c = c\<lparr>rc_ValueScoreFactor := parseOptionFloatInRange (opt ''RoutingValueScoreFactor'') (8 / 10) 0 10\<rparr>;
         c = c\<lparr>rc_HealthEnabled := parseOptionBool (opt ''RoutingHealthAdjustmentEnabled'') False\<rparr>;
         c = c\<lparr>rc_HealthWindowHours := parseOptionIntInRange (opt ''RoutingHealthWindowHours'') 6 1 (24 * 30)\<rparr>;
         c = c\<lparr>rc_FailurePenaltyAlpha := parseOptionFloatInRange (opt ''RoutingFailurePenaltyAlpha'') 4 0 20\<rparr>;
         c = c\<lparr>rc_HealthRewardBeta := parseOptionFloatInRange (opt ''RoutingHealthRewardBeta'') (8 / 100) 0 2\<rparr>;
         c = c\<lparr>rc_HealthMinMultiplier := parseOptionFloatInRange (opt ''RoutingHealthMinMultiplier'') (5 / 100) 0 10\<rparr>;
         c = c\<lparr>rc_HealthMaxMultiplier := parseOptionFloatInRange (opt ''RoutingHealthMaxMultiplier'') (112 / 100) 0 10\<rparr>;
         c = c\<lparr>rc_HealthMinSamples := parseOptionIntInRange (opt ''RoutingHealthMinSamples'') 5 1 1000\<rparr>;
         c = c\<lparr>rc_InvalidResponseSuppressionEnabled :=
                parseOptionBool (opt ''RoutingInvalidResponseSuppressionEnabled'') False\<rparr>;
         c = c\<lparr>rc_InvalidResponseThreshold :=
                parseOptionIntInRange (opt ''RoutingInvalidResponseSuppressionThreshold'') 3 1 1000\<rparr>;
         c = c\<lparr>rc_InvalidResponseWindowMinutes :=
                parseOptionIntInRange (opt ''RoutingInvalidResponseSuppressionWindowMinutes'') 10 1 (24 * 60)\<rparr>;
         c = c\<lparr>rc_InvalidResponseCooldownMinutes :=
                parseOptionIntInRange (opt ''RoutingInvalidResponseSuppressionCooldownMinutes'') 15 1 (24 * 60)\<rparr>;
         c = (if rc_BaseWeightFactor c = 0 \<and> rc_ValueScoreFactor c = 0
              then c\<lparr>rc_BaseWeightFactor := 2 / 10, rc_ValueScoreFactor := 8 / 10\<rparr> else c)
     in if rc_HealthMaxMultiplier c < rc_HealthMinMultiplier c
        then c\<lparr>rc_HealthMaxMultiplier := rc_HealthMinMultiplier c\<rparr> else c)"

subsection \<open>Keys\<close>

definition routePricingKey :: "int \<Rightarrow> gostring \<Rightarrow> gostring" where
  "routePricingKey providerId modelName = Itoa providerId @ ''#'' @ TrimSpace modelName"

definition routeUsageKey :: "int \<Rightarrow> gostring \<Rightarrow> gostring" where
  "routeUsageKey providerTokenId modelName = Itoa providerTokenId @ ''#'' @ TrimSpace modelName"

definition routeModelTokenKey :: "gostring \<Rightarrow> int \<Rightarrow> gostring" where
  "routeModelTokenKey modelName providerTokenId = TrimSpace modelName @ ''|'' @ Itoa providerTokenId"

subsection \<open>Cost, balance and value\<close>

definition parseGroupRatioMap :: "gostring \<Rightarrow> (gostring, real) gomap" where
  "parseGroupRatioMap raw = (if TrimSpace raw = [] then [] else unmarshal_float_map raw)"

definition getGroupRatio :: "gostring \<Rightarrow> (gostring, real) gomap \<Rightarrow> real" where
  "getGroupRatio groupName groupRatioMap =
    (if TrimSpace groupName = [] then 1
     else case mget groupRatioMap groupName of
       None \<Rightarrow> 1
     | Some ratio \<Rightarrow> if ratio \<le> 0 then 1 else ratio)"

definition calcRouteUnitCostUSD ::
  "int \<Rightarrow> gostring \<Rightarrow> gostring \<Rightarrow> (int, (gostring, real) gomap) gomap \<Rightarrow> (gostring, ModelPricing) gomap \<Rightarrow> real" where
  "calcRouteUnitCostUSD providerId modelName tokenGroup groupRatioLookup pricingLookup =
    (case mget pricingLookup (routePricingKey providerId modelName) of
       None \<Rightarrow> 0
     | Some pricing \<Rightarrow>
         let groupRatio = getGroupRatio tokenGroup (mget_default [] groupRatioLookup providerId) in
         if mp_ModelPrice pricing > 0 \<or> mp_QuotaType pricing = 1 then
           (let cost = mp_ModelPrice pricing * groupRatio in if cost < 0 then 0 else cost)
         else if mp_ModelRatio pricing \<le> 0 then 0
         else
           let promptPrice = mp_ModelRatio pricing * 2 * groupRatio;
               completionRatio = (if mp_CompletionRatio pricing \<le> 0 then 1 else mp_CompletionRatio pricing);
               completionPrice = promptPrice * completionRatio;
               total = promptPrice + completionPrice
           in if total < 0 then 0 else total)"

definition parseBalanceUSD :: "gostring \<Rightarrow> real" where
  "parseBalanceUSD raw =
    (let txt = TrimSpace raw in
     if txt = [] then 0
     else
       let txt = filter (\<lambda>c. c \<noteq> CHR '','') txt;
           txt = TrimPrefix txt ''$'';
           txt = TrimPrefix (ToLower txt) ''usd'';
           txt = TrimSpace txt
       in case ParseFloat txt of
            FP_Num v \<Rightarrow> if v < 0 then 0 else v
          | _ \<Rightarrow>
              (let matched = find_number txt in
               if matched = [] then 0
               else case ParseFloat matched of
                      FP_Num v \<Rightarrow> if v < 0 then 0 else v
                    | _ \<Rightarrow> 0))"

definition computeRouteValueScore :: "real \<Rightarrow> real \<Rightarrow> real \<Rightarrow> real" where
  "computeRouteValueScore unitCostUSD balanceUSD recentUsageUSD =
    (let costScore = (if unitCostUSD > 0 then 1 / (1 + unitCostUSD) else 5 / 10);
         balanceUSD = (if balanceUSD < 0 then 0 else balanceUSD);
         recentUsageUSD = (if recentUsageUSD < 0 then 0 else recentUsageUSD);
         budgetScore = (balanceUSD + 1) / (balanceUSD + recentUsageUSD + 1);
         budgetScore = (if budgetScore < 0 then 0 else budgetScore)
     in costScore * budgetScore)"

definition computeRouteContribution :: "int \<Rightarrow> real \<Rightarrow> real \<Rightarrow> real \<Rightarrow> real \<Rightarrow> real" where
  "computeRouteContribution weight valueScore maxValueScore baseWeightFactor valueScoreFactor =
    (let base = real_of_int (wrap64 (weight + 10)) in
     if base \<le> 0 then 0
     else
       let bf = (if baseWeightFactor < 0 then 0 else baseWeightFactor);
           vf = (if valueScoreFactor < 0 then 0 else valueScoreFactor);
           (bf, vf) = (if bf = 0 \<and> vf = 0 then (2 / 10, 8 / 10) else (bf, vf))
       in if maxValueScore \<le> 0 then base
          else
            let n = valueScore / maxValueScore;
                n = (if n < 0 then 0 else n);
                n = (if n > 1 then 1 else n)
            in base * (bf + n * vf))"

subsection \<open>Health\<close>

definition latency_score :: "real \<Rightarrow> real" where
  "latency_score avg =
    (let s = (if avg > 0 then
                if avg \<le> 1500 then 1 else if avg \<ge> 10000 then 0 else 1 - (avg - 1500) / (10000 - 1500)
              else 1);
         s = (if s < 0 then 0 else s)
     in if s > 1 then 1 else s)"

definition clamp01 :: "real \<Rightarrow> real" where
  "clamp01 x = (let x = (if x < 0 then 0 else x) in if x > 1 then 1 else x)"

definition math_Exp :: "real \<Rightarrow> real" where
  "math_Exp x = exp x"

declare math_Exp_def [code del]

definition finalizeRouteHealthStat :: "routeHealthStats \<Rightarrow> routingTuningConfig \<Rightarrow> routeHealthStats" where
  "finalizeRouteHealthStat stat config =
    (let stat = stat\<lparr>hs_Multiplier := 1\<rparr> in
     if \<not> rc_HealthEnabled config then stat
     else if hs_SampleCount stat < rc_HealthMinSamples config then stat
     else
       let failRate = clamp01 (hs_FailRate stat);
           successRate = clamp01 (hs_SuccessRate stat);
           latencyScore = latency_score (hs_AvgLatencyMs stat);
           confidence = min 1 (real_of_int (hs_SampleCount stat) / 50);
           healthScore = successRate * (75 / 100) + latencyScore * (25 / 100);
           penalty = math_Exp (- rc_FailurePenaltyAlpha config * failRate);
           reward = 1 + rc_HealthRewardBeta config * healthScore * confidence;
           multiplier = penalty * reward;
           multiplier = (if multiplier < rc_HealthMinMultiplier config then rc_HealthMinMultiplier config else multiplier);
           multiplier = (if multiplier > rc_HealthMaxMultiplier config then rc_HealthMaxMultiplier config else multiplier)
       in stat\<lparr>hs_HealthScore := healthScore, hs_SuccessRate := successRate, hs_FailRate := failRate,
               hs_Multiplier := multiplier\<rparr>)"

subsection \<open>Statistics from the usage log\<close>

definition sql_trim :: "string \<Rightarrow> string" where
  \<comment> \<open>\<open>TRIM\<close>: blanks only\<close>
  "sql_trim s = rev (dropWhile (\<lambda>c. c = CHR '' '') (rev (dropWhile (\<lambda>c. c = CHR '' '') s)))"

definition log_success_where :: "UsageLog \<Rightarrow> bool" where
  "log_success_where l \<longleftrightarrow> ul_Status l = 1 \<and> sql_trim (ul_ErrorMessage l) = []"

definition log_error_where :: "UsageLog \<Rightarrow> bool" where
  "log_error_where l \<longleftrightarrow> ul_Status l \<noteq> 1 \<or> sql_trim (ul_ErrorMessage l) \<noteq> []"

definition usageLogInvalidResponseSQLCondition :: "UsageLog \<Rightarrow> bool" where
  "usageLogInvalidResponseSQLCondition l \<longleftrightarrow> ul_FailureCategory l = ''invalid_response'' \<or> sql_trim (ul_InvalidReason l) \<noteq> []"

definition log_clean_success_where :: "UsageLog \<Rightarrow> bool" where
  \<comment> \<open>the success condition of the suppression query\<close>
  "log_clean_success_where l \<longleftrightarrow> ul_Status l = 1 \<and> sql_trim (ul_ErrorMessage l) = []
     \<and> sql_trim (ul_FailureCategory l) = [] \<and> sql_trim (ul_InvalidReason l) = []"

definition log_in_window :: "int \<Rightarrow> int list \<Rightarrow> gostring list \<Rightarrow> UsageLog \<Rightarrow> bool" where
  "log_in_window since tokenIds modelNames l \<longleftrightarrow>
     ul_CreatedAt l \<ge> since \<and> ul_ProviderTokenId l \<in> set tokenIds \<and> ul_ModelName l \<in> set modelNames"

definition log_group :: "UsageLog \<Rightarrow> int \<times> gostring" where
  "log_group l = (ul_ProviderTokenId l, ul_ModelName l)"

definition grouped_by ::
  "(UsageLog list \<Rightarrow> 'a) \<Rightarrow> UsageLog list \<Rightarrow> ((int \<times> gostring) \<times> 'a) list" where
  \<comment> \<open>\<open>SELECT f ... GROUP BY provider_token_id, model_name\<close>\<close>
  "grouped_by f rows = map (\<lambda>g. (g, f (filter (\<lambda>l. log_group l = g) rows))) (first_seen (map log_group rows))"

definition count_where :: "('a \<Rightarrow> bool) \<Rightarrow> 'a list \<Rightarrow> int" where
  "count_where P xs = int (length (filter P xs))"

definition avg_latency :: "UsageLog list \<Rightarrow> real" where
  "avg_latency ls = (if ls = [] then 0 else real_of_int (sum_list (map ul_ResponseTimeMs ls)) / real (length ls))"

definition recent_usage_cost :: "gotime \<Rightarrow> int list \<Rightarrow> gostring list \<Rightarrow> int \<Rightarrow> db \<Rightarrow> (gostring, real) gomap" where
  \<comment> \<open>the query of \<open>loadRecentUsageCostByTokenModel\<close>\<close>
  "recent_usage_cost now tokenIds modelNames usageWindowHours d =
    (let since = Unix (now - usageWindowHours * 3600 * Second);
         rows = grouped_by (\<lambda>ls. sum_list (map ul_CostUSD ls))
           (filter (\<lambda>l. log_in_window since tokenIds modelNames l \<and> ul_Status l = 1) (db_logs d))
     in fold (\<lambda>(g, cost). mput (routeUsageKey (fst g) (snd g)) cost) rows [])"

definition health_stats_of :: "UsageLog list \<Rightarrow> routeHealthStats" where
  "health_stats_of ls =
    (let n = int (length ls); s = count_where log_success_where ls; e = count_where log_error_where ls;
         i = count_where usageLogInvalidResponseSQLCondition ls
     in zeroHealthStats\<lparr>hs_SuccessCount := s, hs_ErrorCount := e, hs_InvalidResponseCount := i, hs_SampleCount := n,
          hs_AvgLatencyMs := avg_latency ls,
          hs_SuccessRate := (if n > 0 then real_of_int s / real_of_int n else 0),
          hs_FailRate := (if n > 0 then real_of_int e / real_of_int n else 0),
          hs_InvalidResponseRate := (if n > 0 then real_of_int i / real_of_int n else 0)\<rparr>)"

definition route_health_stats ::
  "gotime \<Rightarrow> int list \<Rightarrow> gostring list \<Rightarrow> int \<Rightarrow> db \<Rightarrow> (gostring, routeHealthStats) gomap" where
  \<comment> \<open>the query of \<open>loadRouteHealthStatsByTokenModel\<close>\<close>
  "route_health_stats now tokenIds modelNames windowHours d =
    (let since = Unix (now - windowHours * 3600 * Second);
         rows = grouped_by health_stats_of (filter (log_in_window since tokenIds modelNames) (db_logs d))
     in fold (\<lambda>(g, st). mput (routeUsageKey (fst g) (snd g)) st) rows [])"

record suppressionRow =
  sr_InvalidCount :: int
  sr_SuccessCount :: int
  sr_SampleCount :: int
  sr_LastInvalidAt :: int

definition suppression_row_of :: "UsageLog list \<Rightarrow> suppressionRow" where
  "suppression_row_of ls =
    \<lparr>sr_InvalidCount = count_where usageLogInvalidResponseSQLCondition ls,
     sr_SuccessCount = count_where log_clean_success_where ls,
     sr_SampleCount = int (length ls),
     sr_LastInvalidAt = fold (\<lambda>l m. max m (if usageLogInvalidResponseSQLCondition l then ul_CreatedAt l else 0)) (tl ls)
       (case ls of [] \<Rightarrow> 0 | l # _ \<Rightarrow> if usageLogInvalidResponseSQLCondition l then ul_CreatedAt l else 0)\<rparr>"

definition suppressed_until :: "int \<Rightarrow> int \<Rightarrow> int \<Rightarrow> suppressionRow \<Rightarrow> int option" where
  \<comment> \<open>the body of the loop over the rows, at the Unix second \<open>nowUnix\<close>; \<open>None\<close> is \<open>continue\<close>\<close>
  "suppressed_until nowUnix threshold cooldownMinutes row =
    (if sr_InvalidCount row < threshold \<or> sr_LastInvalidAt row \<le> 0 then None
     else
       let suppressedUntil = sr_LastInvalidAt row + cooldownMinutes * 60 in
       if nowUnix \<ge> suppressedUntil then
         (let hasHealthyRecovery =
            (if sr_SampleCount row > 0
             then sr_SuccessCount row > 0 \<and> real_of_int (sr_InvalidCount row) / real_of_int (sr_SampleCount row) \<le> 5 / 10
             else False)
          in if hasHealthyRecovery then None else Some (nowUnix + cooldownMinutes * 60))
       else Some suppressedUntil)"

definition loadRouteInvalidResponseSuppressionByTokenModel ::
  "gotime \<Rightarrow> int list \<Rightarrow> gostring list \<Rightarrow> routingTuningConfig \<Rightarrow> db \<Rightarrow> (gostring, int) gomap" where
  "loadRouteInvalidResponseSuppressionByTokenModel now tokenIds modelNames config d =
    (if \<not> rc_InvalidResponseSuppressionEnabled config then []
     else if tokenIds = [] \<or> modelNames = [] then []
     else
       let windowMinutes = (if rc_InvalidResponseWindowMinutes config \<le> 0 then 10 else rc_InvalidResponseWindowMinutes config);
           threshold = (if rc_InvalidResponseThreshold config \<le> 0 then 3 else rc_InvalidResponseThreshold config);
           cooldownMinutes = (if rc_InvalidResponseCooldownMinutes config \<le> 0 then 15 else rc_InvalidResponseCooldownMinutes config);
           since = Unix (now - windowMinutes * 60 * Second);
           rows = grouped_by suppression_row_of (filter (log_in_window since tokenIds modelNames) (db_logs d))
       in fold (\<lambda>(g, row) m. case suppressed_until (Unix now) threshold cooldownMinutes row of
                  None \<Rightarrow> m
                | Some u \<Rightarrow> mput (routeUsageKey (fst g) (snd g)) u m) rows [])"

subsection \<open>Ranges\<close>

lemma parseOptionIntInRange_range: "lo \<le> fb \<Longrightarrow> fb \<le> hi \<Longrightarrow> parseOptionIntInRange raw fb lo hi \<in> {lo..hi}"
  by (auto simp: parseOptionIntInRange_def split: option.splits)

lemma parseOptionFloatInRange_range: "lo \<le> fb \<Longrightarrow> fb \<le> hi \<Longrightarrow> parseOptionFloatInRange raw fb lo hi \<in> {lo..hi}"
  by (auto simp: parseOptionFloatInRange_def split: float_parse.splits)

definition config_ok :: "routingTuningConfig \<Rightarrow> bool" where
  "config_ok c \<longleftrightarrow> rc_UsageWindowHours c \<in> {1..720} \<and> rc_BaseWeightFactor c \<in> {0..10} \<and> rc_ValueScoreFactor c \<in> {0..10}
     \<and> 0 < rc_BaseWeightFactor c + rc_ValueScoreFactor c
     \<and> rc_HealthWindowHours c \<in> {1..720} \<and> rc_FailurePenaltyAlpha c \<in> {0..20} \<and> rc_HealthRewardBeta c \<in> {0..2}
     \<and> 0 \<le> rc_HealthMinMultiplier c \<and> rc_HealthMinMultiplier c \<le> rc_HealthMaxMultiplier c \<and> rc_HealthMaxMultiplier c \<le> 10
     \<and> rc_HealthMinSamples c \<in> {1..1000} \<and> rc_InvalidResponseThreshold c \<in> {1..1000}
     \<and> rc_InvalidResponseWindowMinutes c \<in> {1..1440} \<and> rc_InvalidResponseCooldownMinutes c \<in> {1..1440}"

text \<open>
  Whatever texts the option map holds, the routing configuration that is loaded lies in its
  documented ranges, at least one of the two weight factors is positive, and the health multiplier
  bounds are ordered.
\<close>

theorem loadRoutingTuningConfig_ok: "config_ok (loadRoutingTuningConfig options)"
proof -
  have i: "lo \<le> fb \<Longrightarrow> fb \<le> hi \<Longrightarrow> lo \<le> parseOptionIntInRange raw fb lo hi \<and> parseOptionIntInRange raw fb lo hi \<le> hi"
    for raw fb lo hi using parseOptionIntInRange_range [of lo fb hi raw] by simp
  have f: "lo \<le> fb \<Longrightarrow> fb \<le> hi \<Longrightarrow> lo \<le> parseOptionFloatInRange raw fb lo hi \<and> parseOptionFloatInRange raw fb lo hi \<le> hi"
    for raw fb lo hi using parseOptionFloatInRange_range [of lo fb hi raw] by simp
  let ?o = "mget_default [] options"
  define b where "b = parseOptionFloatInRange (?o ''RoutingBaseWeightFactor'') (1 / 5) 0 10"
  define v where "v = parseOptionFloatInRange (?o ''RoutingValueScoreFactor'') (4 / 5) 0 10"
  define mi where "mi = parseOptionFloatInRange (?o ''RoutingHealthMinMultiplier'') (1 / 20) 0 10"
  define ma where "ma = parseOptionFloatInRange (?o ''RoutingHealthMaxMultiplier'') (28 / 25) 0 10"
  have r: "0 \<le> b" "b \<le> 10" "0 \<le> v" "v \<le> 10" "0 \<le> mi" "mi \<le> 10" "0 \<le> ma" "ma \<le> 10"
    using f by (simp_all add: b_def v_def mi_def ma_def)
  have "(b = 0 \<longrightarrow> v \<noteq> 0) \<longrightarrow> 0 < b + v" using r by auto
  then show ?thesis
    using r i f
    by (simp add: config_ok_def loadRoutingTuningConfig_def Let_def b_def [symmetric] v_def [symmetric]
        mi_def [symmetric] ma_def [symmetric])
qed

text \<open>
  The value score of a route lies in (0, 1], it does not grow with the recent spending or with a
  positive unit cost, and it does not shrink with the balance.
\<close>

theorem value_score_bounds_mono:
  "0 < computeRouteValueScore c b u \<and> computeRouteValueScore c b u \<le> 1
   \<and> (u \<le> u' \<longrightarrow> computeRouteValueScore c b u' \<le> computeRouteValueScore c b u)
   \<and> (b \<le> b' \<longrightarrow> computeRouteValueScore c b u \<le> computeRouteValueScore c b' u)
   \<and> (0 < c \<and> c \<le> c' \<longrightarrow> computeRouteValueScore c' b u \<le> computeRouteValueScore c b u)"
proof -
  define cs where "cs x = (if x > 0 then 1 / (1 + x) else 5 / 10)" for x :: real
  define bs where "bs x y = (max x 0 + 1) / (max x 0 + max y 0 + 1)" for x y :: real
  have cs: "0 < cs x" "cs x \<le> 1" for x by (auto simp: cs_def)
  have bs: "0 < bs x y" "bs x y \<le> 1" for x y by (auto simp: bs_def field_simps)
  have e: "computeRouteValueScore x y z = cs x * bs y z" for x y z
  proof -
    have "(if y < 0 then 0 else y) = max y 0" "(if z < 0 then 0 else z) = max z 0" by auto
    moreover have "\<not> bs y z < 0" using bs(1) [of y z] by linarith
    ultimately show ?thesis
      by (simp add: computeRouteValueScore_def Let_def cs_def bs_def)
  qed
  have mu: "bs b u' \<le> bs b u" if "u \<le> u'"
    unfolding bs_def using that by (intro divide_left_mono) (auto intro: add_pos_pos mult_pos_pos)
  have mb: "bs b u \<le> bs b' u" if "b \<le> b'"
  proof -
    define x where "x = max b 0" define y where "y = max b' 0" define z where "z = max u 0"
    have h: "0 \<le> x" "x \<le> y" "0 \<le> z" using that by (auto simp: x_def y_def z_def)
    have "(x + 1) * (y + z + 1) \<le> (y + 1) * (x + z + 1)"
      using mult_right_mono [OF h(2,3)] by (simp add: algebra_simps)
    then show ?thesis using h by (simp add: bs_def x_def [symmetric] y_def [symmetric] z_def [symmetric] divide_simps)
  qed
  have mc: "cs c' \<le> cs c" if "0 < c" "c \<le> c'" using that by (auto simp: cs_def field_simps)
  have "cs c * bs b u \<le> 1" by (rule mult_le_one [OF cs(2) less_imp_le [OF bs(1)] bs(2)])
  moreover have "0 < cs c * bs b u" using cs bs by simp
  ultimately show ?thesis
    unfolding e using mu mb mc cs(1) bs(1) by (auto intro: mult_left_mono mult_right_mono less_imp_le)
qed

theorem value_score_bounds_mono_witness:
  "computeRouteValueScore 2 1 3 \<le> computeRouteValueScore 2 1 1 \<and> computeRouteValueScore 2 1 1 \<le> 1"
  using value_score_bounds_mono [of 2 1 1 3] by simp

text \<open>
  C27: for a weight above -10 that does not overflow and factors in their range, the contribution of a
  route lies between the manual share and the full share of its weight, and among routes of equal
  weight a higher value score never contributes less.
\<close>

theorem contribution_bounds_mono:
  assumes w: "-10 < w" "w < 2 ^ 63 - 10" and f: "0 \<le> bf" "0 \<le> vf" "0 < bf + vf" and m: "0 < m"
  shows "real_of_int (w + 10) * bf \<le> computeRouteContribution w v m bf vf
    \<and> computeRouteContribution w v m bf vf \<le> real_of_int (w + 10) * (bf + vf)
    \<and> (v \<le> v' \<longrightarrow> computeRouteContribution w v m bf vf \<le> computeRouteContribution w v' m bf vf)"
proof -
  define n where "n x = (let n = x / m; n = (if n < 0 then 0 else n) in if n > 1 then 1 else n)" for x
  have n: "0 \<le> n x" "n x \<le> 1" for x by (auto simp: n_def Let_def)
  have nm: "v \<le> v' \<Longrightarrow> n v \<le> n v'"
    using divide_right_mono [of v v' m] m by (auto simp: n_def Let_def)
  have "wrap64 (w + 10) = w + 10" using w by (simp add: in_int64_def)
  moreover have "\<not> (bf = 0 \<and> vf = 0)" using f by auto
  ultimately have e: "computeRouteContribution w x m bf vf = real_of_int (w + 10) * (bf + n x * vf)" for x
    using w f m by (auto simp: computeRouteContribution_def n_def Let_def)
  have "n v * vf \<le> vf" using mult_right_mono [OF n(2) f(2)] by simp
  moreover have "0 \<le> n v * vf" using n f by simp
  moreover have "v \<le> v' \<Longrightarrow> n v * vf \<le> n v' * vf" using nm f by (intro mult_right_mono) auto
  moreover have "0 \<le> real_of_int (w + 10)" using w by simp
  ultimately show ?thesis
    unfolding e using mult_left_mono by (smt (verit, best))
qed

theorem contribution_bounds_mono_witness:
  "computeRouteContribution 10 (1/4) (1/2) (2/10) (8/10) \<le> 20"
  using contribution_bounds_mono [of 10 "2/10" "8/10" "1/2" "1/4" "1/4"] by simp

text \<open>
  The health multiplier is 1 while the adjustment is off or there are too few samples, and lies
  between the configured bounds otherwise; the reported rates lie in [0, 1] then.
\<close>

theorem health_multiplier_bounds:
  assumes "config_ok config"
  shows "(\<not> rc_HealthEnabled config \<or> hs_SampleCount st < rc_HealthMinSamples config
       \<longrightarrow> hs_Multiplier (finalizeRouteHealthStat st config) = 1)
    \<and> (rc_HealthEnabled config \<and> rc_HealthMinSamples config \<le> hs_SampleCount st
       \<longrightarrow> hs_Multiplier (finalizeRouteHealthStat st config) \<in> {rc_HealthMinMultiplier config..rc_HealthMaxMultiplier config}
         \<and> hs_SuccessRate (finalizeRouteHealthStat st config) \<in> {0..1}
         \<and> hs_FailRate (finalizeRouteHealthStat st config) \<in> {0..1}
         \<and> hs_HealthScore (finalizeRouteHealthStat st config) \<in> {0..1})"
proof -
  have b: "rc_HealthMinMultiplier config \<le> rc_HealthMaxMultiplier config"
    using assms by (simp add: config_ok_def)
  have c: "0 \<le> clamp01 x" "clamp01 x \<le> 1" for x by (auto simp: clamp01_def Let_def)
  have l: "0 \<le> latency_score x" "latency_score x \<le> 1" for x by (auto simp: latency_score_def Let_def)
  have "clamp01 x * (75 / 100) + latency_score y * (25 / 100) \<in> {0..1}" for x y
    using c [of x] l [of y] by auto
  then show ?thesis
    using b c by (auto simp: finalizeRouteHealthStat_def Let_def)
qed

theorem health_multiplier_bounds_witness:
  "hs_Multiplier (finalizeRouteHealthStat (zeroHealthStats\<lparr>hs_SampleCount := 3\<rparr>)
     (defaultRoutingTuningConfig\<lparr>rc_HealthEnabled := True\<rparr>)) = 1"
proof -
  have "config_ok (defaultRoutingTuningConfig\<lparr>rc_HealthEnabled := True\<rparr>)"
    by (simp add: config_ok_def defaultRoutingTuningConfig_def)
  then show ?thesis
    using health_multiplier_bounds [of "defaultRoutingTuningConfig\<lparr>rc_HealthEnabled := True\<rparr>" "zeroHealthStats\<lparr>hs_SampleCount := 3\<rparr>"]
    by (simp add: defaultRoutingTuningConfig_def)
qed

lemma log_success_error: "log_error_where l \<longleftrightarrow> \<not> log_success_where l"
  by (auto simp: log_error_where_def log_success_where_def)

subsection \<open>Suppression\<close>

definition recovered :: "suppressionRow \<Rightarrow> bool" where
  "recovered row \<longleftrightarrow> 0 < sr_SuccessCount row \<and> 2 * sr_InvalidCount row \<le> sr_SampleCount row"

text \<open>
  A route is suppressed from now on exactly when its window holds enough invalid responses and it
  is not the case that the cool-down is over and the route has recovered (some clean success, at
  most half of the samples invalid); a suppression always lies in the future.
\<close>

theorem suppressed_until_iff:
  assumes "0 < cooldown" and "0 \<le> sr_InvalidCount row" and "0 < sr_SampleCount row"
  shows "((\<exists>u. suppressed_until nowUnix threshold cooldown row = Some u) \<longleftrightarrow>
      threshold \<le> sr_InvalidCount row \<and> 0 < sr_LastInvalidAt row
      \<and> \<not> (sr_LastInvalidAt row + cooldown * 60 \<le> nowUnix \<and> recovered row))
    \<and> (\<forall>u. suppressed_until nowUnix threshold cooldown row = Some u \<longrightarrow> nowUnix < u)"
proof -
  have half: "real_of_int a / real_of_int b \<le> 5 / 10 \<longleftrightarrow> 2 * a \<le> b" if "0 < b" for a b
  proof -
    have "real_of_int a / real_of_int b \<le> 5 / 10 \<longleftrightarrow> real_of_int (2 * a) \<le> real_of_int b"
      using that by (simp add: field_simps)
    then show ?thesis unfolding of_int_le_iff .
  qed
  show ?thesis
    using assms half [of "sr_SampleCount row" "sr_InvalidCount row"]
    by (auto simp: suppressed_until_def recovered_def Let_def)
qed

theorem suppressed_until_iff_witness:
  "\<not> (\<exists>u. suppressed_until 2000 3 15
     \<lparr>sr_InvalidCount = 3, sr_SuccessCount = 4, sr_SampleCount = 8, sr_LastInvalidAt = 1000\<rparr> = Some u)"
  using suppressed_until_iff [of 15 "\<lparr>sr_InvalidCount = 3, sr_SuccessCount = 4, sr_SampleCount = 8, sr_LastInvalidAt = 1000\<rparr>" 2000 3]
  by (simp add: recovered_def)

subsection \<open>The lookup keys separate routes\<close>

lemma split_at_sep:
  assumes "a @ c # x = b @ c # y" and "c \<notin> set a" and "c \<notin> set b" shows "a = b \<and> x = y"
  using assms
proof (induction a arbitrary: b)
  case Nil
  then show ?case by (cases b) auto
next
  case (Cons h a)
  then show ?case by (cases b) auto
qed

lemma split_at_last_sep:
  assumes "x @ c # a = y @ c # b" and "c \<notin> set a" and "c \<notin> set b" shows "x = y \<and> a = b"
proof -
  have "rev (x @ c # a) = rev (y @ c # b)" using assms(1) by simp
  then have "rev a @ c # rev x = rev b @ c # rev y" by simp
  then show ?thesis using split_at_sep [of "rev a" c "rev x" "rev b" "rev y"] assms(2,3) by simp
qed

text \<open>
  Two (identifier, model) pairs share a lookup key of usage, pricing or route preservation only
  when the identifiers are equal and the model names agree after trimming, whatever characters
  the names hold.
\<close>

theorem route_keys_injective:
  "(routeUsageKey i m = routeUsageKey j n \<longleftrightarrow> i = j \<and> TrimSpace m = TrimSpace n)
   \<and> (routePricingKey i m = routePricingKey j n \<longleftrightarrow> i = j \<and> TrimSpace m = TrimSpace n)
   \<and> (routeModelTokenKey m i = routeModelTokenKey n j \<longleftrightarrow> i = j \<and> TrimSpace m = TrimSpace n)"
proof -
  have h: "CHR ''#'' \<notin> set (Itoa k)" "CHR ''|'' \<notin> set (Itoa k)" for k
    by (intro Itoa_no_char; simp add: is_digit_def less_eq_char_def)+
  show ?thesis
    using split_at_sep [of "Itoa i" "CHR ''#''" "TrimSpace m" "Itoa j" "TrimSpace n"]
      split_at_last_sep [of "TrimSpace m" "CHR ''|''" "Itoa i" "TrimSpace n" "Itoa j"] h Itoa_inj
    by (auto simp: routeUsageKey_def routePricingKey_def routeModelTokenKey_def)
qed

end
