(* ===== verification/RouteCache.thy ===== *)
theory RouteCache
  imports ModelCatalog RouteScore
begin

text \<open>
  \<open>src/model/model_route_cache.go\<close>: the static routing snapshot with its indices, its 60 second cache,
  the candidate lookup over the indices, and the two 15 second caches of usage and health numbers
  (the same code twice, so one generic definition here). The locks of the code make every function
  atomic; a call reads the clock once.
\<close>

definition routingStaticSnapshotTTL :: gotime where "routingStaticSnapshotTTL = 60 * Second"
definition routingRuntimeMetricTTL :: gotime where "routingRuntimeMetricTTL = 15 * Second"
definition routingRuntimeMetricMaxKey :: nat where "routingRuntimeMetricMaxKey = 256"

record routingStaticSnapshot =
  ss_enabledRoutes :: "ModelRoute list"
  ss_routesByExactModel :: "(gostring, ModelRoute list) gomap"
  ss_routesByNormalizedModel :: "(gostring, ModelRoute list) gomap"
  ss_routesByVersionAgnostic :: "(gostring, ModelRoute list) gomap"
  ss_routesByProviderExactModel :: "(int, (gostring, ModelRoute list) gomap) gomap"
  ss_routesByProviderNormModel :: "(int, (gostring, ModelRoute list) gomap) gomap"
  ss_providerAliasLookups :: "(int, providerModelAliasLookup) gomap"
  ss_providerAliasReverseLookup :: "(int, providerModelAliasReverseLookup) gomap"
  ss_providersByID :: "(int, Provider) gomap"
  ss_tokensByID :: "(int, ProviderToken) gomap"
  ss_pricingLookup :: "(gostring, ModelPricing) gomap"
  ss_modelCatalog :: modelCatalogSnapshot

definition emptySnapshot :: routingStaticSnapshot where
  "emptySnapshot =
    \<lparr>ss_enabledRoutes = [], ss_routesByExactModel = [], ss_routesByNormalizedModel = [], ss_routesByVersionAgnostic = [],
     ss_routesByProviderExactModel = [], ss_routesByProviderNormModel = [], ss_providerAliasLookups = [],
     ss_providerAliasReverseLookup = [], ss_providersByID = [], ss_tokensByID = [], ss_pricingLookup = [],
     ss_modelCatalog = newModelCatalogSnapshot\<rparr>"

subsection \<open>Building the snapshot\<close>

definition route_before :: "ModelRoute \<Rightarrow> ModelRoute \<Rightarrow> bool" where
  \<comment> \<open>the comparison of \<open>sort.Slice\<close> and of \<open>ORDER BY priority DESC, id ASC\<close>\<close>
  "route_before a b =
    (if mr_Priority a = mr_Priority b then mr_Id a < mr_Id b else mr_Priority a > mr_Priority b)"

interpretation route_order: strict_weak route_before
  by unfold_locales (auto simp: route_before_def split: if_splits)

definition index_step :: "ModelRoute \<Rightarrow> routingStaticSnapshot \<Rightarrow> routingStaticSnapshot" where
  \<comment> \<open>one round of the indexing loop\<close>
  "index_step route s =
    (let routeName = TrimSpace (mr_ModelName route) in
     if routeName = [] then s
     else
       let exactKey = ToLower routeName; pid = mr_ProviderId route;
           s = s\<lparr>ss_routesByExactModel := mappend exactKey route (ss_routesByExactModel s)\<rparr>;
           normalizedKey = NormalizeModelName routeName;
           s = (if normalizedKey = [] then s
                else
                  let s = s\<lparr>ss_routesByNormalizedModel := mappend normalizedKey route (ss_routesByNormalizedModel s)\<rparr>;
                      versionKey = ToVersionAgnosticKey normalizedKey
                  in if versionKey = [] then s
                     else s\<lparr>ss_routesByVersionAgnostic := mappend versionKey route (ss_routesByVersionAgnostic s)\<rparr>);
           s = s\<lparr>ss_routesByProviderExactModel :=
                mput pid (mappend exactKey route (mget_default [] (ss_routesByProviderExactModel s) pid))
                  (ss_routesByProviderExactModel s)\<rparr>
       in if normalizedKey = [] then s
          else s\<lparr>ss_routesByProviderNormModel :=
                mput pid (mappend normalizedKey route (mget_default [] (ss_routesByProviderNormModel s) pid))
                  (ss_routesByProviderNormModel s)\<rparr>)"

definition provider_step :: "Provider \<Rightarrow> routingStaticSnapshot \<Rightarrow> routingStaticSnapshot" where
  "provider_step p s =
    (let mapping = ParseProviderAliasMapping (p_ModelAliasMapping p) in
     s\<lparr>ss_providersByID := mput (p_Id p) p (ss_providersByID s),
       ss_providerAliasLookups := mput (p_Id p) (buildProviderModelAliasLookup mapping) (ss_providerAliasLookups s),
       ss_providerAliasReverseLookup :=
         mput (p_Id p) (buildProviderModelAliasReverseLookup mapping) (ss_providerAliasReverseLookup s)\<rparr>)"

definition buildRoutingStaticSnapshot :: "db \<Rightarrow> routingStaticSnapshot" where
  "buildRoutingStaticSnapshot d =
    (let routes = sort_by route_before (filter mr_Enabled (db_routes d)) in
     if routes = [] then emptySnapshot
     else
       let s = emptySnapshot\<lparr>ss_enabledRoutes := routes\<rparr>;
           providerIds = first_seen (map mr_ProviderId routes);
           tokenIds = first_seen (map mr_ProviderTokenId routes);
           modelNames = filter (\<lambda>n. n \<noteq> []) (first_seen (map (TrimSpace \<circ> mr_ModelName) routes));
           s = fold provider_step (filter (\<lambda>p. p_Id p \<in> set providerIds) (db_providers d)) s;
           s = s\<lparr>ss_tokensByID := fold (\<lambda>t. mput (pt_Id t) t) (filter (\<lambda>t. pt_Id t \<in> set tokenIds) (db_tokens d)) []\<rparr>;
           s = (if modelNames = [] then s
                else s\<lparr>ss_pricingLookup := fold (\<lambda>p. mput (routePricingKey (mp_ProviderId p) (mp_ModelName p)) p)
                   (filter (\<lambda>p. mp_ProviderId p \<in> set providerIds \<and> mp_ModelName p \<in> set modelNames) (db_pricings d)) []\<rparr>);
           s = fold index_step routes s
       in s\<lparr>ss_modelCatalog := buildModelCatalogSnapshot routes (ss_providerAliasReverseLookup s)\<rparr>)"

subsection \<open>The snapshot cache\<close>

record staticCacheState =
  sc_snapshot :: "routingStaticSnapshot option"
  sc_expiresAt :: gotime

definition invalidateRoutingStaticSnapshot :: "staticCacheState \<Rightarrow> staticCacheState" where
  \<comment> \<open>the zero \<open>time.Time\<close> lies before every instant of the program\<close>
  "invalidateRoutingStaticSnapshot c = \<lparr>sc_snapshot = None, sc_expiresAt = 0\<rparr>"

definition getRoutingStaticSnapshot ::
  "gotime \<Rightarrow> routingStaticSnapshot option \<Rightarrow> staticCacheState \<Rightarrow> routingStaticSnapshot option \<times> staticCacheState" where
  \<comment> \<open>\<open>fresh\<close> is the result of \<open>buildRoutingStaticSnapshot\<close>, \<open>None\<close> when a query failed; a result
     \<open>None\<close> is the error\<close>
  "getRoutingStaticSnapshot now fresh c =
    (case sc_snapshot c of
       Some s \<Rightarrow>
         if now < sc_expiresAt c then (Some s, c)
         else (case fresh of
                 Some f \<Rightarrow> (Some f, \<lparr>sc_snapshot = Some f, sc_expiresAt = now + routingStaticSnapshotTTL\<rparr>)
               | None \<Rightarrow> (Some s, c))
     | None \<Rightarrow>
         (case fresh of
            Some f \<Rightarrow> (Some f, \<lparr>sc_snapshot = Some f, sc_expiresAt = now + routingStaticSnapshotTTL\<rparr>)
          | None \<Rightarrow> (None, c)))"

subsection \<open>Candidates\<close>

definition appendCandidates :: "ModelRoute list \<Rightarrow> (int, ModelRoute) gomap \<Rightarrow> (int, ModelRoute) gomap" where
  "appendCandidates routes m = fold (\<lambda>r. mput (mr_Id r) r) routes m"

definition name_candidates :: "routingStaticSnapshot \<Rightarrow> gostring \<Rightarrow> (int, ModelRoute) gomap \<Rightarrow> (int, ModelRoute) gomap" where
  \<comment> \<open>the exact, normalised and version-agnostic lookups of one trimmed name\<close>
  "name_candidates s name m =
    (let m = appendCandidates (mget_default [] (ss_routesByExactModel s) (ToLower name)) m;
         normalized = NormalizeModelName name
     in if normalized = [] then m
        else
          let m = appendCandidates (mget_default [] (ss_routesByNormalizedModel s) normalized) m;
              versionKey = ToVersionAgnosticKey normalized
          in if versionKey = [] then m
             else appendCandidates (mget_default [] (ss_routesByVersionAgnostic s) versionKey) m)"

definition target_candidates :: "routingStaticSnapshot \<Rightarrow> gostring \<Rightarrow> (int, ModelRoute) gomap \<Rightarrow> (int, ModelRoute) gomap" where
  \<comment> \<open>one route target of the catalog entry\<close>
  "target_candidates s t m =
    (let target = TrimSpace t in if target = [] then m else name_candidates s target m)"

definition alias_candidates ::
  "routingStaticSnapshot \<Rightarrow> gostring \<Rightarrow> int \<times> providerModelAliasLookup \<Rightarrow> (int, ModelRoute) gomap \<Rightarrow> (int, ModelRoute) gomap" where
  \<comment> \<open>one provider of the alias loop\<close>
  "alias_candidates s requestedModel pl m =
    (case AliasLookup_Resolve (snd pl) requestedModel of
       None \<Rightarrow> m
     | Some mapped \<Rightarrow>
         (let mappedModel = TrimSpace mapped in
          if mappedModel = [] then m
          else
            let m = appendCandidates (mget_default [] (mget_default [] (ss_routesByProviderExactModel s) (fst pl)) (ToLower mappedModel)) m;
                mappedNormalized = NormalizeModelName mappedModel
            in if mappedNormalized = [] then m
               else appendCandidates (mget_default [] (mget_default [] (ss_routesByProviderNormModel s) (fst pl)) mappedNormalized) m))"

definition getCandidateRoutesByModelCached :: "routingStaticSnapshot \<Rightarrow> gostring \<Rightarrow> ModelRoute list" where
  \<comment> \<open>on the snapshot in force\<close>
  "getCandidateRoutesByModelCached s requested =
    (let requestedModel = TrimSpace requested in
     if ss_enabledRoutes s = [] \<or> requestedModel = [] then []
     else
       let m = name_candidates s requestedModel [];
           m = (case catalog_resolve (ss_modelCatalog s) requestedModel of
                  Some entry \<Rightarrow> fold (target_candidates s) (ci_RouteTargets entry) m
                | None \<Rightarrow> m);
           m = fold (alias_candidates s requestedModel) (ss_providerAliasLookups s) m
       in sort_by route_before (map snd m))"

definition routeMatchesRequestedModel ::
  "gostring \<Rightarrow> gostring \<Rightarrow> gostring \<Rightarrow> gostring \<Rightarrow> providerModelAliasLookup \<Rightarrow> bool" where
  "routeMatchesRequestedModel routeModelName requestedModel requestedNormalized requestedVersionKey lookup =
    (let routeName = TrimSpace routeModelName in
     if routeName = [] then False
     else if EqualFold routeName requestedModel then True
     else
       let routeNormalized = NormalizeModelName routeName in
       if requestedNormalized \<noteq> [] \<and> routeNormalized \<noteq> [] \<and> routeNormalized = requestedNormalized then True
       else if requestedVersionKey \<noteq> [] \<and> routeNormalized \<noteq> [] \<and> ToVersionAgnosticKey routeNormalized = requestedVersionKey then True
       else case AliasLookup_Resolve lookup requestedModel of
              None \<Rightarrow> False
            | Some mappedModel \<Rightarrow>
                if EqualFold routeName mappedModel then True
                else
                  let mappedNormalized = NormalizeModelName mappedModel in
                  mappedNormalized \<noteq> [] \<and> routeNormalized \<noteq> [] \<and> mappedNormalized = routeNormalized)"

subsection \<open>Metric caches\<close>

record 'a metricCacheEntry =
  ce_expiresAt :: gotime
  ce_data :: 'a

type_synonym 'a metricCache = "(gostring, 'a metricCacheEntry) gomap"

definition uniqueSortedInts :: "int list \<Rightarrow> int list" where
  "uniqueSortedInts vs = sort (first_seen vs)"

definition uniqueSortedStrings :: "gostring list \<Rightarrow> gostring list" where
  "uniqueSortedStrings vs = sort (filter (\<lambda>v. v \<noteq> []) (first_seen (map TrimSpace vs)))"

definition buildRoutingMetricCacheKey :: "int list \<Rightarrow> gostring list \<Rightarrow> int \<Rightarrow> gostring" where
  "buildRoutingMetricCacheKey tokenIds modelNames windowHours =
    (let tokenList = uniqueSortedInts tokenIds; modelList = uniqueSortedStrings modelNames in
     if tokenList = [] \<or> modelList = [] then []
     else Itoa windowHours @ ''|'' @ Join (map Itoa tokenList) '','' @ ''|'' @ Join modelList '','')"

definition getCachedMetric :: "gotime \<Rightarrow> gostring \<Rightarrow> 'a metricCache \<Rightarrow> 'a option \<times> 'a metricCache" where
  \<comment> \<open>\<open>getCachedRecentUsageCostByTokenModel\<close> and \<open>getCachedRouteHealthStatsByTokenModel\<close>\<close>
  "getCachedMetric now cacheKey entries =
    (if cacheKey = [] then (None, entries)
     else case mget entries cacheKey of
       None \<Rightarrow> (None, entries)
     | Some e \<Rightarrow> if now > ce_expiresAt e then (None, mdel cacheKey entries) else (Some (ce_data e), entries))"

definition cleanupExpiredEntries :: "gotime \<Rightarrow> 'a metricCache \<Rightarrow> 'a metricCache" where
  "cleanupExpiredEntries now entries = filter (\<lambda>(k, e). \<not> now > ce_expiresAt e) entries"

fun evictEntriesIfNeeded :: "'a metricCache \<Rightarrow> 'a metricCache" where
  \<comment> \<open>while the map is full, delete the entry that the iteration yields first\<close>
  "evictEntriesIfNeeded [] = []"
| "evictEntriesIfNeeded (e # es) =
    (if length (e # es) \<ge> routingRuntimeMetricMaxKey then evictEntriesIfNeeded es else e # es)"

definition setCachedMetric :: "gotime \<Rightarrow> gostring \<Rightarrow> 'a \<Rightarrow> 'a metricCache \<Rightarrow> 'a metricCache" where
  "setCachedMetric now cacheKey data entries =
    (if cacheKey = [] then entries
     else mput cacheKey \<lparr>ce_expiresAt = now + routingRuntimeMetricTTL, ce_data = data\<rparr>
            (evictEntriesIfNeeded (cleanupExpiredEntries now entries)))"

definition load_cached ::
  "gotime \<Rightarrow> int list \<Rightarrow> gostring list \<Rightarrow> int \<Rightarrow> (int \<Rightarrow> 'a) \<Rightarrow> 'a \<Rightarrow> int \<Rightarrow> 'a metricCache \<Rightarrow> 'a \<times> 'a metricCache" where
  \<comment> \<open>\<open>loadRecentUsageCostByTokenModel\<close> and \<open>loadRouteHealthStatsByTokenModel\<close> around their query\<close>
  "load_cached now tokenIds modelNames hours query_of empty_result defaultHours cache =
    (if tokenIds = [] \<or> modelNames = [] then (empty_result, cache)
     else
       let hours = (if hours \<le> 0 then defaultHours else hours);
           key = buildRoutingMetricCacheKey tokenIds modelNames hours
       in case getCachedMetric now key cache of
            (Some data, cache) \<Rightarrow> (data, cache)
          | (None, cache) \<Rightarrow> (query_of hours, setCachedMetric now key (query_of hours) cache))"

definition loadRecentUsageCostByTokenModel ::
  "gotime \<Rightarrow> int list \<Rightarrow> gostring list \<Rightarrow> int \<Rightarrow> db \<Rightarrow> (gostring, real) gomap metricCache
   \<Rightarrow> (gostring, real) gomap \<times> (gostring, real) gomap metricCache" where
  "loadRecentUsageCostByTokenModel now tokenIds modelNames hours d cache =
    load_cached now tokenIds modelNames hours (\<lambda>h. recent_usage_cost now tokenIds modelNames h d) [] 24 cache"

definition loadRouteHealthStatsByTokenModel ::
  "gotime \<Rightarrow> int list \<Rightarrow> gostring list \<Rightarrow> int \<Rightarrow> db \<Rightarrow> (gostring, routeHealthStats) gomap metricCache
   \<Rightarrow> (gostring, routeHealthStats) gomap \<times> (gostring, routeHealthStats) gomap metricCache" where
  "loadRouteHealthStatsByTokenModel now tokenIds modelNames hours d cache =
    load_cached now tokenIds modelNames hours (\<lambda>h. route_health_stats now tokenIds modelNames h d) [] 6 cache"

definition loadPricingLookupByProviderModels ::
  "routingStaticSnapshot option \<Rightarrow> int list \<Rightarrow> gostring list \<Rightarrow> db \<Rightarrow> (gostring, ModelPricing) gomap" where
  "loadPricingLookupByProviderModels snapshot providerIds modelNames d =
    (if providerIds = [] \<or> modelNames = [] then []
     else case snapshot of
       Some s \<Rightarrow>
         (let modelSet = filter (\<lambda>n. n \<noteq> []) (map TrimSpace modelNames) in
          filter (\<lambda>(key, pricing). mp_ProviderId pricing \<in> set providerIds \<and> TrimSpace (mp_ModelName pricing) \<in> set modelSet)
            (ss_pricingLookup s))
     | None \<Rightarrow> fold (\<lambda>p. mput (routePricingKey (mp_ProviderId p) (mp_ModelName p)) p)
         (filter (\<lambda>p. mp_ProviderId p \<in> set providerIds \<and> mp_ModelName p \<in> set modelNames) (db_pricings d)) [])"

subsection \<open>The indices are filters of the enabled routes\<close>

definition rname :: "ModelRoute \<Rightarrow> gostring" where
  "rname r = TrimSpace (mr_ModelName r)"

definition rnorm :: "ModelRoute \<Rightarrow> gostring" where
  "rnorm r = NormalizeModelName (rname r)"

definition indices_of :: "ModelRoute list \<Rightarrow> routingStaticSnapshot \<Rightarrow> bool" where
  "indices_of rs s \<longleftrightarrow>
     (\<forall>k. mget_default [] (ss_routesByExactModel s) k = filter (\<lambda>r. rname r \<noteq> [] \<and> ToLower (rname r) = k) rs)
     \<and> (\<forall>k. k \<noteq> [] \<longrightarrow> mget_default [] (ss_routesByNormalizedModel s) k = filter (\<lambda>r. rname r \<noteq> [] \<and> rnorm r = k) rs)
     \<and> (\<forall>k. k \<noteq> [] \<longrightarrow> mget_default [] (ss_routesByVersionAgnostic s) k =
          filter (\<lambda>r. rname r \<noteq> [] \<and> rnorm r \<noteq> [] \<and> ToVersionAgnosticKey (rnorm r) = k) rs)
     \<and> (\<forall>p k. mget_default [] (mget_default [] (ss_routesByProviderExactModel s) p) k =
          filter (\<lambda>r. rname r \<noteq> [] \<and> mr_ProviderId r = p \<and> ToLower (rname r) = k) rs)
     \<and> (\<forall>p k. k \<noteq> [] \<longrightarrow> mget_default [] (mget_default [] (ss_routesByProviderNormModel s) p) k =
          filter (\<lambda>r. rname r \<noteq> [] \<and> mr_ProviderId r = p \<and> rnorm r = k) rs)"

lemma index_step_simps [simp]:
  "ss_enabledRoutes (index_step r s) = ss_enabledRoutes s"
  "ss_providerAliasLookups (index_step r s) = ss_providerAliasLookups s"
  "ss_providerAliasReverseLookup (index_step r s) = ss_providerAliasReverseLookup s"
  "ss_providersByID (index_step r s) = ss_providersByID s"
  "ss_tokensByID (index_step r s) = ss_tokensByID s"
  "ss_pricingLookup (index_step r s) = ss_pricingLookup s"
  by (simp_all add: index_step_def Let_def)

lemma fold_index_step_simps [simp]:
  "ss_enabledRoutes (fold index_step rs s) = ss_enabledRoutes s"
  "ss_providerAliasLookups (fold index_step rs s) = ss_providerAliasLookups s"
  "ss_providerAliasReverseLookup (fold index_step rs s) = ss_providerAliasReverseLookup s"
  "ss_providersByID (fold index_step rs s) = ss_providersByID s"
  "ss_tokensByID (fold index_step rs s) = ss_tokensByID s"
  "ss_pricingLookup (fold index_step rs s) = ss_pricingLookup s"
  by (induction rs arbitrary: s) simp_all

lemma index_step_fields:
  assumes "rname r \<noteq> []"
  shows "ss_routesByExactModel (index_step r s) = mappend (ToLower (rname r)) r (ss_routesByExactModel s)"
    and "ss_routesByNormalizedModel (index_step r s) =
      (if rnorm r = [] then ss_routesByNormalizedModel s else mappend (rnorm r) r (ss_routesByNormalizedModel s))"
    and "ss_routesByVersionAgnostic (index_step r s) =
      (if rnorm r = [] \<or> ToVersionAgnosticKey (rnorm r) = [] then ss_routesByVersionAgnostic s
       else mappend (ToVersionAgnosticKey (rnorm r)) r (ss_routesByVersionAgnostic s))"
    and "ss_routesByProviderExactModel (index_step r s) =
      mput (mr_ProviderId r) (mappend (ToLower (rname r)) r (mget_default [] (ss_routesByProviderExactModel s) (mr_ProviderId r)))
        (ss_routesByProviderExactModel s)"
    and "ss_routesByProviderNormModel (index_step r s) =
      (if rnorm r = [] then ss_routesByProviderNormModel s
       else mput (mr_ProviderId r) (mappend (rnorm r) r (mget_default [] (ss_routesByProviderNormModel s) (mr_ProviderId r)))
        (ss_routesByProviderNormModel s))"
  using assms by (simp_all add: index_step_def Let_def rname_def rnorm_def)

lemma index_step_indices:
  assumes "indices_of rs s"
  shows "indices_of (rs @ [r]) (index_step r s)"
proof (cases "rname r = []")
  case True
  then have "index_step r s = s" by (simp add: index_step_def rname_def)
  with True assms show ?thesis by (simp add: indices_of_def)
next
  case False
  show ?thesis
    using assms False unfolding indices_of_def index_step_fields [OF False]
    by (simp split: if_splits)
qed

lemma fold_index_indices: "indices_of rs0 s \<Longrightarrow> indices_of (rs0 @ rs) (fold index_step rs s)"
proof (induction rs arbitrary: rs0 s)
  case (Cons r rs)
  then show ?case using Cons.IH [OF index_step_indices [OF Cons.prems, of r]] by simp
qed simp

subsection \<open>Candidates as a scan\<close>

definition name_matches :: "gostring \<Rightarrow> ModelRoute \<Rightarrow> bool" where
  \<comment> \<open>the name of the route agrees with \<open>name\<close> up to case, or in normal form, or in its version tokens\<close>
  "name_matches name r \<longleftrightarrow> rname r \<noteq> [] \<and>
     (EqualFold (rname r) name
      \<or> (NormalizeModelName name \<noteq> [] \<and> rnorm r = NormalizeModelName name)
      \<or> (NormalizeModelName name \<noteq> [] \<and> rnorm r \<noteq> [] \<and> ToVersionAgnosticKey (NormalizeModelName name) \<noteq> []
         \<and> ToVersionAgnosticKey (rnorm r) = ToVersionAgnosticKey (NormalizeModelName name)))"

definition alias_matches :: "gostring \<Rightarrow> ModelRoute \<Rightarrow> bool" where
  "alias_matches mapped r \<longleftrightarrow> mapped \<noteq> [] \<and> rname r \<noteq> [] \<and>
     (EqualFold (rname r) mapped \<or> (NormalizeModelName mapped \<noteq> [] \<and> rnorm r = NormalizeModelName mapped))"

definition is_candidate :: "routingStaticSnapshot \<Rightarrow> gostring \<Rightarrow> ModelRoute \<Rightarrow> bool" where
  "is_candidate s name r \<longleftrightarrow>
     name_matches name r
     \<or> (\<exists>e. catalog_resolve (ss_modelCatalog s) name = Some e
          \<and> (\<exists>t \<in> set (ci_RouteTargets e). TrimSpace t \<noteq> [] \<and> name_matches (TrimSpace t) r))
     \<or> (\<exists>l mapped. mget (ss_providerAliasLookups s) (mr_ProviderId r) = Some l
          \<and> AliasLookup_Resolve l name = Some mapped \<and> alias_matches (TrimSpace mapped) r)"

definition cand_inv :: "ModelRoute list \<Rightarrow> (int, ModelRoute) gomap \<Rightarrow> bool" where
  "cand_inv rs m \<longleftrightarrow> distinct (map fst m) \<and> (\<forall>(k, r) \<in> set m. k = mr_Id r \<and> r \<in> set rs)"

definition cand_set :: "(int, ModelRoute) gomap \<Rightarrow> ModelRoute set" where
  "cand_set m = snd ` set m"

lemma mput_cand:
  assumes "cand_inv rs m" and "inj_on mr_Id (set rs)" and "r \<in> set rs"
  shows "cand_inv rs (mput (mr_Id r) r m) \<and> cand_set (mput (mr_Id r) r m) = insert r (cand_set m)"
proof -
  have d: "distinct (map fst m)" and m: "\<And>k x. (k, x) \<in> set m \<Longrightarrow> k = mr_Id x \<and> x \<in> set rs"
    using assms(1) by (auto simp: cand_inv_def)
  have s: "set (mput (mr_Id r) r m) = insert (mr_Id r, r) {(a, b) \<in> set m. a \<noteq> mr_Id r}"
    by (rule set_mput [OF d])
  have "x = r" if "(mr_Id r, x) \<in> set m" for x
    using m [OF that] assms(2,3) by (auto simp: inj_on_def)
  then have "cand_set (mput (mr_Id r) r m) = insert r (cand_set m)"
    unfolding cand_set_def s by force
  moreover have "cand_inv rs (mput (mr_Id r) r m)"
    unfolding cand_inv_def s using d m assms(3) by auto
  ultimately show ?thesis by blast
qed

lemma appendCandidates_cand:
  assumes "inj_on mr_Id (set rs)"
  shows "cand_inv rs m \<Longrightarrow> set xs \<subseteq> set rs \<Longrightarrow>
    cand_inv rs (appendCandidates xs m) \<and> cand_set (appendCandidates xs m) = set xs \<union> cand_set m"
proof (induction xs arbitrary: m)
  case (Cons x xs)
  have c: "cand_inv rs (mput (mr_Id x) x m)" "cand_set (mput (mr_Id x) x m) = insert x (cand_set m)"
    using mput_cand [OF Cons.prems(1) assms, of x] Cons.prems(2) by simp_all
  show ?case using Cons.IH [OF c(1)] Cons.prems(2) c(2) by (simp add: appendCandidates_def)
qed (simp add: appendCandidates_def)

lemma name_candidates_cand:
  assumes "inj_on mr_Id (set rs)" and "indices_of rs s" and "cand_inv rs m"
  shows "cand_inv rs (name_candidates s name m)
    \<and> cand_set (name_candidates s name m) = {r \<in> set rs. name_matches name r} \<union> cand_set m"
proof -
  note app = appendCandidates_cand [OF assms(1)]
  define xs where "xs = filter (\<lambda>r. rname r \<noteq> [] \<and> ToLower (rname r) = ToLower name) rs"
  define n where "n = NormalizeModelName name"
  define ys where "ys = (if n = [] then [] else filter (\<lambda>r. rname r \<noteq> [] \<and> rnorm r = n) rs)"
  define v where "v = ToVersionAgnosticKey n"
  define zs where "zs = (if n = [] \<or> v = [] then []
      else filter (\<lambda>r. rname r \<noteq> [] \<and> rnorm r \<noteq> [] \<and> ToVersionAgnosticKey (rnorm r) = v) rs)"
  have nil: "appendCandidates [] a = a" for a by (simp add: appendCandidates_def)
  have e: "name_candidates s name m = appendCandidates zs (appendCandidates ys (appendCandidates xs m))"
    using assms(2) by (simp add: name_candidates_def indices_of_def xs_def ys_def zs_def n_def v_def nil Let_def)
  have sub: "set xs \<subseteq> set rs" "set ys \<subseteq> set rs" "set zs \<subseteq> set rs"
    by (auto simp: xs_def ys_def zs_def)
  have "{r \<in> set rs. name_matches name r} = set xs \<union> set ys \<union> set zs"
    by (auto simp: xs_def ys_def zs_def n_def v_def name_matches_def EqualFold_def)
  then show ?thesis
    using app [OF assms(3) sub(1)] app [OF _ sub(2)] app [OF _ sub(3)] unfolding e by (simp add: Un_ac)
qed

lemma targets_cand:
  assumes "inj_on mr_Id (set rs)" and "indices_of rs s"
  shows "cand_inv rs m \<Longrightarrow> cand_inv rs (fold (target_candidates s) ts m)
    \<and> cand_set (fold (target_candidates s) ts m) =
       {r \<in> set rs. \<exists>t \<in> set ts. TrimSpace t \<noteq> [] \<and> name_matches (TrimSpace t) r} \<union> cand_set m"
proof (induction ts arbitrary: m)
  case (Cons t ts)
  have "cand_inv rs (target_candidates s t m)
    \<and> cand_set (target_candidates s t m) = {r \<in> set rs. TrimSpace t \<noteq> [] \<and> name_matches (TrimSpace t) r} \<union> cand_set m"
    using name_candidates_cand [OF assms Cons.prems] Cons.prems by (simp add: target_candidates_def Let_def)
  then show ?case using Cons.IH [of "target_candidates s t m"] by auto
qed simp

lemma alias_candidates_cand:
  assumes "inj_on mr_Id (set rs)" and "indices_of rs s" and "cand_inv rs m"
  shows "cand_inv rs (alias_candidates s name (p, l) m)
    \<and> cand_set (alias_candidates s name (p, l) m) =
       {r \<in> set rs. mr_ProviderId r = p \<and> (\<exists>a. AliasLookup_Resolve l name = Some a \<and> alias_matches (TrimSpace a) r)} \<union> cand_set m"
proof (cases "\<exists>a. AliasLookup_Resolve l name = Some a \<and> TrimSpace a \<noteq> []")
  case False
  then have "alias_candidates s name (p, l) m = m" by (auto simp: alias_candidates_def Let_def split: option.split)
  with False assms(3) show ?thesis by (auto simp: alias_matches_def)
next
  case True
  then obtain a where a: "AliasLookup_Resolve l name = Some a" "TrimSpace a \<noteq> []" by blast
  define xs where "xs = filter (\<lambda>r. rname r \<noteq> [] \<and> mr_ProviderId r = p \<and> ToLower (rname r) = ToLower (TrimSpace a)) rs"
  define n where "n = NormalizeModelName (TrimSpace a)"
  define ys where "ys = (if n = [] then [] else filter (\<lambda>r. rname r \<noteq> [] \<and> mr_ProviderId r = p \<and> rnorm r = n) rs)"
  have nil: "appendCandidates [] a = a" for a by (simp add: appendCandidates_def)
  have e: "alias_candidates s name (p, l) m = appendCandidates ys (appendCandidates xs m)"
    using assms(2) a by (simp add: alias_candidates_def indices_of_def xs_def ys_def n_def nil Let_def)
  have sub: "set xs \<subseteq> set rs" "set ys \<subseteq> set rs" by (auto simp: xs_def ys_def)
  have "{r \<in> set rs. mr_ProviderId r = p \<and> (\<exists>a. AliasLookup_Resolve l name = Some a \<and> alias_matches (TrimSpace a) r)} = set xs \<union> set ys"
    using a by (auto simp: xs_def ys_def n_def alias_matches_def EqualFold_def)
  then show ?thesis
    using appendCandidates_cand [OF assms(1) assms(3) sub(1)] appendCandidates_cand [OF assms(1) _ sub(2)]
    unfolding e by (simp add: Un_ac)
qed

lemma aliases_cand:
  assumes "inj_on mr_Id (set rs)" and "indices_of rs s"
  shows "cand_inv rs m \<Longrightarrow> cand_inv rs (fold (alias_candidates s name) pls m)
    \<and> cand_set (fold (alias_candidates s name) pls m) =
       {r \<in> set rs. \<exists>(p, l) \<in> set pls. mr_ProviderId r = p
          \<and> (\<exists>a. AliasLookup_Resolve l name = Some a \<and> alias_matches (TrimSpace a) r)} \<union> cand_set m"
proof (induction pls arbitrary: m)
  case (Cons pl pls)
  obtain p l where pl: "pl = (p, l)" by (cases pl)
  note c = alias_candidates_cand [OF assms Cons.prems, of name p l]
  show ?case using Cons.IH [of "alias_candidates s name (p, l) m"] c unfolding pl by auto
qed simp

definition snapshot_ok :: "routingStaticSnapshot \<Rightarrow> bool" where
  "snapshot_ok s \<longleftrightarrow> indices_of (ss_enabledRoutes s) s \<and> inj_on mr_Id (set (ss_enabledRoutes s))
     \<and> distinct (map fst (ss_providerAliasLookups s))"

lemma candidates_set:
  assumes "snapshot_ok s" and "TrimSpace name \<noteq> []"
  shows "set (getCandidateRoutesByModelCached s name) = {r \<in> set (ss_enabledRoutes s). is_candidate s (TrimSpace name) r}
    \<and> distinct (map mr_Id (getCandidateRoutesByModelCached s name))"
proof (cases "ss_enabledRoutes s = []")
  case True
  then show ?thesis by (simp add: getCandidateRoutesByModelCached_def)
next
  case False
  let ?rs = "ss_enabledRoutes s" and ?n = "TrimSpace name"
  have ok: "inj_on mr_Id (set ?rs)" "indices_of ?rs s" using assms(1) by (simp_all add: snapshot_ok_def)
  have al: "(p, l) \<in> set (ss_providerAliasLookups s) \<longleftrightarrow> mget (ss_providerAliasLookups s) p = Some l" for p l
    using assms(1) mget_in mget_Some_in unfolding snapshot_ok_def by metis
  define m1 where "m1 = name_candidates s ?n []"
  define m2 where "m2 = (case catalog_resolve (ss_modelCatalog s) ?n of
      Some entry \<Rightarrow> fold (target_candidates s) (ci_RouteTargets entry) m1 | None \<Rightarrow> m1)"
  define m3 where "m3 = fold (alias_candidates s ?n) (ss_providerAliasLookups s) m2"
  have e: "getCandidateRoutesByModelCached s name = sort_by route_before (map snd m3)"
    unfolding getCandidateRoutesByModelCached_def Let_def m1_def m2_def m3_def using False assms(2) by simp
  have c1: "cand_inv ?rs m1 \<and> cand_set m1 = {r \<in> set ?rs. name_matches ?n r}"
    using name_candidates_cand [OF ok, of "[]" ?n] by (simp add: m1_def cand_inv_def cand_set_def)
  have c2: "cand_inv ?rs m2 \<and> cand_set m2 = {r \<in> set ?rs. name_matches ?n r
      \<or> (\<exists>e. catalog_resolve (ss_modelCatalog s) ?n = Some e
          \<and> (\<exists>t \<in> set (ci_RouteTargets e). TrimSpace t \<noteq> [] \<and> name_matches (TrimSpace t) r))}"
    using c1 targets_cand [OF ok, of m1] by (auto simp: m2_def split: option.split)
  have c3: "cand_inv ?rs m3 \<and> cand_set m3 = {r \<in> set ?rs. is_candidate s ?n r}"
    using c2 aliases_cand [OF ok, of m2 ?n "ss_providerAliasLookups s"]
    by (auto simp: m3_def is_candidate_def al)
  have mm: "map mr_Id (map snd m3) = map fst m3"
    using c3 unfolding cand_inv_def by (auto simp: map_eq_conv)
  have "distinct (map mr_Id (map snd m3))" unfolding mm using c3 by (simp add: cand_inv_def)
  moreover have "mset (map mr_Id (sort_by route_before (map snd m3))) = mset (map mr_Id (map snd m3))"
    by (simp only: mset_map mset_sort_by)
  ultimately have "distinct (map mr_Id (sort_by route_before (map snd m3)))"
    using mset_eq_imp_distinct_iff by blast
  then show ?thesis using c3 by (simp add: e cand_set_def)
qed

lemma fold_provider_step:
  "ss_enabledRoutes (fold provider_step ps s) = ss_enabledRoutes s"
  "indices_of rs (fold provider_step ps s) = indices_of rs s"
  "distinct (map fst (ss_providerAliasLookups s)) \<Longrightarrow> distinct (map fst (ss_providerAliasLookups (fold provider_step ps s)))"
  by (induction ps arbitrary: s) (simp_all add: provider_step_def Let_def indices_of_def)

lemma snapshot_ok_build:
  assumes "distinct (map mr_Id (db_routes d))"
  shows "snapshot_ok (buildRoutingStaticSnapshot d)
    \<and> ss_enabledRoutes (buildRoutingStaticSnapshot d) = sort_by route_before (filter mr_Enabled (db_routes d))"
proof -
  let ?rs = "sort_by route_before (filter mr_Enabled (db_routes d))"
  have inj: "inj_on mr_Id (set ?rs)" using assms by (auto simp: distinct_map inj_on_def)
  show ?thesis
  proof (cases "?rs = []")
    case True
    then show ?thesis by (simp add: buildRoutingStaticSnapshot_def emptySnapshot_def snapshot_ok_def indices_of_def Let_def)
  next
    case False
    have i0: "indices_of [] (emptySnapshot\<lparr>ss_enabledRoutes := ?rs\<rparr>)"
      by (simp add: indices_of_def emptySnapshot_def)
    have d0: "distinct (map fst (ss_providerAliasLookups (emptySnapshot\<lparr>ss_enabledRoutes := ?rs\<rparr>)))"
      by (simp add: emptySnapshot_def)
    define s1 where "s1 = fold provider_step (filter (\<lambda>p. p_Id p \<in> set (first_seen (map mr_ProviderId ?rs))) (db_providers d))
        (emptySnapshot\<lparr>ss_enabledRoutes := ?rs\<rparr>)"
    have s1: "indices_of [] s1" "ss_enabledRoutes s1 = ?rs" "distinct (map fst (ss_providerAliasLookups s1))"
      using fold_provider_step i0 d0 unfolding s1_def by auto
    define toks where "toks = fold (\<lambda>t. mput (pt_Id t) t)
      (filter (\<lambda>t. pt_Id t \<in> set (first_seen (map mr_ProviderTokenId ?rs))) (db_tokens d)) []"
    define names where "names = filter (\<lambda>n. n \<noteq> []) (first_seen (map (TrimSpace \<circ> mr_ModelName) ?rs))"
    define prices where "prices = (if names = [] then ss_pricingLookup s1
      else fold (\<lambda>p. mput (routePricingKey (mp_ProviderId p) (mp_ModelName p)) p)
        (filter (\<lambda>p. mp_ProviderId p \<in> set (first_seen (map mr_ProviderId ?rs)) \<and> mp_ModelName p \<in> set names) (db_pricings d)) [])"
    define s2 where "s2 = fold index_step ?rs (s1\<lparr>ss_tokensByID := toks, ss_pricingLookup := prices\<rparr>)"
    have e: "buildRoutingStaticSnapshot d = s2\<lparr>ss_modelCatalog := buildModelCatalogSnapshot ?rs (ss_providerAliasReverseLookup s2)\<rparr>"
      unfolding buildRoutingStaticSnapshot_def Let_def s1_def [symmetric] toks_def [symmetric] names_def [symmetric] s2_def prices_def
      using False by simp
    have "indices_of [] (s1\<lparr>ss_tokensByID := toks, ss_pricingLookup := prices\<rparr>)"
      using s1(1) by (simp add: indices_of_def)
    from fold_index_indices [OF this, of ?rs]
    show ?thesis using s1 inj by (simp add: e s2_def snapshot_ok_def indices_of_def)
  qed
qed

text \<open>
  C15: the candidate lookup over the indices of the snapshot returns exactly the enabled routes that a
  scan would select (by the requested name, by a route target of its catalog entry, or by an alias
  of the provider of the route), each once, by descending priority and then ascending identifier.
\<close>

theorem candidates_exact:
  assumes "distinct (map mr_Id (db_routes d))" and "TrimSpace name \<noteq> []"
  shows "set (getCandidateRoutesByModelCached (buildRoutingStaticSnapshot d) name) =
      {r \<in> set (db_routes d). mr_Enabled r \<and> is_candidate (buildRoutingStaticSnapshot d) (TrimSpace name) r}
    \<and> distinct (map mr_Id (getCandidateRoutesByModelCached (buildRoutingStaticSnapshot d) name))
    \<and> sorted_wrt (\<lambda>a b. mr_Priority b < mr_Priority a \<or> mr_Priority a = mr_Priority b \<and> mr_Id a \<le> mr_Id b)
        (getCandidateRoutesByModelCached (buildRoutingStaticSnapshot d) name)"
proof -
  let ?s = "buildRoutingStaticSnapshot d"
  have s: "snapshot_ok ?s" "ss_enabledRoutes ?s = sort_by route_before (filter mr_Enabled (db_routes d))"
    using snapshot_ok_build [OF assms(1)] by simp_all
  have "sorted_wrt (\<lambda>a b. \<not> route_before b a) (getCandidateRoutesByModelCached ?s name)"
    by (simp add: getCandidateRoutesByModelCached_def Let_def route_order.sort_by_sorted)
  then have "sorted_wrt (\<lambda>a b. mr_Priority b < mr_Priority a \<or> mr_Priority a = mr_Priority b \<and> mr_Id a \<le> mr_Id b)
      (getCandidateRoutesByModelCached ?s name)"
    by (rule sorted_wrt_mono_rel [rotated]) (auto simp: route_before_def split: if_splits)
  then show ?thesis using candidates_set [OF s(1) assms(2)] by (auto simp: s(2))
qed

definition sample_route :: "int \<Rightarrow> gostring \<Rightarrow> int \<Rightarrow> ModelRoute" where
  "sample_route i name prio = \<lparr>mr_Id = i, mr_ModelName = name, mr_ProviderTokenId = 3, mr_ProviderId = 7, mr_Enabled = True,
     mr_Priority = prio, mr_Weight = 10\<rparr>"

definition sample_db :: db where
  "sample_db = \<lparr>db_providers = [sample_provider], db_tokens = [sample_token\<lparr>pt_Id := 3\<rparr>],
     db_routes = [sample_route 1 ''glm-4'' 0, sample_route 2 ''glm-4-20240115'' 5], db_pricings = [], db_aggtokens = [],
     db_users = [], db_logs = []\<rparr>"

theorem candidates_exact_witness:
  "distinct (map mr_Id (getCandidateRoutesByModelCached (buildRoutingStaticSnapshot sample_db) ''GLM-4''))
   \<and> map mr_Id (getCandidateRoutesByModelCached (buildRoutingStaticSnapshot sample_db) ''GLM-4'') = [2, 1]"
proof -
  have "distinct (map mr_Id (db_routes sample_db))" and "TrimSpace ''GLM-4'' \<noteq> []" by code_simp+
  then have "distinct (map mr_Id (getCandidateRoutesByModelCached (buildRoutingStaticSnapshot sample_db) ''GLM-4''))"
    using candidates_exact by blast
  moreover have "map mr_Id (getCandidateRoutesByModelCached (buildRoutingStaticSnapshot sample_db) ''GLM-4'') = [2, 1]"
    by code_simp
  ultimately show ?thesis by blast
qed

lemma routeMatches_candidate:
  assumes "rname r \<noteq> []" and "mget (ss_providerAliasLookups s) (mr_ProviderId r) = Some l"
    and "routeMatchesRequestedModel (mr_ModelName r) name (NormalizeModelName name)
      (if NormalizeModelName name = [] then [] else ToVersionAgnosticKey (NormalizeModelName name)) l"
  shows "is_candidate s name r"
proof -
  have t: "a \<noteq> [] \<and> TrimSpace a = a" if "AliasLookup_Resolve l name = Some a" for a
    using that by (auto simp: AliasLookup_Resolve_def Let_def split: option.splits if_splits)
  show ?thesis
  proof (cases "name_matches name r")
    case False
    let ?N = "NormalizeModelName name"
    have no: "\<not> EqualFold (rname r) name" "\<not> (?N \<noteq> [] \<and> rnorm r \<noteq> [] \<and> rnorm r = ?N)"
      "\<not> ((if ?N = [] then [] else ToVersionAgnosticKey ?N) \<noteq> [] \<and> rnorm r \<noteq> []
          \<and> ToVersionAgnosticKey (rnorm r) = (if ?N = [] then [] else ToVersionAgnosticKey ?N))"
      using False assms(1) by (auto simp: name_matches_def split: if_splits)
    obtain a where a: "AliasLookup_Resolve l name = Some a" and
      m: "EqualFold (rname r) a \<or> (NormalizeModelName a \<noteq> [] \<and> NormalizeModelName a = rnorm r)"
      using assms(3) no assms(1)
      unfolding routeMatchesRequestedModel_def Let_def rname_def [symmetric] rnorm_def [symmetric]
      by (simp split: option.splits if_splits)
    have "alias_matches (TrimSpace a) r"
      using m assms(1) t [OF a] by (simp add: alias_matches_def) metis
    then show ?thesis using assms(2) a unfolding is_candidate_def by blast
  qed (simp add: is_candidate_def)
qed

subsection \<open>The contract of a time-limited cache\<close>

text \<open>What the routing code relies on: a read returns the value last stored under the key, and only
  while it is young enough.\<close>

locale ttl_cache =
  fixes lookup_at :: "gotime \<Rightarrow> 'k \<Rightarrow> 'c \<Rightarrow> 'v option"
    and store_at :: "gotime \<Rightarrow> 'k \<Rightarrow> 'v \<Rightarrow> 'c \<Rightarrow> 'c"
    and empty_cache :: 'c
    and ttl :: gotime
    and valid_key :: "'k \<Rightarrow> bool"
    and ok :: "'c \<Rightarrow> bool"
  assumes ttl_nonneg: "0 \<le> ttl"
    and ok_empty: "ok empty_cache"
    and ok_store: "ok c \<Longrightarrow> ok (store_at t k v c)"
    and lookup_empty: "lookup_at now k empty_cache = None"
    and lookup_same: "valid_key k \<Longrightarrow> ok c \<Longrightarrow>
      lookup_at now k (store_at t k v c) = (if now \<le> t + ttl then Some v else None)"
    and lookup_other: "valid_key k' \<Longrightarrow> ok c \<Longrightarrow> k \<noteq> k' \<Longrightarrow> lookup_at now k (store_at t k' v c) = Some w
      \<Longrightarrow> lookup_at now k c = Some w"
begin

fun run :: "(gotime \<times> 'k \<times> 'v) list \<Rightarrow> 'c" where
  \<comment> \<open>the latest store first\<close>
  "run [] = empty_cache"
| "run ((t, k, v) # ops) = store_at t k v (run ops)"

definition latest :: "'k \<Rightarrow> (gotime \<times> 'k \<times> 'v) list \<Rightarrow> (gotime \<times> 'v) option" where
  "latest k ops = map_option (\<lambda>(t, _, v). (t, v)) (find (\<lambda>(t, k', v). k' = k) ops)"

lemma ok_run: "ok (run ops)"
  by (induction ops rule: run.induct) (simp_all add: ok_empty ok_store)

lemma lookup_run:
  assumes "\<forall>(t, k, v) \<in> set ops. valid_key k" and "lookup_at now k (run ops) = Some w"
  shows "\<exists>t. latest k ops = Some (t, w) \<and> now \<le> t + ttl"
  using assms
proof (induction ops)
  case Nil
  then show ?case by (simp add: lookup_empty)
next
  case (Cons op ops)
  obtain t k' v where op: "op = (t, k', v)" by (cases op)
  have v: "valid_key k'" using Cons.prems(1) by (simp add: op)
  have l: "lookup_at now k (store_at t k' v (run ops)) = Some w" using Cons.prems(2) by (simp add: op)
  show ?case
  proof (cases "k' = k")
    case True
    with l v show ?thesis by (auto simp: op lookup_same ok_run latest_def split: if_splits)
  next
    case False
    with l have "lookup_at now k (run ops) = Some w" by (intro lookup_other [OF v ok_run]) auto
    with Cons False show ?thesis by (simp add: op latest_def)
  qed
qed

end

lemma mget_filter_cleanup:
  "distinct (map fst m) \<Longrightarrow> mget (filter P m) k = (case mget m k of Some e \<Rightarrow> if P (k, e) then Some e else None | None \<Rightarrow> None)"
  unfolding mget_def
  by (induction m) (auto simp: map_of_eq_None_iff image_iff split: option.splits)

lemma evict_drop: "\<exists>n. evictEntriesIfNeeded m = drop n m"
proof (induction m)
  case (Cons e es)
  then obtain n where "evictEntriesIfNeeded es = drop n es" by blast
  then have "evictEntriesIfNeeded (e # es) = drop (if length (e # es) \<ge> routingRuntimeMetricMaxKey then Suc n else 0) (e # es)"
    by simp
  then show ?case by blast
qed simp

lemma evict_length: "length (evictEntriesIfNeeded m) < routingRuntimeMetricMaxKey"
  by (induction m) (auto simp: routingRuntimeMetricMaxKey_def)

lemma mget_drop: "distinct (map fst m) \<Longrightarrow> mget (drop n m) k = Some e \<Longrightarrow> mget m k = Some e"
  by (meson distinct_drop drop_map in_set_dropD mget_Some_in mget_in)

definition metric_lookup :: "gotime \<Rightarrow> gostring \<Rightarrow> 'a metricCache \<Rightarrow> 'a option" where
  "metric_lookup now k c = fst (getCachedMetric now k c)"

lemma distinct_setCachedMetric:
  assumes "distinct (map fst c)" shows "distinct (map fst (setCachedMetric now k v c))"
proof -
  have "distinct (map fst (cleanupExpiredEntries now c))"
    using assms by (simp add: cleanupExpiredEntries_def distinct_map_filter)
  then have "distinct (map fst (evictEntriesIfNeeded (cleanupExpiredEntries now c)))"
    using evict_drop [of "cleanupExpiredEntries now c"] by (metis distinct_drop drop_map)
  with assms show ?thesis by (simp add: setCachedMetric_def)
qed

lemma length_mput: "length (mput k v m) \<le> Suc (length m)"
  unfolding mput_def by (induction m) auto

lemma mget_evict_cleanup:
  assumes "distinct (map fst c)" and "mget (evictEntriesIfNeeded (cleanupExpiredEntries now c)) k = Some e"
  shows "mget c k = Some e"
proof -
  have d: "distinct (map fst (cleanupExpiredEntries now c))"
    using assms by (simp add: cleanupExpiredEntries_def distinct_map_filter)
  obtain n where "evictEntriesIfNeeded (cleanupExpiredEntries now c) = drop n (cleanupExpiredEntries now c)"
    using evict_drop by blast
  then have "mget (cleanupExpiredEntries now c) k = Some e" using mget_drop [OF d] assms(2) by simp
  then show ?thesis
    by (auto simp: cleanupExpiredEntries_def mget_filter_cleanup [OF assms(1)] split: option.splits if_splits)
qed

interpretation metric_cache: ttl_cache "metric_lookup :: gotime \<Rightarrow> gostring \<Rightarrow> 'a metricCache \<Rightarrow> 'a option"
  "setCachedMetric" "[]" routingRuntimeMetricTTL "\<lambda>k. k \<noteq> []" "\<lambda>c. distinct (map fst c)"
proof unfold_locales
  fix now t :: gotime and k k' :: gostring and v w :: 'a and c :: "'a metricCache"
  show "0 \<le> routingRuntimeMetricTTL" by (simp add: routingRuntimeMetricTTL_def Second_def)
  show "distinct (map fst c) \<Longrightarrow> distinct (map fst (setCachedMetric t k v c))" by (rule distinct_setCachedMetric)
  show "metric_lookup now k [] = None" by (simp add: metric_lookup_def getCachedMetric_def)
  show "k \<noteq> [] \<Longrightarrow> metric_lookup now k (setCachedMetric t k v c) = (if now \<le> t + routingRuntimeMetricTTL then Some v else None)"
    by (simp add: metric_lookup_def getCachedMetric_def setCachedMetric_def)
  assume a: "k' \<noteq> []" "distinct (map fst c)" "k \<noteq> k'" "metric_lookup now k (setCachedMetric t k' v c) = Some w"
  let ?m = "evictEntriesIfNeeded (cleanupExpiredEntries t c)"
  obtain e where e: "k \<noteq> []" "mget ?m k = Some e" "\<not> now > ce_expiresAt e" "w = ce_data e"
    using a by (auto simp: metric_lookup_def getCachedMetric_def setCachedMetric_def split: if_splits option.splits)
  have "mget c k = Some e" by (rule mget_evict_cleanup [OF a(2) e(2)])
  then show "metric_lookup now k c = Some w" using e by (simp add: metric_lookup_def getCachedMetric_def)
qed simp

lemma run_stores: "metric_cache.run ops = foldr (\<lambda>(t, k, v). setCachedMetric t k v) ops []"
  by (induction ops) auto

lemma setCachedMetric_size: "length (setCachedMetric t k v c) \<le> max 256 (length c)"
  using length_mput [of k "\<lparr>ce_expiresAt = t + routingRuntimeMetricTTL, ce_data = v\<rparr>" "evictEntriesIfNeeded (cleanupExpiredEntries t c)"]
    evict_length [of "cleanupExpiredEntries t c"]
  by (auto simp: setCachedMetric_def routingRuntimeMetricMaxKey_def)

text \<open>
  The metric caches never grow beyond 256 entries, and whatever sequence of stores has happened
  (the latest first in \<open>ops\<close>), a read that hits returns the value of the latest store under that
  key, at most 15 seconds old.
\<close>

theorem metric_cache_correct:
  fixes ops :: "(gotime \<times> gostring \<times> 'a) list"
  assumes "\<forall>(t, k, v) \<in> set ops. k \<noteq> []"
  shows "length (foldr (\<lambda>(t, k, v). setCachedMetric t k v) ops []) \<le> 256
    \<and> (\<forall>w. fst (getCachedMetric now k (foldr (\<lambda>(t, k, v). setCachedMetric t k v) ops [])) = Some w \<longrightarrow>
         (\<exists>t. map_option (\<lambda>(t, _, v). (t, v)) (find (\<lambda>(t, k', v). k' = k) ops) = Some (t, w) \<and> now \<le> t + 15 * Second))"
proof -
  have "length (foldr (\<lambda>(t, k, v). setCachedMetric t k v) ops []) \<le> 256"
  proof (induction ops)
    case (Cons op ops)
    obtain t k v where "op = (t, k, v)" by (cases op)
    then show ?case
      using Cons setCachedMetric_size [of t k v "foldr (\<lambda>(t, k, v). setCachedMetric t k v) ops []"] by simp
  qed simp
  moreover have "\<exists>t. metric_cache.latest k ops = Some (t, w) \<and> now \<le> t + routingRuntimeMetricTTL"
    if "fst (getCachedMetric now k (foldr (\<lambda>(t, k, v). setCachedMetric t k v) ops [])) = Some w" for w
    using that by (intro metric_cache.lookup_run [OF assms]) (simp add: metric_lookup_def run_stores)
  ultimately show ?thesis
    by (simp add: metric_cache.latest_def routingRuntimeMetricTTL_def)
qed

theorem metric_cache_correct_witness:
  "fst (getCachedMetric 5 ''a'' (setCachedMetric 3 ''a'' (1::int) (setCachedMetric 1 ''a'' 2 []))) = Some 1
   \<and> length (setCachedMetric 3 ''a'' (1::int) (setCachedMetric 1 ''a'' 2 [])) \<le> 256"
proof -
  let ?ops = "[(3, ''a'', 1), (1, ''a'', 2)] :: (gotime \<times> gostring \<times> int) list"
  have "\<forall>(t, k, v) \<in> set ?ops. k \<noteq> []" by simp
  from metric_cache_correct [OF this] have "length (setCachedMetric 3 ''a'' (1::int) (setCachedMetric 1 ''a'' 2 [])) \<le> 256" by simp
  moreover have "fst (getCachedMetric 5 ''a'' (setCachedMetric 3 ''a'' (1::int) (setCachedMetric 1 ''a'' 2 []))) = Some 1"
    by code_simp
  ultimately show ?thesis by blast
qed

text \<open>
  The snapshot cache serves a snapshot less than 60 seconds after it was built without building
  again, serves the fresh one otherwise, and falls back to the expired one when building fails.
\<close>

theorem snapshot_cache_behaviour:
  "fst (getRoutingStaticSnapshot now' fresh' (snd (getRoutingStaticSnapshot now (Some s) c))) =
     (if sc_snapshot c \<noteq> None \<and> now < sc_expiresAt c
      then (if now' < sc_expiresAt c then sc_snapshot c
            else case fresh' of Some f \<Rightarrow> Some f | None \<Rightarrow> sc_snapshot c)
      else (if now' < now + 60 * Second then Some s
            else case fresh' of Some f \<Rightarrow> Some f | None \<Rightarrow> Some s))"
  by (simp add: getRoutingStaticSnapshot_def routingStaticSnapshotTTL_def split: option.split)

subsection \<open>A collision of cache keys\<close>

text \<open>A comma in a model name makes two different model lists share one cache key.\<close>

lemma cache_key_collision:
  "buildRoutingMetricCacheKey [1] [''a,b''] 24 = buildRoutingMetricCacheKey [1] [''a'', ''b''] 24"
  by code_simp

end
