(* ===== verification/RoutePlan.thy ===== *)
theory RoutePlan
  imports RouteCache
begin

text \<open>
  The retry plan of \<open>src/model/model_route.go\<close>: loading the providers and tokens of the candidates, the
  run-time metrics, the weighted random order inside a priority group, and
  \<open>BuildRouteAttemptsByPriority\<close>, which groups the usable candidates by descending priority. The
  random source is a sequence of draws, a \<open>Float64\<close> in [0, 1) and the number that \<open>Intn\<close> reduces; the
  clock is read once per call.
\<close>

record RouteAttempt =
  ra_Route :: ModelRoute
  ra_Token :: ProviderToken
  ra_Provider :: Provider
  ra_Contribution :: real
  ra_ValueScore :: real
  ra_ProviderBalance :: real
  ra_RecentUsageCostUSD :: real

record routeRuntimeMetrics =
  rm_UnitCostUSD :: real
  rm_ProviderBalanceUSD :: real
  rm_RecentUsageCostUSD :: real
  rm_ValueScore :: real
  rm_HealthMultiplier :: real
  rm_HealthSampleCount :: int
  rm_HealthSuccessRate :: real
  rm_HealthFailRate :: real
  rm_HealthAvgLatencyMs :: real
  rm_InvalidResponseCount :: int
  rm_InvalidResponseRate :: real
  rm_SuppressedUntil :: int

definition zeroMetrics :: routeRuntimeMetrics where
  "zeroMetrics = \<lparr>rm_UnitCostUSD = 0, rm_ProviderBalanceUSD = 0, rm_RecentUsageCostUSD = 0, rm_ValueScore = 0,
     rm_HealthMultiplier = 0, rm_HealthSampleCount = 0, rm_HealthSuccessRate = 0, rm_HealthFailRate = 0,
     rm_HealthAvgLatencyMs = 0, rm_InvalidResponseCount = 0, rm_InvalidResponseRate = 0, rm_SuppressedUntil = 0\<rparr>"

record routingCaches =
  cc_static :: staticCacheState
  cc_usage :: "(gostring, real) gomap metricCache"
  cc_health :: "(gostring, routeHealthStats) gomap metricCache"

definition invalidateModelRouteCaches :: "routingCaches \<Rightarrow> routingCaches" where
  "invalidateModelRouteCaches c =
    \<lparr>cc_static = invalidateRoutingStaticSnapshot (cc_static c), cc_usage = [], cc_health = []\<rparr>"

subsection \<open>Loading\<close>

definition loadProvidersByIDs :: "routingStaticSnapshot option \<Rightarrow> int list \<Rightarrow> db \<Rightarrow> (int, Provider) gomap" where
  "loadProvidersByIDs snapshot providerIds d =
    (if providerIds = [] then []
     else
       let (lookup, missingIds) =
         (case snapshot of
            Some s \<Rightarrow> (fold (\<lambda>i m. case mget (ss_providersByID s) i of Some p \<Rightarrow> mput i p m | None \<Rightarrow> m) providerIds [],
                       filter (\<lambda>i. mget (ss_providersByID s) i = None) providerIds)
          | None \<Rightarrow> ([], providerIds))
       in if missingIds = [] then lookup
          else fold (\<lambda>p. mput (p_Id p) p) (filter (\<lambda>p. p_Id p \<in> set missingIds) (db_providers d)) lookup)"

definition loadProviderTokensByIDs :: "routingStaticSnapshot option \<Rightarrow> int list \<Rightarrow> db \<Rightarrow> (int, ProviderToken) gomap" where
  "loadProviderTokensByIDs snapshot tokenIds d =
    (if tokenIds = [] then []
     else
       let (lookup, missingIds) =
         (case snapshot of
            Some s \<Rightarrow> (fold (\<lambda>i m. case mget (ss_tokensByID s) i of Some t \<Rightarrow> mput i t m | None \<Rightarrow> m) tokenIds [],
                       filter (\<lambda>i. mget (ss_tokensByID s) i = None) tokenIds)
          | None \<Rightarrow> ([], tokenIds))
       in if missingIds = [] then lookup
          else fold (\<lambda>t. mput (pt_Id t) t) (filter (\<lambda>t. pt_Id t \<in> set missingIds) (db_tokens d)) lookup)"

definition metric_of ::
  "(int, Provider) gomap \<Rightarrow> (int, ProviderToken) gomap \<Rightarrow> (gostring, ModelPricing) gomap \<Rightarrow> (gostring, real) gomap
   \<Rightarrow> (gostring, routeHealthStats) gomap \<Rightarrow> (gostring, int) gomap \<Rightarrow> routingTuningConfig \<Rightarrow> Provider \<Rightarrow> ModelRoute
   \<Rightarrow> routeRuntimeMetrics" where
  \<comment> \<open>the body of the last loop of \<open>buildRouteRuntimeMetrics\<close>\<close>
  "metric_of providers tokens pricingLookup usageLookup healthLookup suppressionLookup config provider route =
    (let groupRatioLookup = map (\<lambda>(i, p). (i, parseGroupRatioMap (p_PricingGroupRatio p))) providers;
         tokenGroup = (case mget tokens (mr_ProviderTokenId route) of Some t \<Rightarrow> pt_GroupName t | None \<Rightarrow> []);
         key = routeUsageKey (mr_ProviderTokenId route) (mr_ModelName route);
         balanceUSD = parseBalanceUSD (p_Balance provider);
         unitCostUSD = calcRouteUnitCostUSD (mr_ProviderId route) (mr_ModelName route) tokenGroup groupRatioLookup pricingLookup;
         recentUsageUSD = mget_default 0 usageLookup key;
         valueScore = computeRouteValueScore unitCostUSD balanceUSD recentUsageUSD;
         healthStats = finalizeRouteHealthStat (mget_default zeroHealthStats healthLookup key) config
     in \<lparr>rm_UnitCostUSD = unitCostUSD, rm_ProviderBalanceUSD = balanceUSD, rm_RecentUsageCostUSD = recentUsageUSD,
         rm_ValueScore = valueScore, rm_HealthMultiplier = hs_Multiplier healthStats,
         rm_HealthSampleCount = hs_SampleCount healthStats, rm_HealthSuccessRate = hs_SuccessRate healthStats,
         rm_HealthFailRate = hs_FailRate healthStats, rm_HealthAvgLatencyMs = hs_AvgLatencyMs healthStats,
         rm_InvalidResponseCount = hs_InvalidResponseCount healthStats,
         rm_InvalidResponseRate = hs_InvalidResponseRate healthStats,
         rm_SuppressedUntil = mget_default 0 suppressionLookup key\<rparr>)"

definition buildRouteRuntimeMetrics ::
  "gotime \<Rightarrow> routingStaticSnapshot option \<Rightarrow> ModelRoute list \<Rightarrow> (int, Provider) gomap \<Rightarrow> (int, ProviderToken) gomap
   \<Rightarrow> gostring list \<Rightarrow> routingTuningConfig \<Rightarrow> db \<Rightarrow> routingCaches \<Rightarrow> (int, routeRuntimeMetrics) gomap \<times> routingCaches" where
  "buildRouteRuntimeMetrics now snapshot routes providers tokens modelNames config d caches =
    (if routes = [] then ([], caches)
     else
       let providerIds = map fst providers; tokenIds = map fst tokens;
           pricingLookup = loadPricingLookupByProviderModels snapshot providerIds modelNames d;
           (usageLookup, usage') = loadRecentUsageCostByTokenModel now tokenIds modelNames (rc_UsageWindowHours config) d (cc_usage caches);
           (healthLookup, health') = loadRouteHealthStatsByTokenModel now tokenIds modelNames (rc_HealthWindowHours config) d (cc_health caches);
           suppressionLookup = loadRouteInvalidResponseSuppressionByTokenModel now tokenIds modelNames config d;
           metrics = fold (\<lambda>route m. case mget providers (mr_ProviderId route) of
               None \<Rightarrow> m
             | Some provider \<Rightarrow> mput (mr_Id route)
                 (metric_of providers tokens pricingLookup usageLookup healthLookup suppressionLookup config provider route) m) routes []
       in (metrics, caches\<lparr>cc_usage := usage', cc_health := health'\<rparr>))"

subsection \<open>Weighted random order\<close>

record draw =
  dr_float :: real
  dr_int :: nat

definition positive_weight :: "RouteAttempt \<Rightarrow> real" where
  \<comment> \<open>\<open>weight := item.Contribution; if weight < 0 { weight = 0 }\<close>\<close>
  "positive_weight a = (if ra_Contribution a < 0 then 0 else ra_Contribution a)"

definition total_weight :: "RouteAttempt list \<Rightarrow> real" where
  "total_weight pool = fold (\<lambda>item t. if ra_Contribution item > 0 then t + ra_Contribution item else t) pool 0"

fun scan_pick :: "real \<Rightarrow> real \<Rightarrow> nat \<Rightarrow> RouteAttempt list \<Rightarrow> nat" where
  \<comment> \<open>\<open>selectedIdx\<close> stays 0 when the scan falls through\<close>
  "scan_pick pick acc i [] = 0"
| "scan_pick pick acc i (item # pool) =
    (let acc = acc + positive_weight item in if pick \<le> acc then i else scan_pick pick acc (Suc i) pool)"

definition select_index :: "draw \<Rightarrow> RouteAttempt list \<Rightarrow> nat" where
  "select_index r pool =
    (if total_weight pool > 0 then scan_pick (dr_float r * total_weight pool) 0 0 pool
     else dr_int r mod length pool)"

lemma scan_pick_less: "scan_pick pick acc i pool = 0 \<or> (i \<le> scan_pick pick acc i pool \<and> scan_pick pick acc i pool < i + length pool)"
  by (induction pick acc i pool rule: scan_pick.induct) (auto simp: Let_def)

lemma select_index_less: "pool \<noteq> [] \<Longrightarrow> select_index r pool < length pool"
  using scan_pick_less [of "dr_float r * total_weight pool" 0 0 pool] by (auto simp: select_index_def)

lemma length_remove_nth: "i < length xs \<Longrightarrow> length (take i xs @ drop (Suc i) xs) < length xs"
  by simp

function weightedShuffleFrom :: "nat \<Rightarrow> (nat \<Rightarrow> draw) \<Rightarrow> RouteAttempt list \<Rightarrow> RouteAttempt list" where
  \<comment> \<open>the first argument counts the draws used so far\<close>
  "weightedShuffleFrom n draws pool =
    (if pool = [] then []
     else
       let selectedIdx = select_index (draws n) pool
       in pool ! selectedIdx # weightedShuffleFrom (Suc n) draws (take selectedIdx pool @ drop (Suc selectedIdx) pool))"
  by pat_completeness auto
termination
  by (relation "measure (\<lambda>(n, draws, pool). length pool)") (auto simp del: length_append intro!: length_remove_nth select_index_less)

declare weightedShuffleFrom.simps [simp del]

definition weightedShuffleAttempts :: "nat \<Rightarrow> (nat \<Rightarrow> draw) \<Rightarrow> RouteAttempt list \<Rightarrow> RouteAttempt list" where
  "weightedShuffleAttempts n draws attempts = weightedShuffleFrom n draws attempts"

subsection \<open>The plan\<close>

definition usable_attempt ::
  "location \<Rightarrow> gotime \<Rightarrow> (int, Provider) gomap \<Rightarrow> (int, ProviderToken) gomap \<Rightarrow> (int, routeRuntimeMetrics) gomap
   \<Rightarrow> ModelRoute \<Rightarrow> RouteAttempt option" where
  \<comment> \<open>one route of the inner loop; \<open>None\<close> is one of its \<open>continue\<close>s\<close>
  "usable_attempt loc now providerLookup tokenLookup metricLookup route =
    (case (mget providerLookup (mr_ProviderId route), mget tokenLookup (mr_ProviderTokenId route)) of
       (Some provider, Some token) \<Rightarrow>
         if p_Status provider \<noteq> UserStatusEnabled \<or> pt_Status token \<noteq> UserStatusEnabled then None
         else if \<not> CanParticipateInRouting token then None
         else if \<not> IsRouteEligibleAt loc now provider then None
         else
           let metric = mget_default zeroMetrics metricLookup (mr_Id route) in
           if rm_SuppressedUntil metric > Unix now then None
           else Some \<lparr>ra_Route = route, ra_Token = token, ra_Provider = provider, ra_Contribution = 0,
                      ra_ValueScore = rm_ValueScore metric, ra_ProviderBalance = rm_ProviderBalanceUSD metric,
                      ra_RecentUsageCostUSD = rm_RecentUsageCostUSD metric\<rparr>
     | _ \<Rightarrow> None)"

definition max_score :: "RouteAttempt list \<Rightarrow> real" where
  "max_score attempts = fold (\<lambda>a m. if ra_ValueScore a > m then ra_ValueScore a else m) attempts 0"

definition attempt_contribution ::
  "routingTuningConfig \<Rightarrow> (int, routeRuntimeMetrics) gomap \<Rightarrow> real \<Rightarrow> RouteAttempt \<Rightarrow> real" where
  "attempt_contribution config metricLookup maxScore a =
    (let baseContribution = computeRouteContribution (mr_Weight (ra_Route a)) (ra_ValueScore a) maxScore
           (rc_BaseWeightFactor config) (rc_ValueScoreFactor config);
         healthMultiplier = (case mget metricLookup (mr_Id (ra_Route a)) of Some m \<Rightarrow> rm_HealthMultiplier m | None \<Rightarrow> 1);
         healthMultiplier = (if healthMultiplier \<le> 0 then 1 / 10000 else healthMultiplier)
     in baseContribution * healthMultiplier)"

definition group_attempts ::
  "location \<Rightarrow> gotime \<Rightarrow> routingTuningConfig \<Rightarrow> (int, Provider) gomap \<Rightarrow> (int, ProviderToken) gomap
   \<Rightarrow> (int, routeRuntimeMetrics) gomap \<Rightarrow> ModelRoute list \<Rightarrow> RouteAttempt list" where
  \<comment> \<open>the attempts of one priority, with their contributions\<close>
  "group_attempts loc now config providerLookup tokenLookup metricLookup routes =
    (let attempts = List.map_filter (usable_attempt loc now providerLookup tokenLookup metricLookup) routes;
         maxScore = max_score attempts
     in map (\<lambda>a. a\<lparr>ra_Contribution := attempt_contribution config metricLookup maxScore a\<rparr>) attempts)"

fun plan_groups ::
  "(nat \<Rightarrow> draw) \<Rightarrow> nat \<Rightarrow> (int \<Rightarrow> RouteAttempt list) \<Rightarrow> int list \<Rightarrow> RouteAttempt list list" where
  "plan_groups draws n attempts_of [] = []"
| "plan_groups draws n attempts_of (priority # priorities) =
    (let attempts = attempts_of priority in
     if attempts = [] then plan_groups draws n attempts_of priorities
     else weightedShuffleAttempts n draws attempts
       # plan_groups draws (n + length attempts) attempts_of priorities)"

definition routes_by_priority :: "ModelRoute list \<Rightarrow> (int, ModelRoute list) gomap" where
  "routes_by_priority routes = fold (\<lambda>route. mappend (mr_Priority route) route) routes []"

definition plan_from_candidates ::
  "location \<Rightarrow> (gostring, gostring) gomap \<Rightarrow> gotime \<Rightarrow> (nat \<Rightarrow> draw) \<Rightarrow> routingStaticSnapshot option \<Rightarrow> db \<Rightarrow> ModelRoute list
   \<Rightarrow> routingCaches \<Rightarrow> RouteAttempt list list \<times> routingCaches" where
  \<comment> \<open>what follows the candidate lookup\<close>
  "plan_from_candidates loc options now draws snapshot d candidateRoutes caches =
    (let config = loadRoutingTuningConfig options;
         providerIds = first_seen (map mr_ProviderId candidateRoutes);
         tokenIds = first_seen (map mr_ProviderTokenId candidateRoutes);
         modelNames = first_seen (map mr_ModelName candidateRoutes);
         providerLookup = loadProvidersByIDs snapshot providerIds d;
         tokenLookup = loadProviderTokensByIDs snapshot tokenIds d;
         (metricLookup, caches) = buildRouteRuntimeMetrics now snapshot candidateRoutes providerLookup tokenLookup modelNames config d caches;
         priorities = rev (sort (first_seen (map mr_Priority candidateRoutes)));
         routesByPriority = routes_by_priority candidateRoutes
     in (plan_groups draws 0 (\<lambda>priority. group_attempts loc now config providerLookup tokenLookup metricLookup
            (mget_default [] routesByPriority priority)) priorities, caches))"

definition BuildRouteAttemptsByPriority ::
  "location \<Rightarrow> (gostring, gostring) gomap \<Rightarrow> gotime \<Rightarrow> (nat \<Rightarrow> draw) \<Rightarrow> db \<Rightarrow> gostring \<Rightarrow> routingCaches
   \<Rightarrow> (gw_error + RouteAttempt list list) \<times> routingCaches" where
  "BuildRouteAttemptsByPriority loc options now draws d modelName caches =
    (let requestedModel = TrimSpace modelName in
     if requestedModel = [] then (Inl ErrInvalidModelName, caches)
     else
       let (snapshot, static') = getRoutingStaticSnapshot now (Some (buildRoutingStaticSnapshot d)) (cc_static caches);
           caches = caches\<lparr>cc_static := static'\<rparr>
       in case snapshot of
            None \<Rightarrow> (Inl ErrDb, caches)
          | Some s \<Rightarrow>
              let candidateRoutes = getCandidateRoutesByModelCached s requestedModel in
              if candidateRoutes = [] then (Inl (ErrNoRoute requestedModel), caches)
              else
                let (plan, caches) = plan_from_candidates loc options now draws snapshot d candidateRoutes caches
                in if plan = [] then (Inl (ErrNoRoute requestedModel), caches) else (Inr plan, caches))"

definition SelectProviderToken ::
  "location \<Rightarrow> (gostring, gostring) gomap \<Rightarrow> gotime \<Rightarrow> (nat \<Rightarrow> draw) \<Rightarrow> db \<Rightarrow> gostring \<Rightarrow> int \<Rightarrow> routingCaches
   \<Rightarrow> (gw_error + ProviderToken \<times> Provider \<times> gostring) \<times> routingCaches" where
  "SelectProviderToken loc options now draws d modelName retry caches =
    (let requestedModel = TrimSpace modelName in
     if requestedModel = [] then (Inl ErrInvalidModelName, caches)
     else case BuildRouteAttemptsByPriority loc options now draws d requestedModel caches of
       (Inl e, caches) \<Rightarrow> (Inl e, caches)
     | (Inr plan, caches) \<Rightarrow>
         if plan = [] then (Inl (ErrNoRoute requestedModel), caches)
         else
           let idx = (if retry < 0 then 0 else retry);
               idx = (if idx \<ge> int (length plan) then int (length plan) - 1 else idx)
           in case plan ! nat idx of
                [] \<Rightarrow> (Inl ErrRouteSelection, caches)
              | chosen # _ \<Rightarrow> (Inr (ra_Token chosen, ra_Provider chosen, mr_ModelName (ra_Route chosen)), caches))"

subsection \<open>The weighted order is a permutation\<close>

lemma mset_remove_nth: "i < length xs \<Longrightarrow> add_mset (xs ! i) (mset (take i xs @ drop (Suc i) xs)) = mset xs"
  by (metis add_mset_add_single mset.simps(2) mset_append id_take_nth_drop union_mset_add_mset_right)

lemma mset_weightedShuffleFrom: "mset (weightedShuffleFrom n draws pool) = mset pool"
proof (induction n draws pool rule: weightedShuffleFrom.induct)
  case (1 n draws pool)
  show ?case
  proof (cases "pool = []")
    case True
    then show ?thesis by (subst weightedShuffleFrom.simps) simp
  next
    case False
    then show ?thesis
      using "1.IH" mset_remove_nth [OF select_index_less [OF False, of "draws n"]]
      by (subst weightedShuffleFrom.simps) (simp add: Let_def)
  qed
qed

lemma mset_weightedShuffle [simp]: "mset (weightedShuffleAttempts n draws pool) = mset pool"
  by (simp add: weightedShuffleAttempts_def mset_weightedShuffleFrom)

lemma set_weightedShuffle [simp]: "set (weightedShuffleAttempts n draws pool) = set pool"
  by (metis mset_weightedShuffle set_mset_mset)

definition prefix_weight :: "RouteAttempt list \<Rightarrow> nat \<Rightarrow> real" where
  "prefix_weight pool k = sum_list (map positive_weight (take k pool))"

lemma total_weight_sum: "total_weight pool = prefix_weight pool (length pool)"
proof -
  have "fold (\<lambda>item t. if ra_Contribution item > 0 then t + ra_Contribution item else t) pool t
      = t + sum_list (map positive_weight pool)" for t
    by (induction pool arbitrary: t) (auto simp: positive_weight_def)
  then show ?thesis by (simp add: total_weight_def prefix_weight_def)
qed

lemma positive_weight_nonneg: "0 \<le> positive_weight a"
  by (simp add: positive_weight_def)

lemma scan_pick_interval:
  assumes "pick \<le> acc + sum_list (map positive_weight pool)" and "pool \<noteq> []"
  shows "\<exists>k < length pool. scan_pick pick acc i pool = i + k
     \<and> (k = 0 \<or> acc + prefix_weight pool k < pick) \<and> pick \<le> acc + prefix_weight pool (Suc k)"
  using assms
proof (induction pool arbitrary: acc i)
  case (Cons a pool)
  show ?case
  proof (cases "pick \<le> acc + positive_weight a")
    case True
    then show ?thesis by (intro exI [of _ 0]) (simp add: prefix_weight_def Let_def)
  next
    case False
    with Cons.prems have "pool \<noteq> []" "pick \<le> (acc + positive_weight a) + sum_list (map positive_weight pool)" by auto
    from Cons.IH [OF this(2,1), of "Suc i"] obtain k where
      "k < length pool" "scan_pick pick (acc + positive_weight a) (Suc i) pool = Suc i + k"
      "k = 0 \<or> acc + positive_weight a + prefix_weight pool k < pick"
      "pick \<le> acc + positive_weight a + prefix_weight pool (Suc k)" by blast
    then show ?thesis using False
      by (intro exI [of _ "Suc k"]) (auto simp: prefix_weight_def Let_def add.assoc)
  qed
qed simp

text \<open>
  C19: inside a priority group the order is weighted random without replacement. The shuffle permutes
  the attempts, and one pick with the draw u in [0, 1) takes the attempt whose interval of the
  cumulated contributions holds u times the total, so that an attempt of contribution c is taken
  on a set of draws of length c / total; every index is in range.
\<close>

theorem weighted_shuffle_correct:
  "mset (weightedShuffleAttempts n draws pool) = mset pool
   \<and> (pool \<noteq> [] \<and> 0 < total_weight pool \<and> 0 \<le> dr_float r \<and> dr_float r < 1 \<longrightarrow>
        (let i = select_index r pool; x = dr_float r * total_weight pool in
           i < length pool \<and> (i = 0 \<or> prefix_weight pool i < x) \<and> x \<le> prefix_weight pool (Suc i)
           \<and> prefix_weight pool (Suc i) - prefix_weight pool i = positive_weight (pool ! i)
           \<and> (0 < i \<longrightarrow> 0 < ra_Contribution (pool ! i))))"
proof -
  have "let i = select_index r pool; x = dr_float r * total_weight pool in
           i < length pool \<and> (i = 0 \<or> prefix_weight pool i < x) \<and> x \<le> prefix_weight pool (Suc i)
           \<and> prefix_weight pool (Suc i) - prefix_weight pool i = positive_weight (pool ! i)
           \<and> (0 < i \<longrightarrow> 0 < ra_Contribution (pool ! i))"
    if h: "pool \<noteq> []" "0 < total_weight pool" "0 \<le> dr_float r" "dr_float r < 1"
  proof -
    define x where "x = dr_float r * total_weight pool"
    have "x \<le> total_weight pool" using h mult_right_mono [of "dr_float r" 1 "total_weight pool"] by (simp add: x_def)
    then have "x \<le> 0 + sum_list (map positive_weight pool)" by (simp add: total_weight_sum prefix_weight_def)
    from scan_pick_interval [OF this h(1), of 0] obtain k where
      k: "k < length pool" "scan_pick x 0 0 pool = k" "k = 0 \<or> prefix_weight pool k < x" "x \<le> prefix_weight pool (Suc k)"
      by auto
    have d: "prefix_weight pool (Suc k) - prefix_weight pool k = positive_weight (pool ! k)"
      using k(1) by (simp add: prefix_weight_def take_Suc_conv_app_nth)
    have "0 < k \<longrightarrow> 0 < ra_Contribution (pool ! k)"
      using k(3,4) d by (auto simp: positive_weight_def split: if_splits)
    then show ?thesis using k d h(2) by (simp add: select_index_def x_def [symmetric] Let_def)
  qed
  then show ?thesis by simp
qed

definition sample_attempt :: "int \<Rightarrow> real \<Rightarrow> RouteAttempt" where
  "sample_attempt i c = \<lparr>ra_Route = sample_route i ''glm-4'' 0, ra_Token = sample_token, ra_Provider = sample_provider,
     ra_Contribution = c, ra_ValueScore = 1, ra_ProviderBalance = 0, ra_RecentUsageCostUSD = 0\<rparr>"

theorem weighted_shuffle_correct_witness:
  "select_index \<lparr>dr_float = 1/2, dr_int = 0\<rparr> [sample_attempt 1 1, sample_attempt 2 3] < 2
   \<and> select_index \<lparr>dr_float = 1/2, dr_int = 0\<rparr> [sample_attempt 1 1, sample_attempt 2 3] = 1"
proof -
  have "0 < total_weight [sample_attempt 1 1, sample_attempt 2 3]" by (simp add: total_weight_def sample_attempt_def)
  moreover have "select_index \<lparr>dr_float = 1/2, dr_int = 0\<rparr> [sample_attempt 1 1, sample_attempt 2 3] = 1"
    by (simp add: select_index_def total_weight_def sample_attempt_def positive_weight_def)
  ultimately show ?thesis
    using weighted_shuffle_correct [of 0 "\<lambda>_. \<lparr>dr_float = 1/2, dr_int = 0\<rparr>" "[sample_attempt 1 1, sample_attempt 2 3]" "\<lparr>dr_float = 1/2, dr_int = 0\<rparr>"]
    by simp
qed

subsection \<open>The groups of the plan\<close>

lemma plan_groups_from:
  "g \<in> set (plan_groups draws n f ps) \<Longrightarrow> g \<noteq> [] \<and> (\<exists>p \<in> set ps. mset g = mset (f p))"
proof (induction ps arbitrary: n)
  case (Cons p ps)
  have "f p \<noteq> [] \<Longrightarrow> weightedShuffleAttempts n draws (f p) \<noteq> []"
    by (metis mset_weightedShuffle mset_zero_iff)
  with Cons show ?case by (force simp: Let_def split: if_splits)
qed simp

lemma plan_groups_onto:
  "p \<in> set ps \<Longrightarrow> f p \<noteq> [] \<Longrightarrow> \<exists>g \<in> set (plan_groups draws n f ps). mset g = mset (f p)"
proof (induction ps arbitrary: n)
  case (Cons q ps)
  show ?case
  proof (cases "q = p")
    case True
    with Cons.prems show ?thesis by (simp add: Let_def)
  next
    case False
    with Cons.prems have "p \<in> set ps" by simp
    from Cons.IH [OF this Cons.prems(2)] show ?thesis by (auto simp: Let_def)
  qed
qed simp

lemma mset_plan_groups: "mset (concat (plan_groups draws n f ps)) = mset (concat (map f ps))"
  by (induction ps arbitrary: n) (simp_all add: Let_def)

lemma plan_groups_sorted:
  assumes "sorted_wrt (>) ps" and "\<And>p a. p \<in> set ps \<Longrightarrow> a \<in> set (f p) \<Longrightarrow> prio a = (p :: int)"
  shows "sorted_wrt (\<lambda>g h. \<forall>a \<in> set g. \<forall>b \<in> set h. prio b < prio a) (plan_groups draws n f ps)"
  using assms
proof (induction ps arbitrary: n)
  case (Cons p ps)
  have below: "prio b < p" if "g \<in> set (plan_groups draws m f ps)" "b \<in> set g" for g b m
  proof -
    have b: "b \<in> set g" by (rule that(2))
    have "\<exists>q \<in> set ps. mset g = mset (f q)" using plan_groups_from [OF that(1)] by blast
    then obtain q where q: "q \<in> set ps" "mset g = mset (f q)" by blast
    then have "b \<in> set (f q)" using b by (metis mset_eq_setD)
    then show ?thesis using Cons.prems q(1) by auto
  qed
  have IH: "sorted_wrt (\<lambda>g h. \<forall>a \<in> set g. \<forall>b \<in> set h. prio b < prio a) (plan_groups draws m f ps)" for m
    using Cons.IH Cons.prems by simp
  have "prio a = p" if "a \<in> set (f p)" for a using Cons.prems(2) that by simp
  then show ?case using below IH by (simp add: Let_def)
qed simp

lemma routes_by_priority_filter:
  "mget_default [] (routes_by_priority rs) p = filter (\<lambda>r. mr_Priority r = p) rs"
proof -
  have "mget_default [] (fold (\<lambda>route. mappend (mr_Priority route) route) rs m) p
      = mget_default [] m p @ filter (\<lambda>r. mr_Priority r = p) rs" for m
    by (induction rs arbitrary: m) auto
  then show ?thesis by (simp add: routes_by_priority_def)
qed

lemma priorities_sorted: "sorted_wrt (>) (rev (sort (first_seen (ps :: int list))))"
proof -
  have "sorted_wrt (<) (sort (first_seen ps))"
    by (simp add: strict_sorted_iff)
  then show ?thesis by (simp add: sorted_wrt_rev)
qed

text \<open>When a route may be tried, in terms of the loaded tables.\<close>

definition route_usable ::
  "location \<Rightarrow> gotime \<Rightarrow> (int, Provider) gomap \<Rightarrow> (int, ProviderToken) gomap \<Rightarrow> (int, routeRuntimeMetrics) gomap \<Rightarrow> ModelRoute \<Rightarrow> bool" where
  "route_usable loc now ps ts ms r \<longleftrightarrow>
     (\<exists>p t. mget ps (mr_ProviderId r) = Some p \<and> mget ts (mr_ProviderTokenId r) = Some t
        \<and> CanParticipateInRouting t \<and> IsRouteEligibleAt loc now p
        \<and> rm_SuppressedUntil (mget_default zeroMetrics ms (mr_Id r)) \<le> Unix now)"

lemma usable_attempt_Some:
  "usable_attempt loc now ps ts ms r = Some a \<Longrightarrow>
     ra_Route a = r \<and> mget ps (mr_ProviderId r) = Some (ra_Provider a) \<and> mget ts (mr_ProviderTokenId r) = Some (ra_Token a)
     \<and> CanParticipateInRouting (ra_Token a) \<and> IsRouteEligibleAt loc now (ra_Provider a)
     \<and> ra_ValueScore a = rm_ValueScore (mget_default zeroMetrics ms (mr_Id r))
     \<and> rm_SuppressedUntil (mget_default zeroMetrics ms (mr_Id r)) \<le> Unix now"
  by (auto simp: usable_attempt_def Let_def split: option.splits if_splits)

lemma usable_attempt_iff: "usable_attempt loc now ps ts ms r \<noteq> None \<longleftrightarrow> route_usable loc now ps ts ms r"
  by (auto simp: usable_attempt_def route_usable_def Let_def CanParticipateInRouting_def IsRouteEligibleAt_def
      UserStatusEnabled_def split: option.splits if_splits)

lemma map_filter_usable:
  "map ra_Route (List.map_filter (usable_attempt loc now ps ts ms) rs) = filter (route_usable loc now ps ts ms) rs"
proof (induction rs)
  case (Cons r rs)
  then show ?case
    using usable_attempt_iff [of loc now ps ts ms r]
    by (cases "usable_attempt loc now ps ts ms r") (auto simp: List.map_filter_simps dest: usable_attempt_Some)
qed (simp add: List.map_filter_simps)

lemma group_attempts_routes:
  "map ra_Route (group_attempts loc now config ps ts ms rs) = filter (route_usable loc now ps ts ms) rs"
  by (simp add: group_attempts_def Let_def comp_def map_filter_usable)

lemma group_attempts_in:
  assumes "a \<in> set (group_attempts loc now config ps ts ms rs)"
  shows "ra_Route a \<in> set rs \<and> mget ps (mr_ProviderId (ra_Route a)) = Some (ra_Provider a)
     \<and> mget ts (mr_ProviderTokenId (ra_Route a)) = Some (ra_Token a)
     \<and> CanParticipateInRouting (ra_Token a) \<and> IsRouteEligibleAt loc now (ra_Provider a)
     \<and> rm_SuppressedUntil (mget_default zeroMetrics ms (mr_Id (ra_Route a))) \<le> Unix now"
proof -
  obtain b where b: "b \<in> set (List.map_filter (usable_attempt loc now ps ts ms) rs)"
    "ra_Route a = ra_Route b" "ra_Token a = ra_Token b" "ra_Provider a = ra_Provider b"
    using assms by (auto simp: group_attempts_def Let_def)
  then obtain r where r: "r \<in> set rs" "usable_attempt loc now ps ts ms r = Some b"
    by (auto simp: List.map_filter_def)
  show ?thesis using usable_attempt_Some [OF r(2)] b r(1) by simp
qed

subsection \<open>The loaded rows\<close>

definition ids_match :: "('a \<Rightarrow> int) \<Rightarrow> (int, 'a) gomap \<Rightarrow> bool" where
  \<comment> \<open>every row is stored under its own identifier\<close>
  "ids_match f m \<longleftrightarrow> (\<forall>i x. mget m i = Some x \<longrightarrow> f x = i)"

lemma ids_matchD: "ids_match f m \<Longrightarrow> mget m i = Some x \<Longrightarrow> f x = i"
  unfolding ids_match_def by blast

lemma ids_match_Nil [simp]: "ids_match f []"
  by (simp add: ids_match_def)

lemma ids_match_mput: "ids_match f m \<Longrightarrow> f x = i \<Longrightarrow> ids_match f (mput i x m)"
  unfolding ids_match_def by simp

lemma ids_match_fold: "ids_match f m \<Longrightarrow> ids_match f (fold (\<lambda>x. mput (f x) x) xs m)"
  by (induction xs arbitrary: m) (simp_all add: ids_match_mput)

lemma ids_match_lookup:
  "ids_match f src \<Longrightarrow> ids_match f m \<Longrightarrow>
   ids_match f (fold (\<lambda>i m. case mget src i of Some p \<Rightarrow> mput i p m | None \<Rightarrow> m) is m)"
proof (induction "is" arbitrary: m)
  case (Cons i "is")
  have "ids_match f (case mget src i of Some p \<Rightarrow> mput i p m | None \<Rightarrow> m)"
  proof (cases "mget src i")
    case (Some p)
    then show ?thesis using Cons.prems ids_matchD [OF Cons.prems(1) Some] by (simp add: ids_match_mput)
  qed (use Cons.prems in simp)
  then show ?case using Cons.IH [OF Cons.prems(1)] by simp
qed simp

definition snapshot_rows_ok :: "routingStaticSnapshot \<Rightarrow> bool" where
  "snapshot_rows_ok s \<longleftrightarrow> ids_match p_Id (ss_providersByID s) \<and> ids_match pt_Id (ss_tokensByID s)
     \<and> (\<forall>r \<in> set (ss_enabledRoutes s). mr_Enabled r)"

lemma fold_provider_rows:
  "ids_match p_Id (ss_providersByID s) \<Longrightarrow> ids_match p_Id (ss_providersByID (fold provider_step ps s))"
  by (induction ps arbitrary: s) (simp_all add: provider_step_def Let_def ids_match_mput)

lemma snapshot_rows_ok_build: "snapshot_rows_ok (buildRoutingStaticSnapshot d)"
proof (cases "sort_by route_before (filter mr_Enabled (db_routes d)) = []")
  case True
  then show ?thesis
    by (simp add: buildRoutingStaticSnapshot_def snapshot_rows_ok_def emptySnapshot_def Let_def)
next
  case False
  have "ids_match p_Id (ss_providersByID (emptySnapshot\<lparr>ss_enabledRoutes := rs\<rparr>))" for rs
    by (simp add: emptySnapshot_def)
  then show ?thesis
    unfolding buildRoutingStaticSnapshot_def snapshot_rows_ok_def Let_def
    using False by (simp add: fold_provider_step fold_provider_rows ids_match_fold)
qed

lemma loadProvidersByIDs_id:
  assumes "\<forall>s. snapshot = Some s \<longrightarrow> snapshot_rows_ok s"
  shows "ids_match p_Id (loadProvidersByIDs snapshot is d)"
  using assms
  by (cases snapshot) (simp_all add: loadProvidersByIDs_def Let_def ids_match_fold ids_match_lookup snapshot_rows_ok_def)

lemma loadProviderTokensByIDs_id:
  assumes "\<forall>s. snapshot = Some s \<longrightarrow> snapshot_rows_ok s"
  shows "ids_match pt_Id (loadProviderTokensByIDs snapshot is d)"
  using assms
  by (cases snapshot) (simp_all add: loadProviderTokensByIDs_def Let_def ids_match_fold ids_match_lookup snapshot_rows_ok_def)

subsection \<open>Correctness of the plan\<close>

text \<open>The cached snapshot, if any, was built from some state of the tables.\<close>

definition caches_ok :: "routingCaches \<Rightarrow> bool" where
  "caches_ok c \<longleftrightarrow> (\<forall>s. sc_snapshot (cc_static c) = Some s \<longrightarrow> snapshot_ok s \<and> snapshot_rows_ok s)"

definition attempt_ok :: "location \<Rightarrow> gotime \<Rightarrow> RouteAttempt \<Rightarrow> bool" where
  "attempt_ok loc now a \<longleftrightarrow> mr_Enabled (ra_Route a)
     \<and> p_Id (ra_Provider a) = mr_ProviderId (ra_Route a) \<and> pt_Id (ra_Token a) = mr_ProviderTokenId (ra_Route a)
     \<and> IsRouteEligibleAt loc now (ra_Provider a) \<and> pt_Status (ra_Token a) = 1 \<and> IsUsableProviderTokenKey (pt_SkKey (ra_Token a))"

definition well_ordered_plan :: "RouteAttempt list list \<Rightarrow> bool" where
  "well_ordered_plan plan \<longleftrightarrow>
     (\<forall>g \<in> set plan. g \<noteq> [] \<and> (\<forall>a \<in> set g. \<forall>b \<in> set g. mr_Priority (ra_Route a) = mr_Priority (ra_Route b)))
     \<and> sorted_wrt (\<lambda>g h. \<forall>a \<in> set g. \<forall>b \<in> set h. mr_Priority (ra_Route b) < mr_Priority (ra_Route a)) plan"

lemma plan_from_candidates_expand:
  obtains ps ts ms f prios where
    "ps = loadProvidersByIDs snapshot (first_seen (map mr_ProviderId cands)) d"
    "ts = loadProviderTokensByIDs snapshot (first_seen (map mr_ProviderTokenId cands)) d"
    "f = (\<lambda>p. group_attempts loc now (loadRoutingTuningConfig options) ps ts ms (filter (\<lambda>r. mr_Priority r = p) cands))"
    "prios = rev (sort (first_seen (map mr_Priority cands)))"
    "fst (plan_from_candidates loc options now draws snapshot d cands caches) = plan_groups draws 0 f prios"
proof -
  obtain ms c' where "buildRouteRuntimeMetrics now snapshot cands (loadProvidersByIDs snapshot (first_seen (map mr_ProviderId cands)) d)
     (loadProviderTokensByIDs snapshot (first_seen (map mr_ProviderTokenId cands)) d) (first_seen (map mr_ModelName cands))
     (loadRoutingTuningConfig options) d caches = (ms, c')" by (meson surj_pair)
  then show thesis
    by (intro that [OF refl refl refl refl]) (simp add: plan_from_candidates_def Let_def routes_by_priority_filter)
qed

lemma distinct_concat_filter:
  "distinct ps \<Longrightarrow> distinct (map h xs) \<Longrightarrow>
   distinct (map h (concat (map (\<lambda>p. filter Q (filter (\<lambda>r. k r = p) xs)) ps)))"
proof (induction ps)
  case (Cons p ps)
  have "distinct (map h (filter Q (filter (\<lambda>r. k r = p) xs)))"
    using Cons.prems(2) by (simp add: distinct_map_filter)
  moreover have "inj_on h (set xs)" using Cons.prems(2) by (simp add: distinct_map)
  ultimately show ?case using Cons by (auto simp: inj_on_def)
qed simp

lemma plan_from_candidates_props:
  assumes c: "distinct (map mr_Id cands)" and e: "\<forall>r \<in> set cands. mr_Enabled r"
    and s: "\<forall>s. snapshot = Some s \<longrightarrow> snapshot_rows_ok s"
    and plan_def: "plan = fst (plan_from_candidates loc options now draws snapshot d cands caches)"
  shows "well_ordered_plan plan" and "\<forall>a \<in> set (concat plan). attempt_ok loc now a \<and> ra_Route a \<in> set cands"
    and "distinct (map (mr_Id \<circ> ra_Route) (concat plan))"
proof -
  obtain ps ts ms f prios where
    ps: "ps = loadProvidersByIDs snapshot (first_seen (map mr_ProviderId cands)) d" and
    ts: "ts = loadProviderTokensByIDs snapshot (first_seen (map mr_ProviderTokenId cands)) d" and
    f: "f = (\<lambda>p. group_attempts loc now (loadRoutingTuningConfig options) ps ts ms (filter (\<lambda>r. mr_Priority r = p) cands))" and
    prios: "prios = rev (sort (first_seen (map mr_Priority cands)))" and
    plan: "plan = plan_groups draws 0 f prios"
    unfolding plan_def by (rule plan_from_candidates_expand)
  note inf = group_attempts_in [where loc = loc and now = now and config = "loadRoutingTuningConfig options" and ps = ps and ts = ts and ms = ms]
  have prio: "mr_Priority (ra_Route a) = p" if "a \<in> set (f p)" for a p
    using that inf [of a "filter (\<lambda>r. mr_Priority r = p) cands"] by (simp add: f)
  have grp: "g \<noteq> [] \<and> (\<exists>p. set g = set (f p))" if "g \<in> set plan" for g
    using plan_groups_from [of g draws 0 f prios] that plan by (metis mset_eq_setD)
  have so: "sorted_wrt (>) prios" unfolding prios by (rule priorities_sorted)
  have "sorted_wrt (\<lambda>g h. \<forall>a \<in> set g. \<forall>b \<in> set h. mr_Priority (ra_Route b) < mr_Priority (ra_Route a)) plan"
    unfolding plan by (rule plan_groups_sorted [OF so]) (rule prio)
  then show "well_ordered_plan plan"
    unfolding well_ordered_plan_def using grp prio by metis
  show "\<forall>a \<in> set (concat plan). attempt_ok loc now a \<and> ra_Route a \<in> set cands"
  proof
    fix a assume "a \<in> set (concat plan)"
    then obtain p where "a \<in> set (f p)" using grp by auto
    then have "a \<in> set (group_attempts loc now (loadRoutingTuningConfig options) ps ts ms (filter (\<lambda>r. mr_Priority r = p) cands))"
      by (simp only: f)
    from inf [OF this] have a: "ra_Route a \<in> set cands"
      "mget ps (mr_ProviderId (ra_Route a)) = Some (ra_Provider a)"
      "mget ts (mr_ProviderTokenId (ra_Route a)) = Some (ra_Token a)"
      "CanParticipateInRouting (ra_Token a)" "IsRouteEligibleAt loc now (ra_Provider a)"
      by simp_all
    moreover have "p_Id (ra_Provider a) = mr_ProviderId (ra_Route a)"
      using ids_matchD [OF loadProvidersByIDs_id [OF s]] a(2) by (simp add: ps)
    moreover have "pt_Id (ra_Token a) = mr_ProviderTokenId (ra_Route a)"
      using ids_matchD [OF loadProviderTokensByIDs_id [OF s]] a(3) by (simp add: ts)
    ultimately show "attempt_ok loc now a \<and> ra_Route a \<in> set cands"
      using e by (simp add: attempt_ok_def CanParticipateInRouting_def IsKeyReady_usable)
  qed
  have "mset (map (mr_Id \<circ> ra_Route) (concat plan)) = mset (map mr_Id (concat (map (\<lambda>p. filter (route_usable loc now ps ts ms) (filter (\<lambda>r. mr_Priority r = p) cands)) prios)))"
  proof -
    have "mset (map (mr_Id \<circ> ra_Route) (concat plan)) = image_mset (mr_Id \<circ> ra_Route) (mset (concat (map f prios)))"
      unfolding plan mset_map mset_plan_groups ..
    also have "\<dots> = mset (map mr_Id (map ra_Route (concat (map f prios))))" by (simp add: multiset.map_comp)
    also have "map ra_Route (concat (map f prios)) = concat (map (\<lambda>p. filter (route_usable loc now ps ts ms) (filter (\<lambda>r. mr_Priority r = p) cands)) prios)"
      by (simp add: map_concat comp_def f group_attempts_routes del: filter_filter)
    finally show ?thesis .
  qed
  moreover have "distinct prios" by (simp add: prios)
  ultimately show "distinct (map (mr_Id \<circ> ra_Route) (concat plan))"
    using distinct_concat_filter [OF _ c] mset_eq_imp_distinct_iff by blast
qed

lemma snapshot_in_force:
  assumes "caches_ok caches" and "distinct (map mr_Id (db_routes d))"
    and "getRoutingStaticSnapshot now (Some (buildRoutingStaticSnapshot d)) (cc_static caches) = (Some s, st')"
  shows "snapshot_ok s \<and> snapshot_rows_ok s"
  using assms snapshot_ok_build [OF assms(2)] snapshot_rows_ok_build [of d]
  by (auto simp: getRoutingStaticSnapshot_def caches_ok_def split: option.splits if_splits)

lemma BuildRouteAttempts_Inr:
  assumes "BuildRouteAttemptsByPriority loc options now draws d name caches = (Inr plan, caches')"
  obtains s st' where
    "TrimSpace name \<noteq> []"
    "getRoutingStaticSnapshot now (Some (buildRoutingStaticSnapshot d)) (cc_static caches) = (Some s, st')"
    "plan = fst (plan_from_candidates loc options now draws (Some s) d (getCandidateRoutesByModelCached s (TrimSpace name)) (caches\<lparr>cc_static := st'\<rparr>))"
    "plan \<noteq> []"
  using assms
  by (auto simp: BuildRouteAttemptsByPriority_def Let_def split: if_splits prod.splits option.splits)

lemma mset_concat_groups:
  "distinct ps \<Longrightarrow> (\<And>x. x \<in> set xs \<Longrightarrow> k x \<in> set ps) \<Longrightarrow>
   mset (concat (map (\<lambda>p. filter (\<lambda>r. k r = p) xs) ps)) = mset xs"
proof (induction ps arbitrary: xs)
  case (Cons p ps)
  have a: "map (\<lambda>q. filter (\<lambda>r. k r = q) xs) ps = map (\<lambda>q. filter (\<lambda>r. k r = q) (filter (\<lambda>r. k r \<noteq> p) xs)) ps"
    using Cons.prems(1) by (auto intro!: filter_cong)
  have b: "mset (concat (map (\<lambda>q. filter (\<lambda>r. k r = q) (filter (\<lambda>r. k r \<noteq> p) xs)) ps)) = mset (filter (\<lambda>r. k r \<noteq> p) xs)"
    by (rule Cons.IH) (use Cons.prems in auto)
  have "mset (concat (map (\<lambda>q. filter (\<lambda>r. k r = q) xs) (p # ps)))
      = mset (filter (\<lambda>r. k r = p) xs) + mset (filter (\<lambda>r. k r \<noteq> p) xs)"
    using b unfolding a [symmetric] by (simp del: filter_filter)
  also have "\<dots> = mset xs" by (induction xs) simp_all
  finally show ?case .
next
  case Nil
  have "x \<notin> set xs" for x using Nil(2) [of x] by auto
  then have "xs = []" by (cases xs) auto
  then show ?case by simp
qed

lemma plan_routes:
  "\<exists>ms. ms = fst (buildRouteRuntimeMetrics now snapshot cands (loadProvidersByIDs snapshot (first_seen (map mr_ProviderId cands)) d)
          (loadProviderTokensByIDs snapshot (first_seen (map mr_ProviderTokenId cands)) d) (first_seen (map mr_ModelName cands))
          (loadRoutingTuningConfig options) d caches)
     \<and> mset (map ra_Route (concat (fst (plan_from_candidates loc options now draws snapshot d cands caches))))
       = mset (filter (route_usable loc now (loadProvidersByIDs snapshot (first_seen (map mr_ProviderId cands)) d)
            (loadProviderTokensByIDs snapshot (first_seen (map mr_ProviderTokenId cands)) d) ms) cands)"
proof -
  define ps where "ps = loadProvidersByIDs snapshot (first_seen (map mr_ProviderId cands)) d"
  define ts where "ts = loadProviderTokensByIDs snapshot (first_seen (map mr_ProviderTokenId cands)) d"
  obtain ms c' where ms: "buildRouteRuntimeMetrics now snapshot cands ps ts (first_seen (map mr_ModelName cands))
     (loadRoutingTuningConfig options) d caches = (ms, c')" by (meson surj_pair)
  define prios where "prios = rev (sort (first_seen (map mr_Priority cands)))"
  define f where "f = (\<lambda>p. group_attempts loc now (loadRoutingTuningConfig options) ps ts ms (filter (\<lambda>r. mr_Priority r = p) cands))"
  have plan: "fst (plan_from_candidates loc options now draws snapshot d cands caches) = plan_groups draws 0 f prios"
    by (simp add: plan_from_candidates_def Let_def routes_by_priority_filter ms prios_def f_def
        flip: ps_def ts_def)
  have "mset (map ra_Route (concat (plan_groups draws 0 f prios))) = mset (map ra_Route (concat (map f prios)))"
    by (simp only: mset_map mset_plan_groups)
  also have "map ra_Route (concat (map f prios)) = concat (map (\<lambda>p. filter (\<lambda>r. mr_Priority r = p) (filter (route_usable loc now ps ts ms) cands)) prios)"
    by (simp add: map_concat comp_def f_def group_attempts_routes conj_commute)
  also have "mset \<dots> = mset (filter (route_usable loc now ps ts ms) cands)"
    by (rule mset_concat_groups) (auto simp: prios_def)
  finally show ?thesis using ms plan by (simp add: ps_def ts_def)
qed

lemma metrics_unsuppressed:
  assumes "\<not> rc_InvalidResponseSuppressionEnabled config"
  shows "rm_SuppressedUntil (mget_default zeroMetrics (fst (buildRouteRuntimeMetrics now snapshot rs ps ts names config d caches)) i) = 0"
proof -
  have "rm_SuppressedUntil (mget_default zeroMetrics (fold (\<lambda>route m. case mget ps (mr_ProviderId route) of
         None \<Rightarrow> m
       | Some provider \<Rightarrow> mput (mr_Id route) (metric_of ps ts pl ul hl [] config provider route) m) rs m) i) = 0"
    if "\<forall>i. rm_SuppressedUntil (mget_default zeroMetrics m i) = 0" for m pl ul hl
    using that
  proof (induction rs arbitrary: m)
    case (Cons r rs)
    then show ?case by (simp add: metric_of_def Let_def mget_default_def split: option.splits)
  qed simp
  from this [of "[]"] show ?thesis using assms
    by (simp add: buildRouteRuntimeMetrics_def Let_def loadRouteInvalidResponseSuppressionByTokenModel_def
        zeroMetrics_def mget_default_def split: prod.splits)
qed

text \<open>
  C1: a plan for a model tries every route at most once, in groups of equal priority whose priorities
  strictly descend; every attempt uses an enabled candidate of the model with its own provider and
  token, an eligible provider and an enabled token with a usable key.
\<close>

theorem plan_correct:
  assumes "BuildRouteAttemptsByPriority loc options now draws d name caches = (Inr plan, caches')"
    and "distinct (map mr_Id (db_routes d))" and "caches_ok caches"
  shows "plan \<noteq> [] \<and> well_ordered_plan plan \<and> (\<forall>a \<in> set (concat plan). attempt_ok loc now a)
    \<and> distinct (map (mr_Id \<circ> ra_Route) (concat plan))"
proof -
  obtain s st' where s: "TrimSpace name \<noteq> []"
    "getRoutingStaticSnapshot now (Some (buildRoutingStaticSnapshot d)) (cc_static caches) = (Some s, st')"
    "plan = fst (plan_from_candidates loc options now draws (Some s) d (getCandidateRoutesByModelCached s (TrimSpace name)) (caches\<lparr>cc_static := st'\<rparr>))"
    "plan \<noteq> []"
    by (rule BuildRouteAttempts_Inr [OF assms(1)])
  have ok: "snapshot_ok s" "snapshot_rows_ok s" using snapshot_in_force [OF assms(3,2) s(2)] by simp_all
  have c: "set (getCandidateRoutesByModelCached s (TrimSpace name)) \<subseteq> set (ss_enabledRoutes s)"
    "distinct (map mr_Id (getCandidateRoutesByModelCached s (TrimSpace name)))"
    using candidates_set [OF ok(1), of "TrimSpace name"] s(1) by auto
  then have "\<forall>r \<in> set (getCandidateRoutesByModelCached s (TrimSpace name)). mr_Enabled r"
    using ok(2) by (auto simp: snapshot_rows_ok_def)
  from plan_from_candidates_props [OF c(2) this _ s(3)]
  show ?thesis using s(4) ok(2) by simp
qed

definition small_db :: db where
  "small_db = sample_db\<lparr>db_routes := [sample_route 1 ''m'' 0]\<rparr>"

definition no_caches :: routingCaches where
  "no_caches = \<lparr>cc_static = \<lparr>sc_snapshot = None, sc_expiresAt = 0\<rparr>, cc_usage = [], cc_health = []\<rparr>"

lemma small_db_plan:
  obtains plan c where "BuildRouteAttemptsByPriority (FixedZone 28800) [] (UnixTime 1720000000) draws small_db ''M'' no_caches = (Inr plan, c)"
proof -
  define s where "s = buildRoutingStaticSnapshot small_db"
  define c1 where "c1 = no_caches\<lparr>cc_static := \<lparr>sc_snapshot = Some s, sc_expiresAt = UnixTime 1720000000 + routingStaticSnapshotTTL\<rparr>\<rparr>"
  let ?r = "sample_route 1 ''m'' 0"
  have cands: "getCandidateRoutesByModelCached s ''M'' = [?r]" unfolding s_def by code_simp
  have ids: "first_seen (map mr_ProviderId [?r]) = [7]" "first_seen (map mr_ProviderTokenId [?r]) = [3]" by code_simp+
  have p: "mget (loadProvidersByIDs (Some s) [7] small_db) 7 = Some sample_provider" unfolding s_def by code_simp
  have t: "mget (loadProviderTokensByIDs (Some s) [3] small_db) 3 = Some (sample_token\<lparr>pt_Id := 3\<rparr>)" unfolding s_def by code_simp
  have e: "IsRouteEligibleAt (FixedZone 28800) (UnixTime 1720000000) sample_provider" by code_simp
  have u: "CanParticipateInRouting (sample_token\<lparr>pt_Id := 3\<rparr>)" by code_simp
  have n: "\<not> rc_InvalidResponseSuppressionEnabled (loadRoutingTuningConfig [])" by code_simp
  have m: "0 \<le> Unix (UnixTime 1720000000)" by code_simp
  obtain ms where ms: "\<forall>i. rm_SuppressedUntil (mget_default zeroMetrics ms i) = 0"
    "mset (map ra_Route (concat (fst (plan_from_candidates (FixedZone 28800) [] (UnixTime 1720000000) draws (Some s) small_db [?r] c1))))
      = mset (filter (route_usable (FixedZone 28800) (UnixTime 1720000000) (loadProvidersByIDs (Some s) [7] small_db)
          (loadProviderTokensByIDs (Some s) [3] small_db) ms) [?r])"
    using plan_routes [of "UnixTime 1720000000" "Some s" "[?r]" small_db "[]" c1 "FixedZone 28800" draws] metrics_unsuppressed [OF n]
    unfolding ids by metis
  have "route_usable (FixedZone 28800) (UnixTime 1720000000) (loadProvidersByIDs (Some s) [7] small_db)
          (loadProviderTokensByIDs (Some s) [3] small_db) ms ?r"
    using p t e u ms(1) m by (auto simp: route_usable_def sample_route_def)
  then have ne: "fst (plan_from_candidates (FixedZone 28800) [] (UnixTime 1720000000) draws (Some s) small_db [?r] c1) \<noteq> []"
    using ms(2) by auto
  have trim: "TrimSpace ''M'' = ''M''" by code_simp
  show thesis using that ne
    by (cases "plan_from_candidates (FixedZone 28800) [] (UnixTime 1720000000) draws (Some s) small_db [?r] c1")
      (auto simp: BuildRouteAttemptsByPriority_def trim getRoutingStaticSnapshot_def no_caches_def c1_def s_def [symmetric] cands)
qed

theorem plan_correct_witness:
  "\<exists>plan c. BuildRouteAttemptsByPriority (FixedZone 28800) [] (UnixTime 1720000000) (\<lambda>_. \<lparr>dr_float = 1/2, dr_int = 0\<rparr>) small_db ''M''
     no_caches = (Inr plan, c) \<and> plan \<noteq> [] \<and> well_ordered_plan plan"
proof -
  obtain plan c where r: "BuildRouteAttemptsByPriority (FixedZone 28800) [] (UnixTime 1720000000) (\<lambda>_. \<lparr>dr_float = 1/2, dr_int = 0\<rparr>) small_db ''M''
     no_caches = (Inr plan, c)" by (rule small_db_plan)
  moreover have "distinct (map mr_Id (db_routes small_db))" by code_simp
  moreover have "caches_ok no_caches" by (simp add: caches_ok_def no_caches_def)
  ultimately show ?thesis using plan_correct [OF r] by blast
qed

text \<open>
  C2: the plan loses no usable route: flattened, it holds exactly the candidates whose provider and
  token are loaded, eligible and enabled with a usable key and that are not suppressed, each as
  often as it is a candidate. So the code answers that there is no route only when none is usable.
\<close>

theorem plan_covers_usable:
  "\<exists>ms. ms = fst (buildRouteRuntimeMetrics now snapshot cands (loadProvidersByIDs snapshot (first_seen (map mr_ProviderId cands)) d)
          (loadProviderTokensByIDs snapshot (first_seen (map mr_ProviderTokenId cands)) d) (first_seen (map mr_ModelName cands))
          (loadRoutingTuningConfig options) d caches)
     \<and> mset (map ra_Route (concat (fst (plan_from_candidates loc options now draws snapshot d cands caches))))
       = mset (filter (route_usable loc now (loadProvidersByIDs snapshot (first_seen (map mr_ProviderId cands)) d)
            (loadProviderTokensByIDs snapshot (first_seen (map mr_ProviderTokenId cands)) d) ms) cands)"
  by (rule plan_routes)

lemma plan_group_nonempty:
  assumes "BuildRouteAttemptsByPriority loc options now draws d name caches = (Inr plan, caches')"
  shows "TrimSpace name \<noteq> [] \<and> plan \<noteq> [] \<and> (\<forall>g \<in> set plan. g \<noteq> [])"
proof -
  obtain s st' where s: "TrimSpace name \<noteq> []"
    "plan = fst (plan_from_candidates loc options now draws (Some s) d (getCandidateRoutesByModelCached s (TrimSpace name)) (caches\<lparr>cc_static := st'\<rparr>))"
    "plan \<noteq> []"
    by (rule BuildRouteAttempts_Inr [OF assms]) blast
  obtain f prios where "plan = plan_groups draws 0 f prios"
    unfolding s(2) by (rule plan_from_candidates_expand) blast
  then show ?thesis using s(1,3) plan_groups_from [of _ draws 0 f prios] by blast
qed

text \<open>
  \<open>SelectProviderToken\<close> answers from the plan: whatever the retry number, once there is a plan the
  answer is the token, provider and model of the first attempt of the group of that number, of the
  first group for a negative number and of the last one past the end, and never an error.
\<close>

theorem SelectProviderToken_from_plan:
  assumes "BuildRouteAttemptsByPriority loc options now draws d (TrimSpace name) caches = (Inr plan, caches')"
  shows "\<exists>i < length plan. i = min (nat retry) (length plan - 1) \<and> plan ! i \<noteq> []
    \<and> SelectProviderToken loc options now draws d name retry caches =
        (Inr (ra_Token (hd (plan ! i)), ra_Provider (hd (plan ! i)), mr_ModelName (ra_Route (hd (plan ! i)))), caches')"
proof -
  have p: "TrimSpace name \<noteq> []" "plan \<noteq> []" "\<forall>g \<in> set plan. g \<noteq> []"
    using plan_group_nonempty [OF assms] by auto
  define i where "i = min (nat retry) (length plan - 1)"
  have i: "i < length plan" using p(2) by (cases plan) (auto simp: i_def)
  then obtain a as where a: "plan ! i = a # as" using p(3) nth_mem by (metis neq_Nil_conv)
  have "retry < 0 \<Longrightarrow> i = 0" and "int (length plan) \<le> retry \<Longrightarrow> nat (int (length plan) - 1) = i"
    and "\<not> int (length plan) \<le> retry \<Longrightarrow> \<not> retry < 0 \<Longrightarrow> nat retry = i"
    by (auto simp: i_def)
  then have "SelectProviderToken loc options now draws d name retry caches = (Inr (ra_Token a, ra_Provider a, mr_ModelName (ra_Route a)), caches')"
    unfolding SelectProviderToken_def Let_def using p a assms by (cases "retry < 0") simp_all
  then show ?thesis using i a i_def by (intro exI [of _ i]) simp
qed

theorem SelectProviderToken_from_plan_witness:
  "\<exists>x c. SelectProviderToken (FixedZone 28800) [] (UnixTime 1720000000) (\<lambda>_. \<lparr>dr_float = 1/2, dr_int = 0\<rparr>) small_db ''M'' 3
     no_caches = (Inr x, c)"
proof -
  have trim: "TrimSpace ''M'' = ''M''" by code_simp
  obtain plan c where "BuildRouteAttemptsByPriority (FixedZone 28800) [] (UnixTime 1720000000) (\<lambda>_. \<lparr>dr_float = 1/2, dr_int = 0\<rparr>) small_db ''M''
     no_caches = (Inr plan, c)" by (rule small_db_plan)
  then have "BuildRouteAttemptsByPriority (FixedZone 28800) [] (UnixTime 1720000000) (\<lambda>_. \<lparr>dr_float = 1/2, dr_int = 0\<rparr>) small_db (TrimSpace ''M'')
     no_caches = (Inr plan, c)" by (simp only: trim)
  from SelectProviderToken_from_plan [OF this, of 3] show ?thesis by blast
qed

end
