(* ===== verification/ResponseValidation.thy ===== *)
theory ResponseValidation
  imports GoJson
begin

text \<open>
  Whether an upstream answer carries output, \<open>src/service/proxy.go\<close>: the check of a whole body
  (\<open>validateNonStreamResponse\<close>), the classification of one line of an event stream
  (\<open>classifySSEDataLine\<close>) and the predicates on untyped JSON both are built from. Ranging over a Go map
  visits the members in an unspecified order; here it is the order of the list, and the
  characterisation below by sets shows that the order does not matter.
\<close>

definition UsageFailureCategoryInvalidResponse :: gostring where "UsageFailureCategoryInvalidResponse = ''invalid_response''"
definition UsageFailureCategoryParseError :: gostring where "UsageFailureCategoryParseError = ''parse_error''"

subsection \<open>Decoding into an untyped map\<close>

fun numbers_ok :: "json \<Rightarrow> bool" where
  \<comment> \<open>a number too large for a \<open>float64\<close> is an error of \<open>Unmarshal\<close>\<close>
  "numbers_ok (JNum t) = (case ParseFloat t of FP_Num _ \<Rightarrow> True | _ \<Rightarrow> False)"
| "numbers_ok (JArr xs) = list_all numbers_ok xs"
| "numbers_ok (JObj m) = list_all (\<lambda>kv. numbers_ok (snd kv)) m"
| "numbers_ok _ = True"

definition json_object :: "gostring \<Rightarrow> (gostring, json) gomap option" where
  \<comment> \<open>\<open>json.Unmarshal\<close> into a \<open>map[string]interface{}\<close>; \<open>null\<close> gives the nil map, which reads like the empty one\<close>
  "json_object raw =
    (case json_parse raw of
       Some (JObj m) \<Rightarrow> if numbers_ok (JObj m) then Some m else None
     | Some JNull \<Rightarrow> Some []
     | _ \<Rightarrow> None)"

subsection \<open>Textual output\<close>

definition getStringValue :: "json option \<Rightarrow> gostring" where
  "getStringValue value = (case value of Some (JStr s) \<Rightarrow> TrimSpace s | _ \<Rightarrow> [])"

definition role_word :: "gostring \<Rightarrow> bool" where
  "role_word lower \<longleftrightarrow> lower = ''assistant'' \<or> lower = ''tool'' \<or> lower = ''system'' \<or> lower = ''user''"

definition skipped_key :: "gostring \<Rightarrow> bool" where
  "skipped_key key \<longleftrightarrow>
    (let lowerKey = ToLower (TrimSpace key) in
     lowerKey \<in> {''id'', ''object'', ''model'', ''role'', ''type'', ''finish_reason'', ''index'', ''created''} \<or> lowerKey = ''usage'')"

fun hasAnyTextualOutputDepth :: "json \<Rightarrow> nat \<Rightarrow> bool" where
  "hasAnyTextualOutputDepth (JStr value) depth =
    (if depth > 6 then False
     else let text = TrimSpace value in if text = [] then False else \<not> role_word (ToLower text))"
| "hasAnyTextualOutputDepth (JObj value) depth =
    (if depth > 6 then False
     else list_ex (\<lambda>kv. \<not> skipped_key (fst kv) \<and> hasAnyTextualOutputDepth (snd kv) (depth + 1)) value)"
| "hasAnyTextualOutputDepth (JArr value) depth =
    (if depth > 6 then False else list_ex (\<lambda>nested. hasAnyTextualOutputDepth nested (depth + 1)) value)"
| "hasAnyTextualOutputDepth _ depth = False"

definition hasAnyTextualOutput :: "json \<Rightarrow> bool" where
  "hasAnyTextualOutput node = hasAnyTextualOutputDepth node 0"

definition hasContentArrayText :: "json \<Rightarrow> bool" where
  "hasContentArrayText contentRaw =
    (case contentRaw of
       JStr content \<Rightarrow> TrimSpace content \<noteq> []
     | JArr content \<Rightarrow> list_ex hasAnyTextualOutput content
     | JObj content \<Rightarrow> hasAnyTextualOutput (JObj content)
     | _ \<Rightarrow> False)"

subsection \<open>Actionable output\<close>

definition hasNonEmptyDataArray :: "(gostring, json) gomap \<Rightarrow> bool" where
  "hasNonEmptyDataArray payload =
    (case mget payload ''data'' of
       Some (JArr data) \<Rightarrow> data \<noteq> []
     | Some (JObj data) \<Rightarrow> data \<noteq> []
     | _ \<Rightarrow> False)"

definition object_field :: "(gostring, json) gomap \<Rightarrow> gostring \<Rightarrow> (gostring, json) gomap option" where
  \<comment> \<open>\<open>m, ok := node[k].(map[string]interface{})\<close>\<close>
  "object_field node k = (case mget node k of Some (JObj m) \<Rightarrow> Some m | _ \<Rightarrow> None)"

definition choice_actionable :: "json \<Rightarrow> bool" where
  \<comment> \<open>one item of the loop of \<open>hasActionableChoices\<close>\<close>
  "choice_actionable item =
    (case item of
       JObj choice \<Rightarrow>
         if hasAnyTextualOutput (JObj choice) then True
         else if (case object_field choice ''message'' of Some m \<Rightarrow> hasAnyTextualOutput (JObj m) | None \<Rightarrow> False) then True
         else if (case object_field choice ''delta'' of Some m \<Rightarrow> hasAnyTextualOutput (JObj m) | None \<Rightarrow> False) then True
         else (case mget choice ''tool_calls'' of Some (JArr toolCalls) \<Rightarrow> toolCalls \<noteq> [] | _ \<Rightarrow> False)
     | _ \<Rightarrow> False)"

definition hasActionableChoices :: "(gostring, json) gomap \<Rightarrow> bool" where
  "hasActionableChoices payload =
    (case mget payload ''choices'' of Some (JArr choices) \<Rightarrow> list_ex choice_actionable choices | _ \<Rightarrow> False)"

definition hasActionableMessageOutput :: "(gostring, json) gomap \<Rightarrow> bool" where
  "hasActionableMessageOutput payload =
    (case object_field payload ''message'' of
       None \<Rightarrow> False
     | Some message \<Rightarrow>
         if hasAnyTextualOutput (JObj message) then True
         else (case mget message ''content'' of None \<Rightarrow> False | Some contentRaw \<Rightarrow> hasContentArrayText contentRaw))"

definition hasActionableResponsesOutput :: "(gostring, json) gomap \<Rightarrow> bool" where
  "hasActionableResponsesOutput payload =
    (if TrimSpace (getStringValue (mget payload ''output_text'')) \<noteq> [] then True
     else (case mget payload ''output'' of Some (JArr outputArr) \<Rightarrow> list_ex hasAnyTextualOutput outputArr | _ \<Rightarrow> False))"

definition isErrorEnvelopePayload :: "(gostring, json) gomap \<Rightarrow> bool" where
  "isErrorEnvelopePayload payload =
    (case mget payload ''error'' of
       None \<Rightarrow> False
     | Some JNull \<Rightarrow> False
     | Some (JObj errNode) \<Rightarrow>
         if TrimSpace (getStringValue (mget errNode ''message'')) \<noteq> [] then True
         else if TrimSpace (getStringValue (mget errNode ''type'')) \<noteq> [] then True
         else errNode \<noteq> []
     | Some (JStr errNode) \<Rightarrow> TrimSpace errNode \<noteq> []
     | Some _ \<Rightarrow> True)"

definition hasActionableNonStreamOutput :: "gostring \<Rightarrow> (gostring, json) gomap \<Rightarrow> bool" where
  "hasActionableNonStreamOutput path payload =
    (let lowerPath = ToLower (TrimSpace path) in
     if StrContains lowerPath ''/embeddings'' then hasNonEmptyDataArray payload
     else if StrContains lowerPath ''/images'' then hasNonEmptyDataArray payload
     else if StrContains lowerPath ''/audio'' then hasAnyTextualOutput (JObj payload)
     else if hasActionableChoices payload then True
     else if hasActionableMessageOutput payload then True
     else if hasActionableResponsesOutput payload then True
     else hasAnyTextualOutput (JObj payload))"

definition hasActionableStreamOutput :: "gostring \<Rightarrow> (gostring, json) gomap \<Rightarrow> bool" where
  "hasActionableStreamOutput path payload =
    (if isErrorEnvelopePayload payload then False
     else if hasActionableChoices payload \<or> hasActionableMessageOutput payload \<or> hasActionableResponsesOutput payload then True
     else
       let lowerPath = ToLower (TrimSpace path) in
       if StrContains lowerPath ''/embeddings'' then hasNonEmptyDataArray payload else hasAnyTextualOutput (JObj payload))"

subsection \<open>The two checks\<close>

record responseValidationResult =
  rv_Valid :: bool
  rv_InvalidReason :: gostring
  rv_FailureCategory :: gostring
  rv_Message :: gostring

definition valid_response :: responseValidationResult where
  "valid_response = \<lparr>rv_Valid = True, rv_InvalidReason = [], rv_FailureCategory = [], rv_Message = []\<rparr>"

definition validateNonStreamResponse :: "gostring \<Rightarrow> gostring \<Rightarrow> bool \<Rightarrow> responseValidationResult" where
  "validateNonStreamResponse path body validate =
    (if \<not> validate then valid_response
     else if body = [] then
       \<lparr>rv_Valid = False, rv_InvalidReason = ''empty_body'', rv_FailureCategory = UsageFailureCategoryInvalidResponse,
        rv_Message = ''invalid non-stream response: empty body''\<rparr>
     else case json_object body of
       None \<Rightarrow>
         \<lparr>rv_Valid = False, rv_InvalidReason = ''payload_parse_failed'', rv_FailureCategory = UsageFailureCategoryParseError,
          rv_Message = ''invalid non-stream response: payload parse failed''\<rparr>
     | Some payload \<Rightarrow>
         if isErrorEnvelopePayload payload then
           \<lparr>rv_Valid = False, rv_InvalidReason = ''error_envelope_2xx'', rv_FailureCategory = UsageFailureCategoryInvalidResponse,
            rv_Message = ''invalid non-stream response: 2xx error envelope''\<rparr>
         else if \<not> hasActionableNonStreamOutput path payload then
           \<lparr>rv_Valid = False, rv_InvalidReason = ''no_actionable_output'', rv_FailureCategory = UsageFailureCategoryInvalidResponse,
            rv_Message = ''invalid non-stream response: no actionable output''\<rparr>
         else valid_response)"

record streamLineClassification =
  sl_MeaningfulDelta :: bool
  sl_ErrorEnvelope :: bool
  sl_ParseFailed :: bool
  sl_InvalidReason :: gostring
  sl_FailureCategory :: gostring

definition plain_line :: streamLineClassification where
  "plain_line = \<lparr>sl_MeaningfulDelta = False, sl_ErrorEnvelope = False, sl_ParseFailed = False, sl_InvalidReason = [], sl_FailureCategory = []\<rparr>"

definition sse_payload :: "gostring \<Rightarrow> gostring option" where
  \<comment> \<open>the guards shared by \<open>classifySSEDataLine\<close> and \<open>extractUsageAndModelFromSSELine\<close>\<close>
  "sse_payload line =
    (let trimmed = TrimSpace line in
     if trimmed = [] \<or> \<not> HasPrefix trimmed ''data:'' then None
     else
       let payload = TrimSpace (TrimPrefix trimmed ''data:'') in
       if payload = [] \<or> payload = ''[DONE]'' then None else Some payload)"

definition classifySSEDataLine :: "gostring \<Rightarrow> gostring \<Rightarrow> bool \<Rightarrow> streamLineClassification" where
  "classifySSEDataLine path line validate =
    (if \<not> validate then plain_line
     else case sse_payload line of
       None \<Rightarrow> plain_line
     | Some payload \<Rightarrow>
         (case json_object payload of
            None \<Rightarrow> plain_line\<lparr>sl_ParseFailed := True, sl_InvalidReason := ''stream_payload_parse_failed'',
                      sl_FailureCategory := UsageFailureCategoryParseError\<rparr>
          | Some parsed \<Rightarrow>
              if isErrorEnvelopePayload parsed then
                plain_line\<lparr>sl_ErrorEnvelope := True, sl_InvalidReason := ''stream_error_envelope'',
                  sl_FailureCategory := UsageFailureCategoryInvalidResponse\<rparr>
              else if hasActionableStreamOutput path parsed then plain_line\<lparr>sl_MeaningfulDelta := True\<rparr>
              else plain_line))"

subsection \<open>What counts as text\<close>

inductive textual_at :: "nat \<Rightarrow> json \<Rightarrow> bool" where
  leaf: "TrimSpace s \<noteq> [] \<Longrightarrow> \<not> role_word (ToLower (TrimSpace s)) \<Longrightarrow> textual_at 0 (JStr s)"
| elem: "v \<in> set xs \<Longrightarrow> textual_at n v \<Longrightarrow> textual_at (Suc n) (JArr xs)"
| member: "(k, v) \<in> set m \<Longrightarrow> \<not> skipped_key k \<Longrightarrow> textual_at n v \<Longrightarrow> textual_at (Suc n) (JObj m)"

inductive_simps textual_at_simps [simp]:
  "textual_at n (JStr s)" "textual_at n (JArr xs)" "textual_at n (JObj m)" "textual_at n (JNum t)" "textual_at n (JBool b)" "textual_at n JNull"

lemma textual_at_obj:
  "(\<exists>n. n + d \<le> 6 \<and> textual_at n (JObj m)) \<longleftrightarrow> (\<exists>kv \<in> set m. \<not> skipped_key (fst kv) \<and> (\<exists>n. n + Suc d \<le> 6 \<and> textual_at n (snd kv)))"
proof
  assume "\<exists>n. n + d \<le> 6 \<and> textual_at n (JObj m)"
  then obtain n k v where "Suc n + d \<le> 6" "(k, v) \<in> set m" "\<not> skipped_key k" "textual_at n v" by auto
  then show "\<exists>kv \<in> set m. \<not> skipped_key (fst kv) \<and> (\<exists>n. n + Suc d \<le> 6 \<and> textual_at n (snd kv))"
    by (intro bexI [of _ "(k, v)"]) auto
next
  assume "\<exists>kv \<in> set m. \<not> skipped_key (fst kv) \<and> (\<exists>n. n + Suc d \<le> 6 \<and> textual_at n (snd kv))"
  then obtain kv n where kv: "kv \<in> set m" "\<not> skipped_key (fst kv)" "Suc n + d \<le> 6" "textual_at n (snd kv)" by auto
  then have "textual_at (Suc n) (JObj m)" using textual_at.member [of "fst kv" "snd kv" m n] by (simp only: prod.collapse not_False_eq_True)
  with kv(3) show "\<exists>n. n + d \<le> 6 \<and> textual_at n (JObj m)" by blast
qed

lemma textual_at_arr:
  "(\<exists>n. n + d \<le> 6 \<and> textual_at n (JArr xs)) \<longleftrightarrow> (\<exists>v \<in> set xs. \<exists>n. n + Suc d \<le> 6 \<and> textual_at n v)"
proof
  assume "\<exists>n. n + d \<le> 6 \<and> textual_at n (JArr xs)"
  then obtain n v where "Suc n + d \<le> 6" "v \<in> set xs" "textual_at n v" by auto
  then show "\<exists>v \<in> set xs. \<exists>n. n + Suc d \<le> 6 \<and> textual_at n v" by auto
next
  assume "\<exists>v \<in> set xs. \<exists>n. n + Suc d \<le> 6 \<and> textual_at n v"
  then obtain v n where "v \<in> set xs" "Suc n + d \<le> 6" "textual_at n v" by auto
  then show "\<exists>n. n + d \<le> 6 \<and> textual_at n (JArr xs)" by (blast intro: textual_at.elem)
qed

lemma textual_depth:
  "hasAnyTextualOutputDepth j d \<longleftrightarrow> (\<exists>n. n + d \<le> 6 \<and> textual_at n j)"
proof (induction j d rule: hasAnyTextualOutputDepth.induct)
  case (2 m d)
  then show ?case unfolding textual_at_obj by (cases "d \<le> 6") (auto simp: list_ex_iff simp del: textual_at_simps)
next
  case (3 xs d)
  then show ?case unfolding textual_at_arr by (cases "d \<le> 6") (auto simp: list_ex_iff simp del: textual_at_simps)
qed (auto simp: Let_def)

text \<open>
  A value counts as textual output exactly when some path of at most six steps through its arrays and
  through object members other than the bookkeeping keys (identifier, model, role, type, usage and so
  on) ends in a non-blank string that is not a role name. The order of the members is irrelevant.
\<close>

theorem textual_output_iff:
  "hasAnyTextualOutput j \<longleftrightarrow> (\<exists>n \<le> 6. textual_at n j)"
  by (simp add: hasAnyTextualOutput_def textual_depth)

lemma textual_members:
  "set m = set m' \<Longrightarrow> hasAnyTextualOutput (JObj m) \<longleftrightarrow> hasAnyTextualOutput (JObj m')"
  by (simp add: hasAnyTextualOutput_def textual_depth)

text \<open>An answer without text can pass: any string under an unknown key counts.\<close>

lemma fingerprint_counts_as_output:
  "rv_Valid (validateNonStreamResponse ''/v1/chat/completions'' ''{\"id\":\"x\",\"choices\":[],\"system_fingerprint\":\"fp\"}'' True)"
  by code_simp

subsection \<open>Streams and whole bodies agree\<close>

definition plain_path :: "gostring \<Rightarrow> bool" where
  \<comment> \<open>not one of the paths with rules of their own\<close>
  "plain_path path \<longleftrightarrow> (let lowerPath = ToLower (TrimSpace path) in
     \<not> StrContains lowerPath ''/embeddings'' \<and> \<not> StrContains lowerPath ''/images'' \<and> \<not> StrContains lowerPath ''/audio'')"

lemma sse_payload_nonempty: "sse_payload line = Some body \<Longrightarrow> body \<noteq> []"
  by (auto simp: sse_payload_def Let_def split: if_splits)

lemma actionable_agree:
  "plain_path path \<Longrightarrow> \<not> isErrorEnvelopePayload payload \<Longrightarrow>
   hasActionableStreamOutput path payload \<longleftrightarrow> hasActionableNonStreamOutput path payload"
  by (simp add: plain_path_def hasActionableStreamOutput_def hasActionableNonStreamOutput_def Let_def)

text \<open>
  On the chat, message and response endpoints an event of a stream and a whole body with the same
  payload are judged alike: the event is a meaningful delta exactly when the body is valid, the parse
  failure and the error envelope correspond, and exactly one of the four verdicts holds for a body.
\<close>

theorem stream_and_body_agree:
  assumes "plain_path path" and "sse_payload line = Some body"
  shows "(sl_MeaningfulDelta (classifySSEDataLine path line True) \<longleftrightarrow> rv_Valid (validateNonStreamResponse path body True))
    \<and> (sl_ParseFailed (classifySSEDataLine path line True) \<longleftrightarrow> rv_InvalidReason (validateNonStreamResponse path body True) = ''payload_parse_failed'')
    \<and> (sl_ErrorEnvelope (classifySSEDataLine path line True) \<longleftrightarrow> rv_InvalidReason (validateNonStreamResponse path body True) = ''error_envelope_2xx'')
    \<and> (sl_InvalidReason (classifySSEDataLine path line True) = [] \<longleftrightarrow> rv_InvalidReason (validateNonStreamResponse path body True) \<in> {[], ''no_actionable_output''})"
  using assms(2) sse_payload_nonempty [OF assms(2)] actionable_agree [OF assms(1)]
  by (simp add: classifySSEDataLine_def validateNonStreamResponse_def plain_line_def valid_response_def split: option.splits)

theorem stream_and_body_agree_witness:
  "sl_MeaningfulDelta (classifySSEDataLine ''/v1/chat/completions'' ''data: {\"choices\":[{\"delta\":{\"content\":\"hi\"}}]}'' True)"
proof -
  have "plain_path ''/v1/chat/completions''" by code_simp
  moreover have "sse_payload ''data: {\"choices\":[{\"delta\":{\"content\":\"hi\"}}]}'' = Some ''{\"choices\":[{\"delta\":{\"content\":\"hi\"}}]}''"
    by code_simp
  moreover have "rv_Valid (validateNonStreamResponse ''/v1/chat/completions'' ''{\"choices\":[{\"delta\":{\"content\":\"hi\"}}]}'' True)"
    by code_simp
  ultimately show ?thesis using stream_and_body_agree by blast
qed

end
