(* ===== verification/UsageExtract.thy ===== *)
theory UsageExtract
  imports ResponseValidation Schema
begin

text \<open>
  Reading token counts and cost out of an upstream answer, \<open>src/service/proxy.go\<close>: the lookups by path, the
  chain of extractors, the metrics of a body and of a line of a stream, their merging over a stream, and
  the price estimate. A \<open>float64\<close> is a real number; the texts \<open>nan\<close> and \<open>inf\<close> of a cost read as 0.
\<close>

definition UsageSourceExact :: gostring where "UsageSourceExact = ''exact''"
definition UsageSourceEstimated :: gostring where "UsageSourceEstimated = ''estimated''"
definition UsageSourceMissing :: gostring where "UsageSourceMissing = ''missing''"

subsection \<open>Numbers in untyped JSON\<close>

definition sscanf_d :: "gostring \<Rightarrow> int option" where
  \<comment> \<open>\<open>fmt.Sscanf(v, "%d", &parsed)\<close> of a text without leading blanks: a sign and the digits that follow\<close>
  "sscanf_d v =
    (let neg = (case v of c # _ \<Rightarrow> c = CHR ''-'' | [] \<Rightarrow> False);
         signed = (case v of c # _ \<Rightarrow> c = CHR ''-'' \<or> c = CHR ''+'' | [] \<Rightarrow> False);
         ds = takeWhile is_digit (if signed then tl v else v)
     in if ds = [] then None else Atoi ((if neg then ''-'' else []) @ ds))"

definition float_to_int :: "real \<Rightarrow> int" where
  \<comment> \<open>\<open>int(v)\<close>; out of range the conversion of amd64\<close>
  "float_to_int x = (let i = trunc_real x in if in_int64 i then i else - (2 ^ 63))"

definition getIntValue :: "json option \<Rightarrow> int" where
  "getIntValue value =
    (case value of
       Some (JNum t) \<Rightarrow> (case ParseFloat t of FP_Num x \<Rightarrow> float_to_int x | _ \<Rightarrow> 0)
     | Some (JStr s) \<Rightarrow>
         (let v = TrimSpace s in if v = [] then 0 else case sscanf_d v of None \<Rightarrow> 0 | Some n \<Rightarrow> n)
     | _ \<Rightarrow> 0)"

definition float_token :: "gostring \<Rightarrow> gostring" where
  \<comment> \<open>the longest prefix that \<open>fmt\<close> reads for \<open>%f\<close>: sign, digits, fraction, exponent\<close>
  "float_token v =
    (let dig = (\<lambda>c. is_digit c \<or> c = CHR ''_'');
         sg = (case v of c # _ \<Rightarrow> if c = CHR ''-'' \<or> c = CHR ''+'' then [c] else [] | [] \<Rightarrow> []);
         r = drop (length sg) v;
         hex = (HasPrefix r ''0x'' \<or> HasPrefix r ''0X'');
         pre = (if hex then take 2 r else []);
         dig' = (if hex then (\<lambda>c. hex_digit_val c \<noteq> None \<or> c = CHR ''_'') else dig);
         r = drop (length pre) r;
         ip = takeWhile dig' r; r = dropWhile dig' r;
         fp = (case r of c # q \<Rightarrow> if c = CHR ''.'' then c # takeWhile dig' q else [] | [] \<Rightarrow> []);
         r = drop (length fp) r;
         ep = (case r of
                 c # q \<Rightarrow> if lower_char c = CHR ''p'' \<or> (\<not> hex \<and> lower_char c = CHR ''e'') then
                            (let es = (case q of d # _ \<Rightarrow> if d = CHR ''-'' \<or> d = CHR ''+'' then [d] else [] | [] \<Rightarrow> [])
                             in c # es @ takeWhile dig (drop (length es) q))
                          else []
               | [] \<Rightarrow> [])
     in sg @ pre @ ip @ fp @ ep)"

definition sscanf_f :: "gostring \<Rightarrow> real option" where
  \<comment> \<open>\<open>fmt.Sscanf(v, "%f", &parsed)\<close>; a decimal mantissa may carry a binary exponent\<close>
  "sscanf_f v =
    (let tok = float_token v; p = StrIndex (ToLower tok) ''p''; hex = StrContains (ToLower tok) ''x'' in
     case p of
       Some i \<Rightarrow>
         if hex then (case ParseFloat tok of FP_Num x \<Rightarrow> Some x | _ \<Rightarrow> None)
         else (case (ParseFloat (take i tok), Atoi (drop (Suc i) tok)) of
                 (FP_Num x, Some m) \<Rightarrow> Some (x * 2 powi m)
               | _ \<Rightarrow> None)
     | None \<Rightarrow> (case ParseFloat tok of FP_Num x \<Rightarrow> Some x | _ \<Rightarrow> None))"

definition getFloatValue :: "json option \<Rightarrow> real" where
  "getFloatValue value =
    (case value of
       Some (JNum t) \<Rightarrow> (case ParseFloat t of FP_Num x \<Rightarrow> x | _ \<Rightarrow> 0)
     | Some (JStr s) \<Rightarrow>
         (let v = TrimSpace s in if v = [] then 0 else case sscanf_f v of None \<Rightarrow> 0 | Some x \<Rightarrow> x)
     | _ \<Rightarrow> 0)"

fun lookupValueByPath :: "json \<Rightarrow> gostring list \<Rightarrow> json option" where
  \<comment> \<open>the loop over the path; the callers pass a map and a non-empty path\<close>
  "lookupValueByPath current [] = Some current"
| "lookupValueByPath current (key # path) =
    (case current of
       JObj nextMap \<Rightarrow> (case mget nextMap key of None \<Rightarrow> None | Some nextValue \<Rightarrow> lookupValueByPath nextValue path)
     | _ \<Rightarrow> None)"

fun first_path :: "(gostring, json) gomap \<Rightarrow> gostring list list \<Rightarrow> json option" where
  "first_path parent [] = None"
| "first_path parent (path # paths) =
    (case lookupValueByPath (JObj parent) path of Some value \<Rightarrow> Some value | None \<Rightarrow> first_path parent paths)"

definition getIntByPaths :: "(gostring, json) gomap \<Rightarrow> gostring list list \<Rightarrow> int option" where
  "getIntByPaths parent paths = map_option (\<lambda>v. getIntValue (Some v)) (first_path parent paths)"

definition getFloatByPaths :: "(gostring, json) gomap \<Rightarrow> gostring list list \<Rightarrow> real option" where
  "getFloatByPaths parent paths = map_option (\<lambda>v. getFloatValue (Some v)) (first_path parent paths)"

subsection \<open>Metrics of one usage object\<close>

record usageMetrics =
  um_ModelName :: gostring
  um_PromptTokens :: int
  um_CompletionTokens :: int
  um_CacheTokens :: int
  um_CacheCreationTokens :: int
  um_CacheCreation5mTokens :: int
  um_CacheCreation1hTokens :: int
  um_CostUSD :: real
  um_UsageSource :: gostring
  um_UsageParser :: gostring

definition zero_usage :: usageMetrics where
  "zero_usage = \<lparr>um_ModelName = [], um_PromptTokens = 0, um_CompletionTokens = 0, um_CacheTokens = 0, um_CacheCreationTokens = 0,
     um_CacheCreation5mTokens = 0, um_CacheCreation1hTokens = 0, um_CostUSD = 0, um_UsageSource = [], um_UsageParser = []\<rparr>"

definition usage_signal_paths :: "gostring list list" where
  "usage_signal_paths =
    [[''prompt_tokens''], [''input_tokens''], [''prompt_token_count''], [''input_token_count''], [''inputTokenCount''],
     [''completion_tokens''], [''output_tokens''], [''completion_token_count''], [''output_token_count''], [''outputTokenCount''],
     [''total_tokens''], [''total_token_count''], [''totalTokenCount''],
     [''cached_tokens''], [''prompt_tokens_details'', ''cached_tokens''], [''input_tokens_details'', ''cached_tokens''],
     [''prompt_cache_hit_tokens''], [''cache_read_input_tokens''],
     [''cache_creation_tokens''], [''prompt_tokens_details'', ''cached_creation_tokens''], [''cache_creation_input_tokens''],
     [''cache_creation_5m_tokens''], [''claude_cache_creation_5_m_tokens''], [''cache_creation'', ''ephemeral_5m_input_tokens''],
     [''cache_creation_1h_tokens''], [''claude_cache_creation_1_h_tokens''], [''cache_creation'', ''ephemeral_1h_input_tokens''],
     [''cost''], [''total_cost'']]"

definition hasAnyUsageSignal :: "(gostring, json) gomap \<Rightarrow> bool" where
  "hasAnyUsageSignal usage = list_ex (\<lambda>path. lookupValueByPath (JObj usage) path \<noteq> None) usage_signal_paths"

definition or_zero :: "int option \<Rightarrow> int" where
  "or_zero v = (case v of Some n \<Rightarrow> n | None \<Rightarrow> 0)"

definition buildUsageMetricsFromMap :: "(gostring, json) gomap \<Rightarrow> usageMetrics option" where
  "buildUsageMetricsFromMap usage =
    (if \<not> hasAnyUsageSignal usage then None
     else
       let prompt = or_zero (getIntByPaths usage [[''prompt_tokens''], [''input_tokens''], [''prompt_token_count''], [''input_token_count''], [''inputTokenCount'']]);
           completion = or_zero (getIntByPaths usage [[''completion_tokens''], [''output_tokens''], [''completion_token_count''], [''output_token_count''], [''outputTokenCount'']]);
           prompt = (if prompt = 0 \<and> completion = 0
                     then (case getIntByPaths usage [[''total_tokens''], [''total_token_count''], [''totalTokenCount'']] of
                             Some value \<Rightarrow> value | None \<Rightarrow> prompt)
                     else prompt);
           cache = or_zero (getIntByPaths usage [[''cached_tokens''], [''prompt_tokens_details'', ''cached_tokens''], [''input_tokens_details'', ''cached_tokens''],
              [''prompt_cache_hit_tokens''], [''cache_read_input_tokens''], [''token_usage'', ''cached_tokens'']]);
           creation = or_zero (getIntByPaths usage [[''cache_creation_tokens''], [''prompt_tokens_details'', ''cached_creation_tokens''],
              [''cache_creation_input_tokens''], [''token_usage'', ''cache_creation_tokens'']]);
           c5m = or_zero (getIntByPaths usage [[''cache_creation_5m_tokens''], [''claude_cache_creation_5_m_tokens''], [''cache_creation'', ''ephemeral_5m_input_tokens'']]);
           c1h = or_zero (getIntByPaths usage [[''cache_creation_1h_tokens''], [''claude_cache_creation_1_h_tokens''], [''cache_creation'', ''ephemeral_1h_input_tokens'']]);
           cost = (case getFloatByPaths usage [[''cost''], [''total_cost''], [''token_usage'', ''cost'']] of Some x \<Rightarrow> x | None \<Rightarrow> 0)
       in Some (zero_usage\<lparr>um_PromptTokens := prompt, um_CompletionTokens := completion, um_CacheTokens := cache,
            um_CacheCreationTokens := max creation (wrap64 (c5m + c1h)), um_CacheCreation5mTokens := c5m,
            um_CacheCreation1hTokens := c1h, um_CostUSD := cost\<rparr>))"

subsection \<open>The extractors\<close>

type_synonym usage_hit = "((gostring, json) gomap \<times> gostring) option"

definition extractTopLevelUsageMap :: "(gostring, json) gomap \<Rightarrow> usage_hit" where
  "extractTopLevelUsageMap payload =
    (case object_field payload ''usage'' of None \<Rightarrow> None | Some usage \<Rightarrow> Some (usage, getStringValue (mget payload ''model'')))"

definition extractMessageUsageMap :: "(gostring, json) gomap \<Rightarrow> usage_hit" where
  "extractMessageUsageMap payload =
    (case object_field payload ''message'' of
       None \<Rightarrow> None
     | Some message \<Rightarrow>
         (case object_field message ''usage'' of None \<Rightarrow> None | Some usage \<Rightarrow> Some (usage, getStringValue (mget message ''model''))))"

definition model_or :: "(gostring, json) gomap \<Rightarrow> (gostring, json) gomap \<Rightarrow> gostring" where
  "model_or inner payload =
    (let modelName = getStringValue (mget inner ''model'') in
     if modelName = [] then getStringValue (mget payload ''model'') else modelName)"

definition extractNestedUsageMap :: "gostring \<Rightarrow> (gostring, json) gomap \<Rightarrow> usage_hit" where
  "extractNestedUsageMap key payload =
    (case object_field payload key of
       None \<Rightarrow> None
     | Some nested \<Rightarrow>
         (case object_field nested ''usage'' of None \<Rightarrow> None | Some usage \<Rightarrow> Some (usage, model_or nested payload)))"

definition extractDataUsageMap :: "(gostring, json) gomap \<Rightarrow> usage_hit" where
  "extractDataUsageMap payload = extractNestedUsageMap ''data'' payload"

definition extractResponseUsageMap :: "(gostring, json) gomap \<Rightarrow> usage_hit" where
  "extractResponseUsageMap payload = extractNestedUsageMap ''response'' payload"

definition extractResultUsageMap :: "(gostring, json) gomap \<Rightarrow> usage_hit" where
  "extractResultUsageMap payload = extractNestedUsageMap ''result'' payload"

fun choices_usage :: "(gostring, json) gomap \<Rightarrow> json list \<Rightarrow> usage_hit" where
  "choices_usage payload [] = None"
| "choices_usage payload (item # choices) =
    (case item of
       JObj choice \<Rightarrow>
         (case object_field choice ''usage'' of
            Some usage \<Rightarrow> Some (usage, model_or choice payload)
          | None \<Rightarrow> choices_usage payload choices)
     | _ \<Rightarrow> choices_usage payload choices)"

definition extractChoicesUsageMap :: "(gostring, json) gomap \<Rightarrow> usage_hit" where
  "extractChoicesUsageMap payload =
    (case mget payload ''choices'' of Some (JArr choices) \<Rightarrow> choices_usage payload choices | _ \<Rightarrow> None)"

definition extractTopLevelTokenUsageMap :: "(gostring, json) gomap \<Rightarrow> usage_hit" where
  "extractTopLevelTokenUsageMap payload =
    (case object_field payload ''token_usage'' of None \<Rightarrow> None | Some usage \<Rightarrow> Some (usage, getStringValue (mget payload ''model'')))"

definition extractTopLevelUsageFields :: "(gostring, json) gomap \<Rightarrow> usage_hit" where
  "extractTopLevelUsageFields payload =
    (if \<not> hasAnyUsageSignal payload then None else Some (payload, getStringValue (mget payload ''model'')))"

fun findUsageMapRecursive :: "json \<Rightarrow> nat \<Rightarrow> (gostring, json) gomap option" where
  "findUsageMapRecursive (JObj current) depth =
    (if depth > 6 then None
     else if hasAnyUsageSignal current then Some current
     else foldr (\<lambda>kv r. case findUsageMapRecursive (snd kv) (depth + 1) of Some nested \<Rightarrow> Some nested | None \<Rightarrow> r) current None)"
| "findUsageMapRecursive (JArr current) depth =
    (if depth > 6 then None
     else foldr (\<lambda>v r. case findUsageMapRecursive v (depth + 1) of Some nested \<Rightarrow> Some nested | None \<Rightarrow> r) current None)"
| "findUsageMapRecursive _ depth = None"

definition extractRecursiveUsageMap :: "(gostring, json) gomap \<Rightarrow> usage_hit" where
  "extractRecursiveUsageMap payload =
    (case findUsageMapRecursive (JObj payload) 0 of None \<Rightarrow> None | Some usage \<Rightarrow> Some (usage, getStringValue (mget payload ''model'')))"

definition usageExtractors :: "(gostring \<times> ((gostring, json) gomap \<Rightarrow> usage_hit)) list" where
  "usageExtractors =
    [(''usage-map'', extractTopLevelUsageMap), (''message-usage-map'', extractMessageUsageMap),
     (''data-usage-map'', extractDataUsageMap), (''response-usage-map'', extractResponseUsageMap),
     (''result-usage-map'', extractResultUsageMap), (''choices-usage-map'', extractChoicesUsageMap),
     (''token-usage-map'', extractTopLevelTokenUsageMap), (''top-level-usage-fields'', extractTopLevelUsageFields),
     (''recursive-usage-map'', extractRecursiveUsageMap)]"

fun run_extractors ::
  "(gostring \<times> ((gostring, json) gomap \<Rightarrow> usage_hit)) list \<Rightarrow> (gostring, json) gomap \<Rightarrow> usageMetrics \<Rightarrow> usageMetrics" where
  "run_extractors [] payload out = out"
| "run_extractors ((parser, extract) # es) payload out =
    (case extract payload of
       None \<Rightarrow> run_extractors es payload out
     | Some (usage, modelName) \<Rightarrow>
         (case buildUsageMetricsFromMap usage of
            None \<Rightarrow> run_extractors es payload out
          | Some parsed \<Rightarrow>
              let parsed = (if um_ModelName parsed = [] \<and> modelName \<noteq> [] then parsed\<lparr>um_ModelName := modelName\<rparr> else parsed);
                  parsed = (if um_ModelName parsed = [] then parsed\<lparr>um_ModelName := um_ModelName out\<rparr> else parsed)
              in parsed\<lparr>um_UsageSource := UsageSourceExact, um_UsageParser := parser\<rparr>))"

definition missing_usage :: usageMetrics where
  "missing_usage = zero_usage\<lparr>um_UsageSource := UsageSourceMissing, um_UsageParser := ''none''\<rparr>"

definition extractUsageAndModelFromJSON :: "gostring \<Rightarrow> usageMetrics" where
  "extractUsageAndModelFromJSON body =
    (if body = [] then missing_usage
     else case json_object body of
       None \<Rightarrow> missing_usage
     | Some payload \<Rightarrow>
         run_extractors usageExtractors payload (missing_usage\<lparr>um_ModelName := getStringValue (mget payload ''model'')\<rparr>))"

definition extractUsageAndModelFromSSELine :: "gostring \<Rightarrow> usageMetrics \<times> bool" where
  "extractUsageAndModelFromSSELine line =
    (case sse_payload line of
       None \<Rightarrow> (zero_usage, False)
     | Some payload \<Rightarrow> (extractUsageAndModelFromJSON payload, True))"

subsection \<open>A stream\<close>

definition mergeUsageMetrics :: "usageMetrics \<Rightarrow> usageMetrics \<Rightarrow> usageMetrics" where
  "mergeUsageMetrics base current =
    (let base = (if um_PromptTokens current > um_PromptTokens base then base\<lparr>um_PromptTokens := um_PromptTokens current\<rparr> else base);
         base = (if um_CompletionTokens current > um_CompletionTokens base then base\<lparr>um_CompletionTokens := um_CompletionTokens current\<rparr> else base);
         base = (if um_CacheTokens current > um_CacheTokens base then base\<lparr>um_CacheTokens := um_CacheTokens current\<rparr> else base);
         base = (if um_CacheCreationTokens current > um_CacheCreationTokens base
                 then base\<lparr>um_CacheCreationTokens := um_CacheCreationTokens current\<rparr> else base);
         base = (if um_CacheCreation5mTokens current > um_CacheCreation5mTokens base
                 then base\<lparr>um_CacheCreation5mTokens := um_CacheCreation5mTokens current\<rparr> else base);
         base = (if um_CacheCreation1hTokens current > um_CacheCreation1hTokens base
                 then base\<lparr>um_CacheCreation1hTokens := um_CacheCreation1hTokens current\<rparr> else base);
         base = (if um_CostUSD current > um_CostUSD base then base\<lparr>um_CostUSD := um_CostUSD current\<rparr> else base);
         base = (if um_ModelName current \<noteq> [] then base\<lparr>um_ModelName := um_ModelName current\<rparr> else base);
         base = (if um_UsageSource current = UsageSourceExact then base\<lparr>um_UsageSource := UsageSourceExact\<rparr> else base)
     in if um_UsageParser current \<noteq> [] \<and> um_UsageParser current \<noteq> ''none'' then base\<lparr>um_UsageParser := um_UsageParser current\<rparr> else base)"

definition stream_usage :: "gostring list \<Rightarrow> usageMetrics" where
  \<comment> \<open>what the scanning loop of \<open>proxyStreamResponse\<close> accumulates over its lines\<close>
  "stream_usage lines = fold (\<lambda>line u. mergeUsageMetrics u (fst (extractUsageAndModelFromSSELine line))) lines zero_usage"

subsection \<open>Price estimate\<close>

definition GetModelPricingByProviderAndModel :: "int \<Rightarrow> gostring \<Rightarrow> db \<Rightarrow> ModelPricing option" where
  "GetModelPricingByProviderAndModel providerId modelName d =
    find (\<lambda>p. mp_ProviderId p = providerId \<and> mp_ModelName p = modelName) (db_pricings d)"

definition estimateUsageCostUSD :: "int \<Rightarrow> gostring \<Rightarrow> int \<Rightarrow> int \<Rightarrow> db \<Rightarrow> real" where
  "estimateUsageCostUSD providerId modelName promptTokens completionTokens d =
    (if modelName = [] then 0
     else case GetModelPricingByProviderAndModel providerId modelName d of
       None \<Rightarrow> 0
     | Some pricing \<Rightarrow>
         if mp_ModelPrice pricing > 0 \<and> promptTokens = 0 \<and> completionTokens = 0 then mp_ModelPrice pricing
         else
           let modelRatio = mp_ModelRatio pricing in
           if modelRatio \<le> 0 then 0
           else
             let completionRatio = (if mp_CompletionRatio pricing \<le> 0 then 1 else mp_CompletionRatio pricing);
                 inputCost = real_of_int promptTokens * modelRatio / 500000;
                 outputCost = real_of_int completionTokens * modelRatio * completionRatio / 500000
             in inputCost + outputCost)"

subsection \<open>The extractors miss no usage\<close>

inductive signal_at :: "nat \<Rightarrow> json \<Rightarrow> bool" where
  here: "hasAnyUsageSignal m \<Longrightarrow> signal_at 0 (JObj m)"
| elem: "v \<in> set xs \<Longrightarrow> signal_at n v \<Longrightarrow> signal_at (Suc n) (JArr xs)"
| member: "(k, v) \<in> set m \<Longrightarrow> signal_at n v \<Longrightarrow> signal_at (Suc n) (JObj m)"

inductive_simps signal_at_simps:
  "signal_at n (JStr s)" "signal_at n (JArr xs)" "signal_at n (JObj m)" "signal_at n (JNum t)" "signal_at n (JBool b)" "signal_at n JNull"

lemma signal_at_obj:
  "(\<exists>n. n + d \<le> 6 \<and> signal_at n (JObj m)) \<longleftrightarrow>
     d \<le> 6 \<and> (hasAnyUsageSignal m \<or> (\<exists>kv \<in> set m. \<exists>n. n + Suc d \<le> 6 \<and> signal_at n (snd kv)))"
proof
  assume "\<exists>n. n + d \<le> 6 \<and> signal_at n (JObj m)"
  then obtain n where n: "n + d \<le> 6" "signal_at n (JObj m)" by blast
  from n(2) show "d \<le> 6 \<and> (hasAnyUsageSignal m \<or> (\<exists>kv \<in> set m. \<exists>n. n + Suc d \<le> 6 \<and> signal_at n (snd kv)))"
    by cases (use n(1) in force)+
next
  assume r: "d \<le> 6 \<and> (hasAnyUsageSignal m \<or> (\<exists>kv \<in> set m. \<exists>n. n + Suc d \<le> 6 \<and> signal_at n (snd kv)))"
  show "\<exists>n. n + d \<le> 6 \<and> signal_at n (JObj m)"
  proof (cases "hasAnyUsageSignal m")
    case True
    then show ?thesis using r signal_at.here by (intro exI [of _ 0]) simp
  next
    case False
    then obtain kv n where kv: "kv \<in> set m" "Suc n + d \<le> 6" "signal_at n (snd kv)" using r by auto
    then have "signal_at (Suc n) (JObj m)" using signal_at.member [of "fst kv" "snd kv" m n] by (simp only: prod.collapse)
    with kv(2) show ?thesis by blast
  qed
qed

lemma signal_at_arr:
  "(\<exists>n. n + d \<le> 6 \<and> signal_at n (JArr xs)) \<longleftrightarrow> (\<exists>v \<in> set xs. \<exists>n. n + Suc d \<le> 6 \<and> signal_at n v)"
proof
  assume "\<exists>n. n + d \<le> 6 \<and> signal_at n (JArr xs)"
  then obtain n where n: "n + d \<le> 6" "signal_at n (JArr xs)" by blast
  from n(2) show "\<exists>v \<in> set xs. \<exists>n. n + Suc d \<le> 6 \<and> signal_at n v" by cases (use n(1) in auto)
next
  assume "\<exists>v \<in> set xs. \<exists>n. n + Suc d \<le> 6 \<and> signal_at n v"
  then obtain v n where "v \<in> set xs" "Suc n + d \<le> 6" "signal_at n v" by auto
  then show "\<exists>n. n + d \<le> 6 \<and> signal_at n (JArr xs)" by (blast intro: signal_at.elem)
qed

lemma foldr_first_some:
  "foldr (\<lambda>x r. case f x of Some v \<Rightarrow> Some v | None \<Rightarrow> r) xs None \<noteq> None \<longleftrightarrow> (\<exists>x \<in> set xs. f x \<noteq> None)"
  by (induction xs) (auto split: option.splits)

lemma foldr_first_some_signal:
  "foldr (\<lambda>x r. case f x of Some v \<Rightarrow> Some v | None \<Rightarrow> r) xs None = Some u \<Longrightarrow> \<exists>x \<in> set xs. f x = Some u"
  by (induction xs) (auto split: option.splits)

lemma findUsageMapRecursive_iff:
  "findUsageMapRecursive j d \<noteq> None \<longleftrightarrow> (\<exists>n. n + d \<le> 6 \<and> signal_at n j)"
proof (induction j d rule: findUsageMapRecursive.induct)
  case (1 m d)
  have "(\<exists>kv \<in> set m. findUsageMapRecursive (snd kv) (d + 1) \<noteq> None) \<longleftrightarrow> (\<exists>kv \<in> set m. \<exists>n. n + Suc d \<le> 6 \<and> signal_at n (snd kv))"
    if "d \<le> 6" "\<not> hasAnyUsageSignal m"
    using 1 that by auto
  then show ?case unfolding signal_at_obj by (cases "d \<le> 6") (simp_all add: foldr_first_some del: not_None_eq)
next
  case (2 xs d)
  have "(\<exists>v \<in> set xs. findUsageMapRecursive v (d + 1) \<noteq> None) \<longleftrightarrow> (\<exists>v \<in> set xs. \<exists>n. n + Suc d \<le> 6 \<and> signal_at n v)" if "d \<le> 6"
    using 2 that by auto
  then show ?case unfolding signal_at_arr by (cases "d \<le> 6") (simp_all add: foldr_first_some del: not_None_eq)
qed (simp_all add: signal_at_simps)

lemma findUsageMapRecursive_signal:
  "findUsageMapRecursive j d = Some u \<Longrightarrow> hasAnyUsageSignal u"
  by (induction j d rule: findUsageMapRecursive.induct) (auto split: if_splits dest!: foldr_first_some_signal)

lemma buildUsageMetricsFromMap_None: "buildUsageMetricsFromMap usage = None \<longleftrightarrow> \<not> hasAnyUsageSignal usage"
  by (simp add: buildUsageMetricsFromMap_def Let_def)

definition hits :: "((gostring, json) gomap \<Rightarrow> usage_hit) \<Rightarrow> (gostring, json) gomap \<Rightarrow> bool" where
  "hits extract payload \<longleftrightarrow> (\<exists>u n. extract payload = Some (u, n) \<and> hasAnyUsageSignal u)"

lemma run_extractors_hit:
  "um_UsageSource out \<noteq> UsageSourceExact \<Longrightarrow>
   um_UsageSource (run_extractors es payload out) = UsageSourceExact \<longleftrightarrow> (\<exists>pe \<in> set es. hits (snd pe) payload)"
proof (induction es payload out rule: run_extractors.induct)
  case (2 parser ex es payload out)
  show ?case
  proof (cases "hits ex payload")
    case True
    then obtain u n where "ex payload = Some (u, n)" "hasAnyUsageSignal u" by (auto simp: hits_def)
    then show ?thesis using True buildUsageMetricsFromMap_None [of u] by (auto simp: Let_def)
  next
    case False
    have "run_extractors ((parser, ex) # es) payload out = run_extractors es payload out
      \<and> (um_UsageSource (run_extractors es payload out) = UsageSourceExact \<longleftrightarrow> (\<exists>pe \<in> set es. hits (snd pe) payload))"
    proof (cases "ex payload")
      case (Some un)
      obtain u n where un: "un = (u, n)" by fastforce
      have "buildUsageMetricsFromMap u = None" using False Some un by (simp add: hits_def buildUsageMetricsFromMap_None)
      then show ?thesis using Some un "2.IH"(2) [OF Some un [symmetric]] "2.prems" by simp
    qed (use "2.IH"(1) "2.prems" in simp)
    then show ?thesis using False by simp
  qed
qed simp

lemma object_field_member: "object_field m k = Some u \<Longrightarrow> (k, JObj u) \<in> set m"
  by (auto simp: object_field_def dest: mget_Some_in split: option.splits json.splits)

lemma signal_field:
  "object_field m k = Some u \<Longrightarrow> signal_at n (JObj u) \<Longrightarrow> signal_at (Suc n) (JObj m)"
  by (rule signal_at.member [OF object_field_member])

lemma choices_usage_signal:
  "choices_usage payload cs = Some (u, n) \<Longrightarrow> hasAnyUsageSignal u \<Longrightarrow> \<exists>c. JObj c \<in> set cs \<and> signal_at 1 (JObj c)"
proof (induction payload cs rule: choices_usage.induct)
  case (2 payload item choices)
  show ?case
  proof (cases "\<exists>c w. item = JObj c \<and> object_field c ''usage'' = Some w")
    case True
    then obtain c w where "item = JObj c" "object_field c ''usage'' = Some w" by blast
    moreover from this have "w = u" using 2 by simp
    ultimately show ?thesis using signal_field [OF _ signal_at.here] 2 by (metis One_nat_def list.set_intros(1))
  next
    case False
    then have "choices_usage payload choices = Some (u, n)" using "2.prems"(1) by (cases item) (auto split: option.splits)
    then show ?thesis using 2 False by (cases item) (auto split: option.splits)
  qed
qed simp

lemma hits_signal:
  assumes "pe \<in> set usageExtractors" and "hits (snd pe) payload"
  shows "\<exists>n \<le> 6. signal_at n (JObj payload)"
proof -
  obtain u nm where u: "snd pe payload = Some (u, nm)" "hasAnyUsageSignal u" using assms(2) by (auto simp: hits_def)
  have s0: "signal_at 0 (JObj u)" by (rule signal_at.here [OF u(2)])
  have nested: ?thesis if "object_field payload k = Some w" "object_field w ''usage'' = Some u" for k w
    using signal_field [OF that(1) signal_field [OF that(2) s0]] by (intro exI [of _ 2]) (simp add: numeral_2_eq_2)
  have top: ?thesis if "object_field payload k = Some u" for k
    using signal_field [OF that s0] by (intro exI [of _ 1]) simp
  have choices: ?thesis if hit: "extractChoicesUsageMap payload = Some (u, nm)"
  proof -
    obtain cs where cs: "mget payload ''choices'' = Some (JArr cs)" "choices_usage payload cs = Some (u, nm)"
      using hit by (auto simp: extractChoicesUsageMap_def split: option.splits json.splits)
    then obtain c where "JObj c \<in> set cs" "signal_at 1 (JObj c)" using choices_usage_signal [OF cs(2) u(2)] by blast
    then have "signal_at 3 (JObj payload)"
      using signal_at.member [OF mget_Some_in [OF cs(1)] signal_at.elem] by (simp add: numeral_3_eq_3)
    then show ?thesis by (intro exI [of _ 3]) simp
  qed
  have rec: ?thesis if "extractRecursiveUsageMap payload = Some (u, nm)"
    using that findUsageMapRecursive_iff [of "JObj payload" 0] by (auto simp: extractRecursiveUsageMap_def split: option.splits)
  have flat: ?thesis if "extractTopLevelUsageFields payload = Some (u, nm)"
    using that signal_at.here [of payload] by (intro exI [of _ 0]) (simp add: extractTopLevelUsageFields_def split: if_splits)
  show ?thesis using assms(1) u(1) nested top choices rec flat unfolding usageExtractors_def
    by (auto simp: extractTopLevelUsageMap_def extractMessageUsageMap_def extractDataUsageMap_def extractResponseUsageMap_def
        extractResultUsageMap_def extractNestedUsageMap_def extractTopLevelTokenUsageMap_def split: option.splits)
qed

lemma recursive_extractor_last: "(''recursive-usage-map'', extractRecursiveUsageMap) \<in> set usageExtractors"
  by (simp add: usageExtractors_def)

text \<open>
  The usage of a body counts as exact exactly when the body is a JSON object that holds a known
  usage field in the object itself or in an object at most six steps inside it: the chain of
  extractors misses none, and reports nothing exact without one.
\<close>

theorem usage_exact_iff_signal:
  "um_UsageSource (extractUsageAndModelFromJSON body) = UsageSourceExact
     \<longleftrightarrow> (\<exists>payload n. body \<noteq> [] \<and> json_object body = Some payload \<and> n \<le> 6 \<and> signal_at n (JObj payload))"
proof (cases "body = [] \<or> json_object body = None")
  case True
  then show ?thesis
    by (auto simp: extractUsageAndModelFromJSON_def missing_usage_def UsageSourceMissing_def UsageSourceExact_def split: option.splits)
next
  case False
  then obtain payload where p: "body \<noteq> []" "json_object body = Some payload" by auto
  have "um_UsageSource (extractUsageAndModelFromJSON body) = UsageSourceExact \<longleftrightarrow> (\<exists>pe \<in> set usageExtractors. hits (snd pe) payload)"
    using p run_extractors_hit [of "missing_usage\<lparr>um_ModelName := getStringValue (mget payload ''model'')\<rparr>" usageExtractors payload]
    by (simp add: extractUsageAndModelFromJSON_def missing_usage_def UsageSourceMissing_def UsageSourceExact_def)
  also have "\<dots> \<longleftrightarrow> (\<exists>n \<le> 6. signal_at n (JObj payload))"
  proof
    assume "\<exists>n \<le> 6. signal_at n (JObj payload)"
    then have "findUsageMapRecursive (JObj payload) 0 \<noteq> None" using findUsageMapRecursive_iff [of "JObj payload" 0] by simp
    then have "hits extractRecursiveUsageMap payload"
      using findUsageMapRecursive_signal by (fastforce simp: hits_def extractRecursiveUsageMap_def)
    then show "\<exists>pe \<in> set usageExtractors. hits (snd pe) payload" using recursive_extractor_last by force
  qed (use hits_signal in blast)
  finally show ?thesis using p by auto
qed

subsection \<open>Merging keeps the maxima\<close>

lemma merge_fields:
  "um_PromptTokens (mergeUsageMetrics b c) = max (um_PromptTokens b) (um_PromptTokens c)"
  "um_CompletionTokens (mergeUsageMetrics b c) = max (um_CompletionTokens b) (um_CompletionTokens c)"
  "um_CacheTokens (mergeUsageMetrics b c) = max (um_CacheTokens b) (um_CacheTokens c)"
  "um_CacheCreationTokens (mergeUsageMetrics b c) = max (um_CacheCreationTokens b) (um_CacheCreationTokens c)"
  "um_CostUSD (mergeUsageMetrics b c) = max (um_CostUSD b) (um_CostUSD c)"
  "um_ModelName (mergeUsageMetrics b c) = (if um_ModelName c = [] then um_ModelName b else um_ModelName c)"
  "um_UsageSource (mergeUsageMetrics b c) = (if um_UsageSource c = UsageSourceExact then UsageSourceExact else um_UsageSource b)"
  by (simp_all add: mergeUsageMetrics_def Let_def max_def)

lemma fold_max_Max:
  assumes "\<And>b c. f (g b c) = max (f b) (h c :: 'a :: linorder)"
  shows "f (fold (\<lambda>x u. g u x) xs z) = Max (insert (f z) (h ` set xs))"
proof (induction xs arbitrary: z)
  case (Cons x xs)
  have "f (fold (\<lambda>x u. g u x) (x # xs) z) = Max (insert (max (f z) (h x)) (h ` set xs))"
    using Cons.IH [of "g z x"] assms by simp
  also have "\<dots> = Max (insert (f z) (h ` set (x # xs)))"
    by (cases "set xs = {}") (simp_all add: max.assoc)
  finally show ?case .
qed simp

definition line_usage :: "gostring \<Rightarrow> usageMetrics" where
  "line_usage line = fst (extractUsageAndModelFromSSELine line)"

lemma stream_usage_fold: "stream_usage lines = fold (\<lambda>line u. (\<lambda>u line. mergeUsageMetrics u (line_usage line)) u line) lines zero_usage"
  by (simp add: stream_usage_def line_usage_def)

text \<open>
  Over a stream every token count and the cost are the largest value that any of its lines reports,
  or zero, whatever the order of the lines; the usage is exact when some line's is.
\<close>

theorem stream_usage_maxima:
  "um_PromptTokens (stream_usage lines) = Max (insert 0 (um_PromptTokens ` line_usage ` set lines))
   \<and> um_CompletionTokens (stream_usage lines) = Max (insert 0 (um_CompletionTokens ` line_usage ` set lines))
   \<and> um_CacheTokens (stream_usage lines) = Max (insert 0 (um_CacheTokens ` line_usage ` set lines))
   \<and> um_CacheCreationTokens (stream_usage lines) = Max (insert 0 (um_CacheCreationTokens ` line_usage ` set lines))
   \<and> um_CostUSD (stream_usage lines) = Max (insert 0 (um_CostUSD ` line_usage ` set lines))
   \<and> (um_UsageSource (stream_usage lines) = UsageSourceExact \<longleftrightarrow> (\<exists>l \<in> set lines. um_UsageSource (line_usage l) = UsageSourceExact))"
proof -
  let ?g = "\<lambda>u line. mergeUsageMetrics u (line_usage line)"
  have src: "um_UsageSource (fold (\<lambda>line u. ?g u line) ls z) = UsageSourceExact
      \<longleftrightarrow> um_UsageSource z = UsageSourceExact \<or> (\<exists>l \<in> set ls. um_UsageSource (line_usage l) = UsageSourceExact)" for ls z
    by (induction ls arbitrary: z) (auto simp: merge_fields)
  have z: "um_PromptTokens zero_usage = 0" "um_CompletionTokens zero_usage = 0" "um_CacheTokens zero_usage = 0"
    "um_CacheCreationTokens zero_usage = 0" "um_CostUSD zero_usage = 0" "um_UsageSource zero_usage \<noteq> UsageSourceExact"
    by (simp_all add: zero_usage_def UsageSourceExact_def)
  show ?thesis unfolding stream_usage_fold image_image
    using fold_max_Max [of um_PromptTokens ?g "\<lambda>l. um_PromptTokens (line_usage l)" lines zero_usage]
      fold_max_Max [of um_CompletionTokens ?g "\<lambda>l. um_CompletionTokens (line_usage l)" lines zero_usage]
      fold_max_Max [of um_CacheTokens ?g "\<lambda>l. um_CacheTokens (line_usage l)" lines zero_usage]
      fold_max_Max [of um_CacheCreationTokens ?g "\<lambda>l. um_CacheCreationTokens (line_usage l)" lines zero_usage]
      fold_max_Max [of um_CostUSD ?g "\<lambda>l. um_CostUSD (line_usage l)" lines zero_usage] src [of lines zero_usage]
    by (simp add: merge_fields z)
qed

lemma stream_usage_model: "um_ModelName (stream_usage (lines @ [l])) =
    (if um_ModelName (line_usage l) = [] then um_ModelName (stream_usage lines) else um_ModelName (line_usage l))"
  by (simp add: stream_usage_def line_usage_def merge_fields)

end
