(* ===== verification/AggToken.thy ===== *)
theory AggToken
  imports RouteCache
begin

text \<open>
  The aggregated tokens that clients authenticate with (\<open>src/model/aggregated_token.go\<close>), the middleware that
  checks them (\<open>src/middleware/agg_token_auth.go\<close>) and the catalog wrappers of
  \<open>src/model/model_catalog.go\<close>. The key generator of the system's random source is a sequence of
  random numbers; creating a row is an argument, because the unique index lives in the database.
\<close>

subsection \<open>Catalog wrappers\<close>

definition GetUnifiedModelCatalog :: "routingStaticSnapshot option \<Rightarrow> gw_error + UnifiedModelCatalogItem list" where
  \<comment> \<open>the argument is the snapshot in force, \<open>None\<close> when it could not be built\<close>
  "GetUnifiedModelCatalog snapshot =
    (case snapshot of None \<Rightarrow> Inl ErrDb | Some s \<Rightarrow> Inr (listEntries (ss_modelCatalog s)))"

definition ResolveModelCatalogEntry :: "routingStaticSnapshot option \<Rightarrow> gostring \<Rightarrow> gw_error + UnifiedModelCatalogItem option" where
  "ResolveModelCatalogEntry snapshot modelName =
    (case snapshot of None \<Rightarrow> Inl ErrDb | Some s \<Rightarrow> Inr (catalog_resolve (ss_modelCatalog s) modelName))"

definition ResolveCanonicalModelName :: "routingStaticSnapshot option \<Rightarrow> gostring \<Rightarrow> gw_error + gostring option" where
  "ResolveCanonicalModelName snapshot modelName =
    (case ResolveModelCatalogEntry snapshot modelName of
       Inl e \<Rightarrow> Inl e
     | Inr None \<Rightarrow> Inr None
     | Inr (Some entry) \<Rightarrow>
         (let canonical = TrimSpace (ci_CanonicalModel entry) in
          if canonical = [] then Inr None else Inr (Some canonical)))"

definition GetDistinctModels :: "routingStaticSnapshot option \<Rightarrow> gw_error + gostring list" where
  "GetDistinctModels snapshot =
    (case snapshot of None \<Rightarrow> Inl ErrDb | Some s \<Rightarrow> Inr (canonicalModels (ss_modelCatalog s)))"

subsection \<open>The token table\<close>

definition aggTokenKeyChars :: gostring where
  "aggTokenKeyChars = ''abcdefghijklmnopqrstuvwxyzABCDEFGHIJKLMNOPQRSTUVWXYZ0123456789''"

definition maxAggTokenInsertAttempts :: nat where
  "maxAggTokenInsertAttempts = 8"

definition generateAggTokenKey :: "(nat \<Rightarrow> nat option) \<Rightarrow> gostring option" where
  \<comment> \<open>the argument gives the draws of \<open>rand.Int(rand.Reader, max)\<close>, numbers below \<open>max\<close>, \<open>None\<close> for an error\<close>
  "generateAggTokenKey draws =
    those (map (\<lambda>i. map_option (\<lambda>n. aggTokenKeyChars ! n) (draws i)) [0..<48])"

definition isAggTokenKeyCollisionError :: "gostring option \<Rightarrow> bool" where
  "isAggTokenKeyCollisionError err =
    (case err of
       None \<Rightarrow> False
     | Some text \<Rightarrow>
         (let msg = ToLower text in
          StrContains msg ''duplicate entry'' \<or> StrContains msg ''duplicate key value''
          \<or> StrContains msg ''unique constraint failed'' \<or> StrContains msg ''duplicated key not allowed''))"

definition QueryUserAggTokens :: "int \<Rightarrow> int \<Rightarrow> int \<Rightarrow> int \<Rightarrow> db \<Rightarrow> AggregatedToken list \<times> int" where
  \<comment> \<open>the first argument is \<open>common.ItemsPerPage\<close>\<close>
  "QueryUserAggTokens itemsPerPage userId startIdx num d =
    (let startIdx = (if startIdx < 0 then 0 else startIdx);
         num = (if num \<le> 0 then itemsPerPage else num);
         rows = filter (\<lambda>t. at_UserId t = userId) (db_aggtokens d)
     in (page_desc at_Id startIdx num rows, int (length rows)))"

definition GetAggTokenById :: "int \<Rightarrow> int \<Rightarrow> db \<Rightarrow> gw_error + AggregatedToken" where
  "GetAggTokenById tid userId d =
    (if tid = 0 then Inl ErrEmptyId
     else case find (\<lambda>t. at_Id t = tid \<and> at_UserId t = userId) (db_aggtokens d) of
       None \<Rightarrow> Inl ErrNotFound | Some t \<Rightarrow> Inr t)"

definition GetAggTokenByKey :: "gostring \<Rightarrow> db \<Rightarrow> gw_error + AggregatedToken" where
  "GetAggTokenByKey key d =
    (if key = [] then Inl ErrEmptyKey
     else case find (\<lambda>t. at_Key t = key) (db_aggtokens d) of None \<Rightarrow> Inl ErrNotFound | Some t \<Rightarrow> Inr t)"

fun insert_attempts ::
  "(AggregatedToken \<Rightarrow> db \<Rightarrow> gostring + db) \<Rightarrow> (nat \<Rightarrow> gostring option) \<Rightarrow> nat \<Rightarrow> nat \<Rightarrow> AggregatedToken \<Rightarrow> db \<Rightarrow> gw_error + db" where
  \<comment> \<open>the loop of \<open>Insert\<close> with its counter and the number of attempts left\<close>
  "insert_attempts create gen i 0 t d = Inl ErrKeyAttempts"
| "insert_attempts create gen i (Suc left) t d =
    (case gen i of
       None \<Rightarrow> Inl ErrKeyGeneration
     | Some key \<Rightarrow>
         (case create (t\<lparr>at_Key := key\<rparr>) d of
            Inr d' \<Rightarrow> Inr d'
          | Inl err \<Rightarrow>
              if \<not> isAggTokenKeyCollisionError (Some err) then Inl (ErrOther err)
              else insert_attempts create gen (Suc i) left t d))"

definition AggToken_Insert ::
  "(AggregatedToken \<Rightarrow> db \<Rightarrow> gostring + db) \<Rightarrow> (nat \<Rightarrow> gostring option) \<Rightarrow> gotime \<Rightarrow> AggregatedToken \<Rightarrow> db \<Rightarrow> gw_error + db" where
  \<comment> \<open>\<open>create\<close> is \<open>DB.Create\<close>, an error as its text; \<open>gen i\<close> the i-th key of \<open>aggTokenKeyGenerator\<close>\<close>
  "AggToken_Insert create gen now t d =
     insert_attempts create gen 0 maxAggTokenInsertAttempts (t\<lparr>at_CreatedAt := Unix now\<rparr>) d"

definition AggToken_Update :: "AggregatedToken \<Rightarrow> db \<Rightarrow> db" where
  \<comment> \<open>\<open>Select(...).Updates(t)\<close>: the named columns, zero values included\<close>
  "AggToken_Update t d = d\<lparr>db_aggtokens := row_update (\<lambda>r. at_Id r = at_Id t)
     (\<lambda>r. r\<lparr>at_Name := at_Name t, at_Status := at_Status t, at_ExpiredTime := at_ExpiredTime t,
            at_ModelLimitsEnabled := at_ModelLimitsEnabled t, at_ModelLimits := at_ModelLimits t,
            at_AllowIps := at_AllowIps t\<rparr>) (db_aggtokens d)\<rparr>"

definition AggToken_Delete :: "AggregatedToken \<Rightarrow> db \<Rightarrow> gw_error + db" where
  "AggToken_Delete t d =
    (if at_Id t = 0 then Inl ErrEmptyId
     else Inr (d\<lparr>db_aggtokens := row_delete (\<lambda>r. at_Id r = at_Id t) (db_aggtokens d)\<rparr>))"

definition CountUserAggTokens :: "int \<Rightarrow> db \<Rightarrow> int" where
  "CountUserAggTokens userId d = int (length (filter (\<lambda>t. at_UserId t = userId) (db_aggtokens d)))"

subsection \<open>Checks\<close>

definition GetUserById :: "int \<Rightarrow> bool \<Rightarrow> db \<Rightarrow> gw_error + User" where
  \<comment> \<open>without \<open>selectAll\<close> the password and token columns are not read\<close>
  "GetUserById uid selectAll d =
    (if uid = 0 then Inl ErrEmptyId
     else case find (\<lambda>u. u_Id u = uid) (db_users d) of
       None \<Rightarrow> Inl ErrNotFound
     | Some u \<Rightarrow> Inr (if selectAll then u else u\<lparr>u_Password := [], u_Token := [], u_VerificationCode := []\<rparr>))"

definition ValidateAggToken :: "gotime \<Rightarrow> gostring \<Rightarrow> db \<Rightarrow> gw_error + AggregatedToken \<times> User" where
  "ValidateAggToken now key d =
    (case GetAggTokenByKey key d of
       Inl e \<Rightarrow> Inl ErrInvalidAggToken
     | Inr token \<Rightarrow>
         if at_Status token \<noteq> UserStatusEnabled then Inl ErrAggTokenDisabled
         else if at_ExpiredTime token \<noteq> -1 \<and> at_ExpiredTime token < Unix now then Inl ErrAggTokenExpired
         else (case GetUserById (at_UserId token) False d of
             Inl e \<Rightarrow> Inl ErrUserMissing
           | Inr user \<Rightarrow> if u_Status user \<noteq> UserStatusEnabled then Inl ErrUserBanned else Inr (token, user)))"

definition touch_access :: "gotime \<Rightarrow> AggregatedToken \<Rightarrow> db \<Rightarrow> db" where
  \<comment> \<open>the goroutine of a successful validation\<close>
  "touch_access now token d = d\<lparr>db_aggtokens := row_update (\<lambda>r. at_Id r = at_Id token) (\<lambda>r. r\<lparr>at_AccessedAt := Unix now\<rparr>) (db_aggtokens d)\<rparr>"

definition appendCandidate :: "gostring \<Rightarrow> gostring list \<times> gostring list \<Rightarrow> gostring list \<times> gostring list" where
  \<comment> \<open>the exact and the normalised candidates, two sets\<close>
  "appendCandidate c s =
    (let candidate = TrimSpace c in
     if candidate = [] then s
     else
       let exact = ToLower candidate # fst s; normalized = NormalizeModelName candidate
       in (exact, if normalized \<noteq> [] then normalized # snd s else snd s))"

definition limit_matches :: "gostring list \<times> gostring list \<Rightarrow> gostring \<Rightarrow> bool" where
  \<comment> \<open>one round of the loop over the limits\<close>
  "limit_matches cands m =
    (let limit = TrimSpace m in
     if limit = [] then False
     else if ToLower limit \<in> set (fst cands) then True
     else let limitNormalized = NormalizeModelName limit in limitNormalized \<noteq> [] \<and> limitNormalized \<in> set (snd cands))"

definition IsModelAllowed :: "routingStaticSnapshot option \<Rightarrow> AggregatedToken \<Rightarrow> gostring \<Rightarrow> bool" where
  "IsModelAllowed snapshot t model =
    (if \<not> at_ModelLimitsEnabled t \<or> at_ModelLimits t = [] then True
     else
       let requested = TrimSpace model in
       if requested = [] then False
       else
         let cands = appendCandidate requested ([], []);
             cands = (case ResolveModelCatalogEntry snapshot requested of
                 Inr (Some entry) \<Rightarrow>
                   fold appendCandidate (ci_RouteTargets entry)
                     (fold appendCandidate (ci_Aliases entry) (appendCandidate (ci_CanonicalModel entry) cands))
               | _ \<Rightarrow> cands)
         in list_ex (limit_matches cands) (Split1 CHR '','' (at_ModelLimits t)))"

definition IsIPAllowed :: "AggregatedToken \<Rightarrow> gostring \<Rightarrow> bool" where
  "IsIPAllowed t ip =
    (if at_AllowIps t = [] then True
     else list_ex (\<lambda>a. let allowed = TrimSpace a in allowed \<noteq> [] \<and> allowed = ip) (Split1 CHR 0x0A (at_AllowIps t)))"

subsection \<open>The middleware\<close>

record auth_request =
  ar_Authorization :: gostring
  ar_XApiKey :: gostring
  ar_XGoogApiKey :: gostring
  ar_QueryKey :: gostring
  ar_ClientIP :: gostring

definition extractAggToken :: "auth_request \<Rightarrow> gostring" where
  "extractAggToken c =
    (if ar_Authorization c \<noteq> [] then
       TrimPrefix (TrimPrefix (TrimPrefix (ar_Authorization c) ''Bearer '') ''bearer '') ''ag-''
     else if ar_XApiKey c \<noteq> [] then TrimPrefix (ar_XApiKey c) ''ag-''
     else if ar_XGoogApiKey c \<noteq> [] then TrimPrefix (ar_XGoogApiKey c) ''ag-''
     else if ar_QueryKey c \<noteq> [] then TrimPrefix (ar_QueryKey c) ''ag-''
     else [])"

datatype auth_result =
    AuthNext AggregatedToken User
  | AuthMissing
  | AuthInvalid gw_error
  | AuthForbiddenIP

definition AggTokenAuth :: "gotime \<Rightarrow> auth_request \<Rightarrow> db \<Rightarrow> auth_result \<times> db" where
  "AggTokenAuth now c d =
    (let key = extractAggToken c in
     if key = [] then (AuthMissing, d)
     else case ValidateAggToken now key d of
       Inl e \<Rightarrow> (AuthInvalid e, d)
     | Inr (token, user) \<Rightarrow>
         let d = touch_access now token d in
         if \<not> IsIPAllowed token (ar_ClientIP c) then (AuthForbiddenIP, d) else (AuthNext token user, d))"

subsection \<open>Who is let in\<close>

lemma find_user: "GetUserById uid False d = Inr u \<longleftrightarrow>
    uid \<noteq> 0 \<and> (\<exists>row. find (\<lambda>u. u_Id u = uid) (db_users d) = Some row \<and> u = row\<lparr>u_Password := [], u_Token := [], u_VerificationCode := []\<rparr>)"
  by (auto simp: GetUserById_def split: option.splits)

lemma find_key: "GetAggTokenByKey key d = Inr t \<longleftrightarrow> key \<noteq> [] \<and> find (\<lambda>t. at_Key t = key) (db_aggtokens d) = Some t"
  by (auto simp: GetAggTokenByKey_def split: option.splits)

lemma ValidateAggToken_Inr: "ValidateAggToken now key d = Inr (t, u) \<longleftrightarrow>
    key \<noteq> [] \<and> find (\<lambda>t. at_Key t = key) (db_aggtokens d) = Some t
    \<and> at_Status t = UserStatusEnabled \<and> (at_ExpiredTime t = -1 \<or> Unix now \<le> at_ExpiredTime t)
    \<and> GetUserById (at_UserId t) False d = Inr u \<and> u_Status u = UserStatusEnabled"
proof (cases "GetAggTokenByKey key d")
  case (Inl e)
  then show ?thesis using find_key [of key d t] by (auto simp: ValidateAggToken_def)
next
  case (Inr b)
  then have "(key \<noteq> [] \<and> find (\<lambda>t. at_Key t = key) (db_aggtokens d) = Some t) \<longleftrightarrow> b = t"
    using find_key [of key d t] by auto
  moreover have "ValidateAggToken now key d = Inr (t, u) \<longleftrightarrow> b = t \<and> at_Status t = UserStatusEnabled
    \<and> (at_ExpiredTime t = -1 \<or> Unix now \<le> at_ExpiredTime t) \<and> GetUserById (at_UserId t) False d = Inr u \<and> u_Status u = UserStatusEnabled"
    using Inr by (cases "GetUserById (at_UserId b) False d") (auto simp: ValidateAggToken_def)
  ultimately show ?thesis by blast
qed

lemma touch_access_rest: "db_users (touch_access now t d) = db_users d \<and> map at_Key (db_aggtokens (touch_access now t d)) = map at_Key (db_aggtokens d)
    \<and> map at_Status (db_aggtokens (touch_access now t d)) = map at_Status (db_aggtokens d)"
  by (simp add: touch_access_def map_row_update)

text \<open>
  C8: a relay request passes the middleware exactly when it carries a key of which the first token row
  is enabled and not expired, belongs to an existing enabled user, and allows the client address; the
  user handed on carries neither password nor access token, and no key, status or user changes.
\<close>

theorem AggTokenAuth_exact:
  "(fst (AggTokenAuth now c d) = AuthNext t u \<longleftrightarrow>
      extractAggToken c \<noteq> [] \<and> find (\<lambda>t. at_Key t = extractAggToken c) (db_aggtokens d) = Some t
      \<and> at_Status t = UserStatusEnabled \<and> (at_ExpiredTime t = -1 \<or> Unix now \<le> at_ExpiredTime t)
      \<and> at_UserId t \<noteq> 0 \<and> IsIPAllowed t (ar_ClientIP c)
      \<and> (\<exists>row. find (\<lambda>u. u_Id u = at_UserId t) (db_users d) = Some row \<and> u_Status row = UserStatusEnabled
           \<and> u = row\<lparr>u_Password := [], u_Token := [], u_VerificationCode := []\<rparr>))
   \<and> db_users (snd (AggTokenAuth now c d)) = db_users d
   \<and> map at_Key (db_aggtokens (snd (AggTokenAuth now c d))) = map at_Key (db_aggtokens d)
   \<and> map at_Status (db_aggtokens (snd (AggTokenAuth now c d))) = map at_Status (db_aggtokens d)"
proof -
  have a: "fst (AggTokenAuth now c d) = AuthNext t u \<longleftrightarrow>
      extractAggToken c \<noteq> [] \<and> ValidateAggToken now (extractAggToken c) d = Inr (t, u) \<and> IsIPAllowed t (ar_ClientIP c)"
    by (cases "ValidateAggToken now (extractAggToken c) d") (auto simp: AggTokenAuth_def Let_def split: prod.splits)
  have "\<exists>now' t'. snd (AggTokenAuth now c d) \<in> {d, touch_access now' t' d}"
    by (cases "ValidateAggToken now (extractAggToken c) d") (auto simp: AggTokenAuth_def Let_def split: prod.splits)
  then obtain now' t' where "snd (AggTokenAuth now c d) \<in> {d, touch_access now' t' d}" by blast
  then have b: "db_users (snd (AggTokenAuth now c d)) = db_users d
     \<and> map at_Key (db_aggtokens (snd (AggTokenAuth now c d))) = map at_Key (db_aggtokens d)
     \<and> map at_Status (db_aggtokens (snd (AggTokenAuth now c d))) = map at_Status (db_aggtokens d)"
    using touch_access_rest [of now' t' d] by (elim insertE) (simp_all only: singleton_iff empty_iff simp_thms)
  have c: "GetUserById (at_UserId t) False d = Inr u \<and> u_Status u = UserStatusEnabled \<longleftrightarrow>
     at_UserId t \<noteq> 0 \<and> (\<exists>row. find (\<lambda>u. u_Id u = at_UserId t) (db_users d) = Some row \<and> u_Status row = UserStatusEnabled
           \<and> u = row\<lparr>u_Password := [], u_Token := [], u_VerificationCode := []\<rparr>)"
    by (auto simp: find_user)
  show ?thesis
    unfolding a ValidateAggToken_Inr c
    by (intro conjI b [THEN conjunct1] b [THEN conjunct2, THEN conjunct1] b [THEN conjunct2, THEN conjunct2])
      (rule iffI; elim conjE; intro conjI; assumption)
qed

subsection \<open>Which models a token may use\<close>

definition request_names :: "routingStaticSnapshot option \<Rightarrow> gostring \<Rightarrow> gostring set" where
  \<comment> \<open>the requested name and every name of its catalog entry\<close>
  "request_names snapshot model =
    insert (TrimSpace model)
      (case ResolveModelCatalogEntry snapshot (TrimSpace model) of
         Inr (Some e) \<Rightarrow> TrimSpace ` (insert (ci_CanonicalModel e) (set (ci_Aliases e) \<union> set (ci_RouteTargets e)))
       | _ \<Rightarrow> {}) - {[]}"

definition same_model :: "gostring \<Rightarrow> gostring \<Rightarrow> bool" where
  "same_model a b \<longleftrightarrow> ToLower a = ToLower b \<or> (NormalizeModelName a \<noteq> [] \<and> NormalizeModelName a = NormalizeModelName b)"

definition cands_are :: "gostring set \<Rightarrow> gostring list \<times> gostring list \<Rightarrow> bool" where
  "cands_are names s \<longleftrightarrow> set (fst s) = ToLower ` names \<and> set (snd s) = NormalizeModelName ` names - {[]}"

lemma cands_are_add: "cands_are names s \<Longrightarrow> cands_are (insert (TrimSpace c) names - {[]}) (appendCandidate c s)" if "[] \<notin> names"
  using that by (cases "TrimSpace c = []") (auto simp: cands_are_def appendCandidate_def Let_def)

lemma cands_are_fold:
  "[] \<notin> names \<Longrightarrow> cands_are names s \<Longrightarrow> cands_are (TrimSpace ` set cs \<union> names - {[]}) (fold appendCandidate cs s)"
proof (induction cs arbitrary: names s)
  case (Cons c cs)
  have "TrimSpace ` set cs \<union> (insert (TrimSpace c) names - {[]}) - {[]} = TrimSpace ` set (c # cs) \<union> names - {[]}" by auto
  then show ?case using Cons.IH [OF _ cands_are_add [OF Cons.prems(1,2), of c]] by simp
qed simp

lemma limit_matches_iff:
  assumes "cands_are names s" and "[] \<notin> names"
  shows "limit_matches s m \<longleftrightarrow> TrimSpace m \<noteq> [] \<and> (\<exists>n \<in> names. same_model (TrimSpace m) n)"
  using assms by (auto simp: limit_matches_def cands_are_def same_model_def Let_def image_iff)

text \<open>
  With model limits in force a token may use a model exactly when some entry of its limits names the
  model, the canonical name, an alias or a route target of the catalog entry the model resolves to,
  letter case and decoration aside; without limits every model is allowed.
\<close>

theorem IsModelAllowed_iff:
  "IsModelAllowed snapshot t model \<longleftrightarrow>
     (if at_ModelLimitsEnabled t \<and> at_ModelLimits t \<noteq> []
      then TrimSpace model \<noteq> []
        \<and> (\<exists>m \<in> set (Split1 CHR '','' (at_ModelLimits t)). TrimSpace m \<noteq> []
             \<and> (\<exists>n \<in> request_names snapshot model. same_model (TrimSpace m) n))
      else True)"
proof (cases "at_ModelLimitsEnabled t \<and> at_ModelLimits t \<noteq> [] \<and> TrimSpace model \<noteq> []")
  case True
  define s0 where "s0 = appendCandidate (TrimSpace model) ([], [])"
  define s where "s = (case ResolveModelCatalogEntry snapshot (TrimSpace model) of
                 Inr (Some entry) \<Rightarrow>
                   fold appendCandidate (ci_RouteTargets entry)
                     (fold appendCandidate (ci_Aliases entry) (appendCandidate (ci_CanonicalModel entry) s0))
               | _ \<Rightarrow> s0)"
  have "cands_are {} ([], [])" by (simp add: cands_are_def)
  from cands_are_add [OF _ this, of "TrimSpace model"] have s0: "cands_are {TrimSpace model} s0"
    using True by (simp add: s0_def insert_Diff_if)
  have s: "cands_are (request_names snapshot model) s"
  proof (cases "\<exists>e. ResolveModelCatalogEntry snapshot (TrimSpace model) = Inr (Some e)")
    case res: True
    then obtain e where e: "ResolveModelCatalogEntry snapshot (TrimSpace model) = Inr (Some e)" by blast
    have "cands_are (insert (TrimSpace (ci_CanonicalModel e)) {TrimSpace model} - {[]}) (appendCandidate (ci_CanonicalModel e) s0)"
      by (rule cands_are_add [OF _ s0]) (use True in auto)
    from cands_are_fold [OF _ cands_are_fold [OF _ this, of "ci_Aliases e"], of "ci_RouteTargets e"]
    show ?thesis by (simp add: s_def e request_names_def image_Un Un_Diff Un_commute Un_left_commute insert_commute)
       (smt (verit) Un_Diff Un_assoc Un_commute Un_insert_left insert_is_Un)
  next
    case False
    then show ?thesis using s0 True by (auto simp: s_def request_names_def split: sum.splits option.splits)
  qed
  have "[] \<notin> request_names snapshot model" by (simp add: request_names_def)
  from limit_matches_iff [OF s this] show ?thesis using True
    by (simp add: IsModelAllowed_def Let_def list_ex_iff flip: s0_def s_def)
next
  case False
  then show ?thesis by (auto simp: IsModelAllowed_def Let_def)
qed

subsection \<open>Fresh keys\<close>

definition unique_index :: "(AggregatedToken \<Rightarrow> db \<Rightarrow> gostring + db) \<Rightarrow> bool" where
  \<comment> \<open>what the unique index on the key column promises of a \<open>Create\<close>: it succeeds only for a new key, and adds one row\<close>
  "unique_index create \<longleftrightarrow> (\<forall>t d d'. create t d = Inr d' \<longrightarrow>
     at_Key t \<notin> at_Key ` set (db_aggtokens d) \<and> (\<exists>r. db_aggtokens d' = db_aggtokens d @ [r] \<and> at_Key r = at_Key t))"

definition collides :: "(AggregatedToken \<Rightarrow> db \<Rightarrow> gostring + db) \<Rightarrow> gostring \<Rightarrow> AggregatedToken \<Rightarrow> db \<Rightarrow> bool" where
  "collides create key t d \<longleftrightarrow> (\<exists>e. create (t\<lparr>at_Key := key\<rparr>) d = Inl e \<and> isAggTokenKeyCollisionError (Some e))"

lemma collides_Suc:
  "\<forall>j' < n. \<exists>k. gen (Suc i + j') = Some k \<and> collides create k t d \<Longrightarrow> gen i = Some k \<Longrightarrow> collides create k t d \<Longrightarrow>
   \<forall>j' < Suc n. \<exists>k. gen (i + j') = Some k \<and> collides create k t d"
  by (auto simp: less_Suc_eq_0_disj)

lemma insert_attempts_Inr:
  "insert_attempts create gen i left t d = Inr d' \<Longrightarrow>
   \<exists>j < left. \<exists>k. gen (i + j) = Some k \<and> create (t\<lparr>at_Key := k\<rparr>) d = Inr d'
      \<and> (\<forall>j' < j. \<exists>k'. gen (i + j') = Some k' \<and> collides create k' t d)"
proof (induction create gen i left t d rule: insert_attempts.induct)
  case (2 create gen i left t d)
  then obtain k where k: "gen i = Some k" by (cases "gen i") auto
  show ?case
  proof (cases "create (t\<lparr>at_Key := k\<rparr>) d")
    case (Inr d'')
    then show ?thesis using 2(2) k by (intro exI [of _ 0]) simp
  next
    case (Inl err)
    then have col: "isAggTokenKeyCollisionError (Some err)" using 2(2) k by (auto split: if_splits)
    then obtain j k' where j: "j < left" "gen (Suc i + j) = Some k'" "create (t\<lparr>at_Key := k'\<rparr>) d = Inr d'"
        "\<forall>j' < j. \<exists>k'. gen (Suc i + j') = Some k' \<and> collides create k' t d"
      using "2.IH" [OF k Inl] 2(2) k Inl by auto
    have "collides create k t d" using Inl col by (auto simp: collides_def)
    then have "\<forall>j' < Suc j. \<exists>k. gen (i + j') = Some k \<and> collides create k t d"
      using collides_Suc [of j gen i create t d k] j(4) k by blast
    then show ?thesis using j by (intro exI [of _ "Suc j"]) simp
  qed
qed simp

lemma insert_attempts_exhausted:
  "insert_attempts create gen i left t d = Inl ErrKeyAttempts \<Longrightarrow> \<forall>j < left. \<exists>k. gen (i + j) = Some k \<and> collides create k t d"
proof (induction create gen i left t d rule: insert_attempts.induct)
  case (2 create gen i left t d)
  then obtain k err where k: "gen i = Some k" "create (t\<lparr>at_Key := k\<rparr>) d = Inl err" "isAggTokenKeyCollisionError (Some err)"
    by (auto split: option.splits sum.splits if_splits)
  have "\<forall>j < left. \<exists>k. gen (Suc i + j) = Some k \<and> collides create k t d" using 2 k by auto
  moreover have "collides create k t d" using k by (auto simp: collides_def)
  ultimately show ?case using collides_Suc [of left gen i create t d k] k(1) by blast
qed simp

text \<open>
  Creating an aggregated token keeps the keys of the table distinct. It stores the first of at most
  eight generated keys that does not collide with a stored one, and it gives up with the "attempts"
  error only after eight collisions.
\<close>

theorem AggToken_Insert_fresh_key:
  assumes "unique_index create" and "distinct (map at_Key (db_aggtokens d))"
  shows "case AggToken_Insert create gen now t d of
      Inr d' \<Rightarrow> distinct (map at_Key (db_aggtokens d')) \<and>
        (\<exists>i < 8. \<exists>k. gen i = Some k \<and> map at_Key (db_aggtokens d') = map at_Key (db_aggtokens d) @ [k]
           \<and> (\<forall>j < i. \<exists>k'. gen j = Some k' \<and> collides create k' (t\<lparr>at_CreatedAt := Unix now\<rparr>) d))
    | Inl e \<Rightarrow> e = ErrKeyAttempts \<longrightarrow> (\<forall>i < 8. \<exists>k. gen i = Some k \<and> collides create k (t\<lparr>at_CreatedAt := Unix now\<rparr>) d)"
proof -
  show ?thesis
  proof (cases "AggToken_Insert create gen now t d")
    case (Inl e)
    then show ?thesis using insert_attempts_exhausted [of create gen 0 8]
      by (auto simp: AggToken_Insert_def maxAggTokenInsertAttempts_def)
  next
    case (Inr d')
    then obtain i k where i: "i < 8" "gen i = Some k" "create (t\<lparr>at_CreatedAt := Unix now, at_Key := k\<rparr>) d = Inr d'"
      "\<forall>j < i. \<exists>k'. gen j = Some k' \<and> collides create k' (t\<lparr>at_CreatedAt := Unix now\<rparr>) d"
      using insert_attempts_Inr [of create gen 0 8 "t\<lparr>at_CreatedAt := Unix now\<rparr>" d d']
      by (auto simp: AggToken_Insert_def maxAggTokenInsertAttempts_def)
    then have "k \<notin> at_Key ` set (db_aggtokens d)" "\<exists>r. db_aggtokens d' = db_aggtokens d @ [r] \<and> at_Key r = k"
      using assms(1) unfolding unique_index_def by force+
    then show ?thesis using Inr i assms(2) by auto
  qed
qed

definition sample_create :: "AggregatedToken \<Rightarrow> db \<Rightarrow> gostring + db" where
  "sample_create t d =
    (if at_Key t \<in> set (map at_Key (db_aggtokens d)) then Inl ''UNIQUE constraint failed: aggregated_tokens.key''
     else Inr (d\<lparr>db_aggtokens := db_aggtokens d @ [t\<lparr>at_Id := next_row_id at_Id (db_aggtokens d)\<rparr>]\<rparr>))"

definition sample_aggtoken :: AggregatedToken where
  "sample_aggtoken = \<lparr>at_Id = 1, at_UserId = 1, at_Key = ''k1'', at_Name = ''n'', at_Status = 1, at_ExpiredTime = -1,
     at_ModelLimitsEnabled = False, at_ModelLimits = [], at_AllowIps = [], at_CreatedAt = 0, at_AccessedAt = 0\<rparr>"

theorem AggToken_Insert_fresh_key_witness:
  "\<exists>d'. AggToken_Insert sample_create (\<lambda>i. Some (if i = 0 then ''k1'' else ''k2'')) (UnixTime 1720000000) sample_aggtoken
      (sample_db\<lparr>db_aggtokens := [sample_aggtoken]\<rparr>) = Inr d' \<and> distinct (map at_Key (db_aggtokens d'))"
proof -
  let ?r = "AggToken_Insert sample_create (\<lambda>i. Some (if i = 0 then ''k1'' else ''k2'')) (UnixTime 1720000000) sample_aggtoken
      (sample_db\<lparr>db_aggtokens := [sample_aggtoken]\<rparr>)"
  have "unique_index sample_create" by (auto simp: unique_index_def sample_create_def split: if_splits)
  moreover have "distinct (map at_Key (db_aggtokens (sample_db\<lparr>db_aggtokens := [sample_aggtoken]\<rparr>)))" by simp
  moreover have "\<not> isl ?r" by code_simp
  then obtain d' where "?r = Inr d'" by (cases ?r) auto
  ultimately show ?thesis
    using AggToken_Insert_fresh_key [where create = sample_create and d = "sample_db\<lparr>db_aggtokens := [sample_aggtoken]\<rparr>"
        and gen = "\<lambda>i. Some (if i = 0 then ''k1'' else ''k2'')" and now = "UnixTime 1720000000" and t = sample_aggtoken]
    by simp
qed

end
