(* ===== verification/Proxy.thy ===== *)
theory Proxy
  imports RoutePlan UsageExtract AggToken
begin

text \<open>
  One attempt at an upstream, \<open>ProxyToUpstream\<close> of \<open>src/service/proxy.go\<close>, with the health bookkeeping and
  the client cache of \<open>src/service/provider_http.go\<close>. The state is the world: the database, the routing
  caches, the cache of HTTP clients and the writer of the client's response. The network is an
  argument, the result of \<open>httpClient.Do\<close> on the outgoing request; so are the clock, \<open>url.Parse\<close>, SHA-256 and the
  re-encoding of a changed body and the texts of error values. The usage log is written by a goroutine in the code and at once here;
  log lines and notifications are left out. Header names are in lower case.
\<close>

subsection \<open>Environment, request and world\<close>

record proxy_env =
  pe_options :: "(gostring, gostring) gomap"
  pe_parse_url :: "gostring \<Rightarrow> url_parts option"
  pe_sha256_hex12 :: "gostring \<Rightarrow> gostring"
  pe_marshal :: "json \<Rightarrow> gostring option"
  pe_request_ok :: "gostring \<Rightarrow> gostring \<Rightarrow> bool"
  pe_debug_payload :: bool
  pe_now :: gotime
  pe_elapsed_ms :: int
  pe_line_ms :: "nat \<Rightarrow> int"
  pe_request_id :: gostring
  pe_error_text :: "gw_error \<Rightarrow> gostring"

record gin_context =
  gc_Method :: gostring
  gc_Path :: gostring
  gc_RawQuery :: gostring
  gc_Header :: "(gostring, gostring) gomap"
  gc_Body :: "gostring option"
  gc_ClientIP :: gostring
  gc_request_model :: gostring
  gc_request_model_original :: gostring
  gc_request_model_canonical :: gostring
  gc_request_model_resolved :: gostring
  gc_relay_request_id :: gostring
  gc_relay_attempt_index :: int

datatype http_client = DirectClient | ProxyClient gostring

record client_writer =
  cw_Header :: "(gostring \<times> gostring) list"
  cw_Status :: "int option"
  cw_Body :: gostring

record world =
  w_db :: db
  w_caches :: routingCaches
  w_clients :: "(gostring, http_client) gomap"
  w_writer :: client_writer

record ProxyAttemptError =
  pa_StatusCode :: int
  pa_Message :: gostring
  pa_Retryable :: bool
  pa_FailureCategory :: gostring
  pa_InvalidReason :: gostring

definition UsageFailureCategoryTransport :: gostring where "UsageFailureCategoryTransport = ''transport_error''"
definition UsageFailureCategoryUpstream :: gostring where "UsageFailureCategoryUpstream = ''upstream_error''"
definition UsageFailureCategoryReadError :: gostring where "UsageFailureCategoryReadError = ''read_error''"

definition GetHeader :: "gin_context \<Rightarrow> gostring \<Rightarrow> gostring" where
  "GetHeader c name = mget_default [] (gc_Header c) name"

subsection \<open>Response validity mode\<close>

definition normalizeRelayResponseValidityMode :: "gostring \<Rightarrow> gostring" where
  "normalizeRelayResponseValidityMode raw =
    (let m = ToLower (TrimSpace raw) in if m \<in> {''off'', ''observe'', ''enforce''} then m else [])"

definition GetRelayResponseValidityMode :: "(gostring, gostring) gomap \<Rightarrow> gostring" where
  \<comment> \<open>through \<open>loadRelayReliabilityConfig\<close>\<close>
  "GetRelayResponseValidityMode options =
    (let mode = normalizeRelayResponseValidityMode (TrimSpace (mget_default [] options ''RelayResponseValidityGuardMode'')) in
     if mode = [] then
       (if parseOptionBool (mget_default [] options ''RelayResponseValidityGuardEnabled'') True then ''enforce'' else ''off'')
     else mode)"

subsection \<open>The outgoing request\<close>

definition getContextModelName :: "gin_context \<Rightarrow> gostring" where
  "getContextModelName c =
    (if TrimSpace (gc_request_model_resolved c) \<noteq> [] then TrimSpace (gc_request_model_resolved c)
     else if TrimSpace (gc_request_model c) \<noteq> [] then TrimSpace (gc_request_model c)
     else if TrimSpace (gc_request_model_canonical c) \<noteq> [] then TrimSpace (gc_request_model_canonical c)
     else TrimSpace (gc_request_model_original c))"

definition rewriteRequestModel :: "(json \<Rightarrow> gostring option) \<Rightarrow> gostring \<Rightarrow> gostring \<Rightarrow> gostring" where
  "rewriteRequestModel marshal body target =
    (let targetModel = TrimSpace target in
     if targetModel = [] \<or> body = [] then body
     else case json_object body of
       None \<Rightarrow> body
     | Some payload \<Rightarrow>
         (case mget payload ''model'' of
            Some (JStr currentModel) \<Rightarrow>
              if TrimSpace currentModel = [] \<or> currentModel = targetModel then body
              else (case marshal (JObj (mput ''model'' (JStr targetModel) payload)) of Some updatedBody \<Rightarrow> updatedBody | None \<Rightarrow> body)
          | _ \<Rightarrow> body))"

definition isAnthropicPath :: "gostring \<Rightarrow> bool" where
  "isAnthropicPath path = StrContains path ''/v1/messages''"

definition isGeminiPath :: "gostring \<Rightarrow> bool" where
  "isGeminiPath path = StrContains path ''/v1beta/''"

definition safeHeaders :: "gostring list" where
  "safeHeaders = [''content-type'', ''accept'', ''accept-encoding'', ''accept-language'', ''user-agent'', ''anthropic-beta'']"

definition removedHeaders :: "gostring list" where
  "removedHeaders = [''x-forwarded-for'', ''x-forwarded-host'', ''x-forwarded-proto'', ''x-real-ip'', ''via'', ''forwarded'']"

definition upstreamHeaders :: "gin_context \<Rightarrow> gostring \<Rightarrow> (gostring, gostring) gomap" where
  \<comment> \<open>steps 4 to 8\<close>
  "upstreamHeaders c skKey =
    (let h = fold (\<lambda>name h. let v = GetHeader c name in if v \<noteq> [] then mput name v h else h) safeHeaders [];
         h = mput ''authorization'' (''Bearer '' @ skKey) h;
         h = (if isAnthropicPath (gc_Path c) then
                let h = mput ''x-api-key'' skKey h; v = GetHeader c ''anthropic-version''
                in if v \<noteq> [] then mput ''anthropic-version'' v h else h
              else h);
         h = (if isGeminiPath (gc_Path c) then mput ''x-goog-api-key'' skKey h else h)
     in fold mdel removedHeaders h)"

definition upstreamURL :: "gin_context \<Rightarrow> Provider \<Rightarrow> gostring" where
  "upstreamURL c provider =
    (let u = rev (dropWhile (\<lambda>x. x = CHR ''/'') (rev (p_BaseURL provider))) @ gc_Path c in
     if gc_RawQuery c \<noteq> [] then u @ ''?'' @ gc_RawQuery c else u)"

record outgoing_request =
  og_Method :: gostring
  og_URL :: gostring
  og_Header :: "(gostring, gostring) gomap"
  og_Body :: gostring

subsection \<open>Error texts\<close>

definition tokenSummary :: "(gostring \<Rightarrow> gostring) \<Rightarrow> gostring \<Rightarrow> gostring" where
  "tokenSummary sha raw =
    (if TrimSpace raw = [] then ''(empty)''
     else
       let v = TrimSpace raw;
           bearer = HasPrefix (ToLower v) ''bearer '';
           pre = (if bearer then ''Bearer '' else []);
           v = (if bearer then TrimSpace (drop 7 v) else v)
       in if v = [] then pre @ ''(empty)''
          else
            let masked = (if length v > 8 then take 4 v @ ''...'' @ drop (length v - 4) v else v)
            in pre @ masked @ ''(sha256:'' @ sha v @ '')'')"

definition isCredentialLikeKey :: "gostring \<Rightarrow> bool" where
  "isCredentialLikeKey key =
    (let lowerKey = ToLower (TrimSpace key) in
     if lowerKey = [] then False
     else list_ex (StrContains lowerKey) [''authorization'', ''api_key'', ''apikey'', ''token'', ''secret'', ''password'', ''sk''])"

definition looksLikeCredentialValue :: "gostring \<Rightarrow> bool" where
  "looksLikeCredentialValue v =
    (if v = [] then False
     else
       let lower = ToLower v in
       if HasPrefix lower ''bearer '' then True
       else if HasPrefix lower ''sk-'' \<or> HasPrefix lower ''ag-'' then True
       else if length v \<ge> 32 \<and> \<not> list_ex json_ws v then True
       else False)"

fun redactCredentialLikeValues :: "(gostring \<Rightarrow> gostring) \<Rightarrow> json \<Rightarrow> json" where
  "redactCredentialLikeValues sha (JObj m) =
    JObj (map (\<lambda>kv. (fst kv,
      if isCredentialLikeKey (fst kv) then
        (case snd kv of JStr strVal \<Rightarrow> JStr (tokenSummary sha strVal) | _ \<Rightarrow> JStr ''(redacted)'')
      else redactCredentialLikeValues sha (snd kv))) m)"
| "redactCredentialLikeValues sha (JArr xs) = JArr (map (redactCredentialLikeValues sha) xs)"
| "redactCredentialLikeValues sha (JStr v) =
    (let trimmed = TrimSpace v in if looksLikeCredentialValue trimmed then JStr (tokenSummary sha trimmed) else JStr v)"
| "redactCredentialLikeValues sha node = node"

definition extractTopLevelJSONKeys :: "gostring \<Rightarrow> gostring list" where
  "extractTopLevelJSONKeys body =
    (case json_object body of None \<Rightarrow> [] | Some payload \<Rightarrow> take 8 (sort (map fst payload)))"

definition truncated :: "nat \<Rightarrow> gostring \<Rightarrow> gostring" where
  "truncated n s = (if length s > n then take n s @ ''...(truncated)'' else s)"

definition buildDebugPayloadSnippet :: "proxy_env \<Rightarrow> gostring \<Rightarrow> gostring" where
  "buildDebugPayloadSnippet env body =
    (case (case json_parse body of
             Some payload \<Rightarrow> if numbers_ok payload then pe_marshal env (redactCredentialLikeValues (pe_sha256_hex12 env) payload) else None
           | None \<Rightarrow> None) of
       Some redactedBody \<Rightarrow> truncated 2048 (TrimSpace redactedBody)
     | None \<Rightarrow> truncated 2048 (TrimSpace body))"

definition requestBodyForErrorLog :: "proxy_env \<Rightarrow> gin_context \<Rightarrow> gostring \<Rightarrow> gostring" where
  "requestBodyForErrorLog env c bodyBytes =
    (if bodyBytes = [] then ''(empty)''
     else
       let fp = pe_sha256_hex12 env bodyBytes; contentType = ToLower (TrimSpace (GetHeader c ''content-type''));
           sz = Itoa (int (length bodyBytes))
       in if StrContains contentType ''application/json'' then
            (if \<not> pe_debug_payload env then
               let ks = extractTopLevelJSONKeys bodyBytes in
               if ks = [] then ''(json redacted) bytes='' @ sz @ '' sha256='' @ fp
               else ''(json redacted) bytes='' @ sz @ '' sha256='' @ fp @ '' keys='' @ Join ks '',''
             else ''[debug_payload] '' @ buildDebugPayloadSnippet env bodyBytes)
          else ''(non-json redacted) content_type='' @ contentType @ '' bytes='' @ sz @ '' sha256='' @ fp)"

definition buildErrorMessage :: "proxy_env \<Rightarrow> gostring \<Rightarrow> gin_context \<Rightarrow> gostring \<Rightarrow> gostring" where
  "buildErrorMessage env base c bodyBytes =
    (let msg = TrimSpace base; requestBodyLog = requestBodyForErrorLog env c bodyBytes;
         msg = (if requestBodyLog \<noteq> [] then
                  (if msg = [] then ''request body: '' @ requestBodyLog else msg @ [CHR 0x0A] @ ''request body: '' @ requestBodyLog)
                else msg)
     in truncated 20000 msg)"

subsection \<open>HTTP clients per provider\<close>

definition relayClientCacheKey :: "Provider \<Rightarrow> gostring" where
  "relayClientCacheKey provider =
    (if \<not> p_ProxyEnabled provider \<or> TrimSpace (p_ProxyURL provider) = [] then ''direct'' else TrimSpace (p_ProxyURL provider))"

definition buildProviderTransport :: "(gostring \<Rightarrow> url_parts option) \<Rightarrow> Provider \<Rightarrow> gw_error + http_client" where
  "buildProviderTransport parse provider =
    (case ValidateProviderProxyConfig parse (p_ProxyEnabled provider) (p_ProxyURL provider) of
       Some e \<Rightarrow> Inl e
     | None \<Rightarrow>
         if \<not> p_ProxyEnabled provider then Inr DirectClient
         else
           let rawProxyURL = TrimSpace (p_ProxyURL provider) in
           case parse rawProxyURL of
             None \<Rightarrow> Inl ErrProxyURLInvalid
           | Some u \<Rightarrow> if url_Host u = [] \<or> url_Scheme u = [] then Inl ErrProxyURLInvalid else Inr (ProxyClient rawProxyURL))"

definition getRelayHTTPClientForProvider ::
  "(gostring \<Rightarrow> url_parts option) \<Rightarrow> Provider \<Rightarrow> (gostring, http_client) gomap \<Rightarrow> (gw_error + http_client) \<times> (gostring, http_client) gomap" where
  "getRelayHTTPClientForProvider parse provider clients =
    (let key = relayClientCacheKey provider in
     case mget clients key of
       Some client \<Rightarrow> (Inr client, clients)
     | None \<Rightarrow>
         (case buildProviderTransport parse provider of
            Inl e \<Rightarrow> (Inl e, clients)
          | Inr client \<Rightarrow> (Inr client, mput key client clients)))"

subsection \<open>Provider health\<close>

definition isProviderReachabilityStatus :: "int \<Rightarrow> bool" where
  "isProviderReachabilityStatus statusCode \<longleftrightarrow> statusCode = 502 \<or> statusCode = 503 \<or> statusCode = 504"

definition classifyProviderReachabilityProxyError :: "ProxyAttemptError option \<Rightarrow> gostring option" where
  "classifyProviderReachabilityProxyError err =
    (case err of
       None \<Rightarrow> None
     | Some e \<Rightarrow>
         if pa_FailureCategory e = UsageFailureCategoryTransport \<or> isProviderReachabilityStatus (pa_StatusCode e)
         then Some (TrimSpace (pa_Message e)) else None)"

definition markProviderHealthFailure :: "proxy_env \<Rightarrow> Provider \<Rightarrow> gostring \<Rightarrow> world \<Rightarrow> world" where
  "markProviderHealthFailure env provider reason w =
    (case MarkHealthFailure (pe_now env) (SanitizeProviderSensitiveText (pe_parse_url env) (Some provider) reason) provider (w_db w) of
       Inl e \<Rightarrow> w
     | Inr (p, d) \<Rightarrow> w\<lparr>w_db := d, w_caches := invalidateModelRouteCaches (w_caches w)\<rparr>)"

definition markProviderHealthSuccess :: "proxy_env \<Rightarrow> Provider \<Rightarrow> world \<Rightarrow> world" where
  "markProviderHealthSuccess env provider w =
    (case MarkHealthSuccess (pe_now env) provider (w_db w) of
       Inl e \<Rightarrow> w
     | Inr (p, d) \<Rightarrow> w\<lparr>w_db := d, w_caches := invalidateModelRouteCaches (w_caches w)\<rparr>)"

definition note_outcome :: "proxy_env \<Rightarrow> Provider \<Rightarrow> ProxyAttemptError option \<times> world \<Rightarrow> ProxyAttemptError option \<times> world" where
  \<comment> \<open>what follows both response handlers\<close>
  "note_outcome env provider r =
    (case r of (proxyErr, w) \<Rightarrow>
      (proxyErr,
       (case proxyErr of
          None \<Rightarrow> markProviderHealthSuccess env provider w
        | Some e \<Rightarrow> (case classifyProviderReachabilityProxyError (Some e) of
              Some reason \<Rightarrow> markProviderHealthFailure env provider reason w
            | None \<Rightarrow> w))))"

subsection \<open>The usage log\<close>

definition getRelayRequestID :: "gin_context \<Rightarrow> gostring \<Rightarrow> gostring" where
  "getRelayRequestID c requestId =
    (let relayRequestID = TrimSpace (gc_relay_request_id c) in if relayRequestID = [] then ''legacy-'' @ requestId else relayRequestID)"

definition getRelayAttemptIndex :: "gin_context \<Rightarrow> int" where
  "getRelayAttemptIndex c = (if gc_relay_attempt_index c > 0 then gc_relay_attempt_index c else 1)"

definition complete_usage :: "gin_context \<Rightarrow> Provider \<Rightarrow> db \<Rightarrow> usageMetrics \<Rightarrow> usageMetrics" where
  \<comment> \<open>the defaults and the estimate of \<open>logUsage\<close>\<close>
  "complete_usage c provider d usage =
    (let usage = (if um_ModelName usage = [] then usage\<lparr>um_ModelName := getContextModelName c\<rparr> else usage);
         usage = (if TrimSpace (um_UsageSource usage) = [] then usage\<lparr>um_UsageSource := UsageSourceMissing\<rparr> else usage);
         usage = (if TrimSpace (um_UsageParser usage) = [] then usage\<lparr>um_UsageParser := ''none''\<rparr> else usage)
     in if um_CostUSD usage \<le> 0 then
          let estimated = estimateUsageCostUSD (p_Id provider) (um_ModelName usage) (um_PromptTokens usage) (um_CompletionTokens usage) d;
              usage = usage\<lparr>um_CostUSD := estimated\<rparr>
          in if estimated > 0 \<and> um_UsageSource usage = UsageSourceMissing
             then usage\<lparr>um_UsageSource := UsageSourceEstimated, um_UsageParser := ''cost-estimator''\<rparr> else usage
        else usage)"

definition UsageLog_Insert :: "gotime \<Rightarrow> UsageLog \<Rightarrow> db \<Rightarrow> db" where
  "UsageLog_Insert now l d =
    (let l = (if TrimSpace (ul_UsageSource l) = [] then l\<lparr>ul_UsageSource := UsageSourceMissing\<rparr> else l);
         l = (if TrimSpace (ul_UsageParser l) = [] then l\<lparr>ul_UsageParser := ''none''\<rparr> else l);
         l = l\<lparr>ul_CreatedAt := Unix now, ul_Id := next_row_id ul_Id (db_logs d)\<rparr>
     in d\<lparr>db_logs := db_logs d @ [l]\<rparr>)"

definition logUsage ::
  "proxy_env \<Rightarrow> AggregatedToken \<Rightarrow> Provider \<Rightarrow> ProviderToken \<Rightarrow> gin_context \<Rightarrow> usageMetrics \<Rightarrow> bool \<Rightarrow> int \<Rightarrow> int
   \<Rightarrow> gostring \<Rightarrow> gostring \<Rightarrow> gostring \<Rightarrow> int \<Rightarrow> world \<Rightarrow> world" where
  "logUsage env aggToken provider token c usage isStream firstTokenMs responseTimeMs errorMsg failureCategory invalidReason transportStatusCode w =
    (let status = (if errorMsg \<noteq> [] then 0 else 1);
         usage = complete_usage c provider (w_db w) usage;
         l = \<lparr>ul_Id = 0, ul_UserId = at_UserId aggToken, ul_AggregatedTokenId = at_Id aggToken, ul_ProviderId = p_Id provider,
              ul_ProviderName = p_Name provider, ul_ProviderTokenId = pt_Id token, ul_ModelName = um_ModelName usage,
              ul_PromptTokens = um_PromptTokens usage, ul_CompletionTokens = um_CompletionTokens usage, ul_CacheTokens = um_CacheTokens usage,
              ul_CacheCreationTokens = um_CacheCreationTokens usage, ul_CacheCreation5mTokens = um_CacheCreation5mTokens usage,
              ul_CacheCreation1hTokens = um_CacheCreation1hTokens usage, ul_ResponseTimeMs = responseTimeMs, ul_FirstTokenMs = firstTokenMs,
              ul_IsStream = isStream, ul_CostUSD = um_CostUSD usage, ul_Status = status, ul_ErrorMessage = errorMsg,
              ul_FailureCategory = TrimSpace failureCategory, ul_InvalidReason = TrimSpace invalidReason,
              ul_TransportStatusCode = transportStatusCode, ul_ClientIp = gc_ClientIP c, ul_RequestId = pe_request_id env,
              ul_RelayRequestId = getRelayRequestID c (pe_request_id env), ul_AttemptIndex = getRelayAttemptIndex c,
              ul_RequestModelOriginal = TrimSpace (gc_request_model_original c), ul_RequestModelCanonical = TrimSpace (gc_request_model_canonical c),
              ul_RequestModelResolved = TrimSpace (gc_request_model_resolved c), ul_UsageSource = um_UsageSource usage,
              ul_UsageParser = um_UsageParser usage, ul_CreatedAt = 0\<rparr>
     in w\<lparr>w_db := UsageLog_Insert (pe_now env) l (w_db w)\<rparr>)"

subsection \<open>Responses\<close>

datatype body_read = BodyOk gostring | BodyFailed gostring

record http_response =
  rs_StatusCode :: int
  rs_Header :: "(gostring \<times> gostring list) list"
  rs_Body :: body_read
  rs_Lines :: "gostring list"
  rs_ScanErr :: "gostring option"

datatype transport_result = TransportError gostring | Response http_response

definition response_content_type :: "http_response \<Rightarrow> gostring" where
  "response_content_type resp =
    (case find (\<lambda>kv. ToLower (fst kv) = ''content-type'') (rs_Header resp) of Some (k, v # vs) \<Rightarrow> v | _ \<Rightarrow> [])"

definition copyUpstreamResponseHeaders :: "http_response \<Rightarrow> client_writer \<Rightarrow> client_writer" where
  "copyUpstreamResponseHeaders resp cw =
    cw\<lparr>cw_Header := cw_Header cw @
      concat (map (\<lambda>(key, vs). if ToLower key = ''transfer-encoding'' \<or> ToLower key = ''connection'' then [] else map (Pair key) vs) (rs_Header resp))\<rparr>"

definition write_status :: "int \<Rightarrow> client_writer \<Rightarrow> client_writer" where
  "write_status code cw = cw\<lparr>cw_Status := Some code\<rparr>"

definition write_body :: "gostring \<Rightarrow> client_writer \<Rightarrow> client_writer" where
  "write_body s cw = cw\<lparr>cw_Body := cw_Body cw @ s\<rparr>"

definition set_header :: "gostring \<Rightarrow> gostring \<Rightarrow> client_writer \<Rightarrow> client_writer" where
  "set_header k v cw = cw\<lparr>cw_Header := filter (\<lambda>kv. ToLower (fst kv) \<noteq> ToLower k) (cw_Header cw) @ [(k, v)]\<rparr>"

definition with_model :: "gin_context \<Rightarrow> usageMetrics \<Rightarrow> usageMetrics" where
  \<comment> \<open>\<open>if usage.ModelName == "" { usage.ModelName = getContextModelName(c) }\<close>\<close>
  "with_model c usage = (if um_ModelName usage = [] then usage\<lparr>um_ModelName := getContextModelName c\<rparr> else usage)"

definition context_usage :: "gin_context \<Rightarrow> usageMetrics" where
  \<comment> \<open>\<open>usageMetrics{ModelName: getContextModelName(c)}\<close>\<close>
  "context_usage c = zero_usage\<lparr>um_ModelName := getContextModelName c\<rparr>"

definition retryable_error :: "int \<Rightarrow> gostring \<Rightarrow> gostring \<Rightarrow> gostring \<Rightarrow> ProxyAttemptError" where
  "retryable_error code msg category reason =
    \<lparr>pa_StatusCode = code, pa_Message = msg, pa_Retryable = True, pa_FailureCategory = category, pa_InvalidReason = reason\<rparr>"

definition proxyNonStreamResponse ::
  "proxy_env \<Rightarrow> gin_context \<Rightarrow> http_response \<Rightarrow> AggregatedToken \<Rightarrow> Provider \<Rightarrow> ProviderToken \<Rightarrow> gostring \<Rightarrow> bool \<Rightarrow> bool \<Rightarrow> world
   \<Rightarrow> ProxyAttemptError option \<times> world" where
  "proxyNonStreamResponse env c resp aggToken provider token bodyBytes validateResponse enforceResponse w =
    (let log = (\<lambda>usage msg category reason w. logUsage env aggToken provider token c usage False 0 (pe_elapsed_ms env) msg category reason (rs_StatusCode resp) w);
         deliver = (\<lambda>respBody w. w\<lparr>w_writer := write_body respBody (write_status (rs_StatusCode resp) (copyUpstreamResponseHeaders resp (w_writer w)))\<rparr>)
     in case rs_Body resp of
       BodyFailed readErr \<Rightarrow>
         let errorMsg = buildErrorMessage env (''failed to read upstream response body: '' @ readErr) c bodyBytes
         in (Some (retryable_error (rs_StatusCode resp) errorMsg UsageFailureCategoryReadError ''body_read_failed''),
             log (context_usage c) errorMsg UsageFailureCategoryReadError ''body_read_failed'' w)
     | BodyOk respBody \<Rightarrow>
         let usage = with_model c (extractUsageAndModelFromJSON respBody);
             validation = validateNonStreamResponse (gc_Path c) respBody validateResponse
         in if \<not> rv_Valid validation then
              (if enforceResponse then
                 let errorMsg = buildErrorMessage env (rv_Message validation) c bodyBytes
                 in (Some (retryable_error (rs_StatusCode resp) errorMsg (rv_FailureCategory validation) (rv_InvalidReason validation)),
                     log usage errorMsg (rv_FailureCategory validation) (rv_InvalidReason validation) w)
               else (None, log usage [] (rv_FailureCategory validation) (rv_InvalidReason validation) (deliver respBody w)))
            else (None, log usage [] [] [] (deliver respBody w)))"

subsection \<open>Streams\<close>

record stream_state =
  st_committed :: bool
  st_pendingLines :: "gostring list"
  st_meaningfulDelta :: bool
  st_invalidReason :: gostring
  st_failureCategory :: gostring
  st_streamUsage :: usageMetrics
  st_firstTokenMs :: int
  st_writer :: client_writer

definition writeLine :: "gostring \<Rightarrow> client_writer \<Rightarrow> client_writer" where
  "writeLine line cw = write_body (line @ [CHR 0x0A]) cw"

definition commitResponse :: "http_response \<Rightarrow> stream_state \<Rightarrow> stream_state" where
  "commitResponse resp s =
    (if st_committed s then s
     else
       let cw = copyUpstreamResponseHeaders resp (st_writer s);
           cw = set_header ''Connection'' ''keep-alive'' (set_header ''Cache-Control'' ''no-cache'' cw);
           cw = write_status (rs_StatusCode resp) cw
       in s\<lparr>st_writer := fold writeLine (st_pendingLines s) cw, st_pendingLines := [], st_committed := True\<rparr>)"

definition scan_line ::
  "proxy_env \<Rightarrow> gin_context \<Rightarrow> http_response \<Rightarrow> bool \<Rightarrow> bool \<Rightarrow> nat \<times> gostring \<Rightarrow> stream_state \<Rightarrow> stream_state" where
  \<comment> \<open>one round of the scanning loop, for the line with its number\<close>
  "scan_line env c resp validateResponse enforceResponse il s =
    (let line = snd il; (currentUsage, hasData) = extractUsageAndModelFromSSELine line;
         s = (if hasData \<and> st_firstTokenMs s = 0 then s\<lparr>st_firstTokenMs := pe_line_ms env (fst il)\<rparr> else s);
         s = s\<lparr>st_streamUsage := mergeUsageMetrics (st_streamUsage s) currentUsage\<rparr>;
         cl = classifySSEDataLine (gc_Path c) line validateResponse;
         note_reason = (\<lambda>b s. if b \<and> st_invalidReason s = [] then s\<lparr>st_invalidReason := sl_InvalidReason cl, st_failureCategory := sl_FailureCategory cl\<rparr> else s);
         s = note_reason (sl_ErrorEnvelope cl) (note_reason (sl_ParseFailed cl) s);
         s = (if sl_MeaningfulDelta cl then s\<lparr>st_meaningfulDelta := True\<rparr> else s)
     in if enforceResponse \<and> \<not> st_committed s then
          let s = s\<lparr>st_pendingLines := st_pendingLines s @ [line]\<rparr>
          in if st_meaningfulDelta s then commitResponse resp s else s
        else s\<lparr>st_writer := writeLine line (st_writer s)\<rparr>)"

definition stream_start :: "http_response \<Rightarrow> bool \<Rightarrow> client_writer \<Rightarrow> stream_state" where
  "stream_start resp enforceResponse cw =
    (let s = \<lparr>st_committed = False, st_pendingLines = [], st_meaningfulDelta = False, st_invalidReason = [], st_failureCategory = [],
              st_streamUsage = zero_usage, st_firstTokenMs = 0, st_writer = cw\<rparr>
     in if enforceResponse then s else commitResponse resp s)"

definition scan_stream :: "proxy_env \<Rightarrow> gin_context \<Rightarrow> http_response \<Rightarrow> bool \<Rightarrow> bool \<Rightarrow> client_writer \<Rightarrow> stream_state" where
  "scan_stream env c resp validateResponse enforceResponse cw =
    fold (scan_line env c resp validateResponse enforceResponse) (List.enumerate 0 (rs_Lines resp)) (stream_start resp enforceResponse cw)"

definition proxyStreamResponse ::
  "proxy_env \<Rightarrow> gin_context \<Rightarrow> http_response \<Rightarrow> AggregatedToken \<Rightarrow> Provider \<Rightarrow> ProviderToken \<Rightarrow> gostring \<Rightarrow> bool \<Rightarrow> bool \<Rightarrow> world
   \<Rightarrow> ProxyAttemptError option \<times> world" where
  "proxyStreamResponse env c resp aggToken provider token bodyBytes validateResponse enforceResponse w =
    (let s = scan_stream env c resp validateResponse enforceResponse (w_writer w);
         w = w\<lparr>w_writer := st_writer s\<rparr>;
         usage = with_model c (st_streamUsage s);
         log = (\<lambda>msg category reason w. logUsage env aggToken provider token c usage True (st_firstTokenMs s) (pe_elapsed_ms env) msg category reason (rs_StatusCode resp) w)
     in case rs_ScanErr resp of
       Some scanErr \<Rightarrow>
         let errorMsg = buildErrorMessage env (''stream scanner error: '' @ scanErr) c bodyBytes
         in if \<not> st_committed s then
              (Some (retryable_error (rs_StatusCode resp) errorMsg UsageFailureCategoryReadError ''stream_read_failed''),
               log errorMsg UsageFailureCategoryReadError ''stream_read_failed'' w)
            else (None, log errorMsg UsageFailureCategoryReadError ''stream_read_failed_after_commit'' w)
     | None \<Rightarrow>
         if validateResponse \<and> \<not> st_meaningfulDelta s then
           let invalidReason = (if st_invalidReason s = [] then ''stream_no_meaningful_delta'' else st_invalidReason s);
               failureCategory = (if st_failureCategory s = [] then UsageFailureCategoryInvalidResponse else st_failureCategory s)
           in if enforceResponse then
                let errorMsg = buildErrorMessage env (''invalid stream response: '' @ invalidReason) c bodyBytes
                in (Some (retryable_error (rs_StatusCode resp) errorMsg failureCategory invalidReason),
                    log errorMsg failureCategory invalidReason w)
              else (None, log [] failureCategory invalidReason w)
         else (None, log [] [] [] w))"

subsection \<open>The attempt\<close>

definition final_error :: "int \<Rightarrow> gostring \<Rightarrow> ProxyAttemptError" where
  \<comment> \<open>an error that is not retried\<close>
  "final_error code msg = \<lparr>pa_StatusCode = code, pa_Message = msg, pa_Retryable = False, pa_FailureCategory = [], pa_InvalidReason = []\<rparr>"

definition handle_response ::
  "proxy_env \<Rightarrow> gin_context \<Rightarrow> http_response \<Rightarrow> AggregatedToken \<Rightarrow> Provider \<Rightarrow> ProviderToken \<Rightarrow> gostring \<Rightarrow> world
   \<Rightarrow> ProxyAttemptError option \<times> world" where
  \<comment> \<open>step 10 of \<open>ProxyToUpstream\<close>, an answer of the upstream\<close>
  "handle_response env c resp aggToken provider token bodyBytes w =
    (let mode = GetRelayResponseValidityMode (pe_options env);
         validateResponse = (mode \<noteq> ''off''); enforceResponse = (mode = ''enforce'');
         isStream = StrContains (response_content_type resp) ''text/event-stream'';
         log = (\<lambda>usage msg category reason w. logUsage env aggToken provider token c usage isStream 0 (pe_elapsed_ms env) msg category reason (rs_StatusCode resp) w)
     in if rs_StatusCode resp \<ge> 400 then
          (case rs_Body resp of
             BodyFailed readErr \<Rightarrow>
               let errorMsg = buildErrorMessage env
                     (''upstream status '' @ Itoa (rs_StatusCode resp) @ '' and failed to read response body: '' @ readErr) c bodyBytes
               in (Some (retryable_error (rs_StatusCode resp) errorMsg UsageFailureCategoryReadError ''upstream_status_body_read_failed''),
                   log (context_usage c) errorMsg UsageFailureCategoryReadError ''upstream_status_body_read_failed'' w)
           | BodyOk respBody \<Rightarrow>
               let usage = with_model c (extractUsageAndModelFromJSON respBody);
                   errorMsg = buildErrorMessage env (''upstream status '' @ Itoa (rs_StatusCode resp) @ '': '' @ respBody) c bodyBytes;
                   w = log usage errorMsg UsageFailureCategoryUpstream [] w;
                   w = (if isProviderReachabilityStatus (rs_StatusCode resp) then markProviderHealthFailure env provider errorMsg w else w)
               in (Some (retryable_error (rs_StatusCode resp) errorMsg UsageFailureCategoryUpstream []), w))
        else if isStream then
          note_outcome env provider (proxyStreamResponse env c resp aggToken provider token bodyBytes validateResponse enforceResponse w)
        else
          note_outcome env provider (proxyNonStreamResponse env c resp aggToken provider token bodyBytes validateResponse enforceResponse w))"

definition ProxyToUpstream ::
  "proxy_env \<Rightarrow> (http_client \<Rightarrow> outgoing_request \<Rightarrow> transport_result) \<Rightarrow> gin_context \<Rightarrow> AggregatedToken \<Rightarrow> ProviderToken \<Rightarrow> Provider \<Rightarrow> world
   \<Rightarrow> ProxyAttemptError option \<times> world" where
  \<comment> \<open>the result \<open>None\<close> is success\<close>
  "ProxyToUpstream env net c aggToken token provider w =
    (case gc_Body c of
       None \<Rightarrow> (Some (final_error 400 ''failed to read request body''), w)
     | Some rawBody \<Rightarrow>
         let resolvedModel = (if TrimSpace (gc_request_model_resolved c) = [] then getContextModelName c else TrimSpace (gc_request_model_resolved c));
             bodyBytes = rewriteRequestModel (pe_marshal env) rawBody resolvedModel;
             url = upstreamURL c provider
         in if \<not> pe_request_ok env (gc_Method c) url then (Some (final_error 500 ''failed to create upstream request''), w)
            else
              let req = \<lparr>og_Method = gc_Method c, og_URL = url, og_Header = upstreamHeaders c (pt_SkKey token), og_Body = bodyBytes\<rparr>;
                  (client, clients) = getRelayHTTPClientForProvider (pe_parse_url env) provider (w_clients w);
                  w = w\<lparr>w_clients := clients\<rparr>
              in case client of
                   Inl e \<Rightarrow>
                     let txt = SanitizeProviderSensitiveText (pe_parse_url env) (Some provider) (pe_error_text env e);
                         errorMsg = buildErrorMessage env txt c bodyBytes
                     in (Some (retryable_error 502 txt UsageFailureCategoryTransport []),
                         logUsage env aggToken provider token c (context_usage c) False 0 0 errorMsg UsageFailureCategoryTransport [] 0 w)
                 | Inr cl \<Rightarrow>
                     (case net cl req of
                        TransportError err \<Rightarrow>
                          let sanitizedErr = SanitizeProviderSensitiveText (pe_parse_url env) (Some provider) err;
                              errorMsg = buildErrorMessage env sanitizedErr c bodyBytes;
                              w = logUsage env aggToken provider token c (context_usage c) False 0 0 errorMsg UsageFailureCategoryTransport [] 0 w
                          in (Some (retryable_error 502 (''upstream request failed: '' @ sanitizedErr) UsageFailureCategoryTransport []),
                              markProviderHealthFailure env provider sanitizedErr w)
                      | Response resp \<Rightarrow> handle_response env c resp aggToken provider token bodyBytes w))"

subsection \<open>What an attempt leaves untouched\<close>

lemma markProviderHealthFailure_frame [simp]:
  "w_writer (markProviderHealthFailure env p r w) = w_writer w"
  "db_logs (w_db (markProviderHealthFailure env p r w)) = db_logs (w_db w)"
  "w_clients (markProviderHealthFailure env p r w) = w_clients w"
  by (auto simp: markProviderHealthFailure_def MarkHealthFailure_def Let_def)

lemma markProviderHealthSuccess_frame [simp]:
  "w_writer (markProviderHealthSuccess env p w) = w_writer w"
  "db_logs (w_db (markProviderHealthSuccess env p w)) = db_logs (w_db w)"
  "w_clients (markProviderHealthSuccess env p w) = w_clients w"
  by (auto simp: markProviderHealthSuccess_def MarkHealthSuccess_def Let_def)

lemma note_outcome_frame [simp]:
  "fst (note_outcome env p r) = fst r"
  "w_writer (snd (note_outcome env p r)) = w_writer (snd r)"
  "db_logs (w_db (snd (note_outcome env p r))) = db_logs (w_db (snd r))"
  by (auto simp: note_outcome_def split: prod.splits option.splits)

lemma logUsage_frame [simp]:
  "w_writer (logUsage env a p t c u st ft rt msg cat rs code w) = w_writer w"
  "w_clients (logUsage env a p t c u st ft rt msg cat rs code w) = w_clients w"
  by (simp_all add: logUsage_def Let_def)

definition attempt_log :: "UsageLog \<Rightarrow> proxy_env \<Rightarrow> gin_context \<Rightarrow> AggregatedToken \<Rightarrow> ProviderToken \<Rightarrow> Provider \<Rightarrow> bool" where
  \<comment> \<open>a row that belongs to this attempt\<close>
  "attempt_log l env c a t p \<longleftrightarrow>
    ul_UserId l = at_UserId a \<and> ul_AggregatedTokenId l = at_Id a \<and> ul_ProviderId l = p_Id p \<and> ul_ProviderTokenId l = pt_Id t
    \<and> ul_AttemptIndex l = getRelayAttemptIndex c \<and> ul_RelayRequestId l = getRelayRequestID c (pe_request_id env)
    \<and> ul_CreatedAt l = Unix (pe_now env)"

lemma logUsage_appends:
  "\<exists>l. db_logs (w_db (logUsage env a p t c u st ft rt msg cat rs code w)) = db_logs (w_db w) @ [l]
    \<and> attempt_log l env c a t p \<and> ul_Status l = (if msg \<noteq> [] then 0 else 1) \<and> ul_ErrorMessage l = msg
    \<and> ul_TransportStatusCode l = code \<and> ul_FailureCategory l = TrimSpace cat \<and> ul_InvalidReason l = TrimSpace rs"
  by (simp add: logUsage_def UsageLog_Insert_def attempt_log_def Let_def)

lemma requestBodyForErrorLog_nonempty: "requestBodyForErrorLog env c b \<noteq> []"
  by (simp add: requestBodyForErrorLog_def Let_def)

lemma buildErrorMessage_nonempty [simp]: "buildErrorMessage env base c b \<noteq> []"
  using requestBodyForErrorLog_nonempty [of env c b] by (simp add: buildErrorMessage_def truncated_def Let_def)

subsection \<open>The stream\<close>

definition sse_text :: "gostring list \<Rightarrow> gostring" where
  "sse_text lines = concat (map (\<lambda>l. l @ [CHR 0x0A]) lines)"

lemma sse_text_simps [simp]: "sse_text [] = []" "sse_text (xs @ [x]) = sse_text xs @ x @ [CHR 0x0A]"
  by (simp_all add: sse_text_def)

lemma writeLine_simps [simp]:
  "cw_Status (writeLine l cw) = cw_Status cw" "cw_Body (writeLine l cw) = cw_Body cw @ l @ [CHR 0x0A]"
  by (simp_all add: writeLine_def write_body_def)

lemma fold_writeLine [simp]:
  "cw_Status (fold writeLine ls cw) = cw_Status cw" "cw_Body (fold writeLine ls cw) = cw_Body cw @ sse_text ls"
  by (induction ls arbitrary: cw) (simp_all add: sse_text_def)

lemma commitResponse_writer:
  assumes "\<not> st_committed s"
  shows "cw_Status (st_writer (commitResponse resp s)) = Some (rs_StatusCode resp)"
    and "cw_Body (st_writer (commitResponse resp s)) = cw_Body (st_writer s) @ sse_text (st_pendingLines s)"
    and "st_pendingLines (commitResponse resp s) = []"
  using assms by (simp_all add: commitResponse_def Let_def set_header_def copyUpstreamResponseHeaders_def write_status_def)

lemma commitResponse_flags [simp]:
  "st_committed (commitResponse resp s)" "st_meaningfulDelta (commitResponse resp s) = st_meaningfulDelta s"
  by (simp_all add: commitResponse_def Let_def)

definition meaningful_line :: "gin_context \<Rightarrow> bool \<Rightarrow> gostring \<Rightarrow> bool" where
  "meaningful_line c validate line = sl_MeaningfulDelta (classifySSEDataLine (gc_Path c) line validate)"

definition stream_inv :: "gin_context \<Rightarrow> http_response \<Rightarrow> bool \<Rightarrow> bool \<Rightarrow> client_writer \<Rightarrow> gostring list \<Rightarrow> stream_state \<Rightarrow> bool" where
  \<comment> \<open>after the lines \<open>seen\<close>: all or nothing of them is with the client\<close>
  "stream_inv c resp v e cw seen s \<longleftrightarrow>
    (st_meaningfulDelta s \<longleftrightarrow> list_ex (meaningful_line c v) seen) \<and>
    (if st_committed s then
       (e \<longrightarrow> st_meaningfulDelta s) \<and> st_pendingLines s = [] \<and>
       cw_Status (st_writer s) = Some (rs_StatusCode resp) \<and> cw_Body (st_writer s) = cw_Body cw @ sse_text seen
     else e \<and> \<not> st_meaningfulDelta s \<and> st_writer s = cw \<and> st_pendingLines s = seen)"

lemma stream_inv_start: "stream_inv c resp v e cw [] (stream_start resp e cw)"
  by (simp add: stream_inv_def stream_start_def commitResponse_def Let_def set_header_def copyUpstreamResponseHeaders_def write_status_def)

lemma scan_line_flags:
  "st_meaningfulDelta (scan_line env c resp v e il s) = (st_meaningfulDelta s \<or> meaningful_line c v (snd il))"
  by (simp add: scan_line_def Let_def meaningful_line_def split: prod.split)

lemma scan_line_committed:
  assumes "st_committed s"
  shows "st_committed (scan_line env c resp v e il s)" "st_pendingLines (scan_line env c resp v e il s) = st_pendingLines s"
    "st_writer (scan_line env c resp v e il s) = writeLine (snd il) (st_writer s)"
  using assms by (simp_all add: scan_line_def Let_def split: prod.split)

lemma scan_line_pending:
  assumes "\<not> st_committed s" and "e" and "\<not> st_meaningfulDelta s"
  shows "if meaningful_line c v (snd il)
    then st_committed (scan_line env c resp v e il s) \<and> st_pendingLines (scan_line env c resp v e il s) = []
      \<and> cw_Status (st_writer (scan_line env c resp v e il s)) = Some (rs_StatusCode resp)
      \<and> cw_Body (st_writer (scan_line env c resp v e il s)) = cw_Body (st_writer s) @ sse_text (st_pendingLines s @ [snd il])
    else \<not> st_committed (scan_line env c resp v e il s) \<and> st_writer (scan_line env c resp v e il s) = st_writer s
      \<and> st_pendingLines (scan_line env c resp v e il s) = st_pendingLines s @ [snd il]"
  using assms by (simp add: scan_line_def Let_def meaningful_line_def commitResponse_writer split: prod.split)

lemma stream_inv_step:
  assumes "stream_inv c resp v e cw seen s"
  shows "stream_inv c resp v e cw (seen @ [snd il]) (scan_line env c resp v e il s)"
proof (cases "st_committed s")
  case True
  then show ?thesis using assms by (auto simp: stream_inv_def scan_line_flags scan_line_committed)
next
  case False
  then have "e" "\<not> st_meaningfulDelta s" "st_writer s = cw" "st_pendingLines s = seen" "\<not> list_ex (meaningful_line c v) seen"
    using assms by (auto simp: stream_inv_def)
  then show ?thesis
    using assms False scan_line_pending [of s e c v il env resp]
    by (cases "meaningful_line c v (snd il)") (auto simp: stream_inv_def scan_line_flags)
qed

lemma stream_inv_fold:
  "stream_inv c resp v e cw seen s
    \<Longrightarrow> stream_inv c resp v e cw (seen @ map snd ils) (fold (scan_line env c resp v e) ils s)"
proof (induction ils arbitrary: seen s)
  case (Cons il ils)
  then show ?case using stream_inv_step [OF Cons.prems, of il env] Cons.IH [of "seen @ [snd il]"] by simp
qed simp

lemma scan_stream_inv: "stream_inv c resp v e cw (rs_Lines resp) (scan_stream env c resp v e cw)"
  using stream_inv_fold [OF stream_inv_start, where ils = "List.enumerate 0 (rs_Lines resp)" and env = env]
  by (simp add: scan_stream_def)


subsection \<open>The outcome of an attempt\<close>

definition meaningful_response :: "gin_context \<Rightarrow> http_response \<Rightarrow> bool" where
  \<comment> \<open>what the enforced validity mode demands of an answer\<close>
  "meaningful_response c resp \<longleftrightarrow>
    (if StrContains (response_content_type resp) ''text/event-stream'' then list_ex (meaningful_line c True) (rs_Lines resp)
     else (case rs_Body resp of BodyOk b \<Rightarrow> rv_Valid (validateNonStreamResponse (gc_Path c) b True) | _ \<Rightarrow> False))"

definition response_text :: "http_response \<Rightarrow> gostring option" where
  \<comment> \<open>the body the client gets for an answer of the upstream\<close>
  "response_text resp =
    (if StrContains (response_content_type resp) ''text/event-stream'' then Some (sse_text (rs_Lines resp))
     else (case rs_Body resp of BodyOk b \<Rightarrow> Some b | _ \<Rightarrow> None))"

definition attempt_spec ::
  "proxy_env \<Rightarrow> gin_context \<Rightarrow> AggregatedToken \<Rightarrow> ProviderToken \<Rightarrow> Provider \<Rightarrow> world \<Rightarrow> http_response
   \<Rightarrow> ProxyAttemptError option \<times> world \<Rightarrow> bool" where
  \<comment> \<open>what the response handlers promise\<close>
  "attempt_spec env c a t p w resp r \<longleftrightarrow>
    (\<exists>l. db_logs (w_db (snd r)) = db_logs (w_db w) @ [l] \<and> attempt_log l env c a t p \<and>
      (case fst r of
         Some e \<Rightarrow> w_writer (snd r) = w_writer w \<and> pa_Retryable e \<and> ul_Status l = 0
       | None \<Rightarrow>
           rs_StatusCode resp < 400 \<and> cw_Status (w_writer (snd r)) = Some (rs_StatusCode resp) \<and>
           (\<exists>b. response_text resp = Some b \<and> cw_Body (w_writer (snd r)) = cw_Body (w_writer w) @ b) \<and>
           (GetRelayResponseValidityMode (pe_options env) = ''enforce'' \<longrightarrow> meaningful_response c resp) \<and>
           (ul_Status l = 1 \<or> rs_ScanErr resp \<noteq> None \<and> StrContains (response_content_type resp) ''text/event-stream'')))"


lemma attempt_spec_cong:
  assumes "fst r = fst r'" and "w_writer (snd r) = w_writer (snd r')" and "db_logs (w_db (snd r)) = db_logs (w_db (snd r'))"
  shows "attempt_spec env c a t p w resp r \<longleftrightarrow> attempt_spec env c a t p w resp r'"
  using assms by (cases "fst r'") (simp_all add: attempt_spec_def)

lemma attempt_spec_start:
  assumes "w_writer w1 = w_writer w2" and "db_logs (w_db w1) = db_logs (w_db w2)"
  shows "attempt_spec env c a t p w1 resp r \<longleftrightarrow> attempt_spec env c a t p w2 resp r"
  using assms by (cases "fst r") (simp_all add: attempt_spec_def)

lemma attempt_spec_error:
  assumes "w_writer w' = w_writer w" and "db_logs (w_db w') = db_logs (w_db w)" and "pa_Retryable e" and "msg \<noteq> []"
  shows "attempt_spec env c a t p w resp (Some e, logUsage env a p t c u st ft rt msg cat rs code w')"
  using logUsage_appends [of env a p t c u st ft rt msg cat rs code w'] assms by (auto simp: attempt_spec_def)

lemma attempt_spec_unreachable:
  assumes "attempt_spec env c a t p w resp (Some e, w')"
  shows "attempt_spec env c a t p w resp (Some e, markProviderHealthFailure env q reason w')"
  using assms by (simp add: attempt_spec_def)

lemma attempt_spec_success:
  assumes "db_logs (w_db w') = db_logs (w_db w)" and "rs_StatusCode resp < 400" and "msg = [] \<or> rs_ScanErr resp \<noteq> None \<and> StrContains (response_content_type resp) ''text/event-stream''"
    and "cw_Status (w_writer w') = Some (rs_StatusCode resp)"
    and "response_text resp = Some b" and "cw_Body (w_writer w') = cw_Body (w_writer w) @ b"
    and "GetRelayResponseValidityMode (pe_options env) = ''enforce'' \<Longrightarrow> meaningful_response c resp"
  shows "attempt_spec env c a t p w resp (None, logUsage env a p t c u st ft rt msg cat rs code w')"
  using logUsage_appends [of env a p t c u st ft rt msg cat rs code w'] assms by (auto simp: attempt_spec_def)

lemma proxyNonStreamResponse_spec:
  assumes "rs_StatusCode resp < 400" and "\<not> StrContains (response_content_type resp) ''text/event-stream''"
    and "v = (GetRelayResponseValidityMode (pe_options env) \<noteq> ''off'')" and "e = (GetRelayResponseValidityMode (pe_options env) = ''enforce'')"
  shows "attempt_spec env c a t p w resp (proxyNonStreamResponse env c resp a p t body v e w)"
proof (cases "rs_Body resp")
  case (BodyOk b)
  then have text_eq: "response_text resp = Some b" using assms(2) by (simp add: response_text_def)
  show ?thesis
    using assms text_eq BodyOk
    by (auto simp: proxyNonStreamResponse_def Let_def retryable_error_def meaningful_response_def write_body_def write_status_def
        copyUpstreamResponseHeaders_def intro!: attempt_spec_success [OF _ assms(1)] attempt_spec_error)
next
  case (BodyFailed x)
  then show ?thesis
    by (auto simp: proxyNonStreamResponse_def Let_def retryable_error_def intro!: attempt_spec_error)
qed

lemma proxyStreamResponse_spec:
  assumes "rs_StatusCode resp < 400" and "StrContains (response_content_type resp) ''text/event-stream''"
    and "v = (GetRelayResponseValidityMode (pe_options env) \<noteq> ''off'')" and "e = (GetRelayResponseValidityMode (pe_options env) = ''enforce'')"
  shows "attempt_spec env c a t p w resp (proxyStreamResponse env c resp a p t body v e w)"
proof -
  define s where "s = scan_stream env c resp v e (w_writer w)"
  have inv: "stream_inv c resp v e (w_writer w) (rs_Lines resp) s" by (simp add: s_def scan_stream_inv)
  have text_eq: "response_text resp = Some (sse_text (rs_Lines resp))" using assms(2) by (simp add: response_text_def)
  have mean: "e \<Longrightarrow> st_meaningfulDelta s \<Longrightarrow> meaningful_response c resp"
    using inv assms by (simp add: stream_inv_def meaningful_response_def)
  have kept: "\<not> st_committed s \<Longrightarrow> st_writer s = w_writer w"
    using inv by (simp add: stream_inv_def)
  have sent: "st_committed s \<Longrightarrow> attempt_spec env c a t p w resp
      (None, logUsage env a p t c u st ft rt msg cat rs code (w\<lparr>w_writer := st_writer s\<rparr>))"
    if "msg = [] \<or> rs_ScanErr resp \<noteq> None" for u st ft rt msg cat rs code
    using inv mean that assms
    by (intro attempt_spec_success [OF _ assms(1) _ _ text_eq]) (auto simp: stream_inv_def)
  note parts = proxyStreamResponse_def Let_def retryable_error_def s_def [symmetric]
  show ?thesis
  proof (cases "rs_ScanErr resp")
    case (Some x)
    then show ?thesis
      using kept sent by (cases "st_committed s") (simp_all add: parts attempt_spec_error)
  next
    case None
    have committed: "st_committed s \<longleftrightarrow> \<not> e \<or> st_meaningfulDelta s"
      using inv by (auto simp: stream_inv_def split: if_splits)
    show ?thesis
    proof (cases "e \<and> \<not> st_meaningfulDelta s")
      case True
      then have "v" using assms by simp
      then show ?thesis
        unfolding proxyStreamResponse_def Let_def s_def [symmetric] using None True committed kept
        by (simp add: retryable_error_def attempt_spec_error)
    next
      case False
      then show ?thesis using None committed sent by (simp add: parts)
    qed
  qed
qed

lemma handle_response_spec: "attempt_spec env c a t p w resp (handle_response env c resp a p t body w)"
proof (cases "rs_StatusCode resp \<ge> 400")
  case True
  then show ?thesis
    by (cases "rs_Body resp")
      (auto simp: handle_response_def Let_def retryable_error_def intro!: attempt_spec_unreachable attempt_spec_error)
next
  case False
  then show ?thesis
    using proxyStreamResponse_spec [of resp, OF _ _ refl refl] proxyNonStreamResponse_spec [of resp, OF _ _ refl refl]
    by (simp add: handle_response_def Let_def attempt_spec_cong [OF note_outcome_frame])
qed

definition attempt_request :: "proxy_env \<Rightarrow> gin_context \<Rightarrow> ProviderToken \<Rightarrow> Provider \<Rightarrow> gostring \<Rightarrow> outgoing_request" where
  \<comment> \<open>the request an attempt sends for the client's body\<close>
  "attempt_request env c token provider raw =
    \<lparr>og_Method = gc_Method c, og_URL = upstreamURL c provider, og_Header = upstreamHeaders c (pt_SkKey token),
     og_Body = rewriteRequestModel (pe_marshal env) raw (getContextModelName c)\<rparr>"

lemma ProxyToUpstream_spec:
  "case ProxyToUpstream env net c a t p w of (r, w') \<Rightarrow>
    if (case r of Some e \<Rightarrow> pa_Retryable e | None \<Rightarrow> True)
    then (\<exists>resp. attempt_spec env c a t p w resp (r, w') \<and>
      (r = None \<longrightarrow> (\<exists>cl raw. gc_Body c = Some raw \<and> net cl (attempt_request env c t p raw) = Response resp)))
    else w' = w"
proof (cases "gc_Body c")
  case None
  then show ?thesis by (simp add: ProxyToUpstream_def final_error_def)
next
  case (Some raw)
  have model: "(if TrimSpace (gc_request_model_resolved c) = [] then getContextModelName c else TrimSpace (gc_request_model_resolved c))
      = getContextModelName c"
    by (simp add: getContextModelName_def)
  obtain client clients where cl: "getRelayHTTPClientForProvider (pe_parse_url env) p (w_clients w) = (client, clients)"
    by fastforce
  note parts = ProxyToUpstream_def Let_def model Some cl
  show ?thesis
  proof (cases "pe_request_ok env (gc_Method c) (upstreamURL c p)")
    case False
    then show ?thesis by (simp add: parts final_error_def)
  next
    case ok: True
    show ?thesis
    proof (cases client)
      case (Inl e)
      then show ?thesis using ok
        by (auto simp: parts retryable_error_def intro!: attempt_spec_error exI [of _ undefined])
    next
      case (Inr hc)
      let ?w = "w\<lparr>w_clients := clients\<rparr>"
      show ?thesis
      proof (cases "net hc (attempt_request env c t p raw)")
        case (TransportError err)
        then show ?thesis using ok Inr
          by (auto simp: parts retryable_error_def attempt_request_def
              intro!: exI [of _ undefined] attempt_spec_unreachable attempt_spec_error)
      next
        case (Response resp)
        let ?r = "handle_response env c resp a p t (og_Body (attempt_request env c t p raw)) ?w"
        have "attempt_spec env c a t p w resp ?r"
          using handle_response_spec by (rule attempt_spec_start [THEN iffD1, rotated 2]) simp_all
        moreover have "case fst ?r of Some e \<Rightarrow> pa_Retryable e | None \<Rightarrow> True"
          using calculation by (auto simp: attempt_spec_def split: option.splits)
        ultimately show ?thesis using ok Inr Response Some
          by (cases ?r) (auto simp: parts attempt_request_def)
      qed
    qed
  qed
qed

text \<open>
  C4: An attempt writes all or nothing to the client. An attempt that reports an error has not touched the
  response. An attempt that reports success got an answer below 400 to its request and wrote its
  status and exactly its body (for an event stream, every line), and with the validity guard in force
  that answer has actionable output.
\<close>

theorem proxy_all_or_nothing:
  "case ProxyToUpstream env net c aggToken token provider w of
     (Some e, w') \<Rightarrow> w_writer w' = w_writer w
   | (None, w') \<Rightarrow>
       (\<exists>client raw resp b. gc_Body c = Some raw \<and> net client (attempt_request env c token provider raw) = Response resp
         \<and> rs_StatusCode resp < 400 \<and> response_text resp = Some b
         \<and> cw_Status (w_writer w') = Some (rs_StatusCode resp) \<and> cw_Body (w_writer w') = cw_Body (w_writer w) @ b
         \<and> (if GetRelayResponseValidityMode (pe_options env) = ''enforce'' then meaningful_response c resp else True))"
  using ProxyToUpstream_spec [of env c aggToken token provider w net]
  by (auto simp: attempt_spec_def split: prod.splits option.splits if_splits)

text \<open>
  Every attempt that reaches the network leaves exactly one usage log, with the attempt's own user,
  token, provider, request and number. It has status 0 when the attempt reports an error and
  status 1 when it reports success, except for a stream that broke after the first output reached the client. An
  attempt that fails before the request is built leaves the world as it was and is not retried.
\<close>

theorem proxy_logs_attempt:
  "case ProxyToUpstream env net c aggToken token provider w of (r, w') \<Rightarrow>
     if (case r of Some e \<Rightarrow> pa_Retryable e | None \<Rightarrow> True)
     then (\<exists>l. db_logs (w_db w') = db_logs (w_db w) @ [l] \<and> attempt_log l env c aggToken token provider
            \<and> (case r of Some e \<Rightarrow> ul_Status l = 0
               | None \<Rightarrow> ul_Status l = 1 \<or> (\<exists>client raw resp err. rs_ScanErr resp = Some err
                   \<and> StrContains (response_content_type resp) ''text/event-stream'' \<and> net client (attempt_request env c token provider raw) = Response resp)))
     else w' = w"
  using ProxyToUpstream_spec [of env c aggToken token provider w net]
  by (auto simp: attempt_spec_def split: prod.splits option.splits if_splits) (metis option.distinct(1))+

lemma mget_safe_fold:
  "mget (fold (\<lambda>name h. if GetHeader c name \<noteq> [] then mput name (GetHeader c name) h else h) names h) k
    = (if k \<in> set names \<and> GetHeader c k \<noteq> [] then Some (GetHeader c k) else mget h k)"
  by (induction names arbitrary: h) (auto simp: Let_def)

lemma mget_fold_mdel: "mget (fold mdel names h) k = (if k \<in> set names then None else mget h k)"
  by (induction names arbitrary: h) auto

lemma removed_not_sent:
  "k \<in> set removedHeaders \<Longrightarrow> k \<notin> set safeHeaders \<and> k \<notin> {''authorization'', ''x-api-key'', ''x-goog-api-key'', ''anthropic-version''}"
  by (auto simp: removedHeaders_def safeHeaders_def)

lemma auth_not_safe:
  "''authorization'' \<notin> set safeHeaders" "''x-api-key'' \<notin> set safeHeaders"
  "''x-goog-api-key'' \<notin> set safeHeaders" "''anthropic-version'' \<notin> set safeHeaders"
  by (simp_all add: safeHeaders_def)

text \<open>
  The headers of the outgoing request, one by one. The credentials are those of the provider's
  token, whatever credentials the client sent; besides them only the six forwarded headers and, on an
  Anthropic path, the API version of the client can occur, and no header that shows a proxy.
\<close>

theorem upstream_headers_exact:
  "mget (upstreamHeaders c skKey) k =
    (if k = ''authorization'' then Some (''Bearer '' @ skKey)
     else if k = ''x-api-key'' \<and> isAnthropicPath (gc_Path c) then Some skKey
     else if k = ''x-goog-api-key'' \<and> isGeminiPath (gc_Path c) then Some skKey
     else if (k \<in> set safeHeaders \<or> k = ''anthropic-version'' \<and> isAnthropicPath (gc_Path c)) \<and> GetHeader c k \<noteq> []
     then Some (GetHeader c k) else None)"
proof (cases "k \<in> set removedHeaders")
  case True
  then show ?thesis
    using removed_not_sent by (auto simp: upstreamHeaders_def Let_def mget_fold_mdel)
next
  case False
  then show ?thesis
    by (simp add: upstreamHeaders_def Let_def mget_fold_mdel mget_safe_fold auth_not_safe)
qed

subsection \<open>Two corners of the code\<close>

lemma blank_proxy_reuses_direct_client:
  \<comment> \<open>an enabled proxy without an address is refused, unless a direct client is in the cache\<close>
  "p_ProxyEnabled p \<Longrightarrow> TrimSpace (p_ProxyURL p) = [] \<Longrightarrow>
    fst (getRelayHTTPClientForProvider parse p [(''direct'', DirectClient)]) = Inr DirectClient
    \<and> (\<exists>e. fst (getRelayHTTPClientForProvider parse p []) = Inl e)"
  by (simp add: getRelayHTTPClientForProvider_def relayClientCacheKey_def buildProviderTransport_def ValidateProviderProxyConfig_def Let_def mget_def)

lemma speech_bodies_are_rejected:
  \<comment> \<open>with the guard on, an answer that is not JSON never counts, whatever the endpoint\<close>
  "json_object b = None \<Longrightarrow> \<not> rv_Valid (validateNonStreamResponse path b True)"
  by (simp add: validateNonStreamResponse_def Let_def)

end
