(* ===== verification/Relay.thy ===== *)
theory Relay
  imports Proxy
begin

text \<open>
  The relay handlers of \<open>src/controller/relay.go\<close>: which model a request asks for, the model
  whitelist, the retry plan and the loop over its attempts, and the listing handlers. The
  resolution of the model, the whitelist and the plan are read at one instant; every attempt has an environment and a network answer of its
  own, numbered from 1. The abstract machine \<open>failover_step\<close> says what the loop promises.
\<close>

subsection \<open>The requested model\<close>

definition unmarshal_model :: "gostring \<Rightarrow> gostring option" where
  \<comment> \<open>\<open>json.Unmarshal\<close> into a struct with the one field \<open>model\<close>: any spelling of the key
     counts and \<open>null\<close> sets nothing, \<open>None\<close> is an error\<close>
  "unmarshal_model bodyBytes =
    (case json_parse bodyBytes of
       Some JNull \<Rightarrow> Some []
     | Some (JObj m) \<Rightarrow>
         fold (\<lambda>kv r. if EqualFold (fst kv) ''model''
                      then (case (r, snd kv) of (Some _, JStr s) \<Rightarrow> Some s | (Some s, JNull) \<Rightarrow> Some s | _ \<Rightarrow> None)
                      else r) m (Some [])
     | _ \<Rightarrow> None)"

definition extractModelFromBody :: "gin_context \<Rightarrow> gostring" where
  "extractModelFromBody c =
    (case gc_Body c of
       None \<Rightarrow> []
     | Some bodyBytes \<Rightarrow> (case unmarshal_model bodyBytes of None \<Rightarrow> [] | Some m \<Rightarrow> m))"

definition trim_slashes :: "gostring \<Rightarrow> gostring" where
  \<comment> \<open>\<open>strings.Trim(rest, "/")\<close>\<close>
  "trim_slashes s = rev (dropWhile (\<lambda>x. x = CHR ''/'') (rev (dropWhile (\<lambda>x. x = CHR ''/'') s)))"

definition extractModelFromGeminiPath :: "gostring \<Rightarrow> gostring" where
  "extractModelFromGeminiPath path =
    (let rawPath = TrimSpace path; pre = ''/v1beta/models/'' in
     if rawPath = [] then []
     else case StrIndex rawPath pre of
       None \<Rightarrow> []
     | Some idx \<Rightarrow>
         let rest = TrimSpace (drop (idx + length pre) rawPath) in
         if rest = [] then []
         else
           let rest = (case StrIndex rest '':'' of Some colonIdx \<Rightarrow> take colonIdx rest | None \<Rightarrow> rest);
               rest = trim_slashes rest
           in if rest = [] then []
              else
                let rest = (case last_index_char rest CHR ''/'' of
                              Some slashIdx \<Rightarrow> if slashIdx < length rest - 1 then drop (slashIdx + 1) rest else rest
                            | None \<Rightarrow> rest)
                in TrimSpace rest)"

definition extractRequestedModel :: "gin_context \<Rightarrow> gostring" where
  "extractRequestedModel c =
    (let modelName = extractModelFromBody c in if modelName \<noteq> [] then modelName else extractModelFromGeminiPath (gc_Path c))"

subsection \<open>Answers of the handlers\<close>

definition write_json :: "(json \<Rightarrow> gostring) \<Rightarrow> int \<Rightarrow> json \<Rightarrow> client_writer \<Rightarrow> client_writer" where
  \<comment> \<open>\<open>c.JSON\<close>; the rendering of the value is an argument\<close>
  "write_json render code v cw =
    write_body (render v) (write_status code (set_header ''Content-Type'' ''application/json; charset=utf-8'' cw))"

definition error_json :: "gostring \<Rightarrow> gostring \<Rightarrow> gostring \<Rightarrow> json" where
  "error_json message type code =
    JObj [(''error'', JObj [(''message'', JStr message), (''type'', JStr type), (''code'', JStr code)])]"

definition not_found_json :: "gostring \<Rightarrow> json" where
  "not_found_json modelName =
    JObj [(''error'', JObj [(''message'', JStr (''model not found: '' @ modelName)), (''type'', JStr ''invalid_request_error'')])]"

definition model_json :: "gostring \<Rightarrow> json" where
  "model_json m = JObj [(''id'', JStr m), (''object'', JStr ''model''), (''owned_by'', JStr ''aggregated-gateway'')]"

definition list_json :: "json list \<Rightarrow> json" where
  "list_json xs = JObj [(''object'', JStr ''list''), (''data'', JArr xs)]"

subsection \<open>The loop over the plan\<close>

datatype relay_end =
    RelayDone
  | RelayAbort ProxyAttemptError
  | RelayExhausted "ProxyAttemptError option"

type_synonym upstreams = "nat \<Rightarrow> http_client \<Rightarrow> outgoing_request \<Rightarrow> transport_result"

definition attempt_context :: "nat \<Rightarrow> RouteAttempt \<Rightarrow> gin_context \<Rightarrow> gin_context" where
  \<comment> \<open>the keys set before an attempt\<close>
  "attempt_context attemptIndex attempt c =
    (let c = c\<lparr>gc_relay_attempt_index := int attemptIndex\<rparr>; name = mr_ModelName (ra_Route attempt)
     in if name \<noteq> [] then c\<lparr>gc_request_model_resolved := name, gc_request_model := name\<rparr> else c)"

fun relay_group ::
  "(nat \<Rightarrow> proxy_env) \<Rightarrow> upstreams \<Rightarrow> AggregatedToken \<Rightarrow> RouteAttempt list \<Rightarrow> nat \<times> gin_context \<times> ProxyAttemptError option \<times> world
   \<Rightarrow> (relay_end \<times> world) + nat \<times> gin_context \<times> ProxyAttemptError option \<times> world" where
  \<comment> \<open>the inner loop; \<open>Inl\<close> is a return out of both loops\<close>
  "relay_group env net aggToken [] s = Inr s"
| "relay_group env net aggToken (attempt # rest) (attemptIndex, c, lastErr, w) =
    (let attemptIndex = attemptIndex + 1;
         c = attempt_context attemptIndex attempt c
     in case ProxyToUpstream (env attemptIndex) (net attemptIndex) c aggToken (ra_Token attempt) (ra_Provider attempt) w of
          (None, w) \<Rightarrow> Inl (RelayDone, w)
        | (Some proxyErr, w) \<Rightarrow>
            if \<not> pa_Retryable proxyErr then Inl (RelayAbort proxyErr, w)
            else relay_group env net aggToken rest (attemptIndex, c, Some proxyErr, w))"

fun relay_groups ::
  "(nat \<Rightarrow> proxy_env) \<Rightarrow> upstreams \<Rightarrow> AggregatedToken \<Rightarrow> RouteAttempt list list \<Rightarrow> nat \<times> gin_context \<times> ProxyAttemptError option \<times> world
   \<Rightarrow> relay_end \<times> world" where
  "relay_groups env net aggToken [] (attemptIndex, c, lastErr, w) = (RelayExhausted lastErr, w)"
| "relay_groups env net aggToken (priorityGroup # plan) s =
    (case relay_group env net aggToken priorityGroup s of
       Inl r \<Rightarrow> r
     | Inr s \<Rightarrow> relay_groups env net aggToken plan s)"

subsection \<open>The handler\<close>

record relay_world =
  rl_options :: "(gostring, gostring) gomap"
  rl_location :: location
  rl_now :: gotime
  rl_draws :: "bool \<Rightarrow> nat \<Rightarrow> draw"
  rl_uuid16 :: gostring
  rl_render :: "json \<Rightarrow> gostring"

definition snapshot_in_force :: "gotime \<Rightarrow> world \<Rightarrow> routingStaticSnapshot option \<times> world" where
  "snapshot_in_force now w =
    (let (s, st) = getRoutingStaticSnapshot now (Some (buildRoutingStaticSnapshot (w_db w))) (cc_static (w_caches w))
     in (s, w\<lparr>w_caches := (w_caches w)\<lparr>cc_static := st\<rparr>\<rparr>))"

definition resolve_or_same :: "routingStaticSnapshot option \<Rightarrow> gostring \<Rightarrow> gostring" where
  "resolve_or_same snapshot name = (case ResolveCanonicalModelName snapshot name of Inr (Some canonical) \<Rightarrow> canonical | _ \<Rightarrow> name)"

definition relay_plan :: "relay_world \<Rightarrow> gostring \<Rightarrow> gostring \<Rightarrow> world \<Rightarrow> (gw_error + RouteAttempt list list) \<times> world" where
  \<comment> \<open>the plan for the canonical name, and for the requested one when there is none\<close>
  "relay_plan rw canonicalModel requestedModel w =
    (let build = (\<lambda>draws name w.
           (case BuildRouteAttemptsByPriority (rl_location rw) (rl_options rw) (rl_now rw) draws (w_db w) name (w_caches w) of
              (r, caches) \<Rightarrow> (r, w\<lparr>w_caches := caches\<rparr>)))
     in case build (rl_draws rw False) canonicalModel w of
          (Inr plan, w) \<Rightarrow> (Inr plan, w)
        | (Inl e, w) \<Rightarrow> if \<not> EqualFold canonicalModel requestedModel then build (rl_draws rw True) requestedModel w else (Inl e, w))"

definition relay_context :: "relay_world \<Rightarrow> gostring \<Rightarrow> gostring \<Rightarrow> gin_context \<Rightarrow> gin_context" where
  "relay_context rw requestedModel canonicalModel c =
    c\<lparr>gc_request_model_original := requestedModel, gc_request_model_canonical := canonicalModel,
      gc_request_model := canonicalModel, gc_relay_request_id := rl_uuid16 rw\<rparr>"

definition exhausted_message :: "gostring \<Rightarrow> ProxyAttemptError option \<Rightarrow> gostring" where
  "exhausted_message requestedModel lastErr =
    (case lastErr of
       Some e \<Rightarrow> if pa_Message e \<noteq> [] then ''all providers failed for model: '' @ requestedModel
                 else ''no available provider for model: '' @ requestedModel
     | None \<Rightarrow> ''no available provider for model: '' @ requestedModel)"

definition relay_answer :: "(json \<Rightarrow> gostring) \<Rightarrow> gostring \<Rightarrow> relay_end \<Rightarrow> client_writer \<Rightarrow> client_writer" where
  \<comment> \<open>what the handler itself writes once the loop is over\<close>
  "relay_answer render requestedModel r cw =
    (case r of
       RelayDone \<Rightarrow> cw
     | RelayAbort proxyErr \<Rightarrow>
         write_json render (if pa_StatusCode proxyErr \<le> 0 then 502 else pa_StatusCode proxyErr)
           (error_json (pa_Message proxyErr) ''server_error'' ''upstream_request_failed'') cw
     | RelayExhausted lastErr \<Rightarrow>
         write_json render 503 (error_json (exhausted_message requestedModel lastErr) ''server_error'' ''service_unavailable'') cw)"

definition requested_or_unknown :: "gin_context \<Rightarrow> gostring" where
  "requested_or_unknown c = (if extractRequestedModel c = [] then ''unknown'' else extractRequestedModel c)"

definition Relay :: "relay_world \<Rightarrow> (nat \<Rightarrow> proxy_env) \<Rightarrow> upstreams \<Rightarrow> AggregatedToken \<Rightarrow> gin_context \<Rightarrow> world \<Rightarrow> world" where
  "Relay rw env net aggToken c w =
    (let requestedModel = requested_or_unknown c;
         (snapshot, w) = snapshot_in_force (rl_now rw) w;
         canonicalModel = resolve_or_same snapshot requestedModel;
         c = relay_context rw requestedModel canonicalModel c
     in if \<not> IsModelAllowed snapshot aggToken canonicalModel then
          w\<lparr>w_writer := write_json (rl_render rw) 403
              (error_json (''model not allowed: '' @ requestedModel) ''permission_error'' ''model_not_allowed'') (w_writer w)\<rparr>
        else case relay_plan rw canonicalModel requestedModel w of
          (Inl e, w) \<Rightarrow>
            w\<lparr>w_writer := write_json (rl_render rw) 503
                (error_json (''no available provider for model: '' @ requestedModel) ''server_error'' ''service_unavailable'') (w_writer w)\<rparr>
        | (Inr plan, w) \<Rightarrow>
            (case relay_groups env net aggToken plan (0, c, None, w) of
               (r, w) \<Rightarrow> w\<lparr>w_writer := relay_answer (rl_render rw) requestedModel r (w_writer w)\<rparr>))"

subsection \<open>Listings\<close>

definition ListModels :: "routingStaticSnapshot option \<Rightarrow> AggregatedToken \<Rightarrow> int \<times> json" where
  \<comment> \<open>an empty list of models renders as \<open>null\<close>\<close>
  "ListModels snapshot aggToken =
    (case GetDistinctModels snapshot of
       Inl e \<Rightarrow> (200, list_json [])
     | Inr models \<Rightarrow>
         let modelList = map model_json (filter (IsModelAllowed snapshot aggToken) models)
         in (200, if modelList = [] then JObj [(''object'', JStr ''list''), (''data'', JNull)] else list_json modelList))"

definition GetModel :: "routingStaticSnapshot option \<Rightarrow> AggregatedToken \<Rightarrow> gostring \<Rightarrow> int \<times> json" where
  "GetModel snapshot aggToken param =
    (let modelName = TrimSpace param in
     if modelName = [] then (404, not_found_json modelName)
     else
       let resolvedModel = resolve_or_same snapshot modelName in
       if \<not> IsModelAllowed snapshot aggToken resolvedModel then (404, not_found_json modelName)
       else case GetDistinctModels snapshot of
         Inr models \<Rightarrow> if resolvedModel \<in> set models then (200, model_json resolvedModel) else (404, not_found_json modelName)
       | Inl e \<Rightarrow> (404, not_found_json modelName))"

definition BillingSubscription :: "int \<times> json" where
  "BillingSubscription =
    (200, JObj [(''object'', JStr ''billing_subscription''), (''has_payment_method'', JBool True), (''hard_limit_usd'', JNum ''999999''),
      (''soft_limit_usd'', JNum ''999999''), (''system_hard_limit_usd'', JNum ''999999''), (''access_until'', JNum ''4102444800'')])"

definition BillingUsage :: "int \<times> json" where
  "BillingUsage = (200, JObj [(''object'', JStr ''list''), (''total_usage'', JNum ''0'')])"

subsection \<open>The failover machine\<close>

text \<open>
  The machine tries the items of a list in turn with any \<open>attempt\<close> on a state: the first success ends it,
  as does an error that is not retryable, and it gives up after the last item.
\<close>

datatype ('a, 's) failover =
    Trying nat "'a list" "ProxyAttemptError option" 's
  | Ended relay_end nat 's

inductive failover_step ::
  "(nat \<Rightarrow> 'a \<Rightarrow> 's \<Rightarrow> ProxyAttemptError option \<times> 's) \<Rightarrow> ('a, 's) failover \<Rightarrow> ('a, 's) failover \<Rightarrow> bool"
  for attempt where
  served: "attempt (Suc i) a s = (None, s') \<Longrightarrow> failover_step attempt (Trying i (a # as) last_err s) (Ended RelayDone (Suc i) s')"
| refused: "attempt (Suc i) a s = (Some e, s') \<Longrightarrow> \<not> pa_Retryable e
    \<Longrightarrow> failover_step attempt (Trying i (a # as) last_err s) (Ended (RelayAbort e) (Suc i) s')"
| retried: "attempt (Suc i) a s = (Some e, s') \<Longrightarrow> pa_Retryable e
    \<Longrightarrow> failover_step attempt (Trying i (a # as) last_err s) (Trying (Suc i) as (Some e) s')"
| nobody: "failover_step attempt (Trying i [] last_err s) (Ended (RelayExhausted last_err) i s)"

inductive_cases failover_TryingE: "failover_step attempt (Trying i as last_err s) st"
inductive_cases failover_ConsE: "failover_step attempt (Trying i (a # as) last_err s) st"
inductive_simps failover_Ended [simp]: "failover_step attempt (Ended r n s) st"

lemma failover_deterministic: "failover_step attempt st st1 \<Longrightarrow> failover_step attempt st st2 \<Longrightarrow> st1 = st2"
  by (cases st) (auto elim!: failover_TryingE)

lemma failover_progress: "\<exists>st. failover_step attempt (Trying i as last_err s) st"
proof (cases as)
  case (Cons a as')
  show ?thesis
  proof (cases "attempt (Suc i) a s")
    case (Pair r s')
    then show ?thesis using Cons
      by (cases r) (auto intro: failover_step.intros, metis failover_step.refused failover_step.retried)
  qed
qed (auto intro: failover_step.intros)

lemma failover_terminates:
  "\<exists>r n s'. (failover_step attempt)\<^sup>*\<^sup>* (Trying i as last_err s) (Ended r n s') \<and> n \<le> i + length as"
proof (induction as arbitrary: i last_err s)
  case Nil
  then show ?case using nobody by fastforce
next
  case (Cons a as)
  obtain st where st: "failover_step attempt (Trying i (a # as) last_err s) st" using failover_progress by metis
  then show ?case
  proof (cases st)
    case (Trying j bs e s')
    then have "j = Suc i" "bs = as" using st by (auto elim!: failover_TryingE)
    with Cons.IH [of "Suc i" e s'] st Trying show ?thesis
      by (metis add_Suc converse_rtranclp_into_rtranclp length_Cons add_Suc_right)
  next
    case (Ended r n s')
    then have "n = Suc i" using st by (auto elim!: failover_TryingE)
    with st Ended show ?thesis by (intro exI [of _ r] exI [of _ n] exI [of _ s']) auto
  qed
qed

subsection \<open>The contract of an attempt\<close>

locale attempt_contract =
  fixes attempt :: "nat \<Rightarrow> 'a \<Rightarrow> 's \<Rightarrow> ProxyAttemptError option \<times> 's"
    and ok :: "'s \<Rightarrow> bool"
    and writer :: "'s \<Rightarrow> 'w"
    and logs :: "'s \<Rightarrow> 'l list"
    and failed :: "'l \<Rightarrow> bool"
    and belongs :: "nat \<Rightarrow> 'a \<Rightarrow> 'l \<Rightarrow> bool"
  assumes ok_kept: "ok s \<Longrightarrow> attempt (Suc i) a s = (r, s') \<Longrightarrow> ok s'"
    and error_silent: "ok s \<Longrightarrow> attempt (Suc i) a s = (Some e, s') \<Longrightarrow> writer s' = writer s"
    and retry_logged: "ok s \<Longrightarrow> attempt (Suc i) a s = (Some e, s') \<Longrightarrow> pa_Retryable e \<Longrightarrow>
      \<exists>l. logs s' = logs s @ [l] \<and> belongs (Suc i) a l \<and> failed l"
    and stop_unlogged: "ok s \<Longrightarrow> attempt (Suc i) a s = (Some e, s') \<Longrightarrow> \<not> pa_Retryable e \<Longrightarrow> logs s' = logs s"
    and served_logged: "ok s \<Longrightarrow> attempt (Suc i) a s = (None, s') \<Longrightarrow> \<exists>l. logs s' = logs s @ [l] \<and> belongs (Suc i) a l"
begin

definition trail :: "'a list \<Rightarrow> 's \<Rightarrow> nat \<Rightarrow> 's \<Rightarrow> bool" where
  \<comment> \<open>the first \<open>n\<close> items were tried, logged in order as failed, and nothing was written\<close>
  "trail as0 s0 n s \<longleftrightarrow> ok s \<and> n \<le> length as0 \<and> writer s = writer s0 \<and>
    (\<exists>new. logs s = logs s0 @ new \<and>
       list_all2 (\<lambda>ia l. belongs (fst ia) (snd ia) l \<and> failed l) (List.enumerate 1 (take n as0)) new)"

definition outcome :: "'a list \<Rightarrow> 's \<Rightarrow> relay_end \<Rightarrow> nat \<Rightarrow> 's \<Rightarrow> bool" where
  "outcome as0 s0 r n s \<longleftrightarrow>
    (case r of
       RelayDone \<Rightarrow> (\<exists>m s1 l. n = Suc m \<and> m < length as0 \<and> trail as0 s0 m s1 \<and> attempt n (as0 ! m) s1 = (None, s)
           \<and> logs s = logs s1 @ [l] \<and> belongs n (as0 ! m) l)
     | RelayAbort e \<Rightarrow> (\<exists>m. n = Suc m \<and> m < length as0 \<and> trail as0 s0 m s \<and> \<not> pa_Retryable e)
     | RelayExhausted last_err \<Rightarrow> n = length as0 \<and> trail as0 s0 n s \<and> (last_err = None \<longleftrightarrow> as0 = []))"

definition inv :: "'a list \<Rightarrow> 's \<Rightarrow> ('a, 's) failover \<Rightarrow> bool" where
  "inv as0 s0 st \<longleftrightarrow>
    (case st of
       Trying i as last_err s \<Rightarrow> trail as0 s0 i s \<and> as = drop i as0 \<and> (last_err = None \<longleftrightarrow> i = 0)
     | Ended r n s \<Rightarrow> outcome as0 s0 r n s)"

lemma trail_retry:
  assumes "trail as0 s0 i s" and "i < length as0" and "attempt (Suc i) (as0 ! i) s = (Some e, s')" and "pa_Retryable e"
  shows "trail as0 s0 (Suc i) s'"
proof -
  have ok: "ok s" using assms(1) by (simp add: trail_def)
  obtain new where new: "logs s = logs s0 @ new"
    "list_all2 (\<lambda>ia l. belongs (fst ia) (snd ia) l \<and> failed l) (List.enumerate 1 (take i as0)) new"
    using assms(1) by (auto simp: trail_def)
  obtain l where l: "logs s' = logs s @ [l]" "belongs (Suc i) (as0 ! i) l" "failed l"
    using retry_logged [OF ok assms(3,4)] by blast
  have "List.enumerate 1 (take (Suc i) as0) = List.enumerate 1 (take i as0) @ [(Suc i, as0 ! i)]"
    using assms(2) by (simp add: take_Suc_conv_app_nth enumerate_append_eq)
  then show ?thesis
    using assms ok new l ok_kept [OF ok assms(3)] error_silent [OF ok assms(3)]
    by (auto simp: trail_def intro!: list_all2_appendI)
qed

lemma trail_stop:
  assumes "trail as0 s0 i s" and "attempt (Suc i) a s = (Some e, s')" and "\<not> pa_Retryable e"
  shows "trail as0 s0 i s'"
  using assms error_silent [OF _ assms(2)] stop_unlogged [OF _ assms(2,3)] ok_kept [OF _ assms(2)]
  by (auto simp: trail_def)

lemma inv_step: "failover_step attempt st st' \<Longrightarrow> inv as0 s0 st \<Longrightarrow> inv as0 s0 st'"
proof (induction rule: failover_step.induct)
  case (served i a s s' as last_err)
  then have i: "i < length as0" "a = as0 ! i" and t: "trail as0 s0 i s"
    by (auto simp: inv_def nth_via_drop [symmetric] intro: leI dest: sym [of "_ # _"])
       (metis drop_all list.distinct(1) not_le_imp_less)
  obtain l where "logs s' = logs s @ [l]" "belongs (Suc i) a l"
    using served_logged served(1) t by (metis trail_def)
  then show ?case using served i t by (auto simp: inv_def outcome_def)
next
  case (refused i a s e s' as last_err)
  then have "i < length as0"
    by (auto simp: inv_def) (metis drop_all list.distinct(1) not_le_imp_less)
  then show ?case using refused trail_stop by (auto simp: inv_def outcome_def)
next
  case (retried i a s e s' as last_err)
  then have d: "drop i as0 = a # as" and t: "trail as0 s0 i s" by (simp_all add: inv_def)
  then have "i < length as0" "as0 ! i = a" "drop (Suc i) as0 = as"
    by (metis drop_all list.distinct(1) not_le_imp_less, metis nth_via_drop, metis drop_Suc drop_tl list.sel(3))
  then show ?case using trail_retry [OF t] retried by (auto simp: inv_def)
next
  case (nobody i last_err s)
  then show ?case by (auto simp: inv_def outcome_def trail_def)
qed

theorem reachable_outcome:
  assumes "(failover_step attempt)\<^sup>*\<^sup>* (Trying 0 as None s) (Ended r n s')" and "ok s"
  shows "outcome as s r n s'"
proof -
  have "inv as s (Trying 0 as None s)" using assms(2) by (simp add: inv_def trail_def)
  with assms(1) have "inv as s (Ended r n s')"
    by (induction rule: rtranclp_induct) (auto intro: inv_step)
  then show ?thesis by (simp add: inv_def)
qed

lemma served_or_refused:
  assumes "(failover_step attempt)\<^sup>*\<^sup>* (Trying i as last_err s) (Ended r n s')" and "ok s"
    and "\<And>j s e s'. ok s \<Longrightarrow> attempt (Suc (i + j)) (as ! j) s = (Some e, s') \<Longrightarrow> \<not> pa_Retryable e \<Longrightarrow> refusal j e"
    and "k < length as" and "\<And>s. ok s \<Longrightarrow> fst (attempt (Suc (i + k)) (as ! k) s) = None"
  shows "r = RelayDone \<and> n \<le> i + Suc k \<or> (\<exists>j < k. \<exists>e. refusal j e \<and> r = RelayAbort e)"
  using assms
proof (induction as arbitrary: i last_err s k refusal)
  case (Cons a as)
  obtain st where st: "failover_step attempt (Trying i (a # as) last_err s) st"
      "(failover_step attempt)\<^sup>*\<^sup>* st (Ended r n s')"
    using Cons.prems(1) by (auto elim: converse_rtranclpE)
  from st(1) consider
      (served) s1 where "attempt (Suc i) a s = (None, s1)" "st = Ended RelayDone (Suc i) s1"
    | (refused) e s1 where "attempt (Suc i) a s = (Some e, s1)" "\<not> pa_Retryable e" "st = Ended (RelayAbort e) (Suc i) s1"
    | (retried) e s1 where "attempt (Suc i) a s = (Some e, s1)" "st = Trying (Suc i) as (Some e) s1"
    by (auto elim: failover_ConsE)
  then show ?case
  proof cases
    case served
    then show ?thesis using st(2) by (auto elim: converse_rtranclpE)
  next
    case refused
    have "k \<noteq> 0" using Cons.prems(2,5) refused by (metis add_Suc_right add_0_right fst_conv nth_Cons_0 option.distinct(1))
    moreover have "r = RelayAbort e" using st(2) refused(3) by (auto elim: converse_rtranclpE)
    moreover have "refusal 0 e" using Cons.prems(3) [of s 0 e s1] Cons.prems(2) refused(1,2) by simp
    ultimately show ?thesis by blast
  next
    case retried
    have "k \<noteq> 0" using Cons.prems(2,5) retried by (metis add_Suc_right add_0_right fst_conv nth_Cons_0 option.distinct(1))
    then obtain k' where k: "k = Suc k'" by (cases k) auto
    have "ok s1" using ok_kept retried Cons.prems(2) by blast
    moreover have "refusal (Suc j) e'" if "ok t" "attempt (Suc (Suc i + j)) (as ! j) t = (Some e', t')" "\<not> pa_Retryable e'" for j t e' t'
      using Cons.prems(3) [of t "Suc j" e' t'] that by simp
    ultimately have "r = RelayDone \<and> n \<le> Suc i + Suc k' \<or> (\<exists>j < k'. \<exists>e. refusal (Suc j) e \<and> r = RelayAbort e)"
      using Cons.IH [of "Suc i" "Some e" s1 "\<lambda>j. refusal (Suc j)" k'] st(2) retried Cons.prems(4,5) k by simp
    then show ?thesis unfolding k by auto
  qed
qed simp

end

subsection \<open>The loop of the handler is such a machine\<close>

definition relay_attempt ::
  "(nat \<Rightarrow> proxy_env) \<Rightarrow> upstreams \<Rightarrow> AggregatedToken \<Rightarrow> nat \<Rightarrow> RouteAttempt \<Rightarrow> gin_context \<times> world
   \<Rightarrow> ProxyAttemptError option \<times> gin_context \<times> world" where
  "relay_attempt env net aggToken i a s =
    (case ProxyToUpstream (env i) (net i) (attempt_context i a (fst s)) aggToken (ra_Token a) (ra_Provider a) (snd s) of
       (r, w) \<Rightarrow> (r, attempt_context i a (fst s), w))"

lemma relay_group_steps:
  "case relay_group env net aggToken as (i, c, e, w) of
     Inl (r, w') \<Rightarrow> (\<exists>n c'. (failover_step (relay_attempt env net aggToken))\<^sup>*\<^sup>* (Trying i (as @ bs) e (c, w)) (Ended r n (c', w')))
   | Inr (j, c', e', w') \<Rightarrow> (failover_step (relay_attempt env net aggToken))\<^sup>*\<^sup>* (Trying i (as @ bs) e (c, w)) (Trying j bs e' (c', w'))"
proof (induction as arbitrary: i c e w)
  case (Cons a as)
  let ?c = "attempt_context (Suc i) a c" and ?step = "failover_step (relay_attempt env net aggToken)"
  obtain r w1 where p: "ProxyToUpstream (env (Suc i)) (net (Suc i)) ?c aggToken (ra_Token a) (ra_Provider a) w = (r, w1)"
    by fastforce
  then have att: "relay_attempt env net aggToken (Suc i) a (c, w) = (r, ?c, w1)" by (simp add: relay_attempt_def)
  show ?case
  proof (cases r)
    case None
    then have "?step (Trying i ((a # as) @ bs) e (c, w)) (Ended RelayDone (Suc i) (?c, w1))" using att by (auto intro: served)
    then show ?thesis using p None by (auto simp: Let_def)
  next
    case (Some e1)
    show ?thesis
    proof (cases "pa_Retryable e1")
      case False
      then have "?step (Trying i ((a # as) @ bs) e (c, w)) (Ended (RelayAbort e1) (Suc i) (?c, w1))" using att Some by (auto intro: refused)
      then show ?thesis using p Some False by (auto simp: Let_def)
    next
      case True
      then have "?step (Trying i ((a # as) @ bs) e (c, w)) (Trying (Suc i) (as @ bs) (Some e1) (?c, w1))" using att Some by (auto intro: retried)
      then show ?thesis
        using p Some True Cons.IH [where i = "Suc i" and c = ?c and e = "Some e1" and w = w1]
        by (auto simp: Let_def split: sum.splits intro: converse_rtranclp_into_rtranclp)
    qed
  qed
qed simp

lemma relay_groups_steps:
  "relay_groups env net aggToken plan (i, c, e, w) = (r, w') \<Longrightarrow>
    \<exists>n c'. (failover_step (relay_attempt env net aggToken))\<^sup>*\<^sup>* (Trying i (concat plan) e (c, w)) (Ended r n (c', w'))"
proof (induction plan arbitrary: i c e w)
  case Nil
  then show ?case using nobody [of "relay_attempt env net aggToken" i e "(c, w)"] by auto
next
  case (Cons g plan)
  show ?case
  proof (cases "relay_group env net aggToken g (i, c, e, w)")
    case (Inl x)
    then show ?thesis using Cons.prems relay_group_steps [where as = g and i = i and c = c and e = e and w = w and bs = "concat plan" and env = env and net = net and aggToken = aggToken] by (cases x) auto
  next
    case (Inr s)
    obtain j c1 e1 w1 where s: "s = (j, c1, e1, w1)" by (cases s)
    have "relay_groups env net aggToken plan (j, c1, e1, w1) = (r, w')" using Cons.prems Inr s by simp
    from Cons.IH [OF this] show ?thesis
      using relay_group_steps [where as = g and i = i and c = c and e = e and w = w and bs = "concat plan" and env = env and net = net and aggToken = aggToken] Inr s by (auto intro: rtranclp_trans)
  qed
qed

definition same_request :: "gin_context \<Rightarrow> gin_context \<Rightarrow> bool" where
  \<comment> \<open>equal but for the keys the loop sets\<close>
  "same_request c0 c \<longleftrightarrow>
    c\<lparr>gc_relay_attempt_index := 0, gc_request_model_resolved := [], gc_request_model := []\<rparr>
      = c0\<lparr>gc_relay_attempt_index := 0, gc_request_model_resolved := [], gc_request_model := []\<rparr>"

lemma same_request_refl [simp]: "same_request c c"
  by (simp add: same_request_def)

lemma same_requestD:
  assumes "same_request c0 c"
  shows "gc_Body c = gc_Body c0" "gc_Method c = gc_Method c0" "gc_Path c = gc_Path c0" "gc_RawQuery c = gc_RawQuery c0"
    "gc_Header c = gc_Header c0" "gc_relay_request_id c = gc_relay_request_id c0"
  using assms by (cases c; cases c0; simp add: same_request_def)+

lemma same_request_URL: "same_request c0 c \<Longrightarrow> upstreamURL c p = upstreamURL c0 p"
  by (simp add: upstreamURL_def same_requestD Let_def)

lemma same_request_attempt [simp]: "same_request c0 (attempt_context i a c) = same_request c0 c"
  by (simp add: same_request_def attempt_context_def Let_def)

lemma attempt_context_simps [simp]:
  "gc_relay_attempt_index (attempt_context i a c) = int i" "gc_relay_request_id (attempt_context i a c) = gc_relay_request_id c"
  "gc_Body (attempt_context i a c) = gc_Body c" "gc_Method (attempt_context i a c) = gc_Method c"
  "upstreamURL (attempt_context i a c) p = upstreamURL c p" "gc_Path (attempt_context i a c) = gc_Path c"
  by (simp_all add: attempt_context_def Let_def upstreamURL_def)

definition relay_row :: "(nat \<Rightarrow> proxy_env) \<Rightarrow> gin_context \<Rightarrow> AggregatedToken \<Rightarrow> nat \<Rightarrow> RouteAttempt \<Rightarrow> UsageLog \<Rightarrow> bool" where
  \<comment> \<open>the usage log of the \<open>i\<close>th attempt of a request\<close>
  "relay_row env c aggToken i a l \<longleftrightarrow>
    ul_AttemptIndex l = int i \<and> ul_ProviderId l = p_Id (ra_Provider a) \<and> ul_ProviderTokenId l = pt_Id (ra_Token a)
    \<and> ul_UserId l = at_UserId aggToken \<and> ul_AggregatedTokenId l = at_Id aggToken
    \<and> ul_RelayRequestId l = getRelayRequestID c (pe_request_id (env i))"

lemma relay_attempt_contract:
  assumes "relay_attempt env net aggToken (Suc i) a s = (r, s')" and "same_request c0 (fst s)"
  shows "same_request c0 (fst s')"
    and "r = Some e \<Longrightarrow> w_writer (snd s') = w_writer (snd s)"
    and "r = Some e \<Longrightarrow> \<not> pa_Retryable e \<Longrightarrow> snd s' = snd s"
    and "r = None \<or> (\<exists>e. r = Some e \<and> pa_Retryable e) \<Longrightarrow>
      \<exists>l. db_logs (w_db (snd s')) = db_logs (w_db (snd s)) @ [l] \<and> relay_row env c0 aggToken (Suc i) a l \<and> (r \<noteq> None \<longrightarrow> ul_Status l = 0)"
proof -
  let ?c = "attempt_context (Suc i) a (fst s)"
  have p: "ProxyToUpstream (env (Suc i)) (net (Suc i)) ?c aggToken (ra_Token a) (ra_Provider a) (snd s) = (r, snd s')" and c: "fst s' = ?c"
    using assms(1) by (auto simp: relay_attempt_def split: prod.splits)
  have id: "gc_relay_request_id (fst s) = gc_relay_request_id c0" using assms(2) by (rule same_requestD)
  have spec: "case (r, snd s') of (r, w') \<Rightarrow>
      if (case r of Some e \<Rightarrow> pa_Retryable e | None \<Rightarrow> True)
      then (\<exists>resp. attempt_spec (env (Suc i)) ?c aggToken (ra_Token a) (ra_Provider a) (snd s) resp (r, w'))
      else w' = snd s"
    using ProxyToUpstream_spec [of "env (Suc i)" ?c aggToken "ra_Token a" "ra_Provider a" "snd s" "net (Suc i)"]
    unfolding p by (auto split: if_splits)
  show "same_request c0 (fst s')" using assms(2) by (simp add: c)
  show "r = Some e \<Longrightarrow> w_writer (snd s') = w_writer (snd s)" using spec by (auto simp: attempt_spec_def split: if_splits)
  show "r = Some e \<Longrightarrow> \<not> pa_Retryable e \<Longrightarrow> snd s' = snd s" using spec by (auto split: if_splits)
  show "\<exists>l. db_logs (w_db (snd s')) = db_logs (w_db (snd s)) @ [l] \<and> relay_row env c0 aggToken (Suc i) a l \<and> (r \<noteq> None \<longrightarrow> ul_Status l = 0)"
    if "r = None \<or> (\<exists>e. r = Some e \<and> pa_Retryable e)"
    using spec that id by (auto simp: attempt_spec_def attempt_log_def relay_row_def getRelayAttemptIndex_def getRelayRequestID_def)
qed

interpretation relay: attempt_contract "relay_attempt env net aggToken" "\<lambda>s. same_request c0 (fst s)" "\<lambda>s. w_writer (snd s)"
    "\<lambda>s. db_logs (w_db (snd s))" "\<lambda>l. ul_Status l = 0" "relay_row env c0 aggToken" for env net aggToken c0
proof (unfold_locales, goal_cases)
  case (1 s i a r s')
  then show ?case using relay_attempt_contract(1) by metis
next
  case (2 s i a e s')
  then show ?case using relay_attempt_contract(2) by metis
next
  case (3 s i a e s')
  then show ?case using relay_attempt_contract(4) [of env net aggToken i a s "Some e" s' c0] by auto
next
  case (4 s i a e s')
  then show ?case using relay_attempt_contract(3) by metis
next
  case (5 s i a s')
  then show ?case using relay_attempt_contract(4) [of env net aggToken i a s None s' c0] by auto
qed

subsection \<open>What the handler promises\<close>

lemma failover_end_unique:
  assumes "(failover_step attempt)\<^sup>*\<^sup>* st (Ended r n s)" and "(failover_step attempt)\<^sup>*\<^sup>* st (Ended r' n' s')"
  shows "Ended r n s = Ended r' n' s'"
  using assms
proof (induction rule: converse_rtranclp_induct)
  case base
  then show ?case by (auto elim: converse_rtranclpE)
next
  case (step st st1)
  from step.prems step.hyps(1) have "(failover_step attempt)\<^sup>*\<^sup>* st1 (Ended r' n' s')"
    by (metis converse_rtranclpE failover_Ended failover_deterministic)
  then show ?case by (rule step.IH)
qed

text \<open>
  The nested loops of the handler are the failover machine over the concatenated groups of the
  plan: a run of the machine ends with the result and the world of the loops, and in no other way.
\<close>

theorem relay_refines_failover:
  "(\<exists>n c'. (failover_step (relay_attempt env net aggToken))\<^sup>*\<^sup>* (Trying i (concat plan) lastErr (c, w)) (Ended r n (c', w')))
    \<longleftrightarrow> relay_groups env net aggToken plan (i, c, lastErr, w) = (r, w')"
proof
  assume "\<exists>n c'. (failover_step (relay_attempt env net aggToken))\<^sup>*\<^sup>* (Trying i (concat plan) lastErr (c, w)) (Ended r n (c', w'))"
  then obtain n c' where run: "(failover_step (relay_attempt env net aggToken))\<^sup>*\<^sup>* (Trying i (concat plan) lastErr (c, w)) (Ended r n (c', w'))"
    by blast
  obtain r1 w1 where e: "relay_groups env net aggToken plan (i, c, lastErr, w) = (r1, w1)" by fastforce
  from relay_groups_steps [OF e] obtain n1 c1
    where "(failover_step (relay_attempt env net aggToken))\<^sup>*\<^sup>* (Trying i (concat plan) lastErr (c, w)) (Ended r1 n1 (c1, w1))"
    by blast
  from failover_end_unique [OF run this] show "relay_groups env net aggToken plan (i, c, lastErr, w) = (r, w')" using e by simp
qed (rule relay_groups_steps)

lemma relay_outcome:
  assumes "relay_groups env net aggToken plan (0, c, None, w) = (r, w')"
  obtains n c' where "relay.outcome env net aggToken c (concat plan) (c, w) r n (c', w')"
proof -
  from relay_groups_steps [OF assms] obtain n c'
    where run: "(failover_step (relay_attempt env net aggToken))\<^sup>*\<^sup>* (Trying 0 (concat plan) None (c, w)) (Ended r n (c', w'))"
    by blast
  show ?thesis by (rule that [OF relay.reachable_outcome [OF run]]) simp
qed

lemma list_all2_belongs:
  "list_all2 (\<lambda>ia l. P (fst ia) (snd ia) l \<and> Q l) xs new \<Longrightarrow> list_all2 (\<lambda>ia l. P (fst ia) (snd ia) l) xs new \<and> list_all Q new"
  by (induction rule: list_all2_induct) auto

lemma relay_trailD:
  assumes "relay.trail c env aggToken as (c, w) n (c', w')"
  obtains new where "db_logs (w_db w') = db_logs (w_db w) @ new" "length new = n" "n \<le> length as" "w_writer w' = w_writer w"
    "list_all2 (\<lambda>ia l. relay_row env c aggToken (fst ia) (snd ia) l) (List.enumerate 1 (take n as)) new"
    "list_all (\<lambda>l. ul_Status l = 0) new"
proof -
  obtain new where new: "db_logs (w_db w') = db_logs (w_db w) @ new" "n \<le> length as" "w_writer w' = w_writer w"
    "list_all2 (\<lambda>ia l. relay_row env c aggToken (fst ia) (snd ia) l \<and> ul_Status l = 0) (List.enumerate 1 (take n as)) new"
    using assms by (auto simp: relay.trail_def)
  moreover have "length new = n" using new(2) list_all2_lengthD [OF new(4)] by simp
  ultimately show ?thesis using that list_all2_belongs [OF new(4)] by blast
qed

lemma relay_failover_core:
  "case relay_groups env net aggToken plan (0, c, None, w) of (r, w') \<Rightarrow>
     \<exists>new. db_logs (w_db w') = db_logs (w_db w) @ new
       \<and> list_all2 (\<lambda>ia l. relay_row env c aggToken (fst ia) (snd ia) l) (List.enumerate 1 (take (length new) (concat plan))) new
       \<and> (case r of
            RelayDone \<Rightarrow> new \<noteq> [] \<and> list_all (\<lambda>l. ul_Status l = 0) (butlast new)
          | RelayAbort e \<Rightarrow> w_writer w' = w_writer w \<and> length new < length (concat plan) \<and> list_all (\<lambda>l. ul_Status l = 0) new
          | RelayExhausted e \<Rightarrow> w_writer w' = w_writer w \<and> length new = length (concat plan) \<and> list_all (\<lambda>l. ul_Status l = 0) new)"
proof -
  obtain r w' where e: "relay_groups env net aggToken plan (0, c, None, w) = (r, w')" by fastforce
  then obtain n c' where o: "relay.outcome env net aggToken c (concat plan) (c, w) r n (c', w')" by (rule relay_outcome)
  show ?thesis
  proof (cases r)
    case RelayDone
    then obtain m c1 w1 l where m: "n = Suc m" "m < length (concat plan)" "relay.trail c env aggToken (concat plan) (c, w) m (c1, w1)"
        "db_logs (w_db w') = db_logs (w_db w1) @ [l]" "relay_row env c aggToken n (concat plan ! m) l"
      using o by (auto simp: relay.outcome_def)
    from m(3) show ?thesis
    proof (rule relay_trailD)
      fix new
      assume new: "db_logs (w_db w1) = db_logs (w_db w) @ new" "length new = m"
        "list_all2 (\<lambda>ia l. relay_row env c aggToken (fst ia) (snd ia) l) (List.enumerate 1 (take m (concat plan))) new"
        "list_all (\<lambda>l. ul_Status l = 0) new"
      have "List.enumerate 1 (take (Suc m) (concat plan)) = List.enumerate 1 (take m (concat plan)) @ [(Suc m, concat plan ! m)]"
        using m(2) by (simp add: take_Suc_conv_app_nth enumerate_append_eq)
      then have "list_all2 (\<lambda>ia l. relay_row env c aggToken (fst ia) (snd ia) l)
          (List.enumerate 1 (take (length (new @ [l])) (concat plan))) (new @ [l])"
        using new m by (simp add: list_all2_appendI)
      then show ?thesis using e RelayDone m new by (intro case_prodI2 exI [of _ "new @ [l]"]) (simp_all)
    qed
  next
    case (RelayAbort x)
    then obtain m where m: "m < length (concat plan)" "relay.trail c env aggToken (concat plan) (c, w) m (c', w')"
      using o by (auto simp: relay.outcome_def)
    from m(2) show ?thesis by (rule relay_trailD) (use e RelayAbort m(1) in auto)
  next
    case (RelayExhausted x)
    then have "relay.trail c env aggToken (concat plan) (c, w) (length (concat plan)) (c', w')"
      using o by (auto simp: relay.outcome_def)
    then show ?thesis by (rule relay_trailD) (use e RelayExhausted in auto)
  qed
qed

text \<open>
  C3: The attempts of a relayed request follow the plan in its order and are numbered from 1, and
  each leaves its own usage log under the request's identifier. After a success there is no further attempt
  and every log before it has failed; when the loop gives up, every attempt of the plan was made and
  failed, and neither then nor after a final error has anything been written to the client.
\<close>

theorem relay_failover:
  "case relay_groups env net aggToken plan (0, c, None, w) of (r, w') \<Rightarrow>
     \<exists>new. db_logs (w_db w') = db_logs (w_db w) @ new
       \<and> list_all2 (\<lambda>ia l. relay_row env c aggToken (fst ia) (snd ia) l) (List.enumerate 1 (take (length new) (concat plan))) new
       \<and> (case r of
            RelayDone \<Rightarrow> new \<noteq> [] \<and> list_all (\<lambda>l. ul_Status l = 0) (butlast new)
          | RelayAbort e \<Rightarrow> w_writer w' = w_writer w \<and> length new < length (concat plan) \<and> list_all (\<lambda>l. ul_Status l = 0) new
          | RelayExhausted e \<Rightarrow> w_writer w' = w_writer w \<and> length new = length (concat plan) \<and> list_all (\<lambda>l. ul_Status l = 0) new)"
  by (rule relay_failover_core)

lemma ProxyToUpstream_served:
  assumes "ProxyToUpstream env net c a t p w = (None, w')"
  shows "\<exists>client request resp b. net client request = Response resp \<and> rs_StatusCode resp < 400 \<and> response_text resp = Some b
    \<and> cw_Status (w_writer w') = Some (rs_StatusCode resp) \<and> cw_Body (w_writer w') = cw_Body (w_writer w) @ b"
  using ProxyToUpstream_spec [of env c a t p w net] assms by (auto simp: attempt_spec_def)

lemma relay_loop_answer:
  assumes "relay_groups env net aggToken plan (0, c, None, w) = (r, w')"
  shows "if r = RelayDone
    then (\<exists>i client request resp b. net i client request = Response resp \<and> rs_StatusCode resp < 400 \<and> response_text resp = Some b
      \<and> cw_Status (w_writer w') = Some (rs_StatusCode resp) \<and> cw_Body (w_writer w') = cw_Body (w_writer w) @ b)
    else w_writer w' = w_writer w"
proof -
  from relay_outcome [OF assms] obtain n c2 where o: "relay.outcome env net aggToken c (concat plan) (c, w) r n (c2, w')" .
  show ?thesis
  proof (cases r)
    case RelayDone
    then obtain m c3 w4 where "relay.trail c env aggToken (concat plan) (c, w) m (c3, w4)"
        and att: "relay_attempt env net aggToken n (concat plan ! m) (c3, w4) = (None, c2, w')"
      using o by (auto simp: relay.outcome_def)
    then have "w_writer w4 = w_writer w" by (simp add: relay.trail_def)
    moreover have "ProxyToUpstream (env n) (net n) (attempt_context n (concat plan ! m) c3) aggToken
        (ra_Token (concat plan ! m)) (ra_Provider (concat plan ! m)) w4 = (None, w')"
      using att by (simp add: relay_attempt_def split: prod.splits)
    ultimately show ?thesis using ProxyToUpstream_served RelayDone by metis
  qed (use o in \<open>auto simp: relay.outcome_def relay.trail_def\<close>)
qed

lemma relay_plan_writer: "relay_plan rw k m w = (p, w') \<Longrightarrow> w_writer w' = w_writer w"
  by (auto simp: relay_plan_def Let_def split: prod.splits sum.splits if_splits)

lemma snapshot_in_force_writer: "snapshot_in_force now w = (s, w') \<Longrightarrow> w_writer w' = w_writer w"
  by (auto simp: snapshot_in_force_def split: prod.splits)

definition one_answer :: "(json \<Rightarrow> gostring) \<Rightarrow> upstreams \<Rightarrow> client_writer \<Rightarrow> client_writer \<Rightarrow> bool" where
  \<comment> \<open>the second writer holds one JSON answer or one upstream answer more than the first\<close>
  "one_answer render net cw cw' \<longleftrightarrow>
    (\<exists>status body. cw_Status cw' = Some status \<and> cw_Body cw' = cw_Body cw @ body
      \<and> ((\<exists>v. body = render v)
         \<or> (\<exists>i client request resp. net i client request = Response resp \<and> rs_StatusCode resp = status \<and> status < 400
              \<and> response_text resp = Some body)))"

lemma one_answer_json: "cw = cw0 \<Longrightarrow> one_answer render net cw0 (write_json render code v cw)"
  by (auto simp: one_answer_def write_json_def write_body_def write_status_def set_header_def)

text \<open>
  C6: The client gets exactly one answer: the status and the whole body of one upstream's answer, or one JSON
  error of the handler, and never anything of a failed attempt before it.
\<close>

theorem relay_one_answer: "one_answer (rl_render rw) net (w_writer w) (w_writer (Relay rw env net aggToken c w))"
proof -
  obtain snapshot w1 where s: "snapshot_in_force (rl_now rw) w = (snapshot, w1)" by fastforce
  define m where "m = requested_or_unknown c"
  define k where "k = resolve_or_same snapshot m"
  define c1 where "c1 = relay_context rw m k c"
  obtain p w2 where p: "relay_plan rw k m w1 = (p, w2)" by fastforce
  note defs = m_def [symmetric] k_def [symmetric] c1_def [symmetric]
  note w = snapshot_in_force_writer [OF s] relay_plan_writer [OF p]
  show ?thesis
  proof (cases "IsModelAllowed snapshot aggToken k")
    case False
    then show ?thesis using s w by (simp add: Relay_def Let_def defs one_answer_json)
  next
    case allowed: True
    show ?thesis
    proof (cases p)
      case (Inl e)
      then show ?thesis using allowed s p w by (simp add: Relay_def Let_def defs one_answer_json)
    next
      case (Inr plan)
      obtain r w3 where g: "relay_groups env net aggToken plan (0, c1, None, w2) = (r, w3)" by fastforce
      show ?thesis
        using allowed Inr s p g w relay_loop_answer [OF g]
        by (cases r) (auto simp: Relay_def Let_def defs relay_answer_def one_answer_json, auto simp: one_answer_def)
    qed
  qed
qed

subsection \<open>A working upstream is reached\<close>

definition good_response :: "gin_context \<Rightarrow> http_response \<Rightarrow> bool" where
  \<comment> \<open>an answer that every validity mode accepts\<close>
  "good_response c resp \<longleftrightarrow>
    rs_StatusCode resp < 400 \<and> meaningful_response c resp \<and>
    (StrContains (response_content_type resp) ''text/event-stream'' \<longrightarrow> rs_ScanErr resp = None)"

lemma good_response_accepted:
  assumes "good_response c resp"
  shows "fst (handle_response env c resp a p t body w) = None"
proof (cases "StrContains (response_content_type resp) ''text/event-stream''")
  case True
  define v e where "v = (GetRelayResponseValidityMode (pe_options env) \<noteq> ''off'')"
    and "e = (GetRelayResponseValidityMode (pe_options env) = ''enforce'')"
  define s where "s = scan_stream env c resp v e (w_writer w)"
  have "st_meaningfulDelta s \<or> \<not> e \<and> \<not> v" if "\<not> st_meaningfulDelta s \<longrightarrow> v"
  proof -
    have "st_meaningfulDelta s \<longleftrightarrow> list_ex (meaningful_line c v) (rs_Lines resp)"
      using scan_stream_inv [of c resp v e "w_writer w" env] by (simp add: s_def stream_inv_def)
    then show ?thesis using that assms True by (auto simp: good_response_def meaningful_response_def)
  qed
  then show ?thesis using assms True
    by (auto simp: handle_response_def proxyStreamResponse_def good_response_def Let_def v_def [symmetric] e_def [symmetric] s_def [symmetric])
next
  case False
  then obtain b where b: "rs_Body resp = BodyOk b" "rv_Valid (validateNonStreamResponse (gc_Path c) b True)"
    using assms by (auto simp: good_response_def meaningful_response_def split: body_read.splits)
  then have "rv_Valid (validateNonStreamResponse (gc_Path c) b v)" for v
    by (cases v) (simp_all add: validateNonStreamResponse_def valid_response_def)
  then show ?thesis using assms False b(1)
    by (simp add: handle_response_def proxyNonStreamResponse_def good_response_def Let_def)
qed

lemma good_response_path: "gc_Path c = gc_Path c' \<Longrightarrow> good_response c resp \<longleftrightarrow> good_response c' resp"
  by (cases "rs_Body resp") (simp_all add: good_response_def meaningful_response_def meaningful_line_def [abs_def])

lemma client_available:
  "buildProviderTransport parse p = Inr built \<Longrightarrow> \<exists>cl clients'. getRelayHTTPClientForProvider parse p clients = (Inr cl, clients')"
  by (auto simp: getRelayHTTPClientForProvider_def Let_def split: option.splits)

lemma ProxyToUpstream_succeeds:
  assumes "gc_Body c = Some raw" and "pe_request_ok env (gc_Method c) (upstreamURL c p)"
    and "buildProviderTransport (pe_parse_url env) p = Inr built"
    and "\<And>cl req. net cl req = Response resp" and "good_response c resp"
  shows "fst (ProxyToUpstream env net c a t p w) = None"
  using client_available [OF assms(3), of "w_clients w"] good_response_accepted [OF assms(5)] assms(1,2,4)
  by (auto simp: ProxyToUpstream_def Let_def)

lemma ProxyToUpstream_refuses:
  assumes "ProxyToUpstream env net c a t p w = (Some e, w')" and "gc_Body c \<noteq> None" and "\<not> pa_Retryable e"
  shows "\<not> pe_request_ok env (gc_Method c) (upstreamURL c p) \<and> e = final_error 500 ''failed to create upstream request''"
proof -
  obtain raw where raw: "gc_Body c = Some raw" using assms(2) by blast
  obtain cl clients where cl: "getRelayHTTPClientForProvider (pe_parse_url env) p (w_clients w) = (cl, clients)" by fastforce
  have spec: "pa_Retryable e" if "handle_response env c resp a p t body w1 = (Some e, w2)" for resp body w1 w2
    using handle_response_spec [of env c a t p w1 resp body] that by (auto simp: attempt_spec_def)
  show ?thesis
    using assms(1,3) raw cl spec
    by (cases cl) (auto simp: ProxyToUpstream_def Let_def retryable_error_def split: transport_result.splits if_splits)
qed

text \<open>
  C5: Liveness of the failover. Suppose the body of the request can be read, and for one attempt of the plan the address of the
  provider makes a request, an HTTP client can be built for it, and its upstream answers with actionable output. Then the client is
  served, by this attempt at the latest, whatever the upstreams, the proxies and the answers of the attempts before it do. The
  one exception is a provider before it whose address makes no request: then the loop may stop there, and only with
  this error, a final 500.
\<close>

theorem relay_reaches_provider:
  assumes "gc_Body c = Some raw" and "k < length (concat plan)"
    and "pe_request_ok (env (Suc k)) (gc_Method c) (upstreamURL c (ra_Provider (concat plan ! k)))"
    and "buildProviderTransport (pe_parse_url (env (Suc k))) (ra_Provider (concat plan ! k)) = Inr built"
    and "\<And>client request. net (Suc k) client request = Response resp" and "good_response c resp"
  shows "fst (relay_groups env net aggToken plan (0, c, None, w)) = RelayDone
      \<and> length (db_logs (w_db (snd (relay_groups env net aggToken plan (0, c, None, w))))) \<le> length (db_logs (w_db w)) + Suc k
    \<or> (\<exists>j < k. \<not> pe_request_ok (env (Suc j)) (gc_Method c) (upstreamURL c (ra_Provider (concat plan ! j)))
        \<and> fst (relay_groups env net aggToken plan (0, c, None, w)) = RelayAbort (final_error 500 ''failed to create upstream request''))"
proof -
  define refusal where "refusal j e \<longleftrightarrow> e = final_error 500 ''failed to create upstream request''
      \<and> \<not> pe_request_ok (env (Suc j)) (gc_Method c) (upstreamURL c (ra_Provider (concat plan ! j)))" for j e
  obtain r w' where g: "relay_groups env net aggToken plan (0, c, None, w) = (r, w')" by fastforce
  from relay_groups_steps [OF g] obtain n c'
    where run: "(failover_step (relay_attempt env net aggToken))\<^sup>*\<^sup>* (Trying 0 (concat plan) None (c, w)) (Ended r n (c', w'))"
    by blast
  have r: "r = RelayDone \<and> n \<le> 0 + Suc k \<or> (\<exists>j < k. \<exists>e. refusal j e \<and> r = RelayAbort e)"
  proof (rule relay.served_or_refused [OF run])
    fix j s e s'
    assume s: "same_request c (fst s)" "relay_attempt env net aggToken (Suc (0 + j)) (concat plan ! j) s = (Some e, s')" "\<not> pa_Retryable e"
    let ?c = "attempt_context (Suc j) (concat plan ! j) (fst s)"
    obtain w1 where "ProxyToUpstream (env (Suc j)) (net (Suc j)) ?c aggToken (ra_Token (concat plan ! j))
        (ra_Provider (concat plan ! j)) (snd s) = (Some e, w1)"
      using s(2) by (auto simp: relay_attempt_def split: prod.splits)
    from ProxyToUpstream_refuses [OF this _ s(3)] show "refusal j e"
      using assms(1) same_requestD [OF s(1)] same_request_URL [OF s(1)] by (simp add: refusal_def)
  next
    fix s :: "gin_context \<times> world"
    assume s: "same_request c (fst s)"
    have "good_response (attempt_context (Suc k) (concat plan ! k) (fst s)) resp"
      using assms(6) good_response_path same_requestD(3) [OF s] by (metis attempt_context_simps(6))
    then have "fst (ProxyToUpstream (env (Suc k)) (net (Suc k)) (attempt_context (Suc k) (concat plan ! k) (fst s)) aggToken
       (ra_Token (concat plan ! k)) (ra_Provider (concat plan ! k)) (snd s)) = None"
      using assms(1,3,4,5) same_requestD [OF s] same_request_URL [OF s]
      by (intro ProxyToUpstream_succeeds) auto
    then show "fst (relay_attempt env net aggToken (Suc (0 + k)) (concat plan ! k) s) = None"
      by (auto simp: relay_attempt_def split: prod.splits)
  qed (use assms(2) in simp_all)
  moreover have "relay.outcome env net aggToken c (concat plan) (c, w) r n (c', w')"
    by (rule relay.reachable_outcome [OF run]) simp
  ultimately show ?thesis using g
    by (auto simp: refusal_def relay.outcome_def relay.trail_def dest!: list_all2_lengthD)
qed

definition sample_env :: proxy_env where
  "sample_env = \<lparr>pe_options = [], pe_parse_url = (\<lambda>_. None), pe_sha256_hex12 = (\<lambda>_. ''000000000000''), pe_marshal = (\<lambda>_. None),
     pe_request_ok = (\<lambda>_ _. True), pe_debug_payload = False, pe_now = 0, pe_elapsed_ms = 1, pe_line_ms = (\<lambda>_. 1), pe_request_id = ''r'',
     pe_error_text = (\<lambda>_. [])\<rparr>"

definition sample_context :: gin_context where
  "sample_context = \<lparr>gc_Method = ''POST'', gc_Path = ''/v1/chat/completions'', gc_RawQuery = [], gc_Header = [],
     gc_Body = Some ''{}'', gc_ClientIP = ''::1'', gc_request_model = ''M'', gc_request_model_original = ''M'',
     gc_request_model_canonical = ''M'', gc_request_model_resolved = [], gc_relay_request_id = ''q'', gc_relay_attempt_index = 0\<rparr>"

definition sample_response :: http_response where
  "sample_response = \<lparr>rs_StatusCode = 200, rs_Header = [(''Content-Type'', [''application/json''])],
     rs_Body = BodyOk (''{'' @ [CHR 0x22] @ ''text'' @ [CHR 0x22, CHR '':'', CHR 0x22] @ ''hi'' @ [CHR 0x22] @ ''}''),
     rs_Lines = [], rs_ScanErr = None\<rparr>"

definition relayed_attempt :: RouteAttempt where
  "relayed_attempt = \<lparr>ra_Route = \<lparr>mr_Id = 1, mr_ModelName = ''M'', mr_ProviderTokenId = 1, mr_ProviderId = 1, mr_Enabled = True, mr_Priority = 0, mr_Weight = 1\<rparr>,
     ra_Token = sample_token, ra_Provider = sample_provider\<lparr>p_ProxyEnabled := False\<rparr>,
     ra_Contribution = 1, ra_ValueScore = 1, ra_ProviderBalance = 1, ra_RecentUsageCostUSD = 0\<rparr>"

definition sample_world :: world where
  "sample_world = \<lparr>w_db = sample_db, w_caches = no_caches, w_clients = [],
     w_writer = \<lparr>cw_Header = [], cw_Status = None, cw_Body = []\<rparr>\<rparr>"

theorem relay_reaches_provider_witness:
  "fst (relay_groups (\<lambda>_. sample_env) (\<lambda>i _ _. if i = 2 then Response sample_response else TransportError ''down'')
      sample_aggtoken [[relayed_attempt], [relayed_attempt]] (0, sample_context, None, sample_world)) = RelayDone"
proof -
  let ?net = "\<lambda>i _ _. if i = 2 then Response sample_response else TransportError ''down''"
  have good: "good_response sample_context sample_response" by code_simp
  have built: "buildProviderTransport (pe_parse_url sample_env) (ra_Provider relayed_attempt) = Inr DirectClient" by code_simp
  have "fst (relay_groups (\<lambda>_. sample_env) ?net sample_aggtoken [[relayed_attempt], [relayed_attempt]] (0, sample_context, None, sample_world)) = RelayDone
      \<and> length (db_logs (w_db (snd (relay_groups (\<lambda>_. sample_env) ?net sample_aggtoken [[relayed_attempt], [relayed_attempt]]
          (0, sample_context, None, sample_world))))) \<le> length (db_logs (w_db sample_world)) + Suc 1
    \<or> (\<exists>j < 1. \<not> pe_request_ok sample_env (gc_Method sample_context)
           (upstreamURL sample_context (ra_Provider (concat [[relayed_attempt], [relayed_attempt]] ! j)))
        \<and> fst (relay_groups (\<lambda>_. sample_env) ?net sample_aggtoken [[relayed_attempt], [relayed_attempt]] (0, sample_context, None, sample_world))
          = RelayAbort (final_error 500 ''failed to create upstream request''))"
    by (rule relay_reaches_provider [where raw = "''{}''" and resp = sample_response and built = DirectClient])
      (simp_all add: sample_context_def good [unfolded sample_context_def] built, simp_all add: sample_env_def)
  then show ?thesis by (simp add: sample_env_def)
qed

end
