(* ===== verification/RateLimit.thy ===== *)
theory RateLimit
  imports GoTime
begin

text \<open>
  The in-memory rate limiter of \<open>src/common/rate-limit.go\<close> and the middleware of
  \<open>src/middleware/rate-limit.go\<close> that uses it, and the one-time codes of \<open>src/common/verification.go\<close>. The
  mutex makes every operation atomic, so a run is a sequence of requests and of rounds of the
  cleaning loop, each at a Unix second. The Redis variant of the middleware is not modelled.
\<close>

subsection \<open>The limiter\<close>

record InMemoryRateLimiter =
  rl_store :: "(gostring, int list) gomap"
  rl_expirationDuration :: gotime

definition expired_queue :: "gotime \<Rightarrow> int \<Rightarrow> int list \<Rightarrow> bool" where
  "expired_queue expirationDuration now queue \<longleftrightarrow>
     (if queue = [] then True else now - last queue > expirationDuration div Second)"

definition clearExpiredItems :: "int \<Rightarrow> InMemoryRateLimiter \<Rightarrow> InMemoryRateLimiter" where
  \<comment> \<open>one round of the endless loop, at the Unix second \<open>now\<close>\<close>
  "clearExpiredItems now l =
    l\<lparr>rl_store := filter (\<lambda>(key, queue). \<not> expired_queue (rl_expirationDuration l) now queue) (rl_store l)\<rparr>"

definition Limiter_Request ::
  "gostring \<Rightarrow> int \<Rightarrow> int \<Rightarrow> int \<Rightarrow> InMemoryRateLimiter \<Rightarrow> (bool \<times> InMemoryRateLimiter) option" where
  \<comment> \<open>at the Unix second \<open>now\<close>; \<open>None\<close> is the panic of \<open>(*queue)[0]\<close> on an empty queue or of \<open>make\<close>
     with a negative capacity\<close>
  "Limiter_Request key maxRequestNum duration now l =
    (case mget (rl_store l) key of
       Some queue \<Rightarrow>
         if int (length queue) < maxRequestNum then
           Some (True, l\<lparr>rl_store := mput key (queue @ [now]) (rl_store l)\<rparr>)
         else (case queue of
                 [] \<Rightarrow> None
               | oldest # rest \<Rightarrow>
                   if now - oldest \<ge> duration then
                     Some (True, l\<lparr>rl_store := mput key (rest @ [now]) (rl_store l)\<rparr>)
                   else Some (False, l))
     | None \<Rightarrow>
         if maxRequestNum < 0 then None
         else Some (True, l\<lparr>rl_store := mput key [now] (rl_store l)\<rparr>))"

subsection \<open>The middleware\<close>

datatype verdict = Continue | TooManyRequests | Panicked

record http_request =
  rq_Path :: gostring
  rq_ClientIP :: gostring
  rq_SessionId :: "int option"

definition memoryRateLimiter :: "int \<Rightarrow> int \<Rightarrow> gostring \<Rightarrow> int \<Rightarrow> InMemoryRateLimiter \<Rightarrow> verdict \<times> InMemoryRateLimiter" where
  "memoryRateLimiter maxRequestNum duration key now l =
    (case Limiter_Request key maxRequestNum duration now l of
       None \<Rightarrow> (Panicked, l)
     | Some (ok, l) \<Rightarrow> (if ok then Continue else TooManyRequests, l))"

definition buildIPRateLimitKey :: "gostring \<Rightarrow> http_request \<Rightarrow> gostring" where
  "buildIPRateLimitKey mark c = mark @ '':ip:'' @ rq_ClientIP c"

definition rateLimitFactory :: "int \<Rightarrow> int \<Rightarrow> gostring \<Rightarrow> http_request \<Rightarrow> int \<Rightarrow> InMemoryRateLimiter \<Rightarrow> verdict \<times> InMemoryRateLimiter" where
  "rateLimitFactory maxRequestNum duration mark c now l =
     memoryRateLimiter maxRequestNum duration (buildIPRateLimitKey mark c) now l"

definition GlobalWebRateLimit :: "http_request \<Rightarrow> int \<Rightarrow> InMemoryRateLimiter \<Rightarrow> verdict \<times> InMemoryRateLimiter" where
  "GlobalWebRateLimit = rateLimitFactory 300 60 ''GW''"

definition CriticalRateLimit :: "http_request \<Rightarrow> int \<Rightarrow> InMemoryRateLimiter \<Rightarrow> verdict \<times> InMemoryRateLimiter" where
  "CriticalRateLimit = rateLimitFactory 20 (20 * 60) ''CT''"

definition DownloadRateLimit :: "http_request \<Rightarrow> int \<Rightarrow> InMemoryRateLimiter \<Rightarrow> verdict \<times> InMemoryRateLimiter" where
  "DownloadRateLimit = rateLimitFactory 10 60 ''DW''"

definition UploadRateLimit :: "http_request \<Rightarrow> int \<Rightarrow> InMemoryRateLimiter \<Rightarrow> verdict \<times> InMemoryRateLimiter" where
  "UploadRateLimit = rateLimitFactory 10 60 ''UP''"

definition GlobalAPIRateLimit :: "http_request \<Rightarrow> int \<Rightarrow> InMemoryRateLimiter \<Rightarrow> verdict \<times> InMemoryRateLimiter" where
  "GlobalAPIRateLimit c now l =
    (if rq_Path c \<in> {''/api/status'', ''/api/notice'', ''/api/about''} then (Continue, l)
     else
       let maxRequestNum = 60; duration = 3 * 60; key = buildIPRateLimitKey ''GA'' c;
           (maxRequestNum, duration, key) =
             (case rq_SessionId c of
                Some sid \<Rightarrow> (600, 3 * 60, ''GA:uid:'' @ Itoa sid)
              | None \<Rightarrow> (maxRequestNum, duration, key))
       in memoryRateLimiter maxRequestNum duration key now l)"

subsection \<open>The sliding window\<close>

text \<open>
  The abstract limiter keeps the seconds of every admitted request of a key, for ever, and admits a
  request while fewer than the maximum lie less than the duration back.
\<close>

datatype limiter_event = Req gostring int | Clear int

fun event_time :: "limiter_event \<Rightarrow> int" where
  "event_time (Req key now) = now"
| "event_time (Clear now) = now"

definition in_window :: "int \<Rightarrow> int \<Rightarrow> int list \<Rightarrow> nat" where
  "in_window duration now admitted = length (filter (\<lambda>t. now - t < duration) admitted)"

fun limiter_run :: "(gostring \<Rightarrow> int) \<Rightarrow> (gostring \<Rightarrow> int) \<Rightarrow> limiter_event list \<Rightarrow> InMemoryRateLimiter \<Rightarrow> bool list option" where
  "limiter_run mx dur [] l = Some []"
| "limiter_run mx dur (Clear now # es) l = limiter_run mx dur es (clearExpiredItems now l)"
| "limiter_run mx dur (Req key now # es) l =
    (case Limiter_Request key (mx key) (dur key) now l of
       None \<Rightarrow> None
     | Some (ok, l) \<Rightarrow> map_option ((#) ok) (limiter_run mx dur es l))"

fun window_run :: "(gostring \<Rightarrow> int) \<Rightarrow> (gostring \<Rightarrow> int) \<Rightarrow> limiter_event list \<Rightarrow> (gostring \<Rightarrow> int list) \<Rightarrow> bool list" where
  "window_run mx dur [] adm = []"
| "window_run mx dur (Clear now # es) adm = window_run mx dur es adm"
| "window_run mx dur (Req key now # es) adm =
    (let ok = int (in_window (dur key) now (adm key)) < mx key in
     ok # window_run mx dur es (if ok then adm(key := adm key @ [now]) else adm))"

definition queue_ok :: "int \<Rightarrow> int \<Rightarrow> int \<Rightarrow> int list \<Rightarrow> int list \<Rightarrow> bool" where
  \<comment> \<open>how the queue of a key stands for the admitted requests, up to the time \<open>t\<close> of the last event\<close>
  "queue_ok m d t q adm \<longleftrightarrow>
     (\<exists>p. adm = p @ q \<and> sorted adm \<and> (\<forall>x \<in> set adm. x \<le> t) \<and> int (length q) \<le> m
        \<and> (int (length q) < m \<longrightarrow> (\<forall>x \<in> set p. d \<le> t - x)))"

lemma in_window_append: "in_window d now (a @ b) = in_window d now a + in_window d now b"
  by (simp add: in_window_def)

lemma in_window_old: "(\<And>x. x \<in> set a \<Longrightarrow> d \<le> now - x) \<Longrightarrow> in_window d now a = 0"
  by (force simp: in_window_def filter_empty_conv)

lemma in_window_le: "in_window d now a \<le> length a"
  by (simp add: in_window_def)

lemma in_window_all: "(\<And>x. x \<in> set a \<Longrightarrow> now - x < d) \<Longrightarrow> in_window d now a = length a"
  by (simp add: in_window_def)

lemma queue_ok_later: "queue_ok m d t q adm \<Longrightarrow> t \<le> t' \<Longrightarrow> queue_ok m d t' q adm"
  unfolding queue_ok_def by force

lemma queue_ok_room:
  assumes "queue_ok m d t q adm" and "t \<le> now" and "int (length q) < m"
  shows "int (in_window d now adm) < m \<and> queue_ok m d now (q @ [now]) (adm @ [now])"
proof -
  obtain p where p: "adm = p @ q" "sorted adm" "\<forall>x \<in> set adm. x \<le> t" "\<forall>x \<in> set p. d \<le> t - x"
    using assms by (auto simp: queue_ok_def)
  have "in_window d now p = 0" by (rule in_window_old) (use p(4) assms(2) in force)
  then have "int (in_window d now adm) < m"
    using in_window_le [of d now q] assms(3) by (simp add: p(1) in_window_append)
  moreover have "queue_ok m d now (q @ [now]) (adm @ [now])"
    unfolding queue_ok_def using p assms by (intro exI [of _ p]) (force simp: sorted_append)
  ultimately show ?thesis ..
qed

lemma queue_ok_full:
  assumes "queue_ok m d t (x # q) adm" and "t \<le> now" and "\<not> int (length (x # q)) < m" and "0 < m"
  shows "(d \<le> now - x \<longleftrightarrow> int (in_window d now adm) < m)
    \<and> (d \<le> now - x \<longrightarrow> queue_ok m d now (q @ [now]) (adm @ [now]))"
proof -
  obtain p where p: "adm = p @ x # q" "sorted adm" "\<forall>y \<in> set adm. y \<le> t" "m = int (length (x # q))"
    using assms by (auto simp: queue_ok_def)
  have old: "int (in_window d now adm) < m \<and> queue_ok m d now (q @ [now]) (adm @ [now])" if "d \<le> now - x"
  proof -
    have "in_window d now (p @ [x]) = 0"
      by (rule in_window_old) (use p(1,2) that in \<open>force simp: sorted_append\<close>)
    then have "in_window d now adm = in_window d now q"
      using in_window_append [of d now "p @ [x]" q] p(1) by simp
    then have "int (in_window d now adm) < m" using in_window_le [of d now q] p(4) by simp
    moreover have "queue_ok m d now (q @ [now]) (adm @ [now])"
      unfolding queue_ok_def using p assms(2) by (intro exI [of _ "p @ [x]"]) (force simp: sorted_append)
    ultimately show ?thesis ..
  qed
  have "\<not> int (in_window d now adm) < m" if "\<not> d \<le> now - x"
  proof -
    have "in_window d now (x # q) = length (x # q)"
      by (rule in_window_all) (use p(1,2) that in \<open>force simp: sorted_append\<close>)
    then show ?thesis using p(1,4) by (simp add: in_window_append)
  qed
  then show ?thesis using old by blast
qed

lemma queue_ok_cleared:
  assumes "queue_ok m d t q adm" and "t \<le> now" and "q = [] \<or> now - last q > e" and "d \<le> e" and "0 < m"
  shows "queue_ok m d now [] adm"
proof (cases "q = []")
  case True
  then show ?thesis using assms queue_ok_later by blast
next
  case False
  obtain p where p: "adm = p @ q" "sorted adm" "\<forall>x \<in> set adm. x \<le> t" using assms by (auto simp: queue_ok_def)
  have "x \<le> last q" if "x \<in> set adm" for x
  proof -
    have "adm = (p @ butlast q) @ [last q]" using p(1) False by simp
    then show ?thesis using p(2) that by (metis Un_iff insert_iff list.set(1,2) set_append sorted_append empty_iff order_refl)
  qed
  then show ?thesis using assms False p unfolding queue_ok_def by (intro exI [of _ adm]) force
qed

definition limiter_ok :: "(gostring \<Rightarrow> int) \<Rightarrow> (gostring \<Rightarrow> int) \<Rightarrow> int \<Rightarrow> InMemoryRateLimiter \<Rightarrow> (gostring \<Rightarrow> int list) \<Rightarrow> bool" where
  \<comment> \<open>an absent key stands like an empty queue\<close>
  "limiter_ok mx dur t l adm \<longleftrightarrow> distinct (map fst (rl_store l))
     \<and> (\<forall>k. queue_ok (mx k) (dur k) t (mget_default [] (rl_store l) k) (adm k)) \<and> (\<forall>k. mget (rl_store l) k \<noteq> Some [])"

lemma mget_filter_value:
  "distinct (map fst m) \<Longrightarrow>
   mget (filter (\<lambda>(k, v). P v) m) k = (case mget m k of None \<Rightarrow> None | Some v \<Rightarrow> if P v then Some v else None)"
proof (induction m)
  case (Cons a m)
  obtain k' v where a: "a = (k', v)" by fastforce
  have "mget m k' = None" using Cons.prems a by (simp add: mget_def map_of_eq_None_iff)
  moreover have "mget (filter (\<lambda>(k, v). P v) m) k' = None" if "k = k'"
    using Cons.IH Cons.prems calculation that by simp
  ultimately show ?case using Cons a by (auto simp: mget_def)
qed (simp add: mget_def)

lemma limiter_ok_clear:
  assumes "limiter_ok mx dur t l adm" and "t \<le> now" and "\<And>k. 0 < mx k \<and> dur k \<le> rl_expirationDuration l div Second"
  shows "limiter_ok mx dur now (clearExpiredItems now l) adm"
proof -
  have d: "distinct (map fst (rl_store l))" using assms(1) by (simp add: limiter_ok_def)
  have get: "mget (rl_store (clearExpiredItems now l)) k =
      (case mget (rl_store l) k of None \<Rightarrow> None
       | Some q \<Rightarrow> if \<not> expired_queue (rl_expirationDuration l) now q then Some q else None)" for k
    by (simp add: clearExpiredItems_def mget_filter_value [OF d])
  have "queue_ok (mx k) (dur k) now (mget_default [] (rl_store (clearExpiredItems now l)) k) (adm k)" for k
  proof -
    have q: "queue_ok (mx k) (dur k) t (mget_default [] (rl_store l) k) (adm k)" using assms(1) by (simp add: limiter_ok_def)
    show ?thesis
    proof (cases "mget (rl_store (clearExpiredItems now l)) k = None \<and> mget (rl_store l) k \<noteq> None")
      case True
      then obtain v where v: "mget (rl_store l) k = Some v" "expired_queue (rl_expirationDuration l) now v"
        by (auto simp: get split: option.splits if_splits)
      have "queue_ok (mx k) (dur k) now [] (adm k)"
        using queue_ok_cleared [OF _ assms(2), of "mx k" "dur k" v "adm k" "rl_expirationDuration l div Second"] q v assms(3) [of k]
        by (simp add: mget_default_def expired_queue_def split: if_splits)
      then show ?thesis using True by (simp add: mget_default_def)
    next
      case False
      then have "mget_default [] (rl_store (clearExpiredItems now l)) k = mget_default [] (rl_store l) k"
        by (auto simp: get mget_default_def split: option.splits if_splits)
      then show ?thesis using queue_ok_later [OF q assms(2)] by simp
    qed
  qed
  moreover have "distinct (map fst (rl_store (clearExpiredItems now l)))"
    using d by (simp add: clearExpiredItems_def distinct_map_filter)
  moreover have "mget (rl_store (clearExpiredItems now l)) k \<noteq> Some []" for k
    using assms(1) by (auto simp: get limiter_ok_def split: option.splits if_splits)
  ultimately show ?thesis by (simp add: limiter_ok_def)
qed

lemma limiter_ok_put:
  assumes "limiter_ok mx dur t l adm" and "t \<le> now"
    and "queue_ok (mx key) (dur key) now q (adm key @ [now])" and "q \<noteq> []"
  shows "limiter_ok mx dur now (l\<lparr>rl_store := mput key q (rl_store l)\<rparr>) (adm(key := adm key @ [now]))"
  using assms(1,3,4) by (auto simp: limiter_ok_def intro: queue_ok_later [OF _ assms(2)])

lemma limiter_ok_later: "limiter_ok mx dur t l adm \<Longrightarrow> t \<le> now \<Longrightarrow> limiter_ok mx dur now l adm"
  by (auto simp: limiter_ok_def intro: queue_ok_later)

lemma Limiter_Request_window:
  assumes ok: "limiter_ok mx dur t l adm" and "t \<le> now" and pos: "0 < mx key"
  shows "\<exists>l'. Limiter_Request key (mx key) (dur key) now l = Some (int (in_window (dur key) now (adm key)) < mx key, l')
    \<and> rl_expirationDuration l' = rl_expirationDuration l
    \<and> limiter_ok mx dur now l' (if int (in_window (dur key) now (adm key)) < mx key then adm(key := adm key @ [now]) else adm)"
proof -
  have q: "queue_ok (mx key) (dur key) t (mget_default [] (rl_store l) key) (adm key)" using ok by (simp add: limiter_ok_def)
  show ?thesis
  proof (cases "int (length (mget_default [] (rl_store l) key)) < mx key")
    case True
    note r = queue_ok_room [OF q assms(2) True]
    have "Limiter_Request key (mx key) (dur key) now l
        = Some (True, l\<lparr>rl_store := mput key (mget_default [] (rl_store l) key @ [now]) (rl_store l)\<rparr>)"
      using True pos by (auto simp: Limiter_Request_def mget_default_def split: option.splits)
    then show ?thesis using limiter_ok_put [OF ok assms(2)] r by simp
  next
    case False
    then obtain x rest where xs: "mget (rl_store l) key = Some (x # rest)"
      using pos by (cases "mget (rl_store l) key"; cases "mget_default [] (rl_store l) key") (auto simp: mget_default_def)
    note r = queue_ok_full [OF q [unfolded mget_default_def xs option.case] assms(2) _ pos]
    have r: "(dur key \<le> now - x \<longleftrightarrow> int (in_window (dur key) now (adm key)) < mx key)
      \<and> (dur key \<le> now - x \<longrightarrow> queue_ok (mx key) (dur key) now (rest @ [now]) (adm key @ [now]))"
      by (rule r) (use False xs in \<open>simp add: mget_default_def\<close>)
    show ?thesis
    proof (cases "dur key \<le> now - x")
      case True
      then show ?thesis using limiter_ok_put [OF ok assms(2)] r False xs
        by (simp add: Limiter_Request_def mget_default_def)
    next
      case no: False
      then show ?thesis using limiter_ok_later [OF ok assms(2)] r False xs
        by (simp add: Limiter_Request_def mget_default_def)
    qed
  qed
qed

lemma limiter_run_window:
  assumes "limiter_ok mx dur t l adm" and "sorted (t # map event_time es)"
    and "\<And>k. 0 < mx k \<and> dur k \<le> rl_expirationDuration l div Second"
  shows "limiter_run mx dur es l = Some (window_run mx dur es adm)"
  using assms
proof (induction mx dur es adm arbitrary: l t rule: window_run.induct)
  case (2 mx dur now es adm)
  have "limiter_ok mx dur now (clearExpiredItems now l) adm"
    by (rule limiter_ok_clear [OF 2(2)]) (use 2(3,4) in auto)
  from "2.IH" [OF this] show ?case using 2(3,4) by (simp add: clearExpiredItems_def)
next
  case (3 mx dur key now es adm)
  obtain l' where l': "Limiter_Request key (mx key) (dur key) now l = Some (int (in_window (dur key) now (adm key)) < mx key, l')"
    "rl_expirationDuration l' = rl_expirationDuration l"
    "limiter_ok mx dur now l' (if int (in_window (dur key) now (adm key)) < mx key then adm(key := adm key @ [now]) else adm)"
    using Limiter_Request_window [OF 3(2)] 3(3,4) by (metis event_time.simps(1) list.set_intros(1) list.simps(9) sorted_simps(2))
  from "3.IH" [OF refl l'(3)] have "limiter_run mx dur es l' =
     Some (window_run mx dur es (if int (in_window (dur key) now (adm key)) < mx key then adm(key := adm key @ [now]) else adm))"
    using 3(3,4) l'(2) by simp
  then show ?case using l'(1) by (simp add: Let_def)
qed simp

text \<open>
  C24: on any sequence of requests and cleaning rounds in the order of the clock, the limiter never panics
  and decides every request like the exact sliding window: it admits a request when fewer than the
  maximum number of admitted requests of its key lie less than the duration back. This needs a positive
  maximum for every key and durations within the expiration of the cleaning loop, as the constants have.
\<close>

theorem limiter_sliding_window:
  assumes "sorted (map event_time es)"
    and "\<forall>k. 0 < mx k \<and> dur k \<le> e div Second"
  shows "limiter_run mx dur es \<lparr>rl_store = [], rl_expirationDuration = e\<rparr> = Some (window_run mx dur es (\<lambda>_. []))"
proof (cases es)
  case (Cons ev es')
  have "limiter_ok mx dur (event_time ev) \<lparr>rl_store = [], rl_expirationDuration = e\<rparr> (\<lambda>_. [])"
    using assms(2) by (auto simp: limiter_ok_def queue_ok_def order.strict_implies_order)
  then show ?thesis by (rule limiter_run_window) (use assms Cons in auto)
qed simp

theorem limiter_sliding_window_witness:
  "limiter_run (\<lambda>_. 2) (\<lambda>_. 10) [Req ''a'' 0, Req ''a'' 3, Req ''a'' 5, Clear 6, Req ''a'' 10, Req ''a'' 12]
     \<lparr>rl_store = [], rl_expirationDuration = 1200 * Second\<rparr> = Some [True, True, False, True, False]"
proof -
  have "limiter_run (\<lambda>_. 2) (\<lambda>_. 10) [Req ''a'' 0, Req ''a'' 3, Req ''a'' 5, Clear 6, Req ''a'' 10, Req ''a'' 12]
      \<lparr>rl_store = [], rl_expirationDuration = 1200 * Second\<rparr>
    = Some (window_run (\<lambda>_. 2) (\<lambda>_. 10) [Req ''a'' 0, Req ''a'' 3, Req ''a'' 5, Clear 6, Req ''a'' 10, Req ''a'' 12] (\<lambda>_. []))"
    by (rule limiter_sliding_window) (simp_all add: Second_def)
  then show ?thesis by (simp add: in_window_def)
qed

lemma limiter_zero_admits_one: "Limiter_Request key 0 d now \<lparr>rl_store = [], rl_expirationDuration = e\<rparr>
    = Some (True, \<lparr>rl_store = [(key, [now])], rl_expirationDuration = e\<rparr>)"
  by (simp add: Limiter_Request_def mput_def)

text \<open>The keys of the middleware keep the limits of its users apart: a user's key is never an address's key.\<close>

lemma session_and_ip_keys_differ: "''GA:uid:'' @ Itoa sid \<noteq> buildIPRateLimitKey mark c"
  if "mark \<in> {''GA'', ''GW'', ''CT'', ''DW'', ''UP''}"
  using that by (auto simp: buildIPRateLimitKey_def)

lemma exempt_paths_never_limited:
  "rq_Path c = ''/api/status'' \<Longrightarrow> GlobalAPIRateLimit c now l = (Continue, l)"
  by (simp add: GlobalAPIRateLimit_def)

subsection \<open>One-time codes\<close>

record verificationValue =
  vv_code :: gostring
  vv_time :: gotime

definition EmailVerificationPurpose :: gostring where "EmailVerificationPurpose = ''v''"
definition PasswordResetPurpose :: gostring where "PasswordResetPurpose = ''r''"
definition verificationMapMaxSize :: nat where "verificationMapMaxSize = 10"
definition VerificationValidMinutes :: int where "VerificationValidMinutes = 10"

definition GenerateVerificationCode :: "gostring \<Rightarrow> int \<Rightarrow> gostring option" where
  \<comment> \<open>the first argument is the text of a fresh UUID; \<open>None\<close> is a slice out of range\<close>
  "GenerateVerificationCode uuid len =
    (let code = filter (\<lambda>c. c \<noteq> CHR ''-'') uuid in
     if len = 0 then Some code
     else if 0 \<le> len \<and> len \<le> int (length code) then Some (take (nat len) code) else None)"

definition code_expired :: "gotime \<Rightarrow> verificationValue \<Rightarrow> bool" where
  \<comment> \<open>\<open>int(now.Sub(value.time).Seconds()) >= VerificationValidMinutes*60\<close>\<close>
  "code_expired now v \<longleftrightarrow> (now - vv_time v) div Second \<ge> VerificationValidMinutes * 60"

definition removeExpiredPairs :: "gotime \<Rightarrow> (gostring, verificationValue) gomap \<Rightarrow> (gostring, verificationValue) gomap" where
  "removeExpiredPairs now m = filter (\<lambda>(k, v). \<not> code_expired now v) m"

definition RegisterVerificationCodeWithKey ::
  "gotime \<Rightarrow> gostring \<Rightarrow> gostring \<Rightarrow> gostring \<Rightarrow> (gostring, verificationValue) gomap \<Rightarrow> (gostring, verificationValue) gomap" where
  "RegisterVerificationCodeWithKey now key code purpose m =
    (let m = mput (purpose @ key) \<lparr>vv_code = code, vv_time = now\<rparr> m in
     if length m > verificationMapMaxSize then removeExpiredPairs now m else m)"

definition VerifyCodeWithKey :: "gotime \<Rightarrow> gostring \<Rightarrow> gostring \<Rightarrow> gostring \<Rightarrow> (gostring, verificationValue) gomap \<Rightarrow> bool" where
  "VerifyCodeWithKey now key code purpose m =
    (case mget m (purpose @ key) of
       None \<Rightarrow> False
     | Some v \<Rightarrow> if code_expired now v then False else code = vv_code v)"

definition DeleteKey :: "gostring \<Rightarrow> gostring \<Rightarrow> (gostring, verificationValue) gomap \<Rightarrow> (gostring, verificationValue) gomap" where
  "DeleteKey key purpose m = mdel (purpose @ key) m"

datatype code_event = Register gotime gostring gostring gostring | Delete gostring gostring

fun code_step :: "code_event \<Rightarrow> (gostring, verificationValue) gomap \<Rightarrow> (gostring, verificationValue) gomap" where
  "code_step (Register now key code purpose) m = RegisterVerificationCodeWithKey now key code purpose m"
| "code_step (Delete key purpose) m = DeleteKey key purpose m"

fun concerns :: "gostring \<Rightarrow> gotime \<Rightarrow> code_event \<Rightarrow> bool" where
  \<comment> \<open>the event is about another code and lies before \<open>now\<close>\<close>
  "concerns full now (Register t key code purpose) \<longleftrightarrow> purpose @ key = full \<or> now < t"
| "concerns full now (Delete key purpose) \<longleftrightarrow> purpose @ key = full"

lemma removeExpired_get:
  "distinct (map fst m) \<Longrightarrow> mget (removeExpiredPairs now m) k =
    (case mget m k of None \<Rightarrow> None | Some v \<Rightarrow> if code_expired now v then None else Some v)"
  by (simp add: removeExpiredPairs_def mget_filter_value split: option.splits)

lemma code_expired_later: "code_expired t v \<Longrightarrow> t \<le> now \<Longrightarrow> code_expired now v"
proof -
  assume "code_expired t v" "t \<le> now"
  moreover from \<open>t \<le> now\<close> have "(t - vv_time v) div Second \<le> (now - vv_time v) div Second"
    by (intro zdiv_mono1) (simp_all add: Second_def)
  ultimately show ?thesis by (simp add: code_expired_def)
qed

definition keeps_code :: "gostring \<Rightarrow> gotime \<Rightarrow> verificationValue \<Rightarrow> (gostring, verificationValue) gomap \<Rightarrow> bool" where
  \<comment> \<open>the value is stored, or gone because it has expired by \<open>now\<close>\<close>
  "keeps_code full now v m \<longleftrightarrow> distinct (map fst m)
     \<and> (mget m full = Some v \<or> mget m full = None \<and> code_expired now v)"

lemma keeps_code_remove:
  "keeps_code full now v m \<Longrightarrow> t \<le> now \<Longrightarrow> keeps_code full now v (removeExpiredPairs t m)"
  using code_expired_later [of t v now]
  by (cases "code_expired t v") (auto simp: keeps_code_def removeExpired_get removeExpiredPairs_def [of t m] distinct_map_filter mget_filter_value)

lemma keeps_code_put:
  "distinct (map fst m) \<Longrightarrow> (full = k \<and> v = w \<or> full \<noteq> k \<and> keeps_code full now v m) \<Longrightarrow> keeps_code full now v (mput k w m)"
  by (auto simp: keeps_code_def)

lemma keeps_code_register:
  assumes "distinct (map fst m)" and "t \<le> now"
    and "full = purpose @ key \<and> v = \<lparr>vv_code = code, vv_time = t\<rparr> \<or> full \<noteq> purpose @ key \<and> keeps_code full now v m"
  shows "keeps_code full now v (RegisterVerificationCodeWithKey t key code purpose m)"
  using keeps_code_put [OF assms(1,3)] keeps_code_remove [OF _ assms(2)]
  by (simp add: RegisterVerificationCodeWithKey_def Let_def)

lemma keeps_code_run:
  "keeps_code full now v m \<Longrightarrow> \<forall>e \<in> set es. \<not> concerns full now e \<Longrightarrow> keeps_code full now v (fold code_step es m)"
proof (induction es arbitrary: m)
  case (Cons e es)
  have "keeps_code full now v (code_step e m)"
  proof (cases e)
    case (Register t key code purpose)
    then show ?thesis using Cons.prems keeps_code_register [of m t now full purpose key v code]
      by (auto simp: keeps_code_def)
  next
    case (Delete key purpose)
    then show ?thesis using Cons.prems by (auto simp: keeps_code_def DeleteKey_def)
  qed
  then show ?case using Cons by simp
qed simp

text \<open>
  A registered code verifies for exactly ten minutes: after any registrations and deletions of
  other codes, also those that make the map drop expired entries, checking a code for its key succeeds
  exactly when it is the registered one and fewer than 600 full seconds have passed.
\<close>

theorem verification_code_lifetime:
  assumes "distinct (map fst m)" and "t \<le> now" and "\<forall>e \<in> set es. \<not> concerns (purpose @ key) now e"
  shows "VerifyCodeWithKey now key given purpose (fold code_step es (RegisterVerificationCodeWithKey t key code purpose m))
    \<longleftrightarrow> given = code \<and> (now - t) div Second < 600"
proof -
  have "keeps_code (purpose @ key) now \<lparr>vv_code = code, vv_time = t\<rparr> (RegisterVerificationCodeWithKey t key code purpose m)"
    by (rule keeps_code_register [OF assms(1,2)]) simp
  then have k: "keeps_code (purpose @ key) now \<lparr>vv_code = code, vv_time = t\<rparr>
      (fold code_step es (RegisterVerificationCodeWithKey t key code purpose m))"
    by (rule keeps_code_run [OF _ assms(3)])
  have e: "code_expired now \<lparr>vv_code = code, vv_time = t\<rparr> \<longleftrightarrow> \<not> (now - t) div Second < 600"
    by (auto simp: code_expired_def VerificationValidMinutes_def)
  from k show ?thesis unfolding keeps_code_def VerifyCodeWithKey_def using e by auto
qed

theorem verification_code_lifetime_witness:
  "VerifyCodeWithKey (UnixTime 1599) ''a@b.c'' ''123456'' ''v''
     (fold code_step [Register (UnixTime 1100) ''a@b.c'' ''999999'' ''r'', Delete ''x@y.z'' ''v'']
       (RegisterVerificationCodeWithKey (UnixTime 1000) ''a@b.c'' ''123456'' ''v'' []))"
proof -
  have "VerifyCodeWithKey (UnixTime 1599) ''a@b.c'' ''123456'' ''v''
     (fold code_step [Register (UnixTime 1100) ''a@b.c'' ''999999'' ''r'', Delete ''x@y.z'' ''v'']
       (RegisterVerificationCodeWithKey (UnixTime 1000) ''a@b.c'' ''123456'' ''v'' []))
    \<longleftrightarrow> ''123456'' = ''123456'' \<and> (UnixTime 1599 - UnixTime 1000) div Second < 600"
    by (rule verification_code_lifetime) (simp_all add: UnixTime_def Second_def)
  then show ?thesis by (simp add: UnixTime_def Second_def)
qed

end
