(* ===== verification/UsageLogs.thy ===== *)
theory UsageLogs
  imports RouteScore RouteCache AggToken
begin

text \<open>
  Reading the usage log, \<open>src/model/usage_log.go\<close>, with the page arithmetic of
  \<open>src/controller/pagination.go\<close>: the filters in SQL and in Go, one row per relayed request, pages, the
  summary and the dashboard, each per request and per attempt. SQL groups come in the order of their first row and
  are sorted stably, as Go maps are in the order of insertion; sums of counters are taken without overflow.
\<close>

subsection \<open>Queries\<close>

definition UsageAggregationRequest :: gostring where "UsageAggregationRequest = ''request''"
definition UsageAggregationAttempt :: gostring where "UsageAggregationAttempt = ''attempt''"

record UsageLogQuery =
  uq_UserID :: "int option"
  uq_Offset :: int
  uq_Limit :: int
  uq_Keyword :: gostring
  uq_ProviderName :: gostring
  uq_Status :: gostring
  uq_ViewTab :: gostring
  uq_Aggregation :: gostring

definition normalizeUsageAggregation :: "gostring \<Rightarrow> gostring" where
  "normalizeUsageAggregation value =
    (if TrimSpace (ToLower value) = UsageAggregationAttempt then UsageAggregationAttempt else UsageAggregationRequest)"

definition isUsageLogSuccess :: "UsageLog \<Rightarrow> bool" where
  "isUsageLogSuccess lg \<longleftrightarrow> ul_Status lg = 1 \<and> TrimSpace (ul_ErrorMessage lg) = []"

definition isUsageLogInvalidResponse :: "UsageLog \<Rightarrow> bool" where
  "isUsageLogInvalidResponse lg \<longleftrightarrow>
    EqualFold (TrimSpace (ul_FailureCategory lg)) ''invalid_response'' \<or> TrimSpace (ul_InvalidReason lg) \<noteq> []"

definition keyword_where :: "gostring \<Rightarrow> UsageLog \<Rightarrow> bool" where
  "keyword_where keyword l \<longleftrightarrow>
    list_ex (like_any keyword)
      [ul_ModelName l, ul_ProviderName l, ul_RequestId l, ul_RelayRequestId l, ul_UsageSource l, ul_ErrorMessage l,
       ul_ClientIp l, ul_FailureCategory l, ul_InvalidReason l, ul_RequestModelOriginal l, ul_RequestModelCanonical l,
       ul_RequestModelResolved l]"

definition applyUsageLogCommonFilters :: "UsageLogQuery \<Rightarrow> UsageLog \<Rightarrow> bool" where
  "applyUsageLogCommonFilters query l \<longleftrightarrow>
    (case uq_UserID query of Some u \<Rightarrow> ul_UserId l = u | None \<Rightarrow> True) \<and>
    (let providerName = TrimSpace (uq_ProviderName query) in if providerName \<noteq> [] then ul_ProviderName l = providerName else True) \<and>
    (let keyword = TrimSpace (uq_Keyword query) in if keyword \<noteq> [] then keyword_where keyword l else True)"

definition applyUsageLogStatusFilters :: "UsageLogQuery \<Rightarrow> UsageLog \<Rightarrow> bool" where
  "applyUsageLogStatusFilters query l \<longleftrightarrow>
    (if uq_ViewTab query = ''error'' then log_error_where l else True) \<and>
    (if uq_Status query = ''success'' then log_success_where l
     else if uq_Status query = ''error'' then log_error_where l else True)"

definition applyUsageLogFilters :: "UsageLogQuery \<Rightarrow> UsageLog \<Rightarrow> bool" where
  "applyUsageLogFilters query l \<longleftrightarrow> applyUsageLogCommonFilters query l \<and> applyUsageLogStatusFilters query l"

definition matchesUsageLogStatus :: "UsageLog \<Rightarrow> UsageLogQuery \<Rightarrow> bool" where
  "matchesUsageLogStatus lg query \<longleftrightarrow>
    (if EqualFold (TrimSpace (uq_ViewTab query)) ''error'' \<and> isUsageLogSuccess lg then False
     else if ToLower (TrimSpace (uq_Status query)) = ''success'' then isUsageLogSuccess lg
     else if ToLower (TrimSpace (uq_Status query)) = ''error'' then \<not> isUsageLogSuccess lg
     else True)"

subsection \<open>One row per request\<close>

definition usageLogGroupKey :: "UsageLog \<Rightarrow> gostring" where
  "usageLogGroupKey lg =
    (if TrimSpace (ul_RelayRequestId lg) \<noteq> [] then ''relay:'' @ TrimSpace (ul_RelayRequestId lg)
     else if TrimSpace (ul_RequestId lg) \<noteq> [] then ''request:'' @ TrimSpace (ul_RequestId lg)
     else ''id:'' @ Itoa (ul_Id lg))"

definition derivedRelayRequestID :: "UsageLog \<Rightarrow> gostring" where
  "derivedRelayRequestID lg =
    (if TrimSpace (ul_RelayRequestId lg) \<noteq> [] then TrimSpace (ul_RelayRequestId lg)
     else if TrimSpace (ul_RequestId lg) \<noteq> [] then ''legacy-'' @ TrimSpace (ul_RequestId lg)
     else ''legacy-id-'' @ Itoa (ul_Id lg))"

definition compareUsageLogAttemptOrder :: "UsageLog option \<Rightarrow> UsageLog option \<Rightarrow> int" where
  \<comment> \<open>\<open>None\<close> is the nil pointer\<close>
  "compareUsageLogAttemptOrder a b =
    (case (a, b) of
       (None, None) \<Rightarrow> 0
     | (None, Some _) \<Rightarrow> -1
     | (Some _, None) \<Rightarrow> 1
     | (Some a, Some b) \<Rightarrow>
         if ul_AttemptIndex a \<noteq> ul_AttemptIndex b then (if ul_AttemptIndex a > ul_AttemptIndex b then 1 else -1)
         else if ul_CreatedAt a \<noteq> ul_CreatedAt b then (if ul_CreatedAt a > ul_CreatedAt b then 1 else -1)
         else if ul_Id a > ul_Id b then 1 else if ul_Id a < ul_Id b then -1 else 0)"

definition selectRequestRepresentative :: "UsageLog list \<Rightarrow> UsageLog option" where
  "selectRequestRepresentative attempts =
    (case fold (\<lambda>attempt s.
        (case s of (bestSuccess, bestAny) \<Rightarrow>
          (if isUsageLogSuccess attempt \<and> compareUsageLogAttemptOrder (Some attempt) bestSuccess > 0 then Some attempt else bestSuccess,
           if compareUsageLogAttemptOrder (Some attempt) bestAny > 0 then Some attempt else bestAny)))
        attempts (None, None) of
       (bestSuccess, bestAny) \<Rightarrow> if bestSuccess \<noteq> None then bestSuccess else bestAny)"

definition newer_row :: "UsageLog \<Rightarrow> UsageLog \<Rightarrow> bool" where
  \<comment> \<open>the order of the collapsed rows\<close>
  "newer_row a b \<longleftrightarrow> (if ul_Id a = ul_Id b then ul_CreatedAt a > ul_CreatedAt b else ul_Id a > ul_Id b)"

definition with_relay_id :: "UsageLog \<Rightarrow> UsageLog" where
  "with_relay_id selected =
    (if TrimSpace (ul_RelayRequestId selected) = [] then selected\<lparr>ul_RelayRequestId := derivedRelayRequestID selected\<rparr> else selected)"

definition group_attempts_by_request :: "UsageLog list \<Rightarrow> (gostring, UsageLog list) gomap" where
  "group_attempts_by_request attempts = fold (\<lambda>attempt groups. mappend (usageLogGroupKey attempt) attempt groups) attempts []"

definition collapseUsageLogsByRequest :: "UsageLog list \<Rightarrow> UsageLog list" where
  "collapseUsageLogsByRequest attempts =
    (let groups = group_attempts_by_request attempts; order = first_seen (map usageLogGroupKey attempts);
         collapsed = concat (map (\<lambda>key. case selectRequestRepresentative (mget_default [] groups key) of
             Some selected \<Rightarrow> [with_relay_id selected] | None \<Rightarrow> []) order)
     in sort_by newer_row collapsed)"

definition filterUsageLogsByStatus :: "UsageLog list \<Rightarrow> UsageLogQuery \<Rightarrow> UsageLog list" where
  "filterUsageLogsByStatus logs query = filter (\<lambda>lg. matchesUsageLogStatus lg query) logs"

definition paginateUsageLogs :: "'a list \<Rightarrow> int \<Rightarrow> int \<Rightarrow> 'a list" where
  "paginateUsageLogs logs offset limit =
    (let offset = (if offset < 0 then 0 else offset); limit = (if limit \<le> 0 then 15 else limit)
     in if offset \<ge> int (length logs) then []
        else
          let end' = offset + limit; end' = (if end' > int (length logs) then int (length logs) else end')
          in take (nat (end' - offset)) (drop (nat offset) logs))"

definition ids_desc :: "UsageLog list \<Rightarrow> UsageLog list" where
  \<comment> \<open>\<open>Order("id desc")\<close>\<close>
  "ids_desc = sort_key (\<lambda>l. - ul_Id l)"

definition queryRequestAggregatedLogs :: "UsageLogQuery \<Rightarrow> db \<Rightarrow> UsageLog list" where
  "queryRequestAggregatedLogs query d =
    filterUsageLogsByStatus (collapseUsageLogsByRequest (ids_desc (filter (applyUsageLogCommonFilters query) (db_logs d)))) query"

definition QueryUsageLogs :: "UsageLogQuery \<Rightarrow> db \<Rightarrow> UsageLog list \<times> int" where
  "QueryUsageLogs query d =
    (let query = (if uq_Limit query \<le> 0 then query\<lparr>uq_Limit := 15\<rparr> else query);
         query = (if uq_Offset query < 0 then query\<lparr>uq_Offset := 0\<rparr> else query)
     in if normalizeUsageAggregation (uq_Aggregation query) = UsageAggregationAttempt then
          let rows = filter (applyUsageLogFilters query) (db_logs d)
          in (page_desc ul_Id (uq_Offset query) (uq_Limit query) rows, int (length rows))
        else
          let logs = queryRequestAggregatedLogs query d
          in (paginateUsageLogs logs (uq_Offset query) (uq_Limit query), int (length logs)))"

definition QueryUsageLogProviders :: "UsageLogQuery \<Rightarrow> db \<Rightarrow> gostring list" where
  "QueryUsageLogProviders query d =
    (let providerQuery = query\<lparr>uq_ProviderName := []\<rparr>
     in if normalizeUsageAggregation (uq_Aggregation providerQuery) = UsageAggregationAttempt then
          sort (remdups (map ul_ProviderName (filter (\<lambda>l. applyUsageLogFilters providerQuery l \<and> sql_trim (ul_ProviderName l) \<noteq> []) (db_logs d))))
        else
          sort (remdups (filter (\<lambda>p. p \<noteq> []) (map (\<lambda>l. TrimSpace (ul_ProviderName l)) (queryRequestAggregatedLogs providerQuery d)))))"

subsection \<open>Failures of a provider\<close>

definition failed_since :: "int \<Rightarrow> int \<Rightarrow> UsageLog \<Rightarrow> bool" where
  "failed_since providerID since l \<longleftrightarrow> ul_ProviderId l = providerID \<and> ul_CreatedAt l \<ge> since \<and> log_error_where l"

definition CountFailedUsageLogsSince :: "int \<Rightarrow> int \<Rightarrow> db \<Rightarrow> int" where
  "CountFailedUsageLogsSince providerID since d =
    (if providerID = 0 then 0 else int (length (filter (failed_since providerID since) (db_logs d))))"

definition GetRecentFailedUsageLogsSince :: "int \<Rightarrow> int \<Rightarrow> int \<Rightarrow> db \<Rightarrow> UsageLog list" where
  "GetRecentFailedUsageLogsSince providerID since limit d =
    (if providerID = 0 then []
     else
       let limit = (if limit \<le> 0 then 5 else limit)
       in take (nat limit) (ids_desc (filter (failed_since providerID since) (db_logs d))))"

subsection \<open>Summary\<close>

record UsageLogSummary =
  us_Total :: int
  us_SuccessCount :: int
  us_ErrorCount :: int
  us_InvalidResponseCount :: int
  us_InvalidResponseRate :: real
  us_InputTokens :: int
  us_OutputTokens :: int
  us_CacheTokens :: int
  us_TotalCost :: real
  us_AvgLatency :: int

definition empty_summary :: UsageLogSummary where
  "empty_summary = \<lparr>us_Total = 0, us_SuccessCount = 0, us_ErrorCount = 0, us_InvalidResponseCount = 0, us_InvalidResponseRate = 0,
     us_InputTokens = 0, us_OutputTokens = 0, us_CacheTokens = 0, us_TotalCost = 0, us_AvgLatency = 0\<rparr>"

definition summary_step :: "UsageLog \<Rightarrow> int \<times> int \<times> int \<times> int \<times> int \<times> real \<times> int \<Rightarrow> int \<times> int \<times> int \<times> int \<times> int \<times> real \<times> int" where
  \<comment> \<open>one round of the loop over the counters\<close>
  "summary_step lg = (\<lambda>(successCount, invalidResponseCount, inputTokens, outputTokens, cacheTokens, totalCost, latencySum).
    (if isUsageLogSuccess lg then successCount + 1 else successCount,
     if isUsageLogInvalidResponse lg then invalidResponseCount + 1 else invalidResponseCount,
     inputTokens + ul_PromptTokens lg, outputTokens + ul_CompletionTokens lg, cacheTokens + ul_CacheTokens lg,
     totalCost + ul_CostUSD lg, latencySum + ul_ResponseTimeMs lg))"

definition summarizeUsageLogs :: "UsageLog list \<Rightarrow> UsageLogSummary" where
  "summarizeUsageLogs logs =
    (if logs = [] then empty_summary
     else
       (case fold summary_step logs (0, 0, 0, 0, 0, 0, 0) of
          (successCount, invalidResponseCount, inputTokens, outputTokens, cacheTokens, totalCost, latencySum) \<Rightarrow>
            let total = int (length logs);
                avgLatency = (if total > 0 then round_away (real_of_int latencySum / real_of_int total) else 0);
                invalidRate = (if total > 0 then real_of_int invalidResponseCount / real_of_int total else 0)
            in \<lparr>us_Total = total, us_SuccessCount = successCount, us_ErrorCount = total - successCount,
                us_InvalidResponseCount = invalidResponseCount, us_InvalidResponseRate = invalidRate,
                us_InputTokens = inputTokens, us_OutputTokens = outputTokens, us_CacheTokens = cacheTokens,
                us_TotalCost = totalCost, us_AvgLatency = avgLatency\<rparr>))"

definition attempt_summary :: "UsageLog list \<Rightarrow> UsageLogSummary" where
  \<comment> \<open>the aggregate query over the selected rows\<close>
  "attempt_summary rows =
    (let total = int (length rows); invalid = count_where usageLogInvalidResponseSQLCondition rows
     in \<lparr>us_Total = total, us_SuccessCount = count_where log_success_where rows, us_ErrorCount = count_where log_error_where rows,
         us_InvalidResponseCount = invalid, us_InvalidResponseRate = (if total > 0 then real_of_int invalid / real_of_int total else 0),
         us_InputTokens = sum_list (map ul_PromptTokens rows), us_OutputTokens = sum_list (map ul_CompletionTokens rows),
         us_CacheTokens = sum_list (map ul_CacheTokens rows), us_TotalCost = sum_list (map ul_CostUSD rows),
         us_AvgLatency = round_away (if rows = [] then 0 else real_of_int (sum_list (map ul_ResponseTimeMs rows)) / real_of_int total)\<rparr>)"

definition QueryUsageLogSummary :: "UsageLogQuery \<Rightarrow> db \<Rightarrow> UsageLogSummary" where
  "QueryUsageLogSummary query d =
    (if normalizeUsageAggregation (uq_Aggregation query) = UsageAggregationAttempt
     then attempt_summary (filter (applyUsageLogFilters query) (db_logs d))
     else summarizeUsageLogs (queryRequestAggregatedLogs query d))"

definition log_query :: "int option \<Rightarrow> int \<Rightarrow> int \<Rightarrow> UsageLogQuery" where
  "log_query user startIdx num = \<lparr>uq_UserID = user, uq_Offset = startIdx, uq_Limit = num, uq_Keyword = [], uq_ProviderName = [],
     uq_Status = [], uq_ViewTab = [], uq_Aggregation = UsageAggregationRequest\<rparr>"

definition GetUserLogs :: "int \<Rightarrow> int \<Rightarrow> int \<Rightarrow> db \<Rightarrow> UsageLog list" where
  "GetUserLogs userId startIdx num d = fst (QueryUsageLogs (log_query (Some userId) startIdx num) d)"

definition GetAllLogs :: "int \<Rightarrow> int \<Rightarrow> db \<Rightarrow> UsageLog list" where
  "GetAllLogs startIdx num d = fst (QueryUsageLogs (log_query None startIdx num) d)"

definition CountUserLogs :: "int \<Rightarrow> db \<Rightarrow> int" where
  "CountUserLogs userId d = int (length (filter (\<lambda>l. ul_UserId l = userId) (db_logs d)))"

definition CountAllLogs :: "db \<Rightarrow> int" where
  "CountAllLogs d = int (length (db_logs d))"

subsection \<open>Pages\<close>

definition ItemsPerPage :: int where "ItemsPerPage = 10"
definition MaxItemsPerPage :: int where "MaxItemsPerPage = 100"

record PaginationParams =
  pg_P :: int
  pg_PageSize :: int
  pg_Offset :: int

definition parsePaginationParams :: "gostring option \<Rightarrow> gostring option \<Rightarrow> PaginationParams" where
  \<comment> \<open>the arguments are the query parameters \<open>p\<close> and \<open>page_size\<close> where present\<close>
  "parsePaginationParams qp qsize =
    (let p = (case Atoi (TrimSpace (case qp of Some s \<Rightarrow> s | None \<Rightarrow> ''0'')) of Some p \<Rightarrow> if p < 0 then 0 else p | None \<Rightarrow> 0);
         pageSize = (case Atoi (TrimSpace (case qsize of Some s \<Rightarrow> s | None \<Rightarrow> Itoa ItemsPerPage)) of
            Some n \<Rightarrow> if n \<le> 0 then ItemsPerPage else n | None \<Rightarrow> ItemsPerPage);
         maxPageSize = (if MaxItemsPerPage \<le> 0 then ItemsPerPage else MaxItemsPerPage);
         pageSize = (if pageSize > maxPageSize then maxPageSize else pageSize)
     in \<lparr>pg_P = p, pg_PageSize = pageSize, pg_Offset = wrap64 (p * pageSize)\<rparr>)"

record 'a paginated =
  pd_items :: "'a list"
  pd_p :: int
  pd_page_size :: int
  pd_total :: int
  pd_total_pages :: int
  pd_has_more :: bool

definition buildPaginatedData :: "'a list \<Rightarrow> PaginationParams \<Rightarrow> int \<Rightarrow> 'a paginated" where
  "buildPaginatedData items pagination tot =
    (let totalPages = (if tot > 0 \<and> pg_PageSize pagination > 0
                       then go_div (wrap64 (tot + pg_PageSize pagination - 1)) (pg_PageSize pagination) else 0);
         hasMore = (totalPages > 0 \<and> pg_P pagination + 1 < totalPages)
     in \<lparr>pd_items = items, pd_p = pg_P pagination, pd_page_size = pg_PageSize pagination, pd_total = tot,
         pd_total_pages = totalPages, pd_has_more = hasMore\<rparr>)"

record log_request =
  lr_p :: "gostring option"
  lr_page_size :: "gostring option"
  lr_keyword :: gostring
  lr_provider :: gostring
  lr_status :: "gostring option"
  lr_view :: "gostring option"
  lr_aggregation :: "gostring option"

definition parseLogListQuery :: "log_request \<Rightarrow> PaginationParams \<times> UsageLogQuery" where
  "parseLogListQuery r =
    (let pagination = parsePaginationParams (lr_p r) (lr_page_size r); or_default = (\<lambda>x z. case x of Some s \<Rightarrow> s | None \<Rightarrow> z)
     in (pagination,
         \<lparr>uq_UserID = None, uq_Offset = pg_Offset pagination, uq_Limit = pg_PageSize pagination, uq_Keyword = TrimSpace (lr_keyword r),
          uq_ProviderName = TrimSpace (lr_provider r), uq_Status = TrimSpace (or_default (lr_status r) ''all''),
          uq_ViewTab = TrimSpace (or_default (lr_view r) ''all''),
          uq_Aggregation = TrimSpace (ToLower (or_default (lr_aggregation r) UsageAggregationRequest))\<rparr>))"

definition list_logs :: "int option \<Rightarrow> log_request \<Rightarrow> db \<Rightarrow> UsageLog paginated \<times> gostring list \<times> UsageLogSummary" where
  \<comment> \<open>\<open>GetSelfLogs\<close> for a user, \<open>GetAllLogs\<close> of the controller for \<open>None\<close>: the page, the providers, the summary\<close>
  "list_logs user r d =
    (let (pagination, query) = parseLogListQuery r; query = query\<lparr>uq_UserID := user\<rparr>;
         (logs, total) = QueryUsageLogs query d
     in (buildPaginatedData logs pagination total, QueryUsageLogProviders query d, QueryUsageLogSummary query d))"

subsection \<open>The dashboard\<close>

record ProviderStat =
  ps_ProviderId :: int
  ps_ProviderName :: gostring
  ps_RequestCount :: int

record ModelStat =
  ms_ModelName :: gostring
  ms_RequestCount :: int

record DailyTrendStat =
  dt_Date :: gostring
  dt_RequestCount :: int
  dt_CostUSD :: real
  dt_TokenCount :: int

record DailyModelStat =
  dm_Date :: gostring
  dm_ModelName :: gostring
  dm_TokenCount :: int

record DashboardStats =
  ds_TotalRequests :: int
  ds_SuccessRequests :: int
  ds_FailedRequests :: int
  ds_InvalidResponses :: int
  ds_InvalidRate :: real
  ds_TotalProviders :: int
  ds_TotalModels :: int
  ds_TotalRoutes :: int
  ds_ByProvider :: "ProviderStat list"
  ds_ByModel :: "ModelStat list"
  ds_RecentRequests :: "(gostring \<times> int) list"
  ds_RecentMetrics :: "DailyTrendStat list"
  ds_RecentModelStats :: "DailyModelStat list"

definition CountModelRoutes :: "db \<Rightarrow> int" where
  "CountModelRoutes d = int (length (db_routes d))"

definition log_tokens :: "UsageLog \<Rightarrow> int" where
  "log_tokens l = ul_PromptTokens l + ul_CompletionTokens l"

definition grouped :: "('a \<Rightarrow> 'k) \<Rightarrow> 'a list \<Rightarrow> ('k \<times> 'a list) list" where
  \<comment> \<open>the groups of the rows by a key, in the order of the first row\<close>
  "grouped key rows = map (\<lambda>k. (k, filter (\<lambda>r. key r = k) rows)) (first_seen (map key rows))"

definition top_count :: "nat \<Rightarrow> ('b \<Rightarrow> int) \<Rightarrow> 'b list \<Rightarrow> 'b list" where
  \<comment> \<open>\<open>Order("n desc").Limit(n)\<close>\<close>
  "top_count n f rows = take n (sort_key (\<lambda>r. - f r) rows)"

definition week_start :: "location \<Rightarrow> gotime \<Rightarrow> gotime" where
  "week_start loc now = AddDays loc (day_start loc now) (- 6)"

definition week_days :: "location \<Rightarrow> gotime \<Rightarrow> gostring list" where
  "week_days loc now = map (\<lambda>i. format_date (local_day loc (AddDays loc (week_start loc now) (int i)))) [0..<7]"

definition log_date :: "location \<Rightarrow> UsageLog \<Rightarrow> gostring" where
  \<comment> \<open>the local date of a row, in SQL and in Go\<close>
  "log_date loc l = format_date (local_day loc (UnixTime (ul_CreatedAt l)))"

definition zero_trend :: "gostring \<Rightarrow> DailyTrendStat" where
  "zero_trend day = \<lparr>dt_Date = day, dt_RequestCount = 0, dt_CostUSD = 0, dt_TokenCount = 0\<rparr>"

definition trend_row :: "gostring \<times> UsageLog list \<Rightarrow> DailyTrendStat" where
  "trend_row g = \<lparr>dt_Date = fst g, dt_RequestCount = int (length (snd g)), dt_CostUSD = sum_list (map ul_CostUSD (snd g)),
     dt_TokenCount = sum_list (map log_tokens (snd g))\<rparr>"

definition recent_requests :: "DailyTrendStat list \<Rightarrow> (gostring \<times> int) list" where
  "recent_requests = map (\<lambda>trend. (dt_Date trend, dt_RequestCount trend))"

definition getDashboardStatsAttempt :: "location \<Rightarrow> gotime \<Rightarrow> routingStaticSnapshot option \<Rightarrow> db \<Rightarrow> DashboardStats" where
  "getDashboardStatsAttempt loc now snapshot d =
    (let rows = db_logs d; total = int (length rows);
         ok = int (length (filter (\<lambda>l. ul_Status l = 1 \<and> ul_ErrorMessage l = []) rows));
         invalid = int (length (filter usageLogInvalidResponseSQLCondition rows));
         startUnix = Unix (week_start loc now);
         recent = filter (\<lambda>l. ul_CreatedAt l \<ge> startUnix) rows;
         trendMap = map (\<lambda>g. (fst g, trend_row g)) (grouped (log_date loc) recent);
         metrics = map (\<lambda>dayStr. (mget_default (zero_trend dayStr) trendMap dayStr)\<lparr>dt_Date := dayStr\<rparr>) (week_days loc now);
         topModelRows = top_count 8 (\<lambda>g. sum_list (map log_tokens (snd g)))
            (grouped ul_ModelName (filter (\<lambda>l. sql_trim (ul_ModelName l) \<noteq> []) recent));
         modelNames = map fst topModelRows;
         modelRows = sort_key (\<lambda>g. fst (fst g)) (grouped (\<lambda>l. (log_date loc l, ul_ModelName l)) (filter (\<lambda>l. ul_ModelName l \<in> set modelNames) recent))
     in \<lparr>ds_TotalRequests = total, ds_SuccessRequests = ok, ds_FailedRequests = total - ok, ds_InvalidResponses = invalid,
         ds_InvalidRate = (if total > 0 then real_of_int invalid / real_of_int total else 0),
         ds_TotalProviders = CountProviders d,
         ds_TotalModels = (case GetDistinctModels snapshot of Inl e \<Rightarrow> 0 | Inr models \<Rightarrow> int (length models)),
         ds_TotalRoutes = CountModelRoutes d,
         ds_ByProvider = top_count 10 ps_RequestCount
            (map (\<lambda>g. \<lparr>ps_ProviderId = fst (fst g), ps_ProviderName = snd (fst g), ps_RequestCount = int (length (snd g))\<rparr>)
              (grouped (\<lambda>l. (ul_ProviderId l, ul_ProviderName l)) rows)),
         ds_ByModel = top_count 10 ms_RequestCount
            (map (\<lambda>g. \<lparr>ms_ModelName = fst g, ms_RequestCount = int (length (snd g))\<rparr>) (grouped ul_ModelName rows)),
         ds_RecentRequests = recent_requests metrics, ds_RecentMetrics = metrics,
         ds_RecentModelStats =
            (if topModelRows = [] then []
             else map (\<lambda>g. \<lparr>dm_Date = fst (fst g), dm_ModelName = snd (fst g), dm_TokenCount = sum_list (map log_tokens (snd g))\<rparr>) modelRows)\<rparr>)"

definition provider_stat_before :: "ProviderStat \<Rightarrow> ProviderStat \<Rightarrow> bool" where
  "provider_stat_before a b \<longleftrightarrow>
    (if ps_RequestCount a = ps_RequestCount b then ps_ProviderName a < ps_ProviderName b else ps_RequestCount a > ps_RequestCount b)"

definition total_before :: "gostring \<times> int \<Rightarrow> gostring \<times> int \<Rightarrow> bool" where
  \<comment> \<open>the order of \<open>modelStats\<close> and of \<open>totals\<close>\<close>
  "total_before a b \<longleftrightarrow> (if snd a = snd b then fst a < fst b else snd a > snd b)"

definition bump :: "'k \<Rightarrow> int \<Rightarrow> ('k, int) gomap \<Rightarrow> ('k, int) gomap" where
  \<comment> \<open>\<open>m[k] += n\<close>\<close>
  "bump k n m = mput k (mget_default 0 m k + n) m"

record day_accumulators =
  da_daily :: "(gostring, DailyTrendStat) gomap"
  da_modelTokenTotals :: "(gostring, int) gomap"
  da_dailyModel :: "(gostring, (gostring, int) gomap) gomap"

definition day_step :: "location \<Rightarrow> int \<Rightarrow> UsageLog \<Rightarrow> day_accumulators \<Rightarrow> day_accumulators" where
  \<comment> \<open>one round of the loop over the collapsed rows\<close>
  "day_step loc startUnix l a =
    (if ul_CreatedAt l < startUnix then a
     else
       let day = log_date loc l; accum = mget_default (zero_trend day) (da_daily a) day; tokens = log_tokens l;
           accum = accum\<lparr>dt_RequestCount := dt_RequestCount accum + 1, dt_CostUSD := dt_CostUSD accum + ul_CostUSD l,
                     dt_TokenCount := dt_TokenCount accum + tokens\<rparr>;
           a = a\<lparr>da_daily := mput day accum (da_daily a)\<rparr>;
           modelName = TrimSpace (ul_ModelName l)
       in if modelName = [] then a
          else a\<lparr>da_modelTokenTotals := bump modelName tokens (da_modelTokenTotals a),
                 da_dailyModel := mput day (bump modelName tokens (mget_default [] (da_dailyModel a) day)) (da_dailyModel a)\<rparr>)"

definition getDashboardStatsRequest :: "location \<Rightarrow> gotime \<Rightarrow> routingStaticSnapshot option \<Rightarrow> db \<Rightarrow> DashboardStats" where
  "getDashboardStatsRequest loc now snapshot d =
    (let logs = collapseUsageLogsByRequest (ids_desc (db_logs d)); total = int (length logs);
         ok = count_where isUsageLogSuccess logs; invalid = count_where isUsageLogInvalidResponse logs;
         providerCount = fold (\<lambda>l. bump (ul_ProviderId l, ul_ProviderName l) 1) logs [];
         modelCount = fold (\<lambda>l m. let modelName = TrimSpace (ul_ModelName l) in if modelName \<noteq> [] then bump modelName 1 m else m) logs [];
         providerStats = take 10 (sort_by provider_stat_before
            (map (\<lambda>(key, n). \<lparr>ps_ProviderId = fst key, ps_ProviderName = snd key, ps_RequestCount = n\<rparr>) providerCount));
         modelStats = take 10 (sort_by total_before modelCount);
         a = fold (day_step loc (Unix (week_start loc now))) logs \<lparr>da_daily = [], da_modelTokenTotals = [], da_dailyModel = []\<rparr>;
         days = week_days loc now;
         metrics = map (\<lambda>day. (mget_default (zero_trend day) (da_daily a) day)\<lparr>dt_Date := day\<rparr>) days;
         totals = take 8 (sort_by total_before (da_modelTokenTotals a))
     in \<lparr>ds_TotalRequests = total, ds_SuccessRequests = ok, ds_FailedRequests = total - ok, ds_InvalidResponses = invalid,
         ds_InvalidRate = (if total > 0 then real_of_int invalid / real_of_int total else 0),
         ds_TotalProviders = CountProviders d,
         ds_TotalModels = (case GetDistinctModels snapshot of Inl e \<Rightarrow> 0 | Inr models \<Rightarrow> int (length models)),
         ds_TotalRoutes = CountModelRoutes d,
         ds_ByProvider = providerStats,
         ds_ByModel = map (\<lambda>(name, n). \<lparr>ms_ModelName = name, ms_RequestCount = n\<rparr>) modelStats,
         ds_RecentRequests = recent_requests metrics, ds_RecentMetrics = metrics,
         ds_RecentModelStats = concat (map (\<lambda>day. map (\<lambda>t.
            \<lparr>dm_Date = day, dm_ModelName = fst t, dm_TokenCount = mget_default 0 (mget_default [] (da_dailyModel a) day) (fst t)\<rparr>) totals) days)\<rparr>)"

definition GetDashboardStatsWithAggregation :: "location \<Rightarrow> gotime \<Rightarrow> routingStaticSnapshot option \<Rightarrow> gostring \<Rightarrow> db \<Rightarrow> DashboardStats" where
  "GetDashboardStatsWithAggregation loc now snapshot aggregation d =
    (if normalizeUsageAggregation aggregation = UsageAggregationAttempt
     then getDashboardStatsAttempt loc now snapshot d else getDashboardStatsRequest loc now snapshot d)"

subsection \<open>The representative of a request\<close>

definition attempt_before :: "UsageLog \<Rightarrow> UsageLog \<Rightarrow> bool" where
  "attempt_before a b \<longleftrightarrow> compareUsageLogAttemptOrder (Some b) (Some a) > 0"

lemma attempt_before_iff:
  "attempt_before a b \<longleftrightarrow> ul_AttemptIndex a < ul_AttemptIndex b
    \<or> (ul_AttemptIndex a = ul_AttemptIndex b \<and> (ul_CreatedAt a < ul_CreatedAt b \<or> (ul_CreatedAt a = ul_CreatedAt b \<and> ul_Id a < ul_Id b)))"
  by (auto simp: attempt_before_def compareUsageLogAttemptOrder_def)

interpretation attempt_order: strict_weak attempt_before
  by unfold_locales (auto simp: attempt_before_iff)

interpretation row_order: strict_weak newer_row
  by unfold_locales (auto simp: newer_row_def split: if_splits)

definition latest_attempt :: "UsageLog list \<Rightarrow> UsageLog option" where
  "latest_attempt xs = fold (\<lambda>x best. if compareUsageLogAttemptOrder (Some x) best > 0 then Some x else best) xs None"

lemma latest_attempt_simps [simp]:
  "latest_attempt [] = None"
  "latest_attempt (xs @ [x]) = (case latest_attempt xs of None \<Rightarrow> Some x | Some b \<Rightarrow> if attempt_before b x then Some x else Some b)"
  by (auto simp: latest_attempt_def attempt_before_def compareUsageLogAttemptOrder_def split: option.split)

lemma latest_attempt_single [simp]: "latest_attempt [x] = Some x"
  using latest_attempt_simps(2) [of "[]" x] by simp

lemma latest_attempt_None [simp]: "latest_attempt xs = None \<longleftrightarrow> xs = []"
  by (induction xs rule: rev_induct) (auto split: option.split)

lemma latest_attempt_Some:
  "latest_attempt xs = Some r \<Longrightarrow> r \<in> set xs \<and> (\<forall>y \<in> set xs. \<not> attempt_before r y)"
proof (induction xs arbitrary: r rule: rev_induct)
  case (snoc x xs)
  show ?case
  proof (cases "latest_attempt xs")
    case None
    then show ?thesis using snoc.prems attempt_order.lt_asym by auto
  next
    case (Some b)
    have b: "b \<in> set xs" "\<forall>y \<in> set xs. \<not> attempt_before b y" using snoc.IH [OF Some] by auto
    show ?thesis
    proof (cases "attempt_before b x")
      case True
      then have "\<not> attempt_before x y" if "y \<in> set xs" for y
        using b that attempt_order.lt_trans by blast
      then show ?thesis using snoc.prems Some True attempt_order.lt_asym by auto
    qed (use snoc.prems Some b in auto)
  qed
qed simp

lemma selectRequestRepresentative_alt:
  "selectRequestRepresentative xs =
    (if list_ex isUsageLogSuccess xs then latest_attempt (filter isUsageLogSuccess xs) else latest_attempt xs)"
proof -
  have "fold (\<lambda>attempt s. (case s of (bestSuccess, bestAny) \<Rightarrow>
          (if isUsageLogSuccess attempt \<and> compareUsageLogAttemptOrder (Some attempt) bestSuccess > 0 then Some attempt else bestSuccess,
           if compareUsageLogAttemptOrder (Some attempt) bestAny > 0 then Some attempt else bestAny))) xs (None, None)
    = (latest_attempt (filter isUsageLogSuccess xs), latest_attempt xs)"
    by (induction xs rule: rev_induct) (auto simp: latest_attempt_def)
  then show ?thesis
    by (auto simp: selectRequestRepresentative_def list_ex_iff filter_empty_conv)
qed

definition represents :: "UsageLog list \<Rightarrow> UsageLog \<Rightarrow> bool" where
  \<comment> \<open>the last successful attempt of its request, or the last attempt when none succeeded\<close>
  "represents logs r \<longleftrightarrow>
    (let rows = {l \<in> set logs. usageLogGroupKey l = usageLogGroupKey r} in
     if \<exists>l \<in> rows. isUsageLogSuccess l
     then isUsageLogSuccess r \<and> (\<forall>l \<in> rows. isUsageLogSuccess l \<longrightarrow> \<not> attempt_before r l)
     else \<forall>l \<in> rows. \<not> attempt_before r l)"

lemma mget_groups:
  "mget_default [] (group_attempts_by_request logs) k = filter (\<lambda>l. usageLogGroupKey l = k) logs"
proof -
  have "mget_default [] (fold (\<lambda>attempt groups. mappend (usageLogGroupKey attempt) attempt groups) logs m) k
    = mget_default [] m k @ filter (\<lambda>l. usageLogGroupKey l = k) logs" for m
    by (induction logs arbitrary: m) auto
  then show ?thesis by (simp add: group_attempts_by_request_def)
qed

lemma representative_None: "selectRequestRepresentative xs = None \<longleftrightarrow> xs = []"
  by (auto simp: selectRequestRepresentative_alt filter_empty_conv list_ex_iff)

lemma representative_exists:
  assumes "k \<in> usageLogGroupKey ` set logs"
  shows "\<exists>r. selectRequestRepresentative (filter (\<lambda>l. usageLogGroupKey l = k) logs) = Some r"
proof -
  have "filter (\<lambda>l. usageLogGroupKey l = k) logs \<noteq> []" using assms by (auto simp: filter_empty_conv)
  then show ?thesis using representative_None by (metis not_None_eq)
qed

lemma representative_correct:
  assumes "selectRequestRepresentative xs = Some r"
  shows "r \<in> set xs \<and> (if \<exists>l \<in> set xs. isUsageLogSuccess l
    then isUsageLogSuccess r \<and> (\<forall>l \<in> set xs. isUsageLogSuccess l \<longrightarrow> \<not> attempt_before r l) else \<forall>l \<in> set xs. \<not> attempt_before r l)"
proof (cases "list_ex isUsageLogSuccess xs")
  case True
  then have "latest_attempt (filter isUsageLogSuccess xs) = Some r" using assms by (simp add: selectRequestRepresentative_alt)
  from latest_attempt_Some [OF this] True show ?thesis by (simp add: list_ex_iff)
next
  case False
  then have "latest_attempt xs = Some r" using assms by (simp add: selectRequestRepresentative_alt)
  from latest_attempt_Some [OF this] False show ?thesis by (simp add: list_ex_iff)
qed

lemma representative_represents:
  assumes "selectRequestRepresentative (filter (\<lambda>l. usageLogGroupKey l = k) logs) = Some r"
  shows "r \<in> set logs \<and> usageLogGroupKey r = k \<and> represents logs r"
proof -
  have r: "r \<in> set logs" "usageLogGroupKey r = k" using representative_correct [OF assms] by auto
  have rows: "{l \<in> set logs. usageLogGroupKey l = usageLogGroupKey r} = set (filter (\<lambda>l. usageLogGroupKey l = k) logs)" using r by auto
  have "represents logs r"
    unfolding represents_def Let_def rows by (rule representative_correct [OF assms, THEN conjunct2])
  with r show ?thesis by blast
qed

lemma represents_unique:
  assumes "inj_on ul_Id (set logs)" and "a \<in> set logs" and "b \<in> set logs" and "represents logs a" and "represents logs b"
    and "usageLogGroupKey a = usageLogGroupKey b"
  shows "a = b"
proof -
  let ?rows = "{l \<in> set logs. usageLogGroupKey l = usageLogGroupKey b}"
  have "a \<in> ?rows" "b \<in> ?rows" using assms by auto
  then have "\<not> attempt_before a b \<and> \<not> attempt_before b a"
    using assms(4,5) unfolding represents_def Let_def assms(6) by (cases "\<exists>l \<in> ?rows. isUsageLogSuccess l") (simp_all only: if_True if_False, blast+)
  then have "ul_Id a = ul_Id b" by (auto simp: attempt_before_iff)
  then show ?thesis using assms(1-3) by (auto dest: inj_onD)
qed

lemma with_relay_id_Id [simp]: "ul_Id (with_relay_id l) = ul_Id l" "ul_CreatedAt (with_relay_id l) = ul_CreatedAt l"
  by (simp_all add: with_relay_id_def)

lemma sorted_newer_strict:
  "sorted_wrt (\<lambda>a b. \<not> newer_row b a) xs \<Longrightarrow> distinct (map ul_Id xs) \<Longrightarrow> sorted_wrt newer_row xs"
  by (induction xs) (simp_all add: newer_row_def image_iff, metis linorder_less_linear)

definition representative_of :: "UsageLog list \<Rightarrow> gostring \<Rightarrow> UsageLog" where
  "representative_of logs k = the (selectRequestRepresentative (filter (\<lambda>l. usageLogGroupKey l = k) logs))"

lemma collapse_alt:
  "collapseUsageLogsByRequest logs =
    sort_by newer_row (map (\<lambda>k. with_relay_id (representative_of logs k)) (first_seen (map usageLogGroupKey logs)))"
proof -
  have "concat (map (\<lambda>key. case selectRequestRepresentative (filter (\<lambda>l. usageLogGroupKey l = key) logs) of
           Some selected \<Rightarrow> [with_relay_id selected] | None \<Rightarrow> []) ks)
      = map (\<lambda>k. with_relay_id (representative_of logs k)) ks" if "set ks \<subseteq> usageLogGroupKey ` set logs" for ks
    using that
  proof (induction ks)
    case (Cons k ks)
    then obtain r where "selectRequestRepresentative (filter (\<lambda>l. usageLogGroupKey l = k) logs) = Some r"
      using representative_exists [of k logs] by auto
    then show ?case using Cons by (simp add: representative_of_def)
  qed simp
  then show ?thesis by (simp add: collapseUsageLogsByRequest_def Let_def mget_groups)
qed

lemma representative_of_key:
  assumes "k \<in> usageLogGroupKey ` set logs"
  shows "representative_of logs k \<in> set logs \<and> usageLogGroupKey (representative_of logs k) = k \<and> represents logs (representative_of logs k)"
proof -
  obtain r where r: "selectRequestRepresentative (filter (\<lambda>l. usageLogGroupKey l = k) logs) = Some r"
    using representative_exists [OF assms] by blast
  then have "representative_of logs k = r" by (simp add: representative_of_def)
  then show ?thesis using representative_represents [OF r] by simp
qed

text \<open>
  C14: The request view of the usage log has one row for each relayed request, the last successful attempt, or
  the last attempt when none succeeded, and lists them by descending identifier. (A row without a request identifier
  gets a derived one.)
\<close>

theorem collapse_one_per_request:
  assumes "inj_on ul_Id (set logs)"
  shows "set (collapseUsageLogsByRequest logs) = with_relay_id ` {r \<in> set logs. represents logs r}
    \<and> length (collapseUsageLogsByRequest logs) = card (usageLogGroupKey ` set logs)
    \<and> sorted_wrt (\<lambda>a b. ul_Id a > ul_Id b) (collapseUsageLogsByRequest logs)"
proof (intro conjI)
  let ?ks = "first_seen (map usageLogGroupKey logs)" and ?rep = "\<lambda>k. with_relay_id (representative_of logs k)"
  have ks: "set ?ks = usageLogGroupKey ` set logs" by simp
  have rep: "{r \<in> set logs. represents logs r} = representative_of logs ` usageLogGroupKey ` set logs"
  proof
    show "{r \<in> set logs. represents logs r} \<subseteq> representative_of logs ` usageLogGroupKey ` set logs"
    proof
      fix r assume r: "r \<in> {r \<in> set logs. represents logs r}"
      then have "r = representative_of logs (usageLogGroupKey r)"
        using representative_of_key [of "usageLogGroupKey r" logs] represents_unique [OF assms] by simp
      then show "r \<in> representative_of logs ` usageLogGroupKey ` set logs" using r by blast
    qed
  qed (use representative_of_key in blast)
  then show "set (collapseUsageLogsByRequest logs) = with_relay_id ` {r \<in> set logs. represents logs r}"
    by (simp add: collapse_alt image_image)
  show "length (collapseUsageLogsByRequest logs) = card (usageLogGroupKey ` set logs)"
    using distinct_card [OF distinct_first_seen, of "map usageLogGroupKey logs"] by (simp add: collapse_alt)
  have "inj_on (\<lambda>k. ul_Id (?rep k)) (set ?ks)"
  proof (rule inj_onI)
    fix a b assume ab: "a \<in> set ?ks" "b \<in> set ?ks" "ul_Id (?rep a) = ul_Id (?rep b)"
    then have "representative_of logs a = representative_of logs b"
      using representative_of_key [of a logs] representative_of_key [of b logs] inj_onD [OF assms] by (simp only: ks with_relay_id_Id)
    then show "a = b" using representative_of_key [of a logs] representative_of_key [of b logs] ab by (metis ks)
  qed
  then have "distinct (map ul_Id (map ?rep ?ks))" by (simp add: distinct_map comp_def)
  then have d: "distinct (map ul_Id (collapseUsageLogsByRequest logs))"
    by (metis collapse_alt mset_map mset_sort_by mset_eq_imp_distinct_iff)
  then have "sorted_wrt newer_row (collapseUsageLogsByRequest logs)"
    by (intro sorted_newer_strict) (simp_all add: collapse_alt row_order.sort_by_sorted)
  with d show "sorted_wrt (\<lambda>a b. ul_Id a > ul_Id b) (collapseUsageLogsByRequest logs)"
    by (auto simp: distinct_conv_nth sorted_wrt_iff_nth_less newer_row_def)
qed

definition sample_log :: "int \<Rightarrow> int \<Rightarrow> int \<Rightarrow> gostring \<Rightarrow> UsageLog" where
  "sample_log i attempt status err =
    \<lparr>ul_Id = i, ul_UserId = 1, ul_AggregatedTokenId = 1, ul_ProviderId = 1, ul_ProviderName = ''P'', ul_ProviderTokenId = 1, ul_ModelName = ''M'',
     ul_PromptTokens = 5, ul_CompletionTokens = 7, ul_CacheTokens = 0, ul_CacheCreationTokens = 0, ul_CacheCreation5mTokens = 0,
     ul_CacheCreation1hTokens = 0, ul_ResponseTimeMs = 30, ul_FirstTokenMs = 0, ul_IsStream = False, ul_CostUSD = 1, ul_Status = status,
     ul_ErrorMessage = err, ul_FailureCategory = [], ul_InvalidReason = [], ul_TransportStatusCode = 200, ul_ClientIp = [],
     ul_RequestId = ''r'', ul_RelayRequestId = ''q'', ul_AttemptIndex = attempt, ul_RequestModelOriginal = [], ul_RequestModelCanonical = [],
     ul_RequestModelResolved = [], ul_UsageSource = ''exact'', ul_UsageParser = ''none'', ul_CreatedAt = 100\<rparr>"

theorem collapse_one_per_request_witness:
  "length (collapseUsageLogsByRequest [sample_log 1 1 0 ''e'', sample_log 2 2 1 []]) = 1"
proof -
  have q: "TrimSpace ''q'' = ''q''" by code_simp
  have "inj_on ul_Id (set [sample_log 1 1 0 ''e'', sample_log 2 2 1 []])" by (simp add: sample_log_def)
  from collapse_one_per_request [OF this]
  have "length (collapseUsageLogsByRequest [sample_log 1 1 0 ''e'', sample_log 2 2 1 []])
    = card (usageLogGroupKey ` set [sample_log 1 1 0 ''e'', sample_log 2 2 1 []])" by blast
  also have "usageLogGroupKey ` set [sample_log 1 1 0 ''e'', sample_log 2 2 1 []] = {usageLogGroupKey (sample_log 1 1 0 ''e'')}"
    by (simp add: sample_log_def usageLogGroupKey_def q)
  finally show ?thesis by simp
qed

lemma latest_attempt_snoc:
  "\<forall>y \<in> set xs. attempt_before y x \<Longrightarrow> latest_attempt (xs @ [x]) = Some x"
  by (auto split: option.split dest: latest_attempt_Some)

lemma distinct_single: "distinct xs \<Longrightarrow> set xs = {k} \<Longrightarrow> xs = [k]"
  by (cases xs; cases "tl xs") auto

lemma collapse_one_request:
  \<comment> \<open>attempts of one request, numbered upwards, that failed but for the last, collapse to the last\<close>
  assumes "rows = xs @ [x]" and "\<forall>l \<in> set rows. TrimSpace (ul_RelayRequestId l) = q" and "q \<noteq> []"
    and "\<forall>y \<in> set xs. ul_AttemptIndex y < ul_AttemptIndex x \<and> \<not> isUsageLogSuccess y"
  shows "collapseUsageLogsByRequest rows = [x]"
proof -
  have key: "usageLogGroupKey l = ''relay:'' @ q" if "l \<in> set rows" for l
    using assms(2,3) that by (simp add: usageLogGroupKey_def)
  have before: "\<forall>y \<in> set xs. attempt_before y x" using assms(4) by (simp add: attempt_before_iff)
  have fsx: "filter isUsageLogSuccess xs = []" using assms(4) by (simp add: filter_empty_conv)
  have sel: "selectRequestRepresentative rows = Some x"
    using latest_attempt_snoc [OF before] assms(4) fsx
    by (cases "isUsageLogSuccess x") (simp_all add: assms(1) selectRequestRepresentative_alt list_ex_iff del: latest_attempt_simps)
  have order: "first_seen (map usageLogGroupKey rows) = [''relay:'' @ q]"
  proof -
    have "set (first_seen (map usageLogGroupKey rows)) = {''relay:'' @ q}" using key assms(1) by auto
    then show ?thesis by (rule distinct_single [OF distinct_first_seen])
  qed
  have "filter (\<lambda>l. usageLogGroupKey l = ''relay:'' @ q) rows = rows" using key by (simp add: filter_id_conv)
  then have "representative_of rows (''relay:'' @ q) = x" by (simp add: representative_of_def sel)
  moreover have "with_relay_id x = x" using assms(1-3) by (simp add: with_relay_id_def)
  ultimately show ?thesis by (simp add: collapse_alt order)
qed

subsection \<open>Pages\<close>

lemma paginateUsageLogs_alt: "0 \<le> off \<Longrightarrow> 0 < n \<Longrightarrow> paginateUsageLogs xs off n = take (nat n) (drop (nat off) xs)"
  by (auto simp: paginateUsageLogs_def Let_def nat_diff_distrib nat_add_distrib)

lemma concat_chunks: "concat (map (\<lambda>p. take n (drop (p * n) xs)) [0..<k]) = take (k * n) xs"
  by (induction k) (simp_all add: take_add [symmetric] add.commute)

lemma page_bounds:
  "1 \<le> pg_PageSize (parsePaginationParams qp qs) \<and> pg_PageSize (parsePaginationParams qp qs) \<le> 100 \<and> 0 \<le> pg_P (parsePaginationParams qp qs)"
  by (auto simp: parsePaginationParams_def Let_def MaxItemsPerPage_def ItemsPerPage_def split: option.splits)

lemma below_pages: "0 < n \<Longrightarrow> p < (m + n - 1) div n \<longleftrightarrow> p * n < (m :: int)"
proof -
  assume n: "0 < n"
  have "p < (m + n - 1) div n \<longleftrightarrow> p + 1 \<le> (m + n - 1) div n" by linarith
  also have "\<dots> \<longleftrightarrow> (p + 1) * n \<le> m + n - 1" using n by (simp add: int_le_div_iff)
  finally show ?thesis by (simp add: distrib_right)
qed

text \<open>
  Whatever paging parameters a client sends, the pages of the size in force, as many as the answer says,
  hold every row once and in order, and "has more" is set exactly when the next page is not empty.
\<close>

theorem pages_partition:
  assumes "int (length xs) < 2 ^ 62"
  shows "let pg = parsePaginationParams qp qs; n = pg_PageSize pg; answer = buildPaginatedData [] pg (int (length xs)) in
    concat (map (\<lambda>p. paginateUsageLogs xs (int p * n) n) [0..<nat (pd_total_pages answer)]) = xs
    \<and> (pd_has_more answer \<longleftrightarrow> paginateUsageLogs xs ((pg_P pg + 1) * n) n \<noteq> [])"
proof -
  define pg n where "pg = parsePaginationParams qp qs" and "n = pg_PageSize pg"
  have n: "1 \<le> n" "n \<le> 100" "0 \<le> pg_P pg" using page_bounds [of qp qs] by (simp_all add: pg_def n_def)
  define k where "k = (int (length xs) + n - 1) div n"
  have "in_int64 (int (length xs) + n - 1)" using assms n by (simp add: in_int64_def)
  then have k: "pd_total_pages (buildPaginatedData [] pg (int (length xs))) = k"
    using n by (cases "xs = []") (simp_all add: buildPaginatedData_def Let_def k_def n_def [symmetric])
  have below: "p < k \<longleftrightarrow> p * n < int (length xs)" for p
    unfolding k_def by (rule below_pages) (use n in simp)
  have "0 \<le> k" using n by (simp add: k_def pos_imp_zdiv_nonneg_iff)
  have "concat (map (\<lambda>p. paginateUsageLogs xs (int p * n) n) [0..<nat k]) = concat (map (\<lambda>p. take (nat n) (drop (p * nat n) xs)) [0..<nat k])"
    using n by (simp add: paginateUsageLogs_alt nat_mult_distrib)
  also have "\<dots> = take (nat k * nat n) xs" by (rule concat_chunks)
  also have "length xs \<le> nat k * nat n"
    using below [of k] n \<open>0 \<le> k\<close> by (simp add: nat_mult_distrib [symmetric] not_less le_nat_iff)
  then have "take (nat k * nat n) xs = xs" by simp
  finally have "concat (map (\<lambda>p. paginateUsageLogs xs (int p * n) n) [0..<nat k]) = xs" .
  moreover have "pd_has_more (buildPaginatedData [] pg (int (length xs))) \<longleftrightarrow> pg_P pg + 1 < k"
    using k n by (auto simp: buildPaginatedData_def Let_def)
  moreover have "paginateUsageLogs xs ((pg_P pg + 1) * n) n \<noteq> [] \<longleftrightarrow> (pg_P pg + 1) * n < int (length xs)"
    using n by (simp add: paginateUsageLogs_alt not_le nat_less_iff)
  ultimately show ?thesis using below by (simp add: Let_def k flip: pg_def n_def)
qed

theorem pages_partition_witness:
  "pd_has_more (buildPaginatedData [] (parsePaginationParams None (Some ''2'')) (int (length [1, 2, 3 :: nat])))"
proof -
  have "int (length [1, 2, 3 :: nat]) < 2 ^ 62" by simp
  from pages_partition [OF this, of None "Some ''2''"] have
    "pd_has_more (buildPaginatedData [] (parsePaginationParams None (Some ''2'')) (int (length [1, 2, 3 :: nat])))
      \<longleftrightarrow> paginateUsageLogs [1, 2, 3 :: nat] ((pg_P (parsePaginationParams None (Some ''2'')) + 1)
            * pg_PageSize (parsePaginationParams None (Some ''2''))) (pg_PageSize (parsePaginationParams None (Some ''2''))) \<noteq> []"
    unfolding Let_def by (rule conjunct2)
  moreover have "parsePaginationParams None (Some ''2'') = \<lparr>pg_P = 0, pg_PageSize = 2, pg_Offset = 0\<rparr>" by code_simp
  ultimately show ?thesis by (simp add: paginateUsageLogs_def)
qed

subsection \<open>The two summaries\<close>

definition clean_texts :: "UsageLog \<Rightarrow> bool" where
  \<comment> \<open>the texts look the same to \<open>TRIM\<close> of SQL and to \<open>TrimSpace\<close>\<close>
  "clean_texts l \<longleftrightarrow>
    (TrimSpace (ul_ErrorMessage l) = [] \<longleftrightarrow> sql_trim (ul_ErrorMessage l) = []) \<and>
    (TrimSpace (ul_InvalidReason l) = [] \<longleftrightarrow> sql_trim (ul_InvalidReason l) = []) \<and>
    (EqualFold (TrimSpace (ul_FailureCategory l)) ''invalid_response'' \<longleftrightarrow> ul_FailureCategory l = ''invalid_response'')"

lemma clean_success: "clean_texts l \<Longrightarrow> isUsageLogSuccess l = log_success_where l"
  by (simp add: clean_texts_def isUsageLogSuccess_def log_success_where_def)

lemma clean_invalid: "clean_texts l \<Longrightarrow> isUsageLogInvalidResponse l = usageLogInvalidResponseSQLCondition l"
  by (simp add: clean_texts_def isUsageLogInvalidResponse_def usageLogInvalidResponseSQLCondition_def)

lemma count_where_simps [simp]: "count_where P [] = 0" "count_where P (x # xs) = (if P x then 1 else 0) + count_where P xs"
  by (simp_all add: count_where_def)

lemma fold_summary_step:
  "fold summary_step rows (a, b, i, c, e, f, g) =
    (a + count_where isUsageLogSuccess rows, b + count_where isUsageLogInvalidResponse rows, i + sum_list (map ul_PromptTokens rows),
     c + sum_list (map ul_CompletionTokens rows), e + sum_list (map ul_CacheTokens rows), f + sum_list (map ul_CostUSD rows),
     g + sum_list (map ul_ResponseTimeMs rows))"
  by (induction rows arbitrary: a b i c e f g) (simp_all add: summary_step_def)

lemma count_where_cong: "(\<And>x. x \<in> set xs \<Longrightarrow> P x = Q x) \<Longrightarrow> count_where P xs = count_where Q xs"
  by (induction xs) auto

lemma count_where_not: "count_where (\<lambda>x. \<not> P x) xs = int (length xs) - count_where P xs"
  by (induction xs) auto

text \<open>
  The two ways of summing up the usage log agree: the loop over the rows in Go gives for any rows whose texts
  SQL and Go trim alike the same summary as the aggregate query.
\<close>

theorem summary_paths_agree:
  assumes "list_all clean_texts rows"
  shows "summarizeUsageLogs rows = attempt_summary rows"
proof -
  have "count_where isUsageLogSuccess rows = count_where log_success_where rows"
    "count_where isUsageLogInvalidResponse rows = count_where usageLogInvalidResponseSQLCondition rows"
    using assms clean_success clean_invalid by (auto simp: list_all_iff intro!: count_where_cong)
  moreover have "count_where log_error_where rows = int (length rows) - count_where log_success_where rows"
    using count_where_not [of log_success_where rows] log_success_error by (simp cong: count_where_cong)
  ultimately show ?thesis
    by (simp add: summarizeUsageLogs_def attempt_summary_def fold_summary_step empty_summary_def Let_def round_away_def)
qed

theorem summary_paths_agree_witness:
  "us_SuccessCount (attempt_summary [sample_log 1 1 0 ''e'', sample_log 2 2 1 []]) = 1"
proof -
  have "list_all clean_texts [sample_log 1 1 0 ''e'', sample_log 2 2 1 []]" by code_simp
  from summary_paths_agree [OF this] show ?thesis
    by (simp add: summarizeUsageLogs_def fold_summary_step Let_def) code_simp
qed

end
