(* ===== verification/GoStruct.thy ===== *)
theory GoStruct
  imports GoJson "HOL-Library.Monad_Syntax"
begin

text \<open>
  \<open>json.Unmarshal\<close> into a struct. A decoder takes the JSON value and the value the field has before, and
  gives the value after, or \<open>None\<close> for a type error: the code never uses what a failed call has stored.
  \<open>null\<close> leaves a field as it is, except that it makes a pointer, slice or map nil. A key of the object
  belongs to the field whose tag equals it up to the case of its letters, and the members are stored in the
  order of the text, so the last one counts.
\<close>

type_synonym 'a decoder = "json \<Rightarrow> 'a \<Rightarrow> 'a option"

definition dec_int :: "int decoder" where
  \<comment> \<open>into an \<open>int\<close> or \<open>int64\<close>: an integer literal in range\<close>
  "dec_int v z = (case v of JNull \<Rightarrow> Some z | JNum t \<Rightarrow> Atoi t | _ \<Rightarrow> None)"

definition dec_float :: "real decoder" where
  "dec_float v z = (case v of JNull \<Rightarrow> Some z | JNum t \<Rightarrow> number_of_json v | _ \<Rightarrow> None)"

definition dec_bool :: "bool decoder" where
  "dec_bool v z = (case v of JNull \<Rightarrow> Some z | JBool b \<Rightarrow> Some b | _ \<Rightarrow> None)"

definition dec_string :: "gostring decoder" where
  "dec_string v z = (case v of JNull \<Rightarrow> Some z | JStr s \<Rightarrow> Some s | _ \<Rightarrow> None)"

definition dec_ptr :: "'a decoder \<Rightarrow> 'a \<Rightarrow> 'a option decoder" where
  \<comment> \<open>a pointer: \<open>zero\<close> is what a new target starts with\<close>
  "dec_ptr dec zero v z = (case v of JNull \<Rightarrow> Some None | _ \<Rightarrow> map_option Some (dec v (case z of Some x \<Rightarrow> x | None \<Rightarrow> zero)))"

definition dec_raw :: "json option decoder" where
  \<comment> \<open>a \<open>json.RawMessage\<close>: \<open>None\<close> is the empty message\<close>
  "dec_raw v z = Some (Some v)"

definition dec_list :: "'a decoder \<Rightarrow> 'a \<Rightarrow> 'a list decoder" where
  "dec_list dec zero v z = (case v of JNull \<Rightarrow> Some [] | JArr vs \<Rightarrow> those (map (\<lambda>x. dec x zero) vs) | _ \<Rightarrow> None)"

definition dec_map :: "'a decoder \<Rightarrow> 'a \<Rightarrow> (gostring, 'a) gomap decoder" where
  "dec_map dec zero v z =
    (case v of
       JNull \<Rightarrow> Some []
     | JObj m \<Rightarrow> fold (\<lambda>(k, x) acc. Option.bind acc (\<lambda>r. map_option (\<lambda>y. mput k y r) (dec x zero))) m (Some z)
     | _ \<Rightarrow> None)"

definition struct_field :: "'a decoder \<Rightarrow> gostring \<Rightarrow> (gostring \<times> json) list \<Rightarrow> 'a \<Rightarrow> 'a option" where
  "struct_field dec name m z = fold (\<lambda>(k, v) acc. if EqualFold k name then Option.bind acc (dec v) else acc) m (Some z)"

definition dec_struct :: "((gostring \<times> json) list \<Rightarrow> 'a \<Rightarrow> 'a option) \<Rightarrow> 'a decoder" where
  "dec_struct fields v z = (case v of JNull \<Rightarrow> Some z | JObj m \<Rightarrow> fields m z | _ \<Rightarrow> None)"

definition json_unmarshal :: "'a decoder \<Rightarrow> gostring \<Rightarrow> 'a \<Rightarrow> 'a option" where
  "json_unmarshal dec raw z = Option.bind (json_parse raw) (\<lambda>v. dec v z)"

definition ShouldBindJSON :: "'a decoder \<Rightarrow> gostring \<Rightarrow> 'a \<Rightarrow> 'a option" where
  \<comment> \<open>gin reads the first JSON value of the body and leaves what follows it alone\<close>
  "ShouldBindJSON dec body z = Option.bind (read_value (2 * length body + 2) body) (\<lambda>vr. dec (fst vr) z)"

definition AtoiValue :: "string \<Rightarrow> int" where
  \<comment> \<open>the value of \<open>strconv.Atoi\<close> where the code drops the error: 0 for a syntax error, the nearest end for a range error\<close>
  "AtoiValue s =
    (case Atoi s of
       Some i \<Rightarrow> i
     | None \<Rightarrow>
         (case s of
            [] \<Rightarrow> 0
          | c # r \<Rightarrow>
              if parse_uint (if c = CHR ''-'' \<or> c = CHR ''+'' then r else s) = None then 0
              else if c = CHR ''-'' then - (2 ^ 63) else 2 ^ 63 - 1))"

lemma struct_field_simps [simp]:
  "struct_field dec name [] z = Some z"
  "struct_field dec name ((k, v) # m) z =
    (if EqualFold k name then Option.bind (dec v z) (struct_field dec name m) else struct_field dec name m z)"
proof -
  have "fold (\<lambda>(k, v) acc. if EqualFold k name then Option.bind acc (dec v) else acc) m None = None" for m
    by (induction m) auto
  then show "struct_field dec name ((k, v) # m) z =
    (if EqualFold k name then Option.bind (dec v z) (struct_field dec name m) else struct_field dec name m z)"
    by (cases "dec v z") (auto simp: struct_field_def [abs_def])
qed (simp add: struct_field_def)

end
