(* ===== verification/UpstreamClient.thy ===== *)
theory UpstreamClient
  imports Proxy GoStruct
begin

text \<open>
  The management client of an upstream, \<open>src/service/upstream_client.go\<close>: the requests it sends, the errors it tells
  apart, and the JSON it reads. An upstream is an argument that answers a request and moves from one state to
  the next. A text of the standard library inside an error value is a constant here.
\<close>

subsection \<open>Client, errors and data\<close>

type_synonym 'u upstream = "http_client \<Rightarrow> outgoing_request \<Rightarrow> 'u \<Rightarrow> transport_result \<times> 'u"

record UpstreamClient =
  uc_BaseURL :: gostring
  uc_AccessToken :: gostring
  uc_UserID :: int
  uc_Provider :: "Provider option"
  uc_HTTPClient :: http_client

datatype UpstreamTokenPlaintextKeyErrorKind = KeyNoKey | KeyUnauthorized | KeyUnavailable | KeyRequestFailed

datatype up_error =
    UpstreamRequestError int gostring bool
  | UpstreamTokenPlaintextKeyError UpstreamTokenPlaintextKeyErrorKind int gostring
  | UpstreamFailed gostring

fun up_error_text :: "up_error \<Rightarrow> gostring" where
  \<comment> \<open>the \<open>Error()\<close> methods\<close>
  "up_error_text (UpstreamRequestError code msg transport) = msg"
| "up_error_text (UpstreamTokenPlaintextKeyError kind code msg) =
    (if TrimSpace msg \<noteq> [] then msg
     else case kind of KeyNoKey \<Rightarrow> ''no_key'' | KeyUnauthorized \<Rightarrow> ''unauthorized'' | KeyUnavailable \<Rightarrow> ''unavailable''
       | KeyRequestFailed \<Rightarrow> ''request_failed'')"
| "up_error_text (UpstreamFailed msg) = msg"

record UpstreamResponse =
  ur_Success :: bool
  ur_Message :: gostring
  ur_Data :: "json option"

record UpstreamPricing =
  up_ModelName :: gostring
  up_QuotaType :: int
  up_ModelRatio :: real
  up_ModelPrice :: real
  up_CompletionRatio :: real
  up_EnableGroups :: "gostring list option"
  up_SupportedEndpointTypes :: "gostring list option"

record UpstreamEndpointInfo =
  ue_Path :: gostring
  ue_Method :: gostring

record UpstreamPricingPayload =
  pp_Data :: "UpstreamPricing list"
  pp_GroupRatio :: "(gostring, real) gomap"
  pp_UsableGroup :: "(gostring, gostring) gomap"
  pp_SupportedEndpoint :: "(gostring, UpstreamEndpointInfo) gomap"

record UpstreamToken =
  ut_Id :: int
  ut_Key :: gostring
  ut_Name :: gostring
  ut_Status :: int
  ut_Group :: gostring
  ut_RemainQuota :: int
  ut_UnlimitedQuota :: bool
  ut_UsedQuota :: int
  ut_ModelLimitsEnabled :: bool
  ut_ModelLimits :: gostring

record UpstreamTokenPage =
  tp_Page :: int
  tp_PageSize :: int
  tp_Total :: int
  tp_Items :: "UpstreamToken list"

record UpstreamTokenCreateResult =
  cr_Message :: gostring
  cr_Token :: "UpstreamToken option"

record UpstreamUserSelf =
  us_Id :: int
  us_Balance :: int
  us_Status :: int

record CheckinResponse =
  ci_QuotaAwarded :: int
  ci_Message :: gostring

subsection \<open>Decoding\<close>

definition dec_slice :: "'a decoder \<Rightarrow> 'a \<Rightarrow> 'a list option decoder" where
  \<comment> \<open>a slice whose nil value is told apart from the empty one\<close>
  "dec_slice dec zero v z = (case v of JNull \<Rightarrow> Some None | _ \<Rightarrow> map_option Some (dec_list dec zero v []))"

definition response_fields :: "(gostring \<times> json) list \<Rightarrow> UpstreamResponse \<Rightarrow> UpstreamResponse option" where
  "response_fields m z = do {
     s \<leftarrow> struct_field dec_bool ''success'' m (ur_Success z);
     t \<leftarrow> struct_field dec_string ''message'' m (ur_Message z);
     d \<leftarrow> struct_field dec_raw ''data'' m (ur_Data z);
     Some \<lparr>ur_Success = s, ur_Message = t, ur_Data = d\<rparr> }"

definition no_response :: UpstreamResponse where
  "no_response = \<lparr>ur_Success = False, ur_Message = [], ur_Data = None\<rparr>"

definition pricing_fields :: "(gostring \<times> json) list \<Rightarrow> UpstreamPricing \<Rightarrow> UpstreamPricing option" where
  "pricing_fields m z = do {
     n \<leftarrow> struct_field dec_string ''model_name'' m (up_ModelName z);
     q \<leftarrow> struct_field dec_int ''quota_type'' m (up_QuotaType z);
     r \<leftarrow> struct_field dec_float ''model_ratio'' m (up_ModelRatio z);
     p \<leftarrow> struct_field dec_float ''model_price'' m (up_ModelPrice z);
     c \<leftarrow> struct_field dec_float ''completion_ratio'' m (up_CompletionRatio z);
     g \<leftarrow> struct_field (dec_slice dec_string []) ''enable_groups'' m (up_EnableGroups z);
     e \<leftarrow> struct_field (dec_slice dec_string []) ''supported_endpoint_types'' m (up_SupportedEndpointTypes z);
     Some \<lparr>up_ModelName = n, up_QuotaType = q, up_ModelRatio = r, up_ModelPrice = p, up_CompletionRatio = c,
           up_EnableGroups = g, up_SupportedEndpointTypes = e\<rparr> }"

definition no_pricing :: UpstreamPricing where
  "no_pricing = \<lparr>up_ModelName = [], up_QuotaType = 0, up_ModelRatio = 0, up_ModelPrice = 0, up_CompletionRatio = 0,
     up_EnableGroups = None, up_SupportedEndpointTypes = None\<rparr>"

definition endpoint_fields :: "(gostring \<times> json) list \<Rightarrow> UpstreamEndpointInfo \<Rightarrow> UpstreamEndpointInfo option" where
  "endpoint_fields m z = do {
     p \<leftarrow> struct_field dec_string ''path'' m (ue_Path z);
     t \<leftarrow> struct_field dec_string ''method'' m (ue_Method z);
     Some \<lparr>ue_Path = p, ue_Method = t\<rparr> }"

definition payload_fields :: "(gostring \<times> json) list \<Rightarrow> UpstreamPricingPayload \<Rightarrow> UpstreamPricingPayload option" where
  "payload_fields m z = do {
     d \<leftarrow> struct_field (dec_list (dec_struct pricing_fields) no_pricing) ''data'' m (pp_Data z);
     g \<leftarrow> struct_field (dec_map dec_float 0) ''group_ratio'' m (pp_GroupRatio z);
     u \<leftarrow> struct_field (dec_map dec_string []) ''usable_group'' m (pp_UsableGroup z);
     s \<leftarrow> struct_field (dec_map (dec_struct endpoint_fields) \<lparr>ue_Path = [], ue_Method = []\<rparr>) ''supported_endpoint'' m (pp_SupportedEndpoint z);
     Some \<lparr>pp_Data = d, pp_GroupRatio = g, pp_UsableGroup = u, pp_SupportedEndpoint = s\<rparr> }"

definition token_fields :: "(gostring \<times> json) list \<Rightarrow> UpstreamToken \<Rightarrow> UpstreamToken option" where
  "token_fields m z = do {
     i \<leftarrow> struct_field dec_int ''id'' m (ut_Id z);
     k \<leftarrow> struct_field dec_string ''key'' m (ut_Key z);
     n \<leftarrow> struct_field dec_string ''name'' m (ut_Name z);
     s \<leftarrow> struct_field dec_int ''status'' m (ut_Status z);
     g \<leftarrow> struct_field dec_string ''group'' m (ut_Group z);
     r \<leftarrow> struct_field dec_int ''remain_quota'' m (ut_RemainQuota z);
     u \<leftarrow> struct_field dec_bool ''unlimited_quota'' m (ut_UnlimitedQuota z);
     d \<leftarrow> struct_field dec_int ''used_quota'' m (ut_UsedQuota z);
     e \<leftarrow> struct_field dec_bool ''model_limits_enabled'' m (ut_ModelLimitsEnabled z);
     l \<leftarrow> struct_field dec_string ''model_limits'' m (ut_ModelLimits z);
     Some \<lparr>ut_Id = i, ut_Key = k, ut_Name = n, ut_Status = s, ut_Group = g, ut_RemainQuota = r, ut_UnlimitedQuota = u,
           ut_UsedQuota = d, ut_ModelLimitsEnabled = e, ut_ModelLimits = l\<rparr> }"

definition no_token :: UpstreamToken where
  "no_token = \<lparr>ut_Id = 0, ut_Key = [], ut_Name = [], ut_Status = 0, ut_Group = [], ut_RemainQuota = 0, ut_UnlimitedQuota = False,
     ut_UsedQuota = 0, ut_ModelLimitsEnabled = False, ut_ModelLimits = []\<rparr>"

definition page_fields :: "(gostring \<times> json) list \<Rightarrow> UpstreamTokenPage \<Rightarrow> UpstreamTokenPage option" where
  "page_fields m z = do {
     p \<leftarrow> struct_field dec_int ''page'' m (tp_Page z);
     s \<leftarrow> struct_field dec_int ''page_size'' m (tp_PageSize z);
     t \<leftarrow> struct_field dec_int ''total'' m (tp_Total z);
     i \<leftarrow> struct_field (dec_list (dec_struct token_fields) no_token) ''items'' m (tp_Items z);
     Some \<lparr>tp_Page = p, tp_PageSize = s, tp_Total = t, tp_Items = i\<rparr> }"

subsection \<open>Requests\<close>

definition sanitizeProviderErrorMessage :: "proxy_env \<Rightarrow> Provider option \<Rightarrow> gostring \<Rightarrow> gostring" where
  "sanitizeProviderErrorMessage env provider message = SanitizeProviderSensitiveText (pe_parse_url env) provider message"

definition NewUpstreamClientForProvider :: "proxy_env \<Rightarrow> Provider \<Rightarrow> up_error + UpstreamClient" where
  "NewUpstreamClientForProvider env provider =
    (case buildProviderTransport (pe_parse_url env) provider of
       Inl e \<Rightarrow> Inl (UpstreamRequestError 0 (sanitizeProviderErrorMessage env (Some provider) (pe_error_text env e)) True)
     | Inr httpClient \<Rightarrow>
         Inr \<lparr>uc_BaseURL = p_BaseURL provider, uc_AccessToken = p_AccessToken provider, uc_UserID = p_UserID provider,
              uc_Provider = Some provider, uc_HTTPClient = httpClient\<rparr>)"

definition client_headers :: "UpstreamClient \<Rightarrow> (gostring, gostring) gomap" where
  "client_headers c =
    [(''authorization'', ''Bearer '' @ uc_AccessToken c), (''new-api-user'', Itoa (uc_UserID c)), (''content-type'', ''application/json'')]"

definition read_answer :: "proxy_env \<Rightarrow> UpstreamClient \<Rightarrow> transport_result \<Rightarrow> up_error + gostring" where
  "read_answer env c r =
    (case r of
       TransportError e \<Rightarrow> Inl (UpstreamRequestError 0 (sanitizeProviderErrorMessage env (uc_Provider c) e) True)
     | Response resp \<Rightarrow>
         (case rs_Body resp of
            BodyFailed e \<Rightarrow> Inl (UpstreamFailed e)
          | BodyOk body \<Rightarrow>
              if rs_StatusCode resp \<noteq> 200
              then Inl (UpstreamRequestError (rs_StatusCode resp)
                (''upstream returned status '' @ Itoa (rs_StatusCode resp) @ '': '' @ sanitizeProviderErrorMessage env (uc_Provider c) body) False)
              else Inr body))"

definition doRequestWithBody ::
  "proxy_env \<Rightarrow> 'u upstream \<Rightarrow> UpstreamClient \<Rightarrow> gostring \<Rightarrow> gostring \<Rightarrow> gostring \<Rightarrow> 'u \<Rightarrow> (up_error + gostring) \<times> 'u" where
  \<comment> \<open>the payload is already encoded\<close>
  "doRequestWithBody env net c method path body u =
    (let url = uc_BaseURL c @ path in
     if \<not> pe_request_ok env method url then (Inl (UpstreamFailed ''invalid request''), u)
     else case net (uc_HTTPClient c) \<lparr>og_Method = method, og_URL = url, og_Header = client_headers c, og_Body = body\<rparr> u of
       (r, u) \<Rightarrow> (read_answer env c r, u))"

definition doRequest :: "proxy_env \<Rightarrow> 'u upstream \<Rightarrow> UpstreamClient \<Rightarrow> gostring \<Rightarrow> gostring \<Rightarrow> 'u \<Rightarrow> (up_error + gostring) \<times> 'u" where
  "doRequest env net c method path u = doRequestWithBody env net c method path [] u"

definition decode_error :: up_error where
  "decode_error = UpstreamFailed ''json''"

definition on_body :: "('a \<Rightarrow> up_error + 'b) \<Rightarrow> (up_error + 'a) \<times> 'u \<Rightarrow> (up_error + 'b) \<times> 'u" where
  \<comment> \<open>go on with an answer, keep an error\<close>
  "on_body f r = (case r of (Inl e, u) \<Rightarrow> (Inl e, u) | (Inr b, u) \<Rightarrow> (f b, u))"

subsection \<open>Operations\<close>

definition GetPricing :: "proxy_env \<Rightarrow> 'u upstream \<Rightarrow> UpstreamClient \<Rightarrow> 'u \<Rightarrow> (up_error + UpstreamPricingPayload) \<times> 'u" where
  "GetPricing env net c u =
    on_body (\<lambda>body.
      case json_unmarshal (dec_struct payload_fields) body
          \<lparr>pp_Data = [], pp_GroupRatio = [], pp_UsableGroup = [], pp_SupportedEndpoint = []\<rparr> of
        None \<Rightarrow> Inl decode_error
      | Some resp \<Rightarrow> Inr resp)
    (doRequest env net c ''GET'' ''/api/pricing'' u)"

definition normal_page :: "int \<Rightarrow> int \<Rightarrow> UpstreamTokenPage \<Rightarrow> UpstreamTokenPage" where
  "normal_page page pageSize info =
    (let info = (if tp_PageSize info \<le> 0 then info\<lparr>tp_PageSize := pageSize\<rparr> else info);
         info = (if tp_Page info < 0 then info\<lparr>tp_Page := page\<rparr> else info)
     in if tp_Total info < 0 then info\<lparr>tp_Total := 0\<rparr> else info)"

definition decode_page :: "int \<Rightarrow> int \<Rightarrow> gostring \<Rightarrow> up_error + UpstreamTokenPage" where
  "decode_page page pageSize body =
    (case json_unmarshal (dec_struct response_fields) body no_response of
       None \<Rightarrow> Inl decode_error
     | Some resp \<Rightarrow>
         if \<not> ur_Success resp then Inl (UpstreamFailed (''upstream token list failed: '' @ ur_Message resp))
         else case Option.bind (ur_Data resp)
             (\<lambda>v. dec_struct page_fields v \<lparr>tp_Page = 0, tp_PageSize = 0, tp_Total = 0, tp_Items = []\<rparr>) of
           None \<Rightarrow> Inl (UpstreamFailed ''failed to parse paginated token response'')
         | Some info \<Rightarrow> Inr (normal_page page pageSize info))"

definition tokens_path :: "int \<Rightarrow> int \<Rightarrow> gostring" where
  "tokens_path page pageSize = ''/api/token/?p='' @ Itoa page @ ''&page_size='' @ Itoa pageSize"

definition GetTokens :: "proxy_env \<Rightarrow> 'u upstream \<Rightarrow> UpstreamClient \<Rightarrow> int \<Rightarrow> int \<Rightarrow> 'u \<Rightarrow> (up_error + UpstreamTokenPage) \<times> 'u" where
  "GetTokens env net c page pageSize u = on_body (decode_page page pageSize) (doRequest env net c ''GET'' (tokens_path page pageSize) u)"

definition detail_fields :: "(gostring \<times> json) list \<Rightarrow> bool \<times> gostring \<times> UpstreamToken \<Rightarrow> (bool \<times> gostring \<times> UpstreamToken) option" where
  "detail_fields m z = do {
     s \<leftarrow> struct_field dec_bool ''success'' m (fst z);
     t \<leftarrow> struct_field dec_string ''message'' m (fst (snd z));
     d \<leftarrow> struct_field (dec_struct token_fields) ''data'' m (snd (snd z));
     Some (s, t, d) }"

definition GetTokenDetail :: "proxy_env \<Rightarrow> 'u upstream \<Rightarrow> UpstreamClient \<Rightarrow> int \<Rightarrow> 'u \<Rightarrow> (up_error + UpstreamToken) \<times> 'u" where
  "GetTokenDetail env net c tokenId u =
    on_body (\<lambda>body.
      case json_unmarshal (dec_struct detail_fields) body (False, [], no_token) of
        None \<Rightarrow> Inl decode_error
      | Some (success, message, t) \<Rightarrow>
          if \<not> success then Inl (UpstreamFailed (''upstream get token detail failed: '' @ message)) else Inr t)
    (doRequest env net c ''GET'' (''/api/token/'' @ Itoa tokenId) u)"

fun classifyPlaintextKeyFetchError :: "up_error \<Rightarrow> up_error" where
  "classifyPlaintextKeyFetchError (UpstreamRequestError code msg transport) =
    (if code = 401 \<or> code = 403 then UpstreamTokenPlaintextKeyError KeyUnauthorized code msg
     else if code = 404 \<or> code = 405 then UpstreamTokenPlaintextKeyError KeyUnavailable code msg
     else UpstreamTokenPlaintextKeyError KeyRequestFailed code msg)"
| "classifyPlaintextKeyFetchError e = UpstreamTokenPlaintextKeyError KeyRequestFailed 0 (up_error_text e)"

definition extractUpstreamTokenPlaintextKey :: "json option \<Rightarrow> gostring" where
  "extractUpstreamTokenPlaintextKey raw =
    (case raw of
       None \<Rightarrow> []
     | Some JNull \<Rightarrow> []
     | Some v \<Rightarrow>
         (case dec_struct (struct_field dec_string ''key'') v [] of
            Some key \<Rightarrow> TrimSpace key
          | None \<Rightarrow>
              (case (v, json_field v ''key'') of
                 (JObj m, Some (JStr key)) \<Rightarrow> if numbers_ok v then TrimSpace key else []
               | (JStr plain, _) \<Rightarrow> TrimSpace plain
               | _ \<Rightarrow> [])))"

definition GetTokenPlaintextKey :: "proxy_env \<Rightarrow> 'u upstream \<Rightarrow> UpstreamClient \<Rightarrow> int \<Rightarrow> 'u \<Rightarrow> (up_error + gostring) \<times> 'u" where
  "GetTokenPlaintextKey env net c tokenId u =
    (case doRequest env net c ''POST'' (''/api/token/'' @ Itoa tokenId @ ''/key'') u of
       (Inl e, u) \<Rightarrow> (Inl (classifyPlaintextKeyFetchError e), u)
     | (Inr body, u) \<Rightarrow>
         (case json_unmarshal (dec_struct response_fields) body no_response of
            None \<Rightarrow> (Inl (UpstreamTokenPlaintextKeyError KeyRequestFailed 0 ''failed to parse token key response''), u)
          | Some resp \<Rightarrow>
              (let key = extractUpstreamTokenPlaintextKey (ur_Data resp) in
               if \<not> ur_Success resp \<or> \<not> IsUsableProviderTokenKey key
               then (Inl (UpstreamTokenPlaintextKeyError KeyNoKey 0 (TrimSpace (ur_Message resp))), u)
               else (Inr key, u))))"

definition create_payload :: "gostring \<Rightarrow> gostring \<Rightarrow> bool \<Rightarrow> int \<Rightarrow> gostring \<Rightarrow> json" where
  "create_payload name grp unlimitedQuota remainQuota modelLimits =
    JObj [(''name'', JStr name), (''group'', JStr grp), (''unlimited_quota'', JBool unlimitedQuota), (''remain_quota'', JNum (Itoa remainQuota)),
      (''expired_time'', JNum ''-1''), (''model_limits_enabled'', JBool (modelLimits \<noteq> [])), (''model_limits'', JStr modelLimits)]"

definition shows_token :: "UpstreamToken \<Rightarrow> bool" where
  \<comment> \<open>the condition on a created token that the answer carries\<close>
  "shows_token t \<longleftrightarrow> ut_Id t \<noteq> 0 \<or> TrimSpace (ut_Key t) \<noteq> [] \<or> TrimSpace (ut_Name t) \<noteq> [] \<or> TrimSpace (ut_Group t) \<noteq> []
     \<or> ut_Status t \<noteq> 0 \<or> ut_RemainQuota t \<noteq> 0 \<or> ut_UnlimitedQuota t \<or> ut_UsedQuota t \<noteq> 0 \<or> TrimSpace (ut_ModelLimits t) \<noteq> []"

definition created_token :: "json option \<Rightarrow> UpstreamToken option" where
  "created_token raw =
    (case raw of
       None \<Rightarrow> None
     | Some JNull \<Rightarrow> None
     | Some v \<Rightarrow>
         (case dec_struct token_fields v no_token of
            Some created \<Rightarrow> if shows_token created then Some created else None
          | None \<Rightarrow> None))"

definition CreateUpstreamToken ::
  "proxy_env \<Rightarrow> 'u upstream \<Rightarrow> UpstreamClient \<Rightarrow> gostring \<Rightarrow> gostring \<Rightarrow> bool \<Rightarrow> int \<Rightarrow> gostring \<Rightarrow> 'u
   \<Rightarrow> (up_error + UpstreamTokenCreateResult) \<times> 'u" where
  "CreateUpstreamToken env net c name grp unlimitedQuota remainQuota modelLimits u =
    (case pe_marshal env (create_payload name grp unlimitedQuota remainQuota modelLimits) of
       None \<Rightarrow> (Inl (UpstreamFailed ''marshal''), u)
     | Some jsonData \<Rightarrow>
         on_body (\<lambda>body.
           case json_unmarshal (dec_struct response_fields) body no_response of
             None \<Rightarrow> Inl decode_error
           | Some resp \<Rightarrow>
               if \<not> ur_Success resp then Inl (UpstreamFailed (''upstream create token failed: '' @ ur_Message resp))
               else Inr \<lparr>cr_Message = ur_Message resp, cr_Token = created_token (ur_Data resp)\<rparr>)
         (doRequestWithBody env net c ''POST'' ''/api/token/'' jsonData u))"

fun delete_paths :: "proxy_env \<Rightarrow> 'u upstream \<Rightarrow> UpstreamClient \<Rightarrow> gostring list \<Rightarrow> up_error option \<Rightarrow> 'u \<Rightarrow> up_error option \<times> 'u" where
  \<comment> \<open>the loop over the path variants; \<open>None\<close> is success\<close>
  "delete_paths env net c [] lastErr u = (lastErr, u)"
| "delete_paths env net c (path # paths) lastErr u =
    (case doRequest env net c ''DELETE'' path u of
       (Inl e, u) \<Rightarrow> delete_paths env net c paths (Some e) u
     | (Inr body, u) \<Rightarrow>
         (case json_unmarshal (dec_struct response_fields) body no_response of
            None \<Rightarrow> (Some decode_error, u)
          | Some resp \<Rightarrow>
              if \<not> ur_Success resp then (Some (UpstreamFailed (''upstream delete token failed: '' @ ur_Message resp)), u)
              else (None, u)))"

definition DeleteUpstreamToken :: "proxy_env \<Rightarrow> 'u upstream \<Rightarrow> UpstreamClient \<Rightarrow> int \<Rightarrow> 'u \<Rightarrow> up_error option \<times> 'u" where
  "DeleteUpstreamToken env net c tokenId u =
    delete_paths env net c [''/api/token/'' @ Itoa tokenId, ''/api/token/'' @ Itoa tokenId @ ''/''] None u"

definition self_fields :: "(gostring \<times> json) list \<Rightarrow> UpstreamUserSelf \<Rightarrow> UpstreamUserSelf option" where
  "self_fields m z = do {
     i \<leftarrow> struct_field dec_int ''id'' m (us_Id z);
     q \<leftarrow> struct_field dec_int ''quota'' m (us_Balance z);
     s \<leftarrow> struct_field dec_int ''status'' m (us_Status z);
     Some \<lparr>us_Id = i, us_Balance = q, us_Status = s\<rparr> }"

definition self_answer_fields :: "(gostring \<times> json) list \<Rightarrow> bool \<times> UpstreamUserSelf \<Rightarrow> (bool \<times> UpstreamUserSelf) option" where
  "self_answer_fields m z = do {
     s \<leftarrow> struct_field dec_bool ''success'' m (fst z);
     d \<leftarrow> struct_field (dec_struct self_fields) ''data'' m (snd z);
     Some (s, d) }"

definition GetUserSelf :: "proxy_env \<Rightarrow> 'u upstream \<Rightarrow> UpstreamClient \<Rightarrow> 'u \<Rightarrow> (up_error + UpstreamUserSelf) \<times> 'u" where
  \<comment> \<open>the field \<open>success\<close> is decoded and not looked at\<close>
  "GetUserSelf env net c u =
    on_body (\<lambda>body.
      case json_unmarshal (dec_struct self_answer_fields) body (False, \<lparr>us_Id = 0, us_Balance = 0, us_Status = 0\<rparr>) of
        None \<Rightarrow> Inl decode_error
      | Some (success, self) \<Rightarrow> Inr self)
    (doRequest env net c ''GET'' ''/api/user/self'' u)"

subsection \<open>Check-in\<close>

definition idempotentCheckinMessagePatterns :: "gostring list" where
  \<comment> \<open>the first pattern is the UTF-8 text of the Chinese message "already checked in today"\<close>
  "idempotentCheckinMessagePatterns =
    [[CHR 0xE4, CHR 0xBB, CHR 0x8A, CHR 0xE6, CHR 0x97, CHR 0xA5, CHR 0xE5, CHR 0xB7, CHR 0xB2,
      CHR 0xE7, CHR 0xAD, CHR 0xBE, CHR 0xE5, CHR 0x88, CHR 0xB0],
     ''alreadycheckedintoday'']"

definition normalizeCheckinMessage :: "gostring \<Rightarrow> gostring" where
  "normalizeCheckinMessage message = ToLower (Join (Fields (TrimSpace message)) [])"

definition isIdempotentCheckinMessage :: "gostring \<Rightarrow> bool" where
  "isIdempotentCheckinMessage message =
    (let normalized = normalizeCheckinMessage message in
     if normalized = [] then False else list_ex (StrContains normalized) idempotentCheckinMessagePatterns)"

definition checkin_fields :: "(gostring \<times> json) list \<Rightarrow> bool \<times> gostring \<times> CheckinResponse \<Rightarrow> (bool \<times> gostring \<times> CheckinResponse) option" where
  "checkin_fields m z = do {
     s \<leftarrow> struct_field dec_bool ''success'' m (fst z);
     t \<leftarrow> struct_field dec_string ''message'' m (fst (snd z));
     d \<leftarrow> struct_field (dec_struct (\<lambda>m z. do { q \<leftarrow> struct_field dec_int ''quota_awarded'' m (ci_QuotaAwarded z);
           Some (z\<lparr>ci_QuotaAwarded := q\<rparr>) })) ''data'' m (snd (snd z));
     Some (s, t, d) }"

definition checkin_answer :: "gostring \<Rightarrow> up_error + CheckinResponse" where
  "checkin_answer body =
    (case json_unmarshal (dec_struct checkin_fields) body (False, [], \<lparr>ci_QuotaAwarded = 0, ci_Message = []\<rparr>) of
       None \<Rightarrow> Inl decode_error
     | Some (success, message, d) \<Rightarrow>
         if \<not> success then
           (if isIdempotentCheckinMessage (TrimSpace message) then Inr (d\<lparr>ci_Message := TrimSpace message\<rparr>)
            else Inl (UpstreamFailed (''checkin failed: '' @ message)))
         else if TrimSpace (ci_Message d) = [] then Inr (d\<lparr>ci_Message := TrimSpace message\<rparr>)
         else Inr d)"

definition Checkin :: "proxy_env \<Rightarrow> 'u upstream \<Rightarrow> UpstreamClient \<Rightarrow> 'u \<Rightarrow> (up_error + CheckinResponse) \<times> 'u" where
  \<comment> \<open>the status code of the answer is not looked at\<close>
  "Checkin env net c u =
    (let url = uc_BaseURL c @ ''/api/user/checkin'' in
     if \<not> pe_request_ok env ''POST'' url then (Inl (UpstreamFailed ''invalid request''), u)
     else case net (uc_HTTPClient c)
         \<lparr>og_Method = ''POST'', og_URL = url, og_Header = mdel ''content-type'' (client_headers c), og_Body = []\<rparr> u of
       (TransportError e, u) \<Rightarrow> (Inl (UpstreamRequestError 0 (sanitizeProviderErrorMessage env (uc_Provider c) e) True), u)
     | (Response resp, u) \<Rightarrow>
         (case rs_Body resp of
            BodyFailed e \<Rightarrow> (Inl (UpstreamFailed e), u)
          | BodyOk body \<Rightarrow> (checkin_answer body, u)))"

lemma on_body_simps [simp]:
  "on_body f (Inl e, u) = (Inl e, u)" "on_body f (Inr b, u) = (f b, u)"
  by (simp_all add: on_body_def)

end
