(* ===== verification/RouteAdmin.thy ===== *)
theory RouteAdmin
  imports RoutePlan GoStruct
begin

text \<open>
  Administration of the routes: the writing side and the overview of \<open>src/model/model_route.go\<close>, the prices of
  \<open>src/model/model_pricing.go\<close> and the handlers of \<open>src/controller/route.go\<close>. A write returns the database and the
  routing caches after it. What GORM makes of a struct (the columns that \<open>Updates\<close> skips, the defaults
  and the identifiers that \<open>Create\<close> stores) is an argument.
\<close>

subsection \<open>Listing and changing routes\<close>

record ModelRoutePatch =
  rp_Id :: int
  rp_Priority :: "int option"
  rp_Weight :: "int option"
  rp_Enabled :: "bool option"

datatype route_column = Col_priority int | Col_weight int | Col_enabled bool

definition ToUpdates :: "ModelRoutePatch \<Rightarrow> route_column list" where
  "ToUpdates p =
    (case rp_Priority p of Some v \<Rightarrow> [Col_priority v] | None \<Rightarrow> []) @
    (case rp_Weight p of Some v \<Rightarrow> [Col_weight v] | None \<Rightarrow> []) @
    (case rp_Enabled p of Some v \<Rightarrow> [Col_enabled v] | None \<Rightarrow> [])"

fun set_column :: "route_column \<Rightarrow> ModelRoute \<Rightarrow> ModelRoute" where
  "set_column (Col_priority v) r = r\<lparr>mr_Priority := v\<rparr>"
| "set_column (Col_weight v) r = r\<lparr>mr_Weight := v\<rparr>"
| "set_column (Col_enabled v) r = r\<lparr>mr_Enabled := v\<rparr>"

definition listed_before :: "ModelRoute \<Rightarrow> ModelRoute \<Rightarrow> bool" where
  \<comment> \<open>\<open>ORDER BY model_name ASC, priority DESC\<close>\<close>
  "listed_before a b \<longleftrightarrow> mr_ModelName a < mr_ModelName b \<or> mr_ModelName a = mr_ModelName b \<and> mr_Priority a > mr_Priority b"

definition GetAllModelRoutes :: "gostring \<Rightarrow> int \<Rightarrow> int \<Rightarrow> db \<Rightarrow> ModelRoute list" where
  "GetAllModelRoutes modelName startIdx num d =
    take (nat num) (drop (nat startIdx) (sort_by listed_before
      (filter (\<lambda>r. if modelName \<noteq> [] then like_any modelName (mr_ModelName r) else True) (db_routes d))))"

definition ModelRoute_Update ::
  "(ModelRoute \<Rightarrow> ModelRoute \<Rightarrow> ModelRoute) \<Rightarrow> ModelRoute \<Rightarrow> db \<times> routingCaches \<Rightarrow> db \<times> routingCaches" where
  \<comment> \<open>\<open>merge\<close> is what \<open>Updates\<close> with a struct changes in the row\<close>
  "ModelRoute_Update merge r w =
    ((fst w)\<lparr>db_routes := row_update (\<lambda>x. mr_Id x = mr_Id r) (merge r) (db_routes (fst w))\<rparr>, invalidateModelRouteCaches (snd w))"

definition update_route :: "int \<Rightarrow> route_column list \<Rightarrow> db \<Rightarrow> db" where
  \<comment> \<open>\<open>Where("id = ?", id).Updates(updates)\<close>\<close>
  "update_route i updates d = d\<lparr>db_routes := row_update (\<lambda>x. mr_Id x = i) (fold set_column updates) (db_routes d)\<rparr>"

definition UpdateModelRouteFields :: "int \<Rightarrow> route_column list \<Rightarrow> db \<times> routingCaches \<Rightarrow> gw_error + db \<times> routingCaches" where
  "UpdateModelRouteFields i updates w =
    (if i \<le> 0 then Inl ErrInvalidRouteId
     else if updates = [] then Inl ErrNoFields
     else Inr (update_route i updates (fst w), invalidateModelRouteCaches (snd w)))"

fun apply_patches :: "ModelRoutePatch list \<Rightarrow> db \<Rightarrow> gw_error + db" where
  \<comment> \<open>the loop inside the transaction; an error rolls it back\<close>
  "apply_patches [] d = Inr d"
| "apply_patches (p # ps) d =
    (if rp_Id p \<le> 0 then Inl ErrInvalidRouteId
     else if ToUpdates p = [] then apply_patches ps d
     else apply_patches ps (update_route (rp_Id p) (ToUpdates p) d))"

definition BatchUpdateModelRoutes :: "ModelRoutePatch list \<Rightarrow> db \<times> routingCaches \<Rightarrow> gw_error + db \<times> routingCaches" where
  "BatchUpdateModelRoutes patches w =
    (if patches = [] then Inl ErrNoPatches
     else case apply_patches patches (fst w) of
       Inl e \<Rightarrow> Inl e
     | Inr d \<Rightarrow> Inr (d, invalidateModelRouteCaches (snd w)))"

subsection \<open>Rebuilding the routes of a provider\<close>

definition existing_routes :: "int \<Rightarrow> db \<Rightarrow> (gostring, ModelRoute) gomap" where
  "existing_routes providerId d =
    fold (\<lambda>r. mput (routeModelTokenKey (mr_ModelName r) (mr_ProviderTokenId r)) r)
      (filter (\<lambda>r. mr_ProviderId r = providerId) (db_routes d)) []"

definition keep_settings :: "(gostring, ModelRoute) gomap \<Rightarrow> ModelRoute \<Rightarrow> ModelRoute" where
  "keep_settings existingMap r =
    (case mget existingMap (routeModelTokenKey (mr_ModelName r) (mr_ProviderTokenId r)) of
       Some previous \<Rightarrow> r\<lparr>mr_Enabled := mr_Enabled previous, mr_Priority := mr_Priority previous, mr_Weight := mr_Weight previous\<rparr>
     | None \<Rightarrow> r)"

fun create_batches ::
  "(ModelRoute list \<Rightarrow> ModelRoute list \<Rightarrow> ModelRoute list option) \<Rightarrow> nat \<Rightarrow> ModelRoute list \<Rightarrow> ModelRoute list \<Rightarrow> ModelRoute list option" where
  \<comment> \<open>\<open>create table batch\<close> is the table after \<open>tx.Create(batch)\<close>, \<open>None\<close> an error; the first number bounds the rounds\<close>
  "create_batches create 0 routes table = (if routes = [] then Some table else None)"
| "create_batches create (Suc n) routes table =
    (if routes = [] then Some table
     else case create table (take 50 routes) of
       None \<Rightarrow> None
     | Some table \<Rightarrow> create_batches create n (drop 50 routes) table)"

definition RebuildRoutesForProvider ::
  "(ModelRoute list \<Rightarrow> ModelRoute list \<Rightarrow> ModelRoute list option) \<Rightarrow> int \<Rightarrow> ModelRoute list \<Rightarrow> db \<times> routingCaches
   \<Rightarrow> gw_error option \<times> db \<times> routingCaches" where
  "RebuildRoutesForProvider create providerId routes w =
    (let d = fst w;
         routes = map (keep_settings (existing_routes providerId d)) routes;
         table = row_delete (\<lambda>r. mr_ProviderId r = providerId) (db_routes d)
     in case create_batches create (length routes) routes table of
          None \<Rightarrow> (Some ErrDb, w)
        | Some table \<Rightarrow> (None, d\<lparr>db_routes := table\<rparr>, invalidateModelRouteCaches (snd w)))"

subsection \<open>Prices\<close>

definition UpsertModelPricing ::
  "(ModelPricing \<Rightarrow> ModelPricing \<Rightarrow> ModelPricing) \<Rightarrow> gotime \<Rightarrow> ModelPricing \<Rightarrow> db \<times> routingCaches \<Rightarrow> db \<times> routingCaches" where
  \<comment> \<open>\<open>merge p row\<close> is the row after \<open>Updates(p)\<close>\<close>
  "UpsertModelPricing merge now p w =
    (let d = fst w in
     case find (\<lambda>x. mp_ModelName x = mp_ModelName p \<and> mp_ProviderId x = mp_ProviderId p) (db_pricings d) of
       Some existing \<Rightarrow>
         (d\<lparr>db_pricings := row_update (\<lambda>x. mp_Id x = mp_Id existing) (merge (p\<lparr>mp_Id := mp_Id existing\<rparr>)) (db_pricings d)\<rparr>,
          invalidateModelRouteCaches (snd w))
     | None \<Rightarrow>
         (d\<lparr>db_pricings := db_pricings d @ [p\<lparr>mp_Id := next_row_id mp_Id (db_pricings d), mp_LastSynced := Unix now\<rparr>]\<rparr>,
          invalidateModelRouteCaches (snd w)))"

definition GetModelPricingByProvider :: "int \<Rightarrow> db \<Rightarrow> ModelPricing list" where
  "GetModelPricingByProvider providerId d = filter (\<lambda>p. mp_ProviderId p = providerId) (db_pricings d)"

definition GetAllModelPricing :: "db \<Rightarrow> ModelPricing list" where
  "GetAllModelPricing d = db_pricings d"

definition DeletePricingForProvider :: "int \<Rightarrow> db \<times> routingCaches \<Rightarrow> db \<times> routingCaches" where
  "DeletePricingForProvider providerId w =
    ((fst w)\<lparr>db_pricings := row_delete (\<lambda>p. mp_ProviderId p = providerId) (db_pricings (fst w))\<rparr>, invalidateModelRouteCaches (snd w))"

subsection \<open>The overview\<close>

record ModelRouteOverviewItem =
  oi_Id :: int
  oi_DisplayModelName :: gostring
  oi_ModelName :: gostring
  oi_ProviderId :: int
  oi_ProviderName :: gostring
  oi_ProviderBalance :: gostring
  oi_ProviderStatus :: int
  oi_ProviderTokenId :: int
  oi_TokenName :: gostring
  oi_TokenGroupName :: gostring
  oi_TokenStatus :: int
  oi_Enabled :: bool
  oi_Priority :: int
  oi_Weight :: int
  oi_BillingType :: gostring
  oi_GroupRatio :: real
  oi_PromptPricePer1M :: "real option"
  oi_CompletionPricePer1M :: "real option"
  oi_PerCallPrice :: "real option"
  oi_RecentUsageCostUSD :: real
  oi_ValueScore :: "real option"
  oi_Tuning :: routingTuningConfig
  oi_HealthMultiplier :: real
  oi_HealthSampleCount :: int
  oi_HealthSuccessRate :: "real option"
  oi_HealthFailRate :: "real option"
  oi_HealthAvgLatencyMs :: "real option"
  oi_HealthInvalidResponseCount :: int
  oi_HealthInvalidResponseRate :: "real option"
  oi_Suppressed :: bool
  oi_SuppressedUntil :: int
  oi_EffectiveSharePercent :: "real option"

definition left_join :: "('a \<Rightarrow> bool) \<Rightarrow> 'a list \<Rightarrow> 'a option list" where
  "left_join P t = (case filter P t of [] \<Rightarrow> [None] | rs \<Rightarrow> map Some rs)"

type_synonym modelRouteOverviewRow = "ModelRoute \<times> Provider option \<times> ProviderToken option \<times> ModelPricing option"

definition overview_before :: "modelRouteOverviewRow \<Rightarrow> modelRouteOverviewRow \<Rightarrow> bool" where
  "overview_before x y =
    (let a = fst x; b = fst y in
     if mr_ModelName a \<noteq> mr_ModelName b then mr_ModelName a < mr_ModelName b
     else if mr_Priority a \<noteq> mr_Priority b then mr_Priority a > mr_Priority b
     else if mr_ProviderId a \<noteq> mr_ProviderId b then mr_ProviderId a < mr_ProviderId b
     else if mr_ProviderTokenId a \<noteq> mr_ProviderTokenId b then mr_ProviderTokenId a < mr_ProviderTokenId b
     else mr_Id a < mr_Id b)"

definition overview_where :: "gostring \<Rightarrow> int \<Rightarrow> bool \<Rightarrow> ModelRoute \<Rightarrow> bool" where
  "overview_where modelName providerId enabledOnly r \<longleftrightarrow>
    (if modelName \<noteq> [] then like_any modelName (mr_ModelName r) else True)
    \<and> (if providerId > 0 then mr_ProviderId r = providerId else True)
    \<and> (if enabledOnly then mr_Enabled r else True)"

definition overview_rows :: "gostring \<Rightarrow> int \<Rightarrow> bool \<Rightarrow> db \<Rightarrow> modelRouteOverviewRow list" where
  "overview_rows modelName providerId enabledOnly d =
    sort_by overview_before
      [(r, p, t, m). r \<leftarrow> filter (overview_where modelName providerId enabledOnly) (db_routes d),
         p \<leftarrow> left_join (\<lambda>p. p_Id p = mr_ProviderId r) (db_providers d),
         t \<leftarrow> left_join (\<lambda>t. pt_Id t = mr_ProviderTokenId r) (db_tokens d),
         m \<leftarrow> left_join (\<lambda>m. mp_ProviderId m = mr_ProviderId r \<and> mp_ModelName m = mr_ModelName r) (db_pricings d)]"

definition coalesce :: "'b \<Rightarrow> ('a \<Rightarrow> 'b) \<Rightarrow> 'a option \<Rightarrow> 'b" where
  "coalesce z f x = (case x of Some r \<Rightarrow> f r | None \<Rightarrow> z)"

definition with_prices :: "real \<Rightarrow> ModelPricing option \<Rightarrow> ModelRouteOverviewItem \<Rightarrow> ModelRouteOverviewItem" where
  "with_prices groupRatio m item =
    (let modelPrice = coalesce 0 mp_ModelPrice m; completionRatio = coalesce 0 mp_CompletionRatio m in
     if modelPrice > 0 \<or> coalesce 0 mp_QuotaType m = 1
     then item\<lparr>oi_BillingType := ''per_call'', oi_PerCallPrice := Some (modelPrice * groupRatio)\<rparr>
     else
       let promptPrice = coalesce 0 mp_ModelRatio m * 2 * groupRatio;
           completionRatio = (if completionRatio \<le> 0 then 1 else completionRatio)
       in item\<lparr>oi_BillingType := ''per_token'', oi_PromptPricePer1M := Some promptPrice,
               oi_CompletionPricePer1M := Some (promptPrice * completionRatio)\<rparr>)"

definition overview_item :: "routingTuningConfig \<Rightarrow> modelRouteOverviewRow \<Rightarrow> ModelRouteOverviewItem" where
  "overview_item config row = (case row of (r, p, t, m) \<Rightarrow>
    (let groupName = coalesce [] pt_GroupName t;
         groupRatio = getGroupRatio groupName (parseGroupRatioMap (coalesce [] p_PricingGroupRatio p));
         display = (case p of
             Some p \<Rightarrow> (case ResolveByTarget (buildProviderModelAliasReverseLookup (ParseProviderAliasMapping (p_ModelAliasMapping p))) (mr_ModelName r) of
                 Some source \<Rightarrow> source
               | None \<Rightarrow> [])
           | None \<Rightarrow> [])
     in with_prices groupRatio m
       \<lparr>oi_Id = mr_Id r, oi_DisplayModelName = display, oi_ModelName = mr_ModelName r, oi_ProviderId = mr_ProviderId r,
        oi_ProviderName = coalesce [] p_Name p, oi_ProviderBalance = coalesce [] p_Balance p,
        oi_ProviderStatus = coalesce 0 p_Status p, oi_ProviderTokenId = mr_ProviderTokenId r,
        oi_TokenName = coalesce [] pt_Name t, oi_TokenGroupName = groupName, oi_TokenStatus = coalesce 0 pt_Status t,
        oi_Enabled = mr_Enabled r, oi_Priority = mr_Priority r, oi_Weight = mr_Weight r, oi_BillingType = [],
        oi_GroupRatio = groupRatio, oi_PromptPricePer1M = None, oi_CompletionPricePer1M = None, oi_PerCallPrice = None,
        oi_RecentUsageCostUSD = 0, oi_ValueScore = None, oi_Tuning = config, oi_HealthMultiplier = 1,
        oi_HealthSampleCount = 0, oi_HealthSuccessRate = None, oi_HealthFailRate = None, oi_HealthAvgLatencyMs = None,
        oi_HealthInvalidResponseCount = 0, oi_HealthInvalidResponseRate = None, oi_Suppressed = False,
        oi_SuppressedUntil = 0, oi_EffectiveSharePercent = None\<rparr>))"

definition overview_key :: "ModelRouteOverviewItem \<Rightarrow> gostring" where
  "overview_key item = oi_ModelName item @ ''#'' @ Itoa (oi_Priority item)"

definition item_score :: "(gostring, real) gomap \<Rightarrow> ModelRouteOverviewItem \<Rightarrow> real" where
  "item_score usageLookup item =
    (let unitCostUSD = (case (oi_PerCallPrice item, oi_PromptPricePer1M item, oi_CompletionPricePer1M item) of
           (Some c, _, _) \<Rightarrow> c
         | (None, Some a, Some b) \<Rightarrow> a + b
         | _ \<Rightarrow> 0)
     in computeRouteValueScore unitCostUSD (parseBalanceUSD (oi_ProviderBalance item))
          (mget_default 0 usageLookup (routeUsageKey (oi_ProviderTokenId item) (oi_ModelName item))))"

definition with_health :: "gotime \<Rightarrow> (gostring, int) gomap \<Rightarrow> routeHealthStats \<Rightarrow> ModelRouteOverviewItem \<Rightarrow> ModelRouteOverviewItem" where
  "with_health now suppressionLookup h item =
    (let item = item\<lparr>oi_HealthMultiplier := hs_Multiplier h, oi_HealthSampleCount := hs_SampleCount h\<rparr>;
         item = (if hs_SampleCount h > 0
                 then item\<lparr>oi_HealthSuccessRate := Some (hs_SuccessRate h), oi_HealthFailRate := Some (hs_FailRate h),
                           oi_HealthInvalidResponseCount := hs_InvalidResponseCount h,
                           oi_HealthInvalidResponseRate := Some (hs_InvalidResponseRate h),
                           oi_HealthAvgLatencyMs := Some (hs_AvgLatencyMs h)\<rparr>
                 else item);
         until = mget_default 0 suppressionLookup (routeUsageKey (oi_ProviderTokenId item) (oi_ModelName item))
     in item\<lparr>oi_SuppressedUntil := until, oi_Suppressed := until > Unix now\<rparr>)"

definition raise_max :: "gostring \<Rightarrow> real \<Rightarrow> (gostring, real) gomap \<Rightarrow> (gostring, real) gomap" where
  "raise_max key score m = (if score > mget_default 0 m key then mput key score m else m)"

definition scored_item ::
  "gotime \<Rightarrow> (gostring, real) gomap \<Rightarrow> (gostring, routeHealthStats) gomap \<Rightarrow> (gostring, int) gomap \<Rightarrow> routingTuningConfig
   \<Rightarrow> ModelRouteOverviewItem \<Rightarrow> ModelRouteOverviewItem" where
  \<comment> \<open>one round of the loop that scores the items\<close>
  "scored_item now usageLookup healthLookup suppressionLookup config item =
    (let key = routeUsageKey (oi_ProviderTokenId item) (oi_ModelName item);
         score = item_score usageLookup item;
         item = item\<lparr>oi_RecentUsageCostUSD := mget_default 0 usageLookup key\<rparr>;
         item = (if score > 0 then item\<lparr>oi_ValueScore := Some score\<rparr> else item)
     in with_health now suppressionLookup
          (finalizeRouteHealthStat (mget_default zeroHealthStats healthLookup key) config) item)"

definition group_max_scores :: "(gostring, real) gomap \<Rightarrow> ModelRouteOverviewItem list \<Rightarrow> (gostring, real) gomap" where
  "group_max_scores usageLookup items = fold (\<lambda>i. raise_max (overview_key i) (item_score usageLookup i)) items []"

definition shown_contribution :: "(gostring, real) gomap \<Rightarrow> ModelRouteOverviewItem \<Rightarrow> real" where
  "shown_contribution groupMaxScore item =
    (let config = oi_Tuning item;
         contribution = computeRouteContribution (oi_Weight item) (coalesce 0 id (oi_ValueScore item))
           (mget_default 0 groupMaxScore (overview_key item)) (rc_BaseWeightFactor config) (rc_ValueScoreFactor config)
     in if oi_HealthMultiplier item > 0 then contribution * oi_HealthMultiplier item else contribution)"

definition has_share :: "ModelRouteOverviewItem \<Rightarrow> bool" where
  "has_share item \<longleftrightarrow> oi_Enabled item \<and> \<not> oi_Suppressed item"

definition share_step ::
  "(gostring, real) gomap \<Rightarrow> ModelRouteOverviewItem \<Rightarrow> (int, real) gomap \<times> (gostring, real) gomap
   \<Rightarrow> (int, real) gomap \<times> (gostring, real) gomap" where
  \<comment> \<open>one round of the loop over \<open>routeContribution\<close> and \<open>shareSum\<close>\<close>
  "share_step groupMaxScore item acc =
    (if \<not> has_share item then acc
     else let c = shown_contribution groupMaxScore item; key = overview_key item in
       (mput (oi_Id item) c (fst acc), mput key (mget_default 0 (snd acc) key + c) (snd acc)))"

definition with_share :: "(int, real) gomap \<Rightarrow> (gostring, real) gomap \<Rightarrow> ModelRouteOverviewItem \<Rightarrow> ModelRouteOverviewItem" where
  "with_share routeContribution shareSum item =
    (if \<not> has_share item then item\<lparr>oi_EffectiveSharePercent := None\<rparr>
     else
       let contribution = mget_default 0 routeContribution (oi_Id item); total = mget_default 0 shareSum (overview_key item) in
       if total \<le> 0 \<or> contribution \<le> 0 then item\<lparr>oi_EffectiveSharePercent := None\<rparr>
       else item\<lparr>oi_EffectiveSharePercent := Some (contribution / total * 100)\<rparr>)"

definition share_items :: "(gostring, real) gomap \<Rightarrow> ModelRouteOverviewItem list \<Rightarrow> ModelRouteOverviewItem list" where
  \<comment> \<open>the two last loops\<close>
  "share_items groupMaxScore items =
    (let acc = fold (share_step groupMaxScore) items ([], []) in map (with_share (fst acc) (snd acc)) items)"

definition GetModelRouteOverview ::
  "gotime \<Rightarrow> (gostring, gostring) gomap \<Rightarrow> gostring \<Rightarrow> int \<Rightarrow> bool \<Rightarrow> db \<Rightarrow> routingCaches
   \<Rightarrow> ModelRouteOverviewItem list \<times> routingCaches" where
  "GetModelRouteOverview now options modelName providerId enabledOnly d caches =
    (let config = loadRoutingTuningConfig options;
         items = map (overview_item config) (overview_rows modelName providerId enabledOnly d);
         tokenIds = first_seen (map oi_ProviderTokenId items);
         modelNames = first_seen (map oi_ModelName items);
         (usageLookup, usage') = loadRecentUsageCostByTokenModel now tokenIds modelNames (rc_UsageWindowHours config) d (cc_usage caches);
         (healthLookup, health') = loadRouteHealthStatsByTokenModel now tokenIds modelNames (rc_HealthWindowHours config) d (cc_health caches);
         suppressionLookup = loadRouteInvalidResponseSuppressionByTokenModel now tokenIds modelNames config d
     in (share_items (group_max_scores usageLookup items)
           (map (scored_item now usageLookup healthLookup suppressionLookup config) items),
         caches\<lparr>cc_usage := usage', cc_health := health'\<rparr>))"

subsection \<open>Handlers\<close>

definition patch_fields :: "(gostring \<times> json) list \<Rightarrow> ModelRoutePatch \<Rightarrow> ModelRoutePatch option" where
  "patch_fields m z = do {
     i \<leftarrow> struct_field dec_int ''id'' m (rp_Id z);
     p \<leftarrow> struct_field (dec_ptr dec_int 0) ''priority'' m (rp_Priority z);
     w \<leftarrow> struct_field (dec_ptr dec_int 0) ''weight'' m (rp_Weight z);
     e \<leftarrow> struct_field (dec_ptr dec_bool False) ''enabled'' m (rp_Enabled z);
     Some \<lparr>rp_Id = i, rp_Priority = p, rp_Weight = w, rp_Enabled = e\<rparr> }"

definition no_patch :: ModelRoutePatch where
  "no_patch = \<lparr>rp_Id = 0, rp_Priority = None, rp_Weight = None, rp_Enabled = None\<rparr>"

definition route_page :: "gostring \<Rightarrow> gostring \<Rightarrow> db \<Rightarrow> ModelRoute list" where
  \<comment> \<open>the handler \<open>GetModelRoutes\<close> for the query values of \<open>p\<close> and \<open>model\<close>\<close>
  "route_page p modelName d =
    (let p = AtoiValue p; p = (if p < 0 then 0 else p)
     in GetAllModelRoutes modelName (wrap64 (p * 10)) 10 d)"

definition UpdateRoute :: "gostring \<Rightarrow> gostring \<Rightarrow> db \<times> routingCaches \<Rightarrow> gw_error + db \<times> routingCaches" where
  "UpdateRoute idParam body w =
    (case Atoi idParam of
       None \<Rightarrow> Inl (ErrOther ''invalid id'')
     | Some i \<Rightarrow>
         (case ShouldBindJSON (dec_struct patch_fields) body no_patch of
            None \<Rightarrow> Inl (ErrOther ''invalid parameters'')
          | Some patch \<Rightarrow>
              (let updates = ToUpdates (patch\<lparr>rp_Id := i\<rparr>) in
               if updates = [] then Inl ErrNoFields else UpdateModelRouteFields i updates w)))"

definition batch_items :: "(gostring \<times> json) list \<Rightarrow> ModelRoutePatch list \<Rightarrow> ModelRoutePatch list option" where
  "batch_items = struct_field (dec_list (dec_struct patch_fields) no_patch) ''items''"

definition BatchUpdateRoutes :: "gostring \<Rightarrow> db \<times> routingCaches \<Rightarrow> gw_error + db \<times> routingCaches" where
  "BatchUpdateRoutes body w =
    (case ShouldBindJSON (dec_struct batch_items) body [] of
       None \<Rightarrow> Inl (ErrOther ''invalid parameters'')
     | Some items \<Rightarrow> if items = [] then Inl ErrNoPatches else BatchUpdateModelRoutes items w)"

definition overview_request ::
  "gotime \<Rightarrow> (gostring, gostring) gomap \<Rightarrow> gostring \<Rightarrow> gostring \<Rightarrow> gostring \<Rightarrow> db \<Rightarrow> routingCaches
   \<Rightarrow> ModelRouteOverviewItem list \<times> routingCaches" where
  \<comment> \<open>the handler \<open>GetModelRouteOverview\<close> for the query values of \<open>model\<close>, \<open>provider_id\<close> and \<open>enabled_only\<close>\<close>
  "overview_request now options modelName providerId enabledOnly d caches =
    (let raw = TrimSpace enabledOnly in
     GetModelRouteOverview now options (TrimSpace modelName) (AtoiValue providerId)
       (raw = ''1'' \<or> EqualFold raw ''true'') d caches)"

subsection \<open>The shares of the overview\<close>

lemma left_join_single: "distinct (map f t) \<Longrightarrow> left_join (\<lambda>a. f a = k) t = [hd (left_join (\<lambda>a. f a = k) t)]"
proof (induction t)
  case (Cons a t)
  show ?case
  proof (cases "f a = k")
    case True
    have "f x \<noteq> f a" if "x \<in> set t" for x using Cons.prems imageI [OF that, of f] by auto
    then have "filter (\<lambda>a. f a = k) t = []" using True by (simp add: filter_empty_conv)
    with True show ?thesis by (simp add: left_join_def)
  next
    case False
    with Cons show ?thesis by (simp add: left_join_def)
  qed
qed (simp add: left_join_def)

definition unique_rows :: "db \<Rightarrow> bool" where
  "unique_rows d \<longleftrightarrow> distinct (map p_Id (db_providers d)) \<and> distinct (map pt_Id (db_tokens d)) \<and> distinct (map mr_Id (db_routes d))
     \<and> distinct (map (\<lambda>m. (mp_ProviderId m, mp_ModelName m)) (db_pricings d))"

lemma overview_rows_routes:
  assumes "unique_rows d"
  shows "mset (map fst (overview_rows modelName providerId enabledOnly d)) =
    mset (filter (overview_where modelName providerId enabledOnly) (db_routes d))"
proof -
  define P where "P (r :: ModelRoute) = hd (left_join (\<lambda>p. p_Id p = mr_ProviderId r) (db_providers d))" for r
  define T where "T (r :: ModelRoute) = hd (left_join (\<lambda>t. pt_Id t = mr_ProviderTokenId r) (db_tokens d))" for r
  define M where "M (r :: ModelRoute) = hd (left_join (\<lambda>m. mp_ProviderId m = mr_ProviderId r \<and> mp_ModelName m = mr_ModelName r) (db_pricings d))" for r
  have j: "left_join (\<lambda>p. p_Id p = mr_ProviderId r) (db_providers d) = [P r]"
      "left_join (\<lambda>t. pt_Id t = mr_ProviderTokenId r) (db_tokens d) = [T r]"
      "left_join (\<lambda>m. mp_ProviderId m = mr_ProviderId r \<and> mp_ModelName m = mr_ModelName r) (db_pricings d) = [M r]" for r :: ModelRoute
    using left_join_single [of p_Id "db_providers d" "mr_ProviderId r"] left_join_single [of pt_Id "db_tokens d" "mr_ProviderTokenId r"]
      left_join_single [of "\<lambda>m. (mp_ProviderId m, mp_ModelName m)" "db_pricings d" "(mr_ProviderId r, mr_ModelName r)"] assms
    unfolding unique_rows_def prod.inject P_def T_def M_def by simp_all
  have "concat (map (\<lambda>r. [(r, P r, T r, M r)]) rs) = map (\<lambda>r. (r, P r, T r, M r)) rs" for rs :: "ModelRoute list"
    by (induction rs) simp_all
  then show ?thesis by (simp add: overview_rows_def j multiset.map_comp comp_def del: mset_filter)
qed

lemma overview_item_simps [simp]:
  "oi_Id (overview_item config row) = mr_Id (fst row)"
  "oi_ModelName (overview_item config row) = mr_ModelName (fst row)"
  "oi_Enabled (overview_item config row) = mr_Enabled (fst row)"
  "oi_Priority (overview_item config row) = mr_Priority (fst row)"
  "oi_Weight (overview_item config row) = mr_Weight (fst row)"
  by (auto simp: overview_item_def with_prices_def Let_def split: prod.splits)

lemma scored_item_simps [simp]:
  "oi_Id (scored_item now u h s config i) = oi_Id i"
  "oi_ModelName (scored_item now u h s config i) = oi_ModelName i"
  "oi_Enabled (scored_item now u h s config i) = oi_Enabled i"
  "oi_Priority (scored_item now u h s config i) = oi_Priority i"
  "oi_Weight (scored_item now u h s config i) = oi_Weight i"
  by (simp_all add: scored_item_def with_health_def Let_def)

lemma with_share_simps [simp]:
  "overview_key (with_share a b i) = overview_key i" "oi_Id (with_share a b i) = oi_Id i" 
  by (simp_all add: with_share_def overview_key_def Let_def)

lemma computeRouteContribution_nonneg: "0 \<le> computeRouteContribution w v m bf vf"
  by (auto simp: computeRouteContribution_def Let_def split: if_splits)

lemma shown_contribution_nonneg: "0 \<le> shown_contribution g i"
  by (simp add: shown_contribution_def Let_def computeRouteContribution_nonneg)

lemma share_fold:
  "mget_default 0 (snd (fold (share_step g) items acc)) k =
    mget_default 0 (snd acc) k + sum_list (map (shown_contribution g) (filter (\<lambda>i. has_share i \<and> overview_key i = k) items))"
  by (induction items arbitrary: acc) (auto simp: share_step_def Let_def)

lemma contribution_fold_other:
  "n \<notin> oi_Id ` set items \<Longrightarrow> mget_default 0 (fst (fold (share_step g) items acc)) n = mget_default 0 (fst acc) n"
  by (induction items arbitrary: acc) (auto simp: share_step_def Let_def)

lemma contribution_fold:
  "distinct (map oi_Id items) \<Longrightarrow> i \<in> set items \<Longrightarrow> has_share i
   \<Longrightarrow> mget_default 0 (fst (fold (share_step g) items acc)) (oi_Id i) = shown_contribution g i"
proof (induction items arbitrary: acc)
  case (Cons a items)
  show ?case
  proof (cases "i = a")
    case True
    then have "oi_Id i \<notin> oi_Id ` set items" using Cons.prems by auto
    moreover have "fst (share_step g a acc) = mput (oi_Id a) (shown_contribution g a) (fst acc)"
      using True Cons.prems(3) by (simp add: share_step_def Let_def)
    ultimately show ?thesis using True by (simp add: contribution_fold_other)
  next
    case False
    then show ?thesis using Cons by simp
  qed
qed simp

definition shown_share :: "ModelRouteOverviewItem \<Rightarrow> real" where
  "shown_share i = coalesce 0 id (oi_EffectiveSharePercent i)"

lemma share_items_total:
  fixes g items k
  assumes "distinct (map oi_Id items)"
  defines "T \<equiv> sum_list (map (shown_contribution g) (filter (\<lambda>i. has_share i \<and> overview_key i = k) items))"
  shows "sum_list (map shown_share (filter (\<lambda>i. overview_key i = k) (share_items g items))) = (if T > 0 then 100 else 0)"
proof -
  let ?acc = "fold (share_step g) items ([], [])"
  have T: "mget_default 0 (snd ?acc) k = T" by (simp add: share_fold T_def)
  have s: "shown_share (with_share (fst ?acc) (snd ?acc) i) =
      (if has_share i \<and> T > 0 then shown_contribution g i / T * 100 else 0)" if "i \<in> set items" "overview_key i = k" for i
    using contribution_fold [OF assms(1) that(1), of g] that(2) T shown_contribution_nonneg [of g i]
    by (auto simp: shown_share_def with_share_def Let_def coalesce_def)
  have "sum_list (map (shown_share \<circ> with_share (fst ?acc) (snd ?acc)) (filter (\<lambda>i. overview_key i = k) items))
      = sum_list (map (\<lambda>i. if has_share i \<and> T > 0 then shown_contribution g i / T * 100 else 0) (filter (\<lambda>i. overview_key i = k) items))"
    using s by (intro arg_cong [where f = sum_list] map_cong) auto
  also have "\<dots> = (if T > 0 then 100 else 0)"
  proof (cases "T > 0")
    case True
    have "sum_list (map (\<lambda>i. if has_share i then shown_contribution g i / T * 100 else 0) (filter (\<lambda>i. overview_key i = k) xs))
      = sum_list (map (shown_contribution g) (filter (\<lambda>i. has_share i \<and> overview_key i = k) xs)) / T * 100" for xs
      by (induction xs) (auto simp: add_divide_distrib ring_distribs)
    with True show ?thesis by (simp add: T_def)
  qed simp
  finally show ?thesis by (simp add: share_items_def Let_def filter_map comp_def)
qed

lemma shown_share_bounds:
  assumes "distinct (map oi_Id items)" and "i \<in> set (share_items g items)"
  shows "0 \<le> shown_share i \<and> (oi_EffectiveSharePercent i \<noteq> None \<longleftrightarrow> 0 < shown_share i)
    \<and> (oi_EffectiveSharePercent i \<noteq> None \<longrightarrow> has_share i)"
  using assms(2)
  by (auto simp: share_items_def Let_def shown_share_def coalesce_def with_share_def has_share_def split: if_splits)

lemma share_items_bounds:
  assumes "distinct (map oi_Id items)" and "i \<in> set (share_items g items)"
  shows "shown_share i \<le> 100"
proof -
  let ?xs = "filter (\<lambda>j. overview_key j = overview_key i) (share_items g items)"
  have "shown_share i \<le> sum_list (map shown_share ?xs)"
    using assms(2) shown_share_bounds [OF assms(1)] by (intro member_le_sum_list) auto
  also have "\<dots> \<le> 100" using share_items_total [OF assms(1), of "overview_key i" g] by (simp split: if_splits)
  finally show ?thesis .
qed

lemma share_items_sum:
  assumes "distinct (map oi_Id items)"
  shows "sum_list (map shown_share (filter (\<lambda>i. overview_key i = k) (share_items g items))) =
    (if list_ex (\<lambda>i. overview_key i = k \<and> oi_EffectiveSharePercent i \<noteq> None) (share_items g items) then 100 else 0)"
proof -
  let ?xs = "filter (\<lambda>i. overview_key i = k) (share_items g items)"
  have nn: "0 \<le> shown_share i" "oi_EffectiveSharePercent i \<noteq> None \<longleftrightarrow> 0 < shown_share i" if "i \<in> set (share_items g items)" for i
    using shown_share_bounds [OF assms that] by auto
  have "sum_list (map shown_share ?xs) = 0 \<longleftrightarrow> (\<forall>i \<in> set ?xs. shown_share i = 0)"
    using nn by (subst sum_list_nonneg_eq_0_iff) auto
  also have "\<dots> \<longleftrightarrow> \<not> list_ex (\<lambda>i. overview_key i = k \<and> oi_EffectiveSharePercent i \<noteq> None) (share_items g items)"
    using nn by (force simp: list_ex_iff)
  finally show ?thesis using share_items_total [OF assms, of k g] by (simp split: if_splits)
qed

text \<open>
  The route overview lists each route the filters select once, and the shares it shows for the routes of one
  model and priority are positive, belong to enabled routes that are not suppressed, and add up to 100 percent as
  soon as one of them has a share.
\<close>

theorem overview_shares_total:
  assumes "unique_rows d"
    and "GetModelRouteOverview now options modelName providerId enabledOnly d caches = (items, caches')"
  shows "mset (map oi_Id items) = mset (map mr_Id (filter (overview_where modelName providerId enabledOnly) (db_routes d)))
    \<and> sum_list (map shown_share (filter (\<lambda>i. overview_key i = k) items)) =
        (if list_ex (\<lambda>i. overview_key i = k \<and> oi_EffectiveSharePercent i \<noteq> None) items then 100 else 0)
    \<and> list_all (\<lambda>i. case oi_EffectiveSharePercent i of None \<Rightarrow> True | Some s \<Rightarrow> 0 < s \<and> s \<le> 100 \<and> has_share i) items"
proof -
  obtain g f where i: "items = share_items g (map f (overview_rows modelName providerId enabledOnly d))"
    and f: "\<And>row. oi_Id (f row) = mr_Id (fst row)"
    using assms(2) by (auto simp: GetModelRouteOverview_def Let_def comp_def split: prod.splits)
  let ?rows = "overview_rows modelName providerId enabledOnly d"
  have m: "mset (map oi_Id (map f ?rows)) = mset (map mr_Id (filter (overview_where modelName providerId enabledOnly) (db_routes d)))"
  proof -
    have "mset (map oi_Id (map f ?rows)) = image_mset mr_Id (mset (map fst ?rows))" by (simp add: f multiset.map_comp comp_def)
    then show ?thesis unfolding overview_rows_routes [OF assms(1)] by simp
  qed
  have dist: "distinct (map oi_Id (map f ?rows))"
    using mset_eq_imp_distinct_iff [OF m] assms(1) by (simp add: unique_rows_def distinct_map inj_on_def)
  have "map oi_Id items = map oi_Id (map f ?rows)" by (simp add: i share_items_def Let_def)
  then have "mset (map oi_Id items) = mset (map mr_Id (filter (overview_where modelName providerId enabledOnly) (db_routes d)))"
    using m by simp
  moreover note share_items_sum [OF dist, of k g, folded i]
  moreover have "case oi_EffectiveSharePercent x of None \<Rightarrow> True | Some s \<Rightarrow> 0 < s \<and> s \<le> 100 \<and> has_share x" if "x \<in> set items" for x
    using that shown_share_bounds [OF dist, of x g] share_items_bounds [OF dist, of x g]
    by (cases "oi_EffectiveSharePercent x") (simp_all add: i shown_share_def coalesce_def)
  ultimately show ?thesis by (simp add: list_all_iff)
qed

theorem overview_shares_total_witness:
  "map oi_Id (fst (GetModelRouteOverview (UnixTime 1720000000) [] ''m'' 7 True small_db no_caches)) = [1]"
proof -
  obtain items c where e: "GetModelRouteOverview (UnixTime 1720000000) [] ''m'' 7 True small_db no_caches = (items, c)" by fastforce
  have "unique_rows small_db" by code_simp
  moreover have "map mr_Id (filter (overview_where ''m'' 7 True) (db_routes small_db)) = [1]" by code_simp
  ultimately have "mset (map oi_Id items) = {#1#}" using overview_shares_total [OF _ e] by simp
  then show ?thesis using e by (cases "map oi_Id items") auto
qed

subsection \<open>Batches\<close>

definition route_defaults :: "ModelRoute \<Rightarrow> ModelRoute" where
  \<comment> \<open>the column defaults of the struct tags, which replace a zero field on \<open>Create\<close>\<close>
  "route_defaults r = r\<lparr>mr_Enabled := True, mr_Weight := (if mr_Weight r = 0 then 10 else mr_Weight r)\<rparr>"

definition route_create_law :: "(ModelRoute list \<Rightarrow> ModelRoute list \<Rightarrow> ModelRoute list option) \<Rightarrow> bool" where
  \<comment> \<open>GORM inserts the rows of the batch with their defaults, in order and under fresh identifiers\<close>
  "route_create_law create \<longleftrightarrow>
    (\<forall>t b t'. create t b = Some t' \<longrightarrow>
      (\<exists>ids. length ids = length b \<and> distinct ids \<and> set ids \<inter> mr_Id ` set t = {}
         \<and> t' = t @ map2 (\<lambda>i r. (route_defaults r)\<lparr>mr_Id := i\<rparr>) ids b))"

lemma create_batches_rows:
  assumes "route_create_law create"
  shows "create_batches create n rs t = Some t' \<Longrightarrow>
    \<exists>ids. length ids = length rs \<and> distinct ids \<and> set ids \<inter> mr_Id ` set t = {}
      \<and> t' = t @ map2 (\<lambda>i r. (route_defaults r)\<lparr>mr_Id := i\<rparr>) ids rs"
proof (induction n arbitrary: rs t)
  case 0
  then show ?case by (auto split: if_splits intro: exI [of _ "[]"])
next
  case (Suc n)
  show ?case
  proof (cases "rs = []")
    case True
    with Suc.prems show ?thesis by (auto intro: exI [of _ "[]"])
  next
    case False
    with Suc.prems obtain u where u: "create t (take 50 rs) = Some u" "create_batches create n (drop 50 rs) u = Some t'"
      by (auto split: option.splits)
    let ?new = "map2 (\<lambda>i r. (route_defaults r)\<lparr>mr_Id := i\<rparr>)"
    obtain xs where xs: "length xs = length (take 50 rs)" "distinct xs" "set xs \<inter> mr_Id ` set t = {}" "u = t @ ?new xs (take 50 rs)"
      using assms u(1) unfolding route_create_law_def by blast
    obtain ys where ys: "length ys = length (drop 50 rs)" "distinct ys" "set ys \<inter> mr_Id ` set u = {}" "t' = u @ ?new ys (drop 50 rs)"
      using Suc.IH [OF u(2)] by blast
    have "map mr_Id (?new is qs) = is" if "length is = length qs" for "is" qs using that by (induction "is" qs rule: list_induct2) simp_all
    then have "mr_Id ` set (?new xs (take 50 rs)) = set xs" using xs(1) by (metis list.set_map)
    then have "set ys \<inter> set xs = {}" "set ys \<inter> mr_Id ` set t = {}" using ys(3) xs(4) by auto
    moreover have "?new (xs @ ys) rs = ?new xs (take 50 rs) @ ?new ys (drop 50 rs)"
      using zip_append [OF xs(1), of ys "drop 50 rs"] by simp
    ultimately show ?thesis using xs ys by (intro exI [of _ "xs @ ys"]) auto
  qed
qed

text \<open>With enough rounds the loop over the batches only fails when an insertion fails.\<close>

lemma create_batches_total:
  "(\<And>t b. create t b \<noteq> None) \<Longrightarrow> length rs \<le> n \<Longrightarrow> create_batches create n rs t \<noteq> None"
proof (induction n arbitrary: rs t)
  case (Suc n)
  obtain u where u: "create t (take 50 rs) = Some u" using Suc.prems(1) by blast
  have "create_batches create n (drop 50 rs) u \<noteq> None" using Suc.prems by (intro Suc.IH) auto
  then show ?case by (simp add: u)
qed simp

text \<open>A failed rebuild leaves everything as it was, and no rebuild touches the routes of another provider.\<close>

lemma RebuildRoutesForProvider_error:
  "fst (RebuildRoutesForProvider create i rs w) \<noteq> None \<Longrightarrow> snd (RebuildRoutesForProvider create i rs w) = w"
  by (auto simp: RebuildRoutesForProvider_def Let_def split: option.splits)

lemma RebuildRoutesForProvider_rows:
  assumes "route_create_law create" and "RebuildRoutesForProvider create i rs w = (None, d', c')"
  obtains ids where "length ids = length rs" "distinct ids" "set ids \<inter> mr_Id ` {r \<in> set (db_routes (fst w)). mr_ProviderId r \<noteq> i} = {}"
    "db_routes d' = filter (\<lambda>r. mr_ProviderId r \<noteq> i) (db_routes (fst w))
      @ map2 (\<lambda>n r. (route_defaults (keep_settings (existing_routes i (fst w)) r))\<lparr>mr_Id := n\<rparr>) ids rs"
    "d' = (fst w)\<lparr>db_routes := db_routes d'\<rparr>" "c' = invalidateModelRouteCaches (snd w)"
proof -
  obtain t where t: "create_batches create (length (map (keep_settings (existing_routes i (fst w))) rs)) (map (keep_settings (existing_routes i (fst w))) rs)
      (filter (\<lambda>r. mr_ProviderId r \<noteq> i) (db_routes (fst w))) = Some t" "d' = (fst w)\<lparr>db_routes := t\<rparr>" "c' = invalidateModelRouteCaches (snd w)"
    using assms(2) by (auto simp: RebuildRoutesForProvider_def Let_def row_delete_def split: option.splits)
  have "map2 f xs (map g ys) = map2 (\<lambda>x y. f x (g y)) xs ys" for f :: "int \<Rightarrow> ModelRoute \<Rightarrow> ModelRoute" and g :: "ModelRoute \<Rightarrow> ModelRoute" and xs ys
    by (simp add: zip_map2 split_beta comp_def)
  with create_batches_rows [OF assms(1) t(1)] t(2,3) show thesis by (auto intro: that)
qed

text \<open>The column default of \<open>enabled\<close> undoes the setting the code keeps: a disabled route comes back enabled.\<close>

lemma rebuild_enables_disabled_routes:
  assumes "route_create_law create" and "RebuildRoutesForProvider create i rs w = (None, d', c')"
    and "r \<in> set (db_routes d')" and "mr_ProviderId r = i"
  shows "mr_Enabled r"
proof -
  obtain ids where "db_routes d' = filter (\<lambda>r. mr_ProviderId r \<noteq> i) (db_routes (fst w))
      @ map2 (\<lambda>n r. (route_defaults (keep_settings (existing_routes i (fst w)) r))\<lparr>mr_Id := n\<rparr>) ids rs"
    using assms(1,2) by (rule RebuildRoutesForProvider_rows)
  then obtain n x where "r = (route_defaults x)\<lparr>mr_Id := n\<rparr>" using assms(3,4) by auto
  then show ?thesis by (simp add: route_defaults_def)
qed

end
