(* ===== verification/Sync.thy ===== *)
theory Sync
  imports UpstreamClient RouteAdmin
begin

text \<open>
  Synchronising a provider with its upstream, \<open>src/service/sync.go\<close>: prices, tokens with the recovery of their plaintext
  keys, balance, health, and the routes built from tokens and prices. The state is the world of \<open>Proxy\<close> and the
  state of the upstream. Log lines and notifications are left out; the clock is read once. The printing of a
  \<open>float64\<close>, what GORM stores for a new row and what it changes for an old one are arguments. The loop that reads the
  pages of the token list may not end, so it is an option value, and \<open>None\<close> is the run that does not return.
\<close>

record sync_env =
  sy_env :: proxy_env
  sy_pricing_merge :: "ModelPricing \<Rightarrow> ModelPricing \<Rightarrow> ModelPricing"
  sy_token_defaults :: "ProviderToken \<Rightarrow> ProviderToken"
  sy_route_create :: "ModelRoute list \<Rightarrow> ModelRoute list \<Rightarrow> ModelRoute list option"
  sy_print_float :: "real \<Rightarrow> gostring"
  sy_format_usd :: "real \<Rightarrow> gostring"

abbreviation sy_now :: "sync_env \<Rightarrow> gotime" where
  "sy_now env \<equiv> pe_now (sy_env env)"

definition on_tables :: "(db \<times> routingCaches \<Rightarrow> db \<times> routingCaches) \<Rightarrow> world \<Rightarrow> world" where
  "on_tables f w = w\<lparr>w_db := fst (f (w_db w, w_caches w)), w_caches := snd (f (w_db w, w_caches w))\<rparr>"

definition write_through :: "(db \<Rightarrow> db) \<Rightarrow> db \<times> routingCaches \<Rightarrow> db \<times> routingCaches" where
  \<comment> \<open>a write of the model package, which ends with \<open>invalidateModelRouteCaches\<close>\<close>
  "write_through f = (\<lambda>(d, c). (f d, invalidateModelRouteCaches c))"

record ProviderTokenReconcileResult =
  rr_UpstreamToken :: UpstreamToken
  rr_ProviderToken :: ProviderToken
  rr_ExistingLocalKeyPreserved :: bool
  rr_RecoveredFrom :: gostring

record ProviderTokenSyncSummary =
  sm_ResultsByUpstreamID :: "(int, ProviderTokenReconcileResult) gomap"
  sm_Total :: int
  sm_ReadyCount :: int
  sm_UnresolvedCount :: int

record ProviderTokenCreateOutcome =
  co_UpstreamCreated :: bool
  co_CreatedTokenIdentified :: bool
  co_ProviderTokenId :: int
  co_UpstreamTokenId :: int
  co_KeyStatus :: gostring
  co_KeyUnresolvedReason :: gostring

subsection \<open>Prices and balance\<close>

definition print_list :: "('a \<Rightarrow> gostring) \<Rightarrow> 'a list option \<Rightarrow> gostring" where
  \<comment> \<open>\<open>json.Marshal\<close> of a slice; the nil slice is \<open>null\<close>\<close>
  "print_list f xs = (case xs of None \<Rightarrow> ''null'' | Some xs \<Rightarrow> ''['' @ Join (map f xs) '','' @ '']'')"

definition print_map :: "('a \<Rightarrow> gostring) \<Rightarrow> 'a \<Rightarrow> (gostring, 'a) gomap \<Rightarrow> gostring" where
  "print_map f z m = ''{'' @ Join (map (\<lambda>k. print_string k @ '':'' @ f (mget_default z m k)) (sort (map fst m))) '','' @ ''}''"

definition print_endpoint :: "UpstreamEndpointInfo \<Rightarrow> gostring" where
  "print_endpoint e =
    ''{'' @ print_string ''path'' @ '':'' @ print_string (ue_Path e) @ '','' @ print_string ''method'' @ '':'' @ print_string (ue_Method e) @ ''}''"

definition pricing_row :: "gotime \<Rightarrow> Provider \<Rightarrow> UpstreamPricing \<Rightarrow> ModelPricing" where
  "pricing_row now provider p =
    \<lparr>mp_Id = 0, mp_ModelName = up_ModelName p, mp_ProviderId = p_Id provider, mp_QuotaType = up_QuotaType p,
     mp_ModelRatio = up_ModelRatio p, mp_CompletionRatio = up_CompletionRatio p, mp_ModelPrice = up_ModelPrice p,
     mp_EnableGroups = print_list print_string (up_EnableGroups p),
     mp_SupportedEndpointTypes = print_list print_string (up_SupportedEndpointTypes p), mp_LastSynced = Unix now\<rparr>"

definition store_pricing :: "sync_env \<Rightarrow> Provider \<Rightarrow> UpstreamPricingPayload \<Rightarrow> db \<times> routingCaches \<Rightarrow> db \<times> routingCaches" where
  "store_pricing env provider payload w =
    (let w = fold (\<lambda>p. UpsertModelPricing (sy_pricing_merge env) (sy_now env) (pricing_row (sy_now env) provider p)) (pp_Data payload) w;
         w = write_through (UpdatePricingGroupRatio (print_map (sy_print_float env) 0 (pp_GroupRatio payload)) provider) w;
         w = write_through (UpdatePricingUsableGroup (print_map print_string [] (pp_UsableGroup payload)) provider) w
     in write_through (UpdatePricingSupportedEndpoint
          (print_map print_endpoint \<lparr>ue_Path = [], ue_Method = []\<rparr> (pp_SupportedEndpoint payload)) provider) w)"

definition syncPricing :: "sync_env \<Rightarrow> 'u upstream \<Rightarrow> UpstreamClient \<Rightarrow> Provider \<Rightarrow> world \<times> 'u \<Rightarrow> up_error option \<times> world \<times> 'u" where
  "syncPricing env net client provider s =
    (case GetPricing (sy_env env) net client (snd s) of
       (Inl e, u) \<Rightarrow> (Some e, fst s, u)
     | (Inr payload, u) \<Rightarrow> (None, on_tables (store_pricing env provider payload) (fst s), u))"

definition syncBalance :: "sync_env \<Rightarrow> 'u upstream \<Rightarrow> UpstreamClient \<Rightarrow> Provider \<Rightarrow> world \<times> 'u \<Rightarrow> up_error option \<times> world \<times> 'u" where
  "syncBalance env net client provider s =
    (case GetUserSelf (sy_env env) net client (snd s) of
       (Inl e, u) \<Rightarrow> (Some e, fst s, u)
     | (Inr self, u) \<Rightarrow>
         (None, on_tables (write_through (UpdateBalance (sy_now env) (sy_format_usd env (real_of_int (us_Balance self) / 500000)) provider)) (fst s), u))"

subsection \<open>Reading the token list\<close>

definition add_token :: "UpstreamToken \<Rightarrow> UpstreamToken list \<Rightarrow> UpstreamToken list" where
  \<comment> \<open>\<open>seenTokenIDs\<close> holds the identifiers of the tokens kept\<close>
  "add_token t allTokens = (if ut_Id t \<in> ut_Id ` set allTokens then allTokens else allTokens @ [t])"

definition last_page :: "UpstreamTokenPage \<Rightarrow> UpstreamToken list \<Rightarrow> bool" where
  \<comment> \<open>the conditions that end the loop, \<open>allTokens\<close> being the list after the page\<close>
  "last_page tokenPage allTokens =
    (let tokens = tp_Items tokenPage in
     if tokens = [] then True
     else if tp_Total tokenPage > 0 then int (length allTokens) \<ge> tp_Total tokenPage
     else int (length tokens) < tp_PageSize tokenPage)"

partial_function (option) fetch_pages ::
  "proxy_env \<Rightarrow> 'u upstream \<Rightarrow> UpstreamClient \<Rightarrow> int \<Rightarrow> UpstreamToken list \<Rightarrow> 'u \<Rightarrow> ((up_error + UpstreamToken list) \<times> 'u) option"
where
  "fetch_pages env net client page allTokens u =
    (case GetTokens env net client page 100 u of
       (Inl e, u) \<Rightarrow> Some (Inl e, u)
     | (Inr tokenPage, u) \<Rightarrow>
         (let allTokens = fold add_token (tp_Items tokenPage) allTokens in
          if last_page tokenPage allTokens then Some (Inr allTokens, u)
          else fetch_pages env net client (wrap64 (page + 1)) allTokens u))"

definition fetchAllUpstreamTokens ::
  "proxy_env \<Rightarrow> 'u upstream \<Rightarrow> UpstreamClient \<Rightarrow> 'u \<Rightarrow> ((up_error + UpstreamToken list) \<times> 'u) option" where
  "fetchAllUpstreamTokens env net client u = fetch_pages env net client 0 [] u"

subsection \<open>Reconciling tokens\<close>

definition buildProviderTokenSnapshot :: "gotime \<Rightarrow> Provider \<Rightarrow> UpstreamToken \<Rightarrow> ProviderToken" where
  "buildProviderTokenSnapshot now provider t =
    \<lparr>pt_Id = 0, pt_ProviderId = p_Id provider, pt_UpstreamTokenId = ut_Id t, pt_SkKey = [], pt_KeyStatus = [], pt_KeyUnresolvedReason = [],
     pt_Name = ut_Name t, pt_GroupName = ut_Group t, pt_Status = ut_Status t, pt_Priority = p_Priority provider,
     pt_Weight = p_Weight provider, pt_RemainQuota = ut_RemainQuota t, pt_UnlimitedQuota = ut_UnlimitedQuota t,
     pt_UsedQuota = ut_UsedQuota t, pt_ModelLimits = ut_ModelLimits t, pt_LastSynced = Unix now, pt_CreatedAt = 0\<rparr>"

definition unresolvedReasonForExisting :: "ProviderToken option \<Rightarrow> gostring" where
  "unresolvedReasonForExisting existing =
    (case existing of
       None \<Rightarrow> ''plaintext_not_recovered''
     | Some e \<Rightarrow>
         if TrimSpace (pt_KeyUnresolvedReason e) \<noteq> [] then pt_KeyUnresolvedReason e
         else if ClassifyProviderTokenKeyMaterial (pt_SkKey e) = KeyMasked then ''legacy_contaminated''
         else ''plaintext_not_recovered'')"

fun unresolvedReasonForPlaintextKeyFetchError :: "up_error \<Rightarrow> gostring" where
  "unresolvedReasonForPlaintextKeyFetchError (UpstreamTokenPlaintextKeyError kind code msg) =
    (case kind of
       KeyUnauthorized \<Rightarrow> ''key_endpoint_unauthorized''
     | KeyUnavailable \<Rightarrow> ''key_endpoint_unavailable''
     | KeyRequestFailed \<Rightarrow> ''key_endpoint_request_failed''
     | KeyNoKey \<Rightarrow> ''plaintext_not_recovered'')"
| "unresolvedReasonForPlaintextKeyFetchError e = ''plaintext_not_recovered''"

definition preserve_or_give_up :: "ProviderToken option \<Rightarrow> gostring \<Rightarrow> UpstreamToken \<Rightarrow> ProviderToken \<Rightarrow> ProviderTokenReconcileResult" where
  \<comment> \<open>what remains when neither the list nor the key endpoint nor the detail gave a usable key\<close>
  "preserve_or_give_up existing reason t localToken =
    (case PreserveReadyKeyFrom existing localToken of
       (True, pt) \<Rightarrow> \<lparr>rr_UpstreamToken = t, rr_ProviderToken = pt, rr_ExistingLocalKeyPreserved = True, rr_RecoveredFrom = ''local_preserved''\<rparr>
     | (False, _) \<Rightarrow>
         (let reason = (if reason = ''plaintext_not_recovered'' then unresolvedReasonForExisting existing else reason)
          in \<lparr>rr_UpstreamToken = t, rr_ProviderToken = MarkKeyUnresolved reason localToken,
              rr_ExistingLocalKeyPreserved = False, rr_RecoveredFrom = ''unresolved''\<rparr>))"

definition recovered :: "gostring \<Rightarrow> gostring \<Rightarrow> UpstreamToken \<Rightarrow> ProviderToken \<Rightarrow> ProviderTokenReconcileResult" where
  "recovered source key t localToken =
    \<lparr>rr_UpstreamToken = t, rr_ProviderToken = MarkKeyReady key localToken, rr_ExistingLocalKeyPreserved = False, rr_RecoveredFrom = source\<rparr>"

definition reconcileProviderToken ::
  "sync_env \<Rightarrow> 'u upstream \<Rightarrow> UpstreamClient \<Rightarrow> Provider \<Rightarrow> UpstreamToken \<Rightarrow> world \<times> 'u \<Rightarrow> ProviderTokenReconcileResult \<times> 'u" where
  "reconcileProviderToken env net client provider t s =
    (let existing = GetProviderTokenByUpstream (p_Id provider) (ut_Id t) (w_db (fst s));
         localToken = buildProviderTokenSnapshot (sy_now env) provider t
     in if IsUsableProviderTokenKey (ut_Key t) then (recovered ''list'' (ut_Key t) t localToken, snd s)
        else
          let (key, u) = GetTokenPlaintextKey (sy_env env) net client (ut_Id t) (snd s) in
          case (case key of Inr k \<Rightarrow> if IsUsableProviderTokenKey k then Some k else None | Inl e \<Rightarrow> None) of
            Some k \<Rightarrow> (recovered ''key_endpoint'' k t localToken, u)
          | None \<Rightarrow>
              let unresolvedReason = (case key of Inl e \<Rightarrow> unresolvedReasonForPlaintextKeyFetchError e | Inr k \<Rightarrow> ''plaintext_not_recovered'');
                  (detail, u) = GetTokenDetail (sy_env env) net client (ut_Id t) u
              in case (case detail of Inr dt \<Rightarrow> if IsUsableProviderTokenKey (ut_Key dt) then Some (ut_Key dt) else None | Inl e \<Rightarrow> None) of
                   Some k \<Rightarrow> (recovered ''detail'' k t localToken, u)
                 | None \<Rightarrow> (preserve_or_give_up existing unresolvedReason t localToken, u))"

definition empty_sync_summary :: ProviderTokenSyncSummary where
  "empty_sync_summary = \<lparr>sm_ResultsByUpstreamID = [], sm_Total = 0, sm_ReadyCount = 0, sm_UnresolvedCount = 0\<rparr>"

definition stored_token :: "db \<Rightarrow> ProviderToken \<Rightarrow> ProviderToken" where
  \<comment> \<open>the struct after \<open>UpsertProviderToken\<close>, which sets the identifier and the creation time of the row\<close>
  "stored_token d pt =
    (case GetProviderTokenByUpstream (pt_ProviderId pt) (pt_UpstreamTokenId pt) d of
       Some row \<Rightarrow> pt\<lparr>pt_Id := pt_Id row, pt_CreatedAt := pt_CreatedAt row\<rparr>
     | None \<Rightarrow> pt)"

definition count_result :: "ProviderTokenReconcileResult \<Rightarrow> ProviderTokenSyncSummary \<Rightarrow> ProviderTokenSyncSummary" where
  "count_result r sm =
    (let sm = sm\<lparr>sm_ResultsByUpstreamID := mput (ut_Id (rr_UpstreamToken r)) r (sm_ResultsByUpstreamID sm), sm_Total := sm_Total sm + 1\<rparr>
     in if IsKeyReady (rr_ProviderToken r) then sm\<lparr>sm_ReadyCount := sm_ReadyCount sm + 1\<rparr>
        else sm\<lparr>sm_UnresolvedCount := sm_UnresolvedCount sm + 1\<rparr>)"

definition reconcile_step ::
  "sync_env \<Rightarrow> 'u upstream \<Rightarrow> UpstreamClient \<Rightarrow> Provider \<Rightarrow> UpstreamToken
   \<Rightarrow> ProviderTokenSyncSummary \<times> world \<times> 'u \<Rightarrow> ProviderTokenSyncSummary \<times> world \<times> 'u" where
  \<comment> \<open>one round of the loop of \<open>reconcileProviderTokens\<close>\<close>
  "reconcile_step env net client provider t acc =
    (case acc of (sm, s) \<Rightarrow>
      (let (r, u) = reconcileProviderToken env net client provider t s;
           w = on_tables (write_through (UpsertProviderToken (sy_token_defaults env) (sy_now env) (rr_ProviderToken r))) (fst s);
           r = r\<lparr>rr_ProviderToken := stored_token (w_db w) (rr_ProviderToken r)\<rparr>
       in (count_result r sm, w, u)))"

definition reconcileProviderTokens ::
  "sync_env \<Rightarrow> 'u upstream \<Rightarrow> UpstreamClient \<Rightarrow> Provider \<Rightarrow> UpstreamToken list \<Rightarrow> world \<times> 'u
   \<Rightarrow> ProviderTokenSyncSummary \<times> world \<times> 'u" where
  "reconcileProviderTokens env net client provider allTokens s =
    (case fold (reconcile_step env net client provider) allTokens (empty_sync_summary, s) of
       (sm, w, u) \<Rightarrow> (sm, on_tables (write_through (DeleteProviderTokensNotInIds (p_Id provider) (map ut_Id allTokens))) w, u))"

definition syncTokens ::
  "sync_env \<Rightarrow> 'u upstream \<Rightarrow> UpstreamClient \<Rightarrow> Provider \<Rightarrow> world \<times> 'u \<Rightarrow> (up_error option \<times> world \<times> 'u) option" where
  "syncTokens env net client provider s =
    (case fetchAllUpstreamTokens (sy_env env) net client (snd s) of
       None \<Rightarrow> None
     | Some (Inl e, u) \<Rightarrow> Some (Some e, fst s, u)
     | Some (Inr allTokens, u) \<Rightarrow> Some (None, snd (reconcileProviderTokens env net client provider allTokens (fst s, u))))"

subsection \<open>Routes\<close>

definition pricing_groups :: "ModelPricing \<Rightarrow> gostring list" where
  \<comment> \<open>a list that cannot be read is skipped\<close>
  "pricing_groups p = (case json_unmarshal (dec_list dec_string []) (mp_EnableGroups p) [] of Some groups \<Rightarrow> groups | None \<Rightarrow> [])"

definition group_models :: "ModelPricing list \<Rightarrow> (gostring, gostring list) gomap" where
  "group_models pricing = fold (\<lambda>p m. fold (\<lambda>g. mappend g (mp_ModelName p)) (pricing_groups p) m) pricing []"

definition allowed_models :: "ProviderToken \<Rightarrow> gostring list option" where
  "allowed_models token = (if pt_ModelLimits token \<noteq> [] then Some (map TrimSpace (Split1 (CHR '','') (pt_ModelLimits token))) else None)"

definition new_route :: "int \<Rightarrow> ProviderToken \<Rightarrow> gostring \<Rightarrow> ModelRoute" where
  "new_route providerId token modelName =
    \<lparr>mr_Id = 0, mr_ModelName = modelName, mr_ProviderTokenId = pt_Id token, mr_ProviderId = providerId, mr_Enabled = True,
     mr_Priority = pt_Priority token, mr_Weight = pt_Weight token\<rparr>"

definition route_step :: "int \<Rightarrow> ProviderToken \<Rightarrow> gostring \<Rightarrow> gostring list \<times> ModelRoute list \<Rightarrow> gostring list \<times> ModelRoute list" where
  "route_step providerId token modelName acc =
    (case acc of (routeSet, routes) \<Rightarrow>
      if (case allowed_models token of Some ms \<Rightarrow> modelName \<notin> set ms | None \<Rightarrow> False) then acc
      else let key = modelName @ ''|'' @ Itoa (pt_Id token) in
        if key \<in> set routeSet then acc else (key # routeSet, routes @ [new_route providerId token modelName]))"

definition provider_routes :: "int \<Rightarrow> ProviderToken list \<Rightarrow> ModelPricing list \<Rightarrow> ModelRoute list" where
  "provider_routes providerId tokens pricing =
    snd (fold (\<lambda>token. fold (route_step providerId token) (mget_default [] (group_models pricing) (pt_GroupName token))) tokens ([], []))"

definition RebuildProviderRoutes :: "sync_env \<Rightarrow> int \<Rightarrow> world \<Rightarrow> gw_error option \<times> world" where
  "RebuildProviderRoutes env providerId w =
    (let d = w_db w;
         routes = provider_routes providerId (GetEnabledProviderTokensByProviderId providerId d) (GetModelPricingByProvider providerId d)
     in case RebuildRoutesForProvider (sy_route_create env) providerId routes (d, w_caches w) of
          (e, d, c) \<Rightarrow> (e, w\<lparr>w_db := d, w_caches := c\<rparr>))"

definition RebuildAllRoutes :: "sync_env \<Rightarrow> world \<Rightarrow> world" where
  \<comment> \<open>an error of one provider is logged\<close>
  "RebuildAllRoutes env w = fold (\<lambda>p w. snd (RebuildProviderRoutes env (p_Id p) w)) (GetEnabledProviders (w_db w)) w"

subsection \<open>Creating a token upstream\<close>

definition SyncProviderTokensOnly ::
  "sync_env \<Rightarrow> 'u upstream \<Rightarrow> Provider \<Rightarrow> world \<times> 'u \<Rightarrow> ((up_error + ProviderTokenSyncSummary) \<times> world \<times> 'u) option" where
  "SyncProviderTokensOnly env net provider s =
    (case NewUpstreamClientForProvider (sy_env env) provider of
       Inl e \<Rightarrow> Some (Inl e, s)
     | Inr client \<Rightarrow>
         (case fetchAllUpstreamTokens (sy_env env) net client (snd s) of
            None \<Rightarrow> None
          | Some (Inl e, u) \<Rightarrow> Some (Inl e, fst s, u)
          | Some (Inr allTokens, u) \<Rightarrow>
              (case reconcileProviderTokens env net client provider allTokens (fst s, u) of
                 (sm, w, u) \<Rightarrow> Some (Inr sm, snd (RebuildProviderRoutes env (p_Id provider) w), u))))"

definition looks_requested :: "gostring \<Rightarrow> gostring \<Rightarrow> bool \<Rightarrow> int \<Rightarrow> gostring \<Rightarrow> UpstreamToken \<Rightarrow> bool" where
  "looks_requested reqName reqGroup reqUnlimitedQuota reqRemainQuota reqModelLimits upstream \<longleftrightarrow>
    \<not> (TrimSpace reqName \<noteq> [] \<and> TrimSpace (ut_Name upstream) \<noteq> TrimSpace reqName)
    \<and> \<not> (TrimSpace reqGroup \<noteq> [] \<and> TrimSpace (ut_Group upstream) \<noteq> TrimSpace reqGroup)
    \<and> ut_UnlimitedQuota upstream = reqUnlimitedQuota
    \<and> \<not> (\<not> reqUnlimitedQuota \<and> ut_RemainQuota upstream \<noteq> reqRemainQuota)
    \<and> TrimSpace (ut_ModelLimits upstream) = TrimSpace reqModelLimits"

definition identifyCreatedUpstreamTokenID ::
  "UpstreamToken list \<Rightarrow> ProviderTokenSyncSummary \<Rightarrow> gostring \<Rightarrow> gostring \<Rightarrow> bool \<Rightarrow> int \<Rightarrow> gostring \<Rightarrow> UpstreamTokenCreateResult \<Rightarrow> int" where
  "identifyCreatedUpstreamTokenID beforeTokens sm reqName reqGroup reqUnlimitedQuota reqRemainQuota reqModelLimits createdResult =
    (let results = sm_ResultsByUpstreamID sm;
         candidates = filter (\<lambda>(i, r). i \<notin> ut_Id ` set beforeTokens) results;
         filtered = filter (\<lambda>(i, r). looks_requested reqName reqGroup reqUnlimitedQuota reqRemainQuota reqModelLimits (rr_UpstreamToken r)) candidates;
         fallback = (case cr_Token createdResult of
             Some t \<Rightarrow> if ut_Id t > 0 \<and> mget results (ut_Id t) \<noteq> None then ut_Id t else 0
           | None \<Rightarrow> 0)
     in case (candidates, filtered) of
          ([c], _) \<Rightarrow> fst c
        | (_, [c]) \<Rightarrow> fst c
        | _ \<Rightarrow> fallback)"

definition create_outcome :: "ProviderTokenSyncSummary \<Rightarrow> int \<Rightarrow> ProviderTokenCreateOutcome" where
  "create_outcome sm identified =
    (let outcome = \<lparr>co_UpstreamCreated = True, co_CreatedTokenIdentified = False, co_ProviderTokenId = 0, co_UpstreamTokenId = 0,
                    co_KeyStatus = [], co_KeyUnresolvedReason = []\<rparr>
     in if identified = 0
        then outcome\<lparr>co_KeyStatus := ''unresolved'', co_KeyUnresolvedReason := ''created_token_not_identified''\<rparr>
        else
          let outcome = outcome\<lparr>co_CreatedTokenIdentified := True, co_UpstreamTokenId := identified\<rparr>;
              outcome = (case mget (sm_ResultsByUpstreamID sm) identified of
                  None \<Rightarrow> outcome
                | Some r \<Rightarrow>
                    let pt = rr_ProviderToken r;
                        outcome = outcome\<lparr>co_ProviderTokenId := pt_Id pt, co_KeyStatus := pt_KeyStatus pt,
                                          co_KeyUnresolvedReason := pt_KeyUnresolvedReason pt\<rparr>
                    in if IsKeyReady pt then outcome\<lparr>co_KeyStatus := ''ready'', co_KeyUnresolvedReason := []\<rparr> else outcome);
              outcome = (if TrimSpace (co_KeyStatus outcome) = [] then outcome\<lparr>co_KeyStatus := ''unresolved''\<rparr> else outcome)
          in if co_KeyStatus outcome = ''unresolved'' \<and> TrimSpace (co_KeyUnresolvedReason outcome) = []
             then outcome\<lparr>co_KeyUnresolvedReason := ''plaintext_not_recovered''\<rparr> else outcome)"

definition CreateProviderTokenWithReconciliation ::
  "sync_env \<Rightarrow> 'u upstream \<Rightarrow> Provider \<Rightarrow> gostring \<Rightarrow> gostring \<Rightarrow> bool \<Rightarrow> int \<Rightarrow> gostring \<Rightarrow> world \<times> 'u
   \<Rightarrow> ((up_error + ProviderTokenCreateOutcome) \<times> world \<times> 'u) option" where
  "CreateProviderTokenWithReconciliation env net provider name grp unlimitedQuota remainQuota modelLimits s =
    (case NewUpstreamClientForProvider (sy_env env) provider of
       Inl e \<Rightarrow> Some (Inl e, s)
     | Inr client \<Rightarrow>
         (case fetchAllUpstreamTokens (sy_env env) net client (snd s) of
            None \<Rightarrow> None
          | Some (Inl e, u) \<Rightarrow> Some (Inl e, fst s, u)
          | Some (Inr beforeTokens, u) \<Rightarrow>
              (case CreateUpstreamToken (sy_env env) net client name grp unlimitedQuota remainQuota modelLimits u of
                 (Inl e, u) \<Rightarrow> Some (Inl e, fst s, u)
               | (Inr createdResult, u) \<Rightarrow>
                   (case SyncProviderTokensOnly env net provider (fst s, u) of
                      None \<Rightarrow> None
                    | Some (Inl e, s) \<Rightarrow> Some (Inl e, s)
                    | Some (Inr sm, s) \<Rightarrow>
                        Some (Inr (create_outcome sm (identifyCreatedUpstreamTokenID beforeTokens sm name grp unlimitedQuota
                          remainQuota modelLimits createdResult)), s)))))"

subsection \<open>A whole synchronisation\<close>

definition classifyProviderReachabilityError :: "up_error \<Rightarrow> gostring option" where
  "classifyProviderReachabilityError err =
    (case err of
       UpstreamRequestError code msg transport \<Rightarrow> if transport \<or> isProviderReachabilityStatus code then Some (TrimSpace msg) else None
     | _ \<Rightarrow> None)"

datatype health_observation = NotObserved | Reachable | Unreachable gostring

definition observe :: "up_error option \<Rightarrow> health_observation \<Rightarrow> health_observation" where
  \<comment> \<open>\<open>recordReachabilitySuccess\<close> and \<open>recordReachabilityFailure\<close>\<close>
  "observe err h =
    (case err of
       None \<Rightarrow> Reachable
     | Some e \<Rightarrow> (case classifyProviderReachabilityError e of None \<Rightarrow> h | Some reason \<Rightarrow> Unreachable reason))"

definition note_health :: "proxy_env \<Rightarrow> Provider \<Rightarrow> health_observation \<Rightarrow> world \<Rightarrow> world" where
  "note_health env provider h w =
    (case h of
       NotObserved \<Rightarrow> w
     | Reachable \<Rightarrow> markProviderHealthSuccess env provider w
     | Unreachable reason \<Rightarrow> markProviderHealthFailure env provider reason w)"

definition SyncProvider :: "sync_env \<Rightarrow> 'u upstream \<Rightarrow> Provider \<Rightarrow> world \<times> 'u \<Rightarrow> (up_error option \<times> world \<times> 'u) option" where
  "SyncProvider env net provider s =
    (case NewUpstreamClientForProvider (sy_env env) provider of
       Inl e \<Rightarrow>
         Some (Some e, (case classifyProviderReachabilityError e of
             Some reason \<Rightarrow> markProviderHealthFailure (sy_env env) provider reason (fst s)
           | None \<Rightarrow> fst s), snd s)
     | Inr client \<Rightarrow>
         (case syncPricing env net client provider s of
            (e1, s) \<Rightarrow>
              (case syncTokens env net client provider s of
                 None \<Rightarrow> None
               | Some (e2, s) \<Rightarrow>
                   (case syncBalance env net client provider s of
                      (e3, w, u) \<Rightarrow>
                        Some (None,
                          snd (RebuildProviderRoutes env (p_Id provider)
                            (note_health (sy_env env) provider (observe e3 (observe e2 (observe e1 NotObserved))) w)), u)))))"

subsection \<open>The periodic cycle\<close>

fun syncProviderBatch :: "sync_env \<Rightarrow> 'u upstream \<Rightarrow> Provider list \<Rightarrow> world \<times> 'u \<Rightarrow> (world \<times> 'u) option" where
  "syncProviderBatch env net [] s = Some s"
| "syncProviderBatch env net (p # ps) s =
    (case SyncProvider env net p s of None \<Rightarrow> None | Some (e, s) \<Rightarrow> syncProviderBatch env net ps s)"

definition repair_targets :: "gotime \<Rightarrow> db \<Rightarrow> Provider list" where
  "repair_targets now d =
    filter (\<lambda>p. p_Status p = UserStatusEnabled \<and> \<not> CanParticipateInAutomatedUseAt now p) (GetProvidersWithUnresolvedProviderTokens d)"

definition repairProvidersWithUnresolvedTokens :: "sync_env \<Rightarrow> 'u upstream \<Rightarrow> world \<times> 'u \<Rightarrow> (world \<times> 'u) option" where
  "repairProvidersWithUnresolvedTokens env net s = syncProviderBatch env net (repair_targets (sy_now env) (w_db (fst s))) s"

definition runProviderSyncCycle :: "sync_env \<Rightarrow> 'u upstream \<Rightarrow> world \<times> 'u \<Rightarrow> (world \<times> 'u) option" where
  "runProviderSyncCycle env net s =
    (case syncProviderBatch env net (GetAutomatedSyncProviders (sy_now env) (w_db (fst s))) s of
       None \<Rightarrow> None
     | Some s \<Rightarrow> repairProvidersWithUnresolvedTokens env net s)"

end
