(* ===== verification/SyncCorrect.thy ===== *)
theory SyncCorrect
  imports Sync Relay
begin

text \<open>
  What synchronising a provider guarantees: the token list of a well-behaved upstream is read whole and in
  finitely many requests, the token table mirrors it without losing a usable key, and the routes
  are rebuilt from tokens and prices exactly.
\<close>

subsection \<open>Reading pages\<close>

lemma fetch_pages_error:
  "GetTokens env net client page 100 u = (Inl e, u') \<Longrightarrow> fetch_pages env net client page all u = Some (Inl e, u')"
  by (subst fetch_pages.simps) simp

lemma fetch_pages_page:
  "GetTokens env net client page 100 u = (Inr pg, u') \<Longrightarrow>
    fetch_pages env net client page all u =
      (if last_page pg (fold add_token (tp_Items pg) all) then Some (Inr (fold add_token (tp_Items pg) all), u')
       else fetch_pages env net client (wrap64 (page + 1)) (fold add_token (tp_Items pg) all) u')"
  by (subst fetch_pages.simps) (simp add: Let_def)

lemma last_page_empty [simp]: "tp_Items pg = [] \<Longrightarrow> last_page pg all"
  by (simp add: last_page_def)

subsection \<open>The list ends\<close>

primrec after_pages :: "proxy_env \<Rightarrow> 'u upstream \<Rightarrow> UpstreamClient \<Rightarrow> 'u \<Rightarrow> nat \<Rightarrow> 'u" where
  \<comment> \<open>the upstream after the requests for the first pages\<close>
  "after_pages env net client u 0 = u"
| "after_pages env net client u (Suc n) = snd (GetTokens env net client (int n) 100 (after_pages env net client u n))"

definition ends_at :: "proxy_env \<Rightarrow> 'u upstream \<Rightarrow> UpstreamClient \<Rightarrow> 'u \<Rightarrow> nat \<Rightarrow> bool" where
  "ends_at env net client u n \<longleftrightarrow>
    (case fst (GetTokens env net client (int n) 100 (after_pages env net client u n)) of Inl e \<Rightarrow> True | Inr pg \<Rightarrow> tp_Items pg = [])"

lemma fetch_pages_ends:
  assumes "ends_at env net client u n" and "int n < 2 ^ 63" and "m \<le> n"
  shows "fetch_pages env net client (int m) all (after_pages env net client u m) \<noteq> None"
  using assms(3)
proof (induction "n - m" arbitrary: m all)
  case 0
  then have m: "m = n" by simp
  show ?case
  proof (cases "GetTokens env net client (int n) 100 (after_pages env net client u n)")
    case (Pair r u')
    then show ?thesis using assms(1) unfolding m
      by (cases r) (simp_all add: ends_at_def fetch_pages_error fetch_pages_page)
  qed
next
  case (Suc k)
  then have m: "m < n" "k = n - Suc m" by auto
  have w: "wrap64 (int m + 1) = int (Suc m)" using m(1) assms(2) by (simp add: in_int64_def)
  show ?case
  proof (cases "GetTokens env net client (int m) 100 (after_pages env net client u m)")
    case (Pair r u')
    then have u': "u' = after_pages env net client u (Suc m)" by simp
    show ?thesis
    proof (cases r)
      case (Inl e)
      then show ?thesis using Pair by (simp add: fetch_pages_error)
    next
      case (Inr pg)
      have "fetch_pages env net client (int (Suc m)) (fold add_token (tp_Items pg) all) u' \<noteq> None"
        unfolding u' using Suc.hyps(1) [OF m(2)] m(1) by simp
      then show ?thesis unfolding fetch_pages_page [OF Pair [unfolded Inr]] w by simp
    qed
  qed
qed

lemma fetch_all_ends:
  "ends_at env net client u n \<Longrightarrow> int n < 2 ^ 63 \<Longrightarrow> \<exists>r. fetchAllUpstreamTokens env net client u = Some r"
  using fetch_pages_ends [of env net client u n 0 "[]"] by (auto simp: fetchAllUpstreamTokens_def)

text \<open>An upstream that answers every page with the same token and promises more of them is read for ever.\<close>

lemma fetch_pages_stuck:
  assumes "\<And>page u. \<exists>pg u'. GetTokens env net client page 100 u = (Inr pg, u') \<and> tp_Items pg = [t] \<and> tp_Total pg = 2"
    and "fold add_token [t] all = [t]"
  shows "fetch_pages env net client page all u = None"
proof -
  have "e = env \<and> n = net \<and> c = client \<longrightarrow> fold add_token [t] all = [t] \<longrightarrow> False"
    if "fetch_pages e n c page all u = Some r" for e and n :: "'a upstream" and c page all u r
    using that
  proof (induction rule: fetch_pages.raw_induct [rotated 1, consumes 1, case_names step])
    case (step fp e n c page all u r)
    show ?case
    proof (intro impI, elim conjE)
      assume h: "e = env" "n = net" "c = client" "fold add_token [t] all = [t]"
      obtain pg u' where pg: "GetTokens env net client page 100 u = (Inr pg, u')" "tp_Items pg = [t]" "tp_Total pg = 2"
        using assms(1) by blast
      have st: "fp env net client (wrap64 (page + 1)) [t] u' = Some r"
        using step.hyps h(4) unfolding h(1-3) pg(1) by (simp add: pg last_page_def Let_def)
      then show False using step.IH [OF st] by (simp add: add_token_def)
    qed
  qed
  then show ?thesis using assms(2) by (cases "fetch_pages env net client page all u") auto
qed

subsection \<open>The list is read whole\<close>

definition serves_tokens :: "proxy_env \<Rightarrow> 'u upstream \<Rightarrow> UpstreamClient \<Rightarrow> UpstreamToken list \<Rightarrow> bool" where
  \<comment> \<open>the documented interface of the upstream: pages of a fixed list, each with the length of the list or without it\<close>
  "serves_tokens env net client ts \<longleftrightarrow> int (length ts) < 2 ^ 62 \<and>
    (\<forall>p u. \<exists>pg u'. GetTokens env net client (int p) 100 u = (Inr pg, u')
       \<and> tp_Items pg = take 100 (drop (p * 100) ts) \<and> (tp_Total pg = int (length ts) \<or> tp_Total pg \<le> 0 \<and> tp_PageSize pg \<le> 100))"

lemma add_token_simps:
  "ut_Id t \<in> ut_Id ` set all \<Longrightarrow> add_token t all = all"
  "ut_Id t \<notin> ut_Id ` set all \<Longrightarrow> add_token t all = all @ [t]"
  by (simp_all add: add_token_def)

lemma first_seen_from_cong:
  "set seen = set seen' \<Longrightarrow> first_seen_from seen xs = first_seen_from seen' xs"
proof (induction xs arbitrary: seen seen')
  case (Cons x xs)
  have "first_seen_from (x # seen) xs = first_seen_from (x # seen') xs" by (rule Cons.IH) (simp add: Cons.prems)
  moreover have "first_seen_from seen xs = first_seen_from seen' xs" by (rule Cons.IH) (rule Cons.prems)
  ultimately show ?case by (simp add: Cons.prems)
qed simp

lemma add_token_ids:
  "map ut_Id (fold add_token xs all) = map ut_Id all @ first_seen_from (map ut_Id all) (map ut_Id xs)"
proof (induction xs arbitrary: all)
  case (Cons x xs)
  show ?case
  proof (cases "ut_Id x \<in> ut_Id ` set all")
    case False
    have "first_seen_from (map ut_Id (all @ [x])) (map ut_Id xs) = first_seen_from (ut_Id x # map ut_Id all) (map ut_Id xs)"
      by (rule first_seen_from_cong) auto
    with False Cons [of "all @ [x]"] show ?thesis by (simp add: add_token_simps(2))
  qed (simp add: Cons add_token_simps(1))
qed simp

lemma fold_add_token_first_seen: "map ut_Id (fold add_token xs []) = first_seen (map ut_Id xs)"
  by (simp add: add_token_ids first_seen_def)

lemma length_fold_add_token: "length (fold add_token xs all) \<le> length xs + length all"
proof (induction xs arbitrary: all)
  case (Cons x xs)
  show ?case
  proof (cases "ut_Id x \<in> ut_Id ` set all")
    case True
    then show ?thesis using Cons [of all] by (simp add: add_token_simps(1))
  next
    case False
    then show ?thesis using Cons [of "all @ [x]"] by (simp add: add_token_simps(2))
  qed
qed simp

lemma fold_add_token_distinct: "distinct (map ut_Id (all @ xs)) \<Longrightarrow> fold add_token xs all = all @ xs"
proof (induction xs arbitrary: all)
  case (Cons x xs)
  have "add_token x all = all @ [x]" using Cons.prems by (simp add: add_token_def)
  moreover have "fold add_token xs (all @ [x]) = (all @ [x]) @ xs" using Cons.prems by (intro Cons.IH) simp
  ultimately show ?case by simp
qed simp

lemma fetch_pages_whole:
  assumes "serves_tokens env net client ts" and "p * 100 \<le> length ts + 100"
  shows "\<exists>u'. fetch_pages env net client (int p) (fold add_token (take (p * 100) ts) []) u = Some (Inr (fold add_token ts []), u')"
  using assms(2)
proof (induction "length ts + 100 - p * 100" arbitrary: p u rule: less_induct)
  case (less p u)
  obtain pg u' where pg: "GetTokens env net client (int p) 100 u = (Inr pg, u')" "tp_Items pg = take 100 (drop (p * 100) ts)"
      "tp_Total pg = int (length ts) \<or> tp_Total pg \<le> 0 \<and> tp_PageSize pg \<le> 100"
    using assms(1) unfolding serves_tokens_def by blast
  let ?all = "fold add_token (take (Suc p * 100) ts) []"
  have "take (Suc p * 100) ts = take (p * 100) ts @ take 100 (drop (p * 100) ts)" by (simp add: take_add [symmetric] add.commute)
  then have all: "fold add_token (tp_Items pg) (fold add_token (take (p * 100) ts) []) = ?all" by (simp add: pg(2))
  show ?case
  proof (cases "length ts \<le> p * 100")
    case True
    then show ?thesis unfolding fetch_pages_page [OF pg(1)] all by (simp add: pg(2))
  next
    case False
    have w: "wrap64 (int p + 1) = int (Suc p)" using False assms(1) by (simp add: in_int64_def serves_tokens_def)
    have "\<exists>u''. fetch_pages env net client (int (Suc p)) ?all u' = Some (Inr (fold add_token ts []), u'')"
      using False by (intro less.hyps) auto
    moreover have "?all = fold add_token ts []" if "last_page pg ?all"
    proof -
      have "length ?all \<le> length (take (Suc p * 100) ts)" using length_fold_add_token [of "take (Suc p * 100) ts" "[]"] by simp
      moreover have "length ts \<le> length ?all \<or> length ts - p * 100 < 100"
        using that False pg(3) by (auto simp: last_page_def pg(2) split: if_splits)
      ultimately have "length ts \<le> Suc p * 100" by auto
      then show ?thesis by simp
    qed
    ultimately show ?thesis unfolding fetch_pages_page [OF pg(1)] all w by auto
  qed
qed

text \<open>
  C18: An upstream that pages a fixed list of tokens, whether it tells the length or not, is read whole: the loop ends, keeps one
  token per identifier in the order of the list, and all of the list when the identifiers are distinct.
\<close>

theorem token_list_read_whole:
  assumes "serves_tokens env net client ts"
  shows "\<exists>all u'. fetchAllUpstreamTokens env net client u = Some (Inr all, u')
    \<and> map ut_Id all = first_seen (map ut_Id ts) \<and> (if distinct (map ut_Id ts) then all = ts else True)"
  using fetch_pages_whole [OF assms, of 0 u] fold_add_token_first_seen [of ts] fold_add_token_distinct [of "[]" ts]
  by (auto simp: fetchAllUpstreamTokens_def)

subsection \<open>The token table mirrors the upstream\<close>

lemma on_tables_simps [simp]:
  "w_db (on_tables (write_through f) w) = f (w_db w)"
  "w_caches (on_tables (write_through f) w) = invalidateModelRouteCaches (w_caches w)"
  "w_clients (on_tables g w) = w_clients w" "w_writer (on_tables g w) = w_writer w"
  by (simp_all add: on_tables_def write_through_def)

lemma snapshot_fields [simp]:
  "token_key (buildProviderTokenSnapshot now provider t) = (p_Id provider, ut_Id t)"
  "pt_Id (buildProviderTokenSnapshot now provider t) = 0"
  by (simp_all add: buildProviderTokenSnapshot_def token_key_def)

lemma mark_fields [simp]:
  "token_key (MarkKeyReady k pt) = token_key pt" "pt_Id (MarkKeyReady k pt) = pt_Id pt"
  "token_key (MarkKeyUnresolved r pt) = token_key pt" "pt_Id (MarkKeyUnresolved r pt) = pt_Id pt"
  by (simp_all add: MarkKeyReady_def MarkKeyUnresolved_def token_key_def)

lemma IsKeyReady_MarkKeyReady: "IsKeyReady (MarkKeyReady k pt) \<longleftrightarrow> IsUsableProviderTokenKey k"
  by (simp add: IsKeyReady_usable MarkKeyReady_def)

definition reconciled :: "db \<Rightarrow> Provider \<Rightarrow> UpstreamToken \<Rightarrow> ProviderTokenReconcileResult \<Rightarrow> bool" where
  \<comment> \<open>the result belongs to the upstream token, and is ready whenever the stored row was\<close>
  "reconciled d provider t r \<longleftrightarrow> token_key (rr_ProviderToken r) = (p_Id provider, ut_Id t) \<and> pt_Id (rr_ProviderToken r) = 0
     \<and> rr_UpstreamToken r = t
     \<and> (\<forall>e. GetProviderTokenByUpstream (p_Id provider) (ut_Id t) d = Some e \<longrightarrow> IsKeyReady e \<longrightarrow> IsKeyReady (rr_ProviderToken r))"

lemma recovered_reconciled:
  "IsUsableProviderTokenKey k \<Longrightarrow> reconciled d provider t (recovered source k t (buildProviderTokenSnapshot now provider t))"
  by (simp add: reconciled_def recovered_def IsKeyReady_MarkKeyReady)

lemma preserved_reconciled:
  "reconciled d provider t (preserve_or_give_up (GetProviderTokenByUpstream (p_Id provider) (ut_Id t) d) reason t
     (buildProviderTokenSnapshot now provider t))"
  by (auto simp: reconciled_def preserve_or_give_up_def PreserveReadyKeyFrom_def IsKeyReady_usable MarkKeyReady_def Let_def
      token_key_def buildProviderTokenSnapshot_def MarkKeyUnresolved_def split: option.splits)

lemma reconcileProviderToken_reconciled:
  "reconciled (w_db w) provider t (fst (reconcileProviderToken env net client provider t (w, u)))"
  by (auto simp: reconcileProviderToken_def Let_def recovered_reconciled preserved_reconciled split: prod.splits option.splits sum.splits if_splits)

definition ready_keys :: "ProviderToken list \<Rightarrow> (int \<times> int) set" where
  "ready_keys ts = token_key ` {t \<in> set ts. IsKeyReady t}"

lemma find_unique_key:
  assumes "distinct (map token_key ts)" and "t \<in> set ts"
  shows "find (\<lambda>x. token_key x = token_key t) ts = Some t"
  using assms by (induction ts) (auto simp: image_iff)

lemma ready_stays:
  assumes "token_table_ok (db_tokens d)" and "token_defaults_keep g" and "reconciled d provider t r"
    and "d' = UpsertProviderToken g now (rr_ProviderToken r) d"
  shows "token_table_ok (db_tokens d') \<and> token_key ` set (db_tokens d') = insert (p_Id provider, ut_Id t) (token_key ` set (db_tokens d))
    \<and> ready_keys (db_tokens d) \<subseteq> ready_keys (db_tokens d')
    \<and> {x \<in> set (db_tokens d'). pt_ProviderId x \<noteq> p_Id provider} = {x \<in> set (db_tokens d). pt_ProviderId x \<noteq> p_Id provider}"
proof -
  let ?pt = "rr_ProviderToken r"
  have k: "token_key ?pt = (p_Id provider, ut_Id t)" "pt_Id ?pt = 0" using assms(3) by (simp_all add: reconciled_def)
  have U: "token_table_ok (db_tokens d')"
      "\<exists>x \<in> set (db_tokens d'). token_key x = token_key ?pt \<and> (pt_SkKey x, pt_KeyStatus x, pt_KeyUnresolvedReason x) = resolvedPersistenceState ?pt"
      "{x \<in> set (db_tokens d'). token_key x \<noteq> token_key ?pt} = {x \<in> set (db_tokens d). token_key x \<noteq> token_key ?pt}"
    using UpsertProviderToken_ok [OF assms(1,2) k(2), of now] unfolding assms(4) by blast+
  obtain x where x: "x \<in> set (db_tokens d')" "token_key x = token_key ?pt"
      "(pt_SkKey x, pt_KeyStatus x, pt_KeyUnresolvedReason x) = resolvedPersistenceState ?pt" using U(2) by blast
  have xr: "IsKeyReady x" if "IsKeyReady ?pt"
    using that x(3) by (auto simp: IsKeyReady_usable resolvedPersistenceState_def ResolveProviderTokenPersistenceState_def NormalizeKey_Nil Let_def split: if_splits)
  have "y \<in> token_key ` {t \<in> set (db_tokens d'). IsKeyReady t}" if "s \<in> set (db_tokens d)" "IsKeyReady s" "y = token_key s" for s y
  proof (cases "token_key s = token_key ?pt")
    case True
    have "find (\<lambda>x. token_key x = token_key s) (db_tokens d) = Some s"
      using assms(1) that(1) by (intro find_unique_key) (simp_all add: token_table_ok_def)
    then have "GetProviderTokenByUpstream (p_Id provider) (ut_Id t) (d) = Some s"
      using True k(1) by (simp add: GetProviderTokenByUpstream_def token_key_def)
    then have "IsKeyReady ?pt" using assms(3) that(2) by (simp add: reconciled_def)
    then show ?thesis using xr x(1,2) True that(3) by (intro image_eqI [of _ _ x]) auto
  next
    case False
    then have "s \<in> set (db_tokens d')" using U(3) that(1) by blast
    then show ?thesis using that by auto
  qed
  then have "ready_keys (db_tokens d) \<subseteq> ready_keys (db_tokens d')" by (auto simp: ready_keys_def)
  moreover have "token_key ` set (db_tokens d') = insert (token_key ?pt) (token_key ` set (db_tokens d))"
    using U(3) x(1,2) by (auto simp: set_eq_iff image_iff) (metis (mono_tags, lifting) mem_Collect_eq)+
  moreover have "{x \<in> set (db_tokens d'). pt_ProviderId x \<noteq> p_Id provider} = {x \<in> set (db_tokens d). pt_ProviderId x \<noteq> p_Id provider}"
  proof -
    have "token_key x \<noteq> token_key ?pt" if "pt_ProviderId x \<noteq> p_Id provider" for x using that k(1) by (auto simp: token_key_def)
    then show ?thesis using U(3) by blast
  qed
  ultimately show ?thesis using U(1) k(1) by simp
qed

definition provider_ids :: "int \<Rightarrow> ProviderToken list \<Rightarrow> int set" where
  \<comment> \<open>the upstream identifiers of the rows of a provider\<close>
  "provider_ids i ts = {n. (i, n) \<in> token_key ` set ts}"

lemma reconcile_step_tables:
  assumes "token_defaults_keep (sy_token_defaults env)" and "token_table_ok (db_tokens (w_db w))"
    and "reconcile_step env net client provider t (sm, w, u) = (sm', w', u')"
  shows "token_table_ok (db_tokens (w_db w'))
    \<and> token_key ` set (db_tokens (w_db w')) = insert (p_Id provider, ut_Id t) (token_key ` set (db_tokens (w_db w)))
    \<and> ready_keys (db_tokens (w_db w)) \<subseteq> ready_keys (db_tokens (w_db w'))
    \<and> {x \<in> set (db_tokens (w_db w')). pt_ProviderId x \<noteq> p_Id provider} = {x \<in> set (db_tokens (w_db w)). pt_ProviderId x \<noteq> p_Id provider}
    \<and> sm_Total sm' = sm_Total sm + 1
    \<and> sm_ReadyCount sm' + sm_UnresolvedCount sm' = sm_ReadyCount sm + sm_UnresolvedCount sm + 1"
proof -
  obtain r v where r: "reconcileProviderToken env net client provider t (w, u) = (r, v)" by fastforce
  have w': "w_db w' = UpsertProviderToken (sy_token_defaults env) (sy_now env) (rr_ProviderToken r) (w_db w)"
    and sm': "\<exists>q. sm' = count_result q sm"
    using assms(3) by (auto simp: reconcile_step_def r Let_def)
  have "sm_Total sm' = sm_Total sm + 1 \<and> sm_ReadyCount sm' + sm_UnresolvedCount sm' = sm_ReadyCount sm + sm_UnresolvedCount sm + 1"
    using sm' by (auto simp: count_result_def Let_def)
  moreover note ready_stays [OF assms(2,1) reconcileProviderToken_reconciled [of w provider t env net client u, unfolded r fst_conv] w']
  ultimately show ?thesis by blast
qed

lemma reconcile_fold_tables:
  assumes "token_defaults_keep (sy_token_defaults env)"
  shows "token_table_ok (db_tokens (w_db w)) \<Longrightarrow> fold (reconcile_step env net client provider) ts (sm, w, u) = (sm', w', u')
    \<Longrightarrow> token_table_ok (db_tokens (w_db w'))
    \<and> token_key ` set (db_tokens (w_db w')) = Pair (p_Id provider) ` ut_Id ` set ts \<union> token_key ` set (db_tokens (w_db w))
    \<and> ready_keys (db_tokens (w_db w)) \<subseteq> ready_keys (db_tokens (w_db w'))
    \<and> {x \<in> set (db_tokens (w_db w')). pt_ProviderId x \<noteq> p_Id provider} = {x \<in> set (db_tokens (w_db w)). pt_ProviderId x \<noteq> p_Id provider}
    \<and> sm_Total sm' = sm_Total sm + int (length ts)
    \<and> sm_ReadyCount sm' + sm_UnresolvedCount sm' = sm_ReadyCount sm + sm_UnresolvedCount sm + int (length ts)"
proof (induction ts arbitrary: sm w u)
  case (Cons t ts)
  obtain sm1 w1 u1 where s: "reconcile_step env net client provider t (sm, w, u) = (sm1, w1, u1)" by (metis prod_cases3)
  note h = reconcile_step_tables [OF assms Cons.prems(1) s]
  have f: "fold (reconcile_step env net client provider) ts (sm1, w1, u1) = (sm', w', u')" using Cons.prems(2) s by simp
  note ih = Cons.IH [OF conjunct1 [OF h] f]
  show ?case using h ih by (intro conjI) (auto simp: image_iff)
qed simp

lemma DeleteProviderTokensNotInIds_tokens:
  "db_tokens (DeleteProviderTokensNotInIds i ids d) = filter (\<lambda>t. \<not> (pt_ProviderId t = i \<and> pt_UpstreamTokenId t \<notin> set ids)) (db_tokens d)"
  by (auto simp: DeleteProviderTokensNotInIds_def row_delete_def)

lemma token_table_ok_filter: "token_table_ok ts \<Longrightarrow> token_table_ok (filter P ts)"
  by (auto simp: token_table_ok_def list_all_iff distinct_map_filter)

lemma ready_keys_kept:
  "ready_keys (filter (\<lambda>t. \<not> (pt_ProviderId t = i \<and> pt_UpstreamTokenId t \<notin> A)) ts) = {k \<in> ready_keys ts. fst k = i \<longrightarrow> snd k \<in> A}"
  unfolding ready_keys_def token_key_def by (auto simp: image_iff)

lemma provider_ids_kept:
  "provider_ids i (filter (\<lambda>t. \<not> (pt_ProviderId t = i \<and> pt_UpstreamTokenId t \<notin> A)) ts) = provider_ids i ts \<inter> A"
  unfolding provider_ids_def token_key_def by (auto simp: image_iff)

text \<open>
  C16: After the tokens of a provider are reconciled with the upstream list, the provider has exactly one row per listed
  token, a key that was usable before is still usable whatever the upstream answered, no row of another
  provider has changed, the table is well formed, and the summary counts every token as ready or unresolved.
\<close>

theorem sync_mirrors_tokens:
  assumes "token_defaults_keep (sy_token_defaults env)" and "token_table_ok (db_tokens (w_db w))"
    and "reconcileProviderTokens env net client provider ts (w, u) = (sm, w', u')"
  shows "token_table_ok (db_tokens (w_db w'))
    \<and> provider_ids (p_Id provider) (db_tokens (w_db w')) = ut_Id ` set ts
    \<and> {x \<in> set (db_tokens (w_db w')). pt_ProviderId x \<noteq> p_Id provider} = {x \<in> set (db_tokens (w_db w)). pt_ProviderId x \<noteq> p_Id provider}
    \<and> {k \<in> ready_keys (db_tokens (w_db w)). fst k = p_Id provider \<and> snd k \<in> ut_Id ` set ts} \<subseteq> ready_keys (db_tokens (w_db w'))
    \<and> sm_Total sm = int (length ts) \<and> sm_ReadyCount sm + sm_UnresolvedCount sm = sm_Total sm"
proof -
  obtain sm1 w1 u1 where f: "fold (reconcile_step env net client provider) ts (empty_sync_summary, w, u) = (sm1, w1, u1)"
    by (metis prod_cases3)
  note h = reconcile_fold_tables [OF assms(1,2) f]
  have r: "sm = sm1" "db_tokens (w_db w') = filter (\<lambda>t. \<not> (pt_ProviderId t = p_Id provider \<and> pt_UpstreamTokenId t \<notin> ut_Id ` set ts)) (db_tokens (w_db w1))"
    using assms(3) by (auto simp: reconcileProviderTokens_def f DeleteProviderTokensNotInIds_tokens)
  have "provider_ids (p_Id provider) (db_tokens (w_db w')) = ut_Id ` set ts"
    unfolding r(2) provider_ids_kept using h by (auto simp: provider_ids_def)
  moreover have "{x \<in> set (db_tokens (w_db w')). pt_ProviderId x \<noteq> p_Id provider} = {x \<in> set (db_tokens (w_db w)). pt_ProviderId x \<noteq> p_Id provider}"
    using h by (auto simp: r(2))
  moreover have "{k \<in> ready_keys (db_tokens (w_db w)). fst k = p_Id provider \<and> snd k \<in> ut_Id ` set ts} \<subseteq> ready_keys (db_tokens (w_db w'))"
    unfolding r(2) ready_keys_kept using h by blast
  moreover have "token_table_ok (db_tokens (w_db w'))" using h token_table_ok_filter by (simp add: r(2))
  ultimately show ?thesis using h r(1) by (simp add: empty_sync_summary_def)
qed

subsection \<open>The routes of a provider\<close>

lemma group_models_inner:
  "set (mget_default [] (fold (\<lambda>g. mappend g n) gs m) k) = set (mget_default [] m k) \<union> (if k \<in> set gs then {n} else {})"
  by (induction gs arbitrary: m) auto

lemma group_models_fold:
  "set (mget_default [] (fold (\<lambda>p m. fold (\<lambda>g. mappend g (mp_ModelName p)) (pricing_groups p) m) pricing m) k) =
    set (mget_default [] m k) \<union> mp_ModelName ` {p \<in> set pricing. k \<in> set (pricing_groups p)}"
  by (induction pricing arbitrary: m) (auto simp: group_models_inner)

lemma set_group_models:
  "set (mget_default [] (group_models pricing) k) = mp_ModelName ` {p \<in> set pricing. k \<in> set (pricing_groups p)}"
  by (simp add: group_models_def group_models_fold)

definition route_pair :: "ModelRoute \<Rightarrow> int \<times> gostring" where
  "route_pair r = (mr_ProviderTokenId r, mr_ModelName r)"

definition model_allowed :: "ProviderToken \<Rightarrow> gostring \<Rightarrow> bool" where
  "model_allowed t m \<longleftrightarrow> (case allowed_models t of Some ms \<Rightarrow> m \<in> set ms | None \<Rightarrow> True)"

definition routes_inv :: "gostring list \<times> ModelRoute list \<Rightarrow> bool" where
  "routes_inv acc \<longleftrightarrow> distinct (map route_pair (snd acc))
     \<and> set (fst acc) = (\<lambda>r. mr_ModelName r @ ''|'' @ Itoa (mr_ProviderTokenId r)) ` set (snd acc)"

lemma route_key_inj: "m @ ''|'' @ Itoa i = n @ ''|'' @ Itoa j \<longleftrightarrow> m = n \<and> i = j"
proof -
  have h: "CHR ''|'' \<notin> set (Itoa k)" for k by (rule Itoa_no_char) (simp_all add: is_digit_def less_eq_char_def)
  show ?thesis using split_at_last_sep [of m "CHR ''|''" "Itoa i" n "Itoa j"] h Itoa_inj by auto
qed

lemma route_step_inv:
  assumes "routes_inv acc"
  shows "routes_inv (route_step i t m acc)
    \<and> set (snd (route_step i t m acc)) \<subseteq> set (snd acc) \<union> (if model_allowed t m then {new_route i t m} else {})
    \<and> route_pair ` set (snd (route_step i t m acc)) = route_pair ` set (snd acc) \<union> (if model_allowed t m then {(pt_Id t, m)} else {})"
proof -
  obtain S R where acc: "acc = (S, R)" by fastforce
  have k: "m @ ''|'' @ Itoa (pt_Id t) \<in> set S \<longleftrightarrow> (pt_Id t, m) \<in> route_pair ` set R"
    using assms route_key_inj by (force simp: routes_inv_def acc route_pair_def)
  have s: "route_step i t m (S, R) = (if \<not> model_allowed t m then (S, R) else if (pt_Id t, m) \<in> route_pair ` set R then (S, R)
      else ((m @ ''|'' @ Itoa (pt_Id t)) # S, R @ [new_route i t m]))"
    using k by (simp add: route_step_def model_allowed_def Let_def split: option.splits)
  have p: "route_pair (new_route i t m) = (pt_Id t, m)" by (simp add: route_pair_def new_route_def)
  have n: "mr_ModelName (new_route i t m) = m" "mr_ProviderTokenId (new_route i t m) = pt_Id t" by (simp_all add: new_route_def)
  show ?thesis using assms unfolding acc s by (auto simp: routes_inv_def p n)
qed

lemma route_fold_inner:
  "routes_inv acc \<Longrightarrow> routes_inv (fold (route_step i t) ms acc)
    \<and> set (snd (fold (route_step i t) ms acc)) \<subseteq> set (snd acc) \<union> new_route i t ` {m \<in> set ms. model_allowed t m}
    \<and> route_pair ` set (snd (fold (route_step i t) ms acc)) = route_pair ` set (snd acc) \<union> Pair (pt_Id t) ` {m \<in> set ms. model_allowed t m}"
proof (induction ms arbitrary: acc)
  case (Cons m ms)
  note s = route_step_inv [OF Cons.prems, of i t m]
  note ih = Cons.IH [OF conjunct1 [OF s]]
  show ?case using s ih by (auto split: if_splits)
qed simp

lemma route_fold_outer:
  "routes_inv acc \<Longrightarrow> routes_inv (fold (\<lambda>t. fold (route_step i t) (f t)) ts acc)
    \<and> set (snd (fold (\<lambda>t. fold (route_step i t) (f t)) ts acc)) \<subseteq>
        set (snd acc) \<union> {new_route i t m | t m. t \<in> set ts \<and> m \<in> set (f t) \<and> model_allowed t m}
    \<and> route_pair ` set (snd (fold (\<lambda>t. fold (route_step i t) (f t)) ts acc)) =
        route_pair ` set (snd acc) \<union> {(pt_Id t, m) | t m. t \<in> set ts \<and> m \<in> set (f t) \<and> model_allowed t m}"
proof (induction ts arbitrary: acc)
  case (Cons t ts)
  note s = route_fold_inner [OF Cons.prems, of i t "f t"]
  note ih = Cons.IH [OF conjunct1 [OF s]]
  show ?case using s ih by (intro conjI) (simp, force, force)
qed simp

definition offered :: "int \<Rightarrow> db \<Rightarrow> ProviderToken \<Rightarrow> gostring \<Rightarrow> bool" where
  \<comment> \<open>the token can route, a price of the provider enables its group for the model, and its limits allow the model\<close>
  "offered i d t m \<longleftrightarrow> t \<in> set (GetEnabledProviderTokensByProviderId i d)
     \<and> m \<in> mp_ModelName ` {p \<in> set (db_pricings d). mp_ProviderId p = i \<and> pt_GroupName t \<in> set (pricing_groups p)}
     \<and> model_allowed t m"

lemma provider_routes_offered:
  fixes i d
  defines "rs \<equiv> provider_routes i (GetEnabledProviderTokensByProviderId i d) (GetModelPricingByProvider i d)"
  shows "distinct (map route_pair rs)" and "set rs \<subseteq> {new_route i t m | t m. offered i d t m}"
    and "set (map route_pair rs) = {(pt_Id t, m) | t m. offered i d t m}"
proof -
  have f: "m \<in> set (mget_default [] (group_models (GetModelPricingByProvider i d)) (pt_GroupName t)) \<longleftrightarrow>
      m \<in> mp_ModelName ` {p \<in> set (db_pricings d). mp_ProviderId p = i \<and> pt_GroupName t \<in> set (pricing_groups p)}" for t m
    by (auto simp: set_group_models GetModelPricingByProvider_def)
  have inv: "routes_inv ([], [])" by (simp add: routes_inv_def)
  note h = route_fold_outer [OF inv, of i "\<lambda>t. mget_default [] (group_models (GetModelPricingByProvider i d)) (pt_GroupName t)"
      "GetEnabledProviderTokensByProviderId i d", folded provider_routes_def rs_def, unfolded f]
  show "distinct (map route_pair rs)" using h by (simp add: routes_inv_def rs_def provider_routes_def)
  show "set rs \<subseteq> {new_route i t m | t m. offered i d t m}" using h by (simp add: offered_def)
  show "set (map route_pair rs) = {(pt_Id t, m) | t m. offered i d t m}" using h by (simp add: offered_def)
qed

lemma kept_fields [simp]:
  "mr_ModelName (route_defaults r) = mr_ModelName r" "mr_ProviderTokenId (route_defaults r) = mr_ProviderTokenId r"
  "mr_ProviderId (route_defaults r) = mr_ProviderId r" "mr_Priority (route_defaults r) = mr_Priority r" "mr_Enabled (route_defaults r)"
  "mr_ModelName (keep_settings ex r) = mr_ModelName r" "mr_ProviderTokenId (keep_settings ex r) = mr_ProviderTokenId r"
  "mr_ProviderId (keep_settings ex r) = mr_ProviderId r"
  by (simp_all add: route_defaults_def keep_settings_def split: option.splits)

definition rebuilt_settings :: "ModelRoute option \<Rightarrow> ProviderToken \<Rightarrow> ModelRoute \<Rightarrow> bool" where
  \<comment> \<open>enabled whatever the route before was; priority and weight those of the route before, else those of the token, but
      weight 0 becomes the column default 10\<close>
  "rebuilt_settings old t r \<longleftrightarrow>
    (let (p, w) = (case old of Some q \<Rightarrow> (mr_Priority q, mr_Weight q) | None \<Rightarrow> (pt_Priority t, pt_Weight t))
     in mr_Priority r = p \<and> mr_Weight r = (if w = 0 then 10 else w) \<and> mr_Enabled r)"

lemma new_route_settings:
  "rebuilt_settings (mget ex (routeModelTokenKey m (pt_Id t))) t ((route_defaults (keep_settings ex (new_route i t m)))\<lparr>mr_Id := n\<rparr>)"
  by (simp add: rebuilt_settings_def keep_settings_def new_route_def route_defaults_def split: option.splits)

lemma map2_pairs:
  "length ids = length rs \<Longrightarrow> map route_pair (map2 (\<lambda>n r. (route_defaults (keep_settings ex r))\<lparr>mr_Id := n\<rparr>) ids rs) = map route_pair rs"
  by (induction ids rs rule: list_induct2) (simp_all add: route_pair_def)

lemma map2_provider:
  "length ids = length rs \<Longrightarrow> \<forall>r \<in> set rs. mr_ProviderId r = i \<Longrightarrow>
    filter (\<lambda>r. mr_ProviderId r = i) (map2 (\<lambda>n r. (route_defaults (keep_settings ex r))\<lparr>mr_Id := n\<rparr>) ids rs) =
      map2 (\<lambda>n r. (route_defaults (keep_settings ex r))\<lparr>mr_Id := n\<rparr>) ids rs
    \<and> filter (\<lambda>r. mr_ProviderId r \<noteq> i) (map2 (\<lambda>n r. (route_defaults (keep_settings ex r))\<lparr>mr_Id := n\<rparr>) ids rs) = []"
  by (induction ids rs rule: list_induct2) simp_all

text \<open>
  C17: After a successful rebuild the routes of a provider are exactly the pairs of a token that can route and a model
  that the prices offer to its group and its limits allow, each once. Every one of them is enabled, also one that was
  disabled before, because GORM puts the column default in the place of the \<open>false\<close> that the code copies from the old route.
  Its priority is the one it had before, or else that of its token; so is its weight, except that a weight of 0
  becomes the default 10. No route of another provider has changed, and the caches are empty.
\<close>

theorem rebuild_routes_exact:
  assumes "route_create_law (sy_route_create env)" and "RebuildProviderRoutes env i w = (None, w')"
  shows "distinct (map route_pair (filter (\<lambda>r. mr_ProviderId r = i) (db_routes (w_db w'))))
    \<and> set (map route_pair (filter (\<lambda>r. mr_ProviderId r = i) (db_routes (w_db w')))) = {(pt_Id t, m) | t m. offered i (w_db w) t m}
    \<and> (\<forall>r \<in> set (db_routes (w_db w')). mr_ProviderId r = i \<longrightarrow> (\<exists>t. offered i (w_db w) t (mr_ModelName r) \<and> pt_Id t = mr_ProviderTokenId r
          \<and> rebuilt_settings (mget (existing_routes i (w_db w)) (routeModelTokenKey (mr_ModelName r) (pt_Id t))) t r))
    \<and> filter (\<lambda>r. mr_ProviderId r \<noteq> i) (db_routes (w_db w')) = filter (\<lambda>r. mr_ProviderId r \<noteq> i) (db_routes (w_db w))
    \<and> w_caches w' = invalidateModelRouteCaches (w_caches w)"
proof -
  let ?d = "w_db w"
  define rs where "rs = provider_routes i (GetEnabledProviderTokensByProviderId i ?d) (GetModelPricingByProvider i ?d)"
  define ex where "ex = existing_routes i ?d"
  note offered = provider_routes_offered [where i = i and d = ?d, folded rs_def]
  have pid: "\<forall>r \<in> set rs. mr_ProviderId r = i" using offered(2) by (auto simp: new_route_def)
  have R: "RebuildRoutesForProvider (sy_route_create env) i rs (?d, w_caches w) = (None, w_db w', w_caches w')"
    using assms(2) by (auto simp: RebuildProviderRoutes_def rs_def Let_def split: prod.splits)
  obtain ids where ids: "length ids = length rs"
      "db_routes (w_db w') = filter (\<lambda>r. mr_ProviderId r \<noteq> i) (db_routes ?d) @ map2 (\<lambda>n r. (route_defaults (keep_settings ex r))\<lparr>mr_Id := n\<rparr>) ids rs"
      "w_caches w' = invalidateModelRouteCaches (w_caches w)"
    using assms(1) R by (rule RebuildRoutesForProvider_rows) (rule that; simp add: ex_def)
  define new where "new = map2 (\<lambda>n r. (route_defaults (keep_settings ex r))\<lparr>mr_Id := n\<rparr>) ids rs"
  have new: "map route_pair new = map route_pair rs" "filter (\<lambda>r. mr_ProviderId r = i) new = new" "filter (\<lambda>r. mr_ProviderId r \<noteq> i) new = []"
    using map2_pairs [OF ids(1)] map2_provider [OF ids(1) pid] by (simp_all add: new_def)
  have mine: "filter (\<lambda>r. mr_ProviderId r = i) (db_routes (w_db w')) = new"
    unfolding ids(2) new_def [symmetric] filter_append new(2) by simp
  have settings: "\<exists>t. offered i ?d t (mr_ModelName r) \<and> pt_Id t = mr_ProviderTokenId r
      \<and> rebuilt_settings (mget ex (routeModelTokenKey (mr_ModelName r) (pt_Id t))) t r" if mem: "r \<in> set new" for r
  proof -
    obtain n q where z: "(n, q) \<in> set (zip ids rs)" and r: "r = (route_defaults (keep_settings ex q))\<lparr>mr_Id := n\<rparr>"
      using mem by (auto simp: new_def)
    then have q: "q \<in> set rs" "r = (route_defaults (keep_settings ex q))\<lparr>mr_Id := n\<rparr>" by (simp_all add: set_zip_rightD [OF z])
    obtain t m where t: "offered i ?d t m" "q = new_route i t m" using offered(2) q(1) by blast
    have f: "mr_ModelName r = m" "mr_ProviderTokenId r = pt_Id t" by (simp_all add: q(2) t(2) new_route_def)
    show ?thesis unfolding f using t(1) new_route_settings [of ex m t n i] q(2) t(2) by auto
  qed
  have rest: "filter (\<lambda>r. mr_ProviderId r \<noteq> i) (db_routes (w_db w')) = filter (\<lambda>r. mr_ProviderId r \<noteq> i) (db_routes ?d)"
    unfolding ids(2) new_def [symmetric] filter_append new(3) by simp
  have "r \<in> set new" if "r \<in> set (db_routes (w_db w'))" "mr_ProviderId r = i" for r
    using that by (simp add: mine [symmetric])
  then show ?thesis unfolding mine new(1) using offered(1,3) settings rest ids(3) by (auto simp: ex_def)
qed

subsection \<open>Witnesses\<close>

definition quoted :: "gostring \<Rightarrow> gostring" where
  \<comment> \<open>a JSON text written with back quotes\<close>
  "quoted s = map (\<lambda>c. if c = CHR 0x60 then CHR 0x22 else c) s"

definition sample_sync_env :: sync_env where
  "sample_sync_env = \<lparr>sy_env = sample_env, sy_pricing_merge = (\<lambda>p row. p\<lparr>mp_Id := mp_Id row\<rparr>), sy_token_defaults = (\<lambda>t. t),
     sy_route_create = (\<lambda>t b. Some (t @ map2 (\<lambda>i r. (route_defaults r)\<lparr>mr_Id := i\<rparr>)
        (map (\<lambda>k. next_row_id mr_Id t + int k) [0..<length b]) b)),
     sy_print_float = (\<lambda>_. ''0''), sy_format_usd = (\<lambda>_. ''$0.00'')\<rparr>"

definition sample_upstream_client :: UpstreamClient where
  "sample_upstream_client = \<lparr>uc_BaseURL = ''https://a.example'', uc_AccessToken = ''t'', uc_UserID = 1, uc_Provider = None, uc_HTTPClient = DirectClient\<rparr>"

definition sample_upstream_token :: UpstreamToken where
  "sample_upstream_token = no_token\<lparr>ut_Id := 5, ut_Key := ''sk-x''\<rparr>"

definition one_token_net :: "unit upstream" where
  "one_token_net cl req u =
    (Response \<lparr>rs_StatusCode = 200, rs_Header = [],
       rs_Body = BodyOk (quoted (if og_URL req = ''https://a.example'' @ tokens_path 0 100
         then ''{`success`:true,`data`:{`total`:1,`items`:[{`id`:5,`key`:`sk-x`}]}}'' else ''{`success`:true,`data`:{`total`:1}}'')),
       rs_Lines = [], rs_ScanErr = None\<rparr>, u)"

lemma decode_sample_pages:
  "decode_page 0 100 (quoted ''{`success`:true,`data`:{`total`:1,`items`:[{`id`:5,`key`:`sk-x`}]}}'') =
    Inr \<lparr>tp_Page = 0, tp_PageSize = 100, tp_Total = 1, tp_Items = [sample_upstream_token]\<rparr>"
  "decode_page p 100 (quoted ''{`success`:true,`data`:{`total`:1}}'') =
    Inr \<lparr>tp_Page = 0, tp_PageSize = 100, tp_Total = 1, tp_Items = []\<rparr>"
  by code_simp+

lemma one_token_page:
  "GetTokens sample_env one_token_net sample_upstream_client (int p) 100 u =
    (Inr \<lparr>tp_Page = 0, tp_PageSize = 100, tp_Total = 1, tp_Items = (if p = 0 then [sample_upstream_token] else [])\<rparr>, u)"
proof -
  have base: "uc_BaseURL sample_upstream_client = ''https://a.example''" by (simp add: sample_upstream_client_def)
  have u: "tokens_path (int p) 100 = tokens_path 0 100 \<longleftrightarrow> p = 0"
    using Itoa_inj [of "int p" 0] by (auto simp: tokens_path_def)
  have ok: "pe_request_ok sample_env m x" for m x by (simp add: sample_env_def)
  show ?thesis
    by (cases "p = 0") (simp_all add: GetTokens_def doRequest_def doRequestWithBody_def ok one_token_net_def base u Let_def
        read_answer_def decode_sample_pages del: append.append_Cons)
qed

theorem token_list_read_whole_witness:
  "\<exists>u'. fetchAllUpstreamTokens sample_env one_token_net sample_upstream_client () = Some (Inr [sample_upstream_token], u')"
proof -
  have "serves_tokens sample_env one_token_net sample_upstream_client [sample_upstream_token]"
    by (auto simp: serves_tokens_def one_token_page)
  from token_list_read_whole [OF this, of "()"] show ?thesis by auto
qed

definition empty_world :: world where
  "empty_world = sample_world\<lparr>w_db := (w_db sample_world)\<lparr>db_tokens := []\<rparr>\<rparr>"

theorem sync_mirrors_tokens_witness:
  "provider_ids 7 (db_tokens (w_db (fst (snd (reconcileProviderTokens sample_sync_env one_token_net sample_upstream_client sample_provider
     [sample_upstream_token] (empty_world, ())))))) = {5}"
proof -
  obtain sm w u where e: "reconcileProviderTokens sample_sync_env one_token_net sample_upstream_client sample_provider [sample_upstream_token]
      (empty_world, ()) = (sm, w, u)" by (metis prod_cases3)
  have "token_defaults_keep (sy_token_defaults sample_sync_env)" by (simp add: sample_sync_env_def token_defaults_keep_def)
  moreover have "token_table_ok (db_tokens (w_db empty_world))" by code_simp
  moreover have "ut_Id sample_upstream_token = 5" by (simp add: sample_upstream_token_def)
  ultimately show ?thesis using sync_mirrors_tokens [OF _ _ e] by (simp add: e sample_provider_Id)
qed

lemma sample_route_create_law: "route_create_law (sy_route_create sample_sync_env)"
proof -
  have "mr_Id r \<noteq> next_row_id mr_Id t + int k" if "r \<in> set t" for t :: "ModelRoute list" and k r
    using next_row_id_fresh [OF that, of mr_Id] by linarith
  then show ?thesis
    unfolding route_create_law_def sample_sync_env_def
    by (auto simp: distinct_map inj_on_def intro!: exI [where x = "map (\<lambda>k. next_row_id mr_Id t + int k) [0..<length b]" for t b])
qed

definition priced_world :: world where
  "priced_world = sample_world\<lparr>w_db := (w_db sample_world)\<lparr>db_tokens := [sample_token\<lparr>pt_Id := 3\<rparr>],
     db_pricings := [\<lparr>mp_Id = 1, mp_ModelName = ''m'', mp_ProviderId = 7, mp_QuotaType = 0, mp_ModelRatio = 1, mp_CompletionRatio = 1,
       mp_ModelPrice = 0, mp_EnableGroups = quoted ''[`vip`,`default`]'', mp_SupportedEndpointTypes = [], mp_LastSynced = 0\<rparr>]\<rparr>\<rparr>"

theorem rebuild_routes_exact_witness:
  "(3, ''m'') \<in> set (map route_pair (db_routes (w_db (snd (RebuildProviderRoutes sample_sync_env 7 priced_world)))))"
proof -
  have "fst (RebuildProviderRoutes sample_sync_env 7 priced_world) = None"
    using create_batches_total [of "sy_route_create sample_sync_env"]
    by (force simp: RebuildProviderRoutes_def RebuildRoutesForProvider_def Let_def sample_sync_env_def split: option.splits)
  then obtain w where e: "RebuildProviderRoutes sample_sync_env 7 priced_world = (None, w)" by (metis prod.collapse)
  have "sample_token\<lparr>pt_Id := 3\<rparr> \<in> set (GetEnabledProviderTokensByProviderId 7 (w_db priced_world))" by code_simp
  moreover have "''m'' \<in> mp_ModelName ` {p \<in> set (db_pricings (w_db priced_world)). mp_ProviderId p = 7
      \<and> pt_GroupName (sample_token\<lparr>pt_Id := 3\<rparr>) \<in> set (pricing_groups p)}" by code_simp
  moreover have "model_allowed (sample_token\<lparr>pt_Id := 3\<rparr>) ''m''" by code_simp
  ultimately have "offered 7 (w_db priced_world) (sample_token\<lparr>pt_Id := 3\<rparr>) ''m''" by (simp add: offered_def)
  then have "(3, ''m'') \<in> {(pt_Id t, m) | t m. offered 7 (w_db priced_world) t m}" by (force simp: sample_token_def)
  then have "(3, ''m'') \<in> set (map route_pair (filter (\<lambda>r. mr_ProviderId r = 7) (db_routes (w_db w))))"
    using rebuild_routes_exact [OF sample_route_create_law e] by blast
  then show ?thesis by (auto simp: e)
qed

end
