(* ===== verification/Users.thy ===== *)
theory Users
  imports UsageLogs RateLimit GoStruct
begin

text \<open>
  Accounts and access: the user table of \<open>src/model/user.go\<close>, the root account of \<open>src/model/main.go\<close>, the
  middlewares of \<open>src/middleware/auth.go\<close> and the routes of \<open>src/router/api-router.go\<close>. Passwords are hashed and
  compared by bcrypt, which is an argument. GORM is written out as its documentation has it: \<open>Create\<close> fills the
  columns with a default and refuses a user name in use, \<open>Updates\<close> with a struct changes the columns whose field is
  not zero, in the row of its primary key.
\<close>

subsection \<open>The user table\<close>

definition RoleGuestUser :: int where "RoleGuestUser = 0"
definition RoleCommonUser :: int where "RoleCommonUser = 1"
definition RoleAdminUser :: int where "RoleAdminUser = 10"
definition RoleRootUser :: int where "RoleRootUser = 100"

definition zero_user :: User where
  "zero_user = \<lparr>u_Id = 0, u_Username = [], u_Password = [], u_DisplayName = [], u_Role = 0, u_Status = 0, u_Token = [],
     u_Email = [], u_GitHubId = [], u_WeChatId = [], u_VerificationCode = []\<rparr>"

definition dec_user :: "User decoder" where
  \<comment> \<open>the JSON tags of the struct\<close>
  "dec_user = dec_struct (\<lambda>m u. do {
     a \<leftarrow> struct_field dec_int ''id'' m (u_Id u);
     b \<leftarrow> struct_field dec_string ''username'' m (u_Username u);
     p \<leftarrow> struct_field dec_string ''password'' m (u_Password u);
     n \<leftarrow> struct_field dec_string ''display_name'' m (u_DisplayName u);
     r \<leftarrow> struct_field dec_int ''role'' m (u_Role u);
     s \<leftarrow> struct_field dec_int ''status'' m (u_Status u);
     t \<leftarrow> struct_field dec_string ''token'' m (u_Token u);
     e \<leftarrow> struct_field dec_string ''email'' m (u_Email u);
     g \<leftarrow> struct_field dec_string ''github_id'' m (u_GitHubId u);
     w \<leftarrow> struct_field dec_string ''wechat_id'' m (u_WeChatId u);
     v \<leftarrow> struct_field dec_string ''verification_code'' m (u_VerificationCode u);
     Some \<lparr>u_Id = a, u_Username = b, u_Password = p, u_DisplayName = n, u_Role = r, u_Status = s, u_Token = t,
           u_Email = e, u_GitHubId = g, u_WeChatId = w, u_VerificationCode = v\<rparr>})"

definition first_user :: "(User \<Rightarrow> bool) \<Rightarrow> db \<Rightarrow> User option" where
  \<comment> \<open>\<open>DB.Where(P).First\<close>: the row of the least identifier\<close>
  "first_user P d = (case sort_key u_Id (filter P (db_users d)) of [] \<Rightarrow> None | u # _ \<Rightarrow> Some u)"

definition GetMaxUserId :: "db \<Rightarrow> int" where
  \<comment> \<open>\<open>DB.Last\<close>: the row of the greatest identifier, the zero user for an empty table\<close>
  "GetMaxUserId d = (case rev (sort_key u_Id (db_users d)) of [] \<Rightarrow> 0 | u # _ \<Rightarrow> u_Id u)"

definition listed_user :: "User \<Rightarrow> User" where
  \<comment> \<open>the columns that the listings select\<close>
  "listed_user u = u\<lparr>u_Password := [], u_Token := [], u_GitHubId := [], u_WeChatId := [], u_VerificationCode := []\<rparr>"

definition GetAllUsers :: "int \<Rightarrow> int \<Rightarrow> db \<Rightarrow> User list" where
  \<comment> \<open>for arguments that are not negative\<close>
  "GetAllUsers startIdx num d = map listed_user (page_desc u_Id startIdx num (db_users d))"

definition QueryUsers :: "int \<Rightarrow> int \<Rightarrow> db \<Rightarrow> User list \<times> int" where
  "QueryUsers startIdx num d =
    (let startIdx = (if startIdx < 0 then 0 else startIdx); num = (if num \<le> 0 then ItemsPerPage else num)
     in (map listed_user (page_desc u_Id startIdx num (db_users d)), int (length (db_users d))))"

definition SearchUsers :: "(int \<Rightarrow> gostring \<Rightarrow> bool) \<Rightarrow> gostring \<Rightarrow> db \<Rightarrow> User list" where
  \<comment> \<open>\<open>same_id\<close> is how the database compares a number with a text\<close>
  "SearchUsers same_id keyword d =
    map listed_user (filter (\<lambda>u. same_id (u_Id u) keyword \<or> sql_like (keyword @ ''%'') (u_Username u)
      \<or> sql_like (keyword @ ''%'') (u_Email u) \<or> sql_like (keyword @ ''%'') (u_DisplayName u)) (db_users d))"

definition username_in_use :: "gostring \<Rightarrow> int \<Rightarrow> db \<Rightarrow> bool" where
  \<comment> \<open>the unique index: another row has the name\<close>
  "username_in_use name uid d = list_ex (\<lambda>r. u_Username r = name \<and> u_Id r \<noteq> uid) (db_users d)"

definition create_user :: "int \<Rightarrow> User \<Rightarrow> db \<Rightarrow> gw_error + User \<times> db" where
  \<comment> \<open>\<open>DB.Create\<close>; \<open>nid\<close> is the identifier that the database hands out\<close>
  "create_user nid user d =
    (let uid = (if u_Id user = 0 then nid else u_Id user);
         user = user\<lparr>u_Id := uid, u_Role := (if u_Role user = 0 then 1 else u_Role user),
                     u_Status := (if u_Status user = 0 then 1 else u_Status user)\<rparr>
     in if list_ex (\<lambda>r. u_Username r = u_Username user \<or> u_Id r = uid) (db_users d) then Inl ErrDb
        else Inr (user, d\<lparr>db_users := db_users d @ [user\<lparr>u_VerificationCode := []\<rparr>]\<rparr>))"

definition over :: "'a \<Rightarrow> 'a \<Rightarrow> 'a \<Rightarrow> 'a" where
  \<comment> \<open>a column under an update by a field, with the zero of its type\<close>
  "over zero new old = (if new = zero then old else new)"

definition merge_user :: "User \<Rightarrow> User \<Rightarrow> User" where
  "merge_user u r = r\<lparr>u_Username := over [] (u_Username u) (u_Username r), u_Password := over [] (u_Password u) (u_Password r),
     u_DisplayName := over [] (u_DisplayName u) (u_DisplayName r), u_Role := over 0 (u_Role u) (u_Role r),
     u_Status := over 0 (u_Status u) (u_Status r), u_Token := over [] (u_Token u) (u_Token r),
     u_Email := over [] (u_Email u) (u_Email r), u_GitHubId := over [] (u_GitHubId u) (u_GitHubId r),
     u_WeChatId := over [] (u_WeChatId u) (u_WeChatId r)\<rparr>"

definition updates_user :: "User \<Rightarrow> db \<Rightarrow> gw_error + db" where
  \<comment> \<open>\<open>DB.Model(user).Updates(user)\<close>: no primary key is \<open>ErrMissingWhereClause\<close>\<close>
  "updates_user user d =
    (if u_Id user = 0 then Inl ErrDb
     else if u_Username user \<noteq> [] \<and> list_ex (\<lambda>r. u_Id r = u_Id user) (db_users d) \<and> username_in_use (u_Username user) (u_Id user) d
       then Inl ErrDb
     else Inr (d\<lparr>db_users := row_update (\<lambda>r. u_Id r = u_Id user) (merge_user user) (db_users d)\<rparr>))"

record crypto =
  cr_hash :: "gostring \<Rightarrow> gostring option"
  cr_match :: "gostring \<Rightarrow> gostring \<Rightarrow> bool"

definition Password2Hash :: "crypto \<Rightarrow> gostring \<Rightarrow> gw_error + gostring" where
  "Password2Hash b password = (case cr_hash b password of None \<Rightarrow> Inl (ErrOther ''bcrypt'') | Some h \<Rightarrow> Inr h)"

definition ValidatePasswordAndHash :: "crypto \<Rightarrow> gostring \<Rightarrow> gostring \<Rightarrow> bool" where
  "ValidatePasswordAndHash b password hash = cr_match b hash password"

definition User_Insert :: "crypto \<Rightarrow> int \<Rightarrow> User \<Rightarrow> db \<Rightarrow> gw_error + User \<times> db" where
  "User_Insert b nid user d =
    (if u_Password user \<noteq> [] then
       (case Password2Hash b (u_Password user) of
          Inl e \<Rightarrow> Inl e
        | Inr h \<Rightarrow> create_user nid (user\<lparr>u_Password := h\<rparr>) d)
     else create_user nid user d)"

definition User_Update :: "crypto \<Rightarrow> bool \<Rightarrow> User \<Rightarrow> db \<Rightarrow> gw_error + db" where
  "User_Update b updatePassword user d =
    (if updatePassword then
       (case Password2Hash b (u_Password user) of
          Inl e \<Rightarrow> Inl e
        | Inr h \<Rightarrow> updates_user (user\<lparr>u_Password := h\<rparr>) d)
     else updates_user user d)"

definition User_Delete :: "User \<Rightarrow> db \<Rightarrow> gw_error + db" where
  "User_Delete user d =
    (if u_Id user = 0 then Inl ErrEmptyId
     else Inr (d\<lparr>db_users := row_delete (\<lambda>r. u_Id r = u_Id user) (db_users d)\<rparr>))"

definition DeleteUserById :: "int \<Rightarrow> db \<Rightarrow> gw_error + db" where
  "DeleteUserById uid d = (if uid = 0 then Inl ErrEmptyId else User_Delete (zero_user\<lparr>u_Id := uid\<rparr>) d)"

definition fill_user :: "(User \<Rightarrow> bool) \<Rightarrow> User \<Rightarrow> db \<Rightarrow> User" where
  \<comment> \<open>\<open>DB.Where(P).First(user)\<close> with the error dropped: a user not found is left as it is\<close>
  "fill_user P user d =
    (case first_user P d of
       Some row \<Rightarrow> row\<lparr>u_VerificationCode := u_VerificationCode user\<rparr>
     | None \<Rightarrow> user)"

definition ValidateAndFill :: "crypto \<Rightarrow> User \<Rightarrow> db \<Rightarrow> gw_error + User" where
  "ValidateAndFill b user d =
    (let password = u_Password user
     in if u_Username user = [] \<or> password = [] then Inl ErrEmptyCredentials
        else let user = fill_user (\<lambda>r. u_Username r = u_Username user) user d
          in if \<not> ValidatePasswordAndHash b password (u_Password user) \<or> u_Status user \<noteq> UserStatusEnabled then Inl ErrBadCredentials
             else Inr user)"

definition FillUserById :: "User \<Rightarrow> db \<Rightarrow> gw_error + User" where
  "FillUserById user d = (if u_Id user = 0 then Inl ErrEmptyId else Inr (fill_user (\<lambda>r. u_Id r = u_Id user) user d))"

definition FillUserByEmail :: "User \<Rightarrow> db \<Rightarrow> gw_error + User" where
  \<comment> \<open>a primary key in the destination is a condition of its own\<close>
  "FillUserByEmail user d =
    (if u_Email user = [] then Inl (ErrOther ''email'')
     else Inr (fill_user (\<lambda>r. u_Email r = u_Email user \<and> (u_Id user \<noteq> 0 \<longrightarrow> u_Id r = u_Id user)) user d))"

definition FillUserByGitHubId :: "User \<Rightarrow> db \<Rightarrow> gw_error + User" where
  "FillUserByGitHubId user d =
    (if u_GitHubId user = [] then Inl (ErrOther ''GitHub id'')
     else Inr (fill_user (\<lambda>r. u_GitHubId r = u_GitHubId user \<and> (u_Id user \<noteq> 0 \<longrightarrow> u_Id r = u_Id user)) user d))"

definition FillUserByWeChatId :: "User \<Rightarrow> db \<Rightarrow> gw_error + User" where
  "FillUserByWeChatId user d =
    (if u_WeChatId user = [] then Inl (ErrOther ''WeChat id'')
     else Inr (fill_user (\<lambda>r. u_WeChatId r = u_WeChatId user \<and> (u_Id user \<noteq> 0 \<longrightarrow> u_Id r = u_Id user)) user d))"

definition FillUserByUsername :: "User \<Rightarrow> db \<Rightarrow> gw_error + User" where
  "FillUserByUsername user d =
    (if u_Username user = [] then Inl (ErrOther ''username'')
     else Inr (fill_user (\<lambda>r. u_Username r = u_Username user \<and> (u_Id user \<noteq> 0 \<longrightarrow> u_Id r = u_Id user)) user d))"

fun replace_first :: "gostring \<Rightarrow> gostring \<Rightarrow> gostring \<Rightarrow> gostring" where
  \<comment> \<open>\<open>strings.Replace(s, old, new, 1)\<close>\<close>
  "replace_first s old new =
    (case StrIndex s old of None \<Rightarrow> s | Some i \<Rightarrow> take i s @ new @ drop (i + length old) s)"

definition ValidateUserToken :: "gostring \<Rightarrow> db \<Rightarrow> User option" where
  "ValidateUserToken token d =
    (if token = [] then None
     else let token = replace_first token ''Bearer '' [] in first_user (\<lambda>r. u_Token r = token) d)"

definition IsEmailAlreadyTaken :: "gostring \<Rightarrow> db \<Rightarrow> bool" where
  "IsEmailAlreadyTaken email d = list_ex (\<lambda>r. u_Email r = email) (db_users d)"

definition IsWeChatIdAlreadyTaken :: "gostring \<Rightarrow> db \<Rightarrow> bool" where
  "IsWeChatIdAlreadyTaken wechatId d = list_ex (\<lambda>r. u_WeChatId r = wechatId) (db_users d)"

definition IsGitHubIdAlreadyTaken :: "gostring \<Rightarrow> db \<Rightarrow> bool" where
  "IsGitHubIdAlreadyTaken githubId d = list_ex (\<lambda>r. u_GitHubId r = githubId) (db_users d)"

definition IsUsernameAlreadyTaken :: "gostring \<Rightarrow> db \<Rightarrow> bool" where
  "IsUsernameAlreadyTaken username d = list_ex (\<lambda>r. u_Username r = username) (db_users d)"

definition ResetUserPasswordByEmail :: "crypto \<Rightarrow> gostring \<Rightarrow> gostring \<Rightarrow> db \<Rightarrow> gw_error + db" where
  "ResetUserPasswordByEmail b email password d =
    (if email = [] \<or> password = [] then Inl ErrEmptyCredentials
     else case Password2Hash b password of
       Inl e \<Rightarrow> Inl e
     | Inr hashedPassword \<Rightarrow> Inr (d\<lparr>db_users := row_update (\<lambda>r. u_Email r = email) (\<lambda>r. r\<lparr>u_Password := hashedPassword\<rparr>) (db_users d)\<rparr>))"

definition createRootAccountIfNeed :: "crypto \<Rightarrow> int \<Rightarrow> db \<Rightarrow> gw_error + db" where
  "createRootAccountIfNeed b nid d =
    (case first_user (\<lambda>_. True) d of
       Some _ \<Rightarrow> Inr d
     | None \<Rightarrow>
         (case Password2Hash b ''123456'' of
            Inl e \<Rightarrow> Inl e
          | Inr hashedPassword \<Rightarrow>
              (case create_user nid (zero_user\<lparr>u_Username := ''root'', u_Password := hashedPassword, u_Role := RoleRootUser,
                 u_Status := UserStatusEnabled, u_DisplayName := ''Root User''\<rparr>) d of
                 Inl e \<Rightarrow> Inr d
               | Inr (_, d) \<Rightarrow> Inr d)))"

subsection \<open>Sessions and the guards of a route\<close>

record session_user =
  s_id :: int
  s_username :: gostring
  s_role :: int
  s_status :: int

record auth_context =
  ac_id :: int
  ac_username :: gostring
  ac_role :: int
  ac_authByToken :: bool

datatype auth_denial = NotLoggedIn | TokenInvalid | UserBanned | RoleTooLow | TokenNotAllowed | TokenRequired

definition authHelper :: "int \<Rightarrow> session_user option \<Rightarrow> gostring \<Rightarrow> db \<Rightarrow> auth_denial + auth_context" where
  \<comment> \<open>\<open>session\<close> holds what \<open>setupLogin\<close> stored; \<open>authorization\<close> is the header, empty when missing\<close>
  "authHelper minRole session authorization d =
    (case (case session of
             Some s \<Rightarrow> Inr (s, False)
           | None \<Rightarrow>
               if authorization = [] then Inl NotLoggedIn
               else (case ValidateUserToken authorization d of
                       Some user \<Rightarrow>
                         if u_Username user \<noteq> [] then
                           Inr (\<lparr>s_id = u_Id user, s_username = u_Username user, s_role = u_Role user, s_status = u_Status user\<rparr>, True)
                         else Inl TokenInvalid
                     | None \<Rightarrow> Inl TokenInvalid)) of
       Inl e \<Rightarrow> Inl e
     | Inr (s, authByToken) \<Rightarrow>
         if s_status s = UserStatusDisabled then Inl UserBanned
         else if s_role s < minRole then Inl RoleTooLow
         else Inr \<lparr>ac_id = s_id s, ac_username = s_username s, ac_role = s_role s, ac_authByToken = authByToken\<rparr>)"

definition UserAuth :: "session_user option \<Rightarrow> gostring \<Rightarrow> db \<Rightarrow> auth_denial + auth_context" where
  "UserAuth = authHelper RoleCommonUser"

definition AdminAuth :: "session_user option \<Rightarrow> gostring \<Rightarrow> db \<Rightarrow> auth_denial + auth_context" where
  "AdminAuth = authHelper RoleAdminUser"

definition RootAuth :: "session_user option \<Rightarrow> gostring \<Rightarrow> db \<Rightarrow> auth_denial + auth_context" where
  "RootAuth = authHelper RoleRootUser"

definition NoTokenAuth :: "auth_context \<Rightarrow> auth_denial + auth_context" where
  "NoTokenAuth c = (if ac_authByToken c then Inl TokenNotAllowed else Inr c)"

definition TokenOnlyAuth :: "auth_context \<Rightarrow> auth_denial + auth_context" where
  "TokenOnlyAuth c = (if \<not> ac_authByToken c then Inl TokenRequired else Inr c)"

text \<open>
  The routes with their middlewares in the order they run. The rate limits and the Turnstile check do not look at who
  asks; their verdict is an argument of \<open>run_guards\<close>.
\<close>

datatype guard = GlobalAPI | Critical | Turnstile | NeedUser | NeedAdmin | NeedRoot | NoToken | TokenOnly

record endpoint =
  ep_Method :: gostring
  ep_Path :: gostring
  ep_Guards :: "guard list"
  ep_Handler :: gostring

definition ep :: "gostring \<Rightarrow> gostring \<Rightarrow> guard list \<Rightarrow> gostring \<Rightarrow> endpoint" where
  "ep m p gs h = \<lparr>ep_Method = m, ep_Path = p, ep_Guards = gs, ep_Handler = h\<rparr>"

definition public_endpoints :: "endpoint list" where
  "public_endpoints = [
    ep ''GET'' ''/api/status'' [GlobalAPI] ''GetStatus'',
    ep ''GET'' ''/api/notice'' [GlobalAPI] ''GetNotice'',
    ep ''GET'' ''/api/about'' [GlobalAPI] ''GetAbout'',
    ep ''GET'' ''/api/verification'' [GlobalAPI, Critical, Turnstile] ''SendEmailVerification'',
    ep ''GET'' ''/api/reset_password'' [GlobalAPI, Critical, Turnstile] ''SendPasswordResetEmail'',
    ep ''POST'' ''/api/user/reset'' [GlobalAPI, Critical] ''ResetPassword'',
    ep ''GET'' ''/api/oauth/github'' [GlobalAPI, Critical] ''GitHubOAuth'',
    ep ''GET'' ''/api/oauth/wechat'' [GlobalAPI, Critical] ''WeChatAuth'',
    ep ''GET'' ''/api/oauth/wechat/bind'' [GlobalAPI, Critical, NeedUser] ''WeChatBind'',
    ep ''GET'' ''/api/oauth/email/bind'' [GlobalAPI, Critical, NeedUser] ''EmailBind'']"

definition user_endpoints :: "endpoint list" where
  "user_endpoints = [
    ep ''POST'' ''/api/user/register'' [GlobalAPI, Critical, Turnstile] ''Register'',
    ep ''POST'' ''/api/user/login'' [GlobalAPI, Critical, Turnstile] ''Login'',
    ep ''GET'' ''/api/user/logout'' [GlobalAPI] ''Logout'',
    ep ''GET'' ''/api/user/self'' [GlobalAPI, NeedUser, NoToken] ''GetSelf'',
    ep ''PUT'' ''/api/user/self'' [GlobalAPI, NeedUser, NoToken] ''UpdateSelf'',
    ep ''DELETE'' ''/api/user/self'' [GlobalAPI, NeedUser, NoToken] ''DeleteSelf'',
    ep ''GET'' ''/api/user/token'' [GlobalAPI, NeedUser, NoToken] ''GenerateToken'',
    ep ''GET'' ''/api/user/'' [GlobalAPI, NeedAdmin, NoToken] ''GetAllUsers'',
    ep ''GET'' ''/api/user/search'' [GlobalAPI, NeedAdmin, NoToken] ''SearchUsers'',
    ep ''GET'' ''/api/user/:id'' [GlobalAPI, NeedAdmin, NoToken] ''GetUser'',
    ep ''POST'' ''/api/user/'' [GlobalAPI, NeedAdmin, NoToken] ''CreateUser'',
    ep ''POST'' ''/api/user/manage'' [GlobalAPI, NeedAdmin, NoToken] ''ManageUser'',
    ep ''PUT'' ''/api/user/'' [GlobalAPI, NeedAdmin, NoToken] ''UpdateUser'',
    ep ''DELETE'' ''/api/user/:id'' [GlobalAPI, NeedAdmin, NoToken] ''DeleteUser'']"

definition root_endpoints :: "endpoint list" where
  "root_endpoints = [
    ep ''GET'' ''/api/option/'' [GlobalAPI, NeedRoot, NoToken] ''GetOptions'',
    ep ''PUT'' ''/api/option/'' [GlobalAPI, NeedRoot, NoToken] ''UpdateOption'',
    ep ''GET'' ''/api/backup/status'' [GlobalAPI, NeedRoot, NoToken] ''GetBackupStatusHandler'',
    ep ''GET'' ''/api/backup/runs'' [GlobalAPI, NeedRoot, NoToken] ''GetBackupRunsHandler'',
    ep ''GET'' ''/api/backup/retries'' [GlobalAPI, NeedRoot, NoToken] ''GetBackupRetryQueueHandler'',
    ep ''POST'' ''/api/backup/trigger'' [GlobalAPI, NeedRoot, NoToken] ''TriggerBackupHandler'',
    ep ''POST'' ''/api/backup/restore/validate'' [GlobalAPI, NeedRoot, NoToken] ''ValidateBackupRestoreHandler'',
    ep ''POST'' ''/api/backup/restore'' [GlobalAPI, NeedRoot, NoToken] ''ExecuteBackupRestoreHandler'']"

definition provider_endpoints :: "endpoint list" where
  "provider_endpoints = [
    ep ''GET'' ''/api/provider/'' [GlobalAPI, NeedAdmin, NoToken] ''GetProviders'',
    ep ''GET'' ''/api/provider/summary'' [GlobalAPI, NeedAdmin, NoToken] ''GetProviderSummary'',
    ep ''GET'' ''/api/provider/export'' [GlobalAPI, NeedAdmin, NoToken] ''ExportProviders'',
    ep ''POST'' ''/api/provider/import'' [GlobalAPI, NeedAdmin, NoToken] ''ImportProviders'',
    ep ''GET'' ''/api/provider/checkin/summary'' [GlobalAPI, NeedAdmin, NoToken] ''GetCheckinRunSummaries'',
    ep ''GET'' ''/api/provider/checkin/messages'' [GlobalAPI, NeedAdmin, NoToken] ''GetCheckinRunMessages'',
    ep ''GET'' ''/api/provider/checkin/uncheckin'' [GlobalAPI, NeedAdmin, NoToken] ''GetUncheckinProviders'',
    ep ''POST'' ''/api/provider/checkin/run'' [GlobalAPI, NeedAdmin, NoToken] ''TriggerFullCheckinRunHandler'',
    ep ''GET'' ''/api/provider/:id'' [GlobalAPI, NeedAdmin, NoToken] ''GetProviderDetail'',
    ep ''POST'' ''/api/provider/'' [GlobalAPI, NeedAdmin, NoToken] ''CreateProvider'',
    ep ''PUT'' ''/api/provider/'' [GlobalAPI, NeedAdmin, NoToken] ''UpdateProvider'',
    ep ''DELETE'' ''/api/provider/:id'' [GlobalAPI, NeedAdmin, NoToken] ''DeleteProvider'',
    ep ''POST'' ''/api/provider/:id/sync'' [GlobalAPI, NeedAdmin, NoToken] ''SyncProviderHandler'',
    ep ''POST'' ''/api/provider/:id/checkin'' [GlobalAPI, NeedAdmin, NoToken] ''CheckinProviderHandler'',
    ep ''GET'' ''/api/provider/:id/tokens'' [GlobalAPI, NeedAdmin, NoToken] ''GetProviderTokens'',
    ep ''GET'' ''/api/provider/:id/pricing'' [GlobalAPI, NeedAdmin, NoToken] ''GetProviderPricing'',
    ep ''GET'' ''/api/provider/:id/model-alias-mapping'' [GlobalAPI, NeedAdmin, NoToken] ''GetProviderModelAliasMapping'',
    ep ''PUT'' ''/api/provider/:id/model-alias-mapping'' [GlobalAPI, NeedAdmin, NoToken] ''UpdateProviderModelAliasMapping'',
    ep ''POST'' ''/api/provider/:id/tokens'' [GlobalAPI, NeedAdmin, NoToken] ''CreateProviderToken'',
    ep ''PUT'' ''/api/provider/token/:token_id'' [GlobalAPI, NeedAdmin, NoToken] ''UpdateProviderToken'',
    ep ''DELETE'' ''/api/provider/token/:token_id'' [GlobalAPI, NeedAdmin, NoToken] ''DeleteProviderToken'']"

definition plugin_endpoints :: "endpoint list" where
  "plugin_endpoints = [
    ep ''GET'' ''/api/plugin/provider/'' [GlobalAPI, NeedAdmin, TokenOnly] ''GetProviders'',
    ep ''POST'' ''/api/plugin/provider/'' [GlobalAPI, NeedAdmin, TokenOnly] ''CreateProvider'',
    ep ''PUT'' ''/api/plugin/provider/'' [GlobalAPI, NeedAdmin, TokenOnly] ''UpdateProvider'',
    ep ''GET'' ''/api/plugin/provider/export'' [GlobalAPI, NeedAdmin, TokenOnly] ''ExportProviders'',
    ep ''POST'' ''/api/plugin/provider/import'' [GlobalAPI, NeedAdmin, TokenOnly] ''ImportProviders'',
    ep ''GET'' ''/api/plugin/provider/:id'' [GlobalAPI, NeedAdmin, TokenOnly] ''GetProviderDetail'',
    ep ''POST'' ''/api/plugin/provider/:id/sync'' [GlobalAPI, NeedAdmin, TokenOnly] ''SyncProviderHandler'',
    ep ''GET'' ''/api/plugin/provider/:id/tokens'' [GlobalAPI, NeedAdmin, TokenOnly] ''GetProviderTokens'',
    ep ''GET'' ''/api/plugin/provider/:id/pricing'' [GlobalAPI, NeedAdmin, TokenOnly] ''GetProviderPricing'',
    ep ''GET'' ''/api/plugin/provider/:id/model-alias-mapping'' [GlobalAPI, NeedAdmin, TokenOnly] ''GetProviderModelAliasMapping'',
    ep ''PUT'' ''/api/plugin/provider/:id/model-alias-mapping'' [GlobalAPI, NeedAdmin, TokenOnly] ''UpdateProviderModelAliasMapping'',
    ep ''POST'' ''/api/plugin/provider/:id/tokens'' [GlobalAPI, NeedAdmin, TokenOnly] ''CreateProviderToken'',
    ep ''PUT'' ''/api/plugin/provider/token/:token_id'' [GlobalAPI, NeedAdmin, TokenOnly] ''UpdateProviderToken'',
    ep ''DELETE'' ''/api/plugin/provider/token/:token_id'' [GlobalAPI, NeedAdmin, TokenOnly] ''DeleteProviderToken'']"

definition aggtoken_endpoints :: "endpoint list" where
  "aggtoken_endpoints = [
    ep ''GET'' ''/api/agg-token/'' [GlobalAPI, NeedUser, NoToken] ''GetAggTokens'',
    ep ''POST'' ''/api/agg-token/'' [GlobalAPI, NeedUser, NoToken] ''CreateAggToken'',
    ep ''PUT'' ''/api/agg-token/'' [GlobalAPI, NeedUser, NoToken] ''UpdateAggToken'',
    ep ''DELETE'' ''/api/agg-token/:id'' [GlobalAPI, NeedUser, NoToken] ''DeleteAggToken'']"

definition route_endpoints :: "endpoint list" where
  "route_endpoints = [
    ep ''GET'' ''/api/route/'' [GlobalAPI, NeedAdmin, NoToken] ''GetModelRoutes'',
    ep ''GET'' ''/api/route/overview'' [GlobalAPI, NeedAdmin, NoToken] ''GetModelRouteOverview'',
    ep ''GET'' ''/api/route/models'' [GlobalAPI, NeedAdmin, NoToken] ''GetAllModels'',
    ep ''PUT'' ''/api/route/:id'' [GlobalAPI, NeedAdmin, NoToken] ''UpdateRoute'',
    ep ''POST'' ''/api/route/batch-update'' [GlobalAPI, NeedAdmin, NoToken] ''BatchUpdateRoutes'',
    ep ''POST'' ''/api/route/rebuild'' [GlobalAPI, NeedAdmin, NoToken] ''RebuildRoutes'']"

definition log_endpoints :: "endpoint list" where
  "log_endpoints = [
    ep ''GET'' ''/api/log/self'' [GlobalAPI, NeedUser, NoToken] ''GetSelfLogs'',
    ep ''GET'' ''/api/log/'' [GlobalAPI, NeedAdmin, NoToken] ''GetAllLogs'',
    ep ''GET'' ''/api/dashboard'' [GlobalAPI, NeedAdmin] ''GetDashboard'']"

definition api_endpoints :: "endpoint list" where
  "api_endpoints = public_endpoints @ user_endpoints @ root_endpoints @ provider_endpoints @ plugin_endpoints
     @ aggtoken_endpoints @ route_endpoints @ log_endpoints"

datatype guard_result = Blocked guard | Denied auth_denial | Passed "auth_context option"

fun run_guards :: "(guard \<Rightarrow> bool) \<Rightarrow> guard list \<Rightarrow> auth_context option \<Rightarrow> session_user option \<Rightarrow> gostring \<Rightarrow> db \<Rightarrow> guard_result" where
  \<comment> \<open>the chain of middlewares, with the identity they have stored in the context so far\<close>
  "run_guards lets [] c session authorization d = Passed c"
| "run_guards lets (g # gs) c session authorization d =
    (let continue = (\<lambda>r. case r of Inl e \<Rightarrow> Denied e | Inr c \<Rightarrow> run_guards lets gs (Some c) session authorization d)
     in case g of
       NeedUser \<Rightarrow> continue (UserAuth session authorization d)
     | NeedAdmin \<Rightarrow> continue (AdminAuth session authorization d)
     | NeedRoot \<Rightarrow> continue (RootAuth session authorization d)
     | NoToken \<Rightarrow> (case c of None \<Rightarrow> run_guards lets gs c session authorization d | Some x \<Rightarrow> continue (NoTokenAuth x))
     | TokenOnly \<Rightarrow> (case c of None \<Rightarrow> Denied TokenRequired | Some x \<Rightarrow> continue (TokenOnlyAuth x))
     | _ \<Rightarrow> if lets g then run_guards lets gs c session authorization d else Blocked g)"

subsection \<open>The Turnstile check\<close>

record turnstile_world =
  tw_checked :: bool
  tw_saves :: bool

definition TurnstileCheck ::
  "bool \<Rightarrow> (gostring \<Rightarrow> gostring option) \<Rightarrow> gostring \<Rightarrow> turnstile_world \<Rightarrow> bool \<times> turnstile_world" where
  \<comment> \<open>whether the handler runs; the second argument is the answer of the verification service to a response\<close>
  "TurnstileCheck turnstileCheckEnabled siteverify response w =
    (if turnstileCheckEnabled then
       (if tw_checked w then (True, w)
        else if response = [] then (False, w)
        else case siteverify response of
          None \<Rightarrow> (False, w)
        | Some raw \<Rightarrow>
            (case ShouldBindJSON (dec_struct (\<lambda>m. struct_field dec_bool ''success'' m)) raw False of
               None \<Rightarrow> (False, w)
             | Some success \<Rightarrow>
                 if \<not> success then (False, w)
                 else if tw_saves w then (True, w\<lparr>tw_checked := True\<rparr>)
                 else (True, w)))
     else (True, w))"

subsection \<open>What passing the guards means\<close>

definition public_path :: "gostring \<Rightarrow> bool" where
  "public_path p \<longleftrightarrow> p \<in> {''/api/status'', ''/api/notice'', ''/api/about'', ''/api/verification'', ''/api/reset_password'', ''/api/user/reset'',
     ''/api/oauth/github'', ''/api/oauth/wechat'', ''/api/user/register'', ''/api/user/login'', ''/api/user/logout''}"

definition least_role :: "gostring \<Rightarrow> int" where
  \<comment> \<open>everything that is not listed is for administrators\<close>
  "least_role p =
    (if HasPrefix p ''/api/option/'' \<or> HasPrefix p ''/api/backup/'' then RoleRootUser
     else if HasPrefix p ''/api/agg-token/'' \<or> p \<in> {''/api/user/self'', ''/api/user/token'', ''/api/log/self'',
       ''/api/oauth/wechat/bind'', ''/api/oauth/email/bind''} then RoleCommonUser
     else RoleAdminUser)"

definition token_path :: "gostring \<Rightarrow> bool" where
  \<comment> \<open>where an access token may stand for a session\<close>
  "token_path p \<longleftrightarrow> HasPrefix p ''/api/plugin/'' \<or> p \<in> {''/api/dashboard'', ''/api/oauth/wechat/bind'', ''/api/oauth/email/bind''}"

definition identity :: "session_user option \<Rightarrow> gostring \<Rightarrow> db \<Rightarrow> auth_context \<Rightarrow> bool" where
  \<comment> \<open>the context is the session's user, or the owner of the access token\<close>
  "identity session authorization d x =
    (case session of
       Some s \<Rightarrow> \<not> ac_authByToken x \<and> ac_id x = s_id s \<and> ac_username x = s_username s \<and> ac_role x = s_role s \<and> s_status s \<noteq> UserStatusDisabled
     | None \<Rightarrow> ac_authByToken x \<and> authorization \<noteq> [] \<and> (\<exists>u. u \<in> set (db_users d) \<and> u_Token u = replace_first authorization ''Bearer '' []
         \<and> ac_id x = u_Id u \<and> ac_username x = u_Username u \<and> ac_role x = u_Role u \<and> u_Status u \<noteq> UserStatusDisabled))"

lemma first_user_Some: "first_user P d = Some u \<Longrightarrow> u \<in> set (db_users d) \<and> P u"
proof -
  assume a: "first_user P d = Some u"
  then obtain us where "sort_key u_Id (filter P (db_users d)) = u # us" by (auto simp: first_user_def split: list.splits)
  then have "u \<in> set (sort_key u_Id (filter P (db_users d)))" by simp
  then show ?thesis by (simp only: set_sort) simp
qed

lemma first_user_None: "first_user P d = None \<longleftrightarrow> (\<forall>u \<in> set (db_users d). \<not> P u)"
proof -
  have "first_user P d = None \<longleftrightarrow> sort_key u_Id (filter P (db_users d)) = []" by (auto simp: first_user_def split: list.splits)
  also have "\<dots> \<longleftrightarrow> set (sort_key u_Id (filter P (db_users d))) = {}" by (simp only: set_empty)
  finally show ?thesis by auto
qed

lemma authHelper_Inr:
  "authHelper minRole session authorization d = Inr x \<Longrightarrow> minRole \<le> ac_role x \<and> identity session authorization d x"
  by (auto simp: authHelper_def identity_def ValidateUserToken_def Let_def dest!: first_user_Some simp del: replace_first.simps
      split: option.splits if_splits sum.splits)

definition guards_fit :: "endpoint \<Rightarrow> bool" where
  "guards_fit e =
    (if public_path (ep_Path e) then list_all (\<lambda>g. g \<in> {GlobalAPI, Critical, Turnstile}) (ep_Guards e)
     else ep_Guards e \<in> {[GlobalAPI, NeedRoot, NoToken], [GlobalAPI, NeedAdmin, NoToken], [GlobalAPI, NeedUser, NoToken],
        [GlobalAPI, NeedAdmin, TokenOnly], [GlobalAPI, NeedAdmin], [GlobalAPI, Critical, NeedUser]}
       \<and> (NeedRoot \<in> set (ep_Guards e) \<longleftrightarrow> least_role (ep_Path e) = RoleRootUser)
       \<and> (NeedAdmin \<in> set (ep_Guards e) \<longleftrightarrow> least_role (ep_Path e) = RoleAdminUser)
       \<and> (NoToken \<notin> set (ep_Guards e) \<longrightarrow> token_path (ep_Path e)))"

lemmas endpoint_lists = public_endpoints_def user_endpoints_def root_endpoints_def provider_endpoints_def plugin_endpoints_def
  aggtoken_endpoints_def route_endpoints_def log_endpoints_def

lemma endpoints_fit: "list_all guards_fit api_endpoints"
  unfolding api_endpoints_def endpoint_lists by code_simp

lemma run_open_guards:
  "list_all (\<lambda>g. g \<in> {GlobalAPI, Critical, Turnstile}) gs \<Longrightarrow> run_guards lets gs None session authorization d = Passed c \<Longrightarrow> c = None"
  by (induction gs) (auto split: if_splits)

lemma least_role_cases: "least_role p \<in> {RoleRootUser, RoleAdminUser, RoleCommonUser}"
  by (simp add: least_role_def)

text \<open>
  C9: Behind the guards of its route an API request acts as somebody entitled to it: apart from the public
  routes, the handler runs only for the user of the session or the owner of the access token, who is not disabled and
  whose role is at least the one the route asks for (root for options and backups, user for a user's own affairs, administrator for
  the rest), and an access token is accepted on the plugin, dashboard and binding routes only.
\<close>

theorem api_access:
  assumes "e \<in> set api_endpoints" and "run_guards lets (ep_Guards e) None session authorization d = Passed c"
  shows "if public_path (ep_Path e) then c = None
    else \<exists>x. c = Some x \<and> least_role (ep_Path e) \<le> ac_role x \<and> identity session authorization d x
      \<and> (if ac_authByToken x then token_path (ep_Path e) else True)"
proof (cases "public_path (ep_Path e)")
  case True
  then show ?thesis using assms endpoints_fit run_open_guards by (auto simp: list_all_iff guards_fit_def)
next
  case False
  then have f: "guards_fit e" using assms(1) endpoints_fit by (simp add: list_all_iff)
  note roles = RoleRootUser_def RoleAdminUser_def RoleCommonUser_def
  have "\<exists>x. c = Some x \<and> authHelper (least_role (ep_Path e)) session authorization d = Inr x
      \<and> (if ac_authByToken x then NoToken \<notin> set (ep_Guards e) else True)"
    using f False assms(2) least_role_cases [of "ep_Path e"] unfolding guards_fit_def
    by (auto simp: UserAuth_def AdminAuth_def RootAuth_def NoTokenAuth_def TokenOnlyAuth_def Let_def roles split: if_splits sum.splits)
  then obtain x where "c = Some x" "authHelper (least_role (ep_Path e)) session authorization d = Inr x"
    "if ac_authByToken x then NoToken \<notin> set (ep_Guards e) else True" by blast
  then show ?thesis using f False authHelper_Inr [of "least_role (ep_Path e)" session authorization d x]
    by (auto simp: guards_fit_def)
qed

lemma api_access_witness:
  "least_role ''/api/provider/'' \<le> 10"
proof -
  let ?e = "ep ''GET'' ''/api/provider/'' [GlobalAPI, NeedAdmin, NoToken] ''GetProviders''"
  let ?s = "\<lparr>s_id = 2, s_username = ''ann'', s_role = 10, s_status = 1\<rparr>"
  let ?d = "\<lparr>db_providers = [], db_tokens = [], db_routes = [], db_pricings = [], db_aggtokens = [], db_users = [], db_logs = []\<rparr>"
  have e: "?e \<in> set api_endpoints" by (simp add: api_endpoints_def provider_endpoints_def)
  have p: "\<not> public_path ''/api/provider/''" by (simp add: public_path_def)
  have r: "run_guards (\<lambda>_. True) (ep_Guards ?e) None (Some ?s) [] ?d
      = Passed (Some \<lparr>ac_id = 2, ac_username = ''ann'', ac_role = 10, ac_authByToken = False\<rparr>)"
    by (simp add: ep_def AdminAuth_def authHelper_def NoTokenAuth_def RoleAdminUser_def UserStatusDisabled_def)
  show ?thesis using api_access [OF e r] p by (simp add: ep_def)
qed

end
