(* ===== verification/UserHandlers.thy ===== *)
theory UserHandlers
  imports Users
begin

text \<open>
  The handlers of \<open>src/controller/user.go\<close>, \<open>misc.go\<close>, \<open>github.go\<close>, \<open>wechat.go\<close> and \<open>aggregated_token.go\<close>. A handler
  takes the request and the state and gives its answer, \<open>Inl\<close> for \<open>success: false\<close>, with the state after. The identifiers
  the database hands out, fresh UUIDs, the clock, bcrypt, the validator and the outside services are the fields of \<open>auth_env\<close>.
\<close>

subsection \<open>The state of the handlers\<close>

record auth_settings =
  as_PasswordLoginEnabled :: bool
  as_PasswordRegisterEnabled :: bool
  as_EmailVerificationEnabled :: bool
  as_GitHubOAuthEnabled :: bool
  as_WeChatAuthEnabled :: bool
  as_RegisterEnabled :: bool
  as_GitHubClientId :: gostring
  as_GitHubClientSecret :: gostring
  as_WeChatServerAddress :: gostring
  as_WeChatServerToken :: gostring
  as_ServerAddress :: gostring

record auth_env =
  ae_crypto :: crypto
  ae_validate :: "User \<Rightarrow> gostring option"
  ae_valid_email :: "gostring \<Rightarrow> bool"
  ae_new_id :: int
  ae_uuid :: gostring
  ae_now :: gotime
  ae_save_error :: "gostring option"
  ae_send_error :: "gostring option"
  ae_github_token :: "gostring \<times> gostring \<times> gostring \<Rightarrow> gostring option"
  ae_github_user :: "gostring \<Rightarrow> gostring option"
  ae_wechat_get :: "gostring \<Rightarrow> gostring \<Rightarrow> gw_error + gostring"

record auth_world =
  aw_db :: db
  aw_codes :: "(gostring, verificationValue) gomap"
  aw_session :: "session_user option"
  aw_mails :: "(gostring \<times> gostring) list"

definition bad_request :: gw_error where "bad_request = ErrOther ''invalid parameters''"
definition forbidden :: gw_error where "forbidden = ErrOther ''no permission''"
definition registration_closed :: gw_error where "registration_closed = ErrOther ''registration is closed''"

definition store_db :: "gw_error + db \<Rightarrow> auth_world \<Rightarrow> (gw_error + unit) \<times> auth_world" where
  \<comment> \<open>an error of the database answers its text, success an empty answer\<close>
  "store_db r w = (case r of Inl e \<Rightarrow> (Inl e, w) | Inr d \<Rightarrow> (Inr (), w\<lparr>aw_db := d\<rparr>))"

subsection \<open>Signing in and out\<close>

definition setupLogin :: "auth_env \<Rightarrow> User \<Rightarrow> auth_world \<Rightarrow> (gw_error + User) \<times> auth_world" where
  "setupLogin env user w =
    (case ae_save_error env of
       Some _ \<Rightarrow> (Inl (ErrOther ''cannot save the session''), w)
     | None \<Rightarrow>
         (Inr (zero_user\<lparr>u_Id := u_Id user, u_Username := u_Username user, u_DisplayName := u_DisplayName user,
                         u_Role := u_Role user, u_Status := u_Status user\<rparr>),
          w\<lparr>aw_session := Some \<lparr>s_id = u_Id user, s_username = u_Username user, s_role = u_Role user, s_status = u_Status user\<rparr>\<rparr>))"

definition dec_login :: "(gostring \<times> gostring) decoder" where
  "dec_login = dec_struct (\<lambda>m z. do {
     a \<leftarrow> struct_field dec_string ''username'' m (fst z);
     b \<leftarrow> struct_field dec_string ''password'' m (snd z);
     Some (a, b)})"

definition Login :: "auth_env \<Rightarrow> auth_settings \<Rightarrow> gostring \<Rightarrow> auth_world \<Rightarrow> (gw_error + User) \<times> auth_world" where
  "Login env st body w =
    (if \<not> as_PasswordLoginEnabled st then (Inl (ErrOther ''password login is off''), w)
     else case ShouldBindJSON dec_login body ([], []) of
       None \<Rightarrow> (Inl bad_request, w)
     | Some (username, password) \<Rightarrow>
         if username = [] \<or> password = [] then (Inl bad_request, w)
         else (case ValidateAndFill (ae_crypto env) (zero_user\<lparr>u_Username := username, u_Password := password\<rparr>) (aw_db w) of
                 Inl e \<Rightarrow> (Inl e, w)
               | Inr user \<Rightarrow> setupLogin env user w))"

definition Logout :: "auth_env \<Rightarrow> auth_world \<Rightarrow> (gw_error + unit) \<times> auth_world" where
  "Logout env w =
    (case ae_save_error env of
       Some e \<Rightarrow> (Inl (ErrOther e), w)
     | None \<Rightarrow> (Inr (), w\<lparr>aw_session := None\<rparr>))"

definition Register :: "auth_env \<Rightarrow> auth_settings \<Rightarrow> gostring \<Rightarrow> auth_world \<Rightarrow> (gw_error + unit) \<times> auth_world" where
  "Register env st body w =
    (if \<not> as_RegisterEnabled st then (Inl registration_closed, w)
     else if \<not> as_PasswordRegisterEnabled st then (Inl (ErrOther ''password registration is closed''), w)
     else case ShouldBindJSON dec_user body zero_user of
       None \<Rightarrow> (Inl bad_request, w)
     | Some user \<Rightarrow>
         (case ae_validate env user of
            Some e \<Rightarrow> (Inl (ErrOther e), w)
          | None \<Rightarrow>
              if as_EmailVerificationEnabled st \<and> (u_Email user = [] \<or> u_VerificationCode user = []) then (Inl bad_request, w)
              else if as_EmailVerificationEnabled st
                \<and> \<not> VerifyCodeWithKey (ae_now env) (u_Email user) (u_VerificationCode user) EmailVerificationPurpose (aw_codes w)
                then (Inl (ErrOther ''wrong or expired code''), w)
              else
                let cleanUser = zero_user\<lparr>u_Username := u_Username user, u_Password := u_Password user, u_DisplayName := u_Username user\<rparr>;
                    cleanUser = (if as_EmailVerificationEnabled st then cleanUser\<lparr>u_Email := u_Email user\<rparr> else cleanUser)
                in store_db (map_sum id snd (User_Insert (ae_crypto env) (ae_new_id env) cleanUser (aw_db w))) w))"

subsection \<open>Reading accounts\<close>

definition GetAllUsers_handler :: "gostring option \<Rightarrow> gostring option \<Rightarrow> auth_world \<Rightarrow> User paginated" where
  "GetAllUsers_handler qp qsize w =
    (let pagination = parsePaginationParams qp qsize; (users, total) = QueryUsers (pg_Offset pagination) (pg_PageSize pagination) (aw_db w)
     in buildPaginatedData users pagination total)"

definition SearchUsers_handler :: "(int \<Rightarrow> gostring \<Rightarrow> bool) \<Rightarrow> gostring \<Rightarrow> auth_world \<Rightarrow> User list" where
  "SearchUsers_handler same_id keyword w = SearchUsers same_id keyword (aw_db w)"

definition GetUser :: "auth_context \<Rightarrow> gostring \<Rightarrow> auth_world \<Rightarrow> gw_error + User" where
  "GetUser c param w =
    (case Atoi param of
       None \<Rightarrow> Inl bad_request
     | Some uid \<Rightarrow>
         (case GetUserById uid False (aw_db w) of
            Inl e \<Rightarrow> Inl e
          | Inr user \<Rightarrow> if ac_role c \<le> u_Role user then Inl forbidden else Inr user))"

definition GetSelf :: "auth_context \<Rightarrow> auth_world \<Rightarrow> gw_error + User" where
  "GetSelf c w = GetUserById (ac_id c) False (aw_db w)"

definition GenerateToken :: "auth_env \<Rightarrow> auth_context \<Rightarrow> auth_world \<Rightarrow> (gw_error + gostring) \<times> auth_world" where
  \<comment> \<open>the search for the token goes into the loaded user, whose primary key GORM adds to the conditions\<close>
  "GenerateToken env c w =
    (case GetUserById (ac_id c) True (aw_db w) of
       Inl e \<Rightarrow> (Inl e, w)
     | Inr user \<Rightarrow>
         let user = user\<lparr>u_Token := filter (\<lambda>ch. ch \<noteq> CHR ''-'') (ae_uuid env)\<rparr>
         in if first_user (\<lambda>r. u_Token r = u_Token user \<and> u_Id r = u_Id user) (aw_db w) \<noteq> None then (Inl (ErrOther ''try again''), w)
            else (case User_Update (ae_crypto env) False user (aw_db w) of
                    Inl e \<Rightarrow> (Inl e, w)
                  | Inr d \<Rightarrow> (Inr (u_Token user), w\<lparr>aw_db := d\<rparr>)))"

subsection \<open>Changing accounts\<close>

definition placeholder_password :: gostring where "placeholder_password = ''$I_LOVE_U''"

definition UpdateUser :: "auth_env \<Rightarrow> auth_context \<Rightarrow> gostring \<Rightarrow> auth_world \<Rightarrow> (gw_error + unit) \<times> auth_world" where
  "UpdateUser env c body w =
    (case ShouldBindJSON dec_user body zero_user of
       None \<Rightarrow> (Inl bad_request, w)
     | Some updatedUser \<Rightarrow>
         if u_Id updatedUser = 0 then (Inl bad_request, w)
         else let updatedUser = (if u_Password updatedUser = [] then updatedUser\<lparr>u_Password := placeholder_password\<rparr> else updatedUser) in
           (case ae_validate env updatedUser of
              Some e \<Rightarrow> (Inl (ErrOther e), w)
            | None \<Rightarrow>
                (case GetUserById (u_Id updatedUser) False (aw_db w) of
                   Inl e \<Rightarrow> (Inl e, w)
                 | Inr originUser \<Rightarrow>
                     if ac_role c \<le> u_Role originUser then (Inl forbidden, w)
                     else if ac_role c \<le> u_Role updatedUser then (Inl forbidden, w)
                     else let updatedUser = (if u_Password updatedUser = placeholder_password then updatedUser\<lparr>u_Password := []\<rparr> else updatedUser);
                              updatePassword = (u_Password updatedUser \<noteq> [])
                       in store_db (User_Update (ae_crypto env) updatePassword updatedUser (aw_db w)) w)))"

definition UpdateSelf :: "auth_env \<Rightarrow> auth_context \<Rightarrow> gostring \<Rightarrow> auth_world \<Rightarrow> (gw_error + unit) \<times> auth_world" where
  "UpdateSelf env c body w =
    (case ShouldBindJSON dec_user body zero_user of
       None \<Rightarrow> (Inl bad_request, w)
     | Some user \<Rightarrow>
         let user = (if u_Password user = [] then user\<lparr>u_Password := placeholder_password\<rparr> else user) in
         (case ae_validate env user of
            Some e \<Rightarrow> (Inl (ErrOther e), w)
          | None \<Rightarrow>
              let cleanUser = zero_user\<lparr>u_Id := ac_id c, u_Username := u_Username user, u_Password := u_Password user, u_DisplayName := u_DisplayName user\<rparr>;
                  cleanUser = (if u_Password user = placeholder_password then cleanUser\<lparr>u_Password := []\<rparr> else cleanUser);
                  updatePassword = (u_Password user \<noteq> placeholder_password)
              in store_db (User_Update (ae_crypto env) updatePassword cleanUser (aw_db w)) w))"

definition DeleteUser :: "auth_context \<Rightarrow> gostring \<Rightarrow> auth_world \<Rightarrow> (gw_error + unit) \<times> auth_world" where
  \<comment> \<open>the branch of a failed deletion answers success too\<close>
  "DeleteUser c param w =
    (case Atoi param of
       None \<Rightarrow> (Inl bad_request, w)
     | Some uid \<Rightarrow>
         (case GetUserById uid False (aw_db w) of
            Inl e \<Rightarrow> (Inl e, w)
          | Inr originUser \<Rightarrow>
              if ac_role c \<le> u_Role originUser then (Inl forbidden, w)
              else (case DeleteUserById uid (aw_db w) of
                      Inl e \<Rightarrow> (Inr (), w)
                    | Inr d \<Rightarrow> (Inr (), w\<lparr>aw_db := d\<rparr>))))"

definition DeleteSelf :: "auth_context \<Rightarrow> auth_world \<Rightarrow> (gw_error + unit) \<times> auth_world" where
  "DeleteSelf c w = store_db (DeleteUserById (ac_id c) (aw_db w)) w"

definition CreateUser :: "auth_env \<Rightarrow> auth_context \<Rightarrow> gostring \<Rightarrow> auth_world \<Rightarrow> (gw_error + unit) \<times> auth_world" where
  "CreateUser env c body w =
    (case ShouldBindJSON dec_user body zero_user of
       None \<Rightarrow> (Inl bad_request, w)
     | Some user \<Rightarrow>
         if u_Username user = [] \<or> u_Password user = [] then (Inl bad_request, w)
         else let user = (if u_DisplayName user = [] then user\<lparr>u_DisplayName := u_Username user\<rparr> else user) in
           if u_Role user \<ge> ac_role c then (Inl forbidden, w)
           else store_db (map_sum id snd (User_Insert (ae_crypto env) (ae_new_id env)
                  (zero_user\<lparr>u_Username := u_Username user, u_Password := u_Password user, u_DisplayName := u_DisplayName user\<rparr>) (aw_db w))) w)"

datatype manage_step = Refuse gw_error | Go User db

definition manage_action :: "int \<Rightarrow> gostring \<Rightarrow> User \<Rightarrow> db \<Rightarrow> manage_step" where
  \<comment> \<open>the switch over the action; an action it does not know falls through\<close>
  "manage_action myRole action user d =
    (if action = ''disable'' then
       (if u_Role user = RoleRootUser then Refuse forbidden else Go (user\<lparr>u_Status := UserStatusDisabled\<rparr>) d)
     else if action = ''enable'' then Go (user\<lparr>u_Status := UserStatusEnabled\<rparr>) d
     else if action = ''delete'' then
       (if u_Role user = RoleRootUser then Refuse forbidden
        else case User_Delete user d of Inl e \<Rightarrow> Refuse e | Inr d \<Rightarrow> Go user d)
     else if action = ''promote'' then
       (if myRole \<noteq> RoleRootUser then Refuse forbidden
        else if u_Role user \<ge> RoleAdminUser then Refuse (ErrOther ''already an administrator'')
        else Go (user\<lparr>u_Role := RoleAdminUser\<rparr>) d)
     else if action = ''demote'' then
       (if u_Role user = RoleRootUser then Refuse forbidden
        else if u_Role user = RoleCommonUser then Refuse (ErrOther ''already a common user'')
        else Go (user\<lparr>u_Role := RoleCommonUser\<rparr>) d)
     else Go user d)"

definition dec_manage :: "(gostring \<times> gostring) decoder" where
  "dec_manage = dec_struct (\<lambda>m z. do {
     a \<leftarrow> struct_field dec_string ''username'' m (fst z);
     b \<leftarrow> struct_field dec_string ''action'' m (snd z);
     Some (a, b)})"

definition ManageUser :: "auth_env \<Rightarrow> auth_context \<Rightarrow> gostring \<Rightarrow> auth_world \<Rightarrow> (gw_error + User) \<times> auth_world" where
  \<comment> \<open>an empty user name is no condition at all: the first user is taken\<close>
  "ManageUser env c body w =
    (case ShouldBindJSON dec_manage body ([], []) of
       None \<Rightarrow> (Inl bad_request, w)
     | Some (username, action) \<Rightarrow>
         let user = fill_user (\<lambda>r. username \<noteq> [] \<longrightarrow> u_Username r = username) (zero_user\<lparr>u_Username := username\<rparr>) (aw_db w) in
         if u_Id user = 0 then (Inl ErrUserMissing, w)
         else if ac_role c \<le> u_Role user \<and> ac_role c \<noteq> RoleRootUser then (Inl forbidden, w)
         else (case manage_action (ac_role c) action user (aw_db w) of
                 Refuse e \<Rightarrow> (Inl e, w)
               | Go user d \<Rightarrow>
                   (case User_Update (ae_crypto env) False user d of
                      Inl e \<Rightarrow> (Inl e, w\<lparr>aw_db := d\<rparr>)
                    | Inr d \<Rightarrow> (Inr (zero_user\<lparr>u_Role := u_Role user, u_Status := u_Status user\<rparr>), w\<lparr>aw_db := d\<rparr>))))"

subsection \<open>Mail codes\<close>

definition EmailBind :: "auth_env \<Rightarrow> auth_context \<Rightarrow> gostring \<Rightarrow> gostring \<Rightarrow> auth_world \<Rightarrow> (gw_error + unit) \<times> auth_world" where
  "EmailBind env c email code w =
    (if \<not> VerifyCodeWithKey (ae_now env) email code EmailVerificationPurpose (aw_codes w) then (Inl (ErrOther ''wrong or expired code''), w)
     else case FillUserById (zero_user\<lparr>u_Id := ac_id c\<rparr>) (aw_db w) of
       Inl e \<Rightarrow> (Inl e, w)
     | Inr user \<Rightarrow> store_db (User_Update (ae_crypto env) False (user\<lparr>u_Email := email\<rparr>) (aw_db w)) w)"

definition send_mail :: "auth_env \<Rightarrow> gostring \<Rightarrow> gostring \<Rightarrow> auth_world \<Rightarrow> (gw_error + unit) \<times> auth_world" where
  \<comment> \<open>the message is kept as its receiver and the secret in its text\<close>
  "send_mail env email secret w =
    (case ae_send_error env of
       Some e \<Rightarrow> (Inl (ErrOther e), w)
     | None \<Rightarrow> (Inr (), w\<lparr>aw_mails := aw_mails w @ [(email, secret)]\<rparr>))"

definition SendEmailVerification :: "auth_env \<Rightarrow> gostring \<Rightarrow> auth_world \<Rightarrow> (gw_error + unit) \<times> auth_world" where
  "SendEmailVerification env email w =
    (if \<not> ae_valid_email env email then (Inl bad_request, w)
     else if IsEmailAlreadyTaken email (aw_db w) then (Inl (ErrOther ''email taken''), w)
     else case GenerateVerificationCode (ae_uuid env) 6 of
       None \<Rightarrow> (Inl (ErrOther ''panic''), w)
     | Some code \<Rightarrow>
         send_mail env email code
           (w\<lparr>aw_codes := RegisterVerificationCodeWithKey (ae_now env) email code EmailVerificationPurpose (aw_codes w)\<rparr>))"

definition SendPasswordResetEmail :: "auth_env \<Rightarrow> auth_settings \<Rightarrow> gostring \<Rightarrow> auth_world \<Rightarrow> (gw_error + unit) \<times> auth_world" where
  "SendPasswordResetEmail env st email w =
    (if \<not> ae_valid_email env email then (Inl bad_request, w)
     else if \<not> IsEmailAlreadyTaken email (aw_db w) then (Inl (ErrOther ''email not registered''), w)
     else case GenerateVerificationCode (ae_uuid env) 0 of
       None \<Rightarrow> (Inl (ErrOther ''panic''), w)
     | Some code \<Rightarrow>
         send_mail env email (as_ServerAddress st @ ''/user/reset?email='' @ email @ ''&token='' @ code)
           (w\<lparr>aw_codes := RegisterVerificationCodeWithKey (ae_now env) email code PasswordResetPurpose (aw_codes w)\<rparr>))"

definition lenient_string :: "gostring \<Rightarrow> (gostring \<times> json) list \<Rightarrow> gostring" where
  \<comment> \<open>what a field holds after a call whose error is dropped: members of another type are passed over\<close>
  "lenient_string name m = fold (\<lambda>(k, v) acc. if EqualFold k name then (case v of JStr s \<Rightarrow> s | _ \<Rightarrow> acc) else acc) m []"

definition reset_request :: "gostring \<Rightarrow> gostring \<times> gostring" where
  "reset_request body =
    (case read_value (2 * length body + 2) body of
       Some (JObj m, _) \<Rightarrow> (lenient_string ''email'' m, lenient_string ''token'' m)
     | _ \<Rightarrow> ([], []))"

definition ResetPassword :: "auth_env \<Rightarrow> gostring \<Rightarrow> auth_world \<Rightarrow> (gw_error + gostring) \<times> auth_world" where
  "ResetPassword env body w =
    (let (email, token) = reset_request body
     in if email = [] \<or> token = [] then (Inl bad_request, w)
        else if \<not> VerifyCodeWithKey (ae_now env) email token PasswordResetPurpose (aw_codes w) then (Inl (ErrOther ''illegal or expired link''), w)
        else case GenerateVerificationCode (ae_uuid env) 12 of
          None \<Rightarrow> (Inl (ErrOther ''panic''), w)
        | Some password \<Rightarrow>
            (case ResetUserPasswordByEmail (ae_crypto env) email password (aw_db w) of
               Inl e \<Rightarrow> (Inl e, w)
             | Inr d \<Rightarrow> (Inr password, w\<lparr>aw_db := d, aw_codes := DeleteKey email PasswordResetPurpose (aw_codes w)\<rparr>)))"

subsection \<open>GitHub and WeChat\<close>

record GitHubUser =
  gh_Login :: gostring
  gh_Name :: gostring
  gh_Email :: gostring

definition dec_github_user :: "GitHubUser decoder" where
  "dec_github_user = dec_struct (\<lambda>m u. do {
     a \<leftarrow> struct_field dec_string ''login'' m (gh_Login u);
     b \<leftarrow> struct_field dec_string ''name'' m (gh_Name u);
     e \<leftarrow> struct_field dec_string ''email'' m (gh_Email u);
     Some \<lparr>gh_Login = a, gh_Name = b, gh_Email = e\<rparr>})"

definition dec_github_oauth :: "(gostring \<times> gostring \<times> gostring) decoder" where
  "dec_github_oauth = dec_struct (\<lambda>m z. do {
     a \<leftarrow> struct_field dec_string ''access_token'' m (fst z);
     b \<leftarrow> struct_field dec_string ''scope'' m (fst (snd z));
     e \<leftarrow> struct_field dec_string ''token_type'' m (snd (snd z));
     Some (a, b, e)})"

definition getGitHubUserInfoByCode :: "auth_env \<Rightarrow> auth_settings \<Rightarrow> gostring \<Rightarrow> gw_error + GitHubUser" where
  \<comment> \<open>\<open>ae_github_token\<close> is the answer to the client id, the client secret and the code, \<open>ae_github_user\<close> to an
     authorization header, \<open>None\<close> when there is no connection\<close>
  "getGitHubUserInfoByCode env st code =
    (if code = [] then Inl bad_request
     else case ae_github_token env (as_GitHubClientId st, as_GitHubClientSecret st, code) of
       None \<Rightarrow> Inl (ErrOther ''GitHub unreachable'')
     | Some body \<Rightarrow>
         (case ShouldBindJSON dec_github_oauth body ([], [], []) of
            None \<Rightarrow> Inl (ErrOther ''json'')
          | Some (accessToken, _) \<Rightarrow>
              (case ae_github_user env (''Bearer '' @ accessToken) of
                 None \<Rightarrow> Inl (ErrOther ''GitHub unreachable'')
               | Some body2 \<Rightarrow>
                   (case ShouldBindJSON dec_github_user body2 \<lparr>gh_Login = [], gh_Name = [], gh_Email = []\<rparr> of
                      None \<Rightarrow> Inl (ErrOther ''json'')
                    | Some githubUser \<Rightarrow>
                        if gh_Login githubUser = [] then Inl (ErrOther ''empty login'') else Inr githubUser))))"

definition GitHubBind :: "auth_env \<Rightarrow> auth_settings \<Rightarrow> gostring \<Rightarrow> auth_world \<Rightarrow> (gw_error + unit) \<times> auth_world" where
  "GitHubBind env st code w =
    (if \<not> as_GitHubOAuthEnabled st then (Inl (ErrOther ''GitHub sign-in is off''), w)
     else case getGitHubUserInfoByCode env st code of
       Inl e \<Rightarrow> (Inl e, w)
     | Inr githubUser \<Rightarrow>
         if IsGitHubIdAlreadyTaken (gh_Login githubUser) (aw_db w) then (Inl (ErrOther ''already bound''), w)
         else case aw_session w of
           None \<Rightarrow> (Inl (ErrOther ''panic''), w)
         | Some s \<Rightarrow>
             (case FillUserById (zero_user\<lparr>u_Id := s_id s, u_GitHubId := gh_Login githubUser\<rparr>) (aw_db w) of
                Inl e \<Rightarrow> (Inl e, w)
              | Inr user \<Rightarrow> store_db (User_Update (ae_crypto env) False (user\<lparr>u_GitHubId := gh_Login githubUser\<rparr>) (aw_db w)) w))"

definition sign_in :: "auth_env \<Rightarrow> User \<Rightarrow> auth_world \<Rightarrow> (gw_error + User) \<times> auth_world" where
  \<comment> \<open>the end of both ways of signing in with an outside account\<close>
  "sign_in env user w = (if u_Status user \<noteq> UserStatusEnabled then (Inl ErrUserBanned, w) else setupLogin env user w)"

definition GitHubOAuth :: "auth_env \<Rightarrow> auth_settings \<Rightarrow> gostring \<Rightarrow> auth_world \<Rightarrow> (gw_error + User option) \<times> auth_world" where
  "GitHubOAuth env st code w =
    (if aw_session w \<noteq> None then (case GitHubBind env st code w of (r, w) \<Rightarrow> (map_sum id (\<lambda>_. None) r, w))
     else if \<not> as_GitHubOAuthEnabled st then (Inl (ErrOther ''GitHub sign-in is off''), w)
     else case getGitHubUserInfoByCode env st code of
       Inl e \<Rightarrow> (Inl e, w)
     | Inr githubUser \<Rightarrow>
         let user = zero_user\<lparr>u_GitHubId := gh_Login githubUser\<rparr>;
             login = (\<lambda>user w. case sign_in env user w of (r, w) \<Rightarrow> (map_sum id Some r, w))
         in if IsGitHubIdAlreadyTaken (u_GitHubId user) (aw_db w) then
              (case FillUserByGitHubId user (aw_db w) of Inl e \<Rightarrow> (Inl e, w) | Inr user \<Rightarrow> login user w)
            else if as_RegisterEnabled st then
              (case User_Insert (ae_crypto env) (ae_new_id env)
                  (user\<lparr>u_Username := ''github_'' @ Itoa (GetMaxUserId (aw_db w) + 1),
                        u_DisplayName := (if gh_Name githubUser \<noteq> [] then gh_Name githubUser else ''GitHub User''),
                        u_Email := gh_Email githubUser, u_Role := RoleCommonUser, u_Status := UserStatusEnabled\<rparr>) (aw_db w) of
                 Inl e \<Rightarrow> (Inl e, w)
               | Inr (user, d) \<Rightarrow> login user (w\<lparr>aw_db := d\<rparr>))
            else (Inl registration_closed, w))"

definition dec_wechat :: "(bool \<times> gostring \<times> gostring) decoder" where
  "dec_wechat = dec_struct (\<lambda>m z. do {
     a \<leftarrow> struct_field dec_bool ''success'' m (fst z);
     b \<leftarrow> struct_field dec_string ''message'' m (fst (snd z));
     e \<leftarrow> struct_field dec_string ''data'' m (snd (snd z));
     Some (a, b, e)})"

definition getWeChatIdByCode :: "auth_env \<Rightarrow> auth_settings \<Rightarrow> gostring \<Rightarrow> gw_error + gostring" where
  "getWeChatIdByCode env st code =
    (if code = [] then Inl bad_request
     else case ae_wechat_get env (as_WeChatServerAddress st @ ''/api/wechat/user?code='' @ code) (as_WeChatServerToken st) of
       Inl e \<Rightarrow> Inl e
     | Inr body \<Rightarrow>
         (case ShouldBindJSON dec_wechat body (False, [], []) of
            None \<Rightarrow> Inl (ErrOther ''json'')
          | Some (success, message, wechatId) \<Rightarrow>
              if \<not> success then Inl (ErrOther message)
              else if wechatId = [] then Inl (ErrOther ''wrong or expired code'')
              else Inr wechatId))"

definition WeChatAuth :: "auth_env \<Rightarrow> auth_settings \<Rightarrow> gostring \<Rightarrow> auth_world \<Rightarrow> (gw_error + User) \<times> auth_world" where
  "WeChatAuth env st code w =
    (if \<not> as_WeChatAuthEnabled st then (Inl (ErrOther ''WeChat sign-in is off''), w)
     else case getWeChatIdByCode env st code of
       Inl e \<Rightarrow> (Inl e, w)
     | Inr wechatId \<Rightarrow>
         let user = zero_user\<lparr>u_WeChatId := wechatId\<rparr>
         in if IsWeChatIdAlreadyTaken wechatId (aw_db w) then
              (case FillUserByWeChatId user (aw_db w) of Inl e \<Rightarrow> (Inl e, w) | Inr user \<Rightarrow> sign_in env user w)
            else if as_RegisterEnabled st then
              (case User_Insert (ae_crypto env) (ae_new_id env)
                  (user\<lparr>u_Username := ''wechat_'' @ Itoa (GetMaxUserId (aw_db w) + 1), u_DisplayName := ''WeChat User'',
                        u_Role := RoleCommonUser, u_Status := UserStatusEnabled\<rparr>) (aw_db w) of
                 Inl e \<Rightarrow> (Inl e, w)
               | Inr (user, d) \<Rightarrow> sign_in env user (w\<lparr>aw_db := d\<rparr>))
            else (Inl registration_closed, w))"

definition WeChatBind :: "auth_env \<Rightarrow> auth_settings \<Rightarrow> auth_context \<Rightarrow> gostring \<Rightarrow> auth_world \<Rightarrow> (gw_error + unit) \<times> auth_world" where
  "WeChatBind env st c code w =
    (if \<not> as_WeChatAuthEnabled st then (Inl (ErrOther ''WeChat sign-in is off''), w)
     else case getWeChatIdByCode env st code of
       Inl e \<Rightarrow> (Inl e, w)
     | Inr wechatId \<Rightarrow>
         if IsWeChatIdAlreadyTaken wechatId (aw_db w) then (Inl (ErrOther ''already bound''), w)
         else case FillUserById (zero_user\<lparr>u_Id := ac_id c\<rparr>) (aw_db w) of
           Inl e \<Rightarrow> (Inl e, w)
         | Inr user \<Rightarrow> store_db (User_Update (ae_crypto env) False (user\<lparr>u_WeChatId := wechatId\<rparr>) (aw_db w)) w)"

subsection \<open>The aggregated tokens of a user\<close>

definition zero_aggtoken :: AggregatedToken where
  "zero_aggtoken = \<lparr>at_Id = 0, at_UserId = 0, at_Key = [], at_Name = [], at_Status = 0, at_ExpiredTime = 0,
     at_ModelLimitsEnabled = False, at_ModelLimits = [], at_AllowIps = [], at_CreatedAt = 0, at_AccessedAt = 0\<rparr>"

definition dec_aggtoken :: "AggregatedToken decoder" where
  "dec_aggtoken = dec_struct (\<lambda>m t. do {
     a \<leftarrow> struct_field dec_int ''id'' m (at_Id t);
     u \<leftarrow> struct_field dec_int ''user_id'' m (at_UserId t);
     k \<leftarrow> struct_field dec_string ''key'' m (at_Key t);
     n \<leftarrow> struct_field dec_string ''name'' m (at_Name t);
     s \<leftarrow> struct_field dec_int ''status'' m (at_Status t);
     e \<leftarrow> struct_field dec_int ''expired_time'' m (at_ExpiredTime t);
     b \<leftarrow> struct_field dec_bool ''model_limits_enabled'' m (at_ModelLimitsEnabled t);
     l \<leftarrow> struct_field dec_string ''model_limits'' m (at_ModelLimits t);
     i \<leftarrow> struct_field dec_string ''allow_ips'' m (at_AllowIps t);
     c \<leftarrow> struct_field dec_int ''created_at'' m (at_CreatedAt t);
     x \<leftarrow> struct_field dec_int ''accessed_at'' m (at_AccessedAt t);
     Some \<lparr>at_Id = a, at_UserId = u, at_Key = k, at_Name = n, at_Status = s, at_ExpiredTime = e,
           at_ModelLimitsEnabled = b, at_ModelLimits = l, at_AllowIps = i, at_CreatedAt = c, at_AccessedAt = x\<rparr>})"

definition GetAggTokens :: "auth_context \<Rightarrow> gostring option \<Rightarrow> gostring option \<Rightarrow> db \<Rightarrow> AggregatedToken paginated" where
  "GetAggTokens c qp qsize d =
    (let pagination = parsePaginationParams qp qsize;
         (tokens, total) = QueryUserAggTokens ItemsPerPage (ac_id c) (pg_Offset pagination) (pg_PageSize pagination) d
     in buildPaginatedData tokens pagination total)"

definition inserted_key :: "(AggregatedToken \<Rightarrow> db \<Rightarrow> gostring + db) \<Rightarrow> (nat \<Rightarrow> gostring option) \<Rightarrow> AggregatedToken \<Rightarrow> db \<Rightarrow> gostring" where
  \<comment> \<open>the key that \<open>Insert\<close> leaves in the token: the first one the database takes\<close>
  "inserted_key create gen t d =
    hd (List.map_filter (\<lambda>i. Option.bind (gen i) (\<lambda>key. case create (t\<lparr>at_Key := key\<rparr>) d of Inr _ \<Rightarrow> Some key | Inl _ \<Rightarrow> None)) [0..<maxAggTokenInsertAttempts])"

definition CreateAggToken ::
  "(AggregatedToken \<Rightarrow> db \<Rightarrow> gostring + db) \<Rightarrow> (nat \<Rightarrow> gostring option) \<Rightarrow> gotime \<Rightarrow> auth_context \<Rightarrow> gostring \<Rightarrow> db \<Rightarrow> (gw_error + gostring) \<times> db" where
  "CreateAggToken create gen now c body d =
    (case ShouldBindJSON dec_aggtoken body zero_aggtoken of
       None \<Rightarrow> (Inl bad_request, d)
     | Some token \<Rightarrow>
         let token = token\<lparr>at_UserId := ac_id c\<rparr>;
             token = (if at_Name token = [] then token\<lparr>at_Name := ''default''\<rparr> else token)
         in (case AggToken_Insert create gen now token d of
               Inl e \<Rightarrow> (Inl e, d)
             | Inr d' \<Rightarrow> (Inr (''ag-'' @ inserted_key create gen (token\<lparr>at_CreatedAt := Unix now\<rparr>) d), d')))"

definition UpdateAggToken :: "auth_context \<Rightarrow> gostring \<Rightarrow> db \<Rightarrow> (gw_error + unit) \<times> db" where
  "UpdateAggToken c body d =
    (case ShouldBindJSON dec_aggtoken body zero_aggtoken of
       None \<Rightarrow> (Inl bad_request, d)
     | Some token \<Rightarrow>
         if at_Id token = 0 then (Inl bad_request, d)
         else case GetAggTokenById (at_Id token) (ac_id c) d of
           Inl e \<Rightarrow> (Inl (ErrOther ''no such token''), d)
         | Inr existing \<Rightarrow> (Inr (), AggToken_Update (token\<lparr>at_UserId := ac_id c\<rparr>) d))"

definition DeleteAggToken :: "auth_context \<Rightarrow> gostring \<Rightarrow> db \<Rightarrow> (gw_error + unit) \<times> db" where
  "DeleteAggToken c param d =
    (case Atoi param of
       None \<Rightarrow> (Inl (ErrOther ''invalid id''), d)
     | Some tid \<Rightarrow>
         (case GetAggTokenById tid (ac_id c) d of
            Inl e \<Rightarrow> (Inl (ErrOther ''no such token''), d)
          | Inr existing \<Rightarrow> (case AggToken_Delete existing d of Inl e \<Rightarrow> (Inl e, d) | Inr d' \<Rightarrow> (Inr (), d'))))"

end
