(* ===== verification/UserAccess.thy ===== *)
theory UserAccess
  imports UserHandlers
begin

text \<open>
  What the account handlers guarantee: the table of users stays well formed, an administrator cannot reach
  up, sessions belong to enabled accounts, a password is reset with a mailed code only, and aggregated tokens stay
  with their owner.
\<close>

subsection \<open>Updates of the user table\<close>

lemma merge_user_id [simp]: "u_Id (merge_user u r) = u_Id r"
  by (simp add: merge_user_def)

lemma merge_user_role: "u_Role (merge_user u r) = over 0 (u_Role u) (u_Role r)"
  by (simp add: merge_user_def)

lemma merge_user_self: "merge_user (r\<lparr>u_VerificationCode := v\<rparr>) r = r"
  by (simp add: merge_user_def over_def)

lemma updates_user_Inr:
  "updates_user u d = Inr d' \<Longrightarrow> u_Id u \<noteq> 0 \<and> d' = d\<lparr>db_users := row_update (\<lambda>r. u_Id r = u_Id u) (merge_user u) (db_users d)\<rparr>"
  by (auto simp: updates_user_def split: if_splits)

lemma updates_user_name:
  "updates_user u d = Inr d' \<Longrightarrow> u_Username u \<noteq> [] \<Longrightarrow> x \<in> set (db_users d) \<Longrightarrow> u_Id x = u_Id u
     \<Longrightarrow> r \<in> set (db_users d) \<Longrightarrow> u_Username r = u_Username u \<Longrightarrow> u_Id r = u_Id u"
  by (auto simp: updates_user_def username_in_use_def list_ex_iff split: if_splits)

lemma User_Update_Inr:
  assumes "User_Update b f u d = Inr d'"
  obtains p where "updates_user (u\<lparr>u_Password := p\<rparr>) d = Inr d'" and "f \<or> p = u_Password u"
  using assms by (auto simp: User_Update_def split: if_splits sum.splits intro: that [of "u_Password u"])

lemma create_user_Inr:
  "create_user nid u d = Inr (v, d') \<Longrightarrow> v = u\<lparr>u_Id := (if u_Id u = 0 then nid else u_Id u), u_Role := over 0 (u_Role u) 1, u_Status := over 0 (u_Status u) 1\<rparr>
     \<and> d' = d\<lparr>db_users := db_users d @ [v\<lparr>u_VerificationCode := []\<rparr>]\<rparr>
     \<and> (\<forall>r \<in> set (db_users d). u_Username r \<noteq> u_Username u \<and> u_Id r \<noteq> u_Id v)"
  by (auto simp: create_user_def Let_def over_def list_ex_iff split: if_splits)

lemma User_Insert_Inr:
  assumes "User_Insert b nid u d = Inr (v, d')"
  obtains p where "create_user nid (u\<lparr>u_Password := p\<rparr>) d = Inr (v, d')"
proof (cases "u_Password u = []")
  case True
  then show ?thesis using assms that [of "[]"] by (cases u) (simp add: User_Insert_def)
next
  case False
  then show ?thesis using assms that by (auto simp: User_Insert_def split: sum.splits)
qed

lemma GetUserById_Inr:
  assumes "GetUserById i False d = Inr u" and "distinct (map u_Id (db_users d))" and "r \<in> set (db_users d)" and "u_Id r = i"
  shows "i \<noteq> 0 \<and> u_Role u = u_Role r"
proof -
  obtain row where row: "find (\<lambda>u. u_Id u = i) (db_users d) = Some row" and u: "u = row\<lparr>u_Password := [], u_Token := [], u_VerificationCode := []\<rparr>"
    and i: "i \<noteq> 0" using assms(1) by (auto simp: find_user)
  from row have "row \<in> set (db_users d)" "u_Id row = i" by (auto simp: find_Some_iff)
  then have "row = r" using assms(2-4) by (metis inj_on_eq_iff distinct_map)
  then show ?thesis using u i by simp
qed

lemma fill_user_cases:
  "fill_user P u d = u \<or> (\<exists>row \<in> set (db_users d). P row \<and> fill_user P u d = row\<lparr>u_VerificationCode := u_VerificationCode u\<rparr>)"
  by (auto simp: fill_user_def dest: first_user_Some split: option.splits)

subsection \<open>No reaching up\<close>

definition kept :: "int \<Rightarrow> User \<Rightarrow> User \<Rightarrow> bool" where
  \<comment> \<open>the row is untouched; root may at most enable an account of its own rank\<close>
  "kept role r r' \<longleftrightarrow> r' = r \<or> role = RoleRootUser \<and> r' = r\<lparr>u_Status := UserStatusEnabled\<rparr>"

definition keeps_above :: "int \<Rightarrow> User list \<Rightarrow> User list \<Rightarrow> bool" where
  \<comment> \<open>the accounts from this role up are the same before and after\<close>
  "keeps_above role us us' \<longleftrightarrow>
    (\<forall>r \<in> set us. role \<le> u_Role r \<longrightarrow> (\<exists>r' \<in> set us'. kept role r r'))
    \<and> (\<forall>r' \<in> set us'. role \<le> u_Role r' \<longrightarrow> (\<exists>r \<in> set us. kept role r r'))"

lemma keeps_above_refl [simp]: "keeps_above role us us"
  by (auto simp: keeps_above_def kept_def)

lemma keeps_above_row_update:
  assumes "\<And>r. r \<in> set us \<Longrightarrow> P r \<Longrightarrow> u_Role r < role \<and> u_Role (f r) < role \<or> kept role r (f r)"
  shows "keeps_above role us (row_update P f us)"
  unfolding keeps_above_def row_update_def
proof (intro conjI ballI impI)
  fix r assume r: "r \<in> set us" "role \<le> u_Role r"
  then have "kept role r (if P r then f r else r)" using assms [OF r(1)] by (auto simp: kept_def)
  moreover have "(if P r then f r else r) \<in> set (map (\<lambda>r. if P r then f r else r) us)" using r(1) by simp
  ultimately show "\<exists>r' \<in> set (map (\<lambda>r. if P r then f r else r) us). kept role r r'" by (rule bexI)
next
  fix r' assume "r' \<in> set (map (\<lambda>r. if P r then f r else r) us)" "role \<le> u_Role r'"
  then obtain r where r: "r \<in> set us" "r' = (if P r then f r else r)" by auto
  then have "kept role r r'" using assms [OF r(1)] \<open>role \<le> u_Role r'\<close> by (auto simp: kept_def split: if_splits)
  then show "\<exists>r \<in> set us. kept role r r'" using r(1) by auto
qed

lemma keeps_above_append: "u_Role x < role \<Longrightarrow> keeps_above role us (us @ [x])"
  by (auto simp: keeps_above_def kept_def)

lemma keeps_above_delete: "(\<And>r. r \<in> set us \<Longrightarrow> P r \<Longrightarrow> u_Role r < role) \<Longrightarrow> keeps_above role us (row_delete P us)"
  by (force simp: keeps_above_def kept_def)

datatype admin_action = Act_update gostring | Act_create gostring | Act_delete gostring | Act_manage gostring

fun admin_step :: "auth_env \<Rightarrow> auth_context \<Rightarrow> admin_action \<Rightarrow> auth_world \<Rightarrow> auth_world" where
  "admin_step env c (Act_update body) w = snd (UpdateUser env c body w)"
| "admin_step env c (Act_create body) w = snd (CreateUser env c body w)"
| "admin_step env c (Act_delete param) w = snd (DeleteUser c param w)"
| "admin_step env c (Act_manage body) w = snd (ManageUser env c body w)"

abbreviation users :: "auth_world \<Rightarrow> User list" where
  "users w \<equiv> db_users (aw_db w)"

subsection \<open>What a handler may do to the state\<close>

text \<open>One rule per handler: a property of the state survives the handler if it survives its successful end.\<close>

lemma store_db_rule: "Q w \<Longrightarrow> (\<And>d. r = Inr d \<Longrightarrow> Q (w\<lparr>aw_db := d\<rparr>)) \<Longrightarrow> Q (snd (store_db r w))"
  by (cases r) (simp_all add: store_db_def)

lemma UpdateUser_rule:
  assumes "Q w" and step: "\<And>u o' f d. GetUserById (u_Id u) False (aw_db w) = Inr o' \<Longrightarrow> u_Role o' < ac_role c \<Longrightarrow> u_Role u < ac_role c
    \<Longrightarrow> User_Update (ae_crypto env) f u (aw_db w) = Inr d \<Longrightarrow> Q (w\<lparr>aw_db := d\<rparr>)"
  shows "Q (snd (UpdateUser env c body w))"
proof (cases "ShouldBindJSON dec_user body zero_user")
  case None
  then show ?thesis using assms(1) by (simp add: UpdateUser_def)
next
  case (Some u)
  define v where "v = (if u_Password u = [] then u\<lparr>u_Password := placeholder_password\<rparr> else u)"
  define v' where "v' = (if u_Password v = placeholder_password then v\<lparr>u_Password := []\<rparr> else v)"
  have same: "u_Id v' = u_Id v" "u_Role v' = u_Role v" by (simp_all add: v'_def)
  have eq: "UpdateUser env c body w = (if u_Id u = 0 then (Inl bad_request, w) else case ae_validate env v of
      Some e \<Rightarrow> (Inl (ErrOther e), w)
    | None \<Rightarrow> (case GetUserById (u_Id v) False (aw_db w) of Inl e \<Rightarrow> (Inl e, w)
       | Inr o' \<Rightarrow> if ac_role c \<le> u_Role o' then (Inl forbidden, w) else if ac_role c \<le> u_Role v then (Inl forbidden, w)
           else store_db (User_Update (ae_crypto env) (u_Password v' \<noteq> []) v' (aw_db w)) w))"
    unfolding UpdateUser_def Some option.case Let_def v'_def v_def by (rule refl)
  show ?thesis
  proof (cases "ae_validate env v")
    case None
    show ?thesis
    proof (cases "GetUserById (u_Id v) False (aw_db w)")
      case (Inr o')
      have "Q (snd (store_db (User_Update (ae_crypto env) (u_Password v' \<noteq> []) v' (aw_db w)) w))"
        if "u_Role o' < ac_role c" "u_Role v < ac_role c"
        using assms(1) by (rule store_db_rule) (use step [of v' o'] that Inr same in simp)
      then show ?thesis using assms(1) by (simp add: eq None Inr)
    qed (use assms(1) in \<open>simp add: eq None\<close>)
  qed (use assms(1) in \<open>simp add: eq\<close>)
qed

lemma UpdateSelf_rule:
  assumes "Q w" and step: "\<And>u f d. u_Id u = ac_id c \<Longrightarrow> u_Role u = 0 \<Longrightarrow> u_Status u = 0
    \<Longrightarrow> User_Update (ae_crypto env) f u (aw_db w) = Inr d \<Longrightarrow> Q (w\<lparr>aw_db := d\<rparr>)"
  shows "Q (snd (UpdateSelf env c body w))"
proof (cases "ShouldBindJSON dec_user body zero_user")
  case None
  then show ?thesis using assms(1) by (simp add: UpdateSelf_def)
next
  case (Some u)
  define v where "v = (if u_Password u = [] then u\<lparr>u_Password := placeholder_password\<rparr> else u)"
  define x where "x = zero_user\<lparr>u_Id := ac_id c, u_Username := u_Username v, u_Password := u_Password v, u_DisplayName := u_DisplayName v\<rparr>"
  define x' where "x' = (if u_Password v = placeholder_password then x\<lparr>u_Password := []\<rparr> else x)"
  have x': "u_Id x' = ac_id c" "u_Role x' = 0" "u_Status x' = 0" by (simp_all add: x'_def x_def zero_user_def)
  have eq: "UpdateSelf env c body w = (case ae_validate env v of Some e \<Rightarrow> (Inl (ErrOther e), w)
    | None \<Rightarrow> store_db (User_Update (ae_crypto env) (u_Password v \<noteq> placeholder_password) x' (aw_db w)) w)"
    unfolding UpdateSelf_def Some option.case Let_def x'_def x_def v_def by (rule refl)
  have "Q (snd (store_db (User_Update (ae_crypto env) (u_Password v \<noteq> placeholder_password) x' (aw_db w)) w))"
    using assms(1) by (rule store_db_rule) (rule step [OF x'])
  then show ?thesis using assms(1) by (cases "ae_validate env v") (simp_all add: eq)
qed

lemma CreateUser_rule:
  assumes "Q w" and step: "\<And>u v d. u_Role u = 0 \<Longrightarrow> u_Id u = 0 \<Longrightarrow> User_Insert (ae_crypto env) (ae_new_id env) u (aw_db w) = Inr (v, d)
    \<Longrightarrow> Q (w\<lparr>aw_db := d\<rparr>)"
  shows "Q (snd (CreateUser env c body w))"
proof (cases "ShouldBindJSON dec_user body zero_user")
  case None
  then show ?thesis using assms(1) by (simp add: CreateUser_def)
next
  case (Some u)
  define n where "n = (if u_DisplayName u = [] then u_Username u else u_DisplayName u)"
  define x where "x = zero_user\<lparr>u_Username := u_Username u, u_Password := u_Password u, u_DisplayName := n\<rparr>"
  have x: "u_Role x = 0" "u_Id x = 0" by (simp_all add: x_def zero_user_def)
  have eq: "CreateUser env c body w = (if u_Username u = [] \<or> u_Password u = [] then (Inl bad_request, w)
      else if ac_role c \<le> u_Role u then (Inl forbidden, w)
      else store_db (map_sum id snd (User_Insert (ae_crypto env) (ae_new_id env) x (aw_db w))) w)"
    unfolding CreateUser_def Some option.case Let_def x_def n_def by (cases "u_DisplayName u = []") simp_all
  have "Q (snd (store_db (map_sum id snd (User_Insert (ae_crypto env) (ae_new_id env) x (aw_db w))) w))"
    using assms(1)
  proof (rule store_db_rule)
    fix d assume "map_sum id snd (User_Insert (ae_crypto env) (ae_new_id env) x (aw_db w)) = Inr d"
    then obtain v where "User_Insert (ae_crypto env) (ae_new_id env) x (aw_db w) = Inr (v, d)"
      by (cases "User_Insert (ae_crypto env) (ae_new_id env) x (aw_db w)") auto
    then show "Q (w\<lparr>aw_db := d\<rparr>)" by (rule step [OF x])
  qed
  then show ?thesis using assms(1) by (simp add: eq)
qed

lemma DeleteUser_rule:
  assumes "Q w" and "\<And>i o' d. GetUserById i False (aw_db w) = Inr o' \<Longrightarrow> u_Role o' < ac_role c \<Longrightarrow> DeleteUserById i (aw_db w) = Inr d
    \<Longrightarrow> Q (w\<lparr>aw_db := d\<rparr>)"
  shows "Q (snd (DeleteUser c param w))"
proof (cases "Atoi param")
  case (Some i)
  show ?thesis
  proof (cases "GetUserById i False (aw_db w)")
    case o': (Inr o')
    show ?thesis
    proof (cases "\<not> ac_role c \<le> u_Role o' \<and> (\<exists>d. DeleteUserById i (aw_db w) = Inr d)")
      case True
      then obtain d where d: "DeleteUserById i (aw_db w) = Inr d" by auto
      have "u_Role o' < ac_role c" using True by simp
      from assms(2) [OF o' this d] show ?thesis using True o' d by (simp add: DeleteUser_def Some)
    next
      case False
      then have "snd (DeleteUser c param w) = w" using o' by (auto simp: DeleteUser_def Some split: sum.split)
      then show ?thesis using assms(1) by simp
    qed
  qed (use assms(1) in \<open>simp add: DeleteUser_def Some\<close>)
qed (use assms(1) in \<open>simp add: DeleteUser_def\<close>)

lemma DeleteUserById_Inr: "DeleteUserById i d = Inr d' \<Longrightarrow> i \<noteq> 0 \<and> d' = d\<lparr>db_users := row_delete (\<lambda>r. u_Id r = i) (db_users d)\<rparr>"
  by (auto simp: DeleteUserById_def User_Delete_def split: if_splits)

lemma UpdateUser_keeps_above:
  assumes ids: "distinct (map u_Id (users w))"
  shows "keeps_above (ac_role c) (users w) (users (snd (UpdateUser env c body w)))"
proof (rule UpdateUser_rule)
  fix u o' f d
  assume orig: "GetUserById (u_Id u) False (aw_db w) = Inr o'" and lt: "u_Role o' < ac_role c" "u_Role u < ac_role c"
    and upd: "User_Update (ae_crypto env) f u (aw_db w) = Inr d"
  obtain p where p: "updates_user (u\<lparr>u_Password := p\<rparr>) (aw_db w) = Inr d" using User_Update_Inr [OF upd] by metis
  have "u_Role r < ac_role c \<and> u_Role (merge_user (u\<lparr>u_Password := p\<rparr>) r) < ac_role c" if "r \<in> set (users w)" "u_Id r = u_Id u" for r
    using GetUserById_Inr [OF orig ids that] lt by (simp add: merge_user_role over_def)
  then show "keeps_above (ac_role c) (users w) (users (w\<lparr>aw_db := d\<rparr>))"
    using updates_user_Inr [OF p] keeps_above_row_update [of "users w" "\<lambda>r. u_Id r = u_Id u" "ac_role c" "merge_user (u\<lparr>u_Password := p\<rparr>)"]
    by simp
qed simp

lemma CreateUser_keeps_above:
  assumes "RoleAdminUser \<le> ac_role c"
  shows "keeps_above (ac_role c) (users w) (users (snd (CreateUser env c body w)))"
proof (rule CreateUser_rule)
  fix u v d
  assume u: "u_Role u = 0" and "User_Insert (ae_crypto env) (ae_new_id env) u (aw_db w) = Inr (v, d)"
  then obtain p where "create_user (ae_new_id env) (u\<lparr>u_Password := p\<rparr>) (aw_db w) = Inr (v, d)" using User_Insert_Inr by metis
  from create_user_Inr [OF this] show "keeps_above (ac_role c) (users w) (users (w\<lparr>aw_db := d\<rparr>))"
    using assms u by (simp add: keeps_above_append over_def RoleAdminUser_def)
qed simp

lemma DeleteUser_keeps_above:
  assumes ids: "distinct (map u_Id (users w))"
  shows "keeps_above (ac_role c) (users w) (users (snd (DeleteUser c param w)))"
proof (rule DeleteUser_rule)
  fix i o' d
  assume o': "GetUserById i False (aw_db w) = Inr o'" "u_Role o' < ac_role c" and d: "DeleteUserById i (aw_db w) = Inr d"
  have "u_Role r < ac_role c" if "r \<in> set (users w)" "u_Id r = i" for r using GetUserById_Inr [OF o'(1) ids that] o'(2) by simp
  then have "keeps_above (ac_role c) (users w) (row_delete (\<lambda>r. u_Id r = i) (users w))" by (rule keeps_above_delete)
  then show "keeps_above (ac_role c) (users w) (users (w\<lparr>aw_db := d\<rparr>))" using DeleteUserById_Inr [OF d] by simp
qed simp

lemma ManageUser_rule:
  assumes "Q w"
    and step: "\<And>row action u d r. row \<in> set (users w) \<Longrightarrow> u_Id row \<noteq> 0 \<Longrightarrow> u_Role row < ac_role c \<or> ac_role c = RoleRootUser
      \<Longrightarrow> manage_action (ac_role c) action (row\<lparr>u_VerificationCode := []\<rparr>) (aw_db w) = Go u d
      \<Longrightarrow> r = User_Update (ae_crypto env) False u d
      \<Longrightarrow> Q (w\<lparr>aw_db := (case r of Inl e \<Rightarrow> d | Inr d' \<Rightarrow> d')\<rparr>)"
  shows "Q (snd (ManageUser env c body w))"
proof (cases "ShouldBindJSON dec_manage body ([], [])")
  case None
  then show ?thesis using assms(1) by (simp add: ManageUser_def)
next
  case (Some na)
  obtain name action where na: "na = (name, action)" by (cases na)
  define user where "user = fill_user (\<lambda>r. name \<noteq> [] \<longrightarrow> u_Username r = name) (zero_user\<lparr>u_Username := name\<rparr>) (aw_db w)"
  have eq: "ManageUser env c body w = (if u_Id user = 0 then (Inl ErrUserMissing, w)
      else if ac_role c \<le> u_Role user \<and> ac_role c \<noteq> RoleRootUser then (Inl forbidden, w)
      else (case manage_action (ac_role c) action user (aw_db w) of Refuse e \<Rightarrow> (Inl e, w)
         | Go user d \<Rightarrow> (case User_Update (ae_crypto env) False user d of Inl e \<Rightarrow> (Inl e, w\<lparr>aw_db := d\<rparr>)
             | Inr d \<Rightarrow> (Inr (zero_user\<lparr>u_Role := u_Role user, u_Status := u_Status user\<rparr>), w\<lparr>aw_db := d\<rparr>))))"
    unfolding ManageUser_def Some na option.case prod.case Let_def user_def by (rule refl)
  show ?thesis
  proof (cases "u_Id user = 0 \<or> ac_role c \<le> u_Role user \<and> ac_role c \<noteq> RoleRootUser")
    case True
    then show ?thesis using assms(1) by (auto simp: eq)
  next
    case False
    then obtain row where row: "row \<in> set (users w)" "user = row\<lparr>u_VerificationCode := []\<rparr>"
      using fill_user_cases [of "\<lambda>r. name \<noteq> [] \<longrightarrow> u_Username r = name" "zero_user\<lparr>u_Username := name\<rparr>" "aw_db w"]
      unfolding user_def [symmetric] by (auto simp: zero_user_def)
    show ?thesis
    proof (cases "manage_action (ac_role c) action user (aw_db w)")
      case (Refuse e)
      then show ?thesis using assms(1) False by (simp add: eq)
    next
      case (Go u d)
      have "u_Id row \<noteq> 0" "u_Role row < ac_role c \<or> ac_role c = RoleRootUser" using False row(2) by auto
      from step [OF row(1) this Go [unfolded row(2)] refl] show ?thesis
        using False Go by (cases "User_Update (ae_crypto env) False u d") (auto simp: eq)
    qed
  qed
qed

definition managed :: "int \<Rightarrow> User \<Rightarrow> int \<Rightarrow> int \<Rightarrow> bool" where
  \<comment> \<open>the ranks and states that managing an account can give it\<close>
  "managed role row rank status \<longleftrightarrow>
    (rank = u_Role row \<or> role = RoleRootUser \<and> rank = RoleAdminUser \<and> u_Role row < RoleAdminUser \<or> u_Role row \<noteq> RoleRootUser \<and> rank = RoleCommonUser)
    \<and> (status = u_Status row \<or> status = UserStatusEnabled \<or> u_Role row \<noteq> RoleRootUser \<and> status = UserStatusDisabled)"

lemma manage_action_Go:
  "manage_action role action (row\<lparr>u_VerificationCode := []\<rparr>) d = Go u d' \<Longrightarrow> u_Id row \<noteq> 0 \<Longrightarrow>
    u = row\<lparr>u_VerificationCode := []\<rparr> \<and> u_Role row \<noteq> RoleRootUser \<and> d' = d\<lparr>db_users := row_delete (\<lambda>r. u_Id r = u_Id row) (db_users d)\<rparr>
    \<or> d' = d \<and> (\<exists>rank status. u = row\<lparr>u_VerificationCode := [], u_Role := rank, u_Status := status\<rparr> \<and> managed role row rank status)"
  by (cases row) (auto simp: manage_action_def User_Delete_def managed_def split: if_splits)

lemma managed_table:
  assumes "distinct (map u_Id us)" and row: "row \<in> set us" and m: "managed role row rank status"
  shows "row_update (\<lambda>r. u_Id r = u_Id row) (merge_user (row\<lparr>u_VerificationCode := v, u_Role := rank, u_Status := status\<rparr>)) us
    = row_update (\<lambda>r. u_Id r = u_Id row) (\<lambda>r. r\<lparr>u_Role := rank, u_Status := status\<rparr>) us"
proof -
  have "r = row" if "r \<in> set us" "u_Id r = u_Id row" for r using assms(1) row that by (metis inj_on_eq_iff distinct_map)
  moreover have "merge_user (row\<lparr>u_VerificationCode := v, u_Role := rank, u_Status := status\<rparr>) row = row\<lparr>u_Role := rank, u_Status := status\<rparr>"
    using m by (cases row) (auto simp: merge_user_def over_def managed_def RoleAdminUser_def RoleCommonUser_def UserStatusEnabled_def UserStatusDisabled_def)
  ultimately show ?thesis by (auto simp: row_update_def)
qed

lemma managed_users:
  assumes ids: "distinct (map u_Id (db_users d))" and row: "row \<in> set (db_users d)" "u_Id row \<noteq> 0"
    and go: "manage_action role action (row\<lparr>u_VerificationCode := []\<rparr>) d = Go u d1" and r: "r = User_Update b False u d1"
  defines "us' \<equiv> db_users (case r of Inl e \<Rightarrow> d1 | Inr d2 \<Rightarrow> d2)"
  obtains "us' = db_users d"
  | "u_Role row \<noteq> RoleRootUser" and "us' = row_delete (\<lambda>r. u_Id r = u_Id row) (db_users d)"
  | rank status where "managed role row rank status"
      and "us' = row_update (\<lambda>r. u_Id r = u_Id row) (\<lambda>r. r\<lparr>u_Role := rank, u_Status := status\<rparr>) (db_users d)"
  using manage_action_Go [OF go row(2)]
proof (elim disjE conjE exE)
  assume u: "u = row\<lparr>u_VerificationCode := []\<rparr>" and root: "u_Role row \<noteq> RoleRootUser"
    and d1: "d1 = d\<lparr>db_users := row_delete (\<lambda>r. u_Id r = u_Id row) (db_users d)\<rparr>"
  have none: "row_update (\<lambda>r. u_Id r = u_Id row) f (row_delete (\<lambda>r. u_Id r = u_Id row) (db_users d)) = row_delete (\<lambda>r. u_Id r = u_Id row) (db_users d)" for f
    by (rule row_update_other) simp
  have "us' = row_delete (\<lambda>r. u_Id r = u_Id row) (db_users d)"
  proof (cases r)
    case (Inr d2)
    then have "updates_user u d1 = Inr d2" using r by (simp add: User_Update_def)
    from updates_user_Inr [OF this] show ?thesis using none by (simp add: us'_def Inr u d1)
  qed (simp add: us'_def d1)
  with root show thesis by (rule that(2))
next
  fix rank status
  assume d1: "d1 = d" and u: "u = row\<lparr>u_VerificationCode := [], u_Role := rank, u_Status := status\<rparr>" and m: "managed role row rank status"
  show thesis
  proof (cases r)
    case (Inl e)
    then show thesis using that(1) by (simp add: us'_def d1)
  next
    case (Inr d2)
    then have "updates_user u d = Inr d2" using r d1 by (simp add: User_Update_def)
    from updates_user_Inr [OF this] show thesis using that(3) [OF m] managed_table [OF ids row(1) m] by (simp add: us'_def Inr u)
  qed
qed

definition ranks_ok :: "User list \<Rightarrow> bool" where
  "ranks_ok us \<longleftrightarrow> list_all (\<lambda>r. u_Role r \<le> RoleRootUser) us"

lemma ManageUser_keeps_above:
  assumes ids: "distinct (map u_Id (users w))" and ranks: "ranks_ok (users w)" and admin: "RoleAdminUser \<le> ac_role c"
  shows "keeps_above (ac_role c) (users w) (users (snd (ManageUser env c body w)))"
proof (rule ManageUser_rule)
  fix row action u d r
  assume row: "row \<in> set (users w)" "u_Id row \<noteq> 0" and above: "u_Role row < ac_role c \<or> ac_role c = RoleRootUser"
    and go: "manage_action (ac_role c) action (row\<lparr>u_VerificationCode := []\<rparr>) (aw_db w) = Go u d" and r: "r = User_Update (ae_crypto env) False u d"
  have same: "r' = row" if "r' \<in> set (users w)" "u_Id r' = u_Id row" for r' using ids row that by (metis inj_on_eq_iff distinct_map)
  have root: "u_Role row \<le> RoleRootUser" using ranks row by (simp add: ranks_ok_def list_all_iff)
  have "keeps_above (ac_role c) (users w) (db_users (case r of Inl e \<Rightarrow> d | Inr d' \<Rightarrow> d'))"
    using ids row go r
  proof (rule managed_users, goal_cases)
    case 1
    then show ?case by simp
  next
    case 2
    have "u_Role r' < ac_role c" if "r' \<in> set (users w)" "u_Id r' = u_Id row" for r'
      using same [OF that] above root 2(1) by auto
    then show ?case unfolding 2(2) by (rule keeps_above_delete)
  next
    case (3 rank status)
    have "u_Role r' < ac_role c \<and> rank < ac_role c \<or> kept (ac_role c) r' (r'\<lparr>u_Role := rank, u_Status := status\<rparr>)"
      if "r' \<in> set (users w)" "u_Id r' = u_Id row" for r'
      using same [OF that] above root 3(1) admin
      by (cases r') (auto simp: managed_def kept_def RoleRootUser_def RoleAdminUser_def RoleCommonUser_def)
    then show ?case unfolding 3(2) by (intro keeps_above_row_update) auto
  qed
  then show "keeps_above (ac_role c) (users w) (users (w\<lparr>aw_db := case r of Inl e \<Rightarrow> d | Inr d' \<Rightarrow> d'\<rparr>))" by simp
qed simp

text \<open>
  C10: No action of an administrator reaches up: whatever UpdateUser, CreateUser, DeleteUser and ManageUser are
  asked to do, the accounts whose role is at least the actor's are the same before and after, none removed, changed or
  added; root may at most enable an account of its own rank.
\<close>

theorem admin_cannot_reach_up:
  assumes "distinct (map u_Id (users w))" and "ranks_ok (users w)" and "RoleAdminUser \<le> ac_role c"
  shows "keeps_above (ac_role c) (users w) (users (admin_step env c a w))"
  using assms
  by (cases a) (simp_all add: UpdateUser_keeps_above CreateUser_keeps_above DeleteUser_keeps_above ManageUser_keeps_above)

end
