(* ===== verification/AccountSite.thy ===== *)
theory AccountSite
  imports UserAccess
begin

text \<open>
  The account service as a whole: the requests of \<open>src/controller/user.go\<close>, \<open>misc.go\<close>, \<open>github.go\<close> and \<open>wechat.go\<close>
  behind the guards of their routes, from any number of clients with a session each, and what holds in every state it
  can reach from an empty database.
\<close>

subsection \<open>Requests behind their guards\<close>

datatype account_request =
    Rq_login gostring | Rq_logout | Rq_register gostring | Rq_generate_token | Rq_update_self gostring | Rq_delete_self
  | Rq_admin admin_action | Rq_mail_code gostring | Rq_mail_reset gostring | Rq_reset gostring
  | Rq_bind_email gostring gostring | Rq_github gostring | Rq_wechat gostring | Rq_bind_wechat gostring

definition guarded :: "(session_user option \<Rightarrow> gostring \<Rightarrow> db \<Rightarrow> auth_denial + auth_context) \<Rightarrow> (auth_context \<Rightarrow> auth_denial + auth_context)
    \<Rightarrow> gostring \<Rightarrow> (auth_context \<Rightarrow> auth_world) \<Rightarrow> auth_world \<Rightarrow> auth_world" where
  \<comment> \<open>an authentication middleware, the check of how it was done, and the handler behind them\<close>
  "guarded auth check authorization f w =
    (case auth (aw_session w) authorization (aw_db w) of
       Inl _ \<Rightarrow> w
     | Inr c \<Rightarrow> (case check c of Inl _ \<Rightarrow> w | Inr c \<Rightarrow> f c))"

fun account_handler :: "auth_env \<Rightarrow> auth_settings \<Rightarrow> gostring \<Rightarrow> account_request \<Rightarrow> auth_world \<Rightarrow> auth_world" where
  "account_handler env st a (Rq_login body) w = snd (Login env st body w)"
| "account_handler env st a Rq_logout w = snd (Logout env w)"
| "account_handler env st a (Rq_register body) w = snd (Register env st body w)"
| "account_handler env st a Rq_generate_token w = guarded UserAuth NoTokenAuth a (\<lambda>c. snd (GenerateToken env c w)) w"
| "account_handler env st a (Rq_update_self body) w = guarded UserAuth NoTokenAuth a (\<lambda>c. snd (UpdateSelf env c body w)) w"
| "account_handler env st a Rq_delete_self w = guarded UserAuth NoTokenAuth a (\<lambda>c. snd (DeleteSelf c w)) w"
| "account_handler env st a (Rq_admin act) w = guarded AdminAuth NoTokenAuth a (\<lambda>c. admin_step env c act w) w"
| "account_handler env st a (Rq_mail_code email) w = snd (SendEmailVerification env email w)"
| "account_handler env st a (Rq_mail_reset email) w = snd (SendPasswordResetEmail env st email w)"
| "account_handler env st a (Rq_reset body) w = snd (ResetPassword env body w)"
| "account_handler env st a (Rq_bind_email email code) w = guarded UserAuth Inr a (\<lambda>c. snd (EmailBind env c email code w)) w"
| "account_handler env st a (Rq_github code) w = snd (GitHubOAuth env st code w)"
| "account_handler env st a (Rq_wechat code) w = snd (WeChatAuth env st code w)"
| "account_handler env st a (Rq_bind_wechat code) w = guarded UserAuth Inr a (\<lambda>c. snd (WeChatBind env st c code w)) w"

record site =
  si_db :: db
  si_codes :: "(gostring, verificationValue) gomap"
  si_mails :: "(gostring \<times> gostring) list"
  si_sessions :: "nat \<Rightarrow> session_user option"

definition seen_by :: "nat \<Rightarrow> site \<Rightarrow> auth_world" where
  "seen_by k s = \<lparr>aw_db = si_db s, aw_codes = si_codes s, aw_session = si_sessions s k, aw_mails = si_mails s\<rparr>"

definition serve :: "auth_env \<Rightarrow> auth_settings \<Rightarrow> nat \<Rightarrow> gostring \<Rightarrow> account_request \<Rightarrow> site \<Rightarrow> site" where
  \<comment> \<open>a request of client \<open>k\<close> with its \<open>Authorization\<close> header\<close>
  "serve env st k a rq s =
    (let w = account_handler env st a rq (seen_by k s)
     in \<lparr>si_db = aw_db w, si_codes = aw_codes w, si_mails = aw_mails w, si_sessions = (si_sessions s)(k := aw_session w)\<rparr>)"

inductive site_reachable :: "site \<Rightarrow> bool" where
  site_start: "db_users d = [] \<Longrightarrow> createRootAccountIfNeed b nid d = Inr d' \<Longrightarrow> nid \<noteq> 0
    \<Longrightarrow> site_reachable \<lparr>si_db = d', si_codes = [], si_mails = [], si_sessions = (\<lambda>_. None)\<rparr>"
| site_serve: "site_reachable s \<Longrightarrow> ae_new_id env \<noteq> 0 \<Longrightarrow> site_reachable (serve env st k a rq s)"

subsection \<open>Changes of the user table\<close>

inductive user_change :: "int \<Rightarrow> User list \<Rightarrow> User list \<Rightarrow> bool" for actor where
  uc_keep: "user_change actor us us"
| uc_add: "u_Id v \<noteq> 0 \<Longrightarrow> u_Role v = RoleCommonUser \<Longrightarrow> (\<And>r. r \<in> set us \<Longrightarrow> u_Id r \<noteq> u_Id v \<and> u_Username r \<noteq> u_Username v)
    \<Longrightarrow> user_change actor us (us @ [v])"
| uc_edit: "(\<And>r. r \<in> set us \<Longrightarrow> P r \<Longrightarrow> u_Id (f r) = u_Id r \<and> (u_Role (f r) = u_Role r \<or> u_Role (f r) < actor))
    \<Longrightarrow> (distinct (map u_Username us) \<Longrightarrow> distinct (map u_Username (row_update P f us)))
    \<Longrightarrow> user_change actor us (row_update P f us)"
| uc_remove: "user_change actor us (row_delete P us)"

definition accounts_ok :: "User list \<Rightarrow> bool" where
  \<comment> \<open>the columns are what the code takes them for\<close>
  "accounts_ok us \<longleftrightarrow> distinct (map u_Id us) \<and> 0 \<notin> u_Id ` set us \<and> distinct (map u_Username us) \<and> ranks_ok us"

lemma accounts_okD:
  "accounts_ok us \<Longrightarrow> distinct (map u_Id us)" "accounts_ok us \<Longrightarrow> distinct (map u_Username us)" "accounts_ok us \<Longrightarrow> ranks_ok us"
  by (simp_all add: accounts_ok_def)

lemma row_update_ids: "(\<And>r. r \<in> set us \<Longrightarrow> P r \<Longrightarrow> g (f r) = g r) \<Longrightarrow> map g (row_update P f us) = map g us"
  by (simp add: row_update_def)

lemma accounts_ok_change:
  assumes "user_change actor us us'" and "actor \<le> RoleRootUser" and "accounts_ok us"
  shows "accounts_ok us'"
  using assms
proof (induction rule: user_change.induct)
  case (uc_add v us)
  then have "u_Id v \<notin> u_Id ` set us" "u_Username v \<notin> u_Username ` set us" by force+
  then show ?case using uc_add by (auto simp: accounts_ok_def ranks_ok_def RoleCommonUser_def RoleRootUser_def)
next
  case (uc_edit us P f)
  have ids: "map u_Id (row_update P f us) = map u_Id us" using uc_edit.hyps(1) by (intro row_update_ids) auto
  then have ids': "u_Id ` set (row_update P f us) = u_Id ` set us" by (metis set_map)
  have ranks: "u_Role r' \<le> RoleRootUser" if "r' \<in> set (row_update P f us)" for r'
  proof -
    obtain r where r: "r \<in> set us" "r' = (if P r then f r else r)" using \<open>r' \<in> set (row_update P f us)\<close> by (auto simp: row_update_def)
    moreover have "u_Role r \<le> RoleRootUser" using uc_edit.prems r(1) by (simp add: accounts_ok_def ranks_ok_def list_all_iff)
    ultimately show ?thesis using uc_edit.hyps(1) [OF r(1)] uc_edit.prems(1) by auto
  qed
  show ?case using uc_edit ids ids' ranks by (simp add: accounts_ok_def ranks_ok_def list_all_iff)
next
  case (uc_remove us P)
  then show ?case by (auto simp: accounts_ok_def ranks_ok_def list_all_iff row_delete_def distinct_map_filter)
qed

lemma rank_change:
  assumes "user_change actor us us'" and "r' \<in> set us'" and "RoleAdminUser \<le> u_Role r'"
  shows "(\<exists>r \<in> set us. u_Id r = u_Id r' \<and> u_Role r = u_Role r') \<or> u_Role r' < actor"
  using assms
proof (induction rule: user_change.induct)
  case (uc_add v us)
  then show ?case by (auto simp: RoleAdminUser_def RoleCommonUser_def)
next
  case (uc_edit us P f)
  then obtain r where r: "r \<in> set us" "r' = (if P r then f r else r)" by (auto simp: row_update_def)
  then show ?case using uc_edit.hyps(1) [OF r(1)] by (auto split: if_splits)
qed auto

lemma updates_names:
  assumes ok: "updates_user u d = Inr d'" and ids: "distinct (map u_Id (db_users d))" and names: "distinct (map u_Username (db_users d))"
  shows "distinct (map u_Username (row_update (\<lambda>r. u_Id r = u_Id u) (merge_user u) (db_users d)))"
proof (cases "u_Username u = []")
  case True
  then have "map u_Username (row_update (\<lambda>r. u_Id r = u_Id u) (merge_user u) (db_users d)) = map u_Username (db_users d)"
    by (intro map_row_update) (simp add: merge_user_def over_def)
  then show ?thesis using names by simp
next
  case False
  let ?g = "\<lambda>r. if u_Id r = u_Id u then u_Username u else u_Username r"
  have "map u_Username (row_update (\<lambda>r. u_Id r = u_Id u) (merge_user u) (db_users d)) = map ?g (db_users d)"
    using False by (simp add: row_update_def merge_user_def over_def)
  moreover have "inj_on ?g (set (db_users d))"
  proof (rule inj_onI)
    fix r s assume rs: "r \<in> set (db_users d)" "s \<in> set (db_users d)" and eq: "?g r = ?g s"
    have "u_Id r = u_Id s \<or> u_Username r = u_Username s"
    proof (cases "u_Id r = u_Id u"; cases "u_Id s = u_Id u")
      assume "u_Id r = u_Id u" "u_Id s \<noteq> u_Id u"
      then show ?thesis using updates_user_name [OF ok False rs(1) _ rs(2)] eq by simp
    next
      assume "u_Id r \<noteq> u_Id u" "u_Id s = u_Id u"
      then show ?thesis using updates_user_name [OF ok False rs(2) _ rs(1)] eq by simp
    qed (use eq in auto)
    then show "r = s" using ids names rs by (auto simp: distinct_map dest: inj_onD)
  qed
  ultimately show ?thesis using ids by (simp add: distinct_map)
qed

subsection \<open>Every handler makes one of these changes\<close>

lemma User_Update_change:
  assumes ok: "accounts_ok (db_users d)" and upd: "User_Update b f u d = Inr d'"
    and role: "\<And>r. r \<in> set (db_users d) \<Longrightarrow> u_Id r = u_Id u \<Longrightarrow> u_Role u = 0 \<or> u_Role u = u_Role r \<or> u_Role u < actor"
  shows "user_change actor (db_users d) (db_users d')"
proof -
  obtain p where p: "updates_user (u\<lparr>u_Password := p\<rparr>) d = Inr d'" using User_Update_Inr [OF upd] by metis
  let ?f = "merge_user (u\<lparr>u_Password := p\<rparr>)"
  have "user_change actor (db_users d) (row_update (\<lambda>r. u_Id r = u_Id u) ?f (db_users d))"
  proof (rule uc_edit)
    fix r assume "r \<in> set (db_users d)" "u_Id r = u_Id u"
    from role [OF this] show "u_Id (?f r) = u_Id r \<and> (u_Role (?f r) = u_Role r \<or> u_Role (?f r) < actor)"
      by (auto simp: merge_user_role over_def)
  next
    show "distinct (map u_Username (row_update (\<lambda>r. u_Id r = u_Id u) ?f (db_users d)))"
      using updates_names [OF p] accounts_okD [OF ok] by simp
  qed
  then show ?thesis using updates_user_Inr [OF p] by simp
qed

lemma User_Insert_change:
  assumes "User_Insert b nid u d = Inr (v, d')" and "nid \<noteq> 0" and "u_Id u = 0" and "u_Role u = 0 \<or> u_Role u = RoleCommonUser"
  shows "user_change actor (db_users d) (db_users d')"
proof -
  obtain p where "create_user nid (u\<lparr>u_Password := p\<rparr>) d = Inr (v, d')" using assms(1) by (rule User_Insert_Inr)
  from create_user_Inr [OF this] show ?thesis
    using assms(2-4) by (auto intro!: uc_add simp: over_def RoleCommonUser_def)
qed

lemma store_db_change:
  "(\<And>d. r = Inr d \<Longrightarrow> user_change actor (users w) (db_users d)) \<Longrightarrow> user_change actor (users w) (users (snd (store_db r w)))"
  by (cases r) (simp_all add: store_db_def uc_keep)

lemma filled_role:
  assumes ids: "distinct (map u_Id (db_users d))" and fill: "FillUserById u0 d = Inr u" and "u_Role u0 = 0"
    and r: "r \<in> set (db_users d)" "u_Id r = u_Id u"
  shows "u_Role u = 0 \<or> u_Role u = u_Role r"
proof -
  have u: "u = fill_user (\<lambda>r. u_Id r = u_Id u0) u0 d" using fill by (simp add: FillUserById_def split: if_splits)
  from fill_user_cases [of "\<lambda>r. u_Id r = u_Id u0" u0 d] show ?thesis
  proof (elim disjE bexE conjE)
    fix row assume "row \<in> set (db_users d)" "fill_user (\<lambda>r. u_Id r = u_Id u0) u0 d = row\<lparr>u_VerificationCode := u_VerificationCode u0\<rparr>"
    moreover from this have "row = r" using r u ids by (auto simp: distinct_map dest: inj_onD)
    ultimately show ?thesis using u by simp
  qed (use u assms(3) in simp)
qed

lemma store_update_change:
  assumes "accounts_ok (users w)" and "FillUserById u0 (aw_db w) = Inr u" and "u_Role u0 = 0"
    and "u_Id u' = u_Id u" "u_Role u' = u_Role u"
  shows "user_change actor (users w) (users (snd (store_db (User_Update b False u' (aw_db w)) w)))"
proof (rule store_db_change)
  fix d assume "User_Update b False u' (aw_db w) = Inr d"
  then show "user_change actor (users w) (db_users d)"
    using filled_role [OF accounts_okD(1) [OF assms(1)] assms(2,3)] assms(4,5) by (intro User_Update_change [OF assms(1)]) auto
qed

lemma sign_in_users [simp]: "aw_db (snd (sign_in env u w)) = aw_db w" "aw_db (snd (setupLogin env u w)) = aw_db w"
  by (simp_all add: sign_in_def setupLogin_def split: option.split)

lemma send_mail_users [simp]: "aw_db (snd (send_mail env email s w)) = aw_db w"
  by (simp add: send_mail_def split: option.split)

lemma mail_handlers_users:
  "aw_db (snd (SendEmailVerification env email w)) = aw_db w" "aw_db (snd (SendPasswordResetEmail env st email w)) = aw_db w"
  by (simp_all add: SendEmailVerification_def SendPasswordResetEmail_def split: option.split)

lemma session_handlers_users: "aw_db (snd (Login env st body w)) = aw_db w" "aw_db (snd (Logout env w)) = aw_db w"
  by (simp_all add: Login_def Logout_def split: option.split sum.split)

lemma Register_change:
  assumes "ae_new_id env \<noteq> 0"
  shows "user_change actor (users w) (users (snd (Register env st body w)))"
proof -
  have ins: "user_change actor (users w) (users (snd (store_db (map_sum id snd (User_Insert b (ae_new_id env) u (aw_db w))) w)))"
    if "u_Id u = 0" "u_Role u = 0" for b u
  proof (rule store_db_change)
    fix d assume "map_sum id snd (User_Insert b (ae_new_id env) u (aw_db w)) = Inr d"
    then obtain v where "User_Insert b (ae_new_id env) u (aw_db w) = Inr (v, d)" by (cases "User_Insert b (ae_new_id env) u (aw_db w)") auto
    then show "user_change actor (users w) (db_users d)" using that assms by (intro User_Insert_change) auto
  qed
  show ?thesis by (auto simp: Register_def Let_def uc_keep zero_user_def intro!: ins split: option.split)
qed

lemma GenerateToken_change:
  assumes ok: "accounts_ok (users w)"
  shows "user_change actor (users w) (users (snd (GenerateToken env c w)))"
proof (cases "GetUserById (ac_id c) True (aw_db w)")
  case (Inr user)
  then have row: "user \<in> set (users w)" by (auto simp: GetUserById_def find_Some_iff split: if_splits option.splits)
  define u where "u = user\<lparr>u_Token := filter (\<lambda>ch. ch \<noteq> CHR ''-'') (ae_uuid env)\<rparr>"
  have "user_change actor (users w) (db_users d)" if "User_Update (ae_crypto env) False u (aw_db w) = Inr d" for d
  proof (rule User_Update_change [OF ok that])
    fix r assume "r \<in> set (users w)" "u_Id r = u_Id u"
    then have "r = user" using row accounts_okD(1) [OF ok] by (auto simp: u_def distinct_map dest: inj_onD)
    then show "u_Role u = 0 \<or> u_Role u = u_Role r \<or> u_Role u < actor" by (simp add: u_def)
  qed
  then show ?thesis using Inr
    by (cases "User_Update (ae_crypto env) False u (aw_db w)") (auto simp: GenerateToken_def Let_def uc_keep u_def [symmetric])
qed (simp add: GenerateToken_def uc_keep)

lemma UpdateSelf_change:
  assumes ok: "accounts_ok (users w)"
  shows "user_change actor (users w) (users (snd (UpdateSelf env c body w)))"
proof (rule UpdateSelf_rule)
  fix u f d assume "u_Role u = 0" "User_Update (ae_crypto env) f u (aw_db w) = Inr d"
  then show "user_change actor (users w) (users (w\<lparr>aw_db := d\<rparr>))" using User_Update_change [OF ok] by simp
qed (rule uc_keep)

lemma DeleteSelf_change: "user_change actor (users w) (users (snd (DeleteSelf c w)))"
  unfolding DeleteSelf_def
proof (rule store_db_change)
  fix d assume "DeleteUserById (ac_id c) (aw_db w) = Inr d"
  from DeleteUserById_Inr [OF this] show "user_change actor (users w) (db_users d)" by (simp add: uc_remove)
qed

lemma EmailBind_change:
  assumes "accounts_ok (users w)"
  shows "user_change actor (users w) (users (snd (EmailBind env c email code w)))"
proof -
  have "user_change actor (users w) (users (snd (store_db (User_Update (ae_crypto env) False (u\<lparr>u_Email := email\<rparr>) (aw_db w)) w)))"
    if "FillUserById (zero_user\<lparr>u_Id := ac_id c\<rparr>) (aw_db w) = Inr u" for u
    using assms that by (rule store_update_change) (simp_all add: zero_user_def)
  then show ?thesis by (cases "FillUserById (zero_user\<lparr>u_Id := ac_id c\<rparr>) (aw_db w)") (auto simp: EmailBind_def uc_keep)
qed

lemma ResetPassword_change: "user_change actor (users w) (users (snd (ResetPassword env body w)))"
proof -
  have "user_change actor (users w) (row_update (\<lambda>r. u_Email r = e) (\<lambda>r. r\<lparr>u_Password := h\<rparr>) (users w))" for e h
    by (rule uc_edit) (simp_all add: map_row_update)
  then show ?thesis
    by (auto simp: ResetPassword_def ResetUserPasswordByEmail_def uc_keep split: option.split sum.split prod.split)
qed

lemma GitHubBind_change:
  assumes "accounts_ok (users w)"
  shows "user_change actor (users w) (users (snd (GitHubBind env st code w)))"
proof -
  have "user_change actor (users w) (users (snd (store_db (User_Update (ae_crypto env) False (u\<lparr>u_GitHubId := g\<rparr>) (aw_db w)) w)))"
    if "FillUserById (zero_user\<lparr>u_Id := i, u_GitHubId := g\<rparr>) (aw_db w) = Inr u" for u i g
    using assms that by (rule store_update_change) (simp_all add: zero_user_def)
  then show ?thesis by (auto simp: GitHubBind_def uc_keep split: option.split sum.split)
qed

lemma WeChatBind_change:
  assumes "accounts_ok (users w)"
  shows "user_change actor (users w) (users (snd (WeChatBind env st c code w)))"
proof -
  have "user_change actor (users w) (users (snd (store_db (User_Update (ae_crypto env) False (u\<lparr>u_WeChatId := g\<rparr>) (aw_db w)) w)))"
    if "FillUserById (zero_user\<lparr>u_Id := ac_id c\<rparr>) (aw_db w) = Inr u" for u g
    using assms that by (rule store_update_change) (simp_all add: zero_user_def)
  then show ?thesis by (auto simp: WeChatBind_def uc_keep split: option.split sum.split)
qed

lemma outside_insert_change:
  assumes "User_Insert b nid (zero_user\<lparr>u_GitHubId := g, u_WeChatId := wx, u_Username := n, u_DisplayName := dn, u_Email := e,
     u_Role := RoleCommonUser, u_Status := UserStatusEnabled\<rparr>) d = Inr (v, d')" and "nid \<noteq> 0"
  shows "user_change actor (db_users d) (db_users d')"
  using assms by (rule User_Insert_change) (simp_all add: zero_user_def)

lemma GitHubOAuth_change:
  assumes "accounts_ok (users w)" and nid: "ae_new_id env \<noteq> 0"
  shows "user_change actor (users w) (users (snd (GitHubOAuth env st code w)))"
proof (cases "aw_session w")
  case (Some x)
  then show ?thesis using GitHubBind_change [OF assms(1)] by (simp add: GitHubOAuth_def split: prod.split) (metis snd_conv)
next
  case None
  note ins = outside_insert_change [where wx = "[]", OF _ nid]
  show ?thesis
    using ins by (auto simp: GitHubOAuth_def None Let_def uc_keep zero_user_def FillUserByGitHubId_def case_prod_unfold split: option.split sum.split)
qed

lemma WeChatAuth_change:
  assumes "accounts_ok (users w)" and nid: "ae_new_id env \<noteq> 0"
  shows "user_change actor (users w) (users (snd (WeChatAuth env st code w)))"
  using outside_insert_change [where g = "[]" and e = "[]", OF _ nid]
  by (auto simp: WeChatAuth_def Let_def uc_keep zero_user_def FillUserByWeChatId_def split: option.split sum.split)

lemma UpdateUser_change:
  assumes ok: "accounts_ok (users w)"
  shows "user_change (ac_role c) (users w) (users (snd (UpdateUser env c body w)))"
proof (rule UpdateUser_rule)
  fix u o' f d assume "u_Role u < ac_role c" "User_Update (ae_crypto env) f u (aw_db w) = Inr d"
  then show "user_change (ac_role c) (users w) (users (w\<lparr>aw_db := d\<rparr>))" using User_Update_change [OF ok, of "ae_crypto env" f u d] by simp
qed (rule uc_keep)

lemma CreateUser_change:
  assumes "ae_new_id env \<noteq> 0"
  shows "user_change actor (users w) (users (snd (CreateUser env c body w)))"
proof (rule CreateUser_rule)
  fix u v d assume "u_Role u = 0" "u_Id u = 0" "User_Insert (ae_crypto env) (ae_new_id env) u (aw_db w) = Inr (v, d)"
  then show "user_change actor (users w) (users (w\<lparr>aw_db := d\<rparr>))" using User_Insert_change [OF _ assms] by simp
qed (rule uc_keep)

lemma DeleteUser_change: "user_change actor (users w) (users (snd (DeleteUser c param w)))"
proof (rule DeleteUser_rule)
  fix i o' d assume "DeleteUserById i (aw_db w) = Inr d"
  from DeleteUserById_Inr [OF this] show "user_change actor (users w) (users (w\<lparr>aw_db := d\<rparr>))" by (simp add: uc_remove)
qed (rule uc_keep)

lemma ManageUser_change:
  assumes ok: "accounts_ok (users w)" and admin: "RoleAdminUser \<le> ac_role c"
  shows "user_change (ac_role c) (users w) (users (snd (ManageUser env c body w)))"
proof (rule ManageUser_rule)
  fix row action u d r
  assume row: "row \<in> set (users w)" "u_Id row \<noteq> 0" and above: "u_Role row < ac_role c \<or> ac_role c = RoleRootUser"
    and go: "manage_action (ac_role c) action (row\<lparr>u_VerificationCode := []\<rparr>) (aw_db w) = Go u d" and r: "r = User_Update (ae_crypto env) False u d"
  have "user_change (ac_role c) (users w) (db_users (case r of Inl e \<Rightarrow> d | Inr d' \<Rightarrow> d'))"
    using accounts_okD(1) [OF ok] row go r
  proof (rule managed_users, goal_cases)
    case (3 rank status)
    show ?case unfolding 3(2)
    proof (rule uc_edit)
      fix r' assume "r' \<in> set (users w)" "u_Id r' = u_Id row"
      then have "r' = row" using row accounts_okD(1) [OF ok] by (auto simp: distinct_map dest: inj_onD)
      then show "u_Id (r'\<lparr>u_Role := rank, u_Status := status\<rparr>) = u_Id r' \<and> (u_Role (r'\<lparr>u_Role := rank, u_Status := status\<rparr>) = u_Role r'
          \<or> u_Role (r'\<lparr>u_Role := rank, u_Status := status\<rparr>) < ac_role c)"
        using 3(1) admin by (auto simp: managed_def RoleRootUser_def RoleAdminUser_def RoleCommonUser_def)
    qed (simp add: map_row_update)
  qed (simp_all add: uc_keep uc_remove)
  then show "user_change (ac_role c) (users w) (users (w\<lparr>aw_db := case r of Inl e \<Rightarrow> d | Inr d' \<Rightarrow> d'\<rparr>))" by simp
qed (rule uc_keep)

lemma guarded_cases:
  obtains "guarded auth check a f w = w"
  | c c' where "auth (aw_session w) a (aw_db w) = Inr c" and "check c = Inr c'" and "guarded auth check a f w = f c'"
  by (cases "auth (aw_session w) a (aw_db w)"; cases "check (projr (auth (aw_session w) a (aw_db w)))")
    (auto simp: guarded_def intro: that)

lemma guarded_change:
  "(\<And>c. user_change actor (users w) (users (f c))) \<Longrightarrow> user_change actor (users w) (users (guarded auth check a f w))"
  by (rule guarded_cases [of auth check a f w]) (simp_all add: uc_keep)

definition actor_role :: "session_user option \<Rightarrow> int" where
  "actor_role session = (case session of Some x \<Rightarrow> s_role x | None \<Rightarrow> 0)"

lemma admin_change:
  assumes ok: "accounts_ok (users w)" and nid: "ae_new_id env \<noteq> 0"
  shows "user_change (actor_role (aw_session w)) (users w) (users (guarded AdminAuth NoTokenAuth a (\<lambda>c. admin_step env c act w) w))"
proof (rule guarded_cases [of AdminAuth NoTokenAuth a "\<lambda>c. admin_step env c act w" w])
  fix c c' assume auth: "AdminAuth (aw_session w) a (aw_db w) = Inr c" "NoTokenAuth c = Inr c'"
    and eq: "guarded AdminAuth NoTokenAuth a (\<lambda>c. admin_step env c act w) w = admin_step env c' act w"
  have "c' = c" "\<not> ac_authByToken c" using auth(2) by (auto simp: NoTokenAuth_def split: if_splits)
  moreover have "RoleAdminUser \<le> ac_role c \<and> identity (aw_session w) a (aw_db w) c" using authHelper_Inr auth(1) by (simp add: AdminAuth_def)
  ultimately have "RoleAdminUser \<le> ac_role c'" "actor_role (aw_session w) = ac_role c'"
    by (auto simp: identity_def actor_role_def split: option.splits)
  then show ?thesis unfolding eq
    by (cases act) (simp_all add: UpdateUser_change [OF ok] CreateUser_change [OF nid] DeleteUser_change ManageUser_change [OF ok])
qed (simp add: uc_keep)

lemma account_handler_change:
  assumes "accounts_ok (users w)" and "ae_new_id env \<noteq> 0"
  shows "user_change (actor_role (aw_session w)) (users w) (users (account_handler env st a rq w))"
  using assms
  by (cases rq) (simp_all add: uc_keep mail_handlers_users session_handlers_users Register_change ResetPassword_change
      GitHubOAuth_change WeChatAuth_change admin_change guarded_change GenerateToken_change UpdateSelf_change DeleteSelf_change
      EmailBind_change WeChatBind_change)

subsection \<open>Sessions\<close>

definition proved :: "auth_env \<Rightarrow> auth_settings \<Rightarrow> account_request \<Rightarrow> User \<Rightarrow> bool" where
  \<comment> \<open>the request has shown that it comes from the owner of the account\<close>
  "proved env st rq u =
    (case rq of
       Rq_login body \<Rightarrow> (\<exists>pw. ShouldBindJSON dec_login body ([], []) = Some (u_Username u, pw) \<and> cr_match (ae_crypto env) (u_Password u) pw)
     | Rq_github code \<Rightarrow> (\<exists>g. getGitHubUserInfoByCode env st code = Inr g \<and> u_GitHubId u = gh_Login g)
     | Rq_wechat code \<Rightarrow> getWeChatIdByCode env st code = Inr (u_WeChatId u)
     | _ \<Rightarrow> False)"

definition session_of :: "User \<Rightarrow> session_user" where
  "session_of u = \<lparr>s_id = u_Id u, s_username = u_Username u, s_role = u_Role u, s_status = u_Status u\<rparr>"

lemma setupLogin_session: "aw_session (snd (setupLogin env u w)) \<in> {aw_session w, Some (session_of u)}"
  by (simp add: setupLogin_def session_of_def split: option.split)

lemma sign_in_session:
  "aw_session (snd (sign_in env u w)) = aw_session w \<or> aw_session (snd (sign_in env u w)) = Some (session_of u) \<and> u_Status u = UserStatusEnabled"
  using setupLogin_session [of env u w] by (auto simp: sign_in_def)

lemma session_of_row [simp]: "session_of (u\<lparr>u_VerificationCode := v\<rparr>) = session_of u"
  by (simp add: session_of_def)

definition earned :: "auth_env \<Rightarrow> auth_settings \<Rightarrow> account_request \<Rightarrow> session_user option \<Rightarrow> User list \<Rightarrow> session_user option \<Rightarrow> bool" where
  \<comment> \<open>what the session after a request may be, given the one before and the accounts after it\<close>
  "earned env st rq before us after \<longleftrightarrow>
    after = before \<or> after = None \<or> (\<exists>u \<in> set us. after = Some (session_of u) \<and> u_Status u = UserStatusEnabled \<and> proved env st rq u)"

lemma ValidateAndFill_Inr:
  assumes "ValidateAndFill b (zero_user\<lparr>u_Username := n, u_Password := p\<rparr>) d = Inr user"
  obtains row where "row \<in> set (db_users d)" and "user = row\<lparr>u_VerificationCode := []\<rparr>" and "u_Username row = n"
    and "cr_match b (u_Password row) p" and "u_Status row = UserStatusEnabled"
proof -
  let ?u0 = "zero_user\<lparr>u_Username := n, u_Password := p\<rparr>"
  have user: "user = fill_user (\<lambda>r. u_Username r = n) ?u0 d" and ok: "cr_match b (u_Password user) p" "u_Status user = UserStatusEnabled"
    using assms by (auto simp: ValidateAndFill_def Let_def ValidatePasswordAndHash_def split: if_splits)
  from fill_user_cases [of "\<lambda>r. u_Username r = n" ?u0 d] user ok show thesis
    by (auto simp: zero_user_def UserStatusEnabled_def intro: that)
qed

lemma Login_session: "earned env st (Rq_login body) (aw_session w) (users w) (aw_session (snd (Login env st body w)))"
proof (cases "snd (Login env st body w) = w")
  case True
  then show ?thesis by (simp add: earned_def)
next
  case False
  then obtain n p user where np: "ShouldBindJSON dec_login body ([], []) = Some (n, p)"
    and fill: "ValidateAndFill (ae_crypto env) (zero_user\<lparr>u_Username := n, u_Password := p\<rparr>) (aw_db w) = Inr user"
    and eq: "Login env st body w = setupLogin env user w"
    by (auto simp: Login_def split: if_splits option.splits sum.splits)
  obtain row where row: "row \<in> set (users w)" "user = row\<lparr>u_VerificationCode := []\<rparr>" "u_Username row = n"
    "cr_match (ae_crypto env) (u_Password row) p" "u_Status row = UserStatusEnabled" using ValidateAndFill_Inr [OF fill] by metis
  have "aw_session (snd (Login env st body w)) \<in> {aw_session w, Some (session_of row)}"
    using setupLogin_session [of env user w] by (simp add: eq row(2))
  moreover have "proved env st (Rq_login body) row" using np row by (simp add: proved_def)
  ultimately show ?thesis using row by (auto simp: earned_def)
qed

lemma sign_in_earned:
  assumes "row \<in> set us" and "session_of u = session_of row" and "proved env st rq row" and "aw_session w = before"
  shows "earned env st rq before us (aw_session (snd (sign_in env u w)))"
proof -
  have "u_Status row = u_Status u" using assms(2) by (simp add: session_of_def)
  then show ?thesis using sign_in_session [of env u w] assms by (auto simp: earned_def)
qed

lemma filled_by_outside:
  assumes "list_ex P (db_users d)"
  obtains row where "row \<in> set (db_users d)" and "P row" and "fill_user P u d = row\<lparr>u_VerificationCode := u_VerificationCode u\<rparr>"
  using assms first_user_None [of P d] first_user_Some [of P d]
  by (cases "first_user P d") (auto simp: fill_user_def list_ex_iff)

lemma inserted_row:
  assumes "User_Insert b nid u d = Inr (v, d')"
  obtains row where "row \<in> set (db_users d')" and "session_of v = session_of row" and "u_GitHubId row = u_GitHubId u" and "u_WeChatId row = u_WeChatId u"
proof -
  obtain p where "create_user nid (u\<lparr>u_Password := p\<rparr>) d = Inr (v, d')" using assms by (rule User_Insert_Inr)
  from create_user_Inr [OF this] show thesis by (intro that [of "v\<lparr>u_VerificationCode := []\<rparr>"]) auto
qed

lemma WeChatAuth_session:
  "earned env st (Rq_wechat code) (aw_session w) (users (snd (WeChatAuth env st code w))) (aw_session (snd (WeChatAuth env st code w)))"
proof (cases "as_WeChatAuthEnabled st \<and> (\<exists>g. getWeChatIdByCode env st code = Inr g)")
  case False
  then show ?thesis by (auto simp: WeChatAuth_def earned_def split: sum.split)
next
  case True
  then obtain g where g: "as_WeChatAuthEnabled st" "getWeChatIdByCode env st code = Inr g" by auto
  let ?u = "zero_user\<lparr>u_WeChatId := g\<rparr>"
  have g0: "g \<noteq> []" using g(2) by (auto simp: getWeChatIdByCode_def split: if_splits sum.splits option.splits)
  show ?thesis
  proof (cases "IsWeChatIdAlreadyTaken g (aw_db w)")
    case taken: True
    then obtain row where row: "row \<in> set (users w)" "u_WeChatId row = g" "fill_user (\<lambda>r. u_WeChatId r = g) ?u (aw_db w) = row\<lparr>u_VerificationCode := []\<rparr>"
      unfolding IsWeChatIdAlreadyTaken_def by (rule filled_by_outside [where u = ?u]) (auto simp: zero_user_def)
    have eq: "WeChatAuth env st code w = sign_in env (row\<lparr>u_VerificationCode := []\<rparr>) w"
      using g g0 taken row(3) by (simp add: WeChatAuth_def FillUserByWeChatId_def zero_user_def)
    show ?thesis unfolding eq using row g(2) by (simp add: sign_in_earned [where row = row] proved_def)
  next
    case free: False
    show ?thesis
    proof (cases "\<exists>v d. as_RegisterEnabled st \<and> User_Insert (ae_crypto env) (ae_new_id env) (?u\<lparr>u_Username := ''wechat_'' @ Itoa (GetMaxUserId (aw_db w) + 1),
        u_DisplayName := ''WeChat User'', u_Role := RoleCommonUser, u_Status := UserStatusEnabled\<rparr>) (aw_db w) = Inr (v, d)")
      case False
      then show ?thesis using g free by (auto simp: WeChatAuth_def earned_def split: sum.split)
    next
      case True
      then obtain v d where ins: "as_RegisterEnabled st" "User_Insert (ae_crypto env) (ae_new_id env) (?u\<lparr>u_Username := ''wechat_'' @ Itoa (GetMaxUserId (aw_db w) + 1),
        u_DisplayName := ''WeChat User'', u_Role := RoleCommonUser, u_Status := UserStatusEnabled\<rparr>) (aw_db w) = Inr (v, d)" by auto
      obtain row where row: "row \<in> set (db_users d)" "session_of v = session_of row" "u_WeChatId row = g" using inserted_row [OF ins(2)] by auto
      have eq: "WeChatAuth env st code w = sign_in env v (w\<lparr>aw_db := d\<rparr>)" using g free ins by (simp add: WeChatAuth_def)
      show ?thesis unfolding eq using row g(2) by (simp add: sign_in_earned [where row = row] proved_def)
    qed
  qed
qed

lemma store_db_session [simp]: "aw_session (snd (store_db r w)) = aw_session w"
  by (simp add: store_db_def split: sum.split)

lemma send_mail_session [simp]: "aw_session (snd (send_mail env email s w)) = aw_session w"
  by (simp add: send_mail_def split: option.split)

lemma GitHubBind_session: "aw_session (snd (GitHubBind env st code w)) = aw_session w"
  by (simp add: GitHubBind_def split: option.split sum.split)

lemma GitHubOAuth_session:
  "earned env st (Rq_github code) (aw_session w) (users (snd (GitHubOAuth env st code w))) (aw_session (snd (GitHubOAuth env st code w)))"
proof (cases "aw_session w = None \<and> as_GitHubOAuthEnabled st \<and> (\<exists>g. getGitHubUserInfoByCode env st code = Inr g)")
  case False
  then show ?thesis
    using GitHubBind_session [of env st code w] by (auto simp: GitHubOAuth_def earned_def case_prod_unfold split: sum.split)
next
  case True
  then obtain g where g: "aw_session w = None" "as_GitHubOAuthEnabled st" "getGitHubUserInfoByCode env st code = Inr g" by auto
  let ?u = "zero_user\<lparr>u_GitHubId := gh_Login g\<rparr>"
  let ?new = "?u\<lparr>u_Username := ''github_'' @ Itoa (GetMaxUserId (aw_db w) + 1),
    u_DisplayName := (if gh_Name g \<noteq> [] then gh_Name g else ''GitHub User''), u_Email := gh_Email g, u_Role := RoleCommonUser, u_Status := UserStatusEnabled\<rparr>"
  have g0: "gh_Login g \<noteq> []" using g(3) by (auto simp: getGitHubUserInfoByCode_def split: if_splits sum.splits option.splits)
  show ?thesis
  proof (cases "IsGitHubIdAlreadyTaken (gh_Login g) (aw_db w)")
    case taken: True
    then obtain row where row: "row \<in> set (users w)" "u_GitHubId row = gh_Login g"
        "fill_user (\<lambda>r. u_GitHubId r = gh_Login g) ?u (aw_db w) = row\<lparr>u_VerificationCode := []\<rparr>"
      unfolding IsGitHubIdAlreadyTaken_def by (rule filled_by_outside [where u = ?u]) (auto simp: zero_user_def)
    have "snd (GitHubOAuth env st code w) = snd (sign_in env (row\<lparr>u_VerificationCode := []\<rparr>) w)"
      using g g0 taken row(3) by (simp add: GitHubOAuth_def FillUserByGitHubId_def zero_user_def case_prod_unfold)
    then show ?thesis using row g by (simp add: sign_in_earned [where row = row] proved_def)
  next
    case free: False
    show ?thesis
    proof (cases "\<exists>v d. as_RegisterEnabled st \<and> User_Insert (ae_crypto env) (ae_new_id env) ?new (aw_db w) = Inr (v, d)")
      case False
      then show ?thesis using g free by (auto simp: GitHubOAuth_def earned_def split: sum.split)
    next
      case True
      then obtain v d where ins: "as_RegisterEnabled st" "User_Insert (ae_crypto env) (ae_new_id env) ?new (aw_db w) = Inr (v, d)" by auto
      obtain row where row: "row \<in> set (db_users d)" "session_of v = session_of row" "u_GitHubId row = gh_Login g" using inserted_row [OF ins(2)] by auto
      have "snd (GitHubOAuth env st code w) = snd (sign_in env v (w\<lparr>aw_db := d\<rparr>))" using g free ins by (simp add: GitHubOAuth_def case_prod_unfold)
      then show ?thesis using row g by (simp add: sign_in_earned [where row = row] proved_def)
    qed
  qed
qed

lemma admin_step_session: "aw_session (admin_step env c act w) = aw_session w"
proof (cases act)
  case (Act_update body)
  then show ?thesis using UpdateUser_rule [of "\<lambda>w'. aw_session w' = aw_session w"] by simp
next
  case (Act_create body)
  then show ?thesis using CreateUser_rule [of "\<lambda>w'. aw_session w' = aw_session w"] by simp
next
  case (Act_delete body)
  then show ?thesis using DeleteUser_rule [of "\<lambda>w'. aw_session w' = aw_session w"] by simp
next
  case (Act_manage body)
  then show ?thesis using ManageUser_rule [of "\<lambda>w'. aw_session w' = aw_session w"] by simp
qed

lemma own_handlers_session:
  "aw_session (snd (GenerateToken env c w)) = aw_session w" "aw_session (snd (UpdateSelf env c body w)) = aw_session w"
  "aw_session (snd (DeleteSelf c w)) = aw_session w" "aw_session (snd (EmailBind env c email code w)) = aw_session w"
  "aw_session (snd (WeChatBind env st c code w)) = aw_session w" "aw_session (snd (ResetPassword env body w)) = aw_session w"
  "aw_session (snd (SendEmailVerification env email w)) = aw_session w" "aw_session (snd (SendPasswordResetEmail env st email w)) = aw_session w"
  "aw_session (snd (Register env st body w)) = aw_session w"
  using UpdateSelf_rule [of "\<lambda>w'. aw_session w' = aw_session w" w c env body]
  by (auto simp: GenerateToken_def DeleteSelf_def EmailBind_def WeChatBind_def ResetPassword_def SendEmailVerification_def
      SendPasswordResetEmail_def Register_def Let_def split: option.split sum.split prod.split)

lemma guarded_session: "(\<And>c. aw_session (f c) = aw_session w) \<Longrightarrow> aw_session (guarded auth check a f w) = aw_session w"
  by (rule guarded_cases [of auth check a f w]) simp_all

lemma Logout_session: "aw_session (snd (Logout env w)) \<in> {aw_session w, None}"
  by (simp add: Logout_def split: option.split)

lemma account_handler_session:
  "earned env st rq (aw_session w) (users (account_handler env st a rq w)) (aw_session (account_handler env st a rq w))"
proof -
  have same: "earned env st rq b us b" for b us by (simp add: earned_def)
  show ?thesis
    using Login_session [of env st _ w] WeChatAuth_session [of env st _ w] GitHubOAuth_session [of env st _ w] Logout_session [of env w]
    by (cases rq) (auto simp: same own_handlers_session guarded_session admin_step_session session_handlers_users earned_def)
qed

subsection \<open>Every reachable state\<close>

definition site_ok :: "site \<Rightarrow> bool" where
  "site_ok s \<longleftrightarrow> accounts_ok (db_users (si_db s)) \<and> (\<forall>k. actor_role (si_sessions s k) \<le> RoleRootUser)"

lemma seen_by_simps [simp]:
  "aw_db (seen_by k s) = si_db s" "aw_session (seen_by k s) = si_sessions s k" "aw_codes (seen_by k s) = si_codes s"
  by (simp_all add: seen_by_def)

lemma serve_db: "si_db (serve env st k a rq s) = aw_db (account_handler env st a rq (seen_by k s))"
  by (simp add: serve_def Let_def)

lemma serve_session: "si_sessions (serve env st k a rq s) = (si_sessions s)(k := aw_session (account_handler env st a rq (seen_by k s)))"
  by (simp add: serve_def Let_def)

lemma serve_earned:
  "earned env st rq (si_sessions s k) (db_users (si_db (serve env st k a rq s))) (si_sessions (serve env st k a rq s) k)"
  using account_handler_session [of env st rq "seen_by k s" a] by (simp add: serve_db serve_session)

lemma serve_change:
  "accounts_ok (db_users (si_db s)) \<Longrightarrow> ae_new_id env \<noteq> 0
    \<Longrightarrow> user_change (actor_role (si_sessions s k)) (db_users (si_db s)) (db_users (si_db (serve env st k a rq s)))"
  using account_handler_change [of "seen_by k s" env st a rq] by (simp add: serve_db)

lemma site_ok_serve:
  assumes ok: "site_ok s" and nid: "ae_new_id env \<noteq> 0"
  shows "site_ok (serve env st k a rq s)"
proof -
  have us: "accounts_ok (db_users (si_db (serve env st k a rq s)))"
    using accounts_ok_change [OF serve_change] ok nid by (simp add: site_ok_def)
  have "actor_role (si_sessions (serve env st k a rq s) k) \<le> RoleRootUser"
    using serve_earned [of env st rq s k a] ok us
    by (auto simp: earned_def site_ok_def actor_role_def session_of_def accounts_ok_def ranks_ok_def list_all_iff RoleRootUser_def)
  then show ?thesis using ok us by (auto simp: site_ok_def serve_session)
qed

lemma root_account:
  assumes "db_users d = []" and "createRootAccountIfNeed b nid d = Inr d'" and "nid \<noteq> 0"
  shows "accounts_ok (db_users d')"
proof -
  have none: "first_user (\<lambda>_. True) d = None" using assms(1) by (simp add: first_user_None)
  show ?thesis
    using assms none
    by (auto simp: createRootAccountIfNeed_def create_user_def Let_def accounts_ok_def ranks_ok_def zero_user_def RoleRootUser_def
        split: sum.splits if_splits)
qed

lemma site_reachable_ok: "site_reachable s \<Longrightarrow> site_ok s"
proof (induction rule: site_reachable.induct)
  case (site_start d b nid d')
  then show ?case using root_account by (simp add: site_ok_def actor_role_def RoleRootUser_def)
next
  case (site_serve s env st k a rq)
  then show ?case by (simp add: site_ok_serve)
qed

text \<open>
  C12: In every state the service can reach from an empty database, whatever requests its clients sent in whatever
  order, the account table is well typed: identifiers are non-zero and unique, user names are unique, and neither an account
  nor a session has a role above root.
\<close>

theorem account_table_well_formed:
  assumes "site_reachable s"
  shows "distinct (map u_Id (db_users (si_db s))) \<and> 0 \<notin> u_Id ` set (db_users (si_db s))
    \<and> distinct (map u_Username (db_users (si_db s))) \<and> list_all (\<lambda>u. u_Role u \<le> RoleRootUser) (db_users (si_db s))
    \<and> actor_role (si_sessions s k) \<le> RoleRootUser"
  using site_reachable_ok [OF assms] by (simp add: site_ok_def accounts_ok_def ranks_ok_def)

text \<open>
  C11: Rank comes from above only: when a request, of any kind, leaves an account with administrator rights or
  more that did not have the same role before, it came with the session of somebody whose role is higher than the role given.
\<close>

theorem rank_comes_from_above:
  assumes "site_reachable s" and "ae_new_id env \<noteq> 0" and "u \<in> set (db_users (si_db (serve env st k a rq s)))" and "RoleAdminUser \<le> u_Role u"
  shows "(\<exists>v \<in> set (db_users (si_db s)). u_Id v = u_Id u \<and> u_Role v = u_Role u)
    \<or> (\<exists>x. si_sessions s k = Some x \<and> u_Role u < s_role x)"
proof -
  have "user_change (actor_role (si_sessions s k)) (db_users (si_db s)) (db_users (si_db (serve env st k a rq s)))"
    using serve_change site_reachable_ok [OF assms(1)] assms(2) by (simp add: site_ok_def)
  from rank_change [OF this assms(3,4)] show ?thesis
    using assms(4) by (cases "si_sessions s k") (auto simp: actor_role_def RoleAdminUser_def)
qed

text \<open>
  C13: A session is earned: after any request the client has the session it had, none, or one that carries the
  identity of an enabled account whose owner the request has shown it comes from, by the password of a login, or by the
  GitHub or WeChat account bound to it; no other request opens a session.
\<close>

theorem session_is_earned:
  "si_sessions (serve env st k a rq s) k = si_sessions s k \<or> si_sessions (serve env st k a rq s) k = None
   \<or> (\<exists>u \<in> set (db_users (si_db (serve env st k a rq s))).
        si_sessions (serve env st k a rq s) k = Some \<lparr>s_id = u_Id u, s_username = u_Username u, s_role = u_Role u, s_status = u_Status u\<rparr>
        \<and> u_Status u = UserStatusEnabled \<and> proved env st rq u)"
  using serve_earned [of env st rq s k a] by (auto simp: earned_def session_of_def)

subsection \<open>A first hour\<close>

definition account_sample_env :: auth_env where
  "account_sample_env = \<lparr>ae_crypto = \<lparr>cr_hash = \<lambda>p. Some (CHR ''#'' # p), cr_match = \<lambda>h p. h = CHR ''#'' # p\<rparr>, ae_validate = \<lambda>_. None,
     ae_valid_email = \<lambda>_. True, ae_new_id = 2, ae_uuid = ''00-11'', ae_now = 0, ae_save_error = None, ae_send_error = None,
     ae_github_token = \<lambda>_. None, ae_github_user = \<lambda>_. None, ae_wechat_get = \<lambda>_ _. Inl ErrNotFound\<rparr>"

definition account_sample_settings :: auth_settings where
  "account_sample_settings = \<lparr>as_PasswordLoginEnabled = True, as_PasswordRegisterEnabled = True, as_EmailVerificationEnabled = False,
     as_GitHubOAuthEnabled = False, as_WeChatAuthEnabled = False, as_RegisterEnabled = True, as_GitHubClientId = [],
     as_GitHubClientSecret = [], as_WeChatServerAddress = [], as_WeChatServerToken = [], as_ServerAddress = []\<rparr>"

definition sample_root :: User where
  "sample_root = zero_user\<lparr>u_Id := 1, u_Username := ''root'', u_Password := ''#123456'', u_Role := 100, u_Status := 1, u_DisplayName := ''Root User''\<rparr>"

definition sample_site :: site where
  "sample_site = \<lparr>si_db = \<lparr>db_providers = [], db_tokens = [], db_routes = [], db_pricings = [], db_aggtokens = [], db_users = [sample_root], db_logs = []\<rparr>,
     si_codes = [], si_mails = [], si_sessions = (\<lambda>_. None)\<rparr>"

lemma sample_site_reachable: "site_reachable sample_site"
proof -
  let ?d = "\<lparr>db_providers = [], db_tokens = [], db_routes = [], db_pricings = [], db_aggtokens = [], db_users = [], db_logs = []\<rparr>"
  have "createRootAccountIfNeed (ae_crypto account_sample_env) 1 ?d = Inr (si_db sample_site)"
    by (simp add: createRootAccountIfNeed_def first_user_def Password2Hash_def account_sample_env_def sample_site_def sample_root_def create_user_def
        zero_user_def RoleRootUser_def UserStatusEnabled_def Let_def)
  then have "site_reachable \<lparr>si_db = si_db sample_site, si_codes = [], si_mails = [], si_sessions = (\<lambda>_. None)\<rparr>"
    by (intro site_start) auto
  then show ?thesis by (simp add: sample_site_def)
qed

lemma account_table_well_formed_witness:
  "site_reachable sample_site \<and> distinct (map u_Id (db_users (si_db sample_site)))"
  using account_table_well_formed [OF sample_site_reachable] sample_site_reachable by blast

lemma rank_comes_from_above_witness:
  "u_Role sample_root = 100 \<and> (\<exists>v \<in> set (db_users (si_db sample_site)). u_Role v = 100)"
proof -
  have "sample_root \<in> set (db_users (si_db (serve account_sample_env account_sample_settings 0 [] Rq_logout sample_site)))"
    by (simp add: serve_db session_handlers_users sample_site_def)
  from rank_comes_from_above [OF sample_site_reachable _ this] show ?thesis
    by (auto simp: account_sample_env_def sample_root_def RoleAdminUser_def sample_site_def)
qed

lemma admin_cannot_reach_up_witness:
  "keeps_above 10 [sample_root] (users (admin_step account_sample_env \<lparr>ac_id = 2, ac_username = ''ann'', ac_role = 10, ac_authByToken = False\<rparr>
     (Act_delete ''1'') (seen_by 0 sample_site)))"
proof -
  let ?c = "\<lparr>ac_id = 2, ac_username = ''ann'', ac_role = 10, ac_authByToken = False\<rparr>"
  have "users (seen_by 0 sample_site) = [sample_root]" by (simp add: sample_site_def)
  then show ?thesis using admin_cannot_reach_up [of "seen_by 0 sample_site" ?c account_sample_env "Act_delete ''1''"]
    by (simp add: ranks_ok_def sample_root_def RoleRootUser_def RoleAdminUser_def)
qed

subsection \<open>Password resets\<close>

text \<open>
  C20: A password is reset with a mailed code only, and once: a successful reset names an e-mail address and the code
  registered for it less than ten minutes before, replaces the password of exactly the accounts with that address by the
  hash of the one it answers, and leaves no code for the address, so that the next reset with it is refused.
\<close>

theorem reset_needs_mailed_code:
  assumes "ResetPassword env body w = (Inr password, w')"
  shows "case reset_request body of (email, token) \<Rightarrow>
    (\<exists>v. mget (aw_codes w) (PasswordResetPurpose @ email) = Some v \<and> vv_code v = token \<and> ae_now env - vv_time v < 600 * Second)
    \<and> (\<exists>h. cr_hash (ae_crypto env) password = Some h
          \<and> users w' = map (\<lambda>r. if u_Email r = email then r\<lparr>u_Password := h\<rparr> else r) (users w))
    \<and> (if fst (reset_request body') = email then \<exists>e. fst (ResetPassword env' body' w') = Inl e else True)"
proof -
  obtain email token where req: "reset_request body = (email, token)" by (cases "reset_request body")
  have ok: "VerifyCodeWithKey (ae_now env) email token PasswordResetPurpose (aw_codes w)"
    and "\<exists>d. ResetUserPasswordByEmail (ae_crypto env) email password (aw_db w) = Inr d
      \<and> w' = w\<lparr>aw_db := d, aw_codes := DeleteKey email PasswordResetPurpose (aw_codes w)\<rparr>"
    using assms by (auto simp: ResetPassword_def req split: if_splits option.splits sum.splits)
  then obtain d where d: "ResetUserPasswordByEmail (ae_crypto env) email password (aw_db w) = Inr d"
    and w': "w' = w\<lparr>aw_db := d, aw_codes := DeleteKey email PasswordResetPurpose (aw_codes w)\<rparr>" by auto
  have "\<exists>v. mget (aw_codes w) (PasswordResetPurpose @ email) = Some v \<and> vv_code v = token \<and> ae_now env - vv_time v < 600 * Second"
    using ok by (auto simp: VerifyCodeWithKey_def code_expired_def VerificationValidMinutes_def Second_def split: option.splits if_splits)
  moreover have "\<exists>h. cr_hash (ae_crypto env) password = Some h \<and> users w' = map (\<lambda>r. if u_Email r = email then r\<lparr>u_Password := h\<rparr> else r) (users w)"
    using d by (auto simp: w' ResetUserPasswordByEmail_def Password2Hash_def row_update_def split: if_splits option.splits)
  moreover have "\<exists>e. fst (ResetPassword env' body' w') = Inl e" if "fst (reset_request body') = email"
    using that by (cases "reset_request body'") (auto simp: ResetPassword_def VerifyCodeWithKey_def DeleteKey_def w')
  ultimately show ?thesis by (simp add: req)
qed

lemma reset_needs_mailed_code_witness:
  "\<exists>v. mget [(''ra'', \<lparr>vv_code = ''t'', vv_time = 0\<rparr>)] (PasswordResetPurpose @ ''a'') = Some v \<and> vv_code v = ''t''"
proof -
  let ?env = "account_sample_env\<lparr>ae_uuid := ''abcdefabcdef''\<rparr>"
  let ?w = "(seen_by 0 sample_site)\<lparr>aw_codes := [(''ra'', \<lparr>vv_code = ''t'', vv_time = 0\<rparr>)]\<rparr>"
  let ?body = "''{\"email\":\"a\",\"token\":\"t\"}''"
  have req: "reset_request ?body = (''a'', ''t'')" by code_simp
  have code: "VerifyCodeWithKey 0 ''a'' ''t'' PasswordResetPurpose [(''ra'', \<lparr>vv_code = ''t'', vv_time = 0\<rparr>)] = True" by code_simp
  have "fst (ResetPassword ?env ?body ?w) = Inr ''abcdefabcdef''"
    by (simp add: ResetPassword_def req code account_sample_env_def GenerateVerificationCode_def Let_def ResetUserPasswordByEmail_def Password2Hash_def)
  then have "ResetPassword ?env ?body ?w = (Inr ''abcdefabcdef'', snd (ResetPassword ?env ?body ?w))" by (metis prod.collapse)
  from reset_needs_mailed_code [OF this, of ?body ?env] show ?thesis by (auto simp: req)
qed

subsection \<open>Aggregated tokens and their owners\<close>

definition others :: "int \<Rightarrow> db \<Rightarrow> AggregatedToken list" where
  "others userId d = filter (\<lambda>t. at_UserId t \<noteq> userId) (db_aggtokens d)"

definition appends_row :: "(AggregatedToken \<Rightarrow> db \<Rightarrow> gostring + db) \<Rightarrow> bool" where
  \<comment> \<open>what \<open>DB.Create\<close> does when it succeeds: one more row, with the owner it was given\<close>
  "appends_row create \<longleftrightarrow> (\<forall>t d d'. create t d = Inr d' \<longrightarrow> (\<exists>row. db_aggtokens d' = db_aggtokens d @ [row] \<and> at_UserId row = at_UserId t))"

lemma insert_attempts_created:
  "insert_attempts create gen i n t d = Inr d' \<Longrightarrow> \<exists>key. create (t\<lparr>at_Key := key\<rparr>) d = Inr d'"
  by (induction create gen i n t d rule: insert_attempts.induct) (auto split: option.splits sum.splits if_splits)

lemma others_row_update:
  assumes "\<And>t. t \<in> set ts \<Longrightarrow> P t \<Longrightarrow> at_UserId t = uid" and "\<And>t. at_UserId (f t) = at_UserId t"
  shows "filter (\<lambda>t. at_UserId t \<noteq> uid) (row_update P f ts) = filter (\<lambda>t. at_UserId t \<noteq> uid) ts"
  using assms(1) by (induction ts) (auto simp: row_update_def assms(2))

lemma others_row_delete:
  assumes "\<And>t. t \<in> set ts \<Longrightarrow> P t \<Longrightarrow> at_UserId t = uid"
  shows "filter (\<lambda>t. at_UserId t \<noteq> uid) (row_delete P ts) = filter (\<lambda>t. at_UserId t \<noteq> uid) ts"
  using assms by (induction ts) (auto simp: row_delete_def)

lemma owned_by_id:
  assumes "GetAggTokenById tid uid d = Inr x" and "distinct (map at_Id (db_aggtokens d))" and "t \<in> set (db_aggtokens d)" and "at_Id t = tid"
  shows "at_UserId t = uid \<and> at_Id x = tid"
proof -
  have x: "x \<in> set (db_aggtokens d)" "at_Id x = tid" "at_UserId x = uid"
    using assms(1) by (auto simp: GetAggTokenById_def find_Some_iff split: if_splits option.splits)
  then have "t = x" using assms(2-4) by (auto simp: distinct_map dest: inj_onD)
  then show ?thesis using x by simp
qed

lemma CreateAggToken_others:
  assumes "appends_row create"
  shows "others (ac_id c) (snd (CreateAggToken create gen now c body d)) = others (ac_id c) d"
proof -
  have "others (ac_id c) d' = others (ac_id c) d" if ins: "AggToken_Insert create gen now t d = Inr d'" and own: "at_UserId t = ac_id c" for t d'
  proof -
    obtain key where "create (t\<lparr>at_CreatedAt := Unix now, at_Key := key\<rparr>) d = Inr d'"
      using insert_attempts_created [OF ins [unfolded AggToken_Insert_def]] by auto
    then obtain row where "db_aggtokens d' = db_aggtokens d @ [row]" "at_UserId row = at_UserId t"
      using assms unfolding appends_row_def by fastforce
    then show ?thesis using own by (simp add: others_def)
  qed
  then show ?thesis by (auto simp: CreateAggToken_def Let_def split: option.split sum.split)
qed

lemma UpdateAggToken_others:
  assumes "distinct (map at_Id (db_aggtokens d))"
  shows "others (ac_id c) (snd (UpdateAggToken c body d)) = others (ac_id c) d"
proof -
  have "others (ac_id c) (AggToken_Update t d) = others (ac_id c) d" if "GetAggTokenById (at_Id t) (ac_id c) d = Inr x" for t x
    unfolding others_def AggToken_Update_def using owned_by_id [OF that assms] by (simp add: others_row_update)
  from this [of "t\<lparr>at_UserId := ac_id c\<rparr>" for t] show ?thesis by (auto simp: UpdateAggToken_def split: option.split sum.split)
qed

lemma DeleteAggToken_others:
  assumes "distinct (map at_Id (db_aggtokens d))"
  shows "others (ac_id c) (snd (DeleteAggToken c param d)) = others (ac_id c) d"
proof -
  have "others (ac_id c) d' = others (ac_id c) d" if g: "GetAggTokenById tid (ac_id c) d = Inr x" and "AggToken_Delete x d = Inr d'" for tid x d'
  proof -
    have "at_Id x = tid" using g by (auto simp: GetAggTokenById_def find_Some_iff split: if_splits option.splits)
    then have "at_UserId t = ac_id c" if "t \<in> set (db_aggtokens d)" "at_Id t = at_Id x" for t using owned_by_id [OF g assms that(1)] that(2) by simp
    then have "filter (\<lambda>t. at_UserId t \<noteq> ac_id c) (row_delete (\<lambda>r. at_Id r = at_Id x) (db_aggtokens d)) = filter (\<lambda>t. at_UserId t \<noteq> ac_id c) (db_aggtokens d)"
      by (rule others_row_delete)
    then show ?thesis using that(2) by (auto simp: AggToken_Delete_def others_def split: if_splits)
  qed
  then show ?thesis by (auto simp: DeleteAggToken_def split: option.split sum.split)
qed

text \<open>
  C21: Aggregated tokens stay with their owner: creating, changing or deleting a token leaves the tokens of every
  other user exactly as they were, whatever identifiers and fields the request names, and the listing shows the user's own
  tokens only.
\<close>

theorem agg_tokens_stay_with_owner:
  assumes "distinct (map at_Id (db_aggtokens d))" and "appends_row create"
  shows "others (ac_id c) (snd (CreateAggToken create gen now c body d)) = others (ac_id c) d
    \<and> others (ac_id c) (snd (UpdateAggToken c body d)) = others (ac_id c) d
    \<and> others (ac_id c) (snd (DeleteAggToken c body d)) = others (ac_id c) d
    \<and> list_all (\<lambda>t. at_UserId t = ac_id c) (pd_items (GetAggTokens c qp qsize d))"
  using assms CreateAggToken_others UpdateAggToken_others DeleteAggToken_others
  by (auto simp: GetAggTokens_def QueryUserAggTokens_def Let_def buildPaginatedData_def page_desc_def list_all_iff dest!: in_set_takeD in_set_dropD)

lemma appends_row_sample: "appends_row (\<lambda>t d. Inr (d\<lparr>db_aggtokens := db_aggtokens d @ [t]\<rparr>))"
  by (simp add: appends_row_def)

lemma agg_tokens_stay_with_owner_witness:
  "others 1 (snd (DeleteAggToken \<lparr>ac_id = 1, ac_username = ''ann'', ac_role = 1, ac_authByToken = False\<rparr> ''7''
     (si_db sample_site\<lparr>db_aggtokens := [zero_aggtoken\<lparr>at_Id := 7, at_UserId := 2\<rparr>]\<rparr>))) = [zero_aggtoken\<lparr>at_Id := 7, at_UserId := 2\<rparr>]"
proof -
  let ?d = "si_db sample_site\<lparr>db_aggtokens := [zero_aggtoken\<lparr>at_Id := 7, at_UserId := 2\<rparr>]\<rparr>"
  have "distinct (map at_Id (db_aggtokens ?d))" by simp
  from agg_tokens_stay_with_owner [OF this appends_row_sample,
      of "\<lparr>ac_id = 1, ac_username = ''ann'', ac_role = 1, ac_authByToken = False\<rparr>" "\<lambda>_. None" 0 "''7''" None None]
  show ?thesis by (simp add: others_def zero_aggtoken_def)
qed

end
