(* ===== verification/CheckinRuns.thy ===== *)
theory CheckinRuns
  imports GoTime GoJson Schema
begin

text \<open>
  The records of check-in runs and their items, \<open>src/model/checkin_run.go\<close>: two tables, each a list of rows. Texts
  of the program in Chinese are given by their code points and compared as the UTF-8 bytes that Go holds.
\<close>

definition utf8 :: "nat list \<Rightarrow> gostring" where
  "utf8 cs = concat (map utf8_encode cs)"

lemma utf8_Nil_iff [simp]: "utf8 cs = [] \<longleftrightarrow> cs = []"
  by (cases cs) (simp_all add: utf8_def utf8_encode_def)

record CheckinRun =
  rn_Id :: int
  rn_TriggerType :: gostring
  rn_Status :: gostring
  rn_Timezone :: gostring
  rn_ScheduledDate :: gostring
  rn_StartedAt :: int
  rn_EndedAt :: int
  rn_TotalCount :: int
  rn_SuccessCount :: int
  rn_FailureCount :: int
  rn_UncheckinCount :: int
  rn_Message :: gostring
  rn_CreatedAt :: int

record CheckinRunItem =
  ri_Id :: int
  ri_RunId :: int
  ri_ProviderId :: int
  ri_ProviderName :: gostring
  ri_Status :: gostring
  ri_Message :: gostring
  ri_AutoDisabled :: bool
  ri_QuotaAwarded :: int
  ri_CheckedAt :: int
  ri_CreatedAt :: int

record checkin_tables =
  ct_runs :: "CheckinRun list"
  ct_items :: "CheckinRunItem list"

definition CheckinRun_Insert :: "gotime \<Rightarrow> CheckinRun \<Rightarrow> checkin_tables \<Rightarrow> CheckinRun \<times> checkin_tables" where
  \<comment> \<open>the result also has the run with its new identifier\<close>
  "CheckinRun_Insert now r t =
    (let r = (if rn_StartedAt r = 0 then r\<lparr>rn_StartedAt := Unix now\<rparr> else r);
         r = (if rn_CreatedAt r = 0 then r\<lparr>rn_CreatedAt := Unix now\<rparr> else r);
         r = (if rn_Id r = 0 then r\<lparr>rn_Id := next_row_id rn_Id (ct_runs t)\<rparr> else r)
     in (r, t\<lparr>ct_runs := ct_runs t @ [r]\<rparr>))"

definition nonzero :: "'a \<Rightarrow> 'a \<Rightarrow> 'a \<Rightarrow> 'a" where
  \<comment> \<open>\<open>Updates\<close> with a struct leaves the columns of zero fields alone\<close>
  "nonzero zero new old = (if new = zero then old else new)"

definition run_updates :: "CheckinRun \<Rightarrow> CheckinRun \<Rightarrow> CheckinRun" where
  "run_updates r old =
    \<lparr>rn_Id = rn_Id old, rn_TriggerType = nonzero [] (rn_TriggerType r) (rn_TriggerType old), rn_Status = nonzero [] (rn_Status r) (rn_Status old),
     rn_Timezone = nonzero [] (rn_Timezone r) (rn_Timezone old), rn_ScheduledDate = nonzero [] (rn_ScheduledDate r) (rn_ScheduledDate old),
     rn_StartedAt = nonzero 0 (rn_StartedAt r) (rn_StartedAt old), rn_EndedAt = nonzero 0 (rn_EndedAt r) (rn_EndedAt old),
     rn_TotalCount = nonzero 0 (rn_TotalCount r) (rn_TotalCount old), rn_SuccessCount = nonzero 0 (rn_SuccessCount r) (rn_SuccessCount old),
     rn_FailureCount = nonzero 0 (rn_FailureCount r) (rn_FailureCount old), rn_UncheckinCount = nonzero 0 (rn_UncheckinCount r) (rn_UncheckinCount old),
     rn_Message = nonzero [] (rn_Message r) (rn_Message old), rn_CreatedAt = nonzero 0 (rn_CreatedAt r) (rn_CreatedAt old)\<rparr>"

definition CheckinRun_Update :: "CheckinRun \<Rightarrow> checkin_tables \<Rightarrow> gw_error + checkin_tables" where
  "CheckinRun_Update r t =
    (if rn_Id r = 0 then Inl ErrEmptyId
     else Inr (t\<lparr>ct_runs := row_update (\<lambda>old. rn_Id old = rn_Id r) (run_updates r) (ct_runs t)\<rparr>))"

definition GetRecentCheckinRuns :: "int \<Rightarrow> checkin_tables \<Rightarrow> CheckinRun list" where
  "GetRecentCheckinRuns limit t =
    (let limit = (if limit \<le> 0 then 20 else limit);
         limit = (if limit > 200 then 200 else limit)
     in page_desc rn_Id 0 limit (ct_runs t))"

definition GetLatestCheckinRun :: "checkin_tables \<Rightarrow> CheckinRun option" where
  "GetLatestCheckinRun t = (case page_desc rn_Id 0 1 (ct_runs t) of [] \<Rightarrow> None | r # _ \<Rightarrow> Some r)"

definition run_of_day :: "gostring \<Rightarrow> gostring \<Rightarrow> CheckinRun \<Rightarrow> bool" where
  "run_of_day triggerType scheduledDate r \<longleftrightarrow> rn_TriggerType r = triggerType \<and> rn_ScheduledDate r = scheduledDate"

definition ExistsCheckinRunByTriggerAndScheduledDate :: "gostring \<Rightarrow> gostring \<Rightarrow> checkin_tables \<Rightarrow> bool" where
  "ExistsCheckinRunByTriggerAndScheduledDate triggerType scheduledDate t =
    (int (length (filter (run_of_day triggerType scheduledDate) (ct_runs t))) > 0)"

definition stamp_item :: "gotime \<Rightarrow> CheckinRunItem \<Rightarrow> CheckinRunItem" where
  "stamp_item now item =
    (let item = (if ri_CheckedAt item = 0 then item\<lparr>ri_CheckedAt := Unix now\<rparr> else item)
     in if ri_CreatedAt item = 0 then item\<lparr>ri_CreatedAt := Unix now\<rparr> else item)"

fun insert_items :: "CheckinRunItem list \<Rightarrow> CheckinRunItem list \<Rightarrow> CheckinRunItem list \<times> CheckinRunItem list" where
  \<comment> \<open>the items with their identifiers, and the table\<close>
  "insert_items [] rows = ([], rows)"
| "insert_items (item # items) rows =
    (let item = (if ri_Id item = 0 then item\<lparr>ri_Id := next_row_id ri_Id rows\<rparr> else item);
         (rest, rows) = insert_items items (rows @ [item])
     in (item # rest, rows))"

definition InsertCheckinRunItems :: "gotime \<Rightarrow> CheckinRunItem list \<Rightarrow> checkin_tables \<Rightarrow> CheckinRunItem list \<times> checkin_tables" where
  "InsertCheckinRunItems now items t =
    (if items = [] then ([], t)
     else let (items, rows) = insert_items (map (stamp_item now) items) (ct_items t)
          in (items, t\<lparr>ct_items := rows\<rparr>))"

definition GetRecentCheckinRunItems :: "int \<Rightarrow> checkin_tables \<Rightarrow> CheckinRunItem list" where
  "GetRecentCheckinRunItems limit t =
    (let limit = (if limit \<le> 0 then 50 else limit);
         limit = (if limit > 500 then 500 else limit)
     in page_desc ri_Id 0 limit (ct_items t))"

definition GetLatestCheckinRunItemByProviderId :: "int \<Rightarrow> checkin_tables \<Rightarrow> CheckinRunItem option" where
  "GetLatestCheckinRunItemByProviderId providerId t =
    (case page_desc ri_Id 0 1 (filter (\<lambda>i. ri_ProviderId i = providerId) (ct_items t)) of [] \<Rightarrow> None | i # _ \<Rightarrow> Some i)"

lemma insert_items_rows: "snd (insert_items items rows) = rows @ fst (insert_items items rows)"
  by (induction items arbitrary: rows) (simp_all add: Let_def case_prod_beta)

lemma insert_items_map:
  assumes "\<And>i n. f (i\<lparr>ri_Id := n\<rparr>) = f i"
  shows "map f (fst (insert_items items rows)) = map f items"
  using assms by (induction items arbitrary: rows) (simp_all add: Let_def case_prod_beta)

lemma run_updates_id [simp]: "rn_Id (run_updates r old) = rn_Id old"
  by (simp add: run_updates_def)

end
