(* ===== verification/OptionStore.thy ===== *)
theory OptionStore
  imports Proxy UserHandlers
begin

text \<open>
  The options of the gateway: the option table with the map and the variables loaded from it
  (\<open>src/model/option.go\<close>), the validators of \<open>src/model/relay_reliability.go\<close>, \<open>backup_options.go\<close> and
  \<open>notification.go\<close>, the notification settings read from the map, and the handlers of
  \<open>src/controller/option.go\<close>. Mail addresses, URLs and time zones are judged by functions of \<open>option_env\<close>.
\<close>

subsection \<open>Variables and the option map\<close>

record globals =
  g_FileUploadPermission :: int
  g_FileDownloadPermission :: int
  g_ImageUploadPermission :: int
  g_ImageDownloadPermission :: int
  g_PasswordLoginEnabled :: bool
  g_PasswordRegisterEnabled :: bool
  g_EmailVerificationEnabled :: bool
  g_GitHubOAuthEnabled :: bool
  g_WeChatAuthEnabled :: bool
  g_TurnstileCheckEnabled :: bool
  g_RegisterEnabled :: bool
  g_CheckinScheduleEnabled :: bool
  g_SMTPServer :: gostring
  g_SMTPPort :: int
  g_SMTPAccount :: gostring
  g_SMTPToken :: gostring
  g_ServerAddress :: gostring
  g_GitHubClientId :: gostring
  g_GitHubClientSecret :: gostring
  g_Footer :: gostring
  g_HomePageLink :: gostring
  g_SystemName :: gostring
  g_WeChatServerAddress :: gostring
  g_WeChatServerToken :: gostring
  g_WeChatAccountQRCodeImageURL :: gostring
  g_TurnstileSiteKey :: gostring
  g_TurnstileSecretKey :: gostring
  g_CheckinScheduleTime :: gostring
  g_CheckinScheduleTimezone :: gostring

definition initial_globals :: globals where
  \<comment> \<open>the initial values in \<open>src/common/constants.go\<close>\<close>
  "initial_globals =
    \<lparr>g_FileUploadPermission = 0, g_FileDownloadPermission = 0, g_ImageUploadPermission = 0, g_ImageDownloadPermission = 0,
     g_PasswordLoginEnabled = True, g_PasswordRegisterEnabled = True, g_EmailVerificationEnabled = False, g_GitHubOAuthEnabled = False,
     g_WeChatAuthEnabled = False, g_TurnstileCheckEnabled = False, g_RegisterEnabled = True, g_CheckinScheduleEnabled = True,
     g_SMTPServer = [], g_SMTPPort = 587, g_SMTPAccount = [], g_SMTPToken = [], g_ServerAddress = ''http://localhost:3000'',
     g_GitHubClientId = [], g_GitHubClientSecret = [], g_Footer = [], g_HomePageLink = [], g_SystemName = ''NewAPI Gateway'',
     g_WeChatServerAddress = [], g_WeChatServerToken = [], g_WeChatAccountQRCodeImageURL = [], g_TurnstileSiteKey = [],
     g_TurnstileSecretKey = [], g_CheckinScheduleTime = ''09:00'', g_CheckinScheduleTimezone = ''Asia/Shanghai''\<rparr>"

definition set_permission :: "gostring \<Rightarrow> gostring \<Rightarrow> globals \<Rightarrow> globals" where
  "set_permission key value g =
    (let intValue = AtoiValue value in
     if key = ''FileUploadPermission'' then g\<lparr>g_FileUploadPermission := intValue\<rparr>
     else if key = ''FileDownloadPermission'' then g\<lparr>g_FileDownloadPermission := intValue\<rparr>
     else if key = ''ImageUploadPermission'' then g\<lparr>g_ImageUploadPermission := intValue\<rparr>
     else if key = ''ImageDownloadPermission'' then g\<lparr>g_ImageDownloadPermission := intValue\<rparr>
     else g)"

definition set_enabled :: "gostring \<Rightarrow> gostring \<Rightarrow> globals \<Rightarrow> globals" where
  "set_enabled key value g =
    (let boolValue = (value = ''true'') in
     if key = ''PasswordRegisterEnabled'' then g\<lparr>g_PasswordRegisterEnabled := boolValue\<rparr>
     else if key = ''PasswordLoginEnabled'' then g\<lparr>g_PasswordLoginEnabled := boolValue\<rparr>
     else if key = ''EmailVerificationEnabled'' then g\<lparr>g_EmailVerificationEnabled := boolValue\<rparr>
     else if key = ''GitHubOAuthEnabled'' then g\<lparr>g_GitHubOAuthEnabled := boolValue\<rparr>
     else if key = ''WeChatAuthEnabled'' then g\<lparr>g_WeChatAuthEnabled := boolValue\<rparr>
     else if key = ''TurnstileCheckEnabled'' then g\<lparr>g_TurnstileCheckEnabled := boolValue\<rparr>
     else if key = ''RegisterEnabled'' then g\<lparr>g_RegisterEnabled := boolValue\<rparr>
     else if key = ''CheckinScheduleEnabled'' then g\<lparr>g_CheckinScheduleEnabled := boolValue\<rparr>
     else g)"

definition set_text :: "gostring \<Rightarrow> gostring \<Rightarrow> globals \<Rightarrow> globals" where
  "set_text key value g =
    (if key = ''SMTPServer'' then g\<lparr>g_SMTPServer := value\<rparr>
     else if key = ''SMTPPort'' then g\<lparr>g_SMTPPort := AtoiValue value\<rparr>
     else if key = ''SMTPAccount'' then g\<lparr>g_SMTPAccount := value\<rparr>
     else if key = ''SMTPToken'' then g\<lparr>g_SMTPToken := value\<rparr>
     else if key = ''ServerAddress'' then g\<lparr>g_ServerAddress := value\<rparr>
     else if key = ''GitHubClientId'' then g\<lparr>g_GitHubClientId := value\<rparr>
     else if key = ''GitHubClientSecret'' then g\<lparr>g_GitHubClientSecret := value\<rparr>
     else if key = ''Footer'' then g\<lparr>g_Footer := value\<rparr>
     else if key = ''HomePageLink'' then g\<lparr>g_HomePageLink := value\<rparr>
     else if key = ''SystemName'' then g\<lparr>g_SystemName := value\<rparr>
     else if key = ''WeChatServerAddress'' then g\<lparr>g_WeChatServerAddress := value\<rparr>
     else if key = ''WeChatServerToken'' then g\<lparr>g_WeChatServerToken := value\<rparr>
     else if key = ''WeChatAccountQRCodeImageURL'' then g\<lparr>g_WeChatAccountQRCodeImageURL := value\<rparr>
     else if key = ''TurnstileSiteKey'' then g\<lparr>g_TurnstileSiteKey := value\<rparr>
     else if key = ''TurnstileSecretKey'' then g\<lparr>g_TurnstileSecretKey := value\<rparr>
     else if key = ''CheckinScheduleTime'' then g\<lparr>g_CheckinScheduleTime := value\<rparr>
     else if key = ''CheckinScheduleTimezone'' then g\<lparr>g_CheckinScheduleTimezone := value\<rparr>
     else g)"

definition set_global :: "gostring \<Rightarrow> gostring \<Rightarrow> globals \<Rightarrow> globals" where
  "set_global key value g =
    (let g = (if HasSuffix key ''Permission'' then set_permission key value g else g);
         g = (if HasSuffix key ''Enabled'' then set_enabled key value g else g)
     in set_text key value g)"

type_synonym options = "(gostring, gostring) gomap"

definition updateOptionMap :: "gostring \<Rightarrow> gostring \<Rightarrow> options \<times> globals \<Rightarrow> options \<times> globals" where
  "updateOptionMap key value s = (mput key value (fst s), set_global key value (snd s))"

definition FormatBool :: "bool \<Rightarrow> gostring" where
  "FormatBool b = (if b then ''true'' else ''false'')"

definition NotificationOptionDefaults :: options where
  "NotificationOptionDefaults =
    [(''NotificationBarkEnabled'', ''false''), (''NotificationBarkServer'', []), (''NotificationBarkDeviceKey'', []),
     (''NotificationBarkGroup'', []), (''NotificationWebhookEnabled'', ''false''), (''NotificationWebhookURL'', []),
     (''NotificationWebhookToken'', []), (''NotificationSMTPEnabled'', ''false''), (''NotificationSMTPRecipients'', []),
     (''NotificationSMTPSubjectPrefix'', ''[NewAPI Gateway]''), (''NotificationCheckinSummaryEnabled'', ''false''),
     (''NotificationCheckinFailureEnabled'', ''true''), (''NotificationProviderAutoDisableEnabled'', ''true''),
     (''NotificationProviderHealthEnabled'', ''true''), (''NotificationRequestFailureEnabled'', ''false''),
     (''NotificationVerbosityMode'', ''concise''), (''NotificationRequestFailureThreshold'', ''5''),
     (''NotificationRequestFailureWindowMinutes'', ''10'')]"

definition ApplyNotificationOptionDefaults :: "options \<Rightarrow> options" where
  "ApplyNotificationOptionDefaults m = fold (\<lambda>(k, v). mput k v) NotificationOptionDefaults m"

definition account_option_defaults :: "globals \<Rightarrow> options" where
  "account_option_defaults g =
    [(''FileUploadPermission'', Itoa (g_FileUploadPermission g)), (''FileDownloadPermission'', Itoa (g_FileDownloadPermission g)),
     (''ImageUploadPermission'', Itoa (g_ImageUploadPermission g)), (''ImageDownloadPermission'', Itoa (g_ImageDownloadPermission g)),
     (''PasswordLoginEnabled'', FormatBool (g_PasswordLoginEnabled g)), (''PasswordRegisterEnabled'', FormatBool (g_PasswordRegisterEnabled g)),
     (''EmailVerificationEnabled'', FormatBool (g_EmailVerificationEnabled g)), (''GitHubOAuthEnabled'', FormatBool (g_GitHubOAuthEnabled g)),
     (''WeChatAuthEnabled'', FormatBool (g_WeChatAuthEnabled g)), (''TurnstileCheckEnabled'', FormatBool (g_TurnstileCheckEnabled g)),
     (''RegisterEnabled'', FormatBool (g_RegisterEnabled g)), (''SMTPServer'', []), (''SMTPPort'', Itoa (g_SMTPPort g)),
     (''SMTPAccount'', []), (''SMTPToken'', []), (''Notice'', []), (''About'', []), (''Footer'', g_Footer g),
     (''HomePageLink'', g_HomePageLink g), (''SystemName'', g_SystemName g), (''ServerAddress'', []), (''GitHubClientId'', []),
     (''GitHubClientSecret'', []), (''WeChatServerAddress'', []), (''WeChatServerToken'', []), (''WeChatAccountQRCodeImageURL'', []),
     (''TurnstileSiteKey'', []), (''TurnstileSecretKey'', []), (''CheckinScheduleEnabled'', FormatBool (g_CheckinScheduleEnabled g)),
     (''CheckinScheduleTime'', g_CheckinScheduleTime g), (''CheckinScheduleTimezone'', g_CheckinScheduleTimezone g)]"

definition service_option_defaults :: options where
  \<comment> \<open>backup, routing and relay\<close>
  "service_option_defaults =
    [(''BackupEnabled'', ''false''), (''BackupTriggerMode'', ''hybrid''), (''BackupScheduleCron'', ''0 */6 * * *''),
     (''BackupMinIntervalSeconds'', ''600''), (''BackupDebounceSeconds'', ''30''), (''BackupWebDAVURL'', []),
     (''BackupWebDAVUsername'', []), (''BackupWebDAVPassword'', []), (''BackupWebDAVBasePath'', ''/newapi-gateway-backups''),
     (''BackupEncryptEnabled'', ''true''), (''BackupEncryptPassphrase'', []), (''BackupRetentionDays'', ''14''),
     (''BackupRetentionMaxFiles'', ''100''), (''BackupSpoolDir'', ''upload/backup-spool''), (''BackupCommandTimeoutSeconds'', ''600''),
     (''BackupMaxRetries'', ''8''), (''BackupRetryBaseSeconds'', ''30''), (''BackupMySQLDumpCommand'', ''mysqldump''),
     (''BackupPostgresDumpCommand'', ''pg_dump''), (''BackupMySQLRestoreCommand'', ''mysql''), (''BackupPostgresRestoreCommand'', ''psql''),
     (''RoutingUsageWindowHours'', ''24''), (''RoutingBaseWeightFactor'', ''0.2''), (''RoutingValueScoreFactor'', ''0.8''),
     (''RoutingHealthAdjustmentEnabled'', ''false''), (''RoutingHealthWindowHours'', ''6''), (''RoutingFailurePenaltyAlpha'', ''4.0''),
     (''RoutingHealthRewardBeta'', ''0.08''), (''RoutingHealthMinMultiplier'', ''0.05''), (''RoutingHealthMaxMultiplier'', ''1.12''),
     (''RoutingHealthMinSamples'', ''5''), (''RelayResponseValidityGuardMode'', ''enforce''), (''RelayResponseValidityGuardEnabled'', ''true''),
     (''RoutingInvalidResponseSuppressionEnabled'', ''false''), (''RoutingInvalidResponseSuppressionThreshold'', ''3''),
     (''RoutingInvalidResponseSuppressionWindowMinutes'', ''10''), (''RoutingInvalidResponseSuppressionCooldownMinutes'', ''15'')]"

definition InitOptionMap :: "globals \<Rightarrow> options \<Rightarrow> options \<times> globals" where
  \<comment> \<open>\<open>table\<close> is the option table, in the order of its rows\<close>
  "InitOptionMap g table =
    fold (\<lambda>(k, v). updateOptionMap k v) table
      (fold (\<lambda>(k, v). mput k v) service_option_defaults (ApplyNotificationOptionDefaults (account_option_defaults g)), g)"

record option_state =
  os_table :: options
  os_map :: options
  os_globals :: globals
  os_dirty :: "gostring list"

definition save_option :: "gostring \<Rightarrow> gostring \<Rightarrow> options \<Rightarrow> options" where
  \<comment> \<open>\<open>FirstOrCreate\<close> and \<open>Save\<close>: the row of the key is created or overwritten. GORM leaves an empty key out of the condition,
      so that the first row by key is loaded and overwritten; when there is none, a blank row is created. A row whose own key is
      empty cannot be saved: \<open>Save\<close> creates it again, which fails, and the error is ignored.\<close>
  "save_option key value table =
    (if key \<noteq> [] then mput key value table
     else case sort (map fst table) of
       [] \<Rightarrow> [([], [])]
     | k # _ \<Rightarrow> if k = [] then table else mput k value table)"

definition UpdateOption :: "gostring \<Rightarrow> gostring \<Rightarrow> option_state \<Rightarrow> option_state" where
  \<comment> \<open>the map and the variables take the key as it is given\<close>
  "UpdateOption key value s =
    (let (m, g) = updateOptionMap key value (os_map s, os_globals s)
     in s\<lparr>os_table := save_option key value (os_table s), os_map := m, os_globals := g\<rparr>)"

definition auth_settings_of :: "globals \<Rightarrow> auth_settings" where
  \<comment> \<open>the variables that the account handlers read\<close>
  "auth_settings_of g =
    \<lparr>as_PasswordLoginEnabled = g_PasswordLoginEnabled g, as_PasswordRegisterEnabled = g_PasswordRegisterEnabled g,
     as_EmailVerificationEnabled = g_EmailVerificationEnabled g, as_GitHubOAuthEnabled = g_GitHubOAuthEnabled g,
     as_WeChatAuthEnabled = g_WeChatAuthEnabled g, as_RegisterEnabled = g_RegisterEnabled g, as_GitHubClientId = g_GitHubClientId g,
     as_GitHubClientSecret = g_GitHubClientSecret g, as_WeChatServerAddress = g_WeChatServerAddress g,
     as_WeChatServerToken = g_WeChatServerToken g, as_ServerAddress = g_ServerAddress g\<rparr>"

subsection \<open>Validators\<close>

text \<open>A validator answers a message and whether it knows the key and takes the value; the messages are in English here.\<close>

record option_env =
  oe_url :: "gostring \<Rightarrow> url_parts option"
  oe_mail_ok :: "gostring \<Rightarrow> bool"
  oe_zone_ok :: "gostring \<Rightarrow> bool"

definition bool_text :: "gostring \<Rightarrow> bool" where
  "bool_text trimmed \<longleftrightarrow> ToLower trimmed = ''true'' \<or> ToLower trimmed = ''false''"

definition ValidateRelayReliabilityOption :: "gostring \<Rightarrow> gostring \<Rightarrow> gostring \<times> bool" where
  "ValidateRelayReliabilityOption key value =
    (let trimmed = TrimSpace value in
     if key = ''RelayResponseValidityGuardMode'' then
       (if normalizeRelayResponseValidityMode trimmed = [] then (''mode must be off, observe or enforce'', False) else ([], True))
     else if key \<in> {''RelayResponseValidityGuardEnabled'', ''RoutingInvalidResponseSuppressionEnabled''} then
       (if \<not> bool_text trimmed then (''switch must be true or false'', False) else ([], True))
     else if key = ''RoutingInvalidResponseSuppressionThreshold'' then
       (if parseOptionIntInRange trimmed (-1) 1 1000 < 1 then (''threshold must be 1 to 1000'', False) else ([], True))
     else if key \<in> {''RoutingInvalidResponseSuppressionWindowMinutes'', ''RoutingInvalidResponseSuppressionCooldownMinutes''} then
       (if parseOptionIntInRange trimmed (-1) 1 (24 * 60) < 1 then (''minutes must be 1 to 1440'', False) else ([], True))
     else ([], False))"

definition normalizeBackupTriggerMode :: "gostring \<Rightarrow> gostring" where
  "normalizeBackupTriggerMode raw =
    (let m = ToLower (TrimSpace raw) in if m \<in> {''hybrid'', ''event'', ''schedule''} then m else [])"

definition ValidateBackupOption :: "gostring \<Rightarrow> gostring \<Rightarrow> gostring \<times> bool" where
  "ValidateBackupOption key value =
    (let trimmed = TrimSpace value in
     if key \<in> {''BackupEnabled'', ''BackupEncryptEnabled''} then
       (if \<not> bool_text trimmed then (''backup switch must be true or false'', False) else ([], True))
     else if key = ''BackupTriggerMode'' then
       (if normalizeBackupTriggerMode trimmed = [] then (''trigger mode must be hybrid, event or schedule'', False) else ([], True))
     else if key = ''BackupScheduleCron'' then
       (if TrimSpace trimmed = [] then (''schedule must not be empty'', False)
        else if length (Fields trimmed) \<noteq> 5 then (''schedule must have five fields'', False) else ([], True))
     else if key \<in> {''BackupMinIntervalSeconds'', ''BackupDebounceSeconds'', ''BackupCommandTimeoutSeconds'', ''BackupRetentionDays'',
         ''BackupRetentionMaxFiles'', ''BackupMaxRetries'', ''BackupRetryBaseSeconds''} then
       (if parseOptionIntInRange trimmed (-1) 0 (365 * 24 * 60 * 60) < 0 then (''must be a number that is not negative'', False) else ([], True))
     else if key = ''BackupWebDAVURL'' then
       (if trimmed = [] then (''WebDAV address must not be empty'', False)
        else if \<not> HasPrefix (ToLower trimmed) ''http://'' \<and> \<not> HasPrefix (ToLower trimmed) ''https://'' then (''WebDAV address must be http or https'', False)
        else ([], True))
     else if key \<in> {''BackupWebDAVBasePath'', ''BackupSpoolDir'', ''BackupMySQLDumpCommand'', ''BackupPostgresDumpCommand'',
         ''BackupMySQLRestoreCommand'', ''BackupPostgresRestoreCommand''} then
       (if trimmed = [] then (''must not be empty'', False) else ([], True))
     else if key = ''BackupEncryptPassphrase'' then
       (if length trimmed > 0 \<and> length trimmed < 8 then (''passphrase needs 8 characters'', False) else ([], True))
     else if key \<in> {''BackupWebDAVUsername'', ''BackupWebDAVPassword''} then ([], True)
     else ([], False))"

definition isNotificationSensitiveOptionKey :: "gostring \<Rightarrow> bool" where
  "isNotificationSensitiveOptionKey key \<longleftrightarrow>
    ToLower (TrimSpace key) \<in> {ToLower ''NotificationBarkDeviceKey'', ToLower ''NotificationWebhookURL'', ToLower ''NotificationWebhookToken''}"

definition IsSensitiveOptionKey :: "gostring \<Rightarrow> bool" where
  "IsSensitiveOptionKey key =
    (if isNotificationSensitiveOptionKey key then True
     else let normalized = ToLower (TrimSpace key) in
       if normalized = [] then False
       else if normalized \<in> {''passwordloginenabled'', ''passwordregisterenabled''} then False
       else StrContains normalized ''token'' \<or> StrContains normalized ''secret'' \<or> StrContains normalized ''password''
         \<or> StrContains normalized ''passphrase'')"

definition isHTTPURL :: "option_env \<Rightarrow> gostring \<Rightarrow> bool" where
  "isHTTPURL env raw =
    (case oe_url env (TrimSpace raw) of
       None \<Rightarrow> False
     | Some u \<Rightarrow> if url_Scheme u \<noteq> ''http'' \<and> url_Scheme u \<noteq> ''https'' then False else TrimSpace (url_Host u) \<noteq> [])"

definition splitNotificationRecipients :: "gostring \<Rightarrow> gostring list" where
  \<comment> \<open>\<open>FieldsFunc\<close> over semicolons, commas and line ends\<close>
  "splitNotificationRecipients raw =
    (let fields = filter (\<lambda>f. f \<noteq> []) (Split1 (CHR '','') (map (\<lambda>r. if r = CHR '';'' \<or> r = CHR 0x0A then CHR '','' else r) raw))
     in filter (\<lambda>f. f \<noteq> []) (map TrimSpace fields))"

definition normalizeNotificationVerbosity :: "gostring \<Rightarrow> gostring" where
  "normalizeNotificationVerbosity raw = (if ToLower (TrimSpace raw) = ''detailed'' then ''detailed'' else ''concise'')"

definition ValidateNotificationOption :: "option_env \<Rightarrow> gostring \<Rightarrow> gostring \<Rightarrow> gostring \<times> bool" where
  "ValidateNotificationOption env key value =
    (let trimmed = TrimSpace value in
     if key \<in> {''NotificationBarkEnabled'', ''NotificationWebhookEnabled'', ''NotificationSMTPEnabled'', ''NotificationCheckinSummaryEnabled'',
         ''NotificationCheckinFailureEnabled'', ''NotificationProviderAutoDisableEnabled'', ''NotificationProviderHealthEnabled'',
         ''NotificationRequestFailureEnabled''} then
       (if \<not> bool_text trimmed then (''notification switch must be true or false'', False) else ([], True))
     else if key = ''NotificationBarkServer'' then
       (if trimmed = [] then ([], True) else if \<not> isHTTPURL env trimmed then (''Bark server must be http or https'', False) else ([], True))
     else if key \<in> {''NotificationBarkDeviceKey'', ''NotificationBarkGroup''} then ([], True)
     else if key = ''NotificationWebhookURL'' then
       (if trimmed = [] then ([], True) else if \<not> isHTTPURL env trimmed then (''webhook must be http or https'', False) else ([], True))
     else if key = ''NotificationWebhookToken'' then ([], True)
     else if key = ''NotificationSMTPRecipients'' then
       (if trimmed = [] then ([], True)
        else let recipients = splitNotificationRecipients trimmed in
          if recipients = [] then (''recipients must not be empty'', False)
          else if \<not> list_all (oe_mail_ok env) recipients then (''invalid recipient'', False) else ([], True))
     else if key = ''NotificationSMTPSubjectPrefix'' then
       (if length trimmed > 120 then (''prefix must not exceed 120 bytes'', False) else ([], True))
     else if key = ''NotificationVerbosityMode'' then
       (if normalizeNotificationVerbosity trimmed \<noteq> trimmed \<and> \<not> EqualFold trimmed ''detailed'' then (''must be concise or detailed'', False) else ([], True))
     else if key = ''NotificationRequestFailureThreshold'' then
       (if parseOptionIntInRange trimmed (-1) 1 1000 < 1 then (''threshold must be 1 to 1000'', False) else ([], True))
     else if key = ''NotificationRequestFailureWindowMinutes'' then
       (if parseOptionIntInRange trimmed (-1) 1 (24 * 60) < 1 then (''window must be 1 to 1440 minutes'', False) else ([], True))
     else ([], False))"

subsection \<open>Notification settings\<close>

record NotificationBarkConfig =
  nb_Enabled :: bool
  nb_Server :: gostring
  nb_DeviceKey :: gostring
  nb_Group :: gostring

record NotificationWebhookConfig =
  nw_Enabled :: bool
  nw_URL :: gostring
  nw_Token :: gostring

record NotificationSMTPConfig =
  nsm_Enabled :: bool
  nsm_Recipients :: "gostring list"
  nsm_SubjectPrefix :: gostring

record NotificationPolicyConfig =
  np_CheckinSummaryEnabled :: bool
  np_CheckinFailureEnabled :: bool
  np_ProviderAutoDisableEnabled :: bool
  np_ProviderHealthEnabled :: bool
  np_RequestFailureEnabled :: bool
  np_VerbosityMode :: gostring
  np_RequestFailureThreshold :: int
  np_RequestFailureWindowMinutes :: int

record NotificationSettings =
  ns_Bark :: NotificationBarkConfig
  ns_Webhook :: NotificationWebhookConfig
  ns_SMTP :: NotificationSMTPConfig
  ns_Policy :: NotificationPolicyConfig

definition parseNotificationBool :: "gostring \<Rightarrow> bool \<Rightarrow> bool" where
  "parseNotificationBool raw fallback =
    (let normalized = ToLower (TrimSpace raw) in
     if normalized = ''true'' then True else if normalized = ''false'' then False else fallback)"

definition parseNotificationInt :: "gostring \<Rightarrow> int \<Rightarrow> int" where
  "parseNotificationInt raw fallback = (case Atoi (TrimSpace raw) of None \<Rightarrow> fallback | Some parsed \<Rightarrow> parsed)"

definition ParseNotificationSettings :: "options \<Rightarrow> NotificationSettings" where
  "ParseNotificationSettings m =
    (let opt = mget_default [] m in
     \<lparr>ns_Bark = \<lparr>nb_Enabled = parseNotificationBool (opt ''NotificationBarkEnabled'') False,
        nb_Server = TrimSpace (opt ''NotificationBarkServer''), nb_DeviceKey = TrimSpace (opt ''NotificationBarkDeviceKey''),
        nb_Group = TrimSpace (opt ''NotificationBarkGroup'')\<rparr>,
      ns_Webhook = \<lparr>nw_Enabled = parseNotificationBool (opt ''NotificationWebhookEnabled'') False,
        nw_URL = TrimSpace (opt ''NotificationWebhookURL''), nw_Token = TrimSpace (opt ''NotificationWebhookToken'')\<rparr>,
      ns_SMTP = \<lparr>nsm_Enabled = parseNotificationBool (opt ''NotificationSMTPEnabled'') False,
        nsm_Recipients = splitNotificationRecipients (opt ''NotificationSMTPRecipients''),
        nsm_SubjectPrefix = TrimSpace (opt ''NotificationSMTPSubjectPrefix'')\<rparr>,
      ns_Policy = \<lparr>np_CheckinSummaryEnabled = parseNotificationBool (opt ''NotificationCheckinSummaryEnabled'') False,
        np_CheckinFailureEnabled = parseNotificationBool (opt ''NotificationCheckinFailureEnabled'') True,
        np_ProviderAutoDisableEnabled = parseNotificationBool (opt ''NotificationProviderAutoDisableEnabled'') True,
        np_ProviderHealthEnabled = parseNotificationBool (opt ''NotificationProviderHealthEnabled'') True,
        np_RequestFailureEnabled = parseNotificationBool (opt ''NotificationRequestFailureEnabled'') False,
        np_VerbosityMode = normalizeNotificationVerbosity (opt ''NotificationVerbosityMode''),
        np_RequestFailureThreshold = parseNotificationInt (opt ''NotificationRequestFailureThreshold'') 5,
        np_RequestFailureWindowMinutes = parseNotificationInt (opt ''NotificationRequestFailureWindowMinutes'') 10\<rparr>\<rparr>)"

subsection \<open>The handlers\<close>

definition GetOptions :: "option_state \<Rightarrow> (gostring \<times> gostring) list" where
  "GetOptions s = filter (\<lambda>(k, v). \<not> IsSensitiveOptionKey k) (os_map s)"

definition GetNotice :: "option_state \<Rightarrow> gostring" where
  "GetNotice s = mget_default [] (os_map s) ''Notice''"

definition GetAbout :: "option_state \<Rightarrow> gostring" where
  "GetAbout s = mget_default [] (os_map s) ''About''"

definition hhmm_ok :: "gostring \<Rightarrow> bool" where
  \<comment> \<open>\<open>time.Parse("15:04", s)\<close> succeeds: one or two digits, a colon, two digits, in range\<close>
  "hhmm_ok s =
    (case Split1 (CHR '':'') s of
       [h, m] \<Rightarrow> h \<noteq> [] \<and> length h \<le> 2 \<and> list_all is_digit h \<and> length m = 2 \<and> list_all is_digit m
         \<and> AtoiValue h < 24 \<and> AtoiValue m < 60
     | _ \<Rightarrow> False)"

definition int_between :: "int \<Rightarrow> int \<Rightarrow> gostring \<Rightarrow> bool" where
  "int_between lo hi raw = (case Atoi (TrimSpace raw) of None \<Rightarrow> False | Some v \<Rightarrow> \<not> (v < lo \<or> v > hi))"

definition float_between :: "real \<Rightarrow> real \<Rightarrow> gostring \<Rightarrow> bool" where
  \<comment> \<open>a NaN is neither below nor above\<close>
  "float_between lo hi raw =
    (case ParseFloat (TrimSpace raw) of FP_Err \<Rightarrow> False | FP_NaN \<Rightarrow> True | FP_Inf _ \<Rightarrow> False | FP_Num v \<Rightarrow> \<not> (v < lo \<or> v > hi))"

definition relay_option_keys :: "gostring list" where
  "relay_option_keys = [''RelayResponseValidityGuardMode'', ''RelayResponseValidityGuardEnabled'', ''RoutingInvalidResponseSuppressionEnabled'',
     ''RoutingInvalidResponseSuppressionThreshold'', ''RoutingInvalidResponseSuppressionWindowMinutes'', ''RoutingInvalidResponseSuppressionCooldownMinutes'']"

definition backup_option_keys :: "gostring list" where
  "backup_option_keys = [''BackupEnabled'', ''BackupTriggerMode'', ''BackupScheduleCron'', ''BackupMinIntervalSeconds'', ''BackupDebounceSeconds'',
     ''BackupWebDAVURL'', ''BackupWebDAVUsername'', ''BackupWebDAVPassword'', ''BackupWebDAVBasePath'', ''BackupEncryptEnabled'', ''BackupEncryptPassphrase'',
     ''BackupRetentionDays'', ''BackupRetentionMaxFiles'', ''BackupSpoolDir'', ''BackupCommandTimeoutSeconds'', ''BackupMaxRetries'', ''BackupRetryBaseSeconds'',
     ''BackupMySQLDumpCommand'', ''BackupPostgresDumpCommand'', ''BackupMySQLRestoreCommand'', ''BackupPostgresRestoreCommand'']"

definition rejects :: "gostring \<times> bool \<Rightarrow> bool" where
  \<comment> \<open>the condition \<open>ok && message != ""\<close> under which the handler turns a value down\<close>
  "rejects r \<longleftrightarrow> snd r \<and> fst r \<noteq> []"

definition channel_ready :: "gostring \<Rightarrow> gostring \<Rightarrow> option_state \<Rightarrow> bool" where
  \<comment> \<open>a notification channel is switched on only when it is configured\<close>
  "channel_ready key value s =
    (let opt = mget_default [] (os_map s); g = os_globals s in
     if \<not> EqualFold (TrimSpace value) ''true'' then True
     else if key = ''NotificationBarkEnabled'' then
       TrimSpace (opt ''NotificationBarkServer'') \<noteq> [] \<and> TrimSpace (opt ''NotificationBarkDeviceKey'') \<noteq> []
     else if key = ''NotificationWebhookEnabled'' then TrimSpace (opt ''NotificationWebhookURL'') \<noteq> []
     else if key = ''NotificationSMTPEnabled'' then
       TrimSpace (g_SMTPServer g) \<noteq> [] \<and> TrimSpace (g_SMTPAccount g) \<noteq> [] \<and> TrimSpace (g_SMTPToken g) \<noteq> []
       \<and> TrimSpace (opt ''NotificationSMTPRecipients'') \<noteq> []
     else True)"

definition routing_value_ok :: "gostring \<Rightarrow> gostring \<Rightarrow> bool" where
  \<comment> \<open>the checks of the routing parameters, the last cases of the switch\<close>
  "routing_value_ok key value =
    (if key = ''RoutingUsageWindowHours'' then int_between 1 (24 * 30) value
     else if key = ''RoutingHealthAdjustmentEnabled'' then bool_text (TrimSpace value)
     else if key \<in> {''RoutingBaseWeightFactor'', ''RoutingValueScoreFactor''} then float_between 0 10 value
     else if key = ''RoutingHealthWindowHours'' then int_between 1 (24 * 30) value
     else if key = ''RoutingFailurePenaltyAlpha'' then float_between 0 20 value
     else if key = ''RoutingHealthRewardBeta'' then float_between 0 2 value
     else if key \<in> {''RoutingHealthMinMultiplier'', ''RoutingHealthMaxMultiplier''} then float_between 0 10 value
     else if key = ''RoutingHealthMinSamples'' then int_between 1 1000 value
     else True)"

definition option_value_ok :: "option_env \<Rightarrow> gostring \<Rightarrow> gostring \<Rightarrow> option_state \<Rightarrow> bool" where
  \<comment> \<open>the checks of the switch that do not concern the ways to sign in\<close>
  "option_value_ok env key value s =
    (let g = os_globals s in
     if key = ''WeChatAuthEnabled'' then \<not> (value = ''true'' \<and> g_WeChatServerAddress g = [])
     else if key = ''TurnstileCheckEnabled'' then \<not> (value = ''true'' \<and> g_TurnstileSiteKey g = [])
     else if key = ''CheckinScheduleEnabled'' then bool_text (TrimSpace value)
     else if key = ''CheckinScheduleTime'' then hhmm_ok (TrimSpace value)
     else if key = ''CheckinScheduleTimezone'' then oe_zone_ok env (TrimSpace value)
     else if key \<in> set relay_option_keys then \<not> rejects (ValidateRelayReliabilityOption key value)
     else if key \<in> set backup_option_keys then \<not> rejects (ValidateBackupOption key value)
     else if key \<in> set (map fst NotificationOptionDefaults) then
       \<not> rejects (ValidateNotificationOption env key value) \<and> channel_ready key value s
     else routing_value_ok key value)"

definition sign_in_option :: "gostring \<Rightarrow> gostring \<Rightarrow> globals \<Rightarrow> gw_error + gostring" where
  \<comment> \<open>the first two cases of the switch: the value to store, normalised\<close>
  "sign_in_option key value g =
    (let normalized = TrimSpace (ToLower value) in
     if key = ''PasswordLoginEnabled'' then
       (if normalized \<noteq> ''true'' \<and> normalized \<noteq> ''false'' then Inl (ErrOther ''must be true or false'')
        else if normalized = ''false'' \<and> \<not> g_GitHubOAuthEnabled g then Inl (ErrOther ''keep one way to sign in'')
        else Inr normalized)
     else if key = ''GitHubOAuthEnabled'' then
       (if normalized \<noteq> ''true'' \<and> normalized \<noteq> ''false'' then Inl (ErrOther ''must be true or false'')
        else if normalized = ''false'' \<and> \<not> g_PasswordLoginEnabled g then Inl (ErrOther ''keep one way to sign in'')
        else if normalized = ''true'' \<and> g_GitHubClientId g = [] then Inl (ErrOther ''fill in the GitHub client first'')
        else Inr normalized)
     else Inr value)"

definition dec_option :: "(gostring \<times> gostring) decoder" where
  "dec_option = dec_struct (\<lambda>m z. do {
     a \<leftarrow> struct_field dec_string ''key'' m (fst z);
     b \<leftarrow> struct_field dec_string ''value'' m (snd z);
     Some (a, b)})"

definition UpdateOption_handler :: "option_env \<Rightarrow> gostring \<Rightarrow> option_state \<Rightarrow> (gw_error + unit) \<times> option_state" where
  "UpdateOption_handler env body s =
    (case ShouldBindJSON dec_option body ([], []) of
       None \<Rightarrow> (Inl bad_request, s)
     | Some (key, value) \<Rightarrow>
         (case sign_in_option key value (os_globals s) of
            Inl e \<Rightarrow> (Inl e, s)
          | Inr value \<Rightarrow>
              if \<not> option_value_ok env key value s then (Inl (ErrOther ''invalid value''), s)
              else let s = UpdateOption key value s
                   in (Inr (), s\<lparr>os_dirty := os_dirty s @ [''option_update:'' @ key]\<rparr>)))"

subsection \<open>Assigning one variable\<close>

definition permission_keys :: "gostring list" where
  "permission_keys = [''FileUploadPermission'', ''FileDownloadPermission'', ''ImageUploadPermission'', ''ImageDownloadPermission'']"

definition enabled_keys :: "gostring list" where
  "enabled_keys = [''PasswordRegisterEnabled'', ''PasswordLoginEnabled'', ''EmailVerificationEnabled'', ''GitHubOAuthEnabled'',
     ''WeChatAuthEnabled'', ''TurnstileCheckEnabled'', ''RegisterEnabled'', ''CheckinScheduleEnabled'']"

lemma suffixes: "list_all (\<lambda>k. HasSuffix k ''Permission'') permission_keys" "list_all (\<lambda>k. HasSuffix k ''Enabled'') enabled_keys"
  by code_simp+

lemma set_permission_other: "key \<notin> set permission_keys \<Longrightarrow> set_permission key value g = g"
  unfolding set_permission_def permission_keys_def Let_def list.set insert_iff by simp

lemma set_enabled_other: "key \<notin> set enabled_keys \<Longrightarrow> set_enabled key value g = g"
  unfolding set_enabled_def enabled_keys_def Let_def list.set insert_iff by simp

lemma guarded_permission: "(if HasSuffix key ''Permission'' then set_permission key value g else g) = set_permission key value g"
proof (cases "key \<in> set permission_keys")
  case True
  then have "HasSuffix key ''Permission''" using suffixes(1) unfolding list_all_iff by blast
  then show ?thesis by (rule if_P)
next
  case False
  show ?thesis unfolding set_permission_other [OF False] by (rule if_cancel)
qed

lemma guarded_enabled: "(if HasSuffix key ''Enabled'' then set_enabled key value g else g) = set_enabled key value g"
proof (cases "key \<in> set enabled_keys")
  case True
  then have "HasSuffix key ''Enabled''" using suffixes(2) unfolding list_all_iff by blast
  then show ?thesis by (rule if_P)
next
  case False
  show ?thesis unfolding set_enabled_other [OF False] by (rule if_cancel)
qed

lemma set_global_eq: "set_global key value g = set_text key value (set_enabled key value (set_permission key value g))"
  unfolding set_global_def Let_def guarded_permission guarded_enabled by (rule refl)

lemma set_permission_fields:
  "g_FileUploadPermission (set_permission k v g) = (if k = ''FileUploadPermission'' then AtoiValue v else g_FileUploadPermission g)"
  "g_FileDownloadPermission (set_permission k v g) = (if k = ''FileDownloadPermission'' then AtoiValue v else g_FileDownloadPermission g)"
  "g_ImageUploadPermission (set_permission k v g) = (if k = ''ImageUploadPermission'' then AtoiValue v else g_ImageUploadPermission g)"
  "g_ImageDownloadPermission (set_permission k v g) = (if k = ''ImageDownloadPermission'' then AtoiValue v else g_ImageDownloadPermission g)"
  by (simp_all add: set_permission_def Let_def)

lemma set_permission_fields_frame [simp]:
  "g_PasswordLoginEnabled (set_permission k v g) = g_PasswordLoginEnabled g"
  "g_PasswordRegisterEnabled (set_permission k v g) = g_PasswordRegisterEnabled g"
  "g_EmailVerificationEnabled (set_permission k v g) = g_EmailVerificationEnabled g"
  "g_GitHubOAuthEnabled (set_permission k v g) = g_GitHubOAuthEnabled g"
  "g_WeChatAuthEnabled (set_permission k v g) = g_WeChatAuthEnabled g"
  "g_TurnstileCheckEnabled (set_permission k v g) = g_TurnstileCheckEnabled g"
  "g_RegisterEnabled (set_permission k v g) = g_RegisterEnabled g"
  "g_CheckinScheduleEnabled (set_permission k v g) = g_CheckinScheduleEnabled g"
  "g_SMTPServer (set_permission k v g) = g_SMTPServer g"
  "g_SMTPPort (set_permission k v g) = g_SMTPPort g"
  "g_SMTPAccount (set_permission k v g) = g_SMTPAccount g"
  "g_SMTPToken (set_permission k v g) = g_SMTPToken g"
  "g_ServerAddress (set_permission k v g) = g_ServerAddress g"
  "g_GitHubClientId (set_permission k v g) = g_GitHubClientId g"
  "g_GitHubClientSecret (set_permission k v g) = g_GitHubClientSecret g"
  "g_Footer (set_permission k v g) = g_Footer g"
  "g_HomePageLink (set_permission k v g) = g_HomePageLink g"
  "g_SystemName (set_permission k v g) = g_SystemName g"
  "g_WeChatServerAddress (set_permission k v g) = g_WeChatServerAddress g"
  "g_WeChatServerToken (set_permission k v g) = g_WeChatServerToken g"
  "g_WeChatAccountQRCodeImageURL (set_permission k v g) = g_WeChatAccountQRCodeImageURL g"
  "g_TurnstileSiteKey (set_permission k v g) = g_TurnstileSiteKey g"
  "g_TurnstileSecretKey (set_permission k v g) = g_TurnstileSecretKey g"
  "g_CheckinScheduleTime (set_permission k v g) = g_CheckinScheduleTime g"
  "g_CheckinScheduleTimezone (set_permission k v g) = g_CheckinScheduleTimezone g"
  by (simp_all add: set_permission_def Let_def)

lemma set_enabled_fields:
  "g_PasswordLoginEnabled (set_enabled k v g) = (if k = ''PasswordLoginEnabled'' then (v = ''true'') else g_PasswordLoginEnabled g)"
  "g_PasswordRegisterEnabled (set_enabled k v g) = (if k = ''PasswordRegisterEnabled'' then (v = ''true'') else g_PasswordRegisterEnabled g)"
  "g_EmailVerificationEnabled (set_enabled k v g) = (if k = ''EmailVerificationEnabled'' then (v = ''true'') else g_EmailVerificationEnabled g)"
  "g_GitHubOAuthEnabled (set_enabled k v g) = (if k = ''GitHubOAuthEnabled'' then (v = ''true'') else g_GitHubOAuthEnabled g)"
  "g_WeChatAuthEnabled (set_enabled k v g) = (if k = ''WeChatAuthEnabled'' then (v = ''true'') else g_WeChatAuthEnabled g)"
  "g_TurnstileCheckEnabled (set_enabled k v g) = (if k = ''TurnstileCheckEnabled'' then (v = ''true'') else g_TurnstileCheckEnabled g)"
  "g_RegisterEnabled (set_enabled k v g) = (if k = ''RegisterEnabled'' then (v = ''true'') else g_RegisterEnabled g)"
  "g_CheckinScheduleEnabled (set_enabled k v g) = (if k = ''CheckinScheduleEnabled'' then (v = ''true'') else g_CheckinScheduleEnabled g)"
  by (simp_all add: set_enabled_def Let_def)

lemma set_enabled_fields_frame [simp]:
  "g_FileUploadPermission (set_enabled k v g) = g_FileUploadPermission g"
  "g_FileDownloadPermission (set_enabled k v g) = g_FileDownloadPermission g"
  "g_ImageUploadPermission (set_enabled k v g) = g_ImageUploadPermission g"
  "g_ImageDownloadPermission (set_enabled k v g) = g_ImageDownloadPermission g"
  "g_SMTPServer (set_enabled k v g) = g_SMTPServer g"
  "g_SMTPPort (set_enabled k v g) = g_SMTPPort g"
  "g_SMTPAccount (set_enabled k v g) = g_SMTPAccount g"
  "g_SMTPToken (set_enabled k v g) = g_SMTPToken g"
  "g_ServerAddress (set_enabled k v g) = g_ServerAddress g"
  "g_GitHubClientId (set_enabled k v g) = g_GitHubClientId g"
  "g_GitHubClientSecret (set_enabled k v g) = g_GitHubClientSecret g"
  "g_Footer (set_enabled k v g) = g_Footer g"
  "g_HomePageLink (set_enabled k v g) = g_HomePageLink g"
  "g_SystemName (set_enabled k v g) = g_SystemName g"
  "g_WeChatServerAddress (set_enabled k v g) = g_WeChatServerAddress g"
  "g_WeChatServerToken (set_enabled k v g) = g_WeChatServerToken g"
  "g_WeChatAccountQRCodeImageURL (set_enabled k v g) = g_WeChatAccountQRCodeImageURL g"
  "g_TurnstileSiteKey (set_enabled k v g) = g_TurnstileSiteKey g"
  "g_TurnstileSecretKey (set_enabled k v g) = g_TurnstileSecretKey g"
  "g_CheckinScheduleTime (set_enabled k v g) = g_CheckinScheduleTime g"
  "g_CheckinScheduleTimezone (set_enabled k v g) = g_CheckinScheduleTimezone g"
  by (simp_all add: set_enabled_def Let_def)

lemma set_text_fields:
  "g_SMTPServer (set_text k v g) = (if k = ''SMTPServer'' then v else g_SMTPServer g)"
  "g_SMTPPort (set_text k v g) = (if k = ''SMTPPort'' then AtoiValue v else g_SMTPPort g)"
  "g_SMTPAccount (set_text k v g) = (if k = ''SMTPAccount'' then v else g_SMTPAccount g)"
  "g_SMTPToken (set_text k v g) = (if k = ''SMTPToken'' then v else g_SMTPToken g)"
  "g_ServerAddress (set_text k v g) = (if k = ''ServerAddress'' then v else g_ServerAddress g)"
  "g_GitHubClientId (set_text k v g) = (if k = ''GitHubClientId'' then v else g_GitHubClientId g)"
  "g_GitHubClientSecret (set_text k v g) = (if k = ''GitHubClientSecret'' then v else g_GitHubClientSecret g)"
  "g_Footer (set_text k v g) = (if k = ''Footer'' then v else g_Footer g)"
  "g_HomePageLink (set_text k v g) = (if k = ''HomePageLink'' then v else g_HomePageLink g)"
  "g_SystemName (set_text k v g) = (if k = ''SystemName'' then v else g_SystemName g)"
  "g_WeChatServerAddress (set_text k v g) = (if k = ''WeChatServerAddress'' then v else g_WeChatServerAddress g)"
  "g_WeChatServerToken (set_text k v g) = (if k = ''WeChatServerToken'' then v else g_WeChatServerToken g)"
  "g_WeChatAccountQRCodeImageURL (set_text k v g) = (if k = ''WeChatAccountQRCodeImageURL'' then v else g_WeChatAccountQRCodeImageURL g)"
  "g_TurnstileSiteKey (set_text k v g) = (if k = ''TurnstileSiteKey'' then v else g_TurnstileSiteKey g)"
  "g_TurnstileSecretKey (set_text k v g) = (if k = ''TurnstileSecretKey'' then v else g_TurnstileSecretKey g)"
  "g_CheckinScheduleTime (set_text k v g) = (if k = ''CheckinScheduleTime'' then v else g_CheckinScheduleTime g)"
  "g_CheckinScheduleTimezone (set_text k v g) = (if k = ''CheckinScheduleTimezone'' then v else g_CheckinScheduleTimezone g)"
  by (simp_all add: set_text_def Let_def)

lemma set_text_fields_frame [simp]:
  "g_FileUploadPermission (set_text k v g) = g_FileUploadPermission g"
  "g_FileDownloadPermission (set_text k v g) = g_FileDownloadPermission g"
  "g_ImageUploadPermission (set_text k v g) = g_ImageUploadPermission g"
  "g_ImageDownloadPermission (set_text k v g) = g_ImageDownloadPermission g"
  "g_PasswordLoginEnabled (set_text k v g) = g_PasswordLoginEnabled g"
  "g_PasswordRegisterEnabled (set_text k v g) = g_PasswordRegisterEnabled g"
  "g_EmailVerificationEnabled (set_text k v g) = g_EmailVerificationEnabled g"
  "g_GitHubOAuthEnabled (set_text k v g) = g_GitHubOAuthEnabled g"
  "g_WeChatAuthEnabled (set_text k v g) = g_WeChatAuthEnabled g"
  "g_TurnstileCheckEnabled (set_text k v g) = g_TurnstileCheckEnabled g"
  "g_RegisterEnabled (set_text k v g) = g_RegisterEnabled g"
  "g_CheckinScheduleEnabled (set_text k v g) = g_CheckinScheduleEnabled g"
  by (simp_all add: set_text_def Let_def)

lemma global_fields:
  "g_FileUploadPermission (set_global k v g) = (if k = ''FileUploadPermission'' then AtoiValue v else g_FileUploadPermission g)"
  "g_FileDownloadPermission (set_global k v g) = (if k = ''FileDownloadPermission'' then AtoiValue v else g_FileDownloadPermission g)"
  "g_ImageUploadPermission (set_global k v g) = (if k = ''ImageUploadPermission'' then AtoiValue v else g_ImageUploadPermission g)"
  "g_ImageDownloadPermission (set_global k v g) = (if k = ''ImageDownloadPermission'' then AtoiValue v else g_ImageDownloadPermission g)"
  "g_PasswordLoginEnabled (set_global k v g) = (if k = ''PasswordLoginEnabled'' then (v = ''true'') else g_PasswordLoginEnabled g)"
  "g_PasswordRegisterEnabled (set_global k v g) = (if k = ''PasswordRegisterEnabled'' then (v = ''true'') else g_PasswordRegisterEnabled g)"
  "g_EmailVerificationEnabled (set_global k v g) = (if k = ''EmailVerificationEnabled'' then (v = ''true'') else g_EmailVerificationEnabled g)"
  "g_GitHubOAuthEnabled (set_global k v g) = (if k = ''GitHubOAuthEnabled'' then (v = ''true'') else g_GitHubOAuthEnabled g)"
  "g_WeChatAuthEnabled (set_global k v g) = (if k = ''WeChatAuthEnabled'' then (v = ''true'') else g_WeChatAuthEnabled g)"
  "g_TurnstileCheckEnabled (set_global k v g) = (if k = ''TurnstileCheckEnabled'' then (v = ''true'') else g_TurnstileCheckEnabled g)"
  "g_RegisterEnabled (set_global k v g) = (if k = ''RegisterEnabled'' then (v = ''true'') else g_RegisterEnabled g)"
  "g_CheckinScheduleEnabled (set_global k v g) = (if k = ''CheckinScheduleEnabled'' then (v = ''true'') else g_CheckinScheduleEnabled g)"
  "g_SMTPServer (set_global k v g) = (if k = ''SMTPServer'' then v else g_SMTPServer g)"
  "g_SMTPPort (set_global k v g) = (if k = ''SMTPPort'' then AtoiValue v else g_SMTPPort g)"
  "g_SMTPAccount (set_global k v g) = (if k = ''SMTPAccount'' then v else g_SMTPAccount g)"
  "g_SMTPToken (set_global k v g) = (if k = ''SMTPToken'' then v else g_SMTPToken g)"
  "g_ServerAddress (set_global k v g) = (if k = ''ServerAddress'' then v else g_ServerAddress g)"
  "g_GitHubClientId (set_global k v g) = (if k = ''GitHubClientId'' then v else g_GitHubClientId g)"
  "g_GitHubClientSecret (set_global k v g) = (if k = ''GitHubClientSecret'' then v else g_GitHubClientSecret g)"
  "g_Footer (set_global k v g) = (if k = ''Footer'' then v else g_Footer g)"
  "g_HomePageLink (set_global k v g) = (if k = ''HomePageLink'' then v else g_HomePageLink g)"
  "g_SystemName (set_global k v g) = (if k = ''SystemName'' then v else g_SystemName g)"
  "g_WeChatServerAddress (set_global k v g) = (if k = ''WeChatServerAddress'' then v else g_WeChatServerAddress g)"
  "g_WeChatServerToken (set_global k v g) = (if k = ''WeChatServerToken'' then v else g_WeChatServerToken g)"
  "g_WeChatAccountQRCodeImageURL (set_global k v g) = (if k = ''WeChatAccountQRCodeImageURL'' then v else g_WeChatAccountQRCodeImageURL g)"
  "g_TurnstileSiteKey (set_global k v g) = (if k = ''TurnstileSiteKey'' then v else g_TurnstileSiteKey g)"
  "g_TurnstileSecretKey (set_global k v g) = (if k = ''TurnstileSecretKey'' then v else g_TurnstileSecretKey g)"
  "g_CheckinScheduleTime (set_global k v g) = (if k = ''CheckinScheduleTime'' then v else g_CheckinScheduleTime g)"
  "g_CheckinScheduleTimezone (set_global k v g) = (if k = ''CheckinScheduleTimezone'' then v else g_CheckinScheduleTimezone g)"
  by (simp_all add: set_global_eq set_permission_fields set_enabled_fields set_text_fields)

subsection \<open>Loading the table again\<close>

definition load_globals :: "options \<Rightarrow> globals \<Rightarrow> globals" where
  "load_globals t g = fold (\<lambda>(k, v). set_global k v) t g"

lemma load_field:
  assumes "\<And>k v g. f (set_global k v g) = (if k = K then p v else f g)" and "distinct (map fst t)"
  shows "f (load_globals t g) = (case mget t K of Some v \<Rightarrow> p v | None \<Rightarrow> f g)"
  using assms(2) unfolding load_globals_def
  by (induction t arbitrary: g) (auto simp: assms(1) mget_def map_of_eq_None_iff rev_image_eqI split: option.splits)

lemma load_mput_field:
  assumes "\<And>k v g. f (set_global k v g) = (if k = K then p v else f g)" and "distinct (map fst t)"
  shows "f (load_globals (mput k v t) g) = f (set_global k v (load_globals t g))"
proof -
  have d: "distinct (map fst (mput k v t))" using assms(2) by simp
  show ?thesis unfolding load_field [OF assms(1) d] assms(1) load_field [OF assms] by simp
qed

lemma load_mput:
  assumes "distinct (map fst t)"
  shows "load_globals (mput k v t) g = set_global k v (load_globals t g)"
  by (rule globals.equality)
    (rule load_mput_field [OF global_fields(1) assms] load_mput_field [OF global_fields(2) assms] load_mput_field [OF global_fields(3) assms] load_mput_field [OF global_fields(4) assms] load_mput_field [OF global_fields(5) assms] load_mput_field [OF global_fields(6) assms] load_mput_field [OF global_fields(7) assms] load_mput_field [OF global_fields(8) assms] load_mput_field [OF global_fields(9) assms] load_mput_field [OF global_fields(10) assms] load_mput_field [OF global_fields(11) assms] load_mput_field [OF global_fields(12) assms] load_mput_field [OF global_fields(13) assms] load_mput_field [OF global_fields(14) assms] load_mput_field [OF global_fields(15) assms] load_mput_field [OF global_fields(16) assms] load_mput_field [OF global_fields(17) assms] load_mput_field [OF global_fields(18) assms] load_mput_field [OF global_fields(19) assms] load_mput_field [OF global_fields(20) assms] load_mput_field [OF global_fields(21) assms] load_mput_field [OF global_fields(22) assms] load_mput_field [OF global_fields(23) assms] load_mput_field [OF global_fields(24) assms] load_mput_field [OF global_fields(25) assms] load_mput_field [OF global_fields(26) assms] load_mput_field [OF global_fields(27) assms] load_mput_field [OF global_fields(28) assms] load_mput_field [OF global_fields(29) assms] | simp)+

lemma updates_split: "fold (\<lambda>(k, v). updateOptionMap k v) t (m, g) = (fold (\<lambda>(k, v). mput k v) t m, load_globals t g)"
  unfolding load_globals_def by (induction t arbitrary: m g) (auto simp: updateOptionMap_def)

lemma load_map:
  assumes "distinct (map fst t)"
  shows "mget (fold (\<lambda>(k, v). mput k v) t m) K = (case mget t K of Some v \<Rightarrow> Some v | None \<Rightarrow> mget m K)"
  using assms by (induction t arbitrary: m) (auto simp: mget_def mput_def map_of_eq_None_iff rev_image_eqI update_conv' split: option.splits)

definition default_map :: "globals \<Rightarrow> options" where
  "default_map g = fold (\<lambda>(k, v). mput k v) service_option_defaults (ApplyNotificationOptionDefaults (account_option_defaults g))"

definition boot_options :: "options \<Rightarrow> option_state" where
  \<comment> \<open>a start of the process over an option table\<close>
  "boot_options table = (let (m, g) = InitOptionMap initial_globals table in \<lparr>os_table = table, os_map = m, os_globals = g, os_dirty = []\<rparr>)"

lemma boot_eq:
  "boot_options table = \<lparr>os_table = table, os_map = fold (\<lambda>(k, v). mput k v) table (default_map initial_globals),
     os_globals = load_globals table initial_globals, os_dirty = []\<rparr>"
  by (simp add: boot_options_def InitOptionMap_def updates_split default_map_def)

definition names_option :: "gostring \<Rightarrow> bool" where
  \<comment> \<open>the body of the request gives a key, or cannot be read at all\<close>
  "names_option body \<longleftrightarrow> (case ShouldBindJSON dec_option body ([], []) of None \<Rightarrow> True | Some (key, _) \<Rightarrow> key \<noteq> [])"

inductive option_reachable :: "option_env \<Rightarrow> option_state \<Rightarrow> bool" for env where
  install: "option_reachable env (boot_options [])"
| put: "option_reachable env s \<Longrightarrow> names_option body \<Longrightarrow> option_reachable env (snd (UpdateOption_handler env body s))"
| restart: "option_reachable env s \<Longrightarrow> option_reachable env (boot_options (os_table s))"

lemma handler_cases:
  assumes "names_option body"
  obtains (same) "snd (UpdateOption_handler env body s) = s"
  | (stored) key raw "value" ds where "key \<noteq> []" and "sign_in_option key raw (os_globals s) = Inr value"
      and "snd (UpdateOption_handler env body s) = (UpdateOption key value s)\<lparr>os_dirty := ds\<rparr>"
proof (cases "ShouldBindJSON dec_option body ([], [])")
  case None
  then show thesis using same by (simp add: UpdateOption_handler_def)
next
  case (Some kv)
  obtain key raw where kv: "kv = (key, raw)" by (cases kv)
  then have named: "key \<noteq> []" using assms Some by (simp add: names_option_def)
  show thesis
  proof (cases "sign_in_option key raw (os_globals s)")
    case (Inl e)
    then show thesis using same Some kv by (simp add: UpdateOption_handler_def)
  next
    case (Inr v)
    show thesis
    proof (cases "option_value_ok env key v s")
      case True
      then show thesis using stored [OF named Inr] Some kv Inr by (simp add: UpdateOption_handler_def Let_def)
    next
      case False
      then show thesis using same Some kv Inr by (simp add: UpdateOption_handler_def)
    qed
  qed
qed

definition settings_loaded :: "option_state \<Rightarrow> bool" where
  \<comment> \<open>the running map and variables are what a start over the table gives\<close>
  "settings_loaded s \<longleftrightarrow> distinct (map fst (os_table s)) \<and> os_globals s = load_globals (os_table s) initial_globals
     \<and> mget (os_map s) = mget (os_map (boot_options (os_table s)))"

lemma loaded_update:
  assumes "settings_loaded s" and "key \<noteq> []"
  shows "settings_loaded ((UpdateOption key value s)\<lparr>os_dirty := ds\<rparr>)"
  using assms unfolding settings_loaded_def UpdateOption_def save_option_def updateOptionMap_def boot_eq
  by (auto simp: load_mput load_map fun_eq_iff)

lemma reachable_loaded:
  assumes "option_reachable env s"
  shows "settings_loaded s"
  using assms
proof induction
  case (put s body)
  from put.hyps(2) show ?case by (cases rule: handler_cases [of body env s]) (use put in \<open>simp_all add: loaded_update\<close>)
qed (simp_all add: settings_loaded_def boot_eq load_globals_def)

lemma sign_in_keeps:
  assumes "sign_in_option key raw g = Inr value" and "g_PasswordLoginEnabled g \<or> g_GitHubOAuthEnabled g"
  shows "g_PasswordLoginEnabled (set_global key value g) \<or> g_GitHubOAuthEnabled (set_global key value g)"
  using assms by (auto simp: sign_in_option_def global_fields Let_def split: if_splits)

lemma rejects_simps:
  "rejects (if b then x else y) = (if b then rejects x else rejects y)" "rejects (message, False) = False" "rejects ([], ok) = False"
  by (auto simp: rejects_def)

lemma validators_never_reject:
  "\<not> rejects (ValidateRelayReliabilityOption key value)" "\<not> rejects (ValidateBackupOption key value)"
  "\<not> rejects (ValidateNotificationOption env key value)"
  unfolding ValidateRelayReliabilityOption_def ValidateBackupOption_def ValidateNotificationOption_def Let_def
  by (simp_all only: rejects_simps if_cancel not_False_eq_True)

subsection \<open>Examples\<close>

definition sample_option_env :: option_env where
  "sample_option_env = \<lparr>oe_url = (\<lambda>_. None), oe_mail_ok = (\<lambda>_. False), oe_zone_ok = (\<lambda>z. z = ''UTC'')\<rparr>"

definition put_all :: "option_env \<Rightarrow> gostring list \<Rightarrow> option_state \<Rightarrow> option_state" where
  "put_all env bodies s = fold (\<lambda>body s. snd (UpdateOption_handler env body s)) bodies s"

lemma put_all_reachable: "option_reachable env s \<Longrightarrow> list_all names_option bodies \<Longrightarrow> option_reachable env (put_all env bodies s)"
  unfolding put_all_def by (induction bodies arbitrary: s) (simp_all add: option_reachable.put)

definition sample_puts :: "gostring list" where
  "sample_puts =
    [''{\"key\":\"GitHubClientId\",\"value\":\"id\"}'',
     ''{\"key\":\"GitHubOAuthEnabled\",\"value\":\" TRUE \"}'', ''{\"key\":\"PasswordLoginEnabled\",\"value\":\"false\"}'',
     ''{\"key\":\"GitHubOAuthEnabled\",\"value\":\"false\"}'']"

definition sample_option_state :: option_state where
  "sample_option_state = put_all sample_option_env sample_puts (boot_options [])"

lemma sample_state_reachable: "option_reachable sample_option_env sample_option_state"
proof -
  have "list_all names_option sample_puts" by code_simp
  then show ?thesis unfolding sample_option_state_def using put_all_reachable [OF option_reachable.install] by blast
qed

lemma sample_state_globals:
  "os_globals sample_option_state = initial_globals\<lparr>g_GitHubClientId := ''id'', g_GitHubOAuthEnabled := True,
     g_PasswordLoginEnabled := False\<rparr>"
  by code_simp

text \<open>
  Requests without a key overwrite the first row of the table while the running process keeps its settings. Here such
  requests switch GitHub login on and off in the row, with a restart after each, and nobody can sign in any more.
\<close>

definition blank_puts :: "gostring list" where
  "blank_puts = [''{\"key\":\"GitHubOAuthEnabled\",\"value\":\"false\"}'', ''{\"value\":\"true\"}'']"

definition more_blank_puts :: "gostring list" where
  "more_blank_puts = [''{\"key\":\"PasswordLoginEnabled\",\"value\":\"false\"}'', ''{\"value\":\"false\"}'']"

lemma blank_puts_table: "os_table (put_all sample_option_env blank_puts (boot_options [])) = [(''GitHubOAuthEnabled'', ''true'')]"
  by code_simp

lemma more_blank_puts_table:
  "os_table (put_all sample_option_env more_blank_puts (boot_options [(''GitHubOAuthEnabled'', ''true'')]))
   = [(''GitHubOAuthEnabled'', ''false''), (''PasswordLoginEnabled'', ''false'')]"
  by code_simp

lemma blank_key_locks_out:
  assumes "s = put_all sample_option_env blank_puts (boot_options [])"
    and "s' = put_all sample_option_env more_blank_puts (boot_options (os_table s))"
  shows "\<not> g_GitHubOAuthEnabled (os_globals (boot_options (os_table s'))) \<and> \<not> g_PasswordLoginEnabled (os_globals (boot_options (os_table s')))"
  unfolding assms blank_puts_table more_blank_puts_table by (simp add: boot_eq load_globals_def global_fields initial_globals_def)

subsection \<open>What the options guarantee\<close>

text \<open>
  C26: Starting the process again over the option table restores the settings. In every state reached by
  installing, changing options by requests that name a key, and restarting, loading the table into the initial variables and the default map
  (\<open>InitOptionMap\<close>) gives exactly the variables of the running process and a map that answers every key as the
  running one does.
\<close>

theorem restart_restores_settings:
  assumes "option_reachable env s"
  shows "os_globals (boot_options (os_table s)) = os_globals s \<and> mget (os_map (boot_options (os_table s))) key = mget (os_map s) key"
  using reachable_loaded [OF assms] by (simp add: settings_loaded_def boot_eq)

lemma restart_restores_settings_witness:
  "os_globals (boot_options (os_table sample_option_state)) = os_globals sample_option_state
   \<and> mget (os_map (boot_options (os_table sample_option_state))) ''GitHubClientId'' = mget (os_map sample_option_state) ''GitHubClientId''
   \<and> \<not> g_PasswordLoginEnabled (os_globals sample_option_state)"
  using restart_restores_settings [OF sample_state_reachable] by (simp add: sample_state_globals)

text \<open>
  C25: A way to sign in remains. In every state reached by installing, changing options by requests that name a key,
  and restarting, password login or GitHub login is switched on: the handler refuses to switch off the last one, and
  neither another option nor a restart changes them. A request without a key breaks this, as
  \<open>blank_key_locks_out\<close> shows.
\<close>

theorem login_method_remains:
  assumes "option_reachable env s"
  shows "g_PasswordLoginEnabled (os_globals s) \<or> g_GitHubOAuthEnabled (os_globals s)"
  using assms
proof induction
  case install
  then show ?case by (simp add: boot_eq load_globals_def initial_globals_def)
next
  case (put s body)
  from put.hyps(2) show ?case
  proof (cases rule: handler_cases [of body env s])
    case same
    then show ?thesis using put by simp
  next
    case (stored key raw v ds)
    then show ?thesis using put sign_in_keeps by (simp add: UpdateOption_def updateOptionMap_def)
  qed
next
  case (restart s)
  then show ?case using reachable_loaded [of env s] by (simp add: settings_loaded_def boot_eq)
qed

lemma login_method_remains_witness:
  "(g_PasswordLoginEnabled (os_globals sample_option_state) \<or> g_GitHubOAuthEnabled (os_globals sample_option_state))
   \<and> \<not> g_PasswordLoginEnabled (os_globals sample_option_state)"
  using login_method_remains [OF sample_state_reachable] by (simp add: sample_state_globals)

end
