(* ===== verification/Notification.thy ===== *)
theory Notification
  imports CheckinRuns OptionStore UsageLogs UpstreamClient
begin

text \<open>
  Notifications, \<open>src/service/notification.go\<close> with the alert table of \<open>src/model/notification.go\<close> and the health
  transitions of \<open>src/service/provider_http.go\<close> that raise them. \<open>NotifyAsync\<close> puts an event on a queue; the goroutine that
  takes it from there is \<open>dispatchNotificationEvent\<close>, whose value is the list of messages it sends. What the services
  answer is only logged.
\<close>

subsection \<open>Events\<close>

record NotificationEvent =
  ne_Type :: gostring
  ne_Family :: gostring
  ne_Severity :: gostring
  ne_Summary :: gostring
  ne_Detail :: gostring
  ne_DedupeKey :: gostring
  ne_OccurredAt :: int
  ne_ProviderID :: int
  ne_ProviderName :: gostring
  ne_TriggerSource :: gostring
  ne_FailureCategory :: gostring
  ne_Reason :: gostring
  ne_Counts :: "(gostring, int) gomap"
  ne_Metadata :: "(gostring, gostring) gomap"

definition no_event :: NotificationEvent where
  "no_event = \<lparr>ne_Type = [], ne_Family = [], ne_Severity = [], ne_Summary = [], ne_Detail = [], ne_DedupeKey = [], ne_OccurredAt = 0,
     ne_ProviderID = 0, ne_ProviderName = [], ne_TriggerSource = [], ne_FailureCategory = [], ne_Reason = [], ne_Counts = [], ne_Metadata = []\<rparr>"

record NotificationAlertState =
  na_Id :: int
  na_DedupeKey :: gostring
  na_EventFamily :: gostring
  na_Status :: gostring
  na_LastFiredAt :: int
  na_LastObservedAt :: int
  na_LastResolvedAt :: int
  na_WindowStartedAt :: int
  na_WindowCount :: int
  na_LastSummary :: gostring
  na_CreatedAt :: int
  na_UpdatedAt :: int

record notify_world =
  nt_alerts :: "NotificationAlertState list"
  nt_queue :: "NotificationEvent list"

definition NotifyAsync :: "gotime \<Rightarrow> NotificationEvent \<Rightarrow> notify_world \<Rightarrow> notify_world" where
  "NotifyAsync now event w =
    (if TrimSpace (ne_Type event) = [] \<or> TrimSpace (ne_Family event) = [] then w
     else
       let event = (if ne_OccurredAt event = 0 then event\<lparr>ne_OccurredAt := Unix now\<rparr> else event)
       in w\<lparr>nt_queue := nt_queue w @
            [event\<lparr>ne_Summary := TrimSpace (ne_Summary event), ne_Detail := TrimSpace (ne_Detail event), ne_Reason := TrimSpace (ne_Reason event),
               ne_DedupeKey := TrimSpace (ne_DedupeKey event), ne_ProviderName := TrimSpace (ne_ProviderName event),
               ne_TriggerSource := TrimSpace (ne_TriggerSource event), ne_FailureCategory := TrimSpace (ne_FailureCategory event)\<rparr>]\<rparr>)"

subsection \<open>Rendering\<close>

definition isNotificationEventEnabled :: "NotificationPolicyConfig \<Rightarrow> gostring \<Rightarrow> bool" where
  "isNotificationEventEnabled policy family =
    (let f = TrimSpace family in
     if f = ''checkin_summary'' then np_CheckinSummaryEnabled policy
     else if f = ''checkin_failure'' then np_CheckinFailureEnabled policy
     else if f = ''provider_auto_disable'' then np_ProviderAutoDisableEnabled policy
     else if f = ''provider_health'' then np_ProviderHealthEnabled policy
     else if f = ''request_failure'' then np_RequestFailureEnabled policy
     else False)"

definition hasAnyNotificationChannelEnabled :: "NotificationSettings \<Rightarrow> bool" where
  "hasAnyNotificationChannelEnabled s \<longleftrightarrow> nb_Enabled (ns_Bark s) \<or> nw_Enabled (ns_Webhook s) \<or> nsm_Enabled (ns_SMTP s)"

definition buildNotificationTitle :: "NotificationEvent \<Rightarrow> gostring" where
  "buildNotificationTitle event =
    (let summary = TrimSpace (ne_Summary event) in if summary = [] then TrimSpace (ne_Type event) else summary)"

definition format_rfc3339 :: "location \<Rightarrow> int \<Rightarrow> gostring" where
  \<comment> \<open>\<open>time.Unix(u, 0).Format(time.RFC3339)\<close> in the zone \<open>loc\<close>\<close>
  "format_rfc3339 loc u =
    (let t = UnixTime u; (h, m) = local_clock loc t; offset = loc u; zone = \<bar>offset\<bar> div 60
     in format_date (local_day loc t) @ ''T'' @ pad_zero 2 h @ '':'' @ pad_zero 2 m @ '':'' @ pad_zero 2 (local_secs loc t mod 60)
        @ (if offset = 0 then ''Z''
           else (if offset < 0 \<and> zone \<noteq> 0 then ''-'' else ''+'') @ pad_zero 2 (zone div 60) @ '':'' @ pad_zero 2 (zone mod 60)))"

definition notificationCountLines :: "(gostring, int) gomap \<Rightarrow> gostring list" where
  "notificationCountLines counts =
    (if counts = [] then [] else map (\<lambda>key. key @ '': '' @ Itoa (mget_default 0 counts key)) (sort (map fst counts)))"

definition notificationMetadataLines :: "(gostring, gostring) gomap \<Rightarrow> gostring list" where
  "notificationMetadataLines metadata =
    (if metadata = [] then []
     else map (\<lambda>key. key @ '': '' @ TrimSpace (mget_default [] metadata key))
            (filter (\<lambda>key. TrimSpace (mget_default [] metadata key) \<noteq> []) (sort (map fst metadata))))"

definition detail_lines :: "NotificationEvent \<Rightarrow> gostring list" where
  "detail_lines event =
    (if TrimSpace (ne_Detail event) \<noteq> [] then [[], TrimSpace (ne_Detail event)] else [])
    @ (if ne_ProviderName event \<noteq> [] then [[], ''Provider: '' @ ne_ProviderName event] else [])
    @ (if ne_TriggerSource event \<noteq> [] then [''Trigger: '' @ ne_TriggerSource event] else [])
    @ (if ne_FailureCategory event \<noteq> [] then [''Failure category: '' @ ne_FailureCategory event] else [])
    @ (if ne_Reason event \<noteq> [] then [''Reason: '' @ ne_Reason event] else [])
    @ notificationCountLines (ne_Counts event) @ notificationMetadataLines (ne_Metadata event)"

definition renderNotificationText :: "location \<Rightarrow> gostring \<Rightarrow> NotificationEvent \<Rightarrow> gostring" where
  "renderNotificationText loc mode event =
    (let mode = ToLower (TrimSpace mode);
         lines = [TrimSpace (ne_Summary event)] @ (if EqualFold mode ''detailed'' then detail_lines event else [])
                 @ [[], ''Occurred at: '' @ format_rfc3339 loc (ne_OccurredAt event)]
     in TrimSpace (Join lines [CHR 0x0A]))"

definition EscapeString :: "gostring \<Rightarrow> gostring" where
  \<comment> \<open>\<open>html.EscapeString\<close>\<close>
  "EscapeString s = concat (map (\<lambda>c.
     if c = CHR ''&'' then ''&amp;'' else if c = CHR 0x27 then ''&#39;'' else if c = CHR ''<'' then ''&lt;''
     else if c = CHR ''>'' then ''&gt;'' else if c = CHR 0x22 then ''&#34;'' else [c]) s)"

definition renderNotificationHTML :: "location \<Rightarrow> gostring \<Rightarrow> NotificationEvent \<Rightarrow> gostring" where
  "renderNotificationHTML loc mode event =
    ''<pre style=\"font-family:ui-monospace,SFMono-Regular,Menlo,monospace;white-space:pre-wrap;\">''
    @ EscapeString (renderNotificationText loc mode event) @ ''</pre>''"

definition jint :: "int \<Rightarrow> json" where
  "jint n = JNum (Itoa n)"

definition buildWebhookPayload :: "location \<Rightarrow> gostring \<Rightarrow> NotificationEvent \<Rightarrow> json" where
  "buildWebhookPayload loc mode event = JObj (
    [(''type'', JStr (ne_Type event)), (''family'', JStr (ne_Family event)), (''severity'', JStr (ne_Severity event)),
     (''summary'', JStr (ne_Summary event)), (''detail'', JStr (ne_Detail event)), (''dedupe_key'', JStr (ne_DedupeKey event)),
     (''occurred_at'', jint (ne_OccurredAt event)), (''mode'', JStr mode), (''text'', JStr (renderNotificationText loc mode event)),
     (''provider_id'', jint (ne_ProviderID event)), (''provider_name'', JStr (ne_ProviderName event))]
    @ (if ne_TriggerSource event \<noteq> [] then [(''trigger_source'', JStr (ne_TriggerSource event))] else [])
    @ (if ne_FailureCategory event \<noteq> [] then [(''failure_category'', JStr (ne_FailureCategory event))] else [])
    @ (if ne_Reason event \<noteq> [] then [(''reason'', JStr (ne_Reason event))] else [])
    @ (if ne_Counts event \<noteq> [] then [(''counts'', JObj (map (\<lambda>(k, n). (k, jint n)) (ne_Counts event)))] else [])
    @ (if ne_Metadata event \<noteq> [] then [(''metadata'', JObj (map (\<lambda>(k, s). (k, JStr s)) (ne_Metadata event)))] else []))"

subsection \<open>Dispatch\<close>

datatype delivery =
    Push gostring gostring
  | Hook gostring gostring gostring
  | Mail gostring gostring gostring

record notify_env =
  ny_env :: proxy_env
  ny_local :: location

definition bark_payload :: "location \<Rightarrow> NotificationSettings \<Rightarrow> NotificationEvent \<Rightarrow> json" where
  "bark_payload loc s event = JObj (
    [(''device_key'', JStr (TrimSpace (nb_DeviceKey (ns_Bark s)))), (''title'', JStr (buildNotificationTitle event)),
     (''body'', JStr (renderNotificationText loc (np_VerbosityMode (ns_Policy s)) event))]
    @ (if TrimSpace (nb_Group (ns_Bark s)) \<noteq> [] then [(''group'', JStr (TrimSpace (nb_Group (ns_Bark s))))] else []))"

definition TrimRight :: "gostring \<Rightarrow> gostring \<Rightarrow> gostring" where
  "TrimRight s cutset = rev (dropWhile (\<lambda>c. c \<in> set cutset) (rev s))"

definition bark_Deliver :: "notify_env \<Rightarrow> NotificationSettings \<Rightarrow> NotificationEvent \<Rightarrow> delivery list" where
  "bark_Deliver env s event =
    (if \<not> nb_Enabled (ns_Bark s) then []
     else let server = TrimRight (TrimSpace (nb_Server (ns_Bark s))) ''/''; deviceKey = TrimSpace (nb_DeviceKey (ns_Bark s)) in
       if server = [] \<or> deviceKey = [] then []
       else case pe_marshal (ny_env env) (bark_payload (ny_local env) s event) of
              None \<Rightarrow> []
            | Some body \<Rightarrow> if pe_request_ok (ny_env env) ''POST'' (server @ ''/push'') then [Push (server @ ''/push'') body] else [])"

definition webhook_Deliver :: "notify_env \<Rightarrow> NotificationSettings \<Rightarrow> NotificationEvent \<Rightarrow> delivery list" where
  \<comment> \<open>the second field of the delivery is the authorization header, empty when there is none\<close>
  "webhook_Deliver env s event =
    (if \<not> nw_Enabled (ns_Webhook s) then []
     else let webhookURL = TrimSpace (nw_URL (ns_Webhook s)); token = TrimSpace (nw_Token (ns_Webhook s)) in
       if webhookURL = [] then []
       else case pe_marshal (ny_env env) (buildWebhookPayload (ny_local env) (np_VerbosityMode (ns_Policy s)) event) of
              None \<Rightarrow> []
            | Some body \<Rightarrow>
                if pe_request_ok (ny_env env) ''POST'' webhookURL
                then [Hook webhookURL (if token \<noteq> [] then ''Bearer '' @ token else []) body] else [])"

definition smtp_Deliver :: "notify_env \<Rightarrow> NotificationSettings \<Rightarrow> NotificationEvent \<Rightarrow> delivery list" where
  "smtp_Deliver env s event =
    (if \<not> nsm_Enabled (ns_SMTP s) \<or> nsm_Recipients (ns_SMTP s) = [] then []
     else
       let subjectPrefix = TrimSpace (nsm_SubjectPrefix (ns_SMTP s)); subject = buildNotificationTitle event;
           subject = (if subjectPrefix \<noteq> [] then subjectPrefix @ '' '' @ subject else subject)
       in [Mail subject (Join (nsm_Recipients (ns_SMTP s)) '';'') (renderNotificationHTML (ny_local env) (np_VerbosityMode (ns_Policy s)) event)])"

definition Dispatch :: "notify_env \<Rightarrow> NotificationSettings \<Rightarrow> NotificationEvent \<Rightarrow> delivery list" where
  \<comment> \<open>each channel in turn; one that fails does not keep the others back\<close>
  "Dispatch env s event = concat (map (\<lambda>channel. channel env s event) [bark_Deliver, webhook_Deliver, smtp_Deliver])"

definition dispatchNotificationEvent :: "notify_env \<Rightarrow> NotificationEvent \<Rightarrow> delivery list" where
  "dispatchNotificationEvent env event =
    (let s = ParseNotificationSettings (pe_options (ny_env env)) in
     if \<not> isNotificationEventEnabled (ns_Policy s) (ne_Family event) then []
     else if \<not> hasAnyNotificationChannelEnabled s then []
     else Dispatch env s event)"

subsection \<open>The alert table\<close>

definition GetNotificationAlertState :: "gostring \<Rightarrow> notify_world \<Rightarrow> NotificationAlertState option" where
  "GetNotificationAlertState dedupeKey w =
    (let trimmed = TrimSpace dedupeKey in
     if trimmed = [] then None else find (\<lambda>s. na_DedupeKey s = trimmed) (nt_alerts w))"

definition trim_alert :: "NotificationAlertState \<Rightarrow> NotificationAlertState" where
  "trim_alert s = s\<lparr>na_DedupeKey := TrimSpace (na_DedupeKey s), na_EventFamily := TrimSpace (na_EventFamily s),
     na_LastSummary := TrimSpace (na_LastSummary s)\<rparr>"

definition BeforeUpdate :: "gotime \<Rightarrow> NotificationAlertState \<Rightarrow> NotificationAlertState" where
  "BeforeUpdate now s =
    (let s = trim_alert (s\<lparr>na_UpdatedAt := Unix now\<rparr>)
     in if TrimSpace (na_Status s) = [] then s\<lparr>na_Status := ''closed''\<rparr> else s)"

definition BeforeCreate :: "gotime \<Rightarrow> NotificationAlertState \<Rightarrow> NotificationAlertState" where
  "BeforeCreate now s = BeforeUpdate now (if na_CreatedAt s = 0 then s\<lparr>na_CreatedAt := Unix now\<rparr> else s)"

definition SaveNotificationAlertState :: "gotime \<Rightarrow> NotificationAlertState \<Rightarrow> notify_world \<Rightarrow> notify_world" where
  "SaveNotificationAlertState now state w =
    (let state = trim_alert state in
     if na_DedupeKey state = [] then w
     else case find (\<lambda>s. na_DedupeKey s = na_DedupeKey state) (nt_alerts w) of
            None \<Rightarrow>
              (let row = BeforeCreate now state;
                   row = (if na_Id row = 0 then row\<lparr>na_Id := next_row_id na_Id (nt_alerts w)\<rparr> else row)
               in w\<lparr>nt_alerts := nt_alerts w @ [row]\<rparr>)
          | Some existing \<Rightarrow>
              (let row = BeforeUpdate now (state\<lparr>na_Id := na_Id existing, na_CreatedAt := na_CreatedAt existing\<rparr>)
               in w\<lparr>nt_alerts := row_update (\<lambda>s. na_Id s = na_Id existing) (\<lambda>_. row) (nt_alerts w)\<rparr>))"

definition buildProviderHealthAlertKey :: "int \<Rightarrow> gostring" where
  "buildProviderHealthAlertKey providerID = ''provider-health:'' @ Itoa providerID"

definition buildRequestFailureAlertKey :: "int \<Rightarrow> gostring" where
  "buildRequestFailureAlertKey providerID = ''request-failure:'' @ Itoa providerID"

definition fresh_alert :: "gostring \<Rightarrow> gostring \<Rightarrow> NotificationAlertState" where
  \<comment> \<open>a new struct with its key and family\<close>
  "fresh_alert key family =
    \<lparr>na_Id = 0, na_DedupeKey = key, na_EventFamily = family, na_Status = [], na_LastFiredAt = 0, na_LastObservedAt = 0, na_LastResolvedAt = 0,
     na_WindowStartedAt = 0, na_WindowCount = 0, na_LastSummary = [], na_CreatedAt = 0, na_UpdatedAt = 0\<rparr>"

definition alert_or_fresh :: "gostring \<Rightarrow> gostring \<Rightarrow> notify_world \<Rightarrow> NotificationAlertState" where
  "alert_or_fresh key family w =
    (case GetNotificationAlertState key w of Some s \<Rightarrow> s | None \<Rightarrow> fresh_alert key family)"

definition markProviderHealthAlertOpen :: "gotime \<Rightarrow> Provider \<Rightarrow> gostring \<Rightarrow> notify_world \<Rightarrow> notify_world" where
  "markProviderHealthAlertOpen now provider reason w =
    (if p_Id provider = 0 then w
     else SaveNotificationAlertState now
       ((alert_or_fresh (buildProviderHealthAlertKey (p_Id provider)) ''provider_health'' w)
          \<lparr>na_Status := ''open'', na_LastObservedAt := Unix now, na_LastFiredAt := Unix now, na_LastSummary := TrimSpace reason\<rparr>) w)"

definition markProviderHealthAlertClosed :: "gotime \<Rightarrow> Provider \<Rightarrow> gostring \<Rightarrow> notify_world \<Rightarrow> notify_world" where
  "markProviderHealthAlertClosed now provider reason w =
    (if p_Id provider = 0 then w
     else SaveNotificationAlertState now
       ((alert_or_fresh (buildProviderHealthAlertKey (p_Id provider)) ''provider_health'' w)
          \<lparr>na_Status := ''closed'', na_LastObservedAt := Unix now, na_LastResolvedAt := Unix now, na_LastSummary := TrimSpace reason\<rparr>) w)"

subsection \<open>Too many failed requests\<close>

definition sample_reason :: "UsageLog \<Rightarrow> gostring" where
  "sample_reason l = (let r = TrimSpace (ul_ErrorMessage l) in if r = [] then TrimSpace (ul_InvalidReason l) else r)"

definition count_category :: "UsageLog \<Rightarrow> (gostring, int) gomap \<Rightarrow> (gostring, int) gomap" where
  "count_category l m =
    (let category = TrimSpace (ul_FailureCategory l)
     in if category \<noteq> [] then mput category (mget_default 0 m category + 1) m else m)"

definition better_category :: "gostring \<times> int \<Rightarrow> gostring \<times> int \<Rightarrow> gostring \<times> int" where
  \<comment> \<open>a step of the loop over the counts\<close>
  "better_category = (\<lambda>(key, n) (category, categoryMax).
     if n > categoryMax \<or> (n = categoryMax \<and> key < category) then (key, n) else (category, categoryMax))"

definition summarizeUsageFailureSamples :: "UsageLog list \<Rightarrow> gostring \<times> gostring" where
  "summarizeUsageFailureSamples samples =
    (let reasons = sort_key length (filter (\<lambda>r. r \<noteq> []) (map sample_reason samples));
         category = fst (fold better_category (fold count_category samples []) ([], 0))
     in (case reasons of
           [] \<Rightarrow> []
         | [r] \<Rightarrow> r
         | r # _ \<Rightarrow> r @ utf8 [0x20, 0x7b49], category))"

definition buildRequestFailureSummary :: "UsageLog list \<Rightarrow> gostring" where
  "buildRequestFailureSummary samples = fst (summarizeUsageFailureSamples samples)"

definition buildRequestFailureNotificationEvent :: "UsageLog \<Rightarrow> UsageLog list \<Rightarrow> int \<Rightarrow> int \<Rightarrow> NotificationEvent" where
  "buildRequestFailureNotificationEvent l samples n windowMinutes =
    (let (reasonSummary, category) = summarizeUsageFailureSamples samples;
         detail = utf8 [0x6700, 0x8fd1, 0x20] @ Itoa windowMinutes @ utf8 [0x20, 0x5206, 0x949f, 0x5185, 0xff0c, 0x63d0, 0x4f9b, 0x5546, 0x20] @ TrimSpace (ul_ProviderName l)
                  @ utf8 [0x20, 0x51fa, 0x73b0, 0x20] @ Itoa n @ utf8 [0x20, 0x6b21, 0x5931, 0x8d25, 0x8bf7, 0x6c42, 0x3002];
         detail = (if reasonSummary \<noteq> [] then detail @ utf8 [0x20, 0x6700, 0x8fd1, 0x9519, 0x8bef, 0x6458, 0x8981, 0xff1a] @ reasonSummary else detail)
     in no_event\<lparr>ne_Type := ''relay.request_failure.threshold_reached'', ne_Family := ''request_failure'', ne_Severity := ''warning'',
          ne_Summary := utf8 [0x63d0, 0x4f9b, 0x5546, 0x20] @ TrimSpace (ul_ProviderName l) @ utf8 [0x20, 0x8bf7, 0x6c42, 0x5931, 0x8d25, 0x8fbe, 0x5230, 0x9608, 0x503c],
          ne_Detail := detail, ne_DedupeKey := buildRequestFailureAlertKey (ul_ProviderId l), ne_OccurredAt := ul_CreatedAt l,
          ne_ProviderID := ul_ProviderId l, ne_ProviderName := TrimSpace (ul_ProviderName l), ne_FailureCategory := category,
          ne_Reason := reasonSummary, ne_Counts := [(''failure_count'', n), (''window_minutes'', windowMinutes)]\<rparr>)"

definition observe_failures :: "int \<Rightarrow> int \<Rightarrow> int \<Rightarrow> UsageLog list \<Rightarrow> NotificationAlertState \<Rightarrow> NotificationAlertState" where
  \<comment> \<open>\<open>window\<close> is the length of the window in seconds\<close>
  "observe_failures window now n samples state =
    (let state = (if na_LastObservedAt state > 0 \<and> now - na_LastObservedAt state > window
                  then state\<lparr>na_Status := ''closed'', na_WindowStartedAt := 0, na_WindowCount := 0\<rparr> else state)
     in state\<lparr>na_LastObservedAt := now, na_WindowStartedAt := now - window + 1, na_WindowCount := n,
          na_LastSummary := buildRequestFailureSummary samples\<rparr>)"

definition EvaluateRequestFailureAlert :: "NotificationPolicyConfig \<Rightarrow> gotime \<Rightarrow> db \<Rightarrow> UsageLog \<Rightarrow> notify_world \<Rightarrow> notify_world" where
  \<comment> \<open>\<open>policy\<close> is the policy parsed from the options\<close>
  "EvaluateRequestFailureAlert policy clock d l w =
    (if ul_ProviderId l = 0 then w
     else if ul_Status l = 1 \<and> TrimSpace (ul_ErrorMessage l) = [] then w
     else if \<not> np_RequestFailureEnabled policy then w
     else if np_RequestFailureWindowMinutes policy \<le> 0 \<or> np_RequestFailureThreshold policy \<le> 0 then w
     else
       let now = (if ul_CreatedAt l = 0 then Unix clock else ul_CreatedAt l);
           window = wrap64 (np_RequestFailureWindowMinutes policy * 60);
           n = CountFailedUsageLogsSince (ul_ProviderId l) (now - window + 1) d;
           samples = GetRecentFailedUsageLogsSince (ul_ProviderId l) (now - window + 1) 5 d;
           state = observe_failures window now n samples (alert_or_fresh (buildRequestFailureAlertKey (ul_ProviderId l)) ''request_failure'' w)
       in if n \<ge> np_RequestFailureThreshold policy \<and> na_Status state \<noteq> ''open'' then
            NotifyAsync clock (buildRequestFailureNotificationEvent l samples n (np_RequestFailureWindowMinutes policy))
              (SaveNotificationAlertState clock (state\<lparr>na_Status := ''open'', na_LastFiredAt := now\<rparr>) w)
          else SaveNotificationAlertState clock state w)"

subsection \<open>The events of the other components\<close>

definition buildCheckinSummaryNotificationEvent :: "CheckinRun \<Rightarrow> NotificationEvent" where
  "buildCheckinSummaryNotificationEvent run =
    no_event\<lparr>ne_Type := ''checkin.run.completed'', ne_Family := ''checkin_summary'', ne_Severity := ''info'',
      ne_Summary := utf8 [0x7b7e, 0x5230, 0x4efb, 0x52a1, 0x5b8c, 0x6210, 0xff1a, 0x6210, 0x529f, 0x20] @ Itoa (rn_SuccessCount run) @ utf8 [0xff0c, 0x5931, 0x8d25, 0x20] @ Itoa (rn_FailureCount run)
        @ utf8 [0xff0c, 0x672a, 0x7b7e, 0x5230, 0x20] @ Itoa (rn_UncheckinCount run),
      ne_Detail := TrimSpace (rn_Message run), ne_DedupeKey := ''checkin-run:'' @ Itoa (rn_Id run), ne_OccurredAt := rn_EndedAt run,
      ne_TriggerSource := TrimSpace (rn_TriggerType run),
      ne_Counts := [(''run_id'', rn_Id run), (''total_count'', rn_TotalCount run), (''success_count'', rn_SuccessCount run),
        (''failure_count'', rn_FailureCount run), (''uncheckin_count'', rn_UncheckinCount run)],
      ne_Metadata := [(''timezone'', TrimSpace (rn_Timezone run)), (''scheduled_date'', TrimSpace (rn_ScheduledDate run)),
        (''status'', TrimSpace (rn_Status run))]\<rparr>"

definition buildCheckinFailureNotificationEvent :: "CheckinRun \<Rightarrow> CheckinRunItem \<Rightarrow> NotificationEvent" where
  "buildCheckinFailureNotificationEvent run item =
    no_event\<lparr>ne_Type := ''checkin.provider.failed'', ne_Family := ''checkin_failure'', ne_Severity := ''warning'',
      ne_Summary := utf8 [0x63d0, 0x4f9b, 0x5546, 0x20] @ TrimSpace (ri_ProviderName item) @ utf8 [0x20, 0x7b7e, 0x5230, 0x5931, 0x8d25],
      ne_Detail := TrimSpace (ri_Message item), ne_DedupeKey := ''checkin-item:'' @ Itoa (ri_Id item), ne_OccurredAt := ri_CheckedAt item,
      ne_ProviderID := ri_ProviderId item, ne_ProviderName := TrimSpace (ri_ProviderName item),
      ne_TriggerSource := TrimSpace (rn_TriggerType run), ne_Reason := TrimSpace (ri_Message item),
      ne_Counts := [(''run_id'', rn_Id run), (''quota_awarded'', ri_QuotaAwarded item), (''run_failures'', rn_FailureCount run),
        (''run_successes'', rn_SuccessCount run), (''run_total'', rn_TotalCount run)],
      ne_Metadata := [(''run_status'', TrimSpace (rn_Status run))]\<rparr>"

definition buildProviderAutoDisableNotificationEvent :: "CheckinRun \<Rightarrow> CheckinRunItem \<Rightarrow> NotificationEvent" where
  "buildProviderAutoDisableNotificationEvent run item =
    no_event\<lparr>ne_Type := ''checkin.provider.auto_disabled'', ne_Family := ''provider_auto_disable'', ne_Severity := ''critical'',
      ne_Summary := utf8 [0x63d0, 0x4f9b, 0x5546, 0x20] @ TrimSpace (ri_ProviderName item) @ utf8 [0x20, 0x5df2, 0x81ea, 0x52a8, 0x5173, 0x95ed, 0x7b7e, 0x5230],
      ne_Detail := TrimSpace (ri_Message item), ne_DedupeKey := ''checkin-auto-disable:'' @ Itoa (ri_Id item),
      ne_OccurredAt := ri_CheckedAt item, ne_ProviderID := ri_ProviderId item, ne_ProviderName := TrimSpace (ri_ProviderName item),
      ne_TriggerSource := TrimSpace (rn_TriggerType run), ne_Reason := TrimSpace (ri_Message item), ne_Counts := [(''run_id'', rn_Id run)]\<rparr>"

definition buildProviderUnreachableNotificationEvent :: "gotime \<Rightarrow> Provider \<Rightarrow> gostring \<Rightarrow> NotificationEvent" where
  "buildProviderUnreachableNotificationEvent now provider reason =
    no_event\<lparr>ne_Type := ''provider.health.unreachable'', ne_Family := ''provider_health'', ne_Severity := ''critical'',
      ne_Summary := utf8 [0x63d0, 0x4f9b, 0x5546, 0x20] @ TrimSpace (p_Name provider) @ utf8 [0x20, 0x5f53, 0x524d, 0x4e0d, 0x53ef, 0x8fbe], ne_Detail := TrimSpace reason,
      ne_DedupeKey := buildProviderHealthAlertKey (p_Id provider),
      ne_OccurredAt := (if p_HealthFailureAt provider = 0 then Unix now else p_HealthFailureAt provider),
      ne_ProviderID := p_Id provider, ne_ProviderName := TrimSpace (p_Name provider), ne_Reason := TrimSpace reason,
      ne_Metadata := [(''health_status'', TrimSpace (p_HealthStatus provider))]\<rparr>"

definition buildProviderRecoveryNotificationEvent :: "gotime \<Rightarrow> Provider \<Rightarrow> gostring \<Rightarrow> NotificationEvent" where
  "buildProviderRecoveryNotificationEvent now provider previousReason =
    no_event\<lparr>ne_Type := ''provider.health.recovered'', ne_Family := ''provider_health'', ne_Severity := ''info'',
      ne_Summary := utf8 [0x63d0, 0x4f9b, 0x5546, 0x20] @ TrimSpace (p_Name provider) @ utf8 [0x20, 0x5df2, 0x6062, 0x590d, 0x53ef, 0x7528],
      ne_Detail := utf8 [0x63d0, 0x4f9b, 0x5546, 0x5df2, 0x4ece, 0x4e4b, 0x524d, 0x7684, 0x4e0d, 0x53ef, 0x8fbe, 0x72b6, 0x6001, 0x6062, 0x590d, 0x3002], ne_DedupeKey := buildProviderHealthAlertKey (p_Id provider),
      ne_OccurredAt := (if p_HealthSuccessAt provider = 0 then Unix now else p_HealthSuccessAt provider),
      ne_ProviderID := p_Id provider, ne_ProviderName := TrimSpace (p_Name provider), ne_Reason := TrimSpace previousReason,
      ne_Metadata := [(''previous_reason'', TrimSpace previousReason), (''health_status'', TrimSpace (p_HealthStatus provider))]\<rparr>"

subsection \<open>Changes of health\<close>

definition was_unreachable :: "Provider \<Rightarrow> bool" where
  "was_unreachable provider \<longleftrightarrow> EqualFold (TrimSpace (p_HealthStatus provider)) ProviderHealthStatusUnreachable"

definition health_failure_notices :: "proxy_env \<Rightarrow> Provider \<Rightarrow> gostring \<Rightarrow> db \<times> notify_world \<Rightarrow> db \<times> notify_world" where
  \<comment> \<open>\<open>markProviderHealthFailure\<close> with its alert\<close>
  "health_failure_notices env provider reason = (\<lambda>(d, w).
    let sanitized = sanitizeProviderErrorMessage env (Some provider) reason in
    case MarkHealthFailure (pe_now env) sanitized provider d of
      Inl e \<Rightarrow> (d, w)
    | Inr (p, d) \<Rightarrow>
        (d, if \<not> was_unreachable provider
            then NotifyAsync (pe_now env) (buildProviderUnreachableNotificationEvent (pe_now env) p sanitized)
                   (markProviderHealthAlertOpen (pe_now env) p sanitized w)
            else w))"

definition health_success_notices :: "proxy_env \<Rightarrow> Provider \<Rightarrow> db \<times> notify_world \<Rightarrow> db \<times> notify_world" where
  \<comment> \<open>\<open>markProviderHealthSuccess\<close> with its alert\<close>
  "health_success_notices env provider = (\<lambda>(d, w).
    let previousReason = TrimSpace (p_HealthFailureReason provider) in
    case MarkHealthSuccess (pe_now env) provider d of
      Inl e \<Rightarrow> (d, w)
    | Inr (p, d) \<Rightarrow>
        (d, if was_unreachable provider
            then NotifyAsync (pe_now env) (buildProviderRecoveryNotificationEvent (pe_now env) p previousReason)
                   (markProviderHealthAlertClosed (pe_now env) p previousReason w)
            else w))"

end
