(* ===== verification/AlertEpisodes.thy ===== *)
theory AlertEpisodes
  imports Notification
begin

text \<open>
  What the alerts of \<open>Notification\<close> amount to. The table row of an alert is abstracted to the time of the last
  observation and whether the alert is open; the alerts for failed requests are those of an episode machine, and the
  events about the health of a provider are the changes in the outcomes observed.
\<close>

subsection \<open>The table of alerts as a map\<close>

lemma TrimSpace_spaceless:
  assumes "\<And>c p. c \<in> set s \<Longrightarrow> p \<in> set go_spaces \<Longrightarrow> c \<notin> set p"
  shows "TrimSpace s = s"
proof -
  have none: "lead_len ps r = 0" if "set r \<subseteq> set s" and "\<And>c p. c \<in> set s \<Longrightarrow> p \<in> set ps \<Longrightarrow> c \<notin> set p" for ps r
  proof (rule ccontr)
    assume n: "lead_len ps r \<noteq> 0"
    then obtain p where p: "p \<in> set ps" "take (lead_len ps r) r = p" using lead_len_take by blast
    moreover have "r \<noteq> []" using n lead_len_le [of ps r] by auto
    ultimately have "hd r \<in> set p" using n by (cases r) (auto simp: take_Cons')
    then show False using that p(1) \<open>r \<noteq> []\<close> by (metis hd_in_set subsetD)
  qed
  have "lead_len go_spaces s = 0" by (rule none) (use assms in auto)
  moreover have "lead_len (map rev go_spaces) (rev s) = 0" by (rule none) (use assms in auto)
  ultimately show ?thesis by (simp add: TrimSpace_def TrimLeftSpace_def TrimRightSpace_def strip_lead_id)
qed

definition plain_char :: "char \<Rightarrow> bool" where
  "plain_char c \<longleftrightarrow> (\<forall>p \<in> set go_spaces. c \<notin> set p)"

lemma TrimSpace_plain_char: "list_all plain_char s \<Longrightarrow> TrimSpace s = s"
  by (rule TrimSpace_spaceless) (auto simp: list_all_iff plain_char_def)

lemma plain_Itoa: "list_all plain_char (Itoa n)"
proof -
  have spaces: "list_all (\<lambda>p. list_all (\<lambda>c. \<not> is_digit c \<and> c \<noteq> CHR ''-'') p) go_spaces" by code_simp
  show ?thesis using set_Itoa [of _ n] spaces unfolding list_all_iff plain_char_def by metis
qed

lemma plain_keys [simp]:
  "TrimSpace (buildRequestFailureAlertKey n) = buildRequestFailureAlertKey n"
  "TrimSpace (buildProviderHealthAlertKey n) = buildProviderHealthAlertKey n"
proof -
  have "list_all plain_char ''request-failure:''" "list_all plain_char ''provider-health:''" by code_simp+
  then show "TrimSpace (buildRequestFailureAlertKey n) = buildRequestFailureAlertKey n"
    and "TrimSpace (buildProviderHealthAlertKey n) = buildProviderHealthAlertKey n"
    using plain_Itoa [of n] TrimSpace_plain_char [of "''request-failure:'' @ Itoa n"] TrimSpace_plain_char [of "''provider-health:'' @ Itoa n"]
    unfolding buildRequestFailureAlertKey_def buildProviderHealthAlertKey_def list_all_append by blast+
qed

lemma key_simps [simp]:
  "buildRequestFailureAlertKey m = buildRequestFailureAlertKey n \<longleftrightarrow> m = n"
  "buildProviderHealthAlertKey m = buildProviderHealthAlertKey n \<longleftrightarrow> m = n"
  "buildRequestFailureAlertKey m \<noteq> buildProviderHealthAlertKey n" "buildProviderHealthAlertKey m \<noteq> buildRequestFailureAlertKey n"
  "buildRequestFailureAlertKey m \<noteq> []" "buildProviderHealthAlertKey m \<noteq> []"
  by (simp_all add: buildRequestFailureAlertKey_def buildProviderHealthAlertKey_def Itoa_inj)

definition alert_row :: "notify_world \<Rightarrow> gostring \<Rightarrow> NotificationAlertState option" where
  "alert_row w key = find (\<lambda>s. na_DedupeKey s = key) (nt_alerts w)"

definition alerts_ok :: "notify_world \<Rightarrow> bool" where
  "alerts_ok w \<longleftrightarrow> distinct (map na_Id (nt_alerts w))"

definition alert_view :: "notify_world \<Rightarrow> gostring \<Rightarrow> int \<times> bool" where
  \<comment> \<open>the abstraction: time of the last observation, and whether the alert is open\<close>
  "alert_view w key = (case alert_row w key of None \<Rightarrow> (0, False) | Some s \<Rightarrow> (na_LastObservedAt s, na_Status s = ''open''))"

lemma find_row_update:
  assumes "distinct (map na_Id rows)" and "r \<in> set rows" and "na_DedupeKey r = na_DedupeKey new" and "na_DedupeKey r = key"
    and "find (\<lambda>s. na_DedupeKey s = key) rows = Some r"
  shows "find (\<lambda>s. na_DedupeKey s = k) (row_update (\<lambda>s. na_Id s = na_Id r) (\<lambda>_. new) rows)
    = (if k = key then Some new else find (\<lambda>s. na_DedupeKey s = k) rows)"
proof -
  have "na_Id s = na_Id r \<longleftrightarrow> s = r" if "s \<in> set rows" for s
    using assms(1,2) that by (auto simp: distinct_map inj_on_def)
  then have eq: "row_update (\<lambda>s. na_Id s = na_Id r) (\<lambda>_. new) rows = map (\<lambda>s. if s = r then new else s) rows"
    by (simp add: row_update_def)
  show ?thesis
  proof (cases "k = key")
    case True
    then show ?thesis unfolding eq using assms(3,4,5) by (induction rows) auto
  next
    case False
    then show ?thesis unfolding eq using assms(3,4) by (induction rows) auto
  qed
qed

lemma find_append: "find P (xs @ ys) = (case find P xs of None \<Rightarrow> find P ys | Some x \<Rightarrow> Some x)"
  by (induction xs) auto

lemma ids_row_update:
  assumes "na_Id new = na_Id r"
  shows "map na_Id (row_update (\<lambda>s. na_Id s = na_Id r) (\<lambda>_. new) rows) = map na_Id rows"
  using assms by (auto simp: row_update_def)

lemma before_simps [simp]:
  "na_DedupeKey (BeforeUpdate now s) = TrimSpace (na_DedupeKey s)" "na_Id (BeforeUpdate now s) = na_Id s"
  "na_LastObservedAt (BeforeUpdate now s) = na_LastObservedAt s" "na_Status (BeforeUpdate now s) = ''open'' \<longleftrightarrow> na_Status s = ''open''"
  "na_DedupeKey (BeforeCreate now s) = TrimSpace (na_DedupeKey s)" "na_Id (BeforeCreate now s) = na_Id s"
  "na_LastObservedAt (BeforeCreate now s) = na_LastObservedAt s" "na_Status (BeforeCreate now s) = ''open'' \<longleftrightarrow> na_Status s = ''open''"
  "na_DedupeKey (trim_alert s) = TrimSpace (na_DedupeKey s)" "na_Id (trim_alert s) = na_Id s"
  "na_LastObservedAt (trim_alert s) = na_LastObservedAt s" "na_Status (trim_alert s) = na_Status s"
  using TrimSpace_plain_char [of "''open''"] by (auto simp: BeforeCreate_def BeforeUpdate_def trim_alert_def Let_def plain_char_def go_spaces_def)

lemma save_alert:
  assumes "alerts_ok w" and "na_DedupeKey s = key" and "TrimSpace key = key" and "key \<noteq> []" and "alert_row w key = None \<Longrightarrow> na_Id s = 0"
  shows "alerts_ok (SaveNotificationAlertState now s w)"
    and "alert_view (SaveNotificationAlertState now s w) k
      = (if k = key then (na_LastObservedAt s, na_Status s = ''open'') else alert_view w k)"
    and "nt_queue (SaveNotificationAlertState now s w) = nt_queue w"
proof -
  have sv: "SaveNotificationAlertState now s w =
     (case alert_row w key of
        None \<Rightarrow> w\<lparr>nt_alerts := nt_alerts w @ [(BeforeCreate now (trim_alert s))\<lparr>na_Id := next_row_id na_Id (nt_alerts w)\<rparr>]\<rparr>
      | Some r \<Rightarrow> w\<lparr>nt_alerts := row_update (\<lambda>x. na_Id x = na_Id r)
          (\<lambda>_. BeforeUpdate now ((trim_alert s)\<lparr>na_Id := na_Id r, na_CreatedAt := na_CreatedAt r\<rparr>)) (nt_alerts w)\<rparr>)"
    using assms(2-5) by (simp add: SaveNotificationAlertState_def Let_def alert_row_def split: option.splits)
  have "alerts_ok (SaveNotificationAlertState now s w) \<and> nt_queue (SaveNotificationAlertState now s w) = nt_queue w
    \<and> alert_view (SaveNotificationAlertState now s w) k
      = (if k = key then (na_LastObservedAt s, na_Status s = ''open'') else alert_view w k)"
  proof (cases "alert_row w key")
    case None
    have f: "find (\<lambda>s. na_DedupeKey s = key) (nt_alerts w) = None" using None by (simp only: alert_row_def)
    have "\<forall>r \<in> set (nt_alerts w). na_Id r \<noteq> next_row_id na_Id (nt_alerts w)" using next_row_id_fresh [of _ "nt_alerts w" na_Id] by fastforce
    then have "alerts_ok (SaveNotificationAlertState now s w)" using assms(1) unfolding sv None by (auto simp: alerts_ok_def)
    moreover have "alert_row (SaveNotificationAlertState now s w) k = (if k = key
        then Some ((BeforeCreate now (trim_alert s))\<lparr>na_Id := next_row_id na_Id (nt_alerts w)\<rparr>) else alert_row w k)"
      using assms(2,3) unfolding sv None by (cases "k = key") (simp_all add: alert_row_def find_append f split: option.split)
    ultimately show ?thesis unfolding sv None by (auto simp: alert_view_def)
  next
    case (Some r)
    define new where "new = BeforeUpdate now ((trim_alert s)\<lparr>na_Id := na_Id r, na_CreatedAt := na_CreatedAt r\<rparr>)"
    have r: "r \<in> set (nt_alerts w)" "na_DedupeKey r = key" using Some by (auto simp: alert_row_def find_Some_iff)
    have n: "na_DedupeKey new = key" "na_Id new = na_Id r" "na_LastObservedAt new = na_LastObservedAt s" "na_Status new = ''open'' \<longleftrightarrow> na_Status s = ''open''"
      using assms(2,3) by (simp_all add: new_def)
    have row: "alert_row (SaveNotificationAlertState now s w) k = (if k = key then Some new else alert_row w k)"
    proof -
      have f: "find (\<lambda>s. na_DedupeKey s = key) (nt_alerts w) = Some r" using Some by (simp only: alert_row_def)
      have d: "distinct (map na_Id (nt_alerts w))" using assms(1) by (simp only: alerts_ok_def)
      show ?thesis using find_row_update [OF d r(1) _ r(2) f, of new k] r(2) n(1) unfolding sv Some by (simp add: alert_row_def new_def)
    qed
    moreover have "alerts_ok (SaveNotificationAlertState now s w)"
      using assms(1) ids_row_update [OF n(2)] unfolding sv Some by (simp add: alerts_ok_def new_def)
    moreover have "nt_queue (SaveNotificationAlertState now s w) = nt_queue w" unfolding sv Some by simp
    ultimately show ?thesis using n(3,4) by (simp add: alert_view_def)
  qed
  then show "alerts_ok (SaveNotificationAlertState now s w)"
    and "alert_view (SaveNotificationAlertState now s w) k
      = (if k = key then (na_LastObservedAt s, na_Status s = ''open'') else alert_view w k)"
    and "nt_queue (SaveNotificationAlertState now s w) = nt_queue w" by auto
qed


subsection \<open>Episodes of failed requests\<close>

definition alarm_step :: "int \<Rightarrow> int \<Rightarrow> int \<times> int \<Rightarrow> int \<times> bool \<Rightarrow> (int \<times> bool) \<times> bool" where
  \<comment> \<open>the alert of one provider as a machine: the new view, and whether it fires\<close>
  "alarm_step window threshold = (\<lambda>(t, n) (last, opened).
    let opened = (if last > 0 \<and> t - last > window then False else opened)
    in ((t, opened \<or> n \<ge> threshold), n \<ge> threshold \<and> \<not> opened))"

fun alarm_run :: "int \<Rightarrow> int \<Rightarrow> (int \<times> int) list \<Rightarrow> int \<times> bool \<Rightarrow> (int \<times> int) list" where
  "alarm_run window threshold [] v = []"
| "alarm_run window threshold (x # xs) v =
    (let (v, fires) = alarm_step window threshold x v in (if fires then [x] else []) @ alarm_run window threshold xs v)"

fun episodes :: "int \<Rightarrow> (int \<times> int) list \<Rightarrow> (int \<times> int) list list" where
  \<comment> \<open>cut a sequence of observations where more than \<open>window\<close> seconds pass between two of them\<close>
  "episodes window [] = []"
| "episodes window [x] = [[x]]"
| "episodes window (x # y # ys) =
    (if fst y - fst x > window then [x] # episodes window (y # ys)
     else case episodes window (y # ys) of e # es \<Rightarrow> (x # e) # es | [] \<Rightarrow> [[x]])"

definition first_alarm :: "int \<Rightarrow> (int \<times> int) list \<Rightarrow> (int \<times> int) list" where
  "first_alarm threshold e = take 1 (filter (\<lambda>(t, n). n \<ge> threshold) e)"

lemma first_alarm_simps [simp]:
  "first_alarm threshold [] = []"
  "first_alarm threshold ((t, n) # e) = (if n \<ge> threshold then [(t, n)] else first_alarm threshold e)"
  by (simp_all add: first_alarm_def)

lemma episodes_Cons: "\<exists>e es. episodes window (x # xs) = (x # e) # es"
  by (cases xs) (auto split: list.splits)

lemma alarm_run_episodes:
  assumes "\<forall>x \<in> set xs. fst x > 0" and "fst x0 > 0" and "episodes window (x0 # xs) = (x0 # e) # es"
  shows "alarm_run window threshold xs (fst x0, opened)
    = (if opened then [] else first_alarm threshold e) @ concat (map (first_alarm threshold) es)"
  using assms
proof (induction xs arbitrary: x0 opened e es)
  case Nil
  then show ?case by (simp add: first_alarm_def)
next
  case (Cons x xs)
  obtain t n where x: "x = (t, n)" by (cases x)
  obtain e' es' where ep: "episodes window (x # xs) = (x # e') # es'" using episodes_Cons by blast
  have IH: "alarm_run window threshold xs (t, b)
    = (if b then [] else first_alarm threshold e') @ concat (map (first_alarm threshold) es')" for b
    using Cons.IH [of x e' es' b] Cons.prems(1) ep x by simp
  show ?case
  proof (cases "t - fst x0 > window")
    case True
    then have "e = []" "es = (x # e') # es'" using Cons.prems(3) ep x by auto
    then show ?thesis using True Cons.prems(2) IH x by (auto simp: alarm_step_def)
  next
    case False
    then have "e = x # e'" "es = es'" using Cons.prems(3) ep x by auto
    then show ?thesis using False IH x by (auto simp: alarm_step_def Let_def)
  qed
qed

lemma alarm_run_start:
  assumes "\<forall>x \<in> set xs. fst x > 0"
  shows "alarm_run window threshold xs (0, False) = concat (map (first_alarm threshold) (episodes window xs))"
proof (cases xs)
  case (Cons x ys)
  obtain t n where x: "x = (t, n)" by (cases x)
  obtain e es where ep: "episodes window (x # ys) = (x # e) # es" using episodes_Cons by blast
  have "alarm_run window threshold ys (t, b) = (if b then [] else first_alarm threshold e) @ concat (map (first_alarm threshold) es)" for b
    using alarm_run_episodes [of ys x window e es threshold b] assms ep Cons x by simp
  then show ?thesis using ep Cons x by (auto simp: alarm_step_def)
qed simp

datatype alert_op =
    Failed_request gotime db UsageLog
  | Health_opened gotime Provider gostring
  | Health_closed gotime Provider gostring
  | Notified gotime NotificationEvent

fun alert_step :: "NotificationPolicyConfig \<Rightarrow> alert_op \<Rightarrow> notify_world \<Rightarrow> notify_world" where
  "alert_step policy (Failed_request clock d l) w = EvaluateRequestFailureAlert policy clock d l w"
| "alert_step policy (Health_opened now p reason) w = markProviderHealthAlertOpen now p reason w"
| "alert_step policy (Health_closed now p reason) w = markProviderHealthAlertClosed now p reason w"
| "alert_step policy (Notified now event) w = NotifyAsync now event w"

definition policy_window :: "NotificationPolicyConfig \<Rightarrow> int" where
  "policy_window policy = wrap64 (np_RequestFailureWindowMinutes policy * 60)"

definition observed_failure :: "NotificationPolicyConfig \<Rightarrow> int \<Rightarrow> alert_op \<Rightarrow> (int \<times> int) list" where
  \<comment> \<open>the time of a failed request of the provider and the number of its failures in the window that ends there\<close>
  "observed_failure policy q op =
    (case op of
       Failed_request clock d l \<Rightarrow>
         if ul_ProviderId l = q \<and> \<not> isUsageLogSuccess l then
           (let t = (if ul_CreatedAt l = 0 then Unix clock else ul_CreatedAt l)
            in [(t, CountFailedUsageLogsSince q (t - policy_window policy + 1) d)])
         else []
     | _ \<Rightarrow> [])"

definition request_alerts :: "int \<Rightarrow> notify_world \<Rightarrow> (int \<times> int) list" where
  \<comment> \<open>time and count of the alerts for failed requests of a provider, in the order in which they were queued\<close>
  "request_alerts q w =
    map (\<lambda>e. (ne_OccurredAt e, mget_default 0 (ne_Counts e) ''failure_count''))
      (filter (\<lambda>e. ne_Family e = ''request_failure'' \<and> ne_ProviderID e = q) (nt_queue w))"

definition policy_on :: "NotificationPolicyConfig \<Rightarrow> bool" where
  "policy_on policy \<longleftrightarrow> np_RequestFailureEnabled policy \<and> np_RequestFailureWindowMinutes policy > 0 \<and> np_RequestFailureThreshold policy > 0"

lemma alert_or_fresh_id: "alert_row w key = None \<Longrightarrow> na_Id (alert_or_fresh key f w) = 0" if "TrimSpace key = key" "key \<noteq> []"
  using that by (simp add: alert_or_fresh_def GetNotificationAlertState_def alert_row_def fresh_alert_def)

lemma alert_or_fresh_view:
  assumes "TrimSpace key = key" and "key \<noteq> []"
  shows "na_DedupeKey (alert_or_fresh key f w) = key"
    and "alert_view w key = (na_LastObservedAt (alert_or_fresh key f w), na_Status (alert_or_fresh key f w) = ''open'')"
proof -
  have eq: "alert_or_fresh key f w = (case alert_row w key of Some s \<Rightarrow> s | None \<Rightarrow> fresh_alert key f)"
    using assms by (simp add: alert_or_fresh_def GetNotificationAlertState_def alert_row_def)
  have "na_DedupeKey s = key" if "alert_row w key = Some s" for s using that by (auto simp: alert_row_def find_Some_iff)
  then show "na_DedupeKey (alert_or_fresh key f w) = key"
    and "alert_view w key = (na_LastObservedAt (alert_or_fresh key f w), na_Status (alert_or_fresh key f w) = ''open'')"
    unfolding eq by (simp_all add: alert_view_def fresh_alert_def split: option.split)
qed

lemma NotifyAsync_alerts [simp]: "alerts_ok (NotifyAsync now e w) = alerts_ok w" "alert_view (NotifyAsync now e w) = alert_view w"
  by (simp_all add: NotifyAsync_def Let_def alerts_ok_def alert_view_def alert_row_def fun_eq_iff)

lemma health_alerts:
  assumes "alerts_ok w"
  shows "alerts_ok (markProviderHealthAlertOpen now p reason w)" "alerts_ok (markProviderHealthAlertClosed now p reason w)"
    "nt_queue (markProviderHealthAlertOpen now p reason w) = nt_queue w" "nt_queue (markProviderHealthAlertClosed now p reason w) = nt_queue w"
    "alert_view (markProviderHealthAlertOpen now p reason w) k =
      (if p_Id p \<noteq> 0 \<and> k = buildProviderHealthAlertKey (p_Id p) then (Unix now, True) else alert_view w k)"
    "alert_view (markProviderHealthAlertClosed now p reason w) k =
      (if p_Id p \<noteq> 0 \<and> k = buildProviderHealthAlertKey (p_Id p) then (Unix now, False) else alert_view w k)"
  using assms alert_or_fresh_view(1) [of "buildProviderHealthAlertKey (p_Id p)"] alert_or_fresh_id [of "buildProviderHealthAlertKey (p_Id p)"]
  by (auto simp: markProviderHealthAlertOpen_def markProviderHealthAlertClosed_def save_alert)


lemma request_event:
  "ne_Family (buildRequestFailureNotificationEvent l samples n m) = ''request_failure''"
  "ne_Type (buildRequestFailureNotificationEvent l samples n m) = ''relay.request_failure.threshold_reached''"
  "ne_ProviderID (buildRequestFailureNotificationEvent l samples n m) = ul_ProviderId l"
  "ne_OccurredAt (buildRequestFailureNotificationEvent l samples n m) = ul_CreatedAt l"
  "ne_Counts (buildRequestFailureNotificationEvent l samples n m) = [(''failure_count'', n), (''window_minutes'', m)]"
  by (simp_all add: buildRequestFailureNotificationEvent_def no_event_def Let_def split: prod.split)

lemma queue_request_event:
  "request_alerts q (NotifyAsync clock (buildRequestFailureNotificationEvent l samples n m) w)
   = request_alerts q w @ (if ul_ProviderId l = q then [(if ul_CreatedAt l = 0 then Unix clock else ul_CreatedAt l, n)] else [])"
proof -
  have "TrimSpace ''request_failure'' \<noteq> []" "TrimSpace ''relay.request_failure.threshold_reached'' \<noteq> []" by code_simp+
  then show ?thesis by (simp add: NotifyAsync_def request_alerts_def request_event Let_def mget_default_def mget_def)
qed

lemma request_alerts_queue: "nt_queue w' = nt_queue w \<Longrightarrow> request_alerts q w' = request_alerts q w"
  by (simp add: request_alerts_def)

lemma evaluate_failure:
  assumes "policy_on policy" and "alerts_ok w" and "ul_ProviderId l \<noteq> 0" and "\<not> isUsageLogSuccess l"
    and t: "t = (if ul_CreatedAt l = 0 then Unix clock else ul_CreatedAt l)"
    and n: "n = CountFailedUsageLogsSince (ul_ProviderId l) (t - policy_window policy + 1) d"
    and w': "w' = EvaluateRequestFailureAlert policy clock d l w" and key: "key = buildRequestFailureAlertKey (ul_ProviderId l)"
    and st: "alarm_step (policy_window policy) (np_RequestFailureThreshold policy) (t, n) (alert_view w key) = (v, fires)"
  shows "alerts_ok w'" and "alert_view w' k = (if k = key then v else alert_view w k)"
    and "request_alerts q w' = request_alerts q w @ (if ul_ProviderId l = q \<and> fires then [(t, n)] else [])"
proof -
  define samples where "samples = GetRecentFailedUsageLogsSince (ul_ProviderId l) (t - policy_window policy + 1) 5 d"
  define state where "state = observe_failures (policy_window policy) t n samples (alert_or_fresh key ''request_failure'' w)"
  define stored where "stored = state\<lparr>na_Status := ''open'', na_LastFiredAt := t\<rparr>"
  have k: "TrimSpace key = key" "key \<noteq> []" unfolding key by simp_all
  note fresh = alert_or_fresh_view [OF k, where f = "''request_failure''" and w = w]
  have s: "na_DedupeKey state = key" "alert_row w key = None \<Longrightarrow> na_Id state = 0" "na_LastObservedAt state = t"
    "(na_Status state = ''open'') = (if na_LastObservedAt (alert_or_fresh key ''request_failure'' w) > 0
       \<and> t - na_LastObservedAt (alert_or_fresh key ''request_failure'' w) > policy_window policy then False
      else na_Status (alert_or_fresh key ''request_failure'' w) = ''open'')"
    using fresh(1) alert_or_fresh_id [OF k] by (auto simp: state_def observe_failures_def Let_def)
  have v: "v = (t, na_Status state = ''open'' \<or> n \<ge> np_RequestFailureThreshold policy)"
    "fires \<longleftrightarrow> n \<ge> np_RequestFailureThreshold policy \<and> na_Status state \<noteq> ''open''"
    using st s(4) by (auto simp: alarm_step_def fresh(2) Let_def)
  have e: "w' = (if fires then NotifyAsync clock (buildRequestFailureNotificationEvent l samples n (np_RequestFailureWindowMinutes policy))
                   (SaveNotificationAlertState clock stored w)
                 else SaveNotificationAlertState clock state w)"
    unfolding w' v(2) using assms(1,3,4)
    by (auto simp: EvaluateRequestFailureAlert_def policy_on_def isUsageLogSuccess_def Let_def t [symmetric] policy_window_def [symmetric]
        n [symmetric] samples_def [symmetric] key [symmetric] state_def [symmetric] stored_def [symmetric])
  have s': "na_DedupeKey stored = key" "alert_row w key = None \<Longrightarrow> na_Id stored = 0" "na_LastObservedAt stored = t" "na_Status stored = ''open''"
    using s by (simp_all add: stored_def)
  note sv = save_alert [OF assms(2) s(1) k s(2), of clock]
  note sv' = save_alert [OF assms(2) s'(1) k s'(2), of clock]
  show "alerts_ok w'" unfolding e using sv(1) sv'(1) by simp
  show "alert_view w' k = (if k = key then v else alert_view w k)"
    unfolding e v(1) using sv(2) [of k] sv'(2) [of k] s(3) s'(3,4) v(2) by auto
  show "request_alerts q w' = request_alerts q w @ (if ul_ProviderId l = q \<and> fires then [(t, n)] else [])"
    unfolding e using request_alerts_queue [OF sv(3), of q] request_alerts_queue [OF sv'(3), of q] by (simp add: queue_request_event t)
qed

lemma evaluate_success: "isUsageLogSuccess l \<or> ul_ProviderId l = 0 \<Longrightarrow> EvaluateRequestFailureAlert policy clock d l w = w"
  by (auto simp: EvaluateRequestFailureAlert_def isUsageLogSuccess_def)

lemma other_event: "ne_Family e \<noteq> ''request_failure'' \<Longrightarrow> request_alerts q (NotifyAsync now e w) = request_alerts q w"
  by (simp add: request_alerts_def NotifyAsync_def Let_def)

definition other_family :: "alert_op \<Rightarrow> bool" where
  "other_family op = (case op of Notified now e \<Rightarrow> ne_Family e \<noteq> ''request_failure'' | _ \<Rightarrow> True)"

lemma alert_step_machine:
  assumes "policy_on policy" and "alerts_ok w" and "q \<noteq> 0" and "other_family op" and "key = buildRequestFailureAlertKey q"
  shows "alerts_ok (alert_step policy op w)"
    and "request_alerts q (alert_step policy op w) @ alarm_run (policy_window policy) (np_RequestFailureThreshold policy) xs (alert_view (alert_step policy op w) key)
      = request_alerts q w @ alarm_run (policy_window policy) (np_RequestFailureThreshold policy) (observed_failure policy q op @ xs) (alert_view w key)"
proof -
  have "alerts_ok (alert_step policy op w) \<and>
    request_alerts q (alert_step policy op w) @ alarm_run (policy_window policy) (np_RequestFailureThreshold policy) xs (alert_view (alert_step policy op w) key)
      = request_alerts q w @ alarm_run (policy_window policy) (np_RequestFailureThreshold policy) (observed_failure policy q op @ xs) (alert_view w key)"
  proof (cases op)
    case (Failed_request clock d l)
    show ?thesis
    proof (cases "isUsageLogSuccess l \<or> ul_ProviderId l = 0")
      case True
      then show ?thesis using assms(2,3) Failed_request by (auto simp: evaluate_success observed_failure_def)
    next
      case False
      then have l: "ul_ProviderId l \<noteq> 0" "\<not> isUsageLogSuccess l" by auto
      define t where "t = (if ul_CreatedAt l = 0 then Unix clock else ul_CreatedAt l)"
      define n where "n = CountFailedUsageLogsSince (ul_ProviderId l) (t - policy_window policy + 1) d"
      obtain v fires where st: "alarm_step (policy_window policy) (np_RequestFailureThreshold policy) (t, n)
          (alert_view w (buildRequestFailureAlertKey (ul_ProviderId l))) = (v, fires)" by fastforce
      note ev = evaluate_failure [OF assms(1,2) l t_def n_def refl refl st]
      have obs: "observed_failure policy q (Failed_request clock d l) = (if ul_ProviderId l = q then [(t, n)] else [])"
        using l(2) by (auto simp: observed_failure_def t_def n_def Let_def)
      show ?thesis using ev(1) ev(2) [of key] ev(3) [of q] st assms(5) Failed_request by (auto simp: obs)
    qed
  next
    case (Notified now e)
    then show ?thesis using assms(2,4) by (simp add: observed_failure_def other_family_def other_event)
  qed (use assms(2,5) in \<open>simp_all add: observed_failure_def health_alerts request_alerts_def\<close>)
  then show "alerts_ok (alert_step policy op w)"
    and "request_alerts q (alert_step policy op w) @ alarm_run (policy_window policy) (np_RequestFailureThreshold policy) xs (alert_view (alert_step policy op w) key)
      = request_alerts q w @ alarm_run (policy_window policy) (np_RequestFailureThreshold policy) (observed_failure policy q op @ xs) (alert_view w key)" by auto
qed

lemma alert_fold_machine:
  assumes "policy_on policy" and "alerts_ok w" and "q \<noteq> 0" and "list_all other_family ops" and "key = buildRequestFailureAlertKey q"
  shows "request_alerts q (fold (alert_step policy) ops w)
    = request_alerts q w @ alarm_run (policy_window policy) (np_RequestFailureThreshold policy) (concat (map (observed_failure policy q) ops)) (alert_view w key)"
  using assms(2,4)
proof (induction ops arbitrary: w)
  case (Cons op ops)
  note step = alert_step_machine [OF assms(1) Cons.prems(1) assms(3) _ assms(5), of op]
  show ?case using step Cons.IH [of "alert_step policy op w"] Cons.prems(2) by simp
qed simp

definition no_alerts :: notify_world where
  "no_alerts = \<lparr>nt_alerts = [], nt_queue = []\<rparr>"

subsection \<open>A sample of failures\<close>

definition sample_policy :: NotificationPolicyConfig where
  "sample_policy =
    \<lparr>np_CheckinSummaryEnabled = False, np_CheckinFailureEnabled = True, np_ProviderAutoDisableEnabled = True, np_ProviderHealthEnabled = True,
     np_RequestFailureEnabled = True, np_VerbosityMode = ''concise'', np_RequestFailureThreshold = 2, np_RequestFailureWindowMinutes = 1\<rparr>"

definition sample_failure :: "int \<Rightarrow> UsageLog" where
  "sample_failure t = (sample_log t 1 0 ''boom'')\<lparr>ul_CreatedAt := t\<rparr>"

definition sample_failures_db :: "int list \<Rightarrow> db" where
  "sample_failures_db ts = \<lparr>db_providers = [], db_tokens = [], db_routes = [], db_pricings = [], db_aggtokens = [], db_users = [],
     db_logs = map sample_failure ts\<rparr>"

definition sample_alert_ops :: "alert_op list" where
  "sample_alert_ops = map (\<lambda>ts. Failed_request 0 (sample_failures_db ts) (sample_failure (last ts)))
     [[100], [100, 110], [100, 110, 120], [100, 110, 120, 300], [100, 110, 120, 300, 310]]"

lemma sample_observations:
  "concat (map (observed_failure sample_policy 1) sample_alert_ops) = [(100, 1), (110, 2), (120, 3), (300, 1), (310, 2)]"
  by code_simp

lemma sample_ops_ok: "policy_on sample_policy" "list_all other_family sample_alert_ops" "policy_window sample_policy = 60"
  "np_RequestFailureThreshold sample_policy = 2"
  by code_simp+

text \<open>
  C28: One alert per episode of failed requests. Whatever events the gateway handles in whatever order, for several
  providers and with health alerts in between, the alerts queued for the failed requests of a provider are these: cut
  its failed requests where more than the window passes between two of them; in each piece the first failure that brings
  the number of failures in the window to the threshold raises one alert, and nothing else does.
\<close>

theorem one_alert_per_episode:
  assumes "policy_on policy" and "q \<noteq> 0" and "list_all other_family ops"
    and "list_all (\<lambda>x. fst x > 0) (concat (map (observed_failure policy q) ops))"
  shows "request_alerts q (fold (alert_step policy) ops no_alerts)
    = concat (map (\<lambda>e. take 1 (filter (\<lambda>(t, n). n \<ge> np_RequestFailureThreshold policy) e))
        (episodes (policy_window policy) (concat (map (observed_failure policy q) ops))))"
proof -
  have "alerts_ok no_alerts" "request_alerts q no_alerts = []" "alert_view no_alerts (buildRequestFailureAlertKey q) = (0, False)"
    by (simp_all add: no_alerts_def alerts_ok_def request_alerts_def alert_view_def alert_row_def)
  then show ?thesis
    using alert_fold_machine [OF assms(1) _ assms(2,3) refl, of no_alerts] alarm_run_start [of "concat (map (observed_failure policy q) ops)"] assms(4)
    by (simp add: list_all_iff first_alarm_def [abs_def])
qed

lemma one_alert_per_episode_witness:
  "request_alerts 1 (fold (alert_step sample_policy) sample_alert_ops no_alerts) = [(110, 2), (310, 2)]"
  using one_alert_per_episode [OF sample_ops_ok(1) _ sample_ops_ok(2), of 1]
  by (simp add: sample_observations sample_ops_ok(3,4))

subsection \<open>Health of a provider\<close>

definition observe_health :: "proxy_env \<times> int \<times> gostring option \<Rightarrow> db \<times> notify_world \<Rightarrow> db \<times> notify_world" where
  \<comment> \<open>a request to the provider with this identifier, loaded from the table, failed for a reason or went through\<close>
  "observe_health = (\<lambda>(env, i, outcome) (d, w).
    case GetProviderById i d of
      Inl e \<Rightarrow> (d, w)
    | Inr p \<Rightarrow> (case outcome of Some reason \<Rightarrow> health_failure_notices env p reason (d, w)
                | None \<Rightarrow> health_success_notices env p (d, w)))"

definition outcomes_of :: "int \<Rightarrow> (proxy_env \<times> int \<times> gostring option) list \<Rightarrow> bool list" where
  \<comment> \<open>whether the provider was reached, one by one\<close>
  "outcomes_of q obs = concat (map (\<lambda>(env, i, outcome). if i = q then [outcome = None] else []) obs)"

fun changes :: "bool \<Rightarrow> bool list \<Rightarrow> bool list" where
  "changes previous [] = []"
| "changes previous (b # bs) = (if b = previous then changes previous bs else b # changes b bs)"

definition health_event_type :: "bool \<Rightarrow> gostring" where
  "health_event_type reached = (if reached then ''provider.health.recovered'' else ''provider.health.unreachable'')"

definition health_events :: "int \<Rightarrow> notify_world \<Rightarrow> gostring list" where
  "health_events q w = map ne_Type (filter (\<lambda>e. ne_Family e = ''provider_health'' \<and> ne_ProviderID e = q) (nt_queue w))"

lemma find_provider_update:
  assumes "find (\<lambda>p. p_Id p = i) rows = Some p" and "\<And>r. p_Id (f r) = p_Id r"
  shows "find (\<lambda>p. p_Id p = q) (row_update (\<lambda>r. p_Id r = p_Id p) f rows)
    = (if q = i then Some (f p) else find (\<lambda>p. p_Id p = q) rows)"
proof -
  have i: "p_Id p = i" using assms(1) by (auto simp: find_Some_iff)
  show ?thesis
  proof (cases "q = i")
    case True
    then show ?thesis using assms i by (induction rows) (auto simp: row_update_def split: if_splits)
  next
    case False
    then show ?thesis using assms(2) i by (induction rows) (auto simp: row_update_def)
  qed
qed

lemma queue_health:
  "health_events q (NotifyAsync now (buildProviderUnreachableNotificationEvent now p reason) w)
     = health_events q w @ (if p_Id p = q then [health_event_type False] else [])"
  "health_events q (NotifyAsync now (buildProviderRecoveryNotificationEvent now p reason) w)
     = health_events q w @ (if p_Id p = q then [health_event_type True] else [])"
proof -
  have "TrimSpace ''provider_health'' \<noteq> []" "TrimSpace ''provider.health.unreachable'' \<noteq> []" "TrimSpace ''provider.health.recovered'' \<noteq> []"
    by code_simp+
  then show "health_events q (NotifyAsync now (buildProviderUnreachableNotificationEvent now p reason) w)
     = health_events q w @ (if p_Id p = q then [health_event_type False] else [])"
    and "health_events q (NotifyAsync now (buildProviderRecoveryNotificationEvent now p reason) w)
     = health_events q w @ (if p_Id p = q then [health_event_type True] else [])"
    by (simp_all add: NotifyAsync_def health_events_def health_event_type_def no_event_def Let_def
        buildProviderUnreachableNotificationEvent_def buildProviderRecoveryNotificationEvent_def)
qed

lemma health_statuses: "was_unreachable (health_failure_update now reason p)" "\<not> was_unreachable (health_success_update now p)"
  unfolding was_unreachable_def health_failure_update_def health_success_update_def by (simp_all, code_simp+)

definition health_agrees :: "int \<Rightarrow> bool \<Rightarrow> db \<times> notify_world \<Rightarrow> bool" where
  \<comment> \<open>row and alert of the provider say that it is reachable, or both that it is not\<close>
  "health_agrees q reached = (\<lambda>(d, w). alerts_ok w \<and> snd (alert_view w (buildProviderHealthAlertKey q)) = (\<not> reached)
     \<and> (\<exists>p. GetProviderById q d = Inr p \<and> was_unreachable p = (\<not> reached)))"

lemma provider_by_id:
  "GetProviderById i d = Inr p \<longleftrightarrow> i \<noteq> 0 \<and> find (\<lambda>p. p_Id p = i) (db_providers d) = Some p"
  by (auto simp: GetProviderById_def split: option.splits)

lemma failure_notices:
  assumes "GetProviderById i d = Inr p" and "alerts_ok w" and "health_failure_notices env p reason (d, w) = (d', w')"
  shows "alerts_ok w'"
    and "\<exists>r. GetProviderById q d' = (if q = i then Inr r else GetProviderById q d) \<and> was_unreachable r"
    and "alert_view w' (buildProviderHealthAlertKey q)
      = (if q = i \<and> \<not> was_unreachable p then (Unix (pe_now env), True) else alert_view w (buildProviderHealthAlertKey q))"
    and "health_events q w' = health_events q w @ (if q = i \<and> \<not> was_unreachable p then [health_event_type False] else [])"
proof -
  have i: "i \<noteq> 0" "p_Id p = i" "find (\<lambda>p. p_Id p = i) (db_providers d) = Some p" using assms(1) by (auto simp: provider_by_id find_Some_iff)
  obtain reason' sanitized where d': "d' = d\<lparr>db_providers := row_update (\<lambda>r. p_Id r = p_Id p) (health_failure_update (Unix (pe_now env)) reason') (db_providers d)\<rparr>"
    and w': "w' = (if \<not> was_unreachable p
      then NotifyAsync (pe_now env) (buildProviderUnreachableNotificationEvent (pe_now env) (health_failure_update (Unix (pe_now env)) reason' p) sanitized)
             (markProviderHealthAlertOpen (pe_now env) (health_failure_update (Unix (pe_now env)) reason' p) sanitized w) else w)"
    using assms(3) i(1,2) by (auto simp: health_failure_notices_def MarkHealthFailure_def Let_def)
  have k: "p_Id (health_failure_update n x r) = p_Id r" for n x r by (simp add: health_failure_update_def)
  have ev: "health_events q' (markProviderHealthAlertOpen now' p' s' w) = health_events q' w" for q' now' p' s'
    using health_alerts(3) [OF assms(2)] by (simp add: health_events_def)
  show "alerts_ok w'" unfolding w' using assms(2) health_alerts [OF assms(2)] by simp
  have "GetProviderById q d' = (if q = i then Inr (health_failure_update (Unix (pe_now env)) reason' p) else GetProviderById q d)"
    using i find_provider_update [OF i(3), where q = q and f = "health_failure_update (Unix (pe_now env)) reason'", OF k]
    unfolding d' GetProviderById_def by (cases "q = i") simp_all
  then show "\<exists>r. GetProviderById q d' = (if q = i then Inr r else GetProviderById q d) \<and> was_unreachable r" using health_statuses(1) by metis
  show "alert_view w' (buildProviderHealthAlertKey q)
      = (if q = i \<and> \<not> was_unreachable p then (Unix (pe_now env), True) else alert_view w (buildProviderHealthAlertKey q))"
    unfolding w' using health_alerts(5) [OF assms(2)] i(1,2) by (simp add: k)
  show "health_events q w' = health_events q w @ (if q = i \<and> \<not> was_unreachable p then [health_event_type False] else [])"
    unfolding w' using i(2) by (simp add: queue_health ev k)
qed

lemma success_notices:
  assumes "GetProviderById i d = Inr p" and "alerts_ok w" and "health_success_notices env p (d, w) = (d', w')"
  shows "alerts_ok w'"
    and "\<exists>r. GetProviderById q d' = (if q = i then Inr r else GetProviderById q d) \<and> \<not> was_unreachable r"
    and "alert_view w' (buildProviderHealthAlertKey q)
      = (if q = i \<and> was_unreachable p then (Unix (pe_now env), False) else alert_view w (buildProviderHealthAlertKey q))"
    and "health_events q w' = health_events q w @ (if q = i \<and> was_unreachable p then [health_event_type True] else [])"
proof -
  have i: "i \<noteq> 0" "p_Id p = i" "find (\<lambda>p. p_Id p = i) (db_providers d) = Some p" using assms(1) by (auto simp: provider_by_id find_Some_iff)
  obtain reason where d': "d' = d\<lparr>db_providers := row_update (\<lambda>r. p_Id r = p_Id p) (health_success_update (Unix (pe_now env))) (db_providers d)\<rparr>"
    and w': "w' = (if was_unreachable p
      then NotifyAsync (pe_now env) (buildProviderRecoveryNotificationEvent (pe_now env) (health_success_update (Unix (pe_now env)) p) reason)
             (markProviderHealthAlertClosed (pe_now env) (health_success_update (Unix (pe_now env)) p) reason w) else w)"
    using assms(3) i(1,2) by (auto simp: health_success_notices_def MarkHealthSuccess_def Let_def)
  have k: "p_Id (health_success_update n r) = p_Id r" for n r by (simp add: health_success_update_def)
  have ev: "health_events q' (markProviderHealthAlertClosed now' p' s' w) = health_events q' w" for q' now' p' s'
    using health_alerts(4) [OF assms(2)] by (simp add: health_events_def)
  show "alerts_ok w'" unfolding w' using assms(2) health_alerts [OF assms(2)] by simp
  have "GetProviderById q d' = (if q = i then Inr (health_success_update (Unix (pe_now env)) p) else GetProviderById q d)"
    using i find_provider_update [OF i(3), where q = q and f = "health_success_update (Unix (pe_now env))", OF k]
    unfolding d' GetProviderById_def by (cases "q = i") simp_all
  then show "\<exists>r. GetProviderById q d' = (if q = i then Inr r else GetProviderById q d) \<and> \<not> was_unreachable r" using health_statuses(2) by metis
  show "alert_view w' (buildProviderHealthAlertKey q)
      = (if q = i \<and> was_unreachable p then (Unix (pe_now env), False) else alert_view w (buildProviderHealthAlertKey q))"
    unfolding w' using health_alerts(6) [OF assms(2)] i(1,2) by (simp add: k)
  show "health_events q w' = health_events q w @ (if q = i \<and> was_unreachable p then [health_event_type True] else [])"
    unfolding w' using i(2) by (simp add: queue_health ev k)
qed

lemma observe_health_step:
  assumes h: "health_agrees q reached (d, w)" and b: "b = (if i = q then outcome = None else reached)"
    and s: "observe_health (env, i, outcome) (d, w) = (d', w')"
  shows "health_agrees q b (d', w') \<and> health_events q w' = health_events q w @ (if b = reached then [] else [health_event_type b])"
proof (cases "GetProviderById i d")
  case (Inl e)
  then have "i \<noteq> q" using h by (auto simp: health_agrees_def)
  then show ?thesis using h b s Inl by (simp add: observe_health_def)
next
  case (Inr p)
  have w: "alerts_ok w" using h by (simp add: health_agrees_def)
  show ?thesis
  proof (cases outcome)
    case None
    then have "health_success_notices env p (d, w) = (d', w')" using s Inr by (simp add: observe_health_def)
    note n = success_notices(1) [OF Inr w this] success_notices(2-4) [OF Inr w this, where q = q]
    show ?thesis using n(1,3,4) n(2) h b None Inr by (auto simp: health_agrees_def)
  next
    case (Some reason)
    then have "health_failure_notices env p reason (d, w) = (d', w')" using s Inr by (simp add: observe_health_def)
    note n = failure_notices(1) [OF Inr w this] failure_notices(2-4) [OF Inr w this, where q = q]
    show ?thesis using n(1,3,4) n(2) h b Some Inr by (auto simp: health_agrees_def)
  qed
qed

lemma observe_health_fold:
  assumes "health_agrees q reached s"
  shows "health_agrees q (last (reached # outcomes_of q obs)) (fold observe_health obs s)
    \<and> health_events q (snd (fold observe_health obs s)) = health_events q (snd s) @ map health_event_type (changes reached (outcomes_of q obs))"
  using assms
proof (induction obs arbitrary: s reached)
  case Nil
  then show ?case by (simp add: outcomes_of_def)
next
  case (Cons ob obs)
  obtain env i outcome where o: "ob = (env, i, outcome)" by (cases ob)
  obtain d w where s: "s = (d, w)" by (cases s)
  obtain d' w' where s': "observe_health ob s = (d', w')" by fastforce
  define b where "b = (if i = q then outcome = None else reached)"
  note step = observe_health_step [OF Cons.prems [unfolded s] b_def s' [unfolded o s]]
  have oc: "outcomes_of q (ob # obs) = (if i = q then [b] else []) @ outcomes_of q obs"
    by (simp add: outcomes_of_def o b_def)
  have nb: "b = reached" if "i \<noteq> q" using that by (simp add: b_def)
  show ?case using Cons.IH [of b "(d', w')"] step s' nb unfolding oc s by auto
qed

text \<open>
  C29: The health events of a provider are the changes of its health. Whatever is observed about this and other providers,
  in whatever order, the events queued for a provider that starts reachable are one "unreachable" for each run of
  failures and one "recovered" for the success that ends it; and its alert is open exactly when the last observation was a failure.
\<close>

theorem health_events_are_changes:
  assumes "GetProviderById q d = Inr p" and "\<not> was_unreachable p"
  shows "health_events q (snd (fold observe_health obs (d, no_alerts))) = map health_event_type (changes True (outcomes_of q obs))
    \<and> snd (alert_view (snd (fold observe_health obs (d, no_alerts))) (buildProviderHealthAlertKey q)) = (\<not> last (True # outcomes_of q obs))"
proof -
  have "health_agrees q True (d, no_alerts)" "health_events q no_alerts = []"
    using assms by (simp_all add: health_agrees_def no_alerts_def alerts_ok_def alert_view_def alert_row_def health_events_def)
  then show ?thesis using observe_health_fold [of q True "(d, no_alerts)" obs] by (simp add: health_agrees_def case_prod_beta)
qed

definition sample_notice_env :: "int \<Rightarrow> proxy_env" where
  "sample_notice_env secs =
    \<lparr>pe_options = [], pe_parse_url = (\<lambda>_. None), pe_sha256_hex12 = (\<lambda>_. []), pe_marshal = (\<lambda>_. None), pe_request_ok = (\<lambda>_ _. True),
     pe_debug_payload = False, pe_now = UnixTime secs, pe_elapsed_ms = 1, pe_line_ms = (\<lambda>_. 0), pe_request_id = [], pe_error_text = (\<lambda>_. [])\<rparr>"

definition sample_observed :: "(proxy_env \<times> int \<times> gostring option) list" where
  "sample_observed =
    [(sample_notice_env 10, 7, None), (sample_notice_env 20, 7, Some ''timeout''), (sample_notice_env 25, 9, None),
     (sample_notice_env 30, 7, Some ''timeout''), (sample_notice_env 40, 7, None), (sample_notice_env 50, 7, Some ''refused'')]"

lemma health_events_are_changes_witness:
  "health_events 7 (snd (fold observe_health sample_observed (((sample_failures_db [])\<lparr>db_providers := [sample_provider]\<rparr>), no_alerts)))
     = [''provider.health.unreachable'', ''provider.health.recovered'', ''provider.health.unreachable'']"
proof -
  have "GetProviderById 7 ((sample_failures_db [])\<lparr>db_providers := [sample_provider]\<rparr>) = Inr sample_provider"
    by (simp add: GetProviderById_def sample_provider_Id)
  moreover have "\<not> was_unreachable sample_provider" by code_simp
  moreover have "outcomes_of 7 sample_observed = [True, False, False, True, False]" by (simp add: outcomes_of_def sample_observed_def)
  ultimately show ?thesis
    using health_events_are_changes [of 7 _ sample_provider sample_observed] by (simp add: health_event_type_def)
qed

text \<open>The alerts leave alone what the operations of \<open>Proxy\<close> do to the tables.\<close>

lemma notices_agree:
  "fst (health_failure_notices env p reason (w_db w, n)) = w_db (markProviderHealthFailure env p reason w)"
  "fst (health_success_notices env p (w_db w, n)) = w_db (markProviderHealthSuccess env p w)"
  by (simp_all add: health_failure_notices_def health_success_notices_def markProviderHealthFailure_def markProviderHealthSuccess_def
      sanitizeProviderErrorMessage_def Let_def split: sum.split)

end
