(* ===== verification/Checkin.thy ===== *)
theory Checkin
  imports Notification
begin

text \<open>
  Check-ins with the upstreams, \<open>src/service/checkin.go\<close>. The state is the tables, the alerts, the day of the last
  scheduled run and the guard that admits one run at a time; the upstream is an argument, and its state tells the time, so that a
  run takes as long as the upstreams take. Log lines are left out. A tick of the scheduler is one step here.
\<close>

subsection \<open>Schedule\<close>

record CheckinScheduleConfig =
  sc_Enabled :: bool
  sc_Time :: gostring
  sc_Timezone :: gostring

record 'u checkin_env =
  ke_env :: proxy_env
  ke_globals :: globals
  ke_load :: "gostring \<Rightarrow> location option"
  ke_clock :: "'u \<Rightarrow> gotime"

record checkin_world =
  kw_db :: db
  kw_tables :: checkin_tables
  kw_notify :: notify_world
  kw_lastRunDay :: gostring
  kw_running :: bool

definition parseScheduleTime :: "gostring \<Rightarrow> (int \<times> int) option" where
  \<comment> \<open>\<open>None\<close> is an error\<close>
  "parseScheduleTime v =
    (let raw = TrimSpace v in
     if raw = [] then None
     else case Split1 (CHR '':'') raw of
       [h, m] \<Rightarrow>
         (case Atoi h of
            None \<Rightarrow> None
          | Some hour \<Rightarrow>
              if hour < 0 \<or> hour > 23 then None
              else case Atoi m of
                None \<Rightarrow> None
              | Some minute \<Rightarrow> if minute < 0 \<or> minute > 59 then None else Some (hour, minute))
     | _ \<Rightarrow> None)"

definition resolveLocation :: "'u checkin_env \<Rightarrow> gostring \<Rightarrow> location" where
  "resolveLocation env timezone =
    (let tz = TrimSpace timezone;
         tz = (if tz = [] then g_CheckinScheduleTimezone (ke_globals env) else tz)
     in case ke_load env tz of None \<Rightarrow> UTC | Some loc \<Rightarrow> loc)"

definition GetCheckinScheduleConfig :: "'u checkin_env \<Rightarrow> CheckinScheduleConfig" where
  "GetCheckinScheduleConfig env =
    (let opt = mget_default [] (pe_options (ke_env env)); g = ke_globals env;
         enabledRaw = TrimSpace (opt ''CheckinScheduleEnabled'');
         timeRaw = TrimSpace (opt ''CheckinScheduleTime'');
         timezoneRaw = TrimSpace (opt ''CheckinScheduleTimezone'');
         enabledRaw = (if enabledRaw = [] then FormatBool (g_CheckinScheduleEnabled g) else enabledRaw);
         timeRaw = (if timeRaw = [] then g_CheckinScheduleTime g else timeRaw);
         timezoneRaw = (if timezoneRaw = [] then g_CheckinScheduleTimezone g else timezoneRaw)
     in \<lparr>sc_Enabled = EqualFold enabledRaw ''true'', sc_Time = timeRaw, sc_Timezone = timezoneRaw\<rparr>)"

definition day_key :: "location \<Rightarrow> gotime \<Rightarrow> gostring" where
  "day_key loc now = format_date (local_day loc now)"

definition checkinDayStart :: "'u checkin_env \<Rightarrow> gotime \<Rightarrow> gostring \<Rightarrow> int \<times> gostring" where
  "checkinDayStart env now timezone =
    (let loc = resolveLocation env timezone in (Unix (day_start loc now), day_key loc now))"

definition ShouldRunScheduledCheckin :: "gotime \<Rightarrow> int \<Rightarrow> int \<Rightarrow> location \<Rightarrow> gostring \<Rightarrow> bool \<times> gostring" where
  "ShouldRunScheduledCheckin now hour minute loc lastRunDay =
    (let dayKey = day_key loc now; (h, m) = local_clock loc now in
     if lastRunDay = dayKey then (False, dayKey)
     else if h < hour then (False, dayKey)
     else if h = hour \<and> m < minute then (False, dayKey)
     else (True, dayKey))"

subsection \<open>Messages\<close>

definition buildCheckinRunMessage :: "int \<Rightarrow> int \<Rightarrow> int \<Rightarrow> gostring" where
  "buildCheckinRunMessage successCount failureCount uncheckinCount =
    (utf8 [0x7b7e, 0x5230, 0x5b8c, 0x6210, 0xff1a, 0x6210, 0x529f, 0x20]) @ Itoa successCount @ (utf8 [0xff0c, 0x5931, 0x8d25, 0x20]) @ Itoa failureCount @ (utf8 [0xff0c, 0x672a, 0x7b7e, 0x5230, 0x20]) @ Itoa uncheckinCount"

definition buildUncheckedCheckinRunMessage :: "int \<Rightarrow> int \<Rightarrow> int \<Rightarrow> gostring" where
  "buildUncheckedCheckinRunMessage successCount failureCount uncheckinCount =
    (utf8 [0x672a, 0x7b7e, 0x5230, 0x6e20, 0x9053, 0x7b7e, 0x5230, 0x5b8c, 0x6210, 0xff1a, 0x6210, 0x529f, 0x20]) @ Itoa successCount @ (utf8 [0xff0c, 0x5931, 0x8d25, 0x20]) @ Itoa failureCount @ (utf8 [0xff0c, 0x672a, 0x7b7e, 0x5230, 0x20]) @ Itoa uncheckinCount"

definition manualUncheckedNoopMessage :: gostring where
  "manualUncheckedNoopMessage = (utf8 [0x7b7e, 0x5230, 0x5b8c, 0x6210, 0xff1a, 0x4eca, 0x65e5, 0x65e0, 0x672a, 0x7b7e, 0x5230, 0x6e20, 0x9053, 0xff0c, 0x65e0, 0x9700, 0x6267, 0x884c])"

definition upstreamCheckinDisabledKeyword :: gostring where
  "upstreamCheckinDisabledKeyword = (utf8 [0x7b7e, 0x5230, 0x529f, 0x80fd, 0x672a, 0x542f, 0x7528])"

definition upstreamCheckinAutoDisableHint :: gostring where
  "upstreamCheckinAutoDisableHint = (utf8 [0x7b7e, 0x5230, 0x529f, 0x80fd, 0x4e0a, 0x6e38, 0x672a, 0x542f, 0x7528, 0xff0c, 0x5df2, 0x81ea, 0x52a8, 0x5173, 0x95ed, 0x7b7e, 0x5230])"

definition normalizeCheckinFailureMessage :: "gostring \<Rightarrow> gostring" where
  "normalizeCheckinFailureMessage message = Join (Fields (ToLower (TrimSpace message))) []"

definition isUpstreamCheckinDisabledFailure :: "gostring \<Rightarrow> bool" where
  "isUpstreamCheckinDisabledFailure message =
    (let normalized = normalizeCheckinFailureMessage message in
     if normalized = [] then False
     else StrContains normalized (normalizeCheckinFailureMessage upstreamCheckinDisabledKeyword))"

definition appendUpstreamCheckinAutoDisableHint :: "gostring \<Rightarrow> gostring" where
  "appendUpstreamCheckinAutoDisableHint message =
    (let trimmed = TrimSpace message in
     if trimmed = [] then upstreamCheckinAutoDisableHint
     else if StrContains trimmed upstreamCheckinAutoDisableHint then trimmed
     else trimmed @ (utf8 [0xff08]) @ upstreamCheckinAutoDisableHint @ (utf8 [0xff09]))"

subsection \<open>One provider\<close>

definition failed_item :: "gotime \<Rightarrow> Provider \<Rightarrow> CheckinRunItem" where
  "failed_item now provider =
    \<lparr>ri_Id = 0, ri_RunId = 0, ri_ProviderId = p_Id provider, ri_ProviderName = p_Name provider, ri_Status = ''failed'', ri_Message = [],
     ri_AutoDisabled = False, ri_QuotaAwarded = 0, ri_CheckedAt = Unix now, ri_CreatedAt = 0\<rparr>"

definition checkin_failure :: "'u checkin_env \<Rightarrow> Provider \<Rightarrow> up_error \<Rightarrow> gostring" where
  "checkin_failure env provider e =
    TrimSpace (sanitizeProviderErrorMessage (ke_env env) (Some provider) (up_error_text e))"

definition checkinProviderWithResult ::
  "'u checkin_env \<Rightarrow> 'u upstream \<Rightarrow> Provider \<Rightarrow> db \<times> 'u \<Rightarrow> (CheckinRunItem \<times> up_error option) \<times> db \<times> 'u" where
  "checkinProviderWithResult env net provider = (\<lambda>(d, u).
    let item = failed_item (ke_clock env u) provider in
    case NewUpstreamClientForProvider (ke_env env) provider of
      Inl e \<Rightarrow> ((item\<lparr>ri_Message := checkin_failure env provider e\<rparr>, Some e), d, u)
    | Inr client \<Rightarrow>
        (case Checkin (ke_env env) net client u of
           (Inl e, u) \<Rightarrow>
             (let item = item\<lparr>ri_Message := checkin_failure env provider e\<rparr> in
              if isUpstreamCheckinDisabledFailure (ri_Message item) then
                (case UpdateCheckinEnabled False provider d of
                   Inl _ \<Rightarrow> ((item, Some e), d, u)
                 | Inr d \<Rightarrow> ((item\<lparr>ri_AutoDisabled := True, ri_Message := appendUpstreamCheckinAutoDisableHint (ri_Message item)\<rparr>, Some e), d, u))
              else ((item, Some e), d, u))
         | (Inr result, u) \<Rightarrow>
             (let message = TrimSpace (ci_Message result);
                  message = (if message = [] then (utf8 [0x7b7e, 0x5230, 0x6210, 0x529f]) else message)
              in ((item\<lparr>ri_Status := ''success'', ri_Message := message, ri_QuotaAwarded := ci_QuotaAwarded result\<rparr>, None),
                  UpdateCheckinTime (ke_clock env u) provider d, u))))"

definition getUncheckinCount :: "'u checkin_env \<Rightarrow> gotime \<Rightarrow> gostring \<Rightarrow> db \<Rightarrow> int" where
  "getUncheckinCount env now timezone d = int (length (GetUncheckinProvidersRows now (fst (checkinDayStart env now timezone)) d))"

subsection \<open>A run\<close>

definition item_notices :: "gotime \<Rightarrow> CheckinRun \<Rightarrow> CheckinRunItem \<Rightarrow> notify_world \<Rightarrow> notify_world" where
  "item_notices now run item w =
    (let w = NotifyAsync now (buildCheckinFailureNotificationEvent run item) w
     in if ri_AutoDisabled item then NotifyAsync now (buildProviderAutoDisableNotificationEvent run item) w else w)"

definition emitCheckinItemNotifications :: "gotime \<Rightarrow> CheckinRun \<Rightarrow> CheckinRunItem list \<Rightarrow> notify_world \<Rightarrow> notify_world" where
  "emitCheckinItemNotifications now run items w =
    fold (\<lambda>item w. if EqualFold (TrimSpace (ri_Status item)) ''success'' then w else item_notices now run item w) items w"

fun checkin_each ::
  "'u checkin_env \<Rightarrow> 'u upstream \<Rightarrow> Provider list \<Rightarrow> CheckinRun \<times> CheckinRunItem list \<Rightarrow> db \<times> 'u \<Rightarrow> (CheckinRun \<times> CheckinRunItem list) \<times> db \<times> 'u" where
  \<comment> \<open>the loop of \<open>executeCheckinRun\<close>\<close>
  "checkin_each env net [] (run, items) s = ((run, items), s)"
| "checkin_each env net (provider # providers) (run, items) s =
    (case checkinProviderWithResult env net provider s of
       ((item, e), s) \<Rightarrow>
         (let item = item\<lparr>ri_RunId := rn_Id run\<rparr>;
              run = (if e \<noteq> None then run\<lparr>rn_FailureCount := rn_FailureCount run + 1\<rparr>
                     else run\<lparr>rn_SuccessCount := rn_SuccessCount run + 1\<rparr>)
          in checkin_each env net providers (run, items @ [item]) s))"

definition new_run :: "gostring \<Rightarrow> gotime \<Rightarrow> gostring \<Rightarrow> gostring \<Rightarrow> int \<Rightarrow> gostring \<Rightarrow> CheckinRun" where
  "new_run triggerType startedAt timezone dayKey cnt message =
    \<lparr>rn_Id = 0, rn_TriggerType = triggerType, rn_Status = ''running'', rn_Timezone = timezone, rn_ScheduledDate = dayKey,
     rn_StartedAt = Unix startedAt, rn_EndedAt = 0, rn_TotalCount = cnt, rn_SuccessCount = 0, rn_FailureCount = 0, rn_UncheckinCount = 0,
     rn_Message = message, rn_CreatedAt = 0\<rparr>"

definition update_run :: "CheckinRun \<Rightarrow> checkin_tables \<Rightarrow> checkin_tables" where
  \<comment> \<open>a failed update is only logged\<close>
  "update_run run t = (case CheckinRun_Update run t of Inl _ \<Rightarrow> t | Inr t \<Rightarrow> t)"

definition executeCheckinRun ::
  "'u checkin_env \<Rightarrow> 'u upstream \<Rightarrow> gostring \<Rightarrow> gotime \<Rightarrow> gostring \<Rightarrow> int \<Rightarrow> gostring \<Rightarrow> Provider list \<Rightarrow> gostring
   \<Rightarrow> (int \<Rightarrow> int \<Rightarrow> int \<Rightarrow> gostring) option \<Rightarrow> checkin_world \<times> 'u \<Rightarrow> CheckinRun \<times> checkin_world \<times> 'u" where
  "executeCheckinRun env net triggerType startedAt timezone dayStart dayKey providers emptyMessage summaryBuilder = (\<lambda>(w, u).
    let (run, t) = CheckinRun_Insert (ke_clock env u)
          (new_run triggerType startedAt timezone dayKey (int (length providers)) (utf8 [0x7b7e, 0x5230, 0x4efb, 0x52a1, 0x6267, 0x884c, 0x4e2d])) (kw_tables w);
        ((run, items), d, u) = checkin_each env net providers (run, []) (kw_db w, u);
        now = ke_clock env u;
        (items, t) = InsertCheckinRunItems now items t;
        run = run\<lparr>rn_UncheckinCount := int (length (GetUncheckinProvidersRows now dayStart d)), rn_EndedAt := Unix now,
                rn_Status := (if rn_FailureCount run > 0 then ''partial'' else ''success'')\<rparr>;
        run = run\<lparr>rn_Message :=
          (if providers = [] \<and> TrimSpace emptyMessage \<noteq> [] then emptyMessage
           else (case summaryBuilder of None \<Rightarrow> buildCheckinRunMessage | Some f \<Rightarrow> f)
             (rn_SuccessCount run) (rn_FailureCount run) (rn_UncheckinCount run))\<rparr>;
        n = emitCheckinItemNotifications now run items (NotifyAsync now (buildCheckinSummaryNotificationEvent run) (kw_notify w))
    in (run, w\<lparr>kw_db := d, kw_tables := update_run run t, kw_notify := n\<rparr>, u))"

datatype checkin_error = ErrCheckinRunInProgress

definition triggerCheckinRun ::
  "'u checkin_env \<Rightarrow> 'u upstream \<Rightarrow> gostring \<Rightarrow> (gotime \<Rightarrow> int \<Rightarrow> db \<Rightarrow> Provider list) \<Rightarrow> gostring \<Rightarrow> (int \<Rightarrow> int \<Rightarrow> int \<Rightarrow> gostring) option
   \<Rightarrow> checkin_world \<times> 'u \<Rightarrow> (checkin_error + CheckinRun) \<times> checkin_world \<times> 'u" where
  "triggerCheckinRun env net triggerType providerLoader emptyMessage summaryBuilder = (\<lambda>(w, u).
    if kw_running w then (Inl ErrCheckinRunInProgress, w, u)
    else
      let config = GetCheckinScheduleConfig env;
          startedAt = ke_clock env u;
          (dayStart, dayKey) = checkinDayStart env startedAt (sc_Timezone config);
          providers = providerLoader startedAt dayStart (kw_db w);
          (run, w, u) = executeCheckinRun env net triggerType startedAt (sc_Timezone config) dayStart dayKey providers emptyMessage summaryBuilder
                          (w\<lparr>kw_running := True\<rparr>, u)
      in (Inr run, w\<lparr>kw_running := False\<rparr>, u))"

definition TriggerFullCheckinRun ::
  "'u checkin_env \<Rightarrow> 'u upstream \<Rightarrow> gostring \<Rightarrow> checkin_world \<times> 'u \<Rightarrow> (checkin_error + CheckinRun) \<times> checkin_world \<times> 'u" where
  "TriggerFullCheckinRun env net triggerType = triggerCheckinRun env net triggerType (\<lambda>now _. GetCheckinEnabledProviders now) [] None"

definition TriggerUncheckedCheckinRun ::
  "'u checkin_env \<Rightarrow> 'u upstream \<Rightarrow> gostring \<Rightarrow> checkin_world \<times> 'u \<Rightarrow> (checkin_error + CheckinRun) \<times> checkin_world \<times> 'u" where
  "TriggerUncheckedCheckinRun env net triggerType =
    triggerCheckinRun env net triggerType GetUncheckinProvidersRows manualUncheckedNoopMessage (Some buildUncheckedCheckinRunMessage)"

definition RunScheduledCheckinIfNeeded :: "'u checkin_env \<Rightarrow> 'u upstream \<Rightarrow> gotime \<Rightarrow> checkin_world \<times> 'u \<Rightarrow> checkin_world \<times> 'u" where
  "RunScheduledCheckinIfNeeded env net now = (\<lambda>(w, u).
    let config = GetCheckinScheduleConfig env in
    if \<not> sc_Enabled config then (w, u)
    else case parseScheduleTime (sc_Time config) of
      None \<Rightarrow> (w, u)
    | Some (hour, minute) \<Rightarrow>
        (let (shouldRun, dayKey) = ShouldRunScheduledCheckin now hour minute (resolveLocation env (sc_Timezone config)) (kw_lastRunDay w) in
         if \<not> shouldRun then (w, u)
         else if ExistsCheckinRunByTriggerAndScheduledDate ''cron'' dayKey (kw_tables w) then (w\<lparr>kw_lastRunDay := dayKey\<rparr>, u)
         else case TriggerFullCheckinRun env net ''cron'' (w, u) of
           (Inl e, w, u) \<Rightarrow> (w, u)
         | (Inr run, w, u) \<Rightarrow> (w\<lparr>kw_lastRunDay := dayKey\<rparr>, u)))"

definition RunProviderCheckin ::
  "'u checkin_env \<Rightarrow> 'u upstream \<Rightarrow> Provider \<Rightarrow> checkin_world \<times> 'u \<Rightarrow> (CheckinRun \<times> CheckinRunItem \<times> up_error option) \<times> checkin_world \<times> 'u" where
  "RunProviderCheckin env net provider = (\<lambda>(w, u).
    let config = GetCheckinScheduleConfig env;
        startedAt = ke_clock env u;
        (dayStart, dayKey) = checkinDayStart env startedAt (sc_Timezone config);
        (run, t) = CheckinRun_Insert startedAt
          (new_run ''manual-provider'' startedAt (sc_Timezone config) dayKey 1 (utf8 [0x5355, 0x4f9b, 0x5e94, 0x5546, 0x7b7e, 0x5230, 0x6267, 0x884c, 0x4e2d])) (kw_tables w);
        ((item, e), d, u) = checkinProviderWithResult env net provider (kw_db w, u);
        item = item\<lparr>ri_RunId := rn_Id run\<rparr>;
        run = (if e \<noteq> None then run\<lparr>rn_FailureCount := 1, rn_Status := ''failed'', rn_Message := (utf8 [0x7b7e, 0x5230, 0x5931, 0x8d25, 0xff1a]) @ ri_Message item\<rparr>
               else run\<lparr>rn_SuccessCount := 1, rn_Status := ''success'',
                      rn_Message := (if TrimSpace (ri_Message item) = [] then (utf8 [0x7b7e, 0x5230, 0x6210, 0x529f]) else TrimSpace (ri_Message item))\<rparr>);
        now = ke_clock env u;
        (items, t) = InsertCheckinRunItems now [item] t;
        item = hd items;
        run = run\<lparr>rn_UncheckinCount := getUncheckinCount env now (sc_Timezone config) d, rn_EndedAt := Unix now\<rparr>;
        n = (if e \<noteq> None then item_notices now run item (kw_notify w) else kw_notify w)
    in ((run, item, e), w\<lparr>kw_db := d, kw_tables := update_run run t, kw_notify := n\<rparr>, u))"

definition CheckinProvider :: "'u checkin_env \<Rightarrow> 'u upstream \<Rightarrow> Provider \<Rightarrow> checkin_world \<times> 'u \<Rightarrow> up_error option \<times> checkin_world \<times> 'u" where
  "CheckinProvider env net provider s = (case RunProviderCheckin env net provider s of ((run, item, e), s) \<Rightarrow> (e, s))"

definition CheckinAllProviders :: "'u checkin_env \<Rightarrow> 'u upstream \<Rightarrow> checkin_world \<times> 'u \<Rightarrow> checkin_world \<times> 'u" where
  "CheckinAllProviders env net s = snd (TriggerFullCheckinRun env net ''cron'' s)"

definition GetUncheckinProviders :: "'u checkin_env \<Rightarrow> gotime \<Rightarrow> db \<Rightarrow> Provider list \<times> int \<times> gostring" where
  "GetUncheckinProviders env now d =
    (let config = GetCheckinScheduleConfig env; (dayStart, dayKey) = checkinDayStart env now (sc_Timezone config)
     in (GetUncheckinProvidersRows now dayStart d, dayStart, sc_Timezone config))"

end
