(* ===== verification/CheckinCorrect.thy ===== *)
theory CheckinCorrect
  imports Checkin
begin

text \<open>
  What the check-in runs of \<open>Checkin\<close> guarantee: a run records every provider it was given once, with counts that add up, and the
  scheduler starts one run per local day.
\<close>

subsection \<open>One run\<close>

lemma item_of_provider:
  assumes "checkinProviderWithResult env net p s = ((item, e), s')"
  shows "ri_ProviderId item = p_Id p" and "ri_Status item = ''success'' \<longleftrightarrow> e = None" and "ri_AutoDisabled item \<Longrightarrow> e \<noteq> None"
  using assms unfolding checkinProviderWithResult_def
  by (auto simp: Let_def failed_item_def split: prod.splits sum.splits if_splits)

lemma each_accounts:
  assumes "checkin_each env net ps (run, items) s = ((run', items'), s')" and "list_all (\<lambda>i. ri_RunId i = rn_Id run) items"
    and "rn_SuccessCount run = int (length (filter (\<lambda>i. ri_Status i = ''success'') items))"
    and "rn_FailureCount run = int (length (filter (\<lambda>i. ri_Status i \<noteq> ''success'') items))"
  shows "map ri_ProviderId items' = map ri_ProviderId items @ map p_Id ps \<and> list_all (\<lambda>i. ri_RunId i = rn_Id run') items'
    \<and> rn_SuccessCount run' = int (length (filter (\<lambda>i. ri_Status i = ''success'') items'))
    \<and> rn_FailureCount run' = int (length (filter (\<lambda>i. ri_Status i \<noteq> ''success'') items'))
    \<and> run' = run\<lparr>rn_SuccessCount := rn_SuccessCount run', rn_FailureCount := rn_FailureCount run'\<rparr>"
  using assms
proof (induction ps arbitrary: run items s)
  case Nil
  then show ?case by simp
next
  case (Cons p ps)
  obtain item e s1 where one: "checkinProviderWithResult env net p s = ((item, e), s1)" by (metis surj_pair)
  note it = item_of_provider [OF one]
  define run1 where "run1 = (if e \<noteq> None then run\<lparr>rn_FailureCount := rn_FailureCount run + 1\<rparr> else run\<lparr>rn_SuccessCount := rn_SuccessCount run + 1\<rparr>)"
  have rest: "checkin_each env net ps (run1, items @ [item\<lparr>ri_RunId := rn_Id run\<rparr>]) s1 = ((run', items'), s')"
    using Cons.prems(1) by (simp add: one run1_def Let_def)
  have "rn_Id run1 = rn_Id run" by (simp add: run1_def)
  then show ?case using Cons.IH [OF rest] Cons.prems(2-4) it by (auto simp: run1_def split: if_splits)
qed

lemma insert_run:
  assumes "CheckinRun_Insert now r t = (run, t')" and "rn_Id r = 0"
  shows "ct_runs t' = ct_runs t @ [run]" and "\<forall>o' \<in> set (ct_runs t). rn_Id o' < rn_Id run" and "rn_Id run = next_row_id rn_Id (ct_runs t)"
    and "ct_items t' = ct_items t"
    and "run = r\<lparr>rn_Id := rn_Id run, rn_StartedAt := rn_StartedAt run, rn_CreatedAt := rn_CreatedAt run\<rparr>"
  using assms next_row_id_fresh [of _ "ct_runs t" rn_Id] by (auto simp: CheckinRun_Insert_def Let_def split: if_splits)

lemma next_row_id_pos: "next_row_id f t > 0"
  using fold_max_ge [of 0 f t] by (simp add: next_row_id_def)

lemma update_last_run:
  assumes "\<forall>o' \<in> set rows. rn_Id o' < rn_Id r" and "rn_Id old = rn_Id run" and "rn_Id r = rn_Id run" and "rn_Id run \<noteq> 0"
    and "ct_runs t = rows @ [old]" and "run_updates run old = run"
  shows "ct_runs (update_run run t) = rows @ [run]" and "ct_items (update_run run t) = ct_items t"
proof -
  have "map (\<lambda>o'. if rn_Id o' = rn_Id run then run_updates run o' else o') rows = rows"
    using assms(1,3) by (intro map_idI) auto
  then show "ct_runs (update_run run t) = rows @ [run]" "ct_items (update_run run t) = ct_items t"
    using assms by (simp_all add: update_run_def CheckinRun_Update_def row_update_def)
qed

lemma run_updates_new:
  assumes "rn_Message run \<noteq> []" and "rn_Status run \<noteq> []"
    and "run = old\<lparr>rn_SuccessCount := s, rn_FailureCount := f, rn_UncheckinCount := n, rn_EndedAt := t, rn_Status := st, rn_Message := m\<rparr>"
    and "rn_SuccessCount old = 0" and "rn_FailureCount old = 0" and "rn_UncheckinCount old = 0" and "rn_EndedAt old = 0"
  shows "run_updates run old = run"
  using assms by (simp add: run_updates_def nonzero_def)

lemma insert_items_table:
  assumes "InsertCheckinRunItems now items t = (items', t')"
  shows "ct_items t' = ct_items t @ items'" and "ct_runs t' = ct_runs t"
    and "map ri_ProviderId items' = map ri_ProviderId items" and "map ri_Status items' = map ri_Status items"
    and "map ri_RunId items' = map ri_RunId items"
proof -
  define st where "st = map (stamp_item now) items"
  have st: "map ri_ProviderId st = map ri_ProviderId items" "map ri_Status st = map ri_Status items" "map ri_RunId st = map ri_RunId items"
    by (auto simp: st_def stamp_item_def Let_def)
  have res: "items' = (if items = [] then [] else fst (insert_items st (ct_items t)))"
    "t' = (if items = [] then t else t\<lparr>ct_items := ct_items t @ fst (insert_items st (ct_items t))\<rparr>)"
    using assms insert_items_rows [of st "ct_items t"] by (auto simp: InsertCheckinRunItems_def st_def case_prod_beta)
  have m: "map ri_ProviderId (fst (insert_items st (ct_items t))) = map ri_ProviderId items"
    "map ri_Status (fst (insert_items st (ct_items t))) = map ri_Status items"
    "map ri_RunId (fst (insert_items st (ct_items t))) = map ri_RunId items"
    unfolding st [symmetric] by (rule insert_items_map, simp)+
  show "ct_items t' = ct_items t @ items'" and "ct_runs t' = ct_runs t"
    and "map ri_ProviderId items' = map ri_ProviderId items" and "map ri_Status items' = map ri_Status items"
    and "map ri_RunId items' = map ri_RunId items"
    unfolding res using m by auto
qed

definition run_accounts :: "CheckinRun \<Rightarrow> CheckinRunItem list \<Rightarrow> Provider list \<Rightarrow> bool" where
  \<comment> \<open>a finished run with its items and the providers it was given\<close>
  "run_accounts run items ps \<longleftrightarrow>
     map ri_ProviderId items = map p_Id ps \<and> list_all (\<lambda>i. ri_RunId i = rn_Id run) items
     \<and> rn_TotalCount run = int (length ps) \<and> rn_TotalCount run = rn_SuccessCount run + rn_FailureCount run
     \<and> rn_SuccessCount run = int (length (filter (\<lambda>i. ri_Status i = ''success'') items))
     \<and> rn_Status run = (if list_all (\<lambda>i. ri_Status i = ''success'') items then ''success'' else ''partial'')"

lemma count_by_status: "map ri_Status xs = map ri_Status ys \<Longrightarrow>
  length (filter (\<lambda>i. P (ri_Status i)) xs) = length (filter (\<lambda>i. P (ri_Status i)) ys)"
proof -
  assume h: "map ri_Status xs = map ri_Status ys"
  have "length (filter (\<lambda>i. P (ri_Status i)) zs) = length (filter P (map ri_Status zs))" for zs by (simp add: filter_map o_def)
  then show ?thesis using h by metis
qed

lemma same_run_ids: "map ri_RunId xs = map ri_RunId ys \<Longrightarrow> list_all (\<lambda>i. ri_RunId i = n) ys \<Longrightarrow> list_all (\<lambda>i. ri_RunId i = n) xs"
proof -
  have "list_all (\<lambda>i. ri_RunId i = n) zs = list_all (\<lambda>x. x = n) (map ri_RunId zs)" for zs by (simp add: list_all_iff)
  then show "map ri_RunId xs = map ri_RunId ys \<Longrightarrow> list_all (\<lambda>i. ri_RunId i = n) ys \<Longrightarrow> list_all (\<lambda>i. ri_RunId i = n) xs" by metis
qed

lemma message_nonempty:
  "buildCheckinRunMessage a b c \<noteq> []" "buildUncheckedCheckinRunMessage a b c \<noteq> []" "manualUncheckedNoopMessage \<noteq> []"
proof -
  have "buildCheckinRunMessage a b c \<noteq> []" "buildUncheckedCheckinRunMessage a b c \<noteq> []"
    by (simp_all add: buildCheckinRunMessage_def buildUncheckedCheckinRunMessage_def)
  moreover have "manualUncheckedNoopMessage \<noteq> []" by (simp add: manualUncheckedNoopMessage_def)
  ultimately show "buildCheckinRunMessage a b c \<noteq> []" "buildUncheckedCheckinRunMessage a b c \<noteq> []" "manualUncheckedNoopMessage \<noteq> []" by auto
qed

lemma execute_accounts:
  assumes x: "executeCheckinRun env net tr startedAt tz dayStart dayKey ps emptyMessage builder (w, u) = (run, w', u')"
    and b: "\<forall>f a b c. builder = Some f \<longrightarrow> f a b c \<noteq> []"
  shows "\<exists>items. ct_runs (kw_tables w') = ct_runs (kw_tables w) @ [run] \<and> ct_items (kw_tables w') = ct_items (kw_tables w) @ items
    \<and> run_accounts run items ps \<and> rn_TriggerType run = tr \<and> rn_ScheduledDate run = dayKey
    \<and> (\<forall>r \<in> set (ct_runs (kw_tables w)). rn_Id r < rn_Id run) \<and> kw_running w' = kw_running w \<and> kw_lastRunDay w' = kw_lastRunDay w"
proof -
  define m0 where "m0 = new_run tr startedAt tz dayKey (int (length ps)) (utf8 [0x7b7e, 0x5230, 0x4efb, 0x52a1, 0x6267, 0x884c, 0x4e2d])"
  obtain run0 t0 where ins: "CheckinRun_Insert (ke_clock env u) m0 (kw_tables w) = (run0, t0)" by fastforce
  obtain run1 items1 d u1 where each: "checkin_each env net ps (run0, []) (kw_db w, u) = ((run1, items1), d, u1)" by (metis surj_pair)
  obtain items t1 where it: "InsertCheckinRunItems (ke_clock env u1) items1 t0 = (items, t1)" by fastforce
  have m0: "rn_Id m0 = 0" "rn_SuccessCount m0 = 0" "rn_FailureCount m0 = 0" "rn_UncheckinCount m0 = 0" "rn_EndedAt m0 = 0"
    "rn_TotalCount m0 = int (length ps)" "rn_TriggerType m0 = tr" "rn_ScheduledDate m0 = dayKey" by (simp_all add: m0_def new_run_def)
  note I = insert_run [OF ins m0(1)]
  have r0: "rn_SuccessCount run0 = 0" "rn_FailureCount run0 = 0" "rn_UncheckinCount run0 = 0" "rn_EndedAt run0 = 0"
    "rn_TotalCount run0 = int (length ps)" "rn_TriggerType run0 = tr" "rn_ScheduledDate run0 = dayKey"
    by (subst I(5), simp add: m0)+
  note E = each_accounts [OF each, simplified r0, simplified]
  note T = insert_items_table [OF it]
  obtain s f where run1: "run1 = run0\<lparr>rn_SuccessCount := s, rn_FailureCount := f\<rparr>" using E by blast
  define run2 where "run2 = run1\<lparr>rn_UncheckinCount := int (length (GetUncheckinProvidersRows (ke_clock env u1) dayStart d)), rn_EndedAt := Unix (ke_clock env u1),
      rn_Status := (if rn_FailureCount run1 > 0 then ''partial'' else ''success''),
      rn_Message := (if ps = [] \<and> TrimSpace emptyMessage \<noteq> [] then emptyMessage
         else (case builder of None \<Rightarrow> buildCheckinRunMessage | Some f \<Rightarrow> f) (rn_SuccessCount run1) (rn_FailureCount run1)
           (int (length (GetUncheckinProvidersRows (ke_clock env u1) dayStart d))))\<rparr>"
  have w': "run = run2" "kw_tables w' = update_run run2 t1" "kw_running w' = kw_running w" "kw_lastRunDay w' = kw_lastRunDay w"
    using x by (auto simp: executeCheckinRun_def m0_def [symmetric] ins each it run2_def Let_def)
  have msg: "rn_Message run2 \<noteq> []" "rn_Status run2 \<noteq> []"
    using b message_nonempty(1) by (auto simp: run2_def split: option.splits)
  have upd: "run_updates run2 run0 = run2"
  proof (rule run_updates_new [OF msg _ r0(1-4)])
    show "run2 = run0\<lparr>rn_SuccessCount := rn_SuccessCount run2, rn_FailureCount := rn_FailureCount run2, rn_UncheckinCount := rn_UncheckinCount run2,
      rn_EndedAt := rn_EndedAt run2, rn_Status := rn_Status run2, rn_Message := rn_Message run2\<rparr>"
      by (simp add: run2_def run1)
  qed
  have id: "rn_Id run2 = rn_Id run0" "rn_TriggerType run2 = tr" "rn_ScheduledDate run2 = dayKey" "rn_TotalCount run2 = int (length ps)"
    "rn_SuccessCount run2 = rn_SuccessCount run1" "rn_FailureCount run2 = rn_FailureCount run1" "rn_Id run2 = rn_Id run1"
    using r0 by (simp_all add: run2_def run1)
  have rows: "ct_runs t1 = ct_runs (kw_tables w) @ [run0]" using T(2) I(1) by simp
  have nz: "rn_Id run2 \<noteq> 0" using I(3) next_row_id_pos [of rn_Id "ct_runs (kw_tables w)"] id(1) by simp
  note U = update_last_run [OF I(2) id(1) [symmetric] id(1) [symmetric] nz rows upd]
  have cnt: "rn_SuccessCount run2 = int (length (filter (\<lambda>i. ri_Status i = ''success'') items))"
    "rn_FailureCount run2 = int (length (filter (\<lambda>i. ri_Status i \<noteq> ''success'') items))"
    using E id(5,6) count_by_status [OF T(4), of "\<lambda>s. s = ''success''"] count_by_status [OF T(4), of "\<lambda>s. s \<noteq> ''success''"] by simp_all
  have len: "length items = length ps" using T(3) E by (metis length_map append_Nil)
  have tot: "rn_TotalCount run2 = rn_SuccessCount run2 + rn_FailureCount run2"
    unfolding id(4) cnt len [symmetric] using sum_length_filter_compl [of "\<lambda>i. ri_Status i = ''success''" items] by simp
  have st: "rn_Status run2 = (if list_all (\<lambda>i. ri_Status i = ''success'') items then ''success'' else ''partial'')"
  proof -
    have "rn_Status run2 = (if rn_FailureCount run2 > 0 then ''partial'' else ''success'')" by (simp add: run2_def)
    moreover have "rn_FailureCount run2 > 0 \<longleftrightarrow> \<not> list_all (\<lambda>i. ri_Status i = ''success'') items"
      unfolding cnt by (auto simp: list_all_iff filter_empty_conv)
    ultimately show ?thesis by simp
  qed
  have "run_accounts run2 items ps"
    unfolding run_accounts_def using id(4) tot cnt st T(3) E same_run_ids [OF T(5), of "rn_Id run2"] id(7) by simp
  moreover have "ct_items (kw_tables w') = ct_items (kw_tables w) @ items" using w'(2) U(2) T(1) I(4) by simp
  moreover have "ct_runs (kw_tables w') = ct_runs (kw_tables w) @ [run2]" using w'(2) U(1) by simp
  ultimately show ?thesis using w' id I(2) by auto
qed

definition started_day :: "'u checkin_env \<Rightarrow> gotime \<Rightarrow> gostring" where
  "started_day env now = day_key (resolveLocation env (sc_Timezone (GetCheckinScheduleConfig env))) now"

lemma trigger_run:
  assumes x: "triggerCheckinRun env net tr loader emptyMessage builder (w, u) = (r, w', u')" and b: "\<forall>f a b c. builder = Some f \<longrightarrow> f a b c \<noteq> []"
  shows "if kw_running w then r = Inl ErrCheckinRunInProgress \<and> w' = w
    else \<exists>run items ps. r = Inr run \<and> ps = loader (ke_clock env u)
        (fst (checkinDayStart env (ke_clock env u) (sc_Timezone (GetCheckinScheduleConfig env)))) (kw_db w)
      \<and> ct_runs (kw_tables w') = ct_runs (kw_tables w) @ [run] \<and> ct_items (kw_tables w') = ct_items (kw_tables w) @ items
      \<and> run_accounts run items ps \<and> rn_TriggerType run = tr \<and> rn_ScheduledDate run = started_day env (ke_clock env u)
      \<and> \<not> kw_running w' \<and> kw_lastRunDay w' = kw_lastRunDay w"
proof (cases "kw_running w")
  case True
  then show ?thesis using x by (simp add: triggerCheckinRun_def)
next
  case False
  define config where "config = GetCheckinScheduleConfig env"
  define ds where "ds = fst (checkinDayStart env (ke_clock env u) (sc_Timezone config))"
  have d: "checkinDayStart env (ke_clock env u) (sc_Timezone config) = (ds, started_day env (ke_clock env u))"
    by (simp add: ds_def checkinDayStart_def started_day_def config_def Let_def)
  obtain run w1 u1 where e: "executeCheckinRun env net tr (ke_clock env u) (sc_Timezone config) ds (started_day env (ke_clock env u))
      (loader (ke_clock env u) ds (kw_db w)) emptyMessage builder (w\<lparr>kw_running := True\<rparr>, u) = (run, w1, u1)" by (metis surj_pair)
  have "r = Inr run" "w' = w1\<lparr>kw_running := False\<rparr>"
    using x False by (simp_all add: triggerCheckinRun_def config_def [symmetric] d e Let_def)
  then show ?thesis using execute_accounts [OF e b] False unfolding config_def [symmetric] ds_def [symmetric] by auto
qed

lemma provider_run:
  assumes x: "RunProviderCheckin env net p (w, u) = ((run, item, e), w', u')"
  shows "ct_runs (kw_tables w') = ct_runs (kw_tables w) @ [run] \<and> ct_items (kw_tables w') = ct_items (kw_tables w) @ [item]
    \<and> rn_TriggerType run = ''manual-provider'' \<and> ri_RunId item = rn_Id run \<and> ri_ProviderId item = p_Id p
    \<and> kw_running w' = kw_running w \<and> kw_lastRunDay w' = kw_lastRunDay w"
proof -
  define tz where "tz = sc_Timezone (GetCheckinScheduleConfig env)"
  obtain ds dk where ds: "checkinDayStart env (ke_clock env u) tz = (ds, dk)" by fastforce
  define m0 where "m0 = new_run ''manual-provider'' (ke_clock env u) tz dk 1 (utf8 [0x5355, 0x4f9b, 0x5e94, 0x5546, 0x7b7e, 0x5230, 0x6267, 0x884c, 0x4e2d])"
  obtain run0 t0 where ins: "CheckinRun_Insert (ke_clock env u) m0 (kw_tables w) = (run0, t0)" by fastforce
  obtain item1 e1 d u1 where one: "checkinProviderWithResult env net p (kw_db w, u) = ((item1, e1), d, u1)" by (metis surj_pair)
  obtain items t1 where it: "InsertCheckinRunItems (ke_clock env u1) [item1\<lparr>ri_RunId := rn_Id run0\<rparr>] t0 = (items, t1)" by fastforce
  have m0: "rn_Id m0 = 0" "rn_SuccessCount m0 = 0" "rn_FailureCount m0 = 0" "rn_UncheckinCount m0 = 0" "rn_EndedAt m0 = 0"
    "rn_TriggerType m0 = ''manual-provider''" by (simp_all add: m0_def new_run_def)
  note I = insert_run [OF ins m0(1)]
  have r0: "rn_SuccessCount run0 = 0" "rn_FailureCount run0 = 0" "rn_UncheckinCount run0 = 0" "rn_EndedAt run0 = 0"
    "rn_TriggerType run0 = ''manual-provider''"
    by (subst I(5), simp add: m0)+
  note T = insert_items_table [OF it]
  obtain i where items: "items = [i]" "ri_RunId i = rn_Id run0" "ri_ProviderId i = ri_ProviderId item1" using T(3,5) by auto
  define run1 where "run1 = (if e1 \<noteq> None
      then run0\<lparr>rn_FailureCount := 1, rn_Status := ''failed'', rn_Message := utf8 [0x7b7e, 0x5230, 0x5931, 0x8d25, 0xff1a] @ ri_Message item1\<rparr>
      else run0\<lparr>rn_SuccessCount := 1, rn_Status := ''success'',
        rn_Message := (if TrimSpace (ri_Message item1) = [] then utf8 [0x7b7e, 0x5230, 0x6210, 0x529f] else TrimSpace (ri_Message item1))\<rparr>)"
  have w': "run = run1\<lparr>rn_UncheckinCount := getUncheckinCount env (ke_clock env u1) tz d, rn_EndedAt := Unix (ke_clock env u1)\<rparr>"
    "item = i" "kw_tables w' = update_run run t1" "kw_running w' = kw_running w" "kw_lastRunDay w' = kw_lastRunDay w"
    using x by (auto simp: RunProviderCheckin_def tz_def [symmetric] ds m0_def [symmetric] ins one it items(1) run1_def Let_def)
  have id: "rn_Id run = rn_Id run0" "rn_TriggerType run = ''manual-provider''" using r0 by (simp_all add: w'(1) run1_def)
  have upd: "run_updates run run0 = run"
    by (rule CheckinRun.equality) (simp_all add: w'(1) run1_def run_updates_def nonzero_def r0)
  have nz: "rn_Id run \<noteq> 0" using I(3) next_row_id_pos [of rn_Id "ct_runs (kw_tables w)"] id(1) by simp
  have rows: "ct_runs t1 = ct_runs (kw_tables w) @ [run0]" using T(2) I(1) by simp
  note U = update_last_run [OF I(2) id(1) [symmetric] id(1) [symmetric] nz rows upd]
  show ?thesis using U w' id items T(1) I(4) item_of_provider(1) [OF one] by simp
qed

subsection \<open>The scheduler over days\<close>

definition cron_days :: "checkin_world \<Rightarrow> gostring list" where
  "cron_days w = map rn_ScheduledDate (filter (\<lambda>r. rn_TriggerType r = ''cron'') (ct_runs (kw_tables w)))"

definition same_day :: "'u checkin_env \<Rightarrow> gotime \<Rightarrow> 'u \<Rightarrow> bool" where
  \<comment> \<open>the run of a tick starts on the date of the tick\<close>
  "same_day env now u \<longleftrightarrow> started_day env (ke_clock env u) = started_day env now"

inductive checkin_reachable :: "checkin_world \<times> 'u \<Rightarrow> bool" where
  install: "ct_runs (kw_tables w) = [] \<Longrightarrow> kw_lastRunDay w = [] \<Longrightarrow> checkin_reachable (w, u)"
| tick: "checkin_reachable (w, u) \<Longrightarrow> same_day env now u \<Longrightarrow> checkin_reachable (RunScheduledCheckinIfNeeded env net now (w, u))"
| manual: "checkin_reachable s \<Longrightarrow> checkin_reachable (snd (TriggerUncheckedCheckinRun env net ''manual'' s))"
| provider: "checkin_reachable s \<Longrightarrow> checkin_reachable (snd (RunProviderCheckin env net p s))"
| restart: "checkin_reachable (w, u) \<Longrightarrow> checkin_reachable (w\<lparr>kw_lastRunDay := [], kw_running := False\<rparr>, u)"
| elsewhere: "checkin_reachable (w, u) \<Longrightarrow> checkin_reachable (w\<lparr>kw_db := d, kw_notify := n, kw_running := b\<rparr>, u')"

definition schedule_ok :: "checkin_world \<Rightarrow> bool" where
  "schedule_ok w \<longleftrightarrow> distinct (cron_days w) \<and> (kw_lastRunDay w = [] \<or> kw_lastRunDay w \<in> set (cron_days w))"

lemma exists_cron: "ExistsCheckinRunByTriggerAndScheduledDate ''cron'' day (kw_tables w) \<longleftrightarrow> day \<in> set (cron_days w)"
  by (auto simp: ExistsCheckinRunByTriggerAndScheduledDate_def cron_days_def run_of_day_def filter_empty_conv)

lemma cron_days_append:
  "ct_runs (kw_tables w') = ct_runs (kw_tables w) @ [run] \<Longrightarrow>
   cron_days w' = cron_days w @ (if rn_TriggerType run = ''cron'' then [rn_ScheduledDate run] else [])"
  by (simp add: cron_days_def)

lemma schedule_ok_append:
  assumes "ct_runs (kw_tables w') = ct_runs (kw_tables w) @ [run]" and "rn_TriggerType run \<noteq> ''cron''" and "kw_lastRunDay w' = kw_lastRunDay w"
  shows "schedule_ok w' = schedule_ok w"
  using assms by (simp add: schedule_ok_def cron_days_append)

lemma full_run:
  assumes "TriggerFullCheckinRun env net tr (w, u) = (r, w', u')"
  shows "if kw_running w then r = Inl ErrCheckinRunInProgress \<and> w' = w
    else \<exists>run items. r = Inr run \<and> ct_runs (kw_tables w') = ct_runs (kw_tables w) @ [run] \<and> ct_items (kw_tables w') = ct_items (kw_tables w) @ items
      \<and> run_accounts run items (GetCheckinEnabledProviders (ke_clock env u) (kw_db w)) \<and> rn_TriggerType run = tr
      \<and> rn_ScheduledDate run = started_day env (ke_clock env u) \<and> \<not> kw_running w' \<and> kw_lastRunDay w' = kw_lastRunDay w"
  using trigger_run [OF assms [unfolded TriggerFullCheckinRun_def]] by auto

definition due :: "'u checkin_env \<Rightarrow> gotime \<Rightarrow> bool" where
  \<comment> \<open>the schedule is on and its time of day has come\<close>
  "due env now \<longleftrightarrow>
    (let config = GetCheckinScheduleConfig env in
     sc_Enabled config \<and>
     (case parseScheduleTime (sc_Time config) of
        None \<Rightarrow> False
      | Some (hour, minute) \<Rightarrow>
          (case local_clock (resolveLocation env (sc_Timezone config)) now of (h, m) \<Rightarrow> h > hour \<or> h = hour \<and> m \<ge> minute)))"

lemma tick_eq:
  "RunScheduledCheckinIfNeeded env net now (w, u) =
    (if \<not> due env now \<or> kw_lastRunDay w = started_day env now then (w, u)
     else if started_day env now \<in> set (cron_days w) then (w\<lparr>kw_lastRunDay := started_day env now\<rparr>, u)
     else case TriggerFullCheckinRun env net ''cron'' (w, u) of
       (Inl e, w, u) \<Rightarrow> (w, u)
     | (Inr run, w, u) \<Rightarrow> (w\<lparr>kw_lastRunDay := started_day env now\<rparr>, u))"
proof (cases "parseScheduleTime (sc_Time (GetCheckinScheduleConfig env))")
  case None
  then show ?thesis by (simp add: RunScheduledCheckinIfNeeded_def due_def Let_def)
next
  case (Some hm)
  obtain hour minute where hm: "hm = (hour, minute)" by (cases hm)
  obtain h m where c: "local_clock (resolveLocation env (sc_Timezone (GetCheckinScheduleConfig env))) now = (h, m)" by fastforce
  show ?thesis
    by (simp add: RunScheduledCheckinIfNeeded_def due_def ShouldRunScheduledCheckin_def Some hm c Let_def exists_cron
        started_day_def [symmetric] not_less)
qed

lemma tick_runs:
  assumes "due env now" and "kw_lastRunDay w \<noteq> started_day env now" and "started_day env now \<notin> set (cron_days w)" and "\<not> kw_running w"
    and "same_day env now u" and "RunScheduledCheckinIfNeeded env net now (w, u) = (w', u')"
  shows "cron_days w' = cron_days w @ [started_day env now]" and "kw_lastRunDay w' = started_day env now" and "\<not> kw_running w'"
proof -
  obtain r w1 u1 where tr: "TriggerFullCheckinRun env net ''cron'' (w, u) = (r, w1, u1)" by (metis surj_pair)
  obtain run where run: "r = Inr run" "ct_runs (kw_tables w1) = ct_runs (kw_tables w) @ [run]" "rn_TriggerType run = ''cron''"
      "rn_ScheduledDate run = started_day env now" "\<not> kw_running w1"
    using full_run [OF tr] assms(4,5) by (auto simp: same_day_def)
  have w': "w' = w1\<lparr>kw_lastRunDay := started_day env now\<rparr>" using assms(1-3,6) tr run(1) by (simp add: tick_eq)
  show "cron_days w' = cron_days w @ [started_day env now]" using cron_days_append [OF run(2)] run(3,4) unfolding w' by (simp add: cron_days_def)
  show "kw_lastRunDay w' = started_day env now" "\<not> kw_running w'" using run(5) by (simp_all add: w')
qed

lemma tick_busy:
  assumes "kw_running w" and "started_day env now \<notin> set (cron_days w)"
  shows "fst (RunScheduledCheckinIfNeeded env net now (w, u)) = w"
proof -
  obtain r w1 u1 where tr: "TriggerFullCheckinRun env net ''cron'' (w, u) = (r, w1, u1)" by (metis surj_pair)
  then have "r = Inl ErrCheckinRunInProgress" "w1 = w" using full_run [OF tr] assms(1) by auto
  then show ?thesis using tr assms(2) by (simp add: tick_eq)
qed

lemma tick_keeps:
  assumes "schedule_ok w" and "same_day env now u" and t: "RunScheduledCheckinIfNeeded env net now (w, u) = (w', u')"
  shows "schedule_ok w'"
proof (cases "\<not> due env now \<or> kw_lastRunDay w = started_day env now")
  case True
  then show ?thesis using t assms(1) by (auto simp: tick_eq)
next
  case False
  show ?thesis
  proof (cases "started_day env now \<in> set (cron_days w)")
    case True
    then show ?thesis using t assms(1) False by (auto simp: tick_eq schedule_ok_def cron_days_def)
  next
    case new: False
    show ?thesis
    proof (cases "kw_running w")
      case True
      then show ?thesis using tick_busy [OF True new, of net u] t assms(1) by simp
    next
      case idle: False
      show ?thesis using tick_runs [OF _ _ new idle assms(2) t] False assms(1) new by (auto simp: schedule_ok_def)
    qed
  qed
qed

lemma unchecked_keeps:
  assumes "schedule_ok w"
  shows "schedule_ok (fst (snd (TriggerUncheckedCheckinRun env net ''manual'' (w, u))))"
proof -
  obtain r w1 u1 where tr: "TriggerUncheckedCheckinRun env net ''manual'' (w, u) = (r, w1, u1)" by (metis surj_pair)
  have "if kw_running w then r = Inl ErrCheckinRunInProgress \<and> w1 = w
    else \<exists>run. ct_runs (kw_tables w1) = ct_runs (kw_tables w) @ [run] \<and> rn_TriggerType run = ''manual'' \<and> kw_lastRunDay w1 = kw_lastRunDay w"
    using trigger_run [OF tr [unfolded TriggerUncheckedCheckinRun_def]] message_nonempty(2) by (auto split: if_splits)
  then show ?thesis using assms schedule_ok_append [of w1 w] by (auto simp: tr split: if_splits)
qed

lemma provider_keeps:
  assumes "schedule_ok w"
  shows "schedule_ok (fst (snd (RunProviderCheckin env net p (w, u))))"
proof -
  obtain run item e w1 u1 where tr: "RunProviderCheckin env net p (w, u) = ((run, item, e), w1, u1)" by (metis surj_pair)
  show ?thesis using provider_run [OF tr] assms schedule_ok_append [of w1 w run] by (simp add: tr)
qed

lemma count_cron: "length (filter (run_of_day ''cron'' day) (ct_runs (kw_tables w))) = count_list (cron_days w) day"
proof -
  have "length (filter (run_of_day ''cron'' day) rs) = count_list (map rn_ScheduledDate (filter (\<lambda>r. rn_TriggerType r = ''cron'') rs)) day" for rs
    by (induction rs) (auto simp: run_of_day_def)
  then show ?thesis by (simp add: cron_days_def)
qed

lemma distinct_count_1: "distinct xs \<Longrightarrow> x \<in> set xs \<Longrightarrow> count_list xs x = 1"
  by (induction xs) auto

lemma reachable_schedule:
  assumes "checkin_reachable s"
  shows "schedule_ok (fst s)"
  using assms
proof induction
  case (tick w u env now net)
  then show ?case using tick_keeps [of w env now u net] by (cases "RunScheduledCheckinIfNeeded env net now (w, u)") simp
next
  case (manual s env net)
  then show ?case using unchecked_keeps [of "fst s" env net "snd s"] by simp
next
  case (provider s env net p)
  then show ?case using provider_keeps [of "fst s" env net p "snd s"] by simp
qed (simp_all add: schedule_ok_def cron_days_def)

subsection \<open>A sample day\<close>

definition sample_checkin_env :: "int checkin_env" where
  \<comment> \<open>the state of the upstream is the time of day in seconds, and every answer takes five seconds\<close>
  "sample_checkin_env =
    \<lparr>ke_env = \<lparr>pe_options = [(''CheckinScheduleTime'', ''08:30''), (''CheckinScheduleTimezone'', ''UTC'')], pe_parse_url = (\<lambda>_. None),
       pe_sha256_hex12 = (\<lambda>_. []), pe_marshal = (\<lambda>_. None), pe_request_ok = (\<lambda>_ _. True), pe_debug_payload = False, pe_now = 0,
       pe_elapsed_ms = 1, pe_line_ms = (\<lambda>_. 0), pe_request_id = [], pe_error_text = (\<lambda>_. [])\<rparr>,
     ke_globals = initial_globals, ke_load = (\<lambda>_. Some UTC), ke_clock = UnixTime\<rparr>"

definition sample_checkin_upstream :: "int upstream" where
  "sample_checkin_upstream = (\<lambda>c q u. (Response \<lparr>rs_StatusCode = 200, rs_Header = [], rs_Body = BodyOk ''{\"success\":true,\"data\":{\"quota_awarded\":3}}'', rs_Lines = [], rs_ScanErr = None\<rparr>, u + 5))"

definition sample_checkin_world :: checkin_world where
  "sample_checkin_world =
    \<lparr>kw_db = \<lparr>db_providers = [sample_provider], db_tokens = [], db_routes = [], db_pricings = [], db_aggtokens = [], db_users = [], db_logs = []\<rparr>,
     kw_tables = \<lparr>ct_runs = [], ct_items = []\<rparr>, kw_notify = \<lparr>nt_alerts = [], nt_queue = []\<rparr>, kw_lastRunDay = [], kw_running = False\<rparr>"

lemma sample_checkin_due: "due sample_checkin_env (UnixTime 30600)" "same_day sample_checkin_env (UnixTime 30600) 30600"
  "same_day sample_checkin_env (UnixTime 30600) 30660" "started_day sample_checkin_env (UnixTime 30600) = ''1970-01-01''"
  by code_simp+

lemma sample_checkin_reachable: "checkin_reachable (sample_checkin_world, 30600)"
  by (rule checkin_reachable.install) (simp_all add: sample_checkin_world_def)

lemma sample_ticked_reachable:
  "checkin_reachable (RunScheduledCheckinIfNeeded sample_checkin_env sample_checkin_upstream (UnixTime 30600) (sample_checkin_world, 30600))"
  by (rule checkin_reachable.tick [OF sample_checkin_reachable sample_checkin_due(2)])

subsection \<open>What the runs guarantee\<close>

text \<open>
  C30: A full run accounts for every provider. Unless another run holds the guard, it records one run and, for the
  providers that were to be checked in and in their order, one item each, tied to the run by its identifier; successes
  and failures add up to the total, the run is "partial" exactly when an item failed, and the guard is free afterwards.
\<close>

theorem full_run_accounts:
  assumes "\<not> kw_running w" and "TriggerFullCheckinRun env net tr (w, u) = (r, w', u')"
  shows "\<exists>run items. r = Inr run \<and> ct_runs (kw_tables w') = ct_runs (kw_tables w) @ [run] \<and> ct_items (kw_tables w') = ct_items (kw_tables w) @ items
    \<and> map ri_ProviderId items = map p_Id (GetCheckinEnabledProviders (ke_clock env u) (kw_db w)) \<and> list_all (\<lambda>i. ri_RunId i = rn_Id run) items
    \<and> rn_TotalCount run = int (length items) \<and> rn_TotalCount run = rn_SuccessCount run + rn_FailureCount run
    \<and> rn_SuccessCount run = int (length (filter (\<lambda>i. ri_Status i = ''success'') items))
    \<and> rn_Status run = (if list_all (\<lambda>i. ri_Status i = ''success'') items then ''success'' else ''partial'') \<and> \<not> kw_running w'"
proof -
  obtain run items where h: "r = Inr run" "ct_runs (kw_tables w') = ct_runs (kw_tables w) @ [run]" "ct_items (kw_tables w') = ct_items (kw_tables w) @ items"
      "run_accounts run items (GetCheckinEnabledProviders (ke_clock env u) (kw_db w))" "\<not> kw_running w'"
    using full_run [OF assms(2)] assms(1) by auto
  moreover have "length items = length (GetCheckinEnabledProviders (ke_clock env u) (kw_db w))" using h(4) by (metis length_map run_accounts_def)
  ultimately show ?thesis unfolding run_accounts_def by (intro exI [of _ run] exI [of _ items]) simp
qed

lemma full_run_accounts_witness:
  "\<exists>run (items :: CheckinRunItem list). fst (TriggerFullCheckinRun sample_checkin_env sample_checkin_upstream ''cron'' (sample_checkin_world, 30600)) = Inr run
    \<and> map ri_ProviderId items = [7] \<and> rn_TotalCount run = 1"
proof -
  obtain r w' u' where t: "TriggerFullCheckinRun sample_checkin_env sample_checkin_upstream ''cron'' (sample_checkin_world, 30600) = (r, w', u')"
    by (metis surj_pair)
  have idle: "\<not> kw_running sample_checkin_world" by (simp add: sample_checkin_world_def)
  have ids: "map p_Id (GetCheckinEnabledProviders (ke_clock sample_checkin_env 30600) (kw_db sample_checkin_world)) = [7]" by code_simp
  obtain run and items :: "CheckinRunItem list" where r: "r = Inr run" "map ri_ProviderId items = [7]" "rn_TotalCount run = int (length items)"
    using full_run_accounts [OF idle t] unfolding ids apply (elim exE conjE) apply (rule that) by assumption+
  then have "length items = 1" by (auto simp: map_eq_Cons_conv)
  then show ?thesis using r t by (intro exI [of _ run] exI [of _ items]) simp
qed

text \<open>
  C31: One scheduled run per day. In every state reached by ticks of the scheduler, manual runs, check-ins of single
  providers, restarts and whatever the rest of the gateway does, no two scheduled runs have the same local date; the settings,
  the time zone among them, may change at every step. A tick reads the clock twice, and both readings show one date.
\<close>

theorem cron_runs_once_per_day:
  assumes "checkin_reachable (w, u)"
  shows "distinct (map rn_ScheduledDate (filter (\<lambda>r. rn_TriggerType r = ''cron'') (ct_runs (kw_tables w))))"
  using reachable_schedule [OF assms] by (simp add: schedule_ok_def cron_days_def)

lemma cron_runs_once_per_day_witness:
  "distinct (map rn_ScheduledDate (filter (\<lambda>r. rn_TriggerType r = ''cron'') (ct_runs (kw_tables
     (fst (RunScheduledCheckinIfNeeded sample_checkin_env sample_checkin_upstream (UnixTime 30600) (sample_checkin_world, 30600)))))))"
  using cron_runs_once_per_day [of "fst (RunScheduledCheckinIfNeeded sample_checkin_env sample_checkin_upstream (UnixTime 30600) (sample_checkin_world, 30600))"
      "snd (RunScheduledCheckinIfNeeded sample_checkin_env sample_checkin_upstream (UnixTime 30600) (sample_checkin_world, 30600))"]
    sample_ticked_reachable by simp

text \<open>
  C32: The scheduled run happens. A tick that finds the schedule on and its time of day come, with no other run in
  progress, leaves exactly one scheduled run of that day, whether an earlier tick started it or this one does, and
  whatever the upstreams answer.
\<close>

theorem scheduled_checkin_happens:
  assumes "checkin_reachable (w, u)" and "due env now" and "\<not> kw_running w" and "same_day env now u"
    and "RunScheduledCheckinIfNeeded env net now (w, u) = (w', u')"
  shows "length (filter (run_of_day ''cron'' (started_day env now)) (ct_runs (kw_tables w'))) = 1"
proof -
  have ok: "schedule_ok w" "schedule_ok w'"
    using reachable_schedule [OF assms(1)] tick_keeps [OF _ assms(4,5)] by simp_all
  have "started_day env now \<in> set (cron_days w')"
  proof (cases "started_day env now \<in> set (cron_days w)")
    case True
    then show ?thesis using assms(5) by (auto simp: tick_eq cron_days_def split: if_splits)
  next
    case False
    have "started_day env now \<noteq> []"
      by (auto simp: started_day_def day_key_def format_date_def split: prod.splits)
    then have "kw_lastRunDay w \<noteq> started_day env now" using ok(1) False by (auto simp: schedule_ok_def)
    then show ?thesis using tick_runs(1) [OF assms(2) _ False assms(3,4,5)] by simp
  qed
  then show ?thesis using ok(2) by (simp add: count_cron schedule_ok_def distinct_count_1)
qed

lemma scheduled_checkin_happens_witness:
  "length (filter (run_of_day ''cron'' ''1970-01-01'') (ct_runs (kw_tables
     (fst (RunScheduledCheckinIfNeeded sample_checkin_env sample_checkin_upstream (UnixTime 30600) (sample_checkin_world, 30600)))))) = 1"
proof -
  have "\<not> kw_running sample_checkin_world" by (simp add: sample_checkin_world_def)
  then show ?thesis
    using scheduled_checkin_happens [OF sample_checkin_reachable sample_checkin_due(1) _ sample_checkin_due(2) prod.collapse [symmetric],
        where net = sample_checkin_upstream] sample_checkin_due(4) by simp
qed

end
