(* ===== verification/ProviderAdmin.thy ===== *)
theory ProviderAdmin
  imports Sync CheckinCorrect
begin

text \<open>
  The administration of providers, \<open>src/controller/provider.go\<close>: lists and details, export and import, changes, the
  groups a token may belong to, tokens made and deleted at the upstream, check-ins and their records. A handler gives its
  answer and the state after it; an identifier arrives as the text in the path. What GORM stores for a new provider
  and what it changes for an old one are written out from the tags of the struct.
\<close>

subsection \<open>Groups of tokens\<close>

record tokenGroupOption =
  go_GroupName :: gostring
  go_Ratio :: real

definition parseEnableGroupsJSON :: "gostring \<Rightarrow> gostring list" where
  "parseEnableGroupsJSON enableGroups =
    (if TrimSpace enableGroups = [] then []
     else case json_unmarshal (dec_list dec_string []) enableGroups [] of
       None \<Rightarrow> []
     | Some groups \<Rightarrow> filter (\<lambda>g. g \<noteq> []) (map TrimSpace groups))"

definition collectProviderAvailableGroups :: "ModelPricing list \<Rightarrow> gostring list" where
  \<comment> \<open>the keys of the set, in some order\<close>
  "collectProviderAvailableGroups pricing = remdups (concat (map (\<lambda>item. parseEnableGroupsJSON (mp_EnableGroups item)) pricing))"

definition option_before :: "tokenGroupOption \<Rightarrow> tokenGroupOption \<Rightarrow> bool" where
  "option_before a b =
    (if go_Ratio a = go_Ratio b then go_GroupName a < go_GroupName b else go_Ratio a < go_Ratio b)"

definition group_option :: "(gostring, real) gomap \<Rightarrow> gostring \<Rightarrow> tokenGroupOption" where
  "group_option groupRatio groupName =
    (let ratio = mget_default 0 groupRatio groupName
     in \<lparr>go_GroupName = groupName, go_Ratio = (if ratio \<le> 0 then 1 else ratio)\<rparr>)"

definition buildTokenGroupOptions :: "gostring list \<Rightarrow> (gostring, real) gomap \<Rightarrow> tokenGroupOption list" where
  "buildTokenGroupOptions availableGroups groupRatio = sort_by option_before (map (group_option groupRatio) availableGroups)"

definition pickAvailableGroup :: "gostring \<Rightarrow> gostring list \<Rightarrow> gostring" where
  "pickAvailableGroup candidate availableGroups =
    (let normalized = TrimSpace candidate in if normalized = [] then [] else if normalized \<notin> set availableGroups then [] else normalized)"

fun first_pick :: "gostring list \<Rightarrow> gostring list \<Rightarrow> gostring" where
  \<comment> \<open>the first of the candidates that names an available group\<close>
  "first_pick availableGroups [] = []"
| "first_pick availableGroups (c # cs) =
    (if pickAvailableGroup c availableGroups \<noteq> [] then pickAvailableGroup c availableGroups else first_pick availableGroups cs)"

definition usable_candidates :: "(gostring, gostring) gomap \<Rightarrow> int \<Rightarrow> gostring list" where
  \<comment> \<open>the texts tried, in the order of the loops\<close>
  "usable_candidates usableGroup userID =
    concat (map (\<lambda>key. case mget usableGroup key of Some v \<Rightarrow> [v, key] | None \<Rightarrow> [])
        [Itoa userID, ''user_id'', ''userid'', ''default'', ''default_group'', ''group''])
    @ map snd (filter (\<lambda>(key, v). StrContains (ToLower (TrimSpace key)) ''default'') usableGroup)
    @ map snd usableGroup @ map fst usableGroup"

definition resolveDefaultGroupFromUsable :: "(gostring, gostring) gomap \<Rightarrow> int \<Rightarrow> gostring list \<Rightarrow> tokenGroupOption list \<Rightarrow> gostring" where
  "resolveDefaultGroupFromUsable usableGroup userID availableGroups options =
    (if availableGroups = [] then []
     else if first_pick availableGroups (usable_candidates usableGroup userID) \<noteq> []
       then first_pick availableGroups (usable_candidates usableGroup userID)
     else case options of [] \<Rightarrow> [] | opt # _ \<Rightarrow> go_GroupName opt)"

definition getProviderAvailableGroups :: "int \<Rightarrow> db \<Rightarrow> gostring list" where
  "getProviderAvailableGroups providerId d = collectProviderAvailableGroups (GetModelPricingByProvider providerId d)"

definition lenient_string_map :: "gostring \<Rightarrow> (gostring, gostring) gomap" where
  \<comment> \<open>\<open>json.Unmarshal\<close> whose error is dropped: a value of another type is stored empty\<close>
  "lenient_string_map raw =
    (case json_parse raw of
       Some (JObj m) \<Rightarrow> fold (\<lambda>(k, v). mput k (case v of JStr s \<Rightarrow> s | _ \<Rightarrow> [])) m []
     | _ \<Rightarrow> [])"

definition lenient_nested_map :: "gostring \<Rightarrow> (gostring, (gostring, gostring) gomap) gomap" where
  "lenient_nested_map raw =
    (case json_parse raw of
       Some (JObj m) \<Rightarrow> fold (\<lambda>(k, v). mput k (case v of
           JObj e \<Rightarrow> fold (\<lambda>(k, v). mput k (case v of JStr s \<Rightarrow> s | _ \<Rightarrow> [])) e []
         | _ \<Rightarrow> [])) m []
     | _ \<Rightarrow> [])"

record pricing_answer =
  pa_data :: "ModelPricing list"
  pa_group_ratio :: "(gostring, real) gomap"
  pa_usable_group :: "(gostring, gostring) gomap"
  pa_default_group :: gostring
  pa_token_group_options :: "tokenGroupOption list"
  pa_supported_endpoint :: "(gostring, (gostring, gostring) gomap) gomap"

subsection \<open>The state and the rows\<close>

record admin_world =
  am_world :: world
  am_tables :: checkin_tables
  am_notify :: notify_world
  am_lastRunDay :: gostring
  am_running :: bool
  am_dirty :: "gostring list"

record 'u admin_env =
  av_sync :: sync_env
  av_checkin :: "'u checkin_env"
  av_location :: location

abbreviation av_proxy :: "'u admin_env \<Rightarrow> proxy_env" where
  "av_proxy env \<equiv> sy_env (av_sync env)"

abbreviation am_db :: "admin_world \<Rightarrow> db" where
  "am_db w \<equiv> w_db (am_world w)"

definition checkin_part :: "admin_world \<Rightarrow> checkin_world" where
  "checkin_part w = \<lparr>kw_db = am_db w, kw_tables = am_tables w, kw_notify = am_notify w, kw_lastRunDay = am_lastRunDay w, kw_running = am_running w\<rparr>"

definition with_checkin_part :: "checkin_world \<Rightarrow> admin_world \<Rightarrow> admin_world" where
  "with_checkin_part k w =
    w\<lparr>am_world := (am_world w)\<lparr>w_db := kw_db k\<rparr>, am_tables := kw_tables k, am_notify := kw_notify k, am_lastRunDay := kw_lastRunDay k,
      am_running := kw_running k\<rparr>"

definition write_db :: "(db \<Rightarrow> db) \<Rightarrow> admin_world \<Rightarrow> admin_world" where
  \<comment> \<open>a write that leaves the routing caches alone\<close>
  "write_db f w = w\<lparr>am_world := (am_world w)\<lparr>w_db := f (am_db w)\<rparr>\<rparr>"

definition write_routes :: "(db \<Rightarrow> db) \<Rightarrow> admin_world \<Rightarrow> admin_world" where
  \<comment> \<open>a write that ends with \<open>invalidateModelRouteCaches\<close>\<close>
  "write_routes f w = w\<lparr>am_world := on_tables (write_through f) (am_world w)\<rparr>"

definition mark_dirty :: "gostring \<Rightarrow> admin_world \<Rightarrow> admin_world" where
  "mark_dirty reason w = w\<lparr>am_dirty := am_dirty w @ [reason]\<rparr>"

definition zero_provider :: Provider where
  "zero_provider =
    \<lparr>p_Id = 0, p_Name = [], p_BaseURL = [], p_AccessToken = [], p_UserID = 0, p_Status = 0, p_Priority = 0, p_Weight = 0,
     p_CheckinEnabled = False, p_LastCheckinAt = 0, p_Balance = [], p_BalanceUpdated = 0, p_HealthStatus = [], p_HealthCheckAt = 0,
     p_HealthSuccessAt = 0, p_HealthFailureAt = 0, p_HealthFailureReason = [], p_HealthCooldownUntil = 0, p_ProxyEnabled = False,
     p_ProxyURL = [], p_PricingGroupRatio = [], p_PricingUsableGroup = [], p_PricingSupportedEndpoint = [], p_ModelAliasMapping = [],
     p_Remark = [], p_CreatedAt = 0, p_HealthBlocked = False, p_BalanceFreshness = [], p_RouteEligible = False, p_RouteBlockReasons = [],
     p_ProxyURLRedacted = [], p_LastCheckinStatus = [], p_LastCheckinMessage = [], p_LastCheckinQuotaAwarded = 0, p_LastCheckinResultAt = 0\<rparr>"

definition stored_columns :: "Provider \<Rightarrow> Provider" where
  \<comment> \<open>the fields tagged \<open>gorm:"-"\<close> are not stored\<close>
  "stored_columns p =
    p\<lparr>p_HealthBlocked := False, p_BalanceFreshness := [], p_RouteEligible := False, p_RouteBlockReasons := [], p_ProxyURLRedacted := [],
      p_LastCheckinStatus := [], p_LastCheckinMessage := [], p_LastCheckinQuotaAwarded := 0, p_LastCheckinResultAt := 0\<rparr>"

definition provider_defaults :: "Provider \<Rightarrow> Provider" where
  \<comment> \<open>\<open>Create\<close> takes the default of the tag for a zero field\<close>
  "provider_defaults p =
    stored_columns (p\<lparr>p_Status := (if p_Status p = 0 then 1 else p_Status p), p_Weight := (if p_Weight p = 0 then 10 else p_Weight p),
      p_HealthStatus := (if p_HealthStatus p = [] then ''unknown'' else p_HealthStatus p)\<rparr>)"

definition provider_updates :: "Provider \<Rightarrow> Provider \<Rightarrow> Provider" where
  \<comment> \<open>\<open>Updates\<close> with a struct: zero fields leave their columns alone\<close>
  "provider_updates p old =
    old\<lparr>p_Name := nonzero [] (p_Name p) (p_Name old), p_BaseURL := nonzero [] (p_BaseURL p) (p_BaseURL old),
      p_AccessToken := nonzero [] (p_AccessToken p) (p_AccessToken old), p_UserID := nonzero 0 (p_UserID p) (p_UserID old),
      p_Status := nonzero 0 (p_Status p) (p_Status old), p_Priority := nonzero 0 (p_Priority p) (p_Priority old),
      p_Weight := nonzero 0 (p_Weight p) (p_Weight old), p_CheckinEnabled := nonzero False (p_CheckinEnabled p) (p_CheckinEnabled old),
      p_LastCheckinAt := nonzero 0 (p_LastCheckinAt p) (p_LastCheckinAt old), p_Balance := nonzero [] (p_Balance p) (p_Balance old),
      p_BalanceUpdated := nonzero 0 (p_BalanceUpdated p) (p_BalanceUpdated old), p_HealthStatus := nonzero [] (p_HealthStatus p) (p_HealthStatus old),
      p_HealthCheckAt := nonzero 0 (p_HealthCheckAt p) (p_HealthCheckAt old), p_HealthSuccessAt := nonzero 0 (p_HealthSuccessAt p) (p_HealthSuccessAt old),
      p_HealthFailureAt := nonzero 0 (p_HealthFailureAt p) (p_HealthFailureAt old),
      p_HealthFailureReason := nonzero [] (p_HealthFailureReason p) (p_HealthFailureReason old),
      p_HealthCooldownUntil := nonzero 0 (p_HealthCooldownUntil p) (p_HealthCooldownUntil old),
      p_ProxyEnabled := nonzero False (p_ProxyEnabled p) (p_ProxyEnabled old), p_ProxyURL := nonzero [] (p_ProxyURL p) (p_ProxyURL old),
      p_PricingGroupRatio := nonzero [] (p_PricingGroupRatio p) (p_PricingGroupRatio old),
      p_PricingUsableGroup := nonzero [] (p_PricingUsableGroup p) (p_PricingUsableGroup old),
      p_PricingSupportedEndpoint := nonzero [] (p_PricingSupportedEndpoint p) (p_PricingSupportedEndpoint old),
      p_ModelAliasMapping := nonzero [] (p_ModelAliasMapping p) (p_ModelAliasMapping old), p_Remark := nonzero [] (p_Remark p) (p_Remark old),
      p_CreatedAt := nonzero 0 (p_CreatedAt p) (p_CreatedAt old)\<rparr>"

definition dec_provider :: "Provider decoder" where
  "dec_provider = dec_struct (\<lambda>m p. do {
     a1 \<leftarrow> struct_field dec_int ''id'' m (p_Id p);
     a2 \<leftarrow> struct_field dec_string ''name'' m (p_Name p);
     a3 \<leftarrow> struct_field dec_string ''base_url'' m (p_BaseURL p);
     a4 \<leftarrow> struct_field dec_string ''access_token'' m (p_AccessToken p);
     a5 \<leftarrow> struct_field dec_int ''user_id'' m (p_UserID p);
     a6 \<leftarrow> struct_field dec_int ''status'' m (p_Status p);
     a7 \<leftarrow> struct_field dec_int ''priority'' m (p_Priority p);
     a8 \<leftarrow> struct_field dec_int ''weight'' m (p_Weight p);
     a9 \<leftarrow> struct_field dec_bool ''checkin_enabled'' m (p_CheckinEnabled p);
     b1 \<leftarrow> struct_field dec_int ''last_checkin_at'' m (p_LastCheckinAt p);
     b2 \<leftarrow> struct_field dec_string ''balance'' m (p_Balance p);
     b3 \<leftarrow> struct_field dec_int ''balance_updated'' m (p_BalanceUpdated p);
     b4 \<leftarrow> struct_field dec_string ''health_status'' m (p_HealthStatus p);
     b5 \<leftarrow> struct_field dec_int ''health_check_at'' m (p_HealthCheckAt p);
     b6 \<leftarrow> struct_field dec_int ''health_success_at'' m (p_HealthSuccessAt p);
     b7 \<leftarrow> struct_field dec_int ''health_failure_at'' m (p_HealthFailureAt p);
     b8 \<leftarrow> struct_field dec_string ''health_failure_reason'' m (p_HealthFailureReason p);
     b9 \<leftarrow> struct_field dec_int ''health_cooldown_until'' m (p_HealthCooldownUntil p);
     c1 \<leftarrow> struct_field dec_bool ''proxy_enabled'' m (p_ProxyEnabled p);
     c2 \<leftarrow> struct_field dec_string ''proxy_url'' m (p_ProxyURL p);
     c3 \<leftarrow> struct_field dec_string ''pricing_group_ratio'' m (p_PricingGroupRatio p);
     c4 \<leftarrow> struct_field dec_string ''pricing_usable_group'' m (p_PricingUsableGroup p);
     c5 \<leftarrow> struct_field dec_string ''pricing_supported_endpoint'' m (p_PricingSupportedEndpoint p);
     c6 \<leftarrow> struct_field dec_string ''model_alias_mapping'' m (p_ModelAliasMapping p);
     c7 \<leftarrow> struct_field dec_string ''remark'' m (p_Remark p);
     c8 \<leftarrow> struct_field dec_int ''created_at'' m (p_CreatedAt p);
     c9 \<leftarrow> struct_field dec_bool ''health_blocked'' m (p_HealthBlocked p);
     d1 \<leftarrow> struct_field dec_string ''balance_freshness'' m (p_BalanceFreshness p);
     d2 \<leftarrow> struct_field dec_bool ''route_eligible'' m (p_RouteEligible p);
     d3 \<leftarrow> struct_field (dec_list dec_string []) ''route_block_reasons'' m (p_RouteBlockReasons p);
     d4 \<leftarrow> struct_field dec_string ''proxy_url_redacted'' m (p_ProxyURLRedacted p);
     d5 \<leftarrow> struct_field dec_string ''last_checkin_status'' m (p_LastCheckinStatus p);
     d6 \<leftarrow> struct_field dec_string ''last_checkin_message'' m (p_LastCheckinMessage p);
     d7 \<leftarrow> struct_field dec_int ''last_checkin_quota_awarded'' m (p_LastCheckinQuotaAwarded p);
     d8 \<leftarrow> struct_field dec_int ''last_checkin_result_at'' m (p_LastCheckinResultAt p);
     Some \<lparr>p_Id = a1, p_Name = a2, p_BaseURL = a3, p_AccessToken = a4, p_UserID = a5, p_Status = a6, p_Priority = a7, p_Weight = a8,
       p_CheckinEnabled = a9, p_LastCheckinAt = b1, p_Balance = b2, p_BalanceUpdated = b3, p_HealthStatus = b4, p_HealthCheckAt = b5,
       p_HealthSuccessAt = b6, p_HealthFailureAt = b7, p_HealthFailureReason = b8, p_HealthCooldownUntil = b9, p_ProxyEnabled = c1,
       p_ProxyURL = c2, p_PricingGroupRatio = c3, p_PricingUsableGroup = c4, p_PricingSupportedEndpoint = c5, p_ModelAliasMapping = c6,
       p_Remark = c7, p_CreatedAt = c8, p_HealthBlocked = c9, p_BalanceFreshness = d1, p_RouteEligible = d2, p_RouteBlockReasons = d3,
       p_ProxyURLRedacted = d4, p_LastCheckinStatus = d5, p_LastCheckinMessage = d6, p_LastCheckinQuotaAwarded = d7, p_LastCheckinResultAt = d8\<rparr>})"

definition invalid_id :: gw_error where
  "invalid_id = ErrOther ''invalid id''"

definition invalid_parameters :: gw_error where
  "invalid_parameters = ErrOther ''invalid parameters''"

definition no_provider :: gw_error where
  "no_provider = ErrOther ''no such provider''"

definition provider_of_path :: "gostring \<Rightarrow> db \<Rightarrow> gw_error + Provider" where
  \<comment> \<open>how most handlers begin\<close>
  "provider_of_path param d =
    (case Atoi param of
       None \<Rightarrow> Inl invalid_id
     | Some i \<Rightarrow> (case GetProviderById i d of Inl e \<Rightarrow> Inl no_provider | Inr p \<Rightarrow> Inr p))"

subsection \<open>Lists and details\<close>

abbreviation clean_provider :: "'u admin_env \<Rightarrow> Provider \<Rightarrow> Provider" where
  "clean_provider env \<equiv> Provider_CleanForResponse (pe_parse_url (av_proxy env)) (av_location env) (pe_now (av_proxy env))"

definition GetProviders :: "'u admin_env \<Rightarrow> gostring option \<Rightarrow> gostring option \<Rightarrow> gostring \<Rightarrow> gostring option \<Rightarrow> db \<Rightarrow> Provider paginated" where
  \<comment> \<open>the parameters \<open>p\<close>, \<open>page_size\<close>, \<open>keyword\<close> and \<open>route_filter\<close> of the query\<close>
  "GetProviders env qp qsize keyword routeFilter d =
    (let pagination = parsePaginationParams qp qsize;
         (providers, tot) = QueryProviders ItemsPerPage (av_location env) (pe_now (av_proxy env)) (TrimSpace keyword)
            (TrimSpace (case routeFilter of Some f \<Rightarrow> f | None \<Rightarrow> ''all'')) (pg_Offset pagination) (pg_PageSize pagination) d
     in buildPaginatedData (map (clean_provider env) providers) pagination tot)"

definition GetProviderDetail :: "'u admin_env \<Rightarrow> gostring \<Rightarrow> admin_world \<Rightarrow> gw_error + Provider" where
  "GetProviderDetail env param w =
    (case provider_of_path param (am_db w) of
       Inl e \<Rightarrow> Inl e
     | Inr provider \<Rightarrow>
         (let provider = (case GetLatestCheckinRunItemByProviderId (p_Id provider) (am_tables w) of
              None \<Rightarrow> provider
            | Some item \<Rightarrow> provider\<lparr>p_LastCheckinStatus := ri_Status item, p_LastCheckinMessage := ri_Message item,
                p_LastCheckinQuotaAwarded := ri_QuotaAwarded item, p_LastCheckinResultAt := ri_CheckedAt item\<rparr>)
          in Inr (clean_provider env provider)))"

definition limit_param :: "gostring option \<Rightarrow> int \<Rightarrow> int" where
  "limit_param q dflt = (let limit = AtoiValue (case q of Some s \<Rightarrow> s | None \<Rightarrow> Itoa dflt) in if limit \<le> 0 then dflt else limit)"

definition GetCheckinRunSummaries :: "gostring option \<Rightarrow> admin_world \<Rightarrow> CheckinRun list" where
  "GetCheckinRunSummaries q w = GetRecentCheckinRuns (limit_param q 20) (am_tables w)"

definition GetCheckinRunMessages :: "gostring option \<Rightarrow> admin_world \<Rightarrow> CheckinRunItem list" where
  "GetCheckinRunMessages q w = GetRecentCheckinRunItems (limit_param q 50) (am_tables w)"

definition GetUncheckinProviders_handler :: "'u admin_env \<Rightarrow> admin_world \<Rightarrow> Provider list \<times> int \<times> gostring" where
  "GetUncheckinProviders_handler env w =
    (case GetUncheckinProviders (av_checkin env) (pe_now (av_proxy env)) (am_db w) of
       (providers, dayStart, timezone) \<Rightarrow> (map (clean_provider env) providers, dayStart, timezone))"

definition TriggerFullCheckinRunHandler :: "'u admin_env \<Rightarrow> 'u upstream \<Rightarrow> admin_world \<times> 'u \<Rightarrow> (gw_error + CheckinRun) \<times> admin_world \<times> 'u" where
  "TriggerFullCheckinRunHandler env net = (\<lambda>(w, u).
    case TriggerUncheckedCheckinRun (av_checkin env) net ''manual'' (checkin_part w, u) of
      (Inl ErrCheckinRunInProgress, k, u) \<Rightarrow> (Inl (ErrOther ''a check-in run is in progress''), with_checkin_part k w, u)
    | (Inr run, k, u) \<Rightarrow> (Inr run, with_checkin_part k w, u))"

definition CheckinProviderHandler :: "'u admin_env \<Rightarrow> 'u upstream \<Rightarrow> gostring \<Rightarrow> admin_world \<times> 'u
   \<Rightarrow> (gw_error + (CheckinRun \<times> CheckinRunItem \<times> up_error option)) \<times> admin_world \<times> 'u" where
  \<comment> \<open>a failed check-in is answered with its run and its item, too\<close>
  "CheckinProviderHandler env net param = (\<lambda>(w, u).
    case provider_of_path param (am_db w) of
      Inl e \<Rightarrow> (Inl e, w, u)
    | Inr provider \<Rightarrow>
        (case RunProviderCheckin (av_checkin env) net provider (checkin_part w, u) of
           (r, k, u) \<Rightarrow> (Inr r, with_checkin_part k w, u)))"

definition SyncProviderHandler :: "gostring \<Rightarrow> admin_world \<Rightarrow> gw_error + Provider" where
  \<comment> \<open>the provider whose synchronisation, \<open>SyncProvider\<close>, is started in the background\<close>
  "SyncProviderHandler param w = provider_of_path param (am_db w)"

definition GetProviderTokens :: "gostring \<Rightarrow> admin_world \<Rightarrow> gw_error + ProviderToken list" where
  "GetProviderTokens param w =
    (case Atoi param of
       None \<Rightarrow> Inl invalid_id
     | Some i \<Rightarrow> Inr (map Token_CleanForResponse (GetProviderTokensByProviderId i (am_db w))))"

definition GetProviderPricing :: "gostring \<Rightarrow> admin_world \<Rightarrow> gw_error + pricing_answer" where
  "GetProviderPricing param w =
    (case provider_of_path param (am_db w) of
       Inl e \<Rightarrow> Inl e
     | Inr provider \<Rightarrow>
         (let pricing = GetModelPricingByProvider (p_Id provider) (am_db w);
              groupRatio = (if p_PricingGroupRatio provider \<noteq> [] then unmarshal_float_map (p_PricingGroupRatio provider) else []);
              usableGroup = (if p_PricingUsableGroup provider \<noteq> [] then lenient_string_map (p_PricingUsableGroup provider) else []);
              supportedEndpoint = (if p_PricingSupportedEndpoint provider \<noteq> [] then lenient_nested_map (p_PricingSupportedEndpoint provider) else []);
              availableGroups = collectProviderAvailableGroups pricing;
              tokenGroupOptions = buildTokenGroupOptions availableGroups groupRatio;
              defaultGroup = resolveDefaultGroupFromUsable usableGroup (p_UserID provider) availableGroups tokenGroupOptions
          in Inr \<lparr>pa_data = pricing, pa_group_ratio = groupRatio, pa_usable_group = usableGroup, pa_default_group = defaultGroup,
               pa_token_group_options = tokenGroupOptions, pa_supported_endpoint = supportedEndpoint\<rparr>))"

subsection \<open>Export and import\<close>

record ExportItem =
  ex_Name :: gostring
  ex_BaseURL :: gostring
  ex_AccessToken :: gostring
  ex_UserID :: int
  ex_Status :: int
  ex_Priority :: int
  ex_Weight :: int
  ex_CheckinEnabled :: bool
  ex_ProxyEnabled :: bool
  ex_ProxyURL :: gostring
  ex_ProxyURLRedacted :: gostring
  ex_ModelAliasMapping :: gostring
  ex_Remark :: gostring

definition export_item :: "(gostring \<Rightarrow> url_parts option) \<Rightarrow> Provider \<Rightarrow> ExportItem" where
  "export_item parse p =
    \<lparr>ex_Name = p_Name p, ex_BaseURL = p_BaseURL p, ex_AccessToken = p_AccessToken p, ex_UserID = p_UserID p, ex_Status = p_Status p,
     ex_Priority = p_Priority p, ex_Weight = p_Weight p, ex_CheckinEnabled = p_CheckinEnabled p, ex_ProxyEnabled = p_ProxyEnabled p,
     ex_ProxyURL = p_ProxyURL p, ex_ProxyURLRedacted = RedactProxyURL parse (p_ProxyURL p), ex_ModelAliasMapping = p_ModelAliasMapping p,
     ex_Remark = p_Remark p\<rparr>"

definition GetAllProviders :: "int \<Rightarrow> int \<Rightarrow> db \<Rightarrow> Provider list" where
  "GetAllProviders startIdx num d = page_desc p_Id startIdx num (db_providers d)"

definition ExportProviders :: "'u admin_env \<Rightarrow> admin_world \<Rightarrow> ExportItem list" where
  "ExportProviders env w = map (export_item (pe_parse_url (av_proxy env))) (GetAllProviders 0 1000 (am_db w))"

definition export_json :: "ExportItem \<Rightarrow> json" where
  \<comment> \<open>the members of an item in the answer; \<open>omitempty\<close> leaves zero fields out\<close>
  "export_json x = JObj (
    [(''name'', JStr (ex_Name x)), (''base_url'', JStr (ex_BaseURL x)), (''access_token'', JStr (ex_AccessToken x))]
    @ (if ex_UserID x \<noteq> 0 then [(''user_id'', jint (ex_UserID x))] else [])
    @ (if ex_Status x \<noteq> 0 then [(''status'', jint (ex_Status x))] else [])
    @ (if ex_Priority x \<noteq> 0 then [(''priority'', jint (ex_Priority x))] else [])
    @ (if ex_Weight x \<noteq> 0 then [(''weight'', jint (ex_Weight x))] else [])
    @ (if ex_CheckinEnabled x then [(''checkin_enabled'', JBool True)] else [])
    @ (if ex_ProxyEnabled x then [(''proxy_enabled'', JBool True)] else [])
    @ (if ex_ProxyURL x \<noteq> [] then [(''proxy_url'', JStr (ex_ProxyURL x))] else [])
    @ (if ex_ProxyURLRedacted x \<noteq> [] then [(''proxy_url_redacted'', JStr (ex_ProxyURLRedacted x))] else [])
    @ (if ex_ModelAliasMapping x \<noteq> [] then [(''model_alias_mapping'', JStr (ex_ModelAliasMapping x))] else [])
    @ (if ex_Remark x \<noteq> [] then [(''remark'', JStr (ex_Remark x))] else []))"

record ImportItem =
  im_Name :: gostring
  im_BaseURL :: gostring
  im_AccessToken :: gostring
  im_UserID :: gostring
  im_Status :: int
  im_Priority :: int
  im_Weight :: int
  im_CheckinEnabled :: bool
  im_ProxyEnabled :: bool
  im_ProxyURL :: gostring
  im_ModelAliasMapping :: "(gostring, gostring) gomap"
  im_Remark :: gostring

definition dec_number :: "gostring decoder" where
  \<comment> \<open>a \<open>json.Number\<close>: a number, or a string that spells one\<close>
  "dec_number v z =
    (case v of
       JNull \<Rightarrow> Some z
     | JNum t \<Rightarrow> Some t
     | JStr s \<Rightarrow> if json_parse s = Some (JNum s) then Some s else None
     | _ \<Rightarrow> None)"

definition no_import :: ImportItem where
  "no_import = \<lparr>im_Name = [], im_BaseURL = [], im_AccessToken = [], im_UserID = [], im_Status = 0, im_Priority = 0, im_Weight = 0,
     im_CheckinEnabled = False, im_ProxyEnabled = False, im_ProxyURL = [], im_ModelAliasMapping = [], im_Remark = []\<rparr>"

definition dec_import :: "ImportItem decoder" where
  "dec_import = dec_struct (\<lambda>m z. do {
     a1 \<leftarrow> struct_field dec_string ''name'' m (im_Name z);
     a2 \<leftarrow> struct_field dec_string ''base_url'' m (im_BaseURL z);
     a3 \<leftarrow> struct_field dec_string ''access_token'' m (im_AccessToken z);
     a4 \<leftarrow> struct_field dec_number ''user_id'' m (im_UserID z);
     a5 \<leftarrow> struct_field dec_int ''status'' m (im_Status z);
     a6 \<leftarrow> struct_field dec_int ''priority'' m (im_Priority z);
     a7 \<leftarrow> struct_field dec_int ''weight'' m (im_Weight z);
     a8 \<leftarrow> struct_field dec_bool ''checkin_enabled'' m (im_CheckinEnabled z);
     a9 \<leftarrow> struct_field dec_bool ''proxy_enabled'' m (im_ProxyEnabled z);
     b1 \<leftarrow> struct_field dec_string ''proxy_url'' m (im_ProxyURL z);
     b2 \<leftarrow> struct_field (dec_map dec_string []) ''model_alias_mapping'' m (im_ModelAliasMapping z);
     b3 \<leftarrow> struct_field dec_string ''remark'' m (im_Remark z);
     Some \<lparr>im_Name = a1, im_BaseURL = a2, im_AccessToken = a3, im_UserID = a4, im_Status = a5, im_Priority = a6, im_Weight = a7,
       im_CheckinEnabled = a8, im_ProxyEnabled = a9, im_ProxyURL = b1, im_ModelAliasMapping = b2, im_Remark = b3\<rparr>})"

record import_counts =
  ic_created :: int
  ic_updated :: int
  ic_skipped :: int

definition import_provider :: "ImportItem \<Rightarrow> Provider" where
  \<comment> \<open>the new struct\<close>
  "import_provider item =
    zero_provider\<lparr>p_Name := im_Name item, p_BaseURL := im_BaseURL item, p_AccessToken := im_AccessToken item, p_UserID := AtoiValue (im_UserID item),
      p_Status := (if im_Status item = 0 then 1 else im_Status item), p_Priority := im_Priority item,
      p_Weight := (if im_Weight item = 0 then 10 else im_Weight item), p_CheckinEnabled := im_CheckinEnabled item,
      p_ProxyEnabled := im_ProxyEnabled item, p_ProxyURL := im_ProxyURL item,
      p_ModelAliasMapping := MarshalProviderAliasMapping (im_ModelAliasMapping item), p_Remark := im_Remark item\<rparr>"

definition import_over :: "ImportItem \<Rightarrow> Provider \<Rightarrow> Provider" where
  \<comment> \<open>the existing struct after the assignments\<close>
  "import_over item existing =
    existing\<lparr>p_Name := im_Name item, p_AccessToken := im_AccessToken item, p_Status := (if im_Status item = 0 then 1 else im_Status item),
      p_Priority := im_Priority item, p_Weight := (if im_Weight item = 0 then 10 else im_Weight item),
      p_CheckinEnabled := im_CheckinEnabled item, p_ProxyEnabled := im_ProxyEnabled item,
      p_ProxyURL := (if TrimSpace (im_ProxyURL item) \<noteq> [] then im_ProxyURL item else p_ProxyURL existing), p_Remark := im_Remark item,
      p_ModelAliasMapping := (if MarshalProviderAliasMapping (im_ModelAliasMapping item) \<noteq> []
        then MarshalProviderAliasMapping (im_ModelAliasMapping item) else p_ModelAliasMapping existing)\<rparr>"

definition import_skips :: "'u admin_env \<Rightarrow> ImportItem \<Rightarrow> bool" where
  "import_skips env item \<longleftrightarrow> im_Name item = [] \<or> im_BaseURL item = [] \<or> im_AccessToken item = []
     \<or> ValidateProviderProxyConfig (pe_parse_url (av_proxy env)) (im_ProxyEnabled item) (im_ProxyURL item) \<noteq> None"

definition import_step :: "'u admin_env \<Rightarrow> ImportItem \<Rightarrow> admin_world \<times> import_counts \<Rightarrow> admin_world \<times> import_counts" where
  "import_step env item = (\<lambda>(w, c).
    if import_skips env item then (w, c\<lparr>ic_skipped := ic_skipped c + 1\<rparr>)
    else case FindProviderByBaseURLAndUserID (im_BaseURL item) (AtoiValue (im_UserID item)) (am_db w) of
      Some existing \<Rightarrow> (write_routes (Provider_Update provider_updates (import_over item existing)) w, c\<lparr>ic_updated := ic_updated c + 1\<rparr>)
    | None \<Rightarrow> (write_db (\<lambda>d. snd (Provider_Insert provider_defaults (pe_now (av_proxy env)) (import_provider item) d)) w,
               c\<lparr>ic_created := ic_created c + 1\<rparr>))"

definition ImportProviders :: "'u admin_env \<Rightarrow> gostring \<Rightarrow> admin_world \<Rightarrow> (gw_error + import_counts) \<times> admin_world" where
  \<comment> \<open>the message of the answer gives the three counts\<close>
  "ImportProviders env body w =
    (case ShouldBindJSON (dec_list dec_import no_import) body [] of
       None \<Rightarrow> (Inl (ErrOther ''malformed JSON''), w)
     | Some items \<Rightarrow>
         (let (w, c) = fold (import_step env) items (w, \<lparr>ic_created = 0, ic_updated = 0, ic_skipped = 0\<rparr>)
          in (Inr c, if ic_created c > 0 \<or> ic_updated c > 0 then mark_dirty ''provider_import'' w else w)))"

subsection \<open>Changes\<close>

definition CreateProvider :: "'u admin_env \<Rightarrow> gostring \<Rightarrow> admin_world \<Rightarrow> (gw_error + unit) \<times> admin_world" where
  "CreateProvider env body w =
    (case ShouldBindJSON dec_provider body zero_provider of
       None \<Rightarrow> (Inl invalid_parameters, w)
     | Some provider \<Rightarrow>
         if p_Name provider = [] \<or> p_BaseURL provider = [] \<or> p_AccessToken provider = []
         then (Inl (ErrOther ''name, address and access token must not be empty''), w)
         else case ValidateProviderProxyConfig (pe_parse_url (av_proxy env)) (p_ProxyEnabled provider) (p_ProxyURL provider) of
           Some e \<Rightarrow> (Inl e, w)
         | None \<Rightarrow>
             if p_Id provider \<noteq> 0 \<and> (\<exists>r \<in> set (db_providers (am_db w)). p_Id r = p_Id provider) then (Inl ErrDb, w)
             else
               let (stored, d) = Provider_Insert provider_defaults (pe_now (av_proxy env)) provider (am_db w)
               in (Inr (), mark_dirty (''provider_create:'' @ Itoa (p_Id stored)) (write_db (\<lambda>_. d) w)))"

definition dec_switches :: "(bool option \<times> bool option) decoder" where
  "dec_switches = dec_struct (\<lambda>m z. do {
     a \<leftarrow> struct_field (dec_ptr dec_bool False) ''checkin_enabled'' m (fst z);
     b \<leftarrow> struct_field (dec_ptr dec_bool False) ''proxy_enabled'' m (snd z);
     Some (a, b)})"

definition kept_secrets :: "Provider \<Rightarrow> Provider \<Rightarrow> Provider" where
  \<comment> \<open>blank secrets of the request are those of the row\<close>
  "kept_secrets existing provider =
    provider\<lparr>p_AccessToken := (if TrimSpace (p_AccessToken provider) = [] then p_AccessToken existing else p_AccessToken provider),
      p_ProxyURL := (if TrimSpace (p_ProxyURL provider) = [] then p_ProxyURL existing else p_ProxyURL provider)\<rparr>"

definition set_switches :: "int \<Rightarrow> bool option \<times> bool option \<Rightarrow> db \<Rightarrow> db" where
  "set_switches i = (\<lambda>(checkin, proxy) d.
    let d = (case checkin of None \<Rightarrow> d
             | Some b \<Rightarrow> (case UpdateCheckinEnabled b (zero_provider\<lparr>p_Id := i\<rparr>) d of Inl e \<Rightarrow> d | Inr d \<Rightarrow> d))
    in case proxy of None \<Rightarrow> d
       | Some b \<Rightarrow> d\<lparr>db_providers := row_update (\<lambda>r. p_Id r = i) (p_ProxyEnabled_update (\<lambda>_. b)) (db_providers d)\<rparr>)"

definition UpdateProvider :: "'u admin_env \<Rightarrow> gostring \<Rightarrow> admin_world \<Rightarrow> (gw_error + unit) \<times> admin_world" where
  "UpdateProvider env rawBody w =
    (case json_unmarshal dec_provider rawBody zero_provider of
       None \<Rightarrow> (Inl invalid_parameters, w)
     | Some provider \<Rightarrow>
         if p_Id provider = 0 then (Inl invalid_parameters, w)
         else case GetProviderById (p_Id provider) (am_db w) of
           Inl e \<Rightarrow> (Inl no_provider, w)
         | Inr existing \<Rightarrow>
             (case json_unmarshal dec_switches rawBody (None, None) of
                None \<Rightarrow> (Inl invalid_parameters, w)
              | Some switches \<Rightarrow>
                  (let provider = kept_secrets existing provider in
                   case ValidateProviderProxyConfig (pe_parse_url (av_proxy env)) (p_ProxyEnabled provider) (p_ProxyURL provider) of
                     Some e \<Rightarrow> (Inl e, w)
                   | None \<Rightarrow>
                       (Inr (), mark_dirty (''provider_update:'' @ Itoa (p_Id provider))
                          (write_db (set_switches (p_Id provider) switches) (write_routes (Provider_Update provider_updates provider) w))))))"

definition DeleteProvider :: "gostring \<Rightarrow> admin_world \<Rightarrow> (gw_error + unit) \<times> admin_world" where
  "DeleteProvider param w =
    (case Atoi param of
       None \<Rightarrow> (Inl invalid_id, w)
     | Some i \<Rightarrow>
         (case Provider_Delete (zero_provider\<lparr>p_Id := i\<rparr>) (am_db w) of
            Inl e \<Rightarrow> (Inl e, w)
          | Inr d \<Rightarrow> (Inr (), mark_dirty (''provider_delete:'' @ Itoa i) (write_routes (\<lambda>_. d) w))))"

definition GetProviderModelAliasMapping :: "gostring \<Rightarrow> admin_world \<Rightarrow> gw_error + (gostring, gostring) gomap" where
  "GetProviderModelAliasMapping param w = map_sum id (\<lambda>p. ParseProviderAliasMapping (p_ModelAliasMapping p)) (provider_of_path param (am_db w))"

definition dec_alias_request :: "(gostring, gostring) gomap decoder" where
  "dec_alias_request = dec_struct (\<lambda>m z. struct_field (dec_map dec_string []) ''model_alias_mapping'' m z)"

definition UpdateProviderModelAliasMapping :: "gostring \<Rightarrow> gostring \<Rightarrow> admin_world \<Rightarrow> (gw_error + (gostring, gostring) gomap) \<times> admin_world" where
  "UpdateProviderModelAliasMapping param body w =
    (case provider_of_path param (am_db w) of
       Inl e \<Rightarrow> (Inl e, w)
     | Inr provider \<Rightarrow>
         (case ShouldBindJSON dec_alias_request body [] of
            None \<Rightarrow> (Inl invalid_parameters, w)
          | Some mapping \<Rightarrow>
              (let payload = MarshalProviderAliasMapping mapping
               in (Inr (ParseProviderAliasMapping payload),
                   mark_dirty (''provider_alias_mapping_update:'' @ Itoa (p_Id provider)) (write_routes (UpdateModelAliasMapping payload provider) w)))))"

subsection \<open>Tokens at the upstream\<close>

definition buildProviderTokenCreateMessage :: "ProviderTokenCreateOutcome option \<Rightarrow> gostring" where
  "buildProviderTokenCreateMessage outcome =
    (let later = ''created at the upstream, plaintext key not recovered yet'' in
     case outcome of
       None \<Rightarrow> later
     | Some out \<Rightarrow>
         if co_KeyStatus out = ''ready'' then ''created at the upstream, key synchronised''
         else let reason = TrimSpace (co_KeyUnresolvedReason out) in
           if reason = ''key_endpoint_unavailable'' then ''created at the upstream, which has no endpoint for the plaintext key''
           else if reason = ''key_endpoint_unauthorized'' then ''created at the upstream, plaintext key not authorised''
           else if reason = ''key_endpoint_request_failed'' then ''created at the upstream, request for the plaintext key failed''
           else later)"

definition dec_token_request :: "(gostring \<times> gostring \<times> bool \<times> int \<times> gostring) decoder" where
  "dec_token_request = dec_struct (\<lambda>m (a, b, c, e, f). do {
     a \<leftarrow> struct_field dec_string ''name'' m a;
     b \<leftarrow> struct_field dec_string ''group_name'' m b;
     c \<leftarrow> struct_field dec_bool ''unlimited_quota'' m c;
     e \<leftarrow> struct_field dec_int ''remain_quota'' m e;
     f \<leftarrow> struct_field dec_string ''model_limits'' m f;
     Some (a, b, c, e, f)})"

definition CreateProviderToken :: "'u admin_env \<Rightarrow> 'u upstream \<Rightarrow> gostring \<Rightarrow> gostring \<Rightarrow> admin_world \<times> 'u
   \<Rightarrow> ((gw_error + (gostring \<times> ProviderTokenCreateOutcome)) \<times> admin_world \<times> 'u) option" where
  \<comment> \<open>\<open>None\<close>: the upstream never stops sending pages\<close>
  "CreateProviderToken env net param body = (\<lambda>(w, u).
    case provider_of_path param (am_db w) of
      Inl e \<Rightarrow> Some (Inl e, w, u)
    | Inr provider \<Rightarrow>
        (case ShouldBindJSON dec_token_request body ([], [], False, 0, []) of
           None \<Rightarrow> Some (Inl invalid_parameters, w, u)
         | Some (name, grp, unlimitedQuota, remainQuota, modelLimits) \<Rightarrow>
             (let grp = TrimSpace grp; availableGroups = getProviderAvailableGroups (p_Id provider) (am_db w) in
              if grp = [] then Some (Inl (ErrOther ''empty group''), w, u)
              else if availableGroups = [] then Some (Inl (ErrOther ''no groups, synchronise first''), w, u)
              else if grp \<notin> set availableGroups then Some (Inl (ErrOther ''not a group of this provider''), w, u)
              else case CreateProviderTokenWithReconciliation (av_sync env) net provider name grp unlimitedQuota remainQuota modelLimits (am_world w, u) of
                None \<Rightarrow> None
              | Some (Inl e, s, u) \<Rightarrow> Some (Inl (ErrOther (up_error_text e)), w\<lparr>am_world := s\<rparr>, u)
              | Some (Inr out, s, u) \<Rightarrow>
                  Some (Inr (buildProviderTokenCreateMessage (Some out), out),
                    mark_dirty (''provider_token_create_upstream:'' @ Itoa (p_Id provider)) (w\<lparr>am_world := s\<rparr>), u))))"

definition zero_token :: ProviderToken where
  "zero_token = \<lparr>pt_Id = 0, pt_ProviderId = 0, pt_UpstreamTokenId = 0, pt_SkKey = [], pt_KeyStatus = [], pt_KeyUnresolvedReason = [], pt_Name = [],
     pt_GroupName = [], pt_Status = 0, pt_Priority = 0, pt_Weight = 0, pt_RemainQuota = 0, pt_UnlimitedQuota = False, pt_UsedQuota = 0,
     pt_ModelLimits = [], pt_LastSynced = 0, pt_CreatedAt = 0\<rparr>"

definition dec_provider_token :: "ProviderToken decoder" where
  "dec_provider_token = dec_struct (\<lambda>m t. do {
     a1 \<leftarrow> struct_field dec_int ''id'' m (pt_Id t);
     a2 \<leftarrow> struct_field dec_int ''provider_id'' m (pt_ProviderId t);
     a3 \<leftarrow> struct_field dec_int ''upstream_token_id'' m (pt_UpstreamTokenId t);
     a4 \<leftarrow> struct_field dec_string ''sk_key'' m (pt_SkKey t);
     a5 \<leftarrow> struct_field dec_string ''key_status'' m (pt_KeyStatus t);
     a6 \<leftarrow> struct_field dec_string ''key_unresolved_reason'' m (pt_KeyUnresolvedReason t);
     a7 \<leftarrow> struct_field dec_string ''name'' m (pt_Name t);
     a8 \<leftarrow> struct_field dec_string ''group_name'' m (pt_GroupName t);
     a9 \<leftarrow> struct_field dec_int ''status'' m (pt_Status t);
     b1 \<leftarrow> struct_field dec_int ''priority'' m (pt_Priority t);
     b2 \<leftarrow> struct_field dec_int ''weight'' m (pt_Weight t);
     b3 \<leftarrow> struct_field dec_int ''remain_quota'' m (pt_RemainQuota t);
     b4 \<leftarrow> struct_field dec_bool ''unlimited_quota'' m (pt_UnlimitedQuota t);
     b5 \<leftarrow> struct_field dec_int ''used_quota'' m (pt_UsedQuota t);
     b6 \<leftarrow> struct_field dec_string ''model_limits'' m (pt_ModelLimits t);
     b7 \<leftarrow> struct_field dec_int ''last_synced'' m (pt_LastSynced t);
     b8 \<leftarrow> struct_field dec_int ''created_at'' m (pt_CreatedAt t);
     Some \<lparr>pt_Id = a1, pt_ProviderId = a2, pt_UpstreamTokenId = a3, pt_SkKey = a4, pt_KeyStatus = a5, pt_KeyUnresolvedReason = a6, pt_Name = a7,
       pt_GroupName = a8, pt_Status = a9, pt_Priority = b1, pt_Weight = b2, pt_RemainQuota = b3, pt_UnlimitedQuota = b4, pt_UsedQuota = b5,
       pt_ModelLimits = b6, pt_LastSynced = b7, pt_CreatedAt = b8\<rparr>})"

definition UpdateProviderToken :: "gostring \<Rightarrow> gostring \<Rightarrow> admin_world \<Rightarrow> (gw_error + unit) \<times> admin_world" where
  "UpdateProviderToken param body w =
    (case Atoi param of
       None \<Rightarrow> (Inl invalid_id, w)
     | Some tokenId \<Rightarrow>
         (case ShouldBindJSON dec_provider_token body zero_token of
            None \<Rightarrow> (Inl invalid_parameters, w)
          | Some token \<Rightarrow>
              (Inr (), mark_dirty (''provider_token_update:'' @ Itoa tokenId) (write_routes (UpdateMetadataOnly (token\<lparr>pt_Id := tokenId\<rparr>)) w))))"

definition NewUpstreamClient :: "gostring \<Rightarrow> gostring \<Rightarrow> int \<Rightarrow> UpstreamClient" where
  \<comment> \<open>a client that knows of no provider and of no proxy\<close>
  "NewUpstreamClient baseURL accessToken userID =
    \<lparr>uc_BaseURL = baseURL, uc_AccessToken = accessToken, uc_UserID = userID, uc_Provider = None, uc_HTTPClient = DirectClient\<rparr>"

definition delete_upstream :: "'u admin_env \<Rightarrow> 'u upstream \<Rightarrow> ProviderToken \<Rightarrow> db \<Rightarrow> 'u \<Rightarrow> gw_error option \<times> 'u" where
  \<comment> \<open>the part of the handler that speaks to the upstream\<close>
  "delete_upstream env net token d u =
    (if pt_UpstreamTokenId token > 0 then
       (case GetProviderById (pt_ProviderId token) d of
          Inl e \<Rightarrow> (Some no_provider, u)
        | Inr provider \<Rightarrow>
            (case DeleteUpstreamToken (av_proxy env) net (NewUpstreamClient (p_BaseURL provider) (p_AccessToken provider) (p_UserID provider))
                 (pt_UpstreamTokenId token) u of
               (Some e, u) \<Rightarrow> (Some (ErrOther (up_error_text e)), u)
             | (None, u) \<Rightarrow> (None, u)))
     else (None, u))"

definition DeleteProviderToken :: "'u admin_env \<Rightarrow> 'u upstream \<Rightarrow> gostring \<Rightarrow> admin_world \<times> 'u \<Rightarrow> (gw_error + unit) \<times> admin_world \<times> 'u" where
  "DeleteProviderToken env net param = (\<lambda>(w, u).
    case Atoi param of
      None \<Rightarrow> (Inl invalid_id, w, u)
    | Some tokenId \<Rightarrow>
        (case GetProviderTokenById tokenId (am_db w) of
           Inl e \<Rightarrow> (Inl (ErrOther ''no such token''), w, u)
         | Inr token \<Rightarrow>
             (case delete_upstream env net token (am_db w) u of
                (Some e, u) \<Rightarrow> (Inl e, w, u)
              | (None, u) \<Rightarrow> (Inr (), mark_dirty (''provider_token_delete:'' @ Itoa (pt_Id token)) (write_routes (Token_Delete token) w), u))))"

end
