(* ===== verification/ProviderAdminCorrect.thy ===== *)
theory ProviderAdminCorrect
  imports ProviderAdmin SyncCorrect
begin

text \<open>
  What the administration of providers keeps: an import leaves one row per account and can be repeated, blank secrets of
  an update do not erase stored ones, a token is forgotten only after its upstream has deleted it, and the groups offered
  for a new token are those that are accepted.
\<close>

subsection \<open>Imports\<close>

definition accounts :: "db \<Rightarrow> (gostring \<times> int) list" where
  "accounts d = map (\<lambda>p. (p_BaseURL p, p_UserID p)) (db_providers d)"

definition one_row_per_account :: "db \<Rightarrow> bool" where
  "one_row_per_account d \<longleftrightarrow> distinct (accounts d) \<and> distinct (map p_Id (db_providers d))"

definition item_account :: "ImportItem \<Rightarrow> gostring \<times> int" where
  "item_account item = (im_BaseURL item, AtoiValue (im_UserID item))"

lemma am_db_simps [simp]:
  "am_db (write_db f w) = f (am_db w)" "am_db (write_routes f w) = f (am_db w)" "am_db (mark_dirty r w) = am_db w"
  by (simp_all add: write_db_def write_routes_def mark_dirty_def on_tables_def write_through_def)

lemma find_account:
  "FindProviderByBaseURLAndUserID b i d = Some p \<Longrightarrow> p \<in> set (db_providers d) \<and> p_BaseURL p = b \<and> p_UserID p = i"
  "FindProviderByBaseURLAndUserID b i d = None \<longleftrightarrow> (b, i) \<notin> set (accounts d)"
  by (auto simp: FindProviderByBaseURLAndUserID_def accounts_def find_Some_iff find_None_iff)

lemma provider_updates_simps [simp]:
  "p_Id (provider_updates p old) = p_Id old"
  "p_BaseURL (provider_updates p old) = nonzero [] (p_BaseURL p) (p_BaseURL old)"
  "p_UserID (provider_updates p old) = nonzero 0 (p_UserID p) (p_UserID old)"
  "p_AccessToken (provider_updates p old) = nonzero [] (p_AccessToken p) (p_AccessToken old)"
  "p_ProxyURL (provider_updates p old) = nonzero [] (p_ProxyURL p) (p_ProxyURL old)"
  "p_CheckinEnabled (provider_updates p old) = nonzero False (p_CheckinEnabled p) (p_CheckinEnabled old)"
  "p_ProxyEnabled (provider_updates p old) = nonzero False (p_ProxyEnabled p) (p_ProxyEnabled old)"
  by (simp_all add: provider_updates_def)

lemma import_over_simps [simp]:
  "p_Id (import_over item p) = p_Id p" "p_BaseURL (import_over item p) = p_BaseURL p" "p_UserID (import_over item p) = p_UserID p"
  by (simp_all add: import_over_def)

lemma nonzero_same [simp]: "nonzero z x x = x"
  by (simp add: nonzero_def)

lemma import_over_keeps:
  assumes "one_row_per_account d" and "p \<in> set (db_providers d)"
  shows "accounts (Provider_Update provider_updates (import_over item p) d) = accounts d"
    and "map p_Id (db_providers (Provider_Update provider_updates (import_over item p) d)) = map p_Id (db_providers d)"
proof -
  have "r = p" if "r \<in> set (db_providers d)" "p_Id r = p_Id p" for r
    using assms that by (auto simp: one_row_per_account_def distinct_map inj_on_def)
  then have "nonzero [] (p_BaseURL p) (p_BaseURL r) = p_BaseURL r \<and> nonzero 0 (p_UserID p) (p_UserID r) = p_UserID r"
    if "r \<in> set (db_providers d)" "p_Id r = p_Id p" for r using that by fastforce
  then show "accounts (Provider_Update provider_updates (import_over item p) d) = accounts d"
    and "map p_Id (db_providers (Provider_Update provider_updates (import_over item p) d)) = map p_Id (db_providers d)"
    by (auto simp: accounts_def Provider_Update_def row_update_def)
qed

lemma inserted_account:
  "accounts (snd (Provider_Insert provider_defaults now (import_provider item) d)) = accounts d @ [item_account item]"
  "map p_Id (db_providers (snd (Provider_Insert provider_defaults now (import_provider item) d))) =
   map p_Id (db_providers d) @ [next_row_id p_Id (db_providers d)]"
  by (simp_all add: accounts_def Provider_Insert_def Let_def import_provider_def provider_defaults_def stored_columns_def zero_provider_def item_account_def)

lemma import_step_spec:
  assumes "one_row_per_account (am_db w)" and "import_step env item (w, c) = (w', c')"
  shows "one_row_per_account (am_db w')"
    and "set (accounts (am_db w')) = set (accounts (am_db w)) \<union> (if import_skips env item then {} else {item_account item})"
    and "int (length (accounts (am_db w'))) - ic_created c' = int (length (accounts (am_db w))) - ic_created c"
    and "ic_skipped c' = ic_skipped c + (if import_skips env item then 1 else 0)"
    and "ic_created c' + ic_updated c' + ic_skipped c' = ic_created c + ic_updated c + ic_skipped c + 1"
proof -
  let ?found = "FindProviderByBaseURLAndUserID (im_BaseURL item) (AtoiValue (im_UserID item)) (am_db w)"
  have "one_row_per_account (am_db w') \<and> set (accounts (am_db w')) = set (accounts (am_db w)) \<union> (if import_skips env item then {} else {item_account item})
    \<and> int (length (accounts (am_db w'))) - ic_created c' = int (length (accounts (am_db w))) - ic_created c
    \<and> ic_skipped c' = ic_skipped c + (if import_skips env item then 1 else 0)
    \<and> ic_created c' + ic_updated c' + ic_skipped c' = ic_created c + ic_updated c + ic_skipped c + 1"
  proof (cases "import_skips env item")
    case True
    with assms show ?thesis by (auto simp: import_step_def)
  next
    case ns: False
    show ?thesis
    proof (cases ?found)
      case None
      then have "item_account item \<notin> set (accounts (am_db w))" by (simp add: find_account(2) item_account_def)
      moreover have "next_row_id p_Id (db_providers (am_db w)) \<notin> set (map p_Id (db_providers (am_db w)))"
        using next_row_id_fresh [of _ "db_providers (am_db w)" p_Id] by fastforce
      ultimately show ?thesis using assms ns None by (auto simp: import_step_def inserted_account one_row_per_account_def)
    next
      case (Some p)
      from find_account(1) [OF Some] have p: "p \<in> set (db_providers (am_db w))" "item_account item = (p_BaseURL p, p_UserID p)"
        by (simp_all add: item_account_def)
      then have "item_account item \<in> set (accounts (am_db w))" by (auto simp: accounts_def)
      with assms ns Some p(1) show ?thesis
        by (auto simp: import_step_def import_over_keeps one_row_per_account_def)
    qed
  qed
  then show "one_row_per_account (am_db w')"
    and "set (accounts (am_db w')) = set (accounts (am_db w)) \<union> (if import_skips env item then {} else {item_account item})"
    and "int (length (accounts (am_db w'))) - ic_created c' = int (length (accounts (am_db w))) - ic_created c"
    and "ic_skipped c' = ic_skipped c + (if import_skips env item then 1 else 0)"
    and "ic_created c' + ic_updated c' + ic_skipped c' = ic_created c + ic_updated c + ic_skipped c + 1" by blast+
qed

lemma import_fold_spec:
  "one_row_per_account (am_db w) \<Longrightarrow> fold (import_step env) items (w, c) = (w', c') \<Longrightarrow>
   one_row_per_account (am_db w')
   \<and> set (accounts (am_db w')) = set (accounts (am_db w)) \<union> item_account ` {i \<in> set items. \<not> import_skips env i}
   \<and> int (length (accounts (am_db w'))) - ic_created c' = int (length (accounts (am_db w))) - ic_created c
   \<and> ic_skipped c' = ic_skipped c + int (length (filter (import_skips env) items))
   \<and> ic_created c' + ic_updated c' + ic_skipped c' = ic_created c + ic_updated c + ic_skipped c + int (length items)"
proof (induction items arbitrary: w c)
  case (Cons item items)
  obtain w1 c1 where s: "import_step env item (w, c) = (w1, c1)" by fastforce
  note sp = import_step_spec [OF Cons.prems(1) s]
  have "fold (import_step env) items (w1, c1) = (w', c')" using Cons.prems(2) s by simp
  from Cons.IH [OF sp(1) this] sp(2-) show ?case by auto
qed auto

lemma ImportProviders_Inr:
  assumes "ImportProviders env body w = (Inr c, w')"
  obtains items w1 where "ShouldBindJSON (dec_list dec_import no_import) body [] = Some items"
    "fold (import_step env) items (w, \<lparr>ic_created = 0, ic_updated = 0, ic_skipped = 0\<rparr>) = (w1, c)" "am_db w' = am_db w1"
  using assms by (auto simp: ImportProviders_def Let_def split: option.splits prod.splits if_splits)

text \<open>
  C39: An import keeps one provider per address and upstream user. Every item of the file is counted once as created,
  updated or skipped, those skipped are the items that \<open>import_skips\<close> turns down, afterwards there is a provider for each
  account there was before and each account of an item that was not skipped, the number of providers grows by those
  created, and importing the same file again creates nothing and skips the same items.
\<close>

theorem import_keeps_accounts:
  assumes "one_row_per_account (am_db w)" and "ImportProviders env body w = (Inr c, w')"
  shows "one_row_per_account (am_db w')
    \<and> int (length (db_providers (am_db w'))) = int (length (db_providers (am_db w))) + ic_created c
    \<and> (\<exists>items. ShouldBindJSON (dec_list dec_import no_import) body [] = Some items
         \<and> ic_created c + ic_updated c + ic_skipped c = int (length items)
         \<and> ic_skipped c = int (length (filter (import_skips env) items))
         \<and> set (accounts (am_db w')) = set (accounts (am_db w)) \<union> item_account ` {i \<in> set items. \<not> import_skips env i})
    \<and> (\<exists>c' w''. ImportProviders env body w' = (Inr c', w'') \<and> ic_created c' = 0 \<and> ic_skipped c' = ic_skipped c
           \<and> ic_updated c' = ic_created c + ic_updated c)"
proof -
  let ?z = "\<lparr>ic_created = 0, ic_updated = 0, ic_skipped = 0\<rparr> :: import_counts"
  from assms(2) obtain items w1 where i: "ShouldBindJSON (dec_list dec_import no_import) body [] = Some items"
    "fold (import_step env) items (w, ?z) = (w1, c)" "am_db w' = am_db w1" by (rule ImportProviders_Inr)
  note one = import_fold_spec [OF assms(1) i(2)]
  obtain w2 c2 where s: "fold (import_step env) items (w', ?z) = (w2, c2)" by fastforce
  have u: "one_row_per_account (am_db w')" using one by (simp add: i(3))
  note two = import_fold_spec [OF this s]
  have "set (accounts (am_db w2)) = set (accounts (am_db w'))" using one two by (auto simp: i(3))
  then have "length (accounts (am_db w2)) = length (accounts (am_db w'))"
    using u two by (metis distinct_card one_row_per_account_def)
  then have "ic_created c2 = 0 \<and> ic_skipped c2 = ic_skipped c \<and> ic_updated c2 = ic_created c + ic_updated c"
    using one two by auto
  moreover have "\<exists>w''. ImportProviders env body w' = (Inr c2, w'')" using i(1) s by (auto simp: ImportProviders_def Let_def)
  ultimately have "\<exists>c' w''. ImportProviders env body w' = (Inr c', w'') \<and> ic_created c' = 0 \<and> ic_skipped c' = ic_skipped c
           \<and> ic_updated c' = ic_created c + ic_updated c" by blast
  moreover have "set (accounts (am_db w')) = set (accounts (am_db w)) \<union> item_account ` {i \<in> set items. \<not> import_skips env i}"
    using one by (simp add: i(3))
  moreover have "int (length (db_providers (am_db w'))) = int (length (db_providers (am_db w))) + ic_created c"
    using one by (simp add: i(3) accounts_def)
  ultimately show ?thesis using one u i(1) by simp
qed

text \<open>An exported provider with a mapping cannot be imported: the export writes the mapping as a text and the import reads an object.\<close>

lemma export_with_mapping_is_refused:
  "dec_import (export_json (export_item (\<lambda>_. None) (sample_provider\<lparr>p_ModelAliasMapping := ''{}''\<rparr>))) no_import = None"
  "dec_import (export_json (export_item (\<lambda>_. None) sample_provider)) no_import \<noteq> None"
  by code_simp+

subsection \<open>Groups\<close>

interpretation token_options: strict_weak option_before
proof unfold_locales
  fix a b c :: tokenGroupOption
  show "option_before a b \<Longrightarrow> \<not> option_before b a" by (auto simp: option_before_def split: if_splits)
  show "\<not> option_before a b \<Longrightarrow> \<not> option_before b c \<Longrightarrow> \<not> option_before a c" by (auto simp: option_before_def split: if_splits)
qed

lemma option_names: "mset (map go_GroupName (buildTokenGroupOptions gs ratio)) = mset gs"
proof -
  have "go_GroupName \<circ> group_option ratio = id" by (auto simp: group_option_def Let_def)
  then show ?thesis by (simp add: buildTokenGroupOptions_def multiset.map_comp)
qed

lemma first_pick_available: "first_pick gs cs \<noteq> [] \<Longrightarrow> first_pick gs cs \<in> set gs"
  by (induction cs) (auto simp: pickAvailableGroup_def Let_def split: if_splits)

lemma available_groups_nonempty: "[] \<notin> set (collectProviderAvailableGroups pricing)"
  by (auto simp: collectProviderAvailableGroups_def parseEnableGroupsJSON_def split: option.splits if_splits)

lemma default_available:
  assumes "options = buildTokenGroupOptions gs ratio" and "gs \<noteq> []"
  shows "resolveDefaultGroupFromUsable usable i gs options \<in> set gs"
proof -
  from option_names [of gs ratio] have n: "set (map go_GroupName options) = set gs" unfolding assms(1) by (metis set_mset_mset)
  with assms(2) obtain x xs where "options = x # xs" by (cases options) auto
  with n assms(2) first_pick_available [of gs] show ?thesis by (auto simp: resolveDefaultGroupFromUsable_def)
qed

text \<open>
  C40: The groups offered for a new token are those that are accepted: no group is offered twice, the cheapest comes
  first, a default is named whenever there is a group and is one of them, and a request for any other group is refused
  without a call to the upstream and without a change.
\<close>

theorem offered_groups_are_accepted:
  assumes "GetProviderPricing param w = Inr a"
  shows "distinct (map go_GroupName (pa_token_group_options a)) \<and> sorted_wrt (\<lambda>x y. go_Ratio x \<le> go_Ratio y) (pa_token_group_options a)
    \<and> (if pa_token_group_options a = [] then pa_default_group a = [] else pa_default_group a \<in> set (map go_GroupName (pa_token_group_options a)))
    \<and> (case ShouldBindJSON dec_token_request body ([], [], False, 0, []) of
         None \<Rightarrow> CreateProviderToken env net param body (w, u) = Some (Inl invalid_parameters, w, u)
       | Some (name, grp, _, _, _) \<Rightarrow>
           if TrimSpace grp \<in> set (map go_GroupName (pa_token_group_options a)) then True
           else \<exists>e. CreateProviderToken env net param body (w, u) = Some (Inl e, w, u))"
proof -
  obtain p where p: "provider_of_path param (am_db w) = Inr p" using assms by (cases "provider_of_path param (am_db w)") (auto simp: GetProviderPricing_def)
  let ?gs = "getProviderAvailableGroups (p_Id p) (am_db w)"
  obtain ratio usable where a: "pa_token_group_options a = buildTokenGroupOptions ?gs ratio"
    "pa_default_group a = resolveDefaultGroupFromUsable usable (p_UserID p) ?gs (pa_token_group_options a)"
    using assms p by (auto simp: GetProviderPricing_def getProviderAvailableGroups_def Let_def)
  have names: "set (map go_GroupName (pa_token_group_options a)) = set ?gs" unfolding a(1) by (metis option_names set_mset_mset)
  have "distinct ?gs" by (simp add: getProviderAvailableGroups_def collectProviderAvailableGroups_def)
  then have "distinct (map go_GroupName (pa_token_group_options a))" unfolding a(1) by (metis option_names mset_eq_imp_distinct_iff)
  moreover have "sorted_wrt (\<lambda>x y. go_Ratio x \<le> go_Ratio y) (pa_token_group_options a)"
    unfolding a(1) buildTokenGroupOptions_def
    by (rule sorted_wrt_mono_rel [OF _ token_options.sort_by_sorted]) (auto simp: option_before_def split: if_splits)
  moreover have "if pa_token_group_options a = [] then pa_default_group a = [] else pa_default_group a \<in> set (map go_GroupName (pa_token_group_options a))"
    using names default_available [OF a(1)] a(2) by (auto simp: resolveDefaultGroupFromUsable_def)
  moreover have "\<exists>e. CreateProviderToken env net param body (w, u) = Some (Inl e, w, u)"
    if "ShouldBindJSON dec_token_request body ([], [], False, 0, []) = Some (name, grp, r)" "TrimSpace grp \<notin> set ?gs" for name grp r
    using that p by (cases r) (auto simp: CreateProviderToken_def Let_def)
  ultimately show ?thesis using p unfolding names by (auto simp: CreateProviderToken_def split: option.splits)
qed

subsection \<open>Deleted tokens\<close>

text \<open>
  A token is forgotten only after its upstream has deleted it: if the deletion of a token with an upstream identifier
  is not confirmed nothing changes, and otherwise the token and every route over it are gone.
\<close>

theorem deleted_token_is_gone:
  "case DeleteProviderToken env net param (w, u) of (r, w', u') \<Rightarrow>
    (case r of
       Inl e \<Rightarrow> w' = w
     | Inr _ \<Rightarrow> (\<exists>i token. Atoi param = Some i \<and> GetProviderTokenById i (am_db w) = Inr token
         \<and> i \<notin> pt_Id ` set (db_tokens (am_db w')) \<and> i \<notin> mr_ProviderTokenId ` set (db_routes (am_db w'))
         \<and> (if pt_UpstreamTokenId token > 0
            then \<exists>p. GetProviderById (pt_ProviderId token) (am_db w) = Inr p
                   \<and> fst (DeleteUpstreamToken (av_proxy env) net (NewUpstreamClient (p_BaseURL p) (p_AccessToken p) (p_UserID p))
                       (pt_UpstreamTokenId token) u) = None
            else u' = u)))"
proof -
  have i: "pt_Id token = i" if "GetProviderTokenById i d = Inr token" for i d token
    using that by (auto simp: GetProviderTokenById_def find_Some_iff split: if_splits option.splits)
  obtain r w' u' where D: "DeleteProviderToken env net param (w, u) = (r, w', u')" by (metis surj_pair)
  show ?thesis
  proof (cases r)
    case (Inl e)
    with D show ?thesis by (auto simp: DeleteProviderToken_def split: option.splits sum.splits prod.splits)
  next
    case (Inr x)
    then obtain k token where t: "Atoi param = Some k" "GetProviderTokenById k (am_db w) = Inr token"
      "delete_upstream env net token (am_db w) u = (None, u')" "am_db w' = Token_Delete token (am_db w)"
      using D by (auto simp: DeleteProviderToken_def split: option.splits sum.splits prod.splits)
    from i [OF t(2)] have "k \<notin> pt_Id ` set (db_tokens (am_db w')) \<and> k \<notin> mr_ProviderTokenId ` set (db_routes (am_db w'))"
      by (auto simp: t(4) Token_Delete_def row_delete_def)
    moreover have "if pt_UpstreamTokenId token > 0
        then \<exists>p. GetProviderById (pt_ProviderId token) (am_db w) = Inr p
               \<and> fst (DeleteUpstreamToken (av_proxy env) net (NewUpstreamClient (p_BaseURL p) (p_AccessToken p) (p_UserID p))
                   (pt_UpstreamTokenId token) u) = None
        else u' = u"
      using t(3) by (auto simp: delete_upstream_def split: sum.splits prod.splits option.splits if_splits)
    ultimately show ?thesis using t(1,2) D Inr by auto
  qed
qed

subsection \<open>A sample administration\<close>

definition sample_admin_env :: "int admin_env" where
  "sample_admin_env = \<lparr>av_sync = sample_sync_env, av_checkin = sample_checkin_env, av_location = UTC\<rparr>"

definition sample_admin_world :: admin_world where
  "sample_admin_world =
    \<lparr>am_world = sample_world, am_tables = \<lparr>ct_runs = [], ct_items = []\<rparr>, am_notify = \<lparr>nt_alerts = [], nt_queue = []\<rparr>, am_lastRunDay = [],
     am_running = False, am_dirty = []\<rparr>"

definition sample_import :: gostring where
  "sample_import = quoted ''[{`name`:`b`,`base_url`:`https://b`,`access_token`:`t`,`user_id`:7},{`name`:`c`}]''"

theorem import_keeps_accounts_witness:
  "case ImportProviders sample_admin_env sample_import sample_admin_world of (r, w) \<Rightarrow>
     r = Inr \<lparr>ic_created = 1, ic_updated = 0, ic_skipped = 1\<rparr> \<and> length (db_providers (am_db w)) = 2
     \<and> fst (ImportProviders sample_admin_env sample_import w) = Inr \<lparr>ic_created = 0, ic_updated = 1, ic_skipped = 1\<rparr>"
proof -
  have one: "one_row_per_account (am_db sample_admin_world)" by code_simp
  have c: "fst (ImportProviders sample_admin_env sample_import sample_admin_world) = Inr \<lparr>ic_created = 1, ic_updated = 0, ic_skipped = 1\<rparr>"
    by code_simp
  have n: "length (db_providers (am_db sample_admin_world)) = 1" by code_simp
  obtain w where w: "ImportProviders sample_admin_env sample_import sample_admin_world = (Inr \<lparr>ic_created = 1, ic_updated = 0, ic_skipped = 1\<rparr>, w)"
    using c by (cases "ImportProviders sample_admin_env sample_import sample_admin_world") auto
  from import_keeps_accounts [OF one w] obtain c' w'' where "length (db_providers (am_db w)) = 2"
    "ImportProviders sample_admin_env sample_import w = (Inr c', w'')" "ic_created c' = 0" "ic_skipped c' = 1" "ic_updated c' = 1"
    using n by auto
  then show ?thesis using w by (cases c') simp
qed

definition priced_admin_world :: admin_world where
  "priced_admin_world = write_db (\<lambda>d. d\<lparr>db_pricings := [\<lparr>mp_Id = 1, mp_ModelName = ''m'', mp_ProviderId = p_Id sample_provider, mp_QuotaType = 0,
     mp_ModelRatio = 1, mp_CompletionRatio = 1, mp_ModelPrice = 0, mp_EnableGroups = quoted ''[`default`,`vip`]'', mp_SupportedEndpointTypes = [], mp_LastSynced = 0\<rparr>]\<rparr>)
     sample_admin_world"

theorem offered_groups_are_accepted_witness:
  "\<exists>a. GetProviderPricing ''7'' priced_admin_world = Inr a \<and> distinct (map go_GroupName (pa_token_group_options a))
     \<and> pa_default_group a = ''default'' \<and> map go_GroupName (pa_token_group_options a) = [''default'', ''vip'']
     \<and> (\<exists>e. CreateProviderToken sample_admin_env sample_checkin_upstream ''7'' (quoted ''{`name`:`n`,`group_name`:`other`}'')
           (priced_admin_world, 0) = Some (Inl e, priced_admin_world, 0))"
proof -
  have d: "map_sum (\<lambda>_. ()) (\<lambda>a. (pa_default_group a, map go_GroupName (pa_token_group_options a))) (GetProviderPricing ''7'' priced_admin_world)
      = Inr (''default'', [''default'', ''vip''])" by code_simp
  then obtain a where a: "GetProviderPricing ''7'' priced_admin_world = Inr a" "pa_default_group a = ''default''"
    "map go_GroupName (pa_token_group_options a) = [''default'', ''vip'']"
    by (cases "GetProviderPricing ''7'' priced_admin_world") auto
  have r: "ShouldBindJSON dec_token_request (quoted ''{`name`:`n`,`group_name`:`other`}'') ([], [], False, 0, []) = Some (''n'', ''other'', False, 0, [])"
    by code_simp
  have o: "TrimSpace ''other'' \<notin> set [''default'', ''vip'']" by code_simp
  from offered_groups_are_accepted [OF a(1), where body = "quoted ''{`name`:`n`,`group_name`:`other`}''"
      and env = sample_admin_env and net = sample_checkin_upstream and u = 0]
  show ?thesis using a r o by (intro exI [of _ a]) simp
qed

end
