(* ===== verification/GoPath.thy ===== *)
theory GoPath
  imports GoNum
begin

text \<open>
  Slash-separated paths, Go's packages \<open>path\<close> and \<open>path/filepath\<close> as the backup code uses them, and a store of files
  by path. A directory exists where the code makes it; only the files are recorded.
\<close>

subsection \<open>Cleaning and joining\<close>

definition clean_push :: "bool \<Rightarrow> string \<Rightarrow> string list \<Rightarrow> string list" where
  \<comment> \<open>one element of the path onto the elements kept, the last one first\<close>
  "clean_push rooted c st =
    (if c = [] \<or> c = ''.'' then st
     else if c = ''..'' then
       (case st of
          [] \<Rightarrow> if rooted then [] else [''..'']
        | t # r \<Rightarrow> if t = ''..'' then ''..'' # st else r)
     else c # st)"

definition path_Clean :: "string \<Rightarrow> string" where
  "path_Clean p =
    (let rooted = HasPrefix p ''/'';
         body = Join (rev (fold (clean_push rooted) (Split1 (CHR ''/'') p) [])) ''/''
     in if rooted then CHR ''/'' # body else if body = [] then ''.'' else body)"

definition path_Join :: "string list \<Rightarrow> string" where
  "path_Join elems = (let es = filter (\<lambda>e. e \<noteq> []) elems in if es = [] then [] else path_Clean (Join es ''/''))"

definition path_Base :: "string \<Rightarrow> string" where
  "path_Base p =
    (if p = [] then ''.''
     else let q = rev (dropWhile (\<lambda>c. c = CHR ''/'') (rev p)); b = last (Split1 (CHR ''/'') q)
       in if b = [] then ''/'' else b)"

definition path_Dir :: "string \<Rightarrow> string" where
  "path_Dir p = path_Clean (rev (dropWhile (\<lambda>c. c \<noteq> CHR ''/'') (rev p)))"

definition path_Ext :: "string \<Rightarrow> string" where
  \<comment> \<open>from the last dot of the last element\<close>
  "path_Ext p =
    (let b = last (Split1 (CHR ''/'') p)
     in case last_index_char b (CHR ''.'') of Some i \<Rightarrow> drop i b | None \<Rightarrow> [])"

lemma clean_push_slash_free:
  "CHR ''/'' \<notin> set c \<Longrightarrow> \<forall>e \<in> set st. CHR ''/'' \<notin> set e \<Longrightarrow> e \<in> set (clean_push rooted c st) \<Longrightarrow> CHR ''/'' \<notin> set e"
  by (auto simp: clean_push_def split: if_splits list.splits)

lemma clean_push_plain: "c \<noteq> [] \<Longrightarrow> c \<noteq> ''.'' \<Longrightarrow> c \<noteq> ''..'' \<Longrightarrow> clean_push rooted c st = c # st"
  by (simp add: clean_push_def)

definition path_element :: "string \<Rightarrow> bool" where
  \<comment> \<open>a name that is one element of a path and nothing but itself\<close>
  "path_element s \<longleftrightarrow> s \<noteq> [] \<and> s \<noteq> ''.'' \<and> s \<noteq> ''..'' \<and> CHR ''/'' \<notin> set s"

definition cleaned :: "string \<Rightarrow> bool" where
  "cleaned d \<longleftrightarrow> d \<noteq> [] \<and> d \<noteq> ''/'' \<and> d \<noteq> ''.'' \<and> path_Clean d = d"

lemma Split1_snoc: "Split1 c (d @ c # s) = Split1 c d @ Split1 c s"
  by (induction d) (auto split: list.splits)

lemma Join_snoc: "ws \<noteq> [] \<Longrightarrow> Join (ws @ [w]) sep = Join ws sep @ sep @ w"
  by (induction ws sep rule: Join.induct) auto

lemma Join_Nil_iff: "(\<forall>w \<in> set ws. w \<noteq> []) \<Longrightarrow> Join ws sep = [] \<longleftrightarrow> ws = []"
  by (cases "(ws, sep)" rule: Join.cases) auto

lemma clean_push_nonempty: "\<forall>e \<in> set st. e \<noteq> [] \<Longrightarrow> e \<in> set (clean_push rooted c st) \<Longrightarrow> e \<noteq> []"
  by (auto simp: clean_push_def split: if_splits list.splits)

lemma fold_clean_push_nonempty: "\<forall>e \<in> set st. e \<noteq> [] \<Longrightarrow> e \<in> set (fold (clean_push rooted) cs st) \<Longrightarrow> e \<noteq> []"
proof (induction cs arbitrary: st)
  case (Cons c cs)
  from Cons.prems(1) have "\<forall>e \<in> set (clean_push rooted c st). e \<noteq> []" by (blast dest: clean_push_nonempty)
  with Cons.IH Cons.prems(2) show ?case by simp
qed auto

text \<open>Joining a clean directory and a plain name puts a slash between them, and the parts come back.\<close>

lemma path_Join_plain:
  assumes "cleaned d" and "path_element n"
  shows "path_Join [d, n] = d @ ''/'' @ n"
proof -
  let ?st = "fold (clean_push (HasPrefix d ''/'')) (Split1 (CHR ''/'') d) []"
  have d: "d \<noteq> []" "d \<noteq> ''/''" "d \<noteq> ''.''" "path_Clean d = d" using assms(1) by (simp_all add: cleaned_def)
  have n: "n \<noteq> []" "n \<noteq> ''.''" "n \<noteq> ''..''" "Split1 (CHR ''/'') n = [n]" using assms(2) by (simp_all add: path_element_def Split1_single)
  have pre: "HasPrefix (d @ CHR ''/'' # n) ''/'' = HasPrefix d ''/''" using d(1) by (cases d) (simp_all add: HasPrefix_def)
  have st: "?st \<noteq> []" using d unfolding path_Clean_def by (auto split: if_splits)
  have body: "Join (rev (n # ?st)) ''/'' = Join (rev ?st) ''/'' @ ''/'' @ n" using st by (simp add: Join_snoc)
  have "path_Clean (d @ CHR ''/'' # n) = path_Clean d @ ''/'' @ n"
  proof (cases "HasPrefix d ''/''")
    case True
    then show ?thesis using body n by (simp add: path_Clean_def Let_def pre Split1_snoc clean_push_plain)
  next
    case False
    have "Join (rev ?st) ''/'' \<noteq> []" using st fold_clean_push_nonempty [of "[]"] by (subst Join_Nil_iff) auto
    with False show ?thesis using body n by (simp add: path_Clean_def Let_def pre Split1_snoc clean_push_plain)
  qed
  then show ?thesis using d n by (simp add: path_Join_def)
qed

lemma path_Base_plain: "path_element n \<Longrightarrow> path_Base (d @ ''/'' @ n) = n"
proof -
  assume n: "path_element n"
  then have "rev (dropWhile (\<lambda>c. c = CHR ''/'') (rev (d @ ''/'' @ n))) = d @ ''/'' @ n"
    by (cases n rule: rev_cases) (auto simp: path_element_def)
  moreover have "last (Split1 (CHR ''/'') (d @ CHR ''/'' # n)) = n" using n by (simp add: Split1_snoc Split1_single path_element_def)
  ultimately show ?thesis using n by (simp add: path_Base_def Let_def path_element_def)
qed

lemma path_Base_name: "path_element n \<Longrightarrow> path_Base n = n"
proof -
  assume n: "path_element n"
  then have "rev (dropWhile (\<lambda>c. c = CHR ''/'') (rev n)) = n" by (cases n rule: rev_cases) (auto simp: path_element_def)
  with n show ?thesis by (simp add: path_Base_def Let_def path_element_def Split1_single)
qed

lemma path_Dir_plain:
  assumes "cleaned d" and "path_element n"
  shows "path_Dir (d @ ''/'' @ n) = d"
proof -
  have "dropWhile (\<lambda>c. c \<noteq> CHR ''/'') (rev n @ CHR ''/'' # rev d) = CHR ''/'' # rev d"
    using assms(2) by (subst dropWhile_append2) (auto simp: path_element_def)
  then have "path_Dir (d @ ''/'' @ n) = path_Clean (d @ ''/'')" by (simp add: path_Dir_def)
  also have "\<dots> = path_Clean d"
  proof -
    have "HasPrefix (d @ ''/'') ''/'' = HasPrefix d ''/''" using assms(1) by (cases d) (simp_all add: HasPrefix_def cleaned_def)
    then show ?thesis by (simp add: path_Clean_def Let_def Split1_snoc clean_push_def)
  qed
  finally show ?thesis using assms(1) by (simp add: cleaned_def)
qed

subsection \<open>Files\<close>

type_synonym files = "string \<Rightarrow> string option"

definition remove_all :: "string \<Rightarrow> files \<Rightarrow> files" where
  \<comment> \<open>\<open>os.RemoveAll\<close>: the path and everything below it\<close>
  "remove_all dir fs = (\<lambda>p. if p = dir \<or> HasPrefix p (dir @ ''/'') then None else fs p)"

lemma remove_all_simps [simp]:
  "remove_all dir fs dir = None"
  "remove_all dir fs (dir @ CHR ''/'' # n) = None"
  by (simp_all add: remove_all_def HasPrefix_def)

end
