(* ===== verification/BackupConfig.thy ===== *)
theory BackupConfig
  imports GoPath OptionStore CheckinRuns Notification
begin

text \<open>
  Settings of the backup, \<open>src/service/backup_config.go\<close>, and the texts it hides, \<open>src/service/backup_redaction.go\<close>:
  the settings read from the option map, the database in use, the trigger modes and the cron expressions of the schedule.
  Errors are the texts of the program; a text of the standard library inside one is a constant.
\<close>

subsection \<open>Settings\<close>

record BackupConfig =
  bc_Enabled :: bool
  bc_TriggerMode :: gostring
  bc_ScheduleCron :: gostring
  bc_MinInterval :: int
  bc_Debounce :: int
  bc_WebDAVURL :: gostring
  bc_WebDAVUsername :: gostring
  bc_WebDAVPassword :: gostring
  bc_WebDAVBasePath :: gostring
  bc_EncryptEnabled :: bool
  bc_EncryptPassphrase :: gostring
  bc_RetentionDays :: int
  bc_RetentionMaxFiles :: int
  bc_SpoolDir :: gostring
  bc_CommandTimeout :: int
  bc_MaxRetries :: int
  bc_RetryBase :: int
  bc_MySQLDumpCommand :: gostring
  bc_PostgresDumpCommand :: gostring
  bc_MySQLRestoreCommand :: gostring
  bc_PostgresRestoreCommand :: gostring

definition RedactedForAPI :: "BackupConfig \<Rightarrow> BackupConfig" where
  "RedactedForAPI cfg =
    cfg\<lparr>bc_WebDAVPassword := (if TrimSpace (bc_WebDAVPassword cfg) \<noteq> [] then ''***'' else bc_WebDAVPassword cfg),
        bc_EncryptPassphrase := (if TrimSpace (bc_EncryptPassphrase cfg) \<noteq> [] then ''***'' else bc_EncryptPassphrase cfg)\<rparr>"

definition parseBool :: "gostring \<Rightarrow> bool \<Rightarrow> bool" where
  "parseBool raw fallback =
    (let s = ToLower (TrimSpace raw) in
     if s \<in> set [''1'', ''true'', ''yes'', ''on''] then True
     else if s \<in> set [''0'', ''false'', ''no'', ''off''] then False
     else fallback)"

definition parseInt :: "gostring \<Rightarrow> int \<Rightarrow> int \<Rightarrow> int \<Rightarrow> int" where
  "parseInt raw fallback lo hi =
    (case Atoi (TrimSpace raw) of None \<Rightarrow> fallback | Some parsed \<Rightarrow> if parsed < lo \<or> parsed > hi then fallback else parsed)"

definition or_default :: "gostring \<Rightarrow> gostring \<Rightarrow> gostring" where
  "or_default s dflt = (if s = [] then dflt else s)"

definition GetBackupConfig :: "gostring \<Rightarrow> options \<Rightarrow> BackupConfig" where
  \<comment> \<open>the first argument is \<open>common.UploadPath\<close>; a missing key reads as the empty text\<close>
  "GetBackupConfig uploadPath m =
    (let opt = mget_default [] m; txt = (\<lambda>k. TrimSpace (opt k)); mode = normalizeBackupTriggerMode (opt ''BackupTriggerMode'') in
     \<lparr>bc_Enabled = parseBool (opt ''BackupEnabled'') False,
      bc_TriggerMode = (if mode \<noteq> [] then mode else ''hybrid''),
      bc_ScheduleCron = or_default (txt ''BackupScheduleCron'') ''0 */6 * * *'',
      bc_MinInterval = parseInt (opt ''BackupMinIntervalSeconds'') 600 0 (365 * 24 * 60 * 60) * Second,
      bc_Debounce = parseInt (opt ''BackupDebounceSeconds'') 30 0 86400 * Second,
      bc_WebDAVURL = txt ''BackupWebDAVURL'', bc_WebDAVUsername = txt ''BackupWebDAVUsername'', bc_WebDAVPassword = txt ''BackupWebDAVPassword'',
      bc_WebDAVBasePath = or_default (txt ''BackupWebDAVBasePath'') ''/newapi-gateway-backups'',
      bc_EncryptEnabled = parseBool (opt ''BackupEncryptEnabled'') True, bc_EncryptPassphrase = txt ''BackupEncryptPassphrase'',
      bc_RetentionDays = parseInt (opt ''BackupRetentionDays'') 14 0 3650, bc_RetentionMaxFiles = parseInt (opt ''BackupRetentionMaxFiles'') 100 0 100000,
      bc_SpoolDir = or_default (txt ''BackupSpoolDir'') (path_Join [uploadPath, ''backup-spool'']),
      bc_CommandTimeout = parseInt (opt ''BackupCommandTimeoutSeconds'') 600 1 (365 * 24 * 60 * 60) * Second,
      bc_MaxRetries = parseInt (opt ''BackupMaxRetries'') 8 0 1000, bc_RetryBase = parseInt (opt ''BackupRetryBaseSeconds'') 30 1 86400 * Second,
      bc_MySQLDumpCommand = or_default (txt ''BackupMySQLDumpCommand'') ''mysqldump'',
      bc_PostgresDumpCommand = or_default (txt ''BackupPostgresDumpCommand'') ''pg_dump'',
      bc_MySQLRestoreCommand = or_default (txt ''BackupMySQLRestoreCommand'') ''mysql'',
      bc_PostgresRestoreCommand = or_default (txt ''BackupPostgresRestoreCommand'') ''psql''\<rparr>)"

definition config_in_range :: "BackupConfig \<Rightarrow> bool" where
  "config_in_range cfg \<longleftrightarrow>
    bc_TriggerMode cfg \<in> {''hybrid'', ''event'', ''schedule''} \<and> bc_ScheduleCron cfg \<noteq> []
    \<and> 0 \<le> bc_MinInterval cfg \<and> bc_MinInterval cfg \<le> 365 * 86400 * Second \<and> 0 \<le> bc_Debounce cfg \<and> bc_Debounce cfg \<le> 86400 * Second
    \<and> 0 \<le> bc_RetentionDays cfg \<and> bc_RetentionDays cfg \<le> 3650 \<and> 0 \<le> bc_RetentionMaxFiles cfg \<and> bc_RetentionMaxFiles cfg \<le> 100000
    \<and> Second \<le> bc_CommandTimeout cfg \<and> bc_CommandTimeout cfg \<le> 365 * 86400 * Second \<and> 0 \<le> bc_MaxRetries cfg \<and> bc_MaxRetries cfg \<le> 1000
    \<and> Second \<le> bc_RetryBase cfg \<and> bc_RetryBase cfg \<le> 86400 * Second \<and> bc_WebDAVBasePath cfg \<noteq> []"

lemma parseInt_range: "lo \<le> fallback \<Longrightarrow> fallback \<le> hi \<Longrightarrow> lo \<le> parseInt raw fallback lo hi \<and> parseInt raw fallback lo hi \<le> hi"
  by (auto simp: parseInt_def split: option.splits)

lemma normalizeBackupTriggerMode_range: "normalizeBackupTriggerMode raw \<in> {[], ''hybrid'', ''event'', ''schedule''}"
  by (auto simp: normalizeBackupTriggerMode_def Let_def)

lemma or_default_nonempty: "d \<noteq> [] \<Longrightarrow> or_default s d \<noteq> []"
  by (simp add: or_default_def)

text \<open>Whatever the stored options hold, the settings in force are in range.\<close>

lemma GetBackupConfig_in_range: "config_in_range (GetBackupConfig uploadPath m)"
proof -
  let ?o = "mget_default [] m"
  note r = parseInt_range [of 0 600 "365 * 24 * 60 * 60" "?o ''BackupMinIntervalSeconds''"]
    parseInt_range [of 0 30 86400 "?o ''BackupDebounceSeconds''"] parseInt_range [of 0 14 3650 "?o ''BackupRetentionDays''"]
    parseInt_range [of 0 100 100000 "?o ''BackupRetentionMaxFiles''"] parseInt_range [of 1 600 "365 * 24 * 60 * 60" "?o ''BackupCommandTimeoutSeconds''"]
    parseInt_range [of 0 8 1000 "?o ''BackupMaxRetries''"] parseInt_range [of 1 30 86400 "?o ''BackupRetryBaseSeconds''"]
  show ?thesis
    using r normalizeBackupTriggerMode_range [of "?o ''BackupTriggerMode''"]
    by (auto simp: config_in_range_def GetBackupConfig_def Let_def or_default_nonempty Second_def)
qed

subsection \<open>The database in use\<close>

definition getActiveSQLDriverAndDSN :: "gostring \<Rightarrow> gostring \<Rightarrow> gostring \<Rightarrow> gostring + gostring \<times> gostring" where
  \<comment> \<open>arguments: \<open>common.SQLitePath\<close> and the environment variables \<open>SQL_DRIVER\<close> and \<open>SQL_DSN\<close>, empty when unset\<close>
  "getActiveSQLDriverAndDSN sqlitePath envDriver envDSN =
    (let dsn = TrimSpace envDSN; driver = ToLower (TrimSpace envDriver) in
     if driver = ''mysql'' then
       (if dsn = [] then Inl ''SQL_DSN is required when SQL_DRIVER=mysql'' else Inr (''mysql'', dsn))
     else if driver = ''postgres'' \<or> driver = ''postgresql'' then
       (if dsn = [] then Inl ''SQL_DSN is required when SQL_DRIVER=postgres'' else Inr (''postgres'', dsn))
     else if driver = ''sqlite'' \<or> driver = ''sqlite3'' then Inr (''sqlite'', if dsn = [] then sqlitePath else dsn)
     else if driver = [] then
       (if dsn = [] then Inr (''sqlite'', sqlitePath)
        else let dsnLower = ToLower (TrimSpace dsn) in
          if HasPrefix dsnLower ''postgres://'' \<or> HasPrefix dsnLower ''postgresql://''
             \<or> (StrContains dsnLower ''dbname='' \<and> StrContains dsnLower ''user='') then Inr (''postgres'', dsn)
          else Inr (''mysql'', dsn))
     else Inl (''unsupported SQL_DRIVER: '' @ driver))"

definition shouldAllowEventTrigger :: "gostring \<Rightarrow> bool" where
  "shouldAllowEventTrigger mode = (let normalized = normalizeBackupTriggerMode mode in normalized = ''hybrid'' \<or> normalized = ''event'')"

definition shouldAllowScheduleTrigger :: "gostring \<Rightarrow> bool" where
  "shouldAllowScheduleTrigger mode = (let normalized = normalizeBackupTriggerMode mode in normalized = ''hybrid'' \<or> normalized = ''schedule'')"

definition ensureBackupSpoolDir :: "(gostring \<Rightarrow> gostring option) \<Rightarrow> gostring \<Rightarrow> gostring option" where
  \<comment> \<open>the first argument is the outcome of \<open>os.MkdirAll\<close>; the result is the error\<close>
  "ensureBackupSpoolDir mkdir path = (if TrimSpace path = [] then Some ''backup spool directory is empty'' else mkdir path)"

subsection \<open>Cron expressions\<close>

fun cron_any :: "(gostring \<Rightarrow> gostring + bool) \<Rightarrow> gostring list \<Rightarrow> gostring + bool" where
  "cron_any f [] = Inr False"
| "cron_any f (part # parts) =
    (case f part of Inl e \<Rightarrow> Inl e | Inr matched \<Rightarrow> if matched then Inr True else cron_any f parts)"

lemma cron_any_cong [fundef_cong]:
  "xs = ys \<Longrightarrow> (\<And>x. x \<in> set ys \<Longrightarrow> f x = g x) \<Longrightarrow> cron_any f xs = cron_any g ys"
proof (induction ys arbitrary: xs)
  case (Cons y ys)
  from Cons.IH [OF refl] Cons.prems show ?case by (auto split: sum.splits)
qed simp

lemma length_Split1_part: "c \<in> set s \<Longrightarrow> w \<in> set (Split1 c s) \<Longrightarrow> length w < length s"
proof (induction s arbitrary: w)
  case (Cons d s)
  have all: "length v \<le> length s" if "v \<in> set (Split1 c s)" for v
  proof (cases "c \<in> set s")
    case True
    with Cons.IH [of v] that show ?thesis by simp
  next
    case False
    with that show ?thesis by (simp add: Split1_single)
  qed
  obtain p ps where p: "Split1 c s = p # ps" by (cases "Split1 c s") auto
  show ?case
  proof (cases "d = c")
    case True
    with Cons.prems(2) show ?thesis using all by (auto simp: p less_Suc_eq_le)
  next
    case False
    with Cons.prems(1) have "c \<in> set s" by simp
    with Cons.IH have less: "length v < length s" if "v \<in> set (p # ps)" for v using that p by auto
    from False Cons.prems(2) have "w = d # p \<or> w \<in> set ps" by (simp add: p)
    with less [of p] less [of w] show ?thesis by auto
  qed
qed simp

function matchCronToken :: "gostring \<Rightarrow> int \<Rightarrow> gostring + bool" where
  "matchCronToken token value =
    (let trimmed = TrimSpace token in
     if trimmed = ''*'' then Inr True
     else if HasPrefix trimmed ''*/'' then
       (case Atoi (TrimPrefix trimmed ''*/'') of
          None \<Rightarrow> Inl (''invalid cron step: '' @ token)
        | Some step \<Rightarrow> if step \<le> 0 then Inl (''invalid cron step: '' @ token) else Inr (go_mod value step = 0))
     else if StrContains trimmed '','' then cron_any (\<lambda>part. matchCronToken part value) (Split1 (CHR '','') trimmed)
     else case Atoi trimmed of None \<Rightarrow> Inl (''invalid cron token: '' @ token) | Some parsed \<Rightarrow> Inr (parsed = value))"
  by pat_completeness auto

termination
proof (relation "measure (length \<circ> fst)")
  fix token :: gostring and part :: gostring and v :: int and trimmed :: gostring
  assume t: "trimmed = TrimSpace token" and c: "StrContains trimmed '',''" and p: "part \<in> set (Split1 (CHR '','') trimmed)"
  from c have "CHR '','' \<in> set trimmed" by (auto simp: StrContains_sublist sublist_def)
  with p have "length part < length trimmed" by (rule length_Split1_part [rotated])
  with t length_TrimSpace [of token] show "((part, v), (token, v)) \<in> measure (length \<circ> fst)" by simp
qed simp

declare matchCronToken.simps [simp del]

definition month_of :: "location \<Rightarrow> gotime \<Rightarrow> int" where
  "month_of loc t = fst (snd (civil_date (local_day loc t)))"

definition day_of_month :: "location \<Rightarrow> gotime \<Rightarrow> int" where
  "day_of_month loc t = snd (snd (civil_date (local_day loc t)))"

definition cron_values :: "location \<Rightarrow> gotime \<Rightarrow> int list" where
  \<comment> \<open>minute, hour, day, month and weekday\<close>
  "cron_values loc now = [snd (local_clock loc now), fst (local_clock loc now), day_of_month loc now, month_of loc now, weekday (local_day loc now)]"

fun cron_fields :: "(gostring \<times> int) list \<Rightarrow> gostring + bool" where
  "cron_fields [] = Inr True"
| "cron_fields ((token, value) # rest) =
    (case matchCronToken token value of Inl e \<Rightarrow> Inl e | Inr matched \<Rightarrow> if matched then cron_fields rest else Inr False)"

definition shouldRunCronExpression :: "location \<Rightarrow> gostring \<Rightarrow> gotime \<Rightarrow> gostring + bool" where
  "shouldRunCronExpression loc cronExpr now =
    (let fields = Fields (TrimSpace cronExpr) in
     if length fields \<noteq> 5 then Inl (''invalid cron expression: '' @ cronExpr) else cron_fields (zip fields (cron_values loc now)))"

subsection \<open>Texts that are hidden\<close>

definition folded_letter :: "char \<Rightarrow> gostring \<Rightarrow> gostring option" where
  \<comment> \<open>what follows one letter of a case-insensitive pattern: RE2 folds the long s and the Kelvin sign, too\<close>
  "folded_letter c s =
    (case s of [] \<Rightarrow> None
     | d # r \<Rightarrow>
         if lower_char d = c then Some r
         else if c = CHR ''s'' \<and> HasPrefix s [CHR 0xC5, CHR 0xBF] then Some (drop 2 s)
         else if c = CHR ''k'' \<and> HasPrefix s [CHR 0xE2, CHR 0x84, CHR 0xAA] then Some (drop 3 s)
         else None)"

fun folded_word :: "gostring \<Rightarrow> gostring \<Rightarrow> gostring option" where
  "folded_word [] s = Some s"
| "folded_word (c # w) s = (case folded_letter c s of None \<Rightarrow> None | Some r \<Rightarrow> folded_word w r)"

definition value_char :: "char \<Rightarrow> bool" where
  "value_char c \<longleftrightarrow> c \<notin> set [CHR 0x09, CHR 0x0A, CHR 0x0C, CHR 0x0D, CHR 0x20, CHR ''&'']"

definition sensitive_at :: "gostring \<Rightarrow> gostring \<Rightarrow> (gostring \<times> gostring) option" where
  \<comment> \<open>a match for one of the words here: the word as it is written, and what follows the value\<close>
  "sensitive_at w s =
    (case folded_word w s of
       Some (e # r) \<Rightarrow> if e = CHR ''='' \<and> takeWhile value_char r \<noteq> []
                      then Some (take (length s - Suc (length r)) s, dropWhile value_char r) else None
     | _ \<Rightarrow> None)"

definition sensitive_match :: "gostring \<Rightarrow> (gostring \<times> gostring) option" where
  "sensitive_match s =
    (case sensitive_at ''password'' s of Some x \<Rightarrow> Some x
     | None \<Rightarrow> (case sensitive_at ''token'' s of Some x \<Rightarrow> Some x
     | None \<Rightarrow> (case sensitive_at ''secret'' s of Some x \<Rightarrow> Some x
     | None \<Rightarrow> sensitive_at ''passphrase'' s)))"

lemma folded_word_length: "folded_word w s = Some r \<Longrightarrow> length r \<le> length s"
proof (induction w arbitrary: s)
  case (Cons c w)
  then obtain q where q: "folded_letter c s = Some q" "folded_word w q = Some r" by (auto split: option.splits)
  then have "length q \<le> length s" by (auto simp: folded_letter_def split: list.splits if_splits)
  with Cons.IH [OF q(2)] show ?case by simp
qed simp

lemma sensitive_at_length: "sensitive_at w s = Some (k, r) \<Longrightarrow> length r < length s"
proof -
  assume "sensitive_at w s = Some (k, r)"
  then obtain q where q: "folded_word w s = Some (CHR ''='' # q)" "r = dropWhile value_char q"
    by (auto simp: sensitive_at_def split: option.splits list.splits if_splits)
  from folded_word_length [OF q(1)] length_dropWhile_le [of value_char q] show ?thesis unfolding q(2) by simp
qed

lemma sensitive_match_length: "sensitive_match s = Some (k, r) \<Longrightarrow> length r < length s"
  by (auto simp: sensitive_match_def dest: sensitive_at_length split: option.splits)

function hide_values :: "gostring \<Rightarrow> gostring" where
  \<comment> \<open>\<open>sensitiveKVRegex.ReplaceAllString(s, "$1=***")\<close>\<close>
  "hide_values s =
    (case s of [] \<Rightarrow> []
     | c # t \<Rightarrow> (case sensitive_match s of Some (k, r) \<Rightarrow> k @ ''=***'' @ hide_values r | None \<Rightarrow> c # hide_values t))"
  by pat_completeness auto

termination
  by (relation "measure length") (auto dest: sensitive_match_length)

declare hide_values.simps [simp del]

record address =
  ad_User :: "(gostring \<times> gostring option) option"
  ad_Scheme :: gostring
  ad_Host :: gostring
  ad_Path :: gostring
  ad_Rest :: gostring

record address_library =
  al_parse :: "gostring \<Rightarrow> gostring + address"
  al_String :: "address \<Rightarrow> gostring"

definition redactBackupMessage :: "address_library \<Rightarrow> gostring \<Rightarrow> gostring" where
  "redactBackupMessage lib input =
    (let trimmed = TrimSpace input in
     if trimmed = [] then []
     else let output = hide_values trimmed in
       case al_parse lib output of
         Inl e \<Rightarrow> output
       | Inr parsed \<Rightarrow>
           (case ad_User parsed of
              None \<Rightarrow> output
            | Some (username, _) \<Rightarrow>
                al_String lib (parsed\<lparr>ad_User := Some (if username = [] then ''***'' else username, Some ''***'')\<rparr>)))"

end
