(* ===== verification/BackupStore.thy ===== *)
theory BackupStore
  imports BackupConfig UpstreamClient
begin

text \<open>
  What backups leave behind: the tables of runs and of uploads to repeat, \<open>src/model/backup_run.go\<close> and
  \<open>src/model/backup_retry.go\<close>, with the waiting times of \<open>src/service/backup_core.go\<close>, and the client of the WebDAV
  server, \<open>src/service/backup_webdav.go\<close>. The server is an argument that answers a request and changes its state; reading
  its XML and its dates are arguments, too.
\<close>

subsection \<open>Runs and uploads to repeat\<close>

record BackupRun =
  bk_Id :: int
  bk_TriggerType :: gostring
  bk_DBDriver :: gostring
  bk_Status :: gostring
  bk_ArtifactPath :: gostring
  bk_RemotePath :: gostring
  bk_ArtifactSize :: int
  bk_DurationMs :: int
  bk_ErrorMessage :: gostring
  bk_StartedAt :: int
  bk_EndedAt :: int
  bk_CreatedAt :: int

record BackupUploadRetry =
  br_Id :: int
  br_RunId :: int
  br_ArtifactPath :: gostring
  br_RemotePath :: gostring
  br_RetryCount :: int
  br_MaxRetries :: int
  br_NextRetryAt :: int
  br_LastError :: gostring
  br_Status :: gostring
  br_CreatedAt :: int
  br_UpdatedAt :: int

record backup_tables =
  bt_runs :: "BackupRun list"
  bt_retries :: "BackupUploadRetry list"

definition BackupRun_Insert :: "gotime \<Rightarrow> BackupRun \<Rightarrow> backup_tables \<Rightarrow> BackupRun \<times> backup_tables" where
  \<comment> \<open>the result also has the run with its new identifier\<close>
  "BackupRun_Insert now r t =
    (let r = (if bk_StartedAt r = 0 then r\<lparr>bk_StartedAt := Unix now\<rparr> else r);
         r = (if bk_CreatedAt r = 0 then r\<lparr>bk_CreatedAt := Unix now\<rparr> else r);
         r = (if bk_Id r = 0 then r\<lparr>bk_Id := next_row_id bk_Id (bt_runs t)\<rparr> else r)
     in (r, t\<lparr>bt_runs := bt_runs t @ [r]\<rparr>))"

definition backup_run_updates :: "BackupRun \<Rightarrow> BackupRun \<Rightarrow> BackupRun" where
  \<comment> \<open>\<open>Updates\<close> with a struct: zero fields leave their columns alone\<close>
  "backup_run_updates r old =
    \<lparr>bk_Id = bk_Id old, bk_TriggerType = nonzero [] (bk_TriggerType r) (bk_TriggerType old), bk_DBDriver = nonzero [] (bk_DBDriver r) (bk_DBDriver old),
     bk_Status = nonzero [] (bk_Status r) (bk_Status old), bk_ArtifactPath = nonzero [] (bk_ArtifactPath r) (bk_ArtifactPath old),
     bk_RemotePath = nonzero [] (bk_RemotePath r) (bk_RemotePath old), bk_ArtifactSize = nonzero 0 (bk_ArtifactSize r) (bk_ArtifactSize old),
     bk_DurationMs = nonzero 0 (bk_DurationMs r) (bk_DurationMs old), bk_ErrorMessage = nonzero [] (bk_ErrorMessage r) (bk_ErrorMessage old),
     bk_StartedAt = nonzero 0 (bk_StartedAt r) (bk_StartedAt old), bk_EndedAt = nonzero 0 (bk_EndedAt r) (bk_EndedAt old),
     bk_CreatedAt = nonzero 0 (bk_CreatedAt r) (bk_CreatedAt old)\<rparr>"

definition BackupRun_Update :: "BackupRun \<Rightarrow> backup_tables \<Rightarrow> gw_error + backup_tables" where
  "BackupRun_Update r t =
    (if bk_Id r = 0 then Inl ErrEmptyId
     else Inr (t\<lparr>bt_runs := row_update (\<lambda>old. bk_Id old = bk_Id r) (backup_run_updates r) (bt_runs t)\<rparr>))"

definition save_run :: "BackupRun \<Rightarrow> backup_tables \<Rightarrow> backup_tables" where
  \<comment> \<open>\<open>_ = run.Update()\<close>\<close>
  "save_run r t = (case BackupRun_Update r t of Inl e \<Rightarrow> t | Inr t \<Rightarrow> t)"

definition GetRecentBackupRuns :: "int \<Rightarrow> backup_tables \<Rightarrow> BackupRun list" where
  "GetRecentBackupRuns limit t =
    (let limit = (if limit \<le> 0 then 20 else limit);
         limit = (if limit > 500 then 500 else limit)
     in page_desc bk_Id 0 limit (bt_runs t))"

definition GetBackupRunById :: "int \<Rightarrow> backup_tables \<Rightarrow> gw_error + BackupRun option" where
  "GetBackupRunById i t = (if i = 0 then Inl ErrEmptyId else Inr (find (\<lambda>r. bk_Id r = i) (bt_runs t)))"

definition GetLatestBackupRun :: "backup_tables \<Rightarrow> BackupRun option" where
  "GetLatestBackupRun t = (case page_desc bk_Id 0 1 (bt_runs t) of [] \<Rightarrow> None | r # _ \<Rightarrow> Some r)"

definition Retry_Insert :: "gotime \<Rightarrow> BackupUploadRetry \<Rightarrow> backup_tables \<Rightarrow> backup_tables" where
  "Retry_Insert now r t =
    (let r = (if br_CreatedAt r = 0 then r\<lparr>br_CreatedAt := Unix now\<rparr> else r);
         r = r\<lparr>br_UpdatedAt := Unix now\<rparr>;
         r = (if br_Status r = [] then r\<lparr>br_Status := ''pending''\<rparr> else r);
         r = (if br_Id r = 0 then r\<lparr>br_Id := next_row_id br_Id (bt_retries t)\<rparr> else r)
     in t\<lparr>bt_retries := bt_retries t @ [r]\<rparr>)"

definition retry_updates :: "BackupUploadRetry \<Rightarrow> BackupUploadRetry \<Rightarrow> BackupUploadRetry" where
  "retry_updates r old =
    \<lparr>br_Id = br_Id old, br_RunId = nonzero 0 (br_RunId r) (br_RunId old), br_ArtifactPath = nonzero [] (br_ArtifactPath r) (br_ArtifactPath old),
     br_RemotePath = nonzero [] (br_RemotePath r) (br_RemotePath old), br_RetryCount = nonzero 0 (br_RetryCount r) (br_RetryCount old),
     br_MaxRetries = nonzero 0 (br_MaxRetries r) (br_MaxRetries old), br_NextRetryAt = nonzero 0 (br_NextRetryAt r) (br_NextRetryAt old),
     br_LastError = nonzero [] (br_LastError r) (br_LastError old), br_Status = nonzero [] (br_Status r) (br_Status old),
     br_CreatedAt = nonzero 0 (br_CreatedAt r) (br_CreatedAt old), br_UpdatedAt = nonzero 0 (br_UpdatedAt r) (br_UpdatedAt old)\<rparr>"

definition Retry_Update :: "gotime \<Rightarrow> BackupUploadRetry \<Rightarrow> backup_tables \<Rightarrow> backup_tables" where
  "Retry_Update now r t =
    (let r = r\<lparr>br_UpdatedAt := Unix now\<rparr>
     in t\<lparr>bt_retries := row_update (\<lambda>old. br_Id old = br_Id r) (retry_updates r) (bt_retries t)\<rparr>)"

definition GetDueBackupUploadRetries :: "int \<Rightarrow> int \<Rightarrow> backup_tables \<Rightarrow> BackupUploadRetry list" where
  "GetDueBackupUploadRetries now limit t =
    (let limit = (if limit \<le> 0 then 20 else limit)
     in take (nat limit) (sort_key br_Id (filter (\<lambda>r. br_Status r = ''pending'' \<and> br_NextRetryAt r \<le> now) (bt_retries t))))"

definition GetRecentBackupUploadRetries :: "int \<Rightarrow> backup_tables \<Rightarrow> BackupUploadRetry list" where
  "GetRecentBackupUploadRetries limit t =
    (let limit = (if limit \<le> 0 then 50 else limit);
         limit = (if limit > 500 then 500 else limit)
     in page_desc br_Id 0 limit (bt_retries t))"

definition CountPendingBackupRetries :: "backup_tables \<Rightarrow> int" where
  "CountPendingBackupRetries t = int (length (filter (\<lambda>r. br_Status r = ''pending'') (bt_retries t)))"

subsection \<open>Waiting times\<close>

abbreviation one_day :: int where
  "one_day \<equiv> 24 * 3600 * Second"

fun backoff_loop :: "nat \<Rightarrow> int \<Rightarrow> int" where
  "backoff_loop 0 result = result"
| "backoff_loop (Suc n) result =
    (let result = wrap64 (result * 2) in if result > one_day then one_day else backoff_loop n result)"

definition retryBackoff :: "int \<Rightarrow> int \<Rightarrow> int" where
  "retryBackoff base retryCount =
    (let base = (if base \<le> 0 then 30 * Second else base) in if retryCount \<le> 0 then base else backoff_loop (nat retryCount) base)"

lemma backoff_loop_min:
  "0 < r \<Longrightarrow> r \<le> one_day \<Longrightarrow> backoff_loop n r = min (r * 2 ^ n) one_day"
proof (induction n arbitrary: r)
  case (Suc n)
  from Suc.prems have w: "wrap64 (r * 2) = r * 2" by (intro wrap64_id) (simp add: in_int64_def Second_def)
  show ?case
  proof (cases "r * 2 > one_day")
    case True
    have "r * 2 * 1 \<le> r * 2 * 2 ^ n" using Suc.prems by (intro mult_left_mono) auto
    with True have "r * 2 ^ Suc n \<ge> one_day" by simp
    with True w show ?thesis by (simp add: min_def)
  next
    case False
    with Suc w show ?thesis by (simp add: ac_simps)
  qed
qed simp

text \<open>The waiting time doubles with every attempt and stops at a day; nothing overflows.\<close>

lemma retryBackoff_closed_form:
  assumes "0 < base" and "base \<le> one_day" and "0 \<le> n"
  shows "retryBackoff base n = min (base * 2 ^ nat n) one_day"
  using assms by (auto simp: retryBackoff_def backoff_loop_min min_def)

subsection \<open>The world of a backup\<close>

record davResponse =
  dv_Href :: gostring
  dv_Propstat :: "(gostring \<times> gostring) list"

record stored_rows =
  sr_db :: db
  sr_tables :: backup_tables
  sr_option_rows :: options

record 'u backup_env =
  be_address :: address_library
  be_request_ok :: "gostring \<Rightarrow> gostring \<Rightarrow> bool"
  be_net :: "outgoing_request \<Rightarrow> 'u \<Rightarrow> transport_result \<times> 'u"
  be_clock :: "'u \<Rightarrow> gotime"
  be_location :: location
  be_multistatus :: "gostring \<Rightarrow> gostring + davResponse list"
  be_rfc1123 :: "gostring \<Rightarrow> gotime option"
  be_mkdir :: "gostring \<Rightarrow> gostring option"
  be_write :: "gostring \<Rightarrow> gostring option"
  be_zip :: "(gostring \<times> gostring) list \<Rightarrow> gostring"
  be_unzip :: "gostring \<Rightarrow> gostring + (gostring \<times> (gostring + gostring)) list"
  be_sha256 :: "gostring \<Rightarrow> gostring"
  be_nonce :: "'u \<Rightarrow> gostring"
  be_seal :: "gostring \<Rightarrow> gostring \<Rightarrow> gostring \<Rightarrow> gostring"
  be_open :: "gostring \<Rightarrow> gostring \<Rightarrow> gostring \<Rightarrow> gostring + gostring"
  be_lookpath :: "gostring \<Rightarrow> gostring option"
  be_exec :: "int option \<Rightarrow> gostring \<Rightarrow> gostring list \<Rightarrow> gostring \<Rightarrow> files \<Rightarrow> 'u \<Rightarrow> (gostring option \<times> gostring \<times> files) \<times> 'u"
  be_vacuum :: "stored_rows \<Rightarrow> gostring \<Rightarrow> 'u \<Rightarrow> gostring + gostring"
  be_shown :: "gostring \<Rightarrow> gostring \<Rightarrow> files \<Rightarrow> 'u \<Rightarrow> stored_rows \<Rightarrow> gostring + stored_rows"
  be_sqlite_path :: gostring
  be_upload_path :: gostring
  be_version :: gostring
  be_env_driver :: gostring
  be_env_dsn :: gostring

text \<open>
  Above: \<open>be_mkdir\<close> and \<open>be_write\<close> give the error of making a directory or of writing a file at a path; \<open>be_exec\<close> runs
  an external command within a time limit on an input, and gives its error, its output and the files after it;
  \<open>be_vacuum\<close> is the file that the statement \<open>VACUUM INTO\<close> writes for the rows of the database; \<open>be_shown\<close> is what the
  open database answers once its file has been overwritten or a restore command has changed it, given its driver, its address, the files
  and the outer world then, and the rows before: the program keeps its handle, and whether that sees the new file is up to the database;
  \<open>be_seal\<close> and \<open>be_open\<close> are AES-GCM for a key and a nonce.
\<close>

definition read_file :: "gostring \<Rightarrow> files \<Rightarrow> gostring + gostring" where
  "read_file p fs = (case fs p of Some s \<Rightarrow> Inr s | None \<Rightarrow> Inl (''open '' @ p @ '': no such file or directory''))"

definition write_file :: "'u backup_env \<Rightarrow> gostring \<Rightarrow> gostring \<Rightarrow> files \<Rightarrow> gostring option \<times> files" where
  "write_file env p s fs = (case be_write env p of Some e \<Rightarrow> (Some e, fs) | None \<Rightarrow> (None, fs(p \<mapsto> s)))"

subsection \<open>The WebDAV client\<close>

record webDAVClient =
  wc_baseURL :: gostring
  wc_username :: gostring
  wc_password :: gostring

record webDAVItem =
  wi_Href :: gostring
  wi_ContentLen :: int
  wi_LastModified :: "gotime option"

definition base64_char :: "nat \<Rightarrow> char" where
  "base64_char n =
    (if n < 26 then char_of (65 + n) else if n < 52 then char_of (71 + n) else if n < 62 then char_of (n - 4)
     else if n = 62 then CHR ''+'' else CHR ''/'')"

fun base64 :: "gostring \<Rightarrow> gostring" where
  "base64 [] = []"
| "base64 [a] =
    (let n = of_char a * 65536 in [base64_char (n div 262144), base64_char (n div 4096 mod 64)] @ ''=='')"
| "base64 [a, b] =
    (let n = of_char a * 65536 + of_char b * 256
     in [base64_char (n div 262144), base64_char (n div 4096 mod 64), base64_char (n div 64 mod 64)] @ ''='')"
| "base64 (a # b # c # s) =
    (let n = of_char a * 65536 + of_char b * 256 + of_char c
     in [base64_char (n div 262144), base64_char (n div 4096 mod 64), base64_char (n div 64 mod 64), base64_char (n mod 64)] @ base64 s)"

definition newWebDAVClient :: "'u backup_env \<Rightarrow> BackupConfig \<Rightarrow> gostring + webDAVClient" where
  "newWebDAVClient env cfg =
    (if TrimSpace (bc_WebDAVURL cfg) = [] then Inl ''backup webdav url is empty''
     else case al_parse (be_address env) (bc_WebDAVURL cfg) of
       Inl e \<Rightarrow> Inl e
     | Inr parsed \<Rightarrow>
         if ad_Scheme parsed \<noteq> ''http'' \<and> ad_Scheme parsed \<noteq> ''https'' then Inl ''webdav url must use http/https''
         else Inr \<lparr>wc_baseURL = TrimRight (al_String (be_address env) parsed) ''/'', wc_username = bc_WebDAVUsername cfg,
                   wc_password = bc_WebDAVPassword cfg\<rparr>)"

definition buildURL :: "webDAVClient \<Rightarrow> gostring \<Rightarrow> gostring" where
  "buildURL c p = TrimRight (wc_baseURL c) ''/'' @ path_Clean (''/'' @ TrimSpace p)"

definition dav_headers :: "webDAVClient \<Rightarrow> (gostring \<times> gostring) list \<Rightarrow> (gostring, gostring) gomap" where
  "dav_headers c hs =
    hs @ (if wc_username c \<noteq> [] \<or> wc_password c \<noteq> [] then [(''authorization'', ''Basic '' @ base64 (wc_username c @ '':'' @ wc_password c))] else [])"

definition dav_do :: "'u backup_env \<Rightarrow> webDAVClient \<Rightarrow> gostring \<Rightarrow> gostring \<Rightarrow> (gostring \<times> gostring) list \<Rightarrow> gostring \<Rightarrow> 'u
   \<Rightarrow> (gostring + http_response) \<times> 'u" where
  \<comment> \<open>\<open>http.NewRequest\<close> and \<open>c.do\<close>\<close>
  "dav_do env c method url hs body u =
    (if \<not> be_request_ok env method url then (Inl ''invalid request'', u)
     else case be_net env \<lparr>og_Method = method, og_URL = url, og_Header = dav_headers c hs, og_Body = body\<rparr> u of
       (TransportError e, u) \<Rightarrow> (Inl e, u)
     | (Response resp, u) \<Rightarrow> (Inr resp, u))"

definition dav_failed :: "gostring \<Rightarrow> http_response \<Rightarrow> gostring" where
  \<comment> \<open>of a body that cannot be read, nothing is quoted\<close>
  "dav_failed what resp =
    ''webdav '' @ what @ '' failed: status='' @ Itoa (rs_StatusCode resp) @ '' body=''
    @ TrimSpace (case rs_Body resp of BodyOk s \<Rightarrow> s | BodyFailed e \<Rightarrow> [])"

definition dav_ok :: "http_response \<Rightarrow> bool" where
  "dav_ok resp \<longleftrightarrow> rs_StatusCode resp \<ge> 200 \<and> rs_StatusCode resp < 300"

definition ensureCollection :: "'u backup_env \<Rightarrow> webDAVClient \<Rightarrow> gostring \<Rightarrow> 'u \<Rightarrow> gostring option \<times> 'u" where
  "ensureCollection env c remoteDir u =
    (case dav_do env c ''MKCOL'' (buildURL c remoteDir) [] [] u of
       (Inl e, u) \<Rightarrow> (Some e, u)
     | (Inr resp, u) \<Rightarrow> (if rs_StatusCode resp \<in> set [201, 405, 409, 200] then None else Some (dav_failed ''mkcol'' resp), u))"

definition uploadFile :: "'u backup_env \<Rightarrow> webDAVClient \<Rightarrow> gostring \<Rightarrow> gostring \<Rightarrow> files \<Rightarrow> 'u \<Rightarrow> gostring option \<times> 'u" where
  "uploadFile env c localPath remotePath fs u =
    (case read_file localPath fs of
       Inl e \<Rightarrow> (Some e, u)
     | Inr data \<Rightarrow>
         (case dav_do env c ''PUT'' (buildURL c remotePath) [(''content-type'', ''application/octet-stream'')] data u of
            (Inl e, u) \<Rightarrow> (Some e, u)
          | (Inr resp, u) \<Rightarrow> (if dav_ok resp then None else Some (dav_failed ''upload'' resp), u)))"

definition downloadFile :: "'u backup_env \<Rightarrow> webDAVClient \<Rightarrow> gostring \<Rightarrow> gostring \<Rightarrow> files \<Rightarrow> 'u \<Rightarrow> gostring option \<times> files \<times> 'u" where
  "downloadFile env c remotePath localPath fs u =
    (case dav_do env c ''GET'' (buildURL c remotePath) [] [] u of
       (Inl e, u) \<Rightarrow> (Some e, fs, u)
     | (Inr resp, u) \<Rightarrow>
         if \<not> dav_ok resp then (Some (dav_failed ''download'' resp), fs, u)
         else case rs_Body resp of
           BodyFailed e \<Rightarrow> (Some e, fs, u)
         | BodyOk content \<Rightarrow> (case write_file env localPath content fs of (e, fs) \<Rightarrow> (e, fs, u)))"

definition deleteFile :: "'u backup_env \<Rightarrow> webDAVClient \<Rightarrow> gostring \<Rightarrow> 'u \<Rightarrow> gostring option \<times> 'u" where
  "deleteFile env c remotePath u =
    (case dav_do env c ''DELETE'' (buildURL c remotePath) [] [] u of
       (Inl e, u) \<Rightarrow> (Some e, u)
     | (Inr resp, u) \<Rightarrow> (if dav_ok resp \<or> rs_StatusCode resp = 404 then None else Some (dav_failed ''delete'' resp), u))"

definition propfind_body :: gostring where
  "propfind_body =
    ''<?xml version='' @ [CHR 0x22] @ ''1.0'' @ [CHR 0x22] @ '' encoding='' @ [CHR 0x22] @ ''utf-8'' @ [CHR 0x22] @ '' ?><d:propfind xmlns:d=''
    @ [CHR 0x22] @ ''DAV:'' @ [CHR 0x22] @ ''><d:prop><d:getcontentlength/><d:getlastmodified/><d:resourcetype/></d:prop></d:propfind>''"

definition dav_item :: "'u backup_env \<Rightarrow> davResponse \<Rightarrow> webDAVItem option" where
  "dav_item env res =
    (let href = TrimSpace (dv_Href res) in
     if href = [] \<or> HasSuffix href ''/'' then None
     else Some (case dv_Propstat res of
       [] \<Rightarrow> \<lparr>wi_Href = href, wi_ContentLen = 0, wi_LastModified = None\<rparr>
     | (len, lm) # _ \<Rightarrow>
         \<lparr>wi_Href = href, wi_ContentLen = (case Atoi (TrimSpace len) of Some parsed \<Rightarrow> parsed | None \<Rightarrow> 0),
          wi_LastModified = (if TrimSpace lm \<noteq> [] then be_rfc1123 env (TrimSpace lm) else None)\<rparr>))"

definition item_before :: "webDAVItem \<Rightarrow> webDAVItem \<Rightarrow> bool" where
  \<comment> \<open>an item without a time has the zero time, which is before every other\<close>
  "item_before a b =
    (case (wi_LastModified a, wi_LastModified b) of
       (None, Some _) \<Rightarrow> True
     | (Some s, Some t) \<Rightarrow> s < t
     | _ \<Rightarrow> False)"

definition listFiles :: "'u backup_env \<Rightarrow> webDAVClient \<Rightarrow> gostring \<Rightarrow> 'u \<Rightarrow> (gostring + webDAVItem list) \<times> 'u" where
  "listFiles env c remoteDir u =
    (case dav_do env c ''PROPFIND'' (buildURL c remoteDir) [(''depth'', ''1''), (''content-type'', ''application/xml'')] propfind_body u of
       (Inl e, u) \<Rightarrow> (Inl e, u)
     | (Inr resp, u) \<Rightarrow>
         (if rs_StatusCode resp \<noteq> 207 \<and> \<not> dav_ok resp then Inl (dav_failed ''list'' resp)
          else case rs_Body resp of
            BodyFailed e \<Rightarrow> Inl e
          | BodyOk data \<Rightarrow>
              (case be_multistatus env data of
                 Inl e \<Rightarrow> Inl e
               | Inr responses \<Rightarrow> Inr (sort_by item_before (List.map_filter (dav_item env) responses))), u))"

definition item_expired :: "gotime \<Rightarrow> int \<Rightarrow> webDAVItem \<Rightarrow> bool" where
  "item_expired now maxDays item =
    (maxDays > 0 \<and> (case wi_LastModified item of None \<Rightarrow> False | Some t \<Rightarrow> now - t > maxDays * one_day))"

definition delete_items :: "'u backup_env \<Rightarrow> webDAVClient \<Rightarrow> webDAVItem list \<Rightarrow> 'u \<Rightarrow> 'u" where
  \<comment> \<open>an item that cannot be deleted is only logged\<close>
  "delete_items env c items u = fold (\<lambda>item u. snd (deleteFile env c (wi_Href item) u)) items u"

definition applyWebDAVRetention :: "'u backup_env \<Rightarrow> webDAVClient \<Rightarrow> gostring \<Rightarrow> int \<Rightarrow> int \<Rightarrow> 'u \<Rightarrow> gostring option \<times> 'u" where
  "applyWebDAVRetention env c basePath maxDays maxFiles u =
    (case listFiles env c basePath u of
       (Inl e, u) \<Rightarrow> (Some e, u)
     | (Inr items, u) \<Rightarrow>
         if items = [] then (None, u)
         else
           let now = be_clock env u; u = delete_items env c (filter (item_expired now maxDays) items) u in
           if maxFiles \<le> 0 then (None, u)
           else if int (length items) \<le> maxFiles then (None, u)
           else (None, delete_items env c (take (length items - nat maxFiles) items) u))"

end
