(* ===== verification/BackupPackage.thy ===== *)
theory BackupPackage
  imports BackupStore
begin

text \<open>
  From the database to the file that is uploaded, and back: the snapshots by driver, \<open>src/service/backup_snapshot.go\<close>,
  and the package with its manifest, its checksum and its encryption, \<open>src/service/backup_package.go\<close>. External
  commands, the archive format and the cipher are arguments.
\<close>

subsection \<open>Addresses of a database server\<close>

definition StrLastIndex :: "gostring \<Rightarrow> char \<Rightarrow> nat option" where
  "StrLastIndex s c = last_index_char s c"

definition SplitHostPort :: "gostring \<Rightarrow> (gostring \<times> gostring) option" where
  \<comment> \<open>\<open>net.SplitHostPort\<close>; \<open>None\<close> is any of its errors\<close>
  "SplitHostPort hp =
    (case StrLastIndex hp (CHR '':'') of
       None \<Rightarrow> None
     | Some i \<Rightarrow>
         let port = drop (Suc i) hp in
         if HasPrefix hp ''['' then
           (case StrIndex hp '']'' of
              None \<Rightarrow> None
            | Some e \<Rightarrow>
                if Suc e \<noteq> i then None
                else if CHR ''['' \<in> set (drop 1 hp) \<or> CHR '']'' \<in> set (drop (Suc e) hp) then None
                else Some (take (e - 1) (drop 1 hp), port))
         else if CHR '':'' \<in> set (take i hp) \<or> CHR ''['' \<in> set hp \<or> CHR '']'' \<in> set hp then None
         else Some (take i hp, port))"

definition JoinHostPort :: "gostring \<Rightarrow> gostring \<Rightarrow> gostring" where
  "JoinHostPort host port = (if CHR '':'' \<in> set host then ''['' @ host @ '']:'' @ port else host @ '':'' @ port)"

record mysql_address =
  my_user :: gostring
  my_pass :: gostring
  my_host :: gostring
  my_dbName :: gostring

definition parse_mysql_url :: "address_library \<Rightarrow> gostring \<Rightarrow> gostring + mysql_address" where
  "parse_mysql_url lib trimmed =
    (case al_parse lib trimmed of
       Inl e \<Rightarrow> Inl (''invalid mysql dsn: '' @ e)
     | Inr parsed \<Rightarrow>
         let host = (if \<not> StrContains (ad_Host parsed) '':'' then JoinHostPort (ad_Host parsed) ''3306'' else ad_Host parsed);
             (user, pass) = (case ad_User parsed of None \<Rightarrow> ([], []) | Some (n, p) \<Rightarrow> (n, case p of None \<Rightarrow> [] | Some p \<Rightarrow> p));
             dbName = TrimPrefix (ad_Path parsed) ''/''
         in if dbName = [] then Inl ''mysql dsn missing db name''
            else Inr \<lparr>my_user = user, my_pass = pass, my_host = host, my_dbName = dbName\<rparr>)"

definition parse_mysql_plain :: "gostring \<Rightarrow> gostring + mysql_address" where
  \<comment> \<open>\<open>user:pass@tcp(host:port)/name?options\<close>\<close>
  "parse_mysql_plain trimmed =
    (case (StrLastIndex trimmed (CHR ''@''), StrLastIndex trimmed (CHR ''/'')) of
       (Some atIdx, Some slashIdx) \<Rightarrow>
         if atIdx = 0 \<or> slashIdx \<le> atIdx then Inl ''unsupported mysql dsn format''
         else
           let userInfo = take atIdx trimmed;
               hostPart = drop (Suc atIdx) (take slashIdx trimmed);
               dbPart = drop (Suc slashIdx) trimmed;
               dbPart = (case StrIndex dbPart ''?'' of Some q \<Rightarrow> take q dbPart | None \<Rightarrow> dbPart);
               (user, pass) = (case StrIndex userInfo '':'' of None \<Rightarrow> (userInfo, []) | Some k \<Rightarrow> (take k userInfo, drop (Suc k) userInfo));
               hostPart = (if HasPrefix hostPart ''tcp('' \<and> HasSuffix hostPart '')'' then TrimSuffix (TrimPrefix hostPart ''tcp('') '')'' else hostPart);
               hostPart = (if \<not> StrContains hostPart '':'' then hostPart @ '':3306'' else hostPart)
           in if dbPart = [] then Inl ''mysql dsn missing db name''
              else if SplitHostPort hostPart = None then Inl (''invalid mysql host: '' @ hostPart)
              else if user = [] then Inl ''mysql dsn missing user''
              else if Atoi (Split1 (CHR '':'') hostPart ! 1) = None then Inl ''invalid mysql port''
              else Inr \<lparr>my_user = user, my_pass = pass, my_host = hostPart, my_dbName = dbPart\<rparr>
     | _ \<Rightarrow> Inl ''unsupported mysql dsn format'')"

definition parseMySQLDSN :: "address_library \<Rightarrow> gostring \<Rightarrow> gostring + mysql_address" where
  "parseMySQLDSN lib dsn =
    (let trimmed = TrimSpace dsn in
     if trimmed = [] then Inl ''mysql dsn is empty''
     else if HasPrefix trimmed ''mysql://'' then parse_mysql_url lib trimmed
     else parse_mysql_plain trimmed)"

definition host_and_port :: "gostring \<Rightarrow> gostring \<times> gostring" where
  "host_and_port host = (case SplitHostPort host of Some hp \<Rightarrow> hp | None \<Rightarrow> (host, ''3306''))"

subsection \<open>Snapshots\<close>

record SnapshotResult =
  sn_PayloadPath :: gostring
  sn_Format :: gostring

datatype Snapshotter =
    sqliteSnapshotter gostring
  | mysqlSnapshotter gostring gostring int
  | postgresSnapshotter gostring gostring int

definition getSnapshotter :: "gostring \<Rightarrow> gostring \<Rightarrow> BackupConfig \<Rightarrow> gostring + Snapshotter" where
  "getSnapshotter driver dsn cfg =
    (if driver = ''sqlite'' then Inr (sqliteSnapshotter dsn)
     else if driver = ''mysql'' then Inr (mysqlSnapshotter dsn (bc_MySQLDumpCommand cfg) (bc_CommandTimeout cfg))
     else if driver = ''postgres'' then Inr (postgresSnapshotter dsn (bc_PostgresDumpCommand cfg) (bc_CommandTimeout cfg))
     else Inl (''unsupported SQL driver: '' @ driver))"

definition sqlite_preflight :: "gostring \<Rightarrow> gostring option" where
  "sqlite_preflight path = (if TrimSpace path = [] then Some ''sqlite path is empty'' else None)"

definition mysql_preflight :: "'u backup_env \<Rightarrow> gostring \<Rightarrow> gostring \<Rightarrow> gostring option" where
  "mysql_preflight env dsn cmdName =
    (if TrimSpace cmdName = [] then Some ''mysql dump command is empty''
     else case be_lookpath env cmdName of
       Some e \<Rightarrow> Some (''mysql dump command not found: '' @ e)
     | None \<Rightarrow> (case parseMySQLDSN (be_address env) dsn of Inl e \<Rightarrow> Some e | Inr _ \<Rightarrow> None))"

definition postgres_preflight :: "'u backup_env \<Rightarrow> gostring \<Rightarrow> gostring \<Rightarrow> gostring option" where
  "postgres_preflight env dsn cmdName =
    (if TrimSpace cmdName = [] then Some ''postgres dump command is empty''
     else case be_lookpath env cmdName of
       Some e \<Rightarrow> Some (''postgres dump command not found: '' @ e)
     | None \<Rightarrow> if TrimSpace dsn = [] then Some ''postgres dsn is empty'' else None)"

fun Preflight :: "'u backup_env \<Rightarrow> Snapshotter \<Rightarrow> gostring option" where
  \<comment> \<open>the method of the interface\<close>
  "Preflight env (sqliteSnapshotter path) = sqlite_preflight path"
| "Preflight env (mysqlSnapshotter dsn cmdName timeout) = mysql_preflight env dsn cmdName"
| "Preflight env (postgresSnapshotter dsn cmdName timeout) = postgres_preflight env dsn cmdName"

definition time_limit :: "int \<Rightarrow> int option" where
  "time_limit timeout = (if timeout > 0 then Some timeout else None)"

definition vacuum_sql :: "gostring \<Rightarrow> gostring" where
  "vacuum_sql target = ''VACUUM INTO '' @ [CHR 0x27] @ ReplaceChar (CHR 0x27) [CHR 0x27, CHR 0x27] target @ [CHR 0x27]"

definition sqlite_snapshot :: "'u backup_env \<Rightarrow> gostring \<Rightarrow> stored_rows \<Rightarrow> files \<times> 'u \<Rightarrow> (gostring + SnapshotResult) \<times> files \<times> 'u" where
  "sqlite_snapshot env workDir rows = (\<lambda>(fs, u).
    let target = path_Join [workDir, ''sqlite-snapshot.db'']; fs = fs(target := None) in
    case be_vacuum env rows (vacuum_sql target) u of
      Inl e \<Rightarrow> (Inl (''sqlite snapshot failed: '' @ e), fs, u)
    | Inr content \<Rightarrow> (Inr \<lparr>sn_PayloadPath = target, sn_Format = ''sqlite-db''\<rparr>, fs(target \<mapsto> content), u))"

definition mysql_snapshot :: "'u backup_env \<Rightarrow> gostring \<Rightarrow> gostring \<Rightarrow> int \<Rightarrow> gostring \<Rightarrow> files \<times> 'u
   \<Rightarrow> (gostring + SnapshotResult) \<times> files \<times> 'u" where
  \<comment> \<open>both streams of the command go to the file\<close>
  "mysql_snapshot env dsn cmdName timeout workDir = (\<lambda>(fs, u).
    case parseMySQLDSN (be_address env) dsn of
      Inl e \<Rightarrow> (Inl e, fs, u)
    | Inr a \<Rightarrow>
        let payloadPath = path_Join [workDir, ''mysql-dump.sql'']; (hostname, port) = host_and_port (my_host a) in
        case write_file env payloadPath [] fs of
          (Some e, fs) \<Rightarrow> (Inl e, fs, u)
        | (None, fs) \<Rightarrow>
            (case be_exec env (time_limit timeout) cmdName
                [''--single-transaction'', ''--skip-lock-tables'', ''--quick'', ''--no-tablespaces'', ''-h'', hostname, ''-P'', port, ''-u'', my_user a,
                 ''--password='' @ my_pass a, my_dbName a] [] fs u of
               ((err, output, fs), u) \<Rightarrow>
                 ((case err of Some e \<Rightarrow> Inl (''mysql dump failed: '' @ e)
                   | None \<Rightarrow> Inr \<lparr>sn_PayloadPath = payloadPath, sn_Format = ''mysql-sql''\<rparr>), fs(payloadPath \<mapsto> output), u)))"

definition postgres_snapshot :: "'u backup_env \<Rightarrow> gostring \<Rightarrow> gostring \<Rightarrow> int \<Rightarrow> gostring \<Rightarrow> files \<times> 'u
   \<Rightarrow> (gostring + SnapshotResult) \<times> files \<times> 'u" where
  \<comment> \<open>the command writes the file itself\<close>
  "postgres_snapshot env dsn cmdName timeout workDir = (\<lambda>(fs, u).
    let payloadPath = path_Join [workDir, ''postgres-dump.sql''] in
    case be_exec env (time_limit timeout) cmdName [''--dbname'', dsn, ''-f'', payloadPath] [] fs u of
      ((Some e, output, fs), u) \<Rightarrow> (Inl (''postgres dump failed: '' @ e @ '': '' @ TrimSpace output), fs, u)
    | ((None, output, fs), u) \<Rightarrow> (Inr \<lparr>sn_PayloadPath = payloadPath, sn_Format = ''postgres-sql''\<rparr>, fs, u))"

definition CreateSnapshot :: "'u backup_env \<Rightarrow> Snapshotter \<Rightarrow> gostring \<Rightarrow> stored_rows \<Rightarrow> files \<times> 'u \<Rightarrow> (gostring + SnapshotResult) \<times> files \<times> 'u" where
  "CreateSnapshot env s workDir rows fu =
    (case Preflight env s of
       Some e \<Rightarrow> (Inl e, fu)
     | None \<Rightarrow>
         (case s of
            sqliteSnapshotter path \<Rightarrow> sqlite_snapshot env workDir rows fu
          | mysqlSnapshotter dsn cmdName timeout \<Rightarrow> mysql_snapshot env dsn cmdName timeout workDir fu
          | postgresSnapshotter dsn cmdName timeout \<Rightarrow> postgres_snapshot env dsn cmdName timeout workDir fu))"

record SnapshotPreflight =
  sp_Driver :: gostring
  sp_Ready :: bool
  sp_Message :: gostring
  sp_Command :: gostring

definition BackupSnapshotPreflight :: "'u backup_env \<Rightarrow> BackupConfig \<Rightarrow> gostring + SnapshotPreflight" where
  "BackupSnapshotPreflight env cfg =
    (case getActiveSQLDriverAndDSN (be_sqlite_path env) (be_env_driver env) (be_env_dsn env) of
       Inl e \<Rightarrow> Inl e
     | Inr (driver, dsn) \<Rightarrow>
         (case getSnapshotter driver dsn cfg of
            Inl e \<Rightarrow> Inl e
          | Inr s \<Rightarrow>
              let command = (if driver = ''mysql'' then bc_MySQLDumpCommand cfg else if driver = ''postgres'' then bc_PostgresDumpCommand cfg else ''internal'')
              in Inr (case Preflight env s of
                   Some e \<Rightarrow> \<lparr>sp_Driver = driver, sp_Ready = False, sp_Message = e, sp_Command = command\<rparr>
                 | None \<Rightarrow> \<lparr>sp_Driver = driver, sp_Ready = True, sp_Message = ''ok'', sp_Command = command\<rparr>)))"

subsection \<open>The manifest\<close>

record BackupManifest =
  mf_FormatVersion :: gostring
  mf_AppVersion :: gostring
  mf_CreatedAt :: int
  mf_Driver :: gostring
  mf_PayloadFile :: gostring
  mf_PayloadFormat :: gostring
  mf_PayloadSHA256 :: gostring
  mf_TriggerType :: gostring

fun print_scalar :: "json \<Rightarrow> gostring" where
  "print_scalar (JStr s) = print_string s"
| "print_scalar (JNum t) = t"
| "print_scalar _ = ''null''"

definition indented_member :: "gostring \<times> json \<Rightarrow> gostring" where
  "indented_member kv = [CHR 0x0A, CHR '' '', CHR '' ''] @ print_string (fst kv) @ '': '' @ print_scalar (snd kv)"

definition print_indented :: "(gostring \<times> json) list \<Rightarrow> gostring" where
  \<comment> \<open>\<open>json.MarshalIndent(v, "", "  ")\<close> of a flat, non-empty struct\<close>
  "print_indented kvs = ''{'' @ Join (map indented_member kvs) '','' @ [CHR 0x0A] @ ''}''"

definition manifest_members :: "BackupManifest \<Rightarrow> (gostring \<times> json) list" where
  "manifest_members m =
    [(''format_version'', JStr (mf_FormatVersion m)), (''app_version'', JStr (mf_AppVersion m)), (''created_at'', JNum (Itoa (mf_CreatedAt m))),
     (''driver'', JStr (mf_Driver m)), (''payload_file'', JStr (mf_PayloadFile m)), (''payload_format'', JStr (mf_PayloadFormat m)),
     (''payload_sha256'', JStr (mf_PayloadSHA256 m)), (''trigger_type'', JStr (mf_TriggerType m))]"

definition manifest_bytes :: "BackupManifest \<Rightarrow> gostring" where
  "manifest_bytes m = print_indented (manifest_members m)"

definition no_manifest :: BackupManifest where
  "no_manifest = \<lparr>mf_FormatVersion = [], mf_AppVersion = [], mf_CreatedAt = 0, mf_Driver = [], mf_PayloadFile = [], mf_PayloadFormat = [],
     mf_PayloadSHA256 = [], mf_TriggerType = []\<rparr>"

definition dec_manifest :: "BackupManifest decoder" where
  "dec_manifest = dec_struct (\<lambda>m z. do {
     a \<leftarrow> struct_field dec_string ''format_version'' m (mf_FormatVersion z);
     b \<leftarrow> struct_field dec_string ''app_version'' m (mf_AppVersion z);
     c \<leftarrow> struct_field dec_int ''created_at'' m (mf_CreatedAt z);
     d \<leftarrow> struct_field dec_string ''driver'' m (mf_Driver z);
     e \<leftarrow> struct_field dec_string ''payload_file'' m (mf_PayloadFile z);
     f \<leftarrow> struct_field dec_string ''payload_format'' m (mf_PayloadFormat z);
     g \<leftarrow> struct_field dec_string ''payload_sha256'' m (mf_PayloadSHA256 z);
     h \<leftarrow> struct_field dec_string ''trigger_type'' m (mf_TriggerType z);
     Some \<lparr>mf_FormatVersion = a, mf_AppVersion = b, mf_CreatedAt = c, mf_Driver = d, mf_PayloadFile = e, mf_PayloadFormat = f,
       mf_PayloadSHA256 = g, mf_TriggerType = h\<rparr>})"

subsection \<open>The package\<close>

record BackupArtifact =
  ba_LocalPath :: gostring
  ba_Manifest :: BackupManifest
  ba_PayloadSize :: int
  ba_Encrypted :: bool
  ba_RelativeName :: gostring

definition hex_encode :: "gostring \<Rightarrow> gostring" where
  "hex_encode s = concat (map (\<lambda>c. [hex_char (of_char c div 16), hex_char (of_char c mod 16)]) s)"

definition writeZipWithManifest :: "'u backup_env \<Rightarrow> gostring \<Rightarrow> gostring \<Rightarrow> gostring \<Rightarrow> gostring \<Rightarrow> files \<Rightarrow> gostring option \<times> files" where
  "writeZipWithManifest env targetPath payloadName payload manifest fs =
    write_file env targetPath (be_zip env [(payloadName, payload), (''manifest.json'', manifest)]) fs"

definition deriveEncryptionKey :: "'u backup_env \<Rightarrow> gostring \<Rightarrow> gostring" where
  "deriveEncryptionKey env passphrase = be_sha256 env passphrase"

definition encryptFileAESGCM :: "'u backup_env \<Rightarrow> gostring \<Rightarrow> gostring \<Rightarrow> gostring \<Rightarrow> files \<Rightarrow> 'u \<Rightarrow> gostring option \<times> files" where
  \<comment> \<open>the nonce is drawn from the world\<close>
  "encryptFileAESGCM env srcPath dstPath passphrase fs u =
    (case read_file srcPath fs of
       Inl e \<Rightarrow> (Some e, fs)
     | Inr plaintext \<Rightarrow>
         (let nonce = be_nonce env u
          in write_file env dstPath (nonce @ be_seal env (deriveEncryptionKey env passphrase) nonce plaintext) fs))"

definition decryptFileAESGCM :: "'u backup_env \<Rightarrow> gostring \<Rightarrow> gostring \<Rightarrow> gostring \<Rightarrow> files \<Rightarrow> gostring option \<times> files" where
  \<comment> \<open>the nonce of the cipher has 12 bytes\<close>
  "decryptFileAESGCM env srcPath dstPath passphrase fs =
    (case read_file srcPath fs of
       Inl e \<Rightarrow> (Some e, fs)
     | Inr ciphertext \<Rightarrow>
         if length ciphertext < 12 then (Some ''ciphertext too short'', fs)
         else case be_open env (deriveEncryptionKey env passphrase) (take 12 ciphertext) (drop 12 ciphertext) of
           Inl e \<Rightarrow> (Some (''decrypt failed: '' @ e), fs)
         | Inr plaintext \<Rightarrow> write_file env dstPath plaintext fs)"

definition new_manifest :: "'u backup_env \<Rightarrow> SnapshotResult \<Rightarrow> gostring \<Rightarrow> gostring \<Rightarrow> gostring \<Rightarrow> 'u \<Rightarrow> BackupManifest" where
  "new_manifest env snapshot driver trigger payload u =
    \<lparr>mf_FormatVersion = ''v1'', mf_AppVersion = be_version env, mf_CreatedAt = Unix (be_clock env u), mf_Driver = driver,
     mf_PayloadFile = path_Base (sn_PayloadPath snapshot), mf_PayloadFormat = sn_Format snapshot,
     mf_PayloadSHA256 = hex_encode (be_sha256 env payload), mf_TriggerType = trigger\<rparr>"

definition packed_file :: "'u backup_env \<Rightarrow> gostring \<Rightarrow> BackupConfig \<Rightarrow> files \<Rightarrow> 'u \<Rightarrow> (gostring + gostring \<times> bool) \<times> files" where
  \<comment> \<open>encryption, when it is on: the final path and whether it is encrypted\<close>
  "packed_file env rawPath cfg fs u =
    (if bc_EncryptEnabled cfg then
       (if TrimSpace (bc_EncryptPassphrase cfg) = [] then (Inl ''backup encryption is enabled but passphrase is empty'', fs)
        else case encryptFileAESGCM env rawPath (rawPath @ ''.enc'') (bc_EncryptPassphrase cfg) fs u of
          (Some e, fs) \<Rightarrow> (Inl e, fs)
        | (None, fs) \<Rightarrow> (Inr (rawPath @ ''.enc'', True), fs(rawPath := None)))
     else (Inr (rawPath, False), fs))"

definition buildBackupArtifact :: "'u backup_env \<Rightarrow> gostring \<Rightarrow> SnapshotResult \<Rightarrow> gostring \<Rightarrow> gostring \<Rightarrow> BackupConfig \<Rightarrow> files \<Rightarrow> 'u
   \<Rightarrow> (gostring + BackupArtifact) \<times> files" where
  "buildBackupArtifact env workDir snapshot driver trigger cfg fs u =
    (case read_file (sn_PayloadPath snapshot) fs of
       Inl e \<Rightarrow> (Inl e, fs)
     | Inr payload \<Rightarrow>
         let manifest = new_manifest env snapshot driver trigger payload u; rawPath = path_Join [workDir, ''backup-package.zip''] in
         case writeZipWithManifest env rawPath (path_Base (sn_PayloadPath snapshot)) payload (manifest_bytes manifest) fs of
           (Some e, fs) \<Rightarrow> (Inl e, fs)
         | (None, fs) \<Rightarrow>
             (case packed_file env rawPath cfg fs u of
                (Inl e, fs) \<Rightarrow> (Inl e, fs)
              | (Inr (finalPath, encrypted), fs) \<Rightarrow>
                  (case fs finalPath of
                     None \<Rightarrow> (Inl (''stat '' @ finalPath @ '': no such file or directory''), fs)
                   | Some st \<Rightarrow>
                       (Inr \<lparr>ba_LocalPath = finalPath, ba_Manifest = manifest, ba_PayloadSize = int (length st), ba_Encrypted = encrypted,
                          ba_RelativeName = driver @ ''-'' @ trigger @ ''-'' @ Itoa (Unix (be_clock env u)) @ ''.zip''
                            @ (if encrypted then ''.enc'' else [])\<rparr>, fs))))"

fun unpack_entries :: "'u backup_env \<Rightarrow> gostring \<Rightarrow> (gostring \<times> (gostring + gostring)) list \<Rightarrow> gostring \<Rightarrow> BackupManifest \<Rightarrow> files
   \<Rightarrow> (gostring + gostring \<times> BackupManifest) \<times> files" where
  "unpack_entries env baseDir [] payloadPath manifest fs = (Inr (payloadPath, manifest), fs)"
| "unpack_entries env baseDir ((name, content) # entries) payloadPath manifest fs =
    (case content of
       Inl e \<Rightarrow> (Inl e, fs)
     | Inr data \<Rightarrow>
         if name = ''manifest.json'' then
           (case json_unmarshal dec_manifest data manifest of
              None \<Rightarrow> (Inl ''json'', fs)
            | Some manifest \<Rightarrow> unpack_entries env baseDir entries payloadPath manifest fs)
         else
           (let payloadPath = path_Join [baseDir, path_Base name] in
            case write_file env payloadPath data fs of
              (Some e, fs) \<Rightarrow> (Inl e, fs)
            | (None, fs) \<Rightarrow> unpack_entries env baseDir entries payloadPath manifest fs))"

definition open_artifact :: "'u backup_env \<Rightarrow> gostring \<Rightarrow> BackupConfig \<Rightarrow> files \<Rightarrow> (gostring + gostring \<times> bool) \<times> files" where
  \<comment> \<open>the path of the archive, and whether it is a decrypted copy to be removed\<close>
  "open_artifact env artifactPath cfg fs =
    (if HasSuffix (ToLower artifactPath) ''.enc'' then
       (if TrimSpace (bc_EncryptPassphrase cfg) = [] then (Inl ''artifact is encrypted but passphrase is empty'', fs)
        else let zipPath = TrimSuffix artifactPath ''.enc'' in
          case decryptFileAESGCM env artifactPath zipPath (bc_EncryptPassphrase cfg) fs of
            (Some e, fs) \<Rightarrow> (Inl e, fs)
          | (None, fs) \<Rightarrow> (Inr (zipPath, True), fs))
     else (Inr (artifactPath, False), fs))"

definition unpackArtifactAndManifest :: "'u backup_env \<Rightarrow> gostring \<Rightarrow> BackupConfig \<Rightarrow> files \<Rightarrow> (gostring + gostring \<times> BackupManifest) \<times> files" where
  "unpackArtifactAndManifest env artifactPath cfg fs =
    (case open_artifact env artifactPath cfg fs of
       (Inl e, fs) \<Rightarrow> (Inl e, fs)
     | (Inr (zipPath, cleanupPlaintext), fs) \<Rightarrow>
         let tidy = (\<lambda>fs. if cleanupPlaintext then fs(zipPath := None) else fs) in
         case Option.bind (fs zipPath) (\<lambda>s. Some (be_unzip env s)) of
           None \<Rightarrow> (Inl (''open '' @ zipPath @ '': no such file or directory''), tidy fs)
         | Some (Inl e) \<Rightarrow> (Inl e, tidy fs)
         | Some (Inr entries) \<Rightarrow>
             (case unpack_entries env (path_Dir zipPath) entries [] no_manifest fs of
                (Inl e, fs) \<Rightarrow> (Inl e, tidy fs)
              | (Inr (payloadPath, manifest), fs) \<Rightarrow>
                  (if payloadPath = [] then Inl ''payload file missing in artifact''
                   else if TrimSpace (mf_PayloadSHA256 manifest) = [] then Inl ''manifest payload hash is missing''
                   else Inr (payloadPath, manifest), tidy fs)))"

definition verifyPayloadChecksum :: "'u backup_env \<Rightarrow> gostring \<Rightarrow> gostring \<Rightarrow> files \<Rightarrow> gostring option" where
  "verifyPayloadChecksum env path expectedSHA256 fs =
    (case read_file path fs of
       Inl e \<Rightarrow> Some e
     | Inr bytes \<Rightarrow>
         if \<not> EqualFold (hex_encode (be_sha256 env bytes)) (TrimSpace expectedSHA256) then Some ''payload checksum mismatch'' else None)"

end
