(* ===== verification/Backup.thy ===== *)
theory Backup
  imports BackupPackage
begin

text \<open>
  Runs of the backup and their repetition, \<open>src/service/backup_core.go\<close>, restoring, \<open>src/service/backup_restore.go\<close>,
  and the handlers, \<open>src/controller/backup.go\<close>. A run is cut at the two places where it takes the lock of the memory:
  it begins, works, and ends, so that other steps of the program can come between. The clock is read from the outer world.
\<close>

subsection \<open>State\<close>

record backup_memory =
  bm_dirty :: bool
  bm_dirtyReason :: gostring
  bm_lastDirtyAt :: gotime
  bm_lastRunAt :: "gotime option"
  bm_running :: bool
  bm_lastScheduleMinute :: int
  bm_lastScheduleEvalAt :: int

record backup_world =
  bw_db :: db
  bw_options :: options
  bw_option_rows :: options
  bw_memory :: backup_memory
  bw_tables :: backup_tables
  bw_files :: files

definition rows_of :: "backup_world \<Rightarrow> stored_rows" where
  \<comment> \<open>everything that is in the database\<close>
  "rows_of w = \<lparr>sr_db = bw_db w, sr_tables = bw_tables w, sr_option_rows = bw_option_rows w\<rparr>"

definition with_rows :: "stored_rows \<Rightarrow> backup_world \<Rightarrow> backup_world" where
  "with_rows r w = w\<lparr>bw_db := sr_db r, bw_tables := sr_tables r, bw_option_rows := sr_option_rows r\<rparr>"

definition fresh_memory :: backup_memory where
  "fresh_memory = \<lparr>bm_dirty = False, bm_dirtyReason = [], bm_lastDirtyAt = 0, bm_lastRunAt = None, bm_running = False, bm_lastScheduleMinute = 0,
     bm_lastScheduleEvalAt = 0\<rparr>"

abbreviation backup_config :: "'u backup_env \<Rightarrow> backup_world \<Rightarrow> BackupConfig" where
  "backup_config env w \<equiv> GetBackupConfig (be_upload_path env) (bw_options w)"

abbreviation active_database :: "'u backup_env \<Rightarrow> gostring + gostring \<times> gostring" where
  "active_database env \<equiv> getActiveSQLDriverAndDSN (be_sqlite_path env) (be_env_driver env) (be_env_dsn env)"

abbreviation redacted :: "'u backup_env \<Rightarrow> gostring \<Rightarrow> gostring" where
  "redacted env \<equiv> redactBackupMessage (be_address env)"

definition MarkBackupDirty :: "'u backup_env \<Rightarrow> gostring \<Rightarrow> gotime \<Rightarrow> backup_world \<Rightarrow> backup_world" where
  "MarkBackupDirty env reason now w =
    (let cfg = backup_config env w in
     if \<not> bc_Enabled cfg \<or> \<not> shouldAllowEventTrigger (bc_TriggerMode cfg) then w
     else w\<lparr>bw_memory := (bw_memory w)\<lparr>bm_dirty := True, bm_dirtyReason := TrimSpace reason, bm_lastDirtyAt := now\<rparr>\<rparr>)"

subsection \<open>When a run is due\<close>

definition canRunByInterval :: "gotime \<Rightarrow> BackupConfig \<Rightarrow> backup_memory \<Rightarrow> bool" where
  "canRunByInterval now cfg m =
    (case bm_lastRunAt m of None \<Rightarrow> True | Some t \<Rightarrow> \<not> (bc_MinInterval cfg > 0 \<and> now - t < bc_MinInterval cfg))"

definition shouldRunBackupByDirty :: "gotime \<Rightarrow> BackupConfig \<Rightarrow> backup_memory \<Rightarrow> bool" where
  "shouldRunBackupByDirty now cfg m =
    (if \<not> bm_dirty m then False
     else if bc_Debounce cfg > 0 \<and> now - bm_lastDirtyAt m < bc_Debounce cfg then False
     else case bm_lastRunAt m of
       None \<Rightarrow> True
     | Some t \<Rightarrow> \<not> (bc_MinInterval cfg > 0 \<and> now - t < bc_MinInterval cfg))"

datatype backup_task = RunBackup gostring | RetryQueue gotime

definition EvaluateBackupScheduleIfNeeded :: "'u backup_env \<Rightarrow> gotime \<Rightarrow> backup_world \<Rightarrow> backup_task list \<times> backup_world" where
  \<comment> \<open>the goroutines that a tick starts; a wrong cron expression is logged and ends the tick\<close>
  "EvaluateBackupScheduleIfNeeded env now w =
    (let cfg = backup_config env w; m = (bw_memory w)\<lparr>bm_lastScheduleEvalAt := Unix now\<rparr>; w = w\<lparr>bw_memory := m\<rparr> in
     if \<not> bc_Enabled cfg \<or> bm_running m then ([], w)
     else if shouldAllowEventTrigger (bc_TriggerMode cfg) \<and> shouldRunBackupByDirty now cfg m then ([RunBackup ''event''], w)
     else if shouldAllowScheduleTrigger (bc_TriggerMode cfg) then
       (case shouldRunCronExpression (be_location env) (bc_ScheduleCron cfg) now of
          Inl e \<Rightarrow> ([], w)
        | Inr matched \<Rightarrow>
            ((if matched \<and> bm_lastScheduleMinute m \<noteq> Unix now div 60 \<and> canRunByInterval now cfg m then [RunBackup ''schedule''] else [])
             @ [RetryQueue now], w))
     else ([RetryQueue now], w))"

subsection \<open>A run\<close>

definition maxInt64 :: "int \<Rightarrow> int \<Rightarrow> int" where
  "maxInt64 a b = (if a > b then a else b)"

definition enqueueBackupRetry :: "'u backup_env \<Rightarrow> int \<Rightarrow> gostring \<Rightarrow> gostring \<Rightarrow> BackupConfig \<Rightarrow> gostring \<Rightarrow> gotime \<Rightarrow> backup_tables \<Rightarrow> backup_tables" where
  "enqueueBackupRetry env runID artifactPath remotePath cfg err now t =
    Retry_Insert now
      \<lparr>br_Id = 0, br_RunId = runID, br_ArtifactPath = artifactPath, br_RemotePath = remotePath, br_RetryCount = 0, br_MaxRetries = bc_MaxRetries cfg,
       br_NextRetryAt = Unix now + bc_RetryBase cfg div Second, br_LastError = redacted env err, br_Status = ''pending'', br_CreatedAt = 0,
       br_UpdatedAt = 0\<rparr> t"

record backup_outcome =
  bo_Status :: gostring
  bo_ArtifactPath :: gostring
  bo_RemotePath :: gostring
  bo_ArtifactSize :: int
  bo_Error :: "gostring option"
  bo_CleanupWorkDir :: bool

definition failed_before :: "gostring \<Rightarrow> backup_outcome" where
  "failed_before e = \<lparr>bo_Status = ''failed'', bo_ArtifactPath = [], bo_RemotePath = [], bo_ArtifactSize = 0, bo_Error = Some e, bo_CleanupWorkDir = True\<rparr>"

definition upload_failed :: "'u backup_env \<Rightarrow> BackupConfig \<Rightarrow> BackupRun \<Rightarrow> BackupArtifact \<Rightarrow> gostring \<Rightarrow> gostring \<Rightarrow> backup_world \<times> 'u
   \<Rightarrow> backup_outcome \<times> backup_world \<times> 'u" where
  \<comment> \<open>the artifact stays where it is and waits in the queue\<close>
  "upload_failed env cfg run artifact remotePath e = (\<lambda>(w, u).
    (\<lparr>bo_Status = ''failed'', bo_ArtifactPath = ba_LocalPath artifact, bo_RemotePath = remotePath, bo_ArtifactSize = ba_PayloadSize artifact,
      bo_Error = Some e, bo_CleanupWorkDir = False\<rparr>,
     w\<lparr>bw_tables := enqueueBackupRetry env (bk_Id run) (ba_LocalPath artifact) remotePath cfg e (be_clock env u) (bw_tables w)\<rparr>, u))"

definition upload_artifact :: "'u backup_env \<Rightarrow> BackupConfig \<Rightarrow> BackupRun \<Rightarrow> BackupArtifact \<Rightarrow> backup_world \<times> 'u
   \<Rightarrow> backup_outcome \<times> backup_world \<times> 'u" where
  "upload_artifact env cfg run artifact = (\<lambda>(w, u).
    case newWebDAVClient env cfg of
      Inl e \<Rightarrow> upload_failed env cfg run artifact [] e (w, u)
    | Inr client \<Rightarrow>
        (case ensureCollection env client (bc_WebDAVBasePath cfg) u of
           (Some e, u) \<Rightarrow> upload_failed env cfg run artifact [] e (w, u)
         | (None, u) \<Rightarrow>
             let remotePath = path_Join [bc_WebDAVBasePath cfg, ba_RelativeName artifact] in
             case uploadFile env client (ba_LocalPath artifact) remotePath (bw_files w) u of
               (Some e, u) \<Rightarrow> upload_failed env cfg run artifact remotePath e (w, u)
             | (None, u) \<Rightarrow>
                 (case applyWebDAVRetention env client (bc_WebDAVBasePath cfg) (bc_RetentionDays cfg) (bc_RetentionMaxFiles cfg) u of
                    (_, u) \<Rightarrow>
                      (\<lparr>bo_Status = ''success'', bo_ArtifactPath = ba_LocalPath artifact, bo_RemotePath = remotePath,
                        bo_ArtifactSize = ba_PayloadSize artifact, bo_Error = None, bo_CleanupWorkDir = True\<rparr>,
                       w\<lparr>bw_files := (bw_files w)(ba_LocalPath artifact := None)\<rparr>, u))))"

definition pack_backup :: "'u backup_env \<Rightarrow> BackupConfig \<Rightarrow> gostring \<Rightarrow> gostring \<Rightarrow> gostring \<Rightarrow> gostring \<Rightarrow> backup_world \<times> 'u
   \<Rightarrow> (gostring + BackupArtifact) \<times> backup_world \<times> 'u" where
  \<comment> \<open>snapshot and package; the row of the run is in the snapshot as running\<close>
  "pack_backup env cfg trigger driver dsn workDir = (\<lambda>(w, u).
    case getSnapshotter driver dsn cfg of
      Inl e \<Rightarrow> (Inl e, w, u)
    | Inr snapshotter \<Rightarrow>
        (case Preflight env snapshotter of
           Some e \<Rightarrow> (Inl e, w, u)
         | None \<Rightarrow>
             (case CreateSnapshot env snapshotter workDir (rows_of w) (bw_files w, u) of
                (Inl e, fs, u) \<Rightarrow> (Inl e, w\<lparr>bw_files := fs\<rparr>, u)
              | (Inr snapshot, fs, u) \<Rightarrow>
                  (case buildBackupArtifact env workDir snapshot driver trigger cfg fs u of
                     (r, fs) \<Rightarrow> (r, w\<lparr>bw_files := fs\<rparr>, u)))))"

definition perform_backup :: "'u backup_env \<Rightarrow> BackupConfig \<Rightarrow> gostring \<Rightarrow> gostring \<Rightarrow> gostring \<Rightarrow> gostring \<Rightarrow> BackupRun \<Rightarrow> backup_world \<times> 'u
   \<Rightarrow> backup_outcome \<times> backup_world \<times> 'u" where
  \<comment> \<open>and upload\<close>
  "perform_backup env cfg trigger driver dsn workDir run s =
    (case pack_backup env cfg trigger driver dsn workDir s of
       (Inl e, s) \<Rightarrow> (failed_before e, s)
     | (Inr artifact, s) \<Rightarrow> upload_artifact env cfg run artifact s)"

definition finished :: "'u backup_env \<Rightarrow> backup_outcome \<Rightarrow> gotime \<Rightarrow> BackupRun \<Rightarrow> BackupRun" where
  \<comment> \<open>the fields that \<open>finishRun\<close> sets\<close>
  "finished env out now run =
    (let run = run\<lparr>bk_Status := bo_Status out, bk_ArtifactPath := bo_ArtifactPath out, bk_RemotePath := bo_RemotePath out,
           bk_ArtifactSize := bo_ArtifactSize out, bk_EndedAt := Unix now,
           bk_DurationMs := maxInt64 0 ((Unix now - bk_StartedAt run) * 1000)\<rparr>
     in case bo_Error out of None \<Rightarrow> run | Some e \<Rightarrow> run\<lparr>bk_ErrorMessage := redacted env e\<rparr>)"

definition remembered :: "gostring \<Rightarrow> backup_outcome \<Rightarrow> gotime \<Rightarrow> backup_memory \<Rightarrow> backup_memory" where
  "remembered trigger out now m =
    (let m = m\<lparr>bm_lastRunAt := Some now\<rparr>;
         m = (if bo_Status out = ''success'' then m\<lparr>bm_dirty := False, bm_dirtyReason := []\<rparr> else m)
     in if trigger = ''schedule'' then m\<lparr>bm_lastScheduleMinute := Unix now div 60\<rparr> else m)"

definition finish_run :: "'u backup_env \<Rightarrow> gostring \<Rightarrow> gostring \<Rightarrow> BackupRun \<Rightarrow> backup_outcome \<Rightarrow> gotime \<Rightarrow> backup_world \<Rightarrow> BackupRun \<times> backup_world" where
  "finish_run env trigger workDir run out now w =
    (let run = finished env out now run
     in (run, w\<lparr>bw_tables := save_run run (bw_tables w), bw_memory := remembered trigger out now (bw_memory w),
           bw_files := (if bo_CleanupWorkDir out then remove_all workDir (bw_files w) else bw_files w)\<rparr>))"

definition begin_backup :: "'u backup_env \<Rightarrow> backup_world \<Rightarrow> gostring + backup_world" where
  "begin_backup env w =
    (if \<not> bc_Enabled (backup_config env w) then Inl ''backup is disabled''
     else if bm_running (bw_memory w) then Inl ''backup is already running''
     else Inr (w\<lparr>bw_memory := (bw_memory w)\<lparr>bm_running := True\<rparr>\<rparr>))"

definition end_backup :: "backup_world \<Rightarrow> backup_world" where
  "end_backup w = w\<lparr>bw_memory := (bw_memory w)\<lparr>bm_running := False\<rparr>\<rparr>"

record backup_job =
  bj_trigger :: gostring
  bj_driver :: gostring
  bj_dsn :: gostring
  bj_workDir :: gostring
  bj_run :: BackupRun

definition prepare_backup :: "'u backup_env \<Rightarrow> BackupConfig \<Rightarrow> gostring \<Rightarrow> gotime \<Rightarrow> backup_world \<Rightarrow> (gostring + backup_job) \<times> backup_world" where
  \<comment> \<open>from the database in use to the new row\<close>
  "prepare_backup env cfg trigger now w =
    (case active_database env of
       Inl e \<Rightarrow> (Inl e, w)
     | Inr (driver, dsn) \<Rightarrow>
         (case ensureBackupSpoolDir (be_mkdir env) (bc_SpoolDir cfg) of
            Some e \<Rightarrow> (Inl e, w)
          | None \<Rightarrow>
              let workDir = path_Join [bc_SpoolDir cfg, ''run-'' @ Itoa now] in
              case be_mkdir env workDir of
                Some e \<Rightarrow> (Inl e, w)
              | None \<Rightarrow>
                  let (run, t) = BackupRun_Insert now
                        \<lparr>bk_Id = 0, bk_TriggerType = trigger, bk_DBDriver = driver, bk_Status = ''running'', bk_ArtifactPath = [], bk_RemotePath = [],
                         bk_ArtifactSize = 0, bk_DurationMs = 0, bk_ErrorMessage = [], bk_StartedAt = Unix now, bk_EndedAt = 0, bk_CreatedAt = Unix now\<rparr>
                        (bw_tables w)
                  in (Inr \<lparr>bj_trigger = trigger, bj_driver = driver, bj_dsn = dsn, bj_workDir = workDir, bj_run = run\<rparr>, w\<lparr>bw_tables := t\<rparr>)))"

definition work_on :: "'u backup_env \<Rightarrow> BackupConfig \<Rightarrow> backup_job \<Rightarrow> backup_world \<times> 'u \<Rightarrow> backup_outcome \<times> backup_world \<times> 'u" where
  "work_on env cfg job s = perform_backup env cfg (bj_trigger job) (bj_driver job) (bj_dsn job) (bj_workDir job) (bj_run job) s"

definition close_job :: "'u backup_env \<Rightarrow> backup_job \<Rightarrow> backup_outcome \<Rightarrow> gotime \<Rightarrow> backup_world \<Rightarrow> BackupRun \<times> backup_world" where
  \<comment> \<open>\<open>finishRun\<close> and the deferred release\<close>
  "close_job env job out now w =
    (case finish_run env (bj_trigger job) (bj_workDir job) (bj_run job) out now w of (run, w) \<Rightarrow> (run, end_backup w))"

definition TriggerBackupNow :: "'u backup_env \<Rightarrow> gostring \<Rightarrow> backup_world \<times> 'u \<Rightarrow> (gostring option \<times> BackupRun option) \<times> backup_world \<times> 'u" where
  "TriggerBackupNow env trigger = (\<lambda>(w, u).
    let cfg = backup_config env w in
    case begin_backup env w of
      Inl e \<Rightarrow> ((Some e, None), w, u)
    | Inr w \<Rightarrow>
        (case prepare_backup env cfg trigger (be_clock env u) w of
           (Inl e, w) \<Rightarrow> ((Some e, None), end_backup w, u)
         | (Inr job, w) \<Rightarrow>
             (case work_on env cfg job (w, u) of
                (out, w, u) \<Rightarrow> (case close_job env job out (be_clock env u) w of (run, w) \<Rightarrow> ((bo_Error out, Some run), w, u)))))"

subsection \<open>Uploads that are repeated\<close>

definition retry_remote :: "BackupConfig \<Rightarrow> BackupUploadRetry \<Rightarrow> gostring" where
  "retry_remote cfg row =
    (if TrimSpace (br_RemotePath row) = [] then path_Join [bc_WebDAVBasePath cfg, path_Base (br_ArtifactPath row)] else br_RemotePath row)"

definition retry_done :: "'u backup_env \<Rightarrow> BackupUploadRetry \<Rightarrow> gostring \<Rightarrow> gotime \<Rightarrow> backup_tables \<Rightarrow> backup_tables" where
  "retry_done env row remotePath now t =
    (let t = Retry_Update now (row\<lparr>br_Status := ''done'', br_LastError := []\<rparr>) t in
     case GetBackupRunById (br_RunId row) t of
       Inr (Some run) \<Rightarrow> save_run (run\<lparr>bk_Status := ''success'', bk_RemotePath := remotePath, bk_ErrorMessage := []\<rparr>) t
     | _ \<Rightarrow> t)"

definition retry_again :: "'u backup_env \<Rightarrow> BackupConfig \<Rightarrow> BackupUploadRetry \<Rightarrow> gostring \<Rightarrow> gotime \<Rightarrow> gotime \<Rightarrow> backup_tables \<Rightarrow> backup_tables" where
  \<comment> \<open>\<open>now\<close> is the time of the tick, the last time the one of the clock\<close>
  "retry_again env cfg row err now clock t =
    (let row = row\<lparr>br_RetryCount := br_RetryCount row + 1, br_LastError := redacted env err\<rparr> in
     if br_RetryCount row > br_MaxRetries row then Retry_Update clock (row\<lparr>br_Status := ''failed''\<rparr>) t
     else Retry_Update clock (row\<lparr>br_NextRetryAt := Unix now + retryBackoff (bc_RetryBase cfg) (br_RetryCount row) div Second\<rparr>) t)"

definition retry_step :: "'u backup_env \<Rightarrow> BackupConfig \<Rightarrow> webDAVClient \<Rightarrow> gotime \<Rightarrow> BackupUploadRetry \<Rightarrow> backup_world \<times> 'u \<Rightarrow> backup_world \<times> 'u" where
  "retry_step env cfg client now row = (\<lambda>(w, u).
    let remotePath = retry_remote cfg row in
    case uploadFile env client (br_ArtifactPath row) remotePath (bw_files w) u of
      (None, u) \<Rightarrow>
        let w = w\<lparr>bw_tables := retry_done env row remotePath (be_clock env u) (bw_tables w),
                  bw_files := (bw_files w)(br_ArtifactPath row := None)\<rparr>
        in (w, snd (applyWebDAVRetention env client (bc_WebDAVBasePath cfg) (bc_RetentionDays cfg) (bc_RetentionMaxFiles cfg) u))
    | (Some e, u) \<Rightarrow> (w\<lparr>bw_tables := retry_again env cfg row e now (be_clock env u) (bw_tables w)\<rparr>, u))"

definition ProcessBackupRetryQueue :: "'u backup_env \<Rightarrow> gotime \<Rightarrow> backup_world \<times> 'u \<Rightarrow> backup_world \<times> 'u" where
  "ProcessBackupRetryQueue env now = (\<lambda>(w, u).
    let cfg = backup_config env w in
    if \<not> bc_Enabled cfg then (w, u)
    else
      let rows = GetDueBackupUploadRetries (Unix now) 10 (bw_tables w) in
      if rows = [] then (w, u)
      else case newWebDAVClient env cfg of
        Inl e \<Rightarrow> (w, u)
      | Inr client \<Rightarrow>
          (case ensureCollection env client (bc_WebDAVBasePath cfg) u of
             (Some e, u) \<Rightarrow> (w, u)
           | (None, u) \<Rightarrow> fold (retry_step env cfg client now) rows (w, u)))"

fun run_task :: "'u backup_env \<Rightarrow> backup_task \<Rightarrow> backup_world \<times> 'u \<Rightarrow> backup_world \<times> 'u" where
  \<comment> \<open>\<open>runBackupAsync\<close>, which only logs an error, and the retry queue\<close>
  "run_task env (RunBackup trigger) s = snd (TriggerBackupNow env trigger s)"
| "run_task env (RetryQueue now) s = ProcessBackupRetryQueue env now s"

record BackupStatusView =
  sv_Config :: BackupConfig
  sv_PendingRetryCount :: int
  sv_LastRun :: "BackupRun option"
  sv_DirtyPending :: bool
  sv_LastDirtyReason :: gostring
  sv_LastScheduleEvalAt :: int

definition GetBackupStatusView :: "'u backup_env \<Rightarrow> backup_world \<Rightarrow> BackupStatusView" where
  "GetBackupStatusView env w =
    \<lparr>sv_Config = RedactedForAPI (backup_config env w), sv_PendingRetryCount = CountPendingBackupRetries (bw_tables w),
     sv_LastRun = GetLatestBackupRun (bw_tables w), sv_DirtyPending = bm_dirty (bw_memory w), sv_LastDirtyReason = bm_dirtyReason (bw_memory w),
     sv_LastScheduleEvalAt = bm_lastScheduleEvalAt (bw_memory w)\<rparr>"

end
