(* ===== verification/BackupRestore.thy ===== *)
theory BackupRestore
  imports Backup
begin

text \<open>
  Restoring a backup, \<open>src/service/backup_restore.go\<close>, and the handlers of \<open>src/controller/backup.go\<close>. A restore replaces
  the database under the open handle: the rows after it are what \<open>be_shown\<close> says, while the memory and the option map
  of the process stay as they are.
\<close>

subsection \<open>Requests and results\<close>

record BackupRestoreRequest =
  rq_RunID :: int
  rq_LocalPath :: gostring
  rq_RemotePath :: gostring
  rq_DryRun :: bool
  rq_Confirm :: bool

record BackupRestoreResult =
  rz_Ready :: bool
  rz_DryRun :: bool
  rz_Driver :: gostring
  rz_Message :: gostring
  rz_Artifact :: gostring
  rz_Manifest :: "BackupManifest option"
  rz_Health :: "(gostring, int) gomap"
  rz_Warnings :: "gostring list"

subsection \<open>The artifact\<close>

definition fetch_artifact :: "'u backup_env \<Rightarrow> BackupConfig \<Rightarrow> gostring \<Rightarrow> files \<times> 'u \<Rightarrow> (gostring + gostring \<times> gostring list) \<times> files \<times> 'u" where
  \<comment> \<open>a copy of the remote file in the spool directory\<close>
  "fetch_artifact env cfg remote = (\<lambda>(fs, u).
    case ensureBackupSpoolDir (be_mkdir env) (bc_SpoolDir cfg) of
      Some e \<Rightarrow> (Inl e, fs, u)
    | None \<Rightarrow>
        let local_path = path_Join [bc_SpoolDir cfg, ''restore-'' @ Itoa (be_clock env u) @ path_Ext remote] in
        case newWebDAVClient env cfg of
          Inl e \<Rightarrow> (Inl e, fs, u)
        | Inr client \<Rightarrow>
            (case downloadFile env client remote local_path fs u of
               (Some e, fs, u) \<Rightarrow> (Inl e, fs, u)
             | (None, fs, u) \<Rightarrow> (Inr (local_path, [''artifact downloaded from remote path'']), fs, u)))"

definition by_remote_path :: "'u backup_env \<Rightarrow> BackupRestoreRequest \<Rightarrow> BackupConfig \<Rightarrow> files \<times> 'u \<Rightarrow> (gostring + gostring \<times> gostring list) \<times> files \<times> 'u" where
  "by_remote_path env req cfg s =
    (let remote = TrimSpace (rq_RemotePath req) in
     if remote \<noteq> [] then fetch_artifact env cfg remote s else (Inl ''missing restore artifact reference'', s))"

definition resolveRestoreArtifactPath :: "'u backup_env \<Rightarrow> BackupRestoreRequest \<Rightarrow> BackupConfig \<Rightarrow> backup_tables \<Rightarrow> files \<times> 'u
   \<Rightarrow> (gostring + gostring \<times> gostring list) \<times> files \<times> 'u" where
  "resolveRestoreArtifactPath env req cfg t = (\<lambda>(fs, u).
    let trimmed = TrimSpace (rq_LocalPath req) in
    if trimmed \<noteq> [] then
      (if fs trimmed = None then (Inl (''stat '' @ trimmed @ '': no such file or directory''), fs, u) else (Inr (trimmed, []), fs, u))
    else if rq_RunID req > 0 then
      (case GetBackupRunById (rq_RunID req) t of
         Inr (Some run) \<Rightarrow>
           (if TrimSpace (bk_ArtifactPath run) \<noteq> [] \<and> fs (bk_ArtifactPath run) \<noteq> None then (Inr (bk_ArtifactPath run, []), fs, u)
            else if TrimSpace (bk_RemotePath run) \<noteq> [] then fetch_artifact env cfg (bk_RemotePath run) (fs, u)
            else by_remote_path env req cfg (fs, u))
       | _ \<Rightarrow> (Inl ''backup run not found'', fs, u))
    else by_remote_path env req cfg (fs, u))"

definition ValidateBackupRestoreRequest :: "'u backup_env \<Rightarrow> BackupRestoreRequest \<Rightarrow> backup_world \<times> 'u
   \<Rightarrow> (gostring + BackupRestoreResult) \<times> backup_world \<times> 'u" where
  \<comment> \<open>the unpacked payload is removed in the end\<close>
  "ValidateBackupRestoreRequest env req = (\<lambda>(w, u).
    let cfg = backup_config env w in
    case resolveRestoreArtifactPath env req cfg (bw_tables w) (bw_files w, u) of
      (Inl e, fs, u) \<Rightarrow> (Inl e, w\<lparr>bw_files := fs\<rparr>, u)
    | (Inr (artifactPath, warnings), fs, u) \<Rightarrow>
        (case unpackArtifactAndManifest env artifactPath cfg fs of
           (Inl e, fs) \<Rightarrow> (Inl e, w\<lparr>bw_files := fs\<rparr>, u)
         | (Inr (payloadPath, manifest), fs) \<Rightarrow>
             ((case verifyPayloadChecksum env payloadPath (mf_PayloadSHA256 manifest) fs of
                 Some e \<Rightarrow> Inl e
               | None \<Rightarrow>
                   (case active_database env of
                      Inl e \<Rightarrow> Inl e
                    | Inr (activeDriver, _) \<Rightarrow>
                        Inr \<lparr>rz_Ready = (mf_Driver manifest = activeDriver), rz_DryRun = rq_DryRun req, rz_Driver = activeDriver,
                          rz_Message = (if mf_Driver manifest \<noteq> activeDriver
                            then ''backup driver mismatch: artifact='' @ mf_Driver manifest @ '' current='' @ activeDriver
                            else ''restore preflight passed''),
                          rz_Artifact = artifactPath, rz_Manifest = Some manifest, rz_Health = [], rz_Warnings = warnings\<rparr>)),
              w\<lparr>bw_files := fs(payloadPath := None)\<rparr>, u)))"

subsection \<open>Restoring\<close>

definition copyFile :: "'u backup_env \<Rightarrow> gostring \<Rightarrow> gostring \<Rightarrow> files \<Rightarrow> gostring option \<times> files" where
  "copyFile env src dst fs = (case read_file src fs of Inl e \<Rightarrow> (Some e, fs) | Inr input \<Rightarrow> write_file env dst input fs)"

definition restore_sqlite :: "'u backup_env \<Rightarrow> gostring \<Rightarrow> files \<Rightarrow> gostring option \<times> files" where
  "restore_sqlite env payloadPath fs =
    (let target = be_sqlite_path env in
     case copyFile env target (target @ ''.pre-restore.bak'') fs of
       (Some e, fs) \<Rightarrow> (Some (''sqlite pre-restore backup failed: '' @ e), fs)
     | (None, fs) \<Rightarrow>
         (case copyFile env payloadPath target fs of
            (Some e, fs) \<Rightarrow> (Some (''sqlite restore failed: '' @ e), fs)
          | (None, fs) \<Rightarrow> (None, fs)))"

definition restore_mysql :: "'u backup_env \<Rightarrow> gostring \<Rightarrow> BackupConfig \<Rightarrow> files \<times> 'u \<Rightarrow> gostring option \<times> files \<times> 'u" where
  "restore_mysql env payloadPath cfg = (\<lambda>(fs, u).
    case active_database env of
      Inl e \<Rightarrow> (Some e, fs, u)
    | Inr (_, dsn) \<Rightarrow>
        (case parseMySQLDSN (be_address env) dsn of
           Inl e \<Rightarrow> (Some e, fs, u)
         | Inr a \<Rightarrow>
             let (hostname, port) = host_and_port (my_host a) in
             case read_file payloadPath fs of
               Inl e \<Rightarrow> (Some e, fs, u)
             | Inr content \<Rightarrow>
                 (case be_exec env (time_limit (bc_CommandTimeout cfg)) (bc_MySQLRestoreCommand cfg)
                     [''-h'', hostname, ''-P'', port, ''-u'', my_user a, ''--password='' @ my_pass a, my_dbName a] content fs u of
                    ((Some e, output, fs), u) \<Rightarrow> (Some (''mysql restore failed: '' @ e @ '': '' @ TrimSpace output), fs, u)
                  | ((None, output, fs), u) \<Rightarrow> (None, fs, u))))"

definition restore_postgres :: "'u backup_env \<Rightarrow> gostring \<Rightarrow> BackupConfig \<Rightarrow> files \<times> 'u \<Rightarrow> gostring option \<times> files \<times> 'u" where
  "restore_postgres env payloadPath cfg = (\<lambda>(fs, u).
    case active_database env of
      Inl e \<Rightarrow> (Some e, fs, u)
    | Inr (_, dsn) \<Rightarrow>
        (case be_exec env (time_limit (bc_CommandTimeout cfg)) (bc_PostgresRestoreCommand cfg) [''--dbname'', dsn, ''-f'', payloadPath] [] fs u of
           ((Some e, output, fs), u) \<Rightarrow> (Some (''postgres restore failed: '' @ e @ '': '' @ TrimSpace output), fs, u)
         | ((None, output, fs), u) \<Rightarrow> (None, fs, u)))"

definition executeRestoreByDriver :: "'u backup_env \<Rightarrow> gostring \<Rightarrow> gostring \<Rightarrow> BackupConfig \<Rightarrow> files \<times> 'u \<Rightarrow> gostring option \<times> files \<times> 'u" where
  "executeRestoreByDriver env driver payloadPath cfg = (\<lambda>(fs, u).
    if driver = ''sqlite'' then (case restore_sqlite env payloadPath fs of (e, fs) \<Rightarrow> (e, fs, u))
    else if driver = ''mysql'' then restore_mysql env payloadPath cfg (fs, u)
    else if driver = ''postgres'' then restore_postgres env payloadPath cfg (fs, u)
    else (Some (''unsupported restore driver: '' @ driver), fs, u))"

definition runBackupRestoreHealthCheck :: "backup_world \<Rightarrow> (gostring, int) gomap" where
  \<comment> \<open>soft-deleted rows do not exist in these tables\<close>
  "runBackupRestoreHealthCheck w =
    [(''users'', int (length (db_users (bw_db w)))), (''providers'', int (length (db_providers (bw_db w)))),
     (''options'', int (length (bw_option_rows w)))]"

definition rows_after_restore :: "'u backup_env \<Rightarrow> files \<Rightarrow> 'u \<Rightarrow> backup_world \<Rightarrow> gostring + stored_rows" where
  \<comment> \<open>what the open database answers to a query after the restore; \<open>Inl\<close> is its error\<close>
  "rows_after_restore env fs u w =
    (case active_database env of Inl e \<Rightarrow> Inr (rows_of w) | Inr (driver, dsn) \<Rightarrow> be_shown env driver dsn fs u (rows_of w))"

definition perform_restore :: "'u backup_env \<Rightarrow> BackupRestoreResult \<Rightarrow> backup_world \<times> 'u \<Rightarrow> (gostring + BackupRestoreResult) \<times> backup_world \<times> 'u" where
  \<comment> \<open>unpacked and verified a second time; also a restore that fails may have changed the database\<close>
  "perform_restore env result = (\<lambda>(w, u).
    let cfg = backup_config env w in
    case unpackArtifactAndManifest env (rz_Artifact result) cfg (bw_files w) of
      (Inl e, fs) \<Rightarrow> (Inl e, w\<lparr>bw_files := fs\<rparr>, u)
    | (Inr (payloadPath, manifest), fs) \<Rightarrow>
        (case verifyPayloadChecksum env payloadPath (mf_PayloadSHA256 manifest) fs of
           Some e \<Rightarrow> (Inl e, w\<lparr>bw_files := fs(payloadPath := None)\<rparr>, u)
         | None \<Rightarrow>
             (case executeRestoreByDriver env (mf_Driver manifest) payloadPath cfg (fs, u) of
                (err, fs, u) \<Rightarrow>
                  (let shown = rows_after_restore env fs u w;
                       w = w\<lparr>bw_files := fs(payloadPath := None)\<rparr>;
                       w = (case shown of Inl e \<Rightarrow> w | Inr rows \<Rightarrow> with_rows rows w)
                   in (case err of
                         Some e \<Rightarrow> (Inl e, w, u)
                       | None \<Rightarrow>
                           (case shown of
                              Inl e \<Rightarrow> (Inl e, w, u)
                            | Inr rows \<Rightarrow>
                                (Inr (result\<lparr>rz_Message := ''restore completed'', rz_Health := runBackupRestoreHealthCheck w\<rparr>), w, u)))))))"

definition ExecuteBackupRestore :: "'u backup_env \<Rightarrow> BackupRestoreRequest \<Rightarrow> backup_world \<times> 'u
   \<Rightarrow> (gostring + BackupRestoreResult) \<times> backup_world \<times> 'u" where
  "ExecuteBackupRestore env req s =
    (case ValidateBackupRestoreRequest env req s of
       (Inl e, s) \<Rightarrow> (Inl e, s)
     | (Inr result, s) \<Rightarrow>
         if \<not> rz_Ready result then (Inr result, s)
         else if rq_DryRun req then (Inr (result\<lparr>rz_Message := ''dry-run passed''\<rparr>), s)
         else if \<not> rq_Confirm req then (Inr (result\<lparr>rz_Ready := False, rz_Message := ''restore confirmation required''\<rparr>), s)
         else perform_restore env result s)"

subsection \<open>Handlers\<close>

definition dec_restore_request :: "BackupRestoreRequest decoder" where
  "dec_restore_request = dec_struct (\<lambda>m z. do {
     a \<leftarrow> struct_field dec_int ''run_id'' m (rq_RunID z);
     b \<leftarrow> struct_field dec_string ''local_path'' m (rq_LocalPath z);
     c \<leftarrow> struct_field dec_string ''remote_path'' m (rq_RemotePath z);
     d \<leftarrow> struct_field dec_bool ''dry_run'' m (rq_DryRun z);
     e \<leftarrow> struct_field dec_bool ''confirm'' m (rq_Confirm z);
     Some \<lparr>rq_RunID = a, rq_LocalPath = b, rq_RemotePath = c, rq_DryRun = d, rq_Confirm = e\<rparr>})"

definition no_request :: BackupRestoreRequest where
  "no_request = \<lparr>rq_RunID = 0, rq_LocalPath = [], rq_RemotePath = [], rq_DryRun = False, rq_Confirm = False\<rparr>"

definition GetBackupStatusHandler :: "'u backup_env \<Rightarrow> backup_world \<Rightarrow> BackupStatusView \<times> (gostring + SnapshotPreflight)" where
  "GetBackupStatusHandler env w = (let status = GetBackupStatusView env w in (status, BackupSnapshotPreflight env (sv_Config status)))"

definition query_limit :: "gostring option \<Rightarrow> gostring \<Rightarrow> int" where
  "query_limit q dflt = AtoiValue (TrimSpace (case q of Some s \<Rightarrow> s | None \<Rightarrow> dflt))"

definition GetBackupRunsHandler :: "gostring option \<Rightarrow> backup_world \<Rightarrow> BackupRun list" where
  "GetBackupRunsHandler q w = GetRecentBackupRuns (query_limit q ''50'') (bw_tables w)"

definition GetBackupRetryQueueHandler :: "gostring option \<Rightarrow> backup_world \<Rightarrow> BackupUploadRetry list" where
  "GetBackupRetryQueueHandler q w = GetRecentBackupUploadRetries (query_limit q ''100'') (bw_tables w)"

definition TriggerBackupHandler :: "'u backup_env \<Rightarrow> gostring option \<Rightarrow> backup_world \<times> 'u \<Rightarrow> (gostring + BackupRun option) \<times> backup_world \<times> 'u" where
  "TriggerBackupHandler env q s =
    (let trigger = TrimSpace (case q of Some t \<Rightarrow> t | None \<Rightarrow> ''manual''); trigger = (if trigger = [] then ''manual'' else trigger) in
     case TriggerBackupNow env trigger s of
       ((Some e, run), s) \<Rightarrow> (Inl e, s)
     | ((None, run), s) \<Rightarrow> (Inr run, s))"

definition ValidateBackupRestoreHandler :: "'u backup_env \<Rightarrow> gostring \<Rightarrow> backup_world \<times> 'u
   \<Rightarrow> (gostring + BackupRestoreResult) \<times> backup_world \<times> 'u" where
  "ValidateBackupRestoreHandler env body s =
    (case ShouldBindJSON dec_restore_request body no_request of
       None \<Rightarrow> (Inl ''invalid parameters'', s)
     | Some req \<Rightarrow> ValidateBackupRestoreRequest env (req\<lparr>rq_DryRun := True\<rparr>) s)"

definition ExecuteBackupRestoreHandler :: "'u backup_env \<Rightarrow> gostring \<Rightarrow> backup_world \<times> 'u
   \<Rightarrow> (gostring + BackupRestoreResult) \<times> backup_world \<times> 'u" where
  "ExecuteBackupRestoreHandler env body s =
    (case ShouldBindJSON dec_restore_request body no_request of
       None \<Rightarrow> (Inl ''invalid parameters'', s)
     | Some req \<Rightarrow>
         if rq_DryRun req then (Inl ''dry_run must be false'', s)
         else if \<not> rq_Confirm req then (Inl ''confirm must be true'', s)
         else ExecuteBackupRestore env req s)"

end
