(* ===== verification/PackageCorrect.thy ===== *)
theory PackageCorrect
  imports BackupPackage AlertEpisodes
begin

text \<open>
  The package of a backup can be read back: its manifest, printed with indentation, parses to itself, and unpacking what
  was packed, encrypted or not, yields the payload with the checksum that the manifest gives.
\<close>

subsection \<open>Reading an indented object\<close>

lemma nat_str_lead: "0 < n \<Longrightarrow> hd (nat_str n) \<noteq> CHR ''0''"
proof (induction n rule: nat_str.induct)
  case (1 n)
  show ?case
  proof (cases "n < 10")
    case True
    have "digit_val (CHR ''0'') = 0" by (simp add: digit_val_def)
    moreover have "digit_val (digit_char n) = n" using True by simp
    ultimately have "digit_char n \<noteq> CHR ''0''" using 1(2) by (intro notI) simp
    with True show ?thesis by (subst nat_str.simps) simp
  next
    case False
    then have "hd (nat_str (n div 10)) \<noteq> CHR ''0''" using 1(1) by simp
    with False show ?thesis by (subst nat_str.simps) simp
  qed
qed

lemma nat_str_digits_all: "takeWhile is_digit (nat_str n @ c # q) = nat_str n" if "\<not> is_digit c"
  using that by (subst takeWhile_append2) (auto dest: nat_str_digits)

definition ends_number :: "char \<Rightarrow> bool" where
  "ends_number c \<longleftrightarrow> c = CHR '','' \<or> c = CHR 0x0A"

lemma ends_number_simps: "ends_number c \<Longrightarrow> \<not> is_digit c \<and> c \<noteq> CHR ''.'' \<and> lower_char c \<noteq> CHR ''e''"
  by (auto simp: ends_number_def is_digit_def lower_char_def less_eq_char_def)

lemma number_end_nat_str:
  assumes "ends_number c"
  shows "number_end (nat_str n @ c # q) = Some (nat_str n, c # q)"
    and "number_end (CHR ''-'' # nat_str n @ c # q) = Some (CHR ''-'' # nat_str n, c # q)"
proof -
  obtain d ds where d: "nat_str n = d # ds" by (cases "nat_str n") auto
  then have dig: "is_digit d" "d \<noteq> CHR ''-''" using nat_str_digits [of d n] is_digit_sign [of d] by auto
  have zero: "ds = []" if "d = CHR ''0''"
  proof -
    have "n = 0" using nat_str_lead [of n] that d by (cases "n = 0") auto
    then show ?thesis using d by (subst (asm) nat_str.simps) simp
  qed
  have "takeWhile is_digit (d # ds @ c # q) = d # ds" using nat_str_digits_all [of c n q] ends_number_simps [OF assms] d by simp
  then show "number_end (nat_str n @ c # q) = Some (nat_str n, c # q)"
    and "number_end (CHR ''-'' # nat_str n @ c # q) = Some (CHR ''-'' # nat_str n, c # q)"
    using dig zero ends_number_simps [OF assms] by (auto simp: number_end_def d Let_def split: if_splits)
qed

lemma number_end_Itoa: "ends_number c \<Longrightarrow> number_end (Itoa i @ c # q) = Some (Itoa i, c # q)"
  by (simp add: Itoa_def number_end_nat_str)

definition flat_value :: "json \<Rightarrow> bool" where
  "flat_value v \<longleftrightarrow> (\<exists>s. v = JStr s) \<or> (\<exists>i. v = JNum (Itoa i))"

lemma Itoa_start:
  obtains c r where "Itoa i = c # r" "\<not> json_ws c" "c \<noteq> CHR ''{''" "c \<noteq> CHR ''[''" "c \<noteq> CHR 0x22" "c \<noteq> CHR ''n''" "c \<noteq> CHR ''t''" "c \<noteq> CHR ''f''"
proof -
  obtain c r where c: "Itoa i = c # r" by (cases "Itoa i") auto
  then have "is_digit c \<or> c = CHR ''-''" using set_Itoa [of c i] by simp
  then show thesis using c by (intro that [of c r]) (auto simp: is_digit_def json_ws_def less_eq_char_def)
qed

lemma skip_space [simp]: "skip_ws (CHR '' '' # s) = skip_ws s" "skip_ws (CHR 0x0A # s) = skip_ws s"
  by (simp_all add: skip_ws_def json_ws_def)

lemma read_flat_value:
  assumes "flat_value v" and "ends_number c"
  shows "read_value (Suc n) (CHR '' '' # print_scalar v @ c # q) = Some (v, c # q)"
proof -
  consider s where "v = JStr s" | i where "v = JNum (Itoa i)" using assms(1) by (auto simp: flat_value_def)
  then show ?thesis
  proof cases
    case 1
    have "read_string (length (CHR '' '' # print_string s @ c # q)) (concat (map escape_char s) @ CHR 0x22 # c # q) = Some (s, c # q)"
      using length_escape [of s] by (intro read_string_escape) (simp add: print_string_def del: length_concat)
    then show ?thesis by (simp add: 1 print_string_def skip_ws_plain)
  next
    case 2
    obtain d r where d: "Itoa i = d # r" "\<not> json_ws d" "d \<noteq> CHR ''{''" "d \<noteq> CHR ''[''" "d \<noteq> CHR 0x22" "d \<noteq> CHR ''n''" "d \<noteq> CHR ''t''" "d \<noteq> CHR ''f''"
      by (rule Itoa_start)
    have "number_end (d # r @ c # q) = Some (d # r, c # q)" using number_end_Itoa [OF assms(2), of i q] d(1) by simp
    then show ?thesis using d(2-) by (simp add: 2 d(1) skip_ws_plain HasPrefix_def)
  qed
qed

lemma indented_member_eq:
  "indented_member (k, v) = CHR 0x0A # CHR '' '' # CHR '' '' # CHR 0x22 # concat (map escape_char k) @ CHR 0x22 # CHR '':'' # CHR '' '' # print_scalar v"
  by (simp add: indented_member_def print_string_def)

lemma read_indented_member:
  assumes "flat_value v"
  shows "read_members (Suc (Suc n)) m (indented_member (k, v) @ CHR '','' # q) = read_members (Suc n) (mput k v m) q"
    and "read_members (Suc (Suc n)) m (indented_member (k, v) @ CHR 0x0A # CHR ''}'' # q) = Some (mput k v m, q)"
proof -
  have len: "length k < length (indented_member (k, v))"
    using length_escape [of k] by (simp add: indented_member_eq del: length_concat)
  have key: "read_string n (concat (map escape_char k) @ CHR 0x22 # r) = Some (k, r)" if "length (indented_member (k, v)) \<le> n" for n r
    using len that by (intro read_string_escape) simp
  have s: "skip_ws (indented_member (k, v) @ t) = CHR 0x22 # concat (map escape_char k) @ CHR 0x22 # CHR '':'' # CHR '' '' # print_scalar v @ t" for t
    by (simp add: indented_member_eq skip_ws_plain)
  have "ends_number (CHR '','')" "ends_number (CHR 0x0A)" by (simp_all add: ends_number_def)
  note val = this [THEN read_flat_value [OF assms]]
  show "read_members (Suc (Suc n)) m (indented_member (k, v) @ CHR '','' # q) = read_members (Suc n) (mput k v m) q"
    by (subst read_members.simps) (simp add: s key skip_ws_plain val del: read_value.simps read_string.simps read_members.simps)
  show "read_members (Suc (Suc n)) m (indented_member (k, v) @ CHR 0x0A # CHR ''}'' # q) = Some (mput k v m, q)"
    by (subst read_members.simps) (simp add: s key skip_ws_plain val del: read_value.simps read_string.simps read_members.simps)
qed

lemma read_indented:
  "list_all (\<lambda>kv. flat_value (snd kv)) (kv # kvs) \<Longrightarrow> length kvs < n \<Longrightarrow>
   read_members (Suc n) m (Join (map indented_member (kv # kvs)) '','' @ CHR 0x0A # CHR ''}'' # q)
   = Some (foldl (\<lambda>m kv. mput (fst kv) (snd kv) m) m (kv # kvs), q)"
proof (induction kvs arbitrary: n m kv)
  case Nil
  then obtain l where "n = Suc l" by (cases n) auto
  with Nil show ?case using read_indented_member(2) [of "snd kv" l m "fst kv" q] by simp
next
  case (Cons kv' kvs)
  then obtain l where n: "n = Suc l" "length kvs < l" by (cases n) auto
  have "read_members (Suc (Suc l)) m (indented_member (fst kv, snd kv) @ CHR '','' # Join (map indented_member (kv' # kvs)) '','' @ CHR 0x0A # CHR ''}'' # q)
    = read_members (Suc l) (mput (fst kv) (snd kv) m) (Join (map indented_member (kv' # kvs)) '','' @ CHR 0x0A # CHR ''}'' # q)"
    using Cons.prems by (subst read_indented_member(1)) simp_all
  then show ?case using Cons.IH [of kv' l "mput (fst kv) (snd kv) m"] Cons.prems(1) n by (simp del: read_members.simps)
qed

lemma json_parse_indented:
  assumes "list_all (\<lambda>kv. flat_value (snd kv)) (kv # kvs)" and "distinct (map fst (kv # kvs))"
  shows "json_parse (print_indented (kv # kvs)) = Some (JObj (kv # kvs))"
proof -
  let ?b = "Join (map indented_member (kv # kvs)) '','' @ CHR 0x0A # CHR ''}'' # []"
  have "length (kv # kvs) \<le> Suc (length (Join (map indented_member (kv # kvs)) '',''))"
    using length_Join [of "map indented_member (kv # kvs)" "CHR '',''"] by (simp del: Join.simps)
  then have "length kvs < 2 * length ?b + 2" by (simp del: Join.simps)
  from read_indented [OF assms(1) this, of "[]" "[]"]
  have m: "read_members (Suc (2 * length ?b + 2)) [] ?b = Some (kv # kvs, [])"
    using foldl_mput_distinct [of "[]" "kv # kvs" id] assms(2) by (simp del: Join.simps read_members.simps)
  obtain t where t: "?b = CHR 0x0A # CHR '' '' # CHR '' '' # CHR 0x22 # t"
    by (cases kvs; cases kv) (simp_all add: indented_member_eq)
  have f: "2 * length (''{'' @ ?b) + 2 = Suc (Suc (2 * length ?b + 2))" by (simp del: Join.simps)
  have "read_value (Suc (Suc (2 * length ?b + 2))) (CHR ''{'' # ?b) = Some (JObj (kv # kvs), [])"
    using m unfolding t by (subst read_value.simps) (simp add: skip_ws_plain del: read_members.simps)
  moreover have "print_indented (kv # kvs) = ''{'' @ ?b" by (simp add: print_indented_def del: Join.simps)
  ultimately show ?thesis
    unfolding json_parse_def by (simp only: f append.simps option.case prod.case) (simp add: skip_ws_def)
qed

lemma manifest_roundtrip:
  assumes "in_int64 (mf_CreatedAt m)"
  shows "json_unmarshal dec_manifest (manifest_bytes m) no_manifest = Some m"
proof -
  have "list_all (\<lambda>kv. flat_value (snd kv)) (manifest_members m)" by (simp add: manifest_members_def flat_value_def) blast
  then have p: "json_parse (manifest_bytes m) = Some (JObj (manifest_members m))"
    unfolding manifest_bytes_def manifest_members_def by (rule json_parse_indented) simp
  have e: "\<not> EqualFold ''format_version'' ''app_version''" for x by (simp add: EqualFold_def ToLower_def lower_char_def)
  show ?thesis
    unfolding json_unmarshal_def p dec_manifest_def dec_struct_def manifest_members_def
    using assms by (simp add: EqualFold_def ToLower_def lower_char_def less_eq_char_def dec_string_def dec_int_def Atoi_Itoa no_manifest_def)
qed

subsection \<open>Packing and unpacking\<close>

definition archive_laws :: "'u backup_env \<Rightarrow> bool" where
  \<comment> \<open>what \<open>archive/zip\<close>, AES-GCM, its nonce and SHA-256 promise\<close>
  "archive_laws env \<longleftrightarrow>
    (\<forall>es. be_unzip env (be_zip env es) = Inr (map (\<lambda>(n, s). (n, Inr s)) es))
    \<and> (\<forall>k n s. be_open env k n (be_seal env k n s) = Inr s)
    \<and> (\<forall>u. length (be_nonce env u) = 12) \<and> (\<forall>s. length (be_sha256 env s) = 32)"

definition raw_package :: "'u backup_env \<Rightarrow> gostring \<Rightarrow> gostring \<Rightarrow> BackupManifest \<Rightarrow> gostring" where
  "raw_package env base payload m = be_zip env [(base, payload), (''manifest.json'', manifest_bytes m)]"

definition package_bytes :: "'u backup_env \<Rightarrow> BackupConfig \<Rightarrow> gostring \<Rightarrow> gostring \<Rightarrow> gostring" where
  "package_bytes env cfg nonce raw =
    (if bc_EncryptEnabled cfg then nonce @ be_seal env (be_sha256 env (bc_EncryptPassphrase cfg)) nonce raw else raw)"

definition payload_name :: "gostring \<Rightarrow> bool" where
  "payload_name s \<longleftrightarrow> s \<in> {''sqlite-snapshot.db'', ''mysql-dump.sql'', ''postgres-dump.sql''}"

lemma payload_name_simps:
  "payload_name s \<Longrightarrow> path_element s \<and> s \<noteq> ''manifest.json'' \<and> s \<noteq> ''backup-package.zip'' \<and> s \<noteq> ''backup-package.zip.enc''"
  by (auto simp: payload_name_def path_element_def)

lemma HasSuffix_append: "length p = length q \<Longrightarrow> HasSuffix (x @ q) p \<longleftrightarrow> p = q"
  by (auto simp: HasSuffix_def prefix_def append_eq_append_conv)

lemma TrimSuffix_append [simp]: "TrimSuffix (x @ q) q = x"
  by (simp add: TrimSuffix_def HasSuffix_def)

lemma suffix_enc [simp]:
  "HasSuffix (ToLower (d @ ''/backup-package.zip.enc'')) ''.enc''"
  "\<not> HasSuffix (ToLower (d @ ''/backup-package.zip'')) ''.enc''"
proof -
  have e: "ToLower (d @ ''/backup-package.zip.enc'') = (ToLower d @ ''/backup-package.zip'') @ ''.enc''"
    "ToLower (d @ ''/backup-package.zip'') = (ToLower d @ ''/backup-package'') @ ''.zip''"
    by (simp_all add: ToLower_def lower_char_def less_eq_char_def)
  show "HasSuffix (ToLower (d @ ''/backup-package.zip.enc'')) ''.enc''" "\<not> HasSuffix (ToLower (d @ ''/backup-package.zip'')) ''.enc''"
    unfolding e by (subst HasSuffix_append; simp)+
qed

lemma hex_encode_plain: "list_all plain_char (hex_encode s)"
proof -
  have hex: "list_all (\<lambda>n. plain_char (hex_char n)) [0..<16]" by code_simp
  have "plain_char (hex_char (of_char c div 16)) \<and> plain_char (hex_char (of_char c mod 16))" for c :: char
    using hex char_div_16 [of c] by (simp add: list_all_iff)
  then show ?thesis by (induction s) (simp_all add: hex_encode_def)
qed

lemma TrimSpace_hex [simp]: "TrimSpace (hex_encode s) = hex_encode s"
  by (rule TrimSpace_plain_char) (rule hex_encode_plain)

lemma hex_encode_Nil_iff [simp]: "hex_encode s = [] \<longleftrightarrow> s = []"
  by (cases s) (simp_all add: hex_encode_def)

lemma write_file_ok: "write_file env p s fs = (None, fs') \<Longrightarrow> be_write env p = None \<and> fs' = fs(p \<mapsto> s)"
  by (auto simp: write_file_def split: option.splits)

lemma built_artifact:
  assumes "buildBackupArtifact env workDir snapshot driver trigger cfg fs u = (Inr a, fs1)" and "cleaned workDir"
  obtains payload zipPath where "fs (sn_PayloadPath snapshot) = Some payload" and "zipPath = workDir @ ''/backup-package.zip''"
    and "be_write env zipPath = None" and "ba_Manifest a = new_manifest env snapshot driver trigger payload u"
    and "ba_LocalPath a = (if bc_EncryptEnabled cfg then zipPath @ ''.enc'' else zipPath)"
    and "fs1 (ba_LocalPath a) = Some (package_bytes env cfg (be_nonce env u) (raw_package env (path_Base (sn_PayloadPath snapshot)) payload (ba_Manifest a)))"
    and "bc_EncryptEnabled cfg \<Longrightarrow> TrimSpace (bc_EncryptPassphrase cfg) \<noteq> []"
proof -
  let ?zip = "workDir @ ''/backup-package.zip''"
  have zip: "path_Join [workDir, ''backup-package.zip''] = ?zip"
    using path_Join_plain [OF assms(2), of "''backup-package.zip''"] by (simp add: path_element_def)
  from assms(1) show thesis
    by (intro that [of "the (fs (sn_PayloadPath snapshot))" ?zip])
       (auto simp: buildBackupArtifact_def zip read_file_def Let_def writeZipWithManifest_def packed_file_def encryptFileAESGCM_def
          package_bytes_def raw_package_def deriveEncryptionKey_def dest!: write_file_ok split: option.splits sum.splits prod.splits if_splits)
qed

lemma unpack_package:
  assumes "archive_laws env" and "cleaned d" and "payload_name base" and "in_int64 (mf_CreatedAt m)" and "mf_PayloadSHA256 m \<noteq> []"
    and "TrimSpace (mf_PayloadSHA256 m) = mf_PayloadSHA256 m" and "zipPath = d @ ''/backup-package.zip''"
    and "artifact = (if bc_EncryptEnabled cfg then zipPath @ ''.enc'' else zipPath)"
    and "fs artifact = Some (package_bytes env cfg nonce (raw_package env base payload m))" and "length nonce = 12"
    and "bc_EncryptEnabled cfg \<Longrightarrow> TrimSpace (bc_EncryptPassphrase cfg) \<noteq> []"
    and "be_write env zipPath = None" and "be_write env (d @ ''/'' @ base) = None"
  shows "unpackArtifactAndManifest env artifact cfg fs =
    (Inr (d @ ''/'' @ base, m), (if bc_EncryptEnabled cfg then fs(d @ ''/'' @ base \<mapsto> payload, zipPath := None) else fs(d @ ''/'' @ base \<mapsto> payload)))"
proof -
  note base = payload_name_simps [OF assms(3)]
  have dir: "path_Dir zipPath = d" using path_Dir_plain [OF assms(2), of "''backup-package.zip''"] by (simp add: assms(7) path_element_def)
  have j: "path_Join [d, path_Base base] = d @ ''/'' @ base" using base assms(2) by (simp add: path_Base_name path_Join_plain)
  have entries: "unpack_entries env d [(base, Inr payload), (''manifest.json'', Inr (manifest_bytes m))] [] no_manifest fs'
      = (Inr (d @ ''/'' @ base, m), fs'(d @ ''/'' @ base \<mapsto> payload))" for fs'
    using base assms(13) manifest_roundtrip [OF assms(4)] j by (simp add: Let_def write_file_def)
  have zip: "be_unzip env (raw_package env base payload m) = Inr [(base, Inr payload), (''manifest.json'', Inr (manifest_bytes m))]"
    using assms(1) by (simp add: archive_laws_def raw_package_def)
  show ?thesis
  proof (cases "bc_EncryptEnabled cfg")
    case True
    have "open_artifact env artifact cfg fs = (Inr (zipPath, True), fs(zipPath \<mapsto> raw_package env base payload m))"
      using True assms(1,8-12) suffix_enc(1) [of d] TrimSuffix_append [of zipPath "''.enc''"]
      by (simp add: open_artifact_def assms(7) decryptFileAESGCM_def read_file_def package_bytes_def deriveEncryptionKey_def archive_laws_def write_file_def
          Let_def)
    then show ?thesis using True zip entries dir base assms(5,6) by (auto simp: unpackArtifactAndManifest_def assms(7) fun_upd_twist)
  next
    case False
    have "open_artifact env artifact cfg fs = (Inr (zipPath, False), fs)"
      using False assms(7,8) suffix_enc(2) [of d] by (simp add: open_artifact_def)
    then show ?thesis using False zip entries dir assms(5,6,8,9) by (simp add: unpackArtifactAndManifest_def package_bytes_def Let_def)
  qed
qed

text \<open>
  C34: Whatever is packed can be unpacked: if a snapshot has been packed, with or without encryption, unpacking the
  artifact gives the payload as it was and the manifest with its checksum, and leaves the artifact in place.
\<close>

theorem backup_package_roundtrip:
  assumes "archive_laws env" and "buildBackupArtifact env workDir snapshot driver trigger cfg fs u = (Inr a, fs1)" and "cleaned workDir"
    and "payload_name (path_Base (sn_PayloadPath snapshot))" and "in_int64 (Unix (be_clock env u))"
    and "be_write env (workDir @ ''/'' @ path_Base (sn_PayloadPath snapshot)) = None"
  shows "\<exists>payload fs2. fs (sn_PayloadPath snapshot) = Some payload
    \<and> unpackArtifactAndManifest env (ba_LocalPath a) cfg fs1 = (Inr (workDir @ ''/'' @ path_Base (sn_PayloadPath snapshot), ba_Manifest a), fs2)
    \<and> fs2 (workDir @ ''/'' @ path_Base (sn_PayloadPath snapshot)) = Some payload
    \<and> verifyPayloadChecksum env (workDir @ ''/'' @ path_Base (sn_PayloadPath snapshot)) (mf_PayloadSHA256 (ba_Manifest a)) fs2 = None
    \<and> fs2 (ba_LocalPath a) = fs1 (ba_LocalPath a)"
proof -
  let ?base = "path_Base (sn_PayloadPath snapshot)" and ?zip = "workDir @ ''/backup-package.zip''"
  from built_artifact [OF assms(2,3)] obtain payload zipPath where b: "fs (sn_PayloadPath snapshot) = Some payload" "zipPath = ?zip"
    "be_write env zipPath = None" "ba_Manifest a = new_manifest env snapshot driver trigger payload u"
    "ba_LocalPath a = (if bc_EncryptEnabled cfg then zipPath @ ''.enc'' else zipPath)"
    "fs1 (ba_LocalPath a) = Some (package_bytes env cfg (be_nonce env u) (raw_package env ?base payload (ba_Manifest a)))"
    "bc_EncryptEnabled cfg \<Longrightarrow> TrimSpace (bc_EncryptPassphrase cfg) \<noteq> []" by metis
  have sha: "length (be_nonce env u) = 12" "be_sha256 env payload \<noteq> []" using assms(1) by (auto simp: archive_laws_def dest: spec [of _ payload])
  have m: "mf_PayloadSHA256 (ba_Manifest a) = hex_encode (be_sha256 env payload)" "in_int64 (mf_CreatedAt (ba_Manifest a))"
    using assms(5) by (simp_all add: b(4) new_manifest_def)
  have ne: "mf_PayloadSHA256 (ba_Manifest a) \<noteq> []" and tr: "TrimSpace (mf_PayloadSHA256 (ba_Manifest a)) = mf_PayloadSHA256 (ba_Manifest a)"
    using sha(2) by (simp_all add: m(1))
  note un = unpack_package [where fs = fs1 and payload = payload and base = ?base and m = "ba_Manifest a" and nonce = "be_nonce env u",
      OF assms(1,3,4) m(2) ne tr b(2,5,6) sha(1) b(7,3) assms(6)]
  note base = payload_name_simps [OF assms(4)]
  let ?fs2 = "if bc_EncryptEnabled cfg then fs1(workDir @ ''/'' @ ?base \<mapsto> payload, zipPath := None) else fs1(workDir @ ''/'' @ ?base \<mapsto> payload)"
  have "unpackArtifactAndManifest env (ba_LocalPath a) cfg fs1 = (Inr (workDir @ ''/'' @ ?base, ba_Manifest a), ?fs2)"
    by (rule un)
  moreover have "?fs2 (workDir @ ''/'' @ ?base) = Some payload" using base by (auto simp: b(2))
  moreover have "?fs2 (ba_LocalPath a) = fs1 (ba_LocalPath a)" using base by (auto simp: b(2,5))
  ultimately show ?thesis using b(1) by (intro exI conjI) (assumption, assumption, assumption, simp_all add: verifyPayloadChecksum_def read_file_def m(1))
qed

subsection \<open>A world of backups\<close>

text \<open>
  A world in which the laws hold: the archive writes each text as its marked characters up to a point, the cipher turns
  texts round, the server makes collections and takes no files, commands do nothing and every file can be written.
\<close>

definition mark_text :: "gostring \<Rightarrow> gostring" where
  "mark_text s = concat (map (\<lambda>c. [CHR ''x'', c]) s) @ ''.''"

fun unmark_text :: "gostring \<Rightarrow> gostring \<times> gostring" where
  "unmark_text (c # d # s) = (if c = CHR ''x'' then (case unmark_text s of (a, r) \<Rightarrow> (d # a, r)) else ([], d # s))"
| "unmark_text _ = ([], [])"

fun unmark_entries :: "nat \<Rightarrow> gostring \<Rightarrow> (gostring \<times> (gostring + gostring)) list" where
  "unmark_entries 0 s = []"
| "unmark_entries (Suc n) s =
    (if s = [] then []
     else case unmark_text s of (name, r) \<Rightarrow> (case unmark_text r of (content, r) \<Rightarrow> (name, Inr content) # unmark_entries n r))"

definition mark_entries :: "(gostring \<times> gostring) list \<Rightarrow> gostring" where
  "mark_entries es = concat (map (\<lambda>(n, s). mark_text n @ mark_text s) es)"

lemma unmark_mark: "unmark_text (mark_text s @ r) = (s, r)"
proof (induction s)
  case Nil
  then show ?case by (cases r) (simp_all add: mark_text_def)
qed (simp add: mark_text_def)

lemma unmark_mark_entries: "length es \<le> n \<Longrightarrow> unmark_entries n (mark_entries es) = map (\<lambda>(k, s). (k, Inr s)) es"
proof (induction es arbitrary: n)
  case Nil
  then show ?case by (cases n) (simp_all add: mark_entries_def)
next
  case (Cons e es)
  obtain k s where e: "e = (k, s)" by (cases e) auto
  obtain m where m: "n = Suc m" "length es \<le> m" using Cons.prems by (cases n) auto
  have "mark_text k @ mark_text s @ mark_entries es \<noteq> []" by (simp add: mark_text_def)
  then show ?case using Cons.IH [OF m(2)] by (simp add: m e mark_entries_def unmark_mark)
qed

lemma length_mark_entries: "length es \<le> length (mark_entries es)"
  by (induction es) (auto simp: mark_entries_def mark_text_def)

definition site_address :: "gostring \<Rightarrow> address" where
  "site_address s = \<lparr>ad_User = None, ad_Scheme = ''https'', ad_Host = s, ad_Path = [], ad_Rest = []\<rparr>"

definition dav_without_space :: "outgoing_request \<Rightarrow> unit \<Rightarrow> transport_result \<times> unit" where
  "dav_without_space r u =
    (Response \<lparr>rs_StatusCode = (if og_Method r = ''PUT'' then 507 else 201), rs_Header = [], rs_Body = BodyOk [], rs_Lines = [], rs_ScanErr = None\<rparr>, u)"

definition sample_backup_env :: "unit backup_env" where
  "sample_backup_env =
    \<lparr>be_address = \<lparr>al_parse = (\<lambda>s. Inr (site_address s)), al_String = ad_Host\<rparr>, be_request_ok = (\<lambda>m a. True), be_net = dav_without_space,
     be_clock = (\<lambda>u. 7), be_location = (\<lambda>t. 0), be_multistatus = (\<lambda>s. Inl ''EOF''), be_rfc1123 = (\<lambda>s. None),
     be_mkdir = (\<lambda>p. None), be_write = (\<lambda>p. None), be_zip = mark_entries, be_unzip = (\<lambda>s. Inr (unmark_entries (length s) s)),
     be_sha256 = (\<lambda>s. replicate 32 (CHR ''h'')), be_nonce = (\<lambda>u. replicate 12 (CHR ''n'')), be_seal = (\<lambda>k n s. rev s),
     be_open = (\<lambda>k n s. Inr (rev s)), be_lookpath = (\<lambda>s. None), be_exec = (\<lambda>limit cmd args input fs u. ((None, [], fs), u)),
     be_vacuum = (\<lambda>r q u. Inr ''rows''), be_shown = (\<lambda>driver dsn fs u r. Inr r), be_sqlite_path = ''/data/gateway.db'', be_upload_path = ''/data/upload'', be_version = ''v1.0'',
     be_env_driver = [], be_env_dsn = []\<rparr>"

lemma sample_archive_laws: "archive_laws sample_backup_env"
  by (simp add: archive_laws_def sample_backup_env_def unmark_mark_entries length_mark_entries)

definition sample_options :: options where
  "sample_options =
    [(''BackupEnabled'', ''true''), (''BackupSpoolDir'', ''/spool''), (''BackupWebDAVURL'', ''https://dav.example''), (''BackupEncryptPassphrase'', ''secret'')]"

definition sample_snapshot :: SnapshotResult where
  "sample_snapshot = \<lparr>sn_PayloadPath = ''/spool/run/sqlite-snapshot.db'', sn_Format = ''sqlite-db''\<rparr>"

theorem backup_package_roundtrip_witness:
  "case buildBackupArtifact sample_backup_env ''/spool/run'' sample_snapshot ''sqlite'' ''manual'' (GetBackupConfig ''/data/upload'' sample_options)
       [''/spool/run/sqlite-snapshot.db'' \<mapsto> ''rows''] () of
     (Inl e, fs) \<Rightarrow> False
   | (Inr a, fs) \<Rightarrow> ba_LocalPath a = ''/spool/run/backup-package.zip.enc''
       \<and> (\<exists>fs'. unpackArtifactAndManifest sample_backup_env (ba_LocalPath a) (GetBackupConfig ''/data/upload'' sample_options) fs
             = (Inr (''/spool/run/sqlite-snapshot.db'', ba_Manifest a), fs')
           \<and> fs' ''/spool/run/sqlite-snapshot.db'' = Some ''rows'')"
proof -
  let ?cfg = "GetBackupConfig ''/data/upload'' sample_options" and ?fs = "[''/spool/run/sqlite-snapshot.db'' \<mapsto> ''rows''] :: files"
  have c: "bc_EncryptEnabled ?cfg" "TrimSpace (bc_EncryptPassphrase ?cfg) \<noteq> []" by code_simp+
  have j: "path_Join [''/spool/run'', ''backup-package.zip''] = ''/spool/run/backup-package.zip''" by code_simp
  have b: "path_Base (sn_PayloadPath sample_snapshot) = ''sqlite-snapshot.db''" by code_simp
  have d: "cleaned ''/spool/run''" by code_simp
  obtain a fs where built: "buildBackupArtifact sample_backup_env ''/spool/run'' sample_snapshot ''sqlite'' ''manual'' ?cfg ?fs () = (Inr a, fs)"
    and a: "ba_LocalPath a = ''/spool/run/backup-package.zip.enc''"
    using c by (simp add: buildBackupArtifact_def packed_file_def encryptFileAESGCM_def writeZipWithManifest_def write_file_def read_file_def j Let_def
        sample_backup_env_def sample_snapshot_def)
  have t: "in_int64 (Unix (be_clock sample_backup_env ()))" by code_simp
  have w: "be_write sample_backup_env (''/spool/run'' @ ''/'' @ path_Base (sn_PayloadPath sample_snapshot)) = None"
    by (simp add: sample_backup_env_def)
  have p: "payload_name (path_Base (sn_PayloadPath sample_snapshot))" by (simp add: b payload_name_def)
  from backup_package_roundtrip [OF sample_archive_laws built d p t w]
  show ?thesis by (simp add: built a b) (auto simp: sample_snapshot_def)
qed

end
