(* ===== verification/BackupCorrect.thy ===== *)
theory BackupCorrect
  imports BackupRestore PackageCorrect CheckinCorrect
begin

text \<open>
  What runs of the backup amount to: every run that starts is recorded as finished, a failed upload waits in the queue
  with its artifact, the queue tries each upload a bounded number of times, and there is never more than one run at work
  whatever is interleaved with it, restores and restarts of the process included.
\<close>

subsection \<open>One run\<close>

lemma Retry_Insert_simps:
  "bt_runs (Retry_Insert now r t) = bt_runs t"
  "br_Id r = 0 \<Longrightarrow> br_Status r = ''pending'' \<Longrightarrow> \<exists>q. bt_retries (Retry_Insert now r t) = bt_retries t @ [q] \<and> br_Id q = next_row_id br_Id (bt_retries t)
     \<and> br_RunId q = br_RunId r \<and> br_ArtifactPath q = br_ArtifactPath r \<and> br_RetryCount q = br_RetryCount r \<and> br_MaxRetries q = br_MaxRetries r
     \<and> br_Status q = ''pending''"
  by (simp_all add: Retry_Insert_def Let_def)

definition queued_for :: "BackupConfig \<Rightarrow> int \<Rightarrow> gostring \<Rightarrow> files \<Rightarrow> backup_tables \<Rightarrow> backup_tables \<Rightarrow> bool" where
  \<comment> \<open>one upload of the run waits in addition, for the artifact at the path, which is there\<close>
  "queued_for cfg runId path fs t t' \<longleftrightarrow>
    (\<exists>q. bt_retries t' = bt_retries t @ [q] \<and> br_Id q = next_row_id br_Id (bt_retries t) \<and> br_RunId q = runId \<and> br_Status q = ''pending''
      \<and> br_RetryCount q = 0 \<and> br_MaxRetries q = bc_MaxRetries cfg \<and> br_ArtifactPath q = path \<and> fs path \<noteq> None)"

definition outcome_ok :: "BackupConfig \<Rightarrow> int \<Rightarrow> backup_outcome \<Rightarrow> backup_world \<Rightarrow> backup_world \<Rightarrow> bool" where
  \<comment> \<open>what the work of a run may have done\<close>
  "outcome_ok cfg runId out w w' \<longleftrightarrow>
    bw_memory w' = bw_memory w \<and> bw_options w' = bw_options w \<and> bt_runs (bw_tables w') = bt_runs (bw_tables w)
    \<and> (case bo_Error out of
         None \<Rightarrow> bo_Status out = ''success'' \<and> bo_CleanupWorkDir out \<and> bt_retries (bw_tables w') = bt_retries (bw_tables w)
       | Some e \<Rightarrow> bo_Status out = ''failed''
           \<and> (if bo_CleanupWorkDir out then bt_retries (bw_tables w') = bt_retries (bw_tables w)
              else queued_for cfg runId (bo_ArtifactPath out) (bw_files w') (bw_tables w) (bw_tables w')))"

definition uploaded_or_kept :: "BackupArtifact \<Rightarrow> backup_outcome \<Rightarrow> bool" where
  \<comment> \<open>what the attempt to upload an artifact says: it is gone when there is no error, and kept otherwise\<close>
  "uploaded_or_kept a out \<longleftrightarrow> bo_ArtifactPath out = ba_LocalPath a \<and> (bo_CleanupWorkDir out \<longleftrightarrow> bo_Error out = None)"

lemma upload_failed_ok:
  assumes "bw_files w (ba_LocalPath a) \<noteq> None" and "upload_failed env cfg run a remotePath e (w, u) = (out, w', u')"
  shows "outcome_ok cfg (bk_Id run) out w w' \<and> uploaded_or_kept a out"
  using assms by (auto simp: upload_failed_def outcome_ok_def queued_for_def uploaded_or_kept_def enqueueBackupRetry_def Retry_Insert_def Let_def)

lemma upload_artifact_ok:
  assumes "bw_files w (ba_LocalPath a) \<noteq> None" and "upload_artifact env cfg run a (w, u) = (out, w', u')"
  shows "outcome_ok cfg (bk_Id run) out w w' \<and> uploaded_or_kept a out"
proof -
  have s: "outcome_ok cfg (bk_Id run) \<lparr>bo_Status = ''success'', bo_ArtifactPath = p, bo_RemotePath = r, bo_ArtifactSize = n, bo_Error = None,
      bo_CleanupWorkDir = True\<rparr> w (w\<lparr>bw_files := fs\<rparr>)" for p r n fs
    by (simp add: outcome_ok_def)
  from assms(2) show ?thesis
    by (auto simp: upload_artifact_def Let_def s uploaded_or_kept_def split: sum.splits prod.splits option.splits
        dest: upload_failed_ok [OF assms(1)])
qed

lemma outcome_ok_files [simp]: "outcome_ok cfg i out (w\<lparr>bw_files := fs\<rparr>) w' = outcome_ok cfg i out w w'"
  by (simp add: outcome_ok_def split: option.split)

lemma built_artifact_there:
  assumes "buildBackupArtifact env workDir snapshot driver trigger cfg fs u = (Inr a, fs1)"
  shows "fs1 (ba_LocalPath a) \<noteq> None"
  using assms by (auto simp: buildBackupArtifact_def Let_def split: sum.splits prod.splits option.splits)

lemma packed:
  assumes "pack_backup env cfg trigger driver dsn workDir (w, u) = (r, w', u')"
  shows "\<exists>fs. w' = w\<lparr>bw_files := fs\<rparr>" and "r = Inr a \<Longrightarrow> bw_files w' (ba_LocalPath a) \<noteq> None"
proof -
  have "\<exists>fs. w = w\<lparr>bw_files := fs\<rparr>" by (metis backup_world.surjective backup_world.update_convs(6))
  then show "\<exists>fs. w' = w\<lparr>bw_files := fs\<rparr>"
    using assms by (auto simp: pack_backup_def split: sum.splits option.splits prod.splits)
  show "r = Inr a \<Longrightarrow> bw_files w' (ba_LocalPath a) \<noteq> None"
    using assms by (auto simp: pack_backup_def split: sum.splits option.splits prod.splits dest: built_artifact_there)
qed

lemma perform_backup_ok:
  assumes "perform_backup env cfg trigger driver dsn workDir run (w, u) = (out, w', u')"
  shows "outcome_ok cfg (bk_Id run) out w w'"
    and "case fst (pack_backup env cfg trigger driver dsn workDir (w, u)) of
      Inl e \<Rightarrow> bo_Error out = Some e \<and> bo_CleanupWorkDir out
    | Inr a \<Rightarrow> uploaded_or_kept a out"
proof -
  obtain r w1 u1 where p: "pack_backup env cfg trigger driver dsn workDir (w, u) = (r, w1, u1)" by (metis surj_pair)
  from packed(1) [OF p] obtain fs where w1: "w1 = w\<lparr>bw_files := fs\<rparr>" by blast
  have "outcome_ok cfg (bk_Id run) out w w' \<and> (case r of Inl e \<Rightarrow> bo_Error out = Some e \<and> bo_CleanupWorkDir out
      | Inr a \<Rightarrow> uploaded_or_kept a out)"
  proof (cases r)
    case (Inl e)
    with assms p show ?thesis by (auto simp: perform_backup_def outcome_ok_def failed_before_def w1)
  next
    case (Inr a)
    from packed(2) [OF p Inr] have "bw_files w1 (ba_LocalPath a) \<noteq> None" .
    moreover have "upload_artifact env cfg run a (w1, u1) = (out, w', u')" using assms p Inr by (simp add: perform_backup_def)
    ultimately have "outcome_ok cfg (bk_Id run) out w1 w' \<and> uploaded_or_kept a out" by (rule upload_artifact_ok)
    then show ?thesis by (simp add: Inr w1)
  qed
  then show "outcome_ok cfg (bk_Id run) out w w'"
    and "case fst (pack_backup env cfg trigger driver dsn workDir (w, u)) of
      Inl e \<Rightarrow> bo_Error out = Some e \<and> bo_CleanupWorkDir out | Inr a \<Rightarrow> uploaded_or_kept a out"
    by (simp_all add: p)
qed

lemma prepared:
  assumes "prepare_backup env cfg trigger now w = (Inr job, w')"
  shows "bw_memory w' = bw_memory w" and "bw_options w' = bw_options w" and "bw_files w' = bw_files w"
    and "bt_runs (bw_tables w') = bt_runs (bw_tables w) @ [bj_run job]" and "bt_retries (bw_tables w') = bt_retries (bw_tables w)"
    and "bk_Id (bj_run job) = next_row_id bk_Id (bt_runs (bw_tables w))" and "bj_trigger job = trigger"
    and "bk_Status (bj_run job) = ''running''"
  using assms by (auto simp: prepare_backup_def BackupRun_Insert_def Let_def split: sum.splits prod.splits option.splits)

lemma prepare_fails: "prepare_backup env cfg trigger now w = (Inl e, w') \<Longrightarrow> w' = w"
  by (auto simp: prepare_backup_def Let_def split: sum.splits prod.splits option.splits)

lemma finished_simps [simp]: "bk_Id (finished env out now run) = bk_Id run" "bk_Status (finished env out now run) = bo_Status out"
  by (simp_all add: finished_def Let_def split: option.splits)

lemma update_new_run:
  assumes "bt_runs t = rows @ [r]" and "bk_Id r = next_row_id bk_Id rows" and "bk_Id r' = bk_Id r" and "bk_Status r' \<noteq> []"
  obtains row where "bt_runs (save_run r' t) = rows @ [row]" and "bk_Id row = bk_Id r" and "bk_Status row = bk_Status r'"
proof (rule that)
  have "bk_Id x \<noteq> bk_Id r" if "x \<in> set rows" for x using next_row_id_fresh [OF that, of bk_Id] assms(2) by simp
  then have "row_update (\<lambda>old. bk_Id old = bk_Id r) (backup_run_updates r') rows = rows" by (rule row_update_other)
  moreover have "bk_Id r \<noteq> 0" using assms(2) next_row_id_pos [of bk_Id rows] by simp
  ultimately show "bt_runs (save_run r' t) = rows @ [backup_run_updates r' r]"
    using assms(1,3) by (simp add: save_run_def BackupRun_Update_def row_update_def)
qed (use assms(4) in \<open>simp_all add: backup_run_updates_def nonzero_def\<close>)

lemma save_run_retries [simp]: "bt_retries (save_run r t) = bt_retries t"
  by (simp add: save_run_def BackupRun_Update_def)

lemma remembered_simps [simp]:
  "bm_running (remembered trigger out now m) = bm_running m"
  "bo_Status out = ''success'' \<Longrightarrow> \<not> bm_dirty (remembered trigger out now m)"
  by (simp_all add: remembered_def Let_def)

lemma closed_job:
  assumes "close_job env job out now w = (run, w')"
  shows "bt_retries (bw_tables w') = bt_retries (bw_tables w)" and "bk_Id run = bk_Id (bj_run job)" and "\<not> bm_running (bw_memory w')"
    and "bw_files w' = (if bo_CleanupWorkDir out then remove_all (bj_workDir job) (bw_files w) else bw_files w)"
    and "bo_Status out = ''success'' \<Longrightarrow> \<not> bm_dirty (bw_memory w')" and "bw_options w' = bw_options w"
    and "bw_tables w' = save_run (finished env out now (bj_run job)) (bw_tables w)"
  using assms by (auto simp: close_job_def finish_run_def Let_def end_backup_def)

definition started_job :: "'u backup_env \<Rightarrow> gostring \<Rightarrow> backup_world \<times> 'u \<Rightarrow> (backup_job \<times> backup_world) option" where
  \<comment> \<open>the run that a trigger starts, if it is not refused\<close>
  "started_job env trigger = (\<lambda>(w, u).
    case begin_backup env w of
      Inl _ \<Rightarrow> None
    | Inr w1 \<Rightarrow> (case prepare_backup env (backup_config env w) trigger (be_clock env u) w1 of (Inl _, _) \<Rightarrow> None | (Inr job, w2) \<Rightarrow> Some (job, w2)))"

text \<open>
  C35: Every run that is started is recorded: as one new row, that says success exactly when there is no error, and the
  guard is free again afterwards. If the database cannot be packed, that is the error and the queue of uploads stays as it is. If it is
  packed and the upload succeeds, nothing is left to upload and no change is pending; and if the upload fails, exactly one upload of this
  run waits in the queue, for the artifact that was packed, which is on the disk. A run that is refused changes nothing.
\<close>

theorem backup_run_recorded:
  "case TriggerBackupNow env trigger (w, u) of ((err, run), w', u') \<Rightarrow>
    bm_running (bw_memory w') = bm_running (bw_memory w)
    \<and> (case started_job env trigger (w, u) of
         None \<Rightarrow> run = None \<and> err \<noteq> None \<and> bw_tables w' = bw_tables w \<and> bw_files w' = bw_files w
       | Some (job, w2) \<Rightarrow>
           (\<exists>r row. run = Some r \<and> bt_runs (bw_tables w') = bt_runs (bw_tables w) @ [row] \<and> bk_Id row = bk_Id r
              \<and> bk_Id row = next_row_id bk_Id (bt_runs (bw_tables w)) \<and> bk_Status row = (if err = None then ''success'' else ''failed'')
              \<and> (case fst (pack_backup env (backup_config env w) trigger (bj_driver job) (bj_dsn job) (bj_workDir job) (w2, u)) of
                   Inl e \<Rightarrow> err = Some e \<and> bt_retries (bw_tables w') = bt_retries (bw_tables w)
                 | Inr a \<Rightarrow>
                     if err = None then bt_retries (bw_tables w') = bt_retries (bw_tables w) \<and> \<not> bm_dirty (bw_memory w')
                     else queued_for (backup_config env w) (bk_Id r) (ba_LocalPath a) (bw_files w') (bw_tables w) (bw_tables w'))))"
proof (cases "begin_backup env w")
  case (Inl e)
  then show ?thesis by (simp add: TriggerBackupNow_def started_job_def Let_def)
next
  case (Inr w1)
  then have idle: "\<not> bm_running (bw_memory w)" and w1: "w1 = w\<lparr>bw_memory := (bw_memory w)\<lparr>bm_running := True\<rparr>\<rparr>"
    by (auto simp: begin_backup_def split: if_splits)
  let ?cfg = "backup_config env w"
  obtain p w2 where p: "prepare_backup env ?cfg trigger (be_clock env u) w1 = (p, w2)" by fastforce
  show ?thesis
  proof (cases p)
    case Inl': (Inl e)
    with p have "w2 = w1" by (auto dest: prepare_fails)
    with Inl' Inr p idle show ?thesis by (auto simp: TriggerBackupNow_def started_job_def Let_def end_backup_def w1)
  next
    case Inr': (Inr job)
    note pr = prepared [OF p [unfolded Inr']]
    obtain out w3 u3 where wk: "work_on env ?cfg job (w2, u) = (out, w3, u3)" by (metis surj_pair)
    let ?pack = "fst (pack_backup env ?cfg trigger (bj_driver job) (bj_dsn job) (bj_workDir job) (w2, u))"
    note pb = perform_backup_ok [OF wk [unfolded work_on_def]]
    have ok: "outcome_ok ?cfg (bk_Id (bj_run job)) out w2 w3" by (rule pb(1))
    have pk: "case ?pack of Inl e \<Rightarrow> bo_Error out = Some e \<and> bo_CleanupWorkDir out | Inr a \<Rightarrow> uploaded_or_kept a out"
      using pb(2) by (simp add: pr(7))
    obtain run w4 where cl: "close_job env job out (be_clock env u3) w3 = (run, w4)" by fastforce
    note cj = closed_job [OF cl]
    have runs3: "bt_runs (bw_tables w3) = bt_runs (bw_tables w) @ [bj_run job]" using ok pr(4) by (simp add: outcome_ok_def w1)
    have st: "bo_Status out = (if bo_Error out = None then ''success'' else ''failed'')"
      using ok by (auto simp: outcome_ok_def split: option.splits)
    obtain row where row: "bt_runs (bw_tables w4) = bt_runs (bw_tables w) @ [row]" "bk_Id row = bk_Id (bj_run job)" "bk_Status row = bo_Status out"
    proof (rule update_new_run [OF runs3, of "finished env out (be_clock env u3) (bj_run job)"])
      show "bk_Id (bj_run job) = next_row_id bk_Id (bt_runs (bw_tables w))" using pr(6) by (simp add: w1)
      show "bk_Status (finished env out (be_clock env u3) (bj_run job)) \<noteq> []" using st by simp
    qed (simp_all add: cj(7))
    have t: "TriggerBackupNow env trigger (w, u) = ((bo_Error out, Some run), w4, u3)" and j: "started_job env trigger (w, u) = Some (job, w2)"
      using Inr p Inr' wk cl by (simp_all add: TriggerBackupNow_def started_job_def Let_def)
    have r: "bt_retries (bw_tables w2) = bt_retries (bw_tables w)" using pr(5) by (simp add: w1)
    have q: "case ?pack of
        Inl e \<Rightarrow> bo_Error out = Some e \<and> bt_retries (bw_tables w4) = bt_retries (bw_tables w)
      | Inr a \<Rightarrow>
          if bo_Error out = None then bt_retries (bw_tables w4) = bt_retries (bw_tables w) \<and> \<not> bm_dirty (bw_memory w4)
          else queued_for ?cfg (bk_Id run) (ba_LocalPath a) (bw_files w4) (bw_tables w) (bw_tables w4)"
    proof (cases ?pack)
      case (Inl e)
      with pk ok cj r show ?thesis by (simp add: outcome_ok_def)
    next
      case pa: (Inr a)
      with pk have o: "bo_ArtifactPath out = ba_LocalPath a" "bo_CleanupWorkDir out \<longleftrightarrow> bo_Error out = None"
        by (simp_all add: uploaded_or_kept_def)
      show ?thesis using o ok cj r by (cases "bo_Error out") (auto simp: pa outcome_ok_def queued_for_def)
    qed
    show ?thesis unfolding t j using row st idle cj(2,3) pr(6) q by (simp add: w1)
  qed
qed

subsection \<open>The queue of uploads\<close>

definition attempts_left :: "BackupUploadRetry \<Rightarrow> int" where
  "attempts_left r = (if br_Status r = ''pending'' then br_MaxRetries r - br_RetryCount r + 1 else 0)"

definition uploads_left :: "backup_tables \<Rightarrow> int" where
  "uploads_left t = sum_list (map attempts_left (bt_retries t))"

definition retry_row_ok :: "BackupUploadRetry \<Rightarrow> bool" where
  "retry_row_ok r \<longleftrightarrow> 0 \<le> br_RetryCount r \<and> (br_Status r = ''pending'' \<longrightarrow> br_RetryCount r \<le> br_MaxRetries r)
    \<and> br_Status r \<in> {''pending'', ''done'', ''failed''}"

definition retries_ok :: "backup_tables \<Rightarrow> bool" where
  "retries_ok t \<longleftrightarrow> distinct (map br_Id (bt_retries t)) \<and> list_all retry_row_ok (bt_retries t)"

definition tried :: "BackupConfig \<Rightarrow> gotime \<Rightarrow> BackupUploadRetry \<Rightarrow> BackupUploadRetry \<Rightarrow> bool" where
  \<comment> \<open>a row before and after one attempt\<close>
  "tried cfg now r r' \<longleftrightarrow>
    br_Id r' = br_Id r \<and> br_RunId r' = br_RunId r \<and> br_ArtifactPath r' = br_ArtifactPath r \<and> br_MaxRetries r' = br_MaxRetries r
    \<and> (if br_Status r' = ''done'' then br_RetryCount r' = br_RetryCount r
       else br_RetryCount r' = br_RetryCount r + 1
         \<and> br_Status r' = (if br_RetryCount r < br_MaxRetries r then ''pending'' else ''failed'')
         \<and> (if br_Status r' = ''pending''
            then br_NextRetryAt r' = Unix now + min (bc_RetryBase cfg * 2 ^ nat (br_RetryCount r')) one_day div Second else True))"

definition replace_row :: "BackupUploadRetry \<Rightarrow> BackupUploadRetry list \<Rightarrow> BackupUploadRetry list" where
  "replace_row new rows = map (\<lambda>r. if br_Id r = br_Id new then new else r) rows"

lemma row_update_replace:
  assumes "distinct (map br_Id rows)" and "row \<in> set rows" and "br_Id (f row) = br_Id row"
  shows "row_update (\<lambda>r. br_Id r = br_Id row) f rows = replace_row (f row) rows"
proof -
  have "f r = f row" if "r \<in> set rows" "br_Id r = br_Id row" for r
    using assms(1,2) that by (metis distinct_map inj_onD)
  then show ?thesis using assms(3) by (simp add: row_update_def replace_row_def)
qed

lemma ids_replace_row [simp]: "map br_Id (replace_row new rows) = map br_Id rows"
  by (simp add: replace_row_def)

lemma sum_replace_row:
  fixes f :: "BackupUploadRetry \<Rightarrow> int"
  assumes "distinct (map br_Id rows)" and "row \<in> set rows" and "br_Id new = br_Id row"
  shows "sum_list (map f (replace_row new rows)) = sum_list (map f rows) - f row + f new"
  using assms
proof (induction rows)
  case (Cons r rows)
  show ?case
  proof (cases "r = row")
    case True
    have "br_Id row \<notin> br_Id ` set rows" using Cons.prems(1) True by simp
    then have "br_Id x \<noteq> br_Id new" if "x \<in> set rows" for x using that Cons.prems(3) by (metis image_eqI)
    then have "replace_row new rows = rows" by (simp add: replace_row_def map_idI)
    with True Cons.prems(3) show ?thesis by (simp add: replace_row_def)
  next
    case False
    with Cons.prems have "row \<in> set rows" "br_Id r \<noteq> br_Id new" by auto
    with Cons show ?thesis by (simp add: replace_row_def)
  qed
qed simp

lemma Retry_Update_replace:
  assumes "distinct (map br_Id (bt_retries t))" and "row \<in> set (bt_retries t)" and "br_Id new = br_Id row"
  shows "bt_retries (Retry_Update now new t) = replace_row (retry_updates (new\<lparr>br_UpdatedAt := Unix now\<rparr>) row) (bt_retries t)"
    and "bt_runs (Retry_Update now new t) = bt_runs t"
proof -
  have "retry_updates new' row = retry_updates new' row \<and> br_Id (retry_updates new' row) = br_Id row" for new' by (simp add: retry_updates_def)
  then show "bt_retries (Retry_Update now new t) = replace_row (retry_updates (new\<lparr>br_UpdatedAt := Unix now\<rparr>) row) (bt_retries t)"
    using assms row_update_replace [OF assms(1,2)] by (simp add: Retry_Update_def Let_def)
qed (simp add: Retry_Update_def Let_def)

lemma min_day_positive: "Second \<le> base \<Longrightarrow> 0 \<le> n \<Longrightarrow> 0 < min (base * 2 ^ nat n) one_day div Second"
proof -
  assume "Second \<le> base" "0 \<le> n"
  then have "base * 1 \<le> base * 2 ^ nat n" by (intro mult_left_mono) (auto simp: Second_def)
  then have "base \<le> base * 2 ^ nat n" by (simp only: mult_1_right)
  with \<open>Second \<le> base\<close> have "Second \<le> base * 2 ^ nat n" by (rule order_trans)
  moreover have "Second \<le> one_day" by (simp add: Second_def)
  ultimately have "Second \<le> min (base * 2 ^ nat n) one_day" by (rule min.boundedI)
  then have "Second div Second \<le> min (base * 2 ^ nat n) one_day div Second" by (intro zdiv_mono1) auto
  then show ?thesis by simp
qed

lemma retry_again_tried:
  assumes "distinct (map br_Id (bt_retries t))" and "row \<in> set (bt_retries t)" and "br_Status row = ''pending''" and "0 \<le> br_RetryCount row"
    and "config_in_range cfg" and "0 \<le> Unix now"
  shows "\<exists>new. bt_retries (retry_again env cfg row e now clock t) = replace_row new (bt_retries t) \<and> tried cfg now row new"
    and "bt_runs (retry_again env cfg row e now clock t) = bt_runs t"
proof -
  have b: "Second \<le> bc_RetryBase cfg" "bc_RetryBase cfg \<le> one_day" using assms(5) by (simp_all add: config_in_range_def)
  have w: "retryBackoff (bc_RetryBase cfg) (br_RetryCount row + 1) = min (bc_RetryBase cfg * 2 ^ nat (br_RetryCount row + 1)) one_day"
    using b assms(4) by (intro retryBackoff_closed_form) (auto simp: Second_def)
  have pos: "0 < min (bc_RetryBase cfg * 2 ^ nat (br_RetryCount row + 1)) one_day div Second" using b(1) assms(4) by (intro min_day_positive) auto
  show "\<exists>new. bt_retries (retry_again env cfg row e now clock t) = replace_row new (bt_retries t) \<and> tried cfg now row new"
  proof (cases "br_RetryCount row < br_MaxRetries row")
    case True
    let ?new = "retry_updates (row\<lparr>br_RetryCount := br_RetryCount row + 1, br_LastError := redacted env e,
        br_NextRetryAt := Unix now + min (bc_RetryBase cfg * 2 ^ nat (br_RetryCount row + 1)) one_day div Second, br_UpdatedAt := Unix clock\<rparr>) row"
    have "bt_retries (retry_again env cfg row e now clock t) = replace_row ?new (bt_retries t)"
      using True assms by (simp add: retry_again_def w Retry_Update_replace)
    moreover have "tried cfg now row ?new"
      using assms pos True by (simp add: tried_def retry_updates_def nonzero_def)
    ultimately show ?thesis by blast
  next
    case False
    let ?new = "retry_updates (row\<lparr>br_RetryCount := br_RetryCount row + 1, br_LastError := redacted env e, br_Status := ''failed'',
        br_UpdatedAt := Unix clock\<rparr>) row"
    have "bt_retries (retry_again env cfg row e now clock t) = replace_row ?new (bt_retries t)"
      using False assms by (simp add: retry_again_def Retry_Update_replace)
    moreover have "tried cfg now row ?new" using assms False by (simp add: tried_def retry_updates_def nonzero_def)
    ultimately show ?thesis by blast
  qed
  show "bt_runs (retry_again env cfg row e now clock t) = bt_runs t"
    by (simp add: retry_again_def Let_def Retry_Update_def)
qed

lemma retry_done_tried:
  assumes "distinct (map br_Id (bt_retries t))" and "row \<in> set (bt_retries t)"
  shows "\<exists>new. bt_retries (retry_done env row remotePath now t) = replace_row new (bt_retries t) \<and> tried cfg tick row new"
proof -
  let ?new = "retry_updates (row\<lparr>br_Status := ''done'', br_LastError := [], br_UpdatedAt := Unix now\<rparr>) row"
  have "bt_retries (retry_done env row remotePath now t) = replace_row ?new (bt_retries t)"
    using assms by (auto simp: retry_done_def Let_def Retry_Update_replace split: sum.split option.split)
  moreover have "tried cfg tick row ?new" by (simp add: tried_def retry_updates_def nonzero_def)
  ultimately show ?thesis by blast
qed

lemma retry_row_ok_tried: "retry_row_ok r \<Longrightarrow> br_Status r = ''pending'' \<Longrightarrow> tried cfg now r r' \<Longrightarrow> retry_row_ok r' \<and> attempts_left r' + 1 \<le> attempts_left r"
  by (auto simp: retry_row_ok_def tried_def attempts_left_def split: if_splits)

lemma retries_ok_replace:
  assumes "retries_ok t" and "row \<in> set (bt_retries t)" and "br_Status row = ''pending''" and "tried cfg now row new"
    and "bt_retries t' = replace_row new (bt_retries t)"
  shows "retries_ok t'" and "uploads_left t' + 1 \<le> uploads_left t"
proof -
  have ok: "retry_row_ok row" using assms(1,2) by (simp add: retries_ok_def list_all_iff)
  from retry_row_ok_tried [OF this assms(3,4)] have n: "retry_row_ok new" "attempts_left new + 1 \<le> attempts_left row" by blast+
  have "list_all retry_row_ok (replace_row new (bt_retries t))" using assms(1) n(1) by (auto simp: retries_ok_def list_all_iff replace_row_def)
  then show "retries_ok t'" using assms(1,5) by (simp add: retries_ok_def)
  have "br_Id new = br_Id row" using assms(4) by (simp add: tried_def)
  then show "uploads_left t' + 1 \<le> uploads_left t"
    using sum_replace_row [of "bt_retries t" row new attempts_left] assms(1,2,5) n(2) by (simp add: uploads_left_def retries_ok_def)
qed

lemma retry_step_tried:
  assumes "retry_step env cfg client now row (w, u) = (w', u')" and "retries_ok (bw_tables w)" and "row \<in> set (bt_retries (bw_tables w))"
    and "br_Status row = ''pending''" and "config_in_range cfg" and "0 \<le> Unix now"
  obtains new where "bt_retries (bw_tables w') = replace_row new (bt_retries (bw_tables w))" and "tried cfg now row new"
    and "bw_options w' = bw_options w" and "bw_memory w' = bw_memory w"
proof -
  have d: "distinct (map br_Id (bt_retries (bw_tables w)))" and c: "0 \<le> br_RetryCount row"
    using assms(2,3) by (auto simp: retries_ok_def list_all_iff retry_row_ok_def)
  obtain e v where up: "uploadFile env client (br_ArtifactPath row) (retry_remote cfg row) (bw_files w) u = (e, v)" by fastforce
  show thesis
  proof (cases e)
    case None
    obtain new where "bt_retries (retry_done env row (retry_remote cfg row) (be_clock env v) (bw_tables w)) = replace_row new (bt_retries (bw_tables w))"
        "tried cfg now row new"
      using retry_done_tried [OF d assms(3)] by blast
    then show thesis using assms(1) up None by (intro that [of new]) (auto simp: retry_step_def Let_def)
  next
    case (Some err)
    obtain new where "bt_retries (retry_again env cfg row err now (be_clock env v) (bw_tables w)) = replace_row new (bt_retries (bw_tables w))"
        "tried cfg now row new"
      using retry_again_tried(1) [OF d assms(3,4) c assms(5,6)] by blast
    then show thesis using assms(1) up Some by (intro that [of new]) (auto simp: retry_step_def Let_def)
  qed
qed

lemma retry_fold:
  assumes "config_in_range cfg" and "0 \<le> Unix now"
  shows "retries_ok (bw_tables w) \<Longrightarrow> distinct (map br_Id rows) \<Longrightarrow> set rows \<subseteq> set (bt_retries (bw_tables w)) \<Longrightarrow>
    list_all (\<lambda>r. br_Status r = ''pending'') rows \<Longrightarrow> fold (retry_step env cfg client now) rows (w, u) = (w', u') \<Longrightarrow>
    retries_ok (bw_tables w') \<and> uploads_left (bw_tables w') + int (length rows) \<le> uploads_left (bw_tables w)
    \<and> bw_options w' = bw_options w \<and> bw_memory w' = bw_memory w"
proof (induction rows arbitrary: w u)
  case (Cons row rows)
  obtain w1 u1 where s: "retry_step env cfg client now row (w, u) = (w1, u1)" by fastforce
  from Cons.prems have r: "row \<in> set (bt_retries (bw_tables w))" "br_Status row = ''pending''" by simp_all
  obtain new where n: "bt_retries (bw_tables w1) = replace_row new (bt_retries (bw_tables w))" "tried cfg now row new"
      "bw_options w1 = bw_options w" "bw_memory w1 = bw_memory w"
    by (rule retry_step_tried [OF s Cons.prems(1) r assms])
  note ok = retries_ok_replace [OF Cons.prems(1) r n(2,1)]
  have "set rows \<subseteq> set (bt_retries (bw_tables w1))"
  proof
    fix x assume x: "x \<in> set rows"
    have "br_Id row \<notin> br_Id ` set rows" using Cons.prems(2) by simp
    with x have "br_Id x \<noteq> br_Id row" by (metis image_eqI)
    then have "br_Id x \<noteq> br_Id new" using n(2) by (simp add: tried_def)
    with x Cons.prems(3) show "x \<in> set (bt_retries (bw_tables w1))" by (force simp: n(1) replace_row_def)
  qed
  moreover have "fold (retry_step env cfg client now) rows (w1, u1) = (w', u')" using Cons.prems(5) s by simp
  ultimately have "retries_ok (bw_tables w') \<and> uploads_left (bw_tables w') + int (length rows) \<le> uploads_left (bw_tables w1)
      \<and> bw_options w' = bw_options w1 \<and> bw_memory w' = bw_memory w1"
    using Cons.IH [OF ok(1)] Cons.prems(2,4) by simp
  with ok(2) n(3,4) show ?case by auto
qed simp

lemma due_rows:
  assumes "retries_ok t"
  shows "distinct (map br_Id (GetDueBackupUploadRetries now limit t))" and "set (GetDueBackupUploadRetries now limit t) \<subseteq> set (bt_retries t)"
    and "list_all (\<lambda>r. br_Status r = ''pending'') (GetDueBackupUploadRetries now limit t)"
proof -
  let ?due = "filter (\<lambda>r. br_Status r = ''pending'' \<and> br_NextRetryAt r \<le> now) (bt_retries t)"
  have "distinct (map br_Id ?due)" using assms by (simp add: retries_ok_def distinct_map_filter)
  then have "distinct (map br_Id (sort_key br_Id ?due))" by (simp add: distinct_map)
  then show "distinct (map br_Id (GetDueBackupUploadRetries now limit t))" by (simp add: GetDueBackupUploadRetries_def take_map [symmetric])
  show "set (GetDueBackupUploadRetries now limit t) \<subseteq> set (bt_retries t)"
    by (auto simp: GetDueBackupUploadRetries_def dest!: in_set_takeD)
  show "list_all (\<lambda>r. br_Status r = ''pending'') (GetDueBackupUploadRetries now limit t)"
    by (auto simp: GetDueBackupUploadRetries_def list_all_iff dest!: in_set_takeD)
qed

definition uploads_tried :: "'u backup_env \<Rightarrow> gotime \<Rightarrow> backup_world \<times> 'u \<Rightarrow> int" where
  \<comment> \<open>how many uploads the processing of the queue tries\<close>
  "uploads_tried env now = (\<lambda>(w, u).
    let cfg = backup_config env w in
    if \<not> bc_Enabled cfg then 0
    else case newWebDAVClient env cfg of
      Inl e \<Rightarrow> 0
    | Inr client \<Rightarrow>
        if fst (ensureCollection env client (bc_WebDAVBasePath cfg) u) = None then int (length (GetDueBackupUploadRetries (Unix now) 10 (bw_tables w)))
        else 0)"

lemma queue_processed:
  assumes "retries_ok (bw_tables w)" and "0 \<le> Unix now" and "ProcessBackupRetryQueue env now (w, u) = (w', u')"
  shows "retries_ok (bw_tables w')" and "uploads_left (bw_tables w') + uploads_tried env now (w, u) \<le> uploads_left (bw_tables w)"
    and "bw_memory w' = bw_memory w" and "bw_options w' = bw_options w"
proof -
  let ?cfg = "backup_config env w" and ?rows = "GetDueBackupUploadRetries (Unix now) 10 (bw_tables w)"
  have "retries_ok (bw_tables w') \<and> uploads_left (bw_tables w') + uploads_tried env now (w, u) \<le> uploads_left (bw_tables w)
      \<and> bw_memory w' = bw_memory w \<and> bw_options w' = bw_options w"
  proof (cases "\<not> bc_Enabled ?cfg \<or> ?rows = []")
    case True
    with assms show ?thesis by (auto simp: ProcessBackupRetryQueue_def uploads_tried_def Let_def split: sum.splits)
  next
    case on: False
    show ?thesis
    proof (cases "newWebDAVClient env ?cfg")
      case (Inl e)
      with on assms show ?thesis by (auto simp: ProcessBackupRetryQueue_def uploads_tried_def Let_def)
    next
      case (Inr client)
      obtain e v where c: "ensureCollection env client (bc_WebDAVBasePath ?cfg) u = (e, v)" by fastforce
      show ?thesis
      proof (cases e)
        case (Some x)
        with on Inr c assms show ?thesis by (auto simp: ProcessBackupRetryQueue_def uploads_tried_def Let_def)
      next
        case None
        have "fold (retry_step env ?cfg client now) ?rows (w, v) = (w', u')"
          using on Inr c None assms(3) by (simp add: ProcessBackupRetryQueue_def Let_def)
        from retry_fold [OF GetBackupConfig_in_range assms(2,1) due_rows [OF assms(1)] this]
        show ?thesis using on Inr c None by (simp add: uploads_tried_def Let_def)
      qed
    qed
  qed
  then show "retries_ok (bw_tables w')" and "uploads_left (bw_tables w') + uploads_tried env now (w, u) \<le> uploads_left (bw_tables w)"
    and "bw_memory w' = bw_memory w" and "bw_options w' = bw_options w" by blast+
qed

subsection \<open>The program around a run\<close>

type_synonym job_state = "backup_job \<times> BackupConfig \<times> backup_outcome option"

definition running_ids :: "backup_tables \<Rightarrow> int set" where
  \<comment> \<open>the runs that the table shows as running\<close>
  "running_ids t = bk_Id ` {r \<in> set (bt_runs t). bk_Status r = ''running''}"

definition keys_ok :: "backup_tables \<Rightarrow> bool" where
  \<comment> \<open>tables that this program has written: primary keys are distinct, and uploads are counted up to their maximum\<close>
  "keys_ok t \<longleftrightarrow> distinct (map bk_Id (bt_runs t)) \<and> retries_ok t"

text \<open>
  The program in operation. A state is the world, the outer world, the runs at work, and the identifiers of \<^emph>\<open>left\<close> rows: rows
  that were shown as running when the process started or when a restore replaced the tables. A process starts on whatever rows the
  database holds and can be killed at any time, also with a run at work; a restore can happen at any time, too.
\<close>

inductive backup_reach :: "'u backup_env \<Rightarrow> backup_world \<times> 'u \<times> job_state list \<times> int set \<Rightarrow> bool" for env where
  br_start: "bw_memory w = fresh_memory \<Longrightarrow> keys_ok (bw_tables w) \<Longrightarrow> backup_reach env (w, u, [], running_ids (bw_tables w))"
| br_killed: "backup_reach env (w, u, js, left) \<Longrightarrow> backup_reach env (w\<lparr>bw_memory := fresh_memory\<rparr>, u, [], running_ids (bw_tables w))"
| br_restore: "backup_reach env (w, u, js, left) \<Longrightarrow> ExecuteBackupRestore env req (w, u) = (res, w', u') \<Longrightarrow> keys_ok (bw_tables w') \<Longrightarrow>
    backup_reach env (w', u', js, running_ids (bw_tables w'))"
| br_mark: "backup_reach env (w, u, js, left) \<Longrightarrow> backup_reach env (MarkBackupDirty env reason now w, u, js, left)"
| br_tick: "backup_reach env (w, u, js, left) \<Longrightarrow> backup_reach env (snd (EvaluateBackupScheduleIfNeeded env now w), u, js, left)"
| br_options: "backup_reach env (w, u, js, left) \<Longrightarrow> backup_reach env (w\<lparr>bw_options := m\<rparr>, u, js, left)"
| br_outside: "backup_reach env (w, u, js, left) \<Longrightarrow> backup_reach env (w\<lparr>bw_files := fs, bw_db := d, bw_option_rows := rows\<rparr>, v, js, left)"
| br_begin: "backup_reach env (w, u, js, left) \<Longrightarrow> begin_backup env w = Inr w1 \<Longrightarrow>
    prepare_backup env (backup_config env w) trigger (be_clock env u) w1 = (Inr job, w2) \<Longrightarrow>
    backup_reach env (w2, u, js @ [(job, backup_config env w, None)], left)"
| br_refused: "backup_reach env (w, u, js, left) \<Longrightarrow> begin_backup env w = Inr w1 \<Longrightarrow>
    prepare_backup env (backup_config env w) trigger (be_clock env u) w1 = (Inl e, w2) \<Longrightarrow> backup_reach env (end_backup w2, u, js, left)"
| br_work: "backup_reach env (w, u, xs @ (job, cfg, None) # ys, left) \<Longrightarrow> work_on env cfg job (w, u) = (out, w', u') \<Longrightarrow>
    backup_reach env (w', u', xs @ (job, cfg, Some out) # ys, left)"
| br_finish: "backup_reach env (w, u, xs @ (job, cfg, Some out) # ys, left) \<Longrightarrow> close_job env job out now w = (run, w') \<Longrightarrow>
    backup_reach env (w', u, xs @ ys, left)"
| br_retry: "backup_reach env (w, u, js, left) \<Longrightarrow> 0 \<le> Unix now \<Longrightarrow> ProcessBackupRetryQueue env now (w, u) = (w', u') \<Longrightarrow>
    backup_reach env (w', u', js, left)"

definition job_id :: "job_state \<Rightarrow> int" where
  "job_id j = bk_Id (bj_run (fst j))"

definition runs_step :: "BackupRun list \<Rightarrow> BackupRun list \<Rightarrow> bool" where
  \<comment> \<open>the same rows, and no row that is at work again\<close>
  "runs_step rs rs' \<longleftrightarrow> map bk_Id rs' = map bk_Id rs
    \<and> (\<forall>r' \<in> set rs'. bk_Status r' = ''running'' \<longrightarrow> (\<exists>r \<in> set rs. bk_Id r = bk_Id r' \<and> bk_Status r = ''running''))"

lemma runs_step_refl [simp]: "runs_step rs rs"
  by (auto simp: runs_step_def)

lemma runs_step_trans: "runs_step rs rs' \<Longrightarrow> runs_step rs' rs'' \<Longrightarrow> runs_step rs rs''"
  by (fastforce simp: runs_step_def)

lemma save_run_step:
  assumes "bk_Status r \<noteq> ''running''" and "bk_Status r \<noteq> []"
  shows "runs_step (bt_runs t) (bt_runs (save_run r t))"
    and "bk_Id r \<noteq> 0 \<Longrightarrow> r' \<in> set (bt_runs (save_run r t)) \<Longrightarrow> bk_Id r' = bk_Id r \<Longrightarrow> bk_Status r' = bk_Status r"
  using assms
  by (auto simp: runs_step_def save_run_def BackupRun_Update_def row_update_def backup_run_updates_def nonzero_def split: if_splits)

lemma retry_step_runs:
  assumes "retry_step env cfg client now row (w, u) = (w', u')"
  shows "runs_step (bt_runs (bw_tables w)) (bt_runs (bw_tables w'))"
proof -
  have up: "bt_runs (Retry_Update c r t) = bt_runs t" for c r t by (simp add: Retry_Update_def Let_def)
  have again: "bt_runs (retry_again env cfg row e n c t) = bt_runs t" for e n c t by (simp add: retry_again_def Let_def up)
  have fin: "runs_step (bt_runs t) (bt_runs (retry_done env row p c t))" for p c t
  proof -
    let ?t = "Retry_Update c (row\<lparr>br_Status := ''done'', br_LastError := []\<rparr>) t"
    have "runs_step (bt_runs ?t) (bt_runs (retry_done env row p c t))"
      by (auto simp: retry_done_def Let_def intro!: save_run_step split: sum.split option.split)
    then show ?thesis by (simp add: up)
  qed
  from assms show ?thesis by (auto simp: retry_step_def Let_def fin again split: prod.splits option.splits)
qed

lemma queue_runs:
  assumes "ProcessBackupRetryQueue env now (w, u) = (w', u')"
  shows "runs_step (bt_runs (bw_tables w)) (bt_runs (bw_tables w'))"
proof -
  have f: "runs_step (bt_runs (bw_tables v)) (bt_runs (bw_tables v'))" if "fold (retry_step env cfg client now) rows (v, a) = (v', a')" for v a v' a' rows cfg client
    using that
  proof (induction rows arbitrary: v a)
    case (Cons row rows)
    obtain v1 a1 where s: "retry_step env cfg client now row (v, a) = (v1, a1)" by fastforce
    with Cons show ?case by (auto intro: runs_step_trans [OF retry_step_runs [OF s]])
  qed simp
  from assms show ?thesis by (auto simp: ProcessBackupRetryQueue_def Let_def split: if_splits sum.splits prod.splits option.splits intro: f)
qed

definition backup_inv :: "backup_world \<Rightarrow> job_state list \<Rightarrow> int set \<Rightarrow> bool" where
  "backup_inv w js left \<longleftrightarrow>
    length js \<le> 1 \<and> (bm_running (bw_memory w) \<longleftrightarrow> js \<noteq> []) \<and> keys_ok (bw_tables w)
    \<and> running_ids (bw_tables w) \<subseteq> job_id ` set js \<union> left
    \<and> list_all (\<lambda>j. job_id j \<noteq> 0 \<and> config_in_range (fst (snd j))
        \<and> (case snd (snd j) of None \<Rightarrow> True | Some out \<Rightarrow> bo_Status out = ''success'' \<or> bo_Status out = ''failed'')) js"

lemma running_ids_step: "runs_step (bt_runs t) (bt_runs t') \<Longrightarrow> running_ids t' \<subseteq> running_ids t"
  by (fastforce simp: runs_step_def running_ids_def image_iff)

lemma execute_restore_memory:
  assumes "ExecuteBackupRestore env req (w, u) = (res, w', u')"
  shows "bw_memory w' = bw_memory w" and "bw_options w' = bw_options w"
proof -
  have v: "bw_memory w1 = bw_memory w \<and> bw_options w1 = bw_options w" if "ValidateBackupRestoreRequest env req (w, u) = (r, w1, u1)" for r w1 u1
    using that by (auto simp: ValidateBackupRestoreRequest_def Let_def split: prod.splits sum.splits)
  have p: "bw_memory w2 = bw_memory w1 \<and> bw_options w2 = bw_options w1" if "perform_restore env rz (w1, u1) = (r, w2, u2)" for rz w1 u1 r w2 u2
    using that by (auto simp: perform_restore_def Let_def with_rows_def split: prod.splits sum.splits option.splits)
  have "bw_memory w' = bw_memory w \<and> bw_options w' = bw_options w"
    using assms by (auto simp: ExecuteBackupRestore_def split: prod.splits sum.splits if_splits dest!: v p)
  then show "bw_memory w' = bw_memory w" and "bw_options w' = bw_options w" by simp_all
qed

lemma mark_running [simp]:
  "bm_running (bw_memory (MarkBackupDirty env reason now w)) = bm_running (bw_memory w)" "bw_tables (MarkBackupDirty env reason now w) = bw_tables w"
  by (simp_all add: MarkBackupDirty_def Let_def)

lemma tick_running [simp]:
  "bm_running (bw_memory (snd (EvaluateBackupScheduleIfNeeded env now w))) = bm_running (bw_memory w)"
  "bw_tables (snd (EvaluateBackupScheduleIfNeeded env now w)) = bw_tables w"
  by (simp_all add: EvaluateBackupScheduleIfNeeded_def Let_def split: sum.split)

lemma retries_ok_queued:
  assumes "retries_ok t" and "queued_for cfg i path fs t t'" and "config_in_range cfg"
  shows "retries_ok t'"
proof -
  from assms(2) obtain q where q: "bt_retries t' = bt_retries t @ [q]" "br_Id q = next_row_id br_Id (bt_retries t)" "br_Status q = ''pending''"
      "br_RetryCount q = 0" "br_MaxRetries q = bc_MaxRetries cfg"
    by (auto simp: queued_for_def)
  have "br_Id q \<notin> br_Id ` set (bt_retries t)" using next_row_id_fresh [of _ "bt_retries t" br_Id] q(2) by force
  then show ?thesis using assms(1,3) q by (simp add: retries_ok_def retry_row_ok_def config_in_range_def)
qed

lemma outcome_keeps:
  assumes "outcome_ok cfg i out w w'" and "retries_ok (bw_tables w)" and "config_in_range cfg"
  shows "retries_ok (bw_tables w')" and "bo_Status out = ''success'' \<or> bo_Status out = ''failed''"
  using assms retries_ok_queued [OF assms(2) _ assms(3)]
  by (auto simp: outcome_ok_def retries_ok_def split: option.splits if_splits)

lemma backup_reach_inv: "backup_reach env (w, u, js, left) \<Longrightarrow> backup_inv w js left"
proof (induction "(w, u, js, left)" arbitrary: w u js left rule: backup_reach.induct)
  case (br_start w u)
  then show ?case by (simp add: backup_inv_def fresh_memory_def)
next
  case (br_killed w u js left)
  then show ?case by (simp add: backup_inv_def fresh_memory_def)
next
  case (br_restore w u js left req res w' u')
  then show ?case using execute_restore_memory [OF br_restore(3)] by (simp add: backup_inv_def)
next
  case (br_begin w u js left w1 trigger job w2)
  have w1: "\<not> bm_running (bw_memory w)" "w1 = w\<lparr>bw_memory := (bw_memory w)\<lparr>bm_running := True\<rparr>\<rparr>"
    using br_begin(3) by (auto simp: begin_backup_def split: if_splits)
  note pr = prepared [OF br_begin(4)]
  have "next_row_id bk_Id (bt_runs (bw_tables w)) \<notin> bk_Id ` set (bt_runs (bw_tables w))"
    using next_row_id_fresh [of _ "bt_runs (bw_tables w)" bk_Id] by force
  then show ?case using br_begin(2) w1(1) pr next_row_id_pos [of bk_Id "bt_runs (bw_tables w)"] GetBackupConfig_in_range
    by (auto simp: backup_inv_def w1(2) job_id_def keys_ok_def retries_ok_def running_ids_def)
next
  case (br_refused w u js left w1 trigger e w2)
  have "w2 = w1" using br_refused(4) by (rule prepare_fails)
  with br_refused(2,3) show ?case by (auto simp: backup_inv_def begin_backup_def end_backup_def split: if_splits)
next
  case (br_work w u xs job cfg ys left out w' u')
  have ok: "outcome_ok cfg (bk_Id (bj_run job)) out w w'" using br_work(3) by (auto simp: work_on_def intro: perform_backup_ok)
  have cfg: "config_in_range cfg" "retries_ok (bw_tables w)" using br_work(2) by (auto simp: backup_inv_def keys_ok_def)
  note k = outcome_keeps [OF ok cfg(2,1)]
  have "bw_memory w' = bw_memory w" "bt_runs (bw_tables w') = bt_runs (bw_tables w)" using ok by (simp_all add: outcome_ok_def)
  with br_work(2) k show ?case by (auto simp: backup_inv_def job_id_def keys_ok_def running_ids_def)
next
  case (br_finish w u xs job cfg out ys left now run w')
  note cj = closed_job [OF br_finish(3)]
  from br_finish(2) have e: "xs = []" "ys = []" "bk_Id (bj_run job) \<noteq> 0" "bo_Status out = ''success'' \<or> bo_Status out = ''failed''"
    by (auto simp: backup_inv_def job_id_def)
  let ?r = "finished env out now (bj_run job)"
  have st: "bk_Status ?r \<noteq> ''running''" "bk_Status ?r \<noteq> []" using e(4) by auto
  note sv = save_run_step [OF st, where t = "bw_tables w"]
  have "running_ids (bw_tables w') \<subseteq> running_ids (bw_tables w)" using running_ids_step [OF sv(1)] by (simp add: cj(7))
  moreover have "bk_Id (bj_run job) \<notin> running_ids (bw_tables w')"
    using sv(2) e(3) st(1) by (auto simp: cj(7) running_ids_def)
  ultimately have "running_ids (bw_tables w') \<subseteq> left" using br_finish(2) e(1,2) by (auto simp: backup_inv_def job_id_def)
  moreover have "keys_ok (bw_tables w')" using br_finish(2) sv(1) cj(1) by (simp add: backup_inv_def keys_ok_def retries_ok_def cj(7) runs_step_def)
  ultimately show ?case using br_finish(2) cj(3) e(1,2) by (simp add: backup_inv_def)
next
  case (br_retry w u js left now w' u')
  from br_retry(2) have "retries_ok (bw_tables w)" by (simp add: backup_inv_def keys_ok_def)
  note q = queue_processed [OF this br_retry(3,4)]
  have r: "runs_step (bt_runs (bw_tables w)) (bt_runs (bw_tables w'))" by (rule queue_runs [OF br_retry(4)])
  from running_ids_step [OF r] br_retry(2) q r show ?case by (auto simp: backup_inv_def keys_ok_def runs_step_def)
qed (simp_all add: backup_inv_def)

text \<open>
  C36: Whatever is interleaved with it (changes, ticks, new settings, repeated uploads, restores, the death of the process, the
  outside world), there is never more than one run of the backup at work, and the guard is set exactly while there is one. A row
  that says that its run is at work is the row of this run, or one of those left: it said so already when the process started or when a
  restore brought in the tables of another time. Runs have distinct identifiers.
\<close>

theorem one_backup_at_a_time:
  assumes "backup_reach env (w, u, js, left)"
  shows "length js \<le> 1 \<and> (bm_running (bw_memory w) \<longleftrightarrow> js \<noteq> []) \<and> distinct (map bk_Id (bt_runs (bw_tables w)))
    \<and> running_ids (bw_tables w) \<subseteq> (\<lambda>j. bk_Id (bj_run (fst j))) ` set js \<union> left"
  using backup_reach_inv [OF assms] unfolding backup_inv_def keys_ok_def job_id_def by blast

text \<open>
  A run that is killed leaves such a row behind: in the state after it the row is shown as running, and no run is at work.
\<close>

lemma killed_run_stays:
  assumes "backup_reach env (w, u, [(job, cfg, None)], left)" and "bj_run job \<in> set (bt_runs (bw_tables w))" and "bk_Status (bj_run job) = ''running''"
  shows "\<exists>left'. backup_reach env (w\<lparr>bw_memory := fresh_memory\<rparr>, u, [], left') \<and> bk_Id (bj_run job) \<in> running_ids (bw_tables w) \<inter> left'"
  using br_killed [OF assms(1)] assms(2,3) by (auto simp: running_ids_def)

fun queue_ticks :: "'u backup_env \<Rightarrow> gotime list \<Rightarrow> backup_world \<times> 'u \<Rightarrow> int \<times> backup_world \<times> 'u" where
  \<comment> \<open>the queue processed at some times, and the number of uploads tried\<close>
  "queue_ticks env [] s = (0, s)"
| "queue_ticks env (now # nows) s =
    (case queue_ticks env nows (ProcessBackupRetryQueue env now s) of (n, s') \<Rightarrow> (uploads_tried env now s + n, s'))"

lemma attempts_left_nonneg: "retries_ok t \<Longrightarrow> 0 \<le> uploads_left t"
  by (auto simp: retries_ok_def uploads_left_def list_all_iff retry_row_ok_def attempts_left_def intro!: sum_list_nonneg)

lemma queue_ticks_bound:
  "retries_ok (bw_tables w) \<Longrightarrow> list_all (\<lambda>now. 0 \<le> Unix now) nows \<Longrightarrow> queue_ticks env nows (w, u) = (n, w', u') \<Longrightarrow>
   retries_ok (bw_tables w') \<and> uploads_left (bw_tables w') + n \<le> uploads_left (bw_tables w)"
proof (induction nows arbitrary: w u n)
  case (Cons now nows)
  obtain w1 u1 where p: "ProcessBackupRetryQueue env now (w, u) = (w1, u1)" by fastforce
  obtain m where q: "queue_ticks env nows (w1, u1) = (m, w', u')" "n = uploads_tried env now (w, u) + m"
    using Cons.prems(3) p by (auto split: prod.splits)
  note s = queue_processed [OF Cons.prems(1) _ p]
  show ?case using Cons.IH [OF s(1) _ q(1)] s(2) Cons.prems(2) q(2) by auto
qed simp

text \<open>
  C37: However often the queue of uploads is processed, and whatever the server answers, the uploads tried are bounded:
  each row that waits is tried at most as often as its maximum and its count allow, and one more than the maximum in all;
  so in the end every row is done or given up.
\<close>

theorem uploads_are_bounded:
  assumes "backup_reach env (w, u, js, left)" and "list_all (\<lambda>now. 0 \<le> Unix now) nows"
  shows "case queue_ticks env nows (w, u) of (n, w', u') \<Rightarrow>
    0 \<le> uploads_left (bw_tables w') \<and> uploads_left (bw_tables w') + n \<le> uploads_left (bw_tables w)"
proof -
  have "retries_ok (bw_tables w)" using backup_reach_inv [OF assms(1)] by (simp add: backup_inv_def keys_ok_def)
  then show ?thesis using queue_ticks_bound [OF _ assms(2)] attempts_left_nonneg by (fastforce split: prod.split)
qed

text \<open>
  A change that arrives while a run is at work is forgotten when the run succeeds, although its snapshot may be older than
  the change: the run ends with nothing pending.
\<close>

lemma change_during_run_is_forgotten:
  "bo_Status out = ''success'' \<Longrightarrow> close_job env job out now (MarkBackupDirty env reason t w) = (run, w') \<Longrightarrow> \<not> bm_dirty (bw_memory w')"
  by (rule closed_job(5))

subsection \<open>A run whose upload fails\<close>

lemma backup_reach_trigger:
  assumes "backup_reach env (w, u, [], left)" and "TriggerBackupNow env trigger (w, u) = (res, w', u')"
  shows "backup_reach env (w', u', [], left)"
proof (cases "begin_backup env w")
  case (Inl e)
  with assms show ?thesis by (simp add: TriggerBackupNow_def Let_def)
next
  case (Inr w1)
  obtain p w2 where p: "prepare_backup env (backup_config env w) trigger (be_clock env u) w1 = (p, w2)" by fastforce
  show ?thesis
  proof (cases p)
    case Inl': (Inl e)
    with assms(2) Inr p have "w' = end_backup w2" "u' = u" by (auto simp: TriggerBackupNow_def Let_def)
    then show ?thesis using br_refused [OF assms(1) Inr p [unfolded Inl']] by simp
  next
    case Inr': (Inr job)
    obtain out w3 u3 where wk: "work_on env (backup_config env w) job (w2, u) = (out, w3, u3)" by (metis surj_pair)
    obtain run w4 where cl: "close_job env job out (be_clock env u3) w3 = (run, w4)" by fastforce
    have "backup_reach env (w2, u, [] @ (job, backup_config env w, None) # [], left)"
      using br_begin [OF assms(1) Inr p [unfolded Inr']] by simp
    from br_finish [OF br_work [OF this wk] cl] have "backup_reach env (w4, u3, [], left)" by simp
    moreover have "w' = w4" "u' = u3" using assms(2) Inr p Inr' wk cl by (auto simp: TriggerBackupNow_def Let_def)
    ultimately show ?thesis by simp
  qed
qed

definition sample_backup_world :: backup_world where
  "sample_backup_world =
    \<lparr>bw_db = sample_db, bw_options = sample_options, bw_option_rows = sample_options, bw_memory = fresh_memory,
     bw_tables = \<lparr>bt_runs = [], bt_retries = []\<rparr>, bw_files = Map.empty\<rparr>"

lemma sample_backup_start: "backup_reach sample_backup_env (sample_backup_world, (), [], {})"
  using br_start [of sample_backup_world sample_backup_env "()"] by (simp add: sample_backup_world_def keys_ok_def retries_ok_def running_ids_def)

text \<open>A run begins: the guard is set, and a second one is refused.\<close>

theorem one_backup_at_a_time_witness:
  "case begin_backup sample_backup_env sample_backup_world of
     Inl e \<Rightarrow> False
   | Inr w1 \<Rightarrow> (case prepare_backup sample_backup_env (backup_config sample_backup_env sample_backup_world) ''manual'' 7 w1 of
       (Inl e, w) \<Rightarrow> False
     | (Inr job, w) \<Rightarrow> bm_running (bw_memory w) \<and> distinct (map bk_Id (bt_runs (bw_tables w)))
         \<and> begin_backup sample_backup_env w = Inl ''backup is already running'')"
proof -
  have c: "bc_Enabled (backup_config sample_backup_env sample_backup_world)" by code_simp
  then obtain w1 where w1: "begin_backup sample_backup_env sample_backup_world = Inr w1"
    by (simp add: begin_backup_def sample_backup_world_def fresh_memory_def)
  have clock: "be_clock sample_backup_env () = 7" by (simp add: sample_backup_env_def)
  have d: "TrimSpace (bc_SpoolDir (backup_config sample_backup_env sample_backup_world)) \<noteq> []" by code_simp
  have a: "active_database sample_backup_env = Inr (''sqlite'', ''/data/gateway.db'')" by code_simp
  obtain job w where p: "prepare_backup sample_backup_env (backup_config sample_backup_env sample_backup_world) ''manual'' 7 w1 = (Inr job, w)"
  proof -
    have "be_mkdir sample_backup_env p = None" for p by (simp add: sample_backup_env_def)
    then show thesis using a d that by (simp add: prepare_backup_def ensureBackupSpoolDir_def BackupRun_Insert_def Let_def)
  qed
  have opt: "bw_options w = bw_options sample_backup_world"
    using w1 prepared [OF p] by (auto simp: begin_backup_def split: if_splits)
  have "backup_reach sample_backup_env (w, (), [] @ [(job, backup_config sample_backup_env sample_backup_world, None)], {})"
    by (rule br_begin [OF sample_backup_start w1]) (use p clock in simp)
  from one_backup_at_a_time [OF this] have "bm_running (bw_memory w)" "distinct (map bk_Id (bt_runs (bw_tables w)))" by simp_all
  then show ?thesis using w1 p c opt by (simp add: begin_backup_def)
qed

text \<open>The server has no space: the upload of the run waits, and is tried at most nine times.\<close>

theorem uploads_are_bounded_witness:
  "case TriggerBackupNow sample_backup_env ''manual'' (sample_backup_world, ()) of (res, w, u) \<Rightarrow>
    uploads_left (bw_tables w) = 9
    \<and> (case queue_ticks sample_backup_env (map ((*) (100 * Second)) [1..100]) (w, u) of (n, w', u') \<Rightarrow> 0 \<le> uploads_left (bw_tables w') \<and> n \<le> 9)"
proof -
  have nine: "uploads_left (bw_tables (fst (snd (TriggerBackupNow sample_backup_env ''manual'' (sample_backup_world, ()))))) = 9" by code_simp
  have times: "list_all (\<lambda>now. 0 \<le> Unix now) (map ((*) (100 * Second)) [1..100])" by (auto simp: list_all_iff Second_def Unix_def)
  obtain res w u where t: "TriggerBackupNow sample_backup_env ''manual'' (sample_backup_world, ()) = (res, w, u)" by (metis surj_pair)
  from uploads_are_bounded [OF backup_reach_trigger [OF sample_backup_start t] times]
  show ?thesis using nine by (auto simp: t split: prod.splits)
qed

end
