(* ===== verification/RestoreCorrect.thy ===== *)
theory RestoreCorrect
  imports BackupCorrect
begin

text \<open>
  The way back: the rows of an SQLite database that a backup has packed are in the database file again after a restore of the artifact.
\<close>

subsection \<open>What was built\<close>

definition holds_package :: "'u backup_env \<Rightarrow> BackupConfig \<Rightarrow> gostring \<Rightarrow> gostring \<Rightarrow> gostring \<Rightarrow> BackupManifest \<Rightarrow> gostring \<Rightarrow> files \<Rightarrow> bool" where
  \<comment> \<open>at the path of the artifact is the package of the payload\<close>
  "holds_package env cfg dir base payload m artifact fs \<longleftrightarrow>
    artifact = (if bc_EncryptEnabled cfg then dir @ ''/backup-package.zip.enc'' else dir @ ''/backup-package.zip'')
    \<and> (bc_EncryptEnabled cfg \<longrightarrow> TrimSpace (bc_EncryptPassphrase cfg) \<noteq> [])
    \<and> (\<exists>nonce. length nonce = 12 \<and> fs artifact = Some (package_bytes env cfg nonce (raw_package env base payload m)))
    \<and> m = m\<lparr>mf_PayloadSHA256 := hex_encode (be_sha256 env payload)\<rparr> \<and> in_int64 (mf_CreatedAt m)"

lemma built_holds_package:
  assumes "archive_laws env" and "buildBackupArtifact env dir snapshot driver trigger cfg fs u = (Inr a, fs1)" and "cleaned dir"
    and "in_int64 (Unix (be_clock env u))"
  obtains payload where "fs (sn_PayloadPath snapshot) = Some payload"
    and "holds_package env cfg dir (path_Base (sn_PayloadPath snapshot)) payload (ba_Manifest a) (ba_LocalPath a) fs1"
    and "mf_Driver (ba_Manifest a) = driver"
proof -
  from built_artifact [OF assms(2,3)] obtain payload zipPath where b: "fs (sn_PayloadPath snapshot) = Some payload" "zipPath = dir @ ''/backup-package.zip''"
    "ba_Manifest a = new_manifest env snapshot driver trigger payload u"
    "ba_LocalPath a = (if bc_EncryptEnabled cfg then zipPath @ ''.enc'' else zipPath)"
    "fs1 (ba_LocalPath a) = Some (package_bytes env cfg (be_nonce env u) (raw_package env (path_Base (sn_PayloadPath snapshot)) payload (ba_Manifest a)))"
    "bc_EncryptEnabled cfg \<Longrightarrow> TrimSpace (bc_EncryptPassphrase cfg) \<noteq> []" by metis
  have "length (be_nonce env u) = 12" using assms(1) by (simp add: archive_laws_def)
  then have "holds_package env cfg dir (path_Base (sn_PayloadPath snapshot)) payload (ba_Manifest a) (ba_LocalPath a) fs1"
    using b assms(4) by (auto simp: holds_package_def new_manifest_def)
  with b show thesis by (intro that) (auto simp: new_manifest_def)
qed

lemma unpack_held:
  assumes "archive_laws env" and "cleaned dir" and "payload_name base" and "\<And>p. be_write env p = None"
    and "holds_package env cfg dir base payload m artifact fs"
  obtains fs' where "unpackArtifactAndManifest env artifact cfg fs = (Inr (dir @ ''/'' @ base, m), fs')"
    and "fs' (dir @ ''/'' @ base) = Some payload" and "holds_package env cfg dir base payload m artifact fs'"
    and "verifyPayloadChecksum env (dir @ ''/'' @ base) (mf_PayloadSHA256 m) fs' = None"
    and "\<And>p. \<not> prefix (dir @ ''/'') p \<Longrightarrow> fs' p = fs p"
    and "holds_package env cfg dir base payload m artifact (fs'(dir @ ''/'' @ base := None))"
proof -
  let ?zip = "dir @ ''/backup-package.zip''"
  let ?fs = "if bc_EncryptEnabled cfg then fs(dir @ ''/'' @ base \<mapsto> payload, ?zip := None) else fs(dir @ ''/'' @ base \<mapsto> payload)"
  obtain nonce where n: "length nonce = 12" "fs artifact = Some (package_bytes env cfg nonce (raw_package env base payload m))"
    using assms(5) by (auto simp: holds_package_def)
  have sha: "mf_PayloadSHA256 m = hex_encode (be_sha256 env payload)" using assms(5) by (simp add: holds_package_def) (metis BackupManifest.select_convs(7) BackupManifest.surjective BackupManifest.update_convs(7))
  have ne: "mf_PayloadSHA256 m \<noteq> []" "TrimSpace (mf_PayloadSHA256 m) = mf_PayloadSHA256 m"
    using assms(1) by (auto simp: sha archive_laws_def dest: spec [of _ payload])
  have art: "artifact = (if bc_EncryptEnabled cfg then ?zip @ ''.enc'' else ?zip)" using assms(5) by (simp add: holds_package_def)
  note base = payload_name_simps [OF assms(3)]
  have "unpackArtifactAndManifest env artifact cfg fs = (Inr (dir @ ''/'' @ base, m), ?fs)"
    using assms(5) by (intro unpack_package [where fs = fs and payload = payload and base = base and m = m and nonce = nonce,
        OF assms(1-3) _ ne refl art n(2,1)]) (auto simp: holds_package_def assms(4))
  moreover have "?fs (dir @ ''/'' @ base) = Some payload" using base by auto
  moreover have keep: "?fs artifact = fs artifact" "(?fs(dir @ ''/'' @ base := None)) artifact = fs artifact" using base by (auto simp: art)
  moreover have "verifyPayloadChecksum env (dir @ ''/'' @ base) (mf_PayloadSHA256 m) ?fs = None"
    using base by (auto simp: verifyPayloadChecksum_def read_file_def sha)
  moreover have "?fs p = fs p" if "\<not> prefix (dir @ ''/'') p" for p
  proof -
    have "p \<noteq> dir @ ''/'' @ base" "p \<noteq> ?zip" using that by auto
    then show ?thesis by simp
  qed
  ultimately show thesis using assms(5) by (intro that [of ?fs]) (auto simp: holds_package_def simp del: fun_upd_apply)
qed

lemma with_rows_simps [simp]:
  "rows_of (with_rows r w) = r" "bw_files (with_rows r w) = bw_files w" "bw_memory (with_rows r w) = bw_memory w"
  "bw_options (with_rows r w) = bw_options w"
  by (simp_all add: rows_of_def with_rows_def)

lemma packed_sqlite:
  assumes "pack_backup env cfg trigger ''sqlite'' path workDir (w, u) = (Inr a, w1, u1)" and "cleaned workDir"
  obtains content snapshot fs where "be_vacuum env (rows_of w) (vacuum_sql (sn_PayloadPath snapshot)) u = Inr content"
    and "path_Base (sn_PayloadPath snapshot) = ''sqlite-snapshot.db''" and "fs (sn_PayloadPath snapshot) = Some content"
    and "buildBackupArtifact env workDir snapshot ''sqlite'' trigger cfg fs u = (Inr a, bw_files w1)" and "u1 = u"
proof -
  let ?target = "path_Join [workDir, ''sqlite-snapshot.db'']"
  let ?snapshot = "\<lparr>sn_PayloadPath = ?target, sn_Format = ''sqlite-db''\<rparr>"
  have e: "path_element ''sqlite-snapshot.db''" by code_simp
  have s: "getSnapshotter ''sqlite'' path cfg = Inr (sqliteSnapshotter path)" by (simp add: getSnapshotter_def)
  obtain content where c: "be_vacuum env (rows_of w) (vacuum_sql ?target) u = Inr content"
    and b: "buildBackupArtifact env workDir ?snapshot ''sqlite'' trigger cfg ((bw_files w)(?target := None, ?target \<mapsto> content)) u = (Inr a, bw_files w1)"
    and u: "u1 = u"
    using assms(1) s by (auto simp: pack_backup_def CreateSnapshot_def sqlite_snapshot_def Let_def split: option.splits sum.splits prod.splits)
  have "path_Base ?target = ''sqlite-snapshot.db''" by (simp only: path_Join_plain [OF assms(2) e] path_Base_plain [OF e])
  with b c u show thesis by (intro that [of ?snapshot content]) simp_all
qed

text \<open>
  C33: A restore puts back what a backup has packed. Suppose the database in use is the SQLite file of the configuration, a backup has packed
  its rows, and the artifact is still on the disk. Then a confirmed restore of the artifact, with the same settings, overwrites the database
  file by one that holds the rows as they were when the snapshot was taken, and what the file held before lies beside it. The settings
  in the memory of the process and its pending changes stay. The restore reports success and counts the rows that the open
  database shows now, which may or may not be those of the new file, or the error of the database.
\<close>

theorem restore_puts_back:
  assumes "archive_laws env" and "\<And>p. be_write env p = None" and "active_database env = Inr (''sqlite'', be_sqlite_path env)"
    and "\<And>q x c. be_vacuum env (rows_of w0) q x = Inr c \<Longrightarrow> opened c = rows_of w0"
    and "pack_backup env (backup_config env w) trigger ''sqlite'' (be_sqlite_path env) workDir (w0, u0) = (Inr a, w1, u1)"
    and "cleaned workDir" and "in_int64 (Unix (be_clock env u0))"
    and "bw_files w (ba_LocalPath a) = bw_files w1 (ba_LocalPath a)" and "TrimSpace (rq_LocalPath req) = ba_LocalPath a"
    and "rq_Confirm req" and "\<not> rq_DryRun req"
    and "bw_files w (be_sqlite_path env) = Some old" and "\<not> prefix (workDir @ ''/'') (be_sqlite_path env @ ''.pre-restore.bak'')"
  shows "\<exists>result w' content fs. ExecuteBackupRestore env req (w, v) = (result, w', v)
    \<and> opened content = rows_of w0 \<and> bw_files w' (be_sqlite_path env) = Some content \<and> fs (be_sqlite_path env) = Some content
    \<and> bw_files w' (be_sqlite_path env @ ''.pre-restore.bak'') = Some old
    \<and> bw_memory w' = bw_memory w \<and> bw_options w' = bw_options w
    \<and> (case be_shown env ''sqlite'' (be_sqlite_path env) fs v (rows_of w) of
         Inl e \<Rightarrow> result = Inl e
       | Inr shown \<Rightarrow> rows_of w' = shown \<and> (\<exists>r. result = Inr r \<and> rz_Ready r \<and> rz_Message r = ''restore completed''
           \<and> rz_Health r = runBackupRestoreHealthCheck w'))"
proof -
  let ?cfg = "backup_config env w" and ?base = "''sqlite-snapshot.db''" and ?db = "be_sqlite_path env"
  let ?p = "workDir @ ''/'' @ ?base" and ?bak = "?db @ ''.pre-restore.bak''"
  obtain payload snapshot fs0 where pk: "be_vacuum env (rows_of w0) (vacuum_sql (sn_PayloadPath snapshot)) u0 = Inr payload"
    "path_Base (sn_PayloadPath snapshot) = ?base" "fs0 (sn_PayloadPath snapshot) = Some payload"
    "buildBackupArtifact env workDir snapshot ''sqlite'' trigger ?cfg fs0 u0 = (Inr a, bw_files w1)"
    using packed_sqlite [OF assms(5,6)] by metis
  have b: "mf_Driver (ba_Manifest a) = ''sqlite''" "holds_package env ?cfg workDir ?base payload (ba_Manifest a) (ba_LocalPath a) (bw_files w1)"
    using built_holds_package [OF assms(1) pk(4) assms(6,7)] pk(2,3) by (metis option.inject)+
  have name: "payload_name ?base" by (simp add: payload_name_def)
  have h: "holds_package env ?cfg workDir ?base payload (ba_Manifest a) (ba_LocalPath a) (bw_files w)"
    using b(2) unfolding holds_package_def assms(8) .
  have art: "ba_LocalPath a \<noteq> []" "bw_files w (ba_LocalPath a) \<noteq> None" using h by (auto simp: holds_package_def split: if_splits)
  have out: "\<not> prefix (workDir @ ''/'') ?db" "?bak \<noteq> ?p" "?db \<noteq> ?p" using assms(13) by (auto simp: prefix_def)
  obtain f1 where f1: "unpackArtifactAndManifest env (ba_LocalPath a) ?cfg (bw_files w) = (Inr (?p, ba_Manifest a), f1)"
    "verifyPayloadChecksum env ?p (mf_PayloadSHA256 (ba_Manifest a)) f1 = None" "\<And>p. \<not> prefix (workDir @ ''/'') p \<Longrightarrow> f1 p = bw_files w p"
    "holds_package env ?cfg workDir ?base payload (ba_Manifest a) (ba_LocalPath a) (f1(?p := None))"
    by (rule unpack_held [OF assms(1,6) name assms(2) h]) blast
  obtain f2 where f2: "unpackArtifactAndManifest env (ba_LocalPath a) ?cfg (f1(?p := None)) = (Inr (?p, ba_Manifest a), f2)"
    "f2 ?p = Some payload" "verifyPayloadChecksum env ?p (mf_PayloadSHA256 (ba_Manifest a)) f2 = None"
    "\<And>p. \<not> prefix (workDir @ ''/'') p \<Longrightarrow> f2 p = (f1(?p := None)) p"
    by (rule unpack_held [OF assms(1,6) name assms(2) f1(4)]) blast
  have old: "f2 ?db = Some old" using f2(4) f1(3) out assms(12) by simp
  define rz where "rz = \<lparr>rz_Ready = True, rz_DryRun = rq_DryRun req, rz_Driver = ''sqlite'', rz_Message = ''restore preflight passed'',
      rz_Artifact = ba_LocalPath a, rz_Manifest = Some (ba_Manifest a), rz_Health = [], rz_Warnings = []\<rparr>"
  let ?w = "w\<lparr>bw_files := f1(?p := None)\<rparr>" and ?fs = "f2(?bak \<mapsto> old, ?db \<mapsto> payload)"
  have v: "ValidateBackupRestoreRequest env req (w, v) = (Inr rz, ?w, v)"
    using assms(9) art f1(1,2) assms(3) b(1) by (simp add: ValidateBackupRestoreRequest_def resolveRestoreArtifactPath_def Let_def rz_def)
  have r: "restore_sqlite env ?p f2 = (None, ?fs)"
    using old f2(2) out by (simp add: restore_sqlite_def copyFile_def read_file_def write_file_def assms(2) Let_def)
  define shown where "shown = be_shown env ''sqlite'' ?db ?fs v (rows_of w)"
  have "rows_after_restore env ?fs v ?w = shown" using assms(3) by (simp add: rows_after_restore_def shown_def rows_of_def)
  then have p: "perform_restore env rz (?w, v) =
      (let w2 = (case shown of Inl e \<Rightarrow> w\<lparr>bw_files := ?fs(?p := None)\<rparr> | Inr rows \<Rightarrow> with_rows rows (w\<lparr>bw_files := ?fs(?p := None)\<rparr>))
       in (case shown of Inl e \<Rightarrow> Inl e
           | Inr rows \<Rightarrow> Inr (rz\<lparr>rz_Message := ''restore completed'', rz_Health := runBackupRestoreHealthCheck w2\<rparr>), w2, v))"
    using f2(1,3) b(1) r by (simp add: perform_restore_def rz_def executeRestoreByDriver_def Let_def split: sum.split)
  have e: "ExecuteBackupRestore env req (w, v) = perform_restore env rz (?w, v)"
    using v assms(10,11) by (simp add: ExecuteBackupRestore_def rz_def)
  show ?thesis
  proof (cases shown)
    case (Inl x)
    then show ?thesis unfolding e p
      by (intro exI [of _ "Inl x"] exI [of _ "w\<lparr>bw_files := ?fs(?p := None)\<rparr>"] exI [of _ payload] exI [of _ ?fs])
        (use assms(4) [OF pk(1)] out in \<open>simp add: shown_def [symmetric]\<close>)
  next
    case (Inr rows)
    let ?w2 = "with_rows rows (w\<lparr>bw_files := ?fs(?p := None)\<rparr>)"
    have sh: "be_shown env ''sqlite'' ?db ?fs v (rows_of w) = Inr rows" using Inr by (simp add: shown_def)
    show ?thesis unfolding e p
      by (intro exI [of _ "Inr (rz\<lparr>rz_Message := ''restore completed'', rz_Health := runBackupRestoreHealthCheck ?w2\<rparr>)"]
          exI [of _ ?w2] exI [of _ payload] exI [of _ ?fs])
        (use assms(4) [OF pk(1)] out in \<open>simp add: Let_def Inr sh, simp add: rz_def\<close>)
  qed
qed

definition sample_restore :: "gostring \<Rightarrow> BackupRestoreRequest" where
  "sample_restore p = \<lparr>rq_RunID = 0, rq_LocalPath = p, rq_RemotePath = [], rq_DryRun = False, rq_Confirm = True\<rparr>"

text \<open>A backup is packed; later, when the file is another one, it is restored.\<close>

theorem restore_puts_back_witness:
  "case pack_backup sample_backup_env (backup_config sample_backup_env sample_backup_world) ''manual'' ''sqlite'' ''/data/gateway.db'' ''/spool/run''
       (sample_backup_world, ()) of
     (Inl e, w1, u1) \<Rightarrow> False
   | (Inr a, w1, u1) \<Rightarrow>
       (case ExecuteBackupRestore sample_backup_env (sample_restore (ba_LocalPath a)) (w1\<lparr>bw_files := (bw_files w1)(''/data/gateway.db'' \<mapsto> ''old'')\<rparr>, ()) of
          (r, w, u) \<Rightarrow> bw_files w ''/data/gateway.db'' \<noteq> None \<and> bw_files w ''/data/gateway.db.pre-restore.bak'' = Some ''old''
            \<and> rows_of w = rows_of sample_backup_world)"
proof -
  let ?cfg = "backup_config sample_backup_env sample_backup_world"
  have c: "bc_EncryptEnabled ?cfg" "TrimSpace (bc_EncryptPassphrase ?cfg) \<noteq> []" by code_simp+
  have j: "path_Join [''/spool/run'', ''backup-package.zip''] = ''/spool/run/backup-package.zip''" by code_simp
  have d: "cleaned ''/spool/run''" by code_simp
  have pre: "sqlite_preflight ''/data/gateway.db'' = None" by code_simp
  obtain a w1 where built: "pack_backup sample_backup_env ?cfg ''manual'' ''sqlite'' ''/data/gateway.db'' ''/spool/run'' (sample_backup_world, ()) = (Inr a, w1, ())"
    and a: "ba_LocalPath a = ''/spool/run/backup-package.zip.enc''" and w1: "rows_of w1 = rows_of sample_backup_world" "bw_options w1 = bw_options sample_backup_world"
    using c pre by (simp add: pack_backup_def getSnapshotter_def CreateSnapshot_def sqlite_snapshot_def buildBackupArtifact_def packed_file_def
        encryptFileAESGCM_def writeZipWithManifest_def write_file_def read_file_def j Let_def rows_of_def sample_backup_env_def)
  let ?w = "w1\<lparr>bw_files := (bw_files w1)(''/data/gateway.db'' \<mapsto> ''old'')\<rparr>"
  have cfg: "backup_config sample_backup_env ?w = ?cfg" using w1(2) by simp
  have db: "be_sqlite_path sample_backup_env = ''/data/gateway.db''" "\<And>p. be_write sample_backup_env p = None"
    by (simp_all add: sample_backup_env_def)
  have act: "active_database sample_backup_env = Inr (''sqlite'', be_sqlite_path sample_backup_env)" unfolding db by code_simp
  have t: "in_int64 (Unix (be_clock sample_backup_env ()))" by code_simp
  have trim: "TrimSpace (rq_LocalPath (sample_restore (ba_LocalPath a))) = ba_LocalPath a" unfolding sample_restore_def a by code_simp
  have out: "\<not> prefix (''/spool/run'' @ ''/'') (be_sqlite_path sample_backup_env @ ''.pre-restore.bak'')" unfolding db by code_simp
  have kept: "bw_files ?w (ba_LocalPath a) = bw_files w1 (ba_LocalPath a)" and old: "bw_files ?w (be_sqlite_path sample_backup_env) = Some ''old''"
    by (simp_all add: a db)
  have q: "rq_Confirm (sample_restore (ba_LocalPath a))" "\<not> rq_DryRun (sample_restore (ba_LocalPath a))" by (simp_all add: sample_restore_def)
  have shown: "be_shown sample_backup_env driver dsn fs x r = Inr r" for driver dsn fs x r by (simp add: sample_backup_env_def)
  from restore_puts_back [OF sample_archive_laws db(2) act _ built [folded cfg db(1)] d t kept trim q old out,
      where opened = "\<lambda>_. rows_of sample_backup_world" and v = "()"]
  have "bw_files (fst (snd (ExecuteBackupRestore sample_backup_env (sample_restore (ba_LocalPath a)) (?w, ())))) ''/data/gateway.db'' \<noteq> None
    \<and> bw_files (fst (snd (ExecuteBackupRestore sample_backup_env (sample_restore (ba_LocalPath a)) (?w, ())))) ''/data/gateway.db.pre-restore.bak'' = Some ''old''
    \<and> rows_of (fst (snd (ExecuteBackupRestore sample_backup_env (sample_restore (ba_LocalPath a)) (?w, ())))) = rows_of ?w"
    by (auto simp: shown db)
  moreover have "rows_of ?w = rows_of sample_backup_world" using w1(1) by (simp add: rows_of_def)
  ultimately show ?thesis by (auto simp: built split: prod.split)
qed

end
