(* ===== verification/BackupSchedule.thy ===== *)
theory BackupSchedule
  imports BackupConfig AlertEpisodes
begin

text \<open>
  The cron expressions of the backup: a field that is written from parts matches a value exactly when one of the parts
  does, and an expression of five fields matches a time exactly when every field matches. A list that begins with a step
  is not read as a list: the program takes the whole field for one step and reports an error.
\<close>

datatype cron_part = CronEvery | CronStep int | CronAt int

fun part_text :: "cron_part \<Rightarrow> gostring" where
  "part_text CronEvery = ''*''"
| "part_text (CronStep n) = ''*/'' @ Itoa n"
| "part_text (CronAt n) = Itoa n"

fun part_matches :: "cron_part \<Rightarrow> int \<Rightarrow> bool" where
  "part_matches CronEvery v = True"
| "part_matches (CronStep n) v = (n dvd v)"
| "part_matches (CronAt n) v = (v = n)"

fun part_ok :: "cron_part \<Rightarrow> bool" where
  "part_ok CronEvery = True"
| "part_ok (CronStep n) = (0 < n \<and> in_int64 n)"
| "part_ok (CronAt n) = in_int64 n"

fun is_step :: "cron_part \<Rightarrow> bool" where
  "is_step (CronStep n) = True"
| "is_step p = False"

definition field_of_parts :: "cron_part list \<Rightarrow> bool" where
  "field_of_parts ps \<longleftrightarrow> ps \<noteq> [] \<and> list_all part_ok ps"

definition readable :: "cron_part list \<Rightarrow> bool" where
  \<comment> \<open>not a list that begins with a step, which the program takes for one step\<close>
  "readable ps \<longleftrightarrow> (length ps > 1 \<longrightarrow> \<not> is_step (hd ps))"

definition field_ok :: "cron_part list \<Rightarrow> bool" where
  "field_ok ps \<longleftrightarrow> field_of_parts ps \<and> readable ps"

lemmas field_defs = field_ok_def field_of_parts_def readable_def

definition field_text :: "cron_part list \<Rightarrow> gostring" where
  "field_text ps = Join (map part_text ps) '',''"

definition field_matches :: "cron_part list \<Rightarrow> int \<Rightarrow> bool" where
  "field_matches ps v \<longleftrightarrow> (\<exists>p \<in> set ps. part_matches p v)"

definition cron_text :: "cron_part list list \<Rightarrow> gostring" where
  "cron_text fs = Join (map field_text fs) '' ''"

subsection \<open>Texts\<close>

lemma part_text_plain: "list_all plain_char (part_text p)"
proof (cases p)
  case CronEvery
  have "list_all plain_char ''*''" by code_simp
  then show ?thesis by (simp only: CronEvery part_text.simps)
next
  case (CronStep n)
  have "list_all plain_char ''*/''" by code_simp
  then show ?thesis using plain_Itoa [of n] by (simp only: CronStep part_text.simps list_all_append)
qed (simp add: plain_Itoa)

lemma part_text_no_comma: "CHR '','' \<notin> set (part_text p)"
  using Itoa_no_char [of "CHR '',''"] by (cases p) (auto simp: is_digit_def less_eq_char_def)

lemma part_text_nonempty [simp]: "part_text p \<noteq> []"
  by (cases p) simp_all

lemma field_text_plain: "list_all plain_char (field_text ps)"
proof -
  have c: "list_all plain_char '',''" by code_simp
  have "c \<in> set (field_text ps) \<Longrightarrow> plain_char c" for c
    using set_Join [of "map part_text ps" "'',''"] c part_text_plain by (fastforce simp: field_text_def list_all_iff)
  then show ?thesis by (simp add: list_all_iff)
qed

lemma field_text_nonempty: "ps \<noteq> [] \<Longrightarrow> field_text ps \<noteq> []"
  by (cases "(map part_text ps, '','' :: string)" rule: Join.cases) (auto simp: field_text_def)

lemma Split_field: "ps \<noteq> [] \<Longrightarrow> Split1 (CHR '','') (field_text ps) = map part_text ps"
  unfolding field_text_def using part_text_no_comma by (intro Split1_Join) auto

subsection \<open>Matching\<close>

lemma go_mod_dvd:
  assumes "0 < n"
  shows "go_mod v n = 0 \<longleftrightarrow> n dvd v"
proof
  assume "n dvd v"
  then obtain k where "v = n * k" by (elim dvdE)
  then show "go_mod v n = 0"
    using assms by (simp add: go_mod_def go_div_def abs_mult sgn_mult mult_sgn_abs)
qed (auto simp: go_mod_def dvd_def)

lemma cron_any_parts:
  "(\<And>p. p \<in> set ps \<Longrightarrow> f (part_text p) = Inr (part_matches p v)) \<Longrightarrow>
   cron_any f (map part_text ps) = Inr (field_matches ps v)"
  by (induction ps) (auto simp: field_matches_def)

lemma digits_only:
  assumes "list_all (\<lambda>c. \<not> is_digit c \<and> c \<noteq> CHR ''-'') w" and "w \<noteq> []"
  shows "\<not> StrContains (Itoa n) w" "\<not> HasPrefix (Itoa n) w" "Itoa n \<noteq> w"
proof -
  obtain c r where w: "w = c # r" using assms(2) by (cases w) auto
  then have c: "c \<notin> set (Itoa n)" using assms(1) Itoa_no_char [of c n] by simp
  have "\<not> sublist w (Itoa n)" using c unfolding w by (metis list.set_intros(1) set_mono_sublist subsetD)
  then show "\<not> StrContains (Itoa n) w" "\<not> HasPrefix (Itoa n) w" "Itoa n \<noteq> w"
    by (auto simp: StrContains_sublist HasPrefix_def)
qed

lemma match_part:
  assumes "part_ok p"
  shows "matchCronToken (part_text p) v = Inr (part_matches p v)"
proof -
  have t [simp]: "TrimSpace (part_text p) = part_text p" by (rule TrimSpace_plain_char) (rule part_text_plain)
  have d: "list_all (\<lambda>c. \<not> is_digit c \<and> c \<noteq> CHR ''-'') w" if "w \<in> {''*'', ''*/'', '',''}" for w
  proof -
    have "list_all (list_all (\<lambda>c. \<not> is_digit c \<and> c \<noteq> CHR ''-'')) [''*'', ''*/'', '','']" by code_simp
    with that show ?thesis by auto
  qed
  show ?thesis
  proof (cases p)
    case CronEvery
    then show ?thesis using t by (subst matchCronToken.simps) simp
  next
    case (CronStep n)
    have "HasPrefix (''*/'' @ Itoa n) ''*/''" "TrimPrefix (''*/'' @ Itoa n) ''*/'' = Itoa n" by (auto simp: HasPrefix_def TrimPrefix_def)
    moreover have "TrimSpace (''*/'' @ Itoa n) = ''*/'' @ Itoa n" using t by (simp add: CronStep)
    moreover have "0 < n" "in_int64 n" using assms by (simp_all add: CronStep)
    ultimately show ?thesis
      unfolding CronStep part_text.simps part_matches.simps
      by (subst matchCronToken.simps) (simp only: Let_def Atoi_Itoa go_mod_dvd if_True option.case not_le append.simps list.inject simp_thms char.inject, simp)
  next
    case (CronAt n)
    note no = digits_only [OF d, of "''*''" n] digits_only [OF d, of "''*/''" n] digits_only [OF d, of "'',''" n]
    show ?thesis using assms no t by (subst matchCronToken.simps) (auto simp: CronAt Let_def Atoi_Itoa)
  qed
qed

lemma star_no_digit: "\<not> is_digit (CHR ''*'')" "CHR ''*'' \<noteq> CHR ''-''"
  by (simp_all add: is_digit_def less_eq_char_def)

lemma match_field:
  assumes ok: "field_ok ps"
  shows "matchCronToken (field_text ps) v = Inr (field_matches ps v)"
proof -
  have parts: "matchCronToken (part_text p) v = Inr (part_matches p v)" if "p \<in> set ps" for p
    using ok that by (auto simp: field_defs list_all_iff intro: match_part)
  from ok obtain p rest where ps: "ps = p # rest" by (cases ps) (auto simp: field_defs)
  show ?thesis
  proof (cases "rest = []")
    case True
    then show ?thesis using parts by (simp add: ps field_text_def field_matches_def)
  next
    case False
    then obtain q qs where q: "rest = q # qs" by (cases rest) auto
    define r where "r = Join (map part_text rest) '',''"
    have fld: "field_text ps = part_text p @ CHR '','' # r" by (simp add: field_text_def ps q r_def)
    have "\<not> is_step p" using ok by (simp add: field_defs ps q)
    then have "field_text ps \<noteq> ''*'' \<and> \<not> HasPrefix (field_text ps) ''*/''"
    proof (cases p)
      case (CronAt n)
      then have "hd (part_text p) \<noteq> CHR ''*''"
        using hd_in_set [of "Itoa n"] Itoa_no_char [of "CHR ''*''" n]
        by (metis part_text.simps(3) part_text_nonempty star_no_digit)
      then show ?thesis using part_text_nonempty [of p] by (cases "part_text p") (auto simp: fld HasPrefix_def)
    qed (auto simp: fld HasPrefix_def)
    moreover have "StrContains (field_text ps) '',''" by (auto simp: StrContains_sublist fld sublist_def)
    moreover have "TrimSpace (field_text ps) = field_text ps" by (rule TrimSpace_plain_char) (rule field_text_plain)
    moreover have "cron_any (\<lambda>part. matchCronToken part v) (Split1 (CHR '','') (field_text ps)) = Inr (field_matches ps v)"
      using parts Split_field [of ps] cron_any_parts [of ps "\<lambda>part. matchCronToken part v"] by (simp add: ps)
    ultimately show ?thesis by (subst matchCronToken.simps) (simp add: Let_def)
  qed
qed

lemma Atoi_comma: "CHR '','' \<in> set s \<Longrightarrow> Atoi s = None"
proof -
  assume c: "CHR '','' \<in> set s"
  have no: "\<not> is_digit (CHR '','')" by (simp add: is_digit_def less_eq_char_def)
  with c have "parse_uint s = None" by (auto simp: parse_uint_def)
  moreover have "parse_uint r = None" if "s = d # r" "d = CHR ''-'' \<or> d = CHR ''+''" for d r
    using c no that by (auto simp: parse_uint_def)
  ultimately show ?thesis by (auto simp: Atoi_def Let_def split: list.splits)
qed

lemma match_unreadable:
  assumes "field_of_parts ps" and "\<not> readable ps"
  shows "matchCronToken (field_text ps) v = Inl (''invalid cron step: '' @ field_text ps)"
proof -
  obtain n q qs where ps: "ps = CronStep n # q # qs"
    using assms(2) by (cases ps rule: remdups_adj.cases; cases "hd ps") (auto simp: readable_def)
  define r where "r = Join (map part_text (q # qs)) '',''"
  have fld: "field_text ps = ''*/'' @ Itoa n @ CHR '','' # r" by (simp add: field_text_def ps r_def)
  have "TrimSpace (field_text ps) = field_text ps" by (rule TrimSpace_plain_char) (rule field_text_plain)
  moreover have "field_text ps \<noteq> ''*''" "HasPrefix (field_text ps) ''*/''" "TrimPrefix (field_text ps) ''*/'' = Itoa n @ CHR '','' # r"
    by (auto simp: fld HasPrefix_def TrimPrefix_def)
  moreover have "Atoi (Itoa n @ CHR '','' # r) = None" by (rule Atoi_comma) simp
  ultimately show ?thesis by (subst matchCronToken.simps) (simp add: Let_def)
qed

subsection \<open>The fields of an expression\<close>

lemma lead_plain: "plain_char c \<Longrightarrow> lead_len go_spaces (c # s) = 0"
proof (rule ccontr)
  assume c: "plain_char c" and n: "lead_len go_spaces (c # s) \<noteq> 0"
  then obtain p where "p \<in> set go_spaces" "take (lead_len go_spaces (c # s)) (c # s) = p" using lead_len_take by blast
  with c n show False by (cases "lead_len go_spaces (c # s)") (auto simp: plain_char_def)
qed

lemma lead_space: "lead_len go_spaces (CHR '' '' # s) = 1"
  by (simp add: lead_len_def go_spaces_def)

lemma TrimLeft_plain: "list_all plain_char w \<Longrightarrow> w \<noteq> [] \<Longrightarrow> TrimLeftSpace (w @ s) = w @ s"
  by (cases w) (simp_all add: TrimLeftSpace_def strip_lead_id lead_plain)

lemma TrimLeft_space: "TrimLeftSpace (CHR '' '' # s) = TrimLeftSpace s"
  unfolding TrimLeftSpace_def by (subst strip_lead.simps) (simp add: lead_space)

lemma word_len_plain: "list_all plain_char w \<Longrightarrow> word_len w = length w \<and> word_len (w @ CHR '' '' # s) = length w"
  by (induction w) (simp_all add: lead_plain lead_space)

lemma Fields_nil: "Fields [] = []"
proof -
  have "TrimLeftSpace [] = []" unfolding TrimLeftSpace_def by (rule strip_lead_id) (simp add: lead_len_0 lead_len_le [of _ "[]", simplified])
  then show ?thesis by (subst Fields.simps) simp
qed

lemma Fields_word:
  assumes "list_all plain_char w" and "w \<noteq> []"
  shows "Fields w = [w]" and "Fields (w @ CHR '' '' # s) = w # Fields s"
proof -
  show "Fields w = [w]" using assms TrimLeft_plain [of w "[]"] word_len_plain Fields_nil by (subst Fields.simps) (simp add: Let_def)
  have "Fields (CHR '' '' # s) = Fields s" by (subst (1 2) Fields.simps) (simp add: TrimLeft_space)
  then show "Fields (w @ CHR '' '' # s) = w # Fields s"
    using assms TrimLeft_plain word_len_plain by (subst Fields.simps) (simp add: Let_def)
qed

lemma Fields_Join: "list_all (\<lambda>w. list_all plain_char w \<and> w \<noteq> []) ws \<Longrightarrow> Fields (Join ws '' '') = ws"
proof (induction ws "'' '' :: string" rule: Join.induct)
  case 1
  show ?case by (simp add: Fields_nil)
qed (simp_all add: Fields_word)

definition stops_at :: "cron_part list list \<Rightarrow> int list \<Rightarrow> nat \<Rightarrow> bool" where
  \<comment> \<open>the field \<open>i\<close> cannot be read, and all fields before it can be and match\<close>
  "stops_at fs vs i \<longleftrightarrow> i < length fs \<and> \<not> readable (fs ! i) \<and> (\<forall>j < i. readable (fs ! j) \<and> field_matches (fs ! j) (vs ! j))"

lemma stops_at_Cons:
  "stops_at (f # fs) (v # vs) i \<longleftrightarrow>
    (case i of 0 \<Rightarrow> \<not> readable f | Suc k \<Rightarrow> readable f \<and> field_matches f v \<and> stops_at fs vs k)"
  by (cases i) (auto simp: stops_at_def All_less_Suc2)

lemma stops_at_Cons_ex:
  "(\<exists>i. stops_at (f # fs) (v # vs) i \<and> e = g ((f # fs) ! i)) \<longleftrightarrow>
    \<not> readable f \<and> e = g f \<or> readable f \<and> field_matches f v \<and> (\<exists>i. stops_at fs vs i \<and> e = g (fs ! i))"
  (is "?l \<longleftrightarrow> ?r")
proof
  assume ?l
  then obtain i where "stops_at (f # fs) (v # vs) i" "e = g ((f # fs) ! i)" by blast
  then show ?r by (cases i) (auto simp: stops_at_Cons)
next
  assume ?r
  then show ?l
  proof (elim disjE conjE exE)
    fix i assume "readable f" "field_matches f v" "stops_at fs vs i" "e = g (fs ! i)"
    then show ?l by (intro exI [of _ "Suc i"]) (simp add: stops_at_Cons)
  qed (auto intro!: exI [of _ 0] simp: stops_at_Cons)
qed

lemma cron_fields_match:
  assumes "list_all field_of_parts fs" and "length fs = length vs"
  shows "(cron_fields (zip (map field_text fs) vs) = Inr True \<longleftrightarrow> list_all readable fs \<and> list_all2 field_matches fs vs)
    \<and> (cron_fields (zip (map field_text fs) vs) = Inl e \<longleftrightarrow> (\<exists>i. stops_at fs vs i \<and> e = ''invalid cron step: '' @ field_text (fs ! i)))"
  using assms(2,1)
proof (induction fs vs rule: list_induct2)
  case (Cons f fs v vs)
  show ?case
  proof (cases "readable f")
    case True
    then have "matchCronToken (field_text f) v = Inr (field_matches f v)" using Cons.prems by (simp add: match_field field_ok_def)
    then show ?thesis using Cons True stops_at_Cons_ex [of f fs v vs e "\<lambda>f. ''invalid cron step: '' @ field_text f"] by simp
  next
    case False
    then have "matchCronToken (field_text f) v = Inl (''invalid cron step: '' @ field_text f)" using Cons.prems by (simp add: match_unreadable)
    then show ?thesis using False stops_at_Cons_ex [of f fs v vs e "\<lambda>f. ''invalid cron step: '' @ field_text f"] by auto
  qed
qed (simp add: stops_at_def)

lemma cron_text_fields:
  assumes "list_all field_of_parts fs"
  shows "Fields (cron_text fs) = map field_text fs"
  using assms field_text_plain field_text_nonempty
  unfolding cron_text_def by (intro Fields_Join) (auto simp: list_all_iff field_defs)

lemma Fields_TrimSpace_plain:
  assumes "list_all (\<lambda>w. list_all plain_char w \<and> w \<noteq> []) ws"
  shows "TrimSpace (Join ws '' '') = Join ws '' ''"
proof (cases "ws = []")
  case False
  have ends: "plain_char (hd (Join ws '' '')) \<and> plain_char (last (Join ws '' '')) \<and> Join ws '' '' \<noteq> []"
    using assms False by (induction ws "'' '' :: string" rule: Join.induct) (auto simp: list_all_iff)
  then obtain c s where cs: "Join ws '' '' = c # s" by (cases "Join ws '' ''") auto
  obtain d r where dr: "rev (Join ws '' '') = d # r" using ends by (cases "rev (Join ws '' '')") auto
  have d: "plain_char d" using ends dr by (metis hd_rev list.sel(1))
  have "lead_len (map rev go_spaces) (d # r) = 0"
  proof (rule ccontr)
    assume n: "lead_len (map rev go_spaces) (d # r) \<noteq> 0"
    then obtain p where "p \<in> set go_spaces" "take (lead_len (map rev go_spaces) (d # r)) (d # r) = rev p"
      using lead_len_take by fastforce
    moreover obtain k where "lead_len (map rev go_spaces) (d # r) = Suc k" using n by (cases "lead_len (map rev go_spaces) (d # r)") auto
    ultimately have p: "p \<in> set go_spaces" "rev p = d # take k r" by simp_all
    from p(2) have "d \<in> set (rev p)" by simp
    with d p(1) show False by (simp add: plain_char_def)
  qed
  then have "TrimRightSpace (Join ws '' '') = Join ws '' ''" unfolding TrimRightSpace_def dr [symmetric]
    by (subst strip_lead_id) simp_all
  moreover have "TrimLeftSpace (Join ws '' '') = Join ws '' ''" using ends by (simp add: TrimLeftSpace_def cs strip_lead_id lead_plain)
  ultimately show ?thesis by (simp add: TrimSpace_def)
next
  case True
  then show ?thesis using TrimSpace_plain_char [of "[]"] by simp
qed

text \<open>
  C38: A schedule expression runs exactly when it says so. For an expression of five fields, each a list of parts \<open>*\<close>,
  \<open>*/n\<close> with a positive step or a number, \<open>shouldRunCronExpression\<close> answers yes for the printed expression exactly
  when no list of several parts begins with a step and every field has a part that matches the minute, hour, day of the
  month, month and weekday of the local clock. It reports an error exactly when a list of several parts that begins with a
  step is reached because all fields before it match, and names this field; otherwise it answers no.
\<close>

theorem cron_expression_exact:
  assumes "length fs = 5" and "list_all field_of_parts fs"
  shows "(shouldRunCronExpression loc (cron_text fs) now = Inr True
      \<longleftrightarrow> list_all readable fs \<and> list_all2 field_matches fs (cron_values loc now))
    \<and> (shouldRunCronExpression loc (cron_text fs) now = Inl e
      \<longleftrightarrow> (\<exists>i. stops_at fs (cron_values loc now) i \<and> e = ''invalid cron step: '' @ field_text (fs ! i)))"
proof -
  have words: "list_all (\<lambda>w. list_all plain_char w \<and> w \<noteq> []) (map field_text fs)"
    using assms(2) field_text_plain field_text_nonempty by (auto simp: list_all_iff field_defs)
  have "length fs = length (cron_values loc now)" using assms(1) by (simp add: cron_values_def)
  note m = cron_fields_match [OF assms(2) this]
  have "shouldRunCronExpression loc (cron_text fs) now = cron_fields (zip (map field_text fs) (cron_values loc now))"
    using assms(1) Fields_TrimSpace_plain [OF words] cron_text_fields [OF assms(2)]
    by (simp add: shouldRunCronExpression_def cron_text_def Let_def)
  then show ?thesis using m by simp
qed

text \<open>
  Every quarter of an hour at night runs at midnight of the epoch and not at noon; an expression whose minutes are
  \<open>*/15,7\<close> is an error at every time.
\<close>

definition night_quarters :: "cron_part list list" where
  "night_quarters = [[CronStep 15], [CronAt 22, CronAt 23, CronAt 0], [CronEvery], [CronEvery], [CronEvery]]"

definition step_list :: "cron_part list list" where
  "step_list = [[CronStep 15, CronAt 7], [CronEvery], [CronEvery], [CronEvery], [CronEvery]]"

theorem cron_expression_exact_witness:
  "cron_text night_quarters = ''*/15 22,23,0 * * *''
   \<and> shouldRunCronExpression (\<lambda>_. 0) (cron_text night_quarters) 0 = Inr True
   \<and> shouldRunCronExpression (\<lambda>_. 0) (cron_text night_quarters) (12 * 3600 * Second) \<noteq> Inr True
   \<and> shouldRunCronExpression (\<lambda>_. 0) (cron_text step_list) 0 = Inl ''invalid cron step: */15,7''"
proof -
  have ok: "length night_quarters = 5" "list_all field_of_parts night_quarters" "length step_list = 5" "list_all field_of_parts step_list"
    by code_simp+
  have "cron_text night_quarters = ''*/15 22,23,0 * * *''" by code_simp
  moreover have "list_all readable night_quarters \<and> list_all2 field_matches night_quarters (cron_values (\<lambda>_. 0) 0)" by code_simp
  moreover have "\<not> list_all2 field_matches night_quarters (cron_values (\<lambda>_. 0) (12 * 3600 * Second))" by code_simp
  moreover have "\<not> readable (step_list ! 0)" "field_text (step_list ! 0) = ''*/15,7''" by code_simp+
  then have "stops_at step_list (cron_values (\<lambda>_. 0) 0) 0" "''invalid cron step: */15,7'' = ''invalid cron step: '' @ field_text (step_list ! 0)"
    using ok(3) by (simp_all add: stops_at_def)
  then have "\<exists>i. stops_at step_list (cron_values (\<lambda>_. 0) 0) i \<and> ''invalid cron step: */15,7'' = ''invalid cron step: '' @ field_text (step_list ! i)"
    by blast
  ultimately show ?thesis
    using cron_expression_exact [OF ok(1,2), of "\<lambda>_. 0" 0] cron_expression_exact [OF ok(1,2), of "\<lambda>_. 0" "12 * 3600 * Second"]
      cron_expression_exact [OF ok(3,4), of "\<lambda>_. 0" 0 "''invalid cron step: */15,7''"] by simp
qed

end
