(* ===== verification/UploadedFiles.thy ===== *)
theory UploadedFiles
  imports GoPath UsageLogs CheckinRuns
begin

text \<open>
  Uploaded files, \<open>src/model/file.go\<close> and \<open>src/controller/file.go\<close>: the table of files beside the files on the disk.
  An upload brings the parsed form, the fresh identifiers and the printed time; whether a path can be written is an
  argument. Every row has its file on the disk, and a download never leaves the directory of uploads.
\<close>

subsection \<open>State\<close>

record File =
  fl_Id :: int
  fl_Filename :: gostring
  fl_Description :: gostring
  fl_Uploader :: gostring
  fl_UploaderId :: int
  fl_Link :: gostring
  fl_UploadTime :: gostring
  fl_DownloadCounter :: int

record file_world =
  fw_rows :: "File list"
  fw_disk :: files

definition File_Insert :: "File \<Rightarrow> file_world \<Rightarrow> gw_error + file_world" where
  \<comment> \<open>the link has a unique index\<close>
  "File_Insert f w =
    (if fl_Link f \<in> set (map fl_Link (fw_rows w)) then Inl ErrDb
     else Inr (w\<lparr>fw_rows := fw_rows w @ [if fl_Id f = 0 then f\<lparr>fl_Id := next_row_id fl_Id (fw_rows w)\<rparr> else f]\<rparr>))"

definition File_Delete :: "gostring \<Rightarrow> File \<Rightarrow> file_world \<Rightarrow> gostring option \<times> file_world" where
  \<comment> \<open>the error is the one of removing the file\<close>
  "File_Delete uploadPath f w =
    (let p = path_Join [uploadPath, fl_Link f];
         w = w\<lparr>fw_rows := row_delete (\<lambda>r. fl_Id r = fl_Id f) (fw_rows w)\<rparr>
     in if fw_disk w p = None then (Some (''remove '' @ p @ '': no such file or directory''), w)
        else (None, w\<lparr>fw_disk := (fw_disk w)(p := None)\<rparr>))"

definition QueryFiles :: "int \<Rightarrow> int \<Rightarrow> file_world \<Rightarrow> File list \<times> int" where
  "QueryFiles startIdx num w =
    (let startIdx = (if startIdx < 0 then 0 else startIdx); num = (if num \<le> 0 then ItemsPerPage else num)
     in (page_desc fl_Id startIdx num (fw_rows w), int (length (fw_rows w))))"

definition SearchFiles :: "(int \<Rightarrow> gostring \<Rightarrow> bool) \<Rightarrow> gostring \<Rightarrow> file_world \<Rightarrow> File list" where
  \<comment> \<open>the first argument is how the database compares a number with a text\<close>
  "SearchFiles same keyword w =
    filter (\<lambda>f. sql_like (keyword @ ''%'') (fl_Filename f) \<or> sql_like (keyword @ ''%'') (fl_Uploader f) \<or> same (fl_UploaderId f) keyword) (fw_rows w)"

definition UpdateDownloadCounter :: "gostring \<Rightarrow> file_world \<Rightarrow> file_world" where
  "UpdateDownloadCounter link w =
    w\<lparr>fw_rows := row_update (\<lambda>f. fl_Link f = link) (\<lambda>f. f\<lparr>fl_DownloadCounter := fl_DownloadCounter f + 1\<rparr>) (fw_rows w)\<rparr>"

subsection \<open>Handlers\<close>

definition GetAllFiles_handler :: "gostring option \<Rightarrow> gostring option \<Rightarrow> file_world \<Rightarrow> File paginated" where
  "GetAllFiles_handler qp qsize w =
    (let pagination = parsePaginationParams qp qsize; (files, tot) = QueryFiles (pg_Offset pagination) (pg_PageSize pagination) w
     in buildPaginatedData files pagination tot)"

record upload =
  up_Filename :: gostring
  up_Content :: gostring
  up_UUID :: gostring

definition GetUUID :: "gostring \<Rightarrow> gostring" where
  \<comment> \<open>of a printed UUID\<close>
  "GetUUID uuid = ReplaceChar (CHR ''-'') [] uuid"

record upload_env =
  ue_uploadPath :: gostring
  ue_write :: "gostring \<Rightarrow> gostring option"
  ue_username :: gostring
  ue_id :: int
  ue_now :: gostring

definition upload_link :: "upload \<Rightarrow> gostring" where
  "upload_link f = GetUUID (up_UUID f) @ path_Ext (path_Base (up_Filename f))"

definition new_file :: "upload_env \<Rightarrow> gostring \<Rightarrow> upload \<Rightarrow> File" where
  "new_file env description f =
    \<lparr>fl_Id = 0, fl_Filename = path_Base (up_Filename f),
     fl_Description = (if description = [] then utf8 [0x65e0, 0x63cf, 0x8ff0, 0x4fe1, 0x606f] else description),
     fl_Uploader = (if ue_username env = [] then utf8 [0x8bbf, 0x5ba2, 0x7528, 0x6237] else ue_username env), fl_UploaderId = ue_id env,
     fl_Link = upload_link f, fl_UploadTime = ue_now env, fl_DownloadCounter = 0\<rparr>"

fun save_uploads :: "upload_env \<Rightarrow> gostring \<Rightarrow> upload list \<Rightarrow> file_world \<Rightarrow> gostring option \<times> file_world" where
  \<comment> \<open>a row that cannot be inserted is passed over, a file that cannot be written ends the loop\<close>
  "save_uploads env description [] w = (None, w)"
| "save_uploads env description (f # fs) w =
    (let savePath = path_Join [ue_uploadPath env, upload_link f] in
     case ue_write env savePath of
       Some e \<Rightarrow> (Some e, w)
     | None \<Rightarrow>
         let w = w\<lparr>fw_disk := (fw_disk w)(savePath \<mapsto> up_Content f)\<rparr> in
         save_uploads env description fs (case File_Insert (new_file env description f) w of Inl e \<Rightarrow> w | Inr w \<Rightarrow> w))"

definition UploadFile :: "upload_env \<Rightarrow> gostring + gostring \<times> upload list \<Rightarrow> file_world \<Rightarrow> gostring option \<times> file_world" where
  \<comment> \<open>the second argument is the multipart form: its error, or its description and its files\<close>
  "UploadFile env form w = (case form of Inl e \<Rightarrow> (Some e, w) | Inr (description, fs) \<Rightarrow> save_uploads env description fs w)"

definition DeleteFile :: "gostring \<Rightarrow> gostring \<Rightarrow> file_world \<Rightarrow> (gw_error + gostring option) \<times> file_world" where
  \<comment> \<open>the answer is a success even when the file could not be removed\<close>
  "DeleteFile uploadPath param w =
    (case Atoi param of
       None \<Rightarrow> (Inl (ErrOther ''invalid parameters''), w)
     | Some fileId \<Rightarrow>
         if fileId = 0 then (Inl (ErrOther ''invalid parameters''), w)
         else case find (\<lambda>f. fl_Id f = fileId) (fw_rows w) of
           None \<Rightarrow> (Inl (ErrOther ''no such file''), w)
         | Some f \<Rightarrow> (if fl_Link f = [] then (Inl (ErrOther ''no such file''), w)
                    else case File_Delete uploadPath f w of (e, w) \<Rightarrow> (Inr e, w)))"

datatype download = Forbidden | Served gostring

definition DownloadFile :: "gostring \<Rightarrow> gostring \<Rightarrow> file_world \<Rightarrow> download \<times> file_world" where
  "DownloadFile uploadPath path w =
    (let fullPath = path_Join [uploadPath, path] in
     if \<not> HasPrefix fullPath uploadPath then (Forbidden, w) else (Served fullPath, UpdateDownloadCounter path w))"

subsection \<open>Downloads\<close>

lemma HasPrefix_length: "HasPrefix s p \<Longrightarrow> length p \<le> length s"
  by (auto simp: HasPrefix_def dest: prefix_length_le)

lemma fold_clean_push_slash_free:
  "\<forall>c \<in> set cs. CHR ''/'' \<notin> set c \<Longrightarrow> \<forall>e \<in> set st. CHR ''/'' \<notin> set e \<Longrightarrow> e \<in> set (fold (clean_push rooted) cs st) \<Longrightarrow> CHR ''/'' \<notin> set e"
proof (induction cs arbitrary: st)
  case (Cons c cs)
  have "\<forall>e \<in> set (clean_push rooted c st). CHR ''/'' \<notin> set e"
    using Cons.prems(1,2) by (auto dest: clean_push_slash_free [rotated 2])
  with Cons show ?case by simp
qed simp

lemma path_Join_up:
  assumes "cleaned d" and "last (Split1 (CHR ''/'') d) \<noteq> ''..''"
  shows "\<not> HasPrefix (path_Join [d, ''..'']) d"
proof -
  let ?root = "HasPrefix d ''/''"
  let ?st = "fold (clean_push ?root) (Split1 (CHR ''/'') d) []"
  have d: "d \<noteq> []" "d \<noteq> ''/''" "d \<noteq> ''.''" "path_Clean d = d" using assms(1) by (simp_all add: cleaned_def)
  have st: "?st \<noteq> []" using d unfolding path_Clean_def by (auto split: if_splits)
  then obtain t r where tr: "?st = t # r" by (cases ?st) auto
  have plain: "\<forall>w \<in> set (rev ?st). CHR ''/'' \<notin> set w"
    using fold_clean_push_slash_free [of "Split1 (CHR ''/'') d" "[]"] Split1_no_sep by fastforce
  have full: "\<forall>w \<in> set (rev ?st). w \<noteq> []" using fold_clean_push_nonempty [of "[]"] by auto
  have join: "Join (rev ?st) ''/'' \<noteq> []" using full st by (subst Join_Nil_iff) auto
  have eq: "d = (if ?root then CHR ''/'' # Join (rev ?st) ''/'' else Join (rev ?st) ''/'')"
    using d(4) join unfolding path_Clean_def by (simp add: Let_def split: if_splits)
  have sp: "Split1 (CHR ''/'') (Join (rev ?st) ''/'') = rev ?st" using plain st by (intro Split1_Join) auto
  define L where "L = rev ?st"
  have sL: "Split1 (CHR ''/'') (Join L ''/'') = L" "L \<noteq> []" unfolding L_def by (rule sp) (use st in simp)
  have "Split1 (CHR ''/'') (CHR ''/'' # Join L ''/'') = [] # L" using sL by simp
  then have "last (Split1 (CHR ''/'') (if ?root then CHR ''/'' # Join L ''/'' else Join L ''/'')) = last L"
    using sL by simp
  from trans [OF arg_cong [OF eq [folded L_def], of "\<lambda>x. last (Split1 (CHR ''/'') x)"] this]
  have "last (Split1 (CHR ''/'') d) = last (rev ?st)" unfolding L_def .
  then have t: "t \<noteq> ''..''" using assms(2) by (simp add: tr)
  have pre: "HasPrefix (d @ CHR ''/'' # ''..'') ''/'' = ?root" using d(1) by (cases d) (simp_all add: HasPrefix_def)
  have up: "fold (clean_push ?root) (Split1 (CHR ''/'') (d @ CHR ''/'' # ''..'')) [] = r"
    using tr t by (simp add: Split1_snoc clean_push_def)
  have clean: "path_Join [d, ''..''] = (let body = Join (rev r) ''/'' in if ?root then CHR ''/'' # body else if body = [] then ''.'' else body)"
  proof -
    have "path_Join [d, ''..''] = path_Clean (d @ CHR ''/'' # ''..'')" using d(1) by (simp add: path_Join_def)
    also have "\<dots> = (let body = Join (rev r) ''/'' in if ?root then CHR ''/'' # body else if body = [] then ''.'' else body)"
      unfolding path_Clean_def pre up Let_def by (rule refl)
    finally show ?thesis .
  qed
  have longer: "length (Join (rev r) ''/'') < length (Join (rev ?st) ''/'')"
    using full by (cases "r = []") (simp_all add: tr Join_snoc)
  show ?thesis
  proof
    assume p: "HasPrefix (path_Join [d, ''..'']) d"
    have "length d = (if ?root then Suc (length (Join (rev ?st) ''/'')) else length (Join (rev ?st) ''/''))"
      using arg_cong [OF eq, of length] by (simp only: if_distrib length_Cons)
    with HasPrefix_length [OF p] longer have "\<not> ?root" "Join (rev r) ''/'' = []"
      by (auto simp: clean Let_def split: if_splits)
    then have "HasPrefix ''.'' d" using p by (simp add: clean)
    then have "d = [] \<or> d = ''.''" by (auto simp: HasPrefix_def prefix_Cons)
    with d show False by simp
  qed
qed

text \<open>
  A download serves the directory of uploads or a file directly in it, and nothing else; a refused one changes nothing. The
  directory has to be a clean path, and the parameter is one segment of a path, as the route has it.
\<close>

theorem download_stays_in_upload:
  assumes "cleaned uploadPath" and "last (Split1 (CHR ''/'') uploadPath) \<noteq> ''..''" and "CHR ''/'' \<notin> set segment"
  shows "case DownloadFile uploadPath segment w of
      (Forbidden, w') \<Rightarrow> w' = w \<and> segment = ''..''
    | (Served p, w') \<Rightarrow> (p = uploadPath \<or> path_element segment \<and> p = uploadPath @ ''/'' @ segment) \<and> fw_disk w' = fw_disk w"
proof -
  have d: "uploadPath \<noteq> []" "path_Clean uploadPath = uploadPath" using assms(1) by (simp_all add: cleaned_def)
  have dot: "path_Clean (uploadPath @ ''/.'') = path_Clean uploadPath"
  proof -
    have "HasPrefix (uploadPath @ ''/.'') ''/'' = HasPrefix uploadPath ''/''" using d(1) by (cases uploadPath) (simp_all add: HasPrefix_def)
    then show ?thesis by (simp add: path_Clean_def Let_def Split1_snoc clean_push_def)
  qed
  show ?thesis
  proof (cases "segment = [] \<or> segment = ''.''")
    case True
    then have "path_Join [uploadPath, segment] = uploadPath" using d dot by (auto simp: path_Join_def)
    then show ?thesis by (simp add: DownloadFile_def HasPrefix_def UpdateDownloadCounter_def)
  next
    case False
    show ?thesis
    proof (cases "segment = ''..''")
      case True
      with path_Join_up [OF assms(1,2)] show ?thesis by (simp add: DownloadFile_def)
    next
      case no: False
      with False assms(3) have n: "path_element segment" by (simp add: path_element_def)
      then show ?thesis using path_Join_plain [OF assms(1) n] by (simp add: DownloadFile_def HasPrefix_def UpdateDownloadCounter_def)
    qed
  qed
qed

text \<open>With a path that is not clean, such as \<open>./upload\<close>, every download is refused, because the joined path is clean.\<close>

lemma unclean_directory_refuses_all: "fst (DownloadFile ''./upload'' ''a.png'' w) = Forbidden"
proof -
  have "\<not> HasPrefix (path_Join [''./upload'', ''a.png'']) ''./upload''" by code_simp
  then show ?thesis by (simp add: DownloadFile_def)
qed

subsection \<open>Rows and files\<close>

definition stored_at :: "gostring \<Rightarrow> File \<Rightarrow> gostring" where
  "stored_at uploadPath f = path_Join [uploadPath, fl_Link f]"

definition files_ok :: "gostring \<Rightarrow> file_world \<Rightarrow> bool" where
  \<comment> \<open>links are names of files, each used once, and every row has its file\<close>
  "files_ok uploadPath w \<longleftrightarrow> distinct (map fl_Link (fw_rows w)) \<and> distinct (map fl_Id (fw_rows w))
    \<and> list_all (\<lambda>f. path_element (fl_Link f) \<and> fw_disk w (stored_at uploadPath f) \<noteq> None) (fw_rows w)"

inductive file_reach :: "gostring \<Rightarrow> file_world \<Rightarrow> bool" for uploadPath where
  fr_start: "fw_rows w = [] \<Longrightarrow> file_reach uploadPath w"
| fr_upload: "file_reach uploadPath w \<Longrightarrow> ue_uploadPath env = uploadPath \<Longrightarrow>
    (case form of Inl e \<Rightarrow> True | Inr (description, fs) \<Rightarrow> list_all (\<lambda>f. path_element (upload_link f)) fs) \<Longrightarrow>
    file_reach uploadPath (snd (UploadFile env form w))"
| fr_delete: "file_reach uploadPath w \<Longrightarrow> file_reach uploadPath (snd (DeleteFile uploadPath param w))"
| fr_download: "file_reach uploadPath w \<Longrightarrow> file_reach uploadPath (snd (DownloadFile uploadPath segment w))"

lemma insert_ok:
  assumes "files_ok u w" and "path_element (fl_Link f)" and "fl_Id f = 0" and "fw_disk w (stored_at u f) \<noteq> None" and "File_Insert f w = Inr w'"
  shows "files_ok u w'"
proof -
  have "next_row_id fl_Id (fw_rows w) \<notin> fl_Id ` set (fw_rows w)"
    using next_row_id_fresh [of _ "fw_rows w" fl_Id] by fastforce
  with assms show ?thesis
    by (auto simp: files_ok_def File_Insert_def stored_at_def list_all_iff split: if_splits)
qed

lemma save_uploads_ok:
  "files_ok (ue_uploadPath env) w \<Longrightarrow> list_all (\<lambda>f. path_element (upload_link f)) fs \<Longrightarrow>
   files_ok (ue_uploadPath env) (snd (save_uploads env description fs w))"
proof (induction fs arbitrary: w)
  case (Cons f fs)
  let ?p = "path_Join [ue_uploadPath env, upload_link f]" and ?f = "new_file env description f"
  let ?w = "w\<lparr>fw_disk := (fw_disk w)(?p \<mapsto> up_Content f)\<rparr>"
  have ok: "files_ok (ue_uploadPath env) ?w" using Cons.prems(1) by (auto simp: files_ok_def list_all_iff)
  have new: "path_element (fl_Link ?f)" "fl_Id ?f = 0" "fw_disk ?w (stored_at (ue_uploadPath env) ?f) \<noteq> None"
    using Cons.prems(2) by (simp_all add: new_file_def stored_at_def)
  have "files_ok (ue_uploadPath env) (case File_Insert ?f ?w of Inl e \<Rightarrow> ?w | Inr w' \<Rightarrow> w')"
    using ok insert_ok [OF ok new] by (cases "File_Insert ?f ?w") auto
  with Cons show ?case by (simp add: Let_def split: option.split)
qed simp

lemma delete_ok:
  assumes "files_ok u w" and "cleaned u"
  shows "files_ok u (snd (DeleteFile u param w))"
proof (cases "snd (DeleteFile u param w) = w")
  case True
  with assms show ?thesis by simp
next
  case False
  then obtain i f where f: "find (\<lambda>f. fl_Id f = i) (fw_rows w) = Some f" "snd (DeleteFile u param w) = snd (File_Delete u f w)"
    by (auto simp: DeleteFile_def split: option.splits if_splits prod.splits)
  have fin: "f \<in> set (fw_rows w)" using f(1) by (auto simp: find_Some_iff)
  have other: "fw_disk w (stored_at u g) \<noteq> None \<and> stored_at u g \<noteq> stored_at u f" if g: "g \<in> set (fw_rows w)" "fl_Id g \<noteq> fl_Id f" for g
  proof -
    have "fl_Link g \<noteq> fl_Link f" using assms(1) g fin by (auto simp: files_ok_def distinct_map dest: inj_onD)
    moreover have "path_element (fl_Link g)" "path_element (fl_Link f)" "fw_disk w (stored_at u g) \<noteq> None"
      using assms(1) g fin by (auto simp: files_ok_def list_all_iff)
    ultimately show ?thesis using path_Join_plain [OF assms(2)] by (simp add: stored_at_def)
  qed
  have "distinct (map fl_Link (row_delete (\<lambda>r. fl_Id r = fl_Id f) (fw_rows w)))" "distinct (map fl_Id (row_delete (\<lambda>r. fl_Id r = fl_Id f) (fw_rows w)))"
    using assms(1) by (auto simp: files_ok_def row_delete_def distinct_map_filter)
  then show ?thesis
    using assms(1) other unfolding f(2) by (auto simp: files_ok_def File_Delete_def stored_at_def Let_def list_all_iff)
qed

text \<open>
  However uploads, deletions and downloads follow each other, every row of the table has its file on the disk, and no two
  rows share a file.
\<close>

theorem rows_have_files:
  assumes "file_reach u w" and "cleaned u"
  shows "list_all (\<lambda>f. fw_disk w (u @ ''/'' @ fl_Link f) \<noteq> None) (fw_rows w) \<and> distinct (map fl_Link (fw_rows w))"
proof -
  from assms(1) have "files_ok u w"
  proof induction
    case (fr_upload w env form)
    then show ?case by (auto simp: UploadFile_def save_uploads_ok split: sum.splits prod.splits)
  next
    case (fr_delete w param)
    then show ?case using delete_ok [OF _ assms(2)] by simp
  next
    case (fr_download w segment)
    have "fl_Link \<circ> (\<lambda>r :: File. if P r then r\<lparr>fl_DownloadCounter := fl_DownloadCounter r + 1\<rparr> else r) = fl_Link"
      "fl_Id \<circ> (\<lambda>r :: File. if P r then r\<lparr>fl_DownloadCounter := fl_DownloadCounter r + 1\<rparr> else r) = fl_Id" for P by auto
    with fr_download show ?case
      by (auto simp: DownloadFile_def UpdateDownloadCounter_def files_ok_def list_all_iff stored_at_def row_update_def Let_def)
  qed (simp add: files_ok_def)
  then show ?thesis using path_Join_plain [OF assms(2)] by (auto simp: files_ok_def stored_at_def list_all_iff)
qed

end
