(* ===== verification/Startup.thy ===== *)
theory Startup
  imports BackupConfig Users Proxy
begin

text \<open>
  How the program starts on its database, \<open>src/model/main.go\<close>, and the check of the usage log before the relay starts,
  \<open>src/model/relay_reliability.go\<close>. Opening the database, migrating a table and the index operations are arguments that
  give their errors.
\<close>

subsection \<open>The driver\<close>

definition normalizeSQLDriver :: "gostring \<Rightarrow> gostring" where
  "normalizeSQLDriver driver =
    (let s = TrimSpace (ToLower driver) in
     if s = ''mysql'' then ''mysql''
     else if s = ''postgres'' \<or> s = ''postgresql'' then ''postgres''
     else if s = ''sqlite'' \<or> s = ''sqlite3'' then ''sqlite''
     else [])"

definition detectSQLDriver :: "gostring \<Rightarrow> gostring" where
  "detectSQLDriver dsn =
    (let dsnLower = ToLower (TrimSpace dsn) in
     if HasPrefix dsnLower ''postgres://'' \<or> HasPrefix dsnLower ''postgresql://'' then ''postgres''
     else if StrContains dsnLower ''dbname='' \<and> StrContains dsnLower ''user='' then ''postgres''
     else ''mysql'')"

definition database_choice :: "gostring \<Rightarrow> gostring \<Rightarrow> gostring \<Rightarrow> gostring + gostring \<times> gostring" where
  \<comment> \<open>the first half of \<open>InitDB\<close>: the driver and what it opens\<close>
  "database_choice sqlitePath envDriver envDSN =
    (let dsn = TrimSpace envDSN; configuredDriver = normalizeSQLDriver envDriver in
     if envDriver \<noteq> [] \<and> configuredDriver = [] then Inl (''unsupported SQL_DRIVER: '' @ envDriver @ '' (supported: mysql, postgres, sqlite)'')
     else
       let driver = (if configuredDriver = [] then if dsn = [] then ''sqlite'' else detectSQLDriver dsn else configuredDriver) in
       if driver = ''mysql'' then (if dsn = [] then Inl ''SQL_DSN is required when SQL_DRIVER=mysql'' else Inr (''mysql'', dsn))
       else if driver = ''postgres'' then (if dsn = [] then Inl ''SQL_DSN is required when SQL_DRIVER=postgres'' else Inr (''postgres'', dsn))
       else if driver = ''sqlite'' then Inr (''sqlite'', if dsn \<noteq> [] then dsn else sqlitePath)
       else Inl (''unsupported SQL driver: '' @ driver))"

subsection \<open>Opening the database\<close>

record startup_env =
  su_sqlite_path :: gostring
  su_env_driver :: gostring
  su_env_dsn :: gostring
  su_open :: "gostring \<Rightarrow> gostring \<Rightarrow> gostring option"
  su_migrate :: "gostring \<Rightarrow> gostring option"
  su_has_index :: "gostring \<Rightarrow> bool"
  su_create_index :: "gostring \<Rightarrow> gostring option"
  su_has_column :: "gostring \<Rightarrow> bool"
  su_crypto :: crypto

datatype startup_error = Exits gostring | Returns gostring | RootFails gw_error

fun first_error :: "('a \<Rightarrow> gostring option) \<Rightarrow> 'a list \<Rightarrow> gostring option" where
  "first_error f [] = None"
| "first_error f (x # xs) = (case f x of Some e \<Rightarrow> Some e | None \<Rightarrow> first_error f xs)"

definition usage_log_indexes :: "gostring list" where
  "usage_log_indexes = [''idx_usage_logs_relay_attempt'', ''idx_usage_logs_route_window'', ''idx_usage_logs_invalid_window'']"

definition ensureUsageLogObservabilityIndexes :: "startup_env \<Rightarrow> gostring option" where
  "ensureUsageLogObservabilityIndexes env =
    first_error (\<lambda>i. if su_has_index env i then None
      else case su_create_index env i of None \<Rightarrow> None | Some e \<Rightarrow> Some (''create index '' @ i @ '' failed: '' @ e)) usage_log_indexes"

definition InitDB :: "startup_env \<Rightarrow> int \<Rightarrow> db \<Rightarrow> startup_error option \<times> db" where
  \<comment> \<open>\<open>nid\<close> is the identifier of a new account\<close>
  "InitDB env nid d =
    (case database_choice (su_sqlite_path env) (su_env_driver env) (su_env_dsn env) of
       Inl e \<Rightarrow> (Some (Returns e), d)
     | Inr (driver, dsn) \<Rightarrow>
         (case su_open env driver dsn of
            Some e \<Rightarrow> (Some (Exits e), d)
          | None \<Rightarrow>
              (case first_error (su_migrate env) [''users'', ''options'', ''providers'', ''provider_tokens''] of
                 Some e \<Rightarrow> (Some (Returns e), d)
               | None \<Rightarrow>
                   let d = BackfillProviderTokenKeyState d in
                   (case first_error (su_migrate env) [''aggregated_tokens'', ''model_routes'', ''model_pricings'', ''usage_logs''] of
                      Some e \<Rightarrow> (Some (Returns e), d)
                    | None \<Rightarrow>
                        (case ensureUsageLogObservabilityIndexes env of
                           Some e \<Rightarrow> (Some (Returns e), d)
                         | None \<Rightarrow>
                             (case first_error (su_migrate env) [''checkin_runs'', ''checkin_run_items'', ''notification_alert_states'', ''backup_runs'',
                                  ''backup_upload_retries''] of
                                Some e \<Rightarrow> (Some (Returns e), d)
                              | None \<Rightarrow>
                                  (case createRootAccountIfNeed (su_crypto env) nid d of
                                     Inl e \<Rightarrow> (Some (RootFails e), d)
                                   | Inr d \<Rightarrow> (None, d))))))))"

subsection \<open>The check before the relay starts\<close>

definition required_columns :: "gostring list" where
  "required_columns = [''relay_request_id'', ''attempt_index'', ''usage_source'', ''usage_parser'', ''failure_category'', ''invalid_reason'',
     ''transport_status_code'', ''request_model_original'', ''request_model_canonical'', ''request_model_resolved'']"

definition RunRelayReliabilityStartupPreflight :: "startup_env \<Rightarrow> options \<Rightarrow> gostring option" where
  \<comment> \<open>a missing index is only logged\<close>
  "RunRelayReliabilityStartupPreflight env m =
    (let suppressionEnabled = parseOptionBool (mget_default [] m ''RoutingInvalidResponseSuppressionEnabled'') False in
     if GetRelayResponseValidityMode m \<noteq> ''off'' \<or> suppressionEnabled then
       first_error (\<lambda>c. if su_has_column env c then None
         else Some (''relay reliability preflight failed: usage_logs.'' @ c @ '' missing while reliability flags are enabled'')) required_columns
     else None)"

definition ShouldValidateRelayResponse :: "options \<Rightarrow> bool" where
  "ShouldValidateRelayResponse m \<longleftrightarrow> GetRelayResponseValidityMode m \<noteq> ''off''"

definition ShouldEnforceRelayResponse :: "options \<Rightarrow> bool" where
  "ShouldEnforceRelayResponse m \<longleftrightarrow> GetRelayResponseValidityMode m = ''enforce''"

definition IsRelayResponseValidityGuardEnabled :: "options \<Rightarrow> bool" where
  "IsRelayResponseValidityGuardEnabled m \<longleftrightarrow> ShouldEnforceRelayResponse m"

subsection \<open>Routes of the relay\<close>

datatype relay_endpoint = RelayHandler | ListModelsHandler | GetModelHandler | SubscriptionHandler | UsageHandler

definition relay_routes :: "(gostring \<times> gostring \<times> relay_endpoint) list" where
  \<comment> \<open>every one of them behind \<open>AggTokenAuth\<close>\<close>
  "relay_routes =
    map (\<lambda>p. (''POST'', p, RelayHandler))
      [''/v1/chat/completions'', ''/v1/completions'', ''/v1/embeddings'', ''/v1/images/generations'', ''/v1/audio/speech'',
       ''/v1/audio/transcriptions'', ''/v1/moderations'', ''/v1/rerank'', ''/v1/video/generations'', ''/v1/responses'', ''/v1/messages'',
       ''/v1beta/models/*path'']
    @ [(''GET'', ''/v1/models'', ListModelsHandler), (''GET'', ''/v1/models/:model'', GetModelHandler),
       (''GET'', ''/dashboard/billing/subscription'', SubscriptionHandler), (''GET'', ''/dashboard/billing/usage'', UsageHandler)]"

subsection \<open>Trimming and case\<close>

definition letter :: "char \<Rightarrow> bool" where
  "letter c \<longleftrightarrow> (CHR ''a'' \<le> c \<and> c \<le> CHR ''z'') \<or> (CHR ''A'' \<le> c \<and> c \<le> CHR ''Z'')"

lemma lower_char_upper:
  assumes "CHR ''A'' \<le> d \<and> d \<le> CHR ''Z''"
  shows "letter (lower_char d)"
proof -
  define n where "n = (of_char d :: nat)"
  have n: "65 \<le> n" "n \<le> 90" using assms by (simp_all add: n_def less_eq_char_def)
  have "of_char (lower_char d) = (n + 32 :: nat)" using n assms by (simp add: lower_char_def n_def of_char_of)
  then show ?thesis using n by (simp add: letter_def less_eq_char_def)
qed

lemma lower_char_fixed:
  assumes "\<not> letter c"
  shows "lower_char d = c \<longleftrightarrow> d = c"
proof (cases "CHR ''A'' \<le> d \<and> d \<le> CHR ''Z''")
  case True
  then have "letter d" by (simp add: letter_def)
  with lower_char_upper [OF True] assms show ?thesis by auto
next
  case False
  show ?thesis unfolding lower_char_def if_not_P [OF False] ..
qed

definition caseless :: "string list \<Rightarrow> bool" where
  "caseless ps \<longleftrightarrow> list_all (list_all (\<lambda>c. \<not> letter c)) ps"

lemma prefix_lower: "list_all (\<lambda>c. \<not> letter c) p \<Longrightarrow> prefix p (ToLower s) \<longleftrightarrow> prefix p s"
proof (induction p arbitrary: s)
  case (Cons c p)
  show ?case
  proof (cases s)
    case (Cons d r)
    with Cons.IH [of r] Cons.prems lower_char_fixed [of c d] show ?thesis by (auto simp: ToLower_def)
  qed (simp add: ToLower_def)
qed simp

lemma lead_len_lower: "caseless ps \<Longrightarrow> lead_len ps (ToLower s) = lead_len ps s"
proof -
  assume "caseless ps"
  then have "find (\<lambda>p. prefix p (ToLower s)) ps = find (\<lambda>p. prefix p s) ps"
    by (intro find_cong refl) (auto simp: caseless_def list_all_iff prefix_lower)
  then show ?thesis by (simp add: lead_len_def)
qed

lemma strip_lead_lower: "caseless ps \<Longrightarrow> strip_lead ps (ToLower s) = ToLower (strip_lead ps s)"
proof (induction ps s rule: strip_lead.induct)
  case (1 ps s)
  have "drop n (ToLower s) = ToLower (drop n s)" for n by (simp add: ToLower_def drop_map)
  with 1 show ?case by (subst (1 2) strip_lead.simps) (simp add: lead_len_lower Let_def)
qed

lemma TrimSpace_ToLower: "TrimSpace (ToLower s) = ToLower (TrimSpace s)"
proof -
  have c: "caseless go_spaces" "caseless (map rev go_spaces)" by code_simp+
  have r: "rev (ToLower t) = ToLower (rev t)" for t by (simp add: ToLower_def rev_map)
  show ?thesis by (simp add: TrimSpace_def TrimLeftSpace_def TrimRightSpace_def strip_lead_lower c r)
qed

text \<open>
  The backup and the restore work on the database that the program has opened: whenever \<open>InitDB\<close> settles on a driver and
  an address, the settings of the backup name the same ones.
\<close>

theorem backup_uses_opened_database:
  assumes "database_choice sqlitePath envDriver envDSN = Inr (driver, dsn)"
  shows "getActiveSQLDriverAndDSN sqlitePath envDriver envDSN = Inr (driver, dsn)"
proof -
  define s where "s = ToLower (TrimSpace envDriver)"
  have n: "normalizeSQLDriver envDriver = (if s = ''mysql'' then ''mysql'' else if s = ''postgres'' \<or> s = ''postgresql'' then ''postgres''
      else if s = ''sqlite'' \<or> s = ''sqlite3'' then ''sqlite'' else [])"
    by (simp add: normalizeSQLDriver_def TrimSpace_ToLower s_def Let_def)
  have nil: "s = []" if "envDriver = []"
  proof -
    have "TrimSpace [] = []" by code_simp
    with that show ?thesis by (simp add: s_def ToLower_def)
  qed
  have detect: "detectSQLDriver (TrimSpace envDSN) = (if HasPrefix (ToLower (TrimSpace envDSN)) ''postgres://'' \<or> HasPrefix (ToLower (TrimSpace envDSN)) ''postgresql://''
      \<or> (StrContains (ToLower (TrimSpace envDSN)) ''dbname='' \<and> StrContains (ToLower (TrimSpace envDSN)) ''user='') then ''postgres'' else ''mysql'')"
    by (simp add: detectSQLDriver_def Let_def)
  have ds: "getActiveSQLDriverAndDSN sqlitePath envDriver envDSN = (let dsn = TrimSpace envDSN in
     if s = ''mysql'' then (if dsn = [] then Inl ''SQL_DSN is required when SQL_DRIVER=mysql'' else Inr (''mysql'', dsn))
     else if s = ''postgres'' \<or> s = ''postgresql'' then (if dsn = [] then Inl ''SQL_DSN is required when SQL_DRIVER=postgres'' else Inr (''postgres'', dsn))
     else if s = ''sqlite'' \<or> s = ''sqlite3'' then Inr (''sqlite'', if dsn = [] then sqlitePath else dsn)
     else if s = [] then (if dsn = [] then Inr (''sqlite'', sqlitePath) else Inr (detectSQLDriver dsn, dsn))
     else Inl (''unsupported SQL_DRIVER: '' @ s))"
    by (simp add: getActiveSQLDriverAndDSN_def detect s_def Let_def)
  consider "s = ''mysql''" | "s = ''postgres'' \<or> s = ''postgresql''" | "s = ''sqlite'' \<or> s = ''sqlite3''"
    | "s \<noteq> ''mysql''" "s \<noteq> ''postgres''" "s \<noteq> ''postgresql''" "s \<noteq> ''sqlite''" "s \<noteq> ''sqlite3''" by blast
  then show ?thesis
  proof cases
    case 4
    then have "normalizeSQLDriver envDriver = []" by (simp add: n)
    with assms have e: "envDriver = []" by (auto simp: database_choice_def Let_def split: if_splits)
    have range: "detectSQLDriver (TrimSpace envDSN) = ''mysql'' \<or> detectSQLDriver (TrimSpace envDSN) = ''postgres''"
      by (simp add: detectSQLDriver_def Let_def)
    show ?thesis using assms nil [OF e] \<open>normalizeSQLDriver envDriver = []\<close> range unfolding ds
      by (auto simp: database_choice_def Let_def split: if_splits)
  qed (use assms n in \<open>auto simp: ds database_choice_def Let_def split: if_splits\<close>)
qed

text \<open>
  After a start that succeeds there is an account, every account there was is kept, and the key columns of every token
  agree with its key.
\<close>

theorem start_leaves_accounts_and_keys:
  assumes "InitDB env nid d = (None, d')" and "distinct (map pt_Id (db_tokens d))"
  shows "db_users d' \<noteq> [] \<and> set (db_users d) \<subseteq> set (db_users d') \<and> db_tokens d' = map with_key_state (db_tokens d)"
proof -
  from assms(1) have root: "createRootAccountIfNeed (su_crypto env) nid (BackfillProviderTokenKeyState d) = Inr d'"
    by (auto simp: InitDB_def Let_def split: sum.splits option.splits prod.splits)
  have users: "db_users (backfill_loop xs e) = db_users e" for xs e
    by (induction xs arbitrary: e) (auto simp: Let_def split: prod.split)
  have u: "db_users (BackfillProviderTokenKeyState d) = db_users d" by (simp add: BackfillProviderTokenKeyState_def users)
  have t: "db_tokens d' = db_tokens (BackfillProviderTokenKeyState d)"
    using root by (auto simp: createRootAccountIfNeed_def create_user_def Let_def split: option.splits sum.splits if_splits)
  have "db_users d' \<noteq> [] \<and> set (db_users d) \<subseteq> set (db_users d')"
  proof (cases "db_users d = []")
    case True
    then have "first_user (\<lambda>_. True) (BackfillProviderTokenKeyState d) = None" by (simp add: first_user_def u)
    with True root show ?thesis
      by (auto simp: createRootAccountIfNeed_def create_user_def Let_def u split: sum.splits if_splits)
  next
    case False
    then have "sort_key u_Id (db_users d) \<noteq> []" by (metis length_0_conv length_sort)
    then have "first_user (\<lambda>_. True) (BackfillProviderTokenKeyState d) \<noteq> None" by (auto simp: first_user_def u split: list.split)
    with False root show ?thesis by (auto simp: createRootAccountIfNeed_def u)
  qed
  then show ?thesis using t backfill_all_ok [OF assms(2)] by simp
qed

end
