(* ===== verification/Spec2Isabelle.thy ===== *)
theory Spec2Isabelle
  imports Relay RateLimit UsageLogs SyncCorrect AccountSite AlertEpisodes ProviderAdminCorrect RestoreCorrect BackupSchedule UploadedFiles Startup
begin

text \<open>
  \<^bold>\<open>The program.\<close> NewAPI-Gateway sits between clients that speak the API of a model vendor and any number of upstream gateways
  (\<open>providers\<close>) that resell such models. Clients authenticate with an \<open>aggregated token\<close>; a request names a model, the gateway looks
  up which tokens of which providers serve it, orders them by priority and a weighted draw, and tries one after the other until an upstream
  gives a valid answer. Around this relay stand the synchronisation of tokens, prices and balances from the upstreams, daily
  check-ins there, a usage log with its summaries, accounts with sessions and roles, options, notifications and backups. The Go code
  lives in \<open>src/common\<close>, \<open>src/model\<close> (tables and queries), \<open>src/service\<close> (upstreams, jobs), \<open>src/controller\<close> (handlers),
  \<open>src/middleware\<close> and \<open>src/router\<close>.

  \<^bold>\<open>How it is modelled.\<close> Every definition translates a function, struct or constant of the code and keeps its name where the
  name is free; a text at the head of each theory says which files it models and what it takes as an argument. The state is explicit: a handler or
  job takes the state and what comes from outside, and gives its answer with the state after. An error is a value: \<open>Inl\<close> of a sum or
  \<open>None\<close>, so every early return is a branch. The conventions are these.
   \<^item> A Go string is its list of bytes. A Chinese text of the code that is compared or parsed is written as its UTF-8 bytes (\<open>utf8\<close>
     of its code points); one that is only shown to a person is replaced by an English text of the same place in the code.
   \<^item> An \<open>int\<close> of the code is an \<open>int\<close>; where an operation can leave 64 bits the wrap-around (\<open>wrap64\<close>) or the range
     check is written out, and counters and sums that would need 2^63 events are not wrapped. A \<open>float64\<close> is a real number,
     and NaN and the infinities occur where text is parsed into one.
   \<^item> A Go map is an association list with distinct keys, and its iteration order is the order of that list; where the code sorts first
     or the result does not depend on the order this is proved. A nil slice or map is told from an empty one where JSON shows the difference.
   \<^item> An instant is a number of nanoseconds, the clock is an argument, and a location is its offset as a function of the time.
   \<^item> A table is the list of its rows by identifier (\<open>Schema\<close>); a query is a filter, update or sort of it, written from the
     conditions in the code. What GORM does is written out from its documentation (a struct update skips zero fields, \<open>Create\<close>
     fills in column defaults) or is an argument of the operation. A database that answers an error is modelled where the code
     treats the error otherwise than by passing it on.
   \<^item> HTTP header names are in lower case, as \<open>http.Header\<close> compares them without case.

  \<^bold>\<open>Arguments.\<close> Code outside the repository is an argument of the definitions that use it: the network (a function of the request and of
  the state of the upstream, which it may change), \<open>url.Parse\<close> and mail addresses, bcrypt, SHA-256, AES-GCM, the zip archive, XML and
  date texts of the WebDAV server, external dump and restore commands, \<open>VACUUM INTO\<close> and what an
  open SQLite handle shows after its file was overwritten (\<open>be_vacuum\<close>, \<open>be_shown\<close>: the rows after a restore come from it), the zone database, random numbers and UUIDs,
  opening and migrating the database, and the answers of GitHub, WeChat, Turnstile and the mail server. A property that needs more of such
  an argument says so in a named hypothesis (\<open>PackageCorrect\<close>: reading an archive gives what was written, decryption undoes encryption;
  \<open>SyncCorrect\<close>: an upstream that pages a fixed list), and a witness instantiates it.

  \<^bold>\<open>The theories.\<close>
   \<^item> The language and its library: \<open>GoBase\<close> (strings, trimming, splitting, the collection \<open>gostr\<close> of rewrite rules),
     \<open>GoNum\<close> (\<open>strconv\<close>), \<open>GoColl\<close> (maps and \<open>sort.Slice\<close>, with the locale \<open>strict_weak\<close> of comparison
     functions), \<open>GoJson\<close> and \<open>GoStruct\<close> (\<open>encoding/json\<close>), \<open>GoTime\<close>, \<open>GoPath\<close>.
   \<^item> Data: \<open>Schema\<close>, one record per struct under \<open>src/model\<close>.
   \<^item> Names: \<open>ModelName\<close> (\<open>common/model_alias.go\<close>), \<open>AliasMapping\<close> (\<open>model/provider_alias_mapping.go\<close>),
     \<open>ModelCatalog\<close> (\<open>model/model_catalog.go\<close>).
   \<^item> Providers: \<open>ProviderRuntime\<close> (\<open>model/provider.go\<close>, \<open>provider_runtime.go\<close>), \<open>ProviderTokens\<close>
     (\<open>model/provider_token.go\<close>), \<open>ProviderAdmin\<close> and \<open>ProviderAdminCorrect\<close> (\<open>controller/provider.go\<close>).
   \<^item> Routing: \<open>RouteScore\<close> and \<open>RoutePlan\<close> (\<open>model/model_route.go\<close>: costs, scores, health, the weighted shuffle and the
     plan of attempts), \<open>RouteCache\<close> (\<open>model/model_route_cache.go\<close>: snapshot, indices, 15 and 60 second caches),
     \<open>RouteAdmin\<close> (changing and rebuilding routes, \<open>model/model_pricing.go\<close>, \<open>controller/route.go\<close>).
   \<^item> Relay: \<open>AggToken\<close> (\<open>model/aggregated_token.go\<close>, \<open>middleware/agg_token_auth.go\<close>), \<open>ResponseValidation\<close>,
     \<open>UsageExtract\<close> and \<open>Proxy\<close> (\<open>service/proxy.go\<close>, \<open>provider_http.go\<close>: one attempt), \<open>Relay\<close>
     (\<open>controller/relay.go\<close>: the loop over the plan), \<open>UsageLogs\<close> (\<open>model/usage_log.go\<close>, \<open>controller/log.go\<close>).
   \<^item> Upstreams: \<open>UpstreamClient\<close> (\<open>service/upstream_client.go\<close>), \<open>Sync\<close> and \<open>SyncCorrect\<close> (\<open>service/sync.go\<close>,
     \<open>cron.go\<close>), \<open>CheckinRuns\<close>, \<open>Checkin\<close> and \<open>CheckinCorrect\<close> (\<open>model/checkin_run.go\<close>, \<open>service/checkin.go\<close>).
   \<^item> Accounts: \<open>Users\<close> (\<open>model/user.go\<close>, \<open>middleware/auth.go\<close>, \<open>router/api-router.go\<close>), \<open>UserHandlers\<close>
     (\<open>controller/user.go\<close>, \<open>misc.go\<close>, \<open>github.go\<close>, \<open>wechat.go\<close>, \<open>aggregated_token.go\<close>), \<open>UserAccess\<close> and
     \<open>AccountSite\<close> (what they guarantee, as a machine of requests behind their guards), \<open>RateLimit\<close>
     (\<open>common/rate-limit.go\<close>, \<open>verification.go\<close>, \<open>middleware/rate-limit.go\<close>).
   \<^item> Options and alerts: \<open>OptionStore\<close> (\<open>model/option.go\<close>, \<open>relay_reliability.go\<close>, \<open>backup_options.go\<close>, \<open>controller/option.go\<close>),
     \<open>Notification\<close> and \<open>AlertEpisodes\<close> (\<open>service/notification.go\<close>, \<open>model/notification.go\<close>).
   \<^item> Backups: \<open>BackupConfig\<close>, \<open>BackupStore\<close>, \<open>BackupPackage\<close>, \<open>Backup\<close>, \<open>BackupRestore\<close>
     (\<open>service/backup_*.go\<close>, \<open>model/backup_run.go\<close>, \<open>backup_retry.go\<close>, \<open>controller/backup.go\<close>) and what they guarantee:
     \<open>BackupSchedule\<close>, \<open>PackageCorrect\<close>, \<open>BackupCorrect\<close>, \<open>RestoreCorrect\<close>.
   \<^item> The rest: \<open>UploadedFiles\<close> (\<open>model/file.go\<close>, \<open>controller/file.go\<close>), \<open>Startup\<close> (\<open>model/main.go\<close>,
     \<open>router/relay-router.go\<close>, the check in \<open>model/relay_reliability.go\<close>).
\<close>

text \<open>
  \<^bold>\<open>How the parts meet.\<close> \<open>AggTokenAuth\<close> admits a request and puts the token into its context. \<open>Relay\<close> resolves the model
  through \<open>ModelCatalog\<close>, checks the whitelist of the token, and asks \<open>RoutePlan\<close> for a plan, which reads the candidates from the indices
  of \<open>RouteCache\<close>. Each attempt of the plan is one \<open>ProxyToUpstream\<close>, which changes the health of the provider, invalidates the caches
  when it must, and writes a row of the usage log; the scores of later plans are computed from these rows. \<open>Sync\<close> rewrites the tokens and
  prices of a provider and lets \<open>RouteAdmin\<close> rebuild its routes. The handlers change the same tables. Interfaces with several clients or providers are
  locales: \<open>strict_weak\<close> (every comparison function handed to \<open>sort.Slice\<close>), \<open>attempt_contract\<close> (what the loop of the relay
  needs of one attempt, provided by \<open>relay_attempt\<close>), \<open>ttl_cache\<close> (what a cache with a lifetime promises, provided by the metric caches).

  \<^bold>\<open>What is shown.\<close> The lemmas of a component's theory give the behaviour of its operations and the invariants they keep; the numbered
  claims are the main results.
   \<^item> Routing and relay: the plan is exactly the usable candidates in descending priority, each at most once per route (C1, C2), the indices find
     what a scan of the routes would (C15), the weighted draw and the score are what they should be (C19, C27); the loop refines an abstract failover
     machine (C3), writes to the client only an answer that passed the guard (C4) and only once (C6), serves the request if an attempt can, unless a provider
     before it is one for which no request can be made, which ends the loop with status 500 (C5), and shows as one row
     of the usage log (C7, C14).
   \<^item> Access: who gets through the middlewares (C8, C9), that no administrator reaches up (C10, C11), a well-formed user table in
     every reachable state (C12), sessions that are earned (C13), resets that need the mailed code (C20), tokens that stay with their owner (C21),
     a limiter equal to the exact sliding window (C24).
   \<^item> Upstreams: the token list is read whole and in finitely many requests (C18), tables mirror the upstream (C16) and routes follow from
     them, each switched on again and with the default weight where it had none (C17), check-in runs account for every provider, once a day (C30 to C32), imports keep accounts (C39), groups offered are accepted (C40).
   \<^item> Settings: names of the catalog and alias mappings (C22, C23), for requests that name their option a way to log in remains (C25) and a restart gives
     the settings back (C26), alerts come once per episode (C28, C29).
   \<^item> Backups: an artifact can be read, and restored to a database file with the rows of its snapshot (C33, C34), every run is recorded and a failed upload
     queued (C35), one runs at a time whatever is interleaved, on whatever rows a start or a restore leaves (C36), retries are bounded (C37), cron
     expressions of five fields mean what they say, a list that begins with a step being an error (C38).
  Lemmas that state a defect of the code are kept beside the operation, such as \<open>validators_never_reject\<close>, \<open>fetch_pages_stuck\<close>,
  \<open>export_with_mapping_is_refused\<close>, \<open>change_during_run_is_forgotten\<close>, \<open>blank_key_locks_out\<close> (an option request with an
  empty key overwrites the first row) or \<open>killed_run_stays\<close> (a row that says running with no run at work).

  \<^bold>\<open>Termination and bounds.\<close> No definition runs on fuel. Loops over lists are structural; the scanners of strings, JSON texts and names
  recurse on what is left of the text with a \<open>termination\<close> proof where that is not structural. The one loop of the code that may not end,
  reading pages until the announced total is reached, is a \<open>partial_function (option)\<close>; C18 gives the condition under which it ends, and
  \<open>fetch_pages_stuck\<close> an upstream for which it does not. The retries of the relay are the attempts of a finite plan, those of a key in
  \<open>generateAggTokenKey\<close> and of an upload are counted as in the code.

  \<^bold>\<open>Concurrency.\<close> A function that holds a lock, and a request or job otherwise, is one step; an interleaving is a sequence of steps of a
  relation or of a list of events. A backup run is cut where it takes the lock, so that anything can happen between its beginning and its end.
  The scheduler of Go, data races and the tickers that start the jobs are not modelled. The usage log is written by a goroutine in the code and
  at once here. The operations of \<open>ProviderRuntime\<close> and \<open>ProviderTokens\<close> return the database alone; the call of
  \<open>invalidateModelRouteCaches\<close> that follows them in the code is made where the caches are part of the state.

  \<^bold>\<open>Not modelled.\<close>
   \<^item> The rounding of \<open>float64\<close>, overflow of floats, and the escaping of U+2028, U+2029 and invalid UTF-8 by \<open>encoding/json\<close>.
   \<^item> Errors of single database statements that are only passed on, transactions and locks of the database, the limits of SQL column types.
   \<^item> Log lines, the command line and the environment of \<open>src/main.go\<close> and \<open>common/init.go\<close>, Redis (its connection and the limiter
     on it), sending mail, CORS, cache headers and the static files of the web client: input and output with no logic of the gateway.
   \<^item> Closing the database, printing variables (\<open>GetStatus\<close>), and helpers of \<open>common/utils.go\<close> that nothing calls.
   \<^item> Test helpers (\<open>controller/model_catalog_test_helper.go\<close>) and the web client under \<open>src/web\<close>.
\<close>

subsection \<open>Across components: the relay and the usage log\<close>





end
